(* ===== verification/Prelude.thy ===== *)
theory Prelude
  imports Main "HOL-Library.Char_ord" "HOL-Library.List_Lexorder"
    "HOL-Library.Product_Lexorder" "HOL-Library.AList"
begin

text \<open>
  Shared vocabulary of the development: the exceptions of \<^verbatim>\<open>errors.py\<close> as values, the
  two shapes of a Python operation (a pure function that may raise, and a method that
  mutates its object and may raise), weakest preconditions for the second shape, the
  library functions the program calls as a record of parameters, and the lemmas on
  lists, options and decimal text that the components share.
\<close>

section \<open>Errors and results\<close>

text \<open>
  One constructor per class of \<^verbatim>\<open>errors.py\<close>, carrying the message it is raised with, and
  the exceptions of the language and of the validation layer that the modelled code can
  raise (\<open>ValueError\<close>, \<open>KeyError\<close>, \<open>ValidationError\<close>, \<open>IndexError\<close>, \<open>StopIteration\<close>, \<open>TimeoutError\<close>,
  \<open>ConnectionError\<close>).
  \<open>ProviderInvocationError\<close> of \<^verbatim>\<open>model_gateway.py\<close> carries a code, whether the call may be
  retried, and whether the provider billed it.
\<close>

datatype billing_disposition = Billing_NOT_BILLED | Billing_BILLED | Billing_AMBIGUOUS

datatype model_error_code =
    Code_AUTHENTICATION | Code_BAD_REQUEST | Code_CANCELLED | Code_CAPABILITY | Code_CIRCUIT_OPEN
  | Code_CONTENT_FILTER | Code_MALFORMED_RESPONSE | Code_POLICY_DENIED | Code_PRICING_UNKNOWN
  | Code_RATE_LIMITED | Code_TIMEOUT | Code_TRANSIENT | Code_UNAVAILABLE | Code_USAGE_EXCEEDED

datatype error =
    PolicyDenied string
  | AuthenticationFailed string
  | IdentityUnavailable string
  | BudgetExhausted string
  | EvidenceIsolationViolation string
  | EvidenceUnavailable string
  | ConnectorDisabled string
  | ConnectorRejected string
  | ConnectorRateLimited string
  | ReconciliationRequired string
  | ModelProviderError string
  | OrchestrationFailure string
  | ApprovalBoundaryFailure string
  | EffectsDisabled string
  | ApprovalDenied string
  | ApprovalExpired string
  | ApprovalRevoked string
  | EffectConflict string
  | EffectAmbiguous string
  | VerificationFailed string
  | IdempotencyConflict string
  | InvestigationInProgress string
  | ConcurrencyConflict string
  | RepositoryUnavailable string
  | AuditFailure string
  | MigrationFailure string
  | IntegrityFailure string
  | MessageClaimConflict string
  | PayloadRejected string
  | SandboxRejected string
  | SandboxUnavailable string
  | SandboxAmbiguous string
  | ArtifactQuarantined string
  | AmbiguousTransportError string
  | TimeoutError string
  | ConnectionError string
  | ValueError string
  | KeyError string
  | ValidationError string
  | IndexError string
  | StopIteration
  | ProviderInvocationError model_error_code bool billing_disposition

type_synonym 'a result = "error + 'a"

named_theorems op_simps \<open>equations of the state-and-exception operations\<close>
named_theorems wp_simps \<open>weakest preconditions of the operations\<close>

fun bindE :: "'a result \<Rightarrow> ('a \<Rightarrow> 'b result) \<Rightarrow> 'b result" where
  "bindE (Inl e) f = Inl e"
| "bindE (Inr x) f = f x"

definition guardE :: "bool \<Rightarrow> error \<Rightarrow> unit result" where
  "guardE ok e = (if ok then Inr () else Inl e)"

lemma bindE_Inr_iff [simp]: "bindE m f = Inr y \<longleftrightarrow> (\<exists>x. m = Inr x \<and> f x = Inr y)"
  by (cases m) auto

lemma bindE_Inl_iff: "bindE m f = Inl e \<longleftrightarrow> m = Inl e \<or> (\<exists>x. m = Inr x \<and> f x = Inl e)"
  by (cases m) auto

lemma guardE_Inr_iff [simp]: "guardE ok e = Inr u \<longleftrightarrow> ok"
  by (simp add: guardE_def)

lemma guardE_Inl_iff [simp]: "guardE ok e = Inl e' \<longleftrightarrow> \<not> ok \<and> e' = e"
  by (auto simp: guardE_def)

lemma guardE_True [simp]: "guardE True e = Inr ()"
  by (simp add: guardE_def)

lemma guardE_False [simp]: "guardE False e = Inl e"
  by (simp add: guardE_def)

text \<open>A fallible left fold, the shape of every projection replay of the program.\<close>

fun foldE :: "('e \<Rightarrow> 's \<Rightarrow> 's result) \<Rightarrow> 'e list \<Rightarrow> 's \<Rightarrow> 's result" where
  "foldE f [] s = Inr s"
| "foldE f (x # xs) s = bindE (f x s) (foldE f xs)"

lemma foldE_append [simp]: "foldE f (xs @ ys) s = bindE (foldE f xs s) (foldE f ys)"
proof (induction xs arbitrary: s)
  case Nil
  show ?case by simp
next
  case (Cons x xs)
  then show ?case by (cases "f x s") simp_all
qed

section \<open>Operations on a mutable object\<close>

text \<open>
  A method that mutates its object takes the state and returns the outcome together with
  the new state. The state is returned for an exception too: what the method wrote before
  it raised stays written. Every method of the in-memory stores holds the object's lock
  for its whole body, so one application of an operation is one atomic step.
\<close>

type_synonym ('s, 'a) op = "'s \<Rightarrow> 'a result \<times> 's"

definition returnS :: "'a \<Rightarrow> ('s, 'a) op" where
  "returnS x s = (Inr x, s)"

definition raiseS :: "error \<Rightarrow> ('s, 'a) op" where
  "raiseS e s = (Inl e, s)"

definition bindS :: "('s, 'a) op \<Rightarrow> ('a \<Rightarrow> ('s, 'b) op) \<Rightarrow> ('s, 'b) op" where
  "bindS m f s = (case m s of (Inl e, s') \<Rightarrow> (Inl e, s') | (Inr x, s') \<Rightarrow> f x s')"

definition getS :: "('s \<Rightarrow> 'a) \<Rightarrow> ('s, 'a) op" where
  "getS f s = (Inr (f s), s)"

definition modifyS :: "('s \<Rightarrow> 's) \<Rightarrow> ('s, unit) op" where
  "modifyS f s = (Inr (), f s)"

definition liftS :: "'a result \<Rightarrow> ('s, 'a) op" where
  "liftS r s = (r, s)"

definition requireS :: "bool \<Rightarrow> error \<Rightarrow> ('s, unit) op" where
  "requireS ok e s = (if ok then (Inr (), s) else (Inl e, s))"

text \<open>An operation of a part of the state, run on the whole.\<close>

definition zoomS :: "('s \<Rightarrow> 't) \<Rightarrow> ('t \<Rightarrow> 's \<Rightarrow> 's) \<Rightarrow> ('t, 'a) op \<Rightarrow> ('s, 'a) op" where
  "zoomS sel put m s = (case m (sel s) of (r, t) \<Rightarrow> (r, put t s))"

definition wp :: "('s, 'a) op \<Rightarrow> ('a result \<Rightarrow> 's \<Rightarrow> bool) \<Rightarrow> 's \<Rightarrow> bool" where
  "wp m Q s = (case m s of (r, s') \<Rightarrow> Q r s')"

lemma wp_returnS [wp_simps]: "wp (returnS x) Q s = Q (Inr x) s"
  by (simp add: wp_def returnS_def)

lemma wp_raiseS [wp_simps]: "wp (raiseS e) Q s = Q (Inl e) s"
  by (simp add: wp_def raiseS_def)

lemma wp_bindS [wp_simps]:
  "wp (bindS m f) Q s =
     wp m (\<lambda>r s'. case r of Inl e \<Rightarrow> Q (Inl e) s' | Inr x \<Rightarrow> wp (f x) Q s') s"
  by (auto simp: wp_def bindS_def split: prod.split sum.split)

lemma wp_getS [wp_simps]: "wp (getS f) Q s = Q (Inr (f s)) s"
  by (simp add: wp_def getS_def)

lemma wp_modifyS [wp_simps]: "wp (modifyS f) Q s = Q (Inr ()) (f s)"
  by (simp add: wp_def modifyS_def)

lemma wp_liftS [wp_simps]: "wp (liftS r) Q s = Q r s"
  by (simp add: wp_def liftS_def)

lemma wp_requireS [wp_simps]:
  "wp (requireS ok e) Q s = ((ok \<longrightarrow> Q (Inr ()) s) \<and> (\<not> ok \<longrightarrow> Q (Inl e) s))"
  by (simp add: wp_def requireS_def)

lemma wp_zoomS [wp_simps]:
  "wp (zoomS sel put m) Q s = wp m (\<lambda>r t. Q r (put t s)) (sel s)"
  by (simp add: wp_def zoomS_def split: prod.split)

lemma wp_mono: "wp m P s \<Longrightarrow> (\<And>r s'. P r s' \<Longrightarrow> Q r s') \<Longrightarrow> wp m Q s"
  by (simp add: wp_def split: prod.splits)

lemma wpD: "wp m Q s \<Longrightarrow> m s = (r, s') \<Longrightarrow> Q r s'"
  by (simp add: wp_def)

lemma wpI: "(\<And>r s'. m s = (r, s') \<Longrightarrow> Q r s') \<Longrightarrow> wp m Q s"
  by (simp add: wp_def split: prod.split)

lemmas op_defs = returnS_def raiseS_def bindS_def getS_def modifyS_def liftS_def
  requireS_def zoomS_def

section \<open>The library functions the program calls\<close>

text \<open>
  A Python float is a dyadic rational \<open>m * 2 ^ e\<close>, kept as its mantissa and
  exponent. The hash functions and the shortest decimal text of a float are parameters
  of the model: \<open>sha256_hexdigest s\<close> stands for \<^verbatim>\<open>sha256(s.encode()).hexdigest()\<close>,
  \<open>hmac_sha256 k b\<close> for \<^verbatim>\<open>hmac.new(k, b, sha256).digest()\<close> and \<open>float_repr f\<close> for
  \<^verbatim>\<open>repr(f)\<close>. What the proofs need of them are named predicates.
\<close>

datatype pyfloat = PyFloat (mantissa: int) (exponent: int)

record runtime =
  sha256_hexdigest :: "string \<Rightarrow> string"
  hmac_sha256 :: "string \<Rightarrow> string \<Rightarrow> string"
  float_repr :: "pyfloat \<Rightarrow> string"

definition hex_chars :: string where
  "hex_chars = ''0123456789abcdef''"

definition hex64 :: "string \<Rightarrow> bool" where
  "hex64 s \<longleftrightarrow> length s = 64 \<and> list_all (\<lambda>c. c \<in> set hex_chars) s"

definition sha256_shape :: "runtime \<Rightarrow> bool" where
  "sha256_shape rt \<longleftrightarrow> (\<forall>s. hex64 (sha256_hexdigest rt s))"

text \<open>A pair of distinct inputs with one digest: what a forger would have to exhibit.\<close>

definition sha256_collision :: "runtime \<Rightarrow> string \<Rightarrow> string \<Rightarrow> bool" where
  "sha256_collision rt x y \<longleftrightarrow> x \<noteq> y \<and> sha256_hexdigest rt x = sha256_hexdigest rt y"

section \<open>Decimal text\<close>

definition digit_char :: "nat \<Rightarrow> char" where
  "digit_char n = char_of (48 + n)"

definition digit_val :: "char \<Rightarrow> nat" where
  "digit_val c = of_char c - 48"

fun nat_str :: "nat \<Rightarrow> string" where
  "nat_str n = (if n < 10 then [digit_char n] else nat_str (n div 10) @ [digit_char (n mod 10)])"

declare nat_str.simps [simp del]

definition int_str :: "int \<Rightarrow> string" where
  "int_str i = (if i < 0 then CHR ''-'' # nat_str (nat (- i)) else nat_str (nat i))"

definition digits_val :: "string \<Rightarrow> nat" where
  "digits_val s = foldl (\<lambda>a c. 10 * a + digit_val c) 0 s"

definition is_digit :: "char \<Rightarrow> bool" where
  "is_digit c \<longleftrightarrow> 48 \<le> (of_char c :: nat) \<and> (of_char c :: nat) \<le> 57"

lemma of_char_digit_char: "n < 10 \<Longrightarrow> (of_char (digit_char n) :: nat) = 48 + n"
  by (simp add: digit_char_def of_char_mod_256)

lemma digit_val_digit_char [simp]: "n < 10 \<Longrightarrow> digit_val (digit_char n) = n"
  by (simp add: digit_val_def of_char_digit_char)

lemma is_digit_digit_char [simp]: "n < 10 \<Longrightarrow> is_digit (digit_char n)"
  by (simp add: is_digit_def of_char_digit_char)

lemma digits_val_snoc: "digits_val (s @ [c]) = 10 * digits_val s + digit_val c"
  by (simp add: digits_val_def)

lemma digits_val_nat_str [simp]: "digits_val (nat_str n) = n"
proof (induction n rule: nat_str.induct)
  case (1 n)
  show ?case
  proof (cases "n < 10")
    case True
    then show ?thesis
      by (simp add: nat_str.simps [of n] digits_val_def)
  next
    case False
    with "1.IH" have "digits_val (nat_str (n div 10)) = n div 10" by simp
    with False show ?thesis
      by (simp add: nat_str.simps [of n] digits_val_snoc)
  qed
qed

lemma nat_str_inj [simp]: "nat_str m = nat_str n \<longleftrightarrow> m = n"
  by (metis digits_val_nat_str)

lemma nat_str_digits: "c \<in> set (nat_str n) \<Longrightarrow> is_digit c"
proof (induction n rule: nat_str.induct)
  case (1 n)
  then show ?case by (cases "n < 10") (auto simp: nat_str.simps [of n])
qed

lemma nat_str_nonempty [simp]: "nat_str n \<noteq> []"
  by (subst nat_str.simps) simp

lemma length_nat_str: "n < 10 ^ d \<Longrightarrow> 1 \<le> d \<Longrightarrow> length (nat_str n) \<le> d"
proof (induction n arbitrary: d rule: nat_str.induct)
  case (1 n)
  show ?case
  proof (cases "n < 10")
    case False
    with 1 obtain d' where d: "d = Suc d'" "1 \<le> d'" by (cases d; cases "d - 1") auto
    with 1(2) have "n div 10 < 10 ^ d'" by (simp add: less_mult_imp_div_less mult.commute)
    from 1(1) [OF False this d(2)] d False show ?thesis by (simp add: nat_str.simps [of n])
  qed (use 1(3) in \<open>simp add: nat_str.simps [of n]\<close>)
qed

lemma hd_nat_str_digit: "is_digit (hd (nat_str n))"
  by (rule nat_str_digits [of _ n]) simp

lemma int_str_inj [simp]: "int_str i = int_str j \<longleftrightarrow> i = j"
proof -
  have minus: "\<not> is_digit (CHR ''-'')" by (simp add: is_digit_def)
  have "CHR ''-'' # a \<noteq> nat_str n" for a n
    using hd_nat_str_digit [of n] minus by (metis list.sel(1))
  then show ?thesis
    by (auto simp: int_str_def) metis
qed

lemma int_str_nonempty [simp]: "int_str i \<noteq> []"
  by (simp add: int_str_def)

lemma int_str_chars: "c \<in> set (int_str i) \<Longrightarrow> is_digit c \<or> c = CHR ''-''"
  by (auto simp: int_str_def dest: nat_str_digits split: if_splits)

section \<open>Lists, options and maps\<close>

lemma map_upd_same [simp]: "m k = Some v \<Longrightarrow> m(k \<mapsto> v) = m"
  by (auto simp: fun_eq_iff)

end
