(* ===== verification/Json.thy ===== *)
theory Json
  imports Prelude
begin

text \<open>
  JSON values and the canonical text \<^verbatim>\<open>json.dumps(v, ensure_ascii=True,
  separators=(",", ":"), sort_keys=True)\<close> of \<^verbatim>\<open>durability._canonical_json\<close>, which every
  digest of the program is taken of. The main result is that the text determines the
  value up to the order of object keys: two documents with one canonical text are the
  same document.

  A Python string is a \<open>string\<close>, so its code points range over 0 to 255.
\<close>

section \<open>Values\<close>

datatype json =
    JNull
  | JBool bool
  | JInt int
  | JFloat pyfloat
  | JStr string
  | JList "json list"
  | JObj "(string \<times> json) list"

text \<open>A dictionary has each key once; \<open>json_wf\<close> says so for every object inside.\<close>

fun json_wf :: "json \<Rightarrow> bool" where
  "json_wf (JList xs) = (\<forall>x \<in> set xs. json_wf x)"
| "json_wf (JObj kvs) = (distinct (map fst kvs) \<and> (\<forall>kv \<in> set kvs. json_wf (snd kv)))"
| "json_wf _ = True"

section \<open>Rendering\<close>

definition hex_digit :: "nat \<Rightarrow> char" where
  "hex_digit n = (if n < 10 then char_of (48 + n) else char_of (87 + n))"

definition esc_char :: "char \<Rightarrow> string" where
  "esc_char c =
     (if c = CHR 0x22 then [CHR 0x5C, CHR 0x22]
      else if c = CHR 0x5C then [CHR 0x5C, CHR 0x5C]
      else if c = CHR 0x0A then [CHR 0x5C, CHR ''n'']
      else if c = CHR 0x0D then [CHR 0x5C, CHR ''r'']
      else if c = CHR 0x09 then [CHR 0x5C, CHR ''t'']
      else if c = CHR 0x0C then [CHR 0x5C, CHR ''f'']
      else if c = CHR 0x08 then [CHR 0x5C, CHR ''b'']
      else if 32 \<le> (of_char c :: nat) \<and> (of_char c :: nat) \<le> 126 then [c]
      else [CHR 0x5C, CHR ''u'', CHR ''0'', CHR ''0'',
        hex_digit (of_char c div 16), hex_digit (of_char c mod 16)])"

definition quote_str :: "string \<Rightarrow> string" where
  "quote_str s = CHR 0x22 # concat (map esc_char s) @ [CHR 0x22]"

fun join :: "string \<Rightarrow> string list \<Rightarrow> string" where
  "join sep [] = []"
| "join sep [x] = x"
| "join sep (x # xs) = x @ sep @ join sep xs"

fun render :: "runtime \<Rightarrow> json \<Rightarrow> string" where
  "render rt JNull = ''null''"
| "render rt (JBool b) = (if b then ''true'' else ''false'')"
| "render rt (JInt i) = int_str i"
| "render rt (JFloat f) = float_repr rt f"
| "render rt (JStr s) = quote_str s"
| "render rt (JList xs) = ''['' @ join '','' (map (render rt) xs) @ '']''"
| "render rt (JObj kvs) =
     ''{'' @ join '','' (map (\<lambda>kv. quote_str (fst kv) @ '':'' @ render rt (snd kv)) kvs) @ ''}''"

text \<open>\<open>sort_keys=True\<close> sorts the items of every object by key.\<close>

fun norm_json :: "json \<Rightarrow> json" where
  "norm_json (JList xs) = JList (map norm_json xs)"
| "norm_json (JObj kvs) = JObj (sort_key fst (map (\<lambda>kv. (fst kv, norm_json (snd kv))) kvs))"
| "norm_json v = v"

definition canonical_json :: "runtime \<Rightarrow> json \<Rightarrow> string" where
  "canonical_json rt v = render rt (norm_json v)"

text \<open>What the proofs need of \<^verbatim>\<open>repr\<close> on floats: it is one-to-one, and its text is made of
  the characters of a number and holds a point or an exponent, so it is never the text
  of an integer.\<close>

definition is_num_char :: "char \<Rightarrow> bool" where
  "is_num_char c \<longleftrightarrow> is_digit c \<or> c \<in> set ''.e+-''"

definition float_repr_ok :: "runtime \<Rightarrow> bool" where
  "float_repr_ok rt \<longleftrightarrow> inj (float_repr rt) \<and>
     (\<forall>f. (\<forall>c \<in> set (float_repr rt f). is_num_char c) \<and>
          (CHR ''.'' \<in> set (float_repr rt f) \<or> CHR ''e'' \<in> set (float_repr rt f)))"

section \<open>Reading the text back determines the value\<close>

text \<open>What may follow a rendered value inside a document.\<close>

definition delim :: "string \<Rightarrow> bool" where
  "delim r \<longleftrightarrow> r = [] \<or> hd r = CHR '','' \<or> hd r = CHR '']'' \<or> hd r = CHR ''}''"

lemma delim_simps [simp]:
  "delim []" "delim (CHR '','' # r)" "delim (CHR '']'' # r)" "delim (CHR ''}'' # r)"
  by (simp_all add: delim_def)

lemma of_char_hex_digit:
  "n < 16 \<Longrightarrow> (of_char (hex_digit n) :: nat) = (if n < 10 then 48 + n else 87 + n)"
  by (simp add: hex_digit_def of_char_mod_256)

lemma hex_digit_inj:
  assumes "a < 16" "b < 16" "hex_digit a = hex_digit b"
  shows "a = b"
proof -
  have "(if a < 10 then 48 + a else 87 + a) = (if b < 10 then 48 + b else 87 + b)"
    using of_char_hex_digit [OF assms(1)] of_char_hex_digit [OF assms(2)] assms(3) by metis
  then show ?thesis by (cases "a < 10"; cases "b < 10") simp_all
qed

lemma of_char_nat_less: "(of_char c :: nat) < 256"
  by simp

lemma of_char_nat_inj: "(of_char a :: nat) = of_char b \<Longrightarrow> a = b"
  by simp

lemma hex_pair_inj:
  assumes "hex_digit ((of_char a :: nat) div 16) = hex_digit ((of_char b :: nat) div 16)"
    and "hex_digit ((of_char a :: nat) mod 16) = hex_digit ((of_char b :: nat) mod 16)"
  shows "a = b"
proof -
  have bound: "(of_char c :: nat) div 16 < 16" for c :: char
    using of_char_nat_less [of c] by (simp add: less_mult_imp_div_less)
  from assms(1) bound have "(of_char a :: nat) div 16 = of_char b div 16"
    by (blast dest: hex_digit_inj)
  moreover from assms(2) have "(of_char a :: nat) mod 16 = of_char b mod 16"
    by (rule hex_digit_inj [rotated 2]) simp_all
  ultimately have "(of_char a :: nat) = of_char b"
    by (metis div_mult_mod_eq)
  then show ?thesis by (rule of_char_nat_inj)
qed

lemma esc_char_cases:
  obtains (plain) "esc_char c = [c]" "c \<noteq> CHR 0x5C" "c \<noteq> CHR 0x22"
    | (short) x where "esc_char c = [CHR 0x5C, x]" "x \<noteq> CHR ''u''"
        "(c, x) \<in> {(CHR 0x22, CHR 0x22), (CHR 0x5C, CHR 0x5C), (CHR 0x0A, CHR ''n''),
          (CHR 0x0D, CHR ''r''), (CHR 0x09, CHR ''t''), (CHR 0x0C, CHR ''f''), (CHR 0x08, CHR ''b'')}"
    | (long) "esc_char c = [CHR 0x5C, CHR ''u'', CHR ''0'', CHR ''0'',
        hex_digit (of_char c div 16), hex_digit (of_char c mod 16)]"
proof -
  let ?S = "{CHR 0x22, CHR 0x5C, CHR 0x0A, CHR 0x0D, CHR 0x09, CHR 0x0C, CHR 0x08}"
  consider "c \<in> ?S"
    | "c \<notin> ?S" "32 \<le> (of_char c :: nat) \<and> (of_char c :: nat) \<le> 126"
    | "c \<notin> ?S" "\<not> (32 \<le> (of_char c :: nat) \<and> (of_char c :: nat) \<le> 126)"
    by blast
  then show thesis
  proof cases
    case 1
    then show thesis
      by (elim insertE emptyE; intro short) (simp_all add: esc_char_def)
  next
    case 2
    then show thesis by (intro plain) (simp_all add: esc_char_def)
  next
    case 3
    then show thesis by (intro long) (simp_all add: esc_char_def)
  qed
qed

lemma esc_char_unambiguous:
  assumes eq: "esc_char a @ r = esc_char b @ r'"
  shows "a = b \<and> r = r'"
proof (cases a rule: esc_char_cases)
  case plain
  with eq show ?thesis by (cases b rule: esc_char_cases) simp_all
next
  case (short x)
  note a = this
  show ?thesis
  proof (cases b rule: esc_char_cases)
    case (short y)
    with a eq have "x = y" "r = r'" by simp_all
    with a(3) short(3) show ?thesis by (elim insertE emptyE) simp_all
  qed (use a eq in simp_all)
next
  case long
  note a = this
  show ?thesis
  proof (cases b rule: esc_char_cases)
    case long
    with a eq show ?thesis by (auto intro: hex_pair_inj)
  qed (use a eq in simp_all)
qed

lemma esc_char_not_quote: "esc_char a @ r \<noteq> CHR 0x22 # r'"
  by (cases a rule: esc_char_cases) auto

lemma esc_string_unambiguous:
  "concat (map esc_char s) @ CHR 0x22 # r = concat (map esc_char t) @ CHR 0x22 # r' \<Longrightarrow>
   s = t \<and> r = r'"
proof (induction s arbitrary: t)
  case Nil
  then show ?case
    by (cases t) (auto simp: append_assoc dest: esc_char_not_quote [THEN notE, OF sym])
next
  case (Cons a s)
  show ?case
  proof (cases t)
    case Nil
    with Cons.prems show ?thesis by (simp add: esc_char_not_quote)
  next
    case (Cons b t')
    with Cons.prems have "a = b" and
      "concat (map esc_char s) @ CHR 0x22 # r = concat (map esc_char t') @ CHR 0x22 # r'"
      by (auto dest: esc_char_unambiguous)
    with Cons.IH Cons show ?thesis by blast
  qed
qed

lemma quote_str_unambiguous: "quote_str s @ r = quote_str t @ r' \<Longrightarrow> s = t \<and> r = r'"
  by (rule esc_string_unambiguous) (simp add: quote_str_def)

text \<open>A number's text ends where the delimiter starts.\<close>

lemma is_num_char_not_delim: "delim r \<Longrightarrow> r = [] \<or> \<not> is_num_char (hd r)"
  by (auto simp: delim_def is_num_char_def is_digit_def)

lemma num_text_unambiguous:
  assumes "\<forall>c \<in> set a. is_num_char c" "\<forall>c \<in> set b. is_num_char c" "delim r" "delim r'"
    and eq: "a @ r = b @ r'"
  shows "a = b \<and> r = r'"
proof -
  have "takeWhile is_num_char (x @ q) = x" if "\<forall>c \<in> set x. is_num_char c" "delim q" for x q
    using that is_num_char_not_delim [OF that(2)] by (cases q) (simp_all add: takeWhile_append2)
  with assms have "a = b" by metis
  with eq show ?thesis by simp
qed

lemma int_str_num_chars: "c \<in> set (int_str i) \<Longrightarrow> is_num_char c"
  using int_str_chars [of c i] by (auto simp: is_num_char_def)

lemma int_str_not_float: "float_repr_ok rt \<Longrightarrow> int_str i \<noteq> float_repr rt f"
proof
  assume ok: "float_repr_ok rt" and eq: "int_str i = float_repr rt f"
  then have "CHR ''.'' \<in> set (int_str i) \<or> CHR ''e'' \<in> set (int_str i)"
    by (simp add: float_repr_ok_def)
  then show False by (auto dest!: int_str_chars simp: is_digit_def)
qed

lemma hd_in_set_append: "xs \<noteq> [] \<Longrightarrow> hd (xs @ ys) \<in> set xs"
  by simp

text \<open>\<open>unamb f x\<close>: the text of \<open>x\<close> before a delimiter is the text of no other value.\<close>

definition unamb :: "('a \<Rightarrow> string) \<Rightarrow> 'a \<Rightarrow> bool" where
  "unamb f x \<longleftrightarrow> (\<forall>y r r'. delim r \<longrightarrow> delim r' \<longrightarrow> f x @ r = f y @ r' \<longrightarrow> x = y \<and> r = r')"

lemma unambD: "unamb f x \<Longrightarrow> delim r \<Longrightarrow> delim r' \<Longrightarrow> f x @ r = f y @ r' \<Longrightarrow> x = y \<and> r = r'"
  by (simp add: unamb_def)

lemma join_Cons: "join sep (x # xs) = x @ concat (map (\<lambda>y. sep @ y) xs)"
  by (induction sep xs arbitrary: x rule: join.induct) simp_all

lemma separated_unambiguous:
  assumes "\<forall>x \<in> set xs. unamb f x" "cl = CHR '']'' \<or> cl = CHR ''}''"
    and "concat (map (\<lambda>x. CHR '','' # f x) xs) @ cl # r = concat (map (\<lambda>x. CHR '','' # f x) ys) @ cl # r'"
  shows "xs = ys \<and> r = r'"
  using assms(1,3)
proof (induction xs arbitrary: ys)
  case Nil
  then show ?case using assms(2) by (cases ys) auto
next
  case (Cons x xs)
  show ?case
  proof (cases ys)
    case Nil
    with Cons.prems assms(2) show ?thesis by auto
  next
    case (Cons y ys')
    have d: "delim (concat (map (\<lambda>x. CHR '','' # f x) zs) @ cl # q)" for zs q
      using assms(2) by (cases zs) auto
    from Cons Cons.prems(2) have
      "f x @ concat (map (\<lambda>x. CHR '','' # f x) xs) @ cl # r =
       f y @ concat (map (\<lambda>x. CHR '','' # f x) ys') @ cl # r'"
      by simp
    with Cons.prems(1) d have "x = y" and
      "concat (map (\<lambda>x. CHR '','' # f x) xs) @ cl # r =
       concat (map (\<lambda>x. CHR '','' # f x) ys') @ cl # r'"
      by (auto dest!: unambD)
    with Cons.IH [of ys'] Cons.prems(1) Cons show ?thesis by simp
  qed
qed

lemma join_unambiguous:
  assumes un: "\<forall>x \<in> set xs. unamb f x" and cl: "cl = CHR '']'' \<or> cl = CHR ''}''"
    and hd: "\<And>x. f x \<noteq> [] \<and> hd (f x) \<noteq> cl"
    and eq: "join '','' (map f xs) @ cl # r = join '','' (map f ys) @ cl # r'"
  shows "xs = ys \<and> r = r'"
proof -
  have front: "f x @ q \<noteq> cl # q'" for x q q'
    using hd [of x] by (cases "f x") auto
  show ?thesis
  proof (cases xs)
    case Nil
    with eq front show ?thesis
      by (cases ys) (simp_all add: join_Cons, metis)
  next
    case (Cons x xs')
    show ?thesis
    proof (cases ys)
      case Nil
      with eq Cons front show ?thesis by (simp add: join_Cons)
    next
      case (Cons y ys')
      have "CHR '','' # join '','' (map f zs) = concat (map (\<lambda>x. CHR '','' # f x) zs)" if "zs \<noteq> []" for zs
        using that by (cases zs) (simp_all add: join_Cons o_def)
      with eq \<open>xs = x # xs'\<close> Cons have
        "concat (map (\<lambda>x. CHR '','' # f x) xs) @ cl # r = concat (map (\<lambda>x. CHR '','' # f x) ys) @ cl # r'"
        by (metis append_Cons list.distinct(1))
      with separated_unambiguous [OF un cl] show ?thesis by blast
    qed
  qed
qed

section \<open>The canonical text determines the document\<close>

lemma float_text:
  assumes "float_repr_ok rt"
  shows "float_repr rt f \<noteq> []" "\<forall>c \<in> set (float_repr rt f). is_num_char c"
proof -
  from assms show chars: "\<forall>c \<in> set (float_repr rt f). is_num_char c"
    by (simp add: float_repr_ok_def)
  from assms have "CHR ''.'' \<in> set (float_repr rt f) \<or> CHR ''e'' \<in> set (float_repr rt f)"
    by (simp add: float_repr_ok_def)
  then show "float_repr rt f \<noteq> []" by auto
qed

text \<open>The first character of a text tells what kind of value it is.\<close>

fun json_kind :: "json \<Rightarrow> nat" where
  "json_kind JNull = 0"
| "json_kind (JBool b) = (if b then 1 else 2)"
| "json_kind (JInt i) = 3"
| "json_kind (JFloat f) = 3"
| "json_kind (JStr s) = 4"
| "json_kind (JList xs) = 5"
| "json_kind (JObj kvs) = 6"

definition char_kind :: "char \<Rightarrow> nat" where
  "char_kind c = (if c = CHR ''n'' then 0 else if c = CHR ''t'' then 1 else if c = CHR ''f'' then 2
     else if c = CHR 0x22 then 4 else if c = CHR ''['' then 5 else if c = CHR ''{'' then 6 else 3)"

lemma char_kind_num: "is_num_char c \<Longrightarrow> char_kind c = 3"
  by (auto simp: is_num_char_def char_kind_def is_digit_def)

lemma render_kind:
  assumes ok: "float_repr_ok rt"
  shows "render rt v \<noteq> [] \<and> char_kind (hd (render rt v)) = json_kind v"
proof (cases v)
  case (JInt i)
  have "is_num_char (hd (int_str i))"
    by (rule int_str_num_chars [of _ i]) simp
  with JInt show ?thesis by (simp add: char_kind_num)
next
  case (JFloat f)
  have "is_num_char (hd (float_repr rt f))"
    using float_text [OF ok, of f] by (simp add: hd_in_set)
  with JFloat show ?thesis by (simp add: char_kind_num float_text [OF ok])
qed (simp_all add: char_kind_def quote_str_def)

lemma render_hd_not_closing:
  assumes ok: "float_repr_ok rt"
  shows "render rt v \<noteq> [] \<and> hd (render rt v) \<noteq> CHR '']''"
proof (cases v)
  case (JInt i)
  have "is_num_char (hd (int_str i))"
    by (rule int_str_num_chars [of _ i]) simp
  with JInt show ?thesis by (auto simp: is_num_char_def is_digit_def)
next
  case (JFloat f)
  have "is_num_char (hd (float_repr rt f))"
    using float_text [OF ok, of f] by (simp add: hd_in_set)
  with JFloat float_text(1) [OF ok, of f] show ?thesis by (auto simp: is_num_char_def is_digit_def)
qed (simp_all add: quote_str_def)

lemma render_same_kind:
  assumes "float_repr_ok rt" "render rt u @ r = render rt v @ r'"
  shows "json_kind u = json_kind v"
  using assms render_kind [of rt u] render_kind [of rt v] by (metis hd_append2)

lemma render_num_unambiguous:
  assumes "float_repr_ok rt" "json_kind u = 3" "json_kind v = 3" "delim r" "delim r'"
    and "render rt u @ r = render rt v @ r'"
  shows "u = v \<and> r = r'"
proof -
  have chars: "\<forall>c \<in> set (render rt w). is_num_char c" if "json_kind w = 3" for w
    using that float_text(2) [OF assms(1)] int_str_num_chars
    by (cases w) (auto split: if_splits)
  from num_text_unambiguous [OF chars [OF assms(2)] chars [OF assms(3)] assms(4-6)]
  have eq: "render rt u = render rt v" and "r = r'" by auto
  have "u = v"
  proof (cases u)
    case (JInt i)
    with eq assms(3) int_str_not_float [OF assms(1)] show ?thesis
      by (cases v) (auto split: if_splits)
  next
    case (JFloat f)
    with eq assms(3) int_str_not_float [OF assms(1)] have "\<exists>g. v = JFloat g \<and> float_repr rt f = float_repr rt g"
      by (cases v) (auto split: if_splits dest: sym)
    with assms(1) JFloat show ?thesis by (auto simp: float_repr_ok_def inj_def)
  qed (use assms(2) in \<open>auto split: if_splits\<close>)
  with \<open>r = r'\<close> show ?thesis by simp
qed

lemma render_item_unamb:
  assumes "unamb (render rt) v"
  shows "unamb (\<lambda>kv. quote_str (fst kv) @ '':'' @ render rt (snd kv)) (k, v)"
  unfolding unamb_def
proof (intro allI impI)
  fix kv r r'
  assume d: "delim r" "delim r'" and "(quote_str (fst (k, v)) @ '':'' @ render rt (snd (k, v))) @ r =
    (quote_str (fst kv) @ '':'' @ render rt (snd kv)) @ r'"
  then have "quote_str k @ CHR '':'' # render rt v @ r = quote_str (fst kv) @ CHR '':'' # render rt (snd kv) @ r'"
    by simp
  from quote_str_unambiguous [OF this] have "k = fst kv" "render rt v @ r = render rt (snd kv) @ r'"
    by auto
  with unambD [OF assms d] show "(k, v) = kv \<and> r = r'" by (cases kv) auto
qed

lemma unamb_renderI:
  assumes ok: "float_repr_ok rt"
    and same: "\<And>y r r'. json_kind y = json_kind v \<Longrightarrow> delim r \<Longrightarrow> delim r' \<Longrightarrow>
      render rt v @ r = render rt y @ r' \<Longrightarrow> v = y \<and> r = r'"
  shows "unamb (render rt) v"
  unfolding unamb_def by (metis same render_same_kind [OF ok])

lemma render_unamb:
  assumes ok: "float_repr_ok rt"
  shows "unamb (render rt) v"
proof (induction v)
  case (JList xs)
  show ?case
  proof (rule unamb_renderI [OF ok])
    fix y r r'
    assume "json_kind y = json_kind (JList xs)" and eq: "render rt (JList xs) @ r = render rt y @ r'"
    then obtain ys where y: "y = JList ys" by (cases y) (auto split: if_splits)
    from eq y have "join '','' (map (render rt) xs) @ CHR '']'' # r = join '','' (map (render rt) ys) @ CHR '']'' # r'"
      by simp
    from join_unambiguous [OF _ _ render_hd_not_closing [OF ok] this] JList.IH y
    show "JList xs = y \<and> r = r'" by simp
  qed
next
  case (JObj kvs)
  let ?f = "\<lambda>kv. quote_str (fst kv) @ '':'' @ render rt (snd kv)"
  have un: "\<forall>kv \<in> set kvs. unamb ?f kv"
    using JObj.IH render_item_unamb [of rt] by (metis prod.collapse snds.intros)
  have front: "?f kv \<noteq> [] \<and> hd (?f kv) \<noteq> CHR ''}''" for kv
    by (simp add: quote_str_def)
  show ?case
  proof (rule unamb_renderI [OF ok])
    fix y r r'
    assume "json_kind y = json_kind (JObj kvs)" and eq: "render rt (JObj kvs) @ r = render rt y @ r'"
    then obtain ys where y: "y = JObj ys" by (cases y) (auto split: if_splits)
    from eq y have "join '','' (map ?f kvs) @ CHR ''}'' # r = join '','' (map ?f ys) @ CHR ''}'' # r'"
      by simp
    from join_unambiguous [OF un _ front this] y
    show "JObj kvs = y \<and> r = r'" by simp
  qed
next
  case (JStr s)
  show ?case
  proof (rule unamb_renderI [OF ok])
    fix y r r'
    assume "json_kind y = json_kind (JStr s)" and eq: "render rt (JStr s) @ r = render rt y @ r'"
    then show "JStr s = y \<and> r = r'"
      by (cases y) (auto split: if_splits dest: quote_str_unambiguous)
  qed
next
  case JNull
  show ?case
    by (rule unamb_renderI [OF ok]) (auto elim!: json_kind.elims split: if_splits)
next
  case (JBool b)
  show ?case
    by (rule unamb_renderI [OF ok]) (auto elim!: json_kind.elims split: if_splits)
next
  case (JInt i)
  show ?case
    by (rule unamb_renderI [OF ok]) (rule render_num_unambiguous [OF ok], simp_all)
next
  case (JFloat f)
  show ?case
    by (rule unamb_renderI [OF ok]) (rule render_num_unambiguous [OF ok], simp_all)
qed

lemma render_inj:
  assumes "float_repr_ok rt"
  shows "render rt u = render rt v \<longleftrightarrow> u = v"
  using unambD [OF render_unamb [OF assms], of "[]" "[]" u v] by auto

lemma canonical_json_eq_iff:
  "float_repr_ok rt \<Longrightarrow> canonical_json rt u = canonical_json rt v \<longleftrightarrow> norm_json u = norm_json v"
  by (simp add: canonical_json_def render_inj)

lemma map_of_norm_items:
  "map_of (map (\<lambda>kv. (fst kv, norm_json (snd kv))) kvs) k = map_option norm_json (map_of kvs k)"
  by (induction kvs) auto

lemma map_of_sort_key_fst:
  fixes kvs :: "('k::linorder \<times> 'v) list"
  assumes "distinct (map fst kvs)"
  shows "map_of (sort_key fst kvs) = map_of kvs"
proof (rule map_of_eqI)
  show "set (map fst (sort_key fst kvs)) = set (map fst kvs)" by simp
  show "\<forall>k \<in> set (map fst (sort_key fst kvs)). map_of (sort_key fst kvs) k = map_of kvs k"
  proof
    fix k
    have d: "distinct (map fst (sort_key fst kvs))"
      using assms by (metis distinct_map distinct_sort inj_on_cong set_sort sorted_sort_key)
    assume "k \<in> set (map fst (sort_key fst kvs))"
    then obtain v where "(k, v) \<in> set kvs" by auto
    then have "map_of kvs k = Some v" "map_of (sort_key fst kvs) k = Some v"
      using assms d by (auto simp: map_of_eq_Some_iff)
    then show "map_of (sort_key fst kvs) k = map_of kvs k" by simp
  qed
qed

text \<open>Two dictionaries with one normal form hold, under every key, values of one normal form.\<close>

lemma norm_json_obj_lookup:
  assumes "norm_json (JObj a) = norm_json (JObj b)" "distinct (map fst a)" "distinct (map fst b)"
  shows "map_option norm_json (map_of a k) = map_option norm_json (map_of b k)"
proof -
  let ?n = "map (\<lambda>kv. (fst kv, norm_json (snd kv)))"
  have d: "distinct (map fst (?n c))" if "distinct (map fst c)" for c :: "(string \<times> json) list"
    using that by (simp add: o_def)
  from assms(1) have "sort_key fst (?n a) = sort_key fst (?n b)" by simp
  with map_of_sort_key_fst [OF d [OF assms(2)]] map_of_sort_key_fst [OF d [OF assms(3)]]
  have "map_of (?n a) = map_of (?n b)" by simp
  then show ?thesis by (metis map_of_norm_items)
qed

end
