(* ===== verification/Py_Time.thy ===== *)
theory Py_Time
  imports Prelude
begin

text \<open>
  Aware datetimes and their two texts: \<^verbatim>\<open>datetime.isoformat()\<close> in UTC, which goes into the
  hashed material of a ledger record, and the form ending in \<^verbatim>\<open>Z\<close> that a model dump has. A
  datetime is the number of microseconds since 0001-01-01T00:00:00Z: the program compares
  datetimes, adds time spans to them and prints them, all of which depend on the instant
  only once it is in UTC. The main result is that the text determines the instant.
\<close>

type_synonym datetime = nat

definition seconds :: "nat \<Rightarrow> datetime" where
  "seconds n = 1000000 * n"

section \<open>The proleptic Gregorian calendar\<close>

definition leap_year :: "nat \<Rightarrow> bool" where
  "leap_year y \<longleftrightarrow> 4 dvd y \<and> (\<not> 100 dvd y \<or> 400 dvd y)"

text \<open>The year of a day number and the day's number in that year, counted from 0, by the
  cycles of 400, 100, 4 and 1 years; the last day of a long cycle belongs to its last year.\<close>

definition year_yday :: "nat \<Rightarrow> nat \<times> nat" where
  "year_yday n =
     (let a = n div 146097; r1 = n mod 146097;
          b = r1 div 36524; r2 = r1 mod 36524;
          c = r2 div 1461; r3 = r2 mod 1461;
          d = r3 div 365; r4 = r3 mod 365
      in if b = 4 \<or> d = 4 then (400 * a + 100 * b + 4 * c + d, 365)
         else (400 * a + 100 * b + 4 * c + d + 1, r4))"

fun month_day :: "nat list \<Rightarrow> nat \<Rightarrow> nat \<Rightarrow> nat \<times> nat" where
  "month_day [] m yd = (m, yd + 1)"
| "month_day (l # ls) m yd = (if yd < l then (m, yd + 1) else month_day ls (m + 1) (yd - l))"

definition month_lengths :: "nat \<Rightarrow> nat list" where
  "month_lengths y = [31, if leap_year y then 29 else 28, 31, 30, 31, 30, 31, 31, 30, 31, 30, 31]"

definition year_month_day :: "nat \<Rightarrow> nat \<times> nat \<times> nat" where
  "year_month_day n = (let (y, yd) = year_yday n; (m, d) = month_day (month_lengths y) 1 yd in (y, m, d))"

section \<open>Printing\<close>

definition pad :: "nat \<Rightarrow> nat \<Rightarrow> string" where
  "pad w n = replicate (w - length (nat_str n)) (CHR ''0'') @ nat_str n"

definition fraction :: "nat \<Rightarrow> string" where
  "fraction us = (if us = 0 then [] else ''.'' @ pad 6 us)"

definition iso_text :: "string \<Rightarrow> datetime \<Rightarrow> string" where
  "iso_text zone t =
     (let us = t mod 1000000; s = t div 1000000; sod = s mod 86400;
          (y, m, d) = year_month_day (s div 86400)
      in pad 4 y @ ''-'' @ pad 2 m @ ''-'' @ pad 2 d @ ''T'' @
         pad 2 (sod div 3600) @ '':'' @ pad 2 (sod mod 3600 div 60) @ '':'' @ pad 2 (sod mod 60) @
         fraction us @ zone)"

definition isoformat :: "datetime \<Rightarrow> string" where
  "isoformat t = iso_text ''+00:00'' t"

definition isoformat_z :: "datetime \<Rightarrow> string" where
  "isoformat_z t = iso_text ''Z'' t"

section \<open>The calendar text determines the day\<close>

definition day_of_year_yday :: "nat \<times> nat \<Rightarrow> nat" where
  "day_of_year_yday p = (let k = fst p - 1 in
     146097 * (k div 400) + 36524 * (k mod 400 div 100) + 1461 * (k mod 100 div 4) + 365 * (k mod 4) + snd p)"

lemma euclid_nat: "x < (n::nat) \<Longrightarrow> (n * q + x) div n = q \<and> (n * q + x) mod n = x"
  by simp

lemma day_of_cycles:
  assumes "b < 4" "c < 25" "d < (4::nat)"
  shows "day_of_year_yday (400 * a + 100 * b + 4 * c + d + 1, yd) =
    146097 * a + 36524 * b + 1461 * c + 365 * d + yd"
proof -
  let ?k = "400 * a + 100 * b + 4 * c + d"
  have bounds: "100 * b + (4 * c + d) < 400" "4 * c + d < 100" using assms by linarith+
  have "?k div 400 = a \<and> ?k mod 400 = 100 * b + (4 * c + d)"
    using euclid_nat [OF bounds(1), of a] by (metis add.assoc)
  moreover have "?k = 100 * (4 * a + b) + (4 * c + d)" by simp
  then have "?k mod 100 = 4 * c + d"
    using euclid_nat [OF bounds(2), of "4 * a + b"] by metis
  moreover have "?k = 4 * (100 * a + 25 * b + c) + d" by simp
  then have "?k mod 4 = d"
    using euclid_nat [OF assms(3), of "100 * a + 25 * b + c"] by metis
  moreover have "(100 * b + (4 * c + d)) div 100 = b" "(4 * c + d) div 4 = c"
    using euclid_nat [OF bounds(2), of b] euclid_nat [OF assms(3), of c] by blast+
  ultimately show ?thesis by (simp add: day_of_year_yday_def)
qed

lemma day_of_year_yday_inverse: "day_of_year_yday (year_yday n) = n"
proof -
  define a r1 where ar: "a = n div 146097" "r1 = n mod 146097"
  define b r2 where br: "b = r1 div 36524" "r2 = r1 mod 36524"
  define c r3 where cr: "c = r2 div 1461" "r3 = r2 mod 1461"
  define d r4 where dr: "d = r3 div 365" "r4 = r3 mod 365"
  have n: "n = 146097 * a + r1" "r1 < 146097" by (simp_all add: ar)
  have r1: "r1 = 36524 * b + r2" "r2 < 36524" by (simp_all add: br)
  have r2: "r2 = 1461 * c + r3" "r3 < 1461" by (simp_all add: cr)
  have r3: "r3 = 365 * d + r4" "r4 < 365" by (simp_all add: dr)
  have y: "year_yday n = (if b = 4 \<or> d = 4 then (400 * a + 100 * b + 4 * c + d, 365)
      else (400 * a + 100 * b + 4 * c + d + 1, r4))"
    by (simp add: year_yday_def ar br cr dr Let_def)
  consider "b = 4" | "b < 4" "d = 4" | "b < 4" "d < 4"
    using n(2) r1 r2 r3 by linarith
  then show ?thesis
  proof cases
    case 1
    with n(2) r1(1) have "r2 = 0" by linarith
    with r2 r3 have z: "c = 0" "d = 0" by linarith+
    have "day_of_year_yday (400 * a + 100 * 3 + 4 * 24 + 3 + 1, 365) = n"
      using day_of_cycles [of 3 24 3 a 365] n(1) r1(1) 1 \<open>r2 = 0\<close> by linarith
    with 1 z y show ?thesis by (simp add: add.commute)
  next
    case 2
    with r3 r2 r1(2) have "r4 = 0" "c < 24" by linarith+
    have "day_of_year_yday (400 * a + 100 * b + 4 * c + 3 + 1, 365) = n"
      using day_of_cycles [of b c 3 a 365] n(1) r1(1) r2(1) r3(1) 2 \<open>r4 = 0\<close> \<open>c < 24\<close> by linarith
    with 2 y show ?thesis by (simp add: add.commute)
  next
    case 3
    with r1(2) r2(1) have "c < 25" by linarith
    with day_of_cycles [of b c d a r4] n(1) r1(1) r2(1) r3(1) 3 y show ?thesis by simp
  qed
qed

lemma month_day_inj:
  "month_day ls m yd = (m', d) \<Longrightarrow> m \<le> m' \<and> yd + 1 = sum_list (take (m' - m) ls) + d"
proof (induction ls arbitrary: m yd)
  case Nil
  then show ?case by auto
next
  case (Cons l ls)
  show ?case
  proof (cases "yd < l")
    case True
    with Cons.prems show ?thesis by auto
  next
    case False
    with Cons.prems Cons.IH [of "m + 1" "yd - l"]
    have "m + 1 \<le> m'" "yd - l + 1 = sum_list (take (m' - (m + 1)) ls) + d" by simp_all
    moreover from this(1) obtain k where k: "m' = m + 1 + k" using le_Suc_ex by blast
    moreover have "sum_list (take (m' - m) (l # ls)) = l + sum_list (take (m' - (m + 1)) ls)"
      by (simp add: k)
    moreover from False have "yd - l + l = yd" by simp
    ultimately show ?thesis by linarith
  qed
qed

lemma year_month_day_inj: "year_month_day m = year_month_day n \<Longrightarrow> m = n"
proof -
  assume eq: "year_month_day m = year_month_day n"
  obtain y yd where m: "year_yday m = (y, yd)" by force
  obtain y' yd' where n: "year_yday n = (y', yd')" by force
  obtain mo d where md: "month_day (month_lengths y) 1 yd = (mo, d)" by force
  from eq m n md have "y' = y" "month_day (month_lengths y) 1 yd' = (mo, d)"
    by (auto simp: year_month_day_def split: prod.splits)
  with month_day_inj [OF md] month_day_inj [of "month_lengths y" 1 yd' mo d] have "yd = yd'" by simp
  with \<open>y' = y\<close> m n have "year_yday m = year_yday n" by simp
  then show "m = n" by (metis day_of_year_yday_inverse)
qed

lemma pad_digits: "c \<in> set (pad w n) \<Longrightarrow> is_digit c"
  by (auto simp: pad_def is_digit_def dest: nat_str_digits)

lemma digits_val_zeros: "digits_val (replicate k (CHR ''0'') @ s) = digits_val s"
proof -
  have "foldl (\<lambda>a c. 10 * a + digit_val c) 0 (replicate k (CHR ''0'')) = 0"
    by (induction k) (simp_all add: digit_val_def)
  then show ?thesis by (simp add: digits_val_def)
qed

lemma pad_inj: "pad w m = pad w n \<Longrightarrow> m = n"
  by (metis digits_val_nat_str digits_val_zeros pad_def)

lemma pad_sep:
  assumes "pad w m @ c # r = pad w n @ c' # r'" "\<not> is_digit c" "\<not> is_digit c'"
  shows "m = n \<and> c = c' \<and> r = r'"
proof -
  have "takeWhile is_digit (pad w k @ e # q) = pad w k" if "\<not> is_digit e" for k e q
    using that pad_digits by (simp add: takeWhile_append2)
  with assms have "pad w m = pad w n" by metis
  with assms(1) show ?thesis using pad_inj by auto
qed

lemma non_digits [simp]:
  "\<not> is_digit (CHR ''-'')" "\<not> is_digit (CHR '':'')" "\<not> is_digit (CHR ''T'')"
  "\<not> is_digit (CHR ''Z'')" "\<not> is_digit (CHR ''+'')" "\<not> is_digit (CHR ''.'')"
  by (simp_all add: is_digit_def)

lemma pad_fraction_inj:
  assumes eq: "pad 2 s @ fraction us = pad 2 s' @ fraction us'"
  shows "s = s' \<and> us = us'"
proof -
  have no_point: "pad 2 k \<noteq> pad 2 l @ CHR ''.'' # r" for k l r
    using pad_digits [of "CHR ''.''" 2 k] by (metis in_set_conv_decomp non_digits(6))
  consider "us = 0" "us' = 0" | "us = 0" "us' \<noteq> 0" | "us \<noteq> 0" "us' = 0" | "us \<noteq> 0" "us' \<noteq> 0"
    by blast
  then show ?thesis
  proof cases
    case 1
    with eq show ?thesis by (auto simp: fraction_def dest: pad_inj)
  next
    case 2
    with eq no_point show ?thesis by (simp add: fraction_def)
  next
    case 3
    with eq no_point [of s' s "pad 6 us"] show ?thesis by (simp add: fraction_def)
  next
    case 4
    with eq have "pad 2 s @ CHR ''.'' # pad 6 us = pad 2 s' @ CHR ''.'' # pad 6 us'"
      by (simp add: fraction_def)
    from pad_sep [OF this] show ?thesis by (auto dest: pad_inj)
  qed
qed

lemma iso_text_inj:
  assumes eq: "iso_text zone t = iso_text zone u"
  shows "t = u"
proof -
  define s sod where s: "s = t div 1000000" "sod = s mod 86400"
  define s' sod' where s': "s' = u div 1000000" "sod' = s' mod 86400"
  obtain y m d where ymd: "year_month_day (s div 86400) = (y, m, d)" using prod_cases3 by blast
  obtain y' m' d' where ymd': "year_month_day (s' div 86400) = (y', m', d')" using prod_cases3 by blast
  from eq ymd ymd' have
    "pad 4 y @ CHR ''-'' # pad 2 m @ CHR ''-'' # pad 2 d @ CHR ''T'' #
       pad 2 (sod div 3600) @ CHR '':'' # pad 2 (sod mod 3600 div 60) @ CHR '':'' #
       pad 2 (sod mod 60) @ fraction (t mod 1000000) =
     pad 4 y' @ CHR ''-'' # pad 2 m' @ CHR ''-'' # pad 2 d' @ CHR ''T'' #
       pad 2 (sod' div 3600) @ CHR '':'' # pad 2 (sod' mod 3600 div 60) @ CHR '':'' #
       pad 2 (sod' mod 60) @ fraction (u mod 1000000)"
    by (simp add: iso_text_def s s' Let_def)
  then have f: "y = y'" "m = m'" "d = d'" "sod div 3600 = sod' div 3600"
      "sod mod 3600 div 60 = sod' mod 3600 div 60"
      "sod mod 60 = sod' mod 60" "t mod 1000000 = u mod 1000000"
    by (auto dest!: pad_sep dest: pad_fraction_inj)
  from f(1-3) ymd ymd' have "s div 86400 = s' div 86400" by (metis year_month_day_inj)
  moreover have "x = 3600 * (x div 3600) + (60 * (x mod 3600 div 60) + x mod 60)" for x :: nat
  proof -
    have "x mod 3600 = 60 * (x mod 3600 div 60) + x mod 3600 mod 60" by simp
    moreover have "x mod 3600 mod 60 = x mod 60" by (simp add: mod_mod_cancel)
    ultimately show ?thesis by (metis mult_div_mod_eq)
  qed
  with f(4-6) have "sod = sod'" by metis
  ultimately have "s = s'" using s s' by (metis div_mult_mod_eq)
  with f(7) s s' show ?thesis by (metis div_mult_mod_eq)
qed

lemma isoformat_inj [simp]: "isoformat t = isoformat u \<longleftrightarrow> t = u"
  by (auto simp: isoformat_def dest: iso_text_inj)

lemma isoformat_z_inj [simp]: "isoformat_z t = isoformat_z u \<longleftrightarrow> t = u"
  by (auto simp: isoformat_z_def dest: iso_text_inj)

end
