(* ===== verification/Domain.thy ===== *)
theory Domain
  imports Json Py_Time
begin

text \<open>
  The provider-neutral contracts of \<^verbatim>\<open>domain.py\<close>: validated identifiers, the identity
  context with its immutable grant bindings, the investigation request and its JSON dump,
  and \<open>stable_id\<close>, the deterministic identifiers every other component is keyed by.
\<close>

section \<open>Validated text\<close>

definition ident_char :: "char \<Rightarrow> bool" where
  "ident_char c \<longleftrightarrow> (let n = of_char c :: nat in
     48 \<le> n \<and> n \<le> 57 \<or> 65 \<le> n \<and> n \<le> 90 \<or> 97 \<le> n \<and> n \<le> 122 \<or> c \<in> set ''._:-'')"

definition valid_identifier :: "string \<Rightarrow> bool" where
  "valid_identifier s \<longleftrightarrow> 1 \<le> length s \<and> length s \<le> 128 \<and> list_all ident_char s"

definition valid_opt_identifier :: "string option \<Rightarrow> bool" where
  "valid_opt_identifier o1 = (case o1 of None \<Rightarrow> True | Some s \<Rightarrow> valid_identifier s)"

section \<open>Enumerations\<close>

datatype principal_kind = HUMAN | WORKLOAD

datatype risk_level = LOW | MEDIUM | HIGH

fun risk_value :: "risk_level \<Rightarrow> string" where
  "risk_value LOW = ''low''"
| "risk_value MEDIUM = ''medium''"
| "risk_value HIGH = ''high''"

text \<open>\<^verbatim>\<open>_RISK_ORDER\<close> of \<^verbatim>\<open>authorization.py\<close> and \<^verbatim>\<open>remediation.py\<close>.\<close>

fun risk_order :: "risk_level \<Rightarrow> nat" where
  "risk_order LOW = 1"
| "risk_order MEDIUM = 2"
| "risk_order HIGH = 3"

section \<open>Identity\<close>

record grant_binding =
  gb_role :: string
  gb_purpose :: string
  gb_permissions :: "string list"
  gb_risk_ceiling :: risk_level
  gb_expires_at :: datetime

record identity_context =
  id_tenant_id :: string
  id_issuer :: string
  id_subject_id :: string
  id_principal_kind :: principal_kind
  id_roles :: "string list"
  id_permissions :: "string list"
  id_purposes :: "string list"
  id_grants :: "grant_binding list"
  id_grant_version :: int
  id_authenticated_at :: datetime
  id_expires_at :: datetime
  id_request_id :: string
  id_trace_id :: string

text \<open>\<^verbatim>\<open>tuple(sorted(set(value)))\<close>, the normal form of every authority list.\<close>

definition normalize_authority :: "string list \<Rightarrow> string list" where
  "normalize_authority v = sort (remdups v)"

definition normalize_grant :: "grant_binding \<Rightarrow> grant_binding" where
  "normalize_grant g = g\<lparr>gb_permissions := normalize_authority (gb_permissions g)\<rparr>"

definition normalize_grants :: "grant_binding list \<Rightarrow> grant_binding list" where
  "normalize_grants gs =
     sort_key (\<lambda>g. (gb_purpose g, gb_role g, risk_value (gb_risk_ceiling g), gb_expires_at g)) (remdups gs)"

text \<open>The validators of \<open>IdentityContext\<close>: normalisation of the lists, then the checks that
  the flat projections are exactly what the grants say.\<close>

definition validate_authority_projection :: "identity_context \<Rightarrow> identity_context result" where
  "validate_authority_projection i =
     (if id_expires_at i \<le> id_authenticated_at i
      then Inl (ValidationError ''identity expiry must follow authentication'')
      else if id_roles i \<noteq> normalize_authority (map gb_role (id_grants i))
      then Inl (ValidationError ''identity roles must match immutable grant bindings'')
      else if id_permissions i \<noteq> normalize_authority (concat (map gb_permissions (id_grants i)))
      then Inl (ValidationError ''identity permissions must match immutable grant bindings'')
      else if id_purposes i \<noteq> normalize_authority (map gb_purpose (id_grants i))
      then Inl (ValidationError ''identity purposes must match immutable grant bindings'')
      else Inr i)"

definition make_identity :: "identity_context \<Rightarrow> identity_context result" where
  "make_identity i = validate_authority_projection
     (i\<lparr>id_roles := normalize_authority (id_roles i),
        id_permissions := normalize_authority (id_permissions i),
        id_purposes := normalize_authority (id_purposes i),
        id_grants := normalize_grants (map normalize_grant (id_grants i))\<rparr>)"

section \<open>The investigation request\<close>

text \<open>\<open>signal\<close> and \<open>service\<close> of \<open>CheckoutAlert\<close> are literals, so they carry no data.\<close>

record checkout_alert =
  ca_region :: string
  ca_observed_at :: datetime
  ca_failure_rate :: pyfloat
  ca_threshold :: pyfloat

record investigation_request =
  iq_incident_id :: string
  iq_alert :: checkout_alert

text \<open>\<^verbatim>\<open>model_dump(mode="json")\<close>.\<close>

definition alert_json :: "checkout_alert \<Rightarrow> json" where
  "alert_json a = JObj
     [(''signal'', JStr ''checkout_failure_rate''),
      (''service'', JStr ''checkout-api''),
      (''region'', JStr (ca_region a)),
      (''observed_at'', JStr (isoformat_z (ca_observed_at a))),
      (''failure_rate'', JFloat (ca_failure_rate a)),
      (''threshold'', JFloat (ca_threshold a))]"

definition request_json :: "investigation_request \<Rightarrow> json" where
  "request_json r = JObj
     [(''incident_id'', JStr (iq_incident_id r)), (''alert'', alert_json (iq_alert r))]"

section \<open>Stable identifiers\<close>

definition stable_id :: "runtime \<Rightarrow> string \<Rightarrow> string list \<Rightarrow> nat \<Rightarrow> string" where
  "stable_id rt prefix parts len =
     prefix @ '':'' @ take len (sha256_hexdigest rt (join [CHR 0x00] parts))"

section \<open>Lemmas\<close>

lemma hex_char_ident: "c \<in> set hex_chars \<Longrightarrow> ident_char c"
  by (auto simp: hex_chars_def ident_char_def)

lemma valid_stable_id:
  assumes "sha256_shape rt" "list_all ident_char prefix" "length prefix + 1 + len \<le> 128"
  shows "valid_identifier (stable_id rt prefix parts len)"
proof -
  have "list_all ident_char (sha256_hexdigest rt s)" for s
    using assms(1) hex_char_ident by (auto simp: sha256_shape_def hex64_def list_all_iff)
  then have "list_all ident_char (take len (sha256_hexdigest rt s))" for s
    by (meson in_set_takeD list_all_iff)
  moreover have "ident_char (CHR '':'')" by (simp add: ident_char_def)
  ultimately show ?thesis
    using assms(2,3) by (simp add: valid_identifier_def stable_id_def min_def)
qed

lemma set_normalize_authority [simp]: "set (normalize_authority v) = set v"
  by (simp add: normalize_authority_def)

lemma sorted_normalize_authority: "sorted (normalize_authority v)" "distinct (normalize_authority v)"
  by (simp_all add: normalize_authority_def)

lemma normalize_authority_idem: "normalize_authority (normalize_authority v) = normalize_authority v"
  by (simp add: normalize_authority_def sorted_sort_id distinct_remdups_id)

lemma request_json_wf: "json_wf (request_json r)"
  by (simp add: request_json_def alert_json_def)

lemma request_json_inj: "request_json r = request_json r' \<Longrightarrow> r = r'"
  by (auto simp: request_json_def alert_json_def intro: investigation_request.equality
      checkout_alert.equality)

end
