(* ===== verification/Projection_Machine.thy ===== *)
theory Projection_Machine
  imports Prelude
begin

text \<open>
  The contract that both ledgers of the program put on their reducers. A projection is a
  view with a status and a version; the reducer builds the first view from the first
  record, and every later record must carry the next sequence number and move the status
  along an allowed transition. The lemmas say what a successful replay then guarantees,
  for any number of records. \<^verbatim>\<open>durability.reduce_run\<close> and
  \<^verbatim>\<open>remediation.reduce_remediation\<close> are its two instances.
\<close>

locale projection_machine =
  fixes reduce :: "'p option \<Rightarrow> 'e \<Rightarrow> 'p result"
    and status :: "'p \<Rightarrow> 's"
    and version :: "'p \<Rightarrow> nat"
    and seqno :: "'e \<Rightarrow> nat"
    and allowed :: "'s \<Rightarrow> 's \<Rightarrow> bool"
    and initial :: 's
  assumes reduce_start: "reduce None e = Inr p \<Longrightarrow> status p = initial"
    and reduce_next: "reduce (Some p) e = Inr p' \<Longrightarrow>
      allowed (status p) (status p') \<and> seqno e = Suc (version p) \<and> version p' = seqno e"
begin

fun replay :: "'e list \<Rightarrow> 'p option \<Rightarrow> 'p option result" where
  "replay [] c = Inr c"
| "replay (e # es) c = bindE (reduce c e) (\<lambda>p. replay es (Some p))"

lemma replay_append: "replay (es @ fs) c = bindE (replay es c) (replay fs)"
proof (induction es arbitrary: c)
  case Nil
  show ?case by simp
next
  case (Cons e es)
  then show ?case by (cases "reduce c e") simp_all
qed

lemma replay_Some: "replay es (Some p) = Inr c \<Longrightarrow> \<exists>p'. c = Some p'"
  by (induction es arbitrary: p) auto

text \<open>The status of a replayed view is reached from the first one by allowed transitions.\<close>

lemma replay_path: "replay es (Some p) = Inr (Some p') \<Longrightarrow> allowed\<^sup>*\<^sup>* (status p) (status p')"
proof (induction es arbitrary: p)
  case Nil
  then show ?case by simp
next
  case (Cons e es)
  then obtain q where q: "reduce (Some p) e = Inr q" "replay es (Some q) = Inr (Some p')" by auto
  from reduce_next [OF q(1)] Cons.IH [OF q(2)] show ?case
    by (meson converse_rtranclp_into_rtranclp)
qed

lemma replay_from_initial:
  assumes "replay es None = Inr (Some p)"
  shows "allowed\<^sup>*\<^sup>* initial (status p)"
proof (cases es)
  case Nil
  with assms show ?thesis by simp
next
  case (Cons e fs)
  with assms obtain q where "reduce None e = Inr q" "replay fs (Some q) = Inr (Some p)" by auto
  with reduce_start replay_path show ?thesis by metis
qed

text \<open>Each record advances the version by one, and the records carry the versions they make.\<close>

lemma replay_version:
  "replay es (Some p) = Inr (Some p') \<Longrightarrow>
     version p' = version p + length es \<and> map seqno es = [Suc (version p)..<Suc (version p + length es)]"
proof (induction es arbitrary: p)
  case Nil
  then show ?case by simp
next
  case (Cons e es)
  then obtain q where q: "reduce (Some p) e = Inr q" "replay es (Some q) = Inr (Some p')" by auto
  from reduce_next [OF q(1)] Cons.IH [OF q(2)] show ?case
    by (simp del: upt_Suc add: upt_conv_Cons)
qed

text \<open>A view whose status allows nothing rejects every further record.\<close>

lemma terminal_absorbing:
  assumes "\<And>s. \<not> allowed (status p) s" "es \<noteq> []"
  shows "\<exists>err. replay es (Some p) = Inl err"
proof -
  from assms(2) obtain e fs where "es = e # fs" by (cases es) auto
  with assms(1) reduce_next [of p e] show ?thesis by (cases "reduce (Some p) e") auto
qed

lemma replay_prefix_not_terminal:
  assumes "replay (es @ fs) None = Inr (Some p')" "replay es None = Inr (Some p)" "fs \<noteq> []"
  shows "\<exists>s. allowed (status p) s"
  using assms terminal_absorbing [of p fs] by (auto simp: replay_append)

end

end
