(* ===== verification/Run_Projection.thy ===== *)
theory Run_Projection
  imports Domain Projection_Machine
begin

text \<open>
  The durable contracts of \<^verbatim>\<open>durability.py\<close> and the investigation state machine: drafts,
  application events and run views as records with their validators, \<open>reduce_run\<close>, the
  pure projection of one event, and \<open>_validate_run_transition\<close>. Counters that the models
  bound below by 0 or 1 (sequences, cursors, attempts, versions) are \<open>nat\<close>.
\<close>

section \<open>Contracts\<close>

type_synonym dict = "(string \<times> json) list"

definition zero_hash :: string where
  "zero_hash = replicate 64 (CHR ''0'')"

definition max_event_bytes :: nat where "max_event_bytes = 32768"
definition max_events_per_append :: nat where "max_events_per_append = 32"
definition max_delivery_attempts :: nat where "max_delivery_attempts = 5"
definition max_resume_commands :: nat where "max_resume_commands = 32"

datatype run_status =
    Run_QUEUED | Run_RUNNING | Run_WAITING | Run_COMPLETED | Run_FAILED
  | Run_CANCEL_REQUESTED | Run_CANCELLED | Run_TIMED_OUT

fun run_status_value :: "run_status \<Rightarrow> string" where
  "run_status_value Run_QUEUED = ''queued''"
| "run_status_value Run_RUNNING = ''running''"
| "run_status_value Run_WAITING = ''waiting''"
| "run_status_value Run_COMPLETED = ''completed''"
| "run_status_value Run_FAILED = ''failed''"
| "run_status_value Run_CANCEL_REQUESTED = ''cancel_requested''"
| "run_status_value Run_CANCELLED = ''cancelled''"
| "run_status_value Run_TIMED_OUT = ''timed_out''"

record event_draft =
  ev_event_id :: string
  ev_event_type :: string
  ev_occurred_at :: datetime
  ev_actor_ref :: string
  ev_correlation_ref :: string
  ev_causation_ref :: "string option"
  ev_schema_version :: nat
  ev_payload :: dict

text \<open>\<open>ApplicationEvent\<close> carries the fields of its draft and its place in the two chains.\<close>

record application_event = event_draft +
  ev_tenant_id :: string
  ev_aggregate_type :: string
  ev_aggregate_id :: string
  ev_aggregate_sequence :: nat
  ev_tenant_cursor :: nat
  ev_aggregate_previous_hash :: string
  ev_tenant_previous_hash :: string
  ev_record_hash :: string

definition dict_sorted :: "dict \<Rightarrow> dict" where
  "dict_sorted d = sort_key fst d"

definition valid_event_draft :: "runtime \<Rightarrow> 'a event_draft_scheme \<Rightarrow> bool" where
  "valid_event_draft rt d \<longleftrightarrow>
     valid_identifier (ev_event_id d) \<and> valid_identifier (ev_event_type d) \<and>
     valid_identifier (ev_actor_ref d) \<and> valid_identifier (ev_correlation_ref d) \<and>
     valid_opt_identifier (ev_causation_ref d) \<and>
     1 \<le> ev_schema_version d \<and> ev_schema_version d \<le> 1000 \<and> length (ev_payload d) \<le> 32 \<and>
     length (canonical_json rt (JObj (ev_payload d))) \<le> max_event_bytes"

text \<open>The constructor \<open>EventDraft(...)\<close>: field validation, the bound on the payload, and the
  payload with its keys sorted.\<close>

definition make_event_draft :: "runtime \<Rightarrow> event_draft \<Rightarrow> event_draft result" where
  "make_event_draft rt d =
     (if valid_event_draft rt d then Inr (d\<lparr>ev_payload := dict_sorted (ev_payload d)\<rparr>)
      else Inl (ValidationError ''EventDraft''))"

definition valid_application_event :: "application_event \<Rightarrow> bool" where
  "valid_application_event e \<longleftrightarrow>
     valid_identifier (ev_tenant_id e) \<and> valid_identifier (ev_aggregate_type e) \<and>
     valid_identifier (ev_aggregate_id e) \<and> 1 \<le> ev_aggregate_sequence e \<and> 1 \<le> ev_tenant_cursor e \<and>
     valid_identifier (ev_event_id e) \<and> valid_identifier (ev_event_type e) \<and>
     valid_identifier (ev_actor_ref e) \<and> valid_identifier (ev_correlation_ref e) \<and>
     valid_opt_identifier (ev_causation_ref e) \<and>
     1 \<le> ev_schema_version e \<and> ev_schema_version e \<le> 1000 \<and>
     hex64 (ev_aggregate_previous_hash e) \<and> hex64 (ev_tenant_previous_hash e) \<and>
     hex64 (ev_record_hash e)"

record run_view =
  rv_tenant_id :: string
  rv_run_id :: string
  rv_incident_id :: string
  rv_request_ref :: string
  rv_workflow_id :: string
  rv_status :: run_status
  rv_version :: nat
  rv_last_cursor :: nat
  rv_created_at :: datetime
  rv_updated_at :: datetime
  rv_failure_code :: "string option"
  rv_replayed :: bool

definition valid_run_view :: "run_view \<Rightarrow> bool" where
  "valid_run_view v \<longleftrightarrow>
     valid_identifier (rv_tenant_id v) \<and> valid_identifier (rv_run_id v) \<and>
     valid_identifier (rv_incident_id v) \<and> valid_identifier (rv_request_ref v) \<and>
     valid_identifier (rv_workflow_id v) \<and> 1 \<le> rv_version v \<and> 1 \<le> rv_last_cursor v \<and>
     valid_opt_identifier (rv_failure_code v)"

section \<open>The state machine\<close>

definition status_by_event :: "(string \<times> run_status) list" where
  "status_by_event =
    [(''investigation.requested'', Run_QUEUED),
     (''investigation.started'', Run_RUNNING),
     (''investigation.evidence_collected'', Run_RUNNING),
     (''investigation.graph_completed'', Run_RUNNING),
     (''investigation.waiting'', Run_WAITING),
     (''investigation.cancel_requested'', Run_CANCEL_REQUESTED),
     (''investigation.completed'', Run_COMPLETED),
     (''investigation.failed'', Run_FAILED),
     (''investigation.cancelled'', Run_CANCELLED),
     (''investigation.timed_out'', Run_TIMED_OUT)]"

fun run_allowed :: "run_status \<Rightarrow> run_status list" where
  "run_allowed Run_QUEUED = [Run_RUNNING, Run_QUEUED, Run_CANCEL_REQUESTED, Run_FAILED]"
| "run_allowed Run_RUNNING =
     [Run_RUNNING, Run_WAITING, Run_COMPLETED, Run_CANCEL_REQUESTED, Run_FAILED, Run_TIMED_OUT]"
| "run_allowed Run_WAITING =
     [Run_WAITING, Run_COMPLETED, Run_CANCEL_REQUESTED, Run_FAILED, Run_TIMED_OUT]"
| "run_allowed Run_CANCEL_REQUESTED = [Run_CANCELLED]"
| "run_allowed Run_COMPLETED = []"
| "run_allowed Run_FAILED = []"
| "run_allowed Run_CANCELLED = []"
| "run_allowed Run_TIMED_OUT = []"

definition validate_run_transition :: "run_status \<Rightarrow> run_status \<Rightarrow> unit result" where
  "validate_run_transition previous current =
     guardE (current \<in> set (run_allowed previous))
       (IntegrityFailure ''investigation event violates the state machine'')"

section \<open>The reducer\<close>

text \<open>
  \<^verbatim>\<open>str(event.payload[key])\<close> as an identifier field of the view. The text of a list or of a
  dictionary starts with a bracket and is no identifier, so those values fail the field's
  validation whatever they hold.
\<close>

fun py_str :: "runtime \<Rightarrow> json \<Rightarrow> string option" where
  "py_str rt JNull = Some ''None''"
| "py_str rt (JBool b) = Some (if b then ''True'' else ''False'')"
| "py_str rt (JInt i) = Some (int_str i)"
| "py_str rt (JFloat f) = Some (float_repr rt f)"
| "py_str rt (JStr s) = Some s"
| "py_str rt _ = None"

definition payload_str :: "runtime \<Rightarrow> dict \<Rightarrow> string \<Rightarrow> string result" where
  "payload_str rt p key =
     (case map_of p key of
        None \<Rightarrow> Inl (KeyError key)
      | Some v \<Rightarrow> (case py_str rt v of
          None \<Rightarrow> Inl (ValidationError key)
        | Some s \<Rightarrow> if valid_identifier s then Inr s else Inl (ValidationError key)))"

definition payload_failure_code :: "dict \<Rightarrow> string option result" where
  "payload_failure_code p =
     (case map_of p ''failure_code'' of
        None \<Rightarrow> Inr None
      | Some JNull \<Rightarrow> Inr None
      | Some (JStr s) \<Rightarrow> Inr (Some s)
      | Some _ \<Rightarrow> Inl (IntegrityFailure ''failure code projection is invalid''))"

definition initial_run_view :: "runtime \<Rightarrow> run_status \<Rightarrow> application_event \<Rightarrow> run_view result" where
  "initial_run_view rt status e =
     bindE (payload_str rt (ev_payload e) ''run_id'') (\<lambda>run_id.
     bindE (payload_str rt (ev_payload e) ''incident_id'') (\<lambda>incident_id.
     bindE (payload_str rt (ev_payload e) ''request_ref'') (\<lambda>request_ref.
     bindE (payload_str rt (ev_payload e) ''workflow_id'') (\<lambda>workflow_id.
     let v = \<lparr>rv_tenant_id = ev_tenant_id e, rv_run_id = run_id, rv_incident_id = incident_id,
              rv_request_ref = request_ref, rv_workflow_id = workflow_id, rv_status = status,
              rv_version = ev_aggregate_sequence e, rv_last_cursor = ev_tenant_cursor e,
              rv_created_at = ev_occurred_at e, rv_updated_at = ev_occurred_at e,
              rv_failure_code = None, rv_replayed = False\<rparr>
     in if valid_run_view v then Inr v else Inl (ValidationError ''RunView'')))))"

definition event_status :: "run_view option \<Rightarrow> application_event \<Rightarrow> run_status option" where
  "event_status current e =
     (case current of
        Some c \<Rightarrow> if ev_event_type e = ''investigation.resume_requested'' then Some (rv_status c)
                  else map_of status_by_event (ev_event_type e)
      | None \<Rightarrow> map_of status_by_event (ev_event_type e))"

definition reduce_run :: "runtime \<Rightarrow> run_view option \<Rightarrow> application_event \<Rightarrow> run_view result" where
  "reduce_run rt current e =
     (case event_status current e of
        None \<Rightarrow> Inl (IntegrityFailure ''unknown investigation event type'')
      | Some status \<Rightarrow>
          bindE (payload_failure_code (ev_payload e)) (\<lambda>failure_code.
          case current of
            None \<Rightarrow>
              if ev_event_type e \<noteq> ''investigation.requested''
              then Inl (IntegrityFailure ''investigation projection does not start at requested'')
              else (case initial_run_view rt status e of
                      Inl _ \<Rightarrow> Inl (IntegrityFailure ''requested event cannot build a run projection'')
                    | Inr v \<Rightarrow> Inr v)
          | Some c \<Rightarrow>
              if ev_aggregate_sequence e \<noteq> rv_version c + 1
              then Inl (IntegrityFailure ''projection observed a non-contiguous aggregate sequence'')
              else bindE (validate_run_transition (rv_status c) status) (\<lambda>_.
                Inr (c\<lparr>rv_failure_code := failure_code, rv_last_cursor := ev_tenant_cursor e,
                       rv_replayed := False, rv_status := status,
                       rv_updated_at := ev_occurred_at e,
                       rv_version := ev_aggregate_sequence e\<rparr>))))"

text \<open>A projection replay: the left fold of the reducer over the events of one run.\<close>

definition replay_step :: "runtime \<Rightarrow> application_event \<Rightarrow> run_view option \<Rightarrow> run_view option result" where
  "replay_step rt e current = bindE (reduce_run rt current e) (\<lambda>v. Inr (Some v))"

definition replay_run :: "runtime \<Rightarrow> application_event list \<Rightarrow> run_view option \<Rightarrow> run_view option result" where
  "replay_run rt es current = foldE (replay_step rt) es current"

section \<open>Lemmas\<close>

lemma length_dict_sorted [simp]: "length (dict_sorted d) = length d"
  by (simp add: dict_sorted_def)

lemma reduce_run_Some:
  "reduce_run rt (Some c) e = Inr v \<longleftrightarrow>
     (\<exists>status fc. event_status (Some c) e = Some status \<and> payload_failure_code (ev_payload e) = Inr fc \<and>
        ev_aggregate_sequence e = rv_version c + 1 \<and> status \<in> set (run_allowed (rv_status c)) \<and>
        v = c\<lparr>rv_failure_code := fc, rv_last_cursor := ev_tenant_cursor e, rv_replayed := False,
              rv_status := status, rv_updated_at := ev_occurred_at e,
              rv_version := ev_aggregate_sequence e\<rparr>)"
  by (auto simp: reduce_run_def validate_run_transition_def split: option.splits if_splits)

lemma requested_status: "map_of status_by_event ''investigation.requested'' = Some Run_QUEUED"
  by (simp add: status_by_event_def)

lemma reduce_run_None:
  "reduce_run rt None e = Inr v \<longleftrightarrow>
     ev_event_type e = ''investigation.requested'' \<and>
     (\<exists>fc. payload_failure_code (ev_payload e) = Inr fc) \<and>
     initial_run_view rt Run_QUEUED e = Inr v"
proof (cases "ev_event_type e = ''investigation.requested''")
  case True
  then show ?thesis
    by (auto simp: reduce_run_def event_status_def requested_status split: sum.splits)
next
  case False
  then show ?thesis
    by (auto simp: reduce_run_def split: option.splits)
qed

lemma initial_run_view_fields:
  assumes "initial_run_view rt status e = Inr v"
  shows "rv_status v = status" "rv_version v = ev_aggregate_sequence e"
    "rv_last_cursor v = ev_tenant_cursor e" "rv_replayed v = False" "rv_tenant_id v = ev_tenant_id e"
    "rv_failure_code v = None"
  using assms by (auto simp: initial_run_view_def Let_def split: if_splits)

lemma reduce_run_fields:
  assumes "reduce_run rt current e = Inr v"
  shows "rv_version v = ev_aggregate_sequence e" "rv_last_cursor v = ev_tenant_cursor e"
    "rv_replayed v = False"
proof -
  have "rv_version v = ev_aggregate_sequence e \<and> rv_last_cursor v = ev_tenant_cursor e \<and> rv_replayed v = False"
  proof (cases current)
    case None
    with assms show ?thesis by (auto simp: reduce_run_None dest: initial_run_view_fields)
  next
    case (Some c)
    with assms show ?thesis by (auto simp: reduce_run_Some)
  qed
  then show "rv_version v = ev_aggregate_sequence e" "rv_last_cursor v = ev_tenant_cursor e"
    "rv_replayed v = False" by auto
qed

lemma replay_run_Nil [simp]: "replay_run rt [] c = Inr c"
  by (simp add: replay_run_def)

lemma replay_run_Cons: "replay_run rt (e # es) c = bindE (reduce_run rt c e) (\<lambda>v. replay_run rt es (Some v))"
  by (cases "reduce_run rt c e") (simp_all add: replay_run_def replay_step_def)

lemma replay_run_append: "replay_run rt (es @ fs) c = bindE (replay_run rt es c) (replay_run rt fs)"
  by (cases "replay_run rt es c") (simp_all add: replay_run_def)

lemma replay_run_snoc:
  "replay_run rt (es @ [e]) c = bindE (replay_run rt es c) (\<lambda>c'. bindE (reduce_run rt c' e) (\<lambda>v. Inr (Some v)))"
  by (cases "replay_run rt es c") (simp_all add: replay_run_append replay_run_Cons)

section \<open>The run reducer as a projection machine\<close>

interpretation run_machine: projection_machine "reduce_run rt" rv_status rv_version
  ev_aggregate_sequence "\<lambda>a b. b \<in> set (run_allowed a)" Run_QUEUED
  for rt :: runtime
  by unfold_locales (auto simp: reduce_run_None reduce_run_Some dest: initial_run_view_fields)

lemma run_machine_replay: "run_machine.replay rt es c = replay_run rt es c"
  by (induction es arbitrary: c) (auto simp: replay_run_Cons)

end
