(* ===== verification/Ledger_Store.thy ===== *)
theory Ledger_Store
  imports Run_Projection
begin

text \<open>
  The write side of \<open>InMemoryDurability\<close>: the state of the store as a record, the hashed
  material of an event, the atomic append with expected-version control, and the commands
  that append to the ledger (\<open>accept_run\<close>, \<open>record_transition\<close>, \<open>accept_signal\<close>,
  \<open>replay_legacy\<close>). The readings of the injected clock are arguments, in the order the code
  takes them.
\<close>

section \<open>State\<close>

record aggregate_head =
  ah_sequence :: nat
  ah_record_hash :: string

record tenant_head =
  th_cursor :: nat
  th_record_hash :: string

record idempotency_record =
  ir_fingerprint :: string
  ir_run_id :: string

record outbox_draft =
  ob_message_id :: string
  ob_destination :: string
  ob_message_type :: string
  ob_available_at :: datetime
  ob_payload :: dict

record inbox_draft =
  ib_message_id :: string
  ib_source :: string
  ib_message_type :: string
  ib_payload :: dict

datatype delivery_status =
  Delivery_PENDING | Delivery_CLAIMED | Delivery_DELIVERED | Delivery_DEAD_LETTER

record delivery_record =
  dl_tenant_id :: string
  dl_message_id :: string
  dl_direction :: string
  dl_destination :: string
  dl_message_type :: string
  dl_status :: delivery_status
  dl_attempts :: nat
  dl_available_at :: datetime
  dl_claim_token :: "string option"
  dl_claim_until :: "datetime option"
  dl_last_error_code :: "string option"
  dl_payload :: dict

record projection_checkpoint =
  pc_tenant_id :: string
  pc_projection_name :: string
  pc_last_cursor :: nat
  pc_last_event_hash :: string
  pc_version :: nat

type_synonym delivery_key = "string \<times> string \<times> string"

text \<open>The dictionaries of the store. The deliveries keep their insertion order, because the
  code iterates over them; the others are only looked up.\<close>

record durability_state =
  st_events :: "string \<rightharpoonup> application_event list"
  st_aggregate_heads :: "string \<times> string \<times> string \<rightharpoonup> aggregate_head"
  st_tenant_heads :: "string \<rightharpoonup> tenant_head"
  st_event_ids :: "(string \<times> string) set"
  st_idempotency :: "string \<times> string \<rightharpoonup> idempotency_record"
  st_deliveries :: "(delivery_key \<times> delivery_record) list"
  st_runs :: "string \<times> string \<rightharpoonup> run_view"
  st_projection_checkpoints :: "string \<times> string \<rightharpoonup> projection_checkpoint"

definition initial_state :: durability_state where
  "initial_state = \<lparr>st_events = Map.empty, st_aggregate_heads = Map.empty, st_tenant_heads = Map.empty,
     st_event_ids = {}, st_idempotency = Map.empty, st_deliveries = [], st_runs = Map.empty,
     st_projection_checkpoints = Map.empty\<rparr>"

definition no_aggregate_head :: aggregate_head where
  "no_aggregate_head = \<lparr>ah_sequence = 0, ah_record_hash = zero_hash\<rparr>"

definition no_tenant_head :: tenant_head where
  "no_tenant_head = \<lparr>th_cursor = 0, th_record_hash = zero_hash\<rparr>"

definition get_default :: "('k \<rightharpoonup> 'v) \<Rightarrow> 'k \<Rightarrow> 'v \<Rightarrow> 'v" where
  "get_default m k d = (case m k of None \<Rightarrow> d | Some v \<Rightarrow> v)"

definition tenant_events :: "durability_state \<Rightarrow> string \<Rightarrow> application_event list" where
  "tenant_events s t = get_default (st_events s) t []"

definition agg_head :: "durability_state \<Rightarrow> string \<times> string \<times> string \<Rightarrow> aggregate_head" where
  "agg_head s k = get_default (st_aggregate_heads s) k no_aggregate_head"

definition ten_head :: "durability_state \<Rightarrow> string \<Rightarrow> tenant_head" where
  "ten_head s t = get_default (st_tenant_heads s) t no_tenant_head"

section \<open>Drafts\<close>

definition make_outbox_draft :: "runtime \<Rightarrow> outbox_draft \<Rightarrow> outbox_draft result" where
  "make_outbox_draft rt d =
     (if valid_identifier (ob_message_id d) \<and> valid_identifier (ob_destination d) \<and>
         valid_identifier (ob_message_type d) \<and> length (ob_payload d) \<le> 16 \<and>
         length (canonical_json rt (JObj (ob_payload d))) \<le> 8192
      then Inr (d\<lparr>ob_payload := dict_sorted (ob_payload d)\<rparr>)
      else Inl (ValidationError ''OutboxDraft''))"

definition make_inbox_draft :: "runtime \<Rightarrow> inbox_draft \<Rightarrow> inbox_draft result" where
  "make_inbox_draft rt d =
     (if valid_identifier (ib_message_id d) \<and> valid_identifier (ib_source d) \<and>
         valid_identifier (ib_message_type d) \<and> length (ib_payload d) \<le> 16 \<and>
         length (canonical_json rt (JObj (ib_payload d))) \<le> 8192
      then Inr (d\<lparr>ib_payload := dict_sorted (ib_payload d)\<rparr>)
      else Inl (ValidationError ''InboxDraft''))"

section \<open>Hashed material\<close>

definition opt_json :: "string option \<Rightarrow> json" where
  "opt_json o1 = (case o1 of None \<Rightarrow> JNull | Some s \<Rightarrow> JStr s)"

definition event_document ::
  "string \<Rightarrow> string \<Rightarrow> string \<Rightarrow> nat \<Rightarrow> nat \<Rightarrow> 'a event_draft_scheme \<Rightarrow> string \<Rightarrow> string \<Rightarrow> json" where
  "event_document tenant_id aggregate_type aggregate_id sequence cursor d aph tph = JObj
     [(''actor_ref'', JStr (ev_actor_ref d)),
      (''aggregate_id'', JStr aggregate_id),
      (''aggregate_previous_hash'', JStr aph),
      (''aggregate_sequence'', JInt (int sequence)),
      (''aggregate_type'', JStr aggregate_type),
      (''causation_ref'', opt_json (ev_causation_ref d)),
      (''correlation_ref'', JStr (ev_correlation_ref d)),
      (''event_id'', JStr (ev_event_id d)),
      (''event_type'', JStr (ev_event_type d)),
      (''occurred_at'', JStr (isoformat (ev_occurred_at d))),
      (''payload'', JObj (ev_payload d)),
      (''record_schema_version'', JInt 1),
      (''schema_version'', JInt (int (ev_schema_version d))),
      (''tenant_cursor'', JInt (int cursor)),
      (''tenant_id'', JStr tenant_id),
      (''tenant_previous_hash'', JStr tph)]"

definition event_material ::
  "runtime \<Rightarrow> string \<Rightarrow> string \<Rightarrow> string \<Rightarrow> nat \<Rightarrow> nat \<Rightarrow> 'a event_draft_scheme \<Rightarrow> string \<Rightarrow> string \<Rightarrow> string" where
  "event_material rt tenant_id aggregate_type aggregate_id sequence cursor d aph tph =
     canonical_json rt (event_document tenant_id aggregate_type aggregate_id sequence cursor d aph tph)"

definition build_event ::
  "runtime \<Rightarrow> string \<Rightarrow> string \<Rightarrow> string \<Rightarrow> nat \<Rightarrow> nat \<Rightarrow> string \<Rightarrow> string \<Rightarrow> event_draft \<Rightarrow>
   application_event result" where
  "build_event rt tenant_id aggregate_type aggregate_id sequence cursor aph tph d =
     (let record_hash = sha256_hexdigest rt
            (event_material rt tenant_id aggregate_type aggregate_id sequence cursor d aph tph);
          e = \<lparr>ev_event_id = ev_event_id d, ev_event_type = ev_event_type d,
               ev_occurred_at = ev_occurred_at d, ev_actor_ref = ev_actor_ref d,
               ev_correlation_ref = ev_correlation_ref d, ev_causation_ref = ev_causation_ref d,
               ev_schema_version = ev_schema_version d, ev_payload = ev_payload d,
               ev_tenant_id = tenant_id, ev_aggregate_type = aggregate_type,
               ev_aggregate_id = aggregate_id, ev_aggregate_sequence = sequence,
               ev_tenant_cursor = cursor, ev_aggregate_previous_hash = aph,
               ev_tenant_previous_hash = tph, ev_record_hash = record_hash\<rparr>
      in if valid_application_event e then Inr e else Inl (ValidationError ''ApplicationEvent''))"

text \<open>The loop over the drafts of a batch: each event takes the next sequence and cursor and
  chains to the one before it.\<close>

fun build_events ::
  "runtime \<Rightarrow> string \<Rightarrow> string \<Rightarrow> string \<Rightarrow> nat \<Rightarrow> nat \<Rightarrow> string \<Rightarrow> string \<Rightarrow> event_draft list \<Rightarrow>
   application_event list result" where
  "build_events rt t ty a sequence cursor aph tph [] = Inr []"
| "build_events rt t ty a sequence cursor aph tph (d # ds) =
     bindE (build_event rt t ty a sequence cursor aph tph d) (\<lambda>e.
     bindE (build_events rt t ty a (sequence + 1) (cursor + 1) (ev_record_hash e) (ev_record_hash e) ds)
       (\<lambda>es. Inr (e # es)))"

section \<open>Append\<close>

definition append_checks ::
  "durability_state \<Rightarrow> string \<Rightarrow> string \<Rightarrow> string \<Rightarrow> nat \<Rightarrow> event_draft list \<Rightarrow> outbox_draft list \<Rightarrow>
   inbox_draft list \<Rightarrow> unit result" where
  "append_checks s t ty a expected_version drafts outbox inbox =
     bindE (guardE (ah_sequence (agg_head s (t, ty, a)) = expected_version)
              (ConcurrencyConflict ''aggregate version changed'')) (\<lambda>_.
     bindE (guardE (distinct (map ev_event_id drafts))
              (IdempotencyConflict ''event batch contains duplicate event ids'')) (\<lambda>_.
     bindE (guardE (\<forall>d \<in> set drafts. (t, ev_event_id d) \<notin> st_event_ids s)
              (IdempotencyConflict ''event id already exists'')) (\<lambda>_.
     bindE (guardE (distinct (map ob_message_id outbox))
              (IdempotencyConflict ''outbox batch contains duplicate message ids'')) (\<lambda>_.
     bindE (guardE (\<forall>d \<in> set outbox. map_of (st_deliveries s) (t, ''outbox'', ob_message_id d) = None)
              (IdempotencyConflict ''outbox message already exists'')) (\<lambda>_.
     bindE (guardE (distinct (map ib_message_id inbox))
              (IdempotencyConflict ''inbox batch contains duplicate message ids'')) (\<lambda>_.
     guardE (\<forall>d \<in> set inbox. map_of (st_deliveries s) (t, ''inbox'', ib_message_id d) = None)
              (IdempotencyConflict ''inbox message already exists'')))))))"

definition project_appended ::
  "runtime \<Rightarrow> durability_state \<Rightarrow> string \<Rightarrow> string \<Rightarrow> string \<Rightarrow> application_event list \<Rightarrow> run_view option result" where
  "project_appended rt s t ty a appended =
     (if ty \<noteq> ''investigation'' then Inr None else replay_run rt appended (st_runs s (t, a)))"

definition outbox_delivery :: "string \<Rightarrow> outbox_draft \<Rightarrow> delivery_record" where
  "outbox_delivery t m = \<lparr>dl_tenant_id = t, dl_message_id = ob_message_id m, dl_direction = ''outbox'',
     dl_destination = ob_destination m, dl_message_type = ob_message_type m,
     dl_status = Delivery_PENDING, dl_attempts = 0, dl_available_at = ob_available_at m,
     dl_claim_token = None, dl_claim_until = None, dl_last_error_code = None, dl_payload = ob_payload m\<rparr>"

definition inbox_delivery :: "string \<Rightarrow> datetime \<Rightarrow> inbox_draft \<Rightarrow> delivery_record" where
  "inbox_delivery t at m = \<lparr>dl_tenant_id = t, dl_message_id = ib_message_id m, dl_direction = ''inbox'',
     dl_destination = ''application'', dl_message_type = ib_message_type m,
     dl_status = Delivery_DELIVERED, dl_attempts = 1, dl_available_at = at,
     dl_claim_token = None, dl_claim_until = None, dl_last_error_code = None, dl_payload = ib_payload m\<rparr>"

definition add_deliveries ::
  "string \<Rightarrow> datetime \<Rightarrow> outbox_draft list \<Rightarrow> inbox_draft list \<Rightarrow>
   (delivery_key \<times> delivery_record) list \<Rightarrow> (delivery_key \<times> delivery_record) list" where
  "add_deliveries t at outbox inbox ds =
     fold (\<lambda>m. AList.update (t, ''inbox'', ib_message_id m) (inbox_delivery t at m)) inbox
       (fold (\<lambda>m. AList.update (t, ''outbox'', ob_message_id m) (outbox_delivery t m)) outbox ds)"

definition commit_append ::
  "string \<Rightarrow> string \<Rightarrow> string \<Rightarrow> application_event list \<Rightarrow> run_view option \<Rightarrow> outbox_draft list \<Rightarrow>
   inbox_draft list \<Rightarrow> durability_state \<Rightarrow> durability_state" where
  "commit_append t ty a appended projected outbox inbox s =
     s\<lparr>st_event_ids := st_event_ids s \<union> (\<lambda>e. (t, ev_event_id e)) ` set appended,
       st_events := (st_events s)(t \<mapsto> tenant_events s t @ appended),
       st_aggregate_heads := (st_aggregate_heads s)((t, ty, a) \<mapsto>
         \<lparr>ah_sequence = ev_aggregate_sequence (last appended),
          ah_record_hash = ev_record_hash (last appended)\<rparr>),
       st_tenant_heads := (st_tenant_heads s)(t \<mapsto>
         \<lparr>th_cursor = ev_tenant_cursor (last appended), th_record_hash = ev_record_hash (last appended)\<rparr>),
       st_deliveries := add_deliveries t (ev_occurred_at (last appended)) outbox inbox (st_deliveries s),
       st_runs := (case projected of None \<Rightarrow> st_runs s | Some v \<Rightarrow> (st_runs s)((t, a) \<mapsto> v))\<rparr>"

text \<open>\<open>_append_locked\<close>: everything that can fail is computed before the first write.\<close>

definition plan_append ::
  "runtime \<Rightarrow> string \<Rightarrow> string \<Rightarrow> string \<Rightarrow> nat \<Rightarrow> event_draft list \<Rightarrow> outbox_draft list \<Rightarrow> inbox_draft list \<Rightarrow>
   durability_state \<Rightarrow> (application_event list \<times> run_view option) result" where
  "plan_append rt t ty a expected_version drafts outbox inbox s =
     bindE (append_checks s t ty a expected_version drafts outbox inbox) (\<lambda>_.
     bindE (build_events rt t ty a (expected_version + 1) (th_cursor (ten_head s t) + 1)
              (ah_record_hash (agg_head s (t, ty, a))) (th_record_hash (ten_head s t)) drafts) (\<lambda>appended.
     bindE (project_appended rt s t ty a appended) (\<lambda>projected.
     bindE (guardE (appended \<noteq> []) (IndexError ''list index out of range'')) (\<lambda>_.
     Inr (appended, projected)))))"

definition append_locked ::
  "runtime \<Rightarrow> string \<Rightarrow> string \<Rightarrow> string \<Rightarrow> nat \<Rightarrow> event_draft list \<Rightarrow> outbox_draft list \<Rightarrow> inbox_draft list \<Rightarrow>
   (durability_state, application_event list) op" where
  "append_locked rt t ty a expected_version drafts outbox inbox s =
     (case plan_append rt t ty a expected_version drafts outbox inbox s of
        Inl e \<Rightarrow> (Inl e, s)
      | Inr (appended, projected) \<Rightarrow>
          (Inr appended, commit_append t ty a appended projected outbox inbox s))"

definition append_events ::
  "runtime \<Rightarrow> string \<Rightarrow> string \<Rightarrow> string \<Rightarrow> nat \<Rightarrow> event_draft list \<Rightarrow> outbox_draft list \<Rightarrow> inbox_draft list \<Rightarrow>
   (durability_state, application_event list) op" where
  "append_events rt t ty a expected_version drafts outbox inbox =
     bindS (requireS (drafts \<noteq> [] \<and> length drafts \<le> max_events_per_append)
              (ValueError ''event batch is outside the permitted bound'')) (\<lambda>_.
     append_locked rt t ty a expected_version drafts outbox inbox)"

section \<open>Commands\<close>

definition request_fingerprint :: "runtime \<Rightarrow> investigation_request \<Rightarrow> bool \<Rightarrow> string" where
  "request_fingerprint rt request wait =
     sha256_hexdigest rt (canonical_json rt
       (JObj [(''request'', request_json request), (''wait_for_signal'', JBool wait)]))"

definition actor_ref :: "runtime \<Rightarrow> identity_context \<Rightarrow> string" where
  "actor_ref rt i = stable_id rt ''actor'' [id_issuer i, id_subject_id i] 32"

text \<open>\<^verbatim>\<open>telemetry.durable_trace_reference(...).traceparent\<close>; the sampling slot is the number in
  the first eight bytes of the digest, that is, its first sixteen hexadecimal digits.\<close>

definition hex_val :: "char \<Rightarrow> nat" where
  "hex_val c = (if is_digit c then of_char c - 48 else of_char c - 87)"

definition hex_number :: "string \<Rightarrow> nat" where
  "hex_number s = foldl (\<lambda>n c. 16 * n + hex_val c) 0 s"

definition deterministic_sample :: "runtime \<Rightarrow> string \<Rightarrow> nat \<Rightarrow> bool \<Rightarrow> bool result" where
  "deterministic_sample rt correlation_ref rate force =
     (if rate > 10000 then Inl (ValueError ''sampling rate must be between 0 and 10000 basis points'')
      else if force then Inr True
      else Inr (hex_number (take 16 (sha256_hexdigest rt correlation_ref)) mod 10000 < rate))"

definition durable_traceparent :: "runtime \<Rightarrow> string \<Rightarrow> string result" where
  "durable_traceparent rt correlation_ref =
     bindE (deterministic_sample rt correlation_ref 1000 False) (\<lambda>sampled.
     let trace_id = take 32 (sha256_hexdigest rt (''trace:'' @ correlation_ref));
         span_id = take 16 (sha256_hexdigest rt (''span:'' @ correlation_ref))
     in if length trace_id = 32 \<and> length span_id = 16 \<and>
           list_all (\<lambda>c. c \<in> set hex_chars) (trace_id @ span_id) \<and>
           trace_id \<noteq> replicate 32 (CHR ''0'') \<and> span_id \<noteq> replicate 16 (CHR ''0'')
        then Inr (''00-'' @ trace_id @ ''-'' @ span_id @ ''-'' @ (if sampled then ''01'' else ''00''))
        else Inl (ValidationError ''TraceReference''))"

record run_refs =
  rr_run_id :: string
  rr_request_ref :: string
  rr_tenant_ref :: string
  rr_actor_ref :: string
  rr_workflow_id :: string

definition make_run_refs :: "runtime \<Rightarrow> identity_context \<Rightarrow> investigation_request \<Rightarrow> run_refs" where
  "make_run_refs rt i request =
     (let t = id_tenant_id i;
          run_id = stable_id rt ''run'' [t, iq_incident_id request, id_request_id i] 32;
          request_ref = stable_id rt ''request'' [t, id_request_id i] 32;
          tenant_ref = stable_id rt ''tenant'' [t] 32
      in \<lparr>rr_run_id = run_id, rr_request_ref = request_ref, rr_tenant_ref = tenant_ref,
          rr_actor_ref = actor_ref rt i,
          rr_workflow_id = stable_id rt ''workflow'' [tenant_ref, run_id, request_ref] 40\<rparr>)"

definition requested_draft ::
  "runtime \<Rightarrow> investigation_request \<Rightarrow> bool \<Rightarrow> run_refs \<Rightarrow> string \<Rightarrow> datetime \<Rightarrow> event_draft" where
  "requested_draft rt request wait r trace_ref now =
     \<lparr>ev_event_id = stable_id rt ''event'' [rr_run_id r, ''requested''] 32,
      ev_event_type = ''investigation.requested'', ev_occurred_at = now,
      ev_actor_ref = rr_actor_ref r, ev_correlation_ref = rr_request_ref r,
      ev_causation_ref = None, ev_schema_version = 1,
      ev_payload =
        [(''incident_id'', JStr (iq_incident_id request)), (''request'', request_json request),
         (''request_ref'', JStr (rr_request_ref r)), (''run_id'', JStr (rr_run_id r)),
         (''tenant_ref'', JStr (rr_tenant_ref r)), (''trace_ref'', JStr trace_ref),
         (''wait_for_signal'', JBool wait), (''workflow_id'', JStr (rr_workflow_id r))]\<rparr>"

definition start_outbox :: "runtime \<Rightarrow> bool \<Rightarrow> run_refs \<Rightarrow> string \<Rightarrow> datetime \<Rightarrow> outbox_draft" where
  "start_outbox rt wait r trace_ref now =
     \<lparr>ob_message_id = stable_id rt ''outbox'' [rr_run_id r, ''temporal-start''] 32,
      ob_destination = ''temporal'', ob_message_type = ''investigation.start'', ob_available_at = now,
      ob_payload =
        [(''actor_ref'', JStr (rr_actor_ref r)), (''request_ref'', JStr (rr_request_ref r)),
         (''run_id'', JStr (rr_run_id r)), (''tenant_ref'', JStr (rr_tenant_ref r)),
         (''trace_ref'', JStr trace_ref), (''wait_for_signal'', JBool wait),
         (''workflow_id'', JStr (rr_workflow_id r))]\<rparr>"

definition lookup_run :: "durability_state \<Rightarrow> string \<times> string \<Rightarrow> run_view result" where
  "lookup_run s k = (case st_runs s k of None \<Rightarrow> Inl (KeyError ''run'') | Some v \<Rightarrow> Inr v)"

definition accept_run ::
  "runtime \<Rightarrow> datetime \<Rightarrow> identity_context \<Rightarrow> investigation_request \<Rightarrow> bool \<Rightarrow> (durability_state, run_view) op" where
  "accept_run rt now i request wait s =
     (let fingerprint = request_fingerprint rt request wait;
          key = (id_tenant_id i, id_request_id i)
      in case st_idempotency s key of
           Some existing \<Rightarrow>
             if ir_fingerprint existing \<noteq> fingerprint
             then (Inl (IdempotencyConflict ''request id was reused with different durable input''), s)
             else (bindE (lookup_run s (id_tenant_id i, ir_run_id existing))
                     (\<lambda>v. Inr (v\<lparr>rv_replayed := True\<rparr>)), s)
         | None \<Rightarrow>
             let r = make_run_refs rt i request in
             (case bindE (durable_traceparent rt (id_trace_id i)) (\<lambda>trace_ref.
                   bindE (make_event_draft rt (requested_draft rt request wait r trace_ref now)) (\<lambda>draft.
                   bindE (make_outbox_draft rt (start_outbox rt wait r trace_ref now)) (\<lambda>outbox.
                   Inr (draft, outbox)))) of
                Inl e \<Rightarrow> (Inl e, s)
              | Inr (draft, outbox) \<Rightarrow>
                  let s1 = s\<lparr>st_idempotency := (st_idempotency s)(key \<mapsto>
                              \<lparr>ir_fingerprint = fingerprint, ir_run_id = rr_run_id r\<rparr>)\<rparr>
                  in (case append_locked rt (id_tenant_id i) ''investigation'' (rr_run_id r) 0 [draft] [outbox] [] s1 of
                        (Inl e, s2) \<Rightarrow>
                          (Inl e, s2\<lparr>st_idempotency := (st_idempotency s2)(key := None)\<rparr>)
                      | (Inr _, s2) \<Rightarrow> (lookup_run s2 (id_tenant_id i, rr_run_id r), s2))))"

text \<open>\<^verbatim>\<open>payload.update(attributes)\<close> and the assignment of the failure code.\<close>

definition dict_update :: "dict \<Rightarrow> dict \<Rightarrow> dict" where
  "dict_update d new = fold (\<lambda>kv. AList.update (fst kv) (snd kv)) new d"

definition transition_payload :: "string \<Rightarrow> dict option \<Rightarrow> string option \<Rightarrow> dict" where
  "transition_payload run_id attributes failure_code =
     (let p = [(''run_id'', JStr run_id)];
          p = (case attributes of None \<Rightarrow> p | Some at \<Rightarrow> dict_update p at)
      in case failure_code of None \<Rightarrow> p | Some c \<Rightarrow> AList.update ''failure_code'' (JStr c) p)"

definition record_transition ::
  "runtime \<Rightarrow> datetime \<Rightarrow> string \<Rightarrow> string \<Rightarrow> string \<Rightarrow> string \<Rightarrow> string \<Rightarrow> string \<Rightarrow> string option \<Rightarrow> dict option \<Rightarrow>
   (durability_state, run_view) op" where
  "record_transition rt now t run_id event_type operation_id actor request_ref failure_code attributes s =
     (case st_runs s (t, run_id) of
        None \<Rightarrow> (Inl (IntegrityFailure ''durable run does not exist''), s)
      | Some current \<Rightarrow>
          let event_id = stable_id rt ''event'' [run_id, event_type, operation_id] 32 in
          if (t, event_id) \<in> st_event_ids s then (Inr (current\<lparr>rv_replayed := True\<rparr>), s)
          else (case make_event_draft rt
                  \<lparr>ev_event_id = event_id, ev_event_type = event_type, ev_occurred_at = now,
                   ev_actor_ref = actor, ev_correlation_ref = request_ref,
                   ev_causation_ref = Some operation_id, ev_schema_version = 1,
                   ev_payload = transition_payload run_id attributes failure_code\<rparr> of
                  Inl e \<Rightarrow> (Inl e, s)
                | Inr draft \<Rightarrow>
                    (case append_locked rt t ''investigation'' run_id (rv_version current) [draft] [] [] s of
                       (Inl e, s1) \<Rightarrow> (Inl e, s1)
                     | (Inr _, s1) \<Rightarrow> (lookup_run s1 (t, run_id), s1))))"

datatype command_type = Resume | Cancel

fun command_value :: "command_type \<Rightarrow> string" where
  "command_value Resume = ''resume''"
| "command_value Cancel = ''cancel''"

record signal_command =
  sc_command_id :: string
  sc_run_id :: string
  sc_command_type :: command_type

definition resume_count :: "durability_state \<Rightarrow> string \<Rightarrow> string \<Rightarrow> nat" where
  "resume_count s t run_id =
     length (filter (\<lambda>r. dl_tenant_id r = t \<and> dl_direction r = ''inbox'' \<and>
                         dl_message_type r = ''investigation.resume'' \<and>
                         map_of (dl_payload r) ''run_id'' = Some (JStr run_id))
               (map snd (st_deliveries s)))"

definition signal_inbox :: "runtime \<Rightarrow> identity_context \<Rightarrow> signal_command \<Rightarrow> inbox_draft" where
  "signal_inbox rt i c =
     \<lparr>ib_message_id = sc_command_id c, ib_source = ''api'',
      ib_message_type = ''investigation.'' @ command_value (sc_command_type c),
      ib_payload = [(''actor_ref'', JStr (actor_ref rt i)), (''command_id'', JStr (sc_command_id c)),
                    (''run_id'', JStr (sc_run_id c))]\<rparr>"

definition signal_event_type :: "signal_command \<Rightarrow> string" where
  "signal_event_type c = ''investigation.'' @ command_value (sc_command_type c) @ ''_requested''"

definition signal_outbox :: "runtime \<Rightarrow> datetime \<Rightarrow> run_view \<Rightarrow> signal_command \<Rightarrow> outbox_draft" where
  "signal_outbox rt now current c =
     \<lparr>ob_message_id = stable_id rt ''outbox'' [sc_run_id c, sc_command_id c] 32,
      ob_destination = ''temporal'', ob_message_type = signal_event_type c, ob_available_at = now,
      ob_payload = [(''command_ref'', JStr (sc_command_id c)), (''run_id'', JStr (sc_run_id c)),
                    (''workflow_id'', JStr (rv_workflow_id current))]\<rparr>"

definition signal_draft ::
  "runtime \<Rightarrow> datetime \<Rightarrow> identity_context \<Rightarrow> run_view \<Rightarrow> signal_command \<Rightarrow> event_draft" where
  "signal_draft rt now i current c =
     \<lparr>ev_event_id = stable_id rt ''event'' [sc_run_id c, signal_event_type c, sc_command_id c] 32,
      ev_event_type = signal_event_type c, ev_occurred_at = now, ev_actor_ref = actor_ref rt i,
      ev_correlation_ref = rv_request_ref current, ev_causation_ref = Some (sc_command_id c),
      ev_schema_version = 1,
      ev_payload = [(''command_ref'', JStr (sc_command_id c)), (''run_id'', JStr (sc_run_id c))]\<rparr>"

definition accept_signal ::
  "runtime \<Rightarrow> datetime \<Rightarrow> datetime \<Rightarrow> identity_context \<Rightarrow> signal_command \<Rightarrow> (durability_state, run_view) op" where
  "accept_signal rt now1 now2 i c s =
     (let t = id_tenant_id i in
      case st_runs s (t, sc_run_id c) of
        None \<Rightarrow> (Inl (IntegrityFailure ''durable run does not exist''), s)
      | Some current \<Rightarrow>
          (case map_of (st_deliveries s) (t, ''inbox'', sc_command_id c) of
             Some existing \<Rightarrow>
               if dl_message_type existing \<noteq> ''investigation.'' @ command_value (sc_command_type c) \<or>
                  map_of (dl_payload existing) ''run_id'' \<noteq> Some (JStr (sc_run_id c))
               then (Inl (IdempotencyConflict ''signal command id conflicts with an existing command''), s)
               else (Inr (current\<lparr>rv_replayed := True\<rparr>), s)
           | None \<Rightarrow>
               if sc_command_type c = Resume \<and> resume_count s t (sc_run_id c) \<ge> max_resume_commands
               then (Inl (PayloadRejected ''run resume command bound exceeded''), s)
               else (case bindE (make_inbox_draft rt (signal_inbox rt i c)) (\<lambda>inbox.
                          bindE (make_outbox_draft rt (signal_outbox rt now1 current c)) (\<lambda>outbox.
                          bindE (make_event_draft rt (signal_draft rt now2 i current c)) (\<lambda>draft.
                          Inr (inbox, outbox, draft)))) of
                       Inl e \<Rightarrow> (Inl e, s)
                     | Inr (inbox, outbox, draft) \<Rightarrow>
                         (case append_locked rt t ''investigation'' (sc_run_id c) (rv_version current)
                                 [draft] [outbox] [inbox] s of
                            (Inl e, s1) \<Rightarrow> (Inl e, s1)
                          | (Inr _, s1) \<Rightarrow> (lookup_run s1 (t, sc_run_id c), s1)))))"

definition get_run :: "durability_state \<Rightarrow> string \<Rightarrow> string \<Rightarrow> run_view option" where
  "get_run s t run_id = st_runs s (t, run_id)"

definition delivery :: "durability_state \<Rightarrow> string \<Rightarrow> string \<Rightarrow> string \<Rightarrow> delivery_record option" where
  "delivery s t direction message_id = map_of (st_deliveries s) (t, direction, message_id)"

section \<open>Legacy import\<close>

record legacy_event =
  le_event_type :: string
  le_occurred_at :: datetime
  le_payload :: dict

text \<open>The drafts of \<open>replay_legacy\<close>: the caller's \<open>upcast\<close> names the new type and payload, and
  the draft is keyed by the position, counted from 1.\<close>

fun legacy_drafts ::
  "runtime \<Rightarrow> string \<Rightarrow> string \<Rightarrow> string \<Rightarrow> string \<Rightarrow> (legacy_event \<Rightarrow> (string \<times> dict) result) \<Rightarrow> nat \<Rightarrow>
   legacy_event list \<Rightarrow> event_draft list result" where
  "legacy_drafts rt t a actor correlation upcast index [] = Inr []"
| "legacy_drafts rt t a actor correlation upcast index (item # items) =
     bindE (upcast item) (\<lambda>(event_type, payload).
     bindE (make_event_draft rt
       \<lparr>ev_event_id = stable_id rt ''legacy-event'' [t, a, nat_str index, le_event_type item] 32,
        ev_event_type = event_type, ev_occurred_at = le_occurred_at item, ev_actor_ref = actor,
        ev_correlation_ref = correlation, ev_causation_ref = None, ev_schema_version = 1,
        ev_payload = payload\<rparr>) (\<lambda>d.
     bindE (legacy_drafts rt t a actor correlation upcast (index + 1) items) (\<lambda>ds. Inr (d # ds))))"

definition replay_legacy ::
  "runtime \<Rightarrow> string \<Rightarrow> string \<Rightarrow> string \<Rightarrow> string \<Rightarrow> legacy_event list \<Rightarrow>
   (legacy_event \<Rightarrow> (string \<times> dict) result) \<Rightarrow> (durability_state, application_event list) op" where
  "replay_legacy rt t a actor correlation legacy upcast =
     bindS (liftS (legacy_drafts rt t a actor correlation upcast 1 legacy)) (\<lambda>drafts.
     append_events rt t ''investigation'' a 0 drafts [] [])"

end
