(* ===== verification/Ledger_Integrity.thy ===== *)
theory Ledger_Integrity
  imports Ledger_Store
begin

text \<open>
  The verification and rebuild side of \<open>InMemoryDurability\<close>: \<open>verify_integrity\<close> walks a
  tenant's whole chain, \<open>verify_run_integrity\<close> one run's part of it against the stored
  heads, \<open>rebuild_run\<close> and \<open>rebuild_run_projections\<close> recompute the projections from the
  events. Checking re-creates each event's draft, which validates it again, so these
  operations can raise a validation error and return a \<open>result\<close>.
\<close>

section \<open>Verification of a tenant's chain\<close>

definition event_draft_of :: "runtime \<Rightarrow> application_event \<Rightarrow> event_draft result" where
  "event_draft_of rt e = make_event_draft rt
     \<lparr>ev_event_id = ev_event_id e, ev_event_type = ev_event_type e, ev_occurred_at = ev_occurred_at e,
      ev_actor_ref = ev_actor_ref e, ev_correlation_ref = ev_correlation_ref e,
      ev_causation_ref = ev_causation_ref e, ev_schema_version = ev_schema_version e,
      ev_payload = ev_payload e\<rparr>"

definition expected_hash :: "runtime \<Rightarrow> application_event \<Rightarrow> string \<Rightarrow> string \<Rightarrow> string result" where
  "expected_hash rt e aph tph =
     bindE (event_draft_of rt e) (\<lambda>d. Inr (sha256_hexdigest rt
       (event_material rt (ev_tenant_id e) (ev_aggregate_type e) (ev_aggregate_id e)
          (ev_aggregate_sequence e) (ev_tenant_cursor e) d aph tph)))"

definition event_key :: "application_event \<Rightarrow> string \<times> string" where
  "event_key e = (ev_aggregate_type e, ev_aggregate_id e)"

definition event_agg_head :: "application_event \<Rightarrow> aggregate_head" where
  "event_agg_head e = \<lparr>ah_sequence = ev_aggregate_sequence e, ah_record_hash = ev_record_hash e\<rparr>"

definition event_ten_head :: "application_event \<Rightarrow> tenant_head" where
  "event_ten_head e = \<lparr>th_cursor = ev_tenant_cursor e, th_record_hash = ev_record_hash e\<rparr>"

definition event_links ::
  "(string \<times> string \<rightharpoonup> aggregate_head) \<Rightarrow> tenant_head \<Rightarrow> string set \<Rightarrow> application_event \<Rightarrow> string \<Rightarrow> bool" where
  "event_links heads th seen e expected \<longleftrightarrow>
     (let aggregate = get_default heads (event_key e) no_aggregate_head in
      ev_schema_version e = 1 \<and> ev_event_id e \<notin> seen \<and>
      ev_aggregate_sequence e = ah_sequence aggregate + 1 \<and>
      ev_tenant_cursor e = th_cursor th + 1 \<and>
      ev_aggregate_previous_hash e = ah_record_hash aggregate \<and>
      ev_tenant_previous_hash e = th_record_hash th \<and>
      ev_record_hash e = expected)"

fun verify_events ::
  "runtime \<Rightarrow> (string \<times> string \<rightharpoonup> aggregate_head) \<Rightarrow> tenant_head \<Rightarrow> string set \<Rightarrow> application_event list \<Rightarrow>
   bool result" where
  "verify_events rt heads th seen [] = Inr True"
| "verify_events rt heads th seen (e # es) =
     bindE (expected_hash rt e (ah_record_hash (get_default heads (event_key e) no_aggregate_head))
              (th_record_hash th)) (\<lambda>expected.
     if \<not> event_links heads th seen e expected then Inr False
     else verify_events rt (heads(event_key e \<mapsto> event_agg_head e)) (event_ten_head e)
            (insert (ev_event_id e) seen) es)"

definition verify_integrity :: "runtime \<Rightarrow> durability_state \<Rightarrow> string \<Rightarrow> bool result" where
  "verify_integrity rt s t = verify_events rt Map.empty no_tenant_head {} (tenant_events s t)"

section \<open>Verification of one run\<close>

definition is_run_event :: "string \<Rightarrow> application_event \<Rightarrow> bool" where
  "is_run_event run_id e \<longleftrightarrow> ev_aggregate_type e = ''investigation'' \<and> ev_aggregate_id e = run_id"

definition run_events :: "durability_state \<Rightarrow> string \<Rightarrow> string \<Rightarrow> application_event list" where
  "run_events s t run_id = filter (is_run_event run_id) (tenant_events s t)"

definition successor_links :: "application_event list \<Rightarrow> tenant_head \<Rightarrow> application_event \<Rightarrow> bool" where
  "successor_links tes th e =
     (if ev_tenant_cursor e < length tes
      then ev_tenant_previous_hash (tes ! ev_tenant_cursor e) = ev_record_hash e
      else th_record_hash th = ev_record_hash e)"

text \<open>The loop over the run's events. The value \<open>None\<close> is the early \<^verbatim>\<open>return False\<close>, and
  \<open>Some (sequence, hash)\<close> the loop's variables at its end.\<close>

fun verify_run_events ::
  "runtime \<Rightarrow> application_event list \<Rightarrow> tenant_head \<Rightarrow> nat \<Rightarrow> string \<Rightarrow> application_event list \<Rightarrow>
   (nat \<times> string) option result" where
  "verify_run_events rt tes th sequence hash [] = Inr (Some (sequence, hash))"
| "verify_run_events rt tes th sequence hash (e # es) =
     (if ev_tenant_cursor e < 1 \<or> ev_tenant_cursor e > length tes then Inr None
      else let previous = (if ev_tenant_cursor e = 1 then zero_hash
                           else ev_record_hash (tes ! (ev_tenant_cursor e - 2)))
           in bindE (expected_hash rt e hash previous) (\<lambda>expected.
              if ev_schema_version e \<noteq> 1 \<or> ev_aggregate_sequence e \<noteq> sequence + 1 \<or>
                 ev_aggregate_previous_hash e \<noteq> hash \<or> ev_tenant_previous_hash e \<noteq> previous \<or>
                 ev_record_hash e \<noteq> expected
              then Inr None
              else if \<not> successor_links tes th e then Inr None
              else verify_run_events rt tes th (ev_aggregate_sequence e) (ev_record_hash e) es))"

text \<open>The method copies the tenant's events under the lock and reads the stored heads after it
  has released it, so the two may be of different states: \<open>s\<close> is the state the events are
  copied from, \<open>s'\<close> the later state the heads are read from.\<close>

definition verify_run_integrity_at ::
  "runtime \<Rightarrow> durability_state \<Rightarrow> durability_state \<Rightarrow> string \<Rightarrow> string \<Rightarrow> nat \<Rightarrow> bool result" where
  "verify_run_integrity_at rt s s' t run_id maximum =
     (if maximum < 1 \<or> maximum > 10000 then Inl (ValueError ''run integrity event bound is invalid'')
      else let selected = run_events s t run_id in
           if selected = [] \<or> length selected > maximum then Inr False
           else bindE (verify_run_events rt (tenant_events s t) (ten_head s' t) 0 zero_hash selected) (\<lambda>r.
             Inr (case r of
                    None \<Rightarrow> False
                  | Some (sequence, hash) \<Rightarrow>
                      (case st_aggregate_heads s' (t, ''investigation'', run_id) of
                         None \<Rightarrow> False
                       | Some h \<Rightarrow> ah_sequence h = sequence \<and> ah_record_hash h = hash))))"

definition verify_run_integrity ::
  "runtime \<Rightarrow> durability_state \<Rightarrow> string \<Rightarrow> string \<Rightarrow> nat \<Rightarrow> bool result" where
  "verify_run_integrity rt s t run_id maximum = verify_run_integrity_at rt s s t run_id maximum"

section \<open>Rebuilding projections\<close>

text \<open>\<open>_apply_projection_locked\<close>: each event's view is stored as soon as it is computed, so an
  event that fails leaves the views of the events before it.\<close>

fun apply_projection ::
  "runtime \<Rightarrow> application_event list \<Rightarrow> (string \<times> string \<rightharpoonup> run_view) \<Rightarrow>
   unit result \<times> (string \<times> string \<rightharpoonup> run_view)" where
  "apply_projection rt [] runs = (Inr (), runs)"
| "apply_projection rt (e # es) runs =
     (if ev_aggregate_type e \<noteq> ''investigation'' then apply_projection rt es runs
      else let key = (ev_tenant_id e, ev_aggregate_id e) in
           (case reduce_run rt (runs key) e of
              Inl err \<Rightarrow> (Inl err, runs)
            | Inr v \<Rightarrow> apply_projection rt es (runs(key \<mapsto> v))))"

definition rebuild_run_projections ::
  "runtime \<Rightarrow> string \<Rightarrow> (durability_state, projection_checkpoint) op" where
  "rebuild_run_projections rt t s =
     (let runs0 = (\<lambda>k. if fst k = t then None else st_runs s k) in
      case apply_projection rt (tenant_events s t) runs0 of
        (Inl err, runs) \<Rightarrow> (Inl err, s\<lparr>st_runs := runs\<rparr>)
      | (Inr _, runs) \<Rightarrow>
          let head = ten_head s t;
              key = (t, ''investigation-runs'');
              checkpoint = \<lparr>pc_tenant_id = t, pc_projection_name = ''investigation-runs'',
                pc_last_cursor = th_cursor head, pc_last_event_hash = th_record_hash head,
                pc_version = (case st_projection_checkpoints s key of
                   None \<Rightarrow> 1 | Some previous \<Rightarrow> pc_version previous + 1)\<rparr>
          in (Inr checkpoint,
              s\<lparr>st_runs := runs,
                st_projection_checkpoints := (st_projection_checkpoints s)(key \<mapsto> checkpoint)\<rparr>))"

definition rebuild_run :: "runtime \<Rightarrow> string \<Rightarrow> string \<Rightarrow> (durability_state, run_view) op" where
  "rebuild_run rt t run_id s =
     (case verify_integrity rt s t of
        Inl err \<Rightarrow> (Inl err, s)
      | Inr False \<Rightarrow> (Inl (IntegrityFailure ''ledger integrity verification failed''), s)
      | Inr True \<Rightarrow>
          let es = run_events s t run_id in
          if es = [] then (Inl (ValueError ''run does not exist''), s)
          else (case replay_run rt es None of
                  Inl err \<Rightarrow> (Inl err, s)
                | Inr None \<Rightarrow> (Inl (IntegrityFailure ''run projection could not be rebuilt''), s)
                | Inr (Some projection) \<Rightarrow>
                    (Inr projection, s\<lparr>st_runs := (st_runs s)((t, run_id) \<mapsto> projection)\<rparr>)))"

end
