(* ===== verification/Ledger_Invariant.thy ===== *)
theory Ledger_Invariant
  imports Ledger_Integrity Outbox
begin

text \<open>
  The invariant of the event ledger and the proof that every operation of
  \<open>InMemoryDurability\<close> keeps it. For each tenant the stored log is a chain, the stored heads are
  the heads of the log, the set of event identifiers is the set the log holds, and every live
  run view is the replay of the run's events.
\<close>

section \<open>What a verified log has computed\<close>

definition heads_after ::
  "(string \<times> string \<rightharpoonup> aggregate_head) \<Rightarrow> application_event list \<Rightarrow> (string \<times> string \<rightharpoonup> aggregate_head)" where
  "heads_after heads es = fold (\<lambda>e h. h(event_key e \<mapsto> event_agg_head e)) es heads"

definition thead_after :: "tenant_head \<Rightarrow> application_event list \<Rightarrow> tenant_head" where
  "thead_after th es = fold (\<lambda>e _. event_ten_head e) es th"

lemma heads_after_simps [simp]:
  "heads_after h [] = h"
  "heads_after h (e # es) = heads_after (h(event_key e \<mapsto> event_agg_head e)) es"
  "heads_after h (es @ fs) = heads_after (heads_after h es) fs"
  by (simp_all add: heads_after_def)

lemma thead_after_simps [simp]:
  "thead_after th [] = th"
  "thead_after th (e # es) = thead_after (event_ten_head e) es"
  "thead_after th (es @ fs) = thead_after (thead_after th es) fs"
  by (simp_all add: thead_after_def)

definition event_ok ::
  "runtime \<Rightarrow> (string \<times> string \<rightharpoonup> aggregate_head) \<Rightarrow> tenant_head \<Rightarrow> string set \<Rightarrow> application_event \<Rightarrow> bool" where
  "event_ok rt heads th seen e \<longleftrightarrow>
     (\<exists>x. expected_hash rt e (ah_record_hash (get_default heads (event_key e) no_aggregate_head))
            (th_record_hash th) = Inr x \<and> event_links heads th seen e x)"

lemma verify_events_Cons:
  "verify_events rt h th seen (e # es) = Inr True \<longleftrightarrow>
     event_ok rt h th seen e \<and>
     verify_events rt (h(event_key e \<mapsto> event_agg_head e)) (event_ten_head e)
       (insert (ev_event_id e) seen) es = Inr True"
  by (simp add: event_ok_def del: fun_upd_apply) blast

lemma verify_events_append:
  "verify_events rt h th seen (es @ fs) = Inr True \<longleftrightarrow>
     verify_events rt h th seen es = Inr True \<and>
     verify_events rt (heads_after h es) (thead_after th es) (seen \<union> ev_event_id ` set es) fs = Inr True"
proof (induction es arbitrary: h th seen)
  case Nil
  show ?case by simp
next
  case (Cons e es)
  show ?case
    unfolding append_Cons verify_events_Cons Cons.IH by simp
qed

text \<open>What verification checks of an event apart from its schema version: \<open>append\<close> accepts the versions from 1 to 1000, the verifier only 1.\<close>

definition event_chained ::
  "runtime \<Rightarrow> (string \<times> string \<rightharpoonup> aggregate_head) \<Rightarrow> tenant_head \<Rightarrow> string set \<Rightarrow> application_event \<Rightarrow> bool" where
  "event_chained rt heads th seen e \<longleftrightarrow>
     (let aggregate = get_default heads (event_key e) no_aggregate_head in
      expected_hash rt e (ah_record_hash aggregate) (th_record_hash th) = Inr (ev_record_hash e) \<and> ev_event_id e \<notin> seen \<and>
      ev_aggregate_sequence e = ah_sequence aggregate + 1 \<and> ev_tenant_cursor e = th_cursor th + 1 \<and>
      ev_aggregate_previous_hash e = ah_record_hash aggregate \<and> ev_tenant_previous_hash e = th_record_hash th)"

abbreviation first_schema :: "application_event \<Rightarrow> bool" where
  "first_schema e \<equiv> ev_schema_version e = 1"

fun chained_events ::
  "runtime \<Rightarrow> (string \<times> string \<rightharpoonup> aggregate_head) \<Rightarrow> tenant_head \<Rightarrow> string set \<Rightarrow> application_event list \<Rightarrow> bool" where
  "chained_events rt heads th seen [] = True"
| "chained_events rt heads th seen (e # es) =
     (event_chained rt heads th seen e \<and>
      chained_events rt (heads(event_key e \<mapsto> event_agg_head e)) (event_ten_head e) (insert (ev_event_id e) seen) es)"

lemma event_ok_chained: "event_ok rt h th seen e \<longleftrightarrow> event_chained rt h th seen e \<and> first_schema e"
  by (auto simp: event_ok_def event_chained_def event_links_def Let_def)

text \<open>A chain is accepted exactly when all its events have schema version 1.\<close>

lemma verify_chained: "chained_events rt h th seen es \<Longrightarrow> verify_events rt h th seen es = Inr (list_all first_schema es)"
  by (induction es arbitrary: h th seen) (auto simp: event_chained_def event_links_def Let_def)

lemma verify_events_chained: "verify_events rt h th seen es = Inr True \<longleftrightarrow> chained_events rt h th seen es \<and> list_all first_schema es"
proof (induction es arbitrary: h th seen)
  case (Cons e es)
  show ?case unfolding verify_events_Cons Cons.IH event_ok_chained by auto
qed simp

lemma chained_events_append:
  "chained_events rt h th seen (es @ fs) \<longleftrightarrow>
     chained_events rt h th seen es \<and> chained_events rt (heads_after h es) (thead_after th es) (seen \<union> ev_event_id ` set es) fs"
  by (induction es arbitrary: h th seen) auto

section \<open>Drafts as the constructor returns them\<close>

lemma sort_key_map_fst:
  "sort_key fst (map (\<lambda>kv. (fst kv, f (snd kv))) kvs) = map (\<lambda>kv. (fst kv, f (snd kv))) (sort_key fst kvs)"
proof -
  have ins: "insort_key fst (fst kv, f (snd kv)) (map (\<lambda>kv. (fst kv, f (snd kv))) l) =
      map (\<lambda>kv. (fst kv, f (snd kv))) (insort_key fst kv l)" for kv l
    by (induction l) auto
  show ?thesis by (induction kvs) (simp_all add: ins)
qed

lemma dict_sorted_idem [simp]: "dict_sorted (dict_sorted d) = dict_sorted d"
  by (simp add: dict_sorted_def sort_key_id_if_sorted)

lemma canonical_json_dict_sorted [simp]:
  "canonical_json rt (JObj (dict_sorted d)) = canonical_json rt (JObj d)"
  using dict_sorted_idem [of d]
  by (simp add: canonical_json_def dict_sorted_def sort_key_map_fst)

definition draft_ok :: "runtime \<Rightarrow> event_draft \<Rightarrow> bool" where
  "draft_ok rt d \<longleftrightarrow> make_event_draft rt d = Inr d"

lemma make_event_draft_ok:
  assumes "make_event_draft rt d = Inr d'"
  shows "draft_ok rt d'" "ev_schema_version d' = ev_schema_version d"
  using assms
  by (auto simp: draft_ok_def make_event_draft_def valid_event_draft_def split: if_splits)

section \<open>A built batch extends the chain\<close>

lemma build_event_fields:
  assumes "build_event rt t ty a sq cur aph tph d = Inr e"
  shows "ev_tenant_id e = t" "event_key e = (ty, a)" "ev_aggregate_sequence e = sq" "ev_tenant_cursor e = cur"
    "ev_event_id e = ev_event_id d" "ev_schema_version e = ev_schema_version d"
    "ev_event_type e = ev_event_type d" "ev_payload e = ev_payload d" "ev_occurred_at e = ev_occurred_at d"
    "ev_aggregate_previous_hash e = aph" "ev_tenant_previous_hash e = tph"
    "event_draft_of rt e = make_event_draft rt d"
    "ev_record_hash e = sha256_hexdigest rt (event_material rt t ty a sq cur d aph tph)"
  using assms by (cases d; auto simp: build_event_def Let_def event_key_def event_draft_of_def split: if_splits)+

lemma build_event_chained:
  assumes b: "build_event rt t ty a (Suc sq) (Suc cur) aph tph d = Inr e" and d: "draft_ok rt d"
    and heads: "get_default h (ty, a) no_aggregate_head = \<lparr>ah_sequence = sq, ah_record_hash = aph\<rparr>"
    and th: "th = \<lparr>th_cursor = cur, th_record_hash = tph\<rparr>" and fresh: "ev_event_id d \<notin> seen"
  shows "event_chained rt h th seen e"
  using build_event_fields [OF b] d heads th fresh
  by (simp add: event_chained_def expected_hash_def draft_ok_def event_key_def)

lemma build_events_chained:
  assumes "build_events rt t ty a (Suc sq) (Suc cur) aph tph ds = Inr es" "\<forall>d \<in> set ds. draft_ok rt d"
    and "get_default h (ty, a) no_aggregate_head = \<lparr>ah_sequence = sq, ah_record_hash = aph\<rparr>"
    and "th = \<lparr>th_cursor = cur, th_record_hash = tph\<rparr>"
    and "distinct (map ev_event_id ds)" "\<forall>d \<in> set ds. ev_event_id d \<notin> seen"
  shows "chained_events rt h th seen es"
  using assms
proof (induction ds arbitrary: sq cur aph tph h th seen es)
  case Nil
  then show ?case by simp
next
  case (Cons d ds)
  then obtain e fs where e: "build_event rt t ty a (Suc sq) (Suc cur) aph tph d = Inr e"
    and fs: "build_events rt t ty a (Suc (Suc sq)) (Suc (Suc cur)) (ev_record_hash e) (ev_record_hash e) ds = Inr fs"
    and es: "es = e # fs" by auto
  note f = build_event_fields [OF e]
  have ok: "event_chained rt h th seen e"
    using build_event_chained [OF e] Cons.prems by simp
  have "chained_events rt (h(event_key e \<mapsto> event_agg_head e)) (event_ten_head e) (insert (ev_event_id e) seen) fs"
  proof (rule Cons.IH [OF fs])
    show "get_default (h(event_key e \<mapsto> event_agg_head e)) (ty, a) no_aggregate_head =
        \<lparr>ah_sequence = Suc sq, ah_record_hash = ev_record_hash e\<rparr>"
      by (simp add: f get_default_def event_agg_head_def)
    show "\<forall>x \<in> set ds. ev_event_id x \<notin> insert (ev_event_id e) seen"
      using Cons.prems(5,6) f(5) by (auto simp: image_iff)
  qed (use Cons.prems(2,5) f(4) in \<open>simp_all add: event_ten_head_def\<close>)
  with ok es show ?case by (simp only: chained_events.simps)
qed

lemma build_events_fields:
  assumes "build_events rt t ty a sq cur aph tph ds = Inr es"
  shows "map ev_event_id es = map ev_event_id ds" "length es = length ds"
    "\<forall>e \<in> set es. ev_tenant_id e = t \<and> event_key e = (ty, a)"
  using assms
proof (induction ds arbitrary: sq cur aph tph es)
  case Nil
  {
    case 1
    then show ?case by simp
  next
    case 2
    then show ?case by simp
  next
    case 3
    then show ?case by simp
  }
next
  case (Cons d ds)
  {
    case 1
    with Cons.IH(1) show ?case by (auto dest: build_event_fields)
  next
    case 2
    with Cons.IH(2) show ?case by auto
  next
    case 3
    then show ?case using Cons.IH(3) by (fastforce dest: build_event_fields)
  }
qed

lemma build_events_schema:
  "build_events rt t ty a sq cur aph tph ds = Inr es \<Longrightarrow> map ev_schema_version es = map ev_schema_version ds"
  by (induction ds arbitrary: sq cur aph tph es) (auto dest: build_event_fields(6))

lemma heads_after_same_key:
  "es \<noteq> [] \<Longrightarrow> \<forall>e \<in> set es. event_key e = k \<Longrightarrow> heads_after h es = h(k \<mapsto> event_agg_head (last es))"
  by (induction es arbitrary: h) (auto simp: fun_upd_twist)

lemma thead_after_last: "es \<noteq> [] \<Longrightarrow> thead_after th es = event_ten_head (last es)"
  by (induction es arbitrary: th) auto

section \<open>The invariant\<close>

definition tenant_inv :: "runtime \<Rightarrow> durability_state \<Rightarrow> string \<Rightarrow> bool" where
  "tenant_inv rt s t \<longleftrightarrow>
     chained_events rt Map.empty no_tenant_head {} (tenant_events s t) \<and>
     ten_head s t = thead_after no_tenant_head (tenant_events s t) \<and>
     (\<forall>k. st_aggregate_heads s (t, k) = heads_after Map.empty (tenant_events s t) k) \<and>
     (\<forall>i. (t, i) \<in> st_event_ids s \<longleftrightarrow> i \<in> ev_event_id ` set (tenant_events s t)) \<and>
     (\<forall>e \<in> set (tenant_events s t). ev_tenant_id e = t) \<and>
     (\<forall>a. replay_run rt (run_events s t a) None = Inr (st_runs s (t, a)))"

definition ledger_inv :: "runtime \<Rightarrow> durability_state \<Rightarrow> bool" where
  "ledger_inv rt s \<longleftrightarrow> (\<forall>t. tenant_inv rt s t)"

lemma initial_ledger_inv: "ledger_inv rt initial_state"
  by (simp add: ledger_inv_def tenant_inv_def verify_integrity_def initial_state_def tenant_events_def
      get_default_def ten_head_def run_events_def)

text \<open>A tenant's part of the invariant depends on that tenant's part of the state.\<close>

lemma tenant_inv_cong:
  assumes "st_events s' t = st_events s t" "st_tenant_heads s' t = st_tenant_heads s t"
    "\<And>k. st_aggregate_heads s' (t, k) = st_aggregate_heads s (t, k)"
    "\<And>i. (t, i) \<in> st_event_ids s' \<longleftrightarrow> (t, i) \<in> st_event_ids s"
    "\<And>a. st_runs s' (t, a) = st_runs s (t, a)"
  shows "tenant_inv rt s' t = tenant_inv rt s t"
  using assms
  by (simp add: tenant_inv_def verify_integrity_def tenant_events_def ten_head_def get_default_def run_events_def)

section \<open>Append keeps it\<close>

lemma append_locked_cases:
  assumes "append_locked rt t ty a v drafts outbox inbox s = (r, s')"
  obtains (error) e where "r = Inl e" "s' = s"
  | (ok) appended projected where "r = Inr appended"
      "plan_append rt t ty a v drafts outbox inbox s = Inr (appended, projected)"
      "s' = commit_append t ty a appended projected outbox inbox s"
  using assms by (auto simp: append_locked_def split: sum.splits prod.splits)

text \<open>What a planned append has checked and computed.\<close>

lemma plan_append_facts:
  assumes "plan_append rt t ty a v drafts outbox inbox s = Inr (appended, projected)"
  shows "ah_sequence (agg_head s (t, ty, a)) = v"
    "distinct (map ev_event_id drafts)" "\<forall>d \<in> set drafts. (t, ev_event_id d) \<notin> st_event_ids s"
    "distinct (map ob_message_id outbox)" "distinct (map ib_message_id inbox)"
    "\<forall>d \<in> set outbox. map_of (st_deliveries s) (t, ''outbox'', ob_message_id d) = None"
    "\<forall>d \<in> set inbox. map_of (st_deliveries s) (t, ''inbox'', ib_message_id d) = None"
    "build_events rt t ty a (Suc v) (Suc (th_cursor (ten_head s t)))
       (ah_record_hash (agg_head s (t, ty, a))) (th_record_hash (ten_head s t)) drafts = Inr appended"
    "project_appended rt s t ty a appended = Inr projected" "appended \<noteq> []"
  using assms by (simp_all add: plan_append_def append_checks_def)

lemma replay_run_nonempty: "replay_run rt es c = Inr c' \<Longrightarrow> es \<noteq> [] \<Longrightarrow> \<exists>v. c' = Some v"
  by (cases es) (auto simp: replay_run_Cons run_machine_replay [symmetric] dest: run_machine.replay_Some)

lemma commit_append_other:
  "t' \<noteq> t \<Longrightarrow> tenant_inv rt (commit_append t ty a appended projected outbox inbox s) t' = tenant_inv rt s t'"
  by (rule tenant_inv_cong) (auto simp: commit_append_def split: option.split)

lemma tenant_events_commit [simp]:
  "tenant_events (commit_append t ty a appended projected outbox inbox s) t = tenant_events s t @ appended"
  by (simp add: tenant_events_def commit_append_def get_default_def)

lemma commit_append_schema:
  assumes "plan_append rt t ty a v drafts outbox inbox s = Inr (appended, projected)"
  shows "list_all first_schema (tenant_events (commit_append t ty a appended projected outbox inbox s) t) \<longleftrightarrow>
    list_all first_schema (tenant_events s t) \<and> (\<forall>d \<in> set drafts. ev_schema_version d = 1)"
proof -
  have "list_all (\<lambda>n. n = 1) (map ev_schema_version appended) \<longleftrightarrow> list_all (\<lambda>n. n = 1) (map ev_schema_version drafts)"
    by (simp only: build_events_schema [OF plan_append_facts(8) [OF assms]])
  then have "list_all first_schema appended \<longleftrightarrow> (\<forall>d \<in> set drafts. ev_schema_version d = 1)" by (simp add: list_all_iff)
  then show ?thesis by (simp only: tenant_events_commit list_all_append)
qed

lemma commit_append_fields [simp]:
  fixes t ty a appended projected outbox inbox s
  defines "s' \<equiv> commit_append t ty a appended projected outbox inbox s"
  shows "st_aggregate_heads s' = (st_aggregate_heads s)((t, ty, a) \<mapsto> event_agg_head (last appended))"
    "st_tenant_heads s' = (st_tenant_heads s)(t \<mapsto> event_ten_head (last appended))"
    "st_event_ids s' = st_event_ids s \<union> (\<lambda>e. (t, ev_event_id e)) ` set appended"
    "st_idempotency s' = st_idempotency s"
    "st_deliveries s' = add_deliveries t (ev_occurred_at (last appended)) outbox inbox (st_deliveries s)"
    "st_runs s' = (case projected of None \<Rightarrow> st_runs s | Some v \<Rightarrow> (st_runs s)((t, a) \<mapsto> v))"
    "st_projection_checkpoints s' = st_projection_checkpoints s"
  by (simp_all add: s'_def commit_append_def event_agg_head_def event_ten_head_def)

lemma run_events_commit:
  assumes "\<forall>e \<in> set appended. event_key e = (ty, a)"
  shows "run_events (commit_append t ty a appended projected outbox inbox s) t a' =
    run_events s t a' @ (if ty = ''investigation'' \<and> a' = a then appended else [])"
  using assms by (auto simp: run_events_def is_run_event_def event_key_def intro: filter_True filter_False)

lemma commit_append_projection:
  assumes plan: "plan_append rt t ty a v drafts outbox inbox s = Inr (appended, projected)"
    and inv: "\<forall>a. replay_run rt (run_events s t a) None = Inr (st_runs s (t, a))"
  defines "s' \<equiv> commit_append t ty a appended projected outbox inbox s"
  shows "replay_run rt (run_events s' t a') None = Inr (st_runs s' (t, a'))"
proof -
  note p = plan_append_facts [OF plan]
  have runs: "run_events s' t a' = run_events s t a' @ (if ty = ''investigation'' \<and> a' = a then appended else [])"
    unfolding s'_def by (rule run_events_commit) (use build_events_fields(3) [OF p(8)] in blast)
  show ?thesis
  proof (cases "ty = ''investigation''")
    case False
    with p(9) have "st_runs s' = st_runs s"
      by (simp add: s'_def project_appended_def)
    with False runs inv show ?thesis by simp
  next
    case True
    with p(9) have "replay_run rt appended (st_runs s (t, a)) = Inr projected"
      by (simp add: project_appended_def)
    with replay_run_nonempty [OF this p(10)] runs inv True show ?thesis
      by (auto simp: s'_def replay_run_append)
  qed
qed

lemma commit_append_inv:
  assumes plan: "plan_append rt t ty a v drafts outbox inbox s = Inr (appended, projected)"
    and inv: "tenant_inv rt s t" and ok: "\<forall>d \<in> set drafts. draft_ok rt d"
  shows "tenant_inv rt (commit_append t ty a appended projected outbox inbox s) t" (is "tenant_inv rt ?s t")
proof -
  note p = plan_append_facts [OF plan] and i = inv [unfolded tenant_inv_def]
  note f = build_events_fields [OF p(8)]
  let ?es = "tenant_events s t"
  have ids: "ev_event_id ` set appended = ev_event_id ` set drafts"
    using f(1) by (metis list.set_map)
  have "chained_events rt (heads_after Map.empty ?es) (thead_after no_tenant_head ?es)
      (ev_event_id ` set ?es) appended"
  proof (rule build_events_chained [OF p(8) ok])
    show "get_default (heads_after Map.empty ?es) (ty, a) no_aggregate_head =
        \<lparr>ah_sequence = v, ah_record_hash = ah_record_hash (agg_head s (t, ty, a))\<rparr>"
      using i p(1) by (simp add: agg_head_def get_default_def)
    show "thead_after no_tenant_head ?es =
        \<lparr>th_cursor = th_cursor (ten_head s t), th_record_hash = th_record_hash (ten_head s t)\<rparr>"
      using i by simp
  qed (use p(2,3) i in blast)+
  with i have v: "chained_events rt Map.empty no_tenant_head {} (tenant_events ?s t)"
    by (simp add: chained_events_append)
  have heads: "st_aggregate_heads ?s (t, k) = heads_after Map.empty (tenant_events ?s t) k" for k
    using i f(3) p(10) by (cases k) (simp add: heads_after_same_key [of _ "(ty, a)"])
  have th: "ten_head ?s t = thead_after no_tenant_head (tenant_events ?s t)"
    using p(10) by (simp add: thead_after_last ten_head_def get_default_def)
  have tenant: "\<forall>e \<in> set (tenant_events ?s t). ev_tenant_id e = t"
    using i f(3) by auto
  have seen: "(t, x) \<in> st_event_ids ?s \<longleftrightarrow> x \<in> ev_event_id ` set (tenant_events ?s t)" for x
    using i by auto
  from v heads th tenant seen commit_append_projection [OF plan] i show ?thesis
    unfolding tenant_inv_def by blast
qed

theorem append_locked_inv:
  assumes "ledger_inv rt s" "\<forall>d \<in> set drafts. draft_ok rt d"
    and "append_locked rt t ty a v drafts outbox inbox s = (r, s')"
  shows "ledger_inv rt s'"
  using assms(3)
proof (cases rule: append_locked_cases)
  case (error e)
  with assms(1) show ?thesis by simp
next
  case (ok appended projected)
  with assms(1,2) commit_append_inv commit_append_other show ?thesis
    unfolding ledger_inv_def by metis
qed

section \<open>The other fields do not matter to it\<close>

lemma ledger_inv_frame [simp]:
  "ledger_inv rt (s\<lparr>st_deliveries := ds\<rparr>) = ledger_inv rt s"
  "ledger_inv rt (s\<lparr>st_idempotency := im\<rparr>) = ledger_inv rt s"
  "ledger_inv rt (s\<lparr>st_projection_checkpoints := cs\<rparr>) = ledger_inv rt s"
  by (simp_all add: ledger_inv_def tenant_inv_def verify_integrity_def tenant_events_def ten_head_def
      run_events_def)

section \<open>Rebuilding changes nothing\<close>

text \<open>The rebuild of a tenant is the pointwise replay of its runs.\<close>

lemma apply_projection_replay:
  assumes "\<forall>e \<in> set es. ev_tenant_id e = t"
    and "\<And>a. replay_run rt (filter (is_run_event a) es) (runs (t, a)) = Inr (g a)"
  shows "apply_projection rt es runs = (Inr (), \<lambda>k. if fst k = t then g (snd k) else runs k)"
  using assms
proof (induction es arbitrary: runs)
  case Nil
  then have "runs (t, a) = g a" for a by simp
  then show ?case by (auto simp: fun_eq_iff)
next
  case (Cons e es)
  let ?a = "ev_aggregate_id e"
  show ?case
  proof (cases "ev_aggregate_type e = ''investigation''")
    case False
    then have "\<not> is_run_event a e" for a by (simp add: is_run_event_def)
    with False Cons show ?thesis by simp
  next
    case True
    have "replay_run rt (e # filter (is_run_event ?a) es) (runs (t, ?a)) = Inr (g ?a)"
      using Cons.prems(2) [of ?a] True by (simp add: is_run_event_def [of ?a e])
    then obtain v where v: "reduce_run rt (runs (t, ?a)) e = Inr v"
      and rest: "replay_run rt (filter (is_run_event ?a) es) (Some v) = Inr (g ?a)"
      by (auto simp: replay_run_Cons)
    have "replay_run rt (filter (is_run_event a) es) ((runs((t, ?a) \<mapsto> v)) (t, a)) = Inr (g a)" for a
      using rest Cons.prems(2) [of a] by (cases "a = ?a") (auto simp: is_run_event_def [of _ e])
    moreover have "(\<lambda>k. if fst k = t then g (snd k) else (runs((t, ?a) \<mapsto> v)) k) =
        (\<lambda>k. if fst k = t then g (snd k) else runs k)" by auto
    ultimately show ?thesis
      using Cons.IH Cons.prems(1) v True by (simp del: fun_upd_apply)
  qed
qed

lemma rebuild_run_projections_inv:
  assumes "ledger_inv rt s"
  shows "\<exists>c. rebuild_run_projections rt t s =
    (Inr c, s\<lparr>st_projection_checkpoints := (st_projection_checkpoints s)((t, ''investigation-runs'') \<mapsto> c)\<rparr>)"
proof -
  let ?runs0 = "\<lambda>k. if fst k = t then None else st_runs s k"
  have "apply_projection rt (tenant_events s t) ?runs0 =
      (Inr (), \<lambda>k. if fst k = t then st_runs s (t, snd k) else ?runs0 k)"
    by (rule apply_projection_replay)
      (use assms in \<open>simp_all add: ledger_inv_def tenant_inv_def run_events_def\<close>)
  moreover have "(\<lambda>k. if fst k = t then st_runs s (t, snd k) else ?runs0 k) = st_runs s"
    by (auto simp: fun_eq_iff)
  ultimately show ?thesis
    by (simp add: rebuild_run_projections_def Let_def)
qed

lemma ledger_inv_chained: "ledger_inv rt s \<Longrightarrow> chained_events rt Map.empty no_tenant_head {} (tenant_events s t)"
  by (simp add: ledger_inv_def tenant_inv_def)

lemma ledger_inv_verify: "ledger_inv rt s \<Longrightarrow> verify_integrity rt s t = Inr (list_all first_schema (tenant_events s t))"
  by (simp add: verify_integrity_def verify_chained ledger_inv_chained)

lemma rebuild_run_inv:
  assumes "ledger_inv rt s"
  shows "rebuild_run rt t run_id s =
    (if \<not> list_all first_schema (tenant_events s t) then (Inl (IntegrityFailure ''ledger integrity verification failed''), s)
     else case st_runs s (t, run_id) of
       None \<Rightarrow> (Inl (ValueError ''run does not exist''), s) | Some v \<Rightarrow> (Inr v, s))"
proof (cases "list_all first_schema (tenant_events s t)")
  case False
  with ledger_inv_verify [OF assms, of t] show ?thesis by (simp add: rebuild_run_def)
next
  case True
  with ledger_inv_verify [OF assms, of t] have v: "verify_integrity rt s t = Inr True" by simp
  from assms have r: "replay_run rt (run_events s t run_id) None = Inr (st_runs s (t, run_id))"
    by (simp add: ledger_inv_def tenant_inv_def)
  show ?thesis
  proof (cases "run_events s t run_id = []")
    case True
    with r v \<open>list_all _ _\<close> show ?thesis by (simp add: rebuild_run_def)
  next
    case False
    with replay_run_nonempty [OF r] v r \<open>list_all _ _\<close> show ?thesis
      by (auto simp: rebuild_run_def)
  qed
qed

end
