(* ===== verification/Ledger_Commands.thy ===== *)
theory Ledger_Commands
  imports Ledger_Invariant
begin

text \<open>
  The outcomes of the commands of \<open>InMemoryDurability\<close>, one case rule per command, and what
  follows from them: every command keeps the ledger invariant, a command that raises leaves
  the store as it was, and the histories of the store as a step relation.
\<close>

section \<open>The outcomes of the commands\<close>

definition idempotency_entry :: "runtime \<Rightarrow> identity_context \<Rightarrow> investigation_request \<Rightarrow> bool \<Rightarrow> idempotency_record" where
  "idempotency_entry rt i q w =
     \<lparr>ir_fingerprint = request_fingerprint rt q w, ir_run_id = rr_run_id (make_run_refs rt i q)\<rparr>"

definition with_entry ::
  "runtime \<Rightarrow> identity_context \<Rightarrow> investigation_request \<Rightarrow> bool \<Rightarrow> durability_state \<Rightarrow> durability_state" where
  "with_entry rt i q w s =
     s\<lparr>st_idempotency := (st_idempotency s)((id_tenant_id i, id_request_id i) \<mapsto> idempotency_entry rt i q w)\<rparr>"

lemma append_investigation_lookup:
  assumes "plan_append rt t ''investigation'' a v drafts outbox inbox s = Inr (appended, projected)"
  obtains w where "projected = Some w" "replay_run rt appended (st_runs s (t, a)) = Inr (Some w)"
    "lookup_run (commit_append t ''investigation'' a appended projected outbox inbox s) (t, a) = Inr w"
proof -
  from plan_append_facts(9,10) [OF assms]
  have "replay_run rt appended (st_runs s (t, a)) = Inr projected" "appended \<noteq> []"
    by (simp_all add: project_appended_def)
  with replay_run_nonempty that show ?thesis by (fastforce simp: lookup_run_def)
qed

lemma accept_run_fresh:
  assumes "st_idempotency s (id_tenant_id i, id_request_id i) = None"
  shows "accept_run rt now i q w s =
    (let r = make_run_refs rt i q in
     case bindE (durable_traceparent rt (id_trace_id i)) (\<lambda>trace_ref.
          bindE (make_event_draft rt (requested_draft rt q w r trace_ref now)) (\<lambda>draft.
          bindE (make_outbox_draft rt (start_outbox rt w r trace_ref now)) (\<lambda>outbox. Inr (draft, outbox)))) of
       Inl e \<Rightarrow> (Inl e, s)
     | Inr (draft, outbox) \<Rightarrow>
         (case append_locked rt (id_tenant_id i) ''investigation'' (rr_run_id r) 0 [draft] [outbox] []
                 (with_entry rt i q w s) of
            (Inl e, s2) \<Rightarrow>
              (Inl e, s2\<lparr>st_idempotency := (st_idempotency s2)((id_tenant_id i, id_request_id i) := None)\<rparr>)
          | (Inr _, s2) \<Rightarrow> (lookup_run s2 (id_tenant_id i, rr_run_id r), s2)))"
  unfolding accept_run_def Let_def with_entry_def idempotency_entry_def assms by simp

text \<open>The error outcomes of \<open>accept_run\<close> leave the store as it was: the idempotency entry that
  the method writes before the append is popped again.\<close>

lemma accept_run_cases:
  assumes "accept_run rt now i q w s = (r, s')"
  obtains (conflict) existing where "st_idempotency s (id_tenant_id i, id_request_id i) = Some existing"
      "ir_fingerprint existing \<noteq> request_fingerprint rt q w"
      "r = Inl (IdempotencyConflict ''request id was reused with different durable input'')" "s' = s"
  | (replayed) existing where "st_idempotency s (id_tenant_id i, id_request_id i) = Some existing"
      "ir_fingerprint existing = request_fingerprint rt q w"
      "r = bindE (lookup_run s (id_tenant_id i, ir_run_id existing)) (\<lambda>v. Inr (v\<lparr>rv_replayed := True\<rparr>))" "s' = s"
  | (error) e where "st_idempotency s (id_tenant_id i, id_request_id i) = None" "r = Inl e" "s' = s"
  | (accepted) trace_ref draft outbox appended v
    where "st_idempotency s (id_tenant_id i, id_request_id i) = None"
      "make_event_draft rt (requested_draft rt q w (make_run_refs rt i q) trace_ref now) = Inr draft"
      "make_outbox_draft rt (start_outbox rt w (make_run_refs rt i q) trace_ref now) = Inr outbox"
      "plan_append rt (id_tenant_id i) ''investigation'' (rr_run_id (make_run_refs rt i q)) 0 [draft] [outbox] []
         (with_entry rt i q w s) = Inr (appended, Some v)"
      "r = Inr v"
      "s' = commit_append (id_tenant_id i) ''investigation'' (rr_run_id (make_run_refs rt i q)) appended (Some v)
         [outbox] [] (with_entry rt i q w s)"
proof (cases "st_idempotency s (id_tenant_id i, id_request_id i)")
  case (Some existing)
  show thesis
  proof (cases "ir_fingerprint existing = request_fingerprint rt q w")
    case True
    with Some assms show thesis by (intro replayed [OF Some True]) (auto simp: accept_run_def Let_def)
  next
    case False
    with Some assms show thesis by (intro conflict [OF Some False]) (simp_all add: accept_run_def Let_def)
  qed
next
  case None
  let ?r = "make_run_refs rt i q"
  let ?made = "bindE (durable_traceparent rt (id_trace_id i)) (\<lambda>trace_ref.
      bindE (make_event_draft rt (requested_draft rt q w ?r trace_ref now)) (\<lambda>draft.
      bindE (make_outbox_draft rt (start_outbox rt w ?r trace_ref now)) (\<lambda>outbox. Inr (draft, outbox))))"
  have undo: "s\<lparr>st_idempotency := (st_idempotency s)((id_tenant_id i, id_request_id i) := None)\<rparr> = s"
    using None by (simp add: fun_upd_idem)
  note unfolded = accept_run_fresh [OF None, of rt now q w, unfolded Let_def]
  show thesis
  proof (cases ?made)
    case (Inl e)
    with unfolded assms None error show thesis by simp
  next
    case (Inr made)
    then obtain trace_ref draft outbox where made: "made = (draft, outbox)"
      "make_event_draft rt (requested_draft rt q w ?r trace_ref now) = Inr draft"
      "make_outbox_draft rt (start_outbox rt w ?r trace_ref now) = Inr outbox" by auto
    obtain r2 s2 where a: "append_locked rt (id_tenant_id i) ''investigation'' (rr_run_id ?r) 0 [draft] [outbox] []
        (with_entry rt i q w s) = (r2, s2)" by (cases rule: prod.exhaust)
    then show thesis
    proof (cases rule: append_locked_cases)
      case (error e)
      with a unfolded Inr made(1) assms undo that(3) [OF None] show thesis
        by (simp add: with_entry_def)
    next
      case (ok appended projected)
      from append_investigation_lookup [OF ok(2)] obtain v where "projected = Some v"
        "lookup_run s2 (id_tenant_id i, rr_run_id ?r) = Inr v" using ok(3) by metis
      with a unfolded Inr made assms ok that(4) [OF None made(2,3)] show thesis by simp
    qed
  qed
qed

definition transition_draft ::
  "runtime \<Rightarrow> datetime \<Rightarrow> string \<Rightarrow> string \<Rightarrow> string \<Rightarrow> string \<Rightarrow> string \<Rightarrow> string option \<Rightarrow> dict option \<Rightarrow> event_draft" where
  "transition_draft rt now run_id event_type operation_id actor request_ref failure_code attributes =
     \<lparr>ev_event_id = stable_id rt ''event'' [run_id, event_type, operation_id] 32, ev_event_type = event_type,
      ev_occurred_at = now, ev_actor_ref = actor, ev_correlation_ref = request_ref,
      ev_causation_ref = Some operation_id, ev_schema_version = 1,
      ev_payload = transition_payload run_id attributes failure_code\<rparr>"

lemma record_transition_fresh:
  assumes "st_runs s (t, run_id) = Some current"
    and "(t, stable_id rt ''event'' [run_id, event_type, operation_id] 32) \<notin> st_event_ids s"
  shows "record_transition rt now t run_id event_type operation_id actor request_ref failure_code attributes s =
    (case make_event_draft rt (transition_draft rt now run_id event_type operation_id actor request_ref
            failure_code attributes) of
       Inl e \<Rightarrow> (Inl e, s)
     | Inr draft \<Rightarrow>
         (case append_locked rt t ''investigation'' run_id (rv_version current) [draft] [] [] s of
            (Inl e, s1) \<Rightarrow> (Inl e, s1) | (Inr _, s1) \<Rightarrow> (lookup_run s1 (t, run_id), s1)))"
  using assms by (simp add: record_transition_def transition_draft_def)

lemma record_transition_cases:
  assumes "record_transition rt now t run_id event_type operation_id actor request_ref failure_code attributes s = (r, s')"
  obtains (error) e where "r = Inl e" "s' = s"
  | (replayed) current where "st_runs s (t, run_id) = Some current"
      "(t, stable_id rt ''event'' [run_id, event_type, operation_id] 32) \<in> st_event_ids s"
      "r = Inr (current\<lparr>rv_replayed := True\<rparr>)" "s' = s"
  | (recorded) current draft appended v where "st_runs s (t, run_id) = Some current"
      "(t, stable_id rt ''event'' [run_id, event_type, operation_id] 32) \<notin> st_event_ids s"
      "make_event_draft rt (transition_draft rt now run_id event_type operation_id actor request_ref
         failure_code attributes) = Inr draft"
      "plan_append rt t ''investigation'' run_id (rv_version current) [draft] [] [] s = Inr (appended, Some v)"
      "r = Inr v" "s' = commit_append t ''investigation'' run_id appended (Some v) [] [] s"
proof (cases "st_runs s (t, run_id)")
  case None
  with assms error show thesis by (auto simp: record_transition_def)
next
  case (Some current)
  let ?seen = "(t, stable_id rt ''event'' [run_id, event_type, operation_id] 32) \<in> st_event_ids s"
  let ?draft = "transition_draft rt now run_id event_type operation_id actor request_ref failure_code attributes"
  show thesis
  proof (cases ?seen)
    case True
    with assms replayed [OF Some True] Some show thesis by (simp add: record_transition_def)
  next
    case False
    note d = assms [unfolded record_transition_fresh [OF Some False]]
    show thesis
    proof (cases "make_event_draft rt ?draft")
      case (Inl e)
      with d error show thesis by auto
    next
      case (Inr draft)
      obtain r2 s2 where a: "append_locked rt t ''investigation'' run_id (rv_version current) [draft] [] [] s = (r2, s2)"
        by (cases rule: prod.exhaust)
      then show thesis
      proof (cases rule: append_locked_cases)
        case (error e)
        with a d Inr that(1) show thesis by auto
      next
        case (ok appended projected)
        from append_investigation_lookup [OF ok(2)] obtain v where "projected = Some v"
          "lookup_run s2 (t, run_id) = Inr v" using ok(3) by metis
        with a d Inr ok that(3) [OF Some False Inr] show thesis by auto
      qed
    qed
  qed
qed

lemma accept_signal_fresh:
  assumes "st_runs s (id_tenant_id i, sc_run_id c) = Some current"
    and "map_of (st_deliveries s) (id_tenant_id i, ''inbox'', sc_command_id c) = None"
  shows "accept_signal rt now1 now2 i c s =
    (if sc_command_type c = Resume \<and> resume_count s (id_tenant_id i) (sc_run_id c) \<ge> max_resume_commands
     then (Inl (PayloadRejected ''run resume command bound exceeded''), s)
     else case bindE (make_inbox_draft rt (signal_inbox rt i c)) (\<lambda>inbox.
        bindE (make_outbox_draft rt (signal_outbox rt now1 current c)) (\<lambda>outbox.
        bindE (make_event_draft rt (signal_draft rt now2 i current c)) (\<lambda>draft. Inr (inbox, outbox, draft)))) of
       Inl e \<Rightarrow> (Inl e, s)
     | Inr (inbox, outbox, draft) \<Rightarrow>
        (case append_locked rt (id_tenant_id i) ''investigation'' (sc_run_id c) (rv_version current)
                [draft] [outbox] [inbox] s of
           (Inl e, s1) \<Rightarrow> (Inl e, s1) | (Inr _, s1) \<Rightarrow> (lookup_run s1 (id_tenant_id i, sc_run_id c), s1)))"
  unfolding accept_signal_def Let_def assms by simp

lemma accept_signal_cases:
  assumes "accept_signal rt now1 now2 i c s = (r, s')"
  defines "t \<equiv> id_tenant_id i"
  obtains (error) e where "r = Inl e" "s' = s"
  | (replayed) current existing where "st_runs s (t, sc_run_id c) = Some current"
      "map_of (st_deliveries s) (t, ''inbox'', sc_command_id c) = Some existing"
      "dl_message_type existing = ''investigation.'' @ command_value (sc_command_type c)"
      "map_of (dl_payload existing) ''run_id'' = Some (JStr (sc_run_id c))"
      "r = Inr (current\<lparr>rv_replayed := True\<rparr>)" "s' = s"
  | (accepted) current inbox outbox draft appended v where "st_runs s (t, sc_run_id c) = Some current"
      "map_of (st_deliveries s) (t, ''inbox'', sc_command_id c) = None"
      "sc_command_type c = Resume \<Longrightarrow> resume_count s t (sc_run_id c) < max_resume_commands"
      "make_inbox_draft rt (signal_inbox rt i c) = Inr inbox"
      "make_outbox_draft rt (signal_outbox rt now1 current c) = Inr outbox"
      "make_event_draft rt (signal_draft rt now2 i current c) = Inr draft"
      "plan_append rt t ''investigation'' (sc_run_id c) (rv_version current) [draft] [outbox] [inbox] s =
         Inr (appended, Some v)"
      "r = Inr v" "s' = commit_append t ''investigation'' (sc_run_id c) appended (Some v) [outbox] [inbox] s"
proof (cases "st_runs s (t, sc_run_id c)")
  case None
  with assms error show thesis by (auto simp: accept_signal_def Let_def)
next
  case (Some current)
  show thesis
  proof (cases "map_of (st_deliveries s) (t, ''inbox'', sc_command_id c)")
    case (Some existing)
    let ?same = "dl_message_type existing = ''investigation.'' @ command_value (sc_command_type c) \<and>
        map_of (dl_payload existing) ''run_id'' = Some (JStr (sc_run_id c))"
    show thesis
    proof (cases ?same)
      case True
      with assms Some \<open>st_runs s (t, sc_run_id c) = Some current\<close> show thesis
        by (intro replayed [OF \<open>st_runs s (t, sc_run_id c) = Some current\<close> Some]) (auto simp: accept_signal_def Let_def)
    next
      case False
      with assms Some \<open>st_runs s (t, sc_run_id c) = Some current\<close> error show thesis
        by (auto simp: accept_signal_def Let_def)
    qed
  next
    case None
    let ?made = "bindE (make_inbox_draft rt (signal_inbox rt i c)) (\<lambda>inbox.
        bindE (make_outbox_draft rt (signal_outbox rt now1 current c)) (\<lambda>outbox.
        bindE (make_event_draft rt (signal_draft rt now2 i current c)) (\<lambda>draft. Inr (inbox, outbox, draft))))"
    let ?bound = "sc_command_type c = Resume \<and> resume_count s t (sc_run_id c) \<ge> max_resume_commands"
    note d = accept_signal_fresh [OF Some [unfolded t_def] None [unfolded t_def], of rt now1 now2, folded t_def]
    show thesis
    proof (cases "?bound \<or> (\<exists>e. ?made = Inl e)")
      case True
      with d assms(1) error show thesis by (auto split: if_splits)
    next
      case False
      then obtain inbox outbox draft where m: "make_inbox_draft rt (signal_inbox rt i c) = Inr inbox"
        "make_outbox_draft rt (signal_outbox rt now1 current c) = Inr outbox"
        "make_event_draft rt (signal_draft rt now2 i current c) = Inr draft"
        by (cases "?made") auto
      obtain r2 s2 where a: "append_locked rt t ''investigation'' (sc_run_id c) (rv_version current)
          [draft] [outbox] [inbox] s = (r2, s2)" by (cases rule: prod.exhaust)
      then show thesis
      proof (cases rule: append_locked_cases)
        case (error e)
        with a d False m assms(1) that(1) show thesis by auto
      next
        case (ok appended projected)
        from append_investigation_lookup [OF ok(2)] obtain v where "projected = Some v"
          "lookup_run s2 (t, sc_run_id c) = Inr v" using ok(3) by metis
        with a d False m assms(1) ok show thesis
          by (intro that(3) [OF Some None _ m]) auto
      qed
    qed
  qed
qed

section \<open>Every command keeps the invariant\<close>

lemma with_entry_simps [simp]:
  "ledger_inv rt (with_entry rt' i q w s) = ledger_inv rt s" "st_runs (with_entry rt' i q w s) = st_runs s"
  "st_deliveries (with_entry rt' i q w s) = st_deliveries s"
  "st_events (with_entry rt' i q w s) = st_events s"
  by (simp_all add: with_entry_def)

lemma plan_append_inv:
  assumes "ledger_inv rt s" "\<forall>d \<in> set drafts. draft_ok rt d"
    and "plan_append rt t ty a v drafts outbox inbox s = Inr (appended, projected)"
  shows "ledger_inv rt (commit_append t ty a appended projected outbox inbox s)"
  by (rule append_locked_inv [OF assms(1,2), of t ty a v outbox inbox "Inr appended"])
    (simp add: append_locked_def assms(3))

lemma accept_run_inv:
  assumes "ledger_inv rt s" "accept_run rt now i q w s = (r, s')"
  shows "ledger_inv rt s'"
  using assms(2)
proof (cases rule: accept_run_cases)
  case (accepted trace_ref draft outbox appended v)
  have "draft_ok rt draft"
    by (rule make_event_draft_ok(1) [OF accepted(2)])
  with plan_append_inv [OF _ _ accepted(4)] accepted(6) assms(1) show ?thesis by simp
qed (use assms(1) in auto)

lemma record_transition_inv:
  assumes "ledger_inv rt s"
    and "record_transition rt now t run_id ty op actor ref fc attributes s = (r, s')"
  shows "ledger_inv rt s'"
  using assms(2)
proof (cases rule: record_transition_cases)
  case (recorded current draft appended v)
  have "draft_ok rt draft"
    by (rule make_event_draft_ok(1) [OF recorded(3)])
  with plan_append_inv [OF _ _ recorded(4)] recorded(6) assms(1) show ?thesis by simp
qed (use assms(1) in auto)

lemma accept_signal_inv:
  assumes "ledger_inv rt s" "accept_signal rt now1 now2 i c s = (r, s')"
  shows "ledger_inv rt s'"
  using assms(2)
proof (cases rule: accept_signal_cases)
  case (accepted current inbox outbox draft appended v)
  have "draft_ok rt draft"
    by (rule make_event_draft_ok(1) [OF accepted(6)])
  with plan_append_inv [OF _ _ accepted(7)] accepted(9) assms(1) show ?thesis by simp
qed (use assms(1) in auto)

lemma append_events_cases:
  assumes "append_events rt t ty a v drafts outbox inbox s = (r, s')"
  obtains (bound) e where "r = Inl e" "s' = s"
  | (append) "drafts \<noteq> []" "length drafts \<le> max_events_per_append"
      "append_locked rt t ty a v drafts outbox inbox s = (r, s')"
  using assms by (auto simp: append_events_def op_defs split: if_splits)

lemma append_events_inv:
  assumes "ledger_inv rt s" "\<forall>d \<in> set drafts. draft_ok rt d"
    and "append_events rt t ty a v drafts outbox inbox s = (r, s')"
  shows "ledger_inv rt s'"
  using assms(3) by (cases rule: append_events_cases) (use assms(1,2) append_locked_inv in auto)

lemma legacy_drafts_ok:
  "legacy_drafts rt t a actor corr upcast n items = Inr ds \<Longrightarrow> \<forall>d \<in> set ds. draft_ok rt d"
  by (induction items arbitrary: n ds) (auto split: prod.splits elim!: make_event_draft_ok(1))

lemma replay_legacy_inv:
  assumes "ledger_inv rt s" "replay_legacy rt t a actor corr legacy upcast s = (r, s')"
  shows "ledger_inv rt s'"
  using assms append_events_inv [OF assms(1) legacy_drafts_ok]
  by (auto simp: replay_legacy_def bindS_def liftS_def split: sum.splits)

lemma outbox_ops_inv:
  assumes "ledger_inv rt s"
  shows "claim_outbox rt t worker now until limit s = (r1, s1) \<Longrightarrow> ledger_inv rt s1"
    and "complete_outbox c s = (r2, s2) \<Longrightarrow> ledger_inv rt s2"
    and "fail_outbox c code retry permanent s = (r2, s2) \<Longrightarrow> ledger_inv rt s2"
  using assms
  by (auto simp: claim_outbox_def complete_outbox_def fail_outbox_def update_claim_def Let_def
      split: if_splits option.splits prod.splits)

section \<open>Histories of the store\<close>

text \<open>One step is one call of a method of the store, with any arguments and any outcome. The
  drafts a caller hands to \<open>append\<close> are objects of the validating constructor, of any schema version it accepts.\<close>

inductive ledger_step :: "runtime \<Rightarrow> durability_state \<Rightarrow> durability_state \<Rightarrow> bool" for rt where
  step_append: "append_events rt t ty a v drafts outbox inbox s = (r, s') \<Longrightarrow> list_all (draft_ok rt) drafts \<Longrightarrow>
    ledger_step rt s s'"
| step_accept_run: "accept_run rt now i q w s = (r, s') \<Longrightarrow> ledger_step rt s s'"
| step_record_transition:
    "record_transition rt now t run_id ty op actor ref fc attributes s = (r, s') \<Longrightarrow> ledger_step rt s s'"
| step_accept_signal: "accept_signal rt now1 now2 i c s = (r, s') \<Longrightarrow> ledger_step rt s s'"
| step_replay_legacy: "replay_legacy rt t a actor corr legacy upcast s = (r, s') \<Longrightarrow> ledger_step rt s s'"
| step_claim: "claim_outbox rt t worker now until limit s = (r, s') \<Longrightarrow> ledger_step rt s s'"
| step_complete: "complete_outbox c s = (r, s') \<Longrightarrow> ledger_step rt s s'"
| step_fail: "fail_outbox c code retry permanent s = (r, s') \<Longrightarrow> ledger_step rt s s'"
| step_rebuild_projections: "rebuild_run_projections rt t s = (r, s') \<Longrightarrow> ledger_step rt s s'"
| step_rebuild_run: "rebuild_run rt t run_id s = (r, s') \<Longrightarrow> ledger_step rt s s'"

definition ledger_reachable :: "runtime \<Rightarrow> durability_state \<Rightarrow> bool" where
  "ledger_reachable rt s \<longleftrightarrow> (ledger_step rt)\<^sup>*\<^sup>* initial_state s"

lemma ledger_step_inv: "ledger_step rt s s' \<Longrightarrow> ledger_inv rt s \<Longrightarrow> ledger_inv rt s'"
proof (induction rule: ledger_step.induct)
  case (step_rebuild_projections t s r s')
  with rebuild_run_projections_inv [of rt s t] show ?case by auto
next
  case (step_rebuild_run t run_id s r s')
  then show ?case by (auto simp: rebuild_run_inv split: option.splits if_splits)
qed (auto simp: list_all_iff intro: append_events_inv accept_run_inv record_transition_inv accept_signal_inv
    replay_legacy_inv outbox_ops_inv)

lemma ledger_reachable_induct:
  assumes "ledger_reachable rt s" "P initial_state"
    and "\<And>s s'. ledger_reachable rt s \<Longrightarrow> ledger_inv rt s \<Longrightarrow> P s \<Longrightarrow> ledger_step rt s s' \<Longrightarrow> P s'"
  shows "P s \<and> ledger_inv rt s"
  using assms(1) unfolding ledger_reachable_def
proof (induction rule: rtranclp_induct)
  case base
  with assms(2) initial_ledger_inv show ?case by blast
next
  case (step s s')
  with assms(3) [unfolded ledger_reachable_def] ledger_step_inv show ?case by blast
qed

lemma reachable_ledger_inv: "ledger_reachable rt s \<Longrightarrow> ledger_inv rt s"
  using ledger_reachable_induct [where P = "\<lambda>_. True"] by blast

text \<open>The commands of the store itself write schema version 1.\<close>

lemma accept_run_schema:
  assumes "accept_run rt now i q w s = (r, s')" "list_all first_schema (tenant_events s (id_tenant_id i))"
  shows "list_all first_schema (tenant_events s' (id_tenant_id i))"
  using assms(1)
proof (cases rule: accept_run_cases)
  case (accepted trace_ref draft outbox appended v)
  have "ev_schema_version draft = 1" using make_event_draft_ok(2) [OF accepted(2)] by (simp add: requested_draft_def)
  with commit_append_schema [OF accepted(4)] accepted(6) assms(2) show ?thesis by (simp add: tenant_events_def)
qed (use assms(2) in auto)

lemma record_transition_schema:
  assumes "record_transition rt now t run_id ty op actor ref fc attributes s = (r, s')" "list_all first_schema (tenant_events s t)"
  shows "list_all first_schema (tenant_events s' t)"
  using assms(1)
proof (cases rule: record_transition_cases)
  case (recorded current draft appended v)
  have "ev_schema_version draft = 1" using make_event_draft_ok(2) [OF recorded(3)] by (simp add: transition_draft_def)
  with commit_append_schema [OF recorded(4)] recorded(6) assms(2) show ?thesis by simp
qed (use assms(2) in auto)

section \<open>What a step does to the state\<close>

text \<open>Whatever the method, a step is one of five effects. The append of \<open>accept_run\<close> runs on
  the state with the new idempotency entry, the others on the state as it is.\<close>

definition append_base ::
  "runtime \<Rightarrow> durability_state \<Rightarrow> durability_state \<Rightarrow> string \<Rightarrow> string \<Rightarrow> string \<Rightarrow> run_view option \<Rightarrow> bool" where
  "append_base rt s s0 t ty a projected \<longleftrightarrow>
     s0 = s \<or> (\<exists>i q w. s0 = with_entry rt i q w s \<and> st_idempotency s (id_tenant_id i, id_request_id i) = None \<and>
       t = id_tenant_id i \<and> ty = ''investigation'' \<and> a = rr_run_id (make_run_refs rt i q) \<and> projected \<noteq> None)"

inductive ledger_effect :: "runtime \<Rightarrow> durability_state \<Rightarrow> durability_state \<Rightarrow> bool" for rt where
  effect_none: "ledger_effect rt s s"
| effect_append: "append_base rt s s0 t ty a projected \<Longrightarrow>
    plan_append rt t ty a v drafts outbox inbox s0 = Inr (appended, projected) \<Longrightarrow>
    ledger_effect rt s (commit_append t ty a appended projected outbox inbox s0)"
| effect_claim: "claim_outbox rt t worker now until limit s = (r, s') \<Longrightarrow> ledger_effect rt s s'"
| effect_settle: "update_claim c status code retry s = (r, s') \<Longrightarrow> status \<noteq> Delivery_CLAIMED \<Longrightarrow>
    (status = Delivery_PENDING \<longrightarrow> cl_attempt c < max_delivery_attempts) \<Longrightarrow> ledger_effect rt s s'"
| effect_checkpoint: "ledger_effect rt s (s\<lparr>st_projection_checkpoints := cs\<rparr>)"

lemma append_effect:
  "append_locked rt t ty a v drafts outbox inbox s = (r, s') \<Longrightarrow> ledger_effect rt s s'"
  by (erule append_locked_cases) (auto intro: effect_none effect_append simp: append_base_def)

lemma append_events_effect:
  "append_events rt t ty a v drafts outbox inbox s = (r, s') \<Longrightarrow> ledger_effect rt s s'"
  by (erule append_events_cases) (auto intro: effect_none append_effect)

lemma accept_run_effect:
  assumes "accept_run rt now i q w s = (r, s')"
  shows "ledger_effect rt s s'"
  using assms
proof (cases rule: accept_run_cases)
  case (accepted trace_ref draft outbox appended v)
  have "append_base rt s (with_entry rt i q w s) (id_tenant_id i) ''investigation''
      (rr_run_id (make_run_refs rt i q)) (Some v)"
    using accepted(1) by (auto simp: append_base_def)
  from effect_append [OF this accepted(4)] accepted(6) show ?thesis by simp
qed (auto intro: effect_none)

lemma record_transition_effect:
  assumes "record_transition rt now t run_id ty op actor ref fc attributes s = (r, s')"
  shows "ledger_effect rt s s'"
  using assms
proof (cases rule: record_transition_cases)
  case (recorded current draft appended v)
  then show ?thesis by (auto intro!: effect_append simp: append_base_def)
qed (auto intro: effect_none)

lemma accept_signal_effect:
  assumes "accept_signal rt now1 now2 i c s = (r, s')"
  shows "ledger_effect rt s s'"
  using assms
proof (cases rule: accept_signal_cases)
  case (accepted current inbox outbox draft appended v)
  then show ?thesis by (auto intro!: effect_append simp: append_base_def)
qed (auto intro: effect_none)

lemma replay_legacy_effect:
  assumes "replay_legacy rt t a actor corr legacy upcast s = (r, s')"
  shows "ledger_effect rt s s'"
  using assms by (auto simp: replay_legacy_def bindS_def liftS_def split: sum.splits
      intro: effect_none append_events_effect)

lemma ledger_step_effect: "ledger_step rt s s' \<Longrightarrow> ledger_inv rt s \<Longrightarrow> ledger_effect rt s s'"
proof (induction rule: ledger_step.induct)
  case (step_complete c s r s')
  then show ?case by (auto simp: complete_outbox_def intro: effect_settle)
next
  case (step_fail c code retry permanent s r s')
  from effect_settle [OF step_fail(1) [unfolded fail_outbox_def]] show ?case by auto
next
  case (step_rebuild_projections t s r s')
  with rebuild_run_projections_inv [of rt s t] show ?case by (auto intro: effect_checkpoint)
next
  case (step_rebuild_run t run_id s r s')
  then show ?case by (auto simp: rebuild_run_inv split: option.splits if_splits intro: effect_none)
qed (blast intro: append_events_effect accept_run_effect record_transition_effect accept_signal_effect
    replay_legacy_effect effect_claim)+

text \<open>The shape of an invariant proof over all histories: initially, and kept by each effect.\<close>

lemma reachable_effect_induct:
  assumes "ledger_reachable rt s" "P initial_state"
    and "\<And>s s'. ledger_inv rt s \<Longrightarrow> P s \<Longrightarrow> ledger_effect rt s s' \<Longrightarrow> P s'"
  shows "P s"
  using ledger_reachable_induct [OF assms(1), of P] assms(2,3) ledger_step_effect by blast

end
