(* ===== verification/Outbox_Contract.thy ===== *)
theory Outbox_Contract
  imports Ledger_Commands "HOL-Library.Multiset"
begin

text \<open>
  The delivery contract of the outbox. The records of the store are well formed in every
  history; a claim is granted only for a due message and is exclusive until it expires; a
  message is attempted at most five times; a claim that has been superseded changes
  nothing; a delivered or dead message is never touched again.
\<close>

section \<open>Well-formed deliveries\<close>

definition delivery_ok :: "delivery_key \<Rightarrow> delivery_record \<Rightarrow> bool" where
  "delivery_ok k r \<longleftrightarrow>
     k = (dl_tenant_id r, dl_direction r, dl_message_id r) \<and> dl_attempts r \<le> max_delivery_attempts \<and>
     (dl_direction r = ''inbox'' \<and> dl_status r = Delivery_DELIVERED \<or>
      dl_direction r = ''outbox'' \<and>
        (dl_status r = Delivery_PENDING \<longrightarrow> dl_attempts r < max_delivery_attempts) \<and>
        (dl_status r = Delivery_CLAIMED \<longrightarrow>
           1 \<le> dl_attempts r \<and> dl_claim_token r \<noteq> None \<and> dl_claim_until r \<noteq> None))"

definition deliveries_ok :: "(delivery_key \<times> delivery_record) list \<Rightarrow> bool" where
  "deliveries_ok ds \<longleftrightarrow> distinct (map fst ds) \<and> (\<forall>k r. map_of ds k = Some r \<longrightarrow> delivery_ok k r)"

text \<open>How one record may change in a step: not at all, or it was open and its attempts did not
  go back.\<close>

definition delivery_evolves ::
  "(delivery_key \<times> delivery_record) list \<Rightarrow> (delivery_key \<times> delivery_record) list \<Rightarrow> bool" where
  "delivery_evolves ds ds' \<longleftrightarrow> (\<forall>k r. map_of ds k = Some r \<longrightarrow>
     (\<exists>r'. map_of ds' k = Some r' \<and>
        (r' = r \<or> dl_status r \<in> {Delivery_PENDING, Delivery_CLAIMED} \<and> dl_attempts r \<le> dl_attempts r')))"

lemma deliveries_ok_Nil [simp]: "deliveries_ok []"
  by (simp add: deliveries_ok_def)

lemma delivery_evolves_refl [simp]: "delivery_evolves ds ds"
  by (simp add: delivery_evolves_def)

lemma delivery_evolves_trans:
  assumes "delivery_evolves a b" "delivery_evolves b c"
  shows "delivery_evolves a c"
  unfolding delivery_evolves_def
proof (intro allI impI)
  fix k r assume "map_of a k = Some r"
  with assms(1) obtain r' where r': "map_of b k = Some r'"
    "r' = r \<or> dl_status r \<in> {Delivery_PENDING, Delivery_CLAIMED} \<and> dl_attempts r \<le> dl_attempts r'"
    unfolding delivery_evolves_def by blast
  moreover from r'(1) assms(2) obtain r'' where "map_of c k = Some r''"
    "r'' = r' \<or> dl_status r' \<in> {Delivery_PENDING, Delivery_CLAIMED} \<and> dl_attempts r' \<le> dl_attempts r''"
    unfolding delivery_evolves_def by blast
  ultimately show "\<exists>r'. map_of c k = Some r' \<and>
      (r' = r \<or> dl_status r \<in> {Delivery_PENDING, Delivery_CLAIMED} \<and> dl_attempts r \<le> dl_attempts r')"
    using le_trans by blast
qed

lemma map_of_update: "map_of (AList.update k v ds) = (map_of ds)(k \<mapsto> v)"
  by (simp add: update_conv')

text \<open>One write of a well-formed record, where nothing was or where an open record was.\<close>

lemma delivery_update:
  assumes "deliveries_ok ds" "delivery_ok k r'"
    and "\<And>r. map_of ds k = Some r \<Longrightarrow>
      dl_status r \<in> {Delivery_PENDING, Delivery_CLAIMED} \<and> dl_attempts r \<le> dl_attempts r'"
  shows "deliveries_ok (AList.update k r' ds)" "delivery_evolves ds (AList.update k r' ds)"
  using assms by (auto simp: deliveries_ok_def delivery_evolves_def map_of_update distinct_update)

section \<open>Appended messages\<close>

lemma add_fresh:
  assumes "deliveries_ok ds" "distinct (map key ms)"
    and "\<forall>m \<in> set ms. map_of ds (key m) = None" "\<And>m. delivery_ok (key m) (new m)"
  shows "deliveries_ok (fold (\<lambda>m. AList.update (key m) (new m)) ms ds) \<and>
    delivery_evolves ds (fold (\<lambda>m. AList.update (key m) (new m)) ms ds)"
  using assms(1-3)
proof (induction ms arbitrary: ds)
  case Nil
  then show ?case by simp
next
  case (Cons m ms)
  let ?ds = "AList.update (key m) (new m) ds"
  have u: "deliveries_ok ?ds" "delivery_evolves ds ?ds"
    using delivery_update [OF Cons.prems(1) assms(4) [of m]] Cons.prems(3) by auto
  have "\<forall>x \<in> set ms. map_of ?ds (key x) = None"
    using Cons.prems(2,3) by (auto simp: map_of_update image_iff)
  with Cons.IH [OF u(1)] Cons.prems(2) u(2) delivery_evolves_trans show ?case by auto
qed

lemma map_of_fold_update:
  "k \<notin> key ` set ms \<Longrightarrow> map_of (fold (\<lambda>m. AList.update (key m) (new m)) ms ds) k = map_of ds k"
  by (induction ms arbitrary: ds) (auto simp: map_of_update)

lemma add_deliveries_ok:
  assumes "deliveries_ok (st_deliveries s)"
    and "plan_append rt t ty a v drafts outbox inbox s = Inr (appended, projected)"
  shows "deliveries_ok (add_deliveries t now outbox inbox (st_deliveries s))"
    "delivery_evolves (st_deliveries s) (add_deliveries t now outbox inbox (st_deliveries s))"
proof -
  note p = plan_append_facts [OF assms(2)]
  let ?ds = "fold (\<lambda>m. AList.update (t, ''outbox'', ob_message_id m) (outbox_delivery t m)) outbox (st_deliveries s)"
  have "distinct (map (\<lambda>m. (t, ''outbox'', ob_message_id m)) outbox)"
    "distinct (map (\<lambda>m. (t, ''inbox'', ib_message_id m)) inbox)"
    using p(4,5) by (simp_all add: distinct_map inj_on_def)
  note o = add_fresh [OF assms(1) this(1) p(6)] and d = this(2)
  have o: "deliveries_ok ?ds \<and> delivery_evolves (st_deliveries s) ?ds"
    by (rule o) (simp add: delivery_ok_def outbox_delivery_def max_delivery_attempts_def)
  have "\<forall>m \<in> set inbox. map_of ?ds (t, ''inbox'', ib_message_id m) = None"
    using p(7) by (subst map_of_fold_update) auto
  from add_fresh [OF _ d this, of "inbox_delivery t now"] o delivery_evolves_trans
  show "deliveries_ok (add_deliveries t now outbox inbox (st_deliveries s))"
    "delivery_evolves (st_deliveries s) (add_deliveries t now outbox inbox (st_deliveries s))"
    by (auto simp: add_deliveries_def delivery_ok_def inbox_delivery_def max_delivery_attempts_def)
qed

section \<open>Claims\<close>

text \<open>The keys of the candidates are the keys they are stored under, each once.\<close>

lemma stored_ok:
  assumes "deliveries_ok ds" "(k, r) \<in> set ds"
  shows "map_of ds k = Some r" "delivery_ok k r"
proof -
  from assms show "map_of ds k = Some r" by (simp add: deliveries_ok_def)
  with assms(1) show "delivery_ok k r" unfolding deliveries_ok_def by blast
qed

lemma claimable_key: "claimable t now (k, r) \<Longrightarrow> delivery_ok k r \<Longrightarrow> outbox_key r = k"
  by (auto simp: claimable_def delivery_ok_def outbox_key_def Let_def)

lemma candidates_stored:
  assumes "deliveries_ok ds" "r \<in> set (outbox_candidates t now limit ds)"
  shows "map_of ds (outbox_key r) = Some r" "claimable t now (outbox_key r, r)" "delivery_ok (outbox_key r) r"
proof -
  from assms(2) obtain k where k: "(k, r) \<in> set ds" "claimable t now (k, r)"
    by (auto simp: outbox_candidates_def dest!: in_set_takeD)
  note s = stored_ok [OF assms(1) k(1)]
  from s claimable_key [OF k(2) s(2)] show "map_of ds (outbox_key r) = Some r" "claimable t now (outbox_key r, r)"
    "delivery_ok (outbox_key r) r" using k(2) by simp_all
qed

lemma distinct_map_mset: "mset xs = mset ys \<Longrightarrow> distinct (map f xs) \<longleftrightarrow> distinct (map f ys)"
  by (metis mset_eq_imp_distinct_iff mset_map)

lemma candidates_distinct:
  assumes "deliveries_ok ds"
  shows "distinct (map outbox_key (outbox_candidates t now limit ds))"
proof -
  let ?f = "filter (claimable t now) ds"
  have "outbox_key (snd kr) = fst kr" if "kr \<in> set ?f" for kr
    using that claimable_key [of t now "fst kr" "snd kr"] stored_ok(2) [OF assms, of "fst kr" "snd kr"] by simp
  then have "map outbox_key (map snd ?f) = map fst ?f" by simp
  moreover have "distinct (map fst ?f)"
    using assms by (simp add: deliveries_ok_def distinct_map_filter del: map_filter_simps)
  ultimately have "distinct (map outbox_key (map snd ?f))" by (simp only:)
  then have "distinct (map outbox_key (sort_key (\<lambda>r. (dl_available_at r, dl_tenant_id r, dl_message_id r)) (map snd ?f)))"
    by (subst distinct_map_mset [OF mset_sort])
  then show ?thesis by (simp add: outbox_candidates_def take_map [symmetric] distinct_take)
qed

lemma claim_records_fold:
  "claim_records rt w u rs ds =
     (List.map_filter (\<lambda>r. fst (claim_record rt w u r)) rs,
      fold (\<lambda>r. AList.update (outbox_key r) (snd (claim_record rt w u r))) rs ds)"
  by (induction rs arbitrary: ds) (auto simp: map_filter_simps split: prod.split option.split)

lemma map_of_fold_update_in:
  "distinct (map key ms) \<Longrightarrow> m \<in> set ms \<Longrightarrow>
     map_of (fold (\<lambda>m. AList.update (key m) (new m)) ms ds) (key m) = Some (new m)"
proof (induction ms arbitrary: ds)
  case Nil
  then show ?case by simp
next
  case (Cons x ms)
  then show ?case by (cases "m = x") (auto simp: map_of_fold_update map_of_update image_iff)
qed

text \<open>What the loop body does to one claimable record.\<close>

lemma claim_record_ok:
  assumes "delivery_ok k r" "claimable t now (k, r)"
  shows "delivery_ok k (snd (claim_record rt w u r))" "dl_attempts r \<le> dl_attempts (snd (claim_record rt w u r))"
    "dl_status r \<in> {Delivery_PENDING, Delivery_CLAIMED}"
  using assms by (auto simp: delivery_ok_def claimable_def claim_record_def Let_def max_delivery_attempts_def)

lemma claim_records_ok:
  assumes "deliveries_ok ds" "distinct (map outbox_key rs)"
    and "\<And>r. r \<in> set rs \<Longrightarrow> map_of ds (outbox_key r) = Some r \<and> claimable t now (outbox_key r, r) \<and> delivery_ok (outbox_key r) r"
  shows "deliveries_ok (snd (claim_records rt w u rs ds)) \<and> delivery_evolves ds (snd (claim_records rt w u rs ds))"
  using assms
proof (induction rs arbitrary: ds)
  case Nil
  then show ?case by simp
next
  case (Cons r rs)
  let ?ds = "AList.update (outbox_key r) (snd (claim_record rt w u r)) ds"
  have r: "map_of ds (outbox_key r) = Some r" "claimable t now (outbox_key r, r)" "delivery_ok (outbox_key r) r"
    using Cons.prems(3) [of r] by auto
  note u = delivery_update [OF Cons.prems(1) claim_record_ok(1) [OF r(3,2)]]
  have u: "deliveries_ok ?ds" "delivery_evolves ds ?ds"
    using u claim_record_ok(2,3) [OF r(3,2)] r(1) by auto
  have "map_of ?ds (outbox_key x) = map_of ds (outbox_key x)" if "x \<in> set rs" for x
    using Cons.prems(2) that by (auto simp: map_of_update image_iff)
  with Cons.IH [OF u(1)] Cons.prems(2,3) u(2) delivery_evolves_trans show ?case
    by (auto simp: claim_records_fold)
qed

lemma claim_outbox_ok:
  assumes "deliveries_ok (st_deliveries s)" "claim_outbox rt t w now u limit s = (r, s')"
  shows "deliveries_ok (st_deliveries s') \<and> delivery_evolves (st_deliveries s) (st_deliveries s')"
  using assms claim_records_ok [OF assms(1) candidates_distinct [OF assms(1)], of t now limit t now rt w u]
    candidates_stored [OF assms(1)]
  by (auto simp: claim_outbox_def Let_def split: if_splits prod.splits)

lemma update_claim_cases:
  assumes "update_claim c status code retry s = (r, s')"
  obtains (stale) "r = Inl (MessageClaimConflict ''outbox claim is stale or not owned'')" "s' = s"
  | (held) d where "map_of (st_deliveries s) (cl_tenant_id c, ''outbox'', cl_message_id c) = Some d"
      "dl_status d = Delivery_CLAIMED" "dl_claim_token d = Some (cl_claim_token c)" "dl_attempts d = cl_attempt c"
      "r = Inr ()" "s' = s\<lparr>st_deliveries := AList.update (cl_tenant_id c, ''outbox'', cl_message_id c)
        (d\<lparr>dl_available_at := (case retry of None \<Rightarrow> dl_available_at d | Some x \<Rightarrow> x), dl_claim_token := None,
           dl_claim_until := None, dl_last_error_code := code, dl_status := status\<rparr>) (st_deliveries s)\<rparr>"
  using assms by (auto simp: update_claim_def Let_def split: option.splits if_splits)

lemma update_claim_ok:
  assumes "deliveries_ok (st_deliveries s)" "update_claim c status code retry s = (r, s')"
    and "status \<noteq> Delivery_CLAIMED" "status = Delivery_PENDING \<Longrightarrow> cl_attempt c < max_delivery_attempts"
  shows "deliveries_ok (st_deliveries s') \<and> delivery_evolves (st_deliveries s) (st_deliveries s')"
  using assms(2)
proof (cases rule: update_claim_cases)
  case stale
  with assms(1) show ?thesis by simp
next
  case (held d)
  let ?k = "(cl_tenant_id c, ''outbox'', cl_message_id c)"
  let ?d = "d\<lparr>dl_available_at := (case retry of None \<Rightarrow> dl_available_at d | Some x \<Rightarrow> x), dl_claim_token := None,
      dl_claim_until := None, dl_last_error_code := code, dl_status := status\<rparr>"
  from held(1) assms(1) have "delivery_ok ?k d" unfolding deliveries_ok_def by blast
  with assms(3,4) held(4) have "delivery_ok ?k ?d" by (auto simp: delivery_ok_def)
  from delivery_update [OF assms(1) this] held(1,2,6) show ?thesis by simp
qed

section \<open>Every history\<close>

lemma append_base_fields:
  assumes "append_base rt s s0 t ty a projected"
  shows "st_deliveries s0 = st_deliveries s" "st_runs s0 = st_runs s" "tenant_events s0 = tenant_events s"
  using assms by (auto simp: append_base_def tenant_events_def fun_eq_iff)

lemma ledger_effect_deliveries:
  assumes "ledger_effect rt s s'" "deliveries_ok (st_deliveries s)"
  shows "deliveries_ok (st_deliveries s') \<and> delivery_evolves (st_deliveries s) (st_deliveries s')"
  using assms
proof (induction rule: ledger_effect.induct)
  case (effect_append s s0 t ty a projected v drafts outbox inbox appended)
  with append_base_fields(1) [OF effect_append(1)] add_deliveries_ok [of s0] show ?case by auto
next
  case (effect_claim t worker now until limit s r s')
  then show ?case using claim_outbox_ok by blast
next
  case (effect_settle c status code retry s r s')
  then show ?case using update_claim_ok by blast
qed auto

lemma reachable_deliveries_ok: "ledger_reachable rt s \<Longrightarrow> deliveries_ok (st_deliveries s)"
  by (erule reachable_effect_induct) (auto simp: initial_state_def dest: ledger_effect_deliveries)

lemma ledger_steps_evolve:
  assumes "ledger_reachable rt s" "(ledger_step rt)\<^sup>*\<^sup>* s s'"
  shows "delivery_evolves (st_deliveries s) (st_deliveries s')"
  using assms(2)
proof (induction rule: rtranclp_induct)
  case base
  show ?case by simp
next
  case (step s1 s2)
  with assms(1) have "ledger_reachable rt s1" by (simp add: ledger_reachable_def)
  with step(2) have "delivery_evolves (st_deliveries s1) (st_deliveries s2)"
    using ledger_effect_deliveries ledger_step_effect reachable_deliveries_ok reachable_ledger_inv by blast
  with step.IH delivery_evolves_trans show ?case by blast
qed

section \<open>What a claim call returns\<close>

definition claim_of :: "delivery_record \<Rightarrow> string \<Rightarrow> delivery_claim" where
  "claim_of r token = \<lparr>cl_tenant_id = dl_tenant_id r, cl_message_id = dl_message_id r, cl_claim_token = token,
     cl_destination = dl_destination r, cl_message_type = dl_message_type r, cl_attempt = dl_attempts r + 1,
     cl_payload = dl_payload r\<rparr>"

lemma claim_outbox_result:
  assumes "claim_outbox rt t w now u limit s = (Inr claims, s')"
  shows "now < u" "claims = List.map_filter (\<lambda>r. fst (claim_record rt w u r)) (outbox_candidates t now limit (st_deliveries s))"
    "st_deliveries s' = fold (\<lambda>r. AList.update (outbox_key r) (snd (claim_record rt w u r)))
       (outbox_candidates t now limit (st_deliveries s)) (st_deliveries s)"
  using assms by (auto simp: claim_outbox_def Let_def claim_records_fold split: if_splits)

text \<open>A record that is not due, or whose claim has not expired, is left alone.\<close>

lemma claim_outbox_untouched:
  assumes "deliveries_ok (st_deliveries s)" "claim_outbox rt t w now u limit s = (Inr claims, s')"
    and "map_of (st_deliveries s) k = Some r" "\<not> claimable t now (k, r)"
  shows "map_of (st_deliveries s') k = Some r"
    "\<forall>c \<in> set claims. (cl_tenant_id c, ''outbox'', cl_message_id c) \<noteq> k"
proof -
  note res = claim_outbox_result [OF assms(2)]
  have nk: "outbox_key x \<noteq> k" if "x \<in> set (outbox_candidates t now limit (st_deliveries s))" for x
    using candidates_stored [OF assms(1) that] assms(3,4) by auto
  then show "map_of (st_deliveries s') k = Some r"
    using assms(3) unfolding res(3) by (subst map_of_fold_update) auto
  show "\<forall>c \<in> set claims. (cl_tenant_id c, ''outbox'', cl_message_id c) \<noteq> k"
    using nk by (auto simp: res(2) map_filter_def claim_record_def Let_def outbox_key_def split: if_splits)
qed

lemma claim_outbox_granted:
  assumes ok: "deliveries_ok (st_deliveries s)" and call: "claim_outbox rt t w now u limit s = (Inr claims, s')"
    and c: "c \<in> set claims"
  obtains r where "map_of (st_deliveries s) (t, ''outbox'', cl_message_id c) = Some r"
    "claimable t now ((t, ''outbox'', cl_message_id c), r)" "dl_attempts r < max_delivery_attempts"
    "c = claim_of r (claim_token rt w r (dl_attempts r + 1))"
    "map_of (st_deliveries s') (t, ''outbox'', cl_message_id c) =
       Some (r\<lparr>dl_attempts := cl_attempt c, dl_claim_token := Some (cl_claim_token c),
               dl_claim_until := Some u, dl_status := Delivery_CLAIMED\<rparr>)"
proof -
  note res = claim_outbox_result [OF call]
  from c obtain r where r: "r \<in> set (outbox_candidates t now limit (st_deliveries s))"
    and rec: "fst (claim_record rt w u r) = Some c" by (auto simp: res(2) map_filter_def)
  note st = candidates_stored [OF ok r]
  from rec have bound: "dl_attempts r < max_delivery_attempts"
    and cr: "c = claim_of r (claim_token rt w r (dl_attempts r + 1))"
    and new: "snd (claim_record rt w u r) = r\<lparr>dl_attempts := cl_attempt c, dl_claim_token := Some (cl_claim_token c),
               dl_claim_until := Some u, dl_status := Delivery_CLAIMED\<rparr>"
    by (auto simp: claim_record_def claim_of_def Let_def split: if_splits)
  have key: "outbox_key r = (t, ''outbox'', cl_message_id c)"
    using st(2) cr by (simp add: claimable_def outbox_key_def claim_of_def Let_def)
  have "map_of (st_deliveries s') (outbox_key r) = Some (snd (claim_record rt w u r))"
    unfolding res(3) by (rule map_of_fold_update_in [OF candidates_distinct [OF ok] r])
  with st key new bound cr that show thesis by simp
qed

end
