(* ===== verification/Hash_Chain.thy ===== *)
theory Hash_Chain
  imports Prelude
begin

text \<open>
  Hash-chained append-only logs: every record carries the digest of its predecessor and its
  own digest of the material it stands for, as the tenant chain of the application ledger
  and the fact chain of the remediation ledger do. The contract is that the material
  determines the record and the digest of its predecessor. The result is tamper
  evidence: two chains with one head are the same log, unless their records exhibit two
  materials with one digest.
\<close>

locale hash_chain =
  fixes hash :: "'m \<Rightarrow> string"
    and material :: "'e \<Rightarrow> 'm"
    and previous :: "'e \<Rightarrow> string"
    and digest :: "'e \<Rightarrow> string"
    and content :: "'e \<Rightarrow> 'c"
  assumes material_content: "material e = material f \<Longrightarrow> content e = content f"
    and material_previous: "material e = material f \<Longrightarrow> previous e = previous f"
begin

fun chain :: "string \<Rightarrow> 'e list \<Rightarrow> bool" where
  "chain h [] = True"
| "chain h (e # es) = (previous e = h \<and> digest e = hash (material e) \<and> chain (digest e) es)"

fun head :: "string \<Rightarrow> 'e list \<Rightarrow> string" where
  "head h [] = h"
| "head h (e # es) = head (digest e) es"

definition collision :: "'e list \<Rightarrow> 'e list \<Rightarrow> bool" where
  "collision es fs \<longleftrightarrow> (\<exists>e \<in> set es. \<exists>f \<in> set fs.
     material e \<noteq> material f \<and> hash (material e) = hash (material f))"

lemma head_append [simp]: "head h (es @ fs) = head (head h es) fs"
  by (induction es arbitrary: h) auto

lemma chain_append [simp]: "chain h (es @ fs) \<longleftrightarrow> chain h es \<and> chain (head h es) fs"
  by (induction es arbitrary: h) auto

text \<open>Equal heads force equal last records, and so on down to the start.\<close>

lemma same_head_same_material:
  assumes "chain h es" "chain h' fs" "head h es = head h' fs" "length es = length fs"
    and "\<not> collision es fs"
  shows "map material es = map material fs"
  using assms
proof (induction es arbitrary: fs rule: rev_induct)
  case Nil
  then show ?case by simp
next
  case (snoc e es)
  then obtain f gs where fs: "fs = gs @ [f]" by (cases fs rule: rev_cases) auto
  then have ef: "e \<in> set (es @ [e])" "f \<in> set fs" by simp_all
  from snoc.prems(1-3) fs have "hash (material e) = hash (material f)" by simp
  with snoc.prems(5) ef have m: "material e = material f"
    unfolding collision_def by blast
  from snoc.prems(5) fs have nc: "\<not> collision es gs"
    unfolding collision_def by auto
  from snoc.prems(1,2) fs have "previous e = head h es" "previous f = head h' gs" by simp_all
  with material_previous [OF m] have heads: "head h es = head h' gs" by simp
  from snoc.prems(1,2,4) fs have "chain h es" "chain h' gs" "length es = length gs" by simp_all
  from snoc.IH [OF this(1,2) heads this(3) nc] m fs show ?case by simp
qed

lemma chain_digests: "chain h es \<Longrightarrow> map digest es = map hash (map material es)"
  by (induction es arbitrary: h) auto

lemma map_material_content: "map material es = map material fs \<Longrightarrow> map content es = map content fs"
  by (induction es fs rule: list_induct2') (auto dest: material_content)

lemma same_head_same_log:
  assumes "chain h es" "chain h' fs" "head h es = head h' fs" "length es = length fs"
    and "\<not> collision es fs"
  shows "map content es = map content fs" "map digest es = map digest fs"
  using same_head_same_material [OF assms] map_material_content chain_digests assms(1,2) by metis+

end

end
