(* ===== verification/Ledger_Tamper.thy ===== *)
theory Ledger_Tamper
  imports Ledger_Invariant Hash_Chain
begin

text \<open>
  The tenant chain of the application ledger as a hash chain: the material of an event is the
  normal form of the document that \<open>event_material\<close> renders, and every log that
  \<open>verify_integrity\<close> accepts is a chain from the zero hash.
\<close>

definition norm_dict :: "dict \<Rightarrow> dict" where
  "norm_dict d = sort_key fst (map (\<lambda>kv. (fst kv, norm_json (snd kv))) d)"

lemma norm_json_dict: "norm_json (JObj d) = JObj (norm_dict d)"
  by (simp add: norm_dict_def)

lemma norm_dict_sorted [simp]: "norm_dict (dict_sorted d) = norm_dict d"
  using dict_sorted_idem [of d] by (simp add: norm_dict_def dict_sorted_def sort_key_map_fst)

text \<open>An event up to the order of the keys in its payload, without its own digest.\<close>

definition event_content :: "application_event \<Rightarrow> application_event" where
  "event_content e = e\<lparr>ev_payload := norm_dict (ev_payload e), ev_record_hash := []\<rparr>"

definition record_document :: "application_event \<Rightarrow> json" where
  "record_document e = norm_json (event_document (ev_tenant_id e) (ev_aggregate_type e) (ev_aggregate_id e)
     (ev_aggregate_sequence e) (ev_tenant_cursor e) e (ev_aggregate_previous_hash e) (ev_tenant_previous_hash e))"

lemma opt_json_inj: "opt_json a = opt_json b \<longleftrightarrow> a = b"
  by (auto simp: opt_json_def split: option.splits)

lemma norm_opt_json [simp]: "norm_json (opt_json a) = opt_json a"
  by (auto simp: opt_json_def split: option.splits)

text \<open>The keys of the document are already sorted, so its normal form is the list as written with
  the payload's normal form inside.\<close>

lemma norm_event_document:
  "norm_json (event_document t ty a sq cur d aph tph) =
     event_document t ty a sq cur (d\<lparr>ev_payload := norm_dict (ev_payload d)\<rparr>) aph tph"
  by (simp add: event_document_def norm_dict_def)

lemma event_document_inj:
  assumes "event_document t ty a sq cur d aph tph = event_document t' ty' a' sq' cur' d' aph' tph'"
  shows "t = t'" "ty = ty'" "a = a'" "sq = sq'" "cur = cur'" "aph = aph'" "tph = tph'"
    "ev_event_id d = ev_event_id d'" "ev_event_type d = ev_event_type d'" "ev_occurred_at d = ev_occurred_at d'"
    "ev_actor_ref d = ev_actor_ref d'" "ev_correlation_ref d = ev_correlation_ref d'"
    "ev_causation_ref d = ev_causation_ref d'" "ev_schema_version d = ev_schema_version d'"
    "ev_payload d = ev_payload d'"
  using assms by (simp_all add: event_document_def opt_json_inj)

lemma record_document_content:
  assumes "record_document e = record_document f"
  shows "event_content e = event_content f"
proof -
  note i = event_document_inj [OF assms [unfolded record_document_def norm_event_document]]
  from i show ?thesis
    by (cases e; cases f) (simp add: event_content_def)
qed

interpretation tenant_chain: hash_chain "\<lambda>v. sha256_hexdigest rt (render rt v)" record_document
  ev_tenant_previous_hash ev_record_hash event_content
  for rt :: runtime
proof
  fix e f assume m: "record_document e = record_document f"
  then show "event_content e = event_content f" by (rule record_document_content)
  from m show "ev_tenant_previous_hash e = ev_tenant_previous_hash f"
    unfolding record_document_def norm_event_document by (rule event_document_inj)
qed

lemma canonical_record: "canonical_json rt (event_document (ev_tenant_id e) (ev_aggregate_type e) (ev_aggregate_id e)
     (ev_aggregate_sequence e) (ev_tenant_cursor e) e (ev_aggregate_previous_hash e) (ev_tenant_previous_hash e)) =
   render rt (record_document e)"
  by (simp add: canonical_json_def record_document_def)

text \<open>A chained event carries the digest of its own document, and names its predecessors.\<close>

lemma event_chained_digest:
  assumes "event_chained rt h th seen e"
  shows "ev_record_hash e = sha256_hexdigest rt (render rt (record_document e))"
    "ev_tenant_previous_hash e = th_record_hash th" "ev_tenant_cursor e = Suc (th_cursor th)"
proof -
  from assms obtain d where d: "event_draft_of rt e = Inr d"
    and l: "ev_record_hash e = sha256_hexdigest rt (event_material rt (ev_tenant_id e) (ev_aggregate_type e)
        (ev_aggregate_id e) (ev_aggregate_sequence e) (ev_tenant_cursor e) d
        (ah_record_hash (get_default h (event_key e) no_aggregate_head)) (th_record_hash th))"
      "ev_aggregate_previous_hash e = ah_record_hash (get_default h (event_key e) no_aggregate_head)"
      "ev_tenant_previous_hash e = th_record_hash th" "ev_tenant_cursor e = Suc (th_cursor th)"
    by (auto simp: event_chained_def Let_def expected_hash_def)
  from d have fields: "ev_event_id d = ev_event_id e" "ev_event_type d = ev_event_type e"
    "ev_occurred_at d = ev_occurred_at e" "ev_actor_ref d = ev_actor_ref e"
    "ev_correlation_ref d = ev_correlation_ref e" "ev_causation_ref d = ev_causation_ref e"
    "ev_schema_version d = ev_schema_version e" "ev_payload d = dict_sorted (ev_payload e)"
    by (auto simp: event_draft_of_def make_event_draft_def split: if_splits)
  have "norm_json (event_document t ty a sq cur d aph tph) = norm_json (event_document t ty a sq cur e aph tph)"
    for t ty a sq cur aph tph
    unfolding norm_event_document by (simp add: event_document_def fields)
  with l show "ev_record_hash e = sha256_hexdigest rt (render rt (record_document e))"
    "ev_tenant_previous_hash e = th_record_hash th" "ev_tenant_cursor e = Suc (th_cursor th)"
    by (simp_all add: event_material_def canonical_json_def record_document_def)
qed

lemma chained_events_chain:
  "chained_events rt h th seen es \<Longrightarrow>
     tenant_chain.chain rt (th_record_hash th) es \<and>
     tenant_chain.head (th_record_hash th) es = th_record_hash (thead_after th es) \<and>
     th_cursor (thead_after th es) = th_cursor th + length es"
proof (induction es arbitrary: h th seen)
  case Nil
  then show ?case by simp
next
  case (Cons e es)
  then have "event_chained rt h th seen e"
    "chained_events rt (h(event_key e \<mapsto> event_agg_head e)) (event_ten_head e) (insert (ev_event_id e) seen) es"
    by (simp_all only: chained_events.simps)
  from event_chained_digest [OF this(1)] Cons.IH [OF this(2)] show ?case
    by (simp add: event_ten_head_def)
qed

text \<open>Two logs with one tenant head.\<close>

lemma chained_logs_same_head:
  assumes "float_repr_ok rt"
    and "chained_events rt Map.empty no_tenant_head {} es"
    and "chained_events rt Map.empty no_tenant_head {} fs"
    and "thead_after no_tenant_head es = thead_after no_tenant_head fs"
  shows "map event_content es = map event_content fs \<and> map ev_record_hash es = map ev_record_hash fs \<or>
    (\<exists>e \<in> set es. \<exists>f \<in> set fs. sha256_collision rt (render rt (record_document e)) (render rt (record_document f)))"
proof (cases "tenant_chain.collision rt es fs")
  case True
  then show ?thesis
    by (auto simp: tenant_chain.collision_def sha256_collision_def render_inj [OF assms(1)])
next
  case False
  from chained_events_chain [OF assms(2)] chained_events_chain [OF assms(3)] assms(4)
  have "tenant_chain.chain rt zero_hash es" "tenant_chain.chain rt zero_hash fs"
    "tenant_chain.head zero_hash es = tenant_chain.head zero_hash fs" "length es = length fs"
    by (simp_all add: no_tenant_head_def)
  from tenant_chain.same_head_same_log [OF this False] show ?thesis by blast
qed

end
