(* ===== verification/Ledger_Contract.thy ===== *)
theory Ledger_Contract
  imports Outbox_Contract Ledger_Tamper
begin

text \<open>
  How the store evolves along a history: events, identifiers, idempotency entries and runs
  only accumulate, aggregate versions only grow, and a finished run is frozen. From these
  follow the idempotency of the commands and optimistic concurrency control.
\<close>

section \<open>What is never lost\<close>

definition ledger_extends :: "durability_state \<Rightarrow> durability_state \<Rightarrow> bool" where
  "ledger_extends s s' \<longleftrightarrow>
     (\<forall>t. \<exists>es. tenant_events s' t = tenant_events s t @ es) \<and>
     st_event_ids s \<subseteq> st_event_ids s' \<and>
     st_idempotency s \<subseteq>\<^sub>m st_idempotency s' \<and>
     dom (st_runs s) \<subseteq> dom (st_runs s') \<and>
     (\<forall>k. ah_sequence (agg_head s k) \<le> ah_sequence (agg_head s' k))"

lemma ledger_extends_refl [simp]: "ledger_extends s s"
  by (simp add: ledger_extends_def)

lemma ledger_extends_trans:
  assumes "ledger_extends a b" "ledger_extends b c"
  shows "ledger_extends a c"
proof -
  have "\<exists>es. tenant_events c t = tenant_events a t @ es" for t
    using assms unfolding ledger_extends_def by (metis append.assoc)
  moreover have "ah_sequence (agg_head a k) \<le> ah_sequence (agg_head c k)" for k
    using assms unfolding ledger_extends_def by (meson le_trans)
  moreover have "st_idempotency a \<subseteq>\<^sub>m st_idempotency c"
    using assms map_le_trans unfolding ledger_extends_def by blast
  ultimately show ?thesis using assms unfolding ledger_extends_def by blast
qed

lemma build_events_sequences:
  "build_events rt t ty a sq cur aph tph ds = Inr es \<Longrightarrow>
     map ev_aggregate_sequence es = [sq..<sq + length es] \<and> map ev_tenant_cursor es = [cur..<cur + length es]"
proof (induction ds arbitrary: sq cur aph tph es)
  case Nil
  then show ?case by simp
next
  case (Cons d ds)
  then obtain e fs where e: "build_event rt t ty a sq cur aph tph d = Inr e"
    and fs: "build_events rt t ty a (sq + 1) (cur + 1) (ev_record_hash e) (ev_record_hash e) ds = Inr fs"
    and es: "es = e # fs" by auto
  from Cons.IH [OF fs] build_event_fields(3,4) [OF e] es show ?case
    by (simp add: upt_conv_Cons del: upt_Suc)
qed

lemma plan_append_last:
  assumes "plan_append rt t ty a v drafts outbox inbox s = Inr (appended, projected)"
  shows "ev_aggregate_sequence (last appended) = v + length appended"
    "ev_tenant_cursor (last appended) = th_cursor (ten_head s t) + length appended"
proof -
  note p = plan_append_facts [OF assms]
  note seqs = build_events_sequences [OF p(8)]
  from p(10) have "last (map ev_aggregate_sequence appended) = ev_aggregate_sequence (last appended)"
    "last (map ev_tenant_cursor appended) = ev_tenant_cursor (last appended)" by (simp_all add: last_map)
  with seqs p(10) show "ev_aggregate_sequence (last appended) = v + length appended"
    "ev_tenant_cursor (last appended) = th_cursor (ten_head s t) + length appended"
    by (cases "length appended"; simp)+
qed

lemma tenant_events_commit_other:
  "t' \<noteq> t \<Longrightarrow> tenant_events (commit_append t ty a appended projected outbox inbox s) t' = tenant_events s t'"
  by (simp add: tenant_events_def commit_append_def get_default_def)

lemma append_base_more:
  assumes "append_base rt s s0 t ty a projected"
  shows "st_event_ids s0 = st_event_ids s" "agg_head s0 = agg_head s" "st_idempotency s \<subseteq>\<^sub>m st_idempotency s0"
  using assms by (auto simp: append_base_def with_entry_def agg_head_def fun_eq_iff map_le_def)

lemma commit_append_extends:
  assumes "append_base rt s s0 t ty a projected"
    and plan: "plan_append rt t ty a v drafts outbox inbox s0 = Inr (appended, projected)"
  shows "ledger_extends s (commit_append t ty a appended projected outbox inbox s0)" (is "ledger_extends s ?s")
proof -
  note p = plan_append_facts [OF plan] and b = append_base_fields [OF assms(1)] append_base_more [OF assms(1)]
  have "\<exists>es. tenant_events ?s t' = tenant_events s t' @ es" for t'
    using b(3) by (cases "t' = t") (auto simp: tenant_events_commit_other)
  moreover have "ah_sequence (agg_head s k) \<le> ah_sequence (agg_head ?s k)" for k
  proof (cases "k = (t, ty, a)")
    case True
    with p(1) b(5) plan_append_last(1) [OF plan] show ?thesis
      by (simp add: agg_head_def get_default_def event_agg_head_def)
  next
    case False
    then have "agg_head ?s k = agg_head s0 k" by (simp add: agg_head_def get_default_def)
    with b(5) show ?thesis by simp
  qed
  moreover have "dom (st_runs s) \<subseteq> dom (st_runs ?s)"
    using b(2) by (auto split: option.splits)
  ultimately show ?thesis
    using b(4,6) unfolding ledger_extends_def by auto
qed

lemma claim_outbox_core:
  "claim_outbox rt t w now u limit s = (r, s') \<Longrightarrow> \<exists>ds. s' = s\<lparr>st_deliveries := ds\<rparr>"
  by (auto simp: claim_outbox_def Let_def split: if_splits prod.splits intro: exI [of _ "st_deliveries s"])

lemma update_claim_core:
  "update_claim c status code retry s = (r, s') \<Longrightarrow> \<exists>ds. s' = s\<lparr>st_deliveries := ds\<rparr>"
  by (auto simp: update_claim_def Let_def split: if_splits option.splits intro: exI [of _ "st_deliveries s"])

lemma ledger_extends_frame [simp]:
  "ledger_extends s (s\<lparr>st_deliveries := ds\<rparr>)" "ledger_extends s (s\<lparr>st_projection_checkpoints := cs\<rparr>)"
  by (simp_all add: ledger_extends_def tenant_events_def agg_head_def)

lemma ledger_effect_extends: "ledger_effect rt s s' \<Longrightarrow> ledger_extends s s'"
  by (induction rule: ledger_effect.induct)
    (auto intro: commit_append_extends dest!: claim_outbox_core update_claim_core)

lemma ledger_steps_extend:
  assumes "ledger_reachable rt s" "(ledger_step rt)\<^sup>*\<^sup>* s s'"
  shows "ledger_reachable rt s' \<and> ledger_extends s s'"
  using assms(2)
proof (induction rule: rtranclp_induct)
  case base
  with assms(1) show ?case by simp
next
  case (step s1 s2)
  then have "ledger_reachable rt s2"
    unfolding ledger_reachable_def by (meson rtranclp.rtrancl_into_rtrancl)
  with step show ?case
    using ledger_effect_extends ledger_step_effect reachable_ledger_inv ledger_extends_trans by blast
qed

section \<open>Idempotency entries and runs\<close>

text \<open>Every idempotency entry names a run that exists.\<close>

definition entries_ok :: "durability_state \<Rightarrow> bool" where
  "entries_ok s \<longleftrightarrow> (\<forall>t i r. st_idempotency s (t, i) = Some r \<longrightarrow> st_runs s (t, ir_run_id r) \<noteq> None)"

lemma ledger_effect_entries: "ledger_effect rt s s' \<Longrightarrow> entries_ok s \<Longrightarrow> entries_ok s'"
proof (induction rule: ledger_effect.induct)
  case (effect_append s s0 t ty a projected v drafts outbox inbox appended)
  then show ?case
    by (auto simp: append_base_def entries_ok_def with_entry_def idempotency_entry_def split: option.splits if_splits)
qed (auto simp: entries_ok_def dest!: claim_outbox_core update_claim_core)

lemma reachable_entries_ok: "ledger_reachable rt s \<Longrightarrow> entries_ok s"
proof (erule reachable_effect_induct)
  show "entries_ok initial_state" by (simp add: entries_ok_def initial_state_def)
qed (rule ledger_effect_entries)

text \<open>A live view is the replay of the run's events, and later views are replays from it.\<close>

lemma live_view_replay:
  assumes "ledger_inv rt s" "st_runs s (t, a) = Some v"
  shows "replay_run rt (run_events s t a) None = Inr (Some v)"
  using assms by (simp add: ledger_inv_def tenant_inv_def)

definition run_evolves :: "runtime \<Rightarrow> run_view \<Rightarrow> run_view \<Rightarrow> bool" where
  "run_evolves rt v v' \<longleftrightarrow> (\<exists>es. replay_run rt es (Some v) = Inr (Some v'))"

lemma run_evolves_refl [simp]: "run_evolves rt v v"
  unfolding run_evolves_def by (rule exI [of _ "[]"]) simp

lemma run_evolves_trans: "run_evolves rt u v \<Longrightarrow> run_evolves rt v w \<Longrightarrow> run_evolves rt u w"
  unfolding run_evolves_def by (metis bindE.simps(2) replay_run_append)

lemma ledger_effect_runs:
  "ledger_effect rt s s' \<Longrightarrow> st_runs s (t, a) = Some v \<Longrightarrow>
     \<exists>v'. st_runs s' (t, a) = Some v' \<and> run_evolves rt v v'"
proof (induction rule: ledger_effect.induct)
  case (effect_append s s0 t' ty a' projected u drafts outbox inbox appended)
  note p = plan_append_facts(9) [OF effect_append(2)] and b = append_base_fields(2) [OF effect_append(1)]
  show ?case
  proof (cases "ty = ''investigation'' \<and> (t', a') = (t, a)")
    case True
    with p b effect_append(3) have "replay_run rt appended (Some v) = Inr projected"
      by (simp add: project_appended_def)
    with True replay_run_nonempty [OF this plan_append_facts(10) [OF effect_append(2)]] show ?thesis
      by (auto simp: run_evolves_def)
  next
    case False
    with p b effect_append(3) show ?thesis
      by (auto simp: project_appended_def split: if_splits option.splits)
  qed
qed (auto dest!: claim_outbox_core update_claim_core)

lemma ledger_steps_runs:
  assumes "ledger_reachable rt s" "(ledger_step rt)\<^sup>*\<^sup>* s s'" "st_runs s (t, a) = Some v"
  shows "\<exists>v'. st_runs s' (t, a) = Some v' \<and> run_evolves rt v v'"
  using assms(2)
proof (induction rule: rtranclp_induct)
  case base
  with assms(3) show ?case by simp
next
  case (step s1 s2)
  from ledger_steps_extend [OF assms(1) step(1)] step(2) have "ledger_effect rt s1 s2"
    using ledger_step_effect reachable_ledger_inv by blast
  with step.IH ledger_effect_runs run_evolves_trans show ?case by metis
qed

lemma reduce_run_identity:
  assumes "reduce_run rt (Some v) e = Inr v'"
  shows "rv_tenant_id v' = rv_tenant_id v \<and> rv_run_id v' = rv_run_id v \<and> rv_incident_id v' = rv_incident_id v \<and>
    rv_request_ref v' = rv_request_ref v \<and> rv_workflow_id v' = rv_workflow_id v \<and> rv_created_at v' = rv_created_at v"
  using assms by (auto simp: reduce_run_Some)

lemma run_evolves_identity:
  assumes "run_evolves rt v v'"
  shows "rv_tenant_id v' = rv_tenant_id v \<and> rv_run_id v' = rv_run_id v \<and> rv_incident_id v' = rv_incident_id v \<and>
    rv_request_ref v' = rv_request_ref v \<and> rv_workflow_id v' = rv_workflow_id v \<and> rv_created_at v' = rv_created_at v"
proof -
  from assms obtain es where "replay_run rt es (Some v) = Inr (Some v')" by (auto simp: run_evolves_def)
  then show ?thesis
  proof (induction es arbitrary: v)
    case Nil
    then show ?case by simp
  next
    case (Cons e es)
    then obtain u where "reduce_run rt (Some v) e = Inr u" "replay_run rt es (Some u) = Inr (Some v')"
      by (auto simp: replay_run_Cons)
    with Cons.IH reduce_run_identity show ?case by metis
  qed
qed

lemma run_evolves_status:
  assumes "run_evolves rt v v'"
  shows "(\<lambda>a b. b \<in> set (run_allowed a))\<^sup>*\<^sup>* (rv_status v) (rv_status v')" "rv_version v \<le> rv_version v'"
    "run_allowed (rv_status v) = [] \<Longrightarrow> v' = v"
proof -
  from assms obtain es where es: "run_machine.replay rt es (Some v) = Inr (Some v')"
    by (auto simp: run_evolves_def run_machine_replay)
  from run_machine.replay_path [OF es] show "(\<lambda>a b. b \<in> set (run_allowed a))\<^sup>*\<^sup>* (rv_status v) (rv_status v')" .
  from run_machine.replay_version [OF es] show "rv_version v \<le> rv_version v'" by simp
  show "v' = v" if "run_allowed (rv_status v) = []"
    using run_machine.terminal_absorbing [of v es rt] es that by (cases "es = []") auto
qed

end
