(* ===== verification/Ledger_Progress.thy ===== *)
theory Ledger_Progress
  imports Ledger_Contract
begin

text \<open>
  When the commands succeed: the conditions under which an append of one draft goes through,
  and with them that a fresh well-formed request is always accepted and that a transition is
  recorded exactly when the state machine allows it.
\<close>

section \<open>Lengths of rendered documents\<close>

lemma length_esc_char: "length (esc_char c) \<le> 6"
  by (simp add: esc_char_def)

lemma length_quote_str: "length (quote_str s) \<le> 6 * length s + 2"
proof -
  have "length (concat (map esc_char s)) \<le> 6 * length s"
  proof (induction s)
    case Nil
    show ?case by simp
  next
    case (Cons c s)
    with length_esc_char [of c] show ?case by simp
  qed
  then show ?thesis by (simp add: quote_str_def)
qed

lemma length_join: "length (join [c] xs) \<le> sum_list (map (\<lambda>x. length x + 1) xs)"
  by (induction "[c]" xs rule: join.induct) auto

lemma length_render_obj:
  "length (render rt (JObj kvs)) \<le>
     2 + sum_list (map (\<lambda>kv. 6 * length (fst kv) + 4 + length (render rt (snd kv))) kvs)"
proof -
  let ?f = "\<lambda>kv. quote_str (fst kv) @ '':'' @ render rt (snd kv)"
  have "sum_list (map (\<lambda>x. length x + 1) (map ?f kvs)) \<le>
      sum_list (map (\<lambda>kv. 6 * length (fst kv) + 4 + length (render rt (snd kv))) kvs)"
  proof (induction kvs)
    case Nil
    show ?case by simp
  next
    case (Cons kv kvs)
    with length_quote_str [of "fst kv"] show ?case by simp
  qed
  with length_join [of "CHR '',''" "map ?f kvs"] show ?thesis by simp
qed

text \<open>Sorting the keys permutes the items of an object, so it keeps the bound.\<close>

lemma length_canonical_obj:
  "length (canonical_json rt (JObj kvs)) \<le>
     2 + sum_list (map (\<lambda>kv. 6 * length (fst kv) + 4 + length (canonical_json rt (snd kv))) kvs)"
proof -
  let ?n = "map (\<lambda>kv. (fst kv, norm_json (snd kv))) kvs"
  let ?w = "\<lambda>kv. 6 * length (fst kv) + 4 + length (render rt (snd kv))"
  have "sum_list (map ?w (sort_key fst ?n)) = sum_list (map ?w ?n)"
    unfolding sum_mset_sum_list [symmetric] mset_map mset_sort ..
  with length_render_obj [of rt "sort_key fst ?n"] show ?thesis
    by (simp add: canonical_json_def o_def)
qed

lemma length_canonical_str: "length (canonical_json rt (JStr s)) \<le> 6 * length s + 2"
  using length_quote_str [of s] by (simp add: canonical_json_def)

lemma length_canonical_bool: "length (canonical_json rt (JBool b)) \<le> 5"
  by (simp add: canonical_json_def)

section \<open>Stored events and heads are well formed\<close>

definition events_valid :: "durability_state \<Rightarrow> bool" where
  "events_valid s \<longleftrightarrow> (\<forall>t. \<forall>e \<in> set (tenant_events s t). valid_application_event e)"

lemma build_events_valid:
  "build_events rt t ty a sq cur aph tph ds = Inr es \<Longrightarrow> \<forall>e \<in> set es. valid_application_event e"
  by (induction ds arbitrary: sq cur aph tph es) (auto simp: build_event_def Let_def split: if_splits)

lemma ledger_effect_events_valid: "ledger_effect rt s s' \<Longrightarrow> events_valid s \<Longrightarrow> events_valid s'"
proof (induction rule: ledger_effect.induct)
  case (effect_append s s0 t ty a projected v drafts outbox inbox appended)
  note b = append_base_fields(3) [OF effect_append(1)]
    and new = build_events_valid [OF plan_append_facts(8) [OF effect_append(2)]]
  let ?s' = "commit_append t ty a appended projected outbox inbox s0"
  have "\<forall>e \<in> set (tenant_events ?s' t'). valid_application_event e" for t'
    using b new effect_append(3) by (cases "t' = t") (auto simp: tenant_events_commit_other events_valid_def)
  then show ?case by (simp add: events_valid_def)
qed (auto simp: events_valid_def tenant_events_def dest!: claim_outbox_core update_claim_core)

lemma reachable_events_valid: "ledger_reachable rt s \<Longrightarrow> events_valid s"
proof (erule reachable_effect_induct)
  show "events_valid initial_state"
    by (simp add: events_valid_def tenant_events_def initial_state_def get_default_def)
qed (rule ledger_effect_events_valid)

lemma hex64_zero_hash [simp]: "hex64 zero_hash"
  by (simp add: hex64_def zero_hash_def hex_chars_def list_all_iff)

lemma heads_after_hex:
  "\<forall>e \<in> set es. valid_application_event e \<Longrightarrow> (\<And>k x. h k = Some x \<Longrightarrow> hex64 (ah_record_hash x)) \<Longrightarrow>
     heads_after h es k = Some x \<Longrightarrow> hex64 (ah_record_hash x)"
proof (induction es arbitrary: h)
  case Nil
  then show ?case by simp
next
  case (Cons e es)
  show ?case
  proof (rule Cons.IH [of "h(event_key e \<mapsto> event_agg_head e)"])
    show "hex64 (ah_record_hash y)" if "(h(event_key e \<mapsto> event_agg_head e)) k' = Some y" for k' y
      using that Cons.prems(1,2)
      by (auto simp: event_agg_head_def valid_application_event_def split: if_splits)
  qed (use Cons.prems in \<open>simp_all del: fun_upd_apply\<close>)
qed

lemma reachable_heads_hex:
  assumes "ledger_reachable rt s"
  shows "hex64 (ah_record_hash (agg_head s (t, ty, a)))" "hex64 (th_record_hash (ten_head s t))"
proof -
  from reachable_ledger_inv [OF assms] have i: "tenant_inv rt s t" by (simp add: ledger_inv_def)
  from reachable_events_valid [OF assms] have v: "\<forall>e \<in> set (tenant_events s t). valid_application_event e"
    by (simp add: events_valid_def)
  from i heads_after_hex [OF v, of Map.empty "(ty, a)"] show "hex64 (ah_record_hash (agg_head s (t, ty, a)))"
    by (auto simp: tenant_inv_def agg_head_def get_default_def no_aggregate_head_def split: option.split)
  from i v show "hex64 (th_record_hash (ten_head s t))"
    by (cases "tenant_events s t" rule: rev_cases)
      (auto simp: tenant_inv_def no_tenant_head_def event_ten_head_def valid_application_event_def)
qed

section \<open>The head of a run\<close>

lemma heads_after_last:
  "heads_after h es k = (case filter (\<lambda>e. event_key e = k) es of
     [] \<Rightarrow> h k | x # xs \<Rightarrow> Some (event_agg_head (last (x # xs))))"
proof (induction es arbitrary: h)
  case Nil
  show ?case by simp
next
  case (Cons e es)
  show ?case by (cases "filter (\<lambda>e. event_key e = k) es") (auto simp: Cons.IH)
qed

lemma run_events_key: "run_events s t a = filter (\<lambda>e. event_key e = (''investigation'', a)) (tenant_events s t)"
  by (simp add: run_events_def is_run_event_def [abs_def] event_key_def)

lemma replay_run_last:
  assumes "replay_run rt es None = Inr (Some v)" "es \<noteq> []"
  shows "rv_version v = ev_aggregate_sequence (last es)" "rv_last_cursor v = ev_tenant_cursor (last es)"
  using assms by (cases es rule: rev_cases; auto simp: replay_run_snoc dest: reduce_run_fields)+

lemma live_view_head:
  assumes "ledger_reachable rt s" "st_runs s (t, a) = Some v"
  shows "run_events s t a \<noteq> []" "rv_last_cursor v = ev_tenant_cursor (last (run_events s t a))"
    "ah_sequence (agg_head s (t, ''investigation'', a)) = rv_version v"
    "valid_identifier t" "valid_identifier a"
proof -
  note i = reachable_ledger_inv [OF assms(1)]
  note r = live_view_replay [OF i assms(2)]
  then show ne: "run_events s t a \<noteq> []" by auto
  note l = replay_run_last [OF r ne]
  show "rv_last_cursor v = ev_tenant_cursor (last (run_events s t a))" by (rule l)
  have "agg_head s (t, ''investigation'', a) = event_agg_head (last (run_events s t a))"
    using i ne unfolding run_events_key
    by (auto simp: ledger_inv_def tenant_inv_def agg_head_def get_default_def heads_after_last
        split: list.splits option.splits)
  with l show "ah_sequence (agg_head s (t, ''investigation'', a)) = rv_version v"
    by (simp add: event_agg_head_def)
  from ne have "last (run_events s t a) \<in> set (run_events s t a)" by simp
  then have "last (run_events s t a) \<in> set (tenant_events s t)" "ev_aggregate_id (last (run_events s t a)) = a"
    by (simp_all add: run_events_def is_run_event_def)
  moreover from this(1) i reachable_events_valid [OF assms(1)]
  have "valid_application_event (last (run_events s t a))" "ev_tenant_id (last (run_events s t a)) = t"
    by (simp_all add: events_valid_def ledger_inv_def tenant_inv_def)
  ultimately show "valid_identifier t" "valid_identifier a"
    by (auto simp: valid_application_event_def)
qed

lemma no_run_head:
  assumes "ledger_inv rt s" "st_runs s (t, a) = None"
  shows "agg_head s (t, ''investigation'', a) = no_aggregate_head"
proof -
  have "run_events s t a = []"
    using assms replay_run_nonempty [of rt "run_events s t a" None]
    by (fastforce simp: ledger_inv_def tenant_inv_def)
  with assms(1) show ?thesis
    by (simp add: ledger_inv_def tenant_inv_def agg_head_def get_default_def heads_after_last run_events_key)
qed

lemma ten_head_cursor: "ledger_inv rt s \<Longrightarrow> th_cursor (ten_head s t) = length (tenant_events s t)"
  using chained_events_chain [of rt Map.empty no_tenant_head "{}" "tenant_events s t"]
  by (auto simp: ledger_inv_def tenant_inv_def no_tenant_head_def)

section \<open>An append of one draft\<close>

lemma build_event_succeeds:
  assumes "sha256_shape rt" "valid_event_draft rt d" "valid_identifier t" "valid_identifier ty" "valid_identifier a"
    and "hex64 aph" "hex64 tph"
  shows "\<exists>e. build_event rt t ty a (Suc sq) (Suc cur) aph tph d = Inr e"
  using assms
  by (simp add: build_event_def Let_def valid_application_event_def valid_event_draft_def sha256_shape_def)

lemma make_event_draft_valid:
  assumes "make_event_draft rt d = Inr d'"
  shows "valid_event_draft rt d'" "ev_event_type d' = ev_event_type d" "ev_event_id d' = ev_event_id d"
    "ev_occurred_at d' = ev_occurred_at d" "ev_payload d' = dict_sorted (ev_payload d)"
  using assms by (auto simp: make_event_draft_def valid_event_draft_def split: if_splits)

text \<open>An investigation append of one fresh draft at the current version goes through exactly when
  the reducer accepts the event it builds.\<close>

lemma plan_append_one:
  assumes "ledger_reachable rt s" "sha256_shape rt" "valid_event_draft rt d" "valid_identifier t" "valid_identifier a"
    and "ah_sequence (agg_head s (t, ''investigation'', a)) = v" "(t, ev_event_id d) \<notin> st_event_ids s"
    and "append_checks s t ''investigation'' a v [d] outbox inbox = Inr ()"
    and "st_event_ids s0 = st_event_ids s" "st_runs s0 = st_runs s" "agg_head s0 = agg_head s"
      "ten_head s0 = ten_head s" "st_deliveries s0 = st_deliveries s"
  obtains e where "build_event rt t ''investigation'' a (Suc v) (Suc (length (tenant_events s t)))
      (ah_record_hash (agg_head s (t, ''investigation'', a))) (th_record_hash (ten_head s t)) d = Inr e"
    "plan_append rt t ''investigation'' a v [d] outbox inbox s0 =
       bindE (reduce_run rt (st_runs s (t, a)) e) (\<lambda>w. Inr ([e], Some w))"
proof -
  have ty: "valid_identifier ''investigation''" by (simp add: valid_identifier_def ident_char_def)
  from build_event_succeeds [OF assms(2,3,4) ty assms(5) reachable_heads_hex(1) [OF assms(1), of t "''investigation''" a]
      reachable_heads_hex(2) [OF assms(1), of t], of v "length (tenant_events s t)"]
  obtain e where e: "build_event rt t ''investigation'' a (Suc v) (Suc (length (tenant_events s t)))
      (ah_record_hash (agg_head s (t, ''investigation'', a))) (th_record_hash (ten_head s t)) d = Inr e"
    by blast
  have c: "append_checks s0 t ''investigation'' a v [d] outbox inbox = Inr ()"
    using assms(8) by (simp add: append_checks_def assms(9-13))
  have "plan_append rt t ''investigation'' a v [d] outbox inbox s0 =
       bindE (reduce_run rt (st_runs s (t, a)) e) (\<lambda>w. Inr ([e], Some w))"
    using e ten_head_cursor [OF reachable_ledger_inv [OF assms(1)]]
    by (cases "reduce_run rt (st_runs s (t, a)) e")
      (simp_all add: plan_append_def c assms(10-12) project_appended_def replay_run_Cons)
  with e that show thesis by blast
qed

section \<open>A fresh request is accepted\<close>

lemma length_stable_id: "sha256_shape rt \<Longrightarrow> n \<le> 64 \<Longrightarrow> length (stable_id rt prefix parts n) = length prefix + 1 + n"
  by (simp add: stable_id_def sha256_shape_def hex64_def)

lemma durable_traceparent_length: "durable_traceparent rt c = Inr tr \<Longrightarrow> length tr = 55"
  by (auto simp: durable_traceparent_def Let_def split: if_splits)

lemma run_refs_valid:
  assumes "sha256_shape rt"
  shows "valid_identifier (rr_run_id (make_run_refs rt i q))" "valid_identifier (rr_request_ref (make_run_refs rt i q))"
    "valid_identifier (rr_tenant_ref (make_run_refs rt i q))" "valid_identifier (rr_actor_ref (make_run_refs rt i q))"
    "valid_identifier (rr_workflow_id (make_run_refs rt i q))"
  using assms by (auto simp: make_run_refs_def actor_ref_def Let_def ident_char_def intro!: valid_stable_id)

lemma run_refs_length:
  assumes "sha256_shape rt"
  shows "length (rr_run_id (make_run_refs rt i q)) = 36" "length (rr_request_ref (make_run_refs rt i q)) = 40"
    "length (rr_tenant_ref (make_run_refs rt i q)) = 39" "length (rr_actor_ref (make_run_refs rt i q)) = 38"
    "length (rr_workflow_id (make_run_refs rt i q)) = 49"
  using assms by (simp_all add: make_run_refs_def actor_ref_def Let_def length_stable_id)

lemma valid_identifier_length: "valid_identifier s \<Longrightarrow> length s \<le> 128"
  by (simp add: valid_identifier_def)

lemma valid_literals:
  "valid_identifier ''investigation.requested''" "valid_identifier ''temporal''" "valid_identifier ''investigation.start''" "valid_identifier ''investigation''"
  by (simp_all add: valid_identifier_def ident_char_def)

lemma requested_draft_succeeds:
  fixes now w i
  assumes "sha256_shape rt" "valid_identifier (iq_incident_id q)" "durable_traceparent rt c = Inr tr"
    and "length (canonical_json rt (request_json q)) \<le> 16384"
  defines "d \<equiv> requested_draft rt q w (make_run_refs rt i q) tr now"
  shows "make_event_draft rt d = Inr (d\<lparr>ev_payload := dict_sorted (ev_payload d)\<rparr>)"
proof -
  let ?r = "make_run_refs rt i q"
  have "length (canonical_json rt (JObj (ev_payload d))) \<le> max_event_bytes"
    using length_canonical_obj [of rt "ev_payload d"] assms(4) valid_identifier_length [OF assms(2)]
      length_canonical_str [of rt "iq_incident_id q"] length_canonical_str [of rt "rr_request_ref ?r"]
      length_canonical_str [of rt "rr_run_id ?r"] length_canonical_str [of rt "rr_tenant_ref ?r"]
      length_canonical_str [of rt tr] length_canonical_str [of rt "rr_workflow_id ?r"]
      length_canonical_bool [of rt w] run_refs_length [OF assms(1), of i q] durable_traceparent_length [OF assms(3)]
    by (simp add: d_def requested_draft_def max_event_bytes_def)
  then show ?thesis
    using run_refs_valid [OF assms(1), of i q] valid_literals valid_stable_id [OF assms(1), of "''event''" 32]
    by (simp add: make_event_draft_def valid_event_draft_def d_def requested_draft_def valid_opt_identifier_def
        ident_char_def)
qed

lemma start_outbox_succeeds:
  fixes now w i q
  assumes "sha256_shape rt" "durable_traceparent rt c = Inr tr"
  defines "m \<equiv> start_outbox rt w (make_run_refs rt i q) tr now"
  shows "make_outbox_draft rt m = Inr (m\<lparr>ob_payload := dict_sorted (ob_payload m)\<rparr>)"
proof -
  let ?r = "make_run_refs rt i q"
  have "length (canonical_json rt (JObj (ob_payload m))) \<le> 8192"
    using length_canonical_obj [of rt "ob_payload m"]
      length_canonical_str [of rt "rr_actor_ref ?r"] length_canonical_str [of rt "rr_request_ref ?r"]
      length_canonical_str [of rt "rr_run_id ?r"] length_canonical_str [of rt "rr_tenant_ref ?r"]
      length_canonical_str [of rt tr] length_canonical_str [of rt "rr_workflow_id ?r"]
      length_canonical_bool [of rt w] run_refs_length [OF assms(1), of i q] durable_traceparent_length [OF assms(2)]
    by (simp add: m_def start_outbox_def)
  then show ?thesis
    using valid_literals valid_stable_id [OF assms(1), of "''outbox''" 32]
    by (simp add: make_outbox_draft_def m_def start_outbox_def ident_char_def)
qed

lemma requested_event_view:
  assumes "sha256_shape rt" "valid_identifier (iq_incident_id q)" "valid_identifier (ev_tenant_id e)"
    and "1 \<le> ev_aggregate_sequence e" "1 \<le> ev_tenant_cursor e"
    and "ev_event_type e = ''investigation.requested''"
    and "ev_payload e = dict_sorted (ev_payload (requested_draft rt q w (make_run_refs rt i q) tr now))"
  shows "reduce_run rt None e = Inr \<lparr>rv_tenant_id = ev_tenant_id e, rv_run_id = rr_run_id (make_run_refs rt i q),
     rv_incident_id = iq_incident_id q, rv_request_ref = rr_request_ref (make_run_refs rt i q),
     rv_workflow_id = rr_workflow_id (make_run_refs rt i q), rv_status = Run_QUEUED,
     rv_version = ev_aggregate_sequence e, rv_last_cursor = ev_tenant_cursor e,
     rv_created_at = ev_occurred_at e, rv_updated_at = ev_occurred_at e, rv_failure_code = None, rv_replayed = False\<rparr>"
proof -
  let ?p = "ev_payload (requested_draft rt q w (make_run_refs rt i q) tr now)"
  have look: "map_of (ev_payload e) = map_of ?p"
    using assms(7) by (simp add: dict_sorted_def map_of_sort_key_fst requested_draft_def)
  have fc: "payload_failure_code (ev_payload e) = Inr None"
    by (simp add: payload_failure_code_def look requested_draft_def)
  have "payload_str rt (ev_payload e) ''run_id'' = Inr (rr_run_id (make_run_refs rt i q))"
    "payload_str rt (ev_payload e) ''incident_id'' = Inr (iq_incident_id q)"
    "payload_str rt (ev_payload e) ''request_ref'' = Inr (rr_request_ref (make_run_refs rt i q))"
    "payload_str rt (ev_payload e) ''workflow_id'' = Inr (rr_workflow_id (make_run_refs rt i q))"
    using assms(2) run_refs_valid [OF assms(1), of i q] by (simp_all add: payload_str_def look requested_draft_def)
  then have "initial_run_view rt Run_QUEUED e = Inr \<lparr>rv_tenant_id = ev_tenant_id e,
     rv_run_id = rr_run_id (make_run_refs rt i q),
     rv_incident_id = iq_incident_id q, rv_request_ref = rr_request_ref (make_run_refs rt i q),
     rv_workflow_id = rr_workflow_id (make_run_refs rt i q), rv_status = Run_QUEUED,
     rv_version = ev_aggregate_sequence e, rv_last_cursor = ev_tenant_cursor e,
     rv_created_at = ev_occurred_at e, rv_updated_at = ev_occurred_at e, rv_failure_code = None, rv_replayed = False\<rparr>"
    using assms(2-5) run_refs_valid [OF assms(1), of i q]
    by (simp add: initial_run_view_def valid_run_view_def valid_opt_identifier_def Let_def)
  with fc assms(6) show ?thesis by (simp add: reduce_run_None)
qed

definition accepted_view :: "runtime \<Rightarrow> datetime \<Rightarrow> identity_context \<Rightarrow> investigation_request \<Rightarrow> nat \<Rightarrow> run_view" where
  "accepted_view rt now i q cursor =
     (let r = make_run_refs rt i q in
      \<lparr>rv_tenant_id = id_tenant_id i, rv_run_id = rr_run_id r, rv_incident_id = iq_incident_id q,
       rv_request_ref = rr_request_ref r, rv_workflow_id = rr_workflow_id r, rv_status = Run_QUEUED,
       rv_version = 1, rv_last_cursor = cursor, rv_created_at = now, rv_updated_at = now,
       rv_failure_code = None, rv_replayed = False\<rparr>)"

text \<open>A request that is new to the store: no entry, no run, no event and no message under the
  identifiers it derives.\<close>

definition fresh_request :: "runtime \<Rightarrow> identity_context \<Rightarrow> investigation_request \<Rightarrow> durability_state \<Rightarrow> bool" where
  "fresh_request rt i q s \<longleftrightarrow>
     (let t = id_tenant_id i; run_id = rr_run_id (make_run_refs rt i q) in
      st_idempotency s (t, id_request_id i) = None \<and> st_runs s (t, run_id) = None \<and>
      (t, stable_id rt ''event'' [run_id, ''requested''] 32) \<notin> st_event_ids s \<and>
      map_of (st_deliveries s) (t, ''outbox'', stable_id rt ''outbox'' [run_id, ''temporal-start''] 32) = None)"

definition acceptable_request :: "runtime \<Rightarrow> identity_context \<Rightarrow> investigation_request \<Rightarrow> bool" where
  "acceptable_request rt i q \<longleftrightarrow>
     valid_identifier (id_tenant_id i) \<and> valid_identifier (iq_incident_id q) \<and>
     (\<exists>tr. durable_traceparent rt (id_trace_id i) = Inr tr) \<and>
     length (canonical_json rt (request_json q)) \<le> 16384"

lemma append_base_entry:
  "fresh_request rt i q s \<Longrightarrow> append_base rt s (with_entry rt i q w s) (id_tenant_id i) ''investigation''
     (rr_run_id (make_run_refs rt i q)) (Some v)"
  by (auto simp: append_base_def fresh_request_def Let_def)

lemma accept_run_success:
  fixes now
  assumes reach: "ledger_reachable rt s" and shape: "sha256_shape rt" and ok: "acceptable_request rt i q"
    and fresh: "fresh_request rt i q s"
  defines "v \<equiv> accepted_view rt now i q (Suc (length (tenant_events s (id_tenant_id i))))"
  shows "\<exists>s'. accept_run rt now i q w s = (Inr v, s') \<and> st_runs s' (id_tenant_id i, rr_run_id (make_run_refs rt i q)) = Some v"
proof -
  let ?t = "id_tenant_id i" and ?r = "make_run_refs rt i q"
  from ok obtain tr where tr: "durable_traceparent rt (id_trace_id i) = Inr tr"
    and ids: "valid_identifier ?t" "valid_identifier (iq_incident_id q)"
    and len: "length (canonical_json rt (request_json q)) \<le> 16384"
    by (auto simp: acceptable_request_def)
  let ?d = "requested_draft rt q w ?r tr now" and ?m = "start_outbox rt w ?r tr now"
  define d where "d = ?d\<lparr>ev_payload := dict_sorted (ev_payload ?d)\<rparr>"
  define m where "m = ?m\<lparr>ob_payload := dict_sorted (ob_payload ?m)\<rparr>"
  have mk: "make_event_draft rt ?d = Inr d" "make_outbox_draft rt ?m = Inr m"
    unfolding d_def m_def
    by (rule requested_draft_succeeds [OF shape ids(2) tr len] start_outbox_succeeds [OF shape tr])+
  have run: "st_runs s (?t, rr_run_id ?r) = None" using fresh by (simp add: fresh_request_def Let_def)
  note head = no_run_head [OF reachable_ledger_inv [OF reach] run]
  have checks: "append_checks s ?t ''investigation'' (rr_run_id ?r) 0 [d] [m] [] = Inr ()"
    using fresh head by (simp add: append_checks_def fresh_request_def Let_def d_def m_def requested_draft_def
        start_outbox_def no_aggregate_head_def)
  note base = append_base_fields [OF append_base_entry [OF fresh, of w v]] append_base_more [OF append_base_entry [OF fresh, of w v]]
  have th: "ten_head (with_entry rt i q w s) = ten_head s" by (simp add: with_entry_def ten_head_def fun_eq_iff)
  have seq: "ah_sequence (agg_head s (?t, ''investigation'', rr_run_id ?r)) = 0"
    using head by (simp add: no_aggregate_head_def)
  have idfresh: "(?t, ev_event_id d) \<notin> st_event_ids s"
    using fresh by (simp add: fresh_request_def Let_def d_def requested_draft_def)
  obtain e where e: "build_event rt ?t ''investigation'' (rr_run_id ?r) (Suc 0) (Suc (length (tenant_events s ?t)))
      (ah_record_hash (agg_head s (?t, ''investigation'', rr_run_id ?r))) (th_record_hash (ten_head s ?t)) d = Inr e"
    and plan: "plan_append rt ?t ''investigation'' (rr_run_id ?r) 0 [d] [m] [] (with_entry rt i q w s) =
       bindE (reduce_run rt (st_runs s (?t, rr_run_id ?r)) e) (\<lambda>w. Inr ([e], Some w))"
    by (rule plan_append_one [OF reach shape make_event_draft_valid(1) [OF mk(1)] ids(1)
          run_refs_valid(1) [OF shape] seq idfresh checks base(4,2,5) th base(1)])
  note f = build_event_fields [OF e]
  have "reduce_run rt None e = Inr v"
    using requested_event_view [OF shape ids(2), of e w i tr now] ids(1) f
    by (simp add: d_def requested_draft_def v_def accepted_view_def Let_def)
  with plan run have plan: "plan_append rt ?t ''investigation'' (rr_run_id ?r) 0 [d] [m] [] (with_entry rt i q w s) =
      Inr ([e], Some v)" by simp
  have "st_idempotency s (?t, id_request_id i) = None" using fresh by (simp add: fresh_request_def Let_def)
  from accept_run_fresh [OF this, of rt now q w] plan tr mk show ?thesis
    by (simp add: append_locked_def lookup_run_def)
qed

section \<open>A transition is recorded exactly when the state machine allows it\<close>

definition transition_status :: "run_view \<Rightarrow> string \<Rightarrow> run_status option" where
  "transition_status c event_type =
     (if event_type = ''investigation.resume_requested'' then Some (rv_status c)
      else map_of status_by_event event_type)"

lemma event_status_transition: "event_status (Some c) e = transition_status c (ev_event_type e)"
  by (simp add: event_status_def transition_status_def)

lemma reduce_run_rejects:
  assumes "reduce_run rt (Some c) e = Inl err"
  shows "\<exists>m. err = IntegrityFailure m"
  using assms
  by (auto simp: reduce_run_def validate_run_transition_def payload_failure_code_def bindE_Inl_iff
      split: option.splits if_splits json.splits)

definition transitioned :: "run_view \<Rightarrow> run_status \<Rightarrow> string option \<Rightarrow> nat \<Rightarrow> datetime \<Rightarrow> run_view" where
  "transitioned c st fc cursor now =
     c\<lparr>rv_failure_code := fc, rv_last_cursor := cursor, rv_replayed := False, rv_status := st,
       rv_updated_at := now, rv_version := Suc (rv_version c)\<rparr>"

lemma record_transition_decides:
  assumes reach: "ledger_reachable rt s" and shape: "sha256_shape rt"
    and run: "st_runs s (t, run_id) = Some c"
    and idfresh: "(t, stable_id rt ''event'' [run_id, event_type, operation_id] 32) \<notin> st_event_ids s"
    and mk: "make_event_draft rt (transition_draft rt now run_id event_type operation_id actor request_ref fc attributes) = Inr d"
  shows "case (transition_status c event_type, payload_failure_code (ev_payload d)) of
      (Some st, Inr code) \<Rightarrow>
        if st \<in> set (run_allowed (rv_status c))
        then \<exists>s'. record_transition rt now t run_id event_type operation_id actor request_ref fc attributes s =
               (Inr (transitioned c st code (Suc (length (tenant_events s t))) now), s')
        else \<exists>m. record_transition rt now t run_id event_type operation_id actor request_ref fc attributes s =
               (Inl (IntegrityFailure m), s)
    | _ \<Rightarrow> \<exists>m. record_transition rt now t run_id event_type operation_id actor request_ref fc attributes s =
               (Inl (IntegrityFailure m), s)"
proof -
  note head = live_view_head [OF reach run] and v = make_event_draft_valid [OF mk]
  have id: "(t, ev_event_id d) \<notin> st_event_ids s" using idfresh v(3) by (simp add: transition_draft_def)
  have checks: "append_checks s t ''investigation'' run_id (rv_version c) [d] [] [] = Inr ()"
    using head(3) id by (simp add: append_checks_def)
  obtain e where e: "build_event rt t ''investigation'' run_id (Suc (rv_version c)) (Suc (length (tenant_events s t)))
      (ah_record_hash (agg_head s (t, ''investigation'', run_id))) (th_record_hash (ten_head s t)) d = Inr e"
    and plan: "plan_append rt t ''investigation'' run_id (rv_version c) [d] [] [] s =
       bindE (reduce_run rt (st_runs s (t, run_id)) e) (\<lambda>w. Inr ([e], Some w))"
    by (rule plan_append_one [OF reach shape v(1) head(4,5,3) id checks]) auto
  note f = build_event_fields [OF e]
  have red: "reduce_run rt (Some c) e = Inr w \<longleftrightarrow>
      (\<exists>st code. transition_status c event_type = Some st \<and> payload_failure_code (ev_payload d) = Inr code \<and>
        st \<in> set (run_allowed (rv_status c)) \<and> w = transitioned c st code (Suc (length (tenant_events s t))) now)" for w
    using f v(2,4) by (simp add: reduce_run_Some event_status_transition transitioned_def transition_draft_def)
  show ?thesis
  proof (cases "reduce_run rt (Some c) e")
    case (Inl err)
    with reduce_run_rejects obtain m where "err = IntegrityFailure m" by blast
    with Inl plan run have "record_transition rt now t run_id event_type operation_id actor request_ref fc attributes s =
        (Inl (IntegrityFailure m), s)"
      by (simp add: record_transition_fresh [OF run idfresh] mk append_locked_def)
    moreover from Inl have "reduce_run rt (Some c) e \<noteq> Inr w" for w by simp
    ultimately show ?thesis using red by (auto split: option.split sum.split)
  next
    case (Inr w)
    with plan run have "\<exists>s'. record_transition rt now t run_id event_type operation_id actor request_ref fc attributes s =
        (Inr w, s')"
      by (simp add: record_transition_fresh [OF run idfresh] mk append_locked_def lookup_run_def)
    with red [of w] Inr show ?thesis by auto
  qed
qed

section \<open>A fresh signal is accepted when the state machine allows it\<close>

lemma replay_ids_valid:
  assumes "replay_run rt es None = Inr (Some v)"
  shows "valid_identifier (rv_workflow_id v)" "valid_identifier (rv_request_ref v)"
proof -
  from assms obtain e fs u where "es = e # fs" "reduce_run rt None e = Inr u" "replay_run rt fs (Some u) = Inr (Some v)"
    by (cases es) (auto simp: replay_run_Cons)
  then have "valid_run_view u" "run_evolves rt u v"
    by (auto simp: reduce_run_None initial_run_view_def run_evolves_def Let_def split: if_splits)
  with run_evolves_identity [of rt u v] show "valid_identifier (rv_workflow_id v)" "valid_identifier (rv_request_ref v)"
    by (auto simp: valid_run_view_def)
qed

lemma command_literals:
  "valid_identifier ''api''" "valid_identifier (''investigation.'' @ command_value ct)"
  "valid_identifier (''investigation.'' @ command_value ct @ ''_requested'')"
  by (simp_all add: valid_identifier_def ident_char_def; cases ct; simp add: ident_char_def)+

lemma actor_ref_valid: "sha256_shape rt \<Longrightarrow> valid_identifier (actor_ref rt i) \<and> length (actor_ref rt i) = 38"
  by (simp add: actor_ref_def length_stable_id valid_stable_id ident_char_def)

lemma signal_drafts_succeed:
  assumes shape: "sha256_shape rt" and ids: "valid_identifier (sc_command_id c)" "valid_identifier (sc_run_id c)"
    "valid_identifier (rv_workflow_id v)" "valid_identifier (rv_request_ref v)"
  obtains inbox outbox draft where "make_inbox_draft rt (signal_inbox rt i c) = Inr inbox"
    "make_outbox_draft rt (signal_outbox rt now1 v c) = Inr outbox"
    "make_event_draft rt (signal_draft rt now2 i v c) = Inr draft"
proof -
  note len = valid_identifier_length [OF ids(1)] valid_identifier_length [OF ids(2)] valid_identifier_length [OF ids(3)]
    actor_ref_valid [OF shape, of i] length_canonical_str [of rt "sc_command_id c"]
    length_canonical_str [of rt "sc_run_id c"] length_canonical_str [of rt "rv_workflow_id v"]
    length_canonical_str [of rt "actor_ref rt i"]
  have "length (canonical_json rt (JObj (ib_payload (signal_inbox rt i c)))) \<le> 8192"
    using length_canonical_obj [of rt "ib_payload (signal_inbox rt i c)"] len by (simp add: signal_inbox_def)
  then have "\<exists>x. make_inbox_draft rt (signal_inbox rt i c) = Inr x"
    using ids command_literals by (simp add: make_inbox_draft_def signal_inbox_def)
  moreover have "length (canonical_json rt (JObj (ob_payload (signal_outbox rt now1 v c)))) \<le> 8192"
    using length_canonical_obj [of rt "ob_payload (signal_outbox rt now1 v c)"] len by (simp add: signal_outbox_def)
  then have "\<exists>x. make_outbox_draft rt (signal_outbox rt now1 v c) = Inr x"
    using ids command_literals valid_literals valid_stable_id [OF shape, of "''outbox''" 32]
    by (simp add: make_outbox_draft_def signal_outbox_def signal_event_type_def ident_char_def)
  moreover have "length (canonical_json rt (JObj (ev_payload (signal_draft rt now2 i v c)))) \<le> max_event_bytes"
    using length_canonical_obj [of rt "ev_payload (signal_draft rt now2 i v c)"] len
    by (simp add: signal_draft_def max_event_bytes_def)
  then have "\<exists>x. make_event_draft rt (signal_draft rt now2 i v c) = Inr x"
    using ids command_literals actor_ref_valid [OF shape, of i] valid_stable_id [OF shape, of "''event''" 32]
    by (simp add: make_event_draft_def valid_event_draft_def signal_draft_def signal_event_type_def
        valid_opt_identifier_def ident_char_def)
  ultimately show thesis using that by blast
qed

definition fresh_signal :: "runtime \<Rightarrow> identity_context \<Rightarrow> signal_command \<Rightarrow> durability_state \<Rightarrow> bool" where
  "fresh_signal rt i c s \<longleftrightarrow>
     (let t = id_tenant_id i in
      map_of (st_deliveries s) (t, ''inbox'', sc_command_id c) = None \<and>
      map_of (st_deliveries s) (t, ''outbox'', stable_id rt ''outbox'' [sc_run_id c, sc_command_id c] 32) = None \<and>
      (t, stable_id rt ''event'' [sc_run_id c, signal_event_type c, sc_command_id c] 32) \<notin> st_event_ids s)"

definition signal_status :: "run_view \<Rightarrow> signal_command \<Rightarrow> run_status" where
  "signal_status v c = (case sc_command_type c of Resume \<Rightarrow> rv_status v | Cancel \<Rightarrow> Run_CANCEL_REQUESTED)"

lemma cancel_status: "map_of status_by_event ''investigation.cancel_requested'' = Some Run_CANCEL_REQUESTED"
  by code_simp

lemma signal_transition_status: "transition_status v (signal_event_type c) = Some (signal_status v c)"
  by (cases "sc_command_type c")
    (simp_all add: transition_status_def signal_event_type_def signal_status_def cancel_status)

lemma accept_signal_success:
  assumes reach: "ledger_reachable rt s" and shape: "sha256_shape rt" and cid: "valid_identifier (sc_command_id c)"
    and run: "st_runs s (id_tenant_id i, sc_run_id c) = Some v" and fresh: "fresh_signal rt i c s"
    and bound: "sc_command_type c = Resume \<Longrightarrow> resume_count s (id_tenant_id i) (sc_run_id c) < max_resume_commands"
    and allowed: "signal_status v c \<in> set (run_allowed (rv_status v))"
  shows "\<exists>s'. accept_signal rt now1 now2 i c s =
    (Inr (transitioned v (signal_status v c) None (Suc (length (tenant_events s (id_tenant_id i)))) now2), s')"
proof -
  let ?t = "id_tenant_id i"
  note head = live_view_head [OF reach run]
  note rep = live_view_replay [OF reachable_ledger_inv [OF reach] run]
  obtain inbox outbox draft where mk: "make_inbox_draft rt (signal_inbox rt i c) = Inr inbox"
    "make_outbox_draft rt (signal_outbox rt now1 v c) = Inr outbox"
    "make_event_draft rt (signal_draft rt now2 i v c) = Inr draft"
    using signal_drafts_succeed [OF shape cid head(5) replay_ids_valid [OF rep]] by metis
  note dv = make_event_draft_valid [OF mk(3)]
  have ids: "ib_message_id inbox = sc_command_id c"
    "ob_message_id outbox = stable_id rt ''outbox'' [sc_run_id c, sc_command_id c] 32"
    using mk(1,2) by (auto simp: make_inbox_draft_def make_outbox_draft_def signal_inbox_def signal_outbox_def split: if_splits)
  have id: "(?t, ev_event_id draft) \<notin> st_event_ids s"
    using fresh dv(3) by (simp add: fresh_signal_def Let_def signal_draft_def)
  have checks: "append_checks s ?t ''investigation'' (sc_run_id c) (rv_version v) [draft] [outbox] [inbox] = Inr ()"
    using head(3) id fresh ids by (simp add: append_checks_def fresh_signal_def Let_def)
  obtain e where e: "build_event rt ?t ''investigation'' (sc_run_id c) (Suc (rv_version v)) (Suc (length (tenant_events s ?t)))
      (ah_record_hash (agg_head s (?t, ''investigation'', sc_run_id c))) (th_record_hash (ten_head s ?t)) draft = Inr e"
    and plan: "plan_append rt ?t ''investigation'' (sc_run_id c) (rv_version v) [draft] [outbox] [inbox] s =
       bindE (reduce_run rt (st_runs s (?t, sc_run_id c)) e) (\<lambda>w. Inr ([e], Some w))"
    by (rule plan_append_one [OF reach shape dv(1) head(4,5,3) id checks]) auto
  note f = build_event_fields [OF e]
  have "payload_failure_code (ev_payload draft) = Inr None"
    using dv(5) by (simp add: signal_draft_def payload_failure_code_def dict_sorted_def map_of_sort_key_fst)
  then have "reduce_run rt (Some v) e =
      Inr (transitioned v (signal_status v c) None (Suc (length (tenant_events s ?t))) now2)"
    using f dv(2,4) allowed signal_transition_status [of v c]
    by (simp add: reduce_run_Some event_status_transition transitioned_def signal_draft_def)
  with plan run bound mk fresh accept_signal_fresh [OF run, of rt now1 now2] show ?thesis
    by (auto simp: append_locked_def lookup_run_def fresh_signal_def Let_def)
qed

end
