(* ===== verification/Sample_Data.thy ===== *)
theory Sample_Data
  imports Ledger_Progress "HOL-Library.Code_Target_Nat"
begin

text \<open>
  Concrete inputs on which the theorems of the development are applied: a runtime whose digest
  is 64 times the last digit of the length of its input, one identity, one request and the
  store after the request is accepted.
\<close>

section \<open>A runtime\<close>

definition sample_digest :: "string \<Rightarrow> string" where
  "sample_digest s = replicate 64 (hex_chars ! (length s mod 9 + 1))"

definition sample_float :: "pyfloat \<Rightarrow> string" where
  "sample_float f = int_str (mantissa f) @ ''e'' @ int_str (exponent f)"

definition sample_rt :: runtime where
  "sample_rt = \<lparr>sha256_hexdigest = sample_digest, hmac_sha256 = (\<lambda>k b. sample_digest (k @ b)),
     float_repr = sample_float\<rparr>"

lemma sample_rt_simps [simp]:
  "sha256_hexdigest sample_rt = sample_digest" "float_repr sample_rt = sample_float"
  by (simp_all add: sample_rt_def)

lemma sample_shape: "sha256_shape sample_rt"
proof -
  have "length s mod 9 + 1 < length hex_chars" for s :: string
    by (rule less_le_trans [of _ 10]) (simp_all add: hex_chars_def less_Suc_eq_le)
  then show ?thesis
    by (simp add: sha256_shape_def hex64_def sample_digest_def list_all_iff)
qed

lemma sample_float_ok: "float_repr_ok sample_rt"
proof -
  have no_e: "CHR ''e'' \<notin> set (int_str i)" for i
    using int_str_chars [of "CHR ''e''" i] by (auto simp: is_digit_def)
  have "f = g" if "sample_float f = sample_float g" for f g
  proof -
    from that have eq: "int_str (mantissa f) @ CHR ''e'' # int_str (exponent f) =
        int_str (mantissa g) @ CHR ''e'' # int_str (exponent g)" by (simp add: sample_float_def)
    have "takeWhile (\<lambda>c. c \<noteq> CHR ''e'') (int_str i @ CHR ''e'' # r) = int_str i" for i r
      using no_e [of i] by (subst takeWhile_append2) auto
    with eq have "int_str (mantissa f) = int_str (mantissa g)" by metis
    with eq show ?thesis by (cases f; cases g) simp
  qed
  then show ?thesis
    by (auto simp: float_repr_ok_def inj_def sample_float_def is_num_char_def dest: int_str_chars)
qed

section \<open>A request and the store after it\<close>

definition sample_identity :: identity_context where
  "sample_identity = \<lparr>id_tenant_id = ''acme'', id_issuer = ''idp'', id_subject_id = ''alice'',
     id_principal_kind = HUMAN, id_roles = [''incident-responder''], id_permissions = [''investigation:run''],
     id_purposes = [''incident-response''],
     id_grants = [\<lparr>gb_role = ''incident-responder'', gb_purpose = ''incident-response'',
       gb_permissions = [''investigation:run''], gb_risk_ceiling = MEDIUM, gb_expires_at = 900\<rparr>],
     id_grant_version = 1, id_authenticated_at = 1, id_expires_at = 900,
     id_request_id = ''req-1'', id_trace_id = ''trace-1''\<rparr>"

definition sample_request :: investigation_request where
  "sample_request = \<lparr>iq_incident_id = ''inc-1'', iq_alert = \<lparr>ca_region = ''eu'', ca_observed_at = 10,
     ca_failure_rate = PyFloat 1 (-3), ca_threshold = PyFloat 1 (-5)\<rparr>\<rparr>"

definition sample_run_id :: string where
  "sample_run_id = rr_run_id (make_run_refs sample_rt sample_identity sample_request)"

definition sample_view :: run_view where
  "sample_view = accepted_view sample_rt 100 sample_identity sample_request 1"

definition sample_state :: durability_state where
  "sample_state = snd (accept_run sample_rt 100 sample_identity sample_request False initial_state)"

lemma sample_identity_simps [simp]:
  "id_tenant_id sample_identity = ''acme''" "id_request_id sample_identity = ''req-1''"
  "id_trace_id sample_identity = ''trace-1''"
  by (simp_all add: sample_identity_def)

lemma sample_trace: "\<exists>tr. durable_traceparent sample_rt ''trace-1'' = Inr tr"
  by (simp add: durable_traceparent_def deterministic_sample_def Let_def sample_digest_def hex_chars_def list_all_iff)

lemma sample_acceptable: "acceptable_request sample_rt sample_identity sample_request"
proof -
  have "length (canonical_json sample_rt (request_json sample_request)) \<le> 16384" by code_simp
  with sample_trace show ?thesis
    by (simp add: acceptable_request_def valid_identifier_def ident_char_def sample_request_def)
qed

lemma initial_fresh: "fresh_request rt i q initial_state"
  by (simp add: fresh_request_def initial_state_def Let_def)

lemma initial_reachable [simp]: "ledger_reachable rt initial_state"
  by (simp add: ledger_reachable_def)

lemma initial_tenant_events [simp]: "tenant_events initial_state t = []"
  by (simp add: tenant_events_def initial_state_def get_default_def)

lemma sample_accept:
  "accept_run sample_rt 100 sample_identity sample_request False initial_state = (Inr sample_view, sample_state)"
  "st_runs sample_state (''acme'', sample_run_id) = Some sample_view"
proof -
  from accept_run_success [OF initial_reachable sample_shape sample_acceptable initial_fresh, of 100 False]
  obtain s' where s': "accept_run sample_rt 100 sample_identity sample_request False initial_state = (Inr sample_view, s')"
    "st_runs s' (''acme'', sample_run_id) = Some sample_view"
    by (auto simp: sample_view_def sample_run_id_def)
  moreover from s'(1) have "sample_state = s'" by (simp add: sample_state_def)
  ultimately show "accept_run sample_rt 100 sample_identity sample_request False initial_state = (Inr sample_view, sample_state)"
    "st_runs sample_state (''acme'', sample_run_id) = Some sample_view" by simp_all
qed

lemma sample_reachable: "ledger_reachable sample_rt sample_state"
  unfolding ledger_reachable_def by (rule r_into_rtranclp) (rule step_accept_run [OF sample_accept(1)])

end
