(* ===== verification/Ledger_Properties.thy ===== *)
theory Ledger_Properties
  imports Sample_Data
begin

text \<open>
  The correctness properties of the event ledger: integrity of the chain in every history,
  projections as replays, atomic appends with optimistic concurrency, idempotent commands,
  and the life of a run.
\<close>

section \<open>Samples of the operations\<close>

lemma run_step: "ledger_reachable rt s \<Longrightarrow> ledger_step rt s s' \<Longrightarrow> ledger_reachable rt s'"
  unfolding ledger_reachable_def by (rule rtranclp.rtrancl_into_rtrancl)

lemma sample_events: "run_events sample_state ''acme'' sample_run_id \<noteq> []"
  by (rule live_view_head(1) [OF sample_reachable sample_accept(2)])

lemma sample_schema: "list_all first_schema (tenant_events sample_state ''acme'')"
  using accept_run_schema [OF sample_accept(1)] by (simp add: sample_identity_def tenant_events_def initial_state_def get_default_def)

definition sample_note :: event_draft where
  "sample_note = \<lparr>ev_event_id = ''n1'', ev_event_type = ''note'', ev_occurred_at = 5, ev_actor_ref = ''a'',
     ev_correlation_ref = ''c'', ev_causation_ref = None, ev_schema_version = 1, ev_payload = []\<rparr>"

lemma sample_note_valid: "valid_event_draft rt sample_note" "draft_ok rt sample_note"
  by (simp_all add: draft_ok_def make_event_draft_def valid_event_draft_def sample_note_def valid_opt_identifier_def
      valid_identifier_def ident_char_def canonical_json_def max_event_bytes_def dict_sorted_def)

definition sample_note_call :: "application_event list result \<times> durability_state" where
  "sample_note_call = append_events sample_rt ''acme'' ''note'' ''k'' 0 [sample_note] [] [] initial_state"

lemma initial_heads [simp]:
  "agg_head initial_state k = no_aggregate_head" "ten_head initial_state t = no_tenant_head"
  by (simp_all add: agg_head_def ten_head_def get_default_def initial_state_def)

lemma sample_append_note:
  assumes "valid_event_draft sample_rt d"
  shows "\<exists>es s'. append_events sample_rt ''acme'' ''note'' ''k'' 0 [d] [] [] initial_state = (Inr es, s')"
proof -
  have "valid_identifier ''acme''" "valid_identifier ''note''" "valid_identifier ''k''"
    by (simp_all add: valid_identifier_def ident_char_def)
  from build_event_succeeds [OF sample_shape assms this hex64_zero_hash hex64_zero_hash, of 0 0]
  show ?thesis
    by (auto simp: append_events_def op_defs append_locked_def plan_append_def append_checks_def
        project_appended_def max_events_per_append_def no_aggregate_head_def no_tenant_head_def)
      (simp_all add: initial_state_def)
qed

lemma sample_note_append: "\<exists>es. append_events sample_rt ''acme'' ''note'' ''k'' 0 [sample_note] [] [] initial_state =
    (Inr es, snd sample_note_call)"
  using sample_append_note [OF sample_note_valid(1)] by (auto simp: sample_note_call_def)

section \<open>Integrity\<close>

text \<open>C1. In every history of the store, whatever calls were made with whatever arguments and
  outcomes, the hash chain of every tenant's log is intact: \<open>verify_integrity\<close> never raises, and it returns
  whether all events of the log have schema version 1. So it accepts every log without events of another version,
  which only a caller of \<open>append\<close> can write, and it refuses every log with one.\<close>

theorem ledger_always_verifies:
  assumes "ledger_reachable rt s"
  shows "verify_integrity rt s t = Inr (list_all (\<lambda>e. ev_schema_version e = 1) (tenant_events s t))"
  by (rule ledger_inv_verify [OF reachable_ledger_inv [OF assms]])

theorem ledger_always_verifies_witness:
  "ledger_reachable sample_rt sample_state \<and> tenant_events sample_state ''acme'' \<noteq> [] \<and>
   verify_integrity sample_rt sample_state ''acme'' = Inr True"
  using ledger_always_verifies [OF sample_reachable, of "''acme''"] sample_reachable sample_events sample_schema
  by (auto simp: run_events_def)

text \<open>C2. The live view of a run is the replay of the run's events from the empty projection, so
  the projection can be thrown away and recomputed; a run has a view exactly when it has events.\<close>

theorem live_view_is_replay:
  assumes "ledger_reachable rt s"
  shows "replay_run rt (run_events s t run_id) None = Inr (get_run s t run_id) \<and>
    (get_run s t run_id = None \<longleftrightarrow> run_events s t run_id = [])"
proof -
  have r: "replay_run rt (run_events s t run_id) None = Inr (st_runs s (t, run_id))"
    using reachable_ledger_inv [OF assms] by (simp add: ledger_inv_def tenant_inv_def)
  moreover from r replay_run_nonempty [OF r] have "st_runs s (t, run_id) = None \<longleftrightarrow> run_events s t run_id = []"
    by fastforce
  ultimately show ?thesis by (simp add: get_run_def)
qed

theorem live_view_is_replay_witness:
  "get_run sample_state ''acme'' sample_run_id = Some sample_view \<and>
   replay_run sample_rt (run_events sample_state ''acme'' sample_run_id) None = Inr (Some sample_view)"
  using live_view_is_replay [OF sample_reachable, of "''acme''" sample_run_id] sample_accept(2)
  by (simp add: get_run_def)

text \<open>Rebuilding one run of a log that verifies or all runs of a tenant returns the live views and changes no view; the
  checkpoint that is stored names the last event of the tenant's log.\<close>

theorem rebuild_is_identity:
  assumes "ledger_reachable rt s" "list_all first_schema (tenant_events s t)"
  shows "rebuild_run rt t run_id s =
      (case get_run s t run_id of None \<Rightarrow> (Inl (ValueError ''run does not exist''), s) | Some v \<Rightarrow> (Inr v, s)) \<and>
    (\<exists>c. rebuild_run_projections rt t s =
        (Inr c, s\<lparr>st_projection_checkpoints := (st_projection_checkpoints s)((t, ''investigation-runs'') \<mapsto> c)\<rparr>) \<and>
      pc_last_cursor c = length (tenant_events s t) \<and> pc_last_event_hash c = th_record_hash (ten_head s t))"
proof -
  note i = reachable_ledger_inv [OF assms(1)]
  from rebuild_run_projections_inv [OF i, of t] obtain c where
    c: "rebuild_run_projections rt t s =
      (Inr c, s\<lparr>st_projection_checkpoints := (st_projection_checkpoints s)((t, ''investigation-runs'') \<mapsto> c)\<rparr>)" by blast
  then have "pc_last_cursor c = th_cursor (ten_head s t) \<and> pc_last_event_hash c = th_record_hash (ten_head s t)"
    by (auto simp: rebuild_run_projections_def Let_def split: prod.splits sum.splits)
  with c ten_head_cursor [OF i] rebuild_run_inv [OF i] assms(2) show ?thesis by (simp add: get_run_def)
qed

theorem rebuild_is_identity_witness:
  "rebuild_run sample_rt ''acme'' sample_run_id sample_state = (Inr sample_view, sample_state)"
  using rebuild_is_identity [OF sample_reachable sample_schema, of sample_run_id] sample_accept(2)
  by (simp add: get_run_def)

text \<open>C3. Tamper evidence: a log that the verifier accepts and that ends in the tenant head of a
  genuine store is the genuine log, event for event up to the order of payload keys, or else
  two of their documents are an explicit SHA-256 collision.\<close>

theorem forged_log_needs_collision:
  assumes "float_repr_ok rt" "ledger_reachable rt s"
    and "verify_events rt Map.empty no_tenant_head {} forged = Inr True"
    and "thead_after no_tenant_head forged = ten_head s t"
  shows "map event_content forged = map event_content (tenant_events s t) \<and>
      map ev_record_hash forged = map ev_record_hash (tenant_events s t) \<or>
    (\<exists>e \<in> set forged. \<exists>f \<in> set (tenant_events s t).
      sha256_collision rt (render rt (record_document e)) (render rt (record_document f)))"
proof (rule chained_logs_same_head [OF assms(1)])
  from reachable_ledger_inv [OF assms(2)] assms(3,4)
  show "chained_events rt Map.empty no_tenant_head {} forged" "chained_events rt Map.empty no_tenant_head {} (tenant_events s t)"
    "thead_after no_tenant_head forged = thead_after no_tenant_head (tenant_events s t)"
    by (simp_all add: ledger_inv_def tenant_inv_def verify_events_chained)
qed

theorem forged_log_needs_collision_witness:
  "\<exists>log. log \<noteq> [] \<and> verify_events sample_rt Map.empty no_tenant_head {} log = Inr True \<and>
     thead_after no_tenant_head log = ten_head sample_state ''acme'' \<and>
     (map event_content log = map event_content (tenant_events sample_state ''acme'') \<or>
      (\<exists>e \<in> set log. \<exists>f \<in> set (tenant_events sample_state ''acme'').
        sha256_collision sample_rt (render sample_rt (record_document e)) (render sample_rt (record_document f))))"
proof (intro exI conjI)
  have i: "tenant_inv sample_rt sample_state ''acme''"
    using reachable_ledger_inv [OF sample_reachable] by (simp add: ledger_inv_def)
  show "tenant_events sample_state ''acme'' \<noteq> []" using sample_events by (auto simp: run_events_def)
  show v: "verify_events sample_rt Map.empty no_tenant_head {} (tenant_events sample_state ''acme'') = Inr True"
    and h: "thead_after no_tenant_head (tenant_events sample_state ''acme'') = ten_head sample_state ''acme''"
    using i sample_schema by (simp_all add: tenant_inv_def verify_events_chained)
  from forged_log_needs_collision [OF sample_float_ok sample_reachable v h]
  show "map event_content (tenant_events sample_state ''acme'') = map event_content (tenant_events sample_state ''acme'') \<or>
      (\<exists>e \<in> set (tenant_events sample_state ''acme''). \<exists>f \<in> set (tenant_events sample_state ''acme'').
        sha256_collision sample_rt (render sample_rt (record_document e)) (render sample_rt (record_document f)))"
    by blast
qed

section \<open>Appends\<close>

text \<open>C4. Every command is atomic: a call that raises leaves the whole store as it was, also the
  idempotency entry that \<open>accept_run\<close> writes before its append.\<close>

theorem commands_atomic:
  "(append_events rt t ty a v drafts outbox inbox s = (Inl e, s1) \<longrightarrow> s1 = s) \<and>
   (accept_run rt now i q w s = (Inl e, s2) \<longrightarrow> s2 = s) \<and>
   (record_transition rt now t a ty op actor ref fc attributes s = (Inl e, s3) \<longrightarrow> s3 = s) \<and>
   (accept_signal rt now now' i c s = (Inl e, s4) \<longrightarrow> s4 = s) \<and>
   (replay_legacy rt t a actor ref legacy upcast s = (Inl e, s5) \<longrightarrow> s5 = s)"
proof (intro conjI impI)
  have append: "s' = s" if "append_events rt t ty a v drafts outbox inbox s = (Inl e, s')" for ty v drafts outbox inbox s'
    using that by (elim append_events_cases append_locked_cases) auto
  show "s1 = s" if "append_events rt t ty a v drafts outbox inbox s = (Inl e, s1)" using append [OF that] .
  show "s2 = s" if "accept_run rt now i q w s = (Inl e, s2)" using that by (rule accept_run_cases) auto
  show "s3 = s" if "record_transition rt now t a ty op actor ref fc attributes s = (Inl e, s3)"
    using that by (rule record_transition_cases) auto
  show "s4 = s" if "accept_signal rt now now' i c s = (Inl e, s4)" using that by (rule accept_signal_cases) auto
  show "s5 = s" if "replay_legacy rt t a actor ref legacy upcast s = (Inl e, s5)"
    using that append by (auto simp: replay_legacy_def bindS_def liftS_def split: sum.splits)
qed

theorem commands_atomic_witness:
  "append_events sample_rt ''acme'' ''note'' ''k'' 0 [] [] [] sample_state =
     (Inl (ValueError ''event batch is outside the permitted bound''), sample_state) \<and>
   record_transition sample_rt 7 ''acme'' ''none'' ''investigation.started'' ''op'' ''a'' ''r'' None None initial_state =
     (Inl (IntegrityFailure ''durable run does not exist''), initial_state)"
proof -
  have "append_events sample_rt ''acme'' ''note'' ''k'' 0 [] [] [] sample_state =
      (Inl (ValueError ''event batch is outside the permitted bound''),
       snd (append_events sample_rt ''acme'' ''note'' ''k'' 0 [] [] [] sample_state))"
    by (simp add: append_events_def op_defs)
  moreover have "record_transition sample_rt 7 ''acme'' ''none'' ''investigation.started'' ''op'' ''a'' ''r'' None None initial_state =
      (Inl (IntegrityFailure ''durable run does not exist''),
       snd (record_transition sample_rt 7 ''acme'' ''none'' ''investigation.started'' ''op'' ''a'' ''r'' None None initial_state))"
    by (simp add: record_transition_def initial_state_def)
  ultimately show ?thesis by (metis commands_atomic)
qed

text \<open>A successful append adds exactly the drafts, in order, at the end of the tenant's log,
  with the next sequence numbers of the aggregate and the next cursors of the tenant, moves the
  aggregate to the new version, and leaves every other tenant's log alone.\<close>

theorem append_extends_log:
  assumes "ledger_reachable rt s" "append_events rt t ty a v drafts outbox inbox s = (Inr es, s')"
  shows "tenant_events s' t = tenant_events s t @ es \<and> (\<forall>u. u \<noteq> t \<longrightarrow> tenant_events s' u = tenant_events s u) \<and>
    map ev_event_id es = map ev_event_id drafts \<and> (\<forall>e \<in> set es. ev_tenant_id e = t \<and> event_key e = (ty, a)) \<and>
    ah_sequence (agg_head s (t, ty, a)) = v \<and> ah_sequence (agg_head s' (t, ty, a)) = v + length drafts \<and>
    map ev_aggregate_sequence es = [v + 1..<v + 1 + length drafts] \<and>
    map ev_tenant_cursor es = [length (tenant_events s t) + 1..<length (tenant_events s t) + 1 + length drafts]"
proof -
  from assms(2) obtain projected where
    plan: "plan_append rt t ty a v drafts outbox inbox s = Inr (es, projected)"
    and s': "s' = commit_append t ty a es projected outbox inbox s"
    by (elim append_events_cases append_locked_cases) auto
  note p = plan_append_facts [OF plan] and l = plan_append_last [OF plan]
  note b = build_events_fields [OF p(8)] build_events_sequences [OF p(8)]
  have "ah_sequence (agg_head s' (t, ty, a)) = v + length drafts"
    using s' l(1) b(2) by (simp add: agg_head_def get_default_def event_agg_head_def)
  with p(1) b s' ten_head_cursor [OF reachable_ledger_inv [OF assms(1)]] show ?thesis
    by (auto simp: tenant_events_commit_other)
qed

theorem append_extends_log_witness:
  "\<exists>es s'. append_events sample_rt ''acme'' ''note'' ''k'' 0 [sample_note] [] [] initial_state = (Inr es, s') \<and>
     tenant_events s' ''acme'' = es \<and> map ev_event_id es = [''n1''] \<and> map ev_aggregate_sequence es = [1]"
proof -
  from sample_note_append obtain es where es: "append_events sample_rt ''acme'' ''note'' ''k'' 0 [sample_note] [] [] initial_state =
    (Inr es, snd sample_note_call)" by blast
  with append_extends_log [OF initial_reachable es] show ?thesis by (auto simp: sample_note_def)
qed

text \<open>Optimistic concurrency loses no update: once an append at some expected version has
  succeeded, a second append at that version is refused with a conflict, now and in every later
  state, and writes nothing.\<close>

theorem stale_append_refused:
  assumes "ledger_reachable rt s" "append_events rt t ty a v drafts outbox inbox s = (Inr es, s1)"
    and "list_all (draft_ok rt) drafts" "(ledger_step rt)\<^sup>*\<^sup>* s1 s2"
    and "drafts' \<noteq> []" "length drafts' \<le> max_events_per_append"
  shows "append_events rt t ty a v drafts' outbox' inbox' s2 =
    (Inl (ConcurrencyConflict ''aggregate version changed''), s2)"
proof -
  from assms(2) obtain projected where
    plan: "plan_append rt t ty a v drafts outbox inbox s = Inr (es, projected)"
    and s1: "s1 = commit_append t ty a es projected outbox inbox s"
    by (elim append_events_cases append_locked_cases) auto
  have "ah_sequence (agg_head s1 (t, ty, a)) > v"
    using s1 plan_append_last(1) [OF plan] plan_append_facts(10) [OF plan]
    by (simp add: agg_head_def get_default_def event_agg_head_def)
  moreover have "ledger_reachable rt s1"
    using run_step [OF assms(1) step_append [OF assms(2,3)]] .
  from ledger_steps_extend [OF this assms(4)] have "ah_sequence (agg_head s1 (t, ty, a)) \<le> ah_sequence (agg_head s2 (t, ty, a))"
    by (simp add: ledger_extends_def)
  ultimately show ?thesis
    using assms(5,6)
    by (simp add: append_events_def op_defs append_locked_def plan_append_def append_checks_def)
qed

theorem stale_append_refused_witness:
  "append_events sample_rt ''acme'' ''note'' ''k'' 0 [sample_note] [] [] (snd sample_note_call) =
    (Inl (ConcurrencyConflict ''aggregate version changed''), snd sample_note_call)"
proof -
  from sample_note_append obtain es where es: "append_events sample_rt ''acme'' ''note'' ''k'' 0 [sample_note] [] [] initial_state =
    (Inr es, snd sample_note_call)" by blast
  show ?thesis
    by (rule stale_append_refused [OF initial_reachable es]) (simp_all add: sample_note_valid max_events_per_append_def)
qed

end
