(* ===== verification/Command_Properties.thy ===== *)
theory Command_Properties
  imports Ledger_Properties
begin

text \<open>
  The correctness properties of the commands of the ledger: a fresh request is accepted, a
  retry of a command returns the run it already made, a reused identifier is refused, a
  transition is recorded exactly when the state machine allows it, and a run only moves
  along the machine until it is finished.
\<close>

section \<open>Requests\<close>

text \<open>C11. A well-formed request that is new to the store is always accepted: the run exists
  afterwards, queued, at version 1, with the cursor of the event just appended.\<close>

theorem fresh_request_accepted:
  assumes "ledger_reachable rt s" "sha256_shape rt" "acceptable_request rt i q" "fresh_request rt i q s"
  shows "\<exists>s'. accept_run rt now i q w s =
      (Inr (accepted_view rt now i q (Suc (length (tenant_events s (id_tenant_id i))))), s') \<and>
    get_run s' (id_tenant_id i) (rr_run_id (make_run_refs rt i q)) =
      Some (accepted_view rt now i q (Suc (length (tenant_events s (id_tenant_id i)))))"
  using accept_run_success [OF assms] by (simp add: get_run_def)

theorem fresh_request_accepted_witness:
  "\<exists>s'. accept_run sample_rt 100 sample_identity sample_request True initial_state =
     (Inr (accepted_view sample_rt 100 sample_identity sample_request 1), s')"
  using fresh_request_accepted [OF initial_reachable sample_shape sample_acceptable initial_fresh, of 100 True] by auto

text \<open>What a successful acceptance leaves in the store.\<close>

lemma accept_run_entry:
  assumes "ledger_reachable rt s" "accept_run rt now i q w s = (Inr v, s1)"
  obtains r u b where "st_idempotency s1 (id_tenant_id i, id_request_id i) = Some r"
    "ir_fingerprint r = request_fingerprint rt q w" "st_runs s1 (id_tenant_id i, ir_run_id r) = Some u"
    "v = u\<lparr>rv_replayed := b\<rparr>"
  using assms(2)
proof (cases rule: accept_run_cases)
  case (replayed existing)
  then have ok: "bindE (lookup_run s1 (id_tenant_id i, ir_run_id existing)) (\<lambda>u. Inr (u\<lparr>rv_replayed := True\<rparr>)) = Inr v"
    by simp
  then obtain u where "st_runs s1 (id_tenant_id i, ir_run_id existing) = Some u" "v = u\<lparr>rv_replayed := True\<rparr>"
    by (auto simp: lookup_run_def split: option.splits)
  with replayed that show thesis by auto
next
  case (accepted trace_ref draft outbox appended v')
  then have "st_idempotency s1 (id_tenant_id i, id_request_id i) = Some (idempotency_entry rt i q w)"
    "st_runs s1 (id_tenant_id i, ir_run_id (idempotency_entry rt i q w)) = Some v"
    by (simp_all add: with_entry_def idempotency_entry_def)
  with that [of "idempotency_entry rt i q w" v "rv_replayed v"] show thesis
    by (simp add: idempotency_entry_def)
qed auto

text \<open>C7. Acceptance is idempotent: after a request was accepted, a retry in any later state
  returns the same run with its current status, marked as replayed, and changes nothing.\<close>

theorem accept_run_retry:
  assumes "ledger_reachable rt s" "accept_run rt now i q w s = (Inr v, s1)" "(ledger_step rt)\<^sup>*\<^sup>* s1 s2"
  shows "\<exists>v'. accept_run rt now' i q w s2 = (Inr v', s2) \<and> rv_replayed v' \<and> rv_run_id v' = rv_run_id v \<and>
    rv_workflow_id v' = rv_workflow_id v \<and> rv_request_ref v' = rv_request_ref v \<and> rv_version v \<le> rv_version v'"
proof -
  from accept_run_entry [OF assms(1,2)] obtain r u b where
    r: "st_idempotency s1 (id_tenant_id i, id_request_id i) = Some r" "ir_fingerprint r = request_fingerprint rt q w"
    and u: "st_runs s1 (id_tenant_id i, ir_run_id r) = Some u" "v = u\<lparr>rv_replayed := b\<rparr>" by metis
  have s1: "ledger_reachable rt s1" using run_step [OF assms(1) step_accept_run [OF assms(2)]] .
  from ledger_steps_extend [OF s1 assms(3)] r(1)
  have r2: "st_idempotency s2 (id_tenant_id i, id_request_id i) = Some r"
    by (auto simp: ledger_extends_def map_le_def dom_def)
  from ledger_steps_runs [OF s1 assms(3) u(1)] obtain u' where
    u': "st_runs s2 (id_tenant_id i, ir_run_id r) = Some u'" "run_evolves rt u u'" by blast
  have "accept_run rt now' i q w s2 = (Inr (u'\<lparr>rv_replayed := True\<rparr>), s2)"
    using r2 r(2) u'(1) by (simp add: accept_run_def lookup_run_def)
  then show ?thesis
    using u(2) run_evolves_identity [OF u'(2)] run_evolves_status(2) [OF u'(2)] by auto
qed

theorem accept_run_retry_witness:
  "\<exists>v'. accept_run sample_rt 500 sample_identity sample_request False sample_state = (Inr v', sample_state) \<and>
     rv_replayed v' \<and> rv_run_id v' = rv_run_id sample_view"
  using accept_run_retry [OF initial_reachable sample_accept(1) rtranclp.rtrancl_refl, of 500] by blast

definition fingerprint_text :: "runtime \<Rightarrow> investigation_request \<Rightarrow> bool \<Rightarrow> string" where
  "fingerprint_text rt q w = canonical_json rt (JObj [(''request'', request_json q), (''wait_for_signal'', JBool w)])"

lemma norm_request_json_inj: "norm_json (request_json q) = norm_json (request_json q') \<Longrightarrow> q = q'"
  by (auto simp: request_json_def alert_json_def intro: investigation_request.equality checkout_alert.equality)

lemma fingerprint_text_inj:
  assumes "float_repr_ok rt" "fingerprint_text rt q w = fingerprint_text rt q' w'"
  shows "q = q' \<and> w = w'"
  using assms norm_request_json_inj by (auto simp: fingerprint_text_def canonical_json_eq_iff)

text \<open>A request identifier is bound to its input: once a request was accepted, the same
  tenant and request identifier with any other request or flag are refused as a conflict in every
  later state, unless the two inputs are an explicit SHA-256 collision.\<close>

theorem reused_request_id_refused:
  assumes "float_repr_ok rt" "ledger_reachable rt s" "accept_run rt now i q w s = (Inr v, s1)"
    and "(ledger_step rt)\<^sup>*\<^sup>* s1 s2" "id_tenant_id i' = id_tenant_id i" "id_request_id i' = id_request_id i"
    and "(q', w') \<noteq> (q, w)"
  shows "accept_run rt now' i' q' w' s2 =
      (Inl (IdempotencyConflict ''request id was reused with different durable input''), s2) \<or>
    sha256_collision rt (fingerprint_text rt q' w') (fingerprint_text rt q w)"
proof (cases "request_fingerprint rt q' w' = request_fingerprint rt q w")
  case True
  with fingerprint_text_inj [OF assms(1)] assms(7) show ?thesis
    by (auto simp: sha256_collision_def request_fingerprint_def fingerprint_text_def)
next
  case False
  from accept_run_entry [OF assms(2,3)] obtain r where
    r: "st_idempotency s1 (id_tenant_id i, id_request_id i) = Some r" "ir_fingerprint r = request_fingerprint rt q w"
    by metis
  have s1: "ledger_reachable rt s1" using run_step [OF assms(2) step_accept_run [OF assms(3)]] .
  from ledger_steps_extend [OF s1 assms(4)] r(1)
  have "st_idempotency s2 (id_tenant_id i, id_request_id i) = Some r"
    by (auto simp: ledger_extends_def map_le_def dom_def)
  with r(2) False assms(5,6) show ?thesis by (simp add: accept_run_def)
qed

theorem reused_request_id_refused_witness:
  "accept_run sample_rt 500 sample_identity sample_request True sample_state =
     (Inl (IdempotencyConflict ''request id was reused with different durable input''), sample_state)"
proof -
  have "\<not> sha256_collision sample_rt (fingerprint_text sample_rt sample_request True)
      (fingerprint_text sample_rt sample_request False)"
    by code_simp
  with reused_request_id_refused [OF sample_float_ok initial_reachable sample_accept(1) rtranclp.rtrancl_refl
      refl refl, of sample_request True 500]
  show ?thesis by simp
qed

section \<open>Transitions\<close>

lemma sample_event_ids:
  "st_event_ids sample_state = {(''acme'', stable_id sample_rt ''event'' [sample_run_id, ''requested''] 32)}"
  using sample_accept(1)
proof (cases rule: accept_run_cases)
  case (accepted trace_ref draft outbox appended v)
  from build_events_fields(1) [OF plan_append_facts(8) [OF accepted(4)]] make_event_draft_valid(3) [OF accepted(2)]
  have "map ev_event_id appended = [stable_id sample_rt ''event'' [sample_run_id, ''requested''] 32]"
    by (simp add: requested_draft_def sample_run_id_def)
  then have "(\<lambda>e. (''acme'', ev_event_id e)) ` set appended =
      {(''acme'', stable_id sample_rt ''event'' [sample_run_id, ''requested''] 32)}" by auto
  then show ?thesis unfolding accepted(6) by (simp add: with_entry_def initial_state_def)
qed (simp_all add: initial_state_def)

lemma sample_run_id_length: "length sample_run_id = 36"
  by (simp add: sample_run_id_def run_refs_length [OF sample_shape])

lemma transition_draft_succeeds:
  assumes "sha256_shape rt" "valid_identifier run_id" "valid_identifier event_type" "valid_identifier operation_id"
    and "valid_identifier actor" "valid_identifier request_ref"
  shows "make_event_draft rt (transition_draft rt now run_id event_type operation_id actor request_ref None None) =
    Inr (transition_draft rt now run_id event_type operation_id actor request_ref None None)"
  using assms valid_stable_id [OF assms(1), of "''event''" 32] length_canonical_obj [of rt "[(''run_id'', JStr run_id)]"]
    length_canonical_str [of rt run_id] valid_identifier_length [OF assms(2)]
  by (simp add: make_event_draft_def valid_event_draft_def transition_draft_def transition_payload_def
      valid_opt_identifier_def max_event_bytes_def dict_sorted_def ident_char_def)

text \<open>C8. A transition on an existing run, with an operation not seen before and a draft that
  validates, is decided by the state machine alone: it is recorded when the event's status is
  allowed from the current one, with the next version and the next cursor, and refused as an
  integrity failure without any write otherwise.\<close>

theorem transition_decided_by_machine:
  assumes "ledger_reachable rt s" "sha256_shape rt" "get_run s t run_id = Some c"
    and "(t, stable_id rt ''event'' [run_id, event_type, operation_id] 32) \<notin> st_event_ids s"
    and "make_event_draft rt
      (transition_draft rt now run_id event_type operation_id actor request_ref fc attributes) = Inr d"
  shows "case (transition_status c event_type, payload_failure_code (ev_payload d)) of
      (Some st, Inr code) \<Rightarrow>
        if st \<in> set (run_allowed (rv_status c))
        then \<exists>s'. record_transition rt now t run_id event_type operation_id actor request_ref fc attributes s =
               (Inr (transitioned c st code (Suc (length (tenant_events s t))) now), s')
        else \<exists>m. record_transition rt now t run_id event_type operation_id actor request_ref fc attributes s =
               (Inl (IntegrityFailure m), s)
    | _ \<Rightarrow> \<exists>m. record_transition rt now t run_id event_type operation_id actor request_ref fc attributes s =
               (Inl (IntegrityFailure m), s)"
  using record_transition_decides assms by (simp add: get_run_def)

lemma sample_started_fresh:
  "(''acme'', stable_id sample_rt ''event'' [sample_run_id, ''investigation.started'', ''op-1''] 32) \<notin>
     st_event_ids sample_state"
proof -
  have "length (join [CHR 0x00] [sample_run_id, ''investigation.started'', ''op-1'']) = 63"
    "length (join [CHR 0x00] [sample_run_id, ''requested'']) = 46"
    by (simp_all add: sample_run_id_length)
  then have "sample_digest (join [CHR 0x00] [sample_run_id, ''investigation.started'', ''op-1'']) = replicate 64 (CHR ''1'')"
    "sample_digest (join [CHR 0x00] [sample_run_id, ''requested'']) = replicate 64 (CHR ''2'')"
    by (simp_all only: sample_digest_def) (simp_all add: hex_chars_def)
  then show ?thesis unfolding sample_event_ids stable_id_def by (simp del: join.simps)
qed

definition sample_started :: "run_view result \<times> durability_state" where
  "sample_started = record_transition sample_rt 200 ''acme'' sample_run_id ''investigation.started'' ''op-1'' ''w'' ''r''
     None None sample_state"

lemma started_status: "map_of status_by_event ''investigation.started'' = Some Run_RUNNING"
  by code_simp

lemma sample_started_draft:
  "make_event_draft sample_rt
     (transition_draft sample_rt 200 sample_run_id ''investigation.started'' ''op-1'' ''w'' ''r'' None None) =
   Inr (transition_draft sample_rt 200 sample_run_id ''investigation.started'' ''op-1'' ''w'' ''r'' None None)"
  using run_refs_valid(1) [OF sample_shape] unfolding sample_run_id_def
  by (intro transition_draft_succeeds [OF sample_shape]) (simp_all add: valid_identifier_def ident_char_def)

theorem transition_decided_by_machine_witness:
  "\<exists>v. fst sample_started = Inr v \<and> rv_status v = Run_RUNNING \<and> rv_version v = 2"
proof -
  have "get_run sample_state ''acme'' sample_run_id = Some sample_view"
    using sample_accept(2) by (simp add: get_run_def)
  from transition_decided_by_machine [OF sample_reachable sample_shape this sample_started_fresh sample_started_draft]
  show ?thesis
    by (auto simp: sample_started_def transition_status_def started_status payload_failure_code_def
        transition_draft_def transition_payload_def transitioned_def sample_view_def accepted_view_def Let_def)
qed

text \<open>Recording a transition is idempotent in its operation identifier: after it was
  recorded, a retry in any later state, with whatever actor, failure code and attributes,
  returns the run's current view marked as replayed and writes nothing.\<close>

theorem transition_retry:
  assumes "ledger_reachable rt s"
    and "record_transition rt now t run_id event_type operation_id actor ref fc attributes s = (Inr v, s1)"
    and "(ledger_step rt)\<^sup>*\<^sup>* s1 s2"
  shows "\<exists>u. get_run s2 t run_id = Some u \<and> rv_version v \<le> rv_version u \<and>
    record_transition rt now' t run_id event_type operation_id actor' ref' fc' attributes' s2 =
      (Inr (u\<lparr>rv_replayed := True\<rparr>), s2)"
proof -
  let ?id = "(t, stable_id rt ''event'' [run_id, event_type, operation_id] 32)"
  have s1: "ledger_reachable rt s1" using run_step [OF assms(1) step_record_transition [OF assms(2)]] .
  obtain c where c: "st_runs s1 (t, run_id) = Some c" "rv_version c = rv_version v" "?id \<in> st_event_ids s1"
    using assms(2)
  proof (cases rule: record_transition_cases)
    case (replayed current)
    with that show thesis by auto
  next
    case (recorded current draft appended w)
    from build_events_fields(1) [OF plan_append_facts(8) [OF recorded(4)]] make_event_draft_valid(3) [OF recorded(3)]
    have "?id \<in> (\<lambda>e. (t, ev_event_id e)) ` set appended"
      by (cases appended) (auto simp: transition_draft_def)
    with recorded that [of v] show thesis by simp
  qed auto
  from ledger_steps_runs [OF s1 assms(3) c(1)] obtain u where
    u: "st_runs s2 (t, run_id) = Some u" "run_evolves rt c u" by blast
  from ledger_steps_extend [OF s1 assms(3)] c(3) have "?id \<in> st_event_ids s2"
    by (auto simp: ledger_extends_def)
  with u c(2) run_evolves_status(2) [OF u(2)] show ?thesis
    by (simp add: record_transition_def get_run_def)
qed

lemma sample_started_call:
  obtains v where "record_transition sample_rt 200 ''acme'' sample_run_id ''investigation.started'' ''op-1'' ''w'' ''r''
     None None sample_state = (Inr v, snd sample_started)" "rv_version v = 2"
    "st_runs (snd sample_started) (''acme'', sample_run_id) = Some v"
proof -
  have "\<exists>v s'. record_transition sample_rt 200 ''acme'' sample_run_id ''investigation.started'' ''op-1'' ''w'' ''r''
     None None sample_state = (Inr v, s') \<and> rv_version v = 2"
    using record_transition_decides [OF sample_reachable sample_shape sample_accept(2) sample_started_fresh sample_started_draft]
    by (auto simp: transition_status_def started_status payload_failure_code_def
        transition_draft_def transition_payload_def transitioned_def sample_view_def accepted_view_def Let_def)
  then obtain v s' where call: "record_transition sample_rt 200 ''acme'' sample_run_id ''investigation.started'' ''op-1'' ''w'' ''r''
     None None sample_state = (Inr v, s')" "rv_version v = 2" by blast
  moreover have "st_runs s' (''acme'', sample_run_id) = Some v"
    using call(1) by (rule record_transition_cases) (use sample_started_fresh in auto)
  ultimately show thesis using that by (simp add: sample_started_def)
qed

theorem transition_retry_witness:
  "\<exists>u. record_transition sample_rt 300 ''acme'' sample_run_id ''investigation.started'' ''op-1'' ''x'' ''y'' (Some ''e'') None
     (snd sample_started) = (Inr u, snd sample_started) \<and> rv_replayed u"
proof -
  obtain v where v: "record_transition sample_rt 200 ''acme'' sample_run_id ''investigation.started'' ''op-1'' ''w'' ''r''
     None None sample_state = (Inr v, snd sample_started)" by (rule sample_started_call)
  from transition_retry [OF sample_reachable v rtranclp.rtrancl_refl, of 300 "''x''" "''y''" "Some ''e''" None]
  show ?thesis by auto
qed

section \<open>The life of a run\<close>

text \<open>The first event of an aggregate in a chained log has sequence number 1.\<close>

lemma first_event_sequence:
  assumes "chained_events rt h th seen es" "h k = None"
    and "filter (\<lambda>e. event_key e = k) es = e # fs"
  shows "ev_aggregate_sequence e = 1"
  using assms
proof (induction es arbitrary: h th seen)
  case Nil
  then show ?case by simp
next
  case (Cons x xs)
  from Cons.prems(1) have x: "event_chained rt h th seen x"
    and xs: "chained_events rt (h(event_key x \<mapsto> event_agg_head x)) (event_ten_head x) (insert (ev_event_id x) seen) xs"
    by (simp_all only: chained_events.simps)
  show ?case
  proof (cases "event_key x = k")
    case True
    with x Cons.prems(2,3) show ?thesis
      by (auto simp: event_chained_def get_default_def no_aggregate_head_def)
  next
    case False
    with Cons.IH [OF xs] Cons.prems(2,3) show ?thesis by simp
  qed
qed

lemma first_run_event:
  assumes "ledger_inv rt s" "run_events s t a = e # es"
  shows "ev_aggregate_sequence e = 1"
proof (rule first_event_sequence)
  show "chained_events rt Map.empty no_tenant_head {} (tenant_events s t)"
    using assms(1) by (rule ledger_inv_chained)
qed (use assms(2) in \<open>simp_all add: run_events_key\<close>)

lemma run_versions:
  assumes "ledger_reachable rt s" "st_runs s (t, run_id) = Some v"
  shows "rv_version v = length (run_events s t run_id)"
    "map ev_aggregate_sequence (run_events s t run_id) = [1..<Suc (rv_version v)]"
    "(\<lambda>a b. b \<in> set (run_allowed a))\<^sup>*\<^sup>* Run_QUEUED (rv_status v)"
proof -
  note i = reachable_ledger_inv [OF assms(1)] and h = live_view_head [OF assms]
  have r: "run_machine.replay rt (run_events s t run_id) None = Inr (Some v)"
    using live_view_replay [OF i assms(2)] by (simp add: run_machine_replay)
  from h(1) obtain e es where es: "run_events s t run_id = e # es" by (cases "run_events s t run_id") auto
  with r obtain u where u: "reduce_run rt None e = Inr u" "run_machine.replay rt es (Some u) = Inr (Some v)" by auto
  have first: "ev_aggregate_sequence e = 1"
    by (rule first_run_event [OF i es])
  with u(1) have "rv_version u = 1" by (simp add: reduce_run_fields)
  with run_machine.replay_version [OF u(2)] es first
  show "rv_version v = length (run_events s t run_id)"
    "map ev_aggregate_sequence (run_events s t run_id) = [1..<Suc (rv_version v)]"
    by (simp_all add: upt_conv_Cons del: upt_Suc)
  show "(\<lambda>a b. b \<in> set (run_allowed a))\<^sup>*\<^sup>* Run_QUEUED (rv_status v)"
    by (rule run_machine.replay_from_initial [OF r])
qed

text \<open>A live view is consistent with its history: its status is reached from queued by
  transitions the machine allows, its version is the number of events of the run, which carry
  the sequence numbers 1, 2, up to it, and its cursor is that of the run's last event.\<close>

theorem run_view_consistent:
  assumes "ledger_reachable rt s" "get_run s t run_id = Some v"
  shows "(\<lambda>a b. b \<in> set (run_allowed a))\<^sup>*\<^sup>* Run_QUEUED (rv_status v) \<and>
    rv_version v = length (run_events s t run_id) \<and>
    map ev_aggregate_sequence (run_events s t run_id) = [1..<Suc (rv_version v)] \<and>
    rv_last_cursor v = ev_tenant_cursor (last (run_events s t run_id))"
  using run_versions [OF assms(1)] live_view_head(2) [OF assms(1)] assms(2) by (simp add: get_run_def)

theorem run_view_consistent_witness:
  "rv_version sample_view = length (run_events sample_state ''acme'' sample_run_id) \<and>
   map ev_aggregate_sequence (run_events sample_state ''acme'' sample_run_id) = [1]"
  using run_view_consistent [OF sample_reachable, of "''acme''" sample_run_id sample_view] sample_accept(2)
  by (simp add: get_run_def sample_view_def accepted_view_def Let_def)

text \<open>C10. Along every history a run keeps its identity and only moves forward: its identifiers and
  creation time never change, its version never decreases, its status moves along allowed
  transitions, and once the status is completed, failed, cancelled or timed out the view never
  changes again.\<close>

theorem run_moves_forward:
  assumes "ledger_reachable rt s" "(ledger_step rt)\<^sup>*\<^sup>* s s'" "get_run s t run_id = Some v"
  shows "\<exists>v'. get_run s' t run_id = Some v' \<and>
    rv_run_id v' = rv_run_id v \<and> rv_incident_id v' = rv_incident_id v \<and> rv_request_ref v' = rv_request_ref v \<and>
    rv_workflow_id v' = rv_workflow_id v \<and> rv_created_at v' = rv_created_at v \<and> rv_version v \<le> rv_version v' \<and>
    (\<lambda>a b. b \<in> set (run_allowed a))\<^sup>*\<^sup>* (rv_status v) (rv_status v') \<and>
    (rv_status v \<in> {Run_COMPLETED, Run_FAILED, Run_CANCELLED, Run_TIMED_OUT} \<longrightarrow> v' = v)"
proof -
  from assms(3) have "st_runs s (t, run_id) = Some v" by (simp add: get_run_def)
  from ledger_steps_runs [OF assms(1,2) this] obtain v' where
    v': "st_runs s' (t, run_id) = Some v'" "run_evolves rt v v'" by blast
  have "v' = v" if "rv_status v \<in> {Run_COMPLETED, Run_FAILED, Run_CANCELLED, Run_TIMED_OUT}"
    by (rule run_evolves_status(3) [OF v'(2)]) (use that in auto)
  with v'(1) run_evolves_identity [OF v'(2)] run_evolves_status(1,2) [OF v'(2)] show ?thesis
    by (auto simp: get_run_def)
qed

theorem run_moves_forward_witness:
  "\<exists>v'. get_run (snd sample_started) ''acme'' sample_run_id = Some v' \<and> rv_run_id v' = rv_run_id sample_view \<and>
     (\<lambda>a b. b \<in> set (run_allowed a))\<^sup>*\<^sup>* Run_QUEUED (rv_status v')"
proof -
  obtain v where v: "record_transition sample_rt 200 ''acme'' sample_run_id ''investigation.started'' ''op-1'' ''w'' ''r''
     None None sample_state = (Inr v, snd sample_started)" by (rule sample_started_call)
  have "get_run sample_state ''acme'' sample_run_id = Some sample_view"
    using sample_accept(2) by (simp add: get_run_def)
  from run_moves_forward [OF sample_reachable r_into_rtranclp [of "ledger_step sample_rt", OF step_record_transition [OF v]] this]
  show ?thesis by (auto simp: sample_view_def accepted_view_def Let_def)
qed

section \<open>Signals\<close>

lemma update_fresh: "map_of ds k = None \<Longrightarrow> AList.update k v ds = ds @ [(k, v)]"
  by (induction ds) (auto split: if_splits)

text \<open>A new resume command that is accepted adds exactly one to the run's count of resume
  commands, and the count never passes the bound of 32; the command is kept in the inbox as
  delivered, so a retry is answered from it without any write.\<close>

theorem resume_counted_once:
  assumes "ledger_reachable rt s" "accept_signal rt now1 now2 i c s = (Inr v, s')"
    and "sc_command_type c = Resume" "delivery s (id_tenant_id i) ''inbox'' (sc_command_id c) = None"
  shows "resume_count s' (id_tenant_id i) (sc_run_id c) = resume_count s (id_tenant_id i) (sc_run_id c) + 1 \<and>
    resume_count s' (id_tenant_id i) (sc_run_id c) \<le> max_resume_commands \<and>
    accept_signal rt now1' now2' i c s' = (Inr (v\<lparr>rv_replayed := True\<rparr>), s')"
  using assms(2)
proof (cases rule: accept_signal_cases)
  case (error e)
  then show ?thesis by simp
next
  case (replayed current existing)
  with assms(4) show ?thesis by (simp add: delivery_def)
next
  case (accepted current inbox outbox draft appended w)
  let ?t = "id_tenant_id i"
  note p = plan_append_facts [OF accepted(7)]
  have in_id: "ib_message_id inbox = sc_command_id c" "ib_message_type inbox = ''investigation.resume''"
    and payload: "map_of (ib_payload inbox) ''run_id'' = Some (JStr (sc_run_id c))"
    using accepted(4) assms(3)
    by (auto simp: make_inbox_draft_def signal_inbox_def dict_sorted_def map_of_sort_key_fst split: if_splits)
  have ds: "st_deliveries s' = st_deliveries s @ [((?t, ''outbox'', ob_message_id outbox), outbox_delivery ?t outbox),
      ((?t, ''inbox'', sc_command_id c), inbox_delivery ?t (ev_occurred_at (last appended)) inbox)]"
    using p(6,7) in_id(1) unfolding accepted(9) by (simp add: add_deliveries_def update_fresh)
  then have count: "resume_count s' ?t (sc_run_id c) = resume_count s ?t (sc_run_id c) + 1"
    using in_id(2) payload by (simp add: resume_count_def outbox_delivery_def inbox_delivery_def)
  have run: "st_runs s' (?t, sc_run_id c) = Some v" unfolding accepted(9) using accepted(8) by simp
  have "map_of (st_deliveries s') (?t, ''inbox'', sc_command_id c) =
      Some (inbox_delivery ?t (ev_occurred_at (last appended)) inbox)"
    using accepted(2) by (simp add: ds map_add_def)
  with run in_id(2) payload assms(3) have "accept_signal rt now1' now2' i c s' = (Inr (v\<lparr>rv_replayed := True\<rparr>), s')"
    by (simp add: accept_signal_def inbox_delivery_def)
  with count accepted(3) [OF assms(3)] show ?thesis by simp
qed

definition sample_resume :: signal_command where
  "sample_resume = \<lparr>sc_command_id = ''cmd-11'', sc_run_id = sample_run_id, sc_command_type = Resume\<rparr>"

lemma sample_deliveries:
  "\<exists>r. st_deliveries sample_state = [((''acme'', ''outbox'', stable_id sample_rt ''outbox'' [sample_run_id, ''temporal-start''] 32), r)] \<and>
     dl_direction r = ''outbox''"
  using sample_accept(1)
proof (cases rule: accept_run_cases)
  case (accepted trace_ref draft outbox appended v)
  have "ob_message_id outbox = stable_id sample_rt ''outbox'' [sample_run_id, ''temporal-start''] 32"
    using accepted(3) by (auto simp: make_outbox_draft_def start_outbox_def sample_run_id_def split: if_splits)
  then show ?thesis unfolding accepted(6)
    by (simp add: with_entry_def initial_state_def add_deliveries_def outbox_delivery_def)
qed (simp_all add: initial_state_def)

lemma sample_digests:
  "sample_digest (join [CHR 0x00] [sample_run_id, ''requested'']) = replicate 64 (CHR ''2'')"
  "sample_digest (join [CHR 0x00] [sample_run_id, ''temporal-start'']) = replicate 64 (CHR ''7'')"
  "sample_digest (join [CHR 0x00] [sample_run_id, ''cmd-11'']) = replicate 64 (CHR ''8'')"
  "sample_digest (join [CHR 0x00] [sample_run_id, ''investigation.resume_requested'', ''cmd-11'']) = replicate 64 (CHR ''3'')"
  by (simp_all add: sample_digest_def sample_run_id_length hex_chars_def)

lemma sample_resume_fresh: "fresh_signal sample_rt sample_identity sample_resume sample_state"
proof -
  have ty: "signal_event_type sample_resume = ''investigation.resume_requested''"
    by (simp add: signal_event_type_def sample_resume_def)
  have "stable_id sample_rt ''outbox'' [sample_run_id, ''temporal-start''] 32 \<noteq>
      stable_id sample_rt ''outbox'' [sample_run_id, ''cmd-11''] 32"
    "stable_id sample_rt ''event'' [sample_run_id, ''investigation.resume_requested'', ''cmd-11''] 32 \<noteq>
      stable_id sample_rt ''event'' [sample_run_id, ''requested''] 32"
    unfolding stable_id_def by (simp_all add: sample_digests del: join.simps)
  note ne = this
  obtain r where d: "st_deliveries sample_state =
      [((''acme'', ''outbox'', stable_id sample_rt ''outbox'' [sample_run_id, ''temporal-start''] 32), r)]"
    using sample_deliveries by blast
  have f: "sc_run_id sample_resume = sample_run_id" "sc_command_id sample_resume = ''cmd-11''"
    by (simp_all add: sample_resume_def)
  show ?thesis
    unfolding fresh_signal_def Let_def ty f d sample_event_ids sample_identity_simps using ne by simp
qed

theorem resume_counted_once_witness:
  "\<exists>v s'. accept_signal sample_rt 300 301 sample_identity sample_resume sample_state = (Inr v, s') \<and>
     resume_count s' ''acme'' sample_run_id = 1"
proof -
  have none: "resume_count sample_state ''acme'' sample_run_id = 0"
    using sample_deliveries by (auto simp: resume_count_def)
  have "\<exists>s'. accept_signal sample_rt 300 301 sample_identity sample_resume sample_state =
      (Inr (transitioned sample_view (signal_status sample_view sample_resume) None
         (Suc (length (tenant_events sample_state (id_tenant_id sample_identity)))) 301), s')"
  proof (rule accept_signal_success [OF sample_reachable sample_shape _ _ sample_resume_fresh])
    show "valid_identifier (sc_command_id sample_resume)"
      by (simp add: sample_resume_def valid_identifier_def ident_char_def)
    show "st_runs sample_state (id_tenant_id sample_identity, sc_run_id sample_resume) = Some sample_view"
      using sample_accept(2) by (simp add: sample_resume_def)
  qed (use none in \<open>simp_all add: sample_resume_def max_resume_commands_def signal_status_def sample_view_def
      accepted_view_def Let_def\<close>)
  then obtain v s' where call: "accept_signal sample_rt 300 301 sample_identity sample_resume sample_state = (Inr v, s')"
    by blast
  have "delivery sample_state (id_tenant_id sample_identity) ''inbox'' (sc_command_id sample_resume) = None"
    using sample_resume_fresh by (simp add: fresh_signal_def delivery_def Let_def)
  from resume_counted_once [OF sample_reachable call _ this] call none show ?thesis
    by (auto simp: sample_resume_def)
qed

text \<open>A fresh signal on an existing run is accepted exactly as the state machine says: resume
  keeps the status and cancel asks for cancellation, at the next version and cursor.\<close>

theorem fresh_signal_accepted:
  assumes "ledger_reachable rt s" "sha256_shape rt" "valid_identifier (sc_command_id c)"
    and "get_run s (id_tenant_id i) (sc_run_id c) = Some v" "fresh_signal rt i c s"
    and "sc_command_type c = Resume \<longrightarrow> resume_count s (id_tenant_id i) (sc_run_id c) < max_resume_commands"
    and "signal_status v c \<in> set (run_allowed (rv_status v))"
  shows "\<exists>s'. accept_signal rt now1 now2 i c s =
    (Inr (transitioned v (signal_status v c) None (Suc (length (tenant_events s (id_tenant_id i)))) now2), s')"
  using accept_signal_success assms by (simp add: get_run_def)

theorem fresh_signal_accepted_witness:
  "\<exists>s'. accept_signal sample_rt 300 301 sample_identity (sample_resume\<lparr>sc_command_type := Resume\<rparr>) sample_state =
     (Inr (transitioned sample_view Run_QUEUED None (Suc (length (tenant_events sample_state ''acme''))) 301), s')"
proof -
  have "resume_count sample_state ''acme'' sample_run_id = 0"
    using sample_deliveries by (auto simp: resume_count_def)
  moreover have "signal_status sample_view sample_resume = Run_QUEUED"
    by (simp add: signal_status_def sample_resume_def sample_view_def accepted_view_def Let_def)
  ultimately show ?thesis
    using fresh_signal_accepted [OF sample_reachable sample_shape _ _ sample_resume_fresh, of sample_view 300 301] sample_accept(2)
    by (simp add: sample_resume_def get_run_def valid_identifier_def ident_char_def max_resume_commands_def
        sample_view_def accepted_view_def Let_def)
qed

end
