(* ===== verification/Run_Integrity.thy ===== *)
theory Run_Integrity
  imports Command_Properties
begin

text \<open>
  The verification of one run against the stored heads: on a state of any history it accepts
  every run within the event bound, and it is sensitive to the moment at which the heads are
  read.
\<close>

section \<open>Positions in a chained log\<close>

lemma chained_suffix:
  assumes "chained_events rt Map.empty no_tenant_head {} (pre @ e # post)"
  shows "event_chained rt (heads_after Map.empty pre) (thead_after no_tenant_head pre) (ev_event_id ` set pre) e"
  using assms by (simp add: chained_events_append)

lemma thead_after_hash:
  "th_record_hash (thead_after no_tenant_head pre) = (if pre = [] then zero_hash else ev_record_hash (last pre))"
  by (simp add: thead_after_last event_ten_head_def no_tenant_head_def)

lemma chained_event:
  assumes v: "chained_events rt Map.empty no_tenant_head {} (pre @ e # post)"
  defines "head \<equiv> get_default (heads_after Map.empty pre) (event_key e) no_aggregate_head"
  shows "ev_tenant_cursor e = Suc (length pre)"
    "ev_aggregate_sequence e = Suc (ah_sequence head)" "ev_aggregate_previous_hash e = ah_record_hash head"
    "ev_tenant_previous_hash e = (if pre = [] then zero_hash else ev_record_hash (last pre))"
    "expected_hash rt e (ah_record_hash head) (if pre = [] then zero_hash else ev_record_hash (last pre)) =
       Inr (ev_record_hash e)"
proof -
  note ok = chained_suffix [OF v]
  from v have "chained_events rt Map.empty no_tenant_head {} pre" by (simp add: chained_events_append)
  from chained_events_chain [OF this] have "th_cursor (thead_after no_tenant_head pre) = length pre"
    by (simp add: no_tenant_head_def)
  with ok show "ev_tenant_cursor e = Suc (length pre)"
    "ev_aggregate_sequence e = Suc (ah_sequence head)" "ev_aggregate_previous_hash e = ah_record_hash head"
    "ev_tenant_previous_hash e = (if pre = [] then zero_hash else ev_record_hash (last pre))"
    "expected_hash rt e (ah_record_hash head) (if pre = [] then zero_hash else ev_record_hash (last pre)) =
       Inr (ev_record_hash e)"
    unfolding event_chained_def thead_after_hash head_def Let_def by auto
qed

lemma verify_run_events_suffix:
  assumes "chained_events rt Map.empty no_tenant_head {} (pre @ post)" "list_all first_schema (filter (\<lambda>e. event_key e = k) post)"
    and "th = thead_after no_tenant_head (pre @ post)"
    and "h = get_default (heads_after Map.empty pre) k no_aggregate_head"
    and "h' = get_default (heads_after Map.empty (pre @ post)) k no_aggregate_head"
  shows "verify_run_events rt (pre @ post) th (ah_sequence h) (ah_record_hash h) (filter (\<lambda>e. event_key e = k) post) =
    Inr (Some (ah_sequence h', ah_record_hash h'))"
  using assms
proof (induction post arbitrary: pre h)
  case Nil
  then show ?case by simp
next
  case (Cons e post)
  from Cons.prems(1) have v: "chained_events rt Map.empty no_tenant_head {} ((pre @ [e]) @ post)" by simp
  note ve = chained_event [OF Cons.prems(1)]
  have one: "list_all first_schema (filter (\<lambda>e. event_key e = k) post)" using Cons.prems(2) by (simp split: if_splits)
  show ?case
  proof (cases "event_key e = k")
    case False
    then have h: "h = get_default (heads_after Map.empty (pre @ [e])) k no_aggregate_head"
      using Cons.prems(4) by (simp add: get_default_def)
    from Cons.IH [OF v one _ h] Cons.prems(3,5) False show ?thesis by simp
  next
    case True
    have h: "event_agg_head e = get_default (heads_after Map.empty (pre @ [e])) k no_aggregate_head"
      using True by (simp add: get_default_def)
    have rest: "verify_run_events rt (pre @ e # post) th (ev_aggregate_sequence e) (ev_record_hash e)
        (filter (\<lambda>e. event_key e = k) post) = Inr (Some (ah_sequence h', ah_record_hash h'))"
      using Cons.IH [OF v one _ h] Cons.prems(3,5) by (simp add: event_agg_head_def)
    have next_link: "successor_links (pre @ e # post) th e"
    proof (cases post)
      case Nil
      then show ?thesis using ve(1) Cons.prems(3) by (simp add: successor_links_def event_ten_head_def)
    next
      case (Cons f fs)
      with v have "chained_events rt Map.empty no_tenant_head {} ((pre @ [e]) @ f # fs)" by simp
      from chained_event(4) [OF this] ve(1) Cons show ?thesis
        by (simp add: successor_links_def nth_append)
    qed
    show ?thesis
      using True ve [unfolded True, folded Cons.prems(4)] rest next_link Cons.prems(2)
      by (cases pre rule: rev_cases) (simp_all add: Let_def nth_append)
  qed
qed

section \<open>The check of a run\<close>

lemma run_view_events:
  "ledger_reachable rt s \<Longrightarrow> st_runs s (t, a) = Some v \<Longrightarrow> rv_version v = length (run_events s t a)"
  using run_versions by blast

lemma verify_run_events_end:
  "verify_run_events rt tes th sq h es = Inr (Some (sequence, hash)) \<Longrightarrow>
     sequence = (if es = [] then sq else ev_aggregate_sequence (last es))"
  by (induction es arbitrary: sq h) (auto simp: Let_def split: if_splits)

text \<open>On every state of every history the check of a single run, against the heads of the same
  state, accepts each existing run whose events have schema version 1 and are at most as many as the caller allows.\<close>

theorem run_check_accepts:
  assumes "ledger_reachable rt s" "get_run s t run_id \<noteq> None"
    and "list_all first_schema (run_events s t run_id)" "length (run_events s t run_id) \<le> maximum" "maximum \<le> 10000"
  shows "verify_run_integrity rt s t run_id maximum = Inr True"
proof -
  let ?k = "(''investigation'', run_id)" and ?es = "tenant_events s t"
  note i = reachable_ledger_inv [OF assms(1)]
  from assms(2) obtain v where v: "st_runs s (t, run_id) = Some v" by (auto simp: get_run_def)
  note ne = live_view_head(1) [OF assms(1) v]
  from i have ver: "chained_events rt Map.empty no_tenant_head {} ([] @ ?es)"
    and th: "ten_head s t = thead_after no_tenant_head ([] @ ?es)"
    and ah: "st_aggregate_heads s (t, ?k) = heads_after Map.empty ?es ?k"
    by (simp_all add: ledger_inv_def tenant_inv_def)
  define h where "h = get_default (heads_after Map.empty ([] @ ?es)) ?k no_aggregate_head"
  have "verify_run_events rt ?es (ten_head s t) 0 zero_hash (run_events s t run_id) =
      Inr (Some (ah_sequence h, ah_record_hash h))"
    using verify_run_events_suffix [OF ver _ th refl h_def] assms(3)
    by (simp add: run_events_key get_default_def no_aggregate_head_def)
  moreover have "st_aggregate_heads s (t, ?k) = Some h"
    using ah ne by (auto simp: h_def get_default_def heads_after_last run_events_key split: list.splits)
  moreover have "1 \<le> maximum" using ne assms(4) by (cases "run_events s t run_id") auto
  ultimately show ?thesis
    using ne assms(4,5) by (simp add: verify_run_integrity_def verify_run_integrity_at_def Let_def)
qed

theorem run_check_accepts_witness:
  "verify_run_integrity sample_rt sample_state ''acme'' sample_run_id 100 = Inr True"
proof (rule run_check_accepts [OF sample_reachable])
  show g: "get_run sample_state ''acme'' sample_run_id \<noteq> None" using sample_accept(2) by (simp add: get_run_def)
  have "rv_version sample_view = 1" by (simp add: sample_view_def accepted_view_def Let_def)
  show "list_all first_schema (run_events sample_state ''acme'' sample_run_id)"
    using sample_schema by (simp add: run_events_def list_all_iff)
  from \<open>rv_version sample_view = 1\<close> run_view_events [OF sample_reachable sample_accept(2)]
  show "length (run_events sample_state ''acme'' sample_run_id) \<le> 100" by simp
qed simp

text \<open>The check reads the stored heads after it has released the lock under which it copied
  the events. When the run moves on in between, the check reports a broken ledger although the
  whole log verifies before and after.\<close>

theorem run_check_races_with_append:
  assumes "ledger_reachable rt s"
    and "get_run s t run_id = Some v" "1 \<le> maximum" "maximum \<le> 10000"
    and "(ledger_step rt)\<^sup>*\<^sup>* s s'" "get_run s' t run_id = Some v'" "rv_version v < rv_version v'"
    and "list_all first_schema (tenant_events s t)" "list_all first_schema (tenant_events s' t)"
  shows "verify_integrity rt s t = Inr True \<and> verify_integrity rt s' t = Inr True \<and>
    verify_run_integrity_at rt s s' t run_id maximum \<noteq> Inr True"
proof -
  note s' = ledger_steps_extend [OF assms(1,5)]
  have v: "st_runs s (t, run_id) = Some v" "st_runs s' (t, run_id) = Some v'"
    using assms(2,6) by (simp_all add: get_run_def)
  have seq: "ah_sequence h = rv_version v'" if "st_aggregate_heads s' (t, ''investigation'', run_id) = Some h" for h
    using live_view_head(3) [OF _ v(2)] s' that by (auto simp: agg_head_def get_default_def)
  have last: "sequence = rv_version v" if
    "verify_run_events rt (tenant_events s t) th 0 zero_hash (run_events s t run_id) = Inr (Some (sequence, hash))" for th sequence hash
    using verify_run_events_end [OF that] replay_run_last(1) [OF live_view_replay [OF reachable_ledger_inv [OF assms(1)] v(1)]]
      live_view_head(1) [OF assms(1) v(1)] by simp
  have "verify_run_integrity_at rt s s' t run_id maximum \<noteq> Inr True"
    using seq last assms(7)
    by (auto simp: verify_run_integrity_at_def Let_def split: if_splits option.splits)
  then show ?thesis
    using ledger_inv_verify [OF reachable_ledger_inv [OF assms(1)], of t] ledger_inv_verify [OF reachable_ledger_inv, of rt s' t] s' assms(8,9)
    by simp
qed

theorem run_check_races_with_append_witness:
  "verify_integrity sample_rt sample_state ''acme'' = Inr True \<and>
   verify_integrity sample_rt (snd sample_started) ''acme'' = Inr True \<and>
   verify_run_integrity_at sample_rt sample_state (snd sample_started) ''acme'' sample_run_id 100 \<noteq> Inr True"
proof -
  obtain v where v: "record_transition sample_rt 200 ''acme'' sample_run_id ''investigation.started'' ''op-1'' ''w'' ''r''
     None None sample_state = (Inr v, snd sample_started)" "rv_version v = 2"
    "st_runs (snd sample_started) (''acme'', sample_run_id) = Some v"
    by (rule sample_started_call)
  have "get_run sample_state ''acme'' sample_run_id = Some sample_view" "rv_version sample_view = 1"
    "get_run (snd sample_started) ''acme'' sample_run_id = Some v"
    using sample_accept(2) v(3) by (simp_all add: get_run_def sample_view_def accepted_view_def Let_def)
  with run_check_races_with_append [OF sample_reachable, of "''acme''" sample_run_id sample_view 100 "snd sample_started" v]
    r_into_rtranclp [of "ledger_step sample_rt", OF step_record_transition [OF v(1)]] v(2)
    sample_schema record_transition_schema [OF v(1) sample_schema]
  show ?thesis by simp
qed

section \<open>Schema versions\<close>

text \<open>\<open>append\<close> accepts drafts of every schema version from 1 to 1000, but the verifier knows only
  version 1: one successful append of a draft with another version leaves the tenant's log
  failing verification.\<close>

theorem other_schema_breaks_verification:
  assumes "append_events rt t ty a v drafts outbox inbox s = (Inr es, s')"
    and "d \<in> set drafts" "ev_schema_version d \<noteq> 1"
  shows "verify_integrity rt s' t \<noteq> Inr True"
proof
  assume ver: "verify_integrity rt s' t = Inr True"
  from assms(1) obtain projected where
    plan: "plan_append rt t ty a v drafts outbox inbox s = Inr (es, projected)"
    and s': "s' = commit_append t ty a es projected outbox inbox s"
    by (elim append_events_cases append_locked_cases) auto
  from ver have "list_all first_schema (tenant_events s' t)" by (simp add: verify_integrity_def verify_events_chained)
  with commit_append_schema [OF plan] s' assms(2,3) show False by auto
qed

definition sample_note2 :: event_draft where
  "sample_note2 = sample_note\<lparr>ev_schema_version := 2\<rparr>"

theorem other_schema_breaks_verification_witness:
  "\<exists>es s'. append_events sample_rt ''acme'' ''note'' ''k'' 0 [sample_note2] [] [] initial_state = (Inr es, s') \<and>
     verify_integrity sample_rt s' ''acme'' \<noteq> Inr True"
proof -
  have "valid_event_draft sample_rt sample_note2"
    using sample_note_valid(1) [of sample_rt] by (simp add: valid_event_draft_def sample_note2_def)
  from sample_append_note [OF this] obtain es s' where
    call: "append_events sample_rt ''acme'' ''note'' ''k'' 0 [sample_note2] [] [] initial_state = (Inr es, s')" by blast
  from other_schema_breaks_verification [OF call, of sample_note2] call show ?thesis
    by (simp add: sample_note2_def)
qed

section \<open>Tenants\<close>

text \<open>Everything the store holds for one tenant.\<close>

definition tenant_slice ::
  "durability_state \<Rightarrow> string \<Rightarrow>
   application_event list \<times> tenant_head \<times> (string \<times> string \<Rightarrow> aggregate_head option) \<times> (string \<Rightarrow> run_view option) \<times>
   (string \<Rightarrow> idempotency_record option) \<times> (string \<times> string \<Rightarrow> delivery_record option) \<times> string set \<times>
   (string \<Rightarrow> projection_checkpoint option)" where
  "tenant_slice s t = (tenant_events s t, ten_head s t, (\<lambda>k. st_aggregate_heads s (t, k)), (\<lambda>a. st_runs s (t, a)),
     (\<lambda>i. st_idempotency s (t, i)), (\<lambda>k. map_of (st_deliveries s) (t, k)), {i. (t, i) \<in> st_event_ids s},
     (\<lambda>n. st_projection_checkpoints s (t, n)))"

lemma add_deliveries_other:
  "u \<noteq> t \<Longrightarrow> map_of (add_deliveries t now outbox inbox ds) (u, k) = map_of ds (u, k)"
proof -
  assume u: "u \<noteq> t"
  let ?ds = "fold (\<lambda>m. AList.update (t, ''outbox'', ob_message_id m) (outbox_delivery t m)) outbox ds"
  have "map_of (fold (\<lambda>m. AList.update (t, ''inbox'', ib_message_id m) (inbox_delivery t now m)) inbox ?ds) (u, k) =
      map_of ?ds (u, k)"
    by (rule map_of_fold_update) (use u in auto)
  also have "\<dots> = map_of ds (u, k)"
    by (rule map_of_fold_update) (use u in auto)
  finally show ?thesis by (simp add: add_deliveries_def)
qed

lemma commit_append_slice:
  assumes "u \<noteq> t"
  shows "tenant_slice (commit_append t ty a appended projected outbox inbox s) u = tenant_slice s u"
  using assms
  by (auto simp: tenant_slice_def tenant_events_commit_other ten_head_def get_default_def add_deliveries_other
      split: option.splits)

lemma append_events_slice:
  "append_events rt t ty a v drafts outbox inbox s = (r, s') \<Longrightarrow> u \<noteq> t \<Longrightarrow> tenant_slice s' u = tenant_slice s u"
  by (elim append_events_cases append_locked_cases) (auto simp: commit_append_slice)

lemma accept_run_slice:
  assumes "accept_run rt now i q w s = (r, s')" "u \<noteq> id_tenant_id i"
  shows "tenant_slice s' u = tenant_slice s u"
proof -
  have "tenant_slice (with_entry rt i q w s) u = tenant_slice s u"
    using assms(2) by (simp add: tenant_slice_def with_entry_def tenant_events_def ten_head_def)
  with assms show ?thesis by (elim accept_run_cases) (auto simp: commit_append_slice)
qed

lemma record_transition_slice:
  "record_transition rt now t a ty op actor ref fc attributes s = (r, s') \<Longrightarrow> u \<noteq> t \<Longrightarrow>
     tenant_slice s' u = tenant_slice s u"
  by (elim record_transition_cases) (auto simp: commit_append_slice)

lemma accept_signal_slice:
  "accept_signal rt now now' i c s = (r, s') \<Longrightarrow> u \<noteq> id_tenant_id i \<Longrightarrow> tenant_slice s' u = tenant_slice s u"
  by (elim accept_signal_cases) (auto simp: commit_append_slice)

text \<open>C17. Tenants are isolated: a command of one tenant leaves everything that the store holds for
  every other tenant exactly as it was, whatever the outcome.\<close>

theorem commands_isolate_tenants:
  assumes "u \<noteq> t" "t = id_tenant_id i"
  shows "tenant_slice (snd (append_events rt t ty a v drafts outbox inbox s)) u = tenant_slice s u \<and>
    tenant_slice (snd (accept_run rt now i q w s)) u = tenant_slice s u \<and>
    tenant_slice (snd (record_transition rt now t a ty op actor ref fc attributes s)) u = tenant_slice s u \<and>
    tenant_slice (snd (accept_signal rt now now' i c s)) u = tenant_slice s u"
  by (intro conjI append_events_slice [OF prod.collapse [symmetric]] accept_run_slice [OF prod.collapse [symmetric]]
      record_transition_slice [OF prod.collapse [symmetric]] accept_signal_slice [OF prod.collapse [symmetric]])
    (use assms in simp_all)

theorem commands_isolate_tenants_witness:
  "tenant_slice (snd (accept_run sample_rt 100 sample_identity sample_request False initial_state)) ''globex'' =
     tenant_slice initial_state ''globex'' \<and> tenant_events sample_state ''acme'' \<noteq> []"
proof
  show "tenant_slice (snd (accept_run sample_rt 100 sample_identity sample_request False initial_state)) ''globex'' =
      tenant_slice initial_state ''globex''"
    by (rule commands_isolate_tenants [of _ "''acme''", THEN conjunct2, THEN conjunct1]) simp_all
  show "tenant_events sample_state ''acme'' \<noteq> []" using sample_events by (auto simp: run_events_def)
qed

end
