(* ===== verification/Outbox_Properties.thy ===== *)
theory Outbox_Properties
  imports Run_Integrity
begin

text \<open>
  The properties of outbox delivery over whole histories: progress, exclusivity of a claim,
  fencing of superseded claims, the bound on attempts and the finality of delivered and dead
  messages.
\<close>

section \<open>A sample claim\<close>

definition sample_message :: string where
  "sample_message = stable_id sample_rt ''outbox'' [sample_run_id, ''temporal-start''] 32"

lemma sample_delivery:
  obtains r where "delivery sample_state ''acme'' ''outbox'' sample_message = Some r"
    "st_deliveries sample_state = [((''acme'', ''outbox'', sample_message), r)]"
    "dl_status r = Delivery_PENDING" "dl_attempts r = 0" "dl_available_at r = 100" "dl_tenant_id r = ''acme''"
    "dl_message_id r = sample_message"
  using sample_accept(1)
proof (cases rule: accept_run_cases)
  case (accepted trace_ref draft outbox appended v)
  have m: "ob_message_id outbox = sample_message" "ob_available_at outbox = 100"
    using accepted(3)
    by (auto simp: make_outbox_draft_def start_outbox_def sample_run_id_def sample_message_def split: if_splits)
  have "st_deliveries sample_state = [((''acme'', ''outbox'', sample_message), outbox_delivery ''acme'' outbox)]"
    unfolding accepted(6) using m by (simp add: with_entry_def initial_state_def add_deliveries_def)
  with that [of "outbox_delivery ''acme'' outbox"] m show thesis
    by (simp add: delivery_def outbox_delivery_def)
qed (simp_all add: initial_state_def)

section \<open>Progress\<close>

lemma due_is_candidate:
  assumes "deliveries_ok ds" "map_of ds k = Some r" "claimable t now (k, r)"
    and "length (filter (claimable t now) ds) \<le> limit"
  shows "r \<in> set (outbox_candidates t now limit ds)"
proof -
  from assms(2) have "(k, r) \<in> set ds" by (rule map_of_SomeD)
  with assms(3) have "r \<in> set (map snd (filter (claimable t now) ds))" by force
  with assms(4) show ?thesis by (simp add: outbox_candidates_def)
qed

lemma claim_outbox_returns:
  "1 \<le> limit \<Longrightarrow> limit \<le> 100 \<Longrightarrow> now < until \<Longrightarrow>
     \<exists>claims s'. claim_outbox rt t worker now until limit s = (Inr claims, s')"
  by (simp add: claim_outbox_def claim_records_fold)

text \<open>No due message is passed over: when the limit covers the due messages of the tenant,
  each due message with attempts left is claimed, under a fresh attempt number, until the
  deadline the worker named.\<close>

theorem due_message_claimed:
  assumes "ledger_reachable rt s" "delivery s t ''outbox'' m = Some r"
    and "claimable t now ((t, ''outbox'', m), r)" "dl_attempts r < max_delivery_attempts"
    and "length (filter (claimable t now) (st_deliveries s)) \<le> limit" "1 \<le> limit" "limit \<le> 100" "now < until"
  shows "\<exists>claims s' c. claim_outbox rt t worker now until limit s = (Inr claims, s') \<and> c \<in> set claims \<and>
    cl_message_id c = m \<and> cl_attempt c = dl_attempts r + 1 \<and>
    delivery s' t ''outbox'' m = Some (r\<lparr>dl_attempts := cl_attempt c, dl_claim_token := Some (cl_claim_token c),
      dl_claim_until := Some until, dl_status := Delivery_CLAIMED\<rparr>)"
proof -
  note ok = reachable_deliveries_ok [OF assms(1)]
  have st: "map_of (st_deliveries s) (t, ''outbox'', m) = Some r" using assms(2) by (simp add: delivery_def)
  note cand = due_is_candidate [OF ok st assms(3,5)]
  note key = claimable_key [OF assms(3) stored_ok(2) [OF ok map_of_SomeD [OF st]]]
  obtain claims s' where call: "claim_outbox rt t worker now until limit s = (Inr claims, s')"
    using claim_outbox_returns [OF assms(6-8)] by metis
  define c where "c = claim_of r (claim_token rt worker r (dl_attempts r + 1))"
  have "fst (claim_record rt worker until r) = Some c"
    using assms(4) by (simp add: claim_record_def c_def claim_of_def Let_def)
  then have "c \<in> set claims"
    using cand by (force simp: claim_outbox_result(2) [OF call] map_filter_def)
  moreover have "cl_message_id c = m" "cl_attempt c = dl_attempts r + 1"
    using key by (simp_all add: c_def claim_of_def outbox_key_def)
  moreover from claim_outbox_granted [OF ok call calculation(1)] st
  have "delivery s' t ''outbox'' m = Some (r\<lparr>dl_attempts := cl_attempt c, dl_claim_token := Some (cl_claim_token c),
      dl_claim_until := Some until, dl_status := Delivery_CLAIMED\<rparr>)"
    unfolding delivery_def calculation(2) by (metis option.inject)
  ultimately show ?thesis using call by blast
qed

lemma sample_claimable:
  assumes "dl_status r = Delivery_PENDING" "dl_available_at r = 100" "dl_tenant_id r = ''acme''"
  shows "claimable ''acme'' 150 ((''acme'', ''outbox'', sample_message), r)"
  using assms by (simp add: claimable_def)

definition sample_claim :: "delivery_claim list result \<times> durability_state" where
  "sample_claim = claim_outbox sample_rt ''acme'' ''w1'' 150 200 10 sample_state"

theorem due_message_claimed_witness:
  "\<exists>claims s' c. claim_outbox sample_rt ''acme'' ''w1'' 150 200 10 sample_state = (Inr claims, s') \<and>
     c \<in> set claims \<and> cl_message_id c = sample_message \<and> cl_attempt c = 1"
proof (rule sample_delivery)
  fix r assume r: "delivery sample_state ''acme'' ''outbox'' sample_message = Some r"
    "st_deliveries sample_state = [((''acme'', ''outbox'', sample_message), r)]"
    "dl_status r = Delivery_PENDING" "dl_attempts r = 0" "dl_available_at r = 100" "dl_tenant_id r = ''acme''"
  have "dl_attempts r < max_delivery_attempts" "length (filter (claimable ''acme'' 150) (st_deliveries sample_state)) \<le> 10"
    using r by (simp_all add: max_delivery_attempts_def)
  from due_message_claimed [OF sample_reachable r(1) sample_claimable [OF r(3,5,6)] this, of 200 "''w1''"] r(4)
  show ?thesis by auto
qed

text \<open>The single pending message, claimed by \<open>w1\<close> until 200.\<close>

lemma sample_claim_call:
  obtains c r where "claim_outbox sample_rt ''acme'' ''w1'' 150 200 10 sample_state = (Inr [c], snd sample_claim)"
    "cl_message_id c = sample_message" "cl_tenant_id c = ''acme''" "cl_attempt c = 1"
    "st_deliveries (snd sample_claim) = [((''acme'', ''outbox'', sample_message), r)]"
    "dl_status r = Delivery_CLAIMED" "dl_claim_until r = Some 200" "dl_claim_token r = Some (cl_claim_token c)"
    "dl_attempts r = 1" "dl_available_at r = 100" "dl_tenant_id r = ''acme''"
proof (rule sample_delivery)
  fix r assume r: "st_deliveries sample_state = [((''acme'', ''outbox'', sample_message), r)]"
    "dl_status r = Delivery_PENDING" "dl_attempts r = 0" "dl_available_at r = 100" "dl_tenant_id r = ''acme''"
    "dl_message_id r = sample_message"
  define c where "c = claim_of r (claim_token sample_rt ''w1'' r 1)"
  define r' where "r' = r\<lparr>dl_attempts := 1, dl_claim_token := Some (cl_claim_token c), dl_claim_until := Some 200,
    dl_status := Delivery_CLAIMED\<rparr>"
  have cand: "outbox_candidates ''acme'' 150 10 (st_deliveries sample_state) = [r]"
    using sample_claimable [OF r(2,4,5)] by (simp add: r(1) outbox_candidates_def)
  have rec: "claim_record sample_rt ''w1'' 200 r = (Some c, r')"
    using r(3) by (simp add: claim_record_def c_def r'_def claim_of_def Let_def max_delivery_attempts_def)
  have key: "outbox_key r = (''acme'', ''outbox'', sample_message)" using r(5,6) by (simp add: outbox_key_def)
  have call: "claim_outbox sample_rt ''acme'' ''w1'' 150 200 10 sample_state =
      (Inr [c], sample_state\<lparr>st_deliveries := [((''acme'', ''outbox'', sample_message), r')]\<rparr>)"
    unfolding claim_outbox_def cand by (simp add: claim_records_fold rec key r(1) map_filter_simps)
  have f: "cl_message_id c = sample_message" "cl_tenant_id c = ''acme''" "cl_attempt c = 1"
    using r(3,5,6) by (simp_all add: c_def claim_of_def)
  have "snd sample_claim = sample_state\<lparr>st_deliveries := [((''acme'', ''outbox'', sample_message), r')]\<rparr>"
    by (simp add: sample_claim_def call)
  with that [OF _ f, of r'] call r(4,5) show thesis by (simp add: r'_def)
qed

section \<open>Exclusivity and fencing\<close>

text \<open>C12. A claim is exclusive until it expires: while the deadline of a claimed message has not
  passed, no claim call of any worker for any tenant returns the message or changes its record.\<close>

theorem claim_is_exclusive:
  assumes "ledger_reachable rt s" "delivery s t ''outbox'' m = Some r"
    and "dl_status r = Delivery_CLAIMED" "dl_claim_until r = Some until" "now < until"
    and "claim_outbox rt t' worker now until' limit s = (Inr claims, s')"
  shows "delivery s' t ''outbox'' m = Some r \<and>
    (\<forall>c \<in> set claims. \<not> (cl_tenant_id c = t \<and> cl_message_id c = m))"
  using claim_outbox_untouched [OF reachable_deliveries_ok [OF assms(1)] assms(6), of "(t, ''outbox'', m)" r] assms(2-5)
  by (auto simp: delivery_def claimable_def Let_def)

theorem claim_is_exclusive_witness:
  "\<exists>claims s'. claim_outbox sample_rt ''acme'' ''w2'' 160 300 10 (snd sample_claim) = (Inr claims, s') \<and>
     (\<forall>c \<in> set claims. \<not> (cl_tenant_id c = ''acme'' \<and> cl_message_id c = sample_message))"
proof (rule sample_claim_call)
  fix c r assume c: "claim_outbox sample_rt ''acme'' ''w1'' 150 200 10 sample_state = (Inr [c], snd sample_claim)"
    and ds: "st_deliveries (snd sample_claim) = [((''acme'', ''outbox'', sample_message), r)]"
    and st: "dl_status r = Delivery_CLAIMED" "dl_claim_until r = Some 200"
  have r: "delivery (snd sample_claim) ''acme'' ''outbox'' sample_message = Some r" by (simp add: delivery_def ds)
  obtain cs s' where call: "claim_outbox sample_rt ''acme'' ''w2'' 160 300 10 (snd sample_claim) = (Inr cs, s')"
    using claim_outbox_returns [of 10 160 300 sample_rt "''acme''" "''w2''" "snd sample_claim"] by auto
  have "(160::nat) < 200" by simp
  from claim_is_exclusive [OF run_step [OF sample_reachable step_claim [OF c]] r st this call] call show ?thesis by blast
qed

lemma steps_attempts:
  assumes "ledger_reachable rt s" "(ledger_step rt)\<^sup>*\<^sup>* s s'" "map_of (st_deliveries s) k = Some r"
  obtains r' where "map_of (st_deliveries s') k = Some r'" "dl_attempts r \<le> dl_attempts r'"
  using ledger_steps_evolve [OF assms(1,2)] assms(3) unfolding delivery_evolves_def by (metis order_refl)

lemma update_claim_superseded:
  assumes "map_of (st_deliveries s) (cl_tenant_id c, ''outbox'', cl_message_id c) = Some r" "dl_attempts r \<noteq> cl_attempt c"
  shows "complete_outbox c s = (Inl (MessageClaimConflict ''outbox claim is stale or not owned''), s)"
    "fail_outbox c code retry permanent s = (Inl (MessageClaimConflict ''outbox claim is stale or not owned''), s)"
  using assms by (simp_all add: complete_outbox_def fail_outbox_def update_claim_def Let_def)

text \<open>C9. A superseded claim is fenced off: once a message has been claimed again, the earlier
  holder can neither complete nor fail it, in that state or in any later one; the attempt is
  refused and nothing is written.\<close>

theorem superseded_claim_refused:
  assumes reach: "ledger_reachable rt s"
    and first: "claim_outbox rt t w now u l s = (Inr claims, s1)" "c \<in> set claims"
    and "(ledger_step rt)\<^sup>*\<^sup>* s1 s2"
    and second: "claim_outbox rt t w' now' u' l' s2 = (Inr claims', s3)" "c' \<in> set claims'"
    and same: "cl_message_id c' = cl_message_id c" and "(ledger_step rt)\<^sup>*\<^sup>* s3 s4"
  shows "complete_outbox c s4 = (Inl (MessageClaimConflict ''outbox claim is stale or not owned''), s4) \<and>
    fail_outbox c code retry permanent s4 = (Inl (MessageClaimConflict ''outbox claim is stale or not owned''), s4)"
proof -
  let ?k = "(t, ''outbox'', cl_message_id c)"
  have s1: "ledger_reachable rt s1" using run_step [OF reach step_claim [OF first(1)]] .
  have s2: "ledger_reachable rt s2" using ledger_steps_extend [OF s1 assms(4)] by blast
  have s3: "ledger_reachable rt s3" using run_step [OF s2 step_claim [OF second(1)]] .
  obtain r1 where r1: "map_of (st_deliveries s1) ?k = Some r1" "dl_attempts r1 = cl_attempt c" "cl_tenant_id c = t"
    by (rule claim_outbox_granted [OF reachable_deliveries_ok [OF reach] first])
      (auto simp: claimable_def claim_of_def Let_def)
  obtain r2 where r2: "map_of (st_deliveries s2) ?k = Some r2" "cl_attempt c \<le> dl_attempts r2"
    using steps_attempts [OF s1 assms(4) r1(1)] r1(2) by metis
  obtain r3 where r3: "map_of (st_deliveries s3) ?k = Some r3" "cl_attempt c < dl_attempts r3"
    by (rule claim_outbox_granted [OF reachable_deliveries_ok [OF s2] second])
      (use r2 same in \<open>auto simp: claim_of_def\<close>)
  obtain r4 where "map_of (st_deliveries s4) ?k = Some r4" "cl_attempt c < dl_attempts r4"
    using steps_attempts [OF s3 assms(8) r3(1)] r3(2) by (metis less_le_trans)
  with update_claim_superseded [of s4 c r4] r1(3) show ?thesis by simp
qed

theorem superseded_claim_refused_witness:
  "\<exists>c c' s3. cl_message_id c = sample_message \<and> cl_attempt c = 1 \<and> cl_message_id c' = sample_message \<and> cl_attempt c' = 2 \<and>
     claim_outbox sample_rt ''acme'' ''w2'' 250 300 10 (snd sample_claim) = (Inr [c'], s3) \<and>
     complete_outbox c s3 = (Inl (MessageClaimConflict ''outbox claim is stale or not owned''), s3)"
proof (rule sample_claim_call)
  fix c r assume first: "claim_outbox sample_rt ''acme'' ''w1'' 150 200 10 sample_state = (Inr [c], snd sample_claim)"
    and m: "cl_message_id c = sample_message" "cl_attempt c = 1"
    and ds: "st_deliveries (snd sample_claim) = [((''acme'', ''outbox'', sample_message), r)]"
    and r: "dl_status r = Delivery_CLAIMED" "dl_claim_until r = Some 200" "dl_attempts r = 1" "dl_available_at r = 100"
      "dl_tenant_id r = ''acme''"
  have reach: "ledger_reachable sample_rt (snd sample_claim)" using run_step [OF sample_reachable step_claim [OF first]] .
  have due: "claimable ''acme'' 250 ((''acme'', ''outbox'', sample_message), r)"
    using r by (simp add: claimable_def Let_def)
  have cand: "outbox_candidates ''acme'' 250 10 (st_deliveries (snd sample_claim)) = [r]"
    using due by (simp add: ds outbox_candidates_def)
  have key: "outbox_key r = (''acme'', ''outbox'', sample_message)"
    by (rule claimable_key [OF due stored_ok(2) [OF reachable_deliveries_ok [OF reach]]]) (simp add: ds)
  define c' where "c' = claim_of r (claim_token sample_rt ''w2'' r (Suc (Suc 0)))"
  obtain s3 where second: "claim_outbox sample_rt ''acme'' ''w2'' 250 300 10 (snd sample_claim) = (Inr [c'], s3)"
    unfolding claim_outbox_def cand
    by (simp add: claim_records_fold claim_record_def c'_def claim_of_def Let_def r(3) max_delivery_attempts_def
        map_filter_simps)
  have m': "cl_message_id c' = sample_message" "cl_attempt c' = 2"
    using key r(3) by (simp_all add: c'_def claim_of_def outbox_key_def)
  have "complete_outbox c s3 = (Inl (MessageClaimConflict ''outbox claim is stale or not owned''), s3)"
    by (rule superseded_claim_refused [OF sample_reachable first _ rtranclp.rtrancl_refl second _ _ rtranclp.rtrancl_refl,
          where c = c and c' = c', THEN conjunct1]) (simp_all add: m m')
  with m m' second show ?thesis by blast
qed

section \<open>Attempts and finality\<close>

text \<open>C16. In every history each message is attempted at most five times, and a message that was
  delivered or declared dead keeps its record, byte for byte, for ever.\<close>

theorem deliveries_bounded_and_final:
  assumes "ledger_reachable rt s" "delivery s t direction m = Some r" "(ledger_step rt)\<^sup>*\<^sup>* s s'"
  shows "dl_attempts r \<le> max_delivery_attempts \<and>
    (dl_status r \<in> {Delivery_DELIVERED, Delivery_DEAD_LETTER} \<longrightarrow> delivery s' t direction m = Some r)"
proof -
  have st: "map_of (st_deliveries s) (t, direction, m) = Some r" using assms(2) by (simp add: delivery_def)
  have "delivery_ok (t, direction, m) r"
    using stored_ok(2) [OF reachable_deliveries_ok [OF assms(1)] map_of_SomeD [OF st]] .
  moreover have "delivery s' t direction m = Some r" if "dl_status r \<in> {Delivery_DELIVERED, Delivery_DEAD_LETTER}"
  proof -
    from ledger_steps_evolve [OF assms(1,3)] st obtain r' where "map_of (st_deliveries s') (t, direction, m) = Some r'"
      "r' = r \<or> dl_status r \<in> {Delivery_PENDING, Delivery_CLAIMED}"
      unfolding delivery_evolves_def by blast
    with that show ?thesis by (auto simp: delivery_def)
  qed
  ultimately show ?thesis by (auto simp: delivery_ok_def)
qed

theorem deliveries_bounded_and_final_witness:
  "\<exists>c r s'. complete_outbox c (snd sample_claim) = (Inr (), s') \<and>
     delivery s' ''acme'' ''outbox'' sample_message = Some r \<and> dl_status r = Delivery_DELIVERED \<and>
     dl_attempts r \<le> max_delivery_attempts"
proof (rule sample_claim_call)
  fix c r assume first: "claim_outbox sample_rt ''acme'' ''w1'' 150 200 10 sample_state = (Inr [c], snd sample_claim)"
    and m: "cl_message_id c = sample_message" "cl_tenant_id c = ''acme''" "cl_attempt c = 1"
    and ds: "st_deliveries (snd sample_claim) = [((''acme'', ''outbox'', sample_message), r)]"
    and r: "dl_status r = Delivery_CLAIMED" "dl_claim_token r = Some (cl_claim_token c)" "dl_attempts r = 1"
  have reach: "ledger_reachable sample_rt (snd sample_claim)" using run_step [OF sample_reachable step_claim [OF first]] .
  obtain s' r' where fin: "complete_outbox c (snd sample_claim) = (Inr (), s')"
    "delivery s' ''acme'' ''outbox'' sample_message = Some r'" "dl_status r' = Delivery_DELIVERED"
    using m r by (simp add: complete_outbox_def update_claim_def Let_def ds delivery_def)
  from deliveries_bounded_and_final [OF run_step [OF reach step_complete [OF fin(1)]] fin(2) rtranclp.rtrancl_refl] fin
  show ?thesis by blast
qed

end
