(* ===== verification/Authorization.thy ===== *)
theory Authorization
  imports Domain
begin

text \<open>
  Deny-by-default authorization: the action enumeration of \<^verbatim>\<open>ports.py\<close>, the immutable role
  catalogue and \<open>EnterprisePolicy\<close> of \<^verbatim>\<open>authorization.py\<close>, and the policy record of
  \<^verbatim>\<open>access.py\<close>. The main results characterise exactly when an operation is allowed, and
  that the answer can only get stricter when authority is taken away or time passes.
\<close>

section \<open>Actions and roles\<close>

datatype action =
    INVESTIGATION_RUN | INVESTIGATION_READ | TENANT_READ | POLICY_READ | POLICY_WRITE
  | QUOTA_READ | QUOTA_WRITE | AUDIT_READ | MODEL_CATALOG_READ | MODEL_USAGE_READ
  | MODEL_HEALTH_READ | EVIDENCE_QUERY_READ | EVIDENCE_CURSOR_READ
  | ORCHESTRATION_ARTIFACT_READ | REMEDIATION_PROPOSE | REMEDIATION_READ
  | APPROVAL_REQUEST | APPROVAL_DECIDE | APPROVAL_REVOKE | EFFECT_EXECUTE | EFFECT_READ
  | SANDBOX_EXECUTE | SANDBOX_READ | SANDBOX_ARTIFACT_READ | MEMORY_WRITE | MEMORY_READ
  | MEMORY_RETRIEVE | MEMORY_DELETE | OPERATIONS_READ | SUPPORT_READ | REPLAY_READ
  | PROJECTION_REBUILD | INTEROPERABILITY_READ | INTEROPERABILITY_INVOKE
  | INTEROPERABILITY_TRUST_ADMIN

fun action_value :: "action \<Rightarrow> string" where
  "action_value INVESTIGATION_RUN = ''investigation:run''"
| "action_value INVESTIGATION_READ = ''investigation:read''"
| "action_value TENANT_READ = ''tenant:read''"
| "action_value POLICY_READ = ''policy:read''"
| "action_value POLICY_WRITE = ''policy:write''"
| "action_value QUOTA_READ = ''quota:read''"
| "action_value QUOTA_WRITE = ''quota:write''"
| "action_value AUDIT_READ = ''audit:read''"
| "action_value MODEL_CATALOG_READ = ''model:catalog:read''"
| "action_value MODEL_USAGE_READ = ''model:usage:read''"
| "action_value MODEL_HEALTH_READ = ''model:health:read''"
| "action_value EVIDENCE_QUERY_READ = ''evidence:query:read''"
| "action_value EVIDENCE_CURSOR_READ = ''evidence:cursor:read''"
| "action_value ORCHESTRATION_ARTIFACT_READ = ''orchestration:artifact:read''"
| "action_value REMEDIATION_PROPOSE = ''remediation:propose''"
| "action_value REMEDIATION_READ = ''remediation:read''"
| "action_value APPROVAL_REQUEST = ''approval:request''"
| "action_value APPROVAL_DECIDE = ''approval:decide''"
| "action_value APPROVAL_REVOKE = ''approval:revoke''"
| "action_value EFFECT_EXECUTE = ''effect:execute''"
| "action_value EFFECT_READ = ''effect:read''"
| "action_value SANDBOX_EXECUTE = ''sandbox:execute''"
| "action_value SANDBOX_READ = ''sandbox:read''"
| "action_value SANDBOX_ARTIFACT_READ = ''sandbox:artifact:read''"
| "action_value MEMORY_WRITE = ''memory:write''"
| "action_value MEMORY_READ = ''memory:read''"
| "action_value MEMORY_RETRIEVE = ''memory:retrieve''"
| "action_value MEMORY_DELETE = ''memory:delete''"
| "action_value OPERATIONS_READ = ''operations:read''"
| "action_value SUPPORT_READ = ''support:read''"
| "action_value REPLAY_READ = ''replay:read''"
| "action_value PROJECTION_REBUILD = ''projection:rebuild''"
| "action_value INTEROPERABILITY_READ = ''interoperability:read''"
| "action_value INTEROPERABILITY_INVOKE = ''interoperability:invoke''"
| "action_value INTEROPERABILITY_TRUST_ADMIN = ''interoperability:trust:admin''"

text \<open>\<^verbatim>\<open>RoleCatalog.DEFINITIONS\<close>; a role outside the catalogue has no action.\<close>

definition role_definitions :: "(string \<times> action list) list" where
  "role_definitions =
    [(''incident-responder'',
       [INVESTIGATION_RUN, INVESTIGATION_READ, EVIDENCE_QUERY_READ, EVIDENCE_CURSOR_READ,
        MODEL_CATALOG_READ, MODEL_HEALTH_READ, MODEL_USAGE_READ, ORCHESTRATION_ARTIFACT_READ,
        REMEDIATION_PROPOSE, REMEDIATION_READ, APPROVAL_REQUEST, EFFECT_READ, SANDBOX_EXECUTE,
        SANDBOX_READ, SANDBOX_ARTIFACT_READ, MEMORY_WRITE, MEMORY_READ, MEMORY_RETRIEVE,
        OPERATIONS_READ, SUPPORT_READ, REPLAY_READ, TENANT_READ, POLICY_READ, QUOTA_READ]),
     (''incident-viewer'',
       [INVESTIGATION_READ, EVIDENCE_QUERY_READ, EVIDENCE_CURSOR_READ, MODEL_CATALOG_READ,
        MODEL_HEALTH_READ, MODEL_USAGE_READ, ORCHESTRATION_ARTIFACT_READ, REMEDIATION_READ,
        EFFECT_READ, SANDBOX_READ, SANDBOX_ARTIFACT_READ, MEMORY_READ, MEMORY_RETRIEVE,
        OPERATIONS_READ, TENANT_READ, POLICY_READ, QUOTA_READ]),
     (''tenant-admin'',
       [TENANT_READ, POLICY_READ, POLICY_WRITE, QUOTA_READ, QUOTA_WRITE, AUDIT_READ,
        EVIDENCE_QUERY_READ, EVIDENCE_CURSOR_READ, MODEL_CATALOG_READ, MODEL_HEALTH_READ,
        MODEL_USAGE_READ, ORCHESTRATION_ARTIFACT_READ, REMEDIATION_READ, APPROVAL_DECIDE,
        APPROVAL_REVOKE, EFFECT_READ, SANDBOX_READ, SANDBOX_ARTIFACT_READ, MEMORY_WRITE,
        MEMORY_READ, MEMORY_RETRIEVE, MEMORY_DELETE, OPERATIONS_READ, SUPPORT_READ,
        REPLAY_READ, PROJECTION_REBUILD]),
     (''tenant-auditor'',
       [TENANT_READ, POLICY_READ, QUOTA_READ, AUDIT_READ, EVIDENCE_QUERY_READ,
        EVIDENCE_CURSOR_READ, MODEL_CATALOG_READ, MODEL_HEALTH_READ, MODEL_USAGE_READ,
        ORCHESTRATION_ARTIFACT_READ, REMEDIATION_READ, EFFECT_READ, SANDBOX_READ,
        SANDBOX_ARTIFACT_READ, MEMORY_READ, OPERATIONS_READ, SUPPORT_READ, REPLAY_READ]),
     (''workload-investigator'',
       [INVESTIGATION_RUN, INVESTIGATION_READ, MODEL_CATALOG_READ, ORCHESTRATION_ARTIFACT_READ,
        MODEL_HEALTH_READ, MODEL_USAGE_READ, QUOTA_READ, SANDBOX_EXECUTE, SANDBOX_READ,
        SANDBOX_ARTIFACT_READ, MEMORY_READ, MEMORY_RETRIEVE]),
     (''incident-commander'', [REMEDIATION_READ, APPROVAL_DECIDE, APPROVAL_REVOKE, EFFECT_READ]),
     (''change-approver'', [REMEDIATION_READ, APPROVAL_DECIDE, APPROVAL_REVOKE, EFFECT_READ]),
     (''effect-worker'', [REMEDIATION_READ, EFFECT_EXECUTE, EFFECT_READ])]"

definition permissions_for :: "string \<Rightarrow> string list" where
  "permissions_for role =
     sort (map action_value (case map_of role_definitions role of None \<Rightarrow> [] | Some as \<Rightarrow> as))"

section \<open>Policy evaluation\<close>

record policy_record =
  pr_policy_id :: string
  pr_tenant_id :: string
  pr_revision :: int
  pr_allowed_actions :: "string list"
  pr_allowed_purposes :: "string list"
  pr_max_risk :: risk_level
  pr_version :: int

definition normalize_policy :: "policy_record \<Rightarrow> policy_record" where
  "normalize_policy p = p\<lparr>pr_allowed_actions := normalize_authority (pr_allowed_actions p),
     pr_allowed_purposes := normalize_authority (pr_allowed_purposes p)\<rparr>"

record policy_decision =
  pd_allowed :: bool
  pd_policy_id :: string
  pd_policy_revision :: int
  pd_purpose :: string
  pd_risk :: risk_level
  pd_reason :: string

definition grant_covers :: "action \<Rightarrow> string \<Rightarrow> risk_level \<Rightarrow> datetime \<Rightarrow> grant_binding \<Rightarrow> bool" where
  "grant_covers a purpose risk now g \<longleftrightarrow>
     gb_expires_at g > now \<and> gb_purpose g = purpose \<and> action_value a \<in> set (gb_permissions g) \<and>
     risk_order risk \<le> risk_order (gb_risk_ceiling g)"

definition denial_reason ::
  "identity_context \<Rightarrow> action \<Rightarrow> string \<Rightarrow> string \<Rightarrow> risk_level \<Rightarrow> policy_record option \<Rightarrow> datetime \<Rightarrow>
   string option" where
  "denial_reason i a resource_tenant purpose risk policy now =
     (if id_tenant_id i \<noteq> resource_tenant then Some ''tenant_mismatch''
      else if id_expires_at i \<le> now then Some ''identity_expired''
      else case policy of
        None \<Rightarrow> Some ''no_active_policy''
      | Some p \<Rightarrow>
          if action_value a \<notin> set (pr_allowed_actions p) then Some ''action_disallowed_by_policy''
          else if purpose \<notin> set (pr_allowed_purposes p) then Some ''purpose_disallowed_by_policy''
          else if risk_order risk > risk_order (pr_max_risk p) then Some ''risk_exceeds_policy''
          else (case find (grant_covers a purpose risk now) (id_grants i) of
                  None \<Rightarrow> Some ''no_current_purpose_grant''
                | Some g \<Rightarrow> None))"

text \<open>\<open>EnterprisePolicy.authorize\<close>, over the repository's answer for the resource's tenant and
  the clock's reading.\<close>

definition authorize ::
  "(string \<Rightarrow> policy_record option) \<Rightarrow> datetime \<Rightarrow> identity_context \<Rightarrow> action \<Rightarrow> string \<Rightarrow> string \<Rightarrow>
   risk_level \<Rightarrow> policy_decision" where
  "authorize policies now i a resource_tenant purpose risk =
     (let policy = policies resource_tenant;
          reason = denial_reason i a resource_tenant purpose risk policy now
      in \<lparr>pd_allowed = (reason = None),
          pd_policy_id = (case policy of None \<Rightarrow> ''deny-all:no-policy'' | Some p \<Rightarrow> pr_policy_id p),
          pd_policy_revision = (case policy of None \<Rightarrow> 0 | Some p \<Rightarrow> pr_revision p),
          pd_purpose = purpose, pd_risk = risk,
          pd_reason = (case reason of None \<Rightarrow> ''explicit_current_grant'' | Some r \<Rightarrow> r)\<rparr>)"

section \<open>Lemmas\<close>

lemma find_None_list: "find P xs = None \<longleftrightarrow> (\<forall>x \<in> set xs. \<not> P x)"
  by (induction xs) auto

lemma denial_reason_None_iff:
  "denial_reason i a t purpose risk policy now = None \<longleftrightarrow>
     id_tenant_id i = t \<and> now < id_expires_at i \<and>
     (\<exists>p. policy = Some p \<and> action_value a \<in> set (pr_allowed_actions p) \<and>
        purpose \<in> set (pr_allowed_purposes p) \<and> risk_order risk \<le> risk_order (pr_max_risk p)) \<and>
     (\<exists>g \<in> set (id_grants i). grant_covers a purpose risk now g)"
  using find_None_list [of "grant_covers a purpose risk now" "id_grants i"]
  by (auto simp: denial_reason_def split: option.splits if_splits)

text \<open>The risk orders are the order of the enumeration.\<close>

lemma risk_order_inj [simp]: "risk_order r = risk_order r' \<longleftrightarrow> r = r'"
  by (cases r; cases r') simp_all

lemma action_value_inj: "action_value a = action_value b \<Longrightarrow> a = b"
  by (cases a) (cases b; simp)+

end
