(* ===== verification/Remediation_Data.thy ===== *)
theory Remediation_Data
  imports Ledger_Store Authorization
begin

text \<open>
  The contracts of \<^verbatim>\<open>remediation.py\<close>: actions, plans, approval requests and decisions,
  intents, observations, receipts and verification records, with their JSON documents, their
  validators and \<open>canonical_digest\<close>, the SHA-256 of a contract's canonical JSON without its own
  digest field. Fields that the code restricts to one literal carry no data; their value is
  written in the document.
\<close>

section \<open>Enumerations\<close>

datatype blast_radius = ONE_REPLICA_SET | ONE_SERVICE | MULTI_SERVICE

fun blast_value :: "blast_radius \<Rightarrow> string" where
  "blast_value ONE_REPLICA_SET = ''one-replica-set''"
| "blast_value ONE_SERVICE = ''one-service''"
| "blast_value MULTI_SERVICE = ''multi-service''"

fun blast_order :: "blast_radius \<Rightarrow> nat" where
  "blast_order ONE_REPLICA_SET = 1"
| "blast_order ONE_SERVICE = 2"
| "blast_order MULTI_SERVICE = 3"

datatype remediation_status =
    Rem_PROPOSED | Rem_APPROVAL_PENDING | Rem_APPROVED | Rem_DENIED | Rem_EXPIRED | Rem_REVOKED
  | Rem_PREFLIGHT | Rem_EXECUTING | Rem_SUCCEEDED | Rem_FAILED | Rem_AMBIGUOUS | Rem_RECONCILING
  | Rem_ROLLING_BACK | Rem_ROLLED_BACK | Rem_CANCELLED | Rem_VERIFIED | Rem_VERIFICATION_FAILED
  | Rem_ESCALATED

fun rem_status_value :: "remediation_status \<Rightarrow> string" where
  "rem_status_value Rem_PROPOSED = ''proposed''"
| "rem_status_value Rem_APPROVAL_PENDING = ''approval_pending''"
| "rem_status_value Rem_APPROVED = ''approved''"
| "rem_status_value Rem_DENIED = ''denied''"
| "rem_status_value Rem_EXPIRED = ''expired''"
| "rem_status_value Rem_REVOKED = ''revoked''"
| "rem_status_value Rem_PREFLIGHT = ''preflight''"
| "rem_status_value Rem_EXECUTING = ''executing''"
| "rem_status_value Rem_SUCCEEDED = ''succeeded''"
| "rem_status_value Rem_FAILED = ''failed''"
| "rem_status_value Rem_AMBIGUOUS = ''ambiguous''"
| "rem_status_value Rem_RECONCILING = ''reconciling''"
| "rem_status_value Rem_ROLLING_BACK = ''rolling_back''"
| "rem_status_value Rem_ROLLED_BACK = ''rolled_back''"
| "rem_status_value Rem_CANCELLED = ''cancelled''"
| "rem_status_value Rem_VERIFIED = ''verified''"
| "rem_status_value Rem_VERIFICATION_FAILED = ''verification_failed''"
| "rem_status_value Rem_ESCALATED = ''escalated''"

text \<open>A decision grants or denies; \<open>REVOKE\<close> of the enumeration is never the disposition of one.\<close>

datatype disposition = GRANT | DENY

fun disposition_value :: "disposition \<Rightarrow> string" where
  "disposition_value GRANT = ''grant''"
| "disposition_value DENY = ''deny''"

datatype effect_outcome =
    Out_DRY_RUN_SUCCEEDED | Out_SUCCEEDED | Out_FAILED | Out_AMBIGUOUS | Out_DUPLICATE | Out_CONFLICT
  | Out_COMPENSATED

fun outcome_value :: "effect_outcome \<Rightarrow> string" where
  "outcome_value Out_DRY_RUN_SUCCEEDED = ''dry_run_succeeded''"
| "outcome_value Out_SUCCEEDED = ''succeeded''"
| "outcome_value Out_FAILED = ''failed''"
| "outcome_value Out_AMBIGUOUS = ''ambiguous''"
| "outcome_value Out_DUPLICATE = ''duplicate''"
| "outcome_value Out_CONFLICT = ''conflict''"
| "outcome_value Out_COMPENSATED = ''compensated''"

datatype observation_state =
  Obs_BEFORE | Obs_APPLIED | Obs_NOT_APPLIED | Obs_CONFLICT | Obs_UNKNOWN | Obs_RECOVERED

fun observation_value :: "observation_state \<Rightarrow> string" where
  "observation_value Obs_BEFORE = ''before''"
| "observation_value Obs_APPLIED = ''applied''"
| "observation_value Obs_NOT_APPLIED = ''not_applied''"
| "observation_value Obs_CONFLICT = ''conflict''"
| "observation_value Obs_UNKNOWN = ''unknown''"
| "observation_value Obs_RECOVERED = ''recovered''"

section \<open>Conditions\<close>

datatype fact_value = FStr string | FInt int | FFloat pyfloat | FBool bool

fun fact_json :: "fact_value \<Rightarrow> json" where
  "fact_json (FStr s) = JStr s"
| "fact_json (FInt i) = JInt i"
| "fact_json (FFloat f) = JFloat f"
| "fact_json (FBool b) = JBool b"

datatype operator = Equals | Not_equals | Greater_than | Less_than

fun operator_value :: "operator \<Rightarrow> string" where
  "operator_value Equals = ''equals''"
| "operator_value Not_equals = ''not_equals''"
| "operator_value Greater_than = ''greater_than''"
| "operator_value Less_than = ''less_than''"

record condition =
  cd_fact :: string
  cd_operator :: operator
  cd_expected :: fact_value

text \<open>Python compares numbers of different types by value, and a Boolean is the number 0 or 1.
  A number is \<open>m * 2 ^ e\<close>; two of them are compared at the smaller exponent.\<close>

fun number :: "fact_value \<Rightarrow> (int \<times> int) option" where
  "number (FInt i) = Some (i, 0)"
| "number (FFloat f) = Some (mantissa f, exponent f)"
| "number (FBool b) = Some (if b then 1 else 0, 0)"
| "number (FStr s) = None"

definition scaled :: "int \<times> int \<Rightarrow> int \<Rightarrow> int" where
  "scaled me e = fst me * 2 ^ nat (snd me - e)"

definition number_less :: "int \<times> int \<Rightarrow> int \<times> int \<Rightarrow> bool" where
  "number_less a b \<longleftrightarrow> (let e = min (snd a) (snd b) in scaled a e < scaled b e)"

definition number_eq :: "int \<times> int \<Rightarrow> int \<times> int \<Rightarrow> bool" where
  "number_eq a b \<longleftrightarrow> (let e = min (snd a) (snd b) in scaled a e = scaled b e)"

fun py_equal :: "fact_value \<Rightarrow> fact_value \<Rightarrow> bool" where
  "py_equal (FStr a) (FStr b) = (a = b)"
| "py_equal a b = (case (number a, number b) of (Some x, Some y) \<Rightarrow> number_eq x y | _ \<Rightarrow> False)"

definition condition_matches :: "condition \<Rightarrow> (string \<times> fact_value) list \<Rightarrow> bool" where
  "condition_matches c facts =
     (case map_of facts (cd_fact c) of
        None \<Rightarrow> False
      | Some actual \<Rightarrow>
          (case cd_operator c of
             Equals \<Rightarrow> py_equal actual (cd_expected c)
           | Not_equals \<Rightarrow> \<not> py_equal actual (cd_expected c)
           | Greater_than \<Rightarrow> (case (number actual, number (cd_expected c)) of
                (Some x, Some y) \<Rightarrow> number_less y x | _ \<Rightarrow> False)
           | Less_than \<Rightarrow> (case (number actual, number (cd_expected c)) of
                (Some x, Some y) \<Rightarrow> number_less x y | _ \<Rightarrow> False)))"

definition condition_json :: "condition \<Rightarrow> json" where
  "condition_json c = JObj [(''fact'', JStr (cd_fact c)), (''operator'', JStr (operator_value (cd_operator c))),
     (''expected'', fact_json (cd_expected c))]"

section \<open>Actions and plans\<close>

record kubernetes_target =
  kt_cluster_ref :: string
  kt_namespace :: string
  kt_name :: string
  kt_uid :: string
  kt_resource_version :: string
  kt_resource_fingerprint :: string

record retry_contract =
  rc_maximum_attempts :: nat
  rc_attempt_timeout_seconds :: nat
  rc_schedule_timeout_seconds :: nat
  rc_heartbeat_timeout_seconds :: nat

datatype compensation_action = Observe_only | Rollback_revision

record compensation_contract =
  cc_enabled :: bool
  cc_action :: compensation_action
  cc_rollback_revision :: "string option"
  cc_requires_fresh_approval :: bool

record action_definition =
  ad_action_id :: string
  ad_target :: kubernetes_target
  ad_risk :: risk_level
  ad_blast_radius :: blast_radius
  ad_preconditions :: "condition list"
  ad_postconditions :: "condition list"
  ad_retry :: retry_contract
  ad_idempotency_key :: string
  ad_compensation :: compensation_contract
  ad_canonical_digest :: string

record citation =
  ci_evidence_id :: string
  ci_locator :: string
  ci_content_hash :: string
  ci_provenance_digest :: "string option"
  ci_source_id :: "string option"
  ci_query_id :: "string option"
  ci_page_number :: "nat option"

record policy_snapshot =
  ps_policy_id :: string
  ps_revision :: nat
  ps_role_revision :: nat
  ps_quota_revision :: nat
  ps_policy_digest :: string

record remediation_plan =
  rp_plan_id :: string
  rp_tenant_id :: string
  rp_run_id :: string
  rp_incident_id :: string
  rp_proposer_ref :: string
  rp_target_fingerprint :: string
  rp_risk :: risk_level
  rp_blast_radius :: blast_radius
  rp_rationale :: string
  rp_actions :: "action_definition list"
  rp_evidence :: "citation list"
  rp_policy_snapshot :: policy_snapshot
  rp_created_at :: datetime
  rp_expires_at :: datetime
  rp_plan_digest :: string

definition canonical_digest :: "runtime \<Rightarrow> json \<Rightarrow> string" where
  "canonical_digest rt document = sha256_hexdigest rt (canonical_json rt document)"

definition target_json :: "kubernetes_target \<Rightarrow> json" where
  "target_json t = JObj [(''provider'', JStr ''kubernetes''), (''cluster_ref'', JStr (kt_cluster_ref t)),
     (''namespace'', JStr (kt_namespace t)), (''kind'', JStr ''Deployment''), (''name'', JStr (kt_name t)),
     (''uid'', JStr (kt_uid t)), (''resource_version'', JStr (kt_resource_version t)),
     (''resource_fingerprint'', JStr (kt_resource_fingerprint t))]"

definition retry_json :: "retry_contract \<Rightarrow> json" where
  "retry_json r = JObj [(''owner'', JStr ''temporal''), (''maximum_attempts'', JInt (int (rc_maximum_attempts r))),
     (''attempt_timeout_seconds'', JInt (int (rc_attempt_timeout_seconds r))),
     (''schedule_timeout_seconds'', JInt (int (rc_schedule_timeout_seconds r))),
     (''heartbeat_timeout_seconds'', JInt (int (rc_heartbeat_timeout_seconds r))),
     (''observe_before_retry'', JBool True)]"

fun compensation_action_value :: "compensation_action \<Rightarrow> string" where
  "compensation_action_value Observe_only = ''observe_only''"
| "compensation_action_value Rollback_revision = ''rollback_revision''"

definition compensation_json :: "compensation_contract \<Rightarrow> json" where
  "compensation_json c = JObj [(''enabled'', JBool (cc_enabled c)),
     (''action'', JStr (compensation_action_value (cc_action c))),
     (''rollback_revision'', opt_json (cc_rollback_revision c)),
     (''requires_fresh_approval'', JBool (cc_requires_fresh_approval c))]"

text \<open>The fields of an action without its digest; \<open>action_json\<close> is the whole dump.\<close>

definition action_items :: "action_definition \<Rightarrow> dict" where
  "action_items a = [(''schema_version'', JInt 1), (''action_id'', JStr (ad_action_id a)),
     (''action_type'', JStr ''kubernetes.rollout_restart''), (''target'', target_json (ad_target a)),
     (''risk'', JStr (risk_value (ad_risk a))), (''blast_radius'', JStr (blast_value (ad_blast_radius a))),
     (''preconditions'', JList (map condition_json (ad_preconditions a))),
     (''postconditions'', JList (map condition_json (ad_postconditions a))),
     (''dry_run_required'', JBool True), (''retry'', retry_json (ad_retry a)),
     (''idempotency_key'', JStr (ad_idempotency_key a)),
     (''compensation'', compensation_json (ad_compensation a))]"

definition action_json :: "action_definition \<Rightarrow> json" where
  "action_json a = JObj (action_items a @ [(''canonical_digest'', JStr (ad_canonical_digest a))])"

definition action_digest :: "runtime \<Rightarrow> action_definition \<Rightarrow> string" where
  "action_digest rt a = canonical_digest rt (JObj (action_items a))"

definition citation_json :: "citation \<Rightarrow> json" where
  "citation_json c = JObj [(''evidence_id'', JStr (ci_evidence_id c)), (''locator'', JStr (ci_locator c)),
     (''content_hash'', JStr (ci_content_hash c)), (''provenance_digest'', opt_json (ci_provenance_digest c)),
     (''source_id'', opt_json (ci_source_id c)), (''query_id'', opt_json (ci_query_id c)),
     (''page_number'', (case ci_page_number c of None \<Rightarrow> JNull | Some n \<Rightarrow> JInt (int n)))]"

definition snapshot_json :: "policy_snapshot \<Rightarrow> json" where
  "snapshot_json p = JObj [(''policy_id'', JStr (ps_policy_id p)), (''revision'', JInt (int (ps_revision p))),
     (''role_revision'', JInt (int (ps_role_revision p))), (''quota_revision'', JInt (int (ps_quota_revision p))),
     (''policy_digest'', JStr (ps_policy_digest p))]"

definition plan_document :: "remediation_plan \<Rightarrow> json" where
  "plan_document p = JObj [(''schema_version'', JInt 1), (''plan_id'', JStr (rp_plan_id p)),
     (''tenant_id'', JStr (rp_tenant_id p)), (''run_id'', JStr (rp_run_id p)),
     (''incident_id'', JStr (rp_incident_id p)), (''proposer_ref'', JStr (rp_proposer_ref p)),
     (''target_fingerprint'', JStr (rp_target_fingerprint p)), (''risk'', JStr (risk_value (rp_risk p))),
     (''blast_radius'', JStr (blast_value (rp_blast_radius p))), (''rationale'', JStr (rp_rationale p)),
     (''actions'', JList (map action_json (rp_actions p))),
     (''evidence'', JList (map citation_json (rp_evidence p))), (''critic_status'', JStr ''accepted''),
     (''policy_snapshot'', snapshot_json (rp_policy_snapshot p)),
     (''created_at'', JStr (isoformat_z (rp_created_at p))), (''expires_at'', JStr (isoformat_z (rp_expires_at p)))]"

definition valid_target :: "kubernetes_target \<Rightarrow> bool" where
  "valid_target t \<longleftrightarrow>
     valid_identifier (kt_cluster_ref t) \<and> valid_identifier (kt_namespace t) \<and> valid_identifier (kt_name t) \<and>
     valid_identifier (kt_uid t) \<and> valid_identifier (kt_resource_version t) \<and> hex64 (kt_resource_fingerprint t)"

definition valid_retry :: "retry_contract \<Rightarrow> bool" where
  "valid_retry r \<longleftrightarrow>
     1 \<le> rc_maximum_attempts r \<and> rc_maximum_attempts r \<le> 5 \<and>
     5 \<le> rc_attempt_timeout_seconds r \<and> rc_attempt_timeout_seconds r \<le> 900 \<and>
     5 \<le> rc_schedule_timeout_seconds r \<and> rc_schedule_timeout_seconds r \<le> 3600 \<and>
     5 \<le> rc_heartbeat_timeout_seconds r \<and> rc_heartbeat_timeout_seconds r \<le> 120"

definition valid_compensation :: "compensation_contract \<Rightarrow> bool" where
  "valid_compensation c \<longleftrightarrow>
     valid_opt_identifier (cc_rollback_revision c) \<and>
     (cc_action c = Rollback_revision \<longrightarrow> cc_rollback_revision c \<noteq> None) \<and>
     (\<not> cc_enabled c \<longrightarrow> cc_action c = Observe_only)"

definition valid_action :: "runtime \<Rightarrow> action_definition \<Rightarrow> bool" where
  "valid_action rt a \<longleftrightarrow>
     valid_identifier (ad_action_id a) \<and> valid_target (ad_target a) \<and>
     1 \<le> length (ad_preconditions a) \<and> length (ad_preconditions a) \<le> 16 \<and>
     1 \<le> length (ad_postconditions a) \<and> length (ad_postconditions a) \<le> 16 \<and>
     list_all (\<lambda>c. valid_identifier (cd_fact c)) (ad_preconditions a @ ad_postconditions a) \<and>
     valid_retry (ad_retry a) \<and> valid_identifier (ad_idempotency_key a) \<and>
     valid_compensation (ad_compensation a) \<and> hex64 (ad_canonical_digest a) \<and>
     ad_canonical_digest a = action_digest rt a"

definition valid_citation :: "citation \<Rightarrow> bool" where
  "valid_citation c \<longleftrightarrow>
     valid_identifier (ci_evidence_id c) \<and> 1 \<le> length (ci_locator c) \<and> length (ci_locator c) \<le> 512 \<and>
     hex64 (ci_content_hash c) \<and> (case ci_provenance_digest c of None \<Rightarrow> True | Some d \<Rightarrow> hex64 d) \<and>
     valid_opt_identifier (ci_source_id c) \<and> valid_opt_identifier (ci_query_id c) \<and>
     (case ci_page_number c of None \<Rightarrow> True | Some n \<Rightarrow> 1 \<le> n \<and> n \<le> 100) \<and>
     ((ci_provenance_digest c = None \<and> ci_source_id c = None \<and> ci_query_id c = None \<and> ci_page_number c = None) \<or>
      (ci_provenance_digest c \<noteq> None \<and> ci_source_id c \<noteq> None \<and> ci_query_id c \<noteq> None \<and> ci_page_number c \<noteq> None))"

definition valid_snapshot :: "policy_snapshot \<Rightarrow> bool" where
  "valid_snapshot s \<longleftrightarrow>
     valid_identifier (ps_policy_id s) \<and> 1 \<le> ps_revision s \<and> 1 \<le> ps_role_revision s \<and>
     1 \<le> ps_quota_revision s \<and> hex64 (ps_policy_digest s)"

definition valid_plan :: "runtime \<Rightarrow> remediation_plan \<Rightarrow> bool" where
  "valid_plan rt p \<longleftrightarrow>
     valid_identifier (rp_plan_id p) \<and> valid_identifier (rp_tenant_id p) \<and> valid_identifier (rp_run_id p) \<and>
     valid_identifier (rp_incident_id p) \<and> valid_identifier (rp_proposer_ref p) \<and> hex64 (rp_target_fingerprint p) \<and>
     1 \<le> length (rp_rationale p) \<and> length (rp_rationale p) \<le> 2000 \<and>
     1 \<le> length (rp_actions p) \<and> length (rp_actions p) \<le> 8 \<and> list_all (valid_action rt) (rp_actions p) \<and>
     1 \<le> length (rp_evidence p) \<and> length (rp_evidence p) \<le> 64 \<and> list_all valid_citation (rp_evidence p) \<and>
     valid_snapshot (rp_policy_snapshot p) \<and> hex64 (rp_plan_digest p) \<and>
     rp_created_at p < rp_expires_at p \<and> distinct (map ad_action_id (rp_actions p)) \<and>
     list_all (\<lambda>a. kt_resource_fingerprint (ad_target a) = rp_target_fingerprint p) (rp_actions p) \<and>
     list_all (\<lambda>a. risk_order (ad_risk a) \<le> risk_order (rp_risk p)) (rp_actions p) \<and>
     rp_plan_digest p = canonical_digest rt (plan_document p)"

section \<open>Action policies\<close>

record action_policy =
  ap_tenant_id :: string
  ap_policy_id :: string
  ap_revision :: nat
  ap_role_revision :: nat
  ap_quota_revision :: nat
  ap_enabled :: bool
  ap_allowed_action_types :: "string list"
  ap_allowed_target_fingerprints :: "string list"
  ap_allowed_namespaces :: "string list"
  ap_maintenance_window_start :: datetime
  ap_maintenance_window_end :: datetime
  ap_max_risk :: risk_level
  ap_max_blast_radius :: blast_radius
  ap_remaining_effects :: nat
  ap_high_risk_quorum :: nat
  ap_normal_quorum :: nat
  ap_approver_roles :: "string list"
  ap_prohibit_self_approval :: bool
  ap_policy_digest :: string

definition policy_document :: "action_policy \<Rightarrow> json" where
  "policy_document p = JObj [(''tenant_id'', JStr (ap_tenant_id p)), (''policy_id'', JStr (ap_policy_id p)),
     (''revision'', JInt (int (ap_revision p))), (''role_revision'', JInt (int (ap_role_revision p))),
     (''quota_revision'', JInt (int (ap_quota_revision p))), (''enabled'', JBool (ap_enabled p)),
     (''allowed_action_types'', JList (map JStr (ap_allowed_action_types p))),
     (''allowed_target_fingerprints'', JList (map JStr (ap_allowed_target_fingerprints p))),
     (''allowed_namespaces'', JList (map JStr (ap_allowed_namespaces p))),
     (''maintenance_window_start'', JStr (isoformat_z (ap_maintenance_window_start p))),
     (''maintenance_window_end'', JStr (isoformat_z (ap_maintenance_window_end p))),
     (''max_risk'', JStr (risk_value (ap_max_risk p))),
     (''max_blast_radius'', JStr (blast_value (ap_max_blast_radius p))),
     (''remaining_effects'', JInt (int (ap_remaining_effects p))),
     (''high_risk_quorum'', JInt (int (ap_high_risk_quorum p))),
     (''normal_quorum'', JInt (int (ap_normal_quorum p))),
     (''approver_roles'', JList (map JStr (ap_approver_roles p))),
     (''prohibit_self_approval'', JBool (ap_prohibit_self_approval p)),
     (''require_accepted_critic'', JBool True)]"

definition valid_policy :: "runtime \<Rightarrow> action_policy \<Rightarrow> bool" where
  "valid_policy rt p \<longleftrightarrow>
     valid_identifier (ap_tenant_id p) \<and> valid_identifier (ap_policy_id p) \<and>
     1 \<le> ap_revision p \<and> 1 \<le> ap_role_revision p \<and> 1 \<le> ap_quota_revision p \<and>
     list_all valid_identifier (ap_allowed_action_types p) \<and>
     list_all hex64 (ap_allowed_target_fingerprints p) \<and> list_all valid_identifier (ap_allowed_namespaces p) \<and>
     2 \<le> ap_high_risk_quorum p \<and> ap_high_risk_quorum p \<le> 5 \<and>
     1 \<le> ap_normal_quorum p \<and> ap_normal_quorum p \<le> 5 \<and>
     1 \<le> length (ap_approver_roles p) \<and> length (ap_approver_roles p) \<le> 8 \<and>
     list_all valid_identifier (ap_approver_roles p) \<and> hex64 (ap_policy_digest p) \<and>
     ap_maintenance_window_start p < ap_maintenance_window_end p \<and>
     ap_policy_digest p = canonical_digest rt (policy_document p)"

definition snapshot :: "action_policy \<Rightarrow> policy_snapshot" where
  "snapshot p = \<lparr>ps_policy_id = ap_policy_id p, ps_revision = ap_revision p, ps_role_revision = ap_role_revision p,
     ps_quota_revision = ap_quota_revision p, ps_policy_digest = ap_policy_digest p\<rparr>"

section \<open>Approvals\<close>

record approval_requirement =
  rq_quorum :: nat
  rq_required_roles :: "string list"
  rq_prohibit_self_approval :: bool
  rq_rationale_min_length :: nat
  rq_rationale_max_length :: nat

record approval_request =
  ar_approval_id :: string
  ar_tenant_id :: string
  ar_plan_id :: string
  ar_run_id :: string
  ar_plan_digest :: string
  ar_action_digests :: "string list"
  ar_target_fingerprint :: string
  ar_policy_snapshot :: policy_snapshot
  ar_requirement :: approval_requirement
  ar_requested_by_ref :: string
  ar_requested_at :: datetime
  ar_expires_at :: datetime
  ar_canonical_digest :: string

definition requirement_json :: "approval_requirement \<Rightarrow> json" where
  "requirement_json r = JObj [(''quorum'', JInt (int (rq_quorum r))),
     (''required_roles'', JList (map JStr (rq_required_roles r))), (''distinct_approvers'', JBool True),
     (''prohibit_self_approval'', JBool (rq_prohibit_self_approval r)),
     (''rationale_min_length'', JInt (int (rq_rationale_min_length r))),
     (''rationale_max_length'', JInt (int (rq_rationale_max_length r)))]"

definition approval_document :: "approval_request \<Rightarrow> json" where
  "approval_document a = JObj [(''schema_version'', JInt 1), (''approval_id'', JStr (ar_approval_id a)),
     (''tenant_id'', JStr (ar_tenant_id a)), (''plan_id'', JStr (ar_plan_id a)), (''run_id'', JStr (ar_run_id a)),
     (''plan_digest'', JStr (ar_plan_digest a)),
     (''action_digests'', JList (map JStr (ar_action_digests a))),
     (''target_fingerprint'', JStr (ar_target_fingerprint a)),
     (''policy_snapshot'', snapshot_json (ar_policy_snapshot a)),
     (''requirement'', requirement_json (ar_requirement a)),
     (''requested_by_ref'', JStr (ar_requested_by_ref a)),
     (''requested_at'', JStr (isoformat_z (ar_requested_at a))),
     (''expires_at'', JStr (isoformat_z (ar_expires_at a)))]"

text \<open>The constructor called with the digest of the same material: only the expiry can be refused,
  because the material of a request comes from a valid plan and policy.\<close>

definition make_approval :: "runtime \<Rightarrow> approval_request \<Rightarrow> approval_request result" where
  "make_approval rt a =
     (if ar_expires_at a \<le> ar_requested_at a then Inl (ValidationError ''approval expiry must follow request'')
      else Inr (a\<lparr>ar_canonical_digest := canonical_digest rt (approval_document a)\<rparr>))"

record approval_decision =
  dc_decision_id :: string
  dc_command_id :: string
  dc_approval_id :: string
  dc_tenant_id :: string
  dc_disposition :: disposition
  dc_approver_ref :: string
  dc_approver_role :: string
  dc_plan_digest :: string
  dc_approval_digest :: string
  dc_policy_digest :: string
  dc_role_revision :: nat
  dc_rationale :: string
  dc_decided_at :: datetime
  dc_canonical_digest :: string

definition decision_document :: "approval_decision \<Rightarrow> json" where
  "decision_document d = JObj [(''schema_version'', JInt 1), (''decision_id'', JStr (dc_decision_id d)),
     (''command_id'', JStr (dc_command_id d)), (''approval_id'', JStr (dc_approval_id d)),
     (''tenant_id'', JStr (dc_tenant_id d)), (''disposition'', JStr (disposition_value (dc_disposition d))),
     (''approver_ref'', JStr (dc_approver_ref d)), (''approver_role'', JStr (dc_approver_role d)),
     (''purpose'', JStr ''incident-response''), (''plan_digest'', JStr (dc_plan_digest d)),
     (''approval_digest'', JStr (dc_approval_digest d)), (''policy_digest'', JStr (dc_policy_digest d)),
     (''role_revision'', JInt (int (dc_role_revision d))), (''rationale'', JStr (dc_rationale d)),
     (''decided_at'', JStr (isoformat_z (dc_decided_at d)))]"

definition make_decision :: "runtime \<Rightarrow> approval_decision \<Rightarrow> approval_decision result" where
  "make_decision rt d =
     (if \<not> valid_identifier (dc_command_id d) \<or> \<not> valid_identifier (dc_approver_role d) \<or>
         length (dc_rationale d) < 1 \<or> length (dc_rationale d) > 2000
      then Inl (ValidationError ''ApprovalDecision'')
      else Inr (d\<lparr>dc_canonical_digest := canonical_digest rt (decision_document d)\<rparr>))"

record approval_view =
  av_approval :: approval_request
  av_decisions :: "approval_decision list"
  av_status :: remediation_status
  av_version :: nat
  av_grants :: nat

section \<open>Effects\<close>

record action_intent =
  in_tenant_id :: string
  in_run_id :: string
  in_plan_id :: string
  in_action :: action_definition
  in_plan_digest :: string
  in_approval_digest :: string
  in_policy_digest :: string
  in_operation_id :: string
  in_attempt :: nat
  in_fence_token :: string
  in_requested_at :: datetime
  in_dry_run :: bool

record action_observation =
  ob_tenant_id :: string
  ob_plan_id :: string
  ob_action_id :: string
  ob_operation_id :: string
  ob_target_fingerprint :: string
  ob_state :: observation_state
  ob_facts :: "(string \<times> fact_value) list"
  ob_observed_at :: datetime
  ob_provider_receipt_ref :: "string option"
  ob_attempt_fence :: string

record action_receipt =
  re_tenant_id :: string
  re_plan_id :: string
  re_action_id :: string
  re_operation_id :: string
  re_idempotency_key :: string
  re_fence_token :: string
  re_attempt :: nat
  re_outcome :: effect_outcome
  re_provider_receipt_ref :: "string option"
  re_target_fingerprint :: string
  re_recorded_at :: datetime
  re_detail_code :: string
  re_canonical_digest :: string

definition receipt_document :: "action_receipt \<Rightarrow> json" where
  "receipt_document r = JObj [(''schema_version'', JInt 1), (''tenant_id'', JStr (re_tenant_id r)),
     (''plan_id'', JStr (re_plan_id r)), (''action_id'', JStr (re_action_id r)),
     (''operation_id'', JStr (re_operation_id r)), (''idempotency_key'', JStr (re_idempotency_key r)),
     (''fence_token'', JStr (re_fence_token r)), (''attempt'', JInt (int (re_attempt r))),
     (''outcome'', JStr (outcome_value (re_outcome r))),
     (''provider_receipt_ref'', opt_json (re_provider_receipt_ref r)),
     (''target_fingerprint'', JStr (re_target_fingerprint r)),
     (''recorded_at'', JStr (isoformat_z (re_recorded_at r))), (''detail_code'', JStr (re_detail_code r))]"

definition synthetic_receipt ::
  "runtime \<Rightarrow> action_intent \<Rightarrow> effect_outcome \<Rightarrow> string \<Rightarrow> datetime \<Rightarrow> string option \<Rightarrow> action_receipt" where
  "synthetic_receipt rt i outcome detail_code recorded_at provider_ref =
     (let r = \<lparr>re_tenant_id = in_tenant_id i, re_plan_id = in_plan_id i, re_action_id = ad_action_id (in_action i),
               re_operation_id = in_operation_id i, re_idempotency_key = ad_idempotency_key (in_action i),
               re_fence_token = in_fence_token i, re_attempt = in_attempt i, re_outcome = outcome,
               re_provider_receipt_ref = provider_ref,
               re_target_fingerprint = kt_resource_fingerprint (ad_target (in_action i)),
               re_recorded_at = recorded_at, re_detail_code = detail_code, re_canonical_digest = []\<rparr>
      in r\<lparr>re_canonical_digest := canonical_digest rt (receipt_document r)\<rparr>)"

definition observation_json :: "action_observation \<Rightarrow> json" where
  "observation_json b = JObj [(''schema_version'', JInt 1), (''tenant_id'', JStr (ob_tenant_id b)),
     (''plan_id'', JStr (ob_plan_id b)), (''action_id'', JStr (ob_action_id b)),
     (''operation_id'', JStr (ob_operation_id b)), (''target_fingerprint'', JStr (ob_target_fingerprint b)),
     (''state'', JStr (observation_value (ob_state b))),
     (''facts'', JObj (map (\<lambda>kv. (fst kv, fact_json (snd kv))) (ob_facts b))),
     (''observed_at'', JStr (isoformat_z (ob_observed_at b))),
     (''provider_receipt_ref'', opt_json (ob_provider_receipt_ref b)),
     (''attempt_fence'', JStr (ob_attempt_fence b))]"

record verification_record =
  vr_verification_id :: string
  vr_tenant_id :: string
  vr_plan_id :: string
  vr_action_id :: string
  vr_effect_receipt_digest :: string
  vr_fresh_evidence :: "citation list"
  vr_observation :: action_observation
  vr_postconditions_satisfied :: bool
  vr_verified_at :: datetime
  vr_canonical_digest :: string

definition verification_document :: "verification_record \<Rightarrow> json" where
  "verification_document v = JObj [(''schema_version'', JInt 1), (''verification_id'', JStr (vr_verification_id v)),
     (''tenant_id'', JStr (vr_tenant_id v)), (''plan_id'', JStr (vr_plan_id v)), (''action_id'', JStr (vr_action_id v)),
     (''effect_receipt_digest'', JStr (vr_effect_receipt_digest v)),
     (''fresh_evidence'', JList (map citation_json (vr_fresh_evidence v))),
     (''observation'', observation_json (vr_observation v)),
     (''postconditions_satisfied'', JBool (vr_postconditions_satisfied v)),
     (''verified_at'', JStr (isoformat_z (vr_verified_at v)))]"

definition make_verification :: "runtime \<Rightarrow> verification_record \<Rightarrow> verification_record result" where
  "make_verification rt v =
     (if length (vr_fresh_evidence v) < 1 \<or> length (vr_fresh_evidence v) > 32
      then Inl (ValidationError ''VerificationRecord'')
      else Inr (v\<lparr>vr_canonical_digest := canonical_digest rt (verification_document v)\<rparr>))"

end
