(* ===== verification/Remediation_Ledger.thy ===== *)
theory Remediation_Ledger
  imports Remediation_Data Ledger_Tamper Ledger_Progress
begin

text \<open>
  The append-only fact ledger of \<^verbatim>\<open>remediation.py\<close>: facts, their hashed material, the pure
  projection \<open>reduce_remediation\<close> with its transition table, and \<open>InMemoryRemediationLedger\<close>.
  The reducer is an instance of the projection machine and the facts of a plan are a hash
  chain; the invariant says that the stored projection is the replay of the stored facts.
\<close>

section \<open>Facts and projections\<close>

datatype fact_type =
    Fact_PROPOSAL_RECORDED | Fact_POLICY_DECIDED | Fact_APPROVAL_REQUESTED | Fact_APPROVAL_GRANTED
  | Fact_APPROVAL_DENIED | Fact_APPROVAL_EXPIRED | Fact_APPROVAL_REVOKED | Fact_PREFLIGHT_REQUESTED
  | Fact_DRY_RUN_SUCCEEDED | Fact_EXECUTION_REQUESTED | Fact_EXECUTION_STARTED | Fact_EXECUTION_SUCCEEDED
  | Fact_EXECUTION_FAILED | Fact_EXECUTION_AMBIGUOUS | Fact_RECONCILIATION_STARTED
  | Fact_RECONCILIATION_RESOLVED | Fact_ROLLBACK_REQUESTED | Fact_ROLLBACK_SUCCEEDED | Fact_ROLLBACK_FAILED
  | Fact_CANCELLATION_REQUESTED | Fact_CANCELLED | Fact_VERIFICATION_REQUESTED | Fact_VERIFIED
  | Fact_VERIFICATION_FAILED | Fact_ESCALATED

fun fact_type_value :: "fact_type \<Rightarrow> string" where
  "fact_type_value Fact_PROPOSAL_RECORDED = ''remediation.proposal_recorded''"
| "fact_type_value Fact_POLICY_DECIDED = ''remediation.policy_decided''"
| "fact_type_value Fact_APPROVAL_REQUESTED = ''remediation.approval_requested''"
| "fact_type_value Fact_APPROVAL_GRANTED = ''remediation.approval_granted''"
| "fact_type_value Fact_APPROVAL_DENIED = ''remediation.approval_denied''"
| "fact_type_value Fact_APPROVAL_EXPIRED = ''remediation.approval_expired''"
| "fact_type_value Fact_APPROVAL_REVOKED = ''remediation.approval_revoked''"
| "fact_type_value Fact_PREFLIGHT_REQUESTED = ''remediation.preflight_requested''"
| "fact_type_value Fact_DRY_RUN_SUCCEEDED = ''remediation.dry_run_succeeded''"
| "fact_type_value Fact_EXECUTION_REQUESTED = ''remediation.execution_requested''"
| "fact_type_value Fact_EXECUTION_STARTED = ''remediation.execution_started''"
| "fact_type_value Fact_EXECUTION_SUCCEEDED = ''remediation.execution_succeeded''"
| "fact_type_value Fact_EXECUTION_FAILED = ''remediation.execution_failed''"
| "fact_type_value Fact_EXECUTION_AMBIGUOUS = ''remediation.execution_ambiguous''"
| "fact_type_value Fact_RECONCILIATION_STARTED = ''remediation.reconciliation_started''"
| "fact_type_value Fact_RECONCILIATION_RESOLVED = ''remediation.reconciliation_resolved''"
| "fact_type_value Fact_ROLLBACK_REQUESTED = ''remediation.rollback_requested''"
| "fact_type_value Fact_ROLLBACK_SUCCEEDED = ''remediation.rollback_succeeded''"
| "fact_type_value Fact_ROLLBACK_FAILED = ''remediation.rollback_failed''"
| "fact_type_value Fact_CANCELLATION_REQUESTED = ''remediation.cancellation_requested''"
| "fact_type_value Fact_CANCELLED = ''remediation.cancelled''"
| "fact_type_value Fact_VERIFICATION_REQUESTED = ''remediation.verification_requested''"
| "fact_type_value Fact_VERIFIED = ''remediation.verified''"
| "fact_type_value Fact_VERIFICATION_FAILED = ''remediation.verification_failed''"
| "fact_type_value Fact_ESCALATED = ''remediation.escalated''"

record remediation_fact =
  rf_tenant_id :: string
  rf_plan_id :: string
  rf_sequence :: nat
  rf_fact_id :: string
  rf_fact_type :: fact_type
  rf_command_id :: string
  rf_actor_ref :: string
  rf_recorded_at :: datetime
  rf_payload :: dict
  rf_previous_digest :: string
  rf_canonical_digest :: string

record remediation_projection =
  rj_tenant_id :: string
  rj_plan_id :: string
  rj_run_id :: string
  rj_status :: remediation_status
  rj_version :: nat
  rj_plan_digest :: string
  rj_approval_id :: "string option"
  rj_approval_digest :: "string option"
  rj_effect_receipt_digest :: "string option"
  rj_verification_digest :: "string option"
  rj_fence_token :: string
  rj_last_fact_digest :: string
  rj_updated_at :: datetime

definition valid_fact :: "remediation_fact \<Rightarrow> bool" where
  "valid_fact f \<longleftrightarrow>
     valid_identifier (rf_tenant_id f) \<and> valid_identifier (rf_plan_id f) \<and> 1 \<le> rf_sequence f \<and>
     valid_identifier (rf_fact_id f) \<and> valid_identifier (rf_command_id f) \<and>
     valid_identifier (rf_actor_ref f) \<and> length (rf_payload f) \<le> 32 \<and>
     hex64 (rf_previous_digest f) \<and> hex64 (rf_canonical_digest f)"

definition valid_projection :: "remediation_projection \<Rightarrow> bool" where
  "valid_projection p \<longleftrightarrow>
     valid_identifier (rj_tenant_id p) \<and> valid_identifier (rj_plan_id p) \<and> valid_identifier (rj_run_id p) \<and>
     1 \<le> rj_version p \<and> hex64 (rj_plan_digest p) \<and> valid_identifier (rj_fence_token p) \<and>
     hex64 (rj_last_fact_digest p)"

section \<open>Text of a payload value\<close>

text \<open>\<^verbatim>\<open>str(v)\<close> of a JSON value: a string is itself, a container is written with the \<^verbatim>\<open>repr\<close>
  of its members.\<close>

definition repr_char :: "char \<Rightarrow> char \<Rightarrow> string" where
  "repr_char q c =
     (if c = q \<or> c = CHR 0x5C then [CHR 0x5C, c]
      else if c = CHR 0x0A then [CHR 0x5C, CHR ''n'']
      else if c = CHR 0x0D then [CHR 0x5C, CHR ''r'']
      else if c = CHR 0x09 then [CHR 0x5C, CHR ''t'']
      else if (of_char c :: nat) < 32 \<or> (127 \<le> (of_char c :: nat) \<and> (of_char c :: nat) \<le> 160) \<or> c = CHR 0xAD
        then [CHR 0x5C, CHR ''x'', hex_digit (of_char c div 16), hex_digit (of_char c mod 16)]
      else [c])"

definition repr_str :: "string \<Rightarrow> string" where
  "repr_str s =
     (let q = (if CHR 0x27 \<in> set s \<and> CHR 0x22 \<notin> set s then CHR 0x22 else CHR 0x27)
      in q # concat (map (repr_char q) s) @ [q])"

fun py_repr :: "runtime \<Rightarrow> json \<Rightarrow> string" where
  "py_repr rt JNull = ''None''"
| "py_repr rt (JBool b) = (if b then ''True'' else ''False'')"
| "py_repr rt (JInt i) = int_str i"
| "py_repr rt (JFloat f) = float_repr rt f"
| "py_repr rt (JStr s) = repr_str s"
| "py_repr rt (JList xs) = ''['' @ join '', '' (map (py_repr rt) xs) @ '']''"
| "py_repr rt (JObj kvs) =
     ''{'' @ join '', '' (map (\<lambda>kv. repr_str (fst kv) @ '': '' @ py_repr rt (snd kv)) kvs) @ ''}''"

fun value_text :: "runtime \<Rightarrow> json \<Rightarrow> string" where
  "value_text rt (JStr s) = s"
| "value_text rt v = py_repr rt v"

section \<open>The state machine\<close>

fun status_by_fact :: "fact_type \<Rightarrow> remediation_status" where
  "status_by_fact Fact_PROPOSAL_RECORDED = Rem_PROPOSED"
| "status_by_fact Fact_POLICY_DECIDED = Rem_PROPOSED"
| "status_by_fact Fact_APPROVAL_REQUESTED = Rem_APPROVAL_PENDING"
| "status_by_fact Fact_APPROVAL_GRANTED = Rem_APPROVED"
| "status_by_fact Fact_APPROVAL_DENIED = Rem_DENIED"
| "status_by_fact Fact_APPROVAL_EXPIRED = Rem_EXPIRED"
| "status_by_fact Fact_APPROVAL_REVOKED = Rem_REVOKED"
| "status_by_fact Fact_PREFLIGHT_REQUESTED = Rem_PREFLIGHT"
| "status_by_fact Fact_DRY_RUN_SUCCEEDED = Rem_PREFLIGHT"
| "status_by_fact Fact_EXECUTION_REQUESTED = Rem_EXECUTING"
| "status_by_fact Fact_EXECUTION_STARTED = Rem_EXECUTING"
| "status_by_fact Fact_EXECUTION_SUCCEEDED = Rem_SUCCEEDED"
| "status_by_fact Fact_EXECUTION_FAILED = Rem_FAILED"
| "status_by_fact Fact_EXECUTION_AMBIGUOUS = Rem_AMBIGUOUS"
| "status_by_fact Fact_RECONCILIATION_STARTED = Rem_RECONCILING"
| "status_by_fact Fact_RECONCILIATION_RESOLVED = Rem_SUCCEEDED"
| "status_by_fact Fact_ROLLBACK_REQUESTED = Rem_ROLLING_BACK"
| "status_by_fact Fact_ROLLBACK_SUCCEEDED = Rem_ROLLED_BACK"
| "status_by_fact Fact_ROLLBACK_FAILED = Rem_ESCALATED"
| "status_by_fact Fact_CANCELLATION_REQUESTED = Rem_CANCELLED"
| "status_by_fact Fact_CANCELLED = Rem_CANCELLED"
| "status_by_fact Fact_VERIFICATION_REQUESTED = Rem_SUCCEEDED"
| "status_by_fact Fact_VERIFIED = Rem_VERIFIED"
| "status_by_fact Fact_VERIFICATION_FAILED = Rem_VERIFICATION_FAILED"
| "status_by_fact Fact_ESCALATED = Rem_ESCALATED"

definition rem_terminal :: "remediation_status list" where
  "rem_terminal = [Rem_DENIED, Rem_EXPIRED, Rem_REVOKED, Rem_ROLLED_BACK, Rem_CANCELLED, Rem_VERIFIED, Rem_ESCALATED]"

fun rem_allowed :: "remediation_status \<Rightarrow> remediation_status list" where
  "rem_allowed Rem_PROPOSED = [Rem_PROPOSED, Rem_APPROVAL_PENDING]"
| "rem_allowed Rem_APPROVAL_PENDING =
     [Rem_APPROVAL_PENDING, Rem_APPROVED, Rem_DENIED, Rem_EXPIRED, Rem_REVOKED, Rem_CANCELLED]"
| "rem_allowed Rem_APPROVED = [Rem_PREFLIGHT, Rem_REVOKED, Rem_CANCELLED]"
| "rem_allowed Rem_PREFLIGHT = [Rem_PREFLIGHT, Rem_EXECUTING, Rem_FAILED, Rem_CANCELLED]"
| "rem_allowed Rem_EXECUTING = [Rem_EXECUTING, Rem_SUCCEEDED, Rem_FAILED, Rem_AMBIGUOUS, Rem_CANCELLED]"
| "rem_allowed Rem_SUCCEEDED = [Rem_SUCCEEDED, Rem_VERIFIED, Rem_VERIFICATION_FAILED, Rem_ROLLING_BACK]"
| "rem_allowed Rem_FAILED = [Rem_ROLLING_BACK, Rem_ESCALATED]"
| "rem_allowed Rem_AMBIGUOUS = [Rem_RECONCILING, Rem_ESCALATED]"
| "rem_allowed Rem_RECONCILING = [Rem_SUCCEEDED, Rem_FAILED, Rem_ESCALATED]"
| "rem_allowed Rem_ROLLING_BACK = [Rem_ROLLED_BACK, Rem_ESCALATED]"
| "rem_allowed Rem_VERIFICATION_FAILED = [Rem_ROLLING_BACK, Rem_ESCALATED]"
| "rem_allowed _ = []"

definition validate_transition :: "remediation_status \<Rightarrow> remediation_status \<Rightarrow> unit result" where
  "validate_transition previous current =
     bindE (guardE (previous \<notin> set rem_terminal) (IntegrityFailure ''terminal remediation state cannot advance''))
       (\<lambda>_. guardE (current \<in> set (rem_allowed previous))
          (IntegrityFailure (''illegal remediation transition '' @ rem_status_value previous @ ''->'' @ rem_status_value current)))"

definition fact_key :: "dict \<Rightarrow> string \<Rightarrow> error \<Rightarrow> json result" where
  "fact_key payload k e = (case map_of payload k of None \<Rightarrow> Inl e | Some v \<Rightarrow> Inr v)"

text \<open>A projection built from the first fact: \<open>KeyError\<close> of a missing field becomes an
  \<open>IntegrityFailure\<close>, and the constructor validates the values.\<close>

definition first_projection :: "runtime \<Rightarrow> remediation_fact \<Rightarrow> remediation_projection result" where
  "first_projection rt f =
     (let missing = IntegrityFailure ''proposal fact is incomplete'' in
      bindE (fact_key (rf_payload f) ''run_id'' missing) (\<lambda>run_id.
      bindE (fact_key (rf_payload f) ''plan_digest'' missing) (\<lambda>plan_digest.
      bindE (fact_key (rf_payload f) ''fence_token'' missing) (\<lambda>fence.
      let p = \<lparr>rj_tenant_id = rf_tenant_id f, rj_plan_id = rf_plan_id f, rj_run_id = value_text rt run_id,
               rj_status = status_by_fact (rf_fact_type f), rj_version = 1, rj_plan_digest = value_text rt plan_digest,
               rj_approval_id = None, rj_approval_digest = None, rj_effect_receipt_digest = None,
               rj_verification_digest = None, rj_fence_token = value_text rt fence,
               rj_last_fact_digest = rf_canonical_digest f, rj_updated_at = rf_recorded_at f\<rparr>
      in if valid_projection p then Inr p else Inl (ValidationError ''RemediationProjection'')))))"

definition text_field :: "dict \<Rightarrow> string \<Rightarrow> string option \<Rightarrow> string option" where
  "text_field payload k old = (case map_of payload k of Some (JStr s) \<Rightarrow> Some s | _ \<Rightarrow> old)"

definition next_projection :: "runtime \<Rightarrow> remediation_projection \<Rightarrow> remediation_fact \<Rightarrow> remediation_projection result" where
  "next_projection rt p f =
     (let t = rf_fact_type f;
          q = p\<lparr>rj_status := status_by_fact t, rj_version := rf_sequence f,
                rj_last_fact_digest := rf_canonical_digest f, rj_updated_at := rf_recorded_at f\<rparr>
      in if t = Fact_APPROVAL_REQUESTED then
           bindE (fact_key (rf_payload f) ''approval_id'' (KeyError ''approval_id'')) (\<lambda>approval_id.
           bindE (fact_key (rf_payload f) ''approval_digest'' (KeyError ''approval_digest'')) (\<lambda>approval_digest.
           Inr (q\<lparr>rj_approval_id := Some (value_text rt approval_id),
                  rj_approval_digest := Some (value_text rt approval_digest)\<rparr>)))
         else if t \<in> {Fact_EXECUTION_SUCCEEDED, Fact_RECONCILIATION_RESOLVED, Fact_ROLLBACK_SUCCEEDED} then
           Inr (q\<lparr>rj_effect_receipt_digest :=
                    text_field (rf_payload f) ''effect_receipt_digest'' (rj_effect_receipt_digest p)\<rparr>)
         else if t \<in> {Fact_VERIFIED, Fact_VERIFICATION_FAILED} then
           Inr (q\<lparr>rj_verification_digest :=
                    text_field (rf_payload f) ''verification_digest'' (rj_verification_digest p)\<rparr>)
         else Inr q)"

definition reduce_remediation ::
  "runtime \<Rightarrow> remediation_projection option \<Rightarrow> remediation_fact \<Rightarrow> remediation_projection result" where
  "reduce_remediation rt current f =
     (case current of
        None \<Rightarrow>
          bindE (guardE (rf_fact_type f = Fact_PROPOSAL_RECORDED)
                  (IntegrityFailure ''remediation replay must start with proposal''))
            (\<lambda>_. first_projection rt f)
      | Some p \<Rightarrow>
          bindE (guardE (rf_sequence f = rj_version p + 1)
                  (IntegrityFailure ''remediation replay sequence is not contiguous'')) (\<lambda>_.
          bindE (guardE (rf_previous_digest f = rj_last_fact_digest p)
                  (IntegrityFailure ''remediation fact chain is invalid'')) (\<lambda>_.
          bindE (validate_transition (rj_status p) (status_by_fact (rf_fact_type f))) (\<lambda>_.
          next_projection rt p f))))"

section \<open>The ledger\<close>

record remediation_ledger =
  rl_facts :: "string \<times> string \<rightharpoonup> remediation_fact list"
  rl_commands :: "string \<times> string \<rightharpoonup> string \<times> string"
  rl_projections :: "string \<times> string \<rightharpoonup> remediation_projection"

definition empty_remediation_ledger :: remediation_ledger where
  "empty_remediation_ledger = \<lparr>rl_facts = Map.empty, rl_commands = Map.empty, rl_projections = Map.empty\<rparr>"

definition max_facts :: nat where
  "max_facts = 500"

definition fact_document :: "remediation_fact \<Rightarrow> json" where
  "fact_document f = JObj
     [(''actor_ref'', JStr (rf_actor_ref f)), (''command_id'', JStr (rf_command_id f)),
      (''fact_id'', JStr (rf_fact_id f)), (''fact_type'', JStr (fact_type_value (rf_fact_type f))),
      (''payload'', JObj (rf_payload f)), (''plan_id'', JStr (rf_plan_id f)),
      (''previous_digest'', JStr (rf_previous_digest f)), (''recorded_at'', JStr (isoformat (rf_recorded_at f))),
      (''schema_version'', JInt 1), (''sequence'', JInt (int (rf_sequence f))),
      (''tenant_id'', JStr (rf_tenant_id f))]"

definition command_fingerprint :: "runtime \<Rightarrow> fact_type \<Rightarrow> dict \<Rightarrow> string" where
  "command_fingerprint rt t payload =
     canonical_digest rt (JObj [(''fact_type'', JStr (fact_type_value t)), (''payload'', JObj payload)])"

definition last_digest :: "remediation_fact list \<Rightarrow> string" where
  "last_digest fs = (if fs = [] then zero_hash else rf_canonical_digest (last fs))"

definition make_fact ::
  "runtime \<Rightarrow> string \<Rightarrow> string \<Rightarrow> remediation_fact list \<Rightarrow> fact_type \<Rightarrow> string \<Rightarrow> string \<Rightarrow> datetime \<Rightarrow> dict \<Rightarrow>
   remediation_fact" where
  "make_fact rt tenant_id plan_id fs t command_id actor recorded_at payload =
     (let sequence = length fs + 1;
          f = \<lparr>rf_tenant_id = tenant_id, rf_plan_id = plan_id, rf_sequence = sequence,
               rf_fact_id = stable_id rt ''remediation-fact'' [tenant_id, plan_id, nat_str sequence, command_id] 32,
               rf_fact_type = t, rf_command_id = command_id, rf_actor_ref = actor,
               rf_recorded_at = recorded_at, rf_payload = dict_sorted payload,
               rf_previous_digest = last_digest fs, rf_canonical_digest = []\<rparr>
      in f\<lparr>rf_canonical_digest := canonical_digest rt (fact_document f)\<rparr>)"

definition plan_facts :: "remediation_ledger \<Rightarrow> string \<Rightarrow> string \<Rightarrow> remediation_fact list" where
  "plan_facts l tenant_id plan_id = get_default (rl_facts l) (tenant_id, plan_id) []"

definition append_fact ::
  "runtime \<Rightarrow> string \<Rightarrow> string \<Rightarrow> nat \<Rightarrow> fact_type \<Rightarrow> string \<Rightarrow> string \<Rightarrow> datetime \<Rightarrow> dict \<Rightarrow>
   (remediation_ledger, remediation_projection) op" where
  "append_fact rt tenant_id plan_id expected_version t command_id actor recorded_at payload l =
     (let key = (tenant_id, plan_id);
          fingerprint = command_fingerprint rt t payload
      in case rl_commands l (tenant_id, command_id) of
           Some command \<Rightarrow>
             if command \<noteq> (plan_id, fingerprint)
             then (Inl (IdempotencyConflict ''command id was replayed with different remediation input''), l)
             else (case rl_projections l key of
                     None \<Rightarrow> (Inl (KeyError ''projection''), l)
                   | Some p \<Rightarrow> (Inr p, l))
         | None \<Rightarrow>
             (let fs = plan_facts l tenant_id plan_id;
                  l1 = l\<lparr>rl_facts := (rl_facts l)(key \<mapsto> fs)\<rparr>
              in if max_facts \<le> length fs then (Inl (IntegrityFailure ''remediation fact bound exceeded''), l1)
                 else if length fs \<noteq> expected_version
                 then (Inl (ConcurrencyConflict ''remediation aggregate version changed''), l1)
                 else (let f = make_fact rt tenant_id plan_id fs t command_id actor recorded_at payload
                       in if \<not> valid_fact f then (Inl (ValidationError ''RemediationFact''), l1)
                          else (case reduce_remediation rt (rl_projections l key) f of
                                  Inl e \<Rightarrow> (Inl e, l1)
                                | Inr p \<Rightarrow>
                                    (Inr p, l1\<lparr>rl_facts := (rl_facts l1)(key \<mapsto> fs @ [f]),
                                              rl_commands := (rl_commands l)((tenant_id, command_id) \<mapsto> (plan_id, fingerprint)),
                                              rl_projections := (rl_projections l)(key \<mapsto> p)\<rparr>)))))"

definition ledger_projection :: "remediation_ledger \<Rightarrow> string \<Rightarrow> string \<Rightarrow> remediation_projection option" where
  "ledger_projection l tenant_id plan_id = rl_projections l (tenant_id, plan_id)"

fun replay_facts :: "runtime \<Rightarrow> remediation_fact list \<Rightarrow> remediation_projection option \<Rightarrow>
   remediation_projection option result" where
  "replay_facts rt [] c = Inr c"
| "replay_facts rt (f # fs) c = bindE (reduce_remediation rt c f) (\<lambda>p. replay_facts rt fs (Some p))"

definition rebuild :: "runtime \<Rightarrow> remediation_ledger \<Rightarrow> string \<Rightarrow> string \<Rightarrow> remediation_projection result" where
  "rebuild rt l tenant_id plan_id =
     bindE (replay_facts rt (plan_facts l tenant_id plan_id) None) (\<lambda>c.
       case c of None \<Rightarrow> Inl (IntegrityFailure ''cannot rebuild an unknown remediation plan'') | Some p \<Rightarrow> Inr p)"

end
