(* ===== verification/Remediation_Stores.thy ===== *)
theory Remediation_Stores
  imports Remediation_Data
begin

text \<open>
  The stores that the remediation services share: the control store of plans, approvals,
  decisions and verifications, the effect claims with their attempts and fences, the effect
  quota and the action policies. Each method holds its lock for its whole body, so one
  application is one atomic step.
\<close>

section \<open>Control store\<close>

record control_store =
  cs_plans :: "string \<times> string \<rightharpoonup> remediation_plan"
  cs_approvals :: "string \<times> string \<rightharpoonup> approval_request"
  cs_decisions :: "string \<times> string \<rightharpoonup> approval_decision list"
  cs_decision_commands :: "string \<times> string \<rightharpoonup> string"
  cs_verifications :: "string \<times> string \<rightharpoonup> verification_record"

definition empty_control_store :: control_store where
  "empty_control_store = \<lparr>cs_plans = Map.empty, cs_approvals = Map.empty, cs_decisions = Map.empty,
     cs_decision_commands = Map.empty, cs_verifications = Map.empty\<rparr>"

definition put_plan :: "remediation_plan \<Rightarrow> (control_store, unit) op" where
  "put_plan p s =
     (let key = (rp_tenant_id p, rp_plan_id p) in
      case cs_plans s key of
        Some existing \<Rightarrow>
          if rp_plan_digest existing \<noteq> rp_plan_digest p
          then (Inl (IdempotencyConflict ''plan id was reused with different content''), s)
          else (Inr (), s\<lparr>cs_plans := (cs_plans s)(key \<mapsto> p)\<rparr>)
      | None \<Rightarrow> (Inr (), s\<lparr>cs_plans := (cs_plans s)(key \<mapsto> p)\<rparr>))"

definition plan_lookup :: "control_store \<Rightarrow> string \<Rightarrow> string \<Rightarrow> remediation_plan option" where
  "plan_lookup s tenant_id plan_id = cs_plans s (tenant_id, plan_id)"

definition put_approval :: "approval_request \<Rightarrow> (control_store, unit) op" where
  "put_approval a s =
     (let key = (ar_tenant_id a, ar_approval_id a) in
      case cs_approvals s key of
        Some existing \<Rightarrow>
          if ar_canonical_digest existing \<noteq> ar_canonical_digest a
          then (Inl (IdempotencyConflict ''approval id was reused with different exact scope''), s)
          else (Inr (), s\<lparr>cs_approvals := (cs_approvals s)(key \<mapsto> a)\<rparr>)
      | None \<Rightarrow> (Inr (), s\<lparr>cs_approvals := (cs_approvals s)(key \<mapsto> a)\<rparr>))"

definition approval_lookup :: "control_store \<Rightarrow> string \<Rightarrow> string \<Rightarrow> approval_request option" where
  "approval_lookup s tenant_id approval_id = cs_approvals s (tenant_id, approval_id)"

definition decisions :: "control_store \<Rightarrow> string \<Rightarrow> string \<Rightarrow> approval_decision list" where
  "decisions s tenant_id approval_id = get_default (cs_decisions s) (tenant_id, approval_id) []"

text \<open>\<open>setdefault\<close> leaves an empty list behind when the approver is refused.\<close>

definition add_decision :: "approval_decision \<Rightarrow> (control_store, unit) op" where
  "add_decision d s =
     (case cs_decision_commands s (dc_tenant_id d, dc_command_id d) of
        Some existing \<Rightarrow>
          if existing \<noteq> dc_canonical_digest d
          then (Inl (IdempotencyConflict ''approval command replay changed immutable decision''), s)
          else (Inr (), s)
      | None \<Rightarrow>
          (let key = (dc_tenant_id d, dc_approval_id d);
               ds = decisions s (dc_tenant_id d) (dc_approval_id d)
           in if \<exists>item \<in> set ds. dc_approver_ref item = dc_approver_ref d
              then (Inl (IdempotencyConflict ''approver already decided this approval''),
                    s\<lparr>cs_decisions := (cs_decisions s)(key \<mapsto> ds)\<rparr>)
              else (Inr (), s\<lparr>cs_decisions := (cs_decisions s)(key \<mapsto> ds @ [d]),
                              cs_decision_commands :=
                                (cs_decision_commands s)((dc_tenant_id d, dc_command_id d) \<mapsto> dc_canonical_digest d)\<rparr>)))"

definition put_verification :: "verification_record \<Rightarrow> (control_store, unit) op" where
  "put_verification v s =
     (let key = (vr_tenant_id v, vr_verification_id v) in
      case cs_verifications s key of
        Some existing \<Rightarrow>
          if vr_canonical_digest existing \<noteq> vr_canonical_digest v
          then (Inl (IdempotencyConflict ''verification replay changed''), s)
          else (Inr (), s\<lparr>cs_verifications := (cs_verifications s)(key \<mapsto> v)\<rparr>)
      | None \<Rightarrow> (Inr (), s\<lparr>cs_verifications := (cs_verifications s)(key \<mapsto> v)\<rparr>))"

definition verification_lookup :: "control_store \<Rightarrow> string \<Rightarrow> string \<Rightarrow> verification_record option" where
  "verification_lookup s tenant_id verification_id = cs_verifications s (tenant_id, verification_id)"

section \<open>Effect claims\<close>

record effect_claim =
  ec_action_digest :: string
  ec_plan_digest :: string
  ec_approval_digest :: string
  ec_policy_digest :: string
  ec_target_fingerprint :: string
  ec_fence_token :: string
  ec_attempt :: nat
  ec_claim_token :: string
  ec_claim_until :: datetime
  ec_receipt :: "action_receipt option"

record effect_claim_record =
  cr_claim_token :: string
  cr_fence_token :: string
  cr_attempt :: nat
  cr_replayed :: bool
  cr_receipt :: "action_receipt option"

type_synonym effect_claims = "string \<times> string \<rightharpoonup> effect_claim"

definition effect_claim_token :: "runtime \<Rightarrow> action_intent \<Rightarrow> string \<Rightarrow> string" where
  "effect_claim_token rt i worker_ref = stable_id rt ''effect-claim''
     [in_tenant_id i, in_operation_id i, worker_ref, nat_str (in_attempt i), in_fence_token i] 40"

definition intent_binding :: "action_intent \<Rightarrow> string list" where
  "intent_binding i = [ad_canonical_digest (in_action i), in_plan_digest i, in_approval_digest i, in_policy_digest i,
     kt_resource_fingerprint (ad_target (in_action i)), in_fence_token i]"

definition claim_binding :: "effect_claim \<Rightarrow> string list" where
  "claim_binding c = [ec_action_digest c, ec_plan_digest c, ec_approval_digest c, ec_policy_digest c,
     ec_target_fingerprint c, ec_fence_token c]"

definition claim_answer :: "effect_claim \<Rightarrow> effect_claim_record" where
  "claim_answer c = \<lparr>cr_claim_token = ec_claim_token c, cr_fence_token = ec_fence_token c,
     cr_attempt = ec_attempt c, cr_replayed = True, cr_receipt = ec_receipt c\<rparr>"

definition claim_effect ::
  "runtime \<Rightarrow> action_intent \<Rightarrow> string \<Rightarrow> datetime \<Rightarrow> datetime \<Rightarrow> (effect_claims, effect_claim_record) op" where
  "claim_effect rt i worker_ref now claim_until s =
     (if claim_until \<le> now then (Inl (ValueError ''effect claim expiry must follow claim time''), s)
      else
        (let key = (in_tenant_id i, in_operation_id i);
             token = effect_claim_token rt i worker_ref
         in case s key of
              Some existing \<Rightarrow>
                if claim_binding existing \<noteq> intent_binding i
                then (Inl (EffectConflict ''effect claim exact binding changed''), s)
                else if ec_receipt existing = None \<and> ec_claim_until existing > now \<and> ec_claim_token existing \<noteq> token
                then (Inl (ConcurrencyConflict ''effect attempt is actively claimed''), s)
                else if ec_receipt existing = None \<and> ec_claim_until existing \<le> now then
                  (if in_attempt i \<le> ec_attempt existing
                   then (Inl (ConcurrencyConflict ''effect retry attempt did not advance''), s)
                   else (let c = existing\<lparr>ec_attempt := in_attempt i, ec_claim_token := token,
                                          ec_claim_until := claim_until\<rparr>
                         in (Inr (claim_answer c), s(key \<mapsto> c))))
                else (Inr (claim_answer existing), s)
            | None \<Rightarrow>
                (Inr \<lparr>cr_claim_token = token, cr_fence_token = in_fence_token i, cr_attempt = in_attempt i,
                      cr_replayed = False, cr_receipt = None\<rparr>,
                 s(key \<mapsto> \<lparr>ec_action_digest = ad_canonical_digest (in_action i), ec_plan_digest = in_plan_digest i,
                    ec_approval_digest = in_approval_digest i, ec_policy_digest = in_policy_digest i,
                    ec_target_fingerprint = kt_resource_fingerprint (ad_target (in_action i)),
                    ec_fence_token = in_fence_token i, ec_attempt = in_attempt i, ec_claim_token = token,
                    ec_claim_until = claim_until, ec_receipt = None\<rparr>))))"

definition complete_effect :: "action_receipt \<Rightarrow> string \<Rightarrow> (effect_claims, unit) op" where
  "complete_effect r token s =
     (let key = (re_tenant_id r, re_operation_id r);
          stale = (Inl (ConcurrencyConflict ''stale effect claim completion rejected''), s)
      in case s key of
           None \<Rightarrow> stale
         | Some existing \<Rightarrow>
             if ec_claim_token existing \<noteq> token \<or> ec_fence_token existing \<noteq> re_fence_token r \<or>
                ec_attempt existing \<noteq> re_attempt r then stale
             else (case ec_receipt existing of
                     Some old \<Rightarrow>
                       if re_canonical_digest old \<noteq> re_canonical_digest r
                       then (Inl (IdempotencyConflict ''effect claim receipt changed''), s) else (Inr (), s)
                   | None \<Rightarrow> (Inr (), s(key \<mapsto> existing\<lparr>ec_receipt := Some r\<rparr>))))"

section \<open>Effect quota\<close>

record quota_decision =
  qd_allowed :: bool
  qd_reservation_id :: string
  qd_units :: int
  qd_reason :: string

record effect_quota =
  eq_remaining :: "string \<rightharpoonup> int"
  eq_reservations :: "string \<times> string \<rightharpoonup> quota_decision"

definition make_quota :: "(string \<rightharpoonup> int) \<Rightarrow> effect_quota" where
  "make_quota limits = \<lparr>eq_remaining = limits, eq_reservations = Map.empty\<rparr>"

text \<open>\<open>plan_id\<close>, \<open>policy_digest\<close> and \<open>requested_at\<close> are deleted by the code before use.\<close>

definition reserve :: "string \<Rightarrow> string \<Rightarrow> int \<Rightarrow> (effect_quota, quota_decision) op" where
  "reserve tenant_id reservation_id units s =
     (if units < 1 then (Inl (ValueError ''effect quota units must be positive''), s)
      else case eq_reservations s (tenant_id, reservation_id) of
        Some existing \<Rightarrow> (Inr existing, s)
      | None \<Rightarrow>
          (let remaining = get_default (eq_remaining s) tenant_id 0;
               allowed = (units \<le> remaining);
               d = \<lparr>qd_allowed = allowed, qd_reservation_id = reservation_id, qd_units = units,
                    qd_reason = (if allowed then ''reserved'' else ''effect_quota_exhausted'')\<rparr>
           in if \<not> valid_identifier reservation_id then (Inl (ValidationError ''EffectQuotaDecision''), s)
              else (Inr d, s\<lparr>eq_reservations := (eq_reservations s)((tenant_id, reservation_id) \<mapsto> d),
                             eq_remaining := (if allowed then (eq_remaining s)(tenant_id \<mapsto> remaining - units)
                                              else eq_remaining s)\<rparr>)))"

section \<open>Action policies\<close>

type_synonym action_policies = "string \<rightharpoonup> action_policy"

definition current_policy :: "action_policies \<Rightarrow> string \<Rightarrow> action_policy option" where
  "current_policy s tenant_id = s tenant_id"

definition replace_policy :: "action_policy \<Rightarrow> (action_policies, unit) op" where
  "replace_policy p s =
     (case s (ap_tenant_id p) of
        Some current \<Rightarrow>
          if ap_revision p \<le> ap_revision current
          then (Inl (ConcurrencyConflict ''action policy revision did not advance''), s)
          else (Inr (), s(ap_tenant_id p \<mapsto> p))
      | None \<Rightarrow> (Inr (), s(ap_tenant_id p \<mapsto> p)))"

section \<open>Write-once records\<close>

text \<open>The contract of the three \<open>put\<close> methods: the record under a key may be written again, but
  never with another digest.\<close>

locale digest_store =
  fixes put :: "'v \<Rightarrow> ('s, unit) op"
    and look :: "'s \<Rightarrow> 'k \<Rightarrow> 'v option"
    and key :: "'v \<Rightarrow> 'k"
    and digest :: "'v \<Rightarrow> string"
  assumes put_stores: "put v s = (Inr (), s') \<Longrightarrow> look s' = (look s)(key v \<mapsto> v)"
    and put_accepts: "fst (put v s) = Inr () \<longleftrightarrow> (\<forall>w. look s (key v) = Some w \<longrightarrow> digest w = digest v)"
    and put_refused: "put v s = (Inl e, s') \<Longrightarrow> s' = s"
begin

lemma put_result: "put v s = (r, s') \<Longrightarrow> s' = s \<or> look s' = (look s)(key v \<mapsto> v) \<and> r = Inr ()"
  using put_refused put_stores by (cases r) auto

lemma put_keeps_digest:
  assumes "put v s = (r, s')" "look s k = Some w"
  shows "\<exists>w'. look s' k = Some w' \<and> digest w' = digest w"
proof (cases "r = Inr ()")
  case True
  then have "fst (put v s) = Inr ()" "look s' = (look s)(key v \<mapsto> v)" using assms(1) put_stores by simp_all
  with assms(2) show ?thesis unfolding put_accepts by (cases "k = key v") simp_all
next
  case False
  with assms show ?thesis using put_result by blast
qed

lemma puts_keep_digest:
  "look s k = Some w \<Longrightarrow> \<exists>w'. look (fold (\<lambda>v s. snd (put v s)) vs s) k = Some w' \<and> digest w' = digest w"
proof (induction vs arbitrary: s w)
  case Nil
  then show ?case by simp
next
  case (Cons v vs)
  obtain r s' where p: "put v s = (r, s')" by (cases "put v s")
  from put_keeps_digest [OF p Cons.prems] Cons.IH p show ?case by fastforce
qed

end

interpretation plan_store: digest_store put_plan cs_plans "\<lambda>p. (rp_tenant_id p, rp_plan_id p)" rp_plan_digest
  by unfold_locales (auto simp: put_plan_def Let_def split: option.splits if_splits)

interpretation approval_store: digest_store put_approval cs_approvals "\<lambda>a. (ar_tenant_id a, ar_approval_id a)" ar_canonical_digest
  by unfold_locales (auto simp: put_approval_def Let_def split: option.splits if_splits)

interpretation verification_store: digest_store put_verification cs_verifications
  "\<lambda>v. (vr_tenant_id v, vr_verification_id v)" vr_canonical_digest
  by unfold_locales (auto simp: put_verification_def Let_def split: option.splits if_splits)

section \<open>Decisions\<close>

definition decisions_distinct :: "control_store \<Rightarrow> bool" where
  "decisions_distinct s \<longleftrightarrow> (\<forall>t a. distinct (map dc_approver_ref (decisions s t a)))"

lemma add_decision_cases:
  assumes "add_decision d s = (r, s')"
  obtains (replayed) "cs_decision_commands s (dc_tenant_id d, dc_command_id d) = Some (dc_canonical_digest d)"
      "r = Inr ()" "s' = s"
    | (refused) e where "r = Inl (IdempotencyConflict e)" "\<And>t a. decisions s' t a = decisions s t a"
      "cs_plans s' = cs_plans s" "cs_approvals s' = cs_approvals s" "cs_verifications s' = cs_verifications s"
      "cs_decision_commands s' = cs_decision_commands s"
    | (added) "cs_decision_commands s (dc_tenant_id d, dc_command_id d) = None"
      "\<forall>x \<in> set (decisions s (dc_tenant_id d) (dc_approval_id d)). dc_approver_ref x \<noteq> dc_approver_ref d"
      "r = Inr ()"
      "s' = s\<lparr>cs_decisions := (cs_decisions s)((dc_tenant_id d, dc_approval_id d) \<mapsto>
                decisions s (dc_tenant_id d) (dc_approval_id d) @ [d]),
              cs_decision_commands := (cs_decision_commands s)((dc_tenant_id d, dc_command_id d) \<mapsto> dc_canonical_digest d)\<rparr>"
proof (cases "cs_decision_commands s (dc_tenant_id d, dc_command_id d)")
  case (Some g)
  show ?thesis
  proof (cases "g = dc_canonical_digest d")
    case True
    with assms Some show ?thesis by (intro replayed) (auto simp: add_decision_def)
  next
    case False
    with assms Some have "r = Inl (IdempotencyConflict ''approval command replay changed immutable decision'')" "s' = s"
      by (simp_all add: add_decision_def)
    then show ?thesis by (intro refused) simp_all
  qed
next
  case None
  let ?ds = "decisions s (dc_tenant_id d) (dc_approval_id d)"
  show ?thesis
  proof (cases "\<exists>x \<in> set ?ds. dc_approver_ref x = dc_approver_ref d")
    case True
    with None assms have "r = Inl (IdempotencyConflict ''approver already decided this approval'')"
      "s' = s\<lparr>cs_decisions := (cs_decisions s)((dc_tenant_id d, dc_approval_id d) \<mapsto> ?ds)\<rparr>"
      by (simp_all add: add_decision_def Let_def)
    then show ?thesis by (intro refused) (simp_all add: decisions_def get_default_def)
  next
    case False
    with None assms show ?thesis by (intro added) (auto simp: add_decision_def Let_def)
  qed
qed

lemma add_decision_distinct:
  assumes "decisions_distinct s" "add_decision d s = (r, s')"
  shows "decisions_distinct s'"
  using assms(2)
proof (cases rule: add_decision_cases)
  case added
  with assms(1) show ?thesis by (auto simp: decisions_distinct_def decisions_def get_default_def)
qed (use assms(1) in \<open>simp_all add: decisions_distinct_def\<close>)

section \<open>Claims\<close>

lemma claim_effect_cases:
  assumes "claim_effect rt i w now until s = (r, s')"
  obtains (refused) e where "r = Inl e" "s' = s"
    | (kept) c where "s (in_tenant_id i, in_operation_id i) = Some c" "claim_binding c = intent_binding i"
      "r = Inr (claim_answer c)" "s' = s" "ec_receipt c = None \<longrightarrow> now < ec_claim_until c \<and> ec_claim_token c = effect_claim_token rt i w"
    | (taken) c where "s (in_tenant_id i, in_operation_id i) = Some c" "claim_binding c = intent_binding i"
      "ec_receipt c = None" "ec_claim_until c \<le> now" "ec_attempt c < in_attempt i" "now < until"
      "r = Inr (claim_answer (c\<lparr>ec_attempt := in_attempt i, ec_claim_token := effect_claim_token rt i w, ec_claim_until := until\<rparr>))"
      "s' = s((in_tenant_id i, in_operation_id i) \<mapsto>
         c\<lparr>ec_attempt := in_attempt i, ec_claim_token := effect_claim_token rt i w, ec_claim_until := until\<rparr>)"
    | (fresh) c where "s (in_tenant_id i, in_operation_id i) = None" "claim_binding c = intent_binding i" "now < until"
      "ec_attempt c = in_attempt i" "ec_claim_token c = effect_claim_token rt i w" "ec_claim_until c = until" "ec_receipt c = None"
      "r = Inr ((claim_answer c)\<lparr>cr_replayed := False\<rparr>)" "s' = s((in_tenant_id i, in_operation_id i) \<mapsto> c)"
proof (cases "until \<le> now")
  case True
  with assms refused show ?thesis by (auto simp: claim_effect_def)
next
  case False
  show ?thesis
  proof (cases "s (in_tenant_id i, in_operation_id i)")
    case None
    let ?c = "\<lparr>ec_action_digest = ad_canonical_digest (in_action i), ec_plan_digest = in_plan_digest i,
      ec_approval_digest = in_approval_digest i, ec_policy_digest = in_policy_digest i,
      ec_target_fingerprint = kt_resource_fingerprint (ad_target (in_action i)),
      ec_fence_token = in_fence_token i, ec_attempt = in_attempt i, ec_claim_token = effect_claim_token rt i w,
      ec_claim_until = until, ec_receipt = None\<rparr>"
    from assms False None have "r = Inr ((claim_answer ?c)\<lparr>cr_replayed := False\<rparr>)"
      "s' = s((in_tenant_id i, in_operation_id i) \<mapsto> ?c)"
      by (simp_all add: claim_effect_def Let_def claim_answer_def)
    with None False show ?thesis
      by (intro fresh [of ?c]) (simp_all add: claim_binding_def intent_binding_def)
  next
    case (Some c)
    note ev = assms [unfolded claim_effect_def Let_def if_not_P [OF False] Some option.case]
    consider (b) "claim_binding c \<noteq> intent_binding i"
      | (busy) "claim_binding c = intent_binding i" "ec_receipt c = None \<and> ec_claim_until c > now \<and> ec_claim_token c \<noteq> effect_claim_token rt i w"
      | (old) "claim_binding c = intent_binding i" "ec_receipt c = None" "ec_claim_until c \<le> now"
      | (own) "claim_binding c = intent_binding i" "ec_receipt c = None \<longrightarrow> now < ec_claim_until c \<and> ec_claim_token c = effect_claim_token rt i w"
      by (metis not_le)
    then show ?thesis
    proof cases
      case b
      with ev show ?thesis by (intro refused) auto
    next
      case busy
      with ev show ?thesis by (intro refused) auto
    next
      case old
      then have n: "\<not> (now < ec_claim_until c)" by simp
      show ?thesis
      proof (cases "in_attempt i \<le> ec_attempt c")
        case True
        with ev old n show ?thesis by (intro refused) auto
      next
        case ahead: False
        with ev old n taken [OF Some] False show ?thesis by auto
      qed
    next
      case own
      then have "\<not> (ec_receipt c = None \<and> now < ec_claim_until c \<and> ec_claim_token c \<noteq> effect_claim_token rt i w)"
        "\<not> (ec_receipt c = None \<and> ec_claim_until c \<le> now)" by auto
      with ev own kept [OF Some] show ?thesis by auto
    qed
  qed
qed

lemma complete_effect_cases:
  assumes "complete_effect rc tk s = (r, s')"
  obtains (refused) e where "r = Inl e" "s' = s"
    | (repeated) c old where "s (re_tenant_id rc, re_operation_id rc) = Some c" "ec_receipt c = Some old"
      "re_canonical_digest old = re_canonical_digest rc" "r = Inr ()" "s' = s"
    | (recorded) c where "s (re_tenant_id rc, re_operation_id rc) = Some c" "ec_receipt c = None"
      "ec_claim_token c = tk" "ec_fence_token c = re_fence_token rc" "ec_attempt c = re_attempt rc" "r = Inr ()"
      "s' = s((re_tenant_id rc, re_operation_id rc) \<mapsto> c\<lparr>ec_receipt := Some rc\<rparr>)"
proof (cases "s (re_tenant_id rc, re_operation_id rc)")
  case None
  with assms refused show ?thesis by (auto simp: complete_effect_def)
next
  case (Some c)
  note ev = assms [unfolded complete_effect_def Let_def Some option.case]
  show ?thesis
  proof (cases "ec_claim_token c \<noteq> tk \<or> ec_fence_token c \<noteq> re_fence_token rc \<or> ec_attempt c \<noteq> re_attempt rc")
    case True
    with ev show ?thesis by (intro refused) auto
  next
    case False
    show ?thesis
    proof (cases "ec_receipt c")
      case None
      with ev False recorded [OF Some] show ?thesis by auto
    next
      case (Some old)
      with ev False repeated [OF \<open>s (re_tenant_id rc, re_operation_id rc) = Some c\<close>] refused show ?thesis
        by (cases "re_canonical_digest old = re_canonical_digest rc") auto
    qed
  qed
qed

text \<open>What may happen to a claim: its binding stays, its receipt is written once, and its token
  changes only together with a later attempt.\<close>

definition claim_evolves :: "effect_claim option \<Rightarrow> effect_claim option \<Rightarrow> bool" where
  "claim_evolves old new = (case old of
     None \<Rightarrow> True
   | Some c \<Rightarrow> (case new of
        None \<Rightarrow> False
      | Some c' \<Rightarrow> claim_binding c' = claim_binding c \<and> ec_attempt c \<le> ec_attempt c' \<and>
          (ec_receipt c \<noteq> None \<longrightarrow> c' = c) \<and>
          (ec_attempt c' = ec_attempt c \<longrightarrow> ec_claim_token c' = ec_claim_token c \<and> ec_claim_until c' = ec_claim_until c)))"

definition claims_evolve :: "effect_claims \<Rightarrow> effect_claims \<Rightarrow> bool" where
  "claims_evolve s s' \<longleftrightarrow> (\<forall>k. claim_evolves (s k) (s' k))"

lemma claim_evolves_refl [simp]: "claim_evolves c c"
  by (simp add: claim_evolves_def split: option.split)

lemma claims_evolve_refl [simp]: "claims_evolve s s"
  by (simp add: claims_evolve_def)

lemma claim_evolves_trans: "claim_evolves a b \<Longrightarrow> claim_evolves b c \<Longrightarrow> claim_evolves a c"
  by (auto simp: claim_evolves_def split: option.splits)

lemma claims_evolve_trans: "claims_evolve a b \<Longrightarrow> claims_evolve b c \<Longrightarrow> claims_evolve a c"
  unfolding claims_evolve_def using claim_evolves_trans by blast

lemma claim_effect_evolves: "claim_effect rt i w now until s = (r, s') \<Longrightarrow> claims_evolve s s'"
  by (erule claim_effect_cases) (auto simp: claims_evolve_def claim_evolves_def claim_binding_def split: option.split)

lemma complete_effect_evolves: "complete_effect rc tk s = (r, s') \<Longrightarrow> claims_evolve s s'"
  by (erule complete_effect_cases) (auto simp: claims_evolve_def claim_evolves_def claim_binding_def split: option.split)

section \<open>Quota\<close>

definition granted :: "effect_quota \<Rightarrow> string \<Rightarrow> (string \<times> string) set" where
  "granted q t = {k. fst k = t \<and> (\<exists>d. eq_reservations q k = Some d \<and> qd_allowed d)}"

definition reserved_units :: "effect_quota \<Rightarrow> string \<Rightarrow> int" where
  "reserved_units q t = (\<Sum>k \<in> granted q t. qd_units (the (eq_reservations q k)))"

definition quota_inv :: "(string \<rightharpoonup> int) \<Rightarrow> effect_quota \<Rightarrow> bool" where
  "quota_inv limits q \<longleftrightarrow> finite (dom (eq_reservations q)) \<and>
     (\<forall>t. get_default (eq_remaining q) t 0 + reserved_units q t = get_default limits t 0 \<and>
          (granted q t \<noteq> {} \<longrightarrow> 0 \<le> get_default (eq_remaining q) t 0)) \<and>
     (\<forall>k d. eq_reservations q k = Some d \<longrightarrow> 1 \<le> qd_units d)"

lemma finite_granted: "finite (dom (eq_reservations q)) \<Longrightarrow> finite (granted q t)"
  by (rule finite_subset [of _ "dom (eq_reservations q)"]) (auto simp: granted_def)

lemma quota_inv_make: "quota_inv limits (make_quota limits)"
  by (simp add: quota_inv_def make_quota_def granted_def reserved_units_def)

text \<open>The contract of a quota: a reservation is decided once, and a granted one takes its units from what is left.
  It is kept by the effect quota and by the sandbox quota.\<close>

locale unit_quota =
  fixes reserve_units :: "string \<Rightarrow> string \<Rightarrow> int \<Rightarrow> (effect_quota, quota_decision) op"
  assumes reserve_outcome: "reserve_units t rid n q = (r, q') \<Longrightarrow> q' = q \<or>
      1 \<le> n \<and> eq_reservations q (t, rid) = None \<and>
      (\<exists>d. r = Inr d \<and> qd_allowed d = (n \<le> get_default (eq_remaining q) t 0) \<and> qd_units d = n \<and>
         eq_reservations q' = (eq_reservations q)((t, rid) \<mapsto> d) \<and>
         eq_remaining q' = (if n \<le> get_default (eq_remaining q) t 0 then (eq_remaining q)(t \<mapsto> get_default (eq_remaining q) t 0 - n)
                           else eq_remaining q))"
    and reserve_again: "eq_reservations q (t, rid) = Some d \<Longrightarrow> 1 \<le> n \<Longrightarrow> reserve_units t rid n q = (Inr d, q)"
begin

lemma reserve_inv:
  assumes inv: "quota_inv limits q" and "reserve_units t rid n q = (r, q')"
  shows "quota_inv limits q'"
  using reserve_outcome [OF assms(2)]
proof (elim disjE conjE exE)
  fix d
  let ?rem = "get_default (eq_remaining q) t 0"
  assume free: "1 \<le> n" "eq_reservations q (t, rid) = None"
    and d: "qd_allowed d = (n \<le> ?rem)" "qd_units d = n" "eq_reservations q' = (eq_reservations q)((t, rid) \<mapsto> d)"
      "eq_remaining q' = (if n \<le> ?rem then (eq_remaining q)(t \<mapsto> ?rem - n) else eq_remaining q)"
  have new: "(t, rid) \<notin> granted q t'" for t' using free by (auto simp: granted_def)
  have g: "granted q' t' = (if t' = t \<and> n \<le> ?rem then insert (t, rid) (granted q t) else granted q t')" for t'
    using free d by (auto simp: granted_def split: if_splits)
  have fin: "finite (dom (eq_reservations q))" using inv by (simp add: quota_inv_def)
  have "reserved_units q' t' = reserved_units q t' + (if t' = t \<and> n \<le> ?rem then n else 0)" for t'
  proof -
    have "(\<Sum>k \<in> granted q t'. qd_units (the (eq_reservations q' k))) = reserved_units q t'"
      unfolding reserved_units_def by (rule sum.cong) (use new d in auto)
    then show ?thesis
      using finite_granted [OF fin] new d(2,3) by (auto simp: reserved_units_def g)
  qed
  with inv d free show ?thesis
    by (auto simp: quota_inv_def g get_default_def split: option.splits if_splits)
qed (use inv in simp)

end

lemma quota_within_limit:
  assumes inv: "quota_inv limits q" and "0 \<le> get_default limits t 0"
  shows "reserved_units q t \<le> get_default limits t 0"
proof (cases "granted q t = {}")
  case True
  with assms(2) show ?thesis by (simp add: reserved_units_def)
next
  case False
  with inv have "0 \<le> get_default (eq_remaining q) t 0" "get_default (eq_remaining q) t 0 + reserved_units q t = get_default limits t 0"
    by (simp_all add: quota_inv_def)
  then show ?thesis by simp
qed

interpretation effect_units: unit_quota reserve
  by unfold_locales (auto simp: reserve_def Let_def split: if_splits option.splits)

section \<open>Policies\<close>

lemma replace_policy_revision:
  assumes "replace_policy p s = (r, s')" "s t = Some q"
  shows "\<exists>q'. s' t = Some q' \<and> (q' = q \<or> ap_revision q < ap_revision q')"
  using assms by (auto simp: replace_policy_def split: option.splits if_splits)

end
