(* ===== verification/Remediation_Services.thy ===== *)
theory Remediation_Services
  imports Remediation_Ledger Remediation_Stores
begin

text \<open>
  \<open>ApprovalService\<close> and \<open>EffectService\<close> of \<^verbatim>\<open>remediation.py\<close>, statement by statement over the
  stores. The \<open>ActionPort\<close> is a parameter: four operations on the adapter's own state, which
  may raise. The state records every call of the port, and the number of readings taken from the
  injected clock; a reading is the next value of the clock's sequence. Authorization is
  \<open>EnterprisePolicy.authorize\<close> over the policy repository.
\<close>

section \<open>Environment and state\<close>

datatype port_operation = Port_DRY_RUN | Port_OBSERVE | Port_EXECUTE | Port_COMPENSATE

record 'a action_port =
  po_dry_run :: "action_intent \<Rightarrow> ('a, action_receipt) op"
  po_observe :: "action_intent \<Rightarrow> ('a, action_observation) op"
  po_execute :: "action_intent \<Rightarrow> ('a, action_receipt) op"
  po_compensate :: "action_intent \<Rightarrow> ('a, action_receipt) op"

record 'a service_env =
  se_runtime :: runtime
  se_policies :: "string \<Rightarrow> policy_record option"
  se_clock :: "nat \<Rightarrow> datetime"
  se_actions :: "'a action_port"

record 'a service_state =
  sv_ledger :: remediation_ledger
  sv_store :: control_store
  sv_policies :: action_policies
  sv_claims :: effect_claims
  sv_quota :: effect_quota
  sv_adapter :: 'a
  sv_ticks :: nat
  sv_calls :: "(port_operation \<times> action_intent) list"

definition clock_now :: "'a service_env \<Rightarrow> ('a service_state, datetime) op" where
  "clock_now env s = (Inr (se_clock env (sv_ticks s)), s\<lparr>sv_ticks := Suc (sv_ticks s)\<rparr>)"

definition on_store :: "(control_store, 'b) op \<Rightarrow> ('a service_state, 'b) op" where
  "on_store = zoomS sv_store (\<lambda>x s. s\<lparr>sv_store := x\<rparr>)"

definition on_claims :: "(effect_claims, 'b) op \<Rightarrow> ('a service_state, 'b) op" where
  "on_claims = zoomS sv_claims (\<lambda>x s. s\<lparr>sv_claims := x\<rparr>)"

definition on_quota :: "(effect_quota, 'b) op \<Rightarrow> ('a service_state, 'b) op" where
  "on_quota = zoomS sv_quota (\<lambda>x s. s\<lparr>sv_quota := x\<rparr>)"

definition record_fact ::
  "'a service_env \<Rightarrow> string \<Rightarrow> string \<Rightarrow> nat \<Rightarrow> fact_type \<Rightarrow> string \<Rightarrow> string \<Rightarrow> datetime \<Rightarrow> dict \<Rightarrow>
   ('a service_state, remediation_projection) op" where
  "record_fact env tenant_id plan_id expected_version t command_id actor recorded_at payload =
     zoomS sv_ledger (\<lambda>x s. s\<lparr>sv_ledger := x\<rparr>)
       (append_fact (se_runtime env) tenant_id plan_id expected_version t command_id actor recorded_at payload)"

text \<open>\<open>self._ledger.append(..., recorded_at=self._clock.now(), ...)\<close>.\<close>

definition record_now ::
  "'a service_env \<Rightarrow> string \<Rightarrow> string \<Rightarrow> nat \<Rightarrow> fact_type \<Rightarrow> string \<Rightarrow> string \<Rightarrow> dict \<Rightarrow>
   ('a service_state, remediation_projection) op" where
  "record_now env tenant_id plan_id expected_version t command_id actor payload =
     bindS (clock_now env) (\<lambda>now. record_fact env tenant_id plan_id expected_version t command_id actor now payload)"

definition call_port ::
  "port_operation \<Rightarrow> (action_intent \<Rightarrow> ('a, 'b) op) \<Rightarrow> action_intent \<Rightarrow> ('a service_state, 'b) op" where
  "call_port operation f i s =
     (case f i (sv_adapter s) of
        (r, adapter) \<Rightarrow> (r, s\<lparr>sv_adapter := adapter, sv_calls := sv_calls s @ [(operation, i)]\<rparr>))"

definition actor_ref_of :: "'a service_env \<Rightarrow> identity_context \<Rightarrow> string" where
  "actor_ref_of env i = stable_id (se_runtime env) ''actor'' [id_issuer i, id_subject_id i] 32"

section \<open>ApprovalService\<close>

definition authorize_caller ::
  "'a service_env \<Rightarrow> identity_context \<Rightarrow> action \<Rightarrow> risk_level \<Rightarrow> ('a service_state, unit) op" where
  "authorize_caller env i act risk =
     bindS (clock_now env) (\<lambda>now.
       let d = authorize (se_policies env) now i act (id_tenant_id i) ''incident-response'' risk
       in requireS (pd_allowed d) (PolicyDenied (pd_reason d)))"

definition action_policy_reason :: "action_policy \<Rightarrow> datetime \<Rightarrow> remediation_plan \<Rightarrow> bool \<Rightarrow> string option" where
  "action_policy_reason policy now plan consume_quota =
     (if \<not> ap_enabled policy then Some ''effects_disabled''
      else if now < ap_maintenance_window_start policy \<or> ap_maintenance_window_end policy \<le> now
        then Some ''outside_maintenance_window''
      else if risk_order (ap_max_risk policy) < risk_order (rp_risk plan) then Some ''risk_exceeds_action_policy''
      else if blast_order (ap_max_blast_radius policy) < blast_order (rp_blast_radius plan)
        then Some ''blast_radius_exceeds_action_policy''
      else if consume_quota \<and> ap_remaining_effects policy < 1 then Some ''effect_quota_exhausted''
      else if \<exists>a \<in> set (rp_actions plan).
           ''kubernetes.rollout_restart'' \<notin> set (ap_allowed_action_types policy) \<or>
           kt_resource_fingerprint (ad_target a) \<notin> set (ap_allowed_target_fingerprints policy) \<or>
           kt_namespace (ad_target a) \<notin> set (ap_allowed_namespaces policy)
        then Some ''action_or_exact_target_not_allowlisted''
      else None)"

definition require_action_policy ::
  "'a service_env \<Rightarrow> remediation_plan \<Rightarrow> bool \<Rightarrow> ('a service_state, action_policy) op" where
  "require_action_policy env plan consume_quota =
     bindS (getS (\<lambda>s. current_policy (sv_policies s) (rp_tenant_id plan))) (\<lambda>found.
     bindS (clock_now env) (\<lambda>now.
       case found of
         None \<Rightarrow> raiseS (PolicyDenied ''no_current_action_policy'')
       | Some policy \<Rightarrow>
           (case action_policy_reason policy now plan consume_quota of
              Some reason \<Rightarrow> raiseS (PolicyDenied reason)
            | None \<Rightarrow> returnS policy)))"

definition require_plan :: "string \<Rightarrow> string \<Rightarrow> ('a service_state, remediation_plan) op" where
  "require_plan tenant_id plan_id =
     bindS (getS (\<lambda>s. plan_lookup (sv_store s) tenant_id plan_id)) (\<lambda>found.
       case found of None \<Rightarrow> raiseS (PolicyDenied ''remediation_not_available'') | Some p \<Rightarrow> returnS p)"

definition require_approval :: "string \<Rightarrow> string \<Rightarrow> ('a service_state, approval_request) op" where
  "require_approval tenant_id approval_id =
     bindS (getS (\<lambda>s. approval_lookup (sv_store s) tenant_id approval_id)) (\<lambda>found.
       case found of None \<Rightarrow> raiseS (PolicyDenied ''remediation_not_available'') | Some a \<Rightarrow> returnS a)"

definition propose ::
  "'a service_env \<Rightarrow> identity_context \<Rightarrow> remediation_plan \<Rightarrow> string \<Rightarrow> ('a service_state, remediation_projection) op" where
  "propose env i plan command_id =
     bindS (authorize_caller env i REMEDIATION_PROPOSE (rp_risk plan)) (\<lambda>_.
     bindS (requireS (rp_tenant_id plan = id_tenant_id i) (PolicyDenied ''tenant_mismatch'')) (\<lambda>_.
     bindS (require_action_policy env plan False) (\<lambda>current.
     bindS (requireS (snapshot current = rp_policy_snapshot plan)
             (PolicyDenied ''plan_policy_snapshot_is_not_current'')) (\<lambda>_.
     bindS (on_store (put_plan plan)) (\<lambda>_.
     let fence = stable_id (se_runtime env) ''effect-fence''
                   [rp_tenant_id plan, rp_plan_id plan, rp_plan_digest plan] 32;
         actor = actor_ref_of env i
     in bindS (record_now env (rp_tenant_id plan) (rp_plan_id plan) 0 Fact_PROPOSAL_RECORDED command_id actor
                [(''run_id'', JStr (rp_run_id plan)), (''plan_digest'', JStr (rp_plan_digest plan)),
                 (''fence_token'', JStr fence)]) (\<lambda>projection.
        record_now env (rp_tenant_id plan) (rp_plan_id plan) (rj_version projection) Fact_POLICY_DECIDED
          (command_id @ '':policy'') actor
          [(''allowed'', JBool True), (''policy_digest'', JStr (ap_policy_digest current)),
           (''policy_revision'', JInt (int (ap_revision current)))]))))))"

definition approval_material ::
  "'a service_env \<Rightarrow> identity_context \<Rightarrow> remediation_plan \<Rightarrow> action_policy \<Rightarrow> datetime \<Rightarrow> approval_request" where
  "approval_material env i plan current now =
     \<lparr>ar_approval_id = stable_id (se_runtime env) ''approval'' [rp_tenant_id plan, rp_plan_id plan, rp_plan_digest plan] 32,
      ar_tenant_id = rp_tenant_id plan, ar_plan_id = rp_plan_id plan, ar_run_id = rp_run_id plan,
      ar_plan_digest = rp_plan_digest plan, ar_action_digests = map ad_canonical_digest (rp_actions plan),
      ar_target_fingerprint = rp_target_fingerprint plan, ar_policy_snapshot = snapshot current,
      ar_requirement = \<lparr>rq_quorum = (if rp_risk plan = HIGH then ap_high_risk_quorum current else ap_normal_quorum current),
        rq_required_roles = ap_approver_roles current, rq_prohibit_self_approval = ap_prohibit_self_approval current,
        rq_rationale_min_length = 12, rq_rationale_max_length = 1000\<rparr>,
      ar_requested_by_ref = actor_ref_of env i, ar_requested_at = now,
      ar_expires_at = min (rp_expires_at plan) (now + seconds 7200), ar_canonical_digest = []\<rparr>"

definition request_approval ::
  "'a service_env \<Rightarrow> identity_context \<Rightarrow> string \<Rightarrow> nat \<Rightarrow> string \<Rightarrow> ('a service_state, approval_view) op" where
  "request_approval env i plan_id expected_version command_id =
     bindS (authorize_caller env i APPROVAL_REQUEST HIGH) (\<lambda>_.
     bindS (require_plan (id_tenant_id i) plan_id) (\<lambda>plan.
     bindS (require_action_policy env plan False) (\<lambda>current.
     bindS (clock_now env) (\<lambda>now.
     bindS (liftS (make_approval (se_runtime env) (approval_material env i plan current now))) (\<lambda>approval.
     bindS (on_store (put_approval approval)) (\<lambda>_.
     bindS (record_fact env (rp_tenant_id plan) (rp_plan_id plan) expected_version Fact_APPROVAL_REQUESTED command_id
             (actor_ref_of env i) now
             [(''approval_id'', JStr (ar_approval_id approval)), (''approval_digest'', JStr (ar_canonical_digest approval)),
              (''expires_at'', JStr (isoformat (ar_expires_at approval))),
              (''quorum'', JInt (int (rq_quorum (ar_requirement approval))))]) (\<lambda>projection.
     returnS \<lparr>av_approval = approval, av_decisions = [], av_status = rj_status projection,
              av_version = rj_version projection, av_grants = 0\<rparr>)))))))"

definition matching_roles :: "identity_context \<Rightarrow> approval_request \<Rightarrow> string list" where
  "matching_roles i a = sort (remdups (filter (\<lambda>r. r \<in> set (rq_required_roles (ar_requirement a))) (id_roles i)))"

definition decision_material ::
  "'a service_env \<Rightarrow> identity_context \<Rightarrow> string \<Rightarrow> disposition \<Rightarrow> string \<Rightarrow> string \<Rightarrow> remediation_plan \<Rightarrow>
   approval_request \<Rightarrow> action_policy \<Rightarrow> datetime \<Rightarrow> approval_decision" where
  "decision_material env i approval_id disposition rationale command_id plan approval policy now =
     \<lparr>dc_decision_id = stable_id (se_runtime env) ''decision''
        [id_tenant_id i, approval_id, actor_ref_of env i, command_id] 32,
      dc_command_id = command_id, dc_approval_id = approval_id, dc_tenant_id = id_tenant_id i,
      dc_disposition = disposition, dc_approver_ref = actor_ref_of env i,
      dc_approver_role = hd (matching_roles i approval), dc_plan_digest = rp_plan_digest plan,
      dc_approval_digest = ar_canonical_digest approval, dc_policy_digest = ap_policy_digest policy,
      dc_role_revision = ap_role_revision policy, dc_rationale = rationale, dc_decided_at = now,
      dc_canonical_digest = []\<rparr>"

definition grant_refs :: "approval_decision list \<Rightarrow> string list" where
  "grant_refs ds = remdups (map dc_approver_ref (filter (\<lambda>d. dc_disposition d = GRANT) ds))"

definition grant_count :: "approval_decision list \<Rightarrow> nat" where
  "grant_count ds = length (filter (\<lambda>d. dc_disposition d = GRANT) ds)"

definition decision_fact :: "disposition \<Rightarrow> approval_request \<Rightarrow> approval_decision list \<Rightarrow> fact_type" where
  "decision_fact disposition approval ds =
     (if disposition = DENY then Fact_APPROVAL_DENIED
      else if rq_quorum (ar_requirement approval) \<le> length (grant_refs ds) then Fact_APPROVAL_GRANTED
      else Fact_APPROVAL_REQUESTED)"

definition decide_current ::
  "'a service_env \<Rightarrow> identity_context \<Rightarrow> string \<Rightarrow> disposition \<Rightarrow> string \<Rightarrow> nat \<Rightarrow> string \<Rightarrow> string \<Rightarrow> string \<Rightarrow>
   approval_request \<Rightarrow> remediation_plan \<Rightarrow> action_policy \<Rightarrow> datetime \<Rightarrow> ('a service_state, approval_view) op" where
  "decide_current env i approval_id disposition rationale expected_version command_id plan_digest approval_digest
       approval plan policy now =
     bindS (requireS (plan_digest = rp_plan_digest plan \<and> ar_plan_digest approval = rp_plan_digest plan)
             (PolicyDenied ''plan_digest_changed'')) (\<lambda>_.
     bindS (requireS (approval_digest = ar_canonical_digest approval \<and> ar_policy_snapshot approval = snapshot policy)
             (PolicyDenied ''approval_or_policy_digest_changed'')) (\<lambda>_.
     bindS (requireS (\<not> (rq_prohibit_self_approval (ar_requirement approval) \<and> actor_ref_of env i = rp_proposer_ref plan))
             (PolicyDenied ''self_approval_prohibited'')) (\<lambda>_.
     bindS (requireS (matching_roles i approval \<noteq> []) (PolicyDenied ''approver_role_not_permitted'')) (\<lambda>_.
     bindS (requireS (rq_rationale_min_length (ar_requirement approval) \<le> length rationale \<and>
                      length rationale \<le> rq_rationale_max_length (ar_requirement approval))
             (PolicyDenied ''approval_rationale_outside_bounds'')) (\<lambda>_.
     bindS (liftS (make_decision (se_runtime env)
              (decision_material env i approval_id disposition rationale command_id plan approval policy now))) (\<lambda>decision.
     bindS (on_store (add_decision decision)) (\<lambda>_.
     bindS (getS (\<lambda>s. decisions (sv_store s) (id_tenant_id i) approval_id)) (\<lambda>ds.
     let fact = decision_fact disposition approval ds in
     bindS (record_fact env (rp_tenant_id plan) (rp_plan_id plan) expected_version fact command_id (actor_ref_of env i) now
             [(''approval_id'', JStr approval_id), (''approval_digest'', JStr (ar_canonical_digest approval)),
              (''decision_digest'', JStr (dc_canonical_digest decision)),
              (''grant_count'', JInt (int (grant_count ds)))]) (\<lambda>projection.
     bindS (requireS (rj_status projection = status_by_fact fact)
             (IntegrityFailure ''approval projection status mismatch'')) (\<lambda>_.
     returnS \<lparr>av_approval = approval, av_decisions = ds, av_status = rj_status projection,
              av_version = rj_version projection, av_grants = grant_count ds\<rparr>))))))))))"

definition decide ::
  "'a service_env \<Rightarrow> identity_context \<Rightarrow> string \<Rightarrow> disposition \<Rightarrow> string \<Rightarrow> nat \<Rightarrow> string \<Rightarrow> string \<Rightarrow> string \<Rightarrow>
   ('a service_state, approval_view) op" where
  "decide env i approval_id disposition rationale expected_version command_id plan_digest approval_digest =
     bindS (authorize_caller env i APPROVAL_DECIDE HIGH) (\<lambda>_.
     bindS (requireS (id_principal_kind i = HUMAN) (PolicyDenied ''approval_requires_human_principal'')) (\<lambda>_.
     bindS (require_approval (id_tenant_id i) approval_id) (\<lambda>approval.
     bindS (require_plan (id_tenant_id i) (ar_plan_id approval)) (\<lambda>plan.
     bindS (getS (\<lambda>s. ledger_projection (sv_ledger s) (id_tenant_id i) (rp_plan_id plan))) (\<lambda>found.
     case found of
       None \<Rightarrow> raiseS (IntegrityFailure ''approval projection binding is invalid'')
     | Some projection \<Rightarrow>
     bindS (requireS (rj_approval_id projection = Some approval_id)
             (IntegrityFailure ''approval projection binding is invalid'')) (\<lambda>_.
     bindS (requireS (rj_version projection = expected_version)
             (ConcurrencyConflict ''approval aggregate version changed'')) (\<lambda>_.
     bindS (requireS (rj_status projection = Rem_APPROVAL_PENDING)
             (IntegrityFailure ''approval is already terminal'')) (\<lambda>_.
     bindS (require_action_policy env plan False) (\<lambda>policy.
     bindS (clock_now env) (\<lambda>now.
     if ar_expires_at approval \<le> now \<or> rp_expires_at plan \<le> now then
       bindS (record_fact env (rp_tenant_id plan) (rp_plan_id plan) expected_version Fact_APPROVAL_EXPIRED command_id
               (actor_ref_of env i) now [(''approval_id'', JStr approval_id)]) (\<lambda>_.
       raiseS (ApprovalExpired ''approval has expired''))
     else decide_current env i approval_id disposition rationale expected_version command_id plan_digest
            approval_digest approval plan policy now))))))))))"

definition revoke ::
  "'a service_env \<Rightarrow> identity_context \<Rightarrow> string \<Rightarrow> nat \<Rightarrow> string \<Rightarrow> string \<Rightarrow> ('a service_state, remediation_projection) op" where
  "revoke env i approval_id expected_version command_id rationale =
     bindS (authorize_caller env i APPROVAL_REVOKE HIGH) (\<lambda>_.
     bindS (requireS (12 \<le> length rationale) (PolicyDenied ''revocation_rationale_too_short'')) (\<lambda>_.
     bindS (require_approval (id_tenant_id i) approval_id) (\<lambda>approval.
     bindS (getS (\<lambda>s. ledger_projection (sv_ledger s) (id_tenant_id i) (ar_plan_id approval))) (\<lambda>found.
     case found of
       None \<Rightarrow> raiseS (IntegrityFailure ''approval projection binding is invalid'')
     | Some projection \<Rightarrow>
     bindS (requireS (rj_approval_id projection = Some approval_id)
             (IntegrityFailure ''approval projection binding is invalid'')) (\<lambda>_.
     bindS (requireS (rj_version projection = expected_version)
             (ConcurrencyConflict ''approval aggregate version changed'')) (\<lambda>_.
     bindS (requireS (rj_status projection \<in> {Rem_APPROVAL_PENDING, Rem_APPROVED})
             (IntegrityFailure ''approval is already terminal'')) (\<lambda>_.
     record_now env (id_tenant_id i) (ar_plan_id approval) expected_version Fact_APPROVAL_REVOKED command_id
       (actor_ref_of env i)
       [(''approval_id'', JStr approval_id), (''reason_code'', JStr ''human_revocation'')])))))))"

definition get_approval ::
  "'a service_env \<Rightarrow> identity_context \<Rightarrow> string \<Rightarrow> ('a service_state, approval_view option) op" where
  "get_approval env i approval_id =
     bindS (authorize_caller env i REMEDIATION_READ LOW) (\<lambda>_.
     bindS (getS (\<lambda>s. approval_lookup (sv_store s) (id_tenant_id i) approval_id)) (\<lambda>found.
     case found of
       None \<Rightarrow> returnS None
     | Some approval \<Rightarrow>
     bindS (getS (\<lambda>s. ledger_projection (sv_ledger s) (id_tenant_id i) (ar_plan_id approval))) (\<lambda>p.
     case p of
       None \<Rightarrow> raiseS (IntegrityFailure ''approval has no remediation projection'')
     | Some projection \<Rightarrow>
     bindS (getS (\<lambda>s. decisions (sv_store s) (id_tenant_id i) approval_id)) (\<lambda>ds.
     returnS (Some \<lparr>av_approval = approval, av_decisions = ds, av_status = rj_status projection,
                    av_version = rj_version projection, av_grants = grant_count ds\<rparr>)))))"

end
