(* ===== verification/Effect_Service.thy ===== *)
theory Effect_Service
  imports Remediation_Services
begin

text \<open>
  \<open>EffectService\<close>: the scope check that every effect passes, the intent it acts on, and the five
  operations \<open>preflight\<close>, \<open>execute\<close>, \<open>reconcile\<close>, \<open>verify\<close> and \<open>rollback\<close> with their ledger
  facts, claims and calls of the action port in the order the code makes them.
\<close>

section \<open>Scope and intent\<close>

definition exact_grants ::
  "remediation_plan \<Rightarrow> approval_request \<Rightarrow> action_policy \<Rightarrow> approval_decision list \<Rightarrow> string list" where
  "exact_grants plan approval current ds =
     remdups (map dc_approver_ref (filter (\<lambda>d.
       dc_disposition d = GRANT \<and> dc_plan_digest d = rp_plan_digest plan \<and>
       dc_approval_digest d = ar_canonical_digest approval \<and> dc_policy_digest d = ap_policy_digest current \<and>
       dc_role_revision d = ap_role_revision current) ds))"

definition quota_reservation_id :: "'a service_env \<Rightarrow> remediation_plan \<Rightarrow> string \<Rightarrow> string" where
  "quota_reservation_id env plan action_id =
     stable_id (se_runtime env) ''effect-quota'' [rp_tenant_id plan, rp_plan_id plan, action_id] 32"

type_synonym scope = "remediation_plan \<times> approval_request \<times> action_policy \<times> remediation_projection"

text \<open>The checks after the records are found: exact digests, two clock readings for the two
  expiries, the recorded decisions, the status, the action policy and the quota.\<close>

definition check_scope ::
  "'a service_env \<Rightarrow> identity_context \<Rightarrow> string \<Rightarrow> remediation_status set \<Rightarrow> remediation_plan \<Rightarrow>
   remediation_projection \<Rightarrow> approval_request \<Rightarrow> action_policy \<Rightarrow> ('a service_state, scope) op" where
  "check_scope env i action_id allowed plan projection approval current =
     (let stale = ApprovalExpired ''approval exact scope is stale'' in
     bindS (requireS (ar_plan_digest approval = rp_plan_digest plan \<and>
                      Some (ar_canonical_digest approval) = rj_approval_digest projection \<and>
                      ar_policy_snapshot approval = snapshot current \<and> rp_policy_snapshot plan = snapshot current)
             stale) (\<lambda>_.
     bindS (clock_now env) (\<lambda>now1.
     bindS (requireS (now1 < ar_expires_at approval) stale) (\<lambda>_.
     bindS (clock_now env) (\<lambda>now2.
     bindS (requireS (now2 < rp_expires_at plan) stale) (\<lambda>_.
     bindS (getS (\<lambda>s. decisions (sv_store s) (id_tenant_id i) (ar_approval_id approval))) (\<lambda>ds.
     bindS (requireS (\<forall>d \<in> set ds. dc_disposition d \<noteq> DENY) (ApprovalDenied ''approval was denied'')) (\<lambda>_.
     bindS (requireS (rq_quorum (ar_requirement approval) \<le> length (exact_grants plan approval current ds))
             (ApprovalDenied ''approval quorum is not satisfied'')) (\<lambda>_.
     bindS (requireS (rj_status projection \<in> allowed)
             (if rj_status projection = Rem_REVOKED then ApprovalRevoked ''approval was revoked''
              else EffectConflict ''remediation state does not permit this operation'')) (\<lambda>_.
     bindS (require_action_policy env plan True) (\<lambda>_.
     bindS (clock_now env) (\<lambda>_.
     bindS (on_quota (reserve (rp_tenant_id plan) (quota_reservation_id env plan action_id) 1)) (\<lambda>quota.
     bindS (requireS (qd_allowed quota) (PolicyDenied (qd_reason quota))) (\<lambda>_.
     returnS (plan, approval, current, projection)))))))))))))))"

definition validated_scope ::
  "'a service_env \<Rightarrow> identity_context \<Rightarrow> string \<Rightarrow> string \<Rightarrow> remediation_status set \<Rightarrow> ('a service_state, scope) op" where
  "validated_scope env i plan_id action_id allowed =
     bindS (authorize_caller env i EFFECT_EXECUTE HIGH) (\<lambda>_.
     bindS (getS (\<lambda>s. plan_lookup (sv_store s) (id_tenant_id i) plan_id)) (\<lambda>found_plan.
     bindS (getS (\<lambda>s. ledger_projection (sv_ledger s) (id_tenant_id i) plan_id)) (\<lambda>found_projection.
     case (found_plan, found_projection) of
       (Some plan, Some projection) \<Rightarrow>
         (case rj_approval_id projection of
            None \<Rightarrow> raiseS (PolicyDenied ''remediation_not_available'')
          | Some approval_id \<Rightarrow>
              bindS (requireS (\<exists>a \<in> set (rp_actions plan). ad_action_id a = action_id)
                      (PolicyDenied ''action_not_in_exact_plan'')) (\<lambda>_.
              bindS (getS (\<lambda>s. approval_lookup (sv_store s) (id_tenant_id i) approval_id)) (\<lambda>found_approval.
              case found_approval of
                None \<Rightarrow> raiseS (IntegrityFailure ''approved remediation omitted approval record'')
              | Some approval \<Rightarrow>
                  bindS (getS (\<lambda>s. current_policy (sv_policies s) (id_tenant_id i))) (\<lambda>found_policy.
                  case found_policy of
                    None \<Rightarrow> raiseS (PolicyDenied ''no_current_action_policy'')
                  | Some current \<Rightarrow> check_scope env i action_id allowed plan projection approval current))))
     | _ \<Rightarrow> raiseS (PolicyDenied ''remediation_not_available''))))"

definition find_action :: "remediation_plan \<Rightarrow> string \<Rightarrow> action_definition option" where
  "find_action plan action_id = find (\<lambda>a. ad_action_id a = action_id) (rp_actions plan)"

definition make_intent ::
  "'a service_env \<Rightarrow> scope \<Rightarrow> string \<Rightarrow> string \<Rightarrow> nat \<Rightarrow> bool \<Rightarrow> ('a service_state, action_intent) op" where
  "make_intent env scope action_id operation_id attempt dry_run =
     (case scope of (plan, approval, policy, projection) \<Rightarrow>
        (case find_action plan action_id of
           None \<Rightarrow> raiseS StopIteration
         | Some a \<Rightarrow>
             bindS (clock_now env) (\<lambda>now.
             bindS (requireS (valid_identifier operation_id \<and> 1 \<le> attempt \<and> attempt \<le> 16)
                     (ValidationError ''ActionIntent'')) (\<lambda>_.
             returnS \<lparr>in_tenant_id = rp_tenant_id plan, in_run_id = rp_run_id plan, in_plan_id = rp_plan_id plan,
               in_action = a, in_plan_digest = rp_plan_digest plan, in_approval_digest = ar_canonical_digest approval,
               in_policy_digest = ap_policy_digest policy, in_operation_id = operation_id, in_attempt = attempt,
               in_fence_token = rj_fence_token projection, in_requested_at = now, in_dry_run = dry_run\<rparr>))))"

definition claim_now ::
  "'a service_env \<Rightarrow> action_intent \<Rightarrow> string \<Rightarrow> ('a service_state, effect_claim_record) op" where
  "claim_now env intent actor =
     bindS (clock_now env) (\<lambda>now.
       on_claims (claim_effect (se_runtime env) intent actor now
         (now + seconds (rc_attempt_timeout_seconds (ad_retry (in_action intent))))))"

definition complete_now :: "'a service_env \<Rightarrow> action_receipt \<Rightarrow> string \<Rightarrow> ('a service_state, unit) op" where
  "complete_now env receipt token = bindS (clock_now env) (\<lambda>now. on_claims (complete_effect receipt token))"

definition synthetic_now ::
  "'a service_env \<Rightarrow> action_intent \<Rightarrow> effect_outcome \<Rightarrow> string \<Rightarrow> string option \<Rightarrow> ('a service_state, action_receipt) op" where
  "synthetic_now env intent outcome detail_code provider_ref =
     bindS (clock_now env) (\<lambda>now. returnS (synthetic_receipt (se_runtime env) intent outcome detail_code now provider_ref))"

section \<open>Preflight\<close>

definition preflight_intent ::
  "'a service_env \<Rightarrow> remediation_plan \<Rightarrow> string \<Rightarrow> nat \<Rightarrow> string \<Rightarrow> action_intent \<Rightarrow> ('a service_state, action_receipt) op" where
  "preflight_intent env plan actor expected_version operation_id intent =
     bindS (record_now env (rp_tenant_id plan) (rp_plan_id plan) expected_version Fact_PREFLIGHT_REQUESTED
             (operation_id @ '':intent'') actor
             [(''action_id'', JStr (ad_action_id (in_action intent))),
              (''action_digest'', JStr (ad_canonical_digest (in_action intent)))]) (\<lambda>started.
     bindS (call_port Port_DRY_RUN (po_dry_run (se_actions env)) intent) (\<lambda>receipt.
     if re_outcome receipt \<noteq> Out_DRY_RUN_SUCCEEDED then
       bindS (record_now env (rp_tenant_id plan) (rp_plan_id plan) (rj_version started) Fact_EXECUTION_FAILED
               (operation_id @ '':result'') actor [(''detail_code'', JStr (re_detail_code receipt))]) (\<lambda>_.
       raiseS (EffectConflict ''action dry-run did not succeed''))
     else
       bindS (record_now env (rp_tenant_id plan) (rp_plan_id plan) (rj_version started) Fact_DRY_RUN_SUCCEEDED
               (operation_id @ '':result'') actor [(''effect_receipt_digest'', JStr (re_canonical_digest receipt))]) (\<lambda>_.
       returnS receipt)))"

definition preflight ::
  "'a service_env \<Rightarrow> identity_context \<Rightarrow> string \<Rightarrow> string \<Rightarrow> nat \<Rightarrow> string \<Rightarrow> nat \<Rightarrow> ('a service_state, action_receipt) op" where
  "preflight env i plan_id action_id expected_version operation_id attempt =
     bindS (validated_scope env i plan_id action_id {Rem_APPROVED, Rem_PREFLIGHT}) (\<lambda>scope.
     bindS (make_intent env scope action_id operation_id attempt True) (\<lambda>intent.
     preflight_intent env (fst scope) (actor_ref_of env i) expected_version operation_id intent))"

section \<open>Execute\<close>

text \<open>Observe first; the provider is asked to execute only from an untouched target whose
  preconditions hold.\<close>

definition observe_then_execute :: "'a service_env \<Rightarrow> action_intent \<Rightarrow> ('a service_state, action_receipt) op" where
  "observe_then_execute env intent =
     bindS (call_port Port_OBSERVE (po_observe (se_actions env)) intent) (\<lambda>before.
     if ob_state before = Obs_APPLIED then
       synthetic_now env intent Out_DUPLICATE ''already_applied'' (ob_provider_receipt_ref before)
     else if ob_state before \<notin> {Obs_BEFORE, Obs_NOT_APPLIED} then
       synthetic_now env intent Out_CONFLICT ''observe_before_execute_conflict'' None
     else if \<not> list_all (\<lambda>c. condition_matches c (ob_facts before)) (ad_preconditions (in_action intent)) then
       synthetic_now env intent Out_CONFLICT ''precondition_failed'' None
     else call_port Port_EXECUTE (po_execute (se_actions env)) intent)"

fun execute_fact :: "effect_outcome \<Rightarrow> fact_type option" where
  "execute_fact Out_SUCCEEDED = Some Fact_EXECUTION_SUCCEEDED"
| "execute_fact Out_DUPLICATE = Some Fact_EXECUTION_SUCCEEDED"
| "execute_fact Out_FAILED = Some Fact_EXECUTION_FAILED"
| "execute_fact Out_CONFLICT = Some Fact_EXECUTION_FAILED"
| "execute_fact Out_AMBIGUOUS = Some Fact_EXECUTION_AMBIGUOUS"
| "execute_fact _ = None"

definition started_command :: "action_intent \<Rightarrow> string" where
  "started_command intent = in_operation_id intent @ '':started:'' @ nat_str (in_attempt intent)"

text \<open>The receipt of an execution and the version its result is recorded at: the recorded receipt
  of the claim, or the one of a new attempt.\<close>

definition execution_receipt ::
  "'a service_env \<Rightarrow> remediation_plan \<Rightarrow> action_intent \<Rightarrow> string \<Rightarrow> remediation_projection \<Rightarrow>
   ('a service_state, action_receipt \<times> nat) op" where
  "execution_receipt env plan intent actor requested =
     bindS (claim_now env intent actor) (\<lambda>claim.
     case cr_receipt claim of
       Some receipt \<Rightarrow> returnS (receipt, rj_version requested)
     | None \<Rightarrow>
         bindS (record_now env (rp_tenant_id plan) (rp_plan_id plan) (rj_version requested) Fact_EXECUTION_STARTED
                 (started_command intent) actor
                 [(''attempt'', JInt (int (in_attempt intent)))]) (\<lambda>started.
         bindS (observe_then_execute env intent) (\<lambda>receipt.
         bindS (complete_now env receipt (cr_claim_token claim)) (\<lambda>_.
         returnS (receipt, rj_version started)))))"

definition finish_execution ::
  "'a service_env \<Rightarrow> remediation_plan \<Rightarrow> string \<Rightarrow> string \<Rightarrow> action_receipt \<Rightarrow> nat \<Rightarrow> ('a service_state, action_receipt) op" where
  "finish_execution env plan actor operation_id receipt result_version =
     (case execute_fact (re_outcome receipt) of
        None \<Rightarrow> raiseS (IntegrityFailure ''action adapter returned an invalid execute outcome'')
      | Some ft \<Rightarrow>
          bindS (record_now env (rp_tenant_id plan) (rp_plan_id plan) result_version ft
                  (operation_id @ '':result'') actor
                  [(''effect_receipt_digest'', JStr (re_canonical_digest receipt)),
                   (''detail_code'', JStr (re_detail_code receipt))]) (\<lambda>_.
          if re_outcome receipt = Out_AMBIGUOUS
          then raiseS (EffectAmbiguous ''external action outcome requires reconciliation'')
          else if re_outcome receipt \<notin> {Out_SUCCEEDED, Out_DUPLICATE}
          then raiseS (EffectConflict ''external action failed safely'')
          else returnS receipt))"

definition execute_intent ::
  "'a service_env \<Rightarrow> remediation_plan \<Rightarrow> string \<Rightarrow> nat \<Rightarrow> string \<Rightarrow> action_intent \<Rightarrow> ('a service_state, action_receipt) op" where
  "execute_intent env plan actor expected_version operation_id intent =
     bindS (record_now env (rp_tenant_id plan) (rp_plan_id plan) expected_version Fact_EXECUTION_REQUESTED
             (operation_id @ '':intent'') actor
             [(''action_id'', JStr (ad_action_id (in_action intent))),
              (''idempotency_key'', JStr (ad_idempotency_key (in_action intent))),
              (''fence_token'', JStr (in_fence_token intent))]) (\<lambda>requested.
     bindS (execution_receipt env plan intent actor requested) (\<lambda>(receipt, result_version).
     finish_execution env plan actor operation_id receipt result_version))"

definition execute ::
  "'a service_env \<Rightarrow> identity_context \<Rightarrow> string \<Rightarrow> string \<Rightarrow> nat \<Rightarrow> string \<Rightarrow> nat \<Rightarrow> ('a service_state, action_receipt) op" where
  "execute env i plan_id action_id expected_version operation_id attempt =
     bindS (validated_scope env i plan_id action_id {Rem_PREFLIGHT, Rem_EXECUTING, Rem_SUCCEEDED}) (\<lambda>scope.
     bindS (make_intent env scope action_id operation_id attempt False) (\<lambda>intent.
     execute_intent env (fst scope) (actor_ref_of env i) expected_version operation_id intent))"

section \<open>Reconcile\<close>

definition reconciliation_receipt ::
  "'a service_env \<Rightarrow> action_intent \<Rightarrow> string \<Rightarrow> ('a service_state, action_receipt) op" where
  "reconciliation_receipt env intent actor =
     bindS (claim_now env intent actor) (\<lambda>claim.
     case cr_receipt claim of
       Some receipt \<Rightarrow> returnS receipt
     | None \<Rightarrow>
         bindS (call_port Port_OBSERVE (po_observe (se_actions env)) intent) (\<lambda>observed.
         bindS (if ob_state observed = Obs_APPLIED
                then synthetic_now env intent Out_SUCCEEDED ''reconciled_applied'' (ob_provider_receipt_ref observed)
                else synthetic_now env intent Out_AMBIGUOUS ''reconciliation_inconclusive'' None) (\<lambda>receipt.
         bindS (complete_now env receipt (cr_claim_token claim)) (\<lambda>_.
         returnS receipt))))"

definition reconcile_intent ::
  "'a service_env \<Rightarrow> remediation_plan \<Rightarrow> remediation_projection \<Rightarrow> string \<Rightarrow> nat \<Rightarrow> string \<Rightarrow> action_intent \<Rightarrow>
   ('a service_state, action_receipt) op" where
  "reconcile_intent env plan projection actor expected_version operation_id intent =
     bindS (if rj_status projection = Rem_AMBIGUOUS
            then bindS (record_now env (rp_tenant_id plan) (rp_plan_id plan) expected_version
                         Fact_RECONCILIATION_STARTED (operation_id @ '':intent'') actor
                         [(''action_id'', JStr (ad_action_id (in_action intent)))])
                   (\<lambda>reconciling. returnS (rj_version reconciling))
            else returnS expected_version) (\<lambda>current_version.
     bindS (reconciliation_receipt env intent actor) (\<lambda>receipt.
     if re_outcome receipt = Out_SUCCEEDED then
       bindS (record_now env (rp_tenant_id plan) (rp_plan_id plan) current_version Fact_RECONCILIATION_RESOLVED
               (operation_id @ '':result'') actor [(''effect_receipt_digest'', JStr (re_canonical_digest receipt))]) (\<lambda>_.
       returnS receipt)
     else
       bindS (record_now env (rp_tenant_id plan) (rp_plan_id plan) current_version Fact_ESCALATED
               (operation_id @ '':escalate'') actor [(''reason_code'', JStr ''reconciliation_inconclusive'')]) (\<lambda>_.
       raiseS (EffectAmbiguous ''reconciliation could not prove the external outcome''))))"

definition reconcile ::
  "'a service_env \<Rightarrow> identity_context \<Rightarrow> string \<Rightarrow> string \<Rightarrow> nat \<Rightarrow> string \<Rightarrow> nat \<Rightarrow> ('a service_state, action_receipt) op" where
  "reconcile env i plan_id action_id expected_version operation_id attempt =
     bindS (validated_scope env i plan_id action_id {Rem_AMBIGUOUS, Rem_RECONCILING, Rem_SUCCEEDED}) (\<lambda>scope.
     bindS (make_intent env scope action_id operation_id attempt False) (\<lambda>intent.
     reconcile_intent env (fst scope) (snd (snd (snd scope))) (actor_ref_of env i) expected_version operation_id intent))"

section \<open>Verify\<close>

definition verification_id_of :: "'a service_env \<Rightarrow> remediation_plan \<Rightarrow> string \<Rightarrow> string \<Rightarrow> string" where
  "verification_id_of env plan action_id operation_id =
     stable_id (se_runtime env) ''verification'' [rp_tenant_id plan, rp_plan_id plan, action_id, operation_id] 32"

definition postconditions_hold :: "action_intent \<Rightarrow> action_receipt \<Rightarrow> citation list \<Rightarrow> action_observation \<Rightarrow> bool" where
  "postconditions_hold intent receipt fresh_evidence observed \<longleftrightarrow>
     re_recorded_at receipt < ob_observed_at observed \<and> fresh_evidence \<noteq> [] \<and>
     list_all (\<lambda>c. condition_matches c (ob_facts observed)) (ad_postconditions (in_action intent))"

definition verification_record_of ::
  "'a service_env \<Rightarrow> remediation_plan \<Rightarrow> action_intent \<Rightarrow> string \<Rightarrow> string \<Rightarrow> action_receipt \<Rightarrow> citation list \<Rightarrow>
   ('a service_state, verification_record) op" where
  "verification_record_of env plan intent action_id operation_id receipt fresh_evidence =
     (let vid = verification_id_of env plan action_id operation_id in
     bindS (getS (\<lambda>s. verification_lookup (sv_store s) (rp_tenant_id plan) vid)) (\<lambda>found.
     case found of
       Some r \<Rightarrow> returnS r
     | None \<Rightarrow>
         bindS (call_port Port_OBSERVE (po_observe (se_actions env)) intent) (\<lambda>observed.
         bindS (clock_now env) (\<lambda>now.
         bindS (liftS (make_verification (se_runtime env)
                 \<lparr>vr_verification_id = vid, vr_tenant_id = rp_tenant_id plan, vr_plan_id = rp_plan_id plan,
                  vr_action_id = action_id, vr_effect_receipt_digest = re_canonical_digest receipt,
                  vr_fresh_evidence = fresh_evidence, vr_observation = observed,
                  vr_postconditions_satisfied = postconditions_hold intent receipt fresh_evidence observed,
                  vr_verified_at = now, vr_canonical_digest = []\<rparr>)) (\<lambda>r.
         bindS (on_store (put_verification r)) (\<lambda>_. returnS r))))))"

definition verify_intent ::
  "'a service_env \<Rightarrow> remediation_plan \<Rightarrow> remediation_projection \<Rightarrow> string \<Rightarrow> string \<Rightarrow> nat \<Rightarrow> string \<Rightarrow> action_receipt \<Rightarrow>
   citation list \<Rightarrow> action_intent \<Rightarrow> ('a service_state, verification_record) op" where
  "verify_intent env plan projection actor action_id expected_version operation_id effect_receipt fresh_evidence intent =
     bindS (requireS (rj_effect_receipt_digest projection = Some (re_canonical_digest effect_receipt) \<and>
                      re_tenant_id effect_receipt = rp_tenant_id plan \<and> re_plan_id effect_receipt = rp_plan_id plan \<and>
                      re_action_id effect_receipt = action_id \<and> re_fence_token effect_receipt = rj_fence_token projection)
             (IntegrityFailure ''verification receipt binding is invalid'')) (\<lambda>_.
     bindS (record_now env (rp_tenant_id plan) (rp_plan_id plan) expected_version Fact_VERIFICATION_REQUESTED
             (operation_id @ '':intent'') actor
             [(''effect_receipt_digest'', JStr (re_canonical_digest effect_receipt))]) (\<lambda>requested.
     bindS (verification_record_of env plan intent action_id operation_id effect_receipt fresh_evidence) (\<lambda>r.
     bindS (record_now env (rp_tenant_id plan) (rp_plan_id plan) (rj_version requested)
             (if vr_postconditions_satisfied r then Fact_VERIFIED else Fact_VERIFICATION_FAILED)
             (operation_id @ '':result'') actor [(''verification_digest'', JStr (vr_canonical_digest r))]) (\<lambda>_.
     bindS (requireS (vr_postconditions_satisfied r)
             (VerificationFailed ''fresh evidence did not satisfy postconditions'')) (\<lambda>_.
     returnS r)))))"

definition verify ::
  "'a service_env \<Rightarrow> identity_context \<Rightarrow> string \<Rightarrow> string \<Rightarrow> nat \<Rightarrow> string \<Rightarrow> action_receipt \<Rightarrow> citation list \<Rightarrow> nat \<Rightarrow>
   ('a service_state, verification_record) op" where
  "verify env i plan_id action_id expected_version operation_id effect_receipt fresh_evidence attempt =
     bindS (validated_scope env i plan_id action_id {Rem_SUCCEEDED, Rem_VERIFIED, Rem_VERIFICATION_FAILED}) (\<lambda>scope.
     bindS (make_intent env scope action_id operation_id attempt False) (\<lambda>intent.
     verify_intent env (fst scope) (snd (snd (snd scope))) (actor_ref_of env i) action_id expected_version operation_id
       effect_receipt fresh_evidence intent))"

section \<open>Rollback\<close>

definition compensation_receipt ::
  "'a service_env \<Rightarrow> action_intent \<Rightarrow> string \<Rightarrow> ('a service_state, action_receipt) op" where
  "compensation_receipt env intent actor =
     bindS (claim_now env intent actor) (\<lambda>claim.
     case cr_receipt claim of
       Some receipt \<Rightarrow> returnS receipt
     | None \<Rightarrow>
         bindS (call_port Port_COMPENSATE (po_compensate (se_actions env)) intent) (\<lambda>receipt.
         bindS (complete_now env receipt (cr_claim_token claim)) (\<lambda>_.
         returnS receipt)))"

definition rollback_intent ::
  "'a service_env \<Rightarrow> remediation_plan \<Rightarrow> string \<Rightarrow> nat \<Rightarrow> string \<Rightarrow> action_intent \<Rightarrow> ('a service_state, action_receipt) op" where
  "rollback_intent env plan actor expected_version operation_id intent =
     bindS (record_now env (rp_tenant_id plan) (rp_plan_id plan) expected_version Fact_ROLLBACK_REQUESTED
             (operation_id @ '':intent'') actor [(''action_id'', JStr (ad_action_id (in_action intent)))]) (\<lambda>requested.
     bindS (compensation_receipt env intent actor) (\<lambda>receipt.
     bindS (record_now env (rp_tenant_id plan) (rp_plan_id plan) (rj_version requested)
             (if re_outcome receipt = Out_COMPENSATED then Fact_ROLLBACK_SUCCEEDED else Fact_ROLLBACK_FAILED)
             (operation_id @ '':result'') actor
             [(''effect_receipt_digest'', JStr (re_canonical_digest receipt)),
              (''detail_code'', JStr (re_detail_code receipt))]) (\<lambda>_.
     bindS (requireS (re_outcome receipt = Out_COMPENSATED)
             (EffectConflict ''rollback failed and requires operator escalation'')) (\<lambda>_.
     returnS receipt))))"

definition rollback ::
  "'a service_env \<Rightarrow> identity_context \<Rightarrow> string \<Rightarrow> string \<Rightarrow> nat \<Rightarrow> string \<Rightarrow> nat \<Rightarrow> ('a service_state, action_receipt) op" where
  "rollback env i plan_id action_id expected_version operation_id attempt =
     bindS (validated_scope env i plan_id action_id {Rem_FAILED, Rem_SUCCEEDED, Rem_VERIFICATION_FAILED, Rem_ROLLED_BACK})
       (\<lambda>scope.
     case find_action (fst scope) action_id of
       None \<Rightarrow> raiseS StopIteration
     | Some a \<Rightarrow>
         bindS (requireS (cc_enabled (ad_compensation a)) (PolicyDenied ''compensation_not_enabled'')) (\<lambda>_.
         bindS (make_intent env scope action_id operation_id attempt False) (\<lambda>intent.
         rollback_intent env (fst scope) (actor_ref_of env i) expected_version operation_id intent)))"

end
