(* ===== verification/Fact_Ledger.thy ===== *)
theory Fact_Ledger
  imports Prelude
begin

text \<open>
  The contract of the append-only fact ledgers of the program. A ledger keeps, per aggregate, a list of facts and
  the projection of it, and per command identifier what the command recorded. An append either changes nothing
  that can be observed, or adds one fact at the end, the projection the reducer makes of it and the command. The
  lemmas say what follows over any sequence of appends: the projection is the replay of the facts, facts and
  commands are never lost, and a command identifier names one fact. \<^verbatim>\<open>InMemoryRemediationLedger\<close> and
  \<^verbatim>\<open>InMemorySandboxLedger\<close> are instances.
\<close>

locale fact_ledger =
  fixes reduce :: "'p option \<Rightarrow> 'f \<Rightarrow> 'p result"
    and facts :: "'s \<Rightarrow> 'k \<Rightarrow> 'f list"
    and proj :: "'s \<Rightarrow> 'k \<Rightarrow> 'p option"
    and commands :: "'s \<Rightarrow> 'c \<Rightarrow> 'x option"
    and append_one :: "'a \<Rightarrow> ('s, 'p) op"
    and key_of :: "'a \<Rightarrow> 'k"
    and command_of :: "'a \<Rightarrow> 'c"
    and mark_of :: "'a \<Rightarrow> 'x"
    and fact_of :: "'a \<Rightarrow> 'f list \<Rightarrow> 'f"
    and empty :: 's
  assumes empty_ledger: "facts empty k = []" "proj empty k = None" "commands empty c = None"
    and append_kept: "append_one a s = (Inl e, s') \<Longrightarrow> facts s' = facts s \<and> proj s' = proj s \<and> commands s' = commands s"
    and append_known: "commands s (command_of a) = Some m \<Longrightarrow> append_one a s = (Inr p, s') \<Longrightarrow>
      m = mark_of a \<and> proj s (key_of a) = Some p \<and> s' = s"
    and append_again: "commands s (command_of a) = Some (mark_of a) \<Longrightarrow> proj s (key_of a) = Some p \<Longrightarrow> append_one a s = (Inr p, s)"
    and append_new: "commands s (command_of a) = None \<Longrightarrow> append_one a s = (Inr p, s') \<Longrightarrow>
      reduce (proj s (key_of a)) (fact_of a (facts s (key_of a))) = Inr p \<and>
      facts s' = (facts s)(key_of a := facts s (key_of a) @ [fact_of a (facts s (key_of a))]) \<and>
      proj s' = (proj s)(key_of a \<mapsto> p) \<and> commands s' = (commands s)(command_of a \<mapsto> mark_of a)"
    and mark_key: "command_of a = command_of b \<Longrightarrow> mark_of a = mark_of b \<Longrightarrow> key_of a = key_of b"
begin

definition run :: "'a list \<Rightarrow> 's \<Rightarrow> 's" where
  "run as s = fold (\<lambda>a s. snd (append_one a s)) as s"

definition replay :: "'f list \<Rightarrow> 'p option \<Rightarrow> 'p option result" where
  "replay fs c = foldE (\<lambda>f c. bindE (reduce c f) (\<lambda>p. Inr (Some p))) fs c"

definition extends :: "'s \<Rightarrow> 's \<Rightarrow> bool" where
  "extends s s' \<longleftrightarrow> (\<forall>k. \<exists>fs. facts s' k = facts s k @ fs) \<and> commands s \<subseteq>\<^sub>m commands s' \<and>
     (\<forall>k. proj s k \<noteq> None \<longrightarrow> proj s' k \<noteq> None)"

text \<open>Every recorded command has the projection it is answered with.\<close>

definition well :: "'s \<Rightarrow> bool" where
  "well s \<longleftrightarrow> (\<forall>k. replay (facts s k) None = Inr (proj s k)) \<and>
     (\<forall>a. commands s (command_of a) = Some (mark_of a) \<longrightarrow> proj s (key_of a) \<noteq> None)"

lemma run_append [simp]: "run (as @ bs) s = run bs (run as s)"
  by (simp add: run_def)

lemma append_cases:
  assumes "append_one a s = (r, s')"
  obtains (kept) "facts s' = facts s" "proj s' = proj s" "commands s' = commands s"
  | (added) p where "r = Inr p" "commands s (command_of a) = None"
      "reduce (proj s (key_of a)) (fact_of a (facts s (key_of a))) = Inr p"
      "facts s' = (facts s)(key_of a := facts s (key_of a) @ [fact_of a (facts s (key_of a))])"
      "proj s' = (proj s)(key_of a \<mapsto> p)" "commands s' = (commands s)(command_of a \<mapsto> mark_of a)"
proof (cases r)
  case (Inl e)
  with assms append_kept kept show ?thesis by blast
next
  case (Inr p)
  show ?thesis
  proof (cases "commands s (command_of a)")
    case None
    with append_new assms Inr added show ?thesis by blast
  next
    case (Some m)
    with append_known assms Inr kept show ?thesis by blast
  qed
qed

lemma extends_refl [simp]: "extends s s"
  by (simp add: extends_def)

lemma extends_trans: "extends s s' \<Longrightarrow> extends s' s'' \<Longrightarrow> extends s s''"
  unfolding extends_def by (metis append.assoc map_le_trans)

lemma append_extends: "extends s (snd (append_one a s))"
proof -
  obtain r s' where c: "append_one a s = (r, s')" by force
  then have "extends s s'"
    by (cases rule: append_cases) (auto simp: extends_def map_le_def)
  with c show ?thesis by simp
qed

lemma run_extends: "extends s (run as s)"
proof (induction as rule: rev_induct)
  case (snoc a as)
  moreover have "extends (run as s) (run (as @ [a]) s)" using append_extends by (simp add: run_def)
  ultimately show ?case by (rule extends_trans)
qed (simp add: run_def)

lemma append_well:
  assumes "well s"
  shows "well (snd (append_one a s))"
proof -
  obtain r s' where c: "append_one a s = (r, s')" by force
  then have "well s'"
  proof (cases rule: append_cases)
    case kept
    with assms show ?thesis by (simp add: well_def)
  next
    case (added p)
    have "replay (facts s (key_of a)) None = Inr (proj s (key_of a))" using assms by (simp add: well_def)
    with added(3) have "replay (facts s (key_of a) @ [fact_of a (facts s (key_of a))]) None = Inr (Some p)" by (simp add: replay_def)
    with assms added show ?thesis by (auto simp: well_def dest: mark_key)
  qed
  with c show ?thesis by simp
qed

lemma run_well: "well (run as empty)"
proof (induction as rule: rev_induct)
  case Nil
  then show ?case by (simp add: well_def run_def empty_ledger replay_def)
next
  case (snoc a as)
  then show ?case using append_well by (simp add: run_def)
qed

text \<open>The live projection is the replay of the facts.\<close>

lemma projection_is_replay: "replay (facts (run as empty) k) None = Inr (proj (run as empty) k)"
  using run_well by (simp add: well_def)

text \<open>A command that was recorded is answered without a write ever after, and its identifier is refused for
  anything else.\<close>

lemma command_once:
  assumes "append_one a (run as empty) = (Inr p, s)" "s' = run bs s" "command_of b = command_of a"
  shows "mark_of b = mark_of a \<Longrightarrow> \<exists>q. append_one b s' = (Inr q, s') \<and> proj s' (key_of a) = Some q"
    and "mark_of b \<noteq> mark_of a \<Longrightarrow> \<exists>e s''. append_one b s' = (Inl e, s'') \<and> facts s'' = facts s' \<and> proj s'' = proj s' \<and> commands s'' = commands s'"
proof -
  have s: "s = run (as @ [a]) empty" using assms(1) by (simp add: run_def)
  have known: "commands s (command_of a) = Some (mark_of a)"
  proof (cases "commands (run as empty) (command_of a)")
    case None
    then show ?thesis using append_new assms(1) by simp
  next
    case (Some m)
    then show ?thesis using append_known assms(1) by blast
  qed
  with run_extends [of s bs] assms(2) have known': "commands s' (command_of a) = Some (mark_of a)"
    unfolding extends_def map_le_def by (metis domI)
  have "well s'" using assms(2) s run_well [of "(as @ [a]) @ bs"] by (simp only: run_append)
  with known' have "proj s' (key_of a) \<noteq> None" by (simp add: well_def)
  then obtain q where q: "proj s' (key_of a) = Some q" by blast
  show "\<exists>q. append_one b s' = (Inr q, s') \<and> proj s' (key_of a) = Some q" if "mark_of b = mark_of a"
    using append_again [of s' b q] known' q that assms(3) mark_key [of b a] by simp
  show "\<exists>e s''. append_one b s' = (Inl e, s'') \<and> facts s'' = facts s' \<and> proj s'' = proj s' \<and> commands s'' = commands s'"
    if "mark_of b \<noteq> mark_of a"
  proof -
    obtain r s'' where c: "append_one b s' = (r, s'')" by force
    with append_known [of s' b "mark_of a" _ s''] known' that assms(3) obtain e where "r = Inl e" by (cases r) auto
    with c append_kept show ?thesis by blast
  qed
qed

end

end
