(* ===== verification/Remediation_Invariant.thy ===== *)
theory Remediation_Invariant
  imports Remediation_Ledger Fact_Ledger
begin

text \<open>
  The remediation ledger keeps its promises: the reducer is a projection machine, the facts of a
  plan are a hash chain, and in every ledger built by appends the stored projection is the replay
  of the stored facts and the command table lists exactly the recorded facts.
\<close>

section \<open>The reducer as a projection machine\<close>

abbreviation rem_moves :: "remediation_status \<Rightarrow> remediation_status \<Rightarrow> bool" where
  "rem_moves a b \<equiv> b \<in> set (rem_allowed a)"

lemma terminal_no_move: "a \<in> set rem_terminal \<Longrightarrow> rem_allowed a = []"
  by (auto simp: rem_terminal_def)

lemma no_move_terminal: "rem_allowed a = [] \<Longrightarrow> a \<in> set rem_terminal"
  by (cases a) (auto simp: rem_terminal_def)

lemma validate_transition_iff: "validate_transition a b = Inr u \<longleftrightarrow> rem_moves a b"
  using terminal_no_move [of a] by (auto simp: validate_transition_def)

lemma first_projection_fields:
  assumes "first_projection rt f = Inr p"
  shows "rj_tenant_id p = rf_tenant_id f" "rj_plan_id p = rf_plan_id f" "rj_version p = Suc 0"
    "rj_status p = status_by_fact (rf_fact_type f)" "rj_last_fact_digest p = rf_canonical_digest f"
    "rj_approval_id p = None"
  using assms by (auto simp: first_projection_def Let_def split: if_splits)

lemma next_projection_fields:
  assumes "next_projection rt p f = Inr q"
  shows "rj_tenant_id q = rj_tenant_id p" "rj_plan_id q = rj_plan_id p" "rj_version q = rf_sequence f"
    "rj_status q = status_by_fact (rf_fact_type f)" "rj_last_fact_digest q = rf_canonical_digest f"
    "rj_plan_digest q = rj_plan_digest p" "rj_fence_token q = rj_fence_token p" "rj_run_id q = rj_run_id p"
  using assms by (auto simp: next_projection_def Let_def split: if_splits)

lemma reduce_first:
  "reduce_remediation rt None f = Inr p \<longleftrightarrow> rf_fact_type f = Fact_PROPOSAL_RECORDED \<and> first_projection rt f = Inr p"
  by (auto simp: reduce_remediation_def)

lemma reduce_later:
  "reduce_remediation rt (Some p) f = Inr q \<longleftrightarrow>
     rf_sequence f = Suc (rj_version p) \<and> rf_previous_digest f = rj_last_fact_digest p \<and>
     rem_moves (rj_status p) (status_by_fact (rf_fact_type f)) \<and> next_projection rt p f = Inr q"
  by (auto simp: reduce_remediation_def validate_transition_iff)

interpretation rem_machine: projection_machine "reduce_remediation rt" rj_status rj_version rf_sequence
  rem_moves Rem_PROPOSED
  for rt :: runtime
proof
  show "reduce_remediation rt None e = Inr p \<Longrightarrow> rj_status p = Rem_PROPOSED" for e p
    by (auto simp: reduce_first first_projection_fields)
  show "reduce_remediation rt (Some p) e = Inr p' \<Longrightarrow>
      rem_moves (rj_status p) (rj_status p') \<and> rf_sequence e = Suc (rj_version p) \<and> rj_version p' = rf_sequence e"
    for e p p'
    by (auto simp: reduce_later dest: next_projection_fields)
qed

lemma replay_facts_machine: "replay_facts rt fs c = rem_machine.replay rt fs c"
  by (induction fs arbitrary: c) simp_all

lemma replay_facts_snoc:
  "replay_facts rt (fs @ [f]) c = bindE (replay_facts rt fs c) (\<lambda>c'. bindE (reduce_remediation rt c' f) (\<lambda>p. Inr (Some p)))"
  by (cases "replay_facts rt fs c") (simp_all add: replay_facts_machine rem_machine.replay_append)

section \<open>Facts as a hash chain\<close>

definition fact_content :: "remediation_fact \<Rightarrow> remediation_fact" where
  "fact_content f = f\<lparr>rf_payload := norm_dict (rf_payload f), rf_canonical_digest := []\<rparr>"

lemma fact_type_value_inj [simp]: "fact_type_value a = fact_type_value b \<longleftrightarrow> a = b"
  by (cases a; cases b) simp_all

lemma norm_fact_document: "norm_json (fact_document f) = fact_document (f\<lparr>rf_payload := norm_dict (rf_payload f)\<rparr>)"
  by (simp add: fact_document_def norm_dict_def)

lemma fact_document_inj:
  assumes "fact_document f = fact_document g"
  shows "rf_tenant_id f = rf_tenant_id g" "rf_plan_id f = rf_plan_id g" "rf_sequence f = rf_sequence g"
    "rf_fact_id f = rf_fact_id g" "rf_fact_type f = rf_fact_type g" "rf_command_id f = rf_command_id g"
    "rf_actor_ref f = rf_actor_ref g" "rf_recorded_at f = rf_recorded_at g" "rf_payload f = rf_payload g"
    "rf_previous_digest f = rf_previous_digest g"
  using assms by (simp_all add: fact_document_def)

lemma fact_document_content:
  assumes "norm_json (fact_document f) = norm_json (fact_document g)"
  shows "fact_content f = fact_content g"
  using fact_document_inj [OF assms [unfolded norm_fact_document]]
  by (cases f; cases g) (simp add: fact_content_def)

interpretation fact_chain: hash_chain "\<lambda>v. sha256_hexdigest rt (render rt v)" "\<lambda>f. norm_json (fact_document f)"
  rf_previous_digest rf_canonical_digest fact_content
  for rt :: runtime
proof
  fix f g assume m: "norm_json (fact_document f) = norm_json (fact_document g)"
  then show "fact_content f = fact_content g" by (rule fact_document_content)
  from fact_document_inj(10) [OF m [unfolded norm_fact_document]]
  show "rf_previous_digest f = rf_previous_digest g" by simp
qed

lemma fact_chain_head: "fact_chain.head zero_hash fs = last_digest fs"
proof -
  have "fact_chain.head h fs = (if fs = [] then h else rf_canonical_digest (last fs))" for h
    by (induction fs arbitrary: h) auto
  then show ?thesis by (simp add: last_digest_def)
qed

lemma make_fact_fields:
  fixes rt t p fs ty c a now payload
  defines "f \<equiv> make_fact rt t p fs ty c a now payload"
  shows "rf_tenant_id f = t" "rf_plan_id f = p" "rf_sequence f = Suc (length fs)" "rf_fact_type f = ty"
    "rf_command_id f = c" "rf_actor_ref f = a" "rf_recorded_at f = now" "rf_payload f = dict_sorted payload"
    "rf_previous_digest f = last_digest fs"
    "rf_canonical_digest f = sha256_hexdigest rt (render rt (norm_json (fact_document f)))"
  by (simp_all add: f_def make_fact_def Let_def canonical_digest_def canonical_json_def fact_document_def
      del: norm_json.simps render.simps)

section \<open>The invariant\<close>

definition plan_log_ok :: "runtime \<Rightarrow> string \<Rightarrow> string \<Rightarrow> remediation_fact list \<Rightarrow> remediation_projection option \<Rightarrow> bool" where
  "plan_log_ok rt t p fs c \<longleftrightarrow>
     replay_facts rt fs None = Inr c \<and> length fs \<le> max_facts \<and> fact_chain.chain rt zero_hash fs \<and>
     (\<forall>f \<in> set fs. valid_fact f \<and> rf_tenant_id f = t \<and> rf_plan_id f = p)"

text \<open>A command id of a tenant is recorded exactly when one fact carries it.\<close>

definition commands_ok :: "runtime \<Rightarrow> remediation_ledger \<Rightarrow> bool" where
  "commands_ok rt l \<longleftrightarrow>
     (\<forall>t c p fp. rl_commands l (t, c) = Some (p, fp) \<longleftrightarrow>
        (\<exists>f \<in> set (plan_facts l t p). rf_command_id f = c \<and> fp = command_fingerprint rt (rf_fact_type f) (rf_payload f)))"

definition rem_inv :: "runtime \<Rightarrow> remediation_ledger \<Rightarrow> bool" where
  "rem_inv rt l \<longleftrightarrow> (\<forall>t p. plan_log_ok rt t p (plan_facts l t p) (rl_projections l (t, p))) \<and> commands_ok rt l"

lemma replay_facts_None: "replay_facts rt fs None = Inr None \<longleftrightarrow> fs = []"
  using rem_machine.replay_Some by (cases fs) (auto simp: replay_facts_machine)

lemma plan_log_version:
  assumes "plan_log_ok rt t p fs (Some c)"
  shows "rj_version c = length fs \<and> map rf_sequence (tl fs) = [2..<Suc (length fs)] \<and>
    rem_moves\<^sup>*\<^sup>* Rem_PROPOSED (rj_status c)"
proof -
  from assms have r: "rem_machine.replay rt fs None = Inr (Some c)"
    by (simp add: plan_log_ok_def replay_facts_machine)
  then obtain f gs where fs: "fs = f # gs" by (cases fs) auto
  with r obtain q where q: "reduce_remediation rt None f = Inr q" "rem_machine.replay rt gs (Some q) = Inr (Some c)"
    by auto
  from q(1) have "rj_version q = Suc 0" by (auto simp: reduce_first intro: first_projection_fields)
  with rem_machine.replay_version [OF q(2)] rem_machine.replay_from_initial [OF r] fs show ?thesis
    by (simp add: numeral_2_eq_2)
qed

lemma plan_log_projection:
  assumes "plan_log_ok rt t p fs (Some c)"
  shows "rj_tenant_id c = t \<and> rj_plan_id c = p \<and> rj_last_fact_digest c = last_digest fs"
proof -
  have "replay_facts rt fs None = Inr (Some c) \<Longrightarrow> \<forall>f \<in> set fs. rf_tenant_id f = t \<and> rf_plan_id f = p \<Longrightarrow>
      rj_tenant_id c = t \<and> rj_plan_id c = p \<and> rj_last_fact_digest c = last_digest fs" for c
  proof (induction fs arbitrary: c rule: rev_induct)
    case Nil
    then show ?case by simp
  next
    case (snoc f fs)
    from snoc.prems(1) obtain c' where c': "replay_facts rt fs None = Inr c'" "reduce_remediation rt c' f = Inr c"
      by (auto simp: replay_facts_snoc)
    show ?case
    proof (cases c')
      case None
      with c'(2) have "first_projection rt f = Inr c" by (simp add: reduce_first)
      with snoc.prems(2) show ?thesis by (simp add: first_projection_fields last_digest_def)
    next
      case (Some d)
      with c'(2) have n: "next_projection rt d f = Inr c" by (simp add: reduce_later)
      have "\<forall>f \<in> set fs. rf_tenant_id f = t \<and> rf_plan_id f = p" using snoc.prems(2) by simp
      from snoc.IH [OF _ this] Some c'(1) have "rj_tenant_id d = t \<and> rj_plan_id d = p" by blast
      then show ?thesis by (simp add: next_projection_fields [OF n] last_digest_def)
    qed
  qed
  with assms show ?thesis by (auto simp: plan_log_ok_def)
qed

section \<open>Outcomes of an append\<close>

abbreviation touched :: "remediation_ledger \<Rightarrow> string \<Rightarrow> string \<Rightarrow> remediation_ledger" where
  "touched l t p \<equiv> l\<lparr>rl_facts := (rl_facts l)((t, p) \<mapsto> plan_facts l t p)\<rparr>"

lemma append_fact_cases:
  assumes "append_fact rt t p v ty c a now payload l = (r, l')"
  obtains (replayed) q where "rl_commands l (t, c) = Some (p, command_fingerprint rt ty payload)"
      "rl_projections l (t, p) = Some q" "r = Inr q" "l' = l"
    | (lost) "rl_commands l (t, c) = Some (p, command_fingerprint rt ty payload)"
      "rl_projections l (t, p) = None" "r = Inl (KeyError ''projection'')" "l' = l"
    | (conflict) k where "rl_commands l (t, c) = Some k" "k \<noteq> (p, command_fingerprint rt ty payload)"
      "r = Inl (IdempotencyConflict ''command id was replayed with different remediation input'')" "l' = l"
    | (refused) e where "rl_commands l (t, c) = None" "r = Inl e" "l' = touched l t p"
      "max_facts \<le> length (plan_facts l t p) \<or> v \<noteq> length (plan_facts l t p) \<or>
        \<not> valid_fact (make_fact rt t p (plan_facts l t p) ty c a now payload) \<or>
        reduce_remediation rt (rl_projections l (t, p)) (make_fact rt t p (plan_facts l t p) ty c a now payload) = Inl e"
    | (appended) f q where "rl_commands l (t, c) = None" "length (plan_facts l t p) < max_facts"
      "v = length (plan_facts l t p)" "f = make_fact rt t p (plan_facts l t p) ty c a now payload" "valid_fact f"
      "reduce_remediation rt (rl_projections l (t, p)) f = Inr q" "r = Inr q"
      "l' = l\<lparr>rl_facts := (rl_facts l)((t, p) \<mapsto> plan_facts l t p @ [f]),
             rl_commands := (rl_commands l)((t, c) \<mapsto> (p, command_fingerprint rt ty payload)),
             rl_projections := (rl_projections l)((t, p) \<mapsto> q)\<rparr>"
proof (cases "rl_commands l (t, c)")
  case None
  let ?f = "make_fact rt t p (plan_facts l t p) ty c a now payload"
  show ?thesis
  proof (cases "max_facts \<le> length (plan_facts l t p) \<or> v \<noteq> length (plan_facts l t p) \<or> \<not> valid_fact ?f")
    case True
    with assms None refused [OF None] show ?thesis
      by (auto simp: append_fact_def Let_def split: if_splits)
  next
    case False
    then show ?thesis
    proof (cases "reduce_remediation rt (rl_projections l (t, p)) ?f")
      case (Inl e)
      with assms None False have "r = Inl e" "l' = touched l t p" by (simp_all add: append_fact_def)
      with refused [OF None] Inl show ?thesis by blast
    next
      case (Inr q)
      with assms None False have "r = Inr q"
        "l' = l\<lparr>rl_facts := (rl_facts l)((t, p) \<mapsto> plan_facts l t p @ [?f]),
             rl_commands := (rl_commands l)((t, c) \<mapsto> (p, command_fingerprint rt ty payload)),
             rl_projections := (rl_projections l)((t, p) \<mapsto> q)\<rparr>"
        by (simp_all add: append_fact_def Let_def)
      with appended [OF None _ _ refl _ Inr] False show ?thesis by simp
    qed
  qed
next
  case (Some k)
  with assms replayed lost conflict show ?thesis
    by (cases "rl_projections l (t, p)") (auto simp: append_fact_def split: if_splits)
qed

lemma plan_facts_touched [simp]: "plan_facts (touched l t p) t' p' = plan_facts l t' p'"
  by (simp add: plan_facts_def get_default_def)

lemma fingerprint_sorted [simp]: "command_fingerprint rt ty (dict_sorted d) = command_fingerprint rt ty d"
  using norm_dict_sorted [of d] by (simp add: command_fingerprint_def canonical_digest_def canonical_json_def norm_dict_def)

lemma rem_inv_touched: "rem_inv rt l \<Longrightarrow> rem_inv rt (touched l t p)"
  unfolding rem_inv_def commands_ok_def by simp

lemma rem_inv_empty: "rem_inv rt empty_remediation_ledger"
  by (simp add: rem_inv_def empty_remediation_ledger_def plan_log_ok_def commands_ok_def plan_facts_def get_default_def)

lemma plan_log_snoc:
  assumes "plan_log_ok rt t p fs c" "length fs < max_facts" "f = make_fact rt t p fs ty k a now payload"
    "valid_fact f" "reduce_remediation rt c f = Inr q"
  shows "plan_log_ok rt t p (fs @ [f]) (Some q)"
proof -
  have "fact_chain.chain rt (last_digest fs) [f]"
    using make_fact_fields [of rt t p fs ty k a now payload] assms(3) by simp
  with assms(1,2,4,5) make_fact_fields(1,2) [of rt t p fs ty k a now payload] assms(3) show ?thesis
    by (auto simp: plan_log_ok_def replay_facts_snoc fact_chain_head simp del: fact_chain.chain.simps)
qed

lemma commands_ok_append:
  assumes "commands_ok rt l" "rl_commands l (t, c) = None"
    and f: "rf_command_id f = c" "command_fingerprint rt (rf_fact_type f) (rf_payload f) = fp"
    and l': "rl_facts l' = (rl_facts l)((t, p) \<mapsto> plan_facts l t p @ [f])" "rl_commands l' = (rl_commands l)((t, c) \<mapsto> (p, fp))"
  shows "commands_ok rt l'"
proof -
  have facts: "plan_facts l' t' p' = (if (t', p') = (t, p) then plan_facts l t p @ [f] else plan_facts l t' p')" for t' p'
    using l' by (auto simp: plan_facts_def get_default_def)
  have none: "g \<in> set (plan_facts l t p') \<Longrightarrow> rf_command_id g \<noteq> c" for g p'
    using assms(1,2) unfolding commands_ok_def by (metis option.distinct(1))
  show ?thesis unfolding commands_ok_def
  proof (intro allI)
    fix t' c' p' fp'
    show "(rl_commands l' (t', c') = Some (p', fp')) \<longleftrightarrow>
       (\<exists>g \<in> set (plan_facts l' t' p'). rf_command_id g = c' \<and> fp' = command_fingerprint rt (rf_fact_type g) (rf_payload g))"
    proof (cases "(t', c') = (t, c)")
      case True
      with none l'(2) f show ?thesis by (auto simp: facts)
    next
      case False
      with assms(1) l'(2) f(1) show ?thesis unfolding commands_ok_def by (auto simp: facts)
    qed
  qed
qed

lemma append_fact_inv:
  assumes "rem_inv rt l" "append_fact rt t p v ty c a now payload l = (r, l')"
  shows "rem_inv rt l'"
  using assms(2)
proof (cases rule: append_fact_cases)
  case (appended f q)
  note fld = make_fact_fields [of rt t p "plan_facts l t p" ty c a now payload, folded appended(4)]
  have "plan_log_ok rt t p (plan_facts l t p @ [f]) (Some q)"
    using assms(1) plan_log_snoc appended unfolding rem_inv_def by blast
  with assms(1) appended have "plan_log_ok rt t' p' (plan_facts l' t' p') (rl_projections l' (t', p'))" for t' p'
    by (auto simp: rem_inv_def plan_facts_def get_default_def)
  moreover have "commands_ok rt l'"
    using assms(1) appended fld by (intro commands_ok_append [of rt l t c f _ l' p]) (simp_all add: rem_inv_def)
  ultimately show ?thesis by (simp add: rem_inv_def)
qed (use assms(1) rem_inv_touched in simp_all)

section \<open>Reachable ledgers\<close>

inductive rem_reachable :: "runtime \<Rightarrow> remediation_ledger \<Rightarrow> bool" for rt where
  empty: "rem_reachable rt empty_remediation_ledger"
| append: "rem_reachable rt l \<Longrightarrow> rem_reachable rt (snd (append_fact rt t p v ty c a now payload l))"

lemma rem_reachable_inv: "rem_reachable rt l \<Longrightarrow> rem_inv rt l"
proof (induction rule: rem_reachable.induct)
  case empty
  show ?case by (rule rem_inv_empty)
next
  case (append l t p v ty c a now payload)
  then show ?case by (metis append_fact_inv prod.collapse)
qed

text \<open>How a ledger changes: the facts of every plan grow at the end and commands are kept.\<close>

definition rem_extends :: "remediation_ledger \<Rightarrow> remediation_ledger \<Rightarrow> bool" where
  "rem_extends l l' \<longleftrightarrow>
     (\<forall>t p. \<exists>gs. plan_facts l' t p = plan_facts l t p @ gs) \<and> rl_commands l \<subseteq>\<^sub>m rl_commands l' \<and>
     (\<forall>k q. rl_projections l k = Some q \<longrightarrow> (\<exists>q'. rl_projections l' k = Some q'))"

lemma rem_extends_refl [simp]: "rem_extends l l"
  by (simp add: rem_extends_def)

lemma rem_extends_trans: "rem_extends l m \<Longrightarrow> rem_extends m n \<Longrightarrow> rem_extends l n"
  unfolding rem_extends_def by (metis append.assoc map_le_trans)

lemma append_fact_extends:
  assumes "append_fact rt t p v ty c a now payload l = (r, l')"
  shows "rem_extends l l'"
  using assms by (cases rule: append_fact_cases)
    (auto simp: rem_extends_def plan_facts_def get_default_def map_le_def)

section \<open>The ledger as a fact ledger\<close>

text \<open>The arguments of one append.\<close>

record remediation_append_call =
  ra_tenant_id :: string
  ra_plan_id :: string
  ra_expected_version :: nat
  ra_fact_type :: fact_type
  ra_command_id :: string
  ra_actor_ref :: string
  ra_recorded_at :: datetime
  ra_payload :: dict

definition append_remediation :: "runtime \<Rightarrow> remediation_append_call \<Rightarrow> (remediation_ledger, remediation_projection) op" where
  "append_remediation rt a = append_fact rt (ra_tenant_id a) (ra_plan_id a) (ra_expected_version a) (ra_fact_type a)
     (ra_command_id a) (ra_actor_ref a) (ra_recorded_at a) (ra_payload a)"

definition append_key :: "remediation_append_call \<Rightarrow> string \<times> string" where
  "append_key a = (ra_tenant_id a, ra_plan_id a)"

definition append_command :: "remediation_append_call \<Rightarrow> string \<times> string" where
  "append_command a = (ra_tenant_id a, ra_command_id a)"

definition append_mark :: "runtime \<Rightarrow> remediation_append_call \<Rightarrow> string \<times> string" where
  "append_mark rt a = (ra_plan_id a, command_fingerprint rt (ra_fact_type a) (ra_payload a))"

definition appended_fact :: "runtime \<Rightarrow> remediation_append_call \<Rightarrow> remediation_fact list \<Rightarrow> remediation_fact" where
  "appended_fact rt a fs = make_fact rt (ra_tenant_id a) (ra_plan_id a) fs (ra_fact_type a) (ra_command_id a) (ra_actor_ref a)
     (ra_recorded_at a) (ra_payload a)"

definition facts_at :: "remediation_ledger \<Rightarrow> string \<times> string \<Rightarrow> remediation_fact list" where
  "facts_at l k = get_default (rl_facts l) k []"

lemmas append_call_defs = append_remediation_def append_key_def append_command_def append_mark_def appended_fact_def

lemma facts_at_plan: "facts_at l (t, p) = plan_facts l t p"
  by (simp add: facts_at_def plan_facts_def)

interpretation rem_log: fact_ledger "reduce_remediation rt" facts_at rl_projections rl_commands "append_remediation rt"
  append_key append_command "append_mark rt" "appended_fact rt" empty_remediation_ledger
  for rt :: runtime
proof
  fix a s s' e q m
  show "facts_at s' = facts_at s \<and> rl_projections s' = rl_projections s \<and> rl_commands s' = rl_commands s"
    if "append_remediation rt a s = (Inl e, s')"
    using that unfolding append_call_defs
    by (cases rule: append_fact_cases) (simp_all add: facts_at_def plan_facts_def get_default_def fun_eq_iff)
  show "m = append_mark rt a \<and> rl_projections s (append_key a) = Some q \<and> s' = s"
    if "rl_commands s (append_command a) = Some m" "append_remediation rt a s = (Inr q, s')"
    using that(2,1) unfolding append_call_defs by (cases rule: append_fact_cases) simp_all
  show "append_remediation rt a s = (Inr q, s)"
    if "rl_commands s (append_command a) = Some (append_mark rt a)" "rl_projections s (append_key a) = Some q"
    using that by (simp add: append_call_defs append_fact_def)
  show "reduce_remediation rt (rl_projections s (append_key a)) (appended_fact rt a (facts_at s (append_key a))) = Inr q \<and>
      facts_at s' = (facts_at s)(append_key a := facts_at s (append_key a) @ [appended_fact rt a (facts_at s (append_key a))]) \<and>
      rl_projections s' = (rl_projections s)(append_key a \<mapsto> q) \<and> rl_commands s' = (rl_commands s)(append_command a \<mapsto> append_mark rt a)"
    if "rl_commands s (append_command a) = None" "append_remediation rt a s = (Inr q, s')"
    using that(2,1) unfolding append_call_defs facts_at_plan
    by (cases rule: append_fact_cases) (auto simp: facts_at_def plan_facts_def get_default_def fun_eq_iff)
qed (auto simp: empty_remediation_ledger_def facts_at_def get_default_def append_call_defs)

end
