(* ===== verification/Remediation_Steps.thy ===== *)
theory Remediation_Steps
  imports Effect_Service Remediation_Invariant
begin

text \<open>
  Every service call as a sequence of atomic steps. A method of a store runs under its lock, so
  calls of several workers interleave between such steps and nowhere else. \<open>control_step\<close> lists
  the steps with what the services guarantee about their arguments; the theorems say that each
  service call is a sequence of them, so an invariant of the steps holds at every moment of
  every interleaving of the services.
\<close>

section \<open>Operations that move along a relation\<close>

text \<open>\<open>moves m\<close>: from a state of the invariant the operation goes along the relation, whether it
  returns or raises. The rules follow the shape of the operation.\<close>

locale stepwise =
  fixes inv :: "'s \<Rightarrow> bool"
    and rel :: "'s \<Rightarrow> 's \<Rightarrow> bool"
  assumes rel_refl: "rel s s"
    and rel_trans: "rel s s' \<Longrightarrow> rel s' s'' \<Longrightarrow> rel s s''"
    and rel_inv: "inv s \<Longrightarrow> rel s s' \<Longrightarrow> inv s'"
begin

definition moves :: "('s, 'a) op \<Rightarrow> bool" where
  "moves m \<longleftrightarrow> (\<forall>s. inv s \<longrightarrow> rel s (snd (m s)))"

lemma movesI: "(\<And>s r s'. inv s \<Longrightarrow> m s = (r, s') \<Longrightarrow> rel s s') \<Longrightarrow> moves m"
  unfolding moves_def by (metis prod.collapse)

lemma movesD: "moves m \<Longrightarrow> inv s \<Longrightarrow> m s = (r, s') \<Longrightarrow> rel s s'"
  unfolding moves_def by (metis snd_conv)

lemma moves_pure: "moves (returnS x)" "moves (raiseS e)" "moves (getS f)" "moves (liftS r)" "moves (requireS b e)"
  by (auto simp: moves_def returnS_def raiseS_def getS_def liftS_def requireS_def rel_refl)

lemma moves_bind:
  assumes "moves m" "\<And>x s s'. inv s \<Longrightarrow> m s = (Inr x, s') \<Longrightarrow> moves (f x)"
  shows "moves (bindS m f)"
proof (rule movesI)
  fix s r s' assume i: "inv s" and b: "bindS m f s = (r, s')"
  obtain q s1 where m: "m s = (q, s1)" by (cases "m s")
  from movesD [OF assms(1) i m] have r1: "rel s s1" .
  show "rel s s'"
  proof (cases q)
    case (Inl e)
    with b m r1 show ?thesis by (simp add: bindS_def)
  next
    case (Inr x)
    with b m have "f x s1 = (r, s')" by (simp add: bindS_def)
    from movesD [OF assms(2) [OF i m [unfolded Inr]] rel_inv [OF i r1] this] r1 show ?thesis
      by (rule rel_trans [rotated])
  qed
qed

lemma moves_if: "(b \<Longrightarrow> moves m) \<Longrightarrow> (\<not> b \<Longrightarrow> moves n) \<Longrightarrow> moves (if b then m else n)"
  by simp

lemma moves_case_option:
  "(v = None \<Longrightarrow> moves m) \<Longrightarrow> (\<And>x. v = Some x \<Longrightarrow> moves (f x)) \<Longrightarrow> moves (case v of None \<Rightarrow> m | Some x \<Rightarrow> f x)"
  by (cases v) simp_all

lemma moves_case_prod: "(\<And>a b. v = (a, b) \<Longrightarrow> moves (f a b)) \<Longrightarrow> moves (case v of (a, b) \<Rightarrow> f a b)"
  by (cases v) simp

lemma moves_let: "(\<And>x. x = v \<Longrightarrow> moves (f x)) \<Longrightarrow> moves (let x = v in f x)"
  by simp

lemmas moves_rules = moves_pure moves_bind moves_if moves_case_option moves_case_prod moves_let

end

section \<open>Atomic steps\<close>

text \<open>What \<open>decide\<close> guarantees about a decision that it stores.\<close>

definition admissible :: "'a service_env \<Rightarrow> approval_decision \<Rightarrow> bool" where
  "admissible env d \<longleftrightarrow> (\<exists>i plan approval.
     valid_plan (se_runtime env) plan \<and> rp_plan_digest plan = dc_plan_digest d \<and>
     ar_canonical_digest approval = canonical_digest (se_runtime env) (approval_document approval) \<and>
     ar_canonical_digest approval = dc_approval_digest d \<and> ar_plan_digest approval = rp_plan_digest plan \<and>
     id_principal_kind i = HUMAN \<and> id_tenant_id i = dc_tenant_id d \<and> dc_approver_ref d = actor_ref_of env i \<and>
     dc_approver_role d \<in> set (id_roles i) \<inter> set (rq_required_roles (ar_requirement approval)) \<and>
     (rq_prohibit_self_approval (ar_requirement approval) \<longrightarrow> dc_approver_ref d \<noteq> rp_proposer_ref plan) \<and>
     rq_rationale_min_length (ar_requirement approval) \<le> length (dc_rationale d) \<and>
     length (dc_rationale d) \<le> rq_rationale_max_length (ar_requirement approval))"

inductive control_step :: "'a service_env \<Rightarrow> 'a service_state \<Rightarrow> 'a service_state \<Rightarrow> bool" for env where
  tick: "control_step env s (s\<lparr>sv_ticks := n\<rparr>)"
| ledger: "append_fact (se_runtime env) t p v ty c a now payload (sv_ledger s) = (r, l) \<Longrightarrow>
    control_step env s (s\<lparr>sv_ledger := l\<rparr>)"
| plan: "valid_plan (se_runtime env) plan \<Longrightarrow> put_plan plan (sv_store s) = (r, st) \<Longrightarrow>
    control_step env s (s\<lparr>sv_store := st\<rparr>)"
| approval: "ar_canonical_digest a = canonical_digest (se_runtime env) (approval_document a) \<Longrightarrow>
    put_approval a (sv_store s) = (r, st) \<Longrightarrow> control_step env s (s\<lparr>sv_store := st\<rparr>)"
| decision: "admissible env d \<Longrightarrow> add_decision d (sv_store s) = (r, st) \<Longrightarrow> control_step env s (s\<lparr>sv_store := st\<rparr>)"
| verification: "put_verification v (sv_store s) = (r, st) \<Longrightarrow> control_step env s (s\<lparr>sv_store := st\<rparr>)"
| claim: "claim_effect (se_runtime env) i w now until (sv_claims s) = (r, cl) \<Longrightarrow>
    control_step env s (s\<lparr>sv_claims := cl\<rparr>)"
| complete: "complete_effect rc tk (sv_claims s) = (r, cl) \<Longrightarrow> control_step env s (s\<lparr>sv_claims := cl\<rparr>)"
| quota: "reserve t rid n (sv_quota s) = (r, q) \<Longrightarrow> control_step env s (s\<lparr>sv_quota := q\<rparr>)"
| port: "control_step env s (s\<lparr>sv_adapter := ad, sv_calls := sv_calls s @ [c]\<rparr>)"
| policy: "valid_policy (se_runtime env) p \<Longrightarrow> replace_policy p (sv_policies s) = (r, pol) \<Longrightarrow>
    control_step env s (s\<lparr>sv_policies := pol\<rparr>)"

definition initial_service :: "'a \<Rightarrow> (string \<rightharpoonup> int) \<Rightarrow> 'a service_state" where
  "initial_service adapter limits = \<lparr>sv_ledger = empty_remediation_ledger, sv_store = empty_control_store,
     sv_policies = Map.empty, sv_claims = Map.empty, sv_quota = make_quota limits, sv_adapter = adapter,
     sv_ticks = 0, sv_calls = []\<rparr>"

definition service_reachable :: "'a service_env \<Rightarrow> (string \<rightharpoonup> int) \<Rightarrow> 'a service_state \<Rightarrow> bool" where
  "service_reachable env limits s \<longleftrightarrow> (\<exists>adapter. (control_step env)\<^sup>*\<^sup>* (initial_service adapter limits) s)"

section \<open>The invariant of the steps\<close>

definition store_ok :: "'a service_env \<Rightarrow> control_store \<Rightarrow> bool" where
  "store_ok env st \<longleftrightarrow>
     (\<forall>k p. cs_plans st k = Some p \<longrightarrow> valid_plan (se_runtime env) p \<and> k = (rp_tenant_id p, rp_plan_id p)) \<and>
     (\<forall>k a. cs_approvals st k = Some a \<longrightarrow> k = (ar_tenant_id a, ar_approval_id a) \<and>
        ar_canonical_digest a = canonical_digest (se_runtime env) (approval_document a)) \<and>
     decisions_distinct st \<and>
     (\<forall>t a. \<forall>d \<in> set (decisions st t a). admissible env d \<and> dc_tenant_id d = t \<and> dc_approval_id d = a)"

definition service_inv :: "'a service_env \<Rightarrow> (string \<rightharpoonup> int) \<Rightarrow> 'a service_state \<Rightarrow> bool" where
  "service_inv env limits s \<longleftrightarrow>
     rem_inv (se_runtime env) (sv_ledger s) \<and> store_ok env (sv_store s) \<and> quota_inv limits (sv_quota s) \<and>
     (\<forall>t p. sv_policies s t = Some p \<longrightarrow> ap_tenant_id p = t \<and> valid_policy (se_runtime env) p)"

lemma put_plan_ok:
  assumes "store_ok env st" "valid_plan (se_runtime env) p" "put_plan p st = (r, st')"
  shows "store_ok env st'"
  using assms by (auto simp: put_plan_def Let_def store_ok_def decisions_distinct_def decisions_def split: option.splits if_splits)

lemma put_approval_ok:
  assumes "store_ok env st" "ar_canonical_digest a = canonical_digest (se_runtime env) (approval_document a)"
    "put_approval a st = (r, st')"
  shows "store_ok env st'"
  using assms by (auto simp: put_approval_def Let_def store_ok_def decisions_distinct_def decisions_def split: option.splits if_splits)

lemma put_verification_ok: "store_ok env st \<Longrightarrow> put_verification v st = (r, st') \<Longrightarrow> store_ok env st'"
  by (auto simp: put_verification_def Let_def store_ok_def decisions_distinct_def decisions_def split: option.splits if_splits)

lemma add_decision_ok:
  assumes "store_ok env st" "admissible env d" "add_decision d st = (r, st')"
  shows "store_ok env st'"
  using assms(3)
proof (cases rule: add_decision_cases)
  case replayed
  with assms(1) show ?thesis by simp
next
  case (refused e)
  with assms(1) add_decision_distinct [OF _ assms(3)] show ?thesis by (simp add: store_ok_def)
next
  case added
  have "decisions st' t a = (if t = dc_tenant_id d \<and> a = dc_approval_id d then decisions st t a @ [d] else decisions st t a)" for t a
    using added by (auto simp: decisions_def get_default_def)
  with added assms(1,2) add_decision_distinct [OF _ assms(3)] show ?thesis by (auto simp: store_ok_def)
qed

lemma control_step_inv:
  assumes "control_step env s s'" "service_inv env limits s"
  shows "service_inv env limits s'"
  using assms
proof (cases rule: control_step.cases)
  case (policy p r pol)
  with assms(2) show ?thesis
    by (auto simp: service_inv_def replace_policy_def split: option.splits if_splits)
qed (auto simp: service_inv_def intro: append_fact_inv put_plan_ok put_approval_ok put_verification_ok add_decision_ok effect_units.reserve_inv)

lemma control_steps_inv: "(control_step env)\<^sup>*\<^sup>* s s' \<Longrightarrow> service_inv env limits s \<Longrightarrow> service_inv env limits s'"
  by (induction rule: rtranclp_induct) (auto intro: control_step_inv)

lemma initial_service_inv: "service_inv env limits (initial_service adapter limits)"
  by (simp add: service_inv_def initial_service_def rem_inv_empty quota_inv_make store_ok_def empty_control_store_def
      decisions_distinct_def decisions_def get_default_def)

lemma service_reachable_inv: "service_reachable env limits s \<Longrightarrow> service_inv env limits s"
  unfolding service_reachable_def by (elim exE control_steps_inv) (rule initial_service_inv)

lemma service_reachable_steps:
  "service_reachable env limits s \<Longrightarrow> (control_step env)\<^sup>*\<^sup>* s s' \<Longrightarrow> service_reachable env limits s'"
  unfolding service_reachable_def by (blast intro: rtranclp_trans)

section \<open>Services move by atomic steps\<close>

interpretation control: stepwise "\<lambda>s. store_ok env (sv_store s)" "(control_step env)\<^sup>*\<^sup>*"
  for env :: "'a service_env"
proof
  show "(control_step env)\<^sup>*\<^sup>* s s" for s by simp
  show "(control_step env)\<^sup>*\<^sup>* s s' \<Longrightarrow> (control_step env)\<^sup>*\<^sup>* s' s'' \<Longrightarrow> (control_step env)\<^sup>*\<^sup>* s s''" for s s' s''
    by simp
  have "control_step env s s' \<Longrightarrow> store_ok env (sv_store s) \<Longrightarrow> store_ok env (sv_store s')" for s s'
    by (erule control_step.cases) (auto intro: put_plan_ok put_approval_ok put_verification_ok add_decision_ok)
  note step = this
  have "(control_step env)\<^sup>*\<^sup>* s s' \<Longrightarrow> store_ok env (sv_store s) \<Longrightarrow> store_ok env (sv_store s')" for s s'
    by (induction rule: rtranclp_induct) (auto intro: step)
  then show "store_ok env (sv_store s) \<Longrightarrow> (control_step env)\<^sup>*\<^sup>* s s' \<Longrightarrow> store_ok env (sv_store s')" for s s'
    by blast
qed

lemma moves_clock: "control.moves env (clock_now env)"
  by (rule control.movesI) (auto simp: clock_now_def intro: control_step.tick)

lemma moves_record_fact: "control.moves env (record_fact env t p v ty c a now payload)"
  by (rule control.movesI) (auto simp: record_fact_def zoomS_def split: prod.splits intro: control_step.ledger)

lemma moves_record_now: "control.moves env (record_now env t p v ty c a payload)"
  unfolding record_now_def by (intro control.moves_rules moves_clock moves_record_fact)

lemma moves_on_claims:
  "control.moves env (on_claims (claim_effect (se_runtime env) i w now until))"
  "control.moves env (on_claims (complete_effect rc tk))"
  by (rule control.movesI, auto simp: on_claims_def zoomS_def split: prod.splits intro: control_step.claim control_step.complete)+

lemma moves_on_quota: "control.moves env (on_quota (reserve t rid n))"
  by (rule control.movesI) (auto simp: on_quota_def zoomS_def split: prod.splits intro: control_step.quota)

lemma moves_put_plan: "valid_plan (se_runtime env) p \<Longrightarrow> control.moves env (on_store (put_plan p))"
  by (rule control.movesI) (auto simp: on_store_def zoomS_def split: prod.splits intro: control_step.plan)

lemma moves_put_approval:
  "ar_canonical_digest a = canonical_digest (se_runtime env) (approval_document a) \<Longrightarrow>
     control.moves env (on_store (put_approval a))"
  by (rule control.movesI) (auto simp: on_store_def zoomS_def split: prod.splits intro: control_step.approval)

lemma moves_put_verification: "control.moves env (on_store (put_verification v))"
  by (rule control.movesI) (auto simp: on_store_def zoomS_def split: prod.splits intro: control_step.verification)

lemma moves_add_decision: "admissible env d \<Longrightarrow> control.moves env (on_store (add_decision d))"
  by (rule control.movesI) (auto simp: on_store_def zoomS_def split: prod.splits intro: control_step.decision)

lemma moves_call_port: "control.moves env (call_port operation f i)"
  by (rule control.movesI) (auto simp: call_port_def split: prod.splits intro: control_step.port)

lemma moves_authorize: "control.moves env (authorize_caller env i act risk)"
  unfolding authorize_caller_def by (intro control.moves_rules moves_clock)

lemma moves_require:
  "control.moves env (require_action_policy env plan q)" "control.moves env (require_plan t p)"
  "control.moves env (require_approval t a)"
  unfolding require_action_policy_def require_plan_def require_approval_def
  by (intro control.moves_rules moves_clock)+

lemmas moves_base = moves_clock moves_record_fact moves_record_now moves_on_claims moves_on_quota
  moves_put_verification moves_call_port moves_authorize moves_require

lemma moves_validated_scope: "control.moves env (validated_scope env i plan_id action_id allowed)"
  unfolding validated_scope_def check_scope_def by (intro control.moves_rules moves_base)

lemma moves_make_intent: "control.moves env (make_intent env scope action_id operation_id attempt dry_run)"
  unfolding make_intent_def by (intro control.moves_rules moves_base)

lemma moves_claims:
  "control.moves env (claim_now env intent actor)" "control.moves env (complete_now env receipt token)"
  "control.moves env (synthetic_now env intent outcome code ref)"
  unfolding claim_now_def complete_now_def synthetic_now_def by (intro control.moves_rules moves_base)+

lemma moves_receipts:
  "control.moves env (observe_then_execute env intent)"
  "control.moves env (reconciliation_receipt env intent actor)"
  "control.moves env (compensation_receipt env intent actor)"
  unfolding observe_then_execute_def reconciliation_receipt_def compensation_receipt_def
  by (intro control.moves_rules moves_base moves_claims)+

lemma moves_execution_receipt: "control.moves env (execution_receipt env plan intent actor requested)"
  unfolding execution_receipt_def by (intro control.moves_rules moves_base moves_claims moves_receipts)

lemma moves_verification_record_of: "control.moves env (verification_record_of env plan intent a operation_id rc ev)"
  unfolding verification_record_of_def by (intro control.moves_rules moves_base)

lemma moves_intents:
  "control.moves env (preflight_intent env plan actor v operation_id intent)"
  "control.moves env (execute_intent env plan actor v operation_id intent)"
  "control.moves env (reconcile_intent env plan projection actor v operation_id intent)"
  "control.moves env (verify_intent env plan projection actor a v operation_id rc ev intent)"
  "control.moves env (rollback_intent env plan actor v operation_id intent)"
  unfolding preflight_intent_def execute_intent_def finish_execution_def reconcile_intent_def verify_intent_def
    rollback_intent_def
  by (intro control.moves_rules moves_base moves_receipts moves_execution_receipt moves_verification_record_of)+

lemma moves_effects:
  "control.moves env (preflight env i plan_id action_id v operation_id attempt)"
  "control.moves env (execute env i plan_id action_id v operation_id attempt)"
  "control.moves env (reconcile env i plan_id action_id v operation_id attempt)"
  "control.moves env (verify env i plan_id action_id v operation_id rc ev attempt)"
  "control.moves env (rollback env i plan_id action_id v operation_id attempt)"
  unfolding preflight_def execute_def reconcile_def verify_def rollback_def
  by (intro control.moves_rules moves_base moves_validated_scope moves_make_intent moves_intents)+

text \<open>The approval service. A plan or an approval that it reads back is one that was stored, and a
  decision that it stores is admissible.\<close>

lemma make_approval_digest:
  assumes "make_approval rt a = Inr b"
  shows "ar_canonical_digest b = canonical_digest rt (approval_document b)"
  using assms by (auto simp: make_approval_def approval_document_def split: if_splits)

lemma make_decision_fields:
  assumes "make_decision rt d = Inr e"
  shows "e = d\<lparr>dc_canonical_digest := canonical_digest rt (decision_document d)\<rparr>"
  using assms by (auto simp: make_decision_def split: if_splits)

lemma require_plan_result:
  assumes "store_ok env (sv_store s)" "require_plan t p s = (Inr plan, s')"
  shows "valid_plan (se_runtime env) plan \<and> rp_tenant_id plan = t \<and> rp_plan_id plan = p"
  using assms by (auto simp: require_plan_def op_defs plan_lookup_def store_ok_def split: option.splits)

lemma require_approval_result:
  assumes "store_ok env (sv_store s)" "require_approval t a s = (Inr approval, s')"
  shows "ar_canonical_digest approval = canonical_digest (se_runtime env) (approval_document approval) \<and>
    ar_tenant_id approval = t \<and> ar_approval_id approval = a"
  using assms by (auto simp: require_approval_def op_defs approval_lookup_def store_ok_def split: option.splits)

lemma set_matching_roles: "set (matching_roles i a) = set (id_roles i) \<inter> set (rq_required_roles (ar_requirement a))"
  by (auto simp: matching_roles_def)

lemma requireS_result: "requireS b e s = (Inr u, s') \<Longrightarrow> b \<and> s' = s"
  by (auto simp: requireS_def split: if_splits)

lemma liftS_result: "liftS r s = (Inr x, s') \<Longrightarrow> r = Inr x \<and> s' = s"
  by (auto simp: liftS_def)

lemma decision_admissible:
  assumes "valid_plan (se_runtime env) plan" "ar_plan_digest approval = rp_plan_digest plan"
    and "ar_canonical_digest approval = canonical_digest (se_runtime env) (approval_document approval)"
    and "id_principal_kind i = HUMAN" "matching_roles i approval \<noteq> []"
    and "\<not> (rq_prohibit_self_approval (ar_requirement approval) \<and> actor_ref_of env i = rp_proposer_ref plan)"
    and "rq_rationale_min_length (ar_requirement approval) \<le> length rationale"
    and "length rationale \<le> rq_rationale_max_length (ar_requirement approval)"
    and "make_decision (se_runtime env)
       (decision_material env i approval_id disposition rationale command_id plan approval policy now) = Inr d"
  shows "admissible env d"
proof -
  have "hd (matching_roles i approval) \<in> set (id_roles i) \<inter> set (rq_required_roles (ar_requirement approval))"
    using assms(5) set_matching_roles hd_in_set by metis
  with assms make_decision_fields [OF assms(9)] show ?thesis
    unfolding admissible_def by (intro exI [of _ i] exI [of _ plan] exI [of _ approval]) (simp add: decision_material_def)
qed

lemma moves_decide_current:
  assumes "valid_plan (se_runtime env) plan" "id_principal_kind i = HUMAN"
    and "ar_canonical_digest approval = canonical_digest (se_runtime env) (approval_document approval)"
  shows "control.moves env (decide_current env i approval_id disposition rationale v c pd ad approval plan policy now)"
  unfolding decide_current_def
  by (intro control.moves_rules moves_base moves_add_decision)
    (auto dest!: requireS_result liftS_result intro!: decision_admissible [OF assms(1) _ assms(3,2)])

lemma moves_approvals:
  "valid_plan (se_runtime env) plan \<Longrightarrow> control.moves env (propose env i plan c)"
  "control.moves env (request_approval env i plan_id v c)"
  "control.moves env (decide env i approval_id disposition rationale v c pd ad)"
  "control.moves env (revoke env i approval_id v c rationale)"
  "control.moves env (get_approval env i approval_id)"
proof -
  show "valid_plan (se_runtime env) plan \<Longrightarrow> control.moves env (propose env i plan c)"
    unfolding propose_def by (intro control.moves_rules moves_base moves_put_plan)
  show "control.moves env (request_approval env i plan_id v c)"
    unfolding request_approval_def
    by (intro control.moves_rules moves_base moves_put_approval) (auto dest!: liftS_result make_approval_digest)
  show "control.moves env (decide env i approval_id disposition rationale v c pd ad)"
    unfolding decide_def
    by (intro control.moves_rules moves_base moves_decide_current)
      (blast dest: requireS_result require_plan_result require_approval_result)+
  show "control.moves env (revoke env i approval_id v c rationale)"
    unfolding revoke_def by (intro control.moves_rules moves_base)
  show "control.moves env (get_approval env i approval_id)"
    unfolding get_approval_def by (intro control.moves_rules moves_base)
qed

end
