(* ===== verification/Effect_Gates.thy ===== *)
theory Effect_Gates
  imports Remediation_Steps
begin

text \<open>
  What has to hold before \<open>EffectService\<close> touches the provider: the gate that every call of the
  action port has passed, the exact sequence of port calls of each operation, and the claim it
  holds while it makes them.
\<close>

section \<open>Outcomes of the building blocks\<close>

lemma bind_cases:
  assumes "bindS m f s = (r, s')"
  obtains (raised) e where "m s = (Inl e, s')" "r = Inl e"
    | (passed) x s1 where "m s = (Inr x, s1)" "f x s1 = (r, s')"
  using assms by (auto simp: bindS_def split: prod.splits sum.splits)

lemma bind_Inr: "bindS m f s = (Inr x, s') \<longleftrightarrow> (\<exists>y s1. m s = (Inr y, s1) \<and> f y s1 = (Inr x, s'))"
  by (auto simp: bindS_def split: prod.splits sum.splits)

lemma primitive_Inr:
  "returnS y s = (Inr x, s') \<longleftrightarrow> x = y \<and> s' = s"
  "raiseS e s = (Inr x, s') \<longleftrightarrow> False"
  "getS g s = (Inr v, s') \<longleftrightarrow> v = g s \<and> s' = s"
  "requireS b e s = (Inr u, s') \<longleftrightarrow> b \<and> s' = s"
  "liftS q s = (Inr x, s') \<longleftrightarrow> q = Inr x \<and> s' = s"
  "clock_now env t = (Inr d, t') \<longleftrightarrow> d = se_clock env (sv_ticks t) \<and> t' = t\<lparr>sv_ticks := Suc (sv_ticks t)\<rparr>"
  by (auto simp: returnS_def raiseS_def getS_def requireS_def liftS_def clock_now_def)

lemmas op_Inr = bind_Inr primitive_Inr

lemma authorize_caller_Inr:
  "authorize_caller env i act risk s = (Inr u, s') \<longleftrightarrow>
     pd_allowed (authorize (se_policies env) (se_clock env (sv_ticks s)) i act (id_tenant_id i) ''incident-response'' risk) \<and>
     s' = s\<lparr>sv_ticks := Suc (sv_ticks s)\<rparr>"
  by (auto simp: authorize_caller_def op_Inr Let_def)

lemma require_action_policy_Inr:
  "require_action_policy env plan q s = (Inr policy, s') \<longleftrightarrow>
     sv_policies s (rp_tenant_id plan) = Some policy \<and>
     action_policy_reason policy (se_clock env (sv_ticks s)) plan q = None \<and> s' = s\<lparr>sv_ticks := Suc (sv_ticks s)\<rparr>"
  by (auto simp: require_action_policy_def op_Inr current_policy_def split: option.splits)

lemma reserve_allowed:
  assumes "reserve t rid n q = (Inr d, q')"
  shows "eq_reservations q' (t, rid) = Some d"
  using assms by (auto simp: reserve_def Let_def split: if_splits option.splits)

section \<open>The gate\<close>

text \<open>The conditions on the state in which an effect operation starts, and on the clock readings it
  takes: the caller's authority, the exact plan, approval and policy, the recorded decisions, the
  status, the current action policy and the quota.\<close>

definition effect_gate ::
  "'a service_env \<Rightarrow> identity_context \<Rightarrow> string \<Rightarrow> string \<Rightarrow> remediation_status set \<Rightarrow> 'a service_state \<Rightarrow>
   effect_quota \<Rightarrow> scope \<Rightarrow> bool" where
  "effect_gate env i plan_id action_id allowed s q scope =
     (case scope of (plan, approval, current, projection) \<Rightarrow>
       (let t = id_tenant_id i; now = (\<lambda>k. se_clock env (sv_ticks s + k));
            ds = decisions (sv_store s) t (ar_approval_id approval) in
        pd_allowed (authorize (se_policies env) (now 0) i EFFECT_EXECUTE t ''incident-response'' HIGH) \<and>
        cs_plans (sv_store s) (t, plan_id) = Some plan \<and>
        rl_projections (sv_ledger s) (t, plan_id) = Some projection \<and> rj_status projection \<in> allowed \<and>
        (\<exists>aid. rj_approval_id projection = Some aid \<and> cs_approvals (sv_store s) (t, aid) = Some approval) \<and>
        (\<exists>a \<in> set (rp_actions plan). ad_action_id a = action_id) \<and>
        sv_policies s t = Some current \<and> ar_plan_digest approval = rp_plan_digest plan \<and>
        rj_approval_digest projection = Some (ar_canonical_digest approval) \<and>
        ar_policy_snapshot approval = snapshot current \<and> rp_policy_snapshot plan = snapshot current \<and>
        now 1 < ar_expires_at approval \<and> now 2 < rp_expires_at plan \<and>
        (\<forall>d \<in> set ds. dc_disposition d \<noteq> DENY) \<and>
        rq_quorum (ar_requirement approval) \<le> length (exact_grants plan approval current ds) \<and>
        (\<exists>policy. sv_policies s (rp_tenant_id plan) = Some policy \<and> action_policy_reason policy (now 3) plan True = None) \<and>
        (\<exists>d. eq_reservations q (rp_tenant_id plan, quota_reservation_id env plan action_id) = Some d \<and> qd_allowed d)))"

lemma on_quota_Inr: "on_quota m s = (Inr x, s') \<longleftrightarrow> (\<exists>q. m (sv_quota s) = (Inr x, q) \<and> s' = s\<lparr>sv_quota := q\<rparr>)"
  by (auto simp: on_quota_def zoomS_def split: prod.splits)

lemma check_scope_Inr:
  assumes "check_scope env i action_id allowed plan projection approval current s = (Inr scope, s')"
  shows "scope = (plan, approval, current, projection)"
    "ar_plan_digest approval = rp_plan_digest plan" "rj_approval_digest projection = Some (ar_canonical_digest approval)"
    "ar_policy_snapshot approval = snapshot current" "rp_policy_snapshot plan = snapshot current"
    "se_clock env (sv_ticks s) < ar_expires_at approval" "se_clock env (sv_ticks s + 1) < rp_expires_at plan"
    "\<forall>d \<in> set (decisions (sv_store s) (id_tenant_id i) (ar_approval_id approval)). dc_disposition d \<noteq> DENY"
    "rq_quorum (ar_requirement approval) \<le>
       length (exact_grants plan approval current (decisions (sv_store s) (id_tenant_id i) (ar_approval_id approval)))"
    "rj_status projection \<in> allowed"
    "\<exists>policy. sv_policies s (rp_tenant_id plan) = Some policy \<and>
       action_policy_reason policy (se_clock env (sv_ticks s + 2)) plan True = None"
    "\<exists>d q. reserve (rp_tenant_id plan) (quota_reservation_id env plan action_id) 1 (sv_quota s) = (Inr d, q) \<and>
       qd_allowed d \<and> s' = s\<lparr>sv_quota := q, sv_ticks := sv_ticks s + 4\<rparr>"
  using assms by (auto simp: check_scope_def op_Inr require_action_policy_Inr on_quota_Inr Let_def)

lemma validated_scope_Inr:
  assumes "validated_scope env i plan_id action_id allowed s = (Inr scope, s')"
  shows "effect_gate env i plan_id action_id allowed s (sv_quota s') scope \<and>
    (\<exists>q n. s' = s\<lparr>sv_quota := q, sv_ticks := n\<rparr>)"
proof -
  let ?s1 = "s\<lparr>sv_ticks := Suc (sv_ticks s)\<rparr>"
  from assms obtain plan projection aid approval current where
    a: "pd_allowed (authorize (se_policies env) (se_clock env (sv_ticks s)) i EFFECT_EXECUTE (id_tenant_id i) ''incident-response'' HIGH)"
      "cs_plans (sv_store s) (id_tenant_id i, plan_id) = Some plan"
      "rl_projections (sv_ledger s) (id_tenant_id i, plan_id) = Some projection"
      "rj_approval_id projection = Some aid" "\<exists>a \<in> set (rp_actions plan). ad_action_id a = action_id"
      "cs_approvals (sv_store s) (id_tenant_id i, aid) = Some approval" "sv_policies s (id_tenant_id i) = Some current"
    and c: "check_scope env i action_id allowed plan projection approval current ?s1 = (Inr scope, s')"
    by (auto simp: validated_scope_def op_Inr authorize_caller_Inr plan_lookup_def ledger_projection_def
        approval_lookup_def current_policy_def split: option.splits)
  note g = check_scope_Inr [OF c]
  from g(12) obtain d q where q: "reserve (rp_tenant_id plan) (quota_reservation_id env plan action_id) 1 (sv_quota s) = (Inr d, q)"
    "qd_allowed d" "s' = ?s1\<lparr>sv_quota := q, sv_ticks := Suc (sv_ticks s) + 4\<rparr>" by auto
  have "effect_gate env i plan_id action_id allowed s (sv_quota s') scope"
    unfolding effect_gate_def g(1) prod.case Let_def
    using a g(2-11) q(2,3) reserve_allowed [OF q(1)] by (auto simp: numeral_3_eq_3)
  with q(3) show ?thesis by auto
qed

section \<open>What an operation leaves alone\<close>

interpretation quiet: stepwise "\<lambda>_. True" "\<lambda>s s'. sv_calls s' = sv_calls s"
  by unfold_locales simp_all

interpretation unclaimed: stepwise "\<lambda>_. True" "\<lambda>s s'. sv_claims s' = sv_claims s"
  by unfold_locales simp_all

lemma quiet_base:
  "quiet.moves (clock_now env)" "quiet.moves (record_fact env t p v ty c a now payload)"
  "quiet.moves (on_store m)" "quiet.moves (on_claims n)" "quiet.moves (on_quota k)"
  by (rule quiet.movesI, auto simp: clock_now_def record_fact_def on_store_def on_claims_def on_quota_def zoomS_def
      split: prod.splits)+

lemma quiet_derived:
  "quiet.moves (record_now env t p v ty c a payload)" "quiet.moves (authorize_caller env i act risk)"
  "quiet.moves (require_action_policy env plan b)" "quiet.moves (claim_now env intent actor)"
  "quiet.moves (complete_now env rc tk)" "quiet.moves (synthetic_now env intent out code ref)"
  "quiet.moves (make_intent env scope action_id operation_id attempt dry)"
  unfolding record_now_def authorize_caller_def require_action_policy_def claim_now_def complete_now_def
    synthetic_now_def make_intent_def
  by (intro quiet.moves_rules quiet_base)+

lemma quiet_scope: "quiet.moves (validated_scope env i plan_id action_id allowed)"
  unfolding validated_scope_def check_scope_def by (intro quiet.moves_rules quiet_base quiet_derived)

lemma claims_kept_base:
  "unclaimed.moves (clock_now env)" "unclaimed.moves (record_fact env t p v ty c a now payload)"
  "unclaimed.moves (on_store m)" "unclaimed.moves (on_quota k)" "unclaimed.moves (call_port pop g intent)"
  by (rule unclaimed.movesI, auto simp: clock_now_def record_fact_def on_store_def on_quota_def call_port_def zoomS_def
      split: prod.splits)+

lemma claims_kept_derived:
  "unclaimed.moves (record_now env t p v ty c a payload)" "unclaimed.moves (authorize_caller env i act risk)"
  "unclaimed.moves (require_action_policy env plan b)" "unclaimed.moves (synthetic_now env intent out code ref)"
  "unclaimed.moves (make_intent env scope action_id operation_id attempt dry)"
  unfolding record_now_def authorize_caller_def require_action_policy_def synthetic_now_def make_intent_def
  by (intro unclaimed.moves_rules claims_kept_base)+

lemma claims_kept_scope: "unclaimed.moves (validated_scope env i plan_id action_id allowed)"
  unfolding validated_scope_def check_scope_def by (intro unclaimed.moves_rules claims_kept_base claims_kept_derived)

lemma claims_kept_observe: "unclaimed.moves (observe_then_execute env intent)"
  unfolding observe_then_execute_def by (intro unclaimed.moves_rules claims_kept_base claims_kept_derived)

lemma quiet_eq: "quiet.moves m \<Longrightarrow> m s = (r, s') \<Longrightarrow> sv_calls s' = sv_calls s"
  using quiet.movesD [of m s r s'] by simp

lemma claims_eq: "unclaimed.moves m \<Longrightarrow> m s = (r, s') \<Longrightarrow> sv_claims s' = sv_claims s"
  using unclaimed.movesD [of m s r s'] by simp

section \<open>Port calls\<close>

lemma call_port_calls: "call_port pop g intent s = (r, s') \<Longrightarrow> sv_calls s' = sv_calls s @ [(pop, intent)]"
  by (auto simp: call_port_def split: prod.splits)

definition execute_trace :: "action_intent \<Rightarrow> (port_operation \<times> action_intent) list set" where
  "execute_trace intent = {[(Port_OBSERVE, intent)], [(Port_OBSERVE, intent), (Port_EXECUTE, intent)]}"

lemma observe_then_execute_calls:
  assumes "observe_then_execute env intent s = (r, s')"
  shows "\<exists>cs \<in> execute_trace intent. sv_calls s' = sv_calls s @ cs"
  using assms unfolding observe_then_execute_def
proof (cases rule: bind_cases)
  case (raised e)
  then show ?thesis by (auto simp: execute_trace_def dest: call_port_calls)
next
  case (passed x s1)
  then show ?thesis
    by (auto simp: execute_trace_def dest!: call_port_calls dest: quiet_eq [OF quiet_derived(6)] split: if_splits)
qed

text \<open>A claim that is held: recorded under the operation with the worker's token and the intent's
  binding.\<close>

definition holds_claim :: "'a service_env \<Rightarrow> string \<Rightarrow> action_intent \<Rightarrow> effect_claims \<Rightarrow> bool" where
  "holds_claim env actor intent cl \<longleftrightarrow> (\<exists>c. cl (in_tenant_id intent, in_operation_id intent) = Some c \<and>
     ec_claim_token c = effect_claim_token (se_runtime env) intent actor \<and> claim_binding c = intent_binding intent)"

definition receipt_free :: "action_intent \<Rightarrow> effect_claims \<Rightarrow> bool" where
  "receipt_free intent cl \<longleftrightarrow> (\<forall>c. cl (in_tenant_id intent, in_operation_id intent) = Some c \<longrightarrow> ec_receipt c = None)"

lemma claim_now_Inr:
  assumes "claim_now env intent actor s = (Inr claim, s')"
  obtains now until cl where "claim_effect (se_runtime env) intent actor now until (sv_claims s) = (Inr claim, cl)"
    "sv_claims s' = cl"
  using assms by (auto simp: claim_now_def op_Inr on_claims_def zoomS_def split: prod.splits)

lemma claim_now_free:
  assumes "claim_now env intent actor s = (Inr claim, s')" "cr_receipt claim = None"
  shows "receipt_free intent (sv_claims s) \<and> holds_claim env actor intent (sv_claims s')"
proof -
  from assms(1) obtain now until cl where
    c: "claim_effect (se_runtime env) intent actor now until (sv_claims s) = (Inr claim, cl)" "sv_claims s' = cl"
    by (rule claim_now_Inr)
  from c(1) show ?thesis
  proof (cases rule: claim_effect_cases)
    case (kept d)
    with c(2) assms(2) show ?thesis by (auto simp: receipt_free_def holds_claim_def claim_answer_def)
  next
    case (taken d)
    with c(2) show ?thesis by (auto simp: receipt_free_def holds_claim_def claim_binding_def)
  next
    case (fresh d)
    with c(2) show ?thesis by (auto simp: receipt_free_def holds_claim_def)
  qed simp
qed

lemma claim_now_recorded:
  assumes "claim_now env intent actor s = (Inr claim, s')"
    and "sv_claims s (in_tenant_id intent, in_operation_id intent) = Some c" "ec_receipt c = Some rc"
  shows "cr_receipt claim = Some rc"
proof -
  from assms(1) obtain now until cl where
    c: "claim_effect (se_runtime env) intent actor now until (sv_claims s) = (Inr claim, cl)" by (rule claim_now_Inr)
  from c assms(2,3) show ?thesis
    by (cases rule: claim_effect_cases) (auto simp: claim_answer_def)
qed

lemma complete_now_holds:
  assumes "complete_now env rc tk s = (r, s')" "holds_claim env actor intent (sv_claims s)"
  shows "holds_claim env actor intent (sv_claims s')"
proof -
  from assms(1) obtain q cl where "complete_effect rc tk (sv_claims s) = (q, cl)" "sv_claims s' = cl"
    by (auto simp: complete_now_def bindS_def clock_now_def on_claims_def zoomS_def split: prod.splits)
  with assms(2) show ?thesis
    by (elim complete_effect_cases) (auto simp: holds_claim_def claim_binding_def)
qed

lemma execution_receipt_calls:
  assumes "execution_receipt env plan intent actor requested s = (r, s')" "sv_calls s' \<noteq> sv_calls s"
  shows "(\<exists>cs \<in> execute_trace intent. sv_calls s' = sv_calls s @ cs) \<and> receipt_free intent (sv_claims s) \<and>
    holds_claim env actor intent (sv_claims s')"
  using assms(1) unfolding execution_receipt_def
proof (cases rule: bind_cases)
  case (raised e)
  with assms(2) quiet_eq [OF quiet_derived(4)] show ?thesis by blast
next
  case (passed claim s1)
  have q1: "sv_calls s1 = sv_calls s" using quiet_eq [OF quiet_derived(4) passed(1)] .
  show ?thesis
  proof (cases "cr_receipt claim")
    case (Some rc)
    with passed(2) q1 assms(2) show ?thesis by (simp add: returnS_def)
  next
    case None
    note free = claim_now_free [OF passed(1) None]
    let ?run = "record_now env (rp_tenant_id plan) (rp_plan_id plan) (rj_version requested) Fact_EXECUTION_STARTED
      (started_command intent) actor [(''attempt'', JInt (int (in_attempt intent)))]"
    from passed(2) None have "bindS ?run (\<lambda>started. bindS (observe_then_execute env intent) (\<lambda>receipt.
        bindS (complete_now env receipt (cr_claim_token claim)) (\<lambda>_. returnS (receipt, rj_version started)))) s1 = (r, s')"
      by simp
    then show ?thesis
    proof (cases rule: bind_cases)
      case (raised e)
      with q1 assms(2) quiet_eq [OF quiet_derived(1)] show ?thesis by metis
    next
      case (passed started s2)
      have q2: "sv_calls s2 = sv_calls s" "sv_claims s2 = sv_claims s1"
        using quiet_eq [OF quiet_derived(1) passed(1)] claims_eq [OF claims_kept_derived(1) passed(1)] q1 by simp_all
      from passed(2) show ?thesis
      proof (cases rule: bind_cases)
        case (raised e)
        with observe_then_execute_calls claims_eq [OF claims_kept_observe] q2 free show ?thesis by metis
      next
        case (passed receipt s3)
        have q3: "\<exists>cs \<in> execute_trace intent. sv_calls s3 = sv_calls s @ cs" "sv_claims s3 = sv_claims s1"
          using observe_then_execute_calls [OF passed(1)] claims_eq [OF claims_kept_observe passed(1)] q2 by simp_all
        from passed(2) obtain q where "complete_now env receipt (cr_claim_token claim) s3 = (q, s')"
          by (cases rule: bind_cases) (auto simp: returnS_def)
        from complete_now_holds [OF this] quiet_eq [OF quiet_derived(5) this] q3 free show ?thesis by simp
      qed
    qed
  qed
qed

section \<open>Whole operations\<close>

text \<open>The intent that the provider sees is the exact action of the plan with the digests of the
  approved scope.\<close>

definition intent_of_scope :: "scope \<Rightarrow> string \<Rightarrow> string \<Rightarrow> nat \<Rightarrow> bool \<Rightarrow> action_intent \<Rightarrow> bool" where
  "intent_of_scope scope action_id operation_id attempt dry intent =
     (case scope of (plan, approval, current, projection) \<Rightarrow>
        in_action intent \<in> set (rp_actions plan) \<and> ad_action_id (in_action intent) = action_id \<and>
        in_tenant_id intent = rp_tenant_id plan \<and> in_plan_id intent = rp_plan_id plan \<and>
        in_plan_digest intent = rp_plan_digest plan \<and> in_approval_digest intent = ar_canonical_digest approval \<and>
        in_policy_digest intent = ap_policy_digest current \<and> in_fence_token intent = rj_fence_token projection \<and>
        in_operation_id intent = operation_id \<and> in_attempt intent = attempt \<and> in_dry_run intent = dry \<and>
        valid_identifier operation_id \<and> 1 \<le> attempt \<and> attempt \<le> 16)"

lemma find_action_Some: "find_action plan a = Some x \<Longrightarrow> x \<in> set (rp_actions plan) \<and> ad_action_id x = a"
  by (auto simp: find_action_def find_Some_iff)

lemma make_intent_Inr:
  "make_intent env scope action_id operation_id attempt dry s = (Inr intent, s') \<Longrightarrow>
     intent_of_scope scope action_id operation_id attempt dry intent"
  by (cases scope) (auto simp: make_intent_def op_Inr intent_of_scope_def dest!: find_action_Some split: option.splits)

lemma gated_bind:
  assumes "bindS (validated_scope env i plan_id action_id allowed) f s = (r, s')" "sv_calls s' \<noteq> sv_calls s"
  obtains scope s1 where "effect_gate env i plan_id action_id allowed s (sv_quota s1) scope" "f scope s1 = (r, s')"
    "sv_calls s1 = sv_calls s" "sv_claims s1 = sv_claims s" "sv_ledger s1 = sv_ledger s" "sv_store s1 = sv_store s"
  using assms(1)
proof (cases rule: bind_cases)
  case (raised e)
  with assms(2) quiet_eq [OF quiet_scope] show ?thesis by blast
next
  case (passed scope s1)
  from validated_scope_Inr [OF passed(1)] obtain q n where
    g: "effect_gate env i plan_id action_id allowed s (sv_quota s1) scope" and s1: "s1 = s\<lparr>sv_quota := q, sv_ticks := n\<rparr>"
    by blast
  show ?thesis by (rule that [OF g passed(2)]) (simp_all add: s1)
qed

lemma intent_bind:
  assumes "bindS (make_intent env scope action_id operation_id attempt dry) f s = (r, s')" "sv_calls s' \<noteq> sv_calls s"
  obtains intent s1 where "intent_of_scope scope action_id operation_id attempt dry intent" "f intent s1 = (r, s')"
    "sv_calls s1 = sv_calls s" "sv_claims s1 = sv_claims s"
  using assms(1)
proof (cases rule: bind_cases)
  case (raised e)
  with assms(2) quiet_eq [OF quiet_derived(7)] show ?thesis by blast
next
  case (passed intent s1)
  from make_intent_Inr [OF passed(1)] that passed(2) quiet_eq [OF quiet_derived(7) passed(1)]
    claims_eq [OF claims_kept_derived(5) passed(1)] show ?thesis by metis
qed

lemma record_bind:
  assumes "bindS (record_now env t p v ty c a payload) f s = (r, s')" "sv_calls s' \<noteq> sv_calls s"
  obtains projection s1 where "f projection s1 = (r, s')" "sv_calls s1 = sv_calls s" "sv_claims s1 = sv_claims s"
  using assms(1)
proof (cases rule: bind_cases)
  case (raised e)
  with assms(2) quiet_eq [OF quiet_derived(1)] show ?thesis by blast
next
  case (passed projection s1)
  from that passed(2) quiet_eq [OF quiet_derived(1) passed(1)] claims_eq [OF claims_kept_derived(1) passed(1)]
  show ?thesis by metis
qed

lemma quiet_finish: "quiet.moves (finish_execution env plan actor operation_id rc v)"
  unfolding finish_execution_def by (intro quiet.moves_rules quiet_derived)

lemma claims_kept_finish: "unclaimed.moves (finish_execution env plan actor operation_id rc v)"
  unfolding finish_execution_def by (intro unclaimed.moves_rules claims_kept_derived)

lemma execute_intent_calls:
  assumes "execute_intent env plan actor v operation_id intent s = (r, s')" "sv_calls s' \<noteq> sv_calls s"
  shows "(\<exists>cs \<in> execute_trace intent. sv_calls s' = sv_calls s @ cs) \<and> receipt_free intent (sv_claims s) \<and>
    holds_claim env actor intent (sv_claims s')"
proof -
  from assms obtain requested s1 where s1: "sv_calls s1 = sv_calls s" "sv_claims s1 = sv_claims s"
    and b: "bindS (execution_receipt env plan intent actor requested)
      (\<lambda>(rc, n). finish_execution env plan actor operation_id rc n) s1 = (r, s')"
    unfolding execute_intent_def by (rule record_bind)
  from b show ?thesis
  proof (cases rule: bind_cases)
    case (raised e)
    from execution_receipt_calls [OF raised(1)] s1 assms(2) show ?thesis by simp
  next
    case (passed x s2)
    then have f: "finish_execution env plan actor operation_id (fst x) (snd x) s2 = (r, s')" by (simp add: split_beta)
    have "sv_calls s' = sv_calls s2" "sv_claims s' = sv_claims s2"
      using quiet_eq [OF quiet_finish f] claims_eq [OF claims_kept_finish f] by simp_all
    with execution_receipt_calls [OF passed(1)] s1 assms(2) show ?thesis by simp
  qed
qed

lemma execute_calls:
  assumes "execute env i plan_id action_id v operation_id attempt s = (r, s')" "sv_calls s' \<noteq> sv_calls s"
  obtains scope q intent cs where
    "effect_gate env i plan_id action_id {Rem_PREFLIGHT, Rem_EXECUTING, Rem_SUCCEEDED} s q scope"
    "intent_of_scope scope action_id operation_id attempt False intent"
    "cs \<in> execute_trace intent" "sv_calls s' = sv_calls s @ cs" "receipt_free intent (sv_claims s)"
    "holds_claim env (actor_ref_of env i) intent (sv_claims s')"
proof -
  from assms obtain scope s1 where g: "effect_gate env i plan_id action_id {Rem_PREFLIGHT, Rem_EXECUTING, Rem_SUCCEEDED} s (sv_quota s1) scope"
    and s1: "sv_calls s1 = sv_calls s" "sv_claims s1 = sv_claims s"
    and b: "bindS (make_intent env scope action_id operation_id attempt False)
       (\<lambda>intent. execute_intent env (fst scope) (actor_ref_of env i) v operation_id intent) s1 = (r, s')"
    unfolding execute_def by (rule gated_bind)
  from b assms(2) s1(1) obtain intent s2 where
    i: "intent_of_scope scope action_id operation_id attempt False intent"
      "execute_intent env (fst scope) (actor_ref_of env i) v operation_id intent s2 = (r, s')"
      "sv_calls s2 = sv_calls s" "sv_claims s2 = sv_claims s"
    by (elim intent_bind) (simp_all add: s1)
  from execute_intent_calls [OF i(2)] i(3,4) assms(2) that [OF g i(1)] show ?thesis by auto
qed

lemma compensation_calls:
  assumes "compensation_receipt env intent actor s = (r, s')" "sv_calls s' \<noteq> sv_calls s"
  shows "sv_calls s' = sv_calls s @ [(Port_COMPENSATE, intent)] \<and> receipt_free intent (sv_claims s) \<and>
    holds_claim env actor intent (sv_claims s')"
  using assms(1) unfolding compensation_receipt_def
proof (cases rule: bind_cases)
  case (raised e)
  with assms(2) quiet_eq [OF quiet_derived(4)] show ?thesis by blast
next
  case (passed claim s1)
  have q1: "sv_calls s1 = sv_calls s" using quiet_eq [OF quiet_derived(4) passed(1)] .
  show ?thesis
  proof (cases "cr_receipt claim")
    case (Some rc)
    with passed(2) q1 assms(2) show ?thesis by (simp add: returnS_def)
  next
    case None
    note free = claim_now_free [OF passed(1) None]
    from passed(2) None have "bindS (call_port Port_COMPENSATE (po_compensate (se_actions env)) intent) (\<lambda>receipt.
        bindS (complete_now env receipt (cr_claim_token claim)) (\<lambda>_. returnS receipt)) s1 = (r, s')" by simp
    then show ?thesis
    proof (cases rule: bind_cases)
      case (raised e)
      with call_port_calls [OF raised(1)] claims_eq [OF claims_kept_base(5) raised(1)] q1 free show ?thesis by simp
    next
      case (passed receipt s2)
      from passed(2) obtain q where "complete_now env receipt (cr_claim_token claim) s2 = (q, s')"
        by (cases rule: bind_cases) (auto simp: returnS_def)
      with complete_now_holds [OF this] quiet_eq [OF quiet_derived(5) this] call_port_calls [OF passed(1)]
        claims_eq [OF claims_kept_base(5) passed(1)] q1 free show ?thesis by simp
    qed
  qed
qed

text \<open>Every operation with a side effect passes the gate with its own set of statuses.\<close>

lemma effects_gated:
  "preflight env i plan_id action_id v operation_id attempt s = (r, s') \<Longrightarrow> sv_calls s' \<noteq> sv_calls s \<Longrightarrow>
     \<exists>q scope. effect_gate env i plan_id action_id {Rem_APPROVED, Rem_PREFLIGHT} s q scope"
  "reconcile env i plan_id action_id v operation_id attempt s = (r, s') \<Longrightarrow> sv_calls s' \<noteq> sv_calls s \<Longrightarrow>
     \<exists>q scope. effect_gate env i plan_id action_id {Rem_AMBIGUOUS, Rem_RECONCILING, Rem_SUCCEEDED} s q scope"
  "verify env i plan_id action_id v operation_id rc ev attempt s = (r2, s') \<Longrightarrow> sv_calls s' \<noteq> sv_calls s \<Longrightarrow>
     \<exists>q scope. effect_gate env i plan_id action_id {Rem_SUCCEEDED, Rem_VERIFIED, Rem_VERIFICATION_FAILED} s q scope"
  "rollback env i plan_id action_id v operation_id attempt s = (r, s') \<Longrightarrow> sv_calls s' \<noteq> sv_calls s \<Longrightarrow>
     \<exists>q scope. effect_gate env i plan_id action_id {Rem_FAILED, Rem_SUCCEEDED, Rem_VERIFICATION_FAILED, Rem_ROLLED_BACK} s q scope"
  unfolding preflight_def reconcile_def verify_def rollback_def by (elim gated_bind; blast)+

lemma gate_status:
  "effect_gate env i plan_id action_id allowed s q scope \<Longrightarrow>
     \<exists>p. rl_projections (sv_ledger s) (id_tenant_id i, plan_id) = Some p \<and> rj_status p \<in> allowed"
  by (auto simp: effect_gate_def Let_def split: prod.splits)

end
