(* ===== verification/Remediation_Progress.thy ===== *)
theory Remediation_Progress
  imports Effect_Gates
begin

text \<open>
  The services make progress: an append whose version, transition and identifiers are right is
  accepted, and so a plan goes from its proposal through approval and preflight to the provider.
\<close>

section \<open>Accepted appends\<close>

lemma map_of_dict_sorted: "distinct (map fst d) \<Longrightarrow> map_of (dict_sorted d) = map_of d"
  by (simp add: dict_sorted_def map_of_sort_key_fst)

lemma fact_prefix_ident: "list_all ident_char ''remediation-fact''"
  by (simp add: ident_char_def)

lemma make_fact_valid:
  assumes "sha256_shape rt" "hex64 (last_digest fs)" "valid_identifier t" "valid_identifier p" "valid_identifier c"
    "valid_identifier a" "length payload \<le> 32"
  shows "valid_fact (make_fact rt t p fs ty c a now payload)"
proof -
  have "valid_identifier (rf_fact_id (make_fact rt t p fs ty c a now payload))"
    using valid_stable_id [OF assms(1) fact_prefix_ident] by (simp add: make_fact_def Let_def)
  moreover have "hex64 (rf_canonical_digest (make_fact rt t p fs ty c a now payload))"
    using assms(1) by (simp add: make_fact_fields sha256_shape_def del: render.simps norm_json.simps)
  ultimately show ?thesis using assms(2-7) by (simp add: valid_fact_def make_fact_fields)
qed

lemma plan_log_last_digest: "plan_log_ok rt t p fs c \<Longrightarrow> hex64 (last_digest fs)"
  by (auto simp: plan_log_ok_def last_digest_def valid_fact_def)

text \<open>What a new projection takes over from the one before it.\<close>

definition follows :: "remediation_projection \<Rightarrow> fact_type \<Rightarrow> remediation_projection \<Rightarrow> bool" where
  "follows q ty q' \<longleftrightarrow> rj_status q' = status_by_fact ty \<and> rj_version q' = Suc (rj_version q) \<and>
     rj_fence_token q' = rj_fence_token q \<and> rj_plan_digest q' = rj_plan_digest q \<and>
     (ty \<noteq> Fact_APPROVAL_REQUESTED \<longrightarrow> rj_approval_id q' = rj_approval_id q \<and> rj_approval_digest q' = rj_approval_digest q)"

lemma next_projection_plain:
  assumes "rf_fact_type f \<noteq> Fact_APPROVAL_REQUESTED"
  obtains q where "next_projection rt p f = Inr q" "rj_approval_id q = rj_approval_id p"
    "rj_approval_digest q = rj_approval_digest p"
proof (cases "rf_fact_type f \<in> {Fact_EXECUTION_SUCCEEDED, Fact_RECONCILIATION_RESOLVED, Fact_ROLLBACK_SUCCEEDED}")
  case True
  with assms that show ?thesis by (simp add: next_projection_def Let_def)
next
  case False
  with assms that show ?thesis
    by (cases "rf_fact_type f \<in> {Fact_VERIFIED, Fact_VERIFICATION_FAILED}") (simp_all add: next_projection_def Let_def)
qed

definition ledger_after ::
  "runtime \<Rightarrow> remediation_ledger \<Rightarrow> string \<Rightarrow> string \<Rightarrow> fact_type \<Rightarrow> string \<Rightarrow> string \<Rightarrow> datetime \<Rightarrow> dict \<Rightarrow>
   remediation_projection \<Rightarrow> remediation_ledger" where
  "ledger_after rt l t p ty c a now payload q =
     l\<lparr>rl_facts := (rl_facts l)((t, p) \<mapsto> plan_facts l t p @ [make_fact rt t p (plan_facts l t p) ty c a now payload]),
       rl_commands := (rl_commands l)((t, c) \<mapsto> (p, command_fingerprint rt ty payload)),
       rl_projections := (rl_projections l)((t, p) \<mapsto> q)\<rparr>"

lemma append_next:
  assumes inv: "rem_inv rt l" and sh: "sha256_shape rt" and q: "rl_projections l (t, p) = Some q"
    and new: "rl_commands l (t, c) = None" and v: "rj_version q < max_facts"
    and move: "rem_moves (rj_status q) (status_by_fact ty)"
    and ids: "valid_identifier t" "valid_identifier p" "valid_identifier c" "valid_identifier a" "length payload \<le> 32"
    and plain: "ty \<noteq> Fact_APPROVAL_REQUESTED"
  shows "\<exists>q'. append_fact rt t p (rj_version q) ty c a now payload l = (Inr q', ledger_after rt l t p ty c a now payload q') \<and>
    follows q ty q'"
proof -
  have ok: "plan_log_ok rt t p (plan_facts l t p) (Some q)" using inv q unfolding rem_inv_def by metis
  let ?f = "make_fact rt t p (plan_facts l t p) ty c a now payload"
  have vf: "valid_fact ?f" by (rule make_fact_valid [OF sh plan_log_last_digest [OF ok] ids])
  have len: "rj_version q = length (plan_facts l t p)" "rj_last_fact_digest q = last_digest (plan_facts l t p)"
    using plan_log_version [OF ok] plan_log_projection [OF ok] by simp_all
  have "rf_fact_type ?f \<noteq> Fact_APPROVAL_REQUESTED" using plain by (simp add: make_fact_fields)
  then obtain q' where n: "next_projection rt q ?f = Inr q'" and ap: "rj_approval_id q' = rj_approval_id q"
    "rj_approval_digest q' = rj_approval_digest q"
    by (rule next_projection_plain [of _ rt q])
  have "follows q ty q'"
    using next_projection_fields [OF n] ap by (simp add: follows_def make_fact_fields len)
  note n = n this
  have "reduce_remediation rt (Some q) ?f = Inr q'"
    using n(1) move len by (simp add: reduce_later make_fact_fields)
  with new v len q vf n(2) show ?thesis
    by (auto simp: append_fact_def Let_def ledger_after_def)
qed

lemma append_approval_requested:
  assumes inv: "rem_inv rt l" and sh: "sha256_shape rt" and q: "rl_projections l (t, p) = Some q"
    and new: "rl_commands l (t, c) = None" and v: "rj_version q < max_facts"
    and move: "rem_moves (rj_status q) Rem_APPROVAL_PENDING"
    and ids: "valid_identifier t" "valid_identifier p" "valid_identifier c" "valid_identifier a" "length payload \<le> 32"
    and pay: "distinct (map fst payload)" "map_of payload ''approval_id'' = Some (JStr aid)"
      "map_of payload ''approval_digest'' = Some (JStr ad)"
  shows "\<exists>q'. append_fact rt t p (rj_version q) Fact_APPROVAL_REQUESTED c a now payload l =
      (Inr q', ledger_after rt l t p Fact_APPROVAL_REQUESTED c a now payload q') \<and>
    follows q Fact_APPROVAL_REQUESTED q' \<and> rj_approval_id q' = Some aid \<and> rj_approval_digest q' = Some ad"
proof -
  have ok: "plan_log_ok rt t p (plan_facts l t p) (Some q)" using inv q unfolding rem_inv_def by metis
  let ?f = "make_fact rt t p (plan_facts l t p) Fact_APPROVAL_REQUESTED c a now payload"
  have vf: "valid_fact ?f" by (rule make_fact_valid [OF sh plan_log_last_digest [OF ok] ids])
  have len: "rj_version q = length (plan_facts l t p)" "rj_last_fact_digest q = last_digest (plan_facts l t p)"
    using plan_log_version [OF ok] plan_log_projection [OF ok] by simp_all
  obtain q' where n: "next_projection rt q ?f = Inr q'" "follows q Fact_APPROVAL_REQUESTED q'"
    "rj_approval_id q' = Some aid" "rj_approval_digest q' = Some ad"
    using pay by (auto simp: next_projection_def Let_def make_fact_fields follows_def len fact_key_def map_of_dict_sorted)
  have "reduce_remediation rt (Some q) ?f = Inr q'"
    using n(1) move len by (simp add: reduce_later make_fact_fields)
  with new v len q vf n(2-4) show ?thesis
    by (auto simp: append_fact_def Let_def ledger_after_def)
qed

lemma append_first:
  assumes inv: "rem_inv rt l" and sh: "sha256_shape rt" and q: "plan_facts l t p = []"
    and new: "rl_commands l (t, c) = None"
    and ids: "valid_identifier t" "valid_identifier p" "valid_identifier c" "valid_identifier a"
    and run: "valid_identifier run" "hex64 dig" "valid_identifier fence"
  defines "payload \<equiv> [(''run_id'', JStr run), (''plan_digest'', JStr dig), (''fence_token'', JStr fence)]"
  shows "\<exists>q'. append_fact rt t p 0 Fact_PROPOSAL_RECORDED c a now payload l =
      (Inr q', ledger_after rt l t p Fact_PROPOSAL_RECORDED c a now payload q') \<and>
    rj_status q' = Rem_PROPOSED \<and> rj_version q' = 1 \<and> rj_fence_token q' = fence \<and> rj_plan_digest q' = dig"
proof -
  have ok: "plan_log_ok rt t p [] (rl_projections l (t, p))" using inv q unfolding rem_inv_def by metis
  then have none: "rl_projections l (t, p) = None" by (simp add: plan_log_ok_def)
  let ?f = "make_fact rt t p [] Fact_PROPOSAL_RECORDED c a now payload"
  have vf: "valid_fact ?f" by (rule make_fact_valid [OF sh plan_log_last_digest [OF ok] ids]) (simp add: payload_def)
  have "distinct (map fst payload)" by (simp add: payload_def)
  note m = map_of_dict_sorted [OF this]
  have keys: "map_of payload ''run_id'' = Some (JStr run)" "map_of payload ''plan_digest'' = Some (JStr dig)"
    "map_of payload ''fence_token'' = Some (JStr fence)" by (simp_all add: payload_def)
  have d: "hex64 (rf_canonical_digest ?f)" using vf by (simp add: valid_fact_def)
  obtain q' where n: "first_projection rt ?f = Inr q'" "rj_status q' = Rem_PROPOSED" "rj_version q' = 1"
    "rj_fence_token q' = fence" "rj_plan_digest q' = dig"
    using ids run d
    by (auto simp: first_projection_def Let_def make_fact_fields(1-9) fact_key_def m keys valid_projection_def)
  have "reduce_remediation rt None ?f = Inr q'" using n(1) by (simp add: reduce_first make_fact_fields)
  with new q none vf n(2-5) show ?thesis
    by (auto simp: append_fact_def Let_def ledger_after_def max_facts_def)
qed

section \<open>An approved action reaches the provider\<close>

lemma validated_scope_succeeds:
  assumes "effect_gate env i plan_id action_id allowed s q (plan, approval, current, projection)"
    and "reserve (rp_tenant_id plan) (quota_reservation_id env plan action_id) 1 (sv_quota s) = (Inr d, q)" "qd_allowed d"
  shows "validated_scope env i plan_id action_id allowed s =
    (Inr (plan, approval, current, projection), s\<lparr>sv_quota := q, sv_ticks := sv_ticks s + 5\<rparr>)"
  using assms
  by (auto simp: effect_gate_def Let_def validated_scope_def check_scope_def op_defs authorize_caller_def
      require_action_policy_def clock_now_def on_quota_def plan_lookup_def ledger_projection_def approval_lookup_def
      current_policy_def numeral_3_eq_3)

lemma make_intent_succeeds:
  assumes "\<exists>a \<in> set (rp_actions plan). ad_action_id a = action_id" "valid_identifier operation_id" "1 \<le> attempt" "attempt \<le> 16"
  obtains intent where "make_intent env (plan, approval, current, projection) action_id operation_id attempt dry s =
    (Inr intent, s\<lparr>sv_ticks := Suc (sv_ticks s)\<rparr>)"
proof -
  from assms(1) obtain a where "find_action plan action_id = Some a"
    by (cases "find_action plan action_id") (auto simp: find_action_def find_None_iff)
  with assms that show ?thesis
    by (auto simp: make_intent_def op_defs clock_now_def)
qed

lemma record_now_next:
  assumes "rem_inv (se_runtime env) (sv_ledger s)" "sha256_shape (se_runtime env)"
    and "rl_projections (sv_ledger s) (t, p) = Some q" "rl_commands (sv_ledger s) (t, c) = None" "rj_version q < max_facts"
    and "rem_moves (rj_status q) (status_by_fact ty)" "valid_identifier t" "valid_identifier p" "valid_identifier c"
    and "valid_identifier a" "length payload \<le> 32" "ty \<noteq> Fact_APPROVAL_REQUESTED"
  obtains q' l where "record_now env t p (rj_version q) ty c a payload s =
      (Inr q', s\<lparr>sv_ticks := Suc (sv_ticks s), sv_ledger := l\<rparr>)" "follows q ty q'" "rl_projections l (t, p) = Some q'"
    "rl_commands l = (rl_commands (sv_ledger s))((t, c) \<mapsto> (p, command_fingerprint (se_runtime env) ty payload))"
    "rem_inv (se_runtime env) l"
proof -
  let ?now = "se_clock env (sv_ticks s)"
  from append_next [OF assms, of ?now] obtain q' where a: "append_fact (se_runtime env) t p (rj_version q) ty c a ?now payload
      (sv_ledger s) = (Inr q', ledger_after (se_runtime env) (sv_ledger s) t p ty c a ?now payload q')" "follows q ty q'" by blast
  then have "record_now env t p (rj_version q) ty c a payload s = (Inr q', s\<lparr>sv_ticks := Suc (sv_ticks s),
      sv_ledger := ledger_after (se_runtime env) (sv_ledger s) t p ty c a ?now payload q'\<rparr>)"
    by (simp add: record_now_def record_fact_def clock_now_def bindS_def zoomS_def)
  from that [OF this a(2)] append_fact_inv [OF assms(1) a(1)] show ?thesis by (simp add: ledger_after_def)
qed

lemma observe_then_execute_calls_provider:
  assumes "po_observe (se_actions env) intent (sv_adapter s) = (Inr before, ad)" "ob_state before \<in> {Obs_BEFORE, Obs_NOT_APPLIED}"
    and "list_all (\<lambda>c. condition_matches c (ob_facts before)) (ad_preconditions (in_action intent))"
  obtains r s' where "observe_then_execute env intent s = (r, s')"
    "sv_calls s' = sv_calls s @ [(Port_OBSERVE, intent), (Port_EXECUTE, intent)]"
proof -
  obtain r s' where r: "observe_then_execute env intent s = (r, s')" by (cases "observe_then_execute env intent s")
  with assms have "sv_calls s' = sv_calls s @ [(Port_OBSERVE, intent), (Port_EXECUTE, intent)]"
    by (auto simp: observe_then_execute_def bindS_def call_port_def split: prod.splits)
  with r that show ?thesis by blast
qed

lemma claim_now_fresh:
  assumes "sv_claims s (in_tenant_id intent, in_operation_id intent) = None"
    "0 < rc_attempt_timeout_seconds (ad_retry (in_action intent))"
  obtains claim cl where "claim_now env intent actor s = (Inr claim, s\<lparr>sv_ticks := Suc (sv_ticks s), sv_claims := cl\<rparr>)"
    "cr_receipt claim = None"
  using assms by (auto simp: claim_now_def bindS_def clock_now_def on_claims_def zoomS_def claim_effect_def seconds_def Let_def)

lemma bind_passes: "m s = (Inr x, s1) \<Longrightarrow> bindS m f s = f x s1"
  by (simp add: bindS_def)

text \<open>After the provider was called, the rest of the execution adds no further call.\<close>

lemma execution_receipt_calls_provider:
  assumes claim: "sv_claims s (in_tenant_id intent, in_operation_id intent) = None"
      "0 < rc_attempt_timeout_seconds (ad_retry (in_action intent))"
    and rec: "\<And>s'. sv_ledger s' = sv_ledger s \<Longrightarrow> \<exists>q l. record_now env (rp_tenant_id plan) (rp_plan_id plan)
        (rj_version requested) Fact_EXECUTION_STARTED (started_command intent)
        actor [(''attempt'', JInt (int (in_attempt intent)))] s' = (Inr q, s'\<lparr>sv_ticks := Suc (sv_ticks s'), sv_ledger := l\<rparr>)"
    and obs: "po_observe (se_actions env) intent (sv_adapter s) = (Inr before, ad)" "ob_state before \<in> {Obs_BEFORE, Obs_NOT_APPLIED}"
      "list_all (\<lambda>c. condition_matches c (ob_facts before)) (ad_preconditions (in_action intent))"
  shows "sv_calls (snd (execution_receipt env plan intent actor requested s)) =
    sv_calls s @ [(Port_OBSERVE, intent), (Port_EXECUTE, intent)]"
proof -
  obtain cm cl where c: "claim_now env intent actor s = (Inr cm, s\<lparr>sv_ticks := Suc (sv_ticks s), sv_claims := cl\<rparr>)"
    "cr_receipt cm = None" by (rule claim_now_fresh [OF claim])
  let ?s1 = "s\<lparr>sv_ticks := Suc (sv_ticks s), sv_claims := cl\<rparr>"
  obtain q l where q: "record_now env (rp_tenant_id plan) (rp_plan_id plan)
        (rj_version requested) Fact_EXECUTION_STARTED (started_command intent)
        actor [(''attempt'', JInt (int (in_attempt intent)))] ?s1 = (Inr q, ?s1\<lparr>sv_ticks := Suc (sv_ticks ?s1), sv_ledger := l\<rparr>)"
    using rec [of ?s1] by auto
  let ?s2 = "?s1\<lparr>sv_ticks := Suc (sv_ticks ?s1), sv_ledger := l\<rparr>"
  have "po_observe (se_actions env) intent (sv_adapter ?s2) = (Inr before, ad)" using obs(1) by simp
  from observe_then_execute_calls_provider [OF this obs(2,3)] obtain r s3 where
    o: "observe_then_execute env intent ?s2 = (r, s3)" "sv_calls s3 = sv_calls ?s2 @ [(Port_OBSERVE, intent), (Port_EXECUTE, intent)]" .
  have "sv_calls (snd (bindS (observe_then_execute env intent) (\<lambda>receipt.
      bindS (complete_now env receipt (cr_claim_token cm)) (\<lambda>_. returnS (receipt, rj_version q))) ?s2)) = sv_calls s3"
  proof (cases r)
    case (Inl e)
    with o(1) show ?thesis by (simp add: bindS_def)
  next
    case (Inr receipt)
    have "quiet.moves (bindS (complete_now env receipt (cr_claim_token cm)) (\<lambda>_. returnS (receipt, rj_version q)))"
      by (intro quiet.moves_rules quiet_derived)
    with Inr o(1) show ?thesis by (simp add: bindS_def [of "observe_then_execute env intent"] quiet.moves_def)
  qed
  with o(2) show ?thesis
    by (simp add: execution_receipt_def bind_passes [of "claim_now env intent actor" s, OF c(1)] c(2)
        bind_passes [of "record_now env (rp_tenant_id plan) (rp_plan_id plan) (rj_version requested) Fact_EXECUTION_STARTED
          (started_command intent) actor
          [(''attempt'', JInt (int (in_attempt intent)))]" ?s1, OF q])
qed

lemma actor_ref_of_valid: "sha256_shape (se_runtime env) \<Longrightarrow> valid_identifier (actor_ref_of env i)"
  unfolding actor_ref_of_def by (rule valid_stable_id) (simp_all add: ident_char_def)

lemma gate_plan:
  assumes "store_ok env (sv_store s)" "effect_gate env i plan_id action_id allowed s q (plan, approval, current, projection)"
  shows "valid_plan (se_runtime env) plan" "rp_tenant_id plan = id_tenant_id i" "rp_plan_id plan = plan_id"
    "rl_projections (sv_ledger s) (rp_tenant_id plan, rp_plan_id plan) = Some projection"
    "\<exists>a \<in> set (rp_actions plan). ad_action_id a = action_id"
  using assms by (auto simp: effect_gate_def Let_def store_ok_def)

lemma valid_plan_parts:
  assumes "valid_plan rt plan"
  shows "valid_identifier (rp_tenant_id plan)" "valid_identifier (rp_plan_id plan)"
    "a \<in> set (rp_actions plan) \<Longrightarrow> 0 < rc_attempt_timeout_seconds (ad_retry a)"
  using assms by (auto simp: valid_plan_def valid_action_def valid_retry_def list_all_iff)

lemma quiet_continuation:
  "sv_calls (snd (bindS m (\<lambda>(rc, n). finish_execution env plan actor operation_id rc n) s)) = sv_calls (snd (m s))"
proof (cases "m s")
  case (Pair r s1)
  show ?thesis
  proof (cases r)
    case (Inl e)
    with Pair show ?thesis by (simp add: bindS_def)
  next
    case (Inr x)
    with Pair quiet_finish [of env plan actor operation_id "fst x" "snd x"] show ?thesis
      by (simp add: bindS_def split_beta quiet.moves_def)
  qed
qed

text \<open>The operation as a caller uses it: the identifiers are well formed and unused, and the version is
  the one it read.\<close>

definition fresh_execution :: "remediation_plan \<Rightarrow> remediation_projection \<Rightarrow> nat \<Rightarrow> string \<Rightarrow> nat \<Rightarrow> 'a service_state \<Rightarrow> bool" where
  "fresh_execution plan projection v operation_id attempt s \<longleftrightarrow>
     (let t = rp_tenant_id plan; started = operation_id @ '':started:'' @ nat_str attempt in
      v = rj_version projection \<and> Suc v < max_facts \<and> 1 \<le> attempt \<and> attempt \<le> 16 \<and>
      valid_identifier operation_id \<and> valid_identifier (operation_id @ '':intent'') \<and> valid_identifier started \<and>
      rl_commands (sv_ledger s) (t, operation_id @ '':intent'') = None \<and> rl_commands (sv_ledger s) (t, started) = None \<and>
      sv_claims s (t, operation_id) = None)"

definition untouched_target :: "'a service_env \<Rightarrow> 'a service_state \<Rightarrow> action_intent \<Rightarrow> bool" where
  "untouched_target env s intent \<longleftrightarrow> (\<exists>before ad.
     po_observe (se_actions env) intent (sv_adapter s) = (Inr before, ad) \<and> ob_state before \<in> {Obs_BEFORE, Obs_NOT_APPLIED} \<and>
     list_all (\<lambda>c. condition_matches c (ob_facts before)) (ad_preconditions (in_action intent)))"

lemma execute_calls_provider:
  assumes inv: "service_inv env limits s" and sh: "sha256_shape (se_runtime env)"
    and gate: "effect_gate env i plan_id action_id {Rem_PREFLIGHT, Rem_EXECUTING, Rem_SUCCEEDED} s q (plan, approval, current, projection)"
    and quota: "reserve (rp_tenant_id plan) (quota_reservation_id env plan action_id) 1 (sv_quota s) = (Inr d, q)" "qd_allowed d"
    and status: "rj_status projection \<in> {Rem_PREFLIGHT, Rem_EXECUTING}"
    and fresh: "fresh_execution plan projection v operation_id attempt s"
    and target: "\<And>intent. intent_of_scope (plan, approval, current, projection) action_id operation_id attempt False intent \<Longrightarrow>
      untouched_target env s intent"
  shows "\<exists>intent. intent_of_scope (plan, approval, current, projection) action_id operation_id attempt False intent \<and>
    sv_calls (snd (execute env i plan_id action_id v operation_id attempt s)) =
      sv_calls s @ [(Port_OBSERVE, intent), (Port_EXECUTE, intent)]"
proof -
  let ?scope = "(plan, approval, current, projection)" and ?t = "rp_tenant_id plan" and ?p = "rp_plan_id plan"
  let ?actor = "actor_ref_of env i" and ?rt = "se_runtime env"
  have store: "store_ok env (sv_store s)" and led: "rem_inv ?rt (sv_ledger s)" using inv by (simp_all add: service_inv_def)
  note gp = gate_plan [OF store gate] and act = actor_ref_of_valid [OF sh, of i]
  note vp = valid_plan_parts [OF gp(1)] and fr = fresh [unfolded fresh_execution_def Let_def]
  let ?s1 = "s\<lparr>sv_quota := q, sv_ticks := sv_ticks s + 5\<rparr>"
  obtain intent where mi: "make_intent env ?scope action_id operation_id attempt False ?s1 =
      (Inr intent, ?s1\<lparr>sv_ticks := Suc (sv_ticks ?s1)\<rparr>)"
    using make_intent_succeeds [OF gp(5)] fr by metis
  note sc = make_intent_Inr [OF mi]
  then have i: "in_action intent \<in> set (rp_actions plan)" "in_tenant_id intent = ?t" "in_operation_id intent = operation_id"
    "in_attempt intent = attempt" by (simp_all add: intent_of_scope_def)
  have st: "started_command intent = operation_id @ '':started:'' @ nat_str attempt" by (simp add: started_command_def i)
  let ?s2 = "?s1\<lparr>sv_ticks := Suc (sv_ticks ?s1)\<rparr>"
  let ?pay = "[(''action_id'', JStr (ad_action_id (in_action intent))),
    (''idempotency_key'', JStr (ad_idempotency_key (in_action intent))), (''fence_token'', JStr (in_fence_token intent))]"
  obtain q1 l1 where r1: "record_now env ?t ?p (rj_version projection) Fact_EXECUTION_REQUESTED (operation_id @ '':intent'') ?actor ?pay ?s2 =
      (Inr q1, ?s2\<lparr>sv_ticks := Suc (sv_ticks ?s2), sv_ledger := l1\<rparr>)" "follows projection Fact_EXECUTION_REQUESTED q1"
      "rl_projections l1 (?t, ?p) = Some q1" "rem_inv ?rt l1"
      "rl_commands l1 = (rl_commands (sv_ledger s))((?t, operation_id @ '':intent'') \<mapsto> (?p, command_fingerprint ?rt Fact_EXECUTION_REQUESTED ?pay))"
    by (rule record_now_next [of env ?s2 ?t ?p projection "operation_id @ '':intent''" Fact_EXECUTION_REQUESTED ?actor ?pay])
      (use led sh gp vp act status fr in auto)
  let ?s3 = "?s2\<lparr>sv_ticks := Suc (sv_ticks ?s2), sv_ledger := l1\<rparr>"
  have rec: "\<exists>qq l. record_now env ?t ?p (rj_version q1) Fact_EXECUTION_STARTED (started_command intent) ?actor
      [(''attempt'', JInt (int (in_attempt intent)))] s' = (Inr qq, s'\<lparr>sv_ticks := Suc (sv_ticks s'), sv_ledger := l\<rparr>)"
    if "sv_ledger s' = l1" for s'
    by (rule record_now_next [of env s' ?t ?p q1 "started_command intent" Fact_EXECUTION_STARTED ?actor
          "[(''attempt'', JInt (int (in_attempt intent)))]"])
      (use that r1 sh vp act fr in \<open>auto simp: follows_def st\<close>)
  from target [OF sc] obtain before ad where ob: "po_observe (se_actions env) intent (sv_adapter s) = (Inr before, ad)"
    "ob_state before \<in> {Obs_BEFORE, Obs_NOT_APPLIED}"
    "list_all (\<lambda>c. condition_matches c (ob_facts before)) (ad_preconditions (in_action intent))"
    unfolding untouched_target_def by blast
  have "sv_calls (snd (execution_receipt env plan intent ?actor q1 ?s3)) = sv_calls ?s3 @ [(Port_OBSERVE, intent), (Port_EXECUTE, intent)]"
    by (rule execution_receipt_calls_provider [OF _ _ _ _ ob(2,3)]) (use fr i vp(3) rec ob(1) in auto)
  note er = this
  have "v = rj_version projection" using fr by simp
  then have "execute_intent env plan ?actor v operation_id intent ?s2 = bindS (execution_receipt env plan intent ?actor q1)
      (\<lambda>(rc, n). finish_execution env plan ?actor operation_id rc n) ?s3"
    unfolding execute_intent_def using r1(1) by (simp only: bind_passes)
  then have "sv_calls (snd (execute_intent env plan ?actor v operation_id intent ?s2)) =
      sv_calls s @ [(Port_OBSERVE, intent), (Port_EXECUTE, intent)]"
    using er by (simp add: quiet_continuation)
  moreover have "execute env i plan_id action_id v operation_id attempt s = execute_intent env plan ?actor v operation_id intent ?s2"
    unfolding execute_def
    using validated_scope_succeeds [OF gate quota] mi by (simp add: bindS_def)
  ultimately show ?thesis using sc by auto
qed

end
