(* ===== verification/Remediation_Sample.thy ===== *)
theory Remediation_Sample
  imports Remediation_Progress Sample_Data
begin

text \<open>
  Concrete inputs for the remediation theorems: a plan with one action, its policy, approval and
  one grant, and a reachable state in which the plan has passed its preflight. The digest of
  this runtime is constant, so every digest of the records is \<open>zero_hash\<close>.
\<close>

definition zero_rt :: runtime where
  "zero_rt = sample_rt\<lparr>sha256_hexdigest := (\<lambda>_. zero_hash)\<rparr>"

lemma zero_digest [simp]: "sha256_hexdigest zero_rt x = zero_hash" "canonical_digest zero_rt v = zero_hash"
  by (simp_all add: zero_rt_def canonical_digest_def)

lemma zero_shape: "sha256_shape zero_rt"
  by (simp add: sha256_shape_def)

lemma zero_float_ok: "float_repr_ok zero_rt"
  using sample_float_ok by (simp add: float_repr_ok_def zero_rt_def)

section \<open>Records\<close>

definition sample_condition :: condition where
  "sample_condition = \<lparr>cd_fact = ''replicas'', cd_operator = Greater_than, cd_expected = FInt 0\<rparr>"

definition sample_action :: action_definition where
  "sample_action = \<lparr>ad_action_id = ''act-1'',
     ad_target = \<lparr>kt_cluster_ref = ''c1'', kt_namespace = ''shop'', kt_name = ''api'', kt_uid = ''u1'',
       kt_resource_version = ''7'', kt_resource_fingerprint = zero_hash\<rparr>,
     ad_risk = MEDIUM, ad_blast_radius = ONE_REPLICA_SET, ad_preconditions = [sample_condition],
     ad_postconditions = [sample_condition],
     ad_retry = \<lparr>rc_maximum_attempts = 3, rc_attempt_timeout_seconds = 60, rc_schedule_timeout_seconds = 600,
       rc_heartbeat_timeout_seconds = 30\<rparr>,
     ad_idempotency_key = ''key-1'',
     ad_compensation = \<lparr>cc_enabled = False, cc_action = Observe_only, cc_rollback_revision = None,
       cc_requires_fresh_approval = True\<rparr>,
     ad_canonical_digest = zero_hash\<rparr>"

definition sample_policy :: action_policy where
  "sample_policy = \<lparr>ap_tenant_id = ''acme'', ap_policy_id = ''pol'', ap_revision = 1, ap_role_revision = 1,
     ap_quota_revision = 1, ap_enabled = True, ap_allowed_action_types = [''kubernetes.rollout_restart''],
     ap_allowed_target_fingerprints = [zero_hash], ap_allowed_namespaces = [''shop''],
     ap_maintenance_window_start = 0, ap_maintenance_window_end = 9000, ap_max_risk = MEDIUM,
     ap_max_blast_radius = ONE_SERVICE, ap_remaining_effects = 4, ap_high_risk_quorum = 2, ap_normal_quorum = 1,
     ap_approver_roles = [''change-approver''], ap_prohibit_self_approval = True, ap_policy_digest = zero_hash\<rparr>"

definition sample_plan :: remediation_plan where
  "sample_plan = \<lparr>rp_plan_id = ''plan-1'', rp_tenant_id = ''acme'', rp_run_id = ''run-1'', rp_incident_id = ''inc-1'',
     rp_proposer_ref = ''proposer-1'', rp_target_fingerprint = zero_hash, rp_risk = MEDIUM,
     rp_blast_radius = ONE_REPLICA_SET, rp_rationale = ''restart'', rp_actions = [sample_action],
     rp_evidence = [\<lparr>ci_evidence_id = ''ev-1'', ci_locator = ''l'', ci_content_hash = zero_hash,
       ci_provenance_digest = None, ci_source_id = None, ci_query_id = None, ci_page_number = None\<rparr>],
     rp_policy_snapshot = snapshot sample_policy, rp_created_at = 1, rp_expires_at = 9000, rp_plan_digest = zero_hash\<rparr>"

definition sample_worker :: identity_context where
  "sample_worker = \<lparr>id_tenant_id = ''acme'', id_issuer = ''idp'', id_subject_id = ''worker'',
     id_principal_kind = HUMAN, id_roles = [''change-approver''], id_permissions = [''effect:execute''],
     id_purposes = [''incident-response''],
     id_grants = [\<lparr>gb_role = ''effect-worker'', gb_purpose = ''incident-response'',
       gb_permissions = [''effect:execute''], gb_risk_ceiling = HIGH, gb_expires_at = 9000\<rparr>],
     id_grant_version = 1, id_authenticated_at = 1, id_expires_at = 9000,
     id_request_id = ''req-1'', id_trace_id = ''trace-1''\<rparr>"

text \<open>A provider whose target is always untouched and whose executions succeed.\<close>

definition sample_observation :: "action_intent \<Rightarrow> action_observation" where
  "sample_observation i = \<lparr>ob_tenant_id = in_tenant_id i, ob_plan_id = in_plan_id i,
     ob_action_id = ad_action_id (in_action i), ob_operation_id = in_operation_id i,
     ob_target_fingerprint = zero_hash, ob_state = Obs_BEFORE, ob_facts = [(''replicas'', FInt 3)],
     ob_observed_at = 500, ob_provider_receipt_ref = None, ob_attempt_fence = in_fence_token i\<rparr>"

definition sample_port :: "unit action_port" where
  "sample_port =
     \<lparr>po_dry_run = (\<lambda>i. returnS (synthetic_receipt zero_rt i Out_DRY_RUN_SUCCEEDED ''ok'' 500 None)),
      po_observe = (\<lambda>i. returnS (sample_observation i)),
      po_execute = (\<lambda>i. returnS (synthetic_receipt zero_rt i Out_SUCCEEDED ''ok'' 500 None)),
      po_compensate = (\<lambda>i. returnS (synthetic_receipt zero_rt i Out_COMPENSATED ''ok'' 500 None))\<rparr>"

definition sample_env :: "unit service_env" where
  "sample_env = \<lparr>se_runtime = zero_rt,
     se_policies = (\<lambda>_. Some \<lparr>pr_policy_id = ''p'', pr_tenant_id = ''acme'', pr_revision = 1,
       pr_allowed_actions = [''effect:execute''], pr_allowed_purposes = [''incident-response''],
       pr_max_risk = HIGH, pr_version = 1\<rparr>),
     se_clock = (\<lambda>n. 100 + n), se_actions = sample_port\<rparr>"

lemma sample_env_simps [simp]: "se_runtime sample_env = zero_rt" "se_clock sample_env n = 100 + n"
  "se_actions sample_env = sample_port"
  by (simp_all add: sample_env_def)

definition sample_approval :: approval_request where
  "sample_approval = (approval_material sample_env sample_worker sample_plan sample_policy 100)
     \<lparr>ar_approval_id := ''approval-1'', ar_canonical_digest := zero_hash\<rparr>"

definition sample_decision :: approval_decision where
  "sample_decision = \<lparr>dc_decision_id = ''d1'', dc_command_id = ''cmd-3'', dc_approval_id = ''approval-1'',
     dc_tenant_id = ''acme'', dc_disposition = GRANT, dc_approver_ref = actor_ref_of sample_env sample_worker,
     dc_approver_role = ''change-approver'', dc_plan_digest = zero_hash, dc_approval_digest = zero_hash,
     dc_policy_digest = zero_hash, dc_role_revision = 1, dc_rationale = ''looks right to me'', dc_decided_at = 120,
     dc_canonical_digest = zero_hash\<rparr>"

lemma sample_plan_valid: "valid_plan zero_rt sample_plan"
  by (simp add: valid_plan_def sample_plan_def sample_action_def sample_condition_def sample_policy_def snapshot_def
      valid_action_def valid_target_def valid_retry_def valid_compensation_def valid_citation_def valid_snapshot_def
      valid_identifier_def valid_opt_identifier_def ident_char_def action_digest_def)

lemma sample_policy_valid: "valid_policy zero_rt sample_policy"
  by (simp add: valid_policy_def sample_policy_def valid_identifier_def ident_char_def)

lemma sample_plan_fields:
  "rp_plan_digest sample_plan = zero_hash" "rp_proposer_ref sample_plan = ''proposer-1''" "rp_tenant_id sample_plan = ''acme''"
  "rp_plan_id sample_plan = ''plan-1''" "rp_expires_at sample_plan = 9000" "rp_actions sample_plan = [sample_action]"
  "rp_policy_snapshot sample_plan = snapshot sample_policy" "rp_risk sample_plan = MEDIUM"
  "rp_blast_radius sample_plan = ONE_REPLICA_SET"
  by (simp_all add: sample_plan_def)

lemma sample_worker_fields:
  "id_principal_kind sample_worker = HUMAN" "id_tenant_id sample_worker = ''acme''" "id_roles sample_worker = [''change-approver'']"
  by (simp_all add: sample_worker_def)

lemma sample_approval_fields:
  "ar_tenant_id sample_approval = ''acme''" "ar_approval_id sample_approval = ''approval-1''" "ar_plan_id sample_approval = ''plan-1''"
  "ar_plan_digest sample_approval = zero_hash" "ar_canonical_digest sample_approval = zero_hash"
  "ar_policy_snapshot sample_approval = snapshot sample_policy" "ar_expires_at sample_approval = 9000"
  "ar_requirement sample_approval = \<lparr>rq_quorum = 1, rq_required_roles = [''change-approver''],
     rq_prohibit_self_approval = True, rq_rationale_min_length = 12, rq_rationale_max_length = 1000\<rparr>"
  by (simp_all add: sample_approval_def approval_material_def sample_plan_def sample_policy_def seconds_def)

lemma sample_actor: "actor_ref_of sample_env sample_worker = ''actor:'' @ replicate 32 (CHR ''0'')"
  by (simp add: actor_ref_of_def stable_id_def zero_hash_def)

lemma sample_decision_admissible: "admissible sample_env sample_decision"
  unfolding admissible_def
  by (intro exI [of _ sample_worker] exI [of _ sample_plan] exI [of _ sample_approval])
    (simp add: sample_plan_valid sample_decision_def sample_approval_fields sample_plan_fields sample_worker_fields sample_actor)

section \<open>A reachable state after the preflight request\<close>

definition sample_store :: control_store where
  "sample_store = \<lparr>cs_plans = [(''acme'', ''plan-1'') \<mapsto> sample_plan],
     cs_approvals = [(''acme'', ''approval-1'') \<mapsto> sample_approval],
     cs_decisions = [(''acme'', ''approval-1'') \<mapsto> [sample_decision]],
     cs_decision_commands = [(''acme'', ''cmd-3'') \<mapsto> zero_hash], cs_verifications = Map.empty\<rparr>"

definition sample_append :: "nat \<Rightarrow> fact_type \<Rightarrow> string \<Rightarrow> dict \<Rightarrow> remediation_ledger \<Rightarrow> remediation_ledger" where
  "sample_append v ty c payload l =
     snd (append_fact zero_rt ''acme'' ''plan-1'' v ty c ''actor-1'' 120 payload l)"

definition sample_pending :: remediation_ledger where
  "sample_pending =
     (sample_append 1 Fact_APPROVAL_REQUESTED ''cmd-2''
        [(''approval_id'', JStr ''approval-1''), (''approval_digest'', JStr zero_hash)] \<circ>
      sample_append 0 Fact_PROPOSAL_RECORDED ''cmd-1''
        [(''run_id'', JStr ''run-1''), (''plan_digest'', JStr zero_hash), (''fence_token'', JStr ''fence-1'')])
     empty_remediation_ledger"

definition sample_ledger :: remediation_ledger where
  "sample_ledger =
     (sample_append 3 Fact_PREFLIGHT_REQUESTED ''cmd-4'' [] \<circ> sample_append 2 Fact_APPROVAL_GRANTED ''cmd-3'' [])
     sample_pending"

definition sample_quota :: "string \<rightharpoonup> int" where
  "sample_quota = [''acme'' \<mapsto> 5]"

definition sample_service :: "unit service_state" where
  "sample_service = (initial_service () sample_quota)\<lparr>sv_policies := [''acme'' \<mapsto> sample_policy],
     sv_store := sample_store, sv_ledger := sample_ledger\<rparr>"

lemma sample_ids: "valid_identifier ''acme''" "valid_identifier ''plan-1''" "valid_identifier ''actor-1''"
  "valid_identifier ''cmd-1''" "valid_identifier ''cmd-2''" "valid_identifier ''cmd-3''" "valid_identifier ''cmd-4''"
  "valid_identifier ''run-1''" "valid_identifier ''fence-1''"
  by (simp_all add: valid_identifier_def ident_char_def)

lemma dom_None: "dom m = A \<Longrightarrow> k \<notin> A \<Longrightarrow> m k = None"
  by auto

lemma sample_append_result:
  assumes "append_fact zero_rt ''acme'' ''plan-1'' v ty c ''actor-1'' 120 payload l =
    (Inr q, ledger_after zero_rt l ''acme'' ''plan-1'' ty c ''actor-1'' 120 payload q)"
  shows "rl_projections (sample_append v ty c payload l) (''acme'', ''plan-1'') = Some q"
    "dom (rl_commands (sample_append v ty c payload l)) = insert (''acme'', c) (dom (rl_commands l))"
  using assms by (simp_all add: sample_append_def ledger_after_def)

lemma sample_append_reachable: "rem_reachable zero_rt l \<Longrightarrow> rem_reachable zero_rt (sample_append v ty c payload l)"
  unfolding sample_append_def by (rule rem_reachable.append)

lemma sample_pending_projection:
  obtains q where "rl_projections sample_pending (''acme'', ''plan-1'') = Some q" "rj_status q = Rem_APPROVAL_PENDING"
    "rj_version q = 2" "rj_approval_id q = Some ''approval-1''" "rj_approval_digest q = Some zero_hash"
    "rj_fence_token q = ''fence-1''" "dom (rl_commands sample_pending) = {(''acme'', ''cmd-2''), (''acme'', ''cmd-1'')}"
    "rem_reachable zero_rt sample_pending"
proof -
  let ?p1 = "[(''run_id'', JStr ''run-1''), (''plan_digest'', JStr zero_hash), (''fence_token'', JStr ''fence-1'')]"
  let ?p2 = "[(''approval_id'', JStr ''approval-1''), (''approval_digest'', JStr zero_hash)]"
  let ?l1 = "sample_append 0 Fact_PROPOSAL_RECORDED ''cmd-1'' ?p1 empty_remediation_ledger"
  have "plan_facts empty_remediation_ledger ''acme'' ''plan-1'' = []"
    "rl_commands empty_remediation_ledger (''acme'', ''cmd-1'') = None"
    by (simp_all add: empty_remediation_ledger_def plan_facts_def get_default_def)
  from append_first [OF rem_inv_empty zero_shape this sample_ids(1,2,4,3,8) hex64_zero_hash sample_ids(9), of 120]
  obtain q1 where q1: "rl_projections ?l1 (''acme'', ''plan-1'') = Some q1" "rj_status q1 = Rem_PROPOSED" "rj_version q1 = 1"
    "rj_fence_token q1 = ''fence-1''" "dom (rl_commands ?l1) = {(''acme'', ''cmd-1'')}"
    by (auto simp: sample_append_def ledger_after_def empty_remediation_ledger_def)
  have r1: "rem_reachable zero_rt ?l1" by (rule sample_append_reachable) (rule rem_reachable.empty)
  have n2: "rl_commands ?l1 (''acme'', ''cmd-2'') = None" by (rule dom_None [OF q1(5)]) simp
  from append_approval_requested [OF rem_reachable_inv [OF r1] zero_shape q1(1) n2 _ _ sample_ids(1,2,5,3), of ?p2 "''approval-1''" zero_hash 120]
  obtain q2 where a2: "append_fact zero_rt ''acme'' ''plan-1'' 1 Fact_APPROVAL_REQUESTED ''cmd-2'' ''actor-1'' 120 ?p2 ?l1 =
      (Inr q2, ledger_after zero_rt ?l1 ''acme'' ''plan-1'' Fact_APPROVAL_REQUESTED ''cmd-2'' ''actor-1'' 120 ?p2 q2)"
    and q2: "follows q1 Fact_APPROVAL_REQUESTED q2" "rj_approval_id q2 = Some ''approval-1''" "rj_approval_digest q2 = Some zero_hash"
    by (auto simp: q1 max_facts_def)
  have l2: "sample_pending = sample_append 1 Fact_APPROVAL_REQUESTED ''cmd-2'' ?p2 ?l1" by (simp add: sample_pending_def)
  show ?thesis
    by (rule that [of q2]) (use q1 q2 sample_append_result [OF a2] sample_append_reachable [OF r1] in \<open>simp_all add: l2 follows_def\<close>)
qed

text \<open>One further plain fact on a ledger of the sample.\<close>

lemma sample_append_next:
  assumes "rem_reachable zero_rt l" "rl_projections l (''acme'', ''plan-1'') = Some q" "rj_version q = v" "v < 500"
    and "rl_commands l (''acme'', c) = None" "rem_moves (rj_status q) (status_by_fact ty)" "valid_identifier c"
    and "ty \<noteq> Fact_APPROVAL_REQUESTED"
  obtains q' where "rl_projections (sample_append v ty c [] l) (''acme'', ''plan-1'') = Some q'" "follows q ty q'"
    "dom (rl_commands (sample_append v ty c [] l)) = insert (''acme'', c) (dom (rl_commands l))"
    "rem_reachable zero_rt (sample_append v ty c [] l)"
proof -
  have "\<exists>q'. append_fact zero_rt ''acme'' ''plan-1'' (rj_version q) ty c ''actor-1'' 120 [] l =
      (Inr q', ledger_after zero_rt l ''acme'' ''plan-1'' ty c ''actor-1'' 120 [] q') \<and> follows q ty q'"
    by (rule append_next [OF rem_reachable_inv [OF assms(1)] zero_shape assms(2,5)])
      (use assms sample_ids in \<open>simp_all add: max_facts_def\<close>)
  then obtain q' where a: "append_fact zero_rt ''acme'' ''plan-1'' v ty c ''actor-1'' 120 [] l =
      (Inr q', ledger_after zero_rt l ''acme'' ''plan-1'' ty c ''actor-1'' 120 [] q')" "follows q ty q'"
    using assms(3) by auto
  from that [OF sample_append_result(1) [OF a(1)] a(2) sample_append_result(2) [OF a(1)] sample_append_reachable [OF assms(1)]]
  show ?thesis .
qed

lemma sample_ledger_projection:
  "\<exists>q. rl_projections sample_ledger (''acme'', ''plan-1'') = Some q \<and> rj_status q = Rem_PREFLIGHT \<and> rj_version q = 4 \<and>
     rj_approval_id q = Some ''approval-1'' \<and> rj_approval_digest q = Some zero_hash \<and> rj_fence_token q = ''fence-1'' \<and>
     dom (rl_commands sample_ledger) = {(''acme'', ''cmd-4''), (''acme'', ''cmd-3''), (''acme'', ''cmd-2''), (''acme'', ''cmd-1'')} \<and>
     rem_reachable zero_rt sample_ledger"
proof -
  obtain q2 where q2: "rl_projections sample_pending (''acme'', ''plan-1'') = Some q2" "rj_status q2 = Rem_APPROVAL_PENDING"
    "rj_version q2 = 2" "rj_approval_id q2 = Some ''approval-1''" "rj_approval_digest q2 = Some zero_hash"
    "rj_fence_token q2 = ''fence-1''" "dom (rl_commands sample_pending) = {(''acme'', ''cmd-2''), (''acme'', ''cmd-1'')}"
    "rem_reachable zero_rt sample_pending" by (rule sample_pending_projection)
  let ?l3 = "sample_append 2 Fact_APPROVAL_GRANTED ''cmd-3'' [] sample_pending"
  have n3: "rl_commands sample_pending (''acme'', ''cmd-3'') = None" by (rule dom_None [OF q2(7)]) simp
  obtain q3 where q3: "rl_projections ?l3 (''acme'', ''plan-1'') = Some q3" "follows q2 Fact_APPROVAL_GRANTED q3"
    "dom (rl_commands ?l3) = {(''acme'', ''cmd-3''), (''acme'', ''cmd-2''), (''acme'', ''cmd-1'')}" "rem_reachable zero_rt ?l3"
    by (rule sample_append_next [OF q2(8,1,3) _ n3, of Fact_APPROVAL_GRANTED]) (simp_all add: q2 sample_ids)
  have n4: "rl_commands ?l3 (''acme'', ''cmd-4'') = None" by (rule dom_None [OF q3(3)]) simp
  have v3: "rj_version q3 = 3" "rj_status q3 = Rem_APPROVED" using q3(2) q2 by (simp_all add: follows_def)
  let ?l4 = "sample_append 3 Fact_PREFLIGHT_REQUESTED ''cmd-4'' [] ?l3"
  obtain q4 where q4: "rl_projections ?l4 (''acme'', ''plan-1'') = Some q4" "follows q3 Fact_PREFLIGHT_REQUESTED q4"
    "dom (rl_commands ?l4) = {(''acme'', ''cmd-4''), (''acme'', ''cmd-3''), (''acme'', ''cmd-2''), (''acme'', ''cmd-1'')}"
    "rem_reachable zero_rt ?l4"
    by (rule sample_append_next [OF q3(4,1) v3(1) _ n4, of Fact_PREFLIGHT_REQUESTED]) (simp_all add: q3 v3 sample_ids)
  have "sample_ledger = ?l4" by (simp add: sample_ledger_def)
  with q4 q3(2) q2 v3 show ?thesis by (intro exI [of _ q4]) (simp add: follows_def)
qed

lemma ledger_steps:
  assumes "rem_reachable (se_runtime env) l" "sv_ledger s = empty_remediation_ledger"
  shows "(control_step env)\<^sup>*\<^sup>* s (s\<lparr>sv_ledger := l\<rparr>)"
  using assms
proof (induction rule: rem_reachable.induct)
  case empty
  then have "s\<lparr>sv_ledger := empty_remediation_ledger\<rparr> = s" by simp
  then show ?case by simp
next
  case (append l t p v ty c a now payload)
  let ?m = "s\<lparr>sv_ledger := l\<rparr>"
  have "control_step env ?m (?m\<lparr>sv_ledger := snd (append_fact (se_runtime env) t p v ty c a now payload l)\<rparr>)"
    by (rule control_step.ledger [of env t p v ty c a now payload ?m
          "fst (append_fact (se_runtime env) t p v ty c a now payload l)"]) simp
  with append show ?case by simp
qed

lemma sample_with_ledger_reachable:
  assumes "rem_reachable zero_rt l"
  shows "service_reachable sample_env sample_quota (sample_service\<lparr>sv_ledger := l\<rparr>)"
proof -
  let ?s0 = "initial_service () sample_quota"
  let ?s1 = "?s0\<lparr>sv_policies := [''acme'' \<mapsto> sample_policy]\<rparr>"
  let ?c2 = "empty_control_store\<lparr>cs_plans := [(''acme'', ''plan-1'') \<mapsto> sample_plan]\<rparr>"
  let ?c3 = "?c2\<lparr>cs_approvals := [(''acme'', ''approval-1'') \<mapsto> sample_approval]\<rparr>"
  have 1: "control_step sample_env ?s0 ?s1"
    by (rule control_step.policy [of _ sample_policy _ "Inr ()"])
      (simp_all add: sample_policy_valid replace_policy_def initial_service_def, simp add: sample_policy_def)
  have 2: "control_step sample_env ?s1 (?s1\<lparr>sv_store := ?c2\<rparr>)"
    by (rule control_step.plan [of _ sample_plan _ "Inr ()"])
      (simp_all add: sample_plan_valid put_plan_def initial_service_def empty_control_store_def sample_plan_fields)
  have 3: "control_step sample_env (?s1\<lparr>sv_store := ?c2\<rparr>) (?s1\<lparr>sv_store := ?c3\<rparr>)"
    using control_step.approval [of sample_approval sample_env "?s1\<lparr>sv_store := ?c2\<rparr>" "Inr ()" ?c3]
    by (simp add: put_approval_def empty_control_store_def sample_approval_fields)
  have 4: "control_step sample_env (?s1\<lparr>sv_store := ?c3\<rparr>) (?s1\<lparr>sv_store := sample_store\<rparr>)"
    using control_step.decision [OF sample_decision_admissible, of "?s1\<lparr>sv_store := ?c3\<rparr>" "Inr ()" sample_store]
    by (simp add: add_decision_def empty_control_store_def sample_store_def decisions_def get_default_def sample_decision_def)
  from assms have "rem_reachable (se_runtime sample_env) l" by simp
  from ledger_steps [OF this, of "?s1\<lparr>sv_store := sample_store\<rparr>"]
  have "(control_step sample_env)\<^sup>*\<^sup>* (?s1\<lparr>sv_store := sample_store\<rparr>) (sample_service\<lparr>sv_ledger := l\<rparr>)"
    by (simp add: sample_service_def initial_service_def)
  with 1 2 3 4 have "(control_step sample_env)\<^sup>*\<^sup>* ?s0 (sample_service\<lparr>sv_ledger := l\<rparr>)"
    by (meson converse_rtranclp_into_rtranclp)
  then show ?thesis unfolding service_reachable_def by blast
qed

lemma sample_service_reachable: "service_reachable sample_env sample_quota sample_service"
proof -
  have "sample_service\<lparr>sv_ledger := sample_ledger\<rparr> = sample_service" by (simp add: sample_service_def)
  with sample_with_ledger_reachable [of sample_ledger] sample_ledger_projection show ?thesis by auto
qed

definition sample_reserved :: effect_quota where
  "sample_reserved = snd (reserve ''acme'' (quota_reservation_id sample_env sample_plan ''act-1'') 1 (make_quota sample_quota))"

lemma sample_reserve:
  "\<exists>d. reserve ''acme'' (quota_reservation_id sample_env sample_plan ''act-1'') 1 (make_quota sample_quota) = (Inr d, sample_reserved) \<and>
     qd_allowed d \<and> eq_reservations sample_reserved (''acme'', quota_reservation_id sample_env sample_plan ''act-1'') = Some d"
proof -
  have "valid_identifier (quota_reservation_id sample_env sample_plan ''act-1'')"
    unfolding quota_reservation_id_def sample_env_simps
    by (rule valid_stable_id [OF zero_shape]) (simp_all add: ident_char_def)
  then show ?thesis
    by (simp add: sample_reserved_def reserve_def make_quota_def sample_quota_def get_default_def Let_def)
qed

lemma sample_gate:
  assumes "rl_projections sample_ledger (''acme'', ''plan-1'') = Some q" "rj_status q = Rem_PREFLIGHT"
    "rj_approval_id q = Some ''approval-1''" "rj_approval_digest q = Some zero_hash"
  shows "effect_gate sample_env sample_worker ''plan-1'' ''act-1'' {Rem_PREFLIGHT, Rem_EXECUTING, Rem_SUCCEEDED} sample_service
    sample_reserved (sample_plan, sample_approval, sample_policy, q)"
proof -
  have "pd_allowed (authorize (se_policies sample_env) 100 sample_worker EFFECT_EXECUTE ''acme'' ''incident-response'' HIGH)"
    by (simp add: authorize_def denial_reason_def sample_env_def sample_worker_def grant_covers_def Let_def)
  moreover have "action_policy_reason sample_policy 103 sample_plan True = None"
    by (simp add: action_policy_reason_def sample_policy_def sample_plan_fields sample_action_def)
  moreover have "length (exact_grants sample_plan sample_approval sample_policy [sample_decision]) = 1"
    by (simp add: exact_grants_def sample_decision_def sample_plan_fields sample_approval_fields sample_policy_def)
  moreover have "ad_action_id sample_action = ''act-1''" "dc_disposition sample_decision = GRANT"
    by (simp_all add: sample_action_def sample_decision_def)
  ultimately show ?thesis
    using assms sample_reserve
    by (auto simp: effect_gate_def Let_def sample_service_def initial_service_def sample_store_def sample_worker_fields
        sample_plan_fields sample_approval_fields decisions_def get_default_def)
qed

lemma sample_fresh_execution:
  "\<exists>q. rl_projections sample_ledger (''acme'', ''plan-1'') = Some q \<and> rj_status q = Rem_PREFLIGHT \<and>
     rj_approval_id q = Some ''approval-1'' \<and> rj_approval_digest q = Some zero_hash \<and>
     fresh_execution sample_plan q 4 ''op-1'' 1 sample_service"
proof -
  from sample_ledger_projection obtain q where q: "rl_projections sample_ledger (''acme'', ''plan-1'') = Some q"
    "rj_status q = Rem_PREFLIGHT" "rj_approval_id q = Some ''approval-1''" "rj_approval_digest q = Some zero_hash" "rj_version q = 4"
    "dom (rl_commands sample_ledger) = {(''acme'', ''cmd-4''), (''acme'', ''cmd-3''), (''acme'', ''cmd-2''), (''acme'', ''cmd-1'')}"
    by blast
  have "fresh_execution sample_plan q 4 ''op-1'' 1 sample_service"
    using q(5) dom_None [OF q(6)]
    by (simp add: fresh_execution_def Let_def sample_plan_fields sample_service_def initial_service_def max_facts_def
        valid_identifier_def ident_char_def nat_str.simps digit_char_def)
  with q show ?thesis by blast
qed

lemma sample_untouched:
  assumes "intent_of_scope (sample_plan, sample_approval, sample_policy, q) ''act-1'' ''op-1'' 1 False intent"
  shows "untouched_target sample_env sample_service intent"
  using assms
  by (simp add: intent_of_scope_def untouched_target_def sample_port_def returnS_def sample_observation_def sample_plan_fields
      sample_action_def sample_condition_def condition_matches_def number_less_def scaled_def)

lemma sample_execute_calls:
  obtains intent where "sv_calls (snd (execute sample_env sample_worker ''plan-1'' ''act-1'' 4 ''op-1'' 1 sample_service)) =
    [(Port_OBSERVE, intent), (Port_EXECUTE, intent)]"
proof -
  from sample_fresh_execution obtain q where
    q: "rl_projections sample_ledger (''acme'', ''plan-1'') = Some q" "rj_status q = Rem_PREFLIGHT"
      "rj_approval_id q = Some ''approval-1''" "rj_approval_digest q = Some zero_hash"
    and f: "fresh_execution sample_plan q 4 ''op-1'' 1 sample_service" by blast
  from sample_reserve obtain d where d: "reserve ''acme'' (quota_reservation_id sample_env sample_plan ''act-1'') 1
      (make_quota sample_quota) = (Inr d, sample_reserved)" "qd_allowed d" by blast
  have "\<exists>intent. intent_of_scope (sample_plan, sample_approval, sample_policy, q) ''act-1'' ''op-1'' 1 False intent \<and>
    sv_calls (snd (execute sample_env sample_worker ''plan-1'' ''act-1'' 4 ''op-1'' 1 sample_service)) =
      sv_calls sample_service @ [(Port_OBSERVE, intent), (Port_EXECUTE, intent)]"
    by (rule execute_calls_provider [OF service_reachable_inv [OF sample_service_reachable] _ sample_gate [OF q]])
      (use q(2) d f sample_untouched in \<open>simp_all add: zero_shape sample_plan_fields sample_service_def initial_service_def\<close>)
  with that show ?thesis by (auto simp: sample_service_def initial_service_def)
qed

end
