(* ===== verification/Remediation_Properties.thy ===== *)
theory Remediation_Properties
  imports Remediation_Sample
begin

text \<open>
  Properties of the remediation ledger and its stores that hold at every moment of every
  interleaving of the services: replay, tamper evidence, idempotent commands, write-once
  records, the quota and the effect claims.
\<close>

section \<open>The fact ledger\<close>

text \<open>In every reachable state the stored projection of a remediation plan is the replay of its
  stored facts: \<open>rebuild\<close> returns it, or fails exactly when the plan is unknown; its version is the
  number of facts, at most 500, and its status is reached from \<open>proposed\<close> by the transition
  table.\<close>

theorem remediation_projection_is_replay:
  assumes "service_reachable env limits s"
  shows "rebuild (se_runtime env) (sv_ledger s) t p =
      (case ledger_projection (sv_ledger s) t p of
         None \<Rightarrow> Inl (IntegrityFailure ''cannot rebuild an unknown remediation plan'') | Some q \<Rightarrow> Inr q) \<and>
    length (plan_facts (sv_ledger s) t p) \<le> 500 \<and>
    (\<forall>q. ledger_projection (sv_ledger s) t p = Some q \<longrightarrow>
       rj_version q = length (plan_facts (sv_ledger s) t p) \<and> rem_moves\<^sup>*\<^sup>* Rem_PROPOSED (rj_status q))"
proof -
  have ok: "plan_log_ok (se_runtime env) t p (plan_facts (sv_ledger s) t p) (rl_projections (sv_ledger s) (t, p))"
    using service_reachable_inv [OF assms] by (simp add: service_inv_def rem_inv_def)
  then have "replay_facts (se_runtime env) (plan_facts (sv_ledger s) t p) None = Inr (rl_projections (sv_ledger s) (t, p))"
    "length (plan_facts (sv_ledger s) t p) \<le> 500" by (simp_all add: plan_log_ok_def max_facts_def)
  moreover have "rj_version q = length (plan_facts (sv_ledger s) t p) \<and> rem_moves\<^sup>*\<^sup>* Rem_PROPOSED (rj_status q)"
    if "ledger_projection (sv_ledger s) t p = Some q" for q
    using plan_log_version [OF ok [unfolded that [unfolded ledger_projection_def]]] by simp
  ultimately show ?thesis
    by (auto simp: rebuild_def ledger_projection_def split: option.split)
qed

theorem remediation_projection_is_replay_witness:
  "\<exists>q. ledger_projection (sv_ledger sample_service) ''acme'' ''plan-1'' = Some q \<and>
     rebuild zero_rt (sv_ledger sample_service) ''acme'' ''plan-1'' = Inr q \<and>
     length (plan_facts (sv_ledger sample_service) ''acme'' ''plan-1'') = 4"
proof -
  from sample_ledger_projection obtain q where q: "rl_projections sample_ledger (''acme'', ''plan-1'') = Some q" "rj_version q = 4"
    by blast
  then have "ledger_projection (sv_ledger sample_service) ''acme'' ''plan-1'' = Some q"
    by (simp add: ledger_projection_def sample_service_def)
  with remediation_projection_is_replay [OF sample_service_reachable, of "''acme''" "''plan-1''"] q(2) show ?thesis
    by auto
qed

text \<open>Tamper evidence of a plan's facts: two reachable ledgers whose facts of a plan have the same
  number and the same last digest hold the same facts, with the same digests, unless two of the
  recorded documents are a SHA-256 collision.\<close>

theorem forged_facts_need_collision:
  assumes "service_reachable env limits s" "service_reachable env limits' s'" "float_repr_ok (se_runtime env)"
    and "length (plan_facts (sv_ledger s) t p) = length (plan_facts (sv_ledger s') t p)"
    and "last_digest (plan_facts (sv_ledger s) t p) = last_digest (plan_facts (sv_ledger s') t p)"
  shows "map fact_content (plan_facts (sv_ledger s) t p) = map fact_content (plan_facts (sv_ledger s') t p) \<and>
      map rf_canonical_digest (plan_facts (sv_ledger s) t p) = map rf_canonical_digest (plan_facts (sv_ledger s') t p) \<or>
    (\<exists>f \<in> set (plan_facts (sv_ledger s) t p). \<exists>g \<in> set (plan_facts (sv_ledger s') t p).
       sha256_collision (se_runtime env) (canonical_json (se_runtime env) (fact_document f))
         (canonical_json (se_runtime env) (fact_document g)))"
proof (cases "fact_chain.collision (se_runtime env) (plan_facts (sv_ledger s) t p) (plan_facts (sv_ledger s') t p)")
  case True
  then show ?thesis
    by (auto simp: fact_chain.collision_def sha256_collision_def canonical_json_def render_inj [OF assms(3)])
next
  case False
  have "fact_chain.chain (se_runtime env) zero_hash (plan_facts (sv_ledger s) t p)"
    "fact_chain.chain (se_runtime env) zero_hash (plan_facts (sv_ledger s') t p)"
    using service_reachable_inv [OF assms(1)] service_reachable_inv [OF assms(2)]
    by (simp_all add: service_inv_def rem_inv_def plan_log_ok_def)
  from fact_chain.same_head_same_log [OF this _ assms(4) False] assms(5) show ?thesis
    by (simp add: fact_chain_head)
qed

theorem forged_facts_need_collision_witness:
  "map fact_content (plan_facts (sv_ledger sample_service) ''acme'' ''plan-1'') =
     map fact_content (plan_facts (sv_ledger sample_service) ''acme'' ''plan-1'') \<or>
   (\<exists>f \<in> set (plan_facts (sv_ledger sample_service) ''acme'' ''plan-1'').
    \<exists>g \<in> set (plan_facts (sv_ledger sample_service) ''acme'' ''plan-1'').
      sha256_collision zero_rt (canonical_json zero_rt (fact_document f)) (canonical_json zero_rt (fact_document g)))"
  using forged_facts_need_collision [OF sample_service_reachable sample_service_reachable, of "''acme''" "''plan-1''"]
    zero_float_ok by auto

text \<open>A ledger command takes effect once. When an append has returned, the same command with the same
  input, at any later moment, returns the plan's current projection and changes nothing; the same
  command id with another plan, fact type or payload is refused and changes nothing, unless the two
  inputs are a SHA-256 collision.\<close>

theorem fact_command_once:
  assumes "service_reachable env limits s" "float_repr_ok (se_runtime env)"
    and "append_fact (se_runtime env) t p v ty c a now payload (sv_ledger s) = (Inr q, l)"
    and "(control_step env)\<^sup>*\<^sup>* (s\<lparr>sv_ledger := l\<rparr>) s'"
  shows "append_fact (se_runtime env) t p v' ty c a' now' payload (sv_ledger s') =
      (Inr (the (ledger_projection (sv_ledger s') t p)), sv_ledger s') \<and>
    ((p', ty', norm_dict payload') \<noteq> (p, ty, norm_dict payload) \<longrightarrow>
      append_fact (se_runtime env) t p' v' ty' c a' now' payload' (sv_ledger s') =
        (Inl (IdempotencyConflict ''command id was replayed with different remediation input''), sv_ledger s') \<or>
      sha256_collision (se_runtime env)
        (canonical_json (se_runtime env) (JObj [(''fact_type'', JStr (fact_type_value ty)), (''payload'', JObj payload)]))
        (canonical_json (se_runtime env) (JObj [(''fact_type'', JStr (fact_type_value ty')), (''payload'', JObj payload')])))"
proof -
  let ?rt = "se_runtime env" and ?l = "sv_ledger s'"
  let ?fp = "command_fingerprint ?rt ty payload"
  have "(control_step env)\<^sup>*\<^sup>* (s\<lparr>sv_ledger := l\<rparr>) s' \<Longrightarrow> rem_extends l (sv_ledger s')"
  proof (induction rule: rtranclp_induct)
    case base
    show ?case by simp
  next
    case (step y z)
    from step(2) have "rem_extends (sv_ledger y) (sv_ledger z)"
      by (cases rule: control_step.cases) (auto intro: append_fact_extends)
    with step.IH show ?case by (rule rem_extends_trans)
  qed
  with assms(4) have ext: "rem_extends l ?l" by blast
  from assms(3) have "rl_commands l (t, c) = Some (p, ?fp)" "\<exists>q. rl_projections l (t, p) = Some q"
    by (cases rule: append_fact_cases; simp)+
  with ext have cmd: "rl_commands ?l (t, c) = Some (p, ?fp)" and "\<exists>q. rl_projections ?l (t, p) = Some q"
    unfolding rem_extends_def by (auto simp: map_le_def dom_def)
  then obtain q' where q': "rl_projections ?l (t, p) = Some q'" by blast
  have "append_fact ?rt t p v' ty c a' now' payload ?l = (Inr (the (ledger_projection ?l t p)), ?l)"
    by (simp add: append_fact_def cmd q' ledger_projection_def)
  moreover have "norm_json (JObj [(''fact_type'', JStr (fact_type_value x)), (''payload'', JObj y)]) =
      JObj [(''fact_type'', JStr (fact_type_value x)), (''payload'', JObj (norm_dict y))]" for x y
    by (simp add: norm_dict_def)
  then have "(p', ty', norm_dict payload') \<noteq> (p, ty, norm_dict payload) \<longrightarrow> (p', command_fingerprint ?rt ty' payload') \<noteq> (p, ?fp) \<or>
      sha256_collision ?rt
        (canonical_json ?rt (JObj [(''fact_type'', JStr (fact_type_value ty)), (''payload'', JObj payload)]))
        (canonical_json ?rt (JObj [(''fact_type'', JStr (fact_type_value ty')), (''payload'', JObj payload')]))"
    by (auto simp: sha256_collision_def command_fingerprint_def canonical_digest_def canonical_json_eq_iff [OF assms(2)]
        simp del: norm_json.simps)
  ultimately show ?thesis by (auto simp: append_fact_def cmd)
qed

lemma sample_initial_reachable: "service_reachable sample_env sample_quota (initial_service () sample_quota)"
  unfolding service_reachable_def by blast

theorem fact_command_once_witness:
  "\<exists>q l. append_fact zero_rt ''acme'' ''plan-1'' 0 Fact_PROPOSAL_RECORDED ''cmd-1'' ''actor-1'' 120
      [(''run_id'', JStr ''run-1''), (''plan_digest'', JStr zero_hash), (''fence_token'', JStr ''fence-1'')]
      empty_remediation_ledger = (Inr q, l) \<and>
    append_fact zero_rt ''acme'' ''plan-1'' 7 Fact_PROPOSAL_RECORDED ''cmd-1'' ''actor-2'' 150
      [(''run_id'', JStr ''run-1''), (''plan_digest'', JStr zero_hash), (''fence_token'', JStr ''fence-1'')] l =
      (Inr (the (ledger_projection l ''acme'' ''plan-1'')), l)"
proof -
  let ?p = "[(''run_id'', JStr ''run-1''), (''plan_digest'', JStr zero_hash), (''fence_token'', JStr ''fence-1'')]"
  have "plan_facts empty_remediation_ledger ''acme'' ''plan-1'' = []"
    "rl_commands empty_remediation_ledger (''acme'', ''cmd-1'') = None"
    by (simp_all add: empty_remediation_ledger_def plan_facts_def get_default_def)
  from append_first [OF rem_inv_empty zero_shape this sample_ids(1,2,4,3,8) hex64_zero_hash sample_ids(9), of 120]
  obtain q l where ql: "append_fact zero_rt ''acme'' ''plan-1'' 0 Fact_PROPOSAL_RECORDED ''cmd-1'' ''actor-1'' 120 ?p
      empty_remediation_ledger = (Inr q, l)" by blast
  then have "append_fact (se_runtime sample_env) ''acme'' ''plan-1'' 0 Fact_PROPOSAL_RECORDED ''cmd-1'' ''actor-1'' 120 ?p
      (sv_ledger (initial_service () sample_quota)) = (Inr q, l)" by (simp add: initial_service_def)
  from fact_command_once [OF sample_initial_reachable _ this rtranclp.rtrancl_refl, of 7 "''actor-2''" 150 "''p''" Fact_VERIFIED "[]"]
    zero_float_ok ql show ?thesis by auto
qed

section \<open>Write-once records\<close>

definition digests_kept :: "('v \<Rightarrow> string) \<Rightarrow> ('k \<rightharpoonup> 'v) \<Rightarrow> ('k \<rightharpoonup> 'v) \<Rightarrow> bool" where
  "digests_kept dig m m' \<longleftrightarrow> (\<forall>k v. m k = Some v \<longrightarrow> (\<exists>v'. m' k = Some v' \<and> dig v' = dig v))"

definition records_kept :: "control_store \<Rightarrow> control_store \<Rightarrow> bool" where
  "records_kept st st' \<longleftrightarrow>
     digests_kept rp_plan_digest (cs_plans st) (cs_plans st') \<and>
     digests_kept ar_canonical_digest (cs_approvals st) (cs_approvals st') \<and>
     digests_kept vr_canonical_digest (cs_verifications st) (cs_verifications st') \<and>
     (\<forall>t a. \<exists>ds. decisions st' t a = decisions st t a @ ds)"

lemma digests_kept_refl [simp]: "digests_kept dig m m"
  by (simp add: digests_kept_def)

lemma digests_kept_trans: "digests_kept dig a b \<Longrightarrow> digests_kept dig b c \<Longrightarrow> digests_kept dig a c"
  unfolding digests_kept_def by metis

lemma records_kept_refl [simp]: "records_kept st st"
  by (simp add: records_kept_def)

lemma records_kept_trans:
  assumes "records_kept a b" "records_kept b c"
  shows "records_kept a c"
proof -
  have "\<exists>ds. decisions c t p = decisions a t p @ ds" for t p
    using assms unfolding records_kept_def by (metis append.assoc)
  with assms show ?thesis unfolding records_kept_def by (blast intro: digests_kept_trans)
qed

lemma put_records_kept:
  "put_plan p st = (r, st') \<Longrightarrow> records_kept st st'" "put_approval a st = (r, st') \<Longrightarrow> records_kept st st'"
  "put_verification v st = (r, st') \<Longrightarrow> records_kept st st'" "add_decision d st = (r, st') \<Longrightarrow> records_kept st st'"
proof -
  show "records_kept st st'" if p: "put_plan p st = (r, st')"
    using plan_store.put_keeps_digest [OF p] p
    by (auto simp: records_kept_def digests_kept_def decisions_def put_plan_def Let_def split: option.splits if_splits)
  show "records_kept st st'" if p: "put_approval a st = (r, st')"
    using approval_store.put_keeps_digest [OF p] p
    by (auto simp: records_kept_def digests_kept_def decisions_def put_approval_def Let_def split: option.splits if_splits)
  show "records_kept st st'" if p: "put_verification v st = (r, st')"
    using verification_store.put_keeps_digest [OF p] p
    by (auto simp: records_kept_def digests_kept_def decisions_def put_verification_def Let_def split: option.splits if_splits)
  show "records_kept st st'" if p: "add_decision d st = (r, st')"
    using p by (cases rule: add_decision_cases) (auto simp: records_kept_def decisions_def get_default_def)
qed

text \<open>Plans, approvals and verification records are write-once: under every interleaving the record
  stored under a key keeps its digest forever, and a stored decision is never removed or reordered.\<close>

theorem control_records_write_once:
  assumes "(control_step env)\<^sup>*\<^sup>* s s'"
  shows "(\<forall>k p. cs_plans (sv_store s) k = Some p \<longrightarrow>
      (\<exists>p'. cs_plans (sv_store s') k = Some p' \<and> rp_plan_digest p' = rp_plan_digest p)) \<and>
    (\<forall>k a. cs_approvals (sv_store s) k = Some a \<longrightarrow>
      (\<exists>a'. cs_approvals (sv_store s') k = Some a' \<and> ar_canonical_digest a' = ar_canonical_digest a)) \<and>
    (\<forall>k v. cs_verifications (sv_store s) k = Some v \<longrightarrow>
      (\<exists>v'. cs_verifications (sv_store s') k = Some v' \<and> vr_canonical_digest v' = vr_canonical_digest v)) \<and>
    (\<forall>t a. \<exists>ds. decisions (sv_store s') t a = decisions (sv_store s) t a @ ds)"
proof -
  from assms have "records_kept (sv_store s) (sv_store s')"
  proof (induction rule: rtranclp_induct)
    case base
    show ?case by simp
  next
    case (step y z)
    from step(2) have "records_kept (sv_store y) (sv_store z)"
      by (cases rule: control_step.cases) (auto intro: put_records_kept)
    with step.IH show ?case by (rule records_kept_trans)
  qed
  then show ?thesis unfolding records_kept_def digests_kept_def .
qed

theorem control_records_write_once_witness:
  "\<exists>p'. cs_plans (sv_store (snd (execute sample_env sample_worker ''plan-1'' ''act-1'' 4 ''op-1'' 1 sample_service)))
     (''acme'', ''plan-1'') = Some p' \<and> rp_plan_digest p' = zero_hash"
proof -
  have "store_ok sample_env (sv_store sample_service)"
    using service_reachable_inv [OF sample_service_reachable] by (simp add: service_inv_def)
  then have "(control_step sample_env)\<^sup>*\<^sup>* sample_service
      (snd (execute sample_env sample_worker ''plan-1'' ''act-1'' 4 ''op-1'' 1 sample_service))"
    using moves_effects(2) unfolding control.moves_def by blast
  note kept = control_records_write_once [OF this, THEN conjunct1, rule_format]
  have "cs_plans (sv_store sample_service) (''acme'', ''plan-1'') = Some sample_plan"
    by (simp add: sample_service_def sample_store_def)
  from kept [OF this] show ?thesis unfolding sample_plan_fields(1) .
qed

lemma steps_claims_evolve:
  assumes "(control_step env)\<^sup>*\<^sup>* s s'"
  shows "claims_evolve (sv_claims s) (sv_claims s')"
  using assms
proof (induction rule: rtranclp_induct)
  case base
  show ?case by simp
next
  case (step y z)
  from step(2) have "claims_evolve (sv_claims y) (sv_claims z)"
    by (cases rule: control_step.cases) (auto intro: claim_effect_evolves complete_effect_evolves)
  with step.IH show ?case by (rule claims_evolve_trans)
qed

text \<open>Effect claims under every interleaving: a recorded claim keeps its exact binding, its attempt never
  decreases, a recorded receipt never changes, and the token and expiry of a claim change only
  together with a later attempt.\<close>

theorem effect_claims_evolve:
  assumes "(control_step env)\<^sup>*\<^sup>* s s'" "sv_claims s k = Some c"
  shows "\<exists>c'. sv_claims s' k = Some c' \<and> claim_binding c' = claim_binding c \<and> ec_attempt c \<le> ec_attempt c' \<and>
    (\<forall>r. ec_receipt c = Some r \<longrightarrow> ec_receipt c' = Some r) \<and>
    (ec_attempt c' = ec_attempt c \<longrightarrow> ec_claim_token c' = ec_claim_token c \<and> ec_claim_until c' = ec_claim_until c)"
proof -
  from steps_claims_evolve [OF assms(1)]
  have "claim_evolves (sv_claims s k) (sv_claims s' k)" unfolding claims_evolve_def by blast
  with assms(2) show ?thesis by (auto simp: claim_evolves_def split: option.splits)
qed

definition sample_intent :: action_intent where
  "sample_intent = \<lparr>in_tenant_id = ''acme'', in_run_id = ''run-1'', in_plan_id = ''plan-1'', in_action = sample_action,
     in_plan_digest = zero_hash, in_approval_digest = zero_hash, in_policy_digest = zero_hash,
     in_operation_id = ''op-1'', in_attempt = 1, in_fence_token = ''fence-1'', in_requested_at = 105, in_dry_run = False\<rparr>"

definition sample_claimed :: "unit service_state" where
  "sample_claimed = sample_service\<lparr>sv_claims :=
     snd (claim_effect zero_rt sample_intent ''worker-1'' 110 200 (sv_claims sample_service))\<rparr>"

lemma sample_claimed_step: "control_step sample_env sample_service sample_claimed"
  unfolding sample_claimed_def
  by (rule control_step.claim [of _ sample_intent "''worker-1''" 110 200 _
        "fst (claim_effect zero_rt sample_intent ''worker-1'' 110 200 (sv_claims sample_service))"]) simp

lemma sample_claimed_claim:
  "\<exists>c. sv_claims sample_claimed (''acme'', ''op-1'') = Some c \<and> ec_attempt c = 1 \<and> ec_receipt c = None \<and>
     ec_claim_token c = effect_claim_token zero_rt sample_intent ''worker-1'' \<and> ec_fence_token c = ''fence-1'' \<and>
     ec_claim_until c = 200 \<and> claim_binding c = intent_binding sample_intent"
  by (simp add: sample_claimed_def sample_service_def initial_service_def claim_effect_def Let_def claim_binding_def
      intent_binding_def) (simp add: sample_intent_def)

text \<open>The claim of the sample with the receipt of a successful execution.\<close>

definition sample_completed :: "unit service_state" where
  "sample_completed = sample_claimed\<lparr>sv_claims :=
     snd (complete_effect (synthetic_receipt zero_rt sample_intent Out_SUCCEEDED ''ok'' 150 None)
       (effect_claim_token zero_rt sample_intent ''worker-1'') (sv_claims sample_claimed))\<rparr>"

lemma sample_completed_step: "control_step sample_env sample_claimed sample_completed"
  unfolding sample_completed_def
  by (rule control_step.complete [of "synthetic_receipt zero_rt sample_intent Out_SUCCEEDED ''ok'' 150 None"
        "effect_claim_token zero_rt sample_intent ''worker-1''" _ "fst (complete_effect
          (synthetic_receipt zero_rt sample_intent Out_SUCCEEDED ''ok'' 150 None)
          (effect_claim_token zero_rt sample_intent ''worker-1'') (sv_claims sample_claimed))"]) simp

lemma sample_completed_receipt:
  "\<exists>c r. sv_claims sample_completed (''acme'', ''op-1'') = Some c \<and> ec_receipt c = Some r"
  using sample_claimed_claim
  by (auto simp: sample_completed_def complete_effect_def Let_def synthetic_receipt_def sample_intent_def)

theorem effect_claims_evolve_witness:
  "\<exists>c c'. sv_claims sample_claimed (''acme'', ''op-1'') = Some c \<and> sv_claims sample_completed (''acme'', ''op-1'') = Some c' \<and>
     claim_binding c' = claim_binding c \<and> ec_attempt c \<le> ec_attempt c'"
proof -
  from sample_claimed_claim obtain c where c: "sv_claims sample_claimed (''acme'', ''op-1'') = Some c" by blast
  from effect_claims_evolve [OF r_into_rtranclp [of "control_step sample_env", OF sample_completed_step] c] c show ?thesis by blast
qed

section \<open>Quota\<close>

text \<open>The effect quota is conserved: in every reachable state the remaining units of a tenant and the
  units of its granted reservations add up to the tenant's limit, so the granted units never
  exceed a limit, and a reservation that was granted stays granted without being charged again.\<close>

theorem effect_quota_conserved:
  assumes "service_reachable env limits s" "0 \<le> get_default limits t 0"
  shows "get_default (eq_remaining (sv_quota s)) t 0 + reserved_units (sv_quota s) t = get_default limits t 0 \<and>
    reserved_units (sv_quota s) t \<le> get_default limits t 0 \<and>
    (\<forall>rid d. eq_reservations (sv_quota s) (t, rid) = Some d \<longrightarrow> reserve t rid 1 (sv_quota s) = (Inr d, sv_quota s))"
proof -
  have inv: "quota_inv limits (sv_quota s)" using service_reachable_inv [OF assms(1)] by (simp add: service_inv_def)
  with quota_within_limit [OF this assms(2)] effect_units.reserve_again show ?thesis by (simp add: quota_inv_def)
qed

theorem effect_quota_conserved_witness:
  "get_default (eq_remaining (sv_quota sample_service)) ''acme'' 0 + reserved_units (sv_quota sample_service) ''acme'' = 5"
  using effect_quota_conserved [OF sample_service_reachable, of "''acme''"]
  by (simp add: sample_quota_def get_default_def)

end
