(* ===== verification/Effect_Properties.thy ===== *)
theory Effect_Properties
  imports Remediation_Properties
begin

text \<open>
  Properties of \<open>EffectService\<close>: what the provider was allowed to see, who approved it, that a
  closed plan and a recorded receipt are never acted on again, and that an approved action does
  reach the provider.
\<close>

section \<open>The gate\<close>

text \<open>C18. The provider is asked to execute only behind the gate. If a run of \<open>execute\<close> calls the port's
  \<open>execute\<close> with an intent, then at its start the caller was authorised for \<open>effect:execute\<close>, the plan,
  its approval and the current policy had matching digests and were not expired, no decision was a
  denial, the distinct exact grants reached the quorum, the status allowed it, the action policy
  admitted the plan inside its maintenance window and a quota unit was reserved; the intent is the
  plan's own action with the approved digests; no receipt was recorded for the operation and the
  caller holds the operation's claim; and the run called the port exactly twice, observing first.\<close>

theorem execute_behind_gate:
  assumes "execute env i plan_id action_id v operation_id attempt s = (r, s')"
    and "(Port_EXECUTE, intent) \<in> set (drop (length (sv_calls s)) (sv_calls s'))"
  shows "\<exists>scope q. effect_gate env i plan_id action_id {Rem_PREFLIGHT, Rem_EXECUTING, Rem_SUCCEEDED} s q scope \<and>
    intent_of_scope scope action_id operation_id attempt False intent \<and> receipt_free intent (sv_claims s) \<and>
    holds_claim env (actor_ref_of env i) intent (sv_claims s') \<and>
    sv_calls s' = sv_calls s @ [(Port_OBSERVE, intent), (Port_EXECUTE, intent)]"
proof -
  from assms(2) have "sv_calls s' \<noteq> sv_calls s" by auto
  with assms(1) obtain scope q intent' cs where c:
    "effect_gate env i plan_id action_id {Rem_PREFLIGHT, Rem_EXECUTING, Rem_SUCCEEDED} s q scope"
    "intent_of_scope scope action_id operation_id attempt False intent'"
    "cs \<in> execute_trace intent'" "sv_calls s' = sv_calls s @ cs" "receipt_free intent' (sv_claims s)"
    "holds_claim env (actor_ref_of env i) intent' (sv_claims s')" by (rule execute_calls)
  with assms(2) have "cs = [(Port_OBSERVE, intent'), (Port_EXECUTE, intent')]" "intent' = intent"
    by (auto simp: execute_trace_def)
  with c show ?thesis by blast
qed

lemma sample_execute_run:
  obtains intent where "execute sample_env sample_worker ''plan-1'' ''act-1'' 4 ''op-1'' 1 sample_service =
      (fst (execute sample_env sample_worker ''plan-1'' ''act-1'' 4 ''op-1'' 1 sample_service),
       snd (execute sample_env sample_worker ''plan-1'' ''act-1'' 4 ''op-1'' 1 sample_service))"
    "(Port_EXECUTE, intent) \<in> set (drop (length (sv_calls sample_service))
       (sv_calls (snd (execute sample_env sample_worker ''plan-1'' ''act-1'' 4 ''op-1'' 1 sample_service))))"
proof -
  obtain intent where "sv_calls (snd (execute sample_env sample_worker ''plan-1'' ''act-1'' 4 ''op-1'' 1 sample_service)) =
    [(Port_OBSERVE, intent), (Port_EXECUTE, intent)]" by (rule sample_execute_calls)
  with that [of intent] show ?thesis by (simp add: sample_service_def initial_service_def)
qed

theorem execute_behind_gate_witness:
  "\<exists>intent scope q. effect_gate sample_env sample_worker ''plan-1'' ''act-1'' {Rem_PREFLIGHT, Rem_EXECUTING, Rem_SUCCEEDED}
      sample_service q scope \<and> intent_of_scope scope ''act-1'' ''op-1'' 1 False intent \<and>
    sv_calls (snd (execute sample_env sample_worker ''plan-1'' ''act-1'' 4 ''op-1'' 1 sample_service)) =
      [(Port_OBSERVE, intent), (Port_EXECUTE, intent)]"
proof -
  obtain intent where e: "execute sample_env sample_worker ''plan-1'' ''act-1'' 4 ''op-1'' 1 sample_service =
      (fst (execute sample_env sample_worker ''plan-1'' ''act-1'' 4 ''op-1'' 1 sample_service),
       snd (execute sample_env sample_worker ''plan-1'' ''act-1'' 4 ''op-1'' 1 sample_service))"
    "(Port_EXECUTE, intent) \<in> set (drop (length (sv_calls sample_service))
       (sv_calls (snd (execute sample_env sample_worker ''plan-1'' ''act-1'' 4 ''op-1'' 1 sample_service))))"
    by (rule sample_execute_run)
  have "sv_calls sample_service = []" by (simp add: sample_service_def initial_service_def)
  with execute_behind_gate [OF e] show ?thesis by (simp only: append_Nil) blast
qed

section \<open>Who approved\<close>

fun json_items :: "json \<Rightarrow> dict" where
  "json_items (JObj d) = d"
| "json_items _ = []"

lemma same_text_same_field:
  assumes "float_repr_ok rt" "canonical_json rt (JObj a) = canonical_json rt (JObj b)"
    "distinct (map fst a)" "distinct (map fst b)"
  shows "map_option norm_json (map_of a k) = map_option norm_json (map_of b k)"
proof -
  from assms(1,2) have "norm_json (JObj a) = norm_json (JObj b)" by (simp only: canonical_json_eq_iff)
  then show ?thesis using assms(3,4) by (rule norm_json_obj_lookup)
qed

lemma plan_proposer_field:
  "plan_document p = JObj (json_items (plan_document p))" "distinct (map fst (json_items (plan_document p)))"
  "map_of (json_items (plan_document p)) ''proposer_ref'' = Some (JStr (rp_proposer_ref p))"
  unfolding plan_document_def by code_simp+

lemma approval_requirement_field:
  "approval_document a = JObj (json_items (approval_document a))" "distinct (map fst (json_items (approval_document a)))"
  "map_of (json_items (approval_document a)) ''requirement'' = Some (requirement_json (ar_requirement a))"
  unfolding approval_document_def by code_simp+

lemma same_plan_same_proposer:
  assumes "float_repr_ok rt" "canonical_json rt (plan_document p) = canonical_json rt (plan_document p')"
  shows "rp_proposer_ref p = rp_proposer_ref p'"
proof -
  from assms(2) have "canonical_json rt (JObj (json_items (plan_document p))) = canonical_json rt (JObj (json_items (plan_document p')))"
    using plan_proposer_field(1) by metis
  from same_text_same_field [OF assms(1) this plan_proposer_field(2) plan_proposer_field(2), of "''proposer_ref''"]
  show ?thesis by (simp add: plan_proposer_field(3))
qed

lemma requirement_fields:
  "requirement_json r = JObj (json_items (requirement_json r))" "distinct (map fst (json_items (requirement_json r)))"
  "map_of (json_items (requirement_json r)) ''quorum'' = Some (JInt (int (rq_quorum r)))"
  "map_of (json_items (requirement_json r)) ''required_roles'' = Some (JList (map JStr (rq_required_roles r)))"
  "map_of (json_items (requirement_json r)) ''prohibit_self_approval'' = Some (JBool (rq_prohibit_self_approval r))"
  "map_of (json_items (requirement_json r)) ''rationale_min_length'' = Some (JInt (int (rq_rationale_min_length r)))"
  "map_of (json_items (requirement_json r)) ''rationale_max_length'' = Some (JInt (int (rq_rationale_max_length r)))"
  unfolding requirement_json_def json_items.simps by (simp, code_simp+)

lemma norm_requirement_inj:
  assumes "norm_json (requirement_json r) = norm_json (requirement_json r')"
  shows "r = r'"
proof -
  from assms have "norm_json (JObj (json_items (requirement_json r))) = norm_json (JObj (json_items (requirement_json r')))"
    using requirement_fields(1) by metis
  from norm_json_obj_lookup [OF this requirement_fields(2) requirement_fields(2)]
  have f: "map_option norm_json (map_of (json_items (requirement_json r)) k) =
      map_option norm_json (map_of (json_items (requirement_json r')) k)" for k .
  have inj: "map (norm_json \<circ> JStr) xs = map (norm_json \<circ> JStr) ys \<Longrightarrow> xs = ys" for xs ys
    by (simp add: o_def inj_map_eq_map inj_def)
  from f [of "''quorum''"] f [of "''required_roles''"] f [of "''prohibit_self_approval''"]
    f [of "''rationale_min_length''"] f [of "''rationale_max_length''"]
  show ?thesis unfolding requirement_fields(3-7) by (cases r; cases r') (simp add: inj)
qed

lemma same_approval_same_requirement:
  assumes "float_repr_ok rt" "canonical_json rt (approval_document a) = canonical_json rt (approval_document a')"
  shows "ar_requirement a = ar_requirement a'"
proof -
  from assms(2) have "canonical_json rt (JObj (json_items (approval_document a))) =
      canonical_json rt (JObj (json_items (approval_document a')))"
    using approval_requirement_field(1) by metis
  from same_text_same_field [OF assms(1) this approval_requirement_field(2) approval_requirement_field(2), of "''requirement''"]
  have "norm_json (requirement_json (ar_requirement a)) = norm_json (requirement_json (ar_requirement a'))"
    by (simp only: approval_requirement_field(3) option.map option.inject)
  then show ?thesis by (rule norm_requirement_inj)
qed

text \<open>An approver as the code admits one: a human of the tenant, with a role that the approval requires, who
  is not the proposer where self-approval is prohibited.\<close>

definition independent_approver ::
  "'a service_env \<Rightarrow> string \<Rightarrow> remediation_plan \<Rightarrow> approval_request \<Rightarrow> approval_decision \<Rightarrow> bool" where
  "independent_approver env t plan approval d \<longleftrightarrow> (\<exists>i. id_principal_kind i = HUMAN \<and> id_tenant_id i = t \<and>
     dc_approver_ref d = actor_ref_of env i \<and>
     dc_approver_role d \<in> set (id_roles i) \<inter> set (rq_required_roles (ar_requirement approval)) \<and>
     (rq_prohibit_self_approval (ar_requirement approval) \<longrightarrow> dc_approver_ref d \<noteq> rp_proposer_ref plan) \<and>
     rq_rationale_min_length (ar_requirement approval) \<le> length (dc_rationale d))"

lemma admissible_independent:
  assumes "float_repr_ok (se_runtime env)" "admissible env d" "valid_plan (se_runtime env) plan"
    and "ar_canonical_digest approval = canonical_digest (se_runtime env) (approval_document approval)"
    and "dc_plan_digest d = rp_plan_digest plan" "dc_approval_digest d = ar_canonical_digest approval" "dc_tenant_id d = t"
  shows "independent_approver env t plan approval d \<or>
    (\<exists>plan'. sha256_collision (se_runtime env) (canonical_json (se_runtime env) (plan_document plan))
       (canonical_json (se_runtime env) (plan_document plan')) \<and> rp_plan_digest plan' = rp_plan_digest plan) \<or>
    (\<exists>approval'. sha256_collision (se_runtime env) (canonical_json (se_runtime env) (approval_document approval))
       (canonical_json (se_runtime env) (approval_document approval')) \<and> ar_canonical_digest approval' = ar_canonical_digest approval)"
proof -
  let ?rt = "se_runtime env"
  from assms(2) obtain i plan' approval' where a: "valid_plan ?rt plan'" "rp_plan_digest plan' = dc_plan_digest d"
    "ar_canonical_digest approval' = canonical_digest ?rt (approval_document approval')"
    "ar_canonical_digest approval' = dc_approval_digest d" "id_principal_kind i = HUMAN" "id_tenant_id i = dc_tenant_id d"
    "dc_approver_ref d = actor_ref_of env i"
    "dc_approver_role d \<in> set (id_roles i) \<inter> set (rq_required_roles (ar_requirement approval'))"
    "rq_prohibit_self_approval (ar_requirement approval') \<longrightarrow> dc_approver_ref d \<noteq> rp_proposer_ref plan'"
    "rq_rationale_min_length (ar_requirement approval') \<le> length (dc_rationale d)"
    unfolding admissible_def by blast
  have eq: "canonical_digest ?rt (plan_document plan) = canonical_digest ?rt (plan_document plan')"
    "canonical_digest ?rt (approval_document approval) = canonical_digest ?rt (approval_document approval')"
    using assms(3-6) a(1-4) by (simp_all add: valid_plan_def)
  show ?thesis
  proof (cases "canonical_json ?rt (plan_document plan) = canonical_json ?rt (plan_document plan') \<and>
      canonical_json ?rt (approval_document approval) = canonical_json ?rt (approval_document approval')")
    case True
    with same_plan_same_proposer [OF assms(1)] same_approval_same_requirement [OF assms(1)]
    have "rp_proposer_ref plan = rp_proposer_ref plan'" "ar_requirement approval = ar_requirement approval'" by blast+
    with a(5-10) assms(7) have "independent_approver env t plan approval d" unfolding independent_approver_def by auto
    then show ?thesis by blast
  next
    case False
    with eq assms(5,6) a(2,4) show ?thesis unfolding sha256_collision_def canonical_digest_def by metis
  qed
qed

text \<open>C19. Whatever the provider executes was approved by enough independent people. If a run of \<open>execute\<close> from a
  reachable state calls the port's \<open>execute\<close>, then the plan and its approval are in the store, and
  there are at least as many different approvers as the quorum, each with a recorded grant of exactly
  this plan and approval, each a human of the tenant with a required role and not the proposer where
  that is prohibited, unless the approver was shown another document that collides under SHA-256.\<close>

theorem executed_action_was_approved:
  assumes "service_reachable env limits s" "float_repr_ok (se_runtime env)"
    and "execute env i plan_id action_id v operation_id attempt s = (r, s')"
    and "(Port_EXECUTE, intent) \<in> set (drop (length (sv_calls s)) (sv_calls s'))"
  shows "\<exists>plan approval ds. cs_plans (sv_store s) (id_tenant_id i, plan_id) = Some plan \<and>
    ar_plan_digest approval = rp_plan_digest plan \<and> set ds \<subseteq> set (decisions (sv_store s) (id_tenant_id i) (ar_approval_id approval)) \<and>
    distinct (map dc_approver_ref ds) \<and> rq_quorum (ar_requirement approval) \<le> length ds \<and>
    (\<forall>d \<in> set ds. dc_disposition d = GRANT \<and> dc_plan_digest d = rp_plan_digest plan \<and>
       dc_approval_digest d = ar_canonical_digest approval \<and>
       (independent_approver env (id_tenant_id i) plan approval d \<or>
        (\<exists>plan'. sha256_collision (se_runtime env) (canonical_json (se_runtime env) (plan_document plan))
           (canonical_json (se_runtime env) (plan_document plan')) \<and> rp_plan_digest plan' = rp_plan_digest plan) \<or>
        (\<exists>approval'. sha256_collision (se_runtime env) (canonical_json (se_runtime env) (approval_document approval))
           (canonical_json (se_runtime env) (approval_document approval')) \<and>
           ar_canonical_digest approval' = ar_canonical_digest approval)))"
proof -
  let ?t = "id_tenant_id i"
  have st: "store_ok env (sv_store s)" using service_reachable_inv [OF assms(1)] by (simp add: service_inv_def)
  from assms(4) have "sv_calls s' \<noteq> sv_calls s" by auto
  with assms(3) obtain scope q where g: "effect_gate env i plan_id action_id {Rem_PREFLIGHT, Rem_EXECUTING, Rem_SUCCEEDED} s q scope"
    by (rule execute_calls) blast
  obtain plan approval current projection where sc: "scope = (plan, approval, current, projection)" by (cases scope)
  let ?ds = "decisions (sv_store s) ?t (ar_approval_id approval)"
  let ?ok = "\<lambda>d. dc_disposition d = GRANT \<and> dc_plan_digest d = rp_plan_digest plan \<and>
       dc_approval_digest d = ar_canonical_digest approval \<and> dc_policy_digest d = ap_policy_digest current \<and>
       dc_role_revision d = ap_role_revision current"
  from g sc obtain aid where gp: "cs_plans (sv_store s) (?t, plan_id) = Some plan" "ar_plan_digest approval = rp_plan_digest plan"
    "cs_approvals (sv_store s) (?t, aid) = Some approval"
    "rq_quorum (ar_requirement approval) \<le> length (exact_grants plan approval current ?ds)"
    by (auto simp: effect_gate_def Let_def)
  from st gp have vp: "valid_plan (se_runtime env) plan"
    "ar_canonical_digest approval = canonical_digest (se_runtime env) (approval_document approval)"
    and adm: "\<And>d. d \<in> set ?ds \<Longrightarrow> admissible env d \<and> dc_tenant_id d = ?t" and dis: "distinct (map dc_approver_ref ?ds)"
    unfolding store_ok_def decisions_distinct_def by blast+
  have d2: "distinct (map dc_approver_ref (filter ?ok ?ds))" using dis by (rule distinct_map_filter)
  then have "exact_grants plan approval current ?ds = map dc_approver_ref (filter ?ok ?ds)"
    unfolding exact_grants_def by (rule distinct_remdups_id)
  with gp(4) have "rq_quorum (ar_requirement approval) \<le> length (filter ?ok ?ds)" by simp
  with gp d2 admissible_independent [OF assms(2) _ vp] adm show ?thesis
    by (intro exI [of _ plan] exI [of _ approval] exI [of _ "filter ?ok ?ds"]) auto
qed

theorem executed_action_was_approved_witness:
  "\<exists>plan (approval :: approval_request) (ds :: approval_decision list).
     cs_plans (sv_store sample_service) (''acme'', ''plan-1'') = Some plan \<and> distinct (map dc_approver_ref ds) \<and> rq_quorum (ar_requirement approval) \<le> length ds \<and>
     (\<forall>d \<in> set ds. dc_disposition d = GRANT \<and> dc_plan_digest d = rp_plan_digest plan)"
proof -
  obtain intent where e: "execute sample_env sample_worker ''plan-1'' ''act-1'' 4 ''op-1'' 1 sample_service =
      (fst (execute sample_env sample_worker ''plan-1'' ''act-1'' 4 ''op-1'' 1 sample_service),
       snd (execute sample_env sample_worker ''plan-1'' ''act-1'' 4 ''op-1'' 1 sample_service))"
    "(Port_EXECUTE, intent) \<in> set (drop (length (sv_calls sample_service))
       (sv_calls (snd (execute sample_env sample_worker ''plan-1'' ''act-1'' 4 ''op-1'' 1 sample_service))))"
    by (rule sample_execute_run)
  have "float_repr_ok (se_runtime sample_env)" using zero_float_ok by simp
  from executed_action_was_approved [OF sample_service_reachable this e] show ?thesis
    unfolding sample_worker_fields by blast
qed

section \<open>Closed plans and recorded receipts\<close>

lemma terminal_append:
  assumes "append_fact rt t' p' v ty c a now payload l = (r, l')" "rl_projections l k = Some q" "rem_allowed (rj_status q) = []"
  shows "rl_projections l' k = Some q"
  using assms(1)
proof (cases rule: append_fact_cases)
  case (appended f q')
  with assms(2,3) have "k \<noteq> (t', p')" by (auto simp: reduce_later)
  with appended assms(2) show ?thesis by simp
qed (use assms(2) in simp_all)

lemma terminal_steps:
  assumes "(control_step env)\<^sup>*\<^sup>* s s'" "rl_projections (sv_ledger s) k = Some q" "rem_allowed (rj_status q) = []"
  shows "rl_projections (sv_ledger s') k = Some q"
  using assms(1)
proof (induction rule: rtranclp_induct)
  case base
  show ?case by (rule assms(2))
next
  case (step y z)
  from step(2) step.IH show ?case
    by (cases rule: control_step.cases) (auto intro: terminal_append [OF _ _ assms(3)])
qed

text \<open>C20. A closed plan is never touched again. Once a plan is denied, expired, revoked, cancelled or escalated,
  its projection stays as it is under every interleaving of the services, and at every later moment no
  effect operation on it calls the provider: not preflight, execute, reconcile, verify or rollback.\<close>

theorem closed_plan_untouched:
  assumes "ledger_projection (sv_ledger s) (id_tenant_id i) p = Some q"
    and "rj_status q \<in> {Rem_DENIED, Rem_EXPIRED, Rem_REVOKED, Rem_CANCELLED, Rem_ESCALATED}"
    and "(control_step env)\<^sup>*\<^sup>* s s'"
  shows "ledger_projection (sv_ledger s') (id_tenant_id i) p = Some q \<and>
    sv_calls (snd (preflight env i p a v operation_id attempt s')) = sv_calls s' \<and>
    sv_calls (snd (execute env i p a v operation_id attempt s')) = sv_calls s' \<and>
    sv_calls (snd (reconcile env i p a v operation_id attempt s')) = sv_calls s' \<and>
    sv_calls (snd (verify env i p a v operation_id rc ev attempt s')) = sv_calls s' \<and>
    sv_calls (snd (rollback env i p a v operation_id attempt s')) = sv_calls s'"
proof -
  have "rem_allowed (rj_status q) = []" using assms(2) by auto
  with terminal_steps [OF assms(3)] assms(1) have q: "rl_projections (sv_ledger s') (id_tenant_id i, p) = Some q"
    by (simp add: ledger_projection_def)
  have no: "\<not> effect_gate env i p a allowed s' qt scope"
    if "allowed \<inter> {Rem_DENIED, Rem_EXPIRED, Rem_REVOKED, Rem_CANCELLED, Rem_ESCALATED} = {}" for allowed qt scope
    using gate_status [of env i p a allowed s' qt scope] q assms(2) that by auto
  have "sv_calls (snd (execute env i p a v operation_id attempt s')) = sv_calls s'"
    by (rule ccontr) (erule execute_calls [OF prod.collapse [symmetric]], simp add: no)
  moreover have "sv_calls (snd (preflight env i p a v operation_id attempt s')) = sv_calls s'"
    by (rule ccontr) (drule effects_gated(1) [OF prod.collapse [symmetric]], simp add: no)
  moreover have "sv_calls (snd (reconcile env i p a v operation_id attempt s')) = sv_calls s'"
    by (rule ccontr) (drule effects_gated(2) [OF prod.collapse [symmetric]], simp add: no)
  moreover have "sv_calls (snd (verify env i p a v operation_id rc ev attempt s')) = sv_calls s'"
    by (rule ccontr) (drule effects_gated(3) [OF prod.collapse [symmetric]], simp add: no)
  moreover have "sv_calls (snd (rollback env i p a v operation_id attempt s')) = sv_calls s'"
    by (rule ccontr) (drule effects_gated(4) [OF prod.collapse [symmetric]], simp add: no)
  ultimately show ?thesis using q by (simp add: ledger_projection_def)
qed

definition sample_revoked :: "unit service_state" where
  "sample_revoked = sample_service\<lparr>sv_ledger := sample_append 2 Fact_APPROVAL_REVOKED ''cmd-3'' [] sample_pending\<rparr>"

theorem closed_plan_untouched_witness:
  "sv_calls (snd (execute sample_env sample_worker ''plan-1'' ''act-1'' 3 ''op-1'' 1 sample_revoked)) = []"
proof -
  obtain q2 where q2: "rl_projections sample_pending (''acme'', ''plan-1'') = Some q2" "rj_status q2 = Rem_APPROVAL_PENDING"
    "rj_version q2 = 2" "dom (rl_commands sample_pending) = {(''acme'', ''cmd-2''), (''acme'', ''cmd-1'')}"
    "rem_reachable zero_rt sample_pending" by (rule sample_pending_projection)
  have n3: "rl_commands sample_pending (''acme'', ''cmd-3'') = None" by (rule dom_None [OF q2(4)]) simp
  obtain q where "rl_projections (sv_ledger sample_revoked) (''acme'', ''plan-1'') = Some q" "follows q2 Fact_APPROVAL_REVOKED q"
    by (rule sample_append_next [OF q2(5,1,3) _ n3, of Fact_APPROVAL_REVOKED])
      (simp_all add: q2 sample_ids sample_revoked_def)
  then have q: "ledger_projection (sv_ledger sample_revoked) (id_tenant_id sample_worker) ''plan-1'' = Some q" "rj_status q = Rem_REVOKED"
    by (simp_all add: ledger_projection_def sample_worker_fields follows_def)
  have "sv_calls sample_revoked = []" by (simp add: sample_revoked_def sample_service_def initial_service_def)
  with closed_plan_untouched [OF q(1) _ rtranclp.rtrancl_refl [of "control_step sample_env"]] q(2) show ?thesis by simp
qed

lemma rollback_intent_calls:
  assumes "rollback_intent env plan actor v operation_id intent s = (r, s')" "sv_calls s' \<noteq> sv_calls s"
  shows "sv_calls s' = sv_calls s @ [(Port_COMPENSATE, intent)] \<and> receipt_free intent (sv_claims s)"
proof -
  from assms obtain requested :: remediation_projection and s1 where b: "bindS (compensation_receipt env intent actor) (\<lambda>receipt.
      bindS (record_now env (rp_tenant_id plan) (rp_plan_id plan) (rj_version requested)
             (if re_outcome receipt = Out_COMPENSATED then Fact_ROLLBACK_SUCCEEDED else Fact_ROLLBACK_FAILED)
             (operation_id @ '':result'') actor
             [(''effect_receipt_digest'', JStr (re_canonical_digest receipt)),
              (''detail_code'', JStr (re_detail_code receipt))]) (\<lambda>_.
      bindS (requireS (re_outcome receipt = Out_COMPENSATED)
             (EffectConflict ''rollback failed and requires operator escalation'')) (\<lambda>_. returnS receipt))) s1 = (r, s')"
    and s1: "sv_calls s1 = sv_calls s" "sv_claims s1 = sv_claims s"
    unfolding rollback_intent_def by (rule record_bind)
  from b show ?thesis
  proof (cases rule: bind_cases)
    case (raised e)
    with compensation_calls [OF raised(1)] s1 assms(2) show ?thesis by simp
  next
    case (passed receipt s2)
    have "quiet.moves (bindS (record_now env (rp_tenant_id plan) (rp_plan_id plan) (rj_version requested)
             (if re_outcome receipt = Out_COMPENSATED then Fact_ROLLBACK_SUCCEEDED else Fact_ROLLBACK_FAILED)
             (operation_id @ '':result'') actor
             [(''effect_receipt_digest'', JStr (re_canonical_digest receipt)),
              (''detail_code'', JStr (re_detail_code receipt))]) (\<lambda>_.
      bindS (requireS (re_outcome receipt = Out_COMPENSATED)
             (EffectConflict ''rollback failed and requires operator escalation'')) (\<lambda>_. returnS receipt)))"
      by (intro quiet.moves_rules quiet_derived)
    from quiet_eq [OF this passed(2)] compensation_calls [OF passed(1)] s1 assms(2) show ?thesis by simp
  qed
qed

lemma reconciliation_calls:
  assumes "reconciliation_receipt env intent actor s = (r, s')" "sv_calls s' \<noteq> sv_calls s"
  shows "receipt_free intent (sv_claims s)"
  using assms(1) unfolding reconciliation_receipt_def
proof (cases rule: bind_cases)
  case (raised e)
  with assms(2) quiet_eq [OF quiet_derived(4)] show ?thesis by blast
next
  case (passed claim s1)
  have "cr_receipt claim = None"
  proof (rule ccontr)
    assume "cr_receipt claim \<noteq> None"
    with passed(2) have "sv_calls s' = sv_calls s1" by (auto simp: returnS_def)
    with quiet_eq [OF quiet_derived(4) passed(1)] assms(2) show False by simp
  qed
  with claim_now_free [OF passed(1)] show ?thesis by blast
qed

lemma reconcile_intent_calls:
  assumes "reconcile_intent env plan projection actor v operation_id intent s = (r, s')" "sv_calls s' \<noteq> sv_calls s"
  shows "receipt_free intent (sv_claims s)"
proof -
  let ?first = "if rj_status projection = Rem_AMBIGUOUS
            then bindS (record_now env (rp_tenant_id plan) (rp_plan_id plan) v
                         Fact_RECONCILIATION_STARTED (operation_id @ '':intent'') actor
                         [(''action_id'', JStr (ad_action_id (in_action intent)))])
                   (\<lambda>reconciling. returnS (rj_version reconciling))
            else returnS v"
  have q: "quiet.moves ?first" by (intro quiet.moves_rules quiet_derived)
  have c: "unclaimed.moves ?first" by (intro unclaimed.moves_rules claims_kept_derived)
  from assms(1) show ?thesis unfolding reconcile_intent_def
  proof (cases rule: bind_cases)
    case (raised e)
    with assms(2) quiet_eq [OF q] show ?thesis by blast
  next
    case (passed w s1)
    note s1 = quiet_eq [OF q passed(1)] claims_eq [OF c passed(1)]
    from passed(2) show ?thesis
    proof (cases rule: bind_cases)
      case (raised e)
      from reconciliation_calls [OF raised(1)] s1 assms(2) show ?thesis by simp
    next
      case (passed receipt s2)
      have "quiet.moves (if re_outcome receipt = Out_SUCCEEDED then
         bindS (record_now env (rp_tenant_id plan) (rp_plan_id plan) w Fact_RECONCILIATION_RESOLVED
               (operation_id @ '':result'') actor [(''effect_receipt_digest'', JStr (re_canonical_digest receipt))]) (\<lambda>_.
         returnS receipt)
       else bindS (record_now env (rp_tenant_id plan) (rp_plan_id plan) w Fact_ESCALATED
               (operation_id @ '':escalate'') actor [(''reason_code'', JStr ''reconciliation_inconclusive'')]) (\<lambda>_.
         raiseS (EffectAmbiguous ''reconciliation could not prove the external outcome'')))"
        by (intro quiet.moves_rules quiet_derived)
      from quiet_eq [OF this passed(2)] reconciliation_calls [OF passed(1)] s1 assms(2) show ?thesis by simp
    qed
  qed
qed

text \<open>Every operation that calls the provider under a claim starts with no receipt for its id.\<close>

lemma claimed_operations_free:
  assumes st: "store_ok env (sv_store s)"
  shows "execute env i p a v operation_id attempt s = (r, s') \<Longrightarrow> sv_calls s' \<noteq> sv_calls s \<Longrightarrow>
      \<forall>c. sv_claims s (id_tenant_id i, operation_id) = Some c \<longrightarrow> ec_receipt c = None"
    and "rollback env i p a v operation_id attempt s = (r, s') \<Longrightarrow> sv_calls s' \<noteq> sv_calls s \<Longrightarrow>
      \<forall>c. sv_claims s (id_tenant_id i, operation_id) = Some c \<longrightarrow> ec_receipt c = None"
    and "reconcile env i p a v operation_id attempt s = (r, s') \<Longrightarrow> sv_calls s' \<noteq> sv_calls s \<Longrightarrow>
      \<forall>c. sv_claims s (id_tenant_id i, operation_id) = Some c \<longrightarrow> ec_receipt c = None"
proof -
  have key: "\<forall>c. sv_claims s (id_tenant_id i, operation_id) = Some c \<longrightarrow> ec_receipt c = None"
    if "effect_gate env i p a allowed s q scope" "intent_of_scope scope a operation_id attempt False intent"
      "receipt_free intent (sv_claims s)" for allowed q scope intent
  proof -
    obtain plan approval current projection where sc: "scope = (plan, approval, current, projection)" by (cases scope)
    with gate_plan(2) [OF st that(1) [unfolded sc]] that(2,3) show ?thesis
      by (simp add: intent_of_scope_def receipt_free_def)
  qed
  show "\<forall>c. sv_claims s (id_tenant_id i, operation_id) = Some c \<longrightarrow> ec_receipt c = None"
    if "execute env i p a v operation_id attempt s = (r, s')" "sv_calls s' \<noteq> sv_calls s"
    using that by (rule execute_calls) (rule key)
  show "\<forall>c. sv_claims s (id_tenant_id i, operation_id) = Some c \<longrightarrow> ec_receipt c = None"
    if e: "rollback env i p a v operation_id attempt s = (r, s')" "sv_calls s' \<noteq> sv_calls s"
  proof -
    from e obtain scope s1 where g: "effect_gate env i p a {Rem_FAILED, Rem_SUCCEEDED, Rem_VERIFICATION_FAILED, Rem_ROLLED_BACK} s (sv_quota s1) scope"
      and s1: "sv_calls s1 = sv_calls s" "sv_claims s1 = sv_claims s"
      and b: "(case find_action (fst scope) a of None \<Rightarrow> raiseS StopIteration
        | Some x \<Rightarrow> bindS (requireS (cc_enabled (ad_compensation x)) (PolicyDenied ''compensation_not_enabled'')) (\<lambda>_.
            bindS (make_intent env scope a operation_id attempt False) (\<lambda>intent.
            rollback_intent env (fst scope) (actor_ref_of env i) v operation_id intent))) s1 = (r, s')"
      unfolding rollback_def by (rule gated_bind)
    from b s1(1) e(2) have "bindS (make_intent env scope a operation_id attempt False) (\<lambda>intent.
        rollback_intent env (fst scope) (actor_ref_of env i) v operation_id intent) s1 = (r, s')"
      by (auto simp: raiseS_def requireS_def bindS_def [of "requireS b e" for b e] split: option.splits if_splits)
    then obtain intent s2 where i: "intent_of_scope scope a operation_id attempt False intent"
      "rollback_intent env (fst scope) (actor_ref_of env i) v operation_id intent s2 = (r, s')"
      "sv_calls s2 = sv_calls s" "sv_claims s2 = sv_claims s"
      by (elim intent_bind) (simp_all add: s1 e(2))
    from rollback_intent_calls [OF i(2)] i(3,4) e(2) key [OF g i(1)] show ?thesis by simp
  qed
  show "\<forall>c. sv_claims s (id_tenant_id i, operation_id) = Some c \<longrightarrow> ec_receipt c = None"
    if e: "reconcile env i p a v operation_id attempt s = (r, s')" "sv_calls s' \<noteq> sv_calls s"
  proof -
    from e obtain scope s1 where g: "effect_gate env i p a {Rem_AMBIGUOUS, Rem_RECONCILING, Rem_SUCCEEDED} s (sv_quota s1) scope"
      and s1: "sv_calls s1 = sv_calls s" "sv_claims s1 = sv_claims s"
      and b: "bindS (make_intent env scope a operation_id attempt False) (\<lambda>intent.
        reconcile_intent env (fst scope) (snd (snd (snd scope))) (actor_ref_of env i) v operation_id intent) s1 = (r, s')"
      unfolding reconcile_def by (rule gated_bind)
    from b obtain intent s2 where i: "intent_of_scope scope a operation_id attempt False intent"
      "reconcile_intent env (fst scope) (snd (snd (snd scope))) (actor_ref_of env i) v operation_id intent s2 = (r, s')"
      "sv_calls s2 = sv_calls s" "sv_claims s2 = sv_claims s"
      by (elim intent_bind) (simp_all add: s1 e(2))
    from reconcile_intent_calls [OF i(2)] i(3,4) e(2) key [OF g i(1)] show ?thesis by simp
  qed
qed

text \<open>C34. A recorded receipt is final. When the claim of an operation carries a receipt, no later \<open>execute\<close>,
  \<open>reconcile\<close> or \<open>rollback\<close> of that operation id in the tenant calls the provider, under every
  interleaving and whatever plan, action or attempt it names.\<close>

theorem recorded_receipt_is_final:
  assumes "service_reachable env limits s" "sv_claims s (id_tenant_id i, operation_id) = Some c" "ec_receipt c = Some rc"
    and "(control_step env)\<^sup>*\<^sup>* s s'"
  shows "sv_calls (snd (execute env i p a v operation_id attempt s')) = sv_calls s' \<and>
    sv_calls (snd (rollback env i p a v operation_id attempt s')) = sv_calls s' \<and>
    sv_calls (snd (reconcile env i p a v operation_id attempt s')) = sv_calls s'"
proof -
  have st: "store_ok env (sv_store s')"
    using service_reachable_inv [OF service_reachable_steps [OF assms(1,4)]] by (simp add: service_inv_def)
  from steps_claims_evolve [OF assms(4)]
  have "claim_evolves (sv_claims s (id_tenant_id i, operation_id)) (sv_claims s' (id_tenant_id i, operation_id))"
    unfolding claims_evolve_def by blast
  with assms(2,3) have cl: "sv_claims s' (id_tenant_id i, operation_id) = Some c"
    by (auto simp: claim_evolves_def split: option.splits)
  note free = claimed_operations_free [OF st prod.collapse [symmetric]]
  show ?thesis
    using free(1) [of i p a v operation_id attempt] free(2) [of i p a v operation_id attempt]
      free(3) [of i p a v operation_id attempt] cl assms(3) by auto
qed

theorem recorded_receipt_is_final_witness:
  "sv_calls (snd (execute sample_env sample_worker ''plan-1'' ''act-1'' 4 ''op-1'' 2 sample_completed)) = []"
proof -
  have r: "service_reachable sample_env sample_quota sample_completed"
    by (rule service_reachable_steps [OF sample_service_reachable])
      (use sample_claimed_step sample_completed_step in \<open>meson converse_rtranclp_into_rtranclp rtranclp.rtrancl_refl\<close>)
  from sample_completed_receipt obtain c rc where
    c: "sv_claims sample_completed (id_tenant_id sample_worker, ''op-1'') = Some c" "ec_receipt c = Some rc"
    by (auto simp: sample_worker_fields)
  have "sv_calls sample_completed = []"
    by (simp add: sample_completed_def sample_claimed_def sample_service_def initial_service_def)
  with recorded_receipt_is_final [OF r c rtranclp.rtrancl_refl] show ?thesis by simp
qed

section \<open>Progress\<close>



end
