(* ===== verification/Base64.thy ===== *)
theory Base64
  imports Prelude
begin

text \<open>
  \<^verbatim>\<open>base64.urlsafe_b64encode\<close> and \<^verbatim>\<open>base64.urlsafe_b64decode\<close> as the cursor tokens use them:
  the encoder's text with its padding stripped, and the lenient scanner of \<^verbatim>\<open>binascii\<close>, which
  skips characters outside the alphabet, stops at a complete padding and rejects an incomplete
  group. Bytes are characters. The main result is that the scanner reads back every encoded text
  once the padding is restored.
\<close>

section \<open>The alphabet\<close>

definition b64_char :: "nat \<Rightarrow> char" where
  "b64_char n =
     (if n < 26 then char_of (65 + n) else if n < 52 then char_of (71 + n)
      else if n < 62 then char_of (n - 4) else if n = 62 then CHR ''-'' else CHR ''_'')"

text \<open>\<^verbatim>\<open>urlsafe_b64decode\<close> maps \<open>-\<close> and \<open>_\<close> to \<open>+\<close> and \<open>/\<close>, so all four are digits.\<close>

definition b64_val :: "char \<Rightarrow> nat option" where
  "b64_val c =
     (let n = of_char c :: nat in
      if 65 \<le> n \<and> n \<le> 90 then Some (n - 65) else if 97 \<le> n \<and> n \<le> 122 then Some (n - 71)
      else if 48 \<le> n \<and> n \<le> 57 then Some (n + 4)
      else if c = CHR ''+'' \<or> c = CHR ''-'' then Some 62
      else if c = CHR 0x2F \<or> c = CHR ''_'' then Some 63 else None)"

lemma b64_char_code:
  "n < 64 \<Longrightarrow> (of_char (b64_char n) :: nat) =
     (if n < 26 then 65 + n else if n < 52 then 71 + n else if n < 62 then n - 4 else if n = 62 then 45 else 95)"
  by (simp add: b64_char_def of_char_of)

lemma b64_val_char [simp]: "n < 64 \<Longrightarrow> b64_val (b64_char n) = Some n"
proof -
  assume n: "n < 64"
  consider "n < 26" | "26 \<le> n" "n < 52" | "52 \<le> n" "n < 62" | "n = 62" | "n = 63" using n by linarith
  then show ?thesis
  proof cases
    case 4
    then show ?thesis by (simp add: b64_val_def b64_char_def)
  next
    case 5
    then show ?thesis by (simp add: b64_val_def b64_char_def)
  next
    case 3
    moreover from this have "(of_char (b64_char n) :: nat) = n - 4" by (simp add: b64_char_code)
    ultimately show ?thesis by (auto simp: b64_val_def Let_def)
  qed (simp_all add: b64_val_def Let_def b64_char_code)
qed

lemma b64_val_pad: "b64_val (CHR ''='') = None"
  by (simp add: b64_val_def)

lemma b64_char_not_pad [simp]: "n < 64 \<Longrightarrow> b64_char n \<noteq> CHR ''=''"
  using b64_val_char b64_val_pad by (metis option.distinct(1))

section \<open>Encoding\<close>

definition byte_val :: "char \<Rightarrow> nat" where
  "byte_val c = of_char c"

lemma byte_val_less [simp]: "byte_val c < 256"
  by (simp add: byte_val_def)

lemma char_of_byte_val [simp]: "char_of (byte_val c) = c"
  by (simp add: byte_val_def)

fun b64encode :: "string \<Rightarrow> string" where
  "b64encode [] = []"
| "b64encode [a] = [b64_char (byte_val a div 4), b64_char (byte_val a mod 4 * 16), CHR ''='', CHR ''='']"
| "b64encode [a, b] =
     [b64_char (byte_val a div 4), b64_char (byte_val a mod 4 * 16 + byte_val b div 16),
      b64_char (byte_val b mod 16 * 4), CHR ''='']"
| "b64encode (a # b # c # rest) =
     b64_char (byte_val a div 4) # b64_char (byte_val a mod 4 * 16 + byte_val b div 16) #
     b64_char (byte_val b mod 16 * 4 + byte_val c div 64) # b64_char (byte_val c mod 64) # b64encode rest"

text \<open>\<^verbatim>\<open>.rstrip("=")\<close>.\<close>

definition rstrip_pad :: "string \<Rightarrow> string" where
  "rstrip_pad s = rev (dropWhile (\<lambda>c. c = CHR ''='') (rev s))"

section \<open>Decoding\<close>

text \<open>The loop of \<^verbatim>\<open>binascii.a2b_base64\<close>: \<open>q\<close> is the position in the group of four, \<open>l\<close> the bits left
  over, \<open>p\<close> the padding characters seen.\<close>

fun b64_scan :: "string \<Rightarrow> nat \<Rightarrow> nat \<Rightarrow> nat \<Rightarrow> string option" where
  "b64_scan [] q l p = (if q = 0 then Some [] else None)"
| "b64_scan (c # cs) q l p =
     (if c = CHR ''='' then
        (if 2 \<le> q \<and> 4 \<le> q + (p + 1) then Some [] else b64_scan cs q l (if 2 \<le> q then p + 1 else p))
      else case b64_val c of
        None \<Rightarrow> b64_scan cs q l p
      | Some v \<Rightarrow>
          if q = 0 then b64_scan cs 1 v 0
          else if q = 1 then map_option ((#) (char_of (l * 4 + v div 16))) (b64_scan cs 2 (v mod 16) 0)
          else if q = 2 then map_option ((#) (char_of (l * 16 + v div 4))) (b64_scan cs 3 (v mod 4) 0)
          else map_option ((#) (char_of (l * 64 + v))) (b64_scan cs 0 0 0))"

text \<open>A text argument with a character outside ASCII is rejected before the scan.\<close>

definition urlsafe_b64decode :: "string \<Rightarrow> string option" where
  "urlsafe_b64decode s = (if \<forall>c \<in> set s. byte_val c < 128 then b64_scan s 0 0 0 else None)"

section \<open>Reading an encoded text\<close>

text \<open>\<^verbatim>\<open>"=" * (-len(token) % 4)\<close>.\<close>

definition b64_padding :: "string \<Rightarrow> string" where
  "b64_padding s = replicate ((4 - length s mod 4) mod 4) (CHR ''='')"

fun b64_digits :: "string \<Rightarrow> string" where
  "b64_digits [] = []"
| "b64_digits [a] = [b64_char (byte_val a div 4), b64_char (byte_val a mod 4 * 16)]"
| "b64_digits [a, b] =
     [b64_char (byte_val a div 4), b64_char (byte_val a mod 4 * 16 + byte_val b div 16), b64_char (byte_val b mod 16 * 4)]"
| "b64_digits (a # b # c # rest) =
     b64_char (byte_val a div 4) # b64_char (byte_val a mod 4 * 16 + byte_val b div 16) #
     b64_char (byte_val b mod 16 * 4 + byte_val c div 64) # b64_char (byte_val c mod 64) # b64_digits rest"

lemma sextets:
  "byte_val a div 4 < 64" "byte_val a mod 4 * 16 < 64" "byte_val a mod 4 * 16 + byte_val b div 16 < 64"
  "byte_val b mod 16 * 4 < 64" "byte_val b mod 16 * 4 + byte_val c div 64 < 64" "byte_val c mod 64 < 64"
  using byte_val_less [of a] byte_val_less [of b] byte_val_less [of c] by (simp_all, linarith+)

lemma b64_digits_val: "\<forall>c \<in> set (b64_digits s). b64_val c \<noteq> None"
  by (induction s rule: b64_digits.induct) (simp_all add: sextets)

lemma b64_val_ascii: "b64_val c \<noteq> None \<Longrightarrow> byte_val c < 128"
  by (auto simp: b64_val_def byte_val_def Let_def split: if_splits)

lemma rstrip_digits:
  assumes "\<forall>c \<in> set s. b64_val c \<noteq> None"
  shows "rstrip_pad (s @ replicate n (CHR ''='')) = s"
proof -
  have "dropWhile (\<lambda>c. c = CHR ''='') (replicate n (CHR ''='') @ rev s) = dropWhile (\<lambda>c. c = CHR ''='') (rev s)"
    by (induction n) simp_all
  moreover have "dropWhile (\<lambda>c. c = CHR ''='') (rev s) = rev s"
    using assms b64_val_pad by (cases "rev s") auto
  ultimately show ?thesis by (simp add: rstrip_pad_def)
qed

lemma rstrip_b64encode: "rstrip_pad (b64encode s) = b64_digits s"
proof -
  have "\<exists>n. b64encode s = b64_digits s @ replicate n (CHR ''='')"
    by (induction s rule: b64encode.induct) (auto simp: numeral_2_eq_2 intro: exI [of _ "Suc 0"] exI [of _ "Suc (Suc 0)"])
  then show ?thesis using rstrip_digits [OF b64_digits_val] by auto
qed

lemma b64_scan_digit:
  "v < 64 \<Longrightarrow> b64_scan (b64_char v # cs) q l p =
     (if q = 0 then b64_scan cs 1 v 0
      else if q = 1 then map_option ((#) (char_of (l * 4 + v div 16))) (b64_scan cs 2 (v mod 16) 0)
      else if q = 2 then map_option ((#) (char_of (l * 16 + v div 4))) (b64_scan cs 3 (v mod 4) 0)
      else map_option ((#) (char_of (l * 64 + v))) (b64_scan cs 0 0 0))"
  by simp

lemma b64_scan_pads: "b64_scan ''=='' 2 l 0 = Some []" "b64_scan ''='' 3 l 0 = Some []"
  by simp_all

lemma padding_lengths: "b64_padding [a, b] = ''==''" "b64_padding [a, b, c] = ''=''"
  by (simp_all add: b64_padding_def numeral_2_eq_2)

lemma high_bits: "byte_val b div 16 div 16 = 0" "byte_val b div 16 mod 16 = byte_val b div 16"
  "byte_val b div 64 div 4 = 0" "byte_val b div 64 mod 4 = byte_val b div 64"
proof -
  have "byte_val b div 16 < 16" "byte_val b div 64 < 4" using byte_val_less [of b] by (simp_all add: div_less_iff_less_mult)
  then show "byte_val b div 16 div 16 = 0" "byte_val b div 16 mod 16 = byte_val b div 16"
    "byte_val b div 64 div 4 = 0" "byte_val b div 64 mod 4 = byte_val b div 64" by simp_all
qed

lemma b64_scan_digits: "b64_scan (b64_digits s @ b64_padding (b64_digits s)) 0 0 0 = Some s"
proof (induction s rule: b64_digits.induct)
  case (2 a)
  show ?case by (simp add: b64_scan_digit sextets padding_lengths b64_scan_pads del: b64_scan.simps(2))
next
  case (3 a b)
  show ?case by (simp add: b64_scan_digit sextets padding_lengths b64_scan_pads high_bits del: b64_scan.simps(2))
next
  case (4 a b c rest)
  then show ?case by (simp add: b64_scan_digit sextets b64_padding_def high_bits del: b64_scan.simps(2))
qed (simp add: b64_padding_def)

lemma urlsafe_roundtrip:
  "urlsafe_b64decode (rstrip_pad (b64encode s) @ b64_padding (rstrip_pad (b64encode s))) = Some s"
proof -
  have "byte_val (CHR ''='') < 128" by (simp add: byte_val_def)
  then have "\<forall>c \<in> set (b64_digits s @ b64_padding (b64_digits s)). byte_val c < 128"
    using b64_digits_val [of s] b64_val_ascii by (auto simp: b64_padding_def)
  then show ?thesis unfolding urlsafe_b64decode_def rstrip_b64encode b64_scan_digits by (rule if_P)
qed

end
