(* ===== verification/Json_Reader.thy ===== *)
theory Json_Reader
  imports Json "HOL-Library.AList"
begin

text \<open>
  \<^verbatim>\<open>json.loads\<close> on ASCII text: a recursive-descent reader with the grammar of the standard
  library (white space, escapes, numbers, \<open>NaN\<close> and \<open>Infinity\<close>, the last of two equal keys).
  What lies outside the development's text type is a parameter: the value of a decimal fraction,
  the text of an escape beyond 255, and the reading of bytes in another encoding. The main result
  is that the reader inverts the rendering of \<^verbatim>\<open>Json\<close>.
\<close>

record json_reader =
  jr_float :: "string \<Rightarrow> pyfloat"
  jr_wide :: "nat \<Rightarrow> string"
  jr_bytes :: "string \<Rightarrow> json option"

section \<open>Tokens\<close>

definition is_space :: "char \<Rightarrow> bool" where
  "is_space c \<longleftrightarrow> c \<in> {CHR 0x20, CHR 0x09, CHR 0x0A, CHR 0x0D}"

abbreviation skip_ws :: "string \<Rightarrow> string" where
  "skip_ws \<equiv> dropWhile is_space"

definition hex_of :: "char \<Rightarrow> nat option" where
  "hex_of c =
     (let n = of_char c :: nat in
      if 48 \<le> n \<and> n \<le> 57 then Some (n - 48) else if 97 \<le> n \<and> n \<le> 102 then Some (n - 87)
      else if 65 \<le> n \<and> n \<le> 70 then Some (n - 55) else None)"

fun read_hex4 :: "string \<Rightarrow> (nat \<times> string) option" where
  "read_hex4 (a # b # c # d # r) =
     (case (hex_of a, hex_of b, hex_of c, hex_of d) of
        (Some w, Some x, Some y, Some z) \<Rightarrow> Some (4096 * w + 256 * x + 16 * y + z, r)
      | _ \<Rightarrow> None)"
| "read_hex4 _ = None"

lemma read_hex4_length: "read_hex4 s = Some (n, r) \<Longrightarrow> length s = length r + 4"
  by (induction s rule: read_hex4.induct) (auto split: option.splits)

definition plain_escape :: "char \<Rightarrow> char option" where
  "plain_escape c = map_of
     [(CHR 0x22, CHR 0x22), (CHR 0x5C, CHR 0x5C), (CHR 0x2F, CHR 0x2F), (CHR ''b'', CHR 0x08),
      (CHR ''f'', CHR 0x0C), (CHR ''n'', CHR 0x0A), (CHR ''r'', CHR 0x0D), (CHR ''t'', CHR 0x09)] c"

definition code_text :: "json_reader \<Rightarrow> nat \<Rightarrow> string" where
  "code_text rd n = (if n < 256 then [char_of n] else jr_wide rd n)"

text \<open>One unit of a string after its opening quote: an escape or a character that is no control.\<close>

definition read_unit :: "json_reader \<Rightarrow> string \<Rightarrow> (string \<times> string) option" where
  "read_unit rd s =
     (case s of
        [] \<Rightarrow> None
      | c # r \<Rightarrow>
          if c = CHR 0x5C then
            (case r of
               [] \<Rightarrow> None
             | e # q \<Rightarrow>
                 if e = CHR ''u'' then map_option (\<lambda>(n, q'). (code_text rd n, q')) (read_hex4 q)
                 else map_option (\<lambda>x. ([x], q)) (plain_escape e))
          else if (of_char c :: nat) < 32 then None else Some ([c], r))"

lemma read_unit_length: "read_unit rd s = Some (u, r) \<Longrightarrow> length r < length s"
  by (auto simp: read_unit_def dest: read_hex4_length split: list.splits if_splits)

function read_string :: "json_reader \<Rightarrow> string \<Rightarrow> (string \<times> string) option" where
  "read_string rd s =
     (case s of
        [] \<Rightarrow> None
      | c # cs \<Rightarrow>
          if c = CHR 0x22 then Some ([], cs)
          else (case read_unit rd s of
                  None \<Rightarrow> None
                | Some (u, r) \<Rightarrow> map_option (\<lambda>(x, q). (u @ x, q)) (read_string rd r)))"
  by pat_completeness auto
termination by (relation "measure (\<lambda>(rd, s). length s)") (auto dest: read_unit_length)

declare read_string.simps [simp del]

text \<open>A number: \<^verbatim>\<open>(-?(?:0|[1-9][0-9]*))(\.[0-9]+)?([eE][-+]?[0-9]+)?\<close>.\<close>

definition read_sign :: "string \<Rightarrow> string \<times> string" where
  "read_sign s = (case s of c # r \<Rightarrow> if c = CHR ''-'' then ([c], r) else ([], s) | [] \<Rightarrow> ([], s))"

definition read_whole :: "string \<Rightarrow> string \<times> string" where
  "read_whole s = (case s of c # r \<Rightarrow> if c = CHR ''0'' then ([c], r) else (takeWhile is_digit s, dropWhile is_digit s) | [] \<Rightarrow> ([], s))"

definition read_fraction :: "string \<Rightarrow> string \<times> string" where
  "read_fraction s =
     (case s of
        c # r \<Rightarrow> if c = CHR ''.'' \<and> takeWhile is_digit r \<noteq> [] then (c # takeWhile is_digit r, dropWhile is_digit r) else ([], s)
      | [] \<Rightarrow> ([], s))"

definition read_exponent :: "string \<Rightarrow> string \<times> string" where
  "read_exponent s =
     (case s of
        c # r \<Rightarrow>
          if c = CHR ''e'' \<or> c = CHR ''E'' then
            (let (sign, q) = (case r of d # q \<Rightarrow> if d = CHR ''-'' \<or> d = CHR ''+'' then ([d], q) else ([], r) | [] \<Rightarrow> ([], r))
             in if takeWhile is_digit q \<noteq> [] then (c # sign @ takeWhile is_digit q, dropWhile is_digit q) else ([], s))
          else ([], s)
      | [] \<Rightarrow> ([], s))"

definition read_number :: "json_reader \<Rightarrow> string \<Rightarrow> (json \<times> string) option" where
  "read_number rd s =
     (let (sign, s1) = read_sign s; (whole, s2) = read_whole s1 in
      if whole = [] then None
      else let (frac, s3) = read_fraction s2; (ex, s4) = read_exponent s3 in
           if frac = [] \<and> ex = []
           then Some (JInt (if sign = [] then int (digits_val whole) else - int (digits_val whole)), s4)
           else Some (JFloat (jr_float rd (sign @ whole @ frac @ ex)), s4))"

fun read_word :: "(string \<times> json) list \<Rightarrow> string \<Rightarrow> (json \<times> string) option" where
  "read_word [] s = None"
| "read_word ((w, v) # ws) s = (if take (length w) s = w then Some (v, drop (length w) s) else read_word ws s)"

definition json_words :: "json_reader \<Rightarrow> (string \<times> json) list" where
  "json_words rd =
     [(''null'', JNull), (''true'', JBool True), (''false'', JBool False), (''NaN'', JFloat (jr_float rd ''NaN'')),
      (''Infinity'', JFloat (jr_float rd ''Infinity'')), (''-Infinity'', JFloat (jr_float rd ''-Infinity''))]"

definition read_atom :: "json_reader \<Rightarrow> string \<Rightarrow> (json \<times> string) option" where
  "read_atom rd s = (case read_number rd s of Some x \<Rightarrow> Some x | None \<Rightarrow> read_word (json_words rd) s)"

section \<open>Values\<close>

text \<open>The first argument bounds the calls; each call reads at least one character before it calls
  again, so the length of the text is enough.\<close>

fun read_value :: "json_reader \<Rightarrow> nat \<Rightarrow> string \<Rightarrow> (json \<times> string) option"
and read_items :: "json_reader \<Rightarrow> nat \<Rightarrow> string \<Rightarrow> (json list \<times> string) option"
and read_members :: "json_reader \<Rightarrow> nat \<Rightarrow> (string \<times> json) list \<Rightarrow> string \<Rightarrow> ((string \<times> json) list \<times> string) option" where
  "read_value rd 0 s = None"
| "read_value rd (Suc n) s =
     (case s of
        [] \<Rightarrow> None
      | c # cs \<Rightarrow>
          if c = CHR 0x22 then map_option (\<lambda>(x, r). (JStr x, r)) (read_string rd cs)
          else if c = CHR ''['' then
            (case skip_ws cs of
               [] \<Rightarrow> None
             | d # r \<Rightarrow> if d = CHR '']'' then Some (JList [], r)
                        else map_option (\<lambda>(xs, q). (JList xs, q)) (read_items rd n (d # r)))
          else if c = CHR ''{'' then
            (case skip_ws cs of
               [] \<Rightarrow> None
             | d # r \<Rightarrow> if d = CHR ''}'' then Some (JObj [], r)
                        else map_option (\<lambda>(kvs, q). (JObj kvs, q)) (read_members rd n [] (d # r)))
          else read_atom rd s)"
| "read_items rd 0 s = None"
| "read_items rd (Suc n) s =
     (case read_value rd n s of
        None \<Rightarrow> None
      | Some (x, r) \<Rightarrow>
          (case skip_ws r of
             [] \<Rightarrow> None
           | d # q \<Rightarrow>
               if d = CHR '']'' then Some ([x], q)
               else if d = CHR '','' then map_option (\<lambda>(xs, p). (x # xs, p)) (read_items rd n (skip_ws q))
               else None))"
| "read_members rd 0 acc s = None"
| "read_members rd (Suc n) acc s =
     (case s of
        [] \<Rightarrow> None
      | c # cs \<Rightarrow>
          if c \<noteq> CHR 0x22 then None
          else (case read_string rd cs of
                  None \<Rightarrow> None
                | Some (k, r) \<Rightarrow>
                    (case skip_ws r of
                       [] \<Rightarrow> None
                     | d # q \<Rightarrow>
                         if d \<noteq> CHR '':'' then None
                         else (case read_value rd n (skip_ws q) of
                                 None \<Rightarrow> None
                               | Some (v, p) \<Rightarrow>
                                   (case skip_ws p of
                                      [] \<Rightarrow> None
                                    | e # t \<Rightarrow>
                                        if e = CHR ''}'' then Some (AList.update k v acc, t)
                                        else if e = CHR '','' then read_members rd n (AList.update k v acc) (skip_ws t)
                                        else None)))))"

definition loads_text :: "json_reader \<Rightarrow> string \<Rightarrow> json option" where
  "loads_text rd s =
     (case read_value rd (Suc (length s)) (skip_ws s) of
        None \<Rightarrow> None
      | Some (v, r) \<Rightarrow> if skip_ws r = [] then Some v else None)"

text \<open>Bytes between 1 and 127 are ASCII text in every encoding the library considers for them.\<close>

definition json_loads :: "json_reader \<Rightarrow> string \<Rightarrow> json option" where
  "json_loads rd b =
     (if \<forall>c \<in> set b. 0 < (of_char c :: nat) \<and> (of_char c :: nat) < 128 then loads_text rd b else jr_bytes rd b)"

section \<open>The reader inverts the rendering\<close>

lemma hex_of_hex_digit: "n < 16 \<Longrightarrow> hex_of (hex_digit n) = Some n"
  by (simp add: hex_of_def Let_def of_char_hex_digit)

lemma hex_of_zero: "hex_of (CHR ''0'') = Some 0"
  by (simp add: hex_of_def)

lemma read_unit_esc: "read_unit rd (esc_char c @ r) = Some ([c], r)"
proof -
  have d: "(of_char c :: nat) div 16 < 16" "(of_char c :: nat) mod 16 < 16"
    using of_char_nat_less [of c] by (simp_all add: div_less_iff_less_mult)
  have "16 * ((of_char c :: nat) div 16) + of_char c mod 16 = of_char c" by simp
  with d show ?thesis
    by (auto simp: esc_char_def read_unit_def plain_escape_def hex_of_hex_digit hex_of_zero code_text_def)
qed

lemma read_string_quote: "read_string rd (concat (map esc_char s) @ CHR 0x22 # r) = Some (s, r)"
proof (induction s)
  case Nil
  show ?case by (simp add: read_string.simps)
next
  case (Cons c s)
  have "esc_char c \<noteq> []" "hd (esc_char c) \<noteq> CHR 0x22" by (simp_all add: esc_char_def)
  then obtain d ds where e: "esc_char c = d # ds" "d \<noteq> CHR 0x22" by (cases "esc_char c") auto
  have "read_unit rd (d # ds @ concat (map esc_char s) @ CHR 0x22 # r) = Some ([c], concat (map esc_char s) @ CHR 0x22 # r)"
    using read_unit_esc [of rd c "concat (map esc_char s) @ CHR 0x22 # r"] e by simp
  with e Cons.IH show ?case by (subst read_string.simps) simp
qed

lemma delim_no_number:
  assumes "delim r"
  shows "takeWhile is_digit r = []" "dropWhile is_digit r = r" "read_fraction r = ([], r)" "read_exponent r = ([], r)"
    "skip_ws r = r"
  using assms by (cases r; auto simp: delim_def is_digit_def read_fraction_def read_exponent_def is_space_def)+

lemma hd_nat_str_zero: "hd (nat_str n) = CHR ''0'' \<Longrightarrow> nat_str n = ''0''"
proof (induction n rule: nat_str.induct)
  case (1 n)
  show ?case
  proof (cases "n < 10")
    case True
    with "1.prems" show ?thesis by (simp add: nat_str.simps [of n])
  next
    case False
    then have n: "nat_str n = nat_str (n div 10) @ [digit_char (n mod 10)]" by (simp add: nat_str.simps [of n])
    with "1.prems" have "hd (nat_str (n div 10)) = CHR ''0''" by simp
    with "1.IH" False have "nat_str (n div 10) = ''0''" by simp
    then have "n div 10 = digits_val ''0''" by (metis digits_val_nat_str)
    then have "n div 10 = 0" by (simp add: digits_val_def digit_val_def)
    with False show ?thesis by simp
  qed
qed

lemma read_whole_nat_str: "delim r \<Longrightarrow> read_whole (nat_str n @ r) = (nat_str n, r)"
proof -
  assume d: "delim r"
  obtain c cs where c: "nat_str n = c # cs" by (cases "nat_str n") simp_all
  show ?thesis
  proof (cases "c = CHR ''0''")
    case True
    with hd_nat_str_zero [of n] c show ?thesis by (simp add: read_whole_def)
  next
    case False
    have "\<forall>x \<in> set (nat_str n). is_digit x" using nat_str_digits by blast
    then have "takeWhile is_digit (nat_str n @ r) = nat_str n" "dropWhile is_digit (nat_str n @ r) = r"
      using delim_no_number [OF d] by (simp_all add: takeWhile_append2 dropWhile_append2)
    with False c show ?thesis by (simp add: read_whole_def)
  qed
qed

lemma read_sign_nat_str: "read_sign (nat_str n @ r) = ([], nat_str n @ r)"
proof -
  obtain c cs where c: "nat_str n = c # cs" by (cases "nat_str n") simp_all
  with hd_nat_str_digit [of n] have "c \<noteq> CHR ''-''" by (auto simp: is_digit_def)
  with c show ?thesis by (simp add: read_sign_def)
qed

lemma read_number_int: "delim r \<Longrightarrow> read_number rd (int_str i @ r) = Some (JInt i, r)"
  by (cases "i < 0") (simp_all add: int_str_def read_number_def read_sign_def [of "CHR ''-'' # _"] read_sign_nat_str
      read_whole_nat_str delim_no_number)

text \<open>The values the program renders without a float.\<close>

fun no_float :: "json \<Rightarrow> bool" where
  "no_float (JFloat f) = False"
| "no_float (JList xs) = (\<forall>x \<in> set xs. no_float x)"
| "no_float (JObj kvs) = (\<forall>kv \<in> set kvs. no_float (snd kv))"
| "no_float _ = True"

lemma render_front:
  assumes "no_float v"
  obtains c cs where "render rt v = c # cs" "\<not> is_space c" "c \<notin> {CHR '']'', CHR ''}'', CHR '','', CHR '':''}"
proof -
  have int: "is_digit (hd (int_str i)) \<or> hd (int_str i) = CHR ''-''" for i by (rule int_str_chars [of _ i]) simp
  have "render rt v \<noteq> [] \<and> \<not> is_space (hd (render rt v)) \<and> hd (render rt v) \<notin> {CHR '']'', CHR ''}'', CHR '','', CHR '':''}"
  proof (cases v)
    case (JInt i)
    with int [of i] show ?thesis by (auto simp: is_space_def is_digit_def)
  qed (use assms in \<open>simp_all add: quote_str_def is_space_def\<close>)
  then show ?thesis using that by (cases "render rt v") auto
qed

lemma skip_ws_render: "no_float v \<Longrightarrow> skip_ws (render rt v @ r) = render rt v @ r"
  by (rule render_front [of v rt]) simp_all

lemma read_word_simps: "read_word (json_words rd) (''null'' @ r) = Some (JNull, r)"
  "read_word (json_words rd) (''true'' @ r) = Some (JBool True, r)"
  "read_word (json_words rd) (''false'' @ r) = Some (JBool False, r)"
  by (simp_all add: json_words_def)

lemma read_number_word: "c \<in> set ''ntf'' \<Longrightarrow> read_number rd (c # cs) = None"
  by (auto simp: read_number_def read_sign_def read_whole_def is_digit_def)

lemma read_atom_words: "read_atom rd (''null'' @ r) = Some (JNull, r)"
  "read_atom rd (''true'' @ r) = Some (JBool True, r)" "read_atom rd (''false'' @ r) = Some (JBool False, r)"
  using read_word_simps by (simp_all add: read_atom_def read_number_word)

lemma read_value_int:
  assumes "delim r"
  shows "read_value rd (Suc n) (int_str i @ r) = Some (JInt i, r)"
proof -
  obtain c cs where c: "int_str i = c # cs" by (cases "int_str i") simp_all
  with int_str_chars [of c i] have "c \<notin> {CHR 0x22, CHR ''['', CHR ''{''}" by (auto simp: is_digit_def)
  with c read_number_int [OF assms, of rd i] show ?thesis by (simp add: read_atom_def)
qed

definition reads_back :: "json_reader \<Rightarrow> runtime \<Rightarrow> json \<Rightarrow> bool" where
  "reads_back rd rt v \<longleftrightarrow>
     (\<forall>n r. delim r \<longrightarrow> length (render rt v) < n \<longrightarrow> read_value rd n (render rt v @ r) = Some (v, r))"

lemma reads_backD:
  "reads_back rd rt v \<Longrightarrow> delim r \<Longrightarrow> length (render rt v) < n \<Longrightarrow> read_value rd n (render rt v @ r) = Some (v, r)"
  by (simp add: reads_back_def)

lemma read_items_join:
  assumes "xs \<noteq> []" "\<forall>x \<in> set xs. reads_back rd rt x \<and> no_float x" "length (join '','' (map (render rt) xs)) + 1 < n"
  shows "read_items rd n (join '','' (map (render rt) xs) @ CHR '']'' # r) = Some (xs, r)"
  using assms
proof (induction xs arbitrary: n)
  case (Cons x xs)
  then obtain m where n: "n = Suc m" by (cases n) auto
  show ?case
  proof (cases xs)
    case Nil
    with Cons.prems n have "read_value rd m (render rt x @ CHR '']'' # r) = Some (x, CHR '']'' # r)"
      by (intro reads_backD) simp_all
    with Nil n show ?thesis by (simp add: is_space_def)
  next
    case (Cons y ys)
    let ?rest = "join '','' (map (render rt) xs) @ CHR '']'' # r"
    have j: "join '','' (map (render rt) (x # xs)) = render rt x @ CHR '','' # join '','' (map (render rt) xs)"
      using Cons by simp
    have "read_value rd m (render rt x @ CHR '','' # ?rest) = Some (x, CHR '','' # ?rest)"
      using Cons.prems n j by (intro reads_backD) simp_all
    moreover have "skip_ws ?rest = ?rest"
      using Cons Cons.prems(2) skip_ws_render [of y rt "concat (map (\<lambda>y. '','' @ y) (map (render rt) ys)) @ CHR '']'' # r"]
      by (simp add: join_Cons del: map_map)
    moreover have "read_items rd m ?rest = Some (xs, r)"
      using Cons Cons.prems(2,3) n j by (intro Cons.IH) simp_all
    ultimately show ?thesis using n j by (simp add: is_space_def)
  qed
qed simp

abbreviation member_text :: "runtime \<Rightarrow> string \<times> json \<Rightarrow> string" where
  "member_text rt kv \<equiv> quote_str (fst kv) @ '':'' @ render rt (snd kv)"

lemma update_fresh_key: "k \<notin> fst ` set acc \<Longrightarrow> AList.update k v acc = acc @ [(k, v)]"
  by (induction acc) auto

lemma read_members_join:
  assumes "kvs \<noteq> []" "\<forall>kv \<in> set kvs. reads_back rd rt (snd kv) \<and> no_float (snd kv)"
    and "length (join '','' (map (member_text rt) kvs)) + 1 < n" "distinct (map fst acc @ map fst kvs)"
  shows "read_members rd n acc (join '','' (map (member_text rt) kvs) @ CHR ''}'' # r) = Some (acc @ kvs, r)"
  using assms
proof (induction kvs arbitrary: n acc)
  case (Cons kv kvs)
  obtain k v where kv: "kv = (k, v)" by (cases kv)
  from Cons.prems obtain m where n: "n = Suc m" by (cases n) auto
  from Cons.prems kv have v: "reads_back rd rt v" "no_float v" and k: "k \<notin> fst ` set acc" by auto
  have str: "read_string rd (concat (map esc_char k) @ CHR 0x22 # q) = Some (k, q)" for q by (rule read_string_quote)
  show ?case
  proof (cases kvs)
    case Nil
    with Cons.prems n kv v have "read_value rd m (render rt v @ CHR ''}'' # r) = Some (v, CHR ''}'' # r)"
      by (intro reads_backD) simp_all
    with Nil n kv v k str show ?thesis by (simp add: quote_str_def is_space_def skip_ws_render update_fresh_key)
  next
    case (Cons kv' kvs')
    let ?rest = "join '','' (map (member_text rt) kvs) @ CHR ''}'' # r"
    have j: "join '','' (map (member_text rt) (kv # kvs)) = member_text rt kv @ CHR '','' # join '','' (map (member_text rt) kvs)"
      using Cons by simp
    have "read_value rd m (render rt v @ CHR '','' # ?rest) = Some (v, CHR '','' # ?rest)"
      using Cons.prems n j kv v by (intro reads_backD) simp_all
    moreover have "skip_ws ?rest = ?rest" using Cons by (simp add: join_Cons quote_str_def is_space_def)
    moreover have "read_members rd m (acc @ [(k, v)]) ?rest = Some ((acc @ [(k, v)]) @ kvs, r)"
      using Cons Cons.prems n j kv by (intro Cons.IH) auto
    ultimately show ?thesis using n j kv v k str
      by (simp add: quote_str_def is_space_def skip_ws_render update_fresh_key del: join.simps)
  qed
qed simp

lemma snd_in_snds: "snd kv \<in> Basic_BNFs.snds kv"
  by (cases kv) (simp add: prod_set_simps)

lemma read_value_render: "no_float v \<Longrightarrow> json_wf v \<Longrightarrow> reads_back rd rt v"
proof (induction v)
  case (JList xs)
  show ?case
    unfolding reads_back_def
  proof (intro allI impI)
    fix n r assume n: "length (render rt (JList xs)) < n"
    then obtain m where m: "n = Suc m" by (cases n) auto
    show "read_value rd n (render rt (JList xs) @ r) = Some (JList xs, r)"
    proof (cases xs)
      case (Cons y ys)
      then have f: "no_float y" using JList.prems by simp
      obtain c cs where c: "render rt y = c # cs" "\<not> is_space c" "c \<noteq> CHR '']''" by (rule render_front [OF f]) auto
      have "read_items rd m (join '','' (map (render rt) xs) @ CHR '']'' # r) = Some (xs, r)"
        using Cons JList n m by (intro read_items_join) auto
      with Cons c m show ?thesis by (simp add: join_Cons del: map_map)
    qed (simp add: m is_space_def)
  qed
next
  case (JObj kvs)
  have each: "reads_back rd rt (snd kv) \<and> no_float (snd kv)" if "kv \<in> set kvs" for kv
    using that JObj.prems JObj.IH [OF that snd_in_snds] by auto
  show ?case
    unfolding reads_back_def
  proof (intro allI impI)
    fix n r assume n: "length (render rt (JObj kvs)) < n"
    then obtain m where m: "n = Suc m" by (cases n) auto
    show "read_value rd n (render rt (JObj kvs) @ r) = Some (JObj kvs, r)"
    proof (cases kvs)
      case (Cons kv kvs')
      have "read_members rd m [] (join '','' (map (member_text rt) kvs) @ CHR ''}'' # r) = Some ([] @ kvs, r)"
        using Cons each JObj.prems n m by (intro read_members_join) auto
      with Cons m show ?thesis by (simp add: join_Cons quote_str_def is_space_def del: map_map)
    qed (simp add: m is_space_def)
  qed
next
  case (JInt i)
  show ?case unfolding reads_back_def using read_value_int by (metis less_natE render.simps(3))
qed (auto simp: reads_back_def quote_str_def read_string_quote read_atom_words [simplified] gr0_conv_Suc less_Suc_eq_0_disj elim!: less_natE)

lemma norm_json_no_float: "no_float v \<Longrightarrow> no_float (norm_json v)"
  by (induction v) (auto intro: snds.intros)

lemma norm_json_json_wf: "json_wf v \<Longrightarrow> json_wf (norm_json v)"
proof (induction v)
  case (JObj kvs)
  have "distinct (map fst (sort_key fst (map (\<lambda>kv. (fst kv, norm_json (snd kv))) kvs)))"
    using JObj.prems by (simp add: distinct_map inj_on_def) (metis prod.collapse)
  moreover have "json_wf (norm_json (snd kv))" if "kv \<in> set kvs" for kv
    using that JObj.prems JObj.IH [OF that snd_in_snds] by auto
  ultimately show ?case by auto
qed auto

definition ascii :: "string \<Rightarrow> bool" where
  "ascii s \<longleftrightarrow> (\<forall>c \<in> set s. 0 < (of_char c :: nat) \<and> (of_char c :: nat) < 128)"

lemma ascii_append [simp]: "ascii (s @ t) \<longleftrightarrow> ascii s \<and> ascii t" "ascii []"
  by (auto simp: ascii_def)

lemma ascii_Cons [simp]: "ascii (c # s) \<longleftrightarrow> 0 < (of_char c :: nat) \<and> (of_char c :: nat) < 128 \<and> ascii s"
  by (auto simp: ascii_def)

lemma ascii_join: "\<forall>x \<in> set xs. ascii x \<Longrightarrow> ascii (join '','' xs)"
  by (induction "'',''" xs rule: join.induct) simp_all

lemma ascii_esc: "ascii (esc_char c)"
proof -
  have "(of_char c :: nat) div 16 < 16" using of_char_nat_less [of c] by (simp add: div_less_iff_less_mult)
  moreover have "(of_char c :: nat) mod 16 < 41" by (rule less_le_trans [of _ 16]) simp_all
  ultimately show ?thesis by (simp add: esc_char_def of_char_hex_digit)
qed

lemma ascii_quote: "ascii (quote_str s)"
  unfolding quote_str_def by (induction s) (use ascii_esc in auto)

lemma ascii_render: "no_float v \<Longrightarrow> ascii (render rt v)"
proof (induction v)
  case (JInt i)
  show ?case by (auto simp: ascii_def is_digit_def dest!: int_str_chars)
next
  case (JObj kvs)
  have "ascii (render rt (snd kv))" if "kv \<in> set kvs" for kv
    using that JObj.prems JObj.IH [OF that snd_in_snds] by auto
  then show ?case by (auto simp: ascii_quote intro!: ascii_join)
qed (auto simp: ascii_quote intro!: ascii_join)

lemma loads_canonical:
  assumes "no_float v" "json_wf v"
  shows "json_loads rd (canonical_json rt v) = Some (norm_json v)"
proof -
  have nf: "no_float (norm_json v)" by (rule norm_json_no_float [OF assms(1)])
  have "read_value rd (Suc (length (canonical_json rt v))) (canonical_json rt v @ []) = Some (norm_json v, [])"
    unfolding canonical_json_def
    by (rule reads_backD [OF read_value_render [OF nf norm_json_json_wf [OF assms(2)]]]) simp_all
  then show ?thesis
    using ascii_render [OF nf, of rt] skip_ws_render [OF nf, of rt "[]"]
    by (simp add: json_loads_def loads_text_def canonical_json_def ascii_def)
qed

end
