(* ===== verification/Cursor_Codec.thy ===== *)
theory Cursor_Codec
  imports Domain Base64 Json_Reader
begin

text \<open>
  \<open>CursorCodec\<close> of \<^verbatim>\<open>durability.py\<close>: opaque pagination tokens, a JSON body that names the tenant, the
  run and the cursor, followed by its HMAC, in URL-safe base64 without padding. The signing key is
  the codec's state. A token is read back exactly for the tenant and the run it was made for, and
  whatever is accepted carries the HMAC of a body that names them.
\<close>

section \<open>Encoding and decoding\<close>

definition make_codec :: "string \<Rightarrow> string result" where
  "make_codec key = (if length key < 32 then Inl (ValueError ''cursor signing key must contain at least 32 bytes'') else Inr key)"

definition cursor_body :: "string \<Rightarrow> string \<Rightarrow> int \<Rightarrow> json" where
  "cursor_body tenant_id run_id cursor =
     JObj [(''cursor'', JInt cursor), (''run_id'', JStr run_id), (''tenant_id'', JStr tenant_id)]"

definition encode_cursor :: "runtime \<Rightarrow> string \<Rightarrow> string \<Rightarrow> string \<Rightarrow> int \<Rightarrow> string" where
  "encode_cursor rt key tenant_id run_id cursor =
     (let body = canonical_json rt (cursor_body tenant_id run_id cursor)
      in rstrip_pad (b64encode (body @ hmac_sha256 rt key body)))"

definition invalid_token :: error where
  "invalid_token = ValueError ''cursor token is invalid''"

definition decode_cursor ::
  "runtime \<Rightarrow> json_reader \<Rightarrow> string \<Rightarrow> string \<Rightarrow> string \<Rightarrow> string \<Rightarrow> int result" where
  "decode_cursor rt rd key token tenant_id run_id =
     (if token = [] \<or> 1024 < length token then Inl invalid_token
      else case urlsafe_b64decode (token @ b64_padding token) of
        None \<Rightarrow> Inl invalid_token
      | Some decoded \<Rightarrow>
          (let n = length decoded - 32; body = take n decoded; supplied = drop n decoded;
               expected = hmac_sha256 rt key body
           in case json_loads rd body of
                None \<Rightarrow> Inl invalid_token
              | Some (JObj kvs) \<Rightarrow>
                  if length supplied \<noteq> 32 \<or> supplied \<noteq> expected \<or>
                     map_of kvs ''tenant_id'' \<noteq> Some (JStr tenant_id) \<or> map_of kvs ''run_id'' \<noteq> Some (JStr run_id)
                  then Inl invalid_token
                  else (case map_of kvs ''cursor'' of
                          Some (JInt c) \<Rightarrow> if c < 0 then Inl invalid_token else Inr c
                        | _ \<Rightarrow> Inl invalid_token)
              | Some _ \<Rightarrow> Inl invalid_token))"

section \<open>Lengths\<close>

definition hmac_shape :: "runtime \<Rightarrow> bool" where
  "hmac_shape rt \<longleftrightarrow> (\<forall>k b. length (hmac_sha256 rt k b) = 32)"

lemma length_b64_digits: "length (b64_digits s) = (4 * length s + 2) div 3"
proof (induction s rule: b64_digits.induct)
  case (4 a b c rest)
  have "4 * length (a # b # c # rest) + 2 = 4 * length rest + 2 + 3 * 4" by simp
  then have "(4 * length (a # b # c # rest) + 2) div 3 = (4 * length rest + 2) div 3 + 4" by (simp only: div_mult_self3)
  with 4 show ?case by simp
qed simp_all

lemma ident_char_plain:
  assumes "ident_char c"
  shows "esc_char c = [c]"
proof -
  have n: "45 \<le> (of_char c :: nat)" "(of_char c :: nat) \<le> 122" "(of_char c :: nat) \<noteq> 92"
    using assms by (auto simp: ident_char_def Let_def)
  then have "c \<noteq> CHR 0x22" "c \<noteq> CHR 0x5C" "c \<noteq> CHR 0x0A" "c \<noteq> CHR 0x0D" "c \<noteq> CHR 0x09" "c \<noteq> CHR 0x0C" "c \<noteq> CHR 0x08"
    by auto
  with n show ?thesis by (simp add: esc_char_def)
qed

lemma quote_identifier: "valid_identifier s \<Longrightarrow> quote_str s = CHR 0x22 # s @ [CHR 0x22]"
proof -
  assume "valid_identifier s"
  then have "\<forall>c \<in> set s. esc_char c = [c]" by (auto simp: valid_identifier_def list_all_iff ident_char_plain)
  then have "concat (map esc_char s) = s" by (induction s) simp_all
  then show ?thesis by (simp add: quote_str_def)
qed

lemma norm_cursor_body: "norm_json (cursor_body t r c) = cursor_body t r c"
  unfolding cursor_body_def by code_simp

lemma cursor_body_reads: "no_float (cursor_body t r c)" "json_wf (cursor_body t r c)"
  by (simp_all add: cursor_body_def)

lemma length_cursor_body:
  assumes "valid_identifier t" "valid_identifier r"
  shows "length (canonical_json rt (cursor_body t r c)) \<le> length (int_str c) + 300"
  using assms by (simp add: canonical_json_def norm_cursor_body cursor_body_def quote_identifier)
    (simp add: quote_str_def esc_char_def valid_identifier_def)

section \<open>Round trip\<close>

text \<open>C38. Round trip of the cursor tokens. A token made for a tenant, a run and a cursor of at most 400
  digits is decoded to that cursor for this tenant and run, and for any other tenant or run the
  same token is refused, whatever the signing key and whatever \<^verbatim>\<open>json.loads\<close> does outside ASCII.\<close>

theorem cursor_roundtrip:
  assumes "hmac_shape rt" "valid_identifier t" "valid_identifier r" "0 \<le> c" "length (int_str c) \<le> 400"
  shows "decode_cursor rt rd key (encode_cursor rt key t r c) t' r' =
    (if t' = t \<and> r' = r then Inr c else Inl (ValueError ''cursor token is invalid''))"
proof -
  let ?body = "canonical_json rt (cursor_body t r c)" and ?mac = "hmac_sha256 rt key (canonical_json rt (cursor_body t r c))"
  have mac: "length ?mac = 32" using assms(1) by (simp add: hmac_shape_def)
  have token: "encode_cursor rt key t r c = b64_digits (?body @ ?mac)"
    by (simp add: encode_cursor_def Let_def rstrip_b64encode)
  have "length (b64_digits (?body @ ?mac)) \<le> 1024" "b64_digits (?body @ ?mac) \<noteq> []"
    using length_cursor_body [OF assms(2,3), of rt c] assms(5) mac length_b64_digits [of "?body @ ?mac"] by auto
  moreover have "urlsafe_b64decode (encode_cursor rt key t r c @ b64_padding (encode_cursor rt key t r c)) = Some (?body @ ?mac)"
    using urlsafe_roundtrip [of "?body @ ?mac"] by (simp add: token rstrip_b64encode)
  moreover have "json_loads rd ?body = Some (cursor_body t r c)"
    by (simp add: loads_canonical cursor_body_reads norm_cursor_body)
  ultimately show ?thesis
    using mac assms(4) by (auto simp: decode_cursor_def Let_def token cursor_body_def invalid_token_def)
qed

definition constant_mac :: runtime where
  "constant_mac = \<lparr>sha256_hexdigest = (\<lambda>_. []), hmac_sha256 = (\<lambda>_ _. replicate 32 (CHR ''m'')), float_repr = (\<lambda>_. ''0.0'')\<rparr>"

theorem cursor_roundtrip_witness:
  "\<forall>rd. decode_cursor constant_mac rd ''k'' (encode_cursor constant_mac ''k'' ''acme'' ''run-1'' 7) ''acme'' ''run-1'' = Inr 7 \<and>
   decode_cursor constant_mac rd ''k'' (encode_cursor constant_mac ''k'' ''acme'' ''run-1'' 7) ''other'' ''run-1'' =
     Inl (ValueError ''cursor token is invalid'')"
proof -
  have "hmac_shape constant_mac" "valid_identifier ''acme''" "valid_identifier ''run-1''"
    by (simp_all add: hmac_shape_def constant_mac_def valid_identifier_def ident_char_def)
  moreover have "length (int_str 7) \<le> 400" by (simp add: int_str_def nat_str.simps)
  ultimately show ?thesis
    using cursor_roundtrip [of constant_mac "''acme''" "''run-1''" 7 _ "''k''"] by simp
qed

end
