(* ===== verification/Ledger_Queries.thy ===== *)
theory Ledger_Queries
  imports Ledger_Integrity Cursor_Codec
begin

text \<open>
  The query side of \<open>InMemoryDurability\<close>: bounded pages of the event log, the stored request of a
  run, the latest artifact of an activity, found by a loop over pages, and the timeline with its
  opaque cursor. \<open>InvestigationRequest.model_validate\<close> is a parameter.
\<close>

section \<open>Pages of the log\<close>

text \<open>\<^verbatim>\<open>xs[:n]\<close>, which counts from the end for a negative bound.\<close>

definition py_prefix :: "int \<Rightarrow> 'a list \<Rightarrow> 'a list" where
  "py_prefix n xs = (if 0 \<le> n then take (nat n) xs else take (length xs - nat (- n)) xs)"

definition selected_event :: "string option \<Rightarrow> string option \<Rightarrow> int \<Rightarrow> application_event \<Rightarrow> bool" where
  "selected_event aggregate_type aggregate_id after e \<longleftrightarrow>
     after < int (ev_tenant_cursor e) \<and>
     (case aggregate_type of None \<Rightarrow> True | Some x \<Rightarrow> ev_aggregate_type e = x) \<and>
     (case aggregate_id of None \<Rightarrow> True | Some x \<Rightarrow> ev_aggregate_id e = x)"

definition events_page ::
  "durability_state \<Rightarrow> string \<Rightarrow> string option \<Rightarrow> string option \<Rightarrow> int \<Rightarrow> int \<Rightarrow> application_event list result" where
  "events_page s t aggregate_type aggregate_id after limit =
     (if limit < 1 \<or> 500 < limit then Inl (ValueError ''event page limit is outside the permitted range'')
      else Inr (py_prefix limit (filter (selected_event aggregate_type aggregate_id after) (tenant_events s t))))"

definition run_page :: "durability_state \<Rightarrow> string \<Rightarrow> string \<Rightarrow> int \<Rightarrow> int \<Rightarrow> application_event list result" where
  "run_page s t run_id = events_page s t (Some ''investigation'') (Some run_id)"

section \<open>The request of a run\<close>

definition run_request ::
  "(json \<Rightarrow> investigation_request option) \<Rightarrow> durability_state \<Rightarrow> string \<Rightarrow> string \<Rightarrow> investigation_request result" where
  "run_request model_validate s t run_id =
     bindE (run_page s t run_id 0 1) (\<lambda>page.
       case page of
         [] \<Rightarrow> Inl (IntegrityFailure ''durable run request is missing'')
       | e # _ \<Rightarrow>
           (case map_of (ev_payload e) ''request'' of
              None \<Rightarrow> Inl (IntegrityFailure ''durable run request is malformed'')
            | Some v \<Rightarrow>
                (case model_validate v of
                   None \<Rightarrow> Inl (IntegrityFailure ''durable run request is malformed'')
                 | Some r \<Rightarrow> Inr r)))"

section \<open>The latest artifact of an activity\<close>

definition artifact_bound :: nat where
  "artifact_bound = 10000"

text \<open>The loop over the events of one page.\<close>

definition latest_payload :: "string \<Rightarrow> application_event list \<Rightarrow> dict option \<Rightarrow> dict option" where
  "latest_payload event_type page latest =
     fold (\<lambda>e latest. if ev_event_type e = event_type then Some (ev_payload e) else latest) page latest"

function scan_artifact ::
  "durability_state \<Rightarrow> string \<Rightarrow> string \<Rightarrow> string \<Rightarrow> int \<Rightarrow> nat \<Rightarrow> dict option \<Rightarrow> dict option result" where
  "scan_artifact s t run_id event_type after scanned latest =
     (if scanned < artifact_bound then
        (let page_limit = min 500 (artifact_bound - scanned) in
         case run_page s t run_id after (int page_limit) of
           Inl e \<Rightarrow> Inl e
         | Inr page \<Rightarrow>
             (let latest' = latest_payload event_type page latest in
              if length page < page_limit then Inr latest'
              else scan_artifact s t run_id event_type (int (ev_tenant_cursor (last page))) (scanned + length page) latest'))
      else bindE (run_page s t run_id after 1) (\<lambda>page.
        if page \<noteq> [] then Inl (IntegrityFailure ''activity artifact scan exceeds the event bound'') else Inr latest))"
  by pat_completeness auto
termination
  by (relation "measure (\<lambda>(s, t, run_id, event_type, after, scanned, latest). artifact_bound - scanned)")
    (auto simp: min_def not_less split: if_splits)

declare scan_artifact.simps [simp del]

definition activity_artifact :: "durability_state \<Rightarrow> string \<Rightarrow> string \<Rightarrow> string \<Rightarrow> dict option result" where
  "activity_artifact s t run_id event_type = scan_artifact s t run_id event_type 0 0 None"

section \<open>The timeline\<close>

record timeline_item =
  ti_cursor :: nat
  ti_event_type :: string
  ti_occurred_at :: datetime
  ti_status :: run_status
  ti_failure_code :: "string option"

record timeline_page =
  tp_items :: "timeline_item list"
  tp_next_cursor :: "string option"

definition make_timeline_item :: "application_event \<Rightarrow> run_status \<Rightarrow> timeline_item result" where
  "make_timeline_item e status =
     (let item = \<lparr>ti_cursor = ev_tenant_cursor e, ti_event_type = ev_event_type e, ti_occurred_at = ev_occurred_at e,
            ti_status = status,
            ti_failure_code = (case map_of (ev_payload e) ''failure_code'' of Some (JStr c) \<Rightarrow> Some c | _ \<Rightarrow> None)\<rparr>
      in if 1 \<le> ti_cursor item \<and> valid_identifier (ti_event_type item) \<and> valid_opt_identifier (ti_failure_code item)
         then Inr item else Inl (ValidationError ''TimelineItem''))"

text \<open>The loop over the run's events: project each, and keep an item for those after the cursor.\<close>

fun timeline_items :: "runtime \<Rightarrow> int \<Rightarrow> run_view option \<Rightarrow> application_event list \<Rightarrow> timeline_item list result" where
  "timeline_items rt after current [] = Inr []"
| "timeline_items rt after current (e # es) =
     bindE (reduce_run rt current e) (\<lambda>v.
       if after < int (ev_tenant_cursor e)
       then bindE (make_timeline_item e (rv_status v)) (\<lambda>item.
              bindE (timeline_items rt after (Some v) es) (\<lambda>items. Inr (item # items)))
       else timeline_items rt after (Some v) es)"

definition timeline ::
  "runtime \<Rightarrow> string \<Rightarrow> durability_state \<Rightarrow> string \<Rightarrow> string \<Rightarrow> int \<Rightarrow> int \<Rightarrow> timeline_page result" where
  "timeline rt key s t run_id after limit =
     bindE (run_page s t run_id 0 500) (\<lambda>events.
     bindE (timeline_items rt after None events) (\<lambda>projected.
     let visible = py_prefix limit projected
     in Inr \<lparr>tp_items = visible,
             tp_next_cursor =
               (if limit < int (length projected) \<and> visible \<noteq> []
                then Some (encode_cursor rt key t run_id (int (ti_cursor (last visible)))) else None)\<rparr>))"

end
