(* ===== verification/Replay_Debugger.thy ===== *)
theory Replay_Debugger
  imports Ledger_Integrity
begin

text \<open>
  \<^verbatim>\<open>replay.py\<close>: the read-only debugger that verifies a window of a tenant's log against its anchors,
  projects a run at a cursor, compares the projection with the live view and writes a support report
  within a byte bound. The debugger's state is the sorted window and the anchors it was made with.
\<close>

section \<open>Records\<close>

definition max_replay_events :: nat where
  "max_replay_events = 10000"

definition max_report_bytes :: nat where
  "max_report_bytes = 32768"

record replay_integrity =
  ri_valid :: bool
  ri_event_count :: nat
  ri_last_cursor :: nat
  ri_last_hash :: string
  ri_failure_code :: "string option"

record replay_point =
  rpt_cursor :: nat
  rpt_event_type :: "string option"
  rpt_state :: "run_view option"
  rpt_state_digest :: string

record projection_difference =
  df_matches :: bool
  df_live_digest :: string
  df_replay_digest :: string
  df_differing_fields :: "string list"

record causal_item =
  ci_cursor :: nat
  ci_event_type :: string
  ci_status :: string
  ci_blocked :: bool
  ci_causation_known :: bool
  ci_trace_ref :: "string option"

record support_report =
  sr_integrity :: replay_integrity
  sr_projection :: "projection_difference option"
  sr_causal_chain :: "causal_item list"
  sr_report_digest :: string
  sr_truncated :: bool
  sr_completeness_code :: "string option"

record replay_debugger =
  rd_events :: "application_event list"
  rd_tenant_anchor_cursor :: nat
  rd_tenant_anchor_hash :: string
  rd_aggregate_anchors :: "string \<times> string \<rightharpoonup> aggregate_head"

definition make_debugger ::
  "application_event list \<Rightarrow> int \<Rightarrow> string \<Rightarrow> (string \<times> string \<rightharpoonup> aggregate_head) \<Rightarrow> replay_debugger result" where
  "make_debugger events anchor_cursor anchor_hash anchors =
     bindE (guardE (length events \<le> max_replay_events) (ValueError ''replay event bound exceeded'')) (\<lambda>_.
     bindE (guardE (0 \<le> anchor_cursor \<and> length anchor_hash = 64) (ValueError ''replay tenant anchor is invalid'')) (\<lambda>_.
     bindE (guardE (length (remdups (map ev_tenant_id events)) \<le> 1)
              (ValueError ''replay input must contain exactly one tenant'')) (\<lambda>_.
     Inr \<lparr>rd_events = sort_key ev_tenant_cursor events, rd_tenant_anchor_cursor = nat anchor_cursor,
          rd_tenant_anchor_hash = anchor_hash, rd_aggregate_anchors = anchors\<rparr>)))"

section \<open>Verification\<close>

definition integrity_failure ::
  "application_event \<Rightarrow> nat \<Rightarrow> nat \<Rightarrow> string \<Rightarrow> string \<Rightarrow> string \<Rightarrow> string set \<Rightarrow> string option" where
  "integrity_failure e sequence cursor aggregate_hash tenant_hash record_hash seen =
     (if ev_event_id e \<in> seen then Some ''duplicate_event''
      else if ev_aggregate_sequence e \<noteq> sequence then Some ''aggregate_sequence''
      else if ev_tenant_cursor e \<noteq> cursor then Some ''tenant_cursor''
      else if ev_aggregate_previous_hash e \<noteq> aggregate_hash then Some ''aggregate_hash''
      else if ev_tenant_previous_hash e \<noteq> tenant_hash then Some ''tenant_hash''
      else if ev_record_hash e \<noteq> record_hash then Some ''record_hash''
      else if ev_schema_version e \<noteq> 1 then Some ''schema_version'' else None)"

text \<open>\<open>ReplayIntegrity(...)\<close> validates the hash.\<close>

definition make_integrity :: "bool \<Rightarrow> nat \<Rightarrow> nat \<Rightarrow> string \<Rightarrow> string option \<Rightarrow> replay_integrity result" where
  "make_integrity valid n cursor hash code =
     (if hex64 hash
      then Inr \<lparr>ri_valid = valid, ri_event_count = n, ri_last_cursor = cursor, ri_last_hash = hash, ri_failure_code = code\<rparr>
      else Inl (ValidationError ''ReplayIntegrity''))"

fun verify_window ::
  "runtime \<Rightarrow> (string \<times> string \<rightharpoonup> aggregate_head) \<Rightarrow> nat \<Rightarrow> string \<Rightarrow> string set \<Rightarrow> nat \<Rightarrow> application_event list \<Rightarrow>
   replay_integrity result" where
  "verify_window rt heads cursor hash seen count [] =
     make_integrity True count cursor hash None"
| "verify_window rt heads cursor hash seen count (e # es) =
     (let head = get_default heads (event_key e) no_aggregate_head in
      bindE (expected_hash rt e (ah_record_hash head) hash) (\<lambda>expected.
      case integrity_failure e (ah_sequence head + 1) (cursor + 1) (ah_record_hash head) hash expected seen of
        Some code \<Rightarrow> make_integrity False (card seen) cursor hash (Some code)
      | None \<Rightarrow> verify_window rt (heads(event_key e \<mapsto> event_agg_head e)) (ev_tenant_cursor e) (ev_record_hash e)
                  (insert (ev_event_id e) seen) count es))"

definition verify_replay :: "runtime \<Rightarrow> replay_debugger \<Rightarrow> replay_integrity result" where
  "verify_replay rt d =
     verify_window rt (rd_aggregate_anchors d) (rd_tenant_anchor_cursor d) (rd_tenant_anchor_hash d) {}
       (length (rd_events d)) (rd_events d)"

section \<open>Projection at a cursor\<close>

text \<open>\<open>model_dump(mode="json")\<close> of a view, and the digests over it.\<close>

definition view_items :: "run_view \<Rightarrow> dict" where
  "view_items v =
     [(''tenant_id'', JStr (rv_tenant_id v)), (''run_id'', JStr (rv_run_id v)), (''incident_id'', JStr (rv_incident_id v)),
      (''request_ref'', JStr (rv_request_ref v)), (''workflow_id'', JStr (rv_workflow_id v)),
      (''status'', JStr (run_status_value (rv_status v))), (''version'', JInt (int (rv_version v))),
      (''last_cursor'', JInt (int (rv_last_cursor v))), (''created_at'', JStr (isoformat_z (rv_created_at v))),
      (''updated_at'', JStr (isoformat_z (rv_updated_at v))), (''failure_code'', opt_json (rv_failure_code v)),
      (''replayed'', JBool (rv_replayed v))]"

definition model_value :: "run_view option \<Rightarrow> dict" where
  "model_value o1 = (case o1 of None \<Rightarrow> [] | Some v \<Rightarrow> view_items v)"

definition digest_mapping :: "runtime \<Rightarrow> dict \<Rightarrow> string" where
  "digest_mapping rt d = sha256_hexdigest rt (canonical_json rt (JObj d))"

text \<open>The loop of \<open>state_at\<close>: stop after the cursor, skip other aggregates.\<close>

fun replay_until ::
  "runtime \<Rightarrow> string \<Rightarrow> int option \<Rightarrow> run_view option \<Rightarrow> application_event option \<Rightarrow> application_event list \<Rightarrow>
   (run_view option \<times> application_event option) result" where
  "replay_until rt run_id cursor state final [] = Inr (state, final)"
| "replay_until rt run_id cursor state final (e # es) =
     (if (case cursor of None \<Rightarrow> False | Some c \<Rightarrow> c < int (ev_tenant_cursor e)) then Inr (state, final)
      else if \<not> is_run_event run_id e then replay_until rt run_id cursor state final es
      else bindE (reduce_run rt state e) (\<lambda>v. replay_until rt run_id cursor (Some v) (Some e) es))"

definition state_at :: "runtime \<Rightarrow> replay_debugger \<Rightarrow> string \<Rightarrow> int option \<Rightarrow> replay_point result" where
  "state_at rt d run_id cursor =
     bindE (guardE (case cursor of None \<Rightarrow> True | Some c \<Rightarrow> 0 \<le> c) (ValueError ''replay cursor cannot be negative'')) (\<lambda>_.
     bindE (replay_until rt run_id cursor None None (rd_events d)) (\<lambda>(state, final).
     Inr \<lparr>rpt_cursor = (case final of None \<Rightarrow> 0 | Some e \<Rightarrow> ev_tenant_cursor e),
          rpt_event_type = map_option ev_event_type final, rpt_state = state,
          rpt_state_digest = digest_mapping rt (model_value state)\<rparr>))"

definition compare_projection ::
  "runtime \<Rightarrow> replay_debugger \<Rightarrow> string \<Rightarrow> run_view option \<Rightarrow> int option \<Rightarrow> projection_difference result" where
  "compare_projection rt d run_id live cursor =
     bindE (state_at rt d run_id cursor) (\<lambda>point.
     let live_value = model_value live; replay_value = model_value (rpt_state point);
         fields = sort (filter (\<lambda>k. map_of live_value k \<noteq> map_of replay_value k)
                          (remdups (map fst live_value @ map fst replay_value)))
     in Inr \<lparr>df_matches = (fields = []), df_live_digest = digest_mapping rt live_value,
             df_replay_digest = digest_mapping rt replay_value, df_differing_fields = fields\<rparr>)"

section \<open>The causal chain\<close>

definition item_trace_ref :: "application_event \<Rightarrow> string option" where
  "item_trace_ref e =
     (case map_of (ev_payload e) ''trace_ref'' of
        Some (JStr x) \<Rightarrow> if length x \<le> 80 \<and> take 3 x = ''00-'' then Some x else None
      | _ \<Rightarrow> None)"

definition causal_item_of :: "string set \<Rightarrow> application_event \<Rightarrow> run_view \<Rightarrow> causal_item" where
  "causal_item_of known e v =
     \<lparr>ci_cursor = ev_tenant_cursor e, ci_event_type = ev_event_type e, ci_status = run_status_value (rv_status v),
      ci_blocked = (run_status_value (rv_status v) \<in> {''waiting'', ''cancel_requested'', ''failed'', ''timed_out''}),
      ci_causation_known = (case ev_causation_ref e of None \<Rightarrow> True | Some r \<Rightarrow> r \<in> known),
      ci_trace_ref = item_trace_ref e\<rparr>"

fun causal_items ::
  "runtime \<Rightarrow> string set \<Rightarrow> string \<Rightarrow> run_view option \<Rightarrow> application_event list \<Rightarrow> causal_item list result" where
  "causal_items rt known run_id state [] = Inr []"
| "causal_items rt known run_id state (e # es) =
     (if \<not> is_run_event run_id e then causal_items rt known run_id state es
      else bindE (reduce_run rt state e) (\<lambda>v.
           bindE (causal_items rt known run_id (Some v) es) (\<lambda>items. Inr (causal_item_of known e v # items))))"

definition causal_chain :: "runtime \<Rightarrow> replay_debugger \<Rightarrow> string \<Rightarrow> int \<Rightarrow> causal_item list result" where
  "causal_chain rt d run_id maximum =
     (if maximum < 1 \<or> 500 < maximum then Inl (ValueError ''causal chain bound is invalid'')
      else bindE (causal_items rt (ev_event_id ` set (rd_events d)) run_id None (rd_events d)) (\<lambda>items.
        Inr (take (nat maximum) items)))"

section \<open>The support report\<close>

definition integrity_json :: "replay_integrity \<Rightarrow> json" where
  "integrity_json i = JObj
     [(''valid'', JBool (ri_valid i)), (''event_count'', JInt (int (ri_event_count i))),
      (''last_cursor'', JInt (int (ri_last_cursor i))), (''last_hash'', JStr (ri_last_hash i)),
      (''failure_code'', opt_json (ri_failure_code i))]"

definition difference_json :: "projection_difference \<Rightarrow> json" where
  "difference_json p = JObj
     [(''matches'', JBool (df_matches p)), (''live_digest'', JStr (df_live_digest p)),
      (''replay_digest'', JStr (df_replay_digest p)), (''differing_fields'', JList (map JStr (df_differing_fields p)))]"

definition causal_json :: "causal_item \<Rightarrow> json" where
  "causal_json c = JObj
     [(''cursor'', JInt (int (ci_cursor c))), (''event_type'', JStr (ci_event_type c)), (''status'', JStr (ci_status c)),
      (''blocked'', JBool (ci_blocked c)), (''causation_known'', JBool (ci_causation_known c)),
      (''trace_ref'', opt_json (ci_trace_ref c))]"

definition report_material ::
  "replay_integrity \<Rightarrow> projection_difference option \<Rightarrow> causal_item list \<Rightarrow> bool \<Rightarrow> string option \<Rightarrow> json" where
  "report_material integrity projection chain truncated code = JObj
     [(''integrity'', integrity_json integrity),
      (''projection'', (case projection of None \<Rightarrow> JNull | Some p \<Rightarrow> difference_json p)),
      (''causal_chain'', JList (map causal_json chain)), (''truncated'', JBool truncated),
      (''completeness_code'', opt_json code)]"

text \<open>The loop that drops items from the end of the chain until the document fits.\<close>

fun fit_chain ::
  "runtime \<Rightarrow> nat \<Rightarrow> replay_integrity \<Rightarrow> projection_difference \<Rightarrow> causal_item list \<Rightarrow> bool \<Rightarrow> causal_item list \<times> bool" where
  "fit_chain rt bytes integrity projection chain truncated =
     (if bytes < length (canonical_json rt (report_material integrity (Some projection) chain truncated None)) \<and> chain \<noteq> []
      then fit_chain rt bytes integrity projection (butlast chain) True
      else (chain, truncated))"

declare fit_chain.simps [simp del]

definition support_report ::
  "runtime \<Rightarrow> replay_debugger \<Rightarrow> string \<Rightarrow> run_view option \<Rightarrow> int \<Rightarrow> nat \<Rightarrow> support_report result" where
  "support_report rt d run_id live maximum_events maximum_bytes =
     (if maximum_bytes < 1024 \<or> max_report_bytes < maximum_bytes
      then Inl (ValueError ''support report byte bound is invalid'')
      else bindE (verify_replay rt d) (\<lambda>integrity.
        if \<not> ri_valid integrity then
          Inr \<lparr>sr_integrity = integrity, sr_projection = None, sr_causal_chain = [],
               sr_report_digest = sha256_hexdigest rt
                 (canonical_json rt (report_material integrity None [] True (Some ''integrity_failed''))),
               sr_truncated = True, sr_completeness_code = Some ''integrity_failed''\<rparr>
        else
          bindE (causal_chain rt d run_id (min maximum_events 500)) (\<lambda>chain.
          bindE (compare_projection rt d run_id live None) (\<lambda>projection.
          let truncated = (length chain < length (filter (is_run_event run_id) (rd_events d)));
              (chain', truncated') = fit_chain rt maximum_bytes integrity projection chain truncated;
              text = canonical_json rt (report_material integrity (Some projection) chain' truncated' None)
          in if maximum_bytes < length text then Inl (ValueError ''support report cannot fit within its byte bound'')
             else Inr \<lparr>sr_integrity = integrity, sr_projection = Some projection, sr_causal_chain = chain',
                       sr_report_digest = sha256_hexdigest rt text, sr_truncated = truncated',
                       sr_completeness_code = None\<rparr>))))"

section \<open>Documents\<close>

text \<open>\<open>ApplicationEvent.model_validate\<close> is a parameter.\<close>

fun validate_all :: "(json \<Rightarrow> application_event option) \<Rightarrow> json list \<Rightarrow> application_event list result" where
  "validate_all model_validate [] = Inr []"
| "validate_all model_validate (v # vs) =
     (case model_validate v of
        None \<Rightarrow> Inl (ValidationError ''ApplicationEvent'')
      | Some e \<Rightarrow> bindE (validate_all model_validate vs) (\<lambda>es. Inr (e # es)))"

definition load_events :: "(json \<Rightarrow> application_event option) \<Rightarrow> json \<Rightarrow> application_event list result" where
  "load_events model_validate v =
     (case v of
        JList xs \<Rightarrow> if max_replay_events < length xs then Inl (ValueError ''replay input must be a bounded event array'')
                    else validate_all model_validate xs
      | _ \<Rightarrow> Inl (ValueError ''replay input must be a bounded event array''))"

definition projection_document :: "runtime \<Rightarrow> replay_debugger \<Rightarrow> string \<Rightarrow> int option \<Rightarrow> dict result" where
  "projection_document rt d run_id cursor =
     bindE (state_at rt d run_id cursor) (\<lambda>point.
     Inr [(''schema_version'', JInt 1), (''aggregate_id'', JStr run_id), (''cursor'', JInt (int (rpt_cursor point))),
          (''event_type'', opt_json (rpt_event_type point)),
          (''state'', (case rpt_state point of
                         None \<Rightarrow> JNull
                       | Some v \<Rightarrow> JObj (filter (\<lambda>kv. fst kv \<noteq> ''tenant_id'') (view_items v)))),
          (''state_digest'', JStr (rpt_state_digest point))])"

end
