(* ===== verification/Investigation_Service.thy ===== *)
theory Investigation_Service
  imports Authorization Ledger_Queries Replay_Debugger
begin

text \<open>
  \<open>DurableInvestigationService\<close> of \<^verbatim>\<open>durability.py\<close>: each operation authorises the caller for its action
  on the caller's own tenant and then calls the store. The readings of the two clocks, the policy's
  and the store's, are arguments. The store calls of one operation see one state.
\<close>

record investigation_env =
  iv_runtime :: runtime
  iv_policies :: "string \<Rightarrow> policy_record option"
  iv_reader :: json_reader
  iv_cursor_key :: string

definition authorize_investigation ::
  "investigation_env \<Rightarrow> datetime \<Rightarrow> identity_context \<Rightarrow> action \<Rightarrow> (durability_state, unit) op" where
  "authorize_investigation env now i act =
     (let d = authorize (iv_policies env) now i act (id_tenant_id i) ''incident-response'' MEDIUM
      in requireS (pd_allowed d) (PolicyDenied (pd_reason d)))"

definition submit ::
  "investigation_env \<Rightarrow> datetime \<Rightarrow> datetime \<Rightarrow> identity_context \<Rightarrow> investigation_request \<Rightarrow> bool \<Rightarrow>
   (durability_state, run_view) op" where
  "submit env now store_now i request wait =
     bindS (authorize_investigation env now i INVESTIGATION_RUN) (\<lambda>_.
     accept_run (iv_runtime env) store_now i request wait)"

definition get_investigation ::
  "investigation_env \<Rightarrow> datetime \<Rightarrow> identity_context \<Rightarrow> string \<Rightarrow> (durability_state, run_view option) op" where
  "get_investigation env now i run_id =
     bindS (authorize_investigation env now i INVESTIGATION_READ) (\<lambda>_.
     getS (\<lambda>s. get_run s (id_tenant_id i) run_id))"

definition query_timeline ::
  "investigation_env \<Rightarrow> datetime \<Rightarrow> identity_context \<Rightarrow> string \<Rightarrow> string option \<Rightarrow> int \<Rightarrow>
   (durability_state, timeline_page) op" where
  "query_timeline env now i run_id cursor limit =
     bindS (authorize_investigation env now i INVESTIGATION_READ) (\<lambda>_.
     bindS (liftS (case cursor of
              None \<Rightarrow> Inr 0
            | Some token \<Rightarrow> decode_cursor (iv_runtime env) (iv_reader env) (iv_cursor_key env) token (id_tenant_id i) run_id))
       (\<lambda>after.
     bindS (getS (\<lambda>s. timeline (iv_runtime env) (iv_cursor_key env) s (id_tenant_id i) run_id after limit)) liftS))"

definition signal_investigation ::
  "investigation_env \<Rightarrow> datetime \<Rightarrow> datetime \<Rightarrow> datetime \<Rightarrow> identity_context \<Rightarrow> signal_command \<Rightarrow>
   (durability_state, run_view) op" where
  "signal_investigation env now now1 now2 i command =
     bindS (authorize_investigation env now i INVESTIGATION_RUN) (\<lambda>_.
     accept_signal (iv_runtime env) now1 now2 i command)"

section \<open>The replay report\<close>

text \<open>The loop that reads the tenant's events from the run's first to its last cursor.\<close>

lemma events_page_after:
  assumes "events_page s t ty a after limit = Inr page" "page \<noteq> []"
  shows "after < int (ev_tenant_cursor (last page))"
proof -
  have "set page \<subseteq> set (filter (selected_event ty a after) (tenant_events s t))"
    using assms(1) by (auto simp: events_page_def py_prefix_def split: if_splits dest: in_set_takeD)
  with assms(2) show ?thesis using last_in_set by (fastforce simp: selected_event_def)
qed

function collect_window ::
  "durability_state \<Rightarrow> string \<Rightarrow> nat \<Rightarrow> application_event list \<Rightarrow> int \<Rightarrow> application_event list result" where
  "collect_window s t last_cursor events after =
     (if length events < 10000 \<and> after < int last_cursor then
        (case events_page s t None None after (int (min 500 (10000 - length events))) of
           Inl e \<Rightarrow> Inl e
         | Inr page \<Rightarrow>
             (let events' = events @ filter (\<lambda>e. ev_tenant_cursor e \<le> last_cursor) page in
              if page = [] \<or> last_cursor \<le> ev_tenant_cursor (last page) then Inr events'
              else collect_window s t last_cursor events' (int (ev_tenant_cursor (last page)))))
      else Inr events)"
  by pat_completeness auto
termination
  by (relation "measure (\<lambda>(s, t, last_cursor, events, after). nat (int last_cursor - after))")
    (auto dest: events_page_after)

declare collect_window.simps [simp del]

definition window_anchors :: "application_event list \<Rightarrow> string \<times> string \<rightharpoonup> aggregate_head" where
  "window_anchors events =
     map_of (map (\<lambda>e. (event_key e, \<lparr>ah_sequence = ev_aggregate_sequence e - 1,
                                      ah_record_hash = ev_aggregate_previous_hash e\<rparr>)) events)"

definition run_report ::
  "runtime \<Rightarrow> durability_state \<Rightarrow> string \<Rightarrow> string \<Rightarrow> int \<Rightarrow> support_report option result" where
  "run_report rt s t run_id maximum_events =
     (case get_run s t run_id of
        None \<Rightarrow> Inr None
      | Some live \<Rightarrow>
          bindE (run_page s t run_id 0 1) (\<lambda>seed.
          bindE (guardE (seed \<noteq> []) (IntegrityFailure ''run events are unavailable'')) (\<lambda>_.
          let first_cursor = int (ev_tenant_cursor (hd seed)) in
          bindE (collect_window s t (rv_last_cursor live) [] (first_cursor - 1)) (\<lambda>events.
          bindE (guardE (events \<noteq> [] \<and> rv_last_cursor live \<le> ev_tenant_cursor (last events))
                   (PayloadRejected ''run replay window exceeds the event bound'')) (\<lambda>_.
          bindE (make_debugger events (first_cursor - 1) (ev_tenant_previous_hash (hd events)) (window_anchors events)) (\<lambda>d.
          bindE (support_report rt d run_id (Some live) maximum_events max_report_bytes) (\<lambda>report.
          Inr (Some report))))))))"

definition replay_report ::
  "investigation_env \<Rightarrow> datetime \<Rightarrow> identity_context \<Rightarrow> string \<Rightarrow> int \<Rightarrow> (durability_state, support_report option) op" where
  "replay_report env now i run_id maximum_events =
     bindS (authorize_investigation env now i REPLAY_READ) (\<lambda>_.
     bindS (getS (\<lambda>s. run_report (iv_runtime env) s (id_tenant_id i) run_id maximum_events)) liftS)"

definition rebuild_projection ::
  "investigation_env \<Rightarrow> datetime \<Rightarrow> identity_context \<Rightarrow> string \<Rightarrow> (durability_state, run_view) op" where
  "rebuild_projection env now i run_id =
     bindS (authorize_investigation env now i PROJECTION_REBUILD) (\<lambda>_.
     bindS (getS (\<lambda>s. get_run s (id_tenant_id i) run_id)) (\<lambda>found.
     bindS (requireS (found \<noteq> None) (ValueError ''run does not exist'')) (\<lambda>_.
     bindS (getS (\<lambda>s. verify_run_integrity (iv_runtime env) s (id_tenant_id i) run_id 10000)) (\<lambda>checked.
     bindS (liftS checked) (\<lambda>ok.
     bindS (requireS ok (IntegrityFailure ''ledger integrity verification failed'')) (\<lambda>_.
     rebuild_run (iv_runtime env) (id_tenant_id i) run_id))))))"

end
