(* ===== verification/Query_Properties.thy ===== *)
theory Query_Properties
  imports Investigation_Service Run_Integrity
begin

text \<open>
  The query side over all histories of the ledger: pages follow the strictly increasing cursors of the
  log, so the loops over pages see each event of a run once and in order.
\<close>

section \<open>Cursors of a reachable log\<close>

lemma cursor_nth:
  assumes "ledger_reachable rt s" "i < length (tenant_events s t)"
  shows "ev_tenant_cursor (tenant_events s t ! i) = Suc i"
proof -
  have "chained_events rt Map.empty no_tenant_head {} (tenant_events s t)"
    by (rule ledger_inv_chained [OF reachable_ledger_inv [OF assms(1)]])
  then have "chained_events rt Map.empty no_tenant_head {}
      (take i (tenant_events s t) @ tenant_events s t ! i # drop (Suc i) (tenant_events s t))"
    using id_take_nth_drop [OF assms(2)] by simp
  from chained_event(1) [OF this] assms(2) show ?thesis by simp
qed

abbreviation cursors_increase :: "application_event list \<Rightarrow> bool" where
  "cursors_increase \<equiv> sorted_wrt (\<lambda>a b. ev_tenant_cursor a < ev_tenant_cursor b)"

lemma reachable_cursors:
  assumes "ledger_reachable rt s"
  shows "cursors_increase (tenant_events s t)" "\<forall>e \<in> set (tenant_events s t). 1 \<le> ev_tenant_cursor e"
    "cursors_increase (run_events s t a)" "\<forall>e \<in> set (run_events s t a). 1 \<le> ev_tenant_cursor e"
proof -
  show "cursors_increase (tenant_events s t)"
    unfolding sorted_wrt_iff_nth_less using cursor_nth [OF assms] by simp
  then show "cursors_increase (run_events s t a)" unfolding run_events_def by (rule sorted_wrt_filter)
  show all: "\<forall>e \<in> set (tenant_events s t). 1 \<le> ev_tenant_cursor e"
    using cursor_nth [OF assms] by (metis One_nat_def Suc_leI in_set_conv_nth zero_less_Suc)
  then show "\<forall>e \<in> set (run_events s t a). 1 \<le> ev_tenant_cursor e" by (simp add: run_events_def)
qed

text \<open>The position after a prefix that was read already, in a list with increasing keys.\<close>

definition read_position :: "('a \<Rightarrow> nat) \<Rightarrow> 'a list \<Rightarrow> int" where
  "read_position key pre = (if pre = [] then 0 else int (key (last pre)))"

abbreviation read_up_to :: "application_event list \<Rightarrow> int" where
  "read_up_to \<equiv> read_position ev_tenant_cursor"

lemma unread_suffix:
  assumes "sorted_wrt (\<lambda>a b. key a < key b) (pre @ suf)" "\<forall>x \<in> set (pre @ suf). 1 \<le> key x"
  shows "filter (\<lambda>x. read_position key pre < int (key x)) (pre @ suf) = suf"
proof -
  have "\<not> read_position key pre < int (key x)" if "x \<in> set pre" for x
    using that assms(1) by (cases pre rule: rev_cases) (auto simp: read_position_def sorted_wrt_append)
  moreover have "read_position key pre < int (key x)" if "x \<in> set suf" for x
    using that assms by (auto simp: read_position_def sorted_wrt_append) (force dest: last_in_set)
  ultimately show ?thesis by (simp add: filter_empty_conv filter_id_conv)
qed

lemma run_page_unread:
  assumes "ledger_reachable rt s" "run_events s t a = pre @ suf" "1 \<le> limit" "limit \<le> 500"
  shows "run_page s t a (read_up_to pre) (int limit) = Inr (take limit suf)"
proof -
  have "filter (selected_event (Some ''investigation'') (Some a) (read_up_to pre)) (tenant_events s t) =
      filter (\<lambda>e. read_up_to pre < int (ev_tenant_cursor e)) (run_events s t a)"
    by (auto simp: run_events_def selected_event_def is_run_event_def intro!: filter_cong)
  also have "\<dots> = suf"
    unfolding assms(2) using reachable_cursors(3,4) [OF assms(1), of t a] assms(2) by (intro unread_suffix) simp_all
  finally show ?thesis using assms(3,4) by (simp add: run_page_def events_page_def py_prefix_def)
qed

lemma read_up_to_append: "xs \<noteq> [] \<Longrightarrow> read_up_to (pre @ xs) = int (ev_tenant_cursor (last xs))"
  by (simp add: read_position_def)

section \<open>The scan for an artifact\<close>

lemma latest_payload_append: "latest_payload ty (xs @ ys) l = latest_payload ty ys (latest_payload ty xs l)"
  by (simp add: latest_payload_def)

lemma latest_payload_find:
  "latest_payload ty es l = (case find (\<lambda>e. ev_event_type e = ty) (rev es) of None \<Rightarrow> l | Some e \<Rightarrow> Some (ev_payload e))"
  by (induction es rule: rev_induct) (simp_all add: latest_payload_def)

lemma scan_artifact_suffix:
  assumes "ledger_reachable rt s" "run_events s t a = pre @ suf" "length pre \<le> artifact_bound"
  shows "scan_artifact s t a ty (read_up_to pre) (length pre) (latest_payload ty pre None) =
    (if length (pre @ suf) \<le> artifact_bound then Inr (latest_payload ty (pre @ suf) None)
     else Inl (IntegrityFailure ''activity artifact scan exceeds the event bound''))"
  using assms(2,3)
proof (induction "artifact_bound - length pre" arbitrary: pre suf rule: less_induct)
  case less
  show ?case
  proof (cases "length pre < artifact_bound")
    case False
    with less.prems run_page_unread [OF assms(1) less.prems(1), of 1] show ?thesis
      by (cases suf) (simp_all add: scan_artifact.simps [of s t a ty "read_up_to pre"])
  next
    case True
    define n where "n = min 500 (artifact_bound - length pre)"
    have n: "1 \<le> n" "n \<le> 500" "length pre + n \<le> artifact_bound" using True by (auto simp: n_def)
    note page = run_page_unread [OF assms(1) less.prems(1) n(1,2)]
    have unfold: "scan_artifact s t a ty (read_up_to pre) (length pre) (latest_payload ty pre None) =
      (let l = latest_payload ty (pre @ take n suf) None in
       if length (take n suf) < n then Inr l
       else scan_artifact s t a ty (int (ev_tenant_cursor (last (take n suf)))) (length (pre @ take n suf)) l)"
      using True page by (subst scan_artifact.simps) (simp add: n_def latest_payload_append Let_def)
    show ?thesis
    proof (cases "length suf < n")
      case True
      with n unfold show ?thesis by (simp add: Let_def)
    next
      case False
      have split: "run_events s t a = (pre @ take n suf) @ drop n suf" using less.prems(1) by simp
      have "take n suf \<noteq> []" using False n by (cases suf) auto
      with read_up_to_append [of "take n suf" pre] False n
        less.hyps [OF _ split] unfold show ?thesis by (simp add: Let_def)
    qed
  qed
qed

text \<open>C39. The paged scan for an activity's artifact terminates and finds the latest one: in every state of
  every history, \<open>activity_artifact\<close> returns the payload of the last event of that type of the run, or
  nothing when there is none, for runs of up to 10000 events, and refuses longer runs.\<close>

theorem artifact_scan_finds_latest:
  assumes "ledger_reachable rt s"
  shows "activity_artifact s t run_id ty =
    (if length (run_events s t run_id) \<le> 10000
     then Inr (map_option ev_payload (find (\<lambda>e. ev_event_type e = ty) (rev (run_events s t run_id))))
     else Inl (IntegrityFailure ''activity artifact scan exceeds the event bound''))"
proof -
  have "run_events s t run_id = [] @ run_events s t run_id" "length ([] :: application_event list) \<le> artifact_bound" by simp_all
  from scan_artifact_suffix [OF assms this, of ty] show ?thesis
    by (cases "find (\<lambda>e. ev_event_type e = ty) (rev (run_events s t run_id))")
      (simp_all add: activity_artifact_def artifact_bound_def read_position_def latest_payload_find)
qed

theorem artifact_scan_finds_latest_witness:
  "activity_artifact sample_state ''acme'' sample_run_id ''investigation.graph_completed'' =
     Inr (map_option ev_payload (find (\<lambda>e. ev_event_type e = ''investigation.graph_completed'')
       (rev (run_events sample_state ''acme'' sample_run_id)))) \<and>
   length (run_events sample_state ''acme'' sample_run_id) = 1"
proof -
  have "length (run_events sample_state ''acme'' sample_run_id) = 1"
    using run_versions(1) [OF sample_reachable sample_accept(2)] by (simp add: sample_view_def accepted_view_def Let_def)
  with artifact_scan_finds_latest [OF sample_reachable, of "''acme''" sample_run_id "''investigation.graph_completed''"]
  show ?thesis by simp
qed

section \<open>The stored request\<close>

lemma accepted_event:
  assumes "ledger_reachable rt s" "accept_run rt now i q w s = (Inr v, s1)" "\<not> rv_replayed v"
  obtains e where "run_events s1 (id_tenant_id i) (rr_run_id (make_run_refs rt i q)) = [e]"
    "map_of (ev_payload e) ''request'' = Some (request_json q)" "map_of (ev_payload e) ''failure_code'' = None"
  using assms(2)
proof (cases rule: accept_run_cases)
  case (replayed existing)
  then have "rv_replayed v" by (auto simp: lookup_run_def split: option.splits)
  with assms(3) show ?thesis by simp
next
  case (accepted trace_ref draft outbox appended v')
  let ?t = "id_tenant_id i" and ?a = "rr_run_id (make_run_refs rt i q)"
  note p = plan_append_facts [OF accepted(4)]
  from p(8) obtain e where e: "appended = [e]" "build_event rt ?t ''investigation'' ?a 1
      (Suc (th_cursor (ten_head (with_entry rt i q w s) ?t))) (ah_record_hash (agg_head (with_entry rt i q w s) (?t, ''investigation'', ?a)))
      (th_record_hash (ten_head (with_entry rt i q w s) ?t)) draft = Inr e"
    by auto
  note f = build_event_fields [OF e(2)]
  have ev: "run_events s1 ?t ?a = run_events (with_entry rt i q w s) ?t ?a @ [e]"
    unfolding accepted(6) using f(2) e(1) by (subst run_events_commit) simp_all
  have s1: "ledger_reachable rt s1" using run_step [OF assms(1) step_accept_run [OF assms(2)]] .
  have v: "st_runs s1 (?t, ?a) = Some v" using accepted(5,6) by simp
  have "map ev_aggregate_sequence (run_events s1 ?t ?a) = [1..<Suc (length (run_events s1 ?t ?a))]"
    using run_versions(1,2) [OF s1 v] by simp
  then have "last (map ev_aggregate_sequence (run_events s1 ?t ?a)) = length (run_events s1 ?t ?a)"
    using ev by (simp del: upt_Suc)
  with ev f(3) have "run_events s1 ?t ?a = [e]" by simp
  moreover have "map_of (ev_payload e) ''request'' = Some (request_json q)" "map_of (ev_payload e) ''failure_code'' = None"
    using accepted(2) f(8) by (auto simp: make_event_draft_def requested_draft_def dict_sorted_def split: if_splits)
  ultimately show ?thesis by (rule that)
qed simp_all

text \<open>The request survives the ledger. After a request was newly accepted, in every later state the worker's
  \<open>run_request\<close> returns exactly that request, as long as the model validator reads back the dump of
  this request.\<close>

theorem stored_request_roundtrip:
  assumes "ledger_reachable rt s" "accept_run rt now i q w s = (Inr v, s1)" "\<not> rv_replayed v"
    and "(ledger_step rt)\<^sup>*\<^sup>* s1 s2" "model_validate (request_json q) = Some q"
  shows "run_request model_validate s2 (id_tenant_id i) (rr_run_id (make_run_refs rt i q)) = Inr q"
proof -
  let ?t = "id_tenant_id i" and ?a = "rr_run_id (make_run_refs rt i q)"
  from accepted_event [OF assms(1-3)] obtain e where e: "run_events s1 ?t ?a = [e]"
    "map_of (ev_payload e) ''request'' = Some (request_json q)" by blast
  have s1: "ledger_reachable rt s1" using run_step [OF assms(1) step_accept_run [OF assms(2)]] .
  from ledger_steps_extend [OF s1 assms(4)] obtain es where
    s2: "ledger_reachable rt s2" "tenant_events s2 ?t = tenant_events s1 ?t @ es" unfolding ledger_extends_def by blast
  then have "run_events s2 ?t ?a = [] @ (e # filter (is_run_event ?a) es)" using e(1) by (simp add: run_events_def)
  from run_page_unread [OF s2(1) this, of 1] e(2) assms(5) show ?thesis
    by (simp add: run_request_def read_position_def)
qed

theorem stored_request_roundtrip_witness:
  "run_request (\<lambda>v. if v = request_json sample_request then Some sample_request else None) sample_state ''acme'' sample_run_id =
     Inr sample_request"
proof -
  have "\<not> rv_replayed sample_view" by (simp add: sample_view_def accepted_view_def Let_def)
  from stored_request_roundtrip [OF initial_reachable sample_accept(1) this rtranclp.rtrancl_refl,
      of "\<lambda>v. if v = request_json sample_request then Some sample_request else None"]
  show ?thesis by (simp add: sample_run_id_def)
qed

section \<open>Pages of the timeline\<close>

definition shown_failure_code :: "application_event \<Rightarrow> string option" where
  "shown_failure_code e = (case map_of (ev_payload e) ''failure_code'' of Some (JStr c) \<Rightarrow> Some c | _ \<Rightarrow> None)"

lemma make_timeline_item_ok:
  assumes "1 \<le> ev_tenant_cursor e" "valid_identifier (ev_event_type e)" "valid_opt_identifier (shown_failure_code e)"
  shows "make_timeline_item e status = Inr \<lparr>ti_cursor = ev_tenant_cursor e, ti_event_type = ev_event_type e,
    ti_occurred_at = ev_occurred_at e, ti_status = status, ti_failure_code = shown_failure_code e\<rparr>"
  using assms by (simp add: make_timeline_item_def shown_failure_code_def Let_def)

lemma timeline_items_all:
  assumes "replay_run rt es current = Inr c"
    and "\<forall>e \<in> set es. 1 \<le> ev_tenant_cursor e \<and> valid_identifier (ev_event_type e) \<and> valid_opt_identifier (shown_failure_code e)"
  shows "\<exists>items. (\<forall>after \<ge> 0. timeline_items rt after current es = Inr (filter (\<lambda>x. after < int (ti_cursor x)) items)) \<and>
    map ti_cursor items = map ev_tenant_cursor es \<and> map ti_event_type items = map ev_event_type es \<and>
    (items \<noteq> [] \<longrightarrow> Some (ti_status (last items)) = map_option rv_status c)"
  using assms
proof (induction es arbitrary: current)
  case (Cons e es)
  from Cons.prems(1) obtain v where v: "reduce_run rt current e = Inr v" "replay_run rt es (Some v) = Inr c"
    by (auto simp: replay_run_Cons)
  from Cons.IH [OF v(2)] Cons.prems(2) obtain items where
    i: "\<forall>after \<ge> 0. timeline_items rt after (Some v) es = Inr (filter (\<lambda>x. after < int (ti_cursor x)) items)"
      "map ti_cursor items = map ev_tenant_cursor es" "map ti_event_type items = map ev_event_type es"
      "items \<noteq> [] \<longrightarrow> Some (ti_status (last items)) = map_option rv_status c" by auto
  let ?x = "\<lparr>ti_cursor = ev_tenant_cursor e, ti_event_type = ev_event_type e, ti_occurred_at = ev_occurred_at e,
    ti_status = rv_status v, ti_failure_code = shown_failure_code e\<rparr>"
  have "Some (ti_status (last (?x # items))) = map_option rv_status c"
  proof (cases "items = []")
    case True
    then have "es = []" using i(2) by simp
    with v(2) True show ?thesis by auto
  qed (use i(4) in simp)
  with i v(1) Cons.prems(2) show ?case
    by (intro exI [of _ "?x # items"]) (simp add: make_timeline_item_ok)
qed simp

text \<open>The timeline pages enumerate the first 500 events of a run. In every state of every history there is one
  list of items, one for each of the run's first 500 events in order, such that for every position the page
  after that position with any positive limit is the next stretch of this list; it carries a cursor
  token exactly when items are left, and the token is for the position after the stretch, so following
  the tokens shows each item once. Events after the five hundredth are never shown.\<close>

theorem timeline_pages:
  assumes "ledger_reachable rt s" "\<forall>e \<in> set (run_events s t run_id). valid_opt_identifier (shown_failure_code e)"
  shows "\<exists>items. map ti_cursor items = map ev_tenant_cursor (take 500 (run_events s t run_id)) \<and>
    map ti_event_type items = map ev_event_type (take 500 (run_events s t run_id)) \<and>
    (\<forall>k limit. k \<le> length items \<longrightarrow> 1 \<le> limit \<longrightarrow>
      timeline rt key s t run_id (read_position ti_cursor (take k items)) (int limit) =
        Inr \<lparr>tp_items = take limit (drop k items),
             tp_next_cursor = (if k + limit < length items
               then Some (encode_cursor rt key t run_id (read_position ti_cursor (take (k + limit) items))) else None)\<rparr>)"
proof -
  let ?es = "run_events s t run_id"
  have inv: "replay_run rt (take 500 ?es @ drop 500 ?es) None = Inr (st_runs s (t, run_id))"
    using reachable_ledger_inv [OF assms(1)] by (simp add: ledger_inv_def tenant_inv_def)
  then obtain c where c: "replay_run rt (take 500 ?es) None = Inr c" unfolding replay_run_append by auto
  have cur: "cursors_increase (take 500 ?es)" "\<forall>e \<in> set ?es. 1 \<le> ev_tenant_cursor e"
    using reachable_cursors(3,4) [OF assms(1), of t run_id] by (auto intro: sorted_wrt_take)
  have "\<forall>e \<in> set ?es. valid_identifier (ev_event_type e)"
    using reachable_events_valid [OF assms(1)] by (auto simp: run_events_def events_valid_def valid_application_event_def)
  with timeline_items_all [OF c] cur(2) assms(2) obtain items where
    i: "\<forall>after \<ge> 0. timeline_items rt after None (take 500 ?es) = Inr (filter (\<lambda>x. after < int (ti_cursor x)) items)"
      "map ti_cursor items = map ev_tenant_cursor (take 500 ?es)"
      "map ti_event_type items = map ev_event_type (take 500 ?es)" by (metis in_set_takeD)
  have sorted: "sorted_wrt (\<lambda>a b. ti_cursor a < ti_cursor b) items"
    using cur(1) i(2) by (metis sorted_wrt_map)
  have pos: "\<forall>x \<in> set items. 1 \<le> ti_cursor x"
    using cur(2) i(2) by (metis (no_types, lifting) in_set_takeD list.set_map image_iff)
  have page: "run_page s t run_id 0 500 = Inr (take 500 ?es)"
    using run_page_unread [OF assms(1), of t run_id "[]" ?es 500] by (simp add: read_position_def)
  have "timeline rt key s t run_id (read_position ti_cursor (take k items)) (int limit) =
      Inr \<lparr>tp_items = take limit (drop k items),
           tp_next_cursor = (if k + limit < length items
             then Some (encode_cursor rt key t run_id (read_position ti_cursor (take (k + limit) items))) else None)\<rparr>"
    if k: "k \<le> length items" "1 \<le> limit" for k limit
  proof -
    have "0 \<le> read_position ti_cursor (take k items)" by (simp add: read_position_def)
    moreover have "filter (\<lambda>x. read_position ti_cursor (take k items) < int (ti_cursor x)) items = drop k items"
      using unread_suffix [of ti_cursor "take k items" "drop k items"] sorted pos by simp
    ultimately have "timeline_items rt (read_position ti_cursor (take k items)) None (take 500 ?es) = Inr (drop k items)"
      using i(1) by simp
    moreover have "read_position ti_cursor (take (k + limit) items) = int (ti_cursor (last (take limit (drop k items))))"
      if "k + limit < length items"
      using that k(2) by (simp add: read_position_def take_add)
    ultimately show ?thesis using page k by (auto simp: timeline_def py_prefix_def Let_def)
  qed
  with i(2,3) show ?thesis by blast
qed

theorem timeline_pages_witness:
  "\<exists>item. timeline sample_rt ''k'' sample_state ''acme'' sample_run_id 0 1 =
     Inr \<lparr>tp_items = [item], tp_next_cursor = None\<rparr>"
proof -
  have one: "length (run_events sample_state ''acme'' sample_run_id) = 1"
    using run_versions(1) [OF sample_reachable sample_accept(2)] by (simp add: sample_view_def accepted_view_def Let_def)
  have "\<not> rv_replayed sample_view" by (simp add: sample_view_def accepted_view_def Let_def)
  from accepted_event [OF initial_reachable sample_accept(1) this] obtain e where
    "run_events sample_state ''acme'' sample_run_id = [e]" "map_of (ev_payload e) ''failure_code'' = None"
    by (metis sample_identity_simps(1) sample_run_id_def)
  then have "\<forall>e \<in> set (run_events sample_state ''acme'' sample_run_id). valid_opt_identifier (shown_failure_code e)"
    by (simp add: shown_failure_code_def valid_opt_identifier_def)
  from timeline_pages [OF sample_reachable this, of "''k''"] obtain items where
    i: "map ti_cursor items = map ev_tenant_cursor (take 500 (run_events sample_state ''acme'' sample_run_id))"
    and p: "\<forall>k limit. k \<le> length items \<longrightarrow> 1 \<le> limit \<longrightarrow>
      timeline sample_rt ''k'' sample_state ''acme'' sample_run_id (read_position ti_cursor (take k items)) (int limit) =
        Inr \<lparr>tp_items = take limit (drop k items),
             tp_next_cursor = (if k + limit < length items
               then Some (encode_cursor sample_rt ''k'' ''acme'' sample_run_id (read_position ti_cursor (take (k + limit) items)))
               else None)\<rparr>" by blast
  from i one have "length items = 1" by (metis length_map length_take min.absorb1 one_le_numeral)
  then obtain item where "items = [item]" by (auto simp: length_Suc_conv)
  with p [rule_format, of 0 1] show ?thesis by (simp add: read_position_def)
qed

end
