(* ===== verification/Replay_Properties.thy ===== *)
theory Replay_Properties
  imports Query_Properties "HOL-Library.Sublist"
begin

text \<open>
  The replay report over all histories: the window read from the ledger verifies against the anchors
  taken from it, the projection matches the live view, and the report fits its byte bound.
\<close>

section \<open>Lists with consecutive keys\<close>

fun consecutive :: "('a \<Rightarrow> nat) \<Rightarrow> nat \<Rightarrow> 'a list \<Rightarrow> bool" where
  "consecutive key n [] = True"
| "consecutive key n (x # xs) = (key x = n \<and> consecutive key (Suc n) xs)"

lemma consecutive_take: "consecutive key n xs \<Longrightarrow> consecutive key n (take k xs)"
  by (induction xs arbitrary: n k) (auto simp: take_Cons split: nat.splits)

lemma consecutive_drop: "consecutive key n xs \<Longrightarrow> consecutive key (n + k) (drop k xs)"
proof (induction xs arbitrary: n k)
  case (Cons x xs)
  then show ?case using Cons.IH [of "Suc n" "k - 1"] by (cases k) auto
qed simp

lemma consecutive_above: "consecutive key n xs \<Longrightarrow> \<forall>x \<in> set xs. n \<le> key x"
  by (induction xs arbitrary: n) (auto dest: Suc_leD)

lemma consecutive_last: "consecutive key n xs \<Longrightarrow> xs \<noteq> [] \<Longrightarrow> Suc (key (last xs)) = n + length xs"
proof (induction xs arbitrary: n)
  case (Cons x xs)
  then show ?case using Cons.IH [of "Suc n"] by (cases "xs = []") simp_all
qed simp

lemma consecutive_upper: "consecutive key n xs \<Longrightarrow> filter (\<lambda>x. n + m \<le> key x) xs = drop m xs"
proof (induction xs arbitrary: n m)
  case (Cons x xs)
  show ?case
  proof (cases m)
    case 0
    with consecutive_above [OF Cons.prems] show ?thesis by (simp add: filter_id_conv)
  next
    case (Suc j)
    with Cons.IH [of "Suc n" j] Cons.prems show ?thesis by simp
  qed
qed simp

lemma consecutive_lower: "consecutive key n xs \<Longrightarrow> filter (\<lambda>x. key x < n + m) xs = take m xs"
proof (induction xs arbitrary: n m)
  case (Cons x xs)
  show ?case
  proof (cases m)
    case 0
    have "\<forall>y \<in> set (x # xs). \<not> key y < n" using consecutive_above [OF Cons.prems] by (auto simp: not_less)
    then have "filter (\<lambda>y. key y < n) (x # xs) = []" by (subst filter_empty_conv)
    with 0 show ?thesis by simp
  next
    case (Suc j)
    with Cons.IH [of "Suc n" j] Cons.prems show ?thesis by simp
  qed
qed simp

lemma consecutive_nth: "(\<And>i. i < length xs \<Longrightarrow> key (xs ! i) = n + i) \<Longrightarrow> consecutive key n xs"
proof (induction xs arbitrary: n)
  case (Cons x xs)
  have "key (xs ! i) = Suc n + i" if "i < length xs" for i using Cons.prems [of "Suc i"] that by simp
  with Cons.IH [of "Suc n"] Cons.prems [of 0] show ?case by simp
qed simp

section \<open>Reading the window\<close>

lemma reachable_consecutive: "ledger_reachable rt s \<Longrightarrow> consecutive ev_tenant_cursor 1 (tenant_events s t)"
  by (rule consecutive_nth) (simp add: cursor_nth)

lemma events_page_drop:
  assumes "ledger_reachable rt s" "1 \<le> limit" "limit \<le> 500"
  shows "events_page s t None None (int k) (int limit) = Inr (take limit (drop k (tenant_events s t)))"
proof -
  have "selected_event None None (int k) = (\<lambda>e. 1 + k \<le> ev_tenant_cursor e)" by (auto simp: selected_event_def)
  with consecutive_upper [OF reachable_consecutive [OF assms(1)], of k t] assms(2,3) show ?thesis
    by (simp only: events_page_def py_prefix_def) simp
qed

lemma stretch_consecutive:
  "ledger_reachable rt s \<Longrightarrow> consecutive ev_tenant_cursor (Suc k) (take n (drop k (tenant_events s t)))"
  using consecutive_take [OF consecutive_drop [OF reachable_consecutive, of rt s k t], of n] by simp

lemma stretch_up_to:
  assumes "ledger_reachable rt s"
  shows "filter (\<lambda>e. ev_tenant_cursor e \<le> k + m) (take n (drop k (tenant_events s t))) = take (min n m) (drop k (tenant_events s t))"
proof -
  have eq: "(\<lambda>e. ev_tenant_cursor e \<le> k + m) = (\<lambda>e. ev_tenant_cursor e < Suc k + m)" by auto
  show ?thesis
    unfolding eq using consecutive_lower [OF stretch_consecutive [OF assms, of k n t], of m]
    by (simp add: min.commute)
qed

lemma collect_window_page:
  assumes "length events < 10000" "after < int last_cursor"
    "events_page s t None None after (int (min 500 (10000 - length events))) = Inr page" "page \<noteq> []"
  shows "collect_window s t last_cursor events after =
    (if last_cursor \<le> ev_tenant_cursor (last page) then Inr (events @ filter (\<lambda>e. ev_tenant_cursor e \<le> last_cursor) page)
     else collect_window s t last_cursor (events @ filter (\<lambda>e. ev_tenant_cursor e \<le> last_cursor) page)
            (int (ev_tenant_cursor (last page))))"
  unfolding collect_window.simps [of s t last_cursor events after] Let_def
  using assms by simp

lemma collect_window_done: "int last_cursor \<le> after \<Longrightarrow> collect_window s t last_cursor events after = Inr events"
  by (simp add: collect_window.simps [of s t last_cursor events after])

lemma collect_window_stretch:
  assumes "ledger_reachable rt s" "f + m \<le> length (tenant_events s t)" "m \<le> 10000" "k \<le> m"
  shows "collect_window s t (f + m) (take k (drop f (tenant_events s t))) (int (f + k)) = Inr (take m (drop f (tenant_events s t)))"
  using assms(4)
proof (induction "m - k" arbitrary: k rule: less_induct)
  case less
  let ?es = "tenant_events s t"
  have len: "length (take k (drop f ?es)) = k" using less.prems assms(2) by simp
  show ?case
  proof (cases "k = m")
    case True
    then show ?thesis by (simp add: collect_window_done)
  next
    case False
    with less.prems have k: "k < m" by simp
    define n where "n = min 500 (10000 - k)"
    have n: "1 \<le> n" "n \<le> 500" using k assms(3) by (auto simp: n_def)
    have page: "events_page s t None None (int (f + k)) (int n) = Inr (take n (drop (f + k) ?es))"
      by (rule events_page_drop [OF assms(1) n])
    have ne: "take n (drop (f + k) ?es) \<noteq> []" using n k assms(2) by simp
    have last: "ev_tenant_cursor (last (take n (drop (f + k) ?es))) = f + k + min n (length ?es - (f + k))"
      using consecutive_last [OF stretch_consecutive [OF assms(1), of "f + k" n t] ne] by (simp add: min.commute)
    have more: "take k (drop f ?es) @ filter (\<lambda>e. ev_tenant_cursor e \<le> f + m) (take n (drop (f + k) ?es)) =
        take (k + min n (m - k)) (drop f ?es)"
      using stretch_up_to [OF assms(1), of "f + k" "m - k" n t] k by (simp add: take_add add.commute)
    have lower: "length (take k (drop f ?es)) < 10000" "int (f + k) < int (f + m)" using len k assms(3) by simp_all
    have page': "events_page s t None None (int (f + k)) (int (min 500 (10000 - length (take k (drop f ?es))))) =
        Inr (take n (drop (f + k) ?es))" using page by (simp only: len n_def)
    have unfold: "collect_window s t (f + m) (take k (drop f ?es)) (int (f + k)) =
      (if f + m \<le> f + k + min n (length ?es - (f + k)) then Inr (take (k + min n (m - k)) (drop f ?es))
       else collect_window s t (f + m) (take (k + min n (m - k)) (drop f ?es)) (int (f + k + min n (length ?es - (f + k)))))"
      unfolding collect_window_page [of "take k (drop f ?es)" "int (f + k)" "f + m" s t, OF lower(1) lower(2) page' ne]
      by (simp only: more last)
    show ?thesis
    proof (cases "m \<le> k + n")
      case True
      then have "f + m \<le> f + k + min n (length ?es - (f + k))" "k + min n (m - k) = m" using assms(2) k by auto
      with unfold show ?thesis by simp
    next
      case False
      then have "k + min n (m - k) = k + n" "min n (length ?es - (f + k)) = n" "k + n \<le> m" "m - (k + n) < m - k"
        using assms(2) n k by auto
      with unfold less.hyps [of "k + n"] False show ?thesis by (simp add: add.assoc)
    qed
  qed
qed

section \<open>The window verifies against its anchors\<close>

lemma verify_window_events:
  assumes "verify_events rt heads th seen es = Inr True" "seen' \<subseteq> seen"
    and "\<forall>e \<in> set es. get_default h (event_key e) no_aggregate_head = get_default heads (event_key e) no_aggregate_head"
  shows "verify_window rt h (th_cursor th) (th_record_hash th) seen' n es =
    make_integrity True n (th_cursor (thead_after th es)) (th_record_hash (thead_after th es)) None"
  using assms
proof (induction es arbitrary: heads th seen seen' h)
  case (Cons e es)
  from Cons.prems(1) have ok: "event_ok rt heads th seen e"
    and rest: "verify_events rt (heads(event_key e \<mapsto> event_agg_head e)) (event_ten_head e) (insert (ev_event_id e) seen) es = Inr True"
    by (simp_all only: verify_events_Cons)
  have "\<forall>x \<in> set es. get_default (h(event_key e \<mapsto> event_agg_head e)) (event_key x) no_aggregate_head =
      get_default (heads(event_key e \<mapsto> event_agg_head e)) (event_key x) no_aggregate_head"
    using Cons.prems(3) by (simp add: get_default_def)
  from Cons.IH [OF rest insert_mono [OF Cons.prems(2)] this]
  have IH: "verify_window rt (h(event_key e \<mapsto> event_agg_head e)) (ev_tenant_cursor e) (ev_record_hash e)
      (insert (ev_event_id e) seen') n es =
      make_integrity True n (th_cursor (thead_after th (e # es))) (th_record_hash (thead_after th (e # es))) None"
    by (simp add: event_ten_head_def del: fun_upd_apply)
  have "get_default h (event_key e) no_aggregate_head = get_default heads (event_key e) no_aggregate_head"
    using Cons.prems(3) by simp
  with ok Cons.prems(2) IH show ?case
    by (auto simp: event_ok_def event_links_def integrity_failure_def Let_def simp del: fun_upd_apply thead_after_simps)
qed simp

lemma window_anchors_heads:
  assumes "verify_events rt heads th seen es = Inr True" "x \<in> set es"
  shows "get_default (window_anchors es) (event_key x) no_aggregate_head = get_default heads (event_key x) no_aggregate_head"
  using assms
proof (induction es arbitrary: heads th seen)
  case (Cons e es)
  from Cons.prems(1) have ok: "event_ok rt heads th seen e"
    and rest: "verify_events rt (heads(event_key e \<mapsto> event_agg_head e)) (event_ten_head e) (insert (ev_event_id e) seen) es = Inr True"
    by (simp_all only: verify_events_Cons)
  show ?case
  proof (cases "event_key x = event_key e")
    case True
    with ok show ?thesis
      by (auto simp: event_ok_def event_links_def Let_def window_anchors_def get_default_def)
  next
    case False
    with Cons.prems(2) have "x \<in> set es" by auto
    from Cons.IH [OF rest this] False show ?thesis by (simp add: window_anchors_def get_default_def)
  qed
qed simp

section \<open>Replaying the window\<close>

lemma replay_until_end:
  "replay_run rt (filter (is_run_event a) es) current = Inr c \<Longrightarrow>
     \<exists>last. replay_until rt a None current first es = Inr (c, last)"
proof (induction es arbitrary: current first)
  case (Cons e es)
  then show ?case by (cases "is_run_event a e") (auto simp: replay_run_Cons)
qed simp

lemma causal_items_end:
  "replay_run rt (filter (is_run_event a) es) current = Inr c \<Longrightarrow>
     \<exists>items. causal_items rt known a current es = Inr items \<and> map ci_cursor items = map ev_tenant_cursor (filter (is_run_event a) es)"
proof (induction es arbitrary: current)
  case (Cons e es)
  show ?case
  proof (cases "is_run_event a e")
    case True
    with Cons.prems obtain v where v: "reduce_run rt current e = Inr v" "replay_run rt (filter (is_run_event a) es) (Some v) = Inr c"
      by (auto simp: replay_run_Cons)
    from Cons.IH [OF v(2)] True v(1) show ?thesis by (auto simp: causal_item_of_def)
  qed (use Cons in simp)
qed simp

lemma compare_same:
  assumes "replay_run rt (filter (is_run_event a) (rd_events d)) None = Inr (Some v)"
  shows "\<exists>p. compare_projection rt d a (Some v) None = Inr p \<and> df_matches p \<and> df_differing_fields p = [] \<and>
    df_live_digest p = digest_mapping rt (view_items v) \<and> df_replay_digest p = digest_mapping rt (view_items v)"
proof -
  from replay_until_end [OF assms] obtain l where "replay_until rt a None None None (rd_events d) = Inr (Some v, l)" by blast
  then show ?thesis by (simp add: compare_projection_def state_at_def model_value_def Let_def)
qed

section \<open>The report fits its bound\<close>

lemma length_canonical_nat: "n < 10 ^ d \<Longrightarrow> 1 \<le> d \<Longrightarrow> length (canonical_json rt (JInt (int n))) \<le> d"
  using length_nat_str [of n d] by (simp add: canonical_json_def int_str_def)

lemma length_canonical_null: "length (canonical_json rt JNull) = 4" "length (canonical_json rt (JList [])) = 2"
  by (simp_all add: canonical_json_def)

lemma length_integrity_json:
  assumes "hex64 (ri_last_hash i)" "ri_event_count i < 10 ^ 5" "ri_last_cursor i < 10 ^ 1000" "ri_failure_code i = None"
  shows "length (canonical_json rt (integrity_json i)) \<le> 3000"
  using length_canonical_obj [of rt "[(''valid'', JBool (ri_valid i)), (''event_count'', JInt (int (ri_event_count i))),
      (''last_cursor'', JInt (int (ri_last_cursor i))), (''last_hash'', JStr (ri_last_hash i)), (''failure_code'', JNull)]"]
    length_canonical_bool [of rt "ri_valid i"] length_canonical_nat [OF assms(2), of rt] length_canonical_nat [OF assms(3), of rt]
    length_canonical_str [of rt "ri_last_hash i"] assms(1,4)
  by (simp add: integrity_json_def opt_json_def hex64_def length_canonical_null)

lemma length_difference_json:
  assumes "hex64 (df_live_digest p)" "hex64 (df_replay_digest p)" "df_differing_fields p = []"
  shows "length (canonical_json rt (difference_json p)) \<le> 3000"
  using length_canonical_obj [of rt "[(''matches'', JBool (df_matches p)), (''live_digest'', JStr (df_live_digest p)),
      (''replay_digest'', JStr (df_replay_digest p)), (''differing_fields'', JList [])]"]
    length_canonical_bool [of rt "df_matches p"] length_canonical_str [of rt "df_live_digest p"]
    length_canonical_str [of rt "df_replay_digest p"] assms
  by (simp add: difference_json_def hex64_def length_canonical_null)

lemma length_base_material:
  assumes "length (canonical_json rt (integrity_json i)) \<le> 3000" "length (canonical_json rt (difference_json p)) \<le> 3000"
  shows "length (canonical_json rt (report_material i (Some p) [] truncated None)) \<le> 8000"
  using length_canonical_obj [of rt "[(''integrity'', integrity_json i), (''projection'', difference_json p),
      (''causal_chain'', JList []), (''truncated'', JBool truncated), (''completeness_code'', JNull)]"]
    length_canonical_bool [of rt truncated] assms
  by (simp add: report_material_def opt_json_def length_canonical_null)

lemma fit_chain_fits:
  assumes "\<And>b. length (canonical_json rt (report_material i (Some p) [] b None)) \<le> bytes"
  shows "case fit_chain rt bytes i p chain truncated of (chain', truncated') \<Rightarrow>
    length (canonical_json rt (report_material i (Some p) chain' truncated' None)) \<le> bytes \<and>
    prefix chain' chain \<and> (truncated' \<longleftrightarrow> truncated \<or> chain' \<noteq> chain)"
proof (induction chain arbitrary: truncated rule: rev_induct)
  case Nil
  with assms show ?case by (subst fit_chain.simps) simp
next
  case (snoc x xs)
  show ?case
  proof (cases "bytes < length (canonical_json rt (report_material i (Some p) (xs @ [x]) truncated None))")
    case True
    then have step: "fit_chain rt bytes i p (xs @ [x]) truncated = fit_chain rt bytes i p xs True"
      by (simp add: fit_chain.simps [of rt bytes i p "xs @ [x]" truncated])
    obtain c b where cb: "fit_chain rt bytes i p xs True = (c, b)" by force
    from snoc [of True] cb have c: "length (canonical_json rt (report_material i (Some p) c b None)) \<le> bytes" "prefix c xs" "b"
      by auto
    then have "c \<noteq> xs @ [x]" using prefix_length_le [OF c(2)] by auto
    with c step cb show ?thesis by simp
  next
    case False
    then show ?thesis by (simp add: fit_chain.simps [of rt bytes i p "xs @ [x]" truncated])
  qed
qed

section \<open>The window of a run\<close>

text \<open>The stretch of the tenant's log from a run's first event to the cursor of its live view, as the
  position before it and its length.\<close>

definition window_start :: "durability_state \<Rightarrow> string \<Rightarrow> string \<Rightarrow> nat" where
  "window_start s t run_id = ev_tenant_cursor (hd (run_events s t run_id)) - 1"

lemma filter_stretch:
  assumes "consecutive key 1 xs" "filter P xs \<noteq> []"
    and "f = key (hd (filter P xs)) - 1" "f + m = key (last (filter P xs))"
  shows "filter P (take m (drop f xs)) = filter P xs" "f + m \<le> length xs" "1 \<le> m" "key (hd (filter P xs)) = Suc f"
proof -
  let ?ys = "filter P xs"
  have pos: "key x = Suc i" if "i < length xs" "x = xs ! i" for i x
    using consecutive_drop [OF assms(1), of i] that by (simp add: Cons_nth_drop_Suc [symmetric])
  have srt: "sorted_wrt (\<lambda>a b. key a < key b) xs" unfolding sorted_wrt_iff_nth_less using pos by auto
  then have ys: "sorted_wrt (\<lambda>a b. key a < key b) ?ys" by (rule sorted_wrt_filter)
  have low: "key (hd ?ys) \<le> key y" and high: "key y \<le> key (last ?ys)" if "y \<in> set ?ys" for y
  proof -
    show "key (hd ?ys) \<le> key y" using ys that by (cases ?ys) (auto intro: less_imp_le simp del: filter_eq_Cons_iff)
    from ys that show "key y \<le> key (last ?ys)"
      by (cases ?ys rule: rev_cases) (auto simp: sorted_wrt_append intro: less_imp_le)
  qed
  have mem: "1 \<le> key y \<and> key y \<le> length xs" if "y \<in> set ?ys" for y
    using that pos by (auto simp: in_set_conv_nth)
  from mem [OF hd_in_set [OF assms(2)]] assms(3) show first: "key (hd ?ys) = Suc f" by simp
  from mem [OF last_in_set [OF assms(2)]] assms(4) show len: "f + m \<le> length xs" by simp
  from high [OF hd_in_set [OF assms(2)]] first assms(4) show "1 \<le> m" by simp
  have "filter P (take f xs) = []"
    unfolding filter_empty_conv
  proof (intro ballI notI)
    fix x
    assume x: "x \<in> set (take f xs)" "P x"
    from x(1) obtain i where i: "i < f" "i < length xs" "x = xs ! i" by (auto simp: in_set_conv_nth)
    with x(2) have "x \<in> set ?ys" by simp
    from low [OF this] first pos [OF i(2,3)] i(1) show False by simp
  qed
  moreover have "filter P (drop (f + m) xs) = []"
  proof (rule ccontr)
    assume "filter P (drop (f + m) xs) \<noteq> []"
    then obtain x where x: "x \<in> set (drop (f + m) xs)" "P x" by (auto simp: filter_empty_conv)
    have "f + m < key x"
      using consecutive_above [OF consecutive_drop [OF assms(1), of "f + m"]] x(1) by auto
    moreover have "key x \<le> f + m" using high [of x] x assms(4) by (auto dest: in_set_dropD)
    ultimately show False by simp
  qed
  moreover have "filter P xs = filter P (take f xs) @ filter P (take m (drop f xs)) @ filter P (drop (f + m) xs)"
    by (metis append_take_drop_id drop_drop filter_append add.commute)
  ultimately show "filter P (take m (drop f xs)) = ?ys" by simp
qed

lemma window_verifies:
  assumes "ledger_reachable rt s" "f + m \<le> length (tenant_events s t)" "1 \<le> m" "m \<le> 10000"
    and schema: "list_all first_schema (take m (drop f (tenant_events s t)))"
  defines "W \<equiv> take m (drop f (tenant_events s t))"
  obtains d where "make_debugger W (int f) (ev_tenant_previous_hash (hd W)) (window_anchors W) = Inr d" "rd_events d = W"
    "verify_replay rt d = Inr \<lparr>ri_valid = True, ri_event_count = m, ri_last_cursor = f + m,
       ri_last_hash = ev_record_hash (last W), ri_failure_code = None\<rparr>"
    "hex64 (ev_record_hash (last W))"
proof -
  let ?es = "tenant_events s t" and ?th = "thead_after no_tenant_head (take f (tenant_events s t))"
  note i = reachable_ledger_inv [OF assms(1)]
  have W: "W \<noteq> []" "length W = m" using assms(2,3) by (auto simp: W_def)
  have split: "?es = take f ?es @ W @ drop (f + m) ?es"
    unfolding W_def by (metis append_take_drop_id drop_drop add.commute)
  have "chained_events rt Map.empty no_tenant_head {} (take f ?es @ W @ drop (f + m) ?es)"
    unfolding split [symmetric] by (rule ledger_inv_chained [OF i])
  then have first: "chained_events rt Map.empty no_tenant_head {} (take f ?es)"
    and ver: "verify_events rt (heads_after Map.empty (take f ?es)) ?th (ev_event_id ` set (take f ?es)) W = Inr True"
    using schema by (simp_all add: chained_events_append verify_events_chained W_def)
  have cur: "th_cursor ?th = f" using chained_events_chain [OF first] assms(2) by (simp add: no_tenant_head_def)
  have hash: "th_record_hash ?th = ev_tenant_previous_hash (hd W)"
    using ver W(1) by (cases W) (auto simp: event_ok_def event_links_def Let_def verify_events_Cons simp del: verify_events.simps)
  have mem: "set W \<subseteq> set ?es" unfolding W_def by (meson in_set_dropD in_set_takeD subsetI)
  have valid: "valid_application_event e" "ev_tenant_id e = t" if "e \<in> set W" for e
    using that mem reachable_events_valid [OF assms(1)] i by (auto simp: events_valid_def ledger_inv_def tenant_inv_def)
  have hex: "hex64 (ev_record_hash (last W))" "hex64 (ev_tenant_previous_hash (hd W))"
    using valid(1) W(1) by (simp_all add: valid_application_event_def)
  have cons: "consecutive ev_tenant_cursor (Suc f) W" unfolding W_def by (rule stretch_consecutive [OF assms(1)])
  have "sorted (map ev_tenant_cursor W)"
    using reachable_cursors(1) [OF assms(1), of t] unfolding W_def
    by (auto simp: sorted_wrt_map intro!: sorted_wrt_take sorted_wrt_drop elim: sorted_wrt_mono_rel [rotated])
  then have sort: "sort_key ev_tenant_cursor W = W" by (rule sort_key_id_if_sorted)
  have "set (map ev_tenant_id W) \<subseteq> {t}" using valid(2) by auto
  then have "length (remdups (map ev_tenant_id W)) \<le> 1" by (metis card_mono card.empty card_insert_disjoint empty_iff finite.intros length_remdups_card_conv One_nat_def)
  then obtain d where d: "make_debugger W (int f) (ev_tenant_previous_hash (hd W)) (window_anchors W) = Inr d"
      "d = \<lparr>rd_events = W, rd_tenant_anchor_cursor = f, rd_tenant_anchor_hash = ev_tenant_previous_hash (hd W),
            rd_aggregate_anchors = window_anchors W\<rparr>"
    using W(2) assms(4) hex(2) sort by (simp add: make_debugger_def max_replay_events_def hex64_def)
  have "verify_replay rt d = make_integrity True m (th_cursor (thead_after ?th W)) (th_record_hash (thead_after ?th W)) None"
    using verify_window_events [OF ver empty_subsetI, of "window_anchors W" m] window_anchors_heads [OF ver] cur hash W(2) d(2)
    by (simp add: verify_replay_def)
  also have "\<dots> = Inr \<lparr>ri_valid = True, ri_event_count = m, ri_last_cursor = f + m, ri_last_hash = ev_record_hash (last W), ri_failure_code = None\<rparr>"
    using hex(1) W consecutive_last [OF cons W(1)] by (simp add: thead_after_last event_ten_head_def make_integrity_def)
  finally show ?thesis using that d hex(1) by simp
qed

lemma support_report_clean:
  assumes "sha256_shape rt" "verify_replay rt d = Inr i" "ri_valid i" "hex64 (ri_last_hash i)" "ri_failure_code i = None"
    and "ri_event_count i < 10 ^ 5" "ri_last_cursor i < 10 ^ 1000"
    and "replay_run rt (filter (is_run_event a) (rd_events d)) None = Inr (Some v)" "1 \<le> maximum"
  defines "es \<equiv> filter (is_run_event a) (rd_events d)"
  shows "\<exists>report p. support_report rt d a (Some v) maximum max_report_bytes = Inr report \<and> sr_integrity report = i \<and>
    sr_projection report = Some p \<and> df_matches p \<and> df_differing_fields p = [] \<and>
    prefix (map ci_cursor (sr_causal_chain report)) (map ev_tenant_cursor es) \<and>
    length (sr_causal_chain report) \<le> nat (min maximum 500) \<and>
    (sr_truncated report \<longleftrightarrow> length (sr_causal_chain report) < length es) \<and>
    (let text = canonical_json rt (report_material (sr_integrity report) (Some p) (sr_causal_chain report) (sr_truncated report) None)
     in sr_report_digest report = sha256_hexdigest rt text \<and> length text \<le> max_report_bytes)"
proof -
  from causal_items_end [OF assms(8)] obtain items where
    items: "causal_items rt (ev_event_id ` set (rd_events d)) a None (rd_events d) = Inr items" "map ci_cursor items = map ev_tenant_cursor es"
    unfolding es_def by blast
  from compare_same [OF assms(8)] obtain p where
    p: "compare_projection rt d a (Some v) None = Inr p" "df_matches p" "df_differing_fields p = []"
      "df_live_digest p = digest_mapping rt (view_items v)" "df_replay_digest p = digest_mapping rt (view_items v)" by blast
  have base: "length (canonical_json rt (report_material i (Some p) [] b None)) \<le> max_report_bytes" for b
    using length_base_material [OF length_integrity_json [OF assms(4,6,7,5)] length_difference_json [OF _ _ p(3)], of rt b] p(4,5) assms(1)
    by (simp add: digest_mapping_def sha256_shape_def max_report_bytes_def)
  let ?full = "take (nat (min maximum 500)) items"
  have n: "length items = length es" using items(2) by (metis length_map)
  obtain chain truncated where fit: "fit_chain rt max_report_bytes i p ?full (length ?full < length es) = (chain, truncated)" by force
  have c: "length (canonical_json rt (report_material i (Some p) chain truncated None)) \<le> max_report_bytes" "prefix chain ?full"
      "truncated \<longleftrightarrow> length ?full < length es \<or> chain \<noteq> ?full"
    using fit_chain_fits [where chain = ?full and truncated = "length ?full < length es", OF base, unfolded fit prod.case] by blast+
  have len: "length chain \<le> length ?full" "chain \<noteq> ?full \<Longrightarrow> length chain < length ?full"
    using prefix_length_le [OF c(2)] prefix_length_less [of chain ?full] c(2) by (auto simp: strict_prefix_def)
  then have t: "truncated \<longleftrightarrow> length chain < length es" using c(3) n by auto
  have "prefix (map ci_cursor chain) (map ci_cursor items)"
    using c(2) by (meson map_mono_prefix prefix_order.trans take_is_prefix)
  moreover have "support_report rt d a (Some v) maximum max_report_bytes =
      Inr \<lparr>sr_integrity = i, sr_projection = Some p, sr_causal_chain = chain,
           sr_report_digest = sha256_hexdigest rt (canonical_json rt (report_material i (Some p) chain truncated None)),
           sr_truncated = truncated, sr_completeness_code = None\<rparr>"
    using assms(2,3,9) items(1) p(1) fit c(1)
    by (simp add: support_report_def causal_chain_def es_def [symmetric] max_report_bytes_def Let_def)
  ultimately show ?thesis using c(1) p(2,3) items(2) len(1) t by (simp add: Let_def)
qed

text \<open>C40. The replay report of a live run is clean, complete and bounded. In every state of every history, for a
  run whose stretch of the tenant's log holds at most 10000 events, all of schema version 1, and for a requested number of at least 1, the report exists; its window verifies up
  to the live view's cursor against anchors taken from the window itself; the projection replayed from the
  window matches the live view in every field; the causal chain lists the run's first events in order, at most
  the requested number and at most 500; it is marked truncated exactly when some event of the run is left
  out; and the document the digest is taken of has at most 32768 bytes.\<close>

theorem replay_report_clean:
  assumes "ledger_reachable rt s" "sha256_shape rt" "get_run s t run_id = Some v" "1 \<le> maximum"
    and "rv_last_cursor v - window_start s t run_id \<le> 10000" "rv_last_cursor v < 10 ^ 1000"
    and "list_all (\<lambda>e. ev_schema_version e = 1)
      (take (rv_last_cursor v - window_start s t run_id) (drop (window_start s t run_id) (tenant_events s t)))"
  shows "\<exists>report p. run_report rt s t run_id maximum = Inr (Some report) \<and>
    ri_valid (sr_integrity report) \<and> ri_last_cursor (sr_integrity report) = rv_last_cursor v \<and>
    sr_projection report = Some p \<and> df_matches p \<and> df_differing_fields p = [] \<and>
    prefix (map ci_cursor (sr_causal_chain report)) (map ev_tenant_cursor (run_events s t run_id)) \<and>
    length (sr_causal_chain report) \<le> nat (min maximum 500) \<and>
    (sr_truncated report \<longleftrightarrow> length (sr_causal_chain report) < length (run_events s t run_id)) \<and>
    (let text = canonical_json rt (report_material (sr_integrity report) (Some p) (sr_causal_chain report) (sr_truncated report) None)
     in sr_report_digest report = sha256_hexdigest rt text \<and> length text \<le> 32768)"
proof -
  have v: "st_runs s (t, run_id) = Some v" using assms(3) by (simp add: get_run_def)
  note h = live_view_head [OF assms(1) v]
  define f where "f = window_start s t run_id"
  define m where "m = rv_last_cursor v - f"
  define W where "W = take m (drop f (tenant_events s t))"
  have first: "ev_tenant_cursor (hd (run_events s t run_id)) \<le> rv_last_cursor v"
    unfolding h(2) using reachable_cursors(3) [OF assms(1), of t run_id] h(1)
    by (cases "run_events s t run_id") (auto intro: less_imp_le)
  then have fm: "f + m = rv_last_cursor v" by (simp add: m_def f_def window_start_def)
  from filter_stretch [OF reachable_consecutive [OF assms(1)], of "is_run_event run_id" t f m] h(1,2) fm
  have w: "filter (is_run_event run_id) W = run_events s t run_id" "f + m \<le> length (tenant_events s t)" "1 \<le> m"
    "ev_tenant_cursor (hd (run_events s t run_id)) = Suc f"
    by (simp_all add: run_events_def f_def window_start_def W_def)
  have m: "m \<le> 10000" using assms(5) by (simp add: m_def f_def)
  from window_verifies [OF assms(1) w(2,3) m] assms(7) [folded f_def, folded m_def] obtain d where
    d: "make_debugger W (int f) (ev_tenant_previous_hash (hd W)) (window_anchors W) = Inr d" "rd_events d = W"
      "verify_replay rt d = Inr \<lparr>ri_valid = True, ri_event_count = m, ri_last_cursor = f + m,
         ri_last_hash = ev_record_hash (last W), ri_failure_code = None\<rparr>"
      "hex64 (ev_record_hash (last W))" unfolding W_def by blast
  have "replay_run rt (filter (is_run_event run_id) (rd_events d)) None = Inr (Some v)"
    using live_view_replay [OF reachable_ledger_inv [OF assms(1)] v] d(2) w(1) by simp
  then obtain report p where c: "support_report rt d run_id (Some v) maximum max_report_bytes = Inr report"
    "sr_integrity report = \<lparr>ri_valid = True, ri_event_count = m, ri_last_cursor = rv_last_cursor v,
       ri_last_hash = ev_record_hash (last W), ri_failure_code = None\<rparr>"
    "sr_projection report = Some p" "df_matches p" "df_differing_fields p = []"
    "prefix (map ci_cursor (sr_causal_chain report)) (map ev_tenant_cursor (run_events s t run_id))"
    "length (sr_causal_chain report) \<le> nat (min maximum 500)"
    "sr_truncated report \<longleftrightarrow> length (sr_causal_chain report) < length (run_events s t run_id)"
    "let text = canonical_json rt (report_material (sr_integrity report) (Some p) (sr_causal_chain report) (sr_truncated report) None)
     in sr_report_digest report = sha256_hexdigest rt text \<and> length text \<le> max_report_bytes"
    using support_report_clean [OF assms(2) d(3) [unfolded fm], where a = run_id and v = v and maximum = maximum,
        unfolded replay_integrity.select_convs d(2) w(1), OF TrueI d(4) refl _ assms(6) _ assms(4)] m d(2) w(1) by auto
  have seed: "run_page s t run_id 0 1 = Inr (take 1 (run_events s t run_id))"
    using run_page_unread [OF assms(1), of t run_id "[]" _ 1] by (simp add: read_position_def)
  have collect: "collect_window s t (rv_last_cursor v) [] (int f) = Inr W"
    using collect_window_stretch [OF assms(1) w(2) m, of 0] fm by (simp add: W_def)
  have stop: "W \<noteq> []" "rv_last_cursor v \<le> ev_tenant_cursor (last W)"
    using w(2,3) consecutive_last [OF stretch_consecutive [OF assms(1), of f m t]] fm by (auto simp: W_def)
  have "hd (take 1 (run_events s t run_id)) = hd (run_events s t run_id)" "take 1 (run_events s t run_id) \<noteq> []"
    using h(1) by (cases "run_events s t run_id"; simp)+
  with assms(3) seed collect stop d(1) w(4) c(1) have "run_report rt s t run_id maximum = Inr (Some report)"
    by (simp add: run_report_def)
  with c(2-9) show ?thesis by (intro exI [of _ report] exI [of _ p]) (simp add: max_report_bytes_def)
qed

theorem replay_report_clean_witness:
  "\<exists>report p. run_report sample_rt sample_state ''acme'' sample_run_id 10 = Inr (Some report) \<and>
     ri_valid (sr_integrity report) \<and> ri_last_cursor (sr_integrity report) = 1 \<and> sr_projection report = Some p \<and> df_matches p"
proof -
  have one: "rv_last_cursor sample_view = 1" by (simp add: sample_view_def accepted_view_def Let_def)
  have "(1 :: nat) < 10 ^ 1000" by (rule one_less_power) simp_all
  then have "rv_last_cursor sample_view < 10 ^ 1000" "get_run sample_state ''acme'' sample_run_id = Some sample_view"
    "rv_last_cursor sample_view - window_start sample_state ''acme'' sample_run_id \<le> 10000" "(1 :: int) \<le> 10"
    using sample_accept(2) by (simp_all only: one get_run_def)
  moreover have "list_all first_schema (take (rv_last_cursor sample_view - window_start sample_state ''acme'' sample_run_id)
      (drop (window_start sample_state ''acme'' sample_run_id) (tenant_events sample_state ''acme'')))"
    using sample_schema by (auto simp: list_all_iff dest!: in_set_takeD in_set_dropD)
  ultimately show ?thesis using replay_report_clean [OF sample_reachable sample_shape, of "''acme''" sample_run_id sample_view 10] unfolding one by blast
qed

end
