(* ===== verification/Model_Data.thy ===== *)
theory Model_Data
  imports Run_Projection
begin

text \<open>
  The contracts of \<^verbatim>\<open>model_gateway.py\<close>: requests with their messages and tools, provider results,
  prices, catalog entries, tenant policies, reservations and call records, with the validators of the
  strict models, the canonical documents their digests are taken of, and the cost arithmetic.
\<close>

section \<open>Enumerations\<close>

datatype model_provider = Provider_FAKE | Provider_OPENAI | Provider_ANTHROPIC

fun provider_value :: "model_provider \<Rightarrow> string" where
  "provider_value Provider_FAKE = ''fake''"
| "provider_value Provider_OPENAI = ''openai''"
| "provider_value Provider_ANTHROPIC = ''anthropic''"

datatype model_role = Role_SYSTEM | Role_USER | Role_ASSISTANT | Role_TOOL

fun role_value :: "model_role \<Rightarrow> string" where
  "role_value Role_SYSTEM = ''system''"
| "role_value Role_USER = ''user''"
| "role_value Role_ASSISTANT = ''assistant''"
| "role_value Role_TOOL = ''tool''"

datatype data_classification = Data_PUBLIC | Data_INTERNAL | Data_CONFIDENTIAL | Data_RESTRICTED

fun classification_value :: "data_classification \<Rightarrow> string" where
  "classification_value Data_PUBLIC = ''public''"
| "classification_value Data_INTERNAL = ''internal''"
| "classification_value Data_CONFIDENTIAL = ''confidential''"
| "classification_value Data_RESTRICTED = ''restricted''"

datatype model_capability = Capability_JSON_SCHEMA | Capability_TOOLS | Capability_VISION

fun capability_value :: "model_capability \<Rightarrow> string" where
  "capability_value Capability_JSON_SCHEMA = ''json_schema''"
| "capability_value Capability_TOOLS = ''tools''"
| "capability_value Capability_VISION = ''vision''"

datatype finish_reason = Finish_STOP | Finish_TOOL_CALL | Finish_LENGTH | Finish_CONTENT_FILTER

section \<open>Requests\<close>

definition max_message_bytes :: nat where "max_message_bytes = 32768"
definition max_context_bytes :: nat where "max_context_bytes = 131072"
definition max_messages :: nat where "max_messages = 64"
definition max_tools :: nat where "max_tools = 16"
definition max_routes :: nat where "max_routes = 8"

datatype message_content = TextContent string | JsonContent dict

record model_message =
  mm_role :: model_role
  mm_content :: "message_content list"
  mm_name :: "string option"
  mm_tool_call_id :: "string option"

record tool_definition =
  td_name :: string
  td_description :: string
  td_input_schema :: dict

record structured_output_definition =
  so_name :: string
  so_json_schema :: dict
  so_strict :: bool

record model_call_binding =
  mb_tenant_id :: string
  mb_run_id :: string
  mb_call_id :: string
  mb_purpose :: string
  mb_data_classification :: data_classification
  mb_risk :: risk_level

record model_request =
  mr_binding :: model_call_binding
  mr_messages :: "model_message list"
  mr_max_output_tokens :: nat
  mr_temperature_milli :: nat
  mr_tools :: "tool_definition list"
  mr_allowed_tool_names :: "string list"
  mr_structured_output :: "structured_output_definition option"

text \<open>\<^verbatim>\<open>model_dump(mode="json")\<close>.\<close>

definition maybe_str :: "string option \<Rightarrow> json" where
  "maybe_str o1 = (case o1 of None \<Rightarrow> JNull | Some s \<Rightarrow> JStr s)"

fun content_json :: "message_content \<Rightarrow> json" where
  "content_json (TextContent s) = JObj [(''type'', JStr ''text''), (''text'', JStr s)]"
| "content_json (JsonContent d) = JObj [(''type'', JStr ''json''), (''value'', JObj d)]"

definition message_json :: "model_message \<Rightarrow> json" where
  "message_json m = JObj
     [(''role'', JStr (role_value (mm_role m))), (''content'', JList (map content_json (mm_content m))),
      (''name'', maybe_str (mm_name m)), (''tool_call_id'', maybe_str (mm_tool_call_id m))]"

definition tool_json :: "tool_definition \<Rightarrow> json" where
  "tool_json t = JObj
     [(''name'', JStr (td_name t)), (''description'', JStr (td_description t)), (''input_schema'', JObj (td_input_schema t))]"

definition structured_json :: "structured_output_definition \<Rightarrow> json" where
  "structured_json s = JObj
     [(''name'', JStr (so_name s)), (''json_schema'', JObj (so_json_schema s)), (''strict'', JBool (so_strict s))]"

definition opt_structured_json :: "structured_output_definition option \<Rightarrow> json" where
  "opt_structured_json o1 = (case o1 of None \<Rightarrow> JNull | Some s \<Rightarrow> structured_json s)"

definition binding_json :: "model_call_binding \<Rightarrow> json" where
  "binding_json b = JObj
     [(''tenant_id'', JStr (mb_tenant_id b)), (''run_id'', JStr (mb_run_id b)), (''call_id'', JStr (mb_call_id b)),
      (''purpose'', JStr (mb_purpose b)), (''data_classification'', JStr (classification_value (mb_data_classification b))),
      (''risk'', JStr (risk_value (mb_risk b)))]"

definition model_request_json :: "model_request \<Rightarrow> json" where
  "model_request_json r = JObj
     [(''binding'', binding_json (mr_binding r)), (''messages'', JList (map message_json (mr_messages r))),
      (''max_output_tokens'', JInt (int (mr_max_output_tokens r))), (''temperature_milli'', JInt (int (mr_temperature_milli r))),
      (''tools'', JList (map tool_json (mr_tools r))), (''allowed_tool_names'', JList (map JStr (mr_allowed_tool_names r))),
      (''structured_output'', opt_structured_json (mr_structured_output r))]"

definition request_digest :: "runtime \<Rightarrow> model_request \<Rightarrow> string" where
  "request_digest rt r = sha256_hexdigest rt (canonical_json rt (model_request_json r))"

text \<open>The validators. A text is bounded in characters, a message and the whole context in bytes.\<close>

fun valid_content :: "message_content \<Rightarrow> bool" where
  "valid_content (TextContent s) \<longleftrightarrow> 1 \<le> length s \<and> length s \<le> max_message_bytes"
| "valid_content (JsonContent d) \<longleftrightarrow> length d \<le> 64"

definition valid_message :: "runtime \<Rightarrow> model_message \<Rightarrow> bool" where
  "valid_message rt m \<longleftrightarrow>
     1 \<le> length (mm_content m) \<and> length (mm_content m) \<le> 16 \<and> list_all valid_content (mm_content m) \<and>
     valid_opt_identifier (mm_name m) \<and> valid_opt_identifier (mm_tool_call_id m) \<and>
     length (canonical_json rt (JList (map content_json (mm_content m)))) \<le> max_message_bytes"

definition make_message :: "runtime \<Rightarrow> model_message \<Rightarrow> model_message result" where
  "make_message rt m = (if valid_message rt m then Inr m else Inl (ValidationError ''ModelMessage''))"

definition make_tool :: "runtime \<Rightarrow> tool_definition \<Rightarrow> tool_definition result" where
  "make_tool rt t =
     (if valid_identifier (td_name t) \<and> 1 \<le> length (td_description t) \<and> length (td_description t) \<le> 512 \<and>
         length (td_input_schema t) \<le> 64 \<and> map_of (td_input_schema t) ''type'' = Some (JStr ''object'') \<and>
         length (canonical_json rt (JObj (td_input_schema t))) \<le> 16384
      then Inr (t\<lparr>td_input_schema := dict_sorted (td_input_schema t)\<rparr>)
      else Inl (ValidationError ''ToolDefinition''))"

definition make_structured :: "runtime \<Rightarrow> structured_output_definition \<Rightarrow> structured_output_definition result" where
  "make_structured rt s =
     (if valid_identifier (so_name s) \<and> length (so_json_schema s) \<le> 128 \<and>
         map_of (so_json_schema s) ''type'' = Some (JStr ''object'') \<and>
         length (canonical_json rt (JObj (so_json_schema s))) \<le> 32768
      then Inr (s\<lparr>so_json_schema := dict_sorted (so_json_schema s)\<rparr>)
      else Inl (ValidationError ''StructuredOutputDefinition''))"

definition valid_binding :: "model_call_binding \<Rightarrow> bool" where
  "valid_binding b \<longleftrightarrow> valid_identifier (mb_tenant_id b) \<and> valid_identifier (mb_run_id b) \<and>
     valid_identifier (mb_call_id b) \<and> valid_identifier (mb_purpose b)"

text \<open>\<open>ModelRequest(...)\<close> over parts that were validated already.\<close>

definition make_model_request :: "runtime \<Rightarrow> model_request \<Rightarrow> model_request result" where
  "make_model_request rt r =
     (if valid_binding (mr_binding r) \<and> 1 \<le> length (mr_messages r) \<and> length (mr_messages r) \<le> max_messages \<and>
         1 \<le> mr_max_output_tokens r \<and> mr_max_output_tokens r \<le> 32768 \<and> mr_temperature_milli r \<le> 2000 \<and>
         length (mr_tools r) \<le> max_tools \<and> distinct (map td_name (mr_tools r)) \<and>
         length (mr_allowed_tool_names r) \<le> max_tools \<and> list_all valid_identifier (mr_allowed_tool_names r) \<and>
         length (canonical_json rt (JList (map message_json (mr_messages r)))) \<le> max_context_bytes
      then Inr (r\<lparr>mr_allowed_tool_names := normalize_authority (mr_allowed_tool_names r)\<rparr>)
      else Inl (ValidationError ''ModelRequest''))"

section \<open>Results and prices\<close>

record model_usage =
  mu_input_tokens :: nat
  mu_output_tokens :: nat
  mu_cache_read_tokens :: nat
  mu_cache_write_tokens :: nat
  mu_provider_reported :: bool

definition total_tokens :: "model_usage \<Rightarrow> nat" where
  "total_tokens u = mu_input_tokens u + mu_output_tokens u + mu_cache_read_tokens u + mu_cache_write_tokens u"

definition valid_usage :: "model_usage \<Rightarrow> bool" where
  "valid_usage u \<longleftrightarrow> mu_input_tokens u \<le> 10000000 \<and> mu_output_tokens u \<le> 10000000 \<and>
     mu_cache_read_tokens u \<le> 10000000 \<and> mu_cache_write_tokens u \<le> 10000000"

record safety_assessment =
  sa_blocked :: bool
  sa_categories :: "string list"
  sa_provider_reported :: bool

definition make_safety :: "safety_assessment \<Rightarrow> safety_assessment result" where
  "make_safety a =
     (if list_all valid_identifier (sa_categories a) then Inr (a\<lparr>sa_categories := normalize_authority (sa_categories a)\<rparr>)
      else Inl (ValidationError ''SafetyAssessment''))"

record provider_result =
  pr_structured_output :: dict
  pr_usage :: model_usage
  pr_finish_reason :: finish_reason
  pr_safety :: safety_assessment
  pr_provider_request_ref :: "string option"

record model_price =
  mp_version :: string
  mp_input :: nat
  mp_output :: nat
  mp_cache_read :: nat
  mp_cache_write :: nat

definition valid_price :: "model_price \<Rightarrow> bool" where
  "valid_price p \<longleftrightarrow> valid_identifier (mp_version p) \<and> mp_input p \<le> 10 ^ 12 \<and> mp_output p \<le> 10 ^ 12 \<and>
     mp_cache_read p \<le> 10 ^ 12 \<and> mp_cache_write p \<le> 10 ^ 12"

text \<open>\<^verbatim>\<open>Decimal(product) / 1000000\<close> rounded up. The quotient is exact while the product has at most the 28
  digits of the default decimal context, which the bounds of the models give (\<open>cost_product_exact\<close> below).\<close>

definition round_cost :: "nat \<Rightarrow> nat" where
  "round_cost product = (product + 999999) div 1000000"

definition maximum_cost :: "model_price \<Rightarrow> nat \<Rightarrow> nat \<Rightarrow> nat" where
  "maximum_cost p input_tokens output_tokens =
     round_cost (input_tokens * mp_input p + output_tokens * mp_output p +
       input_tokens * mp_cache_read p + input_tokens * mp_cache_write p)"

definition actual_cost :: "model_price \<Rightarrow> model_usage \<Rightarrow> nat" where
  "actual_cost p u =
     round_cost (mu_input_tokens u * mp_input p + mu_output_tokens u * mp_output p +
       mu_cache_read_tokens u * mp_cache_read p + mu_cache_write_tokens u * mp_cache_write p)"

section \<open>Catalog and policy\<close>

record credential_reference =
  cr_reference :: string
  cr_version :: nat

record catalog_entry =
  ce_tenant_id :: string
  ce_provider :: model_provider
  ce_model :: string
  ce_region :: string
  ce_capabilities :: "model_capability set"
  ce_context_tokens :: nat
  ce_maximum_output_tokens :: nat
  ce_tokenizer :: "string option"
  ce_tokenizer_limitations :: string
  ce_usage_limitations :: string
  ce_price :: model_price
  ce_credential :: credential_reference
  ce_enabled :: bool

definition catalog_key_of :: "model_provider \<Rightarrow> string \<Rightarrow> string \<Rightarrow> string" where
  "catalog_key_of p m r = provider_value p @ '':'' @ m @ '':'' @ r"

definition entry_key :: "catalog_entry \<Rightarrow> string" where
  "entry_key e = catalog_key_of (ce_provider e) (ce_model e) (ce_region e)"

definition make_catalog_entry :: "catalog_entry \<Rightarrow> catalog_entry result" where
  "make_catalog_entry e =
     (if valid_identifier (ce_tenant_id e) \<and> valid_identifier (ce_model e) \<and> valid_identifier (ce_region e) \<and>
         CHR '':'' \<notin> set (ce_model e) \<and> CHR '':'' \<notin> set (ce_region e) \<and>
         1 \<le> ce_context_tokens e \<and> ce_context_tokens e \<le> 10000000 \<and>
         1 \<le> ce_maximum_output_tokens e \<and> ce_maximum_output_tokens e \<le> 1000000 \<and>
         valid_opt_identifier (ce_tokenizer e) \<and>
         1 \<le> length (ce_tokenizer_limitations e) \<and> length (ce_tokenizer_limitations e) \<le> 512 \<and>
         1 \<le> length (ce_usage_limitations e) \<and> length (ce_usage_limitations e) \<le> 512 \<and>
         valid_price (ce_price e) \<and> valid_identifier (cr_reference (ce_credential e)) \<and> 1 \<le> cr_version (ce_credential e)
      then Inr e else Inl (ValidationError ''ModelCatalogEntry''))"

record model_route =
  mo_provider :: model_provider
  mo_model :: string
  mo_region :: string
  mo_priority :: nat

definition route_key :: "model_route \<Rightarrow> string" where
  "route_key r = catalog_key_of (mo_provider r) (mo_model r) (mo_region r)"

record model_policy =
  mq_tenant_id :: string
  mq_policy_id :: string
  mq_revision :: nat
  mq_allowed_providers :: "model_provider set"
  mq_allowed_models :: "string set"
  mq_allowed_regions :: "string set"
  mq_allowed_data_classifications :: "data_classification set"
  mq_allowed_purposes :: "string set"
  mq_required_capabilities :: "model_capability set"
  mq_risk_ceiling :: risk_level
  mq_routes :: "model_route list"
  mq_maximum_input_tokens :: nat
  mq_maximum_output_tokens :: nat
  mq_maximum_cost_microunits :: nat
  mq_maximum_calls_per_run :: nat
  mq_repair_attempts :: nat
  mq_fallback_on_ambiguous_billing :: bool

definition route_json :: "model_route \<Rightarrow> json" where
  "route_json r = JObj
     [(''provider'', JStr (provider_value (mo_provider r))), (''model'', JStr (mo_model r)), (''region'', JStr (mo_region r)),
      (''priority'', JInt (int (mo_priority r)))]"

definition sorted_texts :: "string set \<Rightarrow> json" where
  "sorted_texts xs = JList (map JStr (sorted_list_of_set xs))"

definition policy_json :: "model_policy \<Rightarrow> json" where
  "policy_json p = JObj
     [(''tenant_id'', JStr (mq_tenant_id p)), (''policy_id'', JStr (mq_policy_id p)), (''revision'', JInt (int (mq_revision p))),
      (''allowed_providers'', sorted_texts (provider_value ` mq_allowed_providers p)),
      (''allowed_models'', sorted_texts (mq_allowed_models p)), (''allowed_regions'', sorted_texts (mq_allowed_regions p)),
      (''allowed_data_classifications'', sorted_texts (classification_value ` mq_allowed_data_classifications p)),
      (''allowed_purposes'', sorted_texts (mq_allowed_purposes p)),
      (''required_capabilities'', sorted_texts (capability_value ` mq_required_capabilities p)),
      (''risk_ceiling'', JStr (risk_value (mq_risk_ceiling p))), (''routes'', JList (map route_json (mq_routes p))),
      (''maximum_input_tokens'', JInt (int (mq_maximum_input_tokens p))),
      (''maximum_output_tokens'', JInt (int (mq_maximum_output_tokens p))),
      (''maximum_cost_microunits'', JInt (int (mq_maximum_cost_microunits p))),
      (''maximum_calls_per_run'', JInt (int (mq_maximum_calls_per_run p))),
      (''repair_attempts'', JInt (int (mq_repair_attempts p))),
      (''fallback_on_ambiguous_billing'', JBool (mq_fallback_on_ambiguous_billing p))]"

definition model_policy_digest :: "runtime \<Rightarrow> model_policy \<Rightarrow> string" where
  "model_policy_digest rt p = sha256_hexdigest rt (canonical_json rt (policy_json p))"

definition normalize_routes :: "model_route list \<Rightarrow> model_route list result" where
  "normalize_routes rs =
     (if distinct (map mo_priority rs)
      then Inr (sort_key (\<lambda>r. (mo_priority r, provider_value (mo_provider r), mo_model r, mo_region r)) rs)
      else Inl (ValidationError ''model route priorities must be unique''))"

definition valid_route :: "model_route \<Rightarrow> bool" where
  "valid_route r \<longleftrightarrow> valid_identifier (mo_model r) \<and> valid_identifier (mo_region r) \<and>
     1 \<le> mo_priority r \<and> mo_priority r \<le> max_routes"

definition make_policy :: "model_policy \<Rightarrow> model_policy result" where
  "make_policy p =
     (if valid_identifier (mq_tenant_id p) \<and> valid_identifier (mq_policy_id p) \<and> 1 \<le> mq_revision p \<and>
         Ball (mq_allowed_models p) valid_identifier \<and> Ball (mq_allowed_regions p) valid_identifier \<and>
         Ball (mq_allowed_purposes p) valid_identifier \<and>
         1 \<le> length (mq_routes p) \<and> length (mq_routes p) \<le> max_routes \<and> list_all valid_route (mq_routes p) \<and>
         1 \<le> mq_maximum_input_tokens p \<and> mq_maximum_input_tokens p \<le> 10000000 \<and>
         1 \<le> mq_maximum_output_tokens p \<and> mq_maximum_output_tokens p \<le> 1000000 \<and>
         1 \<le> mq_maximum_cost_microunits p \<and> mq_maximum_cost_microunits p \<le> 10 ^ 12 \<and>
         1 \<le> mq_maximum_calls_per_run p \<and> mq_maximum_calls_per_run p \<le> 1000 \<and> mq_repair_attempts p \<le> 2
      then bindE (normalize_routes (mq_routes p)) (\<lambda>rs. Inr (p\<lparr>mq_routes := rs\<rparr>))
      else Inl (ValidationError ''TenantModelPolicy''))"

section \<open>Reservations and call records\<close>

record model_reservation =
  rs_tenant_id :: string
  rs_run_id :: string
  rs_reservation_id :: string
  rs_requested_input_tokens :: nat
  rs_requested_output_tokens :: nat
  rs_reserved_cost :: nat
  rs_policy_id :: string
  rs_policy_revision :: nat
  rs_policy_digest :: string
  rs_created_at :: datetime

definition make_reservation :: "model_reservation \<Rightarrow> model_reservation result" where
  "make_reservation r =
     (if valid_identifier (rs_tenant_id r) \<and> valid_identifier (rs_run_id r) \<and> valid_identifier (rs_reservation_id r) \<and>
         1 \<le> rs_requested_output_tokens r \<and> valid_identifier (rs_policy_id r) \<and> 1 \<le> rs_policy_revision r \<and>
         hex64 (rs_policy_digest r)
      then Inr r else Inl (ValidationError ''ModelReservation''))"

record call_record =
  mcr_tenant_id :: string
  mcr_run_id :: string
  mcr_call_id :: string
  mcr_attempt_id :: string
  mcr_request_digest :: string
  mcr_catalog_key :: string
  mcr_price_version :: string
  mcr_policy_revision :: nat
  mcr_requested_at :: datetime
  mcr_completed_at :: "datetime option"
  mcr_outcome :: string
  mcr_billing :: billing_disposition
  mcr_usage :: "model_usage option"
  mcr_cost :: "nat option"
  mcr_error_code :: "model_error_code option"

definition make_call_record :: "call_record \<Rightarrow> call_record result" where
  "make_call_record r =
     (if valid_identifier (mcr_tenant_id r) \<and> valid_identifier (mcr_run_id r) \<and> valid_identifier (mcr_call_id r) \<and>
         valid_identifier (mcr_attempt_id r) \<and> hex64 (mcr_request_digest r) \<and> valid_identifier (mcr_catalog_key r) \<and>
         valid_identifier (mcr_price_version r) \<and> 1 \<le> mcr_policy_revision r \<and> valid_identifier (mcr_outcome r)
      then Inr r else Inl (ValidationError ''ModelCallRecord''))"

record usage_view =
  uv_run_id :: string
  uv_reserved_cost :: nat
  uv_reconciled_cost :: nat
  uv_ambiguous_cost :: nat
  uv_input_tokens :: nat
  uv_output_tokens :: nat
  uv_call_count :: nat

record health_view =
  hv_provider :: model_provider
  hv_model :: string
  hv_region :: string
  hv_status :: string
  hv_observed_calls :: nat
  hv_failure_count :: nat

section \<open>The token estimate\<close>

definition estimate_document :: "model_request \<Rightarrow> json" where
  "estimate_document r = JObj
     [(''messages'', JList (map message_json (mr_messages r))), (''tools'', JList (map tool_json (mr_tools r))),
      (''structured_output'', opt_structured_json (mr_structured_output r))]"

definition conservative_tokens :: "runtime \<Rightarrow> model_request \<Rightarrow> nat" where
  "conservative_tokens rt r = max 1 ((length (canonical_json rt (estimate_document r)) + 2) div 3)"

section \<open>Cost arithmetic\<close>

lemma round_cost_mono: "a \<le> b \<Longrightarrow> round_cost a \<le> round_cost b"
  by (simp add: round_cost_def div_le_mono)

lemma round_cost_ceiling: "product \<le> 1000000 * round_cost product" "1000000 * round_cost product < product + 1000000"
  by (simp_all add: round_cost_def)

text \<open>The usage a request allows never costs more than the maximum computed before the call.\<close>

lemma actual_within_maximum:
  assumes "mu_output_tokens u \<le> output_tokens"
    and "mu_input_tokens u + mu_cache_read_tokens u + mu_cache_write_tokens u \<le> input_tokens"
  shows "actual_cost p u \<le> maximum_cost p input_tokens output_tokens"
  unfolding actual_cost_def maximum_cost_def
  using assms by (intro round_cost_mono add_mono mult_le_mono1) simp_all

lemma cost_product_exact:
  assumes "valid_usage u" "valid_price p"
  shows "mu_input_tokens u * mp_input p + mu_output_tokens u * mp_output p +
       mu_cache_read_tokens u * mp_cache_read p + mu_cache_write_tokens u * mp_cache_write p < 10 ^ 28"
proof -
  have "a * b \<le> 10000000 * 10 ^ 12" if "a \<le> 10000000" "b \<le> 10 ^ 12" for a b :: nat
    using that by (rule mult_le_mono)
  note this [of "mu_input_tokens u" "mp_input p"] this [of "mu_output_tokens u" "mp_output p"]
    this [of "mu_cache_read_tokens u" "mp_cache_read p"] this [of "mu_cache_write_tokens u" "mp_cache_write p"]
  with assms show ?thesis by (simp add: valid_usage_def valid_price_def)
qed

end
