(* ===== verification/Model_Store.thy ===== *)
theory Model_Store
  imports Model_Data
begin

text \<open>
  \<open>InMemoryModelControlStore\<close> of \<^verbatim>\<open>model_gateway.py\<close>: policies, catalog, cost limits, reservations, attempt
  records and finalized calls. The dictionaries whose values are summed are association lists; the
  others are maps. Each method is one atomic operation.
\<close>

section \<open>State\<close>

record model_store =
  ms_policies :: "string \<rightharpoonup> model_policy"
  ms_catalog :: "string \<times> string \<rightharpoonup> catalog_entry"
  ms_limits :: "string \<rightharpoonup> int"
  ms_reservations :: "((string \<times> string) \<times> model_reservation) list"
  ms_records :: "((string \<times> string) \<times> call_record) list"
  ms_finalized :: "string \<times> string \<rightharpoonup> bool"

definition make_model_store ::
  "model_policy list \<Rightarrow> catalog_entry list \<Rightarrow> (string \<rightharpoonup> int) \<Rightarrow> model_store" where
  "make_model_store policies catalog limits =
     \<lparr>ms_policies = map_of (rev (map (\<lambda>p. (mq_tenant_id p, p)) policies)),
      ms_catalog = map_of (rev (map (\<lambda>e. ((ce_tenant_id e, entry_key e), e)) catalog)),
      ms_limits = limits, ms_reservations = [], ms_records = [], ms_finalized = Map.empty\<rparr>"

definition current_model_policy :: "model_store \<Rightarrow> string \<Rightarrow> model_policy option" where
  "current_model_policy s t = ms_policies s t"

definition replace_model_policy :: "model_policy \<Rightarrow> model_store \<Rightarrow> model_store" where
  "replace_model_policy p s = s\<lparr>ms_policies := (ms_policies s)(mq_tenant_id p \<mapsto> p)\<rparr>"

definition find_catalog_entry :: "model_store \<Rightarrow> string \<Rightarrow> string \<Rightarrow> catalog_entry option" where
  "find_catalog_entry s t key = ms_catalog s (t, key)"

section \<open>Consumption\<close>

definition call_records :: "model_store \<Rightarrow> string \<Rightarrow> string \<Rightarrow> call_record list" where
  "call_records s t call_id =
     filter (\<lambda>r. mcr_tenant_id r = t \<and> mcr_call_id r = call_id) (map snd (ms_records s))"

definition billed_cost :: "call_record list \<Rightarrow> nat" where
  "billed_cost rs = sum_list (map (\<lambda>r. case mcr_cost r of None \<Rightarrow> 0 | Some c \<Rightarrow> c)
     (filter (\<lambda>r. mcr_billing r = Billing_BILLED) rs))"

definition consumed_cost :: "model_store \<Rightarrow> model_reservation \<Rightarrow> nat" where
  "consumed_cost s r =
     (case ms_finalized s (rs_tenant_id r, rs_reservation_id r) of
        None \<Rightarrow> rs_reserved_cost r
      | Some ambiguous \<Rightarrow>
          if ambiguous then rs_reserved_cost r
          else billed_cost (call_records s (rs_tenant_id r) (rs_reservation_id r)))"

definition tenant_reservations :: "model_store \<Rightarrow> string \<Rightarrow> model_reservation list" where
  "tenant_reservations s t = filter (\<lambda>r. rs_tenant_id r = t) (map snd (ms_reservations s))"

definition tenant_consumed :: "model_store \<Rightarrow> string \<Rightarrow> nat" where
  "tenant_consumed s t = sum_list (map (consumed_cost s) (tenant_reservations s t))"

section \<open>Operations\<close>

definition reserve_model ::
  "runtime \<Rightarrow> model_request \<Rightarrow> model_policy \<Rightarrow> nat \<Rightarrow> nat \<Rightarrow> datetime \<Rightarrow> (model_store, model_reservation) op" where
  "reserve_model rt request policy input_tokens cost now s =
     (let t = mb_tenant_id (mr_binding request); run = mb_run_id (mr_binding request);
          key = (t, mb_call_id (mr_binding request)) in
      case map_of (ms_reservations s) key of
        Some existing \<Rightarrow>
          if rs_requested_input_tokens existing \<noteq> input_tokens \<or>
             rs_requested_output_tokens existing \<noteq> mr_max_output_tokens request \<or>
             rs_policy_id existing \<noteq> mq_policy_id policy \<or> rs_policy_revision existing \<noteq> mq_revision policy \<or>
             rs_policy_digest existing \<noteq> model_policy_digest rt policy
          then (Inl (PolicyDenied ''model reservation parameters changed''), s)
          else (Inr existing, s)
      | None \<Rightarrow>
          if mq_maximum_cost_microunits policy < cost
          then (Inl (PolicyDenied ''model call exceeds policy cost ceiling''), s)
          else if (case ms_limits s t of None \<Rightarrow> 0 | Some limit \<Rightarrow> limit) < int (tenant_consumed s t + cost)
          then (Inl (PolicyDenied ''tenant model budget exhausted''), s)
          else if mq_maximum_calls_per_run policy \<le> length (filter (\<lambda>r. rs_run_id r = run) (tenant_reservations s t))
          then (Inl (PolicyDenied ''model run call limit exhausted''), s)
          else (case make_reservation \<lparr>rs_tenant_id = t, rs_run_id = run, rs_reservation_id = mb_call_id (mr_binding request),
                       rs_requested_input_tokens = input_tokens, rs_requested_output_tokens = mr_max_output_tokens request,
                       rs_reserved_cost = cost, rs_policy_id = mq_policy_id policy, rs_policy_revision = mq_revision policy,
                       rs_policy_digest = model_policy_digest rt policy, rs_created_at = now\<rparr> of
                  Inl e \<Rightarrow> (Inl e, s)
                | Inr reservation \<Rightarrow>
                    (Inr reservation, s\<lparr>ms_reservations := AList.update key reservation (ms_reservations s)\<rparr>)))"

definition append_requested ::
  "runtime \<Rightarrow> model_reservation \<Rightarrow> model_request \<Rightarrow> catalog_entry \<Rightarrow> string \<Rightarrow> datetime \<Rightarrow> (model_store, call_record) op" where
  "append_requested rt reservation request entry attempt_id now s =
     (let t = mb_tenant_id (mr_binding request); key = (t, attempt_id) in
      case map_of (ms_records s) key of
        Some existing \<Rightarrow>
          if mcr_request_digest existing \<noteq> request_digest rt request
          then (Inl (PolicyDenied ''model attempt id was reused with different input''), s)
          else (Inl (PolicyDenied ''model attempt already has durable intent; reconcile before retry''), s)
      | None \<Rightarrow>
          (case make_call_record \<lparr>mcr_tenant_id = t, mcr_run_id = mb_run_id (mr_binding request),
                  mcr_call_id = mb_call_id (mr_binding request), mcr_attempt_id = attempt_id,
                  mcr_request_digest = request_digest rt request, mcr_catalog_key = entry_key entry,
                  mcr_price_version = mp_version (ce_price entry), mcr_policy_revision = rs_policy_revision reservation,
                  mcr_requested_at = now, mcr_completed_at = None, mcr_outcome = ''requested'',
                  mcr_billing = Billing_AMBIGUOUS, mcr_usage = None, mcr_cost = None, mcr_error_code = None\<rparr> of
             Inl e \<Rightarrow> (Inl e, s)
           | Inr r \<Rightarrow> (Inr r, s\<lparr>ms_records := AList.update key r (ms_records s)\<rparr>)))"

record settlement =
  sm_outcome :: string
  sm_billing :: billing_disposition
  sm_usage :: "model_usage option"
  sm_cost :: "nat option"
  sm_error_code :: "model_error_code option"

definition settle :: "settlement \<Rightarrow> datetime \<Rightarrow> call_record \<Rightarrow> call_record" where
  "settle m now r = r\<lparr>mcr_completed_at := Some now, mcr_outcome := sm_outcome m, mcr_billing := sm_billing m,
     mcr_usage := sm_usage m, mcr_cost := sm_cost m, mcr_error_code := sm_error_code m\<rparr>"

definition any_ambiguous :: "call_record list \<Rightarrow> bool" where
  "any_ambiguous rs = list_ex (\<lambda>r. mcr_billing r = Billing_AMBIGUOUS) rs"

definition reconcile_attempt ::
  "string \<Rightarrow> string \<Rightarrow> settlement \<Rightarrow> datetime \<Rightarrow> (model_store, call_record) op" where
  "reconcile_attempt t attempt_id m now s =
     (if sm_billing m = Billing_BILLED \<and> (sm_usage m = None \<or> sm_cost m = None)
      then (Inl (IntegrityFailure ''billed model outcome requires usage and cost''), s)
      else case map_of (ms_records s) (t, attempt_id) of
        None \<Rightarrow> (Inl (PolicyDenied ''model attempt intent is unavailable''), s)
      | Some current \<Rightarrow>
          if mcr_completed_at current \<noteq> None then
            if mcr_billing current = Billing_AMBIGUOUS \<and> sm_billing m \<noteq> Billing_AMBIGUOUS then
              let corrected = settle m now current;
                  s1 = s\<lparr>ms_records := AList.update (t, attempt_id) corrected (ms_records s)\<rparr>;
                  call_key = (t, mcr_call_id current)
              in (Inr corrected,
                  if ms_finalized s1 call_key = None then s1
                  else s1\<lparr>ms_finalized := (ms_finalized s1)(call_key \<mapsto> any_ambiguous (call_records s1 t (mcr_call_id current)))\<rparr>)
            else (Inr current, s)
          else let updated = settle m now current
               in (Inr updated, s\<lparr>ms_records := AList.update (t, attempt_id) updated (ms_records s)\<rparr>))"

definition finalize_call :: "model_reservation \<Rightarrow> model_store \<Rightarrow> model_store" where
  "finalize_call reservation s =
     (let key = (rs_tenant_id reservation, rs_reservation_id reservation) in
      if ms_finalized s key \<noteq> None then s
      else s\<lparr>ms_finalized := (ms_finalized s)(key \<mapsto>
             any_ambiguous (call_records s (rs_tenant_id reservation) (rs_reservation_id reservation)))\<rparr>)"

section \<open>Views\<close>

definition run_records :: "model_store \<Rightarrow> string \<Rightarrow> string \<Rightarrow> call_record list" where
  "run_records s t run_id = filter (\<lambda>r. mcr_tenant_id r = t \<and> mcr_run_id r = run_id) (map snd (ms_records s))"

definition model_usage_of :: "model_store \<Rightarrow> string \<Rightarrow> string \<Rightarrow> usage_view result" where
  "model_usage_of s t run_id =
     (let reservations = filter (\<lambda>r. rs_run_id r = run_id) (tenant_reservations s t); records = run_records s t run_id in
      if valid_identifier run_id then
        Inr \<lparr>uv_run_id = run_id, uv_reserved_cost = sum_list (map rs_reserved_cost reservations),
             uv_reconciled_cost = billed_cost records,
             uv_ambiguous_cost = sum_list (map rs_reserved_cost (filter (\<lambda>v.
               list_ex (\<lambda>r. mcr_call_id r = rs_reservation_id v \<and> (mcr_billing r = Billing_AMBIGUOUS \<or> mcr_completed_at r = None)) records)
               reservations)),
             uv_input_tokens = sum_list (map (\<lambda>r. case mcr_usage r of None \<Rightarrow> 0 | Some u \<Rightarrow> mu_input_tokens u) records),
             uv_output_tokens = sum_list (map (\<lambda>r. case mcr_usage r of None \<Rightarrow> 0 | Some u \<Rightarrow> mu_output_tokens u) records),
             uv_call_count = length records\<rparr>
      else Inl (ValidationError ''ModelUsageView''))"

definition route_health :: "model_store \<Rightarrow> string \<Rightarrow> model_route \<Rightarrow> health_view" where
  "route_health s t route =
     (let records = filter (\<lambda>r. mcr_tenant_id r = t \<and> mcr_catalog_key r = route_key route) (map snd (ms_records s));
          failures = length (filter (\<lambda>r. mcr_error_code r \<noteq> None) records) in
      \<lparr>hv_provider = mo_provider route, hv_model = mo_model route, hv_region = mo_region route,
       hv_status = (if records = [] then ''unknown'' else if failures \<noteq> 0 then ''degraded'' else ''healthy''),
       hv_observed_calls = length records, hv_failure_count = failures\<rparr>)"

definition model_health :: "model_store \<Rightarrow> string \<Rightarrow> health_view list" where
  "model_health s t = (case ms_policies s t of None \<Rightarrow> [] | Some p \<Rightarrow> map (route_health s t) (mq_routes p))"

definition model_catalog :: "model_store \<Rightarrow> string \<Rightarrow> catalog_entry list" where
  "model_catalog s t =
     (case ms_policies s t of None \<Rightarrow> [] | Some p \<Rightarrow> List.map_filter (\<lambda>r. ms_catalog s (t, route_key r)) (mq_routes p))"

section \<open>Steps of the store\<close>

text \<open>Any sequence of calls by any number of gateways: each method takes the lock for its whole body.\<close>

inductive store_step :: "runtime \<Rightarrow> model_store \<Rightarrow> model_store \<Rightarrow> bool" for rt where
  step_replace: "store_step rt s (replace_model_policy p s)"
| step_reserve: "reserve_model rt request policy n cost now s = (r, s') \<Longrightarrow> store_step rt s s'"
| step_append: "append_requested rt reservation request entry a now s = (r, s') \<Longrightarrow> store_step rt s s'"
| step_reconcile: "reconcile_attempt t a m now s = (r, s') \<Longrightarrow> store_step rt s s'"
| step_finalize: "store_step rt s (finalize_call reservation s)"

end
