(* ===== verification/Model_Gateway.thy ===== *)
theory Model_Gateway
  imports Model_Store
begin

text \<open>
  \<open>ModelGateway\<close> of \<^verbatim>\<open>model_gateway.py\<close>: one structured call is admitted, checked against the tenant's
  policy, routed over the eligible catalog entries whose circuit is closed, reserved, attempted with
  repairs and fallbacks, and accounted for.

  The clock, the cancellation callback, the provider adapters and the validation of the structured
  output are parameters. Each reading of the clock or of the callback and each provider call happens at
  the next tick of the gateway, so that successive readings may differ; \<open>ge_replaced\<close> holds the policies
  other threads install while the provider call at a tick is running. The state keeps a history of the
  provider calls with the store as it was when each call was made, for the statements only.
\<close>

section \<open>Environment and state\<close>

datatype adapter_outcome =
    Returned provider_result
  | Raised model_error_code bool billing_disposition
  | RaisedOther

type_synonym model_adapter = "nat \<Rightarrow> catalog_entry \<Rightarrow> model_request \<Rightarrow> credential_reference \<Rightarrow> adapter_outcome"

record 'o gateway_env =
  ge_runtime :: runtime
  ge_adapters :: "model_provider \<rightharpoonup> model_adapter"
  ge_clock :: "nat \<Rightarrow> datetime"
  ge_cancelled :: "nat \<Rightarrow> bool"
  ge_replaced :: "nat \<Rightarrow> model_policy list"
  ge_validate :: "dict \<Rightarrow> 'o option"
  ge_rate_limit :: nat
  ge_circuit_threshold :: nat
  ge_circuit_duration :: datetime

record provider_call =
  pl_attempt_id :: string
  pl_entry :: catalog_entry
  pl_request :: model_request
  pl_store :: model_store

record gateway_state =
  gw_store :: model_store
  gw_available :: nat
  gw_rate_windows :: "string \<Rightarrow> datetime list"
  gw_circuit_failures :: "string \<Rightarrow> nat"
  gw_circuit_opened :: "string \<rightharpoonup> datetime"
  gw_tick :: nat
  gw_calls :: "provider_call list"

definition make_gateway :: "model_store \<Rightarrow> nat \<Rightarrow> nat \<Rightarrow> gateway_state result" where
  "make_gateway store maximum_concurrency rate_limit =
     (if maximum_concurrency < 1 \<or> 1000 < maximum_concurrency then Inl (ValueError ''model concurrency bound is invalid'')
      else if rate_limit < 1 \<or> 100000 < rate_limit then Inl (ValueError ''model rate bound is invalid'')
      else Inr \<lparr>gw_store = store, gw_available = maximum_concurrency, gw_rate_windows = (\<lambda>_. []),
                gw_circuit_failures = (\<lambda>_. 0), gw_circuit_opened = Map.empty, gw_tick = 0, gw_calls = []\<rparr>)"

definition tick :: "(nat \<Rightarrow> 'a) \<Rightarrow> (gateway_state, 'a) op" where
  "tick f s = (Inr (f (gw_tick s)), s\<lparr>gw_tick := Suc (gw_tick s)\<rparr>)"

definition now_g :: "'o gateway_env \<Rightarrow> (gateway_state, datetime) op" where
  "now_g env = tick (ge_clock env)"

definition cancelled_g :: "'o gateway_env \<Rightarrow> (gateway_state, bool) op" where
  "cancelled_g env = tick (ge_cancelled env)"

definition on_model_store :: "(model_store, 'a) op \<Rightarrow> (gateway_state, 'a) op" where
  "on_model_store = zoomS gw_store (\<lambda>t s. s\<lparr>gw_store := t\<rparr>)"

section \<open>Policy checks\<close>

definition require_policy :: "model_store \<Rightarrow> model_request \<Rightarrow> model_policy result" where
  "require_policy s request =
     (let b = mr_binding request in
      case current_model_policy s (mb_tenant_id b) of
        None \<Rightarrow> Inl (PolicyDenied ''no tenant model policy'')
      | Some policy \<Rightarrow>
          bindE (guardE (mb_purpose b \<in> mq_allowed_purposes policy) (PolicyDenied ''model purpose is not allowed'')) (\<lambda>_.
          bindE (guardE (mb_data_classification b \<in> mq_allowed_data_classifications policy)
                   (PolicyDenied ''model data classification is not allowed'')) (\<lambda>_.
          bindE (guardE (risk_order (mb_risk b) \<le> risk_order (mq_risk_ceiling policy)) (PolicyDenied ''model risk exceeds policy'')) (\<lambda>_.
          bindE (guardE (mr_max_output_tokens request \<le> mq_maximum_output_tokens policy)
                   (PolicyDenied ''model output token request exceeds policy'')) (\<lambda>_.
          bindE (guardE (set (mr_allowed_tool_names request) = td_name ` set (mr_tools request))
                   (PolicyDenied ''model tool allowlist does not match definitions'')) (\<lambda>_.
          bindE (guardE (\<not> list_ex (\<lambda>m. mm_role m = Role_TOOL) (mr_messages request))
                   (PolicyDenied ''tool result messages are not supported by these adapters'')) (\<lambda>_.
          Inr policy)))))))"

definition required_capabilities :: "model_request \<Rightarrow> model_policy \<Rightarrow> model_capability set" where
  "required_capabilities request policy =
     mq_required_capabilities policy \<union> {Capability_JSON_SCHEMA} \<union> (if mr_tools request \<noteq> [] then {Capability_TOOLS} else {})"

definition entry_eligible :: "model_request \<Rightarrow> model_policy \<Rightarrow> nat \<Rightarrow> model_route \<Rightarrow> catalog_entry \<Rightarrow> bool" where
  "entry_eligible request policy input_tokens route e \<longleftrightarrow>
     ce_tenant_id e = mb_tenant_id (mr_binding request) \<and> entry_key e = route_key route \<and> ce_enabled e \<and>
     ce_provider e \<in> mq_allowed_providers policy \<and> ce_model e \<in> mq_allowed_models policy \<and>
     ce_region e \<in> mq_allowed_regions policy \<and> required_capabilities request policy \<subseteq> ce_capabilities e \<and>
     input_tokens + mr_max_output_tokens request \<le> ce_context_tokens e \<and>
     mr_max_output_tokens request \<le> ce_maximum_output_tokens e"

definition route_entry :: "model_store \<Rightarrow> model_request \<Rightarrow> model_policy \<Rightarrow> nat \<Rightarrow> model_route \<Rightarrow> catalog_entry option" where
  "route_entry s request policy input_tokens route =
     (case find_catalog_entry s (mb_tenant_id (mr_binding request)) (route_key route) of
        None \<Rightarrow> None
      | Some e \<Rightarrow> if entry_eligible request policy input_tokens route e then Some e else None)"

definition eligible_entries :: "runtime \<Rightarrow> model_store \<Rightarrow> model_request \<Rightarrow> model_policy \<Rightarrow> catalog_entry list result" where
  "eligible_entries rt s request policy =
     (let input_tokens = conservative_tokens rt request in
      bindE (guardE (input_tokens \<le> mq_maximum_input_tokens policy)
               (PolicyDenied ''model input token estimate exceeds policy'')) (\<lambda>_.
      let entries = List.map_filter (route_entry s request policy input_tokens) (mq_routes policy) in
      bindE (guardE (entries \<noteq> []) (PolicyDenied ''no policy-eligible model route'')) (\<lambda>_.
      Inr entries)))"

section \<open>Rate limit and circuits\<close>

text \<open>\<^verbatim>\<open>window[0] <= now - 1 minute\<close> is written without the subtraction.\<close>

definition check_rate :: "'o gateway_env \<Rightarrow> string \<Rightarrow> (gateway_state, unit) op" where
  "check_rate env t =
     bindS (now_g env) (\<lambda>now s.
       let window = dropWhile (\<lambda>w. w + seconds 60 \<le> now) (gw_rate_windows s t) in
       if ge_rate_limit env \<le> length window
       then (Inl (ProviderInvocationError Code_RATE_LIMITED True Billing_NOT_BILLED),
             s\<lparr>gw_rate_windows := (gw_rate_windows s)(t := window)\<rparr>)
       else (Inr (), s\<lparr>gw_rate_windows := (gw_rate_windows s)(t := window @ [now])\<rparr>))"

definition circuit_key :: "string \<Rightarrow> string \<Rightarrow> string" where
  "circuit_key t key = t @ CHR 0x00 # key"

definition circuit_is_open :: "'o gateway_env \<Rightarrow> string \<Rightarrow> string \<Rightarrow> (gateway_state, bool) op" where
  "circuit_is_open env t key s =
     (case gw_circuit_opened s (circuit_key t key) of
        None \<Rightarrow> (Inr False, s)
      | Some opened \<Rightarrow>
          bindS (now_g env) (\<lambda>now s.
            if opened + ge_circuit_duration env \<le> now
            then (Inr False, s\<lparr>gw_circuit_opened := (gw_circuit_opened s)(circuit_key t key := None),
                               gw_circuit_failures := (gw_circuit_failures s)(circuit_key t key := 0)\<rparr>)
            else (Inr True, s)) s)"

definition mark_failure :: "'o gateway_env \<Rightarrow> string \<Rightarrow> string \<Rightarrow> (gateway_state, unit) op" where
  "mark_failure env t key s =
     (let k = circuit_key t key;
          s1 = s\<lparr>gw_circuit_failures := (gw_circuit_failures s)(k := Suc (gw_circuit_failures s k))\<rparr> in
      if ge_circuit_threshold env \<le> gw_circuit_failures s1 k
      then bindS (now_g env) (\<lambda>now. modifyS (\<lambda>s. s\<lparr>gw_circuit_opened := (gw_circuit_opened s)(k \<mapsto> now)\<rparr>)) s1
      else (Inr (), s1))"

definition mark_success :: "string \<Rightarrow> string \<Rightarrow> (gateway_state, unit) op" where
  "mark_success t key = modifyS (\<lambda>s.
     s\<lparr>gw_circuit_failures := (gw_circuit_failures s)(circuit_key t key := 0),
       gw_circuit_opened := (gw_circuit_opened s)(circuit_key t key := None)\<rparr>)"

fun closed_entries :: "'o gateway_env \<Rightarrow> string \<Rightarrow> catalog_entry list \<Rightarrow> (gateway_state, catalog_entry list) op" where
  "closed_entries env t [] = returnS []"
| "closed_entries env t (e # es) =
     bindS (circuit_is_open env t (entry_key e)) (\<lambda>is_open.
     bindS (closed_entries env t es) (\<lambda>rest. returnS (if is_open then rest else e # rest)))"

section \<open>One attempt\<close>

text \<open>A provider failure as the three fields of the exception.\<close>

type_synonym failure = "model_error_code \<times> bool \<times> billing_disposition"

definition failure_error :: "failure \<Rightarrow> error" where
  "failure_error f = (case f of (code, retryable, billing) \<Rightarrow> ProviderInvocationError code retryable billing)"

definition failure_code_of :: "failure \<Rightarrow> model_error_code" where "failure_code_of f = fst f"
definition failure_retryable :: "failure \<Rightarrow> bool" where "failure_retryable f = fst (snd f)"
definition failure_billing :: "failure \<Rightarrow> billing_disposition" where "failure_billing f = snd (snd f)"

definition transient_codes :: "model_error_code set" where
  "transient_codes = {Code_RATE_LIMITED, Code_TIMEOUT, Code_TRANSIENT, Code_UNAVAILABLE}"

definition policy_changed :: "runtime \<Rightarrow> model_store \<Rightarrow> string \<Rightarrow> model_reservation \<Rightarrow> bool" where
  "policy_changed rt s t reservation =
     (case current_model_policy s t of
        None \<Rightarrow> True
      | Some p \<Rightarrow> mq_policy_id p \<noteq> rs_policy_id reservation \<or> mq_revision p \<noteq> rs_policy_revision reservation \<or>
                  model_policy_digest rt p \<noteq> rs_policy_digest reservation)"

text \<open>The condition before and after a provider call: the callback is asked only when the policy is unchanged.\<close>

definition call_is_stale :: "'o gateway_env \<Rightarrow> string \<Rightarrow> model_reservation \<Rightarrow> (gateway_state, bool) op" where
  "call_is_stale env t reservation =
     bindS (getS (\<lambda>s. policy_changed (ge_runtime env) (gw_store s) t reservation)) (\<lambda>changed.
     if changed then returnS True else cancelled_g env)"

definition finalize_now :: "'o gateway_env \<Rightarrow> model_reservation \<Rightarrow> (gateway_state, unit) op" where
  "finalize_now env reservation =
     bindS (now_g env) (\<lambda>_. modifyS (\<lambda>s. s\<lparr>gw_store := finalize_call reservation (gw_store s)\<rparr>))"

definition finalize_raise :: "'o gateway_env \<Rightarrow> model_reservation \<Rightarrow> failure \<Rightarrow> (gateway_state, 'a) op" where
  "finalize_raise env reservation f = bindS (finalize_now env reservation) (\<lambda>_. raiseS (failure_error f))"

definition stop_code :: "'o gateway_env \<Rightarrow> (gateway_state, model_error_code) op" where
  "stop_code env = bindS (cancelled_g env) (\<lambda>c. returnS (if c then Code_CANCELLED else Code_POLICY_DENIED))"

definition attempt_id_of :: "model_request \<Rightarrow> nat \<Rightarrow> nat \<Rightarrow> string" where
  "attempt_id_of request route_index repair_index =
     mb_call_id (mr_binding request) @ '':r'' @ nat_str route_index @ '':a'' @ nat_str (repair_index + 1)"

definition adapter_failure :: "adapter_outcome \<Rightarrow> failure + provider_result" where
  "adapter_failure out =
     (case out of
        Returned r \<Rightarrow> Inr r
      | Raised code retryable billing \<Rightarrow> Inl (code, retryable, billing)
      | RaisedOther \<Rightarrow> Inl (Code_UNAVAILABLE, False, Billing_AMBIGUOUS))"

definition invoke_provider ::
  "'o gateway_env \<Rightarrow> string \<Rightarrow> catalog_entry \<Rightarrow> model_request \<Rightarrow> (gateway_state, failure + provider_result) op" where
  "invoke_provider env attempt_id e request =
     (case ge_adapters env (ce_provider e) of
        None \<Rightarrow> returnS (Inl (Code_UNAVAILABLE, False, Billing_NOT_BILLED))
      | Some adapter \<Rightarrow>
          bindS (modifyS (\<lambda>s. s\<lparr>gw_calls := gw_calls s @
            [\<lparr>pl_attempt_id = attempt_id, pl_entry = e, pl_request = request, pl_store = gw_store s\<rparr>]\<rparr>)) (\<lambda>_.
          bindS (tick (\<lambda>n. (adapter n e request (ce_credential e), ge_replaced env n))) (\<lambda>(out, replaced).
          bindS (modifyS (\<lambda>s. s\<lparr>gw_store := fold replace_model_policy replaced (gw_store s)\<rparr>)) (\<lambda>_.
          returnS (adapter_failure out)))))"

text \<open>What is made of a result: the failure raised for it, or the validated output. A failed validation is the
  value \<open>Inr None\<close>.\<close>

definition usage_exceeded :: "model_request \<Rightarrow> model_reservation \<Rightarrow> catalog_entry \<Rightarrow> model_usage \<Rightarrow> bool" where
  "usage_exceeded request reservation e u \<longleftrightarrow>
     mr_max_output_tokens request < mu_output_tokens u \<or>
     rs_requested_input_tokens reservation < mu_input_tokens u + mu_cache_read_tokens u + mu_cache_write_tokens u \<or>
     ce_context_tokens e < total_tokens u \<or> rs_reserved_cost reservation < actual_cost (ce_price e) u"

definition judge_result ::
  "'o gateway_env \<Rightarrow> model_request \<Rightarrow> model_reservation \<Rightarrow> catalog_entry \<Rightarrow> provider_result \<Rightarrow> failure + 'o option" where
  "judge_result env request reservation e r =
     (if usage_exceeded request reservation e (pr_usage r) then Inl (Code_USAGE_EXCEEDED, False, Billing_BILLED)
      else if sa_blocked (pr_safety r) then Inl (Code_CONTENT_FILTER, False, Billing_BILLED)
      else if pr_finish_reason r \<noteq> Finish_STOP then Inl (Code_CAPABILITY, False, Billing_BILLED)
      else Inr (ge_validate env (pr_structured_output r)))"

definition record_failure ::
  "'o gateway_env \<Rightarrow> string \<Rightarrow> string \<Rightarrow> failure \<Rightarrow> catalog_entry \<Rightarrow> model_usage option \<Rightarrow> (gateway_state, unit) op" where
  "record_failure env t attempt_id f e usage =
     bindS (now_g env) (\<lambda>now.
     bindS (on_model_store (reconcile_attempt t attempt_id
       \<lparr>sm_outcome = ''failed'', sm_billing = failure_billing f, sm_usage = usage,
        sm_cost = map_option (actual_cost (ce_price e)) usage, sm_error_code = Some (failure_code_of f)\<rparr> now)) (\<lambda>_.
     returnS ()))"

datatype 'o attempt_end = Answer 'o | Repair failure | NextRoute failure

text \<open>The handler of \<open>ProviderInvocationError\<close> and the handler of \<open>ValidationError\<close>.\<close>

definition handle_failure ::
  "'o gateway_env \<Rightarrow> model_request \<Rightarrow> model_policy \<Rightarrow> model_reservation \<Rightarrow> catalog_entry \<Rightarrow> string \<Rightarrow>
   failure \<Rightarrow> model_usage option \<Rightarrow> (gateway_state, 'o attempt_end) op" where
  "handle_failure env request policy reservation e attempt_id f usage =
     (let t = mb_tenant_id (mr_binding request) in
      bindS (record_failure env t attempt_id f e usage) (\<lambda>_.
      bindS (if failure_code_of f \<in> transient_codes then mark_failure env t (entry_key e) else returnS ()) (\<lambda>_.
      if failure_billing f = Billing_AMBIGUOUS \<and> \<not> mq_fallback_on_ambiguous_billing policy
      then finalize_raise env reservation f
      else if \<not> failure_retryable f \<or> failure_code_of f \<notin> transient_codes
      then finalize_raise env reservation f
      else returnS (NextRoute f))))"

definition handle_malformed ::
  "'o gateway_env \<Rightarrow> model_request \<Rightarrow> model_reservation \<Rightarrow> catalog_entry \<Rightarrow> string \<Rightarrow> bool \<Rightarrow>
   model_usage \<Rightarrow> (gateway_state, 'o attempt_end) op" where
  "handle_malformed env request reservation e attempt_id retryable usage =
     (let f = (Code_MALFORMED_RESPONSE, retryable, Billing_BILLED) in
      bindS (record_failure env (mb_tenant_id (mr_binding request)) attempt_id f e (Some usage)) (\<lambda>_.
      if retryable then returnS (Repair f) else finalize_raise env reservation f))"

definition settle_success ::
  "'o gateway_env \<Rightarrow> model_request \<Rightarrow> model_reservation \<Rightarrow> catalog_entry \<Rightarrow> string \<Rightarrow> model_usage \<Rightarrow>
   (gateway_state, unit) op" where
  "settle_success env request reservation e attempt_id usage =
     (let t = mb_tenant_id (mr_binding request) in
      bindS (now_g env) (\<lambda>now.
      bindS (on_model_store (reconcile_attempt t attempt_id
        \<lparr>sm_outcome = ''completed'', sm_billing = Billing_BILLED, sm_usage = Some usage,
         sm_cost = Some (actual_cost (ce_price e) usage), sm_error_code = None\<rparr> now)) (\<lambda>_.
      bindS (mark_success t (entry_key e)) (\<lambda>_. finalize_now env reservation))))"

definition settle_stale ::
  "'o gateway_env \<Rightarrow> model_request \<Rightarrow> catalog_entry \<Rightarrow> string \<Rightarrow> model_usage \<Rightarrow> (gateway_state, failure) op" where
  "settle_stale env request e attempt_id usage =
     bindS (stop_code env) (\<lambda>code.
     bindS (now_g env) (\<lambda>now.
     bindS (on_model_store (reconcile_attempt (mb_tenant_id (mr_binding request)) attempt_id
       \<lparr>sm_outcome = ''stale'', sm_billing = Billing_BILLED, sm_usage = Some usage,
        sm_cost = Some (actual_cost (ce_price e) usage), sm_error_code = Some code\<rparr> now)) (\<lambda>_.
     returnS (code, False, Billing_BILLED))))"

definition attempt_result ::
  "'o gateway_env \<Rightarrow> model_request \<Rightarrow> model_policy \<Rightarrow> model_reservation \<Rightarrow> catalog_entry \<Rightarrow> string \<Rightarrow> bool \<Rightarrow>
   provider_result \<Rightarrow> (gateway_state, 'o attempt_end) op" where
  "attempt_result env request policy reservation e attempt_id retryable r =
     bindS (call_is_stale env (mb_tenant_id (mr_binding request)) reservation) (\<lambda>stale.
     if stale then
       bindS (settle_stale env request e attempt_id (pr_usage r)) (\<lambda>f.
       handle_failure env request policy reservation e attempt_id f (Some (pr_usage r)))
     else
       (case judge_result env request reservation e r of
          Inl f \<Rightarrow> handle_failure env request policy reservation e attempt_id f (Some (pr_usage r))
        | Inr None \<Rightarrow> handle_malformed env request reservation e attempt_id retryable (pr_usage r)
        | Inr (Some parsed) \<Rightarrow>
            bindS (settle_success env request reservation e attempt_id (pr_usage r)) (\<lambda>_. returnS (Answer parsed))))"

definition attempt_call ::
  "'o gateway_env \<Rightarrow> model_request \<Rightarrow> model_policy \<Rightarrow> model_reservation \<Rightarrow> catalog_entry \<Rightarrow> nat \<Rightarrow> nat \<Rightarrow>
   (gateway_state, 'o attempt_end) op" where
  "attempt_call env request policy reservation e route_index repair_index =
     (let attempt_id = attempt_id_of request route_index repair_index in
      bindS (call_is_stale env (mb_tenant_id (mr_binding request)) reservation) (\<lambda>stale.
      if stale then
        bindS (finalize_now env reservation) (\<lambda>_.
        bindS (stop_code env) (\<lambda>code. raiseS (ProviderInvocationError code False Billing_NOT_BILLED)))
      else
        bindS (now_g env) (\<lambda>now.
        bindS (on_model_store (append_requested (ge_runtime env) reservation request e attempt_id now)) (\<lambda>_.
        bindS (invoke_provider env attempt_id e request) (\<lambda>answer.
        case answer of
          Inl f \<Rightarrow> handle_failure env request policy reservation e attempt_id f None
        | Inr r \<Rightarrow> attempt_result env request policy reservation e attempt_id
                     (repair_index + 1 < 1 + mq_repair_attempts policy) r)))))"

section \<open>Routes and repairs\<close>

text \<open>The loop over the repairs of one route: an answer, or the failures so far when the route is given up.\<close>

fun repair_loop ::
  "'o gateway_env \<Rightarrow> model_request \<Rightarrow> model_policy \<Rightarrow> model_reservation \<Rightarrow> catalog_entry \<Rightarrow> nat \<Rightarrow> nat list \<Rightarrow>
   failure list \<Rightarrow> (gateway_state, failure list + 'o) op" where
  "repair_loop env request policy reservation e route_index [] failures = returnS (Inl failures)"
| "repair_loop env request policy reservation e route_index (i # is) failures =
     bindS (attempt_call env request policy reservation e route_index i) (\<lambda>out.
     case out of
       Answer x \<Rightarrow> returnS (Inr x)
     | Repair f \<Rightarrow> repair_loop env request policy reservation e route_index is (failures @ [f])
     | NextRoute f \<Rightarrow> returnS (Inl (failures @ [f])))"

definition attempt_indices :: "model_policy \<Rightarrow> nat list" where
  "attempt_indices policy = [0..<1 + mq_repair_attempts policy]"

fun route_loop ::
  "'o gateway_env \<Rightarrow> model_request \<Rightarrow> model_policy \<Rightarrow> model_reservation \<Rightarrow> nat \<Rightarrow> catalog_entry list \<Rightarrow>
   failure list \<Rightarrow> (gateway_state, 'o) op" where
  "route_loop env request policy reservation route_index [] failures =
     finalize_raise env reservation (if failures \<noteq> [] then last failures else (Code_UNAVAILABLE, False, Billing_NOT_BILLED))"
| "route_loop env request policy reservation route_index (e # es) failures =
     bindS (cancelled_g env) (\<lambda>c.
     if c then finalize_raise env reservation (Code_CANCELLED, False, Billing_NOT_BILLED)
     else
       bindS (repair_loop env request policy reservation e route_index (attempt_indices policy) failures) (\<lambda>out.
       case out of
         Inr x \<Rightarrow> returnS x
       | Inl failures' \<Rightarrow> route_loop env request policy reservation (Suc route_index) es failures'))"

section \<open>Generation\<close>

definition reservation_cost :: "runtime \<Rightarrow> model_request \<Rightarrow> model_policy \<Rightarrow> catalog_entry list \<Rightarrow> nat" where
  "reservation_cost rt request policy entries =
     Max ((\<lambda>e. maximum_cost (ce_price e) (conservative_tokens rt request) (mr_max_output_tokens request)) ` set entries) *
     length entries * (1 + mq_repair_attempts policy)"

definition generate_admitted :: "'o gateway_env \<Rightarrow> model_request \<Rightarrow> (gateway_state, 'o) op" where
  "generate_admitted env request =
     (let rt = ge_runtime env; t = mb_tenant_id (mr_binding request) in
      bindS (getS (\<lambda>s. require_policy (gw_store s) request)) (\<lambda>found.
      bindS (liftS found) (\<lambda>policy.
      bindS (getS (\<lambda>s. eligible_entries rt (gw_store s) request policy)) (\<lambda>eligible.
      bindS (liftS eligible) (\<lambda>circuit_entries.
      bindS (closed_entries env t circuit_entries) (\<lambda>entries.
      bindS (requireS (entries \<noteq> []) (ProviderInvocationError Code_CIRCUIT_OPEN True Billing_NOT_BILLED)) (\<lambda>_.
      bindS (check_rate env t) (\<lambda>_.
      bindS (now_g env) (\<lambda>now.
      bindS (on_model_store (reserve_model rt request policy (conservative_tokens rt request)
                         (reservation_cost rt request policy entries) now)) (\<lambda>reservation.
      route_loop env request policy reservation 1 entries []))))))))))"

definition generate :: "'o gateway_env \<Rightarrow> model_request \<Rightarrow> (gateway_state, 'o) op" where
  "generate env request =
     bindS (cancelled_g env) (\<lambda>c.
     if c then raiseS (ProviderInvocationError Code_CANCELLED False Billing_NOT_BILLED)
     else (\<lambda>s.
       if gw_available s = 0 then (Inl (ProviderInvocationError Code_RATE_LIMITED True Billing_NOT_BILLED), s)
       else (case generate_admitted env request (s\<lparr>gw_available := gw_available s - 1\<rparr>) of
               (r, s') \<Rightarrow> (r, s'\<lparr>gw_available := gw_available s' + 1\<rparr>))))"

section \<open>The scripted provider\<close>

text \<open>\<open>FakeModelProvider\<close>: the outcomes left and the calls made.\<close>

record fake_provider =
  fp_outcomes :: "adapter_outcome list"
  fp_calls :: "(string \<times> string) list"

definition fake_invoke :: "catalog_entry \<Rightarrow> credential_reference \<Rightarrow> fake_provider \<Rightarrow> adapter_outcome \<times> fake_provider" where
  "fake_invoke e credential s =
     (let s1 = s\<lparr>fp_calls := fp_calls s @ [(entry_key e, cr_reference credential)]\<rparr> in
      case fp_outcomes s1 of
        [] \<Rightarrow> (Raised Code_UNAVAILABLE False Billing_NOT_BILLED, s1)
      | out # rest \<Rightarrow> (out, s1\<lparr>fp_outcomes := rest\<rparr>))"

end
