(* ===== verification/Model_Accounting.thy ===== *)
theory Model_Accounting
  imports Model_Gateway
begin

text \<open>
  The accounting of one gateway call: what each store operation does to the records of the call, to the
  records of other calls and to the billed cost, and the invariant the loops over routes and repairs keep.
\<close>

section \<open>Sums over an association list\<close>

lemma update_absent: "map_of xs k = None \<Longrightarrow> AList.update k v xs = xs @ [(k, v)]"
  by (induction xs) auto

lemma update_present:
  "distinct (map fst xs) \<Longrightarrow> map_of xs k = Some u \<Longrightarrow>
     \<exists>ys zs. xs = ys @ (k, u) # zs \<and> AList.update k v xs = ys @ (k, v) # zs"
proof (induction xs)
  case (Cons x xs)
  show ?case
  proof (cases "fst x = k")
    case True
    with Cons.prems show ?thesis by (intro exI [of _ "[]"] exI [of _ xs]) (cases x; simp)
  next
    case False
    with Cons obtain ys zs where "xs = ys @ (k, u) # zs" "AList.update k v xs = ys @ (k, v) # zs" by (cases x) auto
    with False show ?thesis by (intro exI [of _ "x # ys"] exI [of _ zs]) (cases x; simp)
  qed
qed simp

section \<open>Records of a call\<close>

definition store_wf :: "model_store \<Rightarrow> bool" where
  "store_wf st \<longleftrightarrow> distinct (map fst (ms_records st)) \<and>
     (\<forall>(k, r) \<in> set (ms_records st). k = (mcr_tenant_id r, mcr_attempt_id r))"

definition record_cost :: "call_record \<Rightarrow> nat" where
  "record_cost r = (if mcr_billing r = Billing_BILLED then (case mcr_cost r of None \<Rightarrow> 0 | Some c \<Rightarrow> c) else 0)"

lemma billed_cost_sum: "billed_cost rs = sum_list (map record_cost rs)"
  by (induction rs) (simp_all add: billed_cost_def record_cost_def)

lemma billed_cost_simps [simp]:
  "billed_cost [] = 0" "billed_cost (r # rs) = record_cost r + billed_cost rs"
  "billed_cost (rs @ rs') = billed_cost rs + billed_cost rs'"
  by (simp_all add: billed_cost_sum)

definition settlement_cost :: "settlement \<Rightarrow> nat" where
  "settlement_cost m = (if sm_billing m = Billing_BILLED then (case sm_cost m of None \<Rightarrow> 0 | Some c \<Rightarrow> c) else 0)"

lemma settle_fields [simp]:
  "mcr_tenant_id (settle m now r) = mcr_tenant_id r" "mcr_call_id (settle m now r) = mcr_call_id r"
  "mcr_attempt_id (settle m now r) = mcr_attempt_id r" "mcr_run_id (settle m now r) = mcr_run_id r"
  "mcr_completed_at (settle m now r) = Some now" "mcr_billing (settle m now r) = sm_billing m"
  "record_cost (settle m now r) = settlement_cost m"
  by (simp_all add: settle_def record_cost_def settlement_cost_def)

text \<open>Everything the store holds outside one call, and outside the policies.\<close>

definition others_kept :: "model_store \<Rightarrow> string \<Rightarrow> string \<Rightarrow> model_store \<Rightarrow> bool" where
  "others_kept st0 t call_id st \<longleftrightarrow>
     ms_reservations st = ms_reservations st0 \<and> ms_limits st = ms_limits st0 \<and> ms_catalog st = ms_catalog st0 \<and>
     (\<forall>k. k \<noteq> (t, call_id) \<longrightarrow> ms_finalized st k = ms_finalized st0 k) \<and>
     (\<forall>t' c. (t', c) \<noteq> (t, call_id) \<longrightarrow> call_records st t' c = call_records st0 t' c)"

lemma replace_policies_fields [simp]:
  "ms_reservations (fold replace_model_policy ps st) = ms_reservations st" "ms_limits (fold replace_model_policy ps st) = ms_limits st"
  "ms_catalog (fold replace_model_policy ps st) = ms_catalog st" "ms_finalized (fold replace_model_policy ps st) = ms_finalized st"
  "ms_records (fold replace_model_policy ps st) = ms_records st"
  "call_records (fold replace_model_policy ps st) = call_records st" "store_wf (fold replace_model_policy ps st) = store_wf st"
  "others_kept st0 t c (fold replace_model_policy ps st) = others_kept st0 t c st"
proof -
  show a [simp]: "ms_reservations (fold replace_model_policy ps st) = ms_reservations st" "ms_limits (fold replace_model_policy ps st) = ms_limits st"
    "ms_catalog (fold replace_model_policy ps st) = ms_catalog st" "ms_finalized (fold replace_model_policy ps st) = ms_finalized st"
    "ms_records (fold replace_model_policy ps st) = ms_records st"
    by (induction ps arbitrary: st) (simp_all add: replace_model_policy_def)
  show b [simp]: "call_records (fold replace_model_policy ps st) = call_records st"
    by (simp add: call_records_def fun_eq_iff)
  show "store_wf (fold replace_model_policy ps st) = store_wf st" "others_kept st0 t c (fold replace_model_policy ps st) = others_kept st0 t c st"
    by (simp_all add: store_wf_def others_kept_def)
qed

lemma call_attempts_distinct:
  assumes "store_wf st"
  shows "distinct (map mcr_attempt_id (call_records st t c))"
proof -
  let ?f = "\<lambda>r. (mcr_tenant_id r, mcr_attempt_id r)"
  have "map fst (ms_records st) = map (?f \<circ> snd) (ms_records st)"
    by (rule map_cong) (use assms in \<open>auto simp: store_wf_def\<close>)
  then have "distinct (map ?f (map snd (ms_records st)))" using assms unfolding store_wf_def by (metis map_map)
  then have "distinct (map ?f (call_records st t c))" unfolding call_records_def by (rule distinct_map_filter)
  moreover have "map ?f (call_records st t c) = map (Pair t) (map mcr_attempt_id (call_records st t c))"
    by (simp add: call_records_def)
  ultimately show ?thesis by (simp only: distinct_map)
qed

lemma call_records_update:
  assumes "store_wf st" "map_of (ms_records st) (t, a) = Some r" "mcr_call_id r = c" "mcr_call_id r' = c"
    and "mcr_tenant_id r' = t" "mcr_attempt_id r' = a"
  defines "st' \<equiv> st\<lparr>ms_records := AList.update (t, a) r' (ms_records st)\<rparr>"
  shows "store_wf st'"
    and "\<exists>xs ys. call_records st t c = xs @ r # ys \<and> call_records st' t c = xs @ r' # ys"
    and "(t', c') \<noteq> (t, c) \<Longrightarrow> call_records st' t' c' = call_records st t' c'"
proof -
  have d: "distinct (map fst (ms_records st))" using assms(1) by (simp add: store_wf_def)
  have r: "mcr_tenant_id r = t" "mcr_attempt_id r = a"
    using assms(1,2) by (auto simp: store_wf_def dest!: map_of_SomeD)
  obtain ys zs where split: "ms_records st = ys @ ((t, a), r) # zs" "AList.update (t, a) r' (ms_records st) = ys @ ((t, a), r') # zs"
    using update_present [OF d assms(2), of r'] by blast
  show "store_wf st'" using assms(1,5,6) split by (auto simp: st'_def store_wf_def)
  show "\<exists>xs ys. call_records st t c = xs @ r # ys \<and> call_records st' t c = xs @ r' # ys"
    using split assms(3-5) r by (simp add: call_records_def st'_def) blast
  show "(t', c') \<noteq> (t, c) \<Longrightarrow> call_records st' t' c' = call_records st t' c'"
    using split assms(3-5) r by (auto simp: call_records_def st'_def)
qed

section \<open>Operations of a call\<close>

text \<open>No attempt of the call is open but those that were open in an earlier store \<open>st0\<close>, and the attempt in progress.\<close>

definition settled_since :: "model_store \<Rightarrow> model_store \<Rightarrow> string \<Rightarrow> string \<Rightarrow> bool" where
  "settled_since st0 st t call_id \<longleftrightarrow>
     (\<forall>r \<in> set (call_records st t call_id). mcr_completed_at r = None \<longrightarrow> r \<in> set (call_records st0 t call_id))"

definition open_attempt :: "model_store \<Rightarrow> model_store \<Rightarrow> string \<Rightarrow> string \<Rightarrow> string \<Rightarrow> bool" where
  "open_attempt st0 st t call_id a \<longleftrightarrow>
     (\<exists>r. map_of (ms_records st) (t, a) = Some r \<and> mcr_call_id r = call_id \<and> mcr_completed_at r = None) \<and>
     (\<forall>r \<in> set (call_records st t call_id). mcr_attempt_id r \<noteq> a \<longrightarrow> mcr_completed_at r = None \<longrightarrow> r \<in> set (call_records st0 t call_id))"

lemma append_requested_spec:
  assumes "store_wf st" "others_kept st0 t c st" "settled_since st0 st t c" "billed_cost (call_records st t c) \<le> b"
    and "mb_tenant_id (mr_binding request) = t" "mb_call_id (mr_binding request) = c"
    and "append_requested rt reservation request e a now st = (x, st')"
  shows "(\<exists>err. x = Inl err \<and> st' = st) \<or>
    (\<exists>r. x = Inr r \<and> map_of (ms_records st) (t, a) = None \<and> map_of (ms_records st') (t, a) = Some r \<and>
       ms_records st' = ms_records st @ [((t, a), r)] \<and>
       mcr_request_digest r = request_digest rt request \<and> mcr_catalog_key r = entry_key e \<and> mcr_completed_at r = None \<and>
       mcr_billing r = Billing_AMBIGUOUS \<and> ms_policies st' = ms_policies st \<and> ms_finalized st' = ms_finalized st \<and>
       store_wf st' \<and> others_kept st0 t c st' \<and> open_attempt st0 st' t c a \<and> billed_cost (call_records st' t c) \<le> b)"
proof (cases "map_of (ms_records st) (t, a)")
  case (Some r)
  with assms(5,7) show ?thesis by (auto simp: append_requested_def Let_def split: if_splits)
next
  case None
  show ?thesis
  proof (cases x)
    case (Inl err)
    with None assms(5,7) show ?thesis by (auto simp: append_requested_def Let_def split: sum.splits)
  next
    case (Inr r)
    with None assms(5-7) have r: "mcr_tenant_id r = t" "mcr_attempt_id r = a" "mcr_call_id r = c" "mcr_request_digest r = request_digest rt request"
        "mcr_catalog_key r = entry_key e" "mcr_completed_at r = None" "mcr_billing r = Billing_AMBIGUOUS"
      and st': "st' = st\<lparr>ms_records := ms_records st @ [((t, a), r)]\<rparr>"
      by (auto simp: append_requested_def Let_def make_call_record_def update_absent split: sum.splits if_splits)
    have recs: "call_records st' t' c' = call_records st t' c' @ (if (t', c') = (t, c) then [r] else [])" for t' c'
      using r by (auto simp: call_records_def st')
    have fresh: "(t, a) \<notin> fst ` set (ms_records st)" using None by (simp add: map_of_eq_None_iff)
    have "store_wf st'" using assms(1) fresh r by (auto simp: store_wf_def st')
    moreover have "others_kept st0 t c st'" using assms(2) recs by (auto simp: others_kept_def st')
    moreover have "open_attempt st0 st' t c a" using assms(3) r recs None
      by (auto simp: open_attempt_def settled_since_def st' map_add_def)
    moreover have "record_cost r = 0" using r(7) by (simp add: record_cost_def)
    then have "billed_cost (call_records st' t c) \<le> b" using assms(4) recs [of t c] by simp
    ultimately show ?thesis using Inr None r by (simp add: st' map_add_def)
  qed
qed

lemma reconcile_open:
  assumes "store_wf st" "others_kept st0 t c st" "open_attempt st0 st t c a" "billed_cost (call_records st t c) \<le> b"
    and "reconcile_attempt t a m now st = (x, st')"
  shows "(x = Inl (IntegrityFailure ''billed model outcome requires usage and cost'') \<and> st' = st) \<or>
    (\<exists>r. x = Inr r \<and> map_of (ms_records st') (t, a) = Some r \<and> mcr_billing r = sm_billing m \<and> mcr_completed_at r \<noteq> None \<and>
       fst ` set (ms_records st') = fst ` set (ms_records st) \<and> ms_policies st' = ms_policies st \<and> ms_finalized st' = ms_finalized st \<and>
       store_wf st' \<and> others_kept st0 t c st' \<and> settled_since st0 st' t c \<and>
       billed_cost (call_records st' t c) \<le> b + settlement_cost m)"
proof -
  from assms(3) obtain r where r: "map_of (ms_records st) (t, a) = Some r" "mcr_call_id r = c" "mcr_completed_at r = None"
    by (auto simp: open_attempt_def)
  have ra: "mcr_tenant_id r = t" "mcr_attempt_id r = a" using assms(1) r(1) by (auto simp: store_wf_def dest!: map_of_SomeD)
  note u = call_records_update [OF assms(1) r(1,2), of "settle m now r", simplified, OF r(2) ra]
  show ?thesis
  proof (cases "sm_billing m = Billing_BILLED \<and> (sm_usage m = None \<or> sm_cost m = None)")
    case True
    with assms(5) show ?thesis by (auto simp: reconcile_attempt_def)
  next
    case False
    with assms(5) r have x: "x = Inr (settle m now r)" and st': "st' = st\<lparr>ms_records := AList.update (t, a) (settle m now r) (ms_records st)\<rparr>"
      by (auto simp: reconcile_attempt_def Let_def)
    from u(2) obtain xs ys where split: "call_records st t c = xs @ r # ys" "call_records st' t c = xs @ settle m now r # ys"
      unfolding st' by blast
    have wf: "store_wf st'" using u(1) by (simp add: st')
    have mem: "x' \<in> set xs \<union> set ys \<Longrightarrow> mcr_attempt_id x' \<noteq> a" for x'
      using call_attempts_distinct [OF assms(1), of t c] ra(2) unfolding split(1) by (auto simp: image_iff)
    have "others_kept st0 t c st'" using assms(2) u(3) by (auto simp: others_kept_def st')
    moreover have "settled_since st0 st' t c"
      using assms(3) mem split by (auto simp: settled_since_def open_attempt_def)
    moreover have "billed_cost (call_records st' t c) \<le> b + settlement_cost m" using assms(4) split by simp
    moreover have "map_of (ms_records st') (t, a) = Some (settle m now r)" by (simp add: st' update_conv')
    moreover have "fst ` set (ms_records st') = fst ` set (ms_records st)"
      using r(1) by (simp add: st' dom_map_of_conv_image_fst [symmetric] update_conv' insert_absorb domI)
    ultimately show ?thesis using wf by (simp add: x st')
  qed
qed

lemma reconcile_billed:
  assumes "map_of (ms_records st) (t, a) = Some r" "mcr_billing r = Billing_BILLED" "mcr_completed_at r \<noteq> None"
    and "reconcile_attempt t a m now st = (x, st')"
  shows "st' = st"
  using assms by (auto simp: reconcile_attempt_def split: if_splits)

lemma finalize_call_fields:
  assumes "rs_tenant_id reservation = t" "rs_reservation_id reservation = c"
  shows "ms_records (finalize_call reservation st) = ms_records st" "call_records (finalize_call reservation st) = call_records st"
    "store_wf (finalize_call reservation st) = store_wf st" "ms_policies (finalize_call reservation st) = ms_policies st"
    "others_kept st0 t c (finalize_call reservation st) = others_kept st0 t c st"
    "ms_finalized (finalize_call reservation st) (t, c) \<noteq> None"
  using assms by (auto simp: finalize_call_def Let_def call_records_def store_wf_def others_kept_def fun_eq_iff)

end
