(* ===== verification/Model_Call.thy ===== *)
theory Model_Call
  imports Model_Accounting
begin

text \<open>
  One call through the gateway, followed from the reservation to its end: the loops over routes and repairs
  keep an invariant of the store and of the provider calls made, stated over a frame that holds what is
  fixed during the call.
\<close>

lemma wp_tick [wp_simps]: "wp (tick f) Q s = Q (Inr (f (gw_tick s))) (s\<lparr>gw_tick := Suc (gw_tick s)\<rparr>)"
  by (simp add: wp_def tick_def)

lemma wp_now_g [wp_simps]: "wp (now_g env) Q s = Q (Inr (ge_clock env (gw_tick s))) (s\<lparr>gw_tick := Suc (gw_tick s)\<rparr>)"
  by (simp add: now_g_def wp_tick)

lemma wp_cancelled_g [wp_simps]:
  "wp (cancelled_g env) Q s = Q (Inr (ge_cancelled env (gw_tick s))) (s\<lparr>gw_tick := Suc (gw_tick s)\<rparr>)"
  by (simp add: cancelled_g_def wp_tick)

lemma wp_seq:
  assumes "wp m P s" "\<And>e s'. P (Inl e) s' \<Longrightarrow> Q (Inl e) s'" "\<And>x s'. P (Inr x) s' \<Longrightarrow> wp (f x) Q s'"
  shows "wp (bindS m f) Q s"
  unfolding wp_bindS by (rule wp_mono [OF assms(1)]) (auto simp: assms(2,3) split: sum.split)

section \<open>The loops\<close>

text \<open>What one attempt promises to the loops: it ends the call, or leaves the invariant with one more attempt counted.\<close>

locale attempt_loop =
  fixes env :: "'o gateway_env" and request :: model_request and policy :: model_policy and reservation :: model_reservation
    and entries :: "catalog_entry list"
    and I :: "nat \<Rightarrow> gateway_state \<Rightarrow> bool" and Q :: "nat \<Rightarrow> 'o result \<Rightarrow> gateway_state \<Rightarrow> bool"
  assumes attempt: "I n s \<Longrightarrow> e \<in> set entries \<Longrightarrow>
      wp (attempt_call env request policy reservation e i j) (\<lambda>r s'. case r of
        Inl x \<Rightarrow> Q (Suc n) (Inl x) s' | Inr (Answer a) \<Rightarrow> Q (Suc n) (Inr a) s'
      | Inr (Repair _) \<Rightarrow> I (Suc n) s' | Inr (NextRoute _) \<Rightarrow> I (Suc n) s') s"
    and tick_kept: "I n s \<Longrightarrow> I n (s\<lparr>gw_tick := k\<rparr>)"
    and give_up: "I n s \<Longrightarrow> wp (finalize_raise env reservation f) (Q n) s"
    and weaken: "Q n r s \<Longrightarrow> n \<le> m \<Longrightarrow> Q m r s"
begin

lemma repairs:
  "I n s \<Longrightarrow> e \<in> set entries \<Longrightarrow>
     wp (repair_loop env request policy reservation e i js fs) (\<lambda>r s'. case r of
       Inl x \<Rightarrow> Q (n + length js) (Inl x) s' | Inr (Inr a) \<Rightarrow> Q (n + length js) (Inr a) s'
     | Inr (Inl _) \<Rightarrow> (\<exists>k \<le> n + length js. I k s')) s"
proof (induction js arbitrary: n s fs)
  case Nil
  then show ?case by (auto simp: wp_simps)
next
  case (Cons j js)
  show ?case
    unfolding repair_loop.simps wp_bindS
  proof (rule wp_mono [OF attempt [OF Cons.prems]], goal_cases)
    case (1 r s')
    show ?case
    proof (cases r)
      case (Inl x)
      with 1 show ?thesis by (auto intro: weaken)
    next
      case (Inr out)
      show ?thesis
      proof (cases out)
        case (Answer a)
        with 1 Inr show ?thesis by (auto simp: wp_simps intro: weaken)
      next
        case (Repair f)
        with 1 Inr have "I (Suc n) s'" by simp
        from Cons.IH [OF this Cons.prems(2), of "fs @ [f]"] show ?thesis using Inr Repair by (simp only: sum.case attempt_end.case length_Cons add_Suc_right add_Suc)
      next
        case (NextRoute f)
        with 1 Inr show ?thesis by (auto simp: wp_simps intro!: exI [of _ "Suc n"])
      qed
    qed
  qed
qed

lemma routes:
  "I n s \<Longrightarrow> set es \<subseteq> set entries \<Longrightarrow>
     wp (route_loop env request policy reservation i es fs) (Q (n + length es * length (attempt_indices policy))) s"
proof (induction es arbitrary: n s i fs)
  case Nil
  then show ?case by (simp add: give_up)
next
  case (Cons e es)
  let ?m = "length (attempt_indices policy)"
  have s1: "I n (s\<lparr>gw_tick := Suc (gw_tick s)\<rparr>)" using Cons.prems(1) by (rule tick_kept)
  have cancel: "wp (finalize_raise env reservation f) (Q (n + length (e # es) * ?m)) (s\<lparr>gw_tick := Suc (gw_tick s)\<rparr>)" for f
    by (rule wp_mono [OF give_up [OF s1]]) (auto intro: weaken)
  have "wp (bindS (repair_loop env request policy reservation e i (attempt_indices policy) fs)
      (\<lambda>out. case out of Inr x \<Rightarrow> returnS x | Inl fs' \<Rightarrow> route_loop env request policy reservation (Suc i) es fs'))
      (Q (n + length (e # es) * ?m)) (s\<lparr>gw_tick := Suc (gw_tick s)\<rparr>)"
    unfolding wp_bindS
  proof (rule wp_mono [OF repairs [OF s1]], goal_cases)
    case 1
    from Cons.prems(2) show ?case by simp
  next
    case (2 r s')
    show ?case
    proof (cases r)
      case (Inl x)
      with 2 show ?thesis by (auto intro: weaken)
    next
      case (Inr out)
      show ?thesis
      proof (cases out)
        case (Inr x)
        with 2 \<open>r = Inr out\<close> show ?thesis by (auto simp: wp_simps intro: weaken)
      next
        case (Inl fs')
        with 2 \<open>r = Inr out\<close> obtain k where k: "k \<le> n + ?m" "I k s'" by auto
        from Cons.IH [OF k(2), of "Suc i" fs'] Cons.prems(2)
        have "wp (route_loop env request policy reservation (Suc i) es fs') (Q (k + length es * ?m)) s'" by simp
        then have "wp (route_loop env request policy reservation (Suc i) es fs') (Q (n + length (e # es) * ?m)) s'"
          by (rule wp_mono) (use k(1) in \<open>auto intro: weaken\<close>)
        with Inl \<open>r = Inr out\<close> show ?thesis by simp
      qed
    qed
  qed
  with cancel show ?case by (simp only: route_loop.simps wp_bindS [of "cancelled_g env"] wp_cancelled_g sum.case split: if_split) simp
qed

end

section \<open>The frame of a call\<close>

record 'o call_frame =
  cf_env :: "'o gateway_env"
  cf_request :: model_request
  cf_policy :: model_policy
  cf_reservation :: model_reservation
  cf_entries :: "catalog_entry list"
  cf_store :: model_store
  cf_log :: "provider_call list"
  cf_unit :: nat

abbreviation cf_tenant :: "'o call_frame \<Rightarrow> string" where
  "cf_tenant F \<equiv> mb_tenant_id (mr_binding (cf_request F))"

abbreviation cf_call :: "'o call_frame \<Rightarrow> string" where
  "cf_call F \<equiv> mb_call_id (mr_binding (cf_request F))"

text \<open>A provider stays within a request when no result it returns reports more tokens than the request allows and
  than the gateway estimated.\<close>

definition within_request :: "'o gateway_env \<Rightarrow> model_request \<Rightarrow> bool" where
  "within_request env request \<longleftrightarrow>
     (\<forall>p adapter n e c r. ge_adapters env p = Some adapter \<longrightarrow> adapter n e request c = Returned r \<longrightarrow>
        mu_output_tokens (pr_usage r) \<le> mr_max_output_tokens request \<and>
        mu_input_tokens (pr_usage r) + mu_cache_read_tokens (pr_usage r) + mu_cache_write_tokens (pr_usage r)
          \<le> conservative_tokens (ge_runtime env) request)"

text \<open>The accounting holds for providers that stay within the request; the other parts hold for all providers.\<close>

definition frame_ok :: "'o call_frame \<Rightarrow> bool" where
  "frame_ok F \<longleftrightarrow>
     rs_tenant_id (cf_reservation F) = cf_tenant F \<and> rs_reservation_id (cf_reservation F) = cf_call F \<and>
     (\<forall>e \<in> set (cf_entries F). maximum_cost (ce_price e) (conservative_tokens (ge_runtime (cf_env F)) (cf_request F))
        (mr_max_output_tokens (cf_request F)) \<le> cf_unit F)"

definition call_ident :: "provider_call \<Rightarrow> string \<times> string" where
  "call_ident c = (mb_tenant_id (mr_binding (pl_request c)), pl_attempt_id c)"

definition call_permitted :: "'o call_frame \<Rightarrow> provider_call \<Rightarrow> bool" where
  "call_permitted F c \<longleftrightarrow>
     pl_request c = cf_request F \<and> pl_entry c \<in> set (cf_entries F) \<and>
     \<not> policy_changed (ge_runtime (cf_env F)) (pl_store c) (cf_tenant F) (cf_reservation F) \<and>
     ms_reservations (pl_store c) = ms_reservations (cf_store F) \<and>
     (\<exists>r. map_of (ms_records (pl_store c)) (call_ident c) = Some r \<and> mcr_completed_at r = None \<and>
        mcr_request_digest r = request_digest (ge_runtime (cf_env F)) (cf_request F) \<and> mcr_catalog_key r = entry_key (pl_entry c))"

definition calls_logged :: "'o call_frame \<Rightarrow> nat \<Rightarrow> gateway_state \<Rightarrow> bool" where
  "calls_logged F n s \<longleftrightarrow>
     (\<exists>new. gw_calls s = cf_log F @ new \<and> length new \<le> n \<and> list_all (call_permitted F) new) \<and>
     distinct (map call_ident (gw_calls s)) \<and>
     call_ident ` set (gw_calls s) \<subseteq> fst ` set (ms_records (gw_store s))"

definition books :: "'o call_frame \<Rightarrow> nat \<Rightarrow> model_store \<Rightarrow> bool" where
  "books F n st \<longleftrightarrow> store_wf st \<and> others_kept (cf_store F) (cf_tenant F) (cf_call F) st \<and>
     (within_request (cf_env F) (cf_request F) \<longrightarrow> billed_cost (call_records st (cf_tenant F) (cf_call F)) \<le>
        billed_cost (call_records (cf_store F) (cf_tenant F) (cf_call F)) + n * cf_unit F)"

definition in_call :: "'o call_frame \<Rightarrow> nat \<Rightarrow> gateway_state \<Rightarrow> bool" where
  "in_call F n s \<longleftrightarrow> frame_ok F \<and> books F n (gw_store s) \<and> settled_since (cf_store F) (gw_store s) (cf_tenant F) (cf_call F) \<and> calls_logged F n s"

definition attempt_running :: "'o call_frame \<Rightarrow> nat \<Rightarrow> string \<Rightarrow> gateway_state \<Rightarrow> bool" where
  "attempt_running F n a s \<longleftrightarrow> frame_ok F \<and> books F n (gw_store s) \<and> open_attempt (cf_store F) (gw_store s) (cf_tenant F) (cf_call F) a \<and>
     calls_logged F (Suc n) s"

text \<open>The end of a call. Errors other than a provider failure come out of the store and may leave the attempt open.\<close>

definition provider_end :: "'a result \<Rightarrow> bool" where
  "provider_end r = (case r of Inr _ \<Rightarrow> True | Inl e \<Rightarrow> (\<exists>c b d. e = ProviderInvocationError c b d))"

definition call_over :: "'o call_frame \<Rightarrow> nat \<Rightarrow> 'a result \<Rightarrow> gateway_state \<Rightarrow> bool" where
  "call_over F n r s \<longleftrightarrow> books F n (gw_store s) \<and> calls_logged F n s \<and>
     (provider_end r \<longrightarrow> settled_since (cf_store F) (gw_store s) (cf_tenant F) (cf_call F) \<and>
        ms_finalized (gw_store s) (cf_tenant F, cf_call F) \<noteq> None)"

fun attempt_post :: "'o call_frame \<Rightarrow> nat \<Rightarrow> 'o attempt_end result \<Rightarrow> gateway_state \<Rightarrow> bool" where
  "attempt_post F n (Inl e) s = call_over F n (Inl e :: 'o result) s"
| "attempt_post F n (Inr (Answer x)) s = call_over F n (Inr x) s"
| "attempt_post F n (Inr (Repair f)) s = in_call F n s"
| "attempt_post F n (Inr (NextRoute f)) s = in_call F n s"

lemma frame_state_simps [simp]:
  "in_call F n (s\<lparr>gw_tick := k\<rparr>) = in_call F n s" "in_call F n (s\<lparr>gw_circuit_failures := a\<rparr>) = in_call F n s"
  "in_call F n (s\<lparr>gw_circuit_opened := b\<rparr>) = in_call F n s"
  "attempt_running F n a' (s\<lparr>gw_tick := k\<rparr>) = attempt_running F n a' s"
  "call_over F n r (s\<lparr>gw_tick := k\<rparr>) = call_over F n r s"
  "calls_logged F n (s\<lparr>gw_tick := k\<rparr>) = calls_logged F n s"
  by (simp_all add: in_call_def attempt_running_def call_over_def calls_logged_def)

lemma books_mono: "books F n st \<Longrightarrow> n \<le> m \<Longrightarrow> books F m st"
  unfolding books_def by (meson add_left_mono le_trans mult_le_mono1)

lemma calls_logged_mono: "calls_logged F n s \<Longrightarrow> n \<le> m \<Longrightarrow> calls_logged F m s"
  unfolding calls_logged_def by (meson le_trans)

lemma call_over_mono: "call_over F n r s \<Longrightarrow> n \<le> m \<Longrightarrow> call_over F m r s"
  unfolding call_over_def using books_mono calls_logged_mono by blast

lemma calls_logged_store:
  "calls_logged F n s \<Longrightarrow> fst ` set (ms_records (gw_store s)) \<subseteq> fst ` set (ms_records st) \<Longrightarrow>
     calls_logged F n (s\<lparr>gw_store := st\<rparr>)"
  by (simp add: calls_logged_def) (meson order_trans)

section \<open>The handlers\<close>

lemma finalize_raise_over:
  assumes "in_call F n s"
  shows "wp (finalize_raise env (cf_reservation F) f) (\<lambda>r s'. \<exists>x. r = Inl x \<and> call_over F n (Inl x :: 'b result) s') s"
proof -
  have r: "rs_tenant_id (cf_reservation F) = cf_tenant F" "rs_reservation_id (cf_reservation F) = cf_call F"
    using assms by (simp_all add: in_call_def frame_ok_def)
  show ?thesis
    using assms finalize_call_fields [OF r, of "gw_store s"] finalize_call_fields(5) [OF r, of "cf_store F" "gw_store s"]
    by (simp add: finalize_raise_def finalize_now_def wp_simps call_over_def in_call_def books_def settled_since_def calls_logged_def)
qed

lemma finalize_now_over:
  assumes "in_call F n s"
  shows "wp (finalize_now env (cf_reservation F)) (\<lambda>r s'. (\<exists>u. r = Inr u) \<and> call_over F n (Inr x) s') s"
proof -
  have r: "rs_tenant_id (cf_reservation F) = cf_tenant F" "rs_reservation_id (cf_reservation F) = cf_call F"
    using assms by (simp_all add: in_call_def frame_ok_def)
  show ?thesis
    using assms finalize_call_fields [OF r, of "gw_store s"] finalize_call_fields(5) [OF r, of "cf_store F" "gw_store s"]
    by (simp add: finalize_now_def wp_simps call_over_def in_call_def books_def settled_since_def calls_logged_def)
qed

text \<open>A reconciliation of the open attempt whose cost is within the unit.\<close>

lemma reconcile_in_attempt:
  assumes "attempt_running F n a s" "within_request (cf_env F) (cf_request F) \<longrightarrow> settlement_cost m \<le> cf_unit F"
  shows "wp (on_model_store (reconcile_attempt (cf_tenant F) a m now)) (\<lambda>r s'. case r of
    Inl e \<Rightarrow> call_over F (Suc n) (Inl e :: 'b result) s'
  | Inr rec \<Rightarrow> in_call F (Suc n) s' \<and> map_of (ms_records (gw_store s')) (cf_tenant F, a) = Some rec \<and>
      mcr_billing rec = sm_billing m \<and> mcr_completed_at rec \<noteq> None) s"
  unfolding on_model_store_def wp_zoomS
proof (rule wpI)
  fix x st'
  assume call: "reconcile_attempt (cf_tenant F) a m now (gw_store s) = (x, st')"
  let ?b = "billed_cost (call_records (gw_store s) (cf_tenant F) (cf_call F))"
  have p: "frame_ok F" "books F n (gw_store s)" "open_attempt (cf_store F) (gw_store s) (cf_tenant F) (cf_call F) a" "calls_logged F (Suc n) s"
    using assms(1) by (simp_all add: attempt_running_def)
  then have st: "store_wf (gw_store s)" "others_kept (cf_store F) (cf_tenant F) (cf_call F) (gw_store s)"
    by (simp_all add: books_def)
  from reconcile_open [OF st p(3) order_refl call]
  show "case x of Inl e \<Rightarrow> call_over F (Suc n) (Inl e :: 'b result) (s\<lparr>gw_store := st'\<rparr>)
    | Inr rec \<Rightarrow> in_call F (Suc n) (s\<lparr>gw_store := st'\<rparr>) \<and> map_of (ms_records (gw_store (s\<lparr>gw_store := st'\<rparr>))) (cf_tenant F, a) = Some rec \<and>
      mcr_billing rec = sm_billing m \<and> mcr_completed_at rec \<noteq> None"
  proof (elim disjE exE conjE)
    assume "x = Inl (IntegrityFailure ''billed model outcome requires usage and cost'')" "st' = gw_store s"
    then show ?thesis
      using p(2,4) books_mono [of F n _ "Suc n"] by (simp add: call_over_def provider_end_def)
  next
    fix rec
    assume r: "x = Inr rec" "map_of (ms_records st') (cf_tenant F, a) = Some rec" "mcr_billing rec = sm_billing m" "mcr_completed_at rec \<noteq> None"
      "fst ` set (ms_records st') = fst ` set (ms_records (gw_store s))" "store_wf st'"
      "others_kept (cf_store F) (cf_tenant F) (cf_call F) st'" "settled_since (cf_store F) st' (cf_tenant F) (cf_call F)"
      "billed_cost (call_records st' (cf_tenant F) (cf_call F)) \<le> ?b + settlement_cost m"
    have "books F (Suc n) st'"
      using r(6,7,9) p(2) assms(2) unfolding books_def by auto
    moreover have "calls_logged F (Suc n) (s\<lparr>gw_store := st'\<rparr>)" by (rule calls_logged_store [OF p(4)]) (simp add: r(5))
    ultimately show ?thesis using r(1-4,8) p(1) by (simp add: in_call_def)
  qed
qed

lemma mark_failure_kept: "in_call F n s \<Longrightarrow> wp (mark_failure env t key) (\<lambda>r s'. (\<exists>u. r = Inr u) \<and> in_call F n s') s"
  unfolding mark_failure_def wp_def Let_def
  by (auto simp: op_defs now_g_def tick_def split: if_splits)

text \<open>The handler of a provider failure, from any state in which recording the failure keeps the books.\<close>

lemma handle_failure_from:
  assumes "wp (record_failure (cf_env F) (cf_tenant F) a f e usage) (\<lambda>r s'. case r of
      Inl x \<Rightarrow> call_over F n (Inl x :: 'o result) s' | Inr _ \<Rightarrow> in_call F n s') s"
  shows "wp (handle_failure (cf_env F) (cf_request F) policy (cf_reservation F) e a f usage)
    (attempt_post (F :: 'o call_frame) n) s"
  unfolding handle_failure_def Let_def
proof (rule wp_seq [OF assms], goal_cases)
  case (1 x s')
  then show ?case by simp
next
  case (2 u s')
  then have s': "in_call F n s'" by simp
  have fin: "wp (finalize_raise (cf_env F) (cf_reservation F) f) (attempt_post F n) s''" if "in_call F n s''" for s''
    by (rule wp_mono [OF finalize_raise_over [OF that, where 'b = 'o]]) auto
  have "wp (if failure_code_of f \<in> transient_codes then mark_failure (cf_env F) (cf_tenant F) (entry_key e) else returnS ())
      (\<lambda>r s''. (\<exists>u. r = Inr u) \<and> in_call F n s'') s'"
    using s' mark_failure_kept [OF s', of "cf_env F" "cf_tenant F" "entry_key e"] by (simp add: wp_returnS)
  then show ?case
    by (rule wp_seq) (auto simp: wp_returnS intro: fin)
qed

lemma record_failure_open:
  assumes "attempt_running F n a s"
    and "within_request (cf_env F) (cf_request F) \<longrightarrow> (\<forall>u. usage = Some u \<longrightarrow> actual_cost (ce_price e) u \<le> cf_unit F)"
  shows "wp (record_failure (cf_env F) (cf_tenant F) a f e usage) (\<lambda>r s'. case r of
      Inl x \<Rightarrow> call_over F (Suc n) (Inl x :: 'o result) s' | Inr _ \<Rightarrow> in_call (F :: 'o call_frame) (Suc n) s') s"
proof -
  have s1: "attempt_running F n a (s\<lparr>gw_tick := Suc (gw_tick s)\<rparr>)" using assms(1) by simp
  let ?m = "\<lparr>sm_outcome = ''failed'', sm_billing = failure_billing f, sm_usage = usage,
    sm_cost = map_option (actual_cost (ce_price e)) usage, sm_error_code = Some (failure_code_of f)\<rparr>"
  have "within_request (cf_env F) (cf_request F) \<longrightarrow> settlement_cost ?m \<le> cf_unit F"
    using assms(2) by (auto simp: settlement_cost_def split: option.splits)
  note rec = reconcile_in_attempt [OF s1 this, where 'b = 'o]
  show ?thesis
    unfolding record_failure_def wp_bindS [of "now_g _"] wp_now_g sum.case
    by (rule wp_seq [OF rec]) (auto simp: wp_returnS)
qed

text \<open>After a stale result was settled as billed, recording its failure changes nothing.\<close>

lemma record_failure_settled:
  assumes "in_call F n s" "map_of (ms_records (gw_store s)) (cf_tenant F, a) = Some r" "mcr_billing r = Billing_BILLED" "mcr_completed_at r \<noteq> None"
  shows "wp (record_failure (cf_env F) (cf_tenant F) a f e usage) (\<lambda>r s'. case r of
      Inl x \<Rightarrow> call_over F n (Inl x :: 'o result) s' | Inr _ \<Rightarrow> in_call (F :: 'o call_frame) n s') s"
proof -
  let ?s = "s\<lparr>gw_tick := Suc (gw_tick s)\<rparr>"
  have rec: "wp (on_model_store (reconcile_attempt (cf_tenant F) a m now)) (\<lambda>r s'. in_call F n s' \<and> (\<forall>x. r = Inl x \<longrightarrow> \<not> provider_end (Inl x :: 'o result))) ?s" for m now
    unfolding on_model_store_def wp_zoomS
  proof (rule wpI)
    fix x st'
    assume call: "reconcile_attempt (cf_tenant F) a m now (gw_store ?s) = (x, st')"
    then have "st' = gw_store s" using reconcile_billed [of "gw_store s" _ a r] assms(2-4) by simp
    moreover have "\<forall>e. x = Inl e \<longrightarrow> \<not> provider_end (Inl e :: 'o result)"
      using call by (auto simp: reconcile_attempt_def provider_end_def Let_def split: if_splits option.splits)
    ultimately show "in_call F n (?s\<lparr>gw_store := st'\<rparr>) \<and> (\<forall>e. x = Inl e \<longrightarrow> \<not> provider_end (Inl e :: 'o result))"
      using assms(1) by (simp add: in_call_def calls_logged_def)
  qed
  show ?thesis
    unfolding record_failure_def wp_bindS [of "now_g _"] wp_now_g sum.case
    by (rule wp_seq [OF rec]) (auto simp: wp_returnS in_call_def call_over_def)
qed

section \<open>One attempt\<close>

lemma settle_stale_kept:
  assumes "attempt_running F n a s" "within_request (cf_env F) (cf_request F) \<longrightarrow> actual_cost (ce_price e) u \<le> cf_unit F"
  shows "wp (settle_stale (cf_env F) (cf_request F) e a u) (\<lambda>r s'. case r of
      Inl x \<Rightarrow> call_over F (Suc n) (Inl x :: 'o result) s'
    | Inr _ \<Rightarrow> in_call (F :: 'o call_frame) (Suc n) s' \<and> (\<exists>rec. map_of (ms_records (gw_store s')) (cf_tenant F, a) = Some rec \<and>
        mcr_billing rec = Billing_BILLED \<and> mcr_completed_at rec \<noteq> None)) s"
proof -
  have s1: "attempt_running F n a (s\<lparr>gw_tick := k\<rparr>)" for k using assms(1) by simp
  have cost: "within_request (cf_env F) (cf_request F) \<longrightarrow> settlement_cost \<lparr>sm_outcome = ''stale'', sm_billing = Billing_BILLED,
      sm_usage = Some u, sm_cost = Some (actual_cost (ce_price e) u), sm_error_code = Some code\<rparr> \<le> cf_unit F" for code
    using assms(2) by (simp add: settlement_cost_def)
  show ?thesis
    unfolding settle_stale_def stop_code_def
    apply (simp only: wp_bindS [of "now_g _"] wp_bindS [of "cancelled_g _"] wp_bindS [of "bindS _ _"] wp_now_g wp_cancelled_g sum.case wp_returnS)
    by (rule wp_seq [OF reconcile_in_attempt [OF _ cost, where 'b = 'o]]) (use assms(1) in \<open>auto simp: wp_returnS\<close>)
qed

lemma settle_success_over:
  assumes "attempt_running F n a s" "within_request (cf_env F) (cf_request F) \<longrightarrow> actual_cost (ce_price e) u \<le> cf_unit F"
  shows "wp (bindS (settle_success (cf_env F) (cf_request F) (cf_reservation F) e a u) (\<lambda>_. returnS (Answer x)))
    (attempt_post (F :: 'o call_frame) (Suc n)) s"
proof -
  have s1: "attempt_running F n a (s\<lparr>gw_tick := k\<rparr>)" for k using assms(1) by simp
  have cost: "within_request (cf_env F) (cf_request F) \<longrightarrow> settlement_cost \<lparr>sm_outcome = ''completed'', sm_billing = Billing_BILLED,
      sm_usage = Some u, sm_cost = Some (actual_cost (ce_price e) u), sm_error_code = None\<rparr> \<le> cf_unit F"
    using assms(2) by (simp add: settlement_cost_def)
  have "wp (settle_success (cf_env F) (cf_request F) (cf_reservation F) e a u) (\<lambda>r s'. case r of
      Inl y \<Rightarrow> call_over F (Suc n) (Inl y :: 'o result) s' | Inr _ \<Rightarrow> call_over F (Suc n) (Inr x) s') s"
    unfolding settle_success_def Let_def wp_bindS [of "now_g _"] wp_now_g sum.case
  proof (rule wp_seq [OF reconcile_in_attempt [OF s1 cost, where 'b = 'o]], goal_cases)
    case (2 rec s')
    then have s2: "in_call F (Suc n) (s'\<lparr>gw_circuit_failures := f, gw_circuit_opened := g\<rparr>)" for f g by simp
    show ?case
      unfolding mark_success_def wp_bindS wp_modifyS sum.case
      by (rule wp_mono [OF finalize_now_over [OF s2, where x = x]]) auto
  qed simp
  then show ?thesis by (rule wp_seq) (auto simp: wp_returnS)
qed

lemma attempt_result_over:
  assumes "attempt_running F n a s" "within_request (cf_env F) (cf_request F) \<longrightarrow> actual_cost (ce_price e) (pr_usage r) \<le> cf_unit F"
  shows "wp (attempt_result (cf_env F) (cf_request F) policy (cf_reservation F) e a retryable r)
    (attempt_post (F :: 'o call_frame) (Suc n)) s"
  unfolding attempt_result_def
proof (rule wp_seq [where P = "\<lambda>r s'. (\<exists>b. r = Inr b) \<and> attempt_running F n a s'"], goal_cases)
  case 1
  from assms(1) show ?case by (auto simp: call_is_stale_def wp_simps)
next
  case (2 x s')
  then show ?case by simp
next
  case (3 stale s')
  then have s': "attempt_running F n a s'" by simp
  have fail: "wp (handle_failure (cf_env F) (cf_request F) policy (cf_reservation F) e a f (Some (pr_usage r))) (attempt_post F (Suc n)) s'" for f
    using record_failure_open [OF s', of "Some (pr_usage r)" e] assms(2) by (intro handle_failure_from) simp
  have bad: "wp (handle_malformed (cf_env F) (cf_request F) (cf_reservation F) e a retryable (pr_usage r)) (attempt_post F (Suc n)) s'"
    unfolding handle_malformed_def Let_def
  proof (rule wp_seq [OF record_failure_open [OF s', of "Some (pr_usage r)" e]], goal_cases)
    case 1
    from assms(2) show ?case by simp
  next
    case (3 u s'')
    then have s'': "in_call F (Suc n) s''" by simp
    have "wp (finalize_raise (cf_env F) (cf_reservation F) f) (attempt_post F (Suc n)) s''" for f
      by (rule wp_mono [OF finalize_raise_over [OF s'', where 'b = 'o]]) auto
    with s'' show ?case by (simp add: wp_returnS)
  qed simp
  have stale: "wp (bindS (settle_stale (cf_env F) (cf_request F) e a (pr_usage r)) (\<lambda>f.
      handle_failure (cf_env F) (cf_request F) policy (cf_reservation F) e a f (Some (pr_usage r)))) (attempt_post F (Suc n)) s'"
  proof (rule wp_seq [OF settle_stale_kept [OF s' assms(2)]], goal_cases)
    case (2 f s'')
    then obtain rec where "in_call F (Suc n) s''" "map_of (ms_records (gw_store s'')) (cf_tenant F, a) = Some rec"
      "mcr_billing rec = Billing_BILLED" "mcr_completed_at rec \<noteq> None" by auto
    from record_failure_settled [OF this] show ?case by (rule handle_failure_from)
  qed simp
  from fail bad stale settle_success_over [OF s' assms(2)] show ?case
    by (simp split: sum.split option.split)
qed

lemma invoke_provider_kept:
  assumes "attempt_running F n a s" "\<exists>new. gw_calls s = cf_log F @ new \<and> length new \<le> n"
    and "call_ident c \<notin> call_ident ` set (gw_calls s)"
    and "call_permitted F c" "c = \<lparr>pl_attempt_id = a, pl_entry = e, pl_request = cf_request F, pl_store = gw_store s\<rparr>"
  shows "wp (invoke_provider (cf_env F) a e (cf_request F)) (\<lambda>r s'. case r of
    Inl _ \<Rightarrow> False
  | Inr (Inl _) \<Rightarrow> attempt_running F n a s'
  | Inr (Inr res) \<Rightarrow> attempt_running F n a s' \<and> (\<exists>p adapter k cr. ge_adapters (cf_env F) p = Some adapter \<and> adapter k e (cf_request F) cr = Returned res)) s"
proof (cases "ge_adapters (cf_env F) (ce_provider e)")
  case None
  with assms(1) show ?thesis by (simp add: invoke_provider_def wp_simps)
next
  case (Some adapter)
  have rec: "call_ident c \<in> fst ` set (ms_records (gw_store s))"
    using assms(4,5) by (auto simp: call_permitted_def dest!: map_of_SomeD intro: rev_image_eqI)
  have logged: "calls_logged F (Suc n) (s\<lparr>gw_calls := gw_calls s @ [c]\<rparr>)"
    using assms(1-4) rec by (auto simp: attempt_running_def calls_logged_def)
  have "attempt_running F n a (s\<lparr>gw_calls := gw_calls s @ [c], gw_tick := k, gw_store := fold replace_model_policy ps (gw_store s)\<rparr>)" for k ps
    using assms(1) logged by (simp add: attempt_running_def calls_logged_def books_def open_attempt_def)
  then show ?thesis
    using Some assms(5)
    by (auto simp: invoke_provider_def wp_simps adapter_failure_def split: adapter_outcome.split)
qed

text \<open>What follows the recorded intent: the provider call and what is made of its answer.\<close>

definition send_attempt ::
  "'o call_frame \<Rightarrow> model_policy \<Rightarrow> catalog_entry \<Rightarrow> string \<Rightarrow> bool \<Rightarrow> (gateway_state, 'o attempt_end) op" where
  "send_attempt F policy e a retryable =
     bindS (invoke_provider (cf_env F) a e (cf_request F)) (\<lambda>answer. case answer of
       Inl f \<Rightarrow> handle_failure (cf_env F) (cf_request F) policy (cf_reservation F) e a f None
     | Inr r \<Rightarrow> attempt_result (cf_env F) (cf_request F) policy (cf_reservation F) e a retryable r)"

lemma send_attempt_over:
  assumes s: "attempt_running F n a s" and new: "\<exists>new. gw_calls s = cf_log F @ new \<and> length new \<le> n"
    and c: "call_ident c \<notin> call_ident ` set (gw_calls s)" "call_permitted F c"
      "c = \<lparr>pl_attempt_id = a, pl_entry = e, pl_request = cf_request F, pl_store = gw_store s\<rparr>"
  shows "wp (send_attempt F policy e a retryable) (attempt_post F (Suc n)) s"
  unfolding send_attempt_def
proof (rule wp_seq [OF invoke_provider_kept [OF s new c]], goal_cases)
  case (2 answer s3)
  show ?case
  proof (cases answer)
    case (Inl f)
    with 2 have "attempt_running F n a s3" by simp
    from handle_failure_from [OF record_failure_open [OF this, of None e f]] Inl show ?thesis by simp
  next
    case (Inr res)
    with 2 have s3: "attempt_running F n a s3" and ret: "\<exists>p adapter k cr. ge_adapters (cf_env F) p = Some adapter \<and>
      adapter k e (cf_request F) cr = Returned res" by simp_all
    have "e \<in> set (cf_entries F)" "frame_ok F" using c(2,3) s by (simp_all add: call_permitted_def attempt_running_def)
    then have "actual_cost (ce_price e) (pr_usage res) \<le> cf_unit F" if "within_request (cf_env F) (cf_request F)"
      using that ret actual_within_maximum [of "pr_usage res" "mr_max_output_tokens (cf_request F)"
        "conservative_tokens (ge_runtime (cf_env F)) (cf_request F)" "ce_price e"]
      unfolding within_request_def frame_ok_def by (meson le_trans)
    with Inr show ?thesis using attempt_result_over [OF s3] by auto
  qed
qed simp

lemma append_then_send:
  assumes s: "in_call F n s" and e: "e \<in> set (cf_entries F)"
    and same: "\<not> policy_changed (ge_runtime (cf_env F)) (gw_store s) (cf_tenant F) (cf_reservation F)"
    and call: "append_requested (ge_runtime (cf_env F)) (cf_reservation F) (cf_request F) e a now (gw_store s) = (Inr rec, st')"
  shows "wp (send_attempt F policy e a retryable) (attempt_post F (Suc n)) (s\<lparr>gw_store := st'\<rparr>)"
proof -
  have p: "frame_ok F" "store_wf (gw_store s)" "others_kept (cf_store F) (cf_tenant F) (cf_call F) (gw_store s)"
    "settled_since (cf_store F) (gw_store s) (cf_tenant F) (cf_call F)" "calls_logged F n s"
    using s by (simp_all add: in_call_def books_def)
  have r: "map_of (ms_records (gw_store s)) (cf_tenant F, a) = None" "map_of (ms_records st') (cf_tenant F, a) = Some rec"
    "ms_records st' = ms_records (gw_store s) @ [((cf_tenant F, a), rec)]"
    "mcr_request_digest rec = request_digest (ge_runtime (cf_env F)) (cf_request F)" "mcr_catalog_key rec = entry_key e"
    "mcr_completed_at rec = None" "ms_policies st' = ms_policies (gw_store s)" "store_wf st'"
    "others_kept (cf_store F) (cf_tenant F) (cf_call F) st'" "open_attempt (cf_store F) st' (cf_tenant F) (cf_call F) a"
    "billed_cost (call_records st' (cf_tenant F) (cf_call F)) \<le> billed_cost (call_records (gw_store s) (cf_tenant F) (cf_call F))"
    using append_requested_spec [OF p(2-4) order_refl refl refl call] by auto
  let ?s2 = "s\<lparr>gw_store := st'\<rparr>"
  let ?c = "\<lparr>pl_attempt_id = a, pl_entry = e, pl_request = cf_request F, pl_store = gw_store ?s2\<rparr>"
  have "calls_logged F (Suc n) ?s2"
    by (rule calls_logged_store [OF calls_logged_mono [OF p(5)]]) (auto simp: r(3))
  moreover have "books F n st'" using s r(8,9,11) unfolding in_call_def books_def by (meson le_trans)
  ultimately have s2: "attempt_running F n a ?s2" using p(1) r(10) by (simp add: attempt_running_def)
  have ident: "call_ident ?c = (cf_tenant F, a)" by (simp add: call_ident_def)
  have "call_ident ?c \<notin> call_ident ` set (gw_calls ?s2)"
    using p(5) r(1) unfolding ident by (auto simp: calls_logged_def map_of_eq_None_iff)
  moreover have "call_permitted F ?c"
    using same r e unfolding call_permitted_def ident
    by (simp add: policy_changed_def current_model_policy_def others_kept_def)
  moreover have "\<exists>new. gw_calls ?s2 = cf_log F @ new \<and> length new \<le> n" using p(5) by (auto simp: calls_logged_def)
  ultimately show ?thesis using send_attempt_over [OF s2] by blast
qed

lemma append_refused:
  assumes "in_call F n s"
    and "append_requested (ge_runtime (cf_env F)) (cf_reservation F) (cf_request F) e a now (gw_store s) = (Inl err, st')"
  shows "call_over F (Suc n) (Inl err :: 'o result) (s\<lparr>gw_store := st'\<rparr>)"
proof -
  have "st' = gw_store s" "\<not> provider_end (Inl err :: 'o result)"
    using assms(2)
    by (auto simp: append_requested_def make_call_record_def provider_end_def Let_def split: if_splits option.splits sum.splits)
  with assms(1) books_mono [of F n _ "Suc n"] calls_logged_mono [of F n _ "Suc n"] show ?thesis
    by (simp add: call_over_def in_call_def)
qed

lemma attempt_call_over:
  assumes "in_call F n s" "e \<in> set (cf_entries F)"
  shows "wp (attempt_call (cf_env F) (cf_request F) policy (cf_reservation F) e i j) (attempt_post (F :: 'o call_frame) (Suc n)) s"
  unfolding attempt_call_def Let_def send_attempt_def [symmetric]
proof (rule wp_seq [where P = "\<lambda>r s'. (\<exists>b. r = Inr b \<and>
    (\<not> b \<longrightarrow> \<not> policy_changed (ge_runtime (cf_env F)) (gw_store s') (cf_tenant F) (cf_reservation F))) \<and> in_call F n s'"], goal_cases)
  case 1
  from assms(1) show ?case by (auto simp: call_is_stale_def wp_simps)
next
  case (2 x s')
  then show ?case by simp
next
  case (3 stale s')
  then have s': "in_call F n s'" by simp
  show ?case
  proof (cases stale)
    case True
    have "wp (bindS (finalize_now (cf_env F) (cf_reservation F)) (\<lambda>_. bindS (stop_code (cf_env F))
        (\<lambda>code. raiseS (ProviderInvocationError code False Billing_NOT_BILLED)))) (attempt_post F (Suc n)) s'"
      by (rule wp_seq [OF finalize_now_over [OF s', where x = "undefined :: 'o"]])
        (auto simp: stop_code_def wp_simps call_over_def provider_end_def intro: books_mono calls_logged_mono)
    with True show ?thesis by simp
  next
    case False
    with 3 have same: "\<not> policy_changed (ge_runtime (cf_env F)) (gw_store s') (cf_tenant F) (cf_reservation F)" by blast
    have s1: "in_call F n (s'\<lparr>gw_tick := Suc (gw_tick s')\<rparr>)" using s' by simp
    let ?a = "attempt_id_of (cf_request F) i j"
    have "wp (bindS (on_model_store (append_requested (ge_runtime (cf_env F)) (cf_reservation F) (cf_request F) e ?a (ge_clock (cf_env F) (gw_tick s'))))
        (\<lambda>_. send_attempt F policy e ?a (j + 1 < 1 + mq_repair_attempts policy)))
        (attempt_post F (Suc n)) (s'\<lparr>gw_tick := Suc (gw_tick s')\<rparr>)"
      unfolding on_model_store_def wp_bindS [of "zoomS _ _ _"] wp_zoomS
      by (rule wpI) (use append_then_send [OF s1 assms(2)] append_refused [OF s1] same in \<open>auto split: sum.split\<close>)
    then show ?thesis using False by (simp only: wp_bindS [of "now_g _"] wp_now_g sum.case if_False)
  qed
qed

text \<open>The loops over this attempt, for every frame.\<close>

interpretation call_loop: attempt_loop "cf_env F" "cf_request F" "cf_policy F" "cf_reservation F" "cf_entries F" "in_call F" "call_over F"
  for F :: "'o call_frame"
proof unfold_locales
  fix n s e i j
  assume "in_call F n s" "e \<in> set (cf_entries F)"
  from attempt_call_over [OF this]
  show "wp (attempt_call (cf_env F) (cf_request F) (cf_policy F) (cf_reservation F) e i j) (\<lambda>r s'. case r of
      Inl x \<Rightarrow> call_over F (Suc n) (Inl x :: 'o result) s' | Inr (Answer a) \<Rightarrow> call_over F (Suc n) (Inr a) s'
    | Inr (Repair _) \<Rightarrow> in_call F (Suc n) s' | Inr (NextRoute _) \<Rightarrow> in_call F (Suc n) s') s"
    by (rule wp_mono) (auto split: sum.split attempt_end.split)
next
  fix n s f
  assume "in_call F n s"
  from finalize_raise_over [OF this, where 'b = 'o] show "wp (finalize_raise (cf_env F) (cf_reservation F) f) (call_over F n :: 'o result \<Rightarrow> _) s"
    by (rule wp_mono) auto
qed (auto intro: call_over_mono)

end
