(* ===== verification/Model_Reachable.thy ===== *)
theory Model_Reachable
  imports Model_Call
begin

text \<open>
  Whole calls and histories of calls: what a call of \<open>generate\<close> did before its reservation, that every call
  after its reservation is a frame of the loop invariant, and the gateway states that any sequence of
  calls and policy changes reaches.
\<close>

section \<open>Before the reservation\<close>

definition quiet :: "gateway_state \<Rightarrow> gateway_state \<Rightarrow> bool" where
  "quiet s s' \<longleftrightarrow> gw_store s' = gw_store s \<and> gw_calls s' = gw_calls s"

lemma quiet_trans: "quiet s s' \<Longrightarrow> quiet s' s'' \<Longrightarrow> quiet s s''"
  by (simp add: quiet_def)

text \<open>A circuit that was open is closed again only once its duration has passed on the clock.\<close>

definition circuit_elapsed :: "'o gateway_env \<Rightarrow> string \<Rightarrow> gateway_state \<Rightarrow> bool" where
  "circuit_elapsed env k s \<longleftrightarrow>
     (\<forall>opened. gw_circuit_opened s k = Some opened \<longrightarrow> (\<exists>n. opened + ge_circuit_duration env \<le> ge_clock env n))"

lemma circuit_is_open_cases:
  assumes "circuit_is_open env t key s = (r, s')"
  obtains b where "r = Inr b" "quiet s s'" "gw_rate_windows s' = gw_rate_windows s"
    "\<not> b \<Longrightarrow> circuit_elapsed env (circuit_key t key) s"
    "\<And>k. circuit_elapsed env k s' \<Longrightarrow> circuit_elapsed env k s"
proof (cases "gw_circuit_opened s (circuit_key t key)")
  case None
  with assms have "r = Inr False" "s' = s" by (auto simp: circuit_is_open_def)
  with None that [of False] show ?thesis by (simp add: quiet_def circuit_elapsed_def)
next
  case (Some opened)
  show ?thesis
  proof (cases "opened + ge_circuit_duration env \<le> ge_clock env (gw_tick s)")
    case True
    with Some assms have "r = Inr False" "s' = s\<lparr>gw_tick := Suc (gw_tick s),
        gw_circuit_opened := (gw_circuit_opened s)(circuit_key t key := None),
        gw_circuit_failures := (gw_circuit_failures s)(circuit_key t key := 0)\<rparr>"
      by (auto simp: circuit_is_open_def op_defs now_g_def tick_def)
    with Some True show ?thesis by (intro that [of False]) (auto simp: quiet_def circuit_elapsed_def split: if_splits)
  next
    case False
    with Some assms have "r = Inr True" "s' = s\<lparr>gw_tick := Suc (gw_tick s)\<rparr>"
      by (auto simp: circuit_is_open_def op_defs now_g_def tick_def)
    then show ?thesis by (intro that [of True]) (auto simp: quiet_def circuit_elapsed_def)
  qed
qed

lemma closed_entries_spec:
  assumes "closed_entries env t es s = (r, s')"
  shows "\<exists>xs. r = Inr xs \<and> set xs \<subseteq> set es \<and> length xs \<le> length es \<and> quiet s s' \<and> gw_rate_windows s' = gw_rate_windows s \<and>
    (\<forall>e \<in> set xs. circuit_elapsed env (circuit_key t (entry_key e)) s) \<and>
    (\<forall>k. circuit_elapsed env k s' \<longrightarrow> circuit_elapsed env k s)"
  using assms
proof (induction es arbitrary: s r s')
  case Nil
  then show ?case by (simp add: returnS_def quiet_def)
next
  case (Cons e es)
  obtain r1 s1 where c1: "circuit_is_open env t (entry_key e) s = (r1, s1)" by force
  obtain r2 s2 where c2: "closed_entries env t es s1 = (r2, s2)" by force
  from c1 obtain b where b: "r1 = Inr b" "quiet s s1" "gw_rate_windows s1 = gw_rate_windows s"
    "\<not> b \<Longrightarrow> circuit_elapsed env (circuit_key t (entry_key e)) s" "\<And>k. circuit_elapsed env k s1 \<Longrightarrow> circuit_elapsed env k s"
    by (rule circuit_is_open_cases) blast
  from Cons.IH [OF c2] obtain xs where xs: "r2 = Inr xs" "set xs \<subseteq> set es" "length xs \<le> length es" "quiet s1 s2"
    "gw_rate_windows s2 = gw_rate_windows s1" "\<forall>e \<in> set xs. circuit_elapsed env (circuit_key t (entry_key e)) s1"
    "\<forall>k. circuit_elapsed env k s2 \<longrightarrow> circuit_elapsed env k s1" by blast
  have "r = Inr (if b then xs else e # xs)" "s' = s2"
    using Cons.prems c1 c2 b(1) xs(1) by (simp_all add: bindS_def returnS_def)
  with b xs quiet_trans [OF b(2) xs(4)] show ?case by auto
qed

lemma check_rate_quiet: "check_rate env t s = (r, s') \<Longrightarrow> quiet s s'"
  by (auto simp: check_rate_def op_defs now_g_def tick_def quiet_def Let_def split: if_splits)

section \<open>Eligible entries\<close>

lemma eligible_entries_mem:
  assumes "eligible_entries rt st request policy = Inr es" "e \<in> set es"
  shows "\<exists>route \<in> set (mq_routes policy). find_catalog_entry st (mb_tenant_id (mr_binding request)) (route_key route) = Some e \<and>
    entry_eligible request policy (conservative_tokens rt request) route e" "conservative_tokens rt request \<le> mq_maximum_input_tokens policy"
proof -
  from assms(1) have es: "es = List.map_filter (route_entry st request policy (conservative_tokens rt request)) (mq_routes policy)"
    and n: "conservative_tokens rt request \<le> mq_maximum_input_tokens policy"
    by (auto simp: eligible_entries_def Let_def)
  from assms(2) obtain route where "route \<in> set (mq_routes policy)" "route_entry st request policy (conservative_tokens rt request) route = Some e"
    unfolding es map_filter_def by auto
  then show "\<exists>route \<in> set (mq_routes policy). find_catalog_entry st (mb_tenant_id (mr_binding request)) (route_key route) = Some e \<and>
    entry_eligible request policy (conservative_tokens rt request) route e"
    by (auto simp: route_entry_def split: option.splits if_splits)
  from n show "conservative_tokens rt request \<le> mq_maximum_input_tokens policy" .
qed

section \<open>The reservation\<close>

definition reservations_wf :: "model_store \<Rightarrow> bool" where
  "reservations_wf st \<longleftrightarrow> distinct (map fst (ms_reservations st)) \<and>
     (\<forall>(k, r) \<in> set (ms_reservations st). k = (rs_tenant_id r, rs_reservation_id r))"

definition tenant_limit :: "model_store \<Rightarrow> string \<Rightarrow> int" where
  "tenant_limit st t = (case ms_limits st t of None \<Rightarrow> 0 | Some l \<Rightarrow> l)"

definition newly_reserved :: "model_store \<Rightarrow> model_reservation \<Rightarrow> nat \<Rightarrow> model_store \<Rightarrow> bool" where
  "newly_reserved st res cost st' \<longleftrightarrow>
     map_of (ms_reservations st) (rs_tenant_id res, rs_reservation_id res) = None \<and> rs_reserved_cost res = cost \<and>
     ms_reservations st' = ms_reservations st @ [((rs_tenant_id res, rs_reservation_id res), res)] \<and>
     int (tenant_consumed st (rs_tenant_id res) + cost) \<le> tenant_limit st (rs_tenant_id res)"

lemma reserve_model_cases:
  assumes "reserve_model rt request policy n cost now st = (x, st')" "reservations_wf st"
  obtains (refused) e where "x = Inl e" "st' = st" "\<not> provider_end x"
  | (reserved) res where "x = Inr res" "rs_tenant_id res = mb_tenant_id (mr_binding request)"
      "rs_reservation_id res = mb_call_id (mr_binding request)" "rs_requested_input_tokens res = n"
      "rs_policy_id res = mq_policy_id policy" "rs_policy_revision res = mq_revision policy"
      "rs_policy_digest res = model_policy_digest rt policy"
      "ms_records st' = ms_records st" "ms_finalized st' = ms_finalized st" "ms_policies st' = ms_policies st"
      "ms_catalog st' = ms_catalog st" "ms_limits st' = ms_limits st" "reservations_wf st'"
      "map_of (ms_reservations st') (mb_tenant_id (mr_binding request), mb_call_id (mr_binding request)) = Some res"
      "st' = st \<or> newly_reserved st res cost st'"
proof (cases "map_of (ms_reservations st) (mb_tenant_id (mr_binding request), mb_call_id (mr_binding request))")
  case (Some res)
  have "rs_tenant_id res = mb_tenant_id (mr_binding request)" "rs_reservation_id res = mb_call_id (mr_binding request)"
    using assms(2) map_of_SomeD [OF Some] by (auto simp: reservations_wf_def)
  with Some assms show ?thesis
    by (cases x) (auto simp: reserve_model_def Let_def provider_end_def split: if_splits intro: refused reserved)
next
  case None
  note p = assms(1) [unfolded reserve_model_def Let_def None option.case make_reservation_def, simplified]
  show ?thesis
  proof (cases x)
    case (Inl e)
    with p show ?thesis by (intro refused [of e]) (auto simp: provider_end_def split: if_splits)
  next
    case (Inr res)
    with p None have res: "rs_tenant_id res = mb_tenant_id (mr_binding request)" "rs_reservation_id res = mb_call_id (mr_binding request)"
      "rs_requested_input_tokens res = n" "rs_policy_id res = mq_policy_id policy" "rs_policy_revision res = mq_revision policy"
      "rs_policy_digest res = model_policy_digest rt policy" "rs_reserved_cost res = cost"
      and st': "st' = st\<lparr>ms_reservations := ms_reservations st @ [((mb_tenant_id (mr_binding request), mb_call_id (mr_binding request)), res)]\<rparr>"
      and lim: "int (tenant_consumed st (mb_tenant_id (mr_binding request)) + cost) \<le> tenant_limit st (mb_tenant_id (mr_binding request))"
      by (auto simp: update_absent tenant_limit_def split: if_splits)
    have "reservations_wf st'"
      using assms(2) None res unfolding reservations_wf_def st' by (auto simp: map_of_eq_None_iff)
    with Inr res st' lim None show ?thesis
      by (intro reserved [of res]) (simp_all add: newly_reserved_def map_add_def)
  qed
qed

section \<open>A whole call\<close>

definition gateway_wf :: "gateway_state \<Rightarrow> bool" where
  "gateway_wf s \<longleftrightarrow> store_wf (gw_store s) \<and> reservations_wf (gw_store s) \<and>
     distinct (map call_ident (gw_calls s)) \<and> call_ident ` set (gw_calls s) \<subseteq> fst ` set (ms_records (gw_store s)) \<and>
     (\<forall>r \<in> snd ` set (ms_records (gw_store s)). (mcr_tenant_id r, mcr_call_id r) \<in> fst ` set (ms_reservations (gw_store s))) \<and>
     dom (ms_finalized (gw_store s)) \<subseteq> fst ` set (ms_reservations (gw_store s))"

definition entry_maximum :: "runtime \<Rightarrow> model_request \<Rightarrow> catalog_entry list \<Rightarrow> nat" where
  "entry_maximum rt request entries =
     Max ((\<lambda>e. maximum_cost (ce_price e) (conservative_tokens rt request) (mr_max_output_tokens request)) ` set entries)"

definition attempt_bound :: "'o call_frame \<Rightarrow> nat" where
  "attempt_bound F = length (cf_entries F) * (1 + mq_repair_attempts (cf_policy F))"

text \<open>A frame that belongs to a call made in a state.\<close>

definition frame_of :: "'o gateway_env \<Rightarrow> model_request \<Rightarrow> gateway_state \<Rightarrow> 'o call_frame \<Rightarrow> bool" where
  "frame_of env request s F \<longleftrightarrow>
     cf_env F = env \<and> cf_request F = request \<and> cf_log F = gw_calls s \<and>
     require_policy (gw_store s) request = Inr (cf_policy F) \<and>
     (\<exists>es. eligible_entries (ge_runtime env) (gw_store s) request (cf_policy F) = Inr es \<and>
        set (cf_entries F) \<subseteq> set es \<and> length (cf_entries F) \<le> length es) \<and>
     cf_entries F \<noteq> [] \<and>
     (\<forall>e \<in> set (cf_entries F). circuit_elapsed env (circuit_key (cf_tenant F) (entry_key e)) s) \<and>
     (\<exists>now. reserve_model (ge_runtime env) request (cf_policy F) (conservative_tokens (ge_runtime env) request)
        (reservation_cost (ge_runtime env) request (cf_policy F) (cf_entries F)) now (gw_store s) = (Inr (cf_reservation F), cf_store F)) \<and>
     cf_unit F = entry_maximum (ge_runtime env) request (cf_entries F)"

lemma frame_starts:
  assumes wf: "gateway_wf s" and F: "frame_of env request s F" and s1: "gw_store s1 = cf_store F" "gw_calls s1 = gw_calls s"
  shows "in_call F 0 s1"
proof -
  let ?st = "gw_store s"
  have "reservations_wf ?st" using wf by (simp add: gateway_wf_def)
  from F obtain now where c: "reserve_model (ge_runtime env) request (cf_policy F) (conservative_tokens (ge_runtime env) request)
      (reservation_cost (ge_runtime env) request (cf_policy F) (cf_entries F)) now ?st = (Inr (cf_reservation F), cf_store F)"
    and f: "cf_env F = env" "cf_request F = request" "cf_log F = gw_calls s" "cf_unit F = entry_maximum (ge_runtime env) request (cf_entries F)"
    by (auto simp: frame_of_def)
  from c \<open>reservations_wf ?st\<close> have r: "rs_tenant_id (cf_reservation F) = cf_tenant F" "rs_reservation_id (cf_reservation F) = cf_call F"
    "ms_records (cf_store F) = ms_records ?st"
    by (cases rule: reserve_model_cases; simp add: f(2))+
  have "frame_ok F" using r(1,2) by (simp add: frame_ok_def f entry_maximum_def)
  moreover have "store_wf (cf_store F)" using wf r(3) by (simp add: gateway_wf_def store_wf_def)
  moreover have "calls_logged F 0 s1"
    using wf by (simp add: calls_logged_def f(3) s1 r(3) gateway_wf_def)
  ultimately show ?thesis
    by (simp add: in_call_def books_def s1 others_kept_def settled_since_def)
qed

definition call_ends :: "'o gateway_env \<Rightarrow> model_request \<Rightarrow> gateway_state \<Rightarrow> 'o result \<Rightarrow> gateway_state \<Rightarrow> bool" where
  "call_ends env request s r s' \<longleftrightarrow>
     (\<exists>e. r = Inl e \<and> quiet s s') \<or> (\<exists>F. frame_of env request s F \<and> call_over F (attempt_bound F) r s')"

lemma route_loop_ends:
  assumes wf: "gateway_wf s" and F: "frame_of env request s F" and s2: "gw_store s2 = cf_store F" "gw_calls s2 = gw_calls s"
  shows "wp (route_loop env request (cf_policy F) (cf_reservation F) 1 (cf_entries F) []) (call_ends env request s) s2"
proof -
  have f: "cf_env F = env" "cf_request F = request" using F by (simp_all add: frame_of_def)
  have "wp (route_loop env request (cf_policy F) (cf_reservation F) 1 (cf_entries F) []) (call_over F (attempt_bound F)) s2"
    using call_loop.routes [OF frame_starts [OF wf F s2] order_refl, of 1 "[]"]
    by (simp add: f attempt_bound_def attempt_indices_def)
  then show ?thesis by (rule wp_mono) (use F in \<open>auto simp: call_ends_def\<close>)
qed

text \<open>The part of the call from the reservation on.\<close>

definition reserved_call ::
  "'o gateway_env \<Rightarrow> model_request \<Rightarrow> model_policy \<Rightarrow> catalog_entry list \<Rightarrow> (gateway_state, 'o) op" where
  "reserved_call env request policy entries =
     bindS (now_g env) (\<lambda>now.
     bindS (on_model_store (reserve_model (ge_runtime env) request policy (conservative_tokens (ge_runtime env) request)
                        (reservation_cost (ge_runtime env) request policy entries) now)) (\<lambda>reservation.
     route_loop env request policy reservation 1 entries []))"

lemma reserved_call_ends:
  assumes wf: "gateway_wf s" and q: "quiet s s2" and p: "require_policy (gw_store s) request = Inr policy"
    and es: "eligible_entries (ge_runtime env) (gw_store s) request policy = Inr es"
    and sub: "set entries \<subseteq> set es" "length entries \<le> length es" "entries \<noteq> []"
      "\<forall>e \<in> set entries. circuit_elapsed env (circuit_key (mb_tenant_id (mr_binding request)) (entry_key e)) s"
  shows "wp (reserved_call env request policy entries) (call_ends env request s) s2"
  unfolding reserved_call_def wp_bindS [of "now_g _"] wp_now_g sum.case on_model_store_def wp_bindS [of "zoomS _ _ _"] wp_zoomS
proof (rule wpI)
  fix x st'
  let ?rt = "ge_runtime env" and ?now = "ge_clock env (gw_tick s2)" and ?s3 = "s2\<lparr>gw_tick := Suc (gw_tick s2)\<rparr>"
  assume call: "reserve_model ?rt request policy (conservative_tokens ?rt request) (reservation_cost ?rt request policy entries)
    ?now (gw_store ?s3) = (x, st')"
  show "case x of Inl e \<Rightarrow> call_ends env request s (Inl e) (?s3\<lparr>gw_store := st'\<rparr>)
    | Inr res \<Rightarrow> wp (route_loop env request policy res 1 entries []) (call_ends env request s) (?s3\<lparr>gw_store := st'\<rparr>)"
  proof (cases x)
    case (Inl e)
    have "reservations_wf (gw_store ?s3)" using wf q by (simp add: gateway_wf_def quiet_def)
    with call Inl have "st' = gw_store s2" by (auto elim: reserve_model_cases)
    with Inl q show ?thesis by (simp add: quiet_def call_ends_def)
  next
    case (Inr res)
    define F where "F = \<lparr>cf_env = env, cf_request = request, cf_policy = policy, cf_reservation = res, cf_entries = entries,
      cf_store = st', cf_log = gw_calls s, cf_unit = entry_maximum ?rt request entries\<rparr>"
    have "frame_of env request s F"
      using call Inr q p es sub unfolding frame_of_def F_def by (auto simp: quiet_def intro!: exI [of _ ?now])
    from route_loop_ends [OF wf this, of "?s3\<lparr>gw_store := st'\<rparr>"] Inr q show ?thesis by (simp add: F_def quiet_def)
  qed
qed

lemma generate_admitted_ends:
  assumes wf: "gateway_wf s"
  shows "wp (generate_admitted env request) (call_ends env request s) s"
proof -
  let ?rt = "ge_runtime env" and ?t = "mb_tenant_id (mr_binding request)"
  let ?rest = "\<lambda>policy entries. bindS (requireS (entries \<noteq> []) (ProviderInvocationError Code_CIRCUIT_OPEN True Billing_NOT_BILLED)) (\<lambda>_.
      bindS (check_rate env ?t) (\<lambda>_. reserved_call env request policy entries))"
  have rest: "wp (?rest policy entries) (call_ends env request s) s1"
    if q: "quiet s s1" and p: "require_policy (gw_store s) request = Inr policy"
      and es: "eligible_entries ?rt (gw_store s) request policy = Inr es"
      and sub: "set entries \<subseteq> set es" "length entries \<le> length es"
        "\<forall>e \<in> set entries. circuit_elapsed env (circuit_key ?t (entry_key e)) s" for s1 policy es entries
  proof (cases "entries = []")
    case True
    then show ?thesis using q by (simp add: wp_simps call_ends_def)
  next
    case False
    have "wp (bindS (check_rate env ?t) (\<lambda>_. reserved_call env request policy entries)) (call_ends env request s) s1"
    proof (rule wp_seq [where P = "\<lambda>r s''. quiet s s''"])
      show "wp (check_rate env ?t) (\<lambda>r s''. quiet s s'') s1"
        by (rule wpI) (blast intro: quiet_trans [OF q] dest: check_rate_quiet)
    qed (use reserved_call_ends [OF wf _ p es sub(1,2) False sub(3)] in \<open>auto simp: call_ends_def\<close>)
    with False show ?thesis by (simp add: wp_bindS [of "requireS _ _"] wp_requireS)
  qed
  have closed: "wp (bindS (closed_entries env ?t es) (?rest policy)) (call_ends env request s) s"
    if "require_policy (gw_store s) request = Inr policy" "eligible_entries ?rt (gw_store s) request policy = Inr es" for policy es
  proof (rule wp_seq [where P = "\<lambda>r s'. \<exists>xs. r = Inr xs \<and> set xs \<subseteq> set es \<and> length xs \<le> length es \<and> quiet s s' \<and>
      (\<forall>e \<in> set xs. circuit_elapsed env (circuit_key ?t (entry_key e)) s)"])
    show "wp (closed_entries env ?t es) (\<lambda>r s'. \<exists>xs. r = Inr xs \<and> set xs \<subseteq> set es \<and> length xs \<le> length es \<and> quiet s s' \<and>
        (\<forall>e \<in> set xs. circuit_elapsed env (circuit_key ?t (entry_key e)) s)) s"
      by (rule wpI, drule closed_entries_spec) blast
  qed (use rest [OF _ that] in auto)
  show ?thesis
    unfolding generate_admitted_def Let_def reserved_call_def [symmetric]
      wp_bindS [of "getS _"] wp_getS wp_bindS [of "liftS _"] wp_liftS sum.case
    by (auto simp: call_ends_def [of _ _ _ "Inl _"] quiet_def intro!: closed split: sum.split)
qed

lemma generate_ends:
  fixes env :: "'o gateway_env"
  assumes wf: "gateway_wf s" and call: "generate env request s = (r, s')"
  shows "call_ends env request s r s'"
proof -
  let ?s1 = "s\<lparr>gw_tick := Suc (gw_tick s)\<rparr>"
  consider "r = Inl (ProviderInvocationError Code_CANCELLED False Billing_NOT_BILLED)" "s' = ?s1"
    | "r = Inl (ProviderInvocationError Code_RATE_LIMITED True Billing_NOT_BILLED)" "s' = ?s1"
    | s2 where "generate_admitted env request (?s1\<lparr>gw_available := gw_available s - 1\<rparr>) = (r, s2)"
        "s' = s2\<lparr>gw_available := gw_available s2 + 1\<rparr>"
    using call by (auto simp: generate_def bindS_def cancelled_g_def tick_def raiseS_def split: if_splits prod.splits)
  then show ?thesis
  proof cases
    case (3 s2)
    let ?s0 = "?s1\<lparr>gw_available := gw_available s - 1\<rparr>"
    have "gateway_wf ?s0" using wf by (simp add: gateway_wf_def)
    from wpD [OF generate_admitted_ends [OF this] 3(1)] have ends: "call_ends env request ?s0 r s2" .
    have "frame_of env request ?s0 F = frame_of env request s F" for F :: "'o call_frame"
      by (simp add: frame_of_def circuit_elapsed_def)
    moreover have "call_over F n r (s2\<lparr>gw_available := k\<rparr>) = call_over F n r s2" for F :: "'o call_frame" and n k
      by (simp add: call_over_def calls_logged_def)
    ultimately show ?thesis using ends 3(2) by (simp add: call_ends_def quiet_def)
  qed (simp_all add: call_ends_def quiet_def)
qed

section \<open>Histories\<close>

text \<open>The states a gateway reaches by calls that satisfy a condition, each with clock readings, adapters and
  cancellations of its own, and by policy changes.\<close>

inductive gateway_reachable ::
  "runtime \<Rightarrow> ('o gateway_env \<Rightarrow> model_request \<Rightarrow> gateway_state \<Rightarrow> bool) \<Rightarrow> gateway_state \<Rightarrow> bool" for rt ok where
  gateway_start: "make_gateway (make_model_store policies catalog limits) concurrency rate = Inr s \<Longrightarrow> gateway_reachable rt ok s"
| gateway_call: "gateway_reachable rt ok s \<Longrightarrow> ge_runtime env = rt \<Longrightarrow> ok env request s \<Longrightarrow>
    generate env request s = (r, s') \<Longrightarrow> gateway_reachable rt ok s'"
| gateway_replace: "gateway_reachable rt ok s \<Longrightarrow> gateway_reachable rt ok (s\<lparr>gw_store := replace_model_policy p (gw_store s)\<rparr>)"

lemma frame_store:
  assumes "gateway_wf s" "frame_of env request s F"
  shows "reservations_wf (cf_store F)" "ms_records (cf_store F) = ms_records (gw_store s)"
    "ms_finalized (cf_store F) = ms_finalized (gw_store s)" "ms_limits (cf_store F) = ms_limits (gw_store s)"
    "ms_policies (cf_store F) = ms_policies (gw_store s)"
    "set (ms_reservations (gw_store s)) \<subseteq> set (ms_reservations (cf_store F))"
    "map_of (ms_reservations (cf_store F)) (cf_tenant F, cf_call F) = Some (cf_reservation F)"
    "rs_tenant_id (cf_reservation F) = cf_tenant F" "rs_reservation_id (cf_reservation F) = cf_call F"
    "rs_policy_id (cf_reservation F) = mq_policy_id (cf_policy F)" "rs_policy_revision (cf_reservation F) = mq_revision (cf_policy F)"
    "rs_policy_digest (cf_reservation F) = model_policy_digest (ge_runtime env) (cf_policy F)"
    "cf_store F = gw_store s \<or> newly_reserved (gw_store s) (cf_reservation F)
       (reservation_cost (ge_runtime env) request (cf_policy F) (cf_entries F)) (cf_store F)"
proof -
  have wf: "reservations_wf (gw_store s)" using assms(1) by (simp add: gateway_wf_def)
  from assms(2) obtain now where c: "reserve_model (ge_runtime env) request (cf_policy F) (conservative_tokens (ge_runtime env) request)
      (reservation_cost (ge_runtime env) request (cf_policy F) (cf_entries F)) now (gw_store s) = (Inr (cf_reservation F), cf_store F)"
    and f: "cf_request F = request" by (auto simp: frame_of_def)
  from c wf show "reservations_wf (cf_store F)" "ms_records (cf_store F) = ms_records (gw_store s)"
    "ms_finalized (cf_store F) = ms_finalized (gw_store s)" "ms_limits (cf_store F) = ms_limits (gw_store s)"
    "ms_policies (cf_store F) = ms_policies (gw_store s)"
    "set (ms_reservations (gw_store s)) \<subseteq> set (ms_reservations (cf_store F))"
    "map_of (ms_reservations (cf_store F)) (cf_tenant F, cf_call F) = Some (cf_reservation F)"
    "rs_tenant_id (cf_reservation F) = cf_tenant F" "rs_reservation_id (cf_reservation F) = cf_call F"
    "rs_policy_id (cf_reservation F) = mq_policy_id (cf_policy F)" "rs_policy_revision (cf_reservation F) = mq_revision (cf_policy F)"
    "rs_policy_digest (cf_reservation F) = model_policy_digest (ge_runtime env) (cf_policy F)"
    "cf_store F = gw_store s \<or> newly_reserved (gw_store s) (cf_reservation F)
       (reservation_cost (ge_runtime env) request (cf_policy F) (cf_entries F)) (cf_store F)"
    by (cases rule: reserve_model_cases; auto simp: f newly_reserved_def)+
qed

lemma call_records_mem: "r \<in> set (call_records st t c) \<longleftrightarrow> r \<in> snd ` set (ms_records st) \<and> mcr_tenant_id r = t \<and> mcr_call_id r = c"
  by (auto simp: call_records_def)

lemma call_over_wf:
  assumes wf: "gateway_wf s" and F: "frame_of env request s F" and over: "call_over F n r s'"
  shows "gateway_wf s'"
proof -
  note f = frame_store [OF wf F]
  have st: "store_wf (gw_store s')" and kept: "others_kept (cf_store F) (cf_tenant F) (cf_call F) (gw_store s')"
    and log: "calls_logged F n s'" using over by (simp_all add: call_over_def books_def)
  have res: "ms_reservations (gw_store s') = ms_reservations (cf_store F)" using kept by (simp add: others_kept_def)
  have this_key: "(cf_tenant F, cf_call F) \<in> fst ` set (ms_reservations (cf_store F))"
    using map_of_SomeD [OF f(7)] by (rule rev_image_eqI) simp
  have recs: "(mcr_tenant_id r, mcr_call_id r) \<in> fst ` set (ms_reservations (cf_store F))" if r: "r \<in> snd ` set (ms_records (gw_store s'))" for r
  proof (cases "(mcr_tenant_id r, mcr_call_id r) = (cf_tenant F, cf_call F)")
    case False
    then have "call_records (gw_store s') (mcr_tenant_id r) (mcr_call_id r) = call_records (cf_store F) (mcr_tenant_id r) (mcr_call_id r)"
      using kept unfolding others_kept_def by blast
    moreover have "r \<in> set (call_records (gw_store s') (mcr_tenant_id r) (mcr_call_id r))" using r by (simp add: call_records_mem)
    ultimately have "r \<in> set (call_records (cf_store F) (mcr_tenant_id r) (mcr_call_id r))" by simp
    then have "r \<in> snd ` set (ms_records (gw_store s))" by (simp add: call_records_mem f(2))
    then have "(mcr_tenant_id r, mcr_call_id r) \<in> fst ` set (ms_reservations (gw_store s))" using wf unfolding gateway_wf_def by blast
    with image_mono [OF f(6), of fst] show ?thesis by blast
  qed (use this_key in simp)
  have fin: "k \<in> fst ` set (ms_reservations (cf_store F))" if k: "k \<in> dom (ms_finalized (gw_store s'))" for k
  proof (cases "k = (cf_tenant F, cf_call F)")
    case False
    then have "ms_finalized (gw_store s') k = ms_finalized (cf_store F) k" using kept unfolding others_kept_def by blast
    then have "k \<in> dom (ms_finalized (gw_store s))" using k by (simp add: domIff f(3))
    then have "k \<in> fst ` set (ms_reservations (gw_store s))" using wf unfolding gateway_wf_def by blast
    with image_mono [OF f(6), of fst] show ?thesis by blast
  qed (use this_key in simp)
  have "reservations_wf (gw_store s')" using f(1) by (simp add: reservations_wf_def res)
  with st log recs subsetI [of "dom (ms_finalized (gw_store s'))", OF fin] show ?thesis
    unfolding gateway_wf_def calls_logged_def res by blast
qed

lemma replace_policy_wf: "gateway_wf s \<Longrightarrow> gateway_wf (s\<lparr>gw_store := replace_model_policy p (gw_store s)\<rparr>)"
  by (simp add: gateway_wf_def store_wf_def reservations_wf_def replace_model_policy_def)

lemma quiet_wf: "quiet s s' \<Longrightarrow> gateway_wf s \<Longrightarrow> gateway_wf s'"
  by (simp add: quiet_def gateway_wf_def)

lemma gateway_reachable_wf: "gateway_reachable rt ok s \<Longrightarrow> gateway_wf s"
proof (induction rule: gateway_reachable.induct)
  case (gateway_start policies catalog limits concurrency rate s)
  then show ?case
    by (auto simp: make_gateway_def make_model_store_def gateway_wf_def store_wf_def reservations_wf_def split: if_splits)
next
  case (gateway_call s env request r s')
  from generate_ends [OF gateway_call.IH gateway_call.hyps(4)] show ?case
    using call_over_wf [OF gateway_call.IH] quiet_wf [OF _ gateway_call.IH] unfolding call_ends_def by blast
next
  case (gateway_replace s p)
  then show ?case by (simp add: replace_policy_wf)
qed

section \<open>Histories\<close>

text \<open>A call with a fresh call identifier of a provider that stays within the request.\<close>

definition budget_call :: "'o gateway_env \<Rightarrow> model_request \<Rightarrow> gateway_state \<Rightarrow> bool" where
  "budget_call env request s \<longleftrightarrow> within_request env request \<and>
     map_of (ms_reservations (gw_store s)) (mb_tenant_id (mr_binding request), mb_call_id (mr_binding request)) = None"

text \<open>The calls a \<open>generate\<close> has made: the part of the history after the calls made before.\<close>

definition new_calls :: "gateway_state \<Rightarrow> gateway_state \<Rightarrow> provider_call list" where
  "new_calls s s' = drop (length (gw_calls s)) (gw_calls s')"

lemma generate_limits:
  assumes "gateway_wf s" "generate env request s = (r, s')"
  shows "ms_limits (gw_store s') = ms_limits (gw_store s)"
  using generate_ends [OF assms] unfolding call_ends_def
proof (elim disjE exE conjE)
  fix F
  assume F: "frame_of env request s F" and over: "call_over F (attempt_bound F) r s'"
  from over have "ms_limits (gw_store s') = ms_limits (cf_store F)" by (simp add: call_over_def books_def others_kept_def)
  with frame_store(4) [OF assms(1) F] show ?thesis by simp
qed (simp add: quiet_def)

end
