(* ===== verification/Model_Progress.thy ===== *)
theory Model_Progress
  imports Model_Reachable
begin

text \<open>
  The way through the gateway when nothing stands against a call: the first eligible route is asked once, its
  answer is returned and the cost it reported is booked. A concrete gateway shows that the conditions can hold.
\<close>

section \<open>An undisturbed call\<close>

lemma closed_entries_all:
  "\<forall>e \<in> set es. gw_circuit_opened s (circuit_key t (entry_key e)) = None \<Longrightarrow> closed_entries env t es s = (Inr es, s)"
  by (induction es) (simp_all add: op_defs circuit_is_open_def)

lemma check_rate_passes:
  assumes "length (gw_rate_windows s t) < ge_rate_limit env"
  shows "\<exists>w. check_rate env t s = (Inr (), s\<lparr>gw_tick := Suc (gw_tick s), gw_rate_windows := w\<rparr>)"
proof -
  have "length (dropWhile P (gw_rate_windows s t)) < ge_rate_limit env" for P
    using assms by (meson le_less_trans length_dropWhile_le)
  then show ?thesis by (auto simp: check_rate_def op_defs now_g_def tick_def Let_def not_le)
qed

text \<open>What a store must hold for a reservation of a call to be granted.\<close>

definition reservable :: "runtime \<Rightarrow> model_request \<Rightarrow> model_policy \<Rightarrow> nat \<Rightarrow> model_store \<Rightarrow> bool" where
  "reservable rt request policy cost st \<longleftrightarrow>
     valid_binding (mr_binding request) \<and> 1 \<le> mr_max_output_tokens request \<and> valid_identifier (mq_policy_id policy) \<and>
     1 \<le> mq_revision policy \<and> sha256_shape rt \<and> cost \<le> mq_maximum_cost_microunits policy \<and>
     map_of (ms_reservations st) (mb_tenant_id (mr_binding request), mb_call_id (mr_binding request)) = None \<and>
     int (tenant_consumed st (mb_tenant_id (mr_binding request)) + cost) \<le> tenant_limit st (mb_tenant_id (mr_binding request)) \<and>
     length (filter (\<lambda>r. rs_run_id r = mb_run_id (mr_binding request)) (tenant_reservations st (mb_tenant_id (mr_binding request))))
       < mq_maximum_calls_per_run policy"

lemma reserve_model_granted:
  assumes "reservable rt request policy cost st"
  obtains res where "reserve_model rt request policy n cost now st =
      (Inr res, st\<lparr>ms_reservations := ms_reservations st @ [((mb_tenant_id (mr_binding request), mb_call_id (mr_binding request)), res)]\<rparr>)"
    "rs_tenant_id res = mb_tenant_id (mr_binding request)" "rs_reservation_id res = mb_call_id (mr_binding request)"
    "rs_requested_input_tokens res = n" "rs_reserved_cost res = cost" "rs_policy_id res = mq_policy_id policy"
    "rs_policy_revision res = mq_revision policy" "rs_policy_digest res = model_policy_digest rt policy"
  using assms that
  by (auto simp: reservable_def reserve_model_def Let_def make_reservation_def valid_binding_def sha256_shape_def
      model_policy_digest_def update_absent tenant_limit_def not_less)

text \<open>The attempt of a call whose provider answers within the request.\<close>

definition answers :: "'o gateway_env \<Rightarrow> catalog_entry \<Rightarrow> model_request \<Rightarrow> provider_result \<Rightarrow> 'o \<Rightarrow> bool" where
  "answers env e request res x \<longleftrightarrow>
     (\<exists>adapter. ge_adapters env (ce_provider e) = Some adapter \<and> (\<forall>n. adapter n e request (ce_credential e) = Returned res)) \<and>
     mu_output_tokens (pr_usage res) \<le> mr_max_output_tokens request \<and>
     mu_input_tokens (pr_usage res) + mu_cache_read_tokens (pr_usage res) + mu_cache_write_tokens (pr_usage res)
       \<le> conservative_tokens (ge_runtime env) request \<and>
     \<not> sa_blocked (pr_safety res) \<and> pr_finish_reason res = Finish_STOP \<and> ge_validate env (pr_structured_output res) = Some x"

lemma append_requested_granted:
  assumes "map_of (ms_records st) (mb_tenant_id (mr_binding request), a) = None" "valid_binding (mr_binding request)" "valid_identifier a"
    and "valid_identifier (entry_key e)" "valid_identifier (mp_version (ce_price e))" "1 \<le> rs_policy_revision res" "sha256_shape rt"
  obtains rec where "append_requested rt res request e a now st =
      (Inr rec, st\<lparr>ms_records := ms_records st @ [((mb_tenant_id (mr_binding request), a), rec)]\<rparr>)"
    "mcr_tenant_id rec = mb_tenant_id (mr_binding request)" "mcr_call_id rec = mb_call_id (mr_binding request)" "mcr_attempt_id rec = a"
    "mcr_completed_at rec = None"
proof -
  have "valid_identifier ''requested''" by (simp add: valid_identifier_def ident_char_def)
  with assms that show ?thesis
    by (auto simp: append_requested_def Let_def make_call_record_def valid_binding_def sha256_shape_def request_digest_def update_absent)
qed

lemma update_last: "map_of xs k = None \<Longrightarrow> AList.update k v (xs @ [(k, u)]) = xs @ [(k, v)]"
  by (induction xs) auto

text \<open>The booking of an answer: the attempt is billed and the reservation finalized without ambiguity.\<close>

lemma settle_success_books:
  assumes "ms_records (gw_store s) = recs @ [((t, a), rec)]" "map_of recs (t, a) = None" "mcr_completed_at rec = None"
    and "t = mb_tenant_id (mr_binding request)" "mcr_tenant_id rec = t" "mcr_call_id rec = mb_call_id (mr_binding request)"
    and "rs_tenant_id res = t" "rs_reservation_id res = mb_call_id (mr_binding request)"
    and "ms_finalized (gw_store s) (t, mb_call_id (mr_binding request)) = None"
    and "\<forall>r \<in> snd ` set recs. (mcr_tenant_id r, mcr_call_id r) \<noteq> (t, mb_call_id (mr_binding request))"
  obtains s' rec' where "settle_success env request res e a u s = (Inr (), s')"
    "gw_calls s' = gw_calls s" "ms_records (gw_store s') = recs @ [((t, a), rec')]"
    "mcr_billing rec' = Billing_BILLED" "mcr_cost rec' = Some (actual_cost (ce_price e) u)" "mcr_usage rec' = Some u"
    "mcr_completed_at rec' \<noteq> None" "ms_finalized (gw_store s') (t, mb_call_id (mr_binding request)) = Some False"
    "ms_reservations (gw_store s') = ms_reservations (gw_store s)" "ms_limits (gw_store s') = ms_limits (gw_store s)"
proof -
  let ?m = "\<lparr>sm_outcome = ''completed'', sm_billing = Billing_BILLED, sm_usage = Some u,
    sm_cost = Some (actual_cost (ce_price e) u), sm_error_code = None\<rparr>"
  let ?now = "ge_clock env (gw_tick s)" and ?c = "mb_call_id (mr_binding request)"
  let ?rec = "settle ?m ?now rec"
  let ?st = "(gw_store s)\<lparr>ms_records := recs @ [((t, a), ?rec)]\<rparr>"
  have found: "map_of (ms_records (gw_store s)) (t, a) = Some rec" using assms(1,2) by (simp add: map_add_def)
  have rec: "reconcile_attempt t a ?m ?now (gw_store s) = (Inr ?rec, ?st)"
    using found assms(1-3) by (simp add: reconcile_attempt_def Let_def update_last)
  have "filter (\<lambda>r. mcr_tenant_id r = t \<and> mcr_call_id r = ?c) (map snd recs) = []"
    using assms(10) by (auto simp: filter_empty_conv)
  then have "call_records ?st t ?c = [?rec]" using assms(5,6) by (simp add: call_records_def)
  then have fin: "finalize_call res ?st = ?st\<lparr>ms_finalized := (ms_finalized ?st)((t, ?c) \<mapsto> False)\<rparr>"
    using assms(7-9) by (simp add: finalize_call_def Let_def any_ambiguous_def)
  let ?s' = "snd (settle_success env request res e a u s)"
  have "settle_success env request res e a u s = (Inr (), ?s') \<and> gw_store ?s' = finalize_call res ?st \<and> gw_calls ?s' = gw_calls s"
    using rec assms(4)
    by (simp add: settle_success_def Let_def op_defs now_g_def tick_def on_model_store_def mark_success_def finalize_now_def)
  with that [of ?s' ?rec] fin show ?thesis by (simp add: settle_def)
qed

lemma attempt_answers:
  fixes env :: "'o gateway_env"
  assumes "\<not> policy_changed (ge_runtime env) (gw_store s) (mb_tenant_id (mr_binding request)) res"
    and "\<forall>n. \<not> ge_cancelled env n" "\<forall>n. ge_replaced env n = []" "answers env e request answer x"
    and "conservative_tokens (ge_runtime env) request + mr_max_output_tokens request \<le> ce_context_tokens e"
    and "rs_requested_input_tokens res = conservative_tokens (ge_runtime env) request"
    and "actual_cost (ce_price e) (pr_usage answer) \<le> rs_reserved_cost res"
    and "rs_tenant_id res = mb_tenant_id (mr_binding request)" "rs_reservation_id res = mb_call_id (mr_binding request)"
    and "ms_finalized (gw_store s) (mb_tenant_id (mr_binding request), mb_call_id (mr_binding request)) = None"
    and "\<forall>r \<in> snd ` set (ms_records (gw_store s)). (mcr_tenant_id r, mcr_call_id r) \<noteq> (mb_tenant_id (mr_binding request), mb_call_id (mr_binding request))"
    and "map_of (ms_records (gw_store s)) (mb_tenant_id (mr_binding request), attempt_id_of request i j) = None"
    and "valid_binding (mr_binding request)" "valid_identifier (attempt_id_of request i j)"
    and "valid_identifier (entry_key e)" "valid_identifier (mp_version (ce_price e))" "1 \<le> rs_policy_revision res" "sha256_shape (ge_runtime env)"
  obtains s' rec c where "attempt_call env request policy res e i j s = (Inr (Answer x), s')"
    "gw_calls s' = gw_calls s @ [c]" "pl_entry c = e" "pl_request c = request"
    "ms_records (gw_store s') = ms_records (gw_store s) @ [((mb_tenant_id (mr_binding request), attempt_id_of request i j), rec)]"
    "mcr_billing rec = Billing_BILLED" "mcr_cost rec = Some (actual_cost (ce_price e) (pr_usage answer))" "mcr_completed_at rec \<noteq> None"
    "ms_finalized (gw_store s') (mb_tenant_id (mr_binding request), mb_call_id (mr_binding request)) = Some False"
    "ms_reservations (gw_store s') = ms_reservations (gw_store s)" "ms_limits (gw_store s') = ms_limits (gw_store s)"
proof -
  let ?t = "mb_tenant_id (mr_binding request)" and ?a = "attempt_id_of request i j"
  let ?s1 = "s\<lparr>gw_tick := Suc (Suc (gw_tick s))\<rparr>" and ?now = "ge_clock env (Suc (gw_tick s))"
  obtain rec where rec: "append_requested (ge_runtime env) res request e ?a ?now (gw_store s) =
      (Inr rec, (gw_store s)\<lparr>ms_records := ms_records (gw_store s) @ [((?t, ?a), rec)]\<rparr>)"
    "mcr_tenant_id rec = ?t" "mcr_call_id rec = mb_call_id (mr_binding request)" "mcr_completed_at rec = None"
    by (rule append_requested_granted [OF assms(12-18)])
  define st where "st = (gw_store s)\<lparr>ms_records := ms_records (gw_store s) @ [((?t, ?a), rec)]\<rparr>"
  define c where "c = \<lparr>pl_attempt_id = ?a, pl_entry = e, pl_request = request, pl_store = st\<rparr>"
  define s2 where "s2 = s\<lparr>gw_store := st, gw_calls := gw_calls s @ [c], gw_tick := Suc (Suc (Suc (Suc (gw_tick s))))\<rparr>"
  from assms(4) obtain adapter where ad: "ge_adapters env (ce_provider e) = Some adapter" "\<forall>n. adapter n e request (ce_credential e) = Returned answer"
    by (auto simp: answers_def)
  have same: "\<not> policy_changed (ge_runtime env) st ?t res"
    using assms(1) by (simp add: policy_changed_def current_model_policy_def st_def)
  have "total_tokens (pr_usage answer) \<le> ce_context_tokens e" using assms(4,5) by (simp add: answers_def total_tokens_def)
  then have judge: "judge_result env request res e answer = Inr (Some x)"
    using assms(4,6,7) by (simp add: judge_result_def usage_exceeded_def answers_def)
  obtain s' rec' where settled: "settle_success env request res e ?a (pr_usage answer) s2 = (Inr (), s')"
    "gw_calls s' = gw_calls s2" "ms_records (gw_store s') = ms_records (gw_store s) @ [((?t, ?a), rec')]"
    "mcr_billing rec' = Billing_BILLED" "mcr_cost rec' = Some (actual_cost (ce_price e) (pr_usage answer))"
    "mcr_completed_at rec' \<noteq> None" "ms_finalized (gw_store s') (?t, mb_call_id (mr_binding request)) = Some False"
    "ms_reservations (gw_store s') = ms_reservations (gw_store s2)" "ms_limits (gw_store s') = ms_limits (gw_store s2)"
    by (rule settle_success_books [of s2 "ms_records (gw_store s)" ?t ?a rec request res env e "pr_usage answer"])
      (use rec assms(8-12) in \<open>simp_all add: s2_def st_def\<close>)
  have "attempt_call env request policy res e i j s = (Inr (Answer x), s')"
    using assms(1-3) rec(1) ad same judge settled(1)
    by (simp add: attempt_call_def attempt_result_def call_is_stale_def invoke_provider_def Let_def op_defs cancelled_g_def now_g_def
        tick_def on_model_store_def adapter_failure_def s2_def st_def c_def)
  with that [of s' c rec'] settled show ?thesis by (simp add: s2_def c_def st_def)
qed

lemma reservation_covers_entry:
  assumes "e \<in> set entries"
  shows "maximum_cost (ce_price e) (conservative_tokens rt request) (mr_max_output_tokens request) \<le> reservation_cost rt request policy entries"
proof -
  let ?m = "Max ((\<lambda>e. maximum_cost (ce_price e) (conservative_tokens rt request) (mr_max_output_tokens request)) ` set entries)"
  have "maximum_cost (ce_price e) (conservative_tokens rt request) (mr_max_output_tokens request) \<le> ?m" using assms by simp
  also have "\<dots> \<le> ?m * length entries" using assms by (cases entries) simp_all
  also have "\<dots> \<le> ?m * length entries * (1 + mq_repair_attempts policy)" by simp
  finally show ?thesis by (simp only: reservation_cost_def)
qed

lemma generate_reserved:
  fixes env :: "'o gateway_env"
  assumes "require_policy (gw_store s) request = Inr policy" "eligible_entries (ge_runtime env) (gw_store s) request policy = Inr entries"
    and "entries \<noteq> []" "\<forall>x \<in> set entries. gw_circuit_opened s (circuit_key (mb_tenant_id (mr_binding request)) (entry_key x)) = None"
    and "0 < gw_available s" "\<forall>n. \<not> ge_cancelled env n" "length (gw_rate_windows s (mb_tenant_id (mr_binding request))) < ge_rate_limit env"
    and "reservable (ge_runtime env) request policy (reservation_cost (ge_runtime env) request policy entries) (gw_store s)"
  obtains s2 res where "generate env request s = (case route_loop env request policy res 1 entries [] s2 of (r, s') \<Rightarrow> (r, s'\<lparr>gw_available := gw_available s' + 1\<rparr>))"
    "gw_store s2 = (gw_store s)\<lparr>ms_reservations := ms_reservations (gw_store s) @
       [((mb_tenant_id (mr_binding request), mb_call_id (mr_binding request)), res)]\<rparr>" "gw_calls s2 = gw_calls s"
    "rs_tenant_id res = mb_tenant_id (mr_binding request)" "rs_reservation_id res = mb_call_id (mr_binding request)"
    "rs_requested_input_tokens res = conservative_tokens (ge_runtime env) request"
    "rs_reserved_cost res = reservation_cost (ge_runtime env) request policy entries" "rs_policy_id res = mq_policy_id policy"
    "rs_policy_revision res = mq_revision policy" "rs_policy_digest res = model_policy_digest (ge_runtime env) policy"
proof -
  let ?t = "mb_tenant_id (mr_binding request)" and ?c = "mb_call_id (mr_binding request)" and ?rt = "ge_runtime env"
  define s0 where "s0 = s\<lparr>gw_tick := Suc (gw_tick s), gw_available := gw_available s - 1\<rparr>"
  have "length (gw_rate_windows s0 ?t) < ge_rate_limit env" using assms(7) by (simp add: s0_def)
  from check_rate_passes [OF this] obtain w where
    rate: "check_rate env ?t s0 = (Inr (), s0\<lparr>gw_tick := Suc (gw_tick s0), gw_rate_windows := w\<rparr>)" by blast
  define s1 where "s1 = s0\<lparr>gw_tick := Suc (gw_tick s0), gw_rate_windows := w\<rparr>"
  have store: "gw_store s0 = gw_store s" "gw_store s1 = gw_store s" "gw_calls s1 = gw_calls s" by (simp_all add: s0_def s1_def)
  have closed: "closed_entries env ?t entries s0 = (Inr entries, s0)"
    by (rule closed_entries_all) (use assms(4) in \<open>simp add: s0_def\<close>)
  from reserve_model_granted [OF assms(8), of "conservative_tokens ?rt request" "ge_clock env (gw_tick s1)"] obtain res where
    res: "reserve_model ?rt request policy (conservative_tokens ?rt request) (reservation_cost ?rt request policy entries) (ge_clock env (gw_tick s1)) (gw_store s) =
        (Inr res, (gw_store s)\<lparr>ms_reservations := ms_reservations (gw_store s) @ [((?t, ?c), res)]\<rparr>)"
      "rs_tenant_id res = ?t" "rs_reservation_id res = ?c" "rs_requested_input_tokens res = conservative_tokens ?rt request"
      "rs_reserved_cost res = reservation_cost ?rt request policy entries" "rs_policy_id res = mq_policy_id policy"
      "rs_policy_revision res = mq_revision policy" "rs_policy_digest res = model_policy_digest ?rt policy"
    by blast
  define s2 where "s2 = s1\<lparr>gw_tick := Suc (gw_tick s1), gw_store := (gw_store s)\<lparr>ms_reservations := ms_reservations (gw_store s) @ [((?t, ?c), res)]\<rparr>\<rparr>"
  have "generate_admitted env request s0 = route_loop env request policy res 1 entries [] s2"
    using assms(1-3) closed rate res(1)
    by (simp add: generate_admitted_def Let_def op_defs now_g_def tick_def on_model_store_def store s1_def [symmetric] s2_def)
  then have "generate env request s = (case route_loop env request policy res 1 entries [] s2 of (r, s') \<Rightarrow> (r, s'\<lparr>gw_available := gw_available s' + 1\<rparr>))"
    using assms(5,6) by (simp add: generate_def op_defs cancelled_g_def tick_def s0_def)
  with res(2-) show ?thesis by (intro that [of res s2]) (simp_all add: s2_def store)
qed

lemma unreserved_call_clean:
  assumes "gateway_wf s" "map_of (ms_reservations (gw_store s)) (t, c) = None"
  shows "ms_finalized (gw_store s) (t, c) = None" "\<forall>r \<in> snd ` set (ms_records (gw_store s)). (mcr_tenant_id r, mcr_call_id r) \<noteq> (t, c)"
proof -
  have key: "(t, c) \<notin> fst ` set (ms_reservations (gw_store s))" using assms(2) by (simp add: map_of_eq_None_iff)
  with assms(1) show "ms_finalized (gw_store s) (t, c) = None" by (auto simp: gateway_wf_def)
  from assms(1) key show "\<forall>r \<in> snd ` set (ms_records (gw_store s)). (mcr_tenant_id r, mcr_call_id r) \<noteq> (t, c)"
    unfolding gateway_wf_def by metis
qed

text \<open>Everything that must be in place for a call to be answered by its first route.\<close>

definition call_ready ::
  "'o gateway_env \<Rightarrow> model_request \<Rightarrow> model_policy \<Rightarrow> catalog_entry \<Rightarrow> catalog_entry list \<Rightarrow> gateway_state \<Rightarrow> bool" where
  "call_ready env request policy e es s \<longleftrightarrow>
     (let t = mb_tenant_id (mr_binding request); rt = ge_runtime env in
      require_policy (gw_store s) request = Inr policy \<and> eligible_entries rt (gw_store s) request policy = Inr (e # es) \<and>
      (\<forall>x \<in> set (e # es). gw_circuit_opened s (circuit_key t (entry_key x)) = None) \<and>
      0 < gw_available s \<and> (\<forall>n. \<not> ge_cancelled env n) \<and> (\<forall>n. ge_replaced env n = []) \<and>
      length (gw_rate_windows s t) < ge_rate_limit env \<and>
      reservable rt request policy (reservation_cost rt request policy (e # es)) (gw_store s) \<and>
      map_of (ms_records (gw_store s)) (t, attempt_id_of request 1 0) = None \<and>
      valid_identifier (attempt_id_of request 1 0) \<and> valid_identifier (entry_key e) \<and> valid_identifier (mp_version (ce_price e)))"

lemma ready_call_outcome:
  fixes env :: "'o gateway_env"
  assumes wf: "gateway_wf s" and ready: "call_ready env request policy e es s" and ans: "answers env e request answer x"
  obtains s' rec c where "generate env request s = (Inr x, s')" "gw_calls s' = gw_calls s @ [c]" "pl_entry c = e" "pl_request c = request"
    "map_of (ms_records (gw_store s')) (mb_tenant_id (mr_binding request), attempt_id_of request 1 0) = Some rec"
    "mcr_billing rec = Billing_BILLED" "mcr_cost rec = Some (actual_cost (ce_price e) (pr_usage answer))" "mcr_completed_at rec \<noteq> None"
    "ms_finalized (gw_store s') (mb_tenant_id (mr_binding request), mb_call_id (mr_binding request)) = Some False"
    "map_of (ms_reservations (gw_store s')) (mb_tenant_id (mr_binding request), mb_call_id (mr_binding request)) \<noteq> None"
    "ms_limits (gw_store s') = ms_limits (gw_store s)"
proof -
  let ?t = "mb_tenant_id (mr_binding request)" and ?c = "mb_call_id (mr_binding request)" and ?rt = "ge_runtime env"
  let ?cost = "reservation_cost ?rt request policy (e # es)" and ?n = "conservative_tokens ?rt request"
  note r = ready [unfolded call_ready_def Let_def]
  from r have fresh: "map_of (ms_reservations (gw_store s)) (?t, ?c) = None" and vb: "valid_binding (mr_binding request)"
    and sh: "sha256_shape ?rt" and rev: "1 \<le> mq_revision policy"
    by (simp_all add: reservable_def)
  from r have pre: "require_policy (gw_store s) request = Inr policy" "eligible_entries ?rt (gw_store s) request policy = Inr (e # es)"
    "\<forall>x \<in> set (e # es). gw_circuit_opened s (circuit_key ?t (entry_key x)) = None" "0 < gw_available s" "\<forall>n. \<not> ge_cancelled env n"
    "length (gw_rate_windows s ?t) < ge_rate_limit env" "reservable ?rt request policy ?cost (gw_store s)" by simp_all
  obtain s2 res where gen: "generate env request s = (case route_loop env request policy res 1 (e # es) [] s2 of (r, s') \<Rightarrow> (r, s'\<lparr>gw_available := gw_available s' + 1\<rparr>))"
    and s2: "gw_store s2 = (gw_store s)\<lparr>ms_reservations := ms_reservations (gw_store s) @ [((?t, ?c), res)]\<rparr>" "gw_calls s2 = gw_calls s"
    and res: "rs_tenant_id res = ?t" "rs_reservation_id res = ?c" "rs_requested_input_tokens res = ?n" "rs_reserved_cost res = ?cost"
      "rs_policy_id res = mq_policy_id policy" "rs_policy_revision res = mq_revision policy" "rs_policy_digest res = model_policy_digest ?rt policy"
    using generate_reserved [OF pre(1,2) _ pre(3-7)] by blast
  define s3 where "s3 = s2\<lparr>gw_tick := Suc (gw_tick s2)\<rparr>"
  have st3: "ms_records (gw_store s3) = ms_records (gw_store s)" "ms_finalized (gw_store s3) = ms_finalized (gw_store s)"
    "ms_policies (gw_store s3) = ms_policies (gw_store s)" "gw_calls s3 = gw_calls s" "ms_limits (gw_store s3) = ms_limits (gw_store s)"
    by (simp_all add: s3_def s2)
  have same: "\<not> policy_changed ?rt (gw_store s3) ?t res"
    using pre(1) res(5-7) by (auto simp: policy_changed_def current_model_policy_def st3 require_policy_def Let_def split: option.splits)
  have elig: "?n + mr_max_output_tokens request \<le> ce_context_tokens e"
    using eligible_entries_mem(1) [OF pre(2), of e] by (auto simp: entry_eligible_def)
  have "actual_cost (ce_price e) (pr_usage answer) \<le> maximum_cost (ce_price e) ?n (mr_max_output_tokens request)"
    using ans by (intro actual_within_maximum) (simp_all add: answers_def)
  also have "\<dots> \<le> ?cost"
    by (rule reservation_covers_entry) simp
  finally have cost: "actual_cost (ce_price e) (pr_usage answer) \<le> rs_reserved_cost res" using res(4) by simp
  have fin: "ms_finalized (gw_store s3) (?t, ?c) = None"
    and recs: "\<forall>r \<in> snd ` set (ms_records (gw_store s3)). (mcr_tenant_id r, mcr_call_id r) \<noteq> (?t, ?c)"
    using unreserved_call_clean [OF wf fresh] unfolding st3 by blast+
  from r have side: "\<forall>n. ge_replaced env n = []"
    "map_of (ms_records (gw_store s3)) (?t, attempt_id_of request 1 0) = None" "valid_identifier (attempt_id_of request 1 0)"
    "valid_identifier (entry_key e)" "valid_identifier (mp_version (ce_price e))" "1 \<le> rs_policy_revision res"
    using rev by (simp_all add: st3 res(6))
  obtain s' rec c where a: "attempt_call env request policy res e 1 0 s3 = (Inr (Answer x), s')"
    "gw_calls s' = gw_calls s3 @ [c]" "pl_entry c = e" "pl_request c = request"
    "ms_records (gw_store s') = ms_records (gw_store s3) @ [((?t, attempt_id_of request 1 0), rec)]"
    "mcr_billing rec = Billing_BILLED" "mcr_cost rec = Some (actual_cost (ce_price e) (pr_usage answer))" "mcr_completed_at rec \<noteq> None"
    "ms_finalized (gw_store s') (?t, ?c) = Some False" "ms_reservations (gw_store s') = ms_reservations (gw_store s3)"
    "ms_limits (gw_store s') = ms_limits (gw_store s3)"
    by (rule attempt_answers [OF same pre(5) side(1) ans elig res(3) cost res(1,2) fin recs side(2) vb side(3-6) sh])
  have "attempt_indices policy = 0 # [1..<1 + mq_repair_attempts policy]" by (simp add: attempt_indices_def upt_rec)
  then have "route_loop env request policy res 1 (e # es) [] s2 = (Inr x, s')"
    using a(1) pre(5) by (simp add: op_defs cancelled_g_def tick_def s3_def)
  with gen have "generate env request s = (Inr x, s'\<lparr>gw_available := gw_available s' + 1\<rparr>)" by simp
  moreover have "ms_reservations (gw_store s3) = ms_reservations (gw_store s) @ [((?t, ?c), res)]" by (simp add: s3_def s2)
  ultimately show ?thesis
    using that [of "s'\<lparr>gw_available := gw_available s' + 1\<rparr>" c rec] a side(2) fresh by (simp add: st3 map_add_def)
qed

end
