(* ===== verification/Model_Sample.thy ===== *)
theory Model_Sample
  imports Model_Progress Sample_Data
begin

text \<open>
  A concrete gateway: a policy with two routes, an adapter that times out on the first model and answers on the
  second, two calls one after the other. The first call falls back to the second route and opens the circuit of
  the first; the second call goes to the second route directly.
\<close>

section \<open>Contracts\<close>

definition sample_entry :: "string \<Rightarrow> catalog_entry" where
  "sample_entry m = \<lparr>ce_tenant_id = ''acme'', ce_provider = Provider_FAKE, ce_model = m, ce_region = ''eu'',
     ce_capabilities = {Capability_JSON_SCHEMA}, ce_context_tokens = 100000, ce_maximum_output_tokens = 1000,
     ce_tokenizer = None, ce_tokenizer_limitations = ''estimate'', ce_usage_limitations = ''none'',
     ce_price = \<lparr>mp_version = ''v1'', mp_input = 1000000, mp_output = 2000000, mp_cache_read = 0, mp_cache_write = 0\<rparr>,
     ce_credential = \<lparr>cr_reference = ''key'', cr_version = 1\<rparr>, ce_enabled = True\<rparr>"

definition sample_route :: "string \<Rightarrow> nat \<Rightarrow> model_route" where
  "sample_route m n = \<lparr>mo_provider = Provider_FAKE, mo_model = m, mo_region = ''eu'', mo_priority = n\<rparr>"

definition sample_model_policy :: model_policy where
  "sample_model_policy = \<lparr>mq_tenant_id = ''acme'', mq_policy_id = ''p'', mq_revision = 1, mq_allowed_providers = {Provider_FAKE},
     mq_allowed_models = {''m1'', ''m2''}, mq_allowed_regions = {''eu''}, mq_allowed_data_classifications = {Data_INTERNAL},
     mq_allowed_purposes = {''triage''}, mq_required_capabilities = {}, mq_risk_ceiling = MEDIUM,
     mq_routes = [sample_route ''m1'' 1, sample_route ''m2'' 2], mq_maximum_input_tokens = 1000, mq_maximum_output_tokens = 100,
     mq_maximum_cost_microunits = 10000, mq_maximum_calls_per_run = 3, mq_repair_attempts = 1,
     mq_fallback_on_ambiguous_billing = True\<rparr>"

definition sample_model_request :: "string \<Rightarrow> model_request" where
  "sample_model_request c = \<lparr>mr_binding = \<lparr>mb_tenant_id = ''acme'', mb_run_id = ''run'', mb_call_id = c, mb_purpose = ''triage'',
       mb_data_classification = Data_INTERNAL, mb_risk = LOW\<rparr>,
     mr_messages = [\<lparr>mm_role = Role_USER, mm_content = [TextContent ''hi''], mm_name = None, mm_tool_call_id = None\<rparr>],
     mr_max_output_tokens = 10, mr_temperature_milli = 0, mr_tools = [], mr_allowed_tool_names = [], mr_structured_output = None\<rparr>"

definition sample_answer :: provider_result where
  "sample_answer = \<lparr>pr_structured_output = [], pr_usage = \<lparr>mu_input_tokens = 1, mu_output_tokens = 2, mu_cache_read_tokens = 0,
     mu_cache_write_tokens = 0, mu_provider_reported = True\<rparr>, pr_finish_reason = Finish_STOP,
     pr_safety = \<lparr>sa_blocked = False, sa_categories = [], sa_provider_reported = True\<rparr>, pr_provider_request_ref = None\<rparr>"

definition sample_adapter :: model_adapter where
  "sample_adapter n e request credential =
     (if ce_model e = ''m1'' then Raised Code_TIMEOUT True Billing_AMBIGUOUS else Returned sample_answer)"

text \<open>The adapter that answers on every model.\<close>

definition calm_adapter :: model_adapter where
  "calm_adapter n e request credential = Returned sample_answer"

definition sample_model_env :: "unit gateway_env" where
  "sample_model_env = \<lparr>ge_runtime = sample_rt, ge_adapters = [Provider_FAKE \<mapsto> sample_adapter], ge_clock = (\<lambda>n. 100 + min n 100),
     ge_cancelled = (\<lambda>_. False), ge_replaced = (\<lambda>_. []), ge_validate = (\<lambda>_. Some ()), ge_rate_limit = 5,
     ge_circuit_threshold = 1, ge_circuit_duration = seconds 30\<rparr>"

definition calm_env :: "unit gateway_env" where
  "calm_env = sample_model_env\<lparr>ge_adapters := [Provider_FAKE \<mapsto> calm_adapter]\<rparr>"

definition sample_model_store :: model_store where
  "sample_model_store = make_model_store [sample_model_policy] [sample_entry ''m1'', sample_entry ''m2''] [''acme'' \<mapsto> 100000]"

definition sample_gateway :: gateway_state where
  "sample_gateway = \<lparr>gw_store = sample_model_store, gw_available = 2, gw_rate_windows = (\<lambda>_. []),
     gw_circuit_failures = (\<lambda>_. 0), gw_circuit_opened = Map.empty, gw_tick = 0, gw_calls = []\<rparr>"

definition sample_first :: gateway_state where
  "sample_first = snd (generate sample_model_env (sample_model_request ''c1'') sample_gateway)"

definition sample_second :: gateway_state where
  "sample_second = snd (generate sample_model_env (sample_model_request ''c2'') sample_first)"


section \<open>The two calls\<close>

text \<open>Both calls evaluated once.\<close>

lemma sample_calls_evaluated:
  "case generate sample_model_env (sample_model_request ''c1'') sample_gateway of (r1, s1) \<Rightarrow>
   case generate sample_model_env (sample_model_request ''c2'') s1 of (r2, s2) \<Rightarrow>
     r1 = Inr () \<and> r2 = Inr () \<and> map (\<lambda>c. ce_model (pl_entry c)) (gw_calls s1) = [''m1'', ''m2''] \<and>
     map (\<lambda>c. ce_model (pl_entry c)) (gw_calls s2) = [''m1'', ''m2'', ''m2''] \<and>
     gw_circuit_opened s1 (circuit_key ''acme'' (entry_key (sample_entry ''m1''))) = Some 108 \<and>
     map_of (ms_reservations (gw_store s1)) (''acme'', ''c2'') = None \<and>
     map_of (ms_reservations (gw_store s2)) (''acme'', ''c2'') \<noteq> None \<and>
     require_policy (gw_store s1) (sample_model_request ''c2'') = Inr sample_model_policy \<and>
     (case map_of (ms_records (gw_store s2)) (''acme'', ''c2:r1:a1'') of
        None \<Rightarrow> False | Some rec \<Rightarrow> mcr_completed_at rec \<noteq> None \<and> mcr_billing rec = Billing_BILLED) \<and>
     tenant_consumed (gw_store s2) ''acme'' = 269"
  by code_simp

lemma sample_calls:
  "generate sample_model_env (sample_model_request ''c1'') sample_gateway = (Inr (), sample_first)"
  "generate sample_model_env (sample_model_request ''c2'') sample_first = (Inr (), sample_second)"
  "map (\<lambda>c. ce_model (pl_entry c)) (gw_calls sample_first) = [''m1'', ''m2'']"
  "map (\<lambda>c. ce_model (pl_entry c)) (gw_calls sample_second) = [''m1'', ''m2'', ''m2'']"
  "gw_circuit_opened sample_first (circuit_key ''acme'' (entry_key (sample_entry ''m1''))) = Some 108"
  "map_of (ms_reservations (gw_store sample_first)) (''acme'', ''c2'') = None"
  "map_of (ms_reservations (gw_store sample_second)) (''acme'', ''c2'') \<noteq> None"
  "require_policy (gw_store sample_first) (sample_model_request ''c2'') = Inr sample_model_policy"
  "\<exists>rec. map_of (ms_records (gw_store sample_second)) (''acme'', ''c2:r1:a1'') = Some rec \<and> mcr_completed_at rec \<noteq> None \<and>
     mcr_billing rec = Billing_BILLED"
  "tenant_consumed (gw_store sample_second) ''acme'' = 269"
  using sample_calls_evaluated unfolding sample_first_def sample_second_def
  by (auto simp: prod_eq_iff split: prod.splits option.splits)

lemma sample_new_call: "\<exists>c. c \<in> set (new_calls sample_first sample_second)"
proof -
  have "length (gw_calls sample_first) = 2" "length (gw_calls sample_second) = 3"
    using arg_cong [OF sample_calls(3), of length] arg_cong [OF sample_calls(4), of length] by simp_all
  then have "new_calls sample_first sample_second \<noteq> []" by (simp add: new_calls_def)
  then show ?thesis by (metis last_in_set)
qed

lemma sample_model_env_simps [simp]:
  "ge_runtime sample_model_env = sample_rt" "ge_clock sample_model_env n = 100 + min n 100" "ge_circuit_duration sample_model_env = seconds 30"
  "ge_rate_limit sample_model_env = 5"
  by (simp_all add: sample_model_env_def)

lemma sample_binding_simps [simp]:
  "mb_tenant_id (mr_binding (sample_model_request c)) = ''acme''" "mb_call_id (mr_binding (sample_model_request c)) = c"
  by (simp_all add: sample_model_request_def)

lemma sample_within: "within_request sample_model_env (sample_model_request c)"
  by (auto simp: within_request_def sample_model_env_def sample_adapter_def sample_answer_def sample_model_request_def
      conservative_tokens_def split: if_splits)

lemma sample_gateway_made: "make_gateway sample_model_store 2 5 = Inr sample_gateway"
  by (simp add: make_gateway_def sample_gateway_def)

lemma sample_gateways_reachable:
  "gateway_reachable sample_rt (budget_call :: unit gateway_env \<Rightarrow> _) sample_gateway"
  "gateway_reachable sample_rt (budget_call :: unit gateway_env \<Rightarrow> _) sample_first"
  "gateway_reachable sample_rt (budget_call :: unit gateway_env \<Rightarrow> _) sample_second"
proof -
  show start: "gateway_reachable sample_rt (budget_call :: unit gateway_env \<Rightarrow> _) sample_gateway"
    using gateway_start sample_gateway_made unfolding sample_model_store_def by blast
  have "map_of (ms_reservations (gw_store sample_gateway)) (''acme'', ''c1'') = None"
    by (simp add: sample_gateway_def sample_model_store_def make_model_store_def)
  then show first: "gateway_reachable sample_rt (budget_call :: unit gateway_env \<Rightarrow> _) sample_first"
    by (intro gateway_call [OF start _ _ sample_calls(1)]) (simp_all add: budget_call_def sample_within)
  show "gateway_reachable sample_rt (budget_call :: unit gateway_env \<Rightarrow> _) sample_second"
    by (intro gateway_call [OF first _ _ sample_calls(2)]) (simp_all add: budget_call_def sample_within sample_calls(6))
qed

lemma sample_limits: "ms_limits (gw_store sample_second) = [''acme'' \<mapsto> 100000]"
proof -
  have "ms_limits (gw_store sample_second) = ms_limits (gw_store sample_gateway)"
    using generate_limits sample_calls(1,2) gateway_reachable_wf sample_gateways_reachable(1,2) by metis
  then show ?thesis by (simp add: sample_gateway_def sample_model_store_def make_model_store_def)
qed

lemma calm_answers: "answers calm_env (sample_entry m) (sample_model_request c) sample_answer ()"
  by (simp add: answers_def calm_env_def sample_model_env_def calm_adapter_def sample_answer_def sample_model_request_def
      sample_entry_def conservative_tokens_def)

lemma calm_ready:
  "call_ready calm_env (sample_model_request ''c1'') sample_model_policy (sample_entry ''m1'') [sample_entry ''m2''] sample_gateway"
proof -
  let ?q = "sample_model_request ''c1''" and ?es = "[sample_entry ''m1'', sample_entry ''m2'']"
  have "require_policy sample_model_store ?q = Inr sample_model_policy" "eligible_entries sample_rt sample_model_store ?q sample_model_policy = Inr ?es"
    by code_simp+
  moreover have "reservable sample_rt ?q sample_model_policy (reservation_cost sample_rt ?q sample_model_policy ?es) sample_model_store"
  proof -
    have "reservation_cost sample_rt ?q sample_model_policy ?es = 264" by code_simp
    then show ?thesis using sample_shape
      by (simp add: reservable_def valid_binding_def sample_model_request_def sample_model_policy_def valid_identifier_def ident_char_def
          sample_model_store_def make_model_store_def tenant_consumed_def tenant_reservations_def tenant_limit_def)
  qed
  moreover have "valid_identifier (attempt_id_of ?q 1 0)" "valid_identifier (entry_key (sample_entry ''m1''))"
    "valid_identifier (mp_version (ce_price (sample_entry ''m1'')))" by code_simp+
  ultimately show ?thesis
    by (simp add: call_ready_def Let_def sample_gateway_def calm_env_def sample_model_env_def sample_model_store_def make_model_store_def)
qed

end
