(* ===== verification/Model_Properties.thy ===== *)
theory Model_Properties
  imports Model_Sample
begin

text \<open>
  Properties of the model gateway over all histories: the tenant budget, the conditions behind each provider
  call, attempts sent once and settled, open circuits and the rate window.
\<close>

section \<open>The budget\<close>

lemma consumed_cost_kept:
  assumes "others_kept st0 t c st" "(rs_tenant_id r, rs_reservation_id r) \<noteq> (t, c)"
  shows "consumed_cost st r = consumed_cost st0 r"
proof -
  have "ms_finalized st (rs_tenant_id r, rs_reservation_id r) = ms_finalized st0 (rs_tenant_id r, rs_reservation_id r)"
    "call_records st (rs_tenant_id r) (rs_reservation_id r) = call_records st0 (rs_tenant_id r) (rs_reservation_id r)"
    using assms unfolding others_kept_def by blast+
  then show ?thesis by (simp add: consumed_cost_def split: option.split)
qed

lemma replace_policy_consumed:
  "tenant_consumed (replace_model_policy p st) t = tenant_consumed st t" "tenant_limit (replace_model_policy p st) t = tenant_limit st t"
proof -
  have "consumed_cost (replace_model_policy p st) = consumed_cost st"
    by (auto simp: fun_eq_iff consumed_cost_def call_records_def replace_model_policy_def split: option.split)
  then show "tenant_consumed (replace_model_policy p st) t = tenant_consumed st t" "tenant_limit (replace_model_policy p st) t = tenant_limit st t"
    by (simp_all add: tenant_consumed_def tenant_reservations_def tenant_limit_def replace_model_policy_def)
qed

lemma reserved_is_enough:
  assumes wf: "gateway_wf s" and F: "frame_of env request s F" and over: "call_over F (attempt_bound F) r s'"
    and ok: "budget_call env request s"
  shows "consumed_cost (gw_store s') (cf_reservation F) \<le> rs_reserved_cost (cf_reservation F)"
    and "newly_reserved (gw_store s) (cf_reservation F) (rs_reserved_cost (cf_reservation F)) (cf_store F)"
proof -
  note f = frame_store [OF wf F]
  have fe: "cf_env F = env" "cf_request F = request" "cf_unit F = entry_maximum (ge_runtime env) request (cf_entries F)"
    using F by (simp_all add: frame_of_def)
  have fresh: "map_of (ms_reservations (gw_store s)) (cf_tenant F, cf_call F) = None" using ok fe(2) by (simp add: budget_call_def)
  with f(7) have "cf_store F \<noteq> gw_store s" by auto
  with f(13) have new: "newly_reserved (gw_store s) (cf_reservation F)
      (reservation_cost (ge_runtime env) request (cf_policy F) (cf_entries F)) (cf_store F)" by blast
  then have "rs_reserved_cost (cf_reservation F) = reservation_cost (ge_runtime env) request (cf_policy F) (cf_entries F)"
    by (simp add: newly_reserved_def)
  then have cost: "rs_reserved_cost (cf_reservation F) = attempt_bound F * cf_unit F"
    by (simp only: reservation_cost_def attempt_bound_def fe(3) entry_maximum_def mult_ac)
  have "(cf_tenant F, cf_call F) \<notin> fst ` set (ms_reservations (gw_store s))" using fresh by (simp add: map_of_eq_None_iff)
  moreover have "\<forall>r \<in> snd ` set (ms_records (gw_store s)). (mcr_tenant_id r, mcr_call_id r) \<in> fst ` set (ms_reservations (gw_store s))"
    using wf by (simp add: gateway_wf_def)
  ultimately have "x \<notin> set (call_records (gw_store s) (cf_tenant F) (cf_call F))" for x
    unfolding call_records_mem by metis
  then have "call_records (gw_store s) (cf_tenant F) (cf_call F) = []" by (metis last_in_set)
  then have "call_records (cf_store F) (cf_tenant F) (cf_call F) = []" by (simp add: call_records_def f(2))
  then have "billed_cost (call_records (gw_store s') (cf_tenant F) (cf_call F)) \<le> attempt_bound F * cf_unit F"
    using over ok fe(1,2) by (simp add: call_over_def books_def budget_call_def)
  then show "consumed_cost (gw_store s') (cf_reservation F) \<le> rs_reserved_cost (cf_reservation F)"
    by (simp add: consumed_cost_def f(8,9) cost split: option.split)
  from new show "newly_reserved (gw_store s) (cf_reservation F) (rs_reserved_cost (cf_reservation F)) (cf_store F)"
    by (simp add: newly_reserved_def)
qed

lemma tenant_consumed_kept:
  assumes wf: "gateway_wf s" and F: "frame_of env request s F" and over: "call_over F n r s'"
    and new: "newly_reserved (gw_store s) (cf_reservation F) c (cf_store F)"
  shows "tenant_consumed (gw_store s') t =
    tenant_consumed (gw_store s) t + (if t = cf_tenant F then consumed_cost (gw_store s') (cf_reservation F) else 0)"
proof -
  note f = frame_store [OF wf F]
  have kept: "others_kept (cf_store F) (cf_tenant F) (cf_call F) (gw_store s')" using over by (simp add: call_over_def books_def)
  have res: "ms_reservations (gw_store s') = ms_reservations (gw_store s) @ [((cf_tenant F, cf_call F), cf_reservation F)]"
    using kept new by (simp add: others_kept_def newly_reserved_def f(8,9))
  have same: "consumed_cost (gw_store s') x = consumed_cost (gw_store s) x" if "x \<in> snd ` set (ms_reservations (gw_store s))" for x
  proof -
    from that obtain k where k: "(k, x) \<in> set (ms_reservations (gw_store s))" by auto
    with wf have "k = (rs_tenant_id x, rs_reservation_id x)" by (auto simp: gateway_wf_def reservations_wf_def)
    with k have "(rs_tenant_id x, rs_reservation_id x) \<in> fst ` set (ms_reservations (gw_store s))" by (auto intro: rev_image_eqI)
    moreover have "(cf_tenant F, cf_call F) \<notin> fst ` set (ms_reservations (gw_store s))"
      using new by (simp add: newly_reserved_def f(8,9) map_of_eq_None_iff)
    ultimately have "(rs_tenant_id x, rs_reservation_id x) \<noteq> (cf_tenant F, cf_call F)" by metis
    from consumed_cost_kept [OF kept this] show ?thesis by (simp add: consumed_cost_def call_records_def f(2,3) split: option.split)
  qed
  have old: "map (consumed_cost (gw_store s')) (tenant_reservations (gw_store s) t) = map (consumed_cost (gw_store s)) (tenant_reservations (gw_store s) t)"
    by (rule map_cong) (auto simp: tenant_reservations_def intro!: same)
  have "tenant_reservations (gw_store s') t = tenant_reservations (gw_store s) t @ (if t = cf_tenant F then [cf_reservation F] else [])"
    by (simp add: tenant_reservations_def res f(8))
  then show ?thesis unfolding tenant_consumed_def by (simp only: map_append sum_list_append old) simp
qed

text \<open>C5. The tenant's budget is never exceeded. Over any history of calls with fresh call identifiers whose providers report
  no more tokens than the request allows, and any policy changes in between, the cost consumed by a tenant -
  what is reserved for calls that are running or whose billing is unclear, and what was billed for the others -
  stays within the tenant's limit, through every fallback, repair, cancellation and failure.\<close>

theorem model_budget_respected:
  assumes "gateway_reachable rt budget_call s" "\<forall>t l. ms_limits (gw_store s) t = Some l \<longrightarrow> 0 \<le> l"
  shows "int (tenant_consumed (gw_store s) t) \<le> tenant_limit (gw_store s) t"
  using assms
proof (induction arbitrary: t rule: gateway_reachable.induct)
  case (gateway_start policies catalog limits concurrency rate s)
  then show ?case
    by (auto simp: make_gateway_def make_model_store_def tenant_consumed_def tenant_reservations_def tenant_limit_def
        split: if_splits option.splits)
next
  case (gateway_call s env request r s')
  note wf = gateway_reachable_wf [OF gateway_call.hyps(1)]
  from generate_ends [OF wf gateway_call.hyps(4)] show ?case
    unfolding call_ends_def
  proof (elim disjE exE conjE)
    assume "quiet s s'"
    with gateway_call.IH gateway_call.prems show ?thesis by (simp add: quiet_def)
  next
    fix F
    assume F: "frame_of env request s F" and over: "call_over F (attempt_bound F) r s'"
    note e = reserved_is_enough [OF wf F over gateway_call.hyps(3)]
    note f = frame_store [OF wf F]
    have lim: "tenant_limit (gw_store s') = tenant_limit (gw_store s)" "\<forall>t l. ms_limits (gw_store s) t = Some l \<longrightarrow> 0 \<le> l"
      using generate_limits [OF wf gateway_call.hyps(4)] gateway_call.prems by (auto simp: tenant_limit_def fun_eq_iff)
    have "int (tenant_consumed (gw_store s) (cf_tenant F) + rs_reserved_cost (cf_reservation F)) \<le> tenant_limit (gw_store s) (cf_tenant F)"
      using e(2) by (simp add: newly_reserved_def f(8))
    with tenant_consumed_kept [OF wf F over e(2), of t] e(1) gateway_call.IH [OF lim(2), of t] lim(1) show ?thesis by auto
  qed
next
  case (gateway_replace s p)
  then show ?case using replace_policy_consumed [of p "gw_store s"] by (simp add: replace_model_policy_def)
qed

theorem model_budget_respected_witness:
  "tenant_consumed (gw_store sample_second) ''acme'' = 269 \<and>
   int (tenant_consumed (gw_store sample_second) ''acme'') \<le> tenant_limit (gw_store sample_second) ''acme''"
proof -
  have "ms_limits (gw_store sample_second) = [''acme'' \<mapsto> 100000]" by (rule sample_limits)
  then have "\<forall>t l. ms_limits (gw_store sample_second) t = Some l \<longrightarrow> 0 \<le> l" by (simp add: map_upd_Some_unfold)
  from model_budget_respected [OF sample_gateways_reachable(3) this] sample_calls(10) show ?thesis by blast
qed

section \<open>Provider calls\<close>

lemma generate_new_calls:
  assumes wf: "gateway_wf s" and call: "generate env request s = (r, s')" and c: "c \<in> set (new_calls s s')"
  obtains F where "frame_of env request s F" "call_over F (attempt_bound F) r s'" "call_permitted F c"
proof -
  from generate_ends [OF wf call] show ?thesis
    unfolding call_ends_def
  proof (elim disjE exE conjE)
    assume "quiet s s'"
    with c show ?thesis by (simp add: new_calls_def quiet_def)
  next
    fix F
    assume F: "frame_of env request s F" and over: "call_over F (attempt_bound F) r s'"
    have log: "cf_log F = gw_calls s" using F by (simp add: frame_of_def)
    from over obtain new where "gw_calls s' = gw_calls s @ new" "list_all (call_permitted F) new"
      by (auto simp: call_over_def calls_logged_def log)
    with c have "call_permitted F c" by (auto simp: new_calls_def list_all_iff)
    with F over show ?thesis by (rule that)
  qed
qed

text \<open>C6. Every provider call is covered by the tenant's policy. A call made by \<open>generate\<close> is for the request it was
  given, which the policy read at the start permits; it goes to a catalog entry of a route of that policy that the
  policy allows and that has the capabilities and the room for the request; and in the store as it is at the
  moment of the call the current policy still has the identity, revision and digest of that policy, a reservation
  of the call under that policy exists, and the attempt is recorded as requested and not completed.\<close>

theorem provider_calls_authorised:
  assumes "gateway_reachable rt ok s" "generate env request s = (r, s')" "c \<in> set (new_calls s s')"
  defines "t \<equiv> mb_tenant_id (mr_binding request)"
  shows "\<exists>policy current reservation intent. require_policy (gw_store s) request = Inr policy \<and> pl_request c = request \<and>
    (\<exists>route \<in> set (mq_routes policy). find_catalog_entry (gw_store s) t (route_key route) = Some (pl_entry c) \<and>
       entry_eligible request policy (conservative_tokens (ge_runtime env) request) route (pl_entry c)) \<and>
    current_model_policy (pl_store c) t = Some current \<and> mq_policy_id current = mq_policy_id policy \<and>
    mq_revision current = mq_revision policy \<and>
    model_policy_digest (ge_runtime env) current = model_policy_digest (ge_runtime env) policy \<and>
    map_of (ms_reservations (pl_store c)) (t, mb_call_id (mr_binding request)) = Some reservation \<and>
    rs_policy_digest reservation = model_policy_digest (ge_runtime env) policy \<and>
    map_of (ms_records (pl_store c)) (t, pl_attempt_id c) = Some intent \<and> mcr_completed_at intent = None \<and>
    mcr_catalog_key intent = entry_key (pl_entry c)"
proof -
  note wf = gateway_reachable_wf [OF assms(1)]
  from generate_new_calls [OF wf assms(2,3)] obtain F where F: "frame_of env request s F" and p: "call_permitted F c" by blast
  note f = frame_store [OF wf F]
  have fe: "cf_env F = env" "cf_request F = request" "require_policy (gw_store s) request = Inr (cf_policy F)"
    using F by (simp_all add: frame_of_def)
  from F p obtain es where es: "eligible_entries (ge_runtime env) (gw_store s) request (cf_policy F) = Inr es" "pl_entry c \<in> set es"
    by (auto simp: frame_of_def call_permitted_def)
  from p obtain current where "current_model_policy (pl_store c) t = Some current" "mq_policy_id current = mq_policy_id (cf_policy F)"
    "mq_revision current = mq_revision (cf_policy F)"
    "model_policy_digest (ge_runtime env) current = model_policy_digest (ge_runtime env) (cf_policy F)"
    by (auto simp: call_permitted_def policy_changed_def fe f(10-12) t_def split: option.splits)
  moreover have "map_of (ms_reservations (pl_store c)) (t, mb_call_id (mr_binding request)) = Some (cf_reservation F)"
    using p f(7) by (simp add: call_permitted_def t_def fe)
  moreover from p obtain intent where "map_of (ms_records (pl_store c)) (t, pl_attempt_id c) = Some intent" "mcr_completed_at intent = None"
    "mcr_catalog_key intent = entry_key (pl_entry c)" "pl_request c = request"
    by (auto simp: call_permitted_def call_ident_def t_def fe)
  ultimately show ?thesis using fe(3) f(12) eligible_entries_mem(1) [OF es] by (auto simp: t_def)
qed

theorem provider_calls_authorised_witness:
  "\<exists>c policy current. c \<in> set (new_calls sample_first sample_second) \<and>
     require_policy (gw_store sample_first) (sample_model_request ''c2'') = Inr policy \<and>
     current_model_policy (pl_store c) ''acme'' = Some current \<and> mq_revision current = mq_revision policy"
proof -
  obtain c where c: "c \<in> set (new_calls sample_first sample_second)" using sample_new_call by blast
  from provider_calls_authorised [OF sample_gateways_reachable(2) sample_calls(2) c] c show ?thesis by auto
qed

text \<open>An attempt is sent at most once and the number of calls is bounded. Over every history no two provider calls
  have the same tenant and attempt identifier, and one call of \<open>generate\<close> makes at most as many provider calls as
  the policy has routes, times one more than its repairs.\<close>

theorem attempts_sent_once:
  assumes "gateway_reachable rt ok s" "generate env request s = (r, s')" "require_policy (gw_store s) request = Inr policy"
  shows "distinct (map call_ident (gw_calls s')) \<and> take (length (gw_calls s)) (gw_calls s') = gw_calls s \<and>
    length (new_calls s s') \<le> length (mq_routes policy) * (1 + mq_repair_attempts policy)"
proof -
  note wf = gateway_reachable_wf [OF assms(1)]
  from generate_ends [OF wf assms(2)] show ?thesis
    unfolding call_ends_def
  proof (elim disjE exE conjE)
    assume "quiet s s'"
    with wf show ?thesis by (simp add: new_calls_def quiet_def gateway_wf_def)
  next
    fix F
    assume F: "frame_of env request s F" and over: "call_over F (attempt_bound F) r s'"
    from F obtain es where es: "cf_log F = gw_calls s" "cf_policy F = policy" "length (cf_entries F) \<le> length es"
      "eligible_entries (ge_runtime env) (gw_store s) request policy = Inr es"
      using assms(3) by (auto simp: frame_of_def)
    have "length es \<le> length (mq_routes policy)"
      using es(4) by (auto simp: eligible_entries_def Let_def map_filter_def intro: length_filter_le)
    with es(3) have "attempt_bound F \<le> length (mq_routes policy) * (1 + mq_repair_attempts policy)"
      unfolding attempt_bound_def es(2) by (meson le_trans mult_le_mono1)
    with over es(1) show ?thesis
      by (auto simp: call_over_def calls_logged_def new_calls_def)
  qed
qed

theorem attempts_sent_once_witness:
  "distinct (map call_ident (gw_calls sample_second)) \<and> length (gw_calls sample_second) = 3 \<and>
   length (new_calls sample_first sample_second) \<le> length (mq_routes sample_model_policy) * (1 + mq_repair_attempts sample_model_policy)"
  using attempts_sent_once [OF sample_gateways_reachable(2) sample_calls(2,8)] arg_cong [OF sample_calls(4), of length] by simp

text \<open>A call settles its books. When a call with a fresh identifier got its reservation and ends with an answer or with
  a provider failure, every attempt recorded for it is completed and the reservation is finalized, whichever way
  the routes and repairs went.\<close>

theorem call_settles_books:
  assumes "gateway_reachable rt ok s" "generate env request s = (r, s')" "provider_end r"
    and "map_of (ms_reservations (gw_store s)) (mb_tenant_id (mr_binding request), mb_call_id (mr_binding request)) = None"
    and "map_of (ms_reservations (gw_store s')) (mb_tenant_id (mr_binding request), mb_call_id (mr_binding request)) \<noteq> None"
  shows "ms_finalized (gw_store s') (mb_tenant_id (mr_binding request), mb_call_id (mr_binding request)) \<noteq> None \<and>
    (\<forall>a \<in> set (call_records (gw_store s') (mb_tenant_id (mr_binding request)) (mb_call_id (mr_binding request))). mcr_completed_at a \<noteq> None)"
proof -
  note wf = gateway_reachable_wf [OF assms(1)]
  from generate_ends [OF wf assms(2)] show ?thesis
    unfolding call_ends_def
  proof (elim disjE exE conjE)
    assume "quiet s s'"
    with assms(4,5) show ?thesis by (simp add: quiet_def)
  next
    fix F
    assume F: "frame_of env request s F" and over: "call_over F (attempt_bound F) r s'"
    note f = frame_store [OF wf F]
    have fe: "cf_request F = request" using F by (simp add: frame_of_def)
    have "x \<notin> set (call_records (gw_store s) (cf_tenant F) (cf_call F))" for x
    proof -
      have "(cf_tenant F, cf_call F) \<notin> fst ` set (ms_reservations (gw_store s))" using assms(4) by (simp add: fe map_of_eq_None_iff)
      moreover have "\<forall>r \<in> snd ` set (ms_records (gw_store s)). (mcr_tenant_id r, mcr_call_id r) \<in> fst ` set (ms_reservations (gw_store s))"
        using wf by (simp add: gateway_wf_def)
      ultimately show ?thesis unfolding call_records_mem by metis
    qed
    then have "x \<notin> set (call_records (cf_store F) (cf_tenant F) (cf_call F))" for x by (simp add: call_records_def f(2))
    with over assms(3) show ?thesis by (auto simp: call_over_def settled_since_def fe)
  qed
qed

theorem call_settles_books_witness:
  "ms_finalized (gw_store sample_second) (''acme'', ''c2'') \<noteq> None \<and>
   list_all (\<lambda>a. mcr_completed_at a \<noteq> None) (call_records (gw_store sample_second) ''acme'' ''c2'')"
  using call_settles_books [OF sample_gateways_reachable(2) sample_calls(2)] sample_calls(6,7) by (simp add: provider_end_def list_all_iff)

section \<open>Circuits\<close>

text \<open>An open circuit blocks its route. While the clock of a call stays before the end of the open period of a
  tenant's circuit, the call makes no provider call to the catalog entry of that circuit.\<close>

theorem open_circuit_not_called:
  assumes "gateway_reachable rt ok s" "generate env request s = (r, s')"
    and "gw_circuit_opened s (circuit_key (mb_tenant_id (mr_binding request)) key) = Some opened"
    and "\<forall>n. ge_clock env n < opened + ge_circuit_duration env" "c \<in> set (new_calls s s')"
  shows "entry_key (pl_entry c) \<noteq> key"
proof
  assume key: "entry_key (pl_entry c) = key"
  from generate_new_calls [OF gateway_reachable_wf [OF assms(1)] assms(2,5)] obtain F where
    F: "frame_of env request s F" and p: "call_permitted F c" by blast
  then have "circuit_elapsed env (circuit_key (mb_tenant_id (mr_binding request)) key) s"
    using key by (auto simp: frame_of_def call_permitted_def)
  with assms(3,4) show False by (auto simp: circuit_elapsed_def not_le [symmetric])
qed

theorem open_circuit_not_called_witness:
  "new_calls sample_first sample_second \<noteq> [] \<and>
   list_all (\<lambda>c. entry_key (pl_entry c) \<noteq> entry_key (sample_entry ''m1'')) (new_calls sample_first sample_second)"
proof -
  have "\<forall>n. ge_clock sample_model_env n < 108 + ge_circuit_duration sample_model_env" by (simp add: seconds_def min_def)
  with open_circuit_not_called [OF sample_gateways_reachable(2) sample_calls(2), of "entry_key (sample_entry ''m1'')" 108]
    sample_calls(5) sample_new_call show ?thesis by (auto simp: list_all_iff)
qed

section \<open>Final billing\<close>

lemma store_step_final:
  assumes "store_step rt s s'" "map_of (ms_records s) k = Some rec" "mcr_completed_at rec \<noteq> None" "mcr_billing rec \<noteq> Billing_AMBIGUOUS"
  shows "map_of (ms_records s') k = Some rec"
  using assms
proof (induction rule: store_step.induct)
  case (step_reserve request policy n cost now s r s')
  then show ?case
    by (auto simp: reserve_model_def Let_def split: option.splits if_splits sum.splits)
next
  case (step_append reservation request entry a now s r s')
  then show ?case
    by (auto simp: append_requested_def Let_def update_conv' split: option.splits if_splits sum.splits)
next
  case (step_reconcile t a m now s r s')
  then show ?case
    by (auto simp: reconcile_attempt_def Let_def update_conv' split: option.splits if_splits)
qed (simp_all add: replace_model_policy_def finalize_call_def Let_def)

text \<open>Definite billing is final. Once an attempt is recorded as completed and billed or not billed, no later sequence
  of store operations by any number of gateways changes or removes its record.\<close>

theorem definite_billing_is_final:
  assumes "(store_step rt)\<^sup>*\<^sup>* s s'" "map_of (ms_records s) k = Some rec"
    and "mcr_completed_at rec \<noteq> None" "mcr_billing rec \<noteq> Billing_AMBIGUOUS"
  shows "map_of (ms_records s') k = Some rec"
  using assms(1,2) by (induction rule: rtranclp_induct) (use assms(3,4) store_step_final in blast)+

theorem definite_billing_is_final_witness:
  "\<forall>m now. map_of (ms_records (snd (reconcile_attempt ''acme'' ''c2:r1:a1'' m now (gw_store sample_second)))) (''acme'', ''c2:r1:a1'') =
     map_of (ms_records (gw_store sample_second)) (''acme'', ''c2:r1:a1'')"
proof (intro allI)
  fix m now
  obtain rec where rec: "map_of (ms_records (gw_store sample_second)) (''acme'', ''c2:r1:a1'') = Some rec" "mcr_completed_at rec \<noteq> None"
    "mcr_billing rec \<noteq> Billing_AMBIGUOUS" using sample_calls(9) by auto
  have "store_step sample_rt (gw_store sample_second) (snd (reconcile_attempt ''acme'' ''c2:r1:a1'' m now (gw_store sample_second)))"
    by (rule step_reconcile [OF prod.collapse [symmetric]])
  from definite_billing_is_final [OF r_into_rtranclp [of "store_step sample_rt", OF this] rec] rec(1)
  show "map_of (ms_records (snd (reconcile_attempt ''acme'' ''c2:r1:a1'' m now (gw_store sample_second)))) (''acme'', ''c2:r1:a1'') =
     map_of (ms_records (gw_store sample_second)) (''acme'', ''c2:r1:a1'')" by simp
qed

section \<open>The rate window\<close>

text \<open>The times at which a tenant's calls are admitted, in a sequence of checks of any tenants.\<close>

fun admitted_times :: "('o gateway_env \<times> string) list \<Rightarrow> gateway_state \<Rightarrow> string \<Rightarrow> datetime list" where
  "admitted_times [] s t = []"
| "admitted_times ((env, u) # cs) s t =
     (case check_rate env u s of (r, s') \<Rightarrow>
        (if u = t \<and> r = Inr () then [ge_clock env (gw_tick s)] else []) @ admitted_times cs s' t)"

fun check_times :: "('o gateway_env \<times> string) list \<Rightarrow> gateway_state \<Rightarrow> datetime list" where
  "check_times [] s = []"
| "check_times ((env, u) # cs) s = ge_clock env (gw_tick s) # check_times cs (snd (check_rate env u s))"

definition in_minute :: "datetime \<Rightarrow> datetime list \<Rightarrow> nat" where
  "in_minute x as = length (filter (\<lambda>a. x \<le> a \<and> a < x + seconds 60) as)"

lemma dropWhile_sorted:
  assumes "sorted as"
  shows "dropWhile (\<lambda>w. w + d \<le> (now :: nat)) as = filter (\<lambda>w. now < w + d) as"
  using assms
proof (induction as)
  case (Cons a as)
  then have "\<forall>x \<in> set as. now < a + d \<longrightarrow> now < x + d" by auto
  with Cons show ?case by (auto simp: not_le filter_id_conv)
qed simp

lemma admitted_times_bound:
  assumes "\<forall>(env, u) \<in> set cs. ge_rate_limit env = limit" "sorted (check_times cs s)"
    and "sorted as" "\<forall>a \<in> set as. \<forall>x \<in> set (check_times cs s). a \<le> x"
    and "\<exists>now. (\<forall>x \<in> set (check_times cs s). now \<le> x) \<and> gw_rate_windows s t = filter (\<lambda>w. now < w + seconds 60) as"
    and "\<And>x. in_minute x as \<le> limit"
  shows "in_minute x (as @ admitted_times cs s t) \<le> limit"
  using assms
proof (induction cs arbitrary: s as)
  case Nil
  then show ?case by simp
next
  case (Cons c cs)
  obtain env u where c: "c = (env, u)" by force
  let ?now = "ge_clock env (gw_tick s)" and ?s' = "snd (check_rate env u s)"
  obtain old where old: "old \<le> ?now" "gw_rate_windows s t = filter (\<lambda>w. old < w + seconds 60) as"
    using Cons.prems(5) by (auto simp: c)
  let ?w = "filter (\<lambda>w. ?now < w + seconds 60) as"
  have window: "dropWhile (\<lambda>w. w + seconds 60 \<le> ?now) (gw_rate_windows s t) = ?w"
    using dropWhile_sorted [of "filter (\<lambda>w. old < w + seconds 60) as" "seconds 60" ?now] Cons.prems(3) old(1)
    unfolding old(2) by (auto simp: sorted_wrt_filter intro!: filter_cong)
  have lim: "ge_rate_limit env = limit" using Cons.prems(1) by (auto simp: c)
  have later: "\<forall>x \<in> set (check_times cs ?s'). ?now \<le> x" using Cons.prems(2) by (simp add: c)
  have before: "\<forall>a \<in> set as. a \<le> ?now" using Cons.prems(4) by (simp add: c)
  define as' where "as' = (if u = t \<and> length ?w < limit then as @ [?now] else as)"
  have step: "as @ admitted_times (c # cs) s t = as' @ admitted_times cs ?s' t"
    using lim window
    by (auto simp: c as'_def check_rate_def op_defs now_g_def tick_def Let_def split: if_splits)
  have win': "gw_rate_windows ?s' t = (if u = t then filter (\<lambda>w. ?now < w + seconds 60) as' else filter (\<lambda>w. old < w + seconds 60) as')"
    using lim window old(2)
    by (auto simp: as'_def check_rate_def op_defs now_g_def tick_def Let_def seconds_def)
  have "in_minute x as' \<le> limit" for x
  proof (cases "u = t \<and> length ?w < limit \<and> x \<le> ?now \<and> ?now < x + seconds 60")
    case True
    then have "filter (\<lambda>a. x \<le> a \<and> a < x + seconds 60) as = filter (\<lambda>a. x \<le> a \<and> a < x + seconds 60) ?w"
      by (auto intro!: filter_cong)
    then have "in_minute x as \<le> length ?w" unfolding in_minute_def by (metis length_filter_le)
    with True show ?thesis by (simp add: as'_def in_minute_def)
  next
    case False
    with Cons.prems(6) [of x] show ?thesis by (auto simp: as'_def in_minute_def)
  qed
  moreover have "sorted as'" using Cons.prems(3) before by (simp add: as'_def sorted_append)
  moreover have "\<forall>a \<in> set as'. \<forall>x \<in> set (check_times cs ?s'). a \<le> x"
    using before later Cons.prems(4) by (auto simp: as'_def c)
  moreover have "\<exists>now. (\<forall>x \<in> set (check_times cs ?s'). now \<le> x) \<and> gw_rate_windows ?s' t = filter (\<lambda>w. now < w + seconds 60) as'"
    using win' later old(1) by (cases "u = t") (auto intro: order_trans)
  ultimately show ?case
    unfolding step using Cons.prems(1,2) by (intro Cons.IH) (auto simp: c)
qed

text \<open>C37. The rate limit holds over every minute. However the checks of tenants are interleaved, as long as the clock does
  not go back, no span of one minute contains more admitted calls of a tenant than the limit.\<close>

theorem rate_limit_every_minute:
  assumes "make_gateway store concurrency limit = Inr s" "\<forall>(env, u) \<in> set cs. ge_rate_limit env = limit" "sorted (check_times cs s)"
  shows "length (filter (\<lambda>a. x \<le> a \<and> a < x + seconds 60) (admitted_times cs s t)) \<le> limit"
proof -
  have "gw_rate_windows s t = []" using assms(1) by (auto simp: make_gateway_def split: if_splits)
  with admitted_times_bound [OF assms(2,3), of "[]" t x] show ?thesis by (auto simp: in_minute_def)
qed

theorem rate_limit_every_minute_witness:
  "length (admitted_times (replicate 7 (sample_model_env, ''acme'')) sample_gateway ''acme'') = 5 \<and>
   length (filter (\<lambda>a. 100 \<le> a \<and> a < 100 + seconds 60) (admitted_times (replicate 7 (sample_model_env, ''acme'')) sample_gateway ''acme'')) \<le> 5"
proof -
  have "sorted (check_times (replicate 7 (sample_model_env, ''acme'')) sample_gateway)" by code_simp
  with rate_limit_every_minute [OF sample_gateway_made, of "replicate 7 (sample_model_env, ''acme'')" 100 "''acme''"]
  have "length (filter (\<lambda>a. 100 \<le> a \<and> a < 100 + seconds 60) (admitted_times (replicate 7 (sample_model_env, ''acme'')) sample_gateway ''acme'')) \<le> 5"
    by simp
  moreover have "length (admitted_times (replicate 7 (sample_model_env, ''acme'')) sample_gateway ''acme'') = 5" by code_simp
  ultimately show ?thesis by blast
qed

section \<open>Progress\<close>



end
