(* ===== verification/Sandbox_Text.thy ===== *)
theory Sandbox_Text
  imports Domain "HOL-Library.Sublist"
begin

text \<open>
  The text checks of \<^verbatim>\<open>sandbox.py\<close>: bounded plain text, portable relative paths, immutable image
  references, environment names and values, command lines and egress hosts. The regular expressions are
  recognisers on the text. The development's characters are the code points up to 255: on them
  normalization to NFC changes nothing, and the control and format characters are the two control
  blocks and the soft hyphen.

  The results are about paths: a validated path names a place below the root it is resolved against, and
  the textual prefix test of the mount allowlist compares whole components.
\<close>

section \<open>Python strings\<close>

fun split_at :: "char \<Rightarrow> string \<Rightarrow> string list" where
  "split_at d [] = [[]]"
| "split_at d (c # cs) = (if c = d then [] # split_at d cs else (c # hd (split_at d cs)) # tl (split_at d cs))"

definition after_last :: "char \<Rightarrow> string \<Rightarrow> string" where
  "after_last d s = last (split_at d s)"

definition rstrip_of :: "string \<Rightarrow> string \<Rightarrow> string" where
  "rstrip_of cs s = rev (dropWhile (\<lambda>c. c \<in> set cs) (rev s))"

definition lower_char :: "char \<Rightarrow> char" where
  "lower_char c = (let n = of_char c :: nat in
     if 65 \<le> n \<and> n \<le> 90 \<or> 192 \<le> n \<and> n \<le> 222 \<and> n \<noteq> 215 then char_of (n + 32) else c)"

definition lower :: "string \<Rightarrow> string" where
  "lower s = map lower_char s"

text \<open>\<^verbatim>\<open>re.search\<close>: some position from which the expression matches.\<close>

definition search :: "(string \<Rightarrow> bool) \<Rightarrow> string \<Rightarrow> bool" where
  "search m s = list_ex m (suffixes s)"

definition contains :: "string \<Rightarrow> string \<Rightarrow> bool" where
  "contains w s = search (prefix w) s"

definition digit_or_lower :: "char \<Rightarrow> bool" where
  "digit_or_lower c = (is_digit c \<or> 97 \<le> (of_char c :: nat) \<and> (of_char c :: nat) \<le> 122)"

definition upper_ascii :: "char \<Rightarrow> bool" where
  "upper_ascii c = (65 \<le> (of_char c :: nat) \<and> (of_char c :: nat) \<le> 90)"

section \<open>Plain text and paths\<close>

definition unsafe_char :: "char \<Rightarrow> bool" where
  "unsafe_char c = (let n = of_char c :: nat in n < 32 \<or> 127 \<le> n \<and> n \<le> 159 \<or> n = 173)"

definition safe_text :: "string \<Rightarrow> nat \<Rightarrow> string \<Rightarrow> unit result" where
  "safe_text label maximum value =
     bindE (guardE (value \<noteq> [] \<and> length value \<le> maximum) (ValueError (label @ '' is outside its length bound''))) (\<lambda>_.
     guardE (\<not> list_ex unsafe_char value) (ValueError (label @ '' contains control or bidirectional characters'')))"

definition device_names :: "string list" where
  "device_names = [''con'', ''prn'', ''aux'', ''nul''] @ map (\<lambda>i. ''com'' @ nat_str i) [1..<10] @ map (\<lambda>i. ''lpt'' @ nat_str i) [1..<10]"

definition device_part :: "string \<Rightarrow> bool" where
  "device_part part = (lower (hd (split_at (CHR ''.'') (rstrip_of '' .'' part))) \<in> set device_names)"

definition validate_relative_path :: "string \<Rightarrow> string result" where
  "validate_relative_path value =
     bindE (safe_text ''path'' 512 value) (\<lambda>_.
     bindE (guardE (\<not> (prefix ''/'' value \<or> prefix [CHR 0x5C] value \<or> CHR 0x5C \<in> set value \<or> contains ''//'' value \<or> suffix ''/'' value))
              (ValueError ''path must be a normalized relative POSIX path'')) (\<lambda>_.
     let parts = split_at (CHR ''/'') value in
     bindE (guardE (\<not> list_ex (\<lambda>p. p \<in> {'''', ''.'', ''..''}) parts) (ValueError ''path traversal is prohibited'')) (\<lambda>_.
     bindE (guardE (\<not> list_ex device_part parts) (ValueError ''device paths are prohibited'')) (\<lambda>_.
     bindE (guardE (\<not> list_ex (\<lambda>p. p \<noteq> rstrip_of '' .'' p) parts) (ValueError ''ambiguous path suffix is prohibited'')) (\<lambda>_.
     Inr value)))))"

definition valid_path :: "string \<Rightarrow> bool" where
  "valid_path value = (validate_relative_path value = Inr value)"

section \<open>Image references\<close>

text \<open>\<open>_OCI_IMAGE\<close>. The registry has no slash, so it ends at the first one; the name has no at-sign.\<close>

definition registry_host :: "string \<Rightarrow> bool" where
  "registry_host s = (s \<noteq> [] \<and> digit_or_lower (hd s) \<and> digit_or_lower (last s) \<and>
     list_all (\<lambda>c. digit_or_lower c \<or> c \<in> set ''.-'') s)"

definition valid_registry :: "string \<Rightarrow> bool" where
  "valid_registry s =
     (case split_at (CHR '':'') s of
        [host] \<Rightarrow> registry_host host
      | [host, port] \<Rightarrow> registry_host host \<and> 1 \<le> length port \<and> length port \<le> 5 \<and> list_all is_digit port
      | _ \<Rightarrow> False)"

fun image_name :: "string \<Rightarrow> bool" where
  "image_name [] = False"
| "image_name [c] = digit_or_lower c"
| "image_name (c # d # cs) = ((digit_or_lower c \<or> c \<in> set ''._/-'' \<and> digit_or_lower d) \<and> image_name (d # cs))"

definition image_path :: "string \<Rightarrow> bool" where
  "image_path s = (image_name s \<and> digit_or_lower (hd s))"

definition image_registry :: "string \<Rightarrow> string" where
  "image_registry s = takeWhile (\<lambda>c. c \<noteq> CHR ''/'') s"

definition image_digest :: "string \<Rightarrow> string" where
  "image_digest s = drop (length s - 64) s"

definition immutable_image :: "string \<Rightarrow> bool" where
  "immutable_image s =
     (let rest = dropWhile (\<lambda>c. c \<noteq> CHR ''/'') s;
          name = takeWhile (\<lambda>c. c \<noteq> CHR ''@'') (tl rest);
          tail = dropWhile (\<lambda>c. c \<noteq> CHR ''@'') (tl rest)
      in valid_registry (image_registry s) \<and> rest \<noteq> [] \<and> image_path name \<and> prefix ''@sha256:'' tail \<and>
         hex64 (drop 8 tail))"

section \<open>Environment and command line\<close>

definition env_name :: "string \<Rightarrow> bool" where
  "env_name s = (s \<noteq> [] \<and> length s \<le> 64 \<and> upper_ascii (hd s) \<and> list_all (\<lambda>c. upper_ascii c \<or> is_digit c \<or> c = CHR ''_'') s)"

definition secret_name :: "string \<Rightarrow> bool" where
  "secret_name s = list_ex (\<lambda>w. contains w (lower s))
     [''token'', ''secret'', ''password'', ''passwd'', ''private_key'', ''api_key'', ''credential'']"

definition is_space :: "char \<Rightarrow> bool" where
  "is_space c = (let n = of_char c :: nat in 9 \<le> n \<and> n \<le> 13 \<or> 28 \<le> n \<and> n \<le> 32 \<or> n = 133 \<or> n = 160)"

text \<open>The four alternatives of \<open>_SECRET_VALUE\<close>, on lower-case text because the expression ignores case. A
  value has no line break when they are tried, so \<^verbatim>\<open>.*\<close> reaches to the end.\<close>

definition private_key_at :: "string \<Rightarrow> bool" where
  "private_key_at s = (prefix ''-----begin '' s \<and> contains ''private key-----'' (drop 11 s))"

definition github_token_at :: "string \<Rightarrow> bool" where
  "github_token_at s = (prefix ''gh'' s \<and> (case drop 2 s of c # d # rest \<Rightarrow> c \<in> set ''opsu'' \<and> d = CHR ''_'' \<and>
     20 \<le> length (takeWhile digit_or_lower rest) | _ \<Rightarrow> False))"

definition aws_key_at :: "string \<Rightarrow> bool" where
  "aws_key_at s = ((prefix ''akia'' s \<or> prefix ''asia'' s) \<and> 16 \<le> length (takeWhile digit_or_lower (drop 4 s)))"

definition assigned_value :: "string \<Rightarrow> bool" where
  "assigned_value s =
     (case dropWhile is_space s of
        [] \<Rightarrow> False
      | c # rest \<Rightarrow> c \<in> set '':='' \<and> 8 \<le> length (takeWhile (\<lambda>x. \<not> is_space x) (dropWhile is_space rest)))"

definition assigned_secret_at :: "string \<Rightarrow> bool" where
  "assigned_secret_at s = list_ex (\<lambda>w. prefix w s \<and> assigned_value (drop (length w) s))
     [''apikey'', ''api_key'', ''api-key'', ''password'', ''secret'', ''token'']"

definition secret_value :: "string \<Rightarrow> bool" where
  "secret_value s = search (\<lambda>x. private_key_at x \<or> github_token_at x \<or> aws_key_at x \<or> assigned_secret_at x) (lower s)"

definition shell_meta :: "string \<Rightarrow> bool" where
  "shell_meta s = (list_ex (\<lambda>w. contains w s) [[CHR 0x60], ''$('', ''${'', ''&&'', ''||''] \<or>
     list_ex (\<lambda>c. c \<in> {CHR '';'', CHR 0x0D, CHR 0x0A, CHR 0x00}) s)"

definition shells :: "string list" where
  "shells = [''ash'', ''bash'', ''busybox'', ''cmd'', ''dash'', ''fish'', ''ksh'', ''powershell'', ''pwsh'', ''sh'', ''zsh'']"

definition argv_token :: "string \<Rightarrow> bool" where
  "argv_token s = (safe_text ''argv token'' 4096 s = Inr () \<and> \<not> shell_meta s)"

definition argv_tokens_only :: "string list \<Rightarrow> bool" where
  "argv_tokens_only argv = (argv \<noteq> [] \<and> length argv \<le> 64 \<and> list_all argv_token argv \<and>
     lower (after_last (CHR ''/'') (hd argv)) \<notin> set shells \<and>
     \<not> list_ex (\<lambda>s. s \<in> {''-c'', ''/c'', ''-command'', ''-encodedcommand''}) (tl argv))"

section \<open>Egress hosts\<close>

definition dns_label :: "string \<Rightarrow> bool" where
  "dns_label s = (s \<noteq> [] \<and> length s \<le> 63 \<and> hd s \<noteq> CHR ''-'' \<and> last s \<noteq> CHR ''-'' \<and>
     list_all (\<lambda>c. digit_or_lower c \<or> c = CHR ''-'') s)"

text \<open>\<^verbatim>\<open>ipaddress.ip_address\<close> on a dotted quad. The texts of version 6 addresses contain a colon, which no
  label has, so the label check refuses them with the same exception.\<close>

definition ipv4_octet :: "string \<Rightarrow> bool" where
  "ipv4_octet s = (s \<noteq> [] \<and> length s \<le> 3 \<and> list_all is_digit s \<and> (hd s = CHR ''0'' \<longrightarrow> s = ''0'') \<and> digits_val s \<le> 255)"

definition ipv4_text :: "string \<Rightarrow> bool" where
  "ipv4_text s = (length (split_at (CHR ''.'') s) = 4 \<and> list_all ipv4_octet (split_at (CHR ''.'') s))"

definition exact_public_dns_name :: "string \<Rightarrow> bool" where
  "exact_public_dns_name s =
     (safe_text ''egress host'' 253 s = Inr () \<and> s = lower s \<and> \<not> suffix ''.'' s \<and> CHR ''*'' \<notin> set s \<and> \<not> ipv4_text s \<and>
      CHR ''.'' \<in> set s \<and> s \<noteq> ''localhost'' \<and> \<not> suffix ''.local'' s \<and> \<not> suffix ''.internal'' s \<and> \<not> suffix ''.localhost'' s \<and>
      list_all dns_label (split_at (CHR ''.'') s))"

section \<open>Resolving a path\<close>

text \<open>What a POSIX system makes of the components of a path, from a directory: an empty component and a dot stay,
  two dots go up.\<close>

fun resolve :: "string list \<Rightarrow> string list \<Rightarrow> string list" where
  "resolve dir [] = dir"
| "resolve dir (p # ps) =
     (if p = '''' \<or> p = ''.'' then resolve dir ps
      else if p = ''..'' then resolve (butlast dir) ps
      else resolve (dir @ [p]) ps)"

definition path_parts :: "string \<Rightarrow> string list" where
  "path_parts s = split_at (CHR ''/'') s"

lemma split_at_nonempty [simp]: "split_at d s \<noteq> []"
  by (cases s) simp_all

lemma split_at_chars:
  assumes "p \<in> set (split_at d s)"
  shows "d \<notin> set p" "set p \<subseteq> set s"
proof -
  have "p \<in> set (split_at d s) \<Longrightarrow> d \<notin> set p \<and> set p \<subseteq> set s"
  proof (induction s arbitrary: p)
    case (Cons c cs)
    from Cons.prems Cons.IH [of "hd (split_at d cs)"] Cons.IH [of p] show ?case
      by (auto split: if_splits dest: list.set_sel(2) [OF split_at_nonempty])
  qed simp
  with assms show "d \<notin> set p" "set p \<subseteq> set s" by blast+
qed

lemma split_at_join: "split_at d (a @ d # b) = split_at d a @ split_at d b"
  by (induction a) simp_all

lemma split_at_single: "d \<notin> set p \<Longrightarrow> split_at d p = [p]"
  by (induction p) auto

lemma split_at_inj [simp]: "split_at d a = split_at d b \<longleftrightarrow> a = b"
proof (induction a arbitrary: b)
  case Nil
  show ?case by (cases b) (simp_all add: eq_commute [of "[]"])
next
  case (Cons c cs)
  have hd_tl: "split_at d a = split_at d b \<longleftrightarrow> hd (split_at d a) = hd (split_at d b) \<and> tl (split_at d a) = tl (split_at d b)" for a b
    by (metis list.expand split_at_nonempty)
  show ?case
  proof (cases b)
    case Nil
    then show ?thesis by simp
  next
    case (Cons c' cs')
    with Cons.IH [of cs'] show ?thesis by (auto simp: hd_tl)
  qed
qed

lemma split_at_surj: "ps \<noteq> [] \<Longrightarrow> \<forall>p \<in> set ps. d \<notin> set p \<Longrightarrow> \<exists>b. split_at d b = ps"
proof (induction ps rule: list_nonempty_induct)
  case (single p)
  then show ?case using split_at_single [of d p] by auto
next
  case (cons p ps)
  then obtain b where "split_at d b = ps" by auto
  with cons.prems have "split_at d (p @ d # b) = p # ps" by (simp add: split_at_join split_at_single)
  then show ?case by blast
qed

text \<open>A text whose components extend those of another is that text, a separator and the rest.\<close>

lemma prefix_parts: "prefix (split_at d a) (split_at d b) \<longleftrightarrow> b = a \<or> prefix (a @ [d]) b"
proof
  assume "prefix (split_at d a) (split_at d b)"
  then obtain ps where ps: "split_at d b = split_at d a @ ps" by (auto simp: prefix_def)
  show "b = a \<or> prefix (a @ [d]) b"
  proof (cases "ps = []")
    case True
    with ps show ?thesis by simp
  next
    case False
    have "\<forall>p \<in> set ps. d \<notin> set p" using split_at_chars(1) [of _ d b] ps by auto
    with split_at_surj [OF False] obtain c where "split_at d c = ps" by blast
    then have "b = a @ d # c" using ps split_at_join [of d a c] by (metis split_at_inj)
    then show ?thesis by (simp add: prefix_def)
  qed
qed (auto simp: prefix_def split_at_join)

lemma resolve_plain: "\<forall>p \<in> set ps. p \<notin> {'''', ''.'', ''..''} \<Longrightarrow> resolve dir ps = dir @ ps"
  by (induction ps arbitrary: dir) auto

lemma valid_path_parts:
  assumes "validate_relative_path s = Inr r"
  shows "r = s" "p \<in> set (path_parts s) \<Longrightarrow> p \<notin> {'''', ''.'', ''..''} \<and> CHR ''/'' \<notin> set p \<and> CHR 0x5C \<notin> set p \<and> \<not> device_part p"
proof -
  show "r = s" using assms by (auto simp: validate_relative_path_def Let_def)
  assume p: "p \<in> set (path_parts s)"
  with assms have "p \<notin> {'''', ''.'', ''..''}" "\<not> device_part p" "CHR 0x5C \<notin> set s"
    by (auto simp: validate_relative_path_def Let_def path_parts_def list_ex_iff)
  with p split_at_chars [of p "CHR ''/''" s] show
    "p \<notin> {'''', ''.'', ''..''} \<and> CHR ''/'' \<notin> set p \<and> CHR 0x5C \<notin> set p \<and> \<not> device_part p"
    by (auto simp: path_parts_def)
qed

end
