(* ===== verification/Sandbox_Data.thy ===== *)
theory Sandbox_Data
  imports Remediation_Data Sandbox_Text
begin

text \<open>
  The contracts of \<^verbatim>\<open>sandbox.py\<close>: execution specifications with their inputs, mounts, environment, network,
  resources and approval binding, execution requests, backend records, artifacts, results and
  attestations, and the sandbox policy with its authorization. Fields that the code restricts to one
  literal carry no data; their value is written in the document. A digest field is the SHA-256 of the
  contract's canonical JSON without that field.
\<close>

section \<open>Enumerations\<close>

datatype sandbox_purpose = Purpose_ANALYSIS | Purpose_TESTING | Purpose_PATCH_PREPARATION

fun purpose_value :: "sandbox_purpose \<Rightarrow> string" where
  "purpose_value Purpose_ANALYSIS = ''analysis''"
| "purpose_value Purpose_TESTING = ''testing''"
| "purpose_value Purpose_PATCH_PREPARATION = ''patch_preparation''"

datatype network_mode = Network_NONE | Network_EXACT_DESTINATIONS

fun network_mode_value :: "network_mode \<Rightarrow> string" where
  "network_mode_value Network_NONE = ''none''"
| "network_mode_value Network_EXACT_DESTINATIONS = ''exact_destinations''"

datatype network_enforcement = Kubernetes_network_policy | External_egress_proxy_required

fun enforcement_value :: "network_enforcement \<Rightarrow> string" where
  "enforcement_value Kubernetes_network_policy = ''kubernetes-network-policy''"
| "enforcement_value External_egress_proxy_required = ''external-egress-proxy-required''"

datatype sandbox_outcome =
  Run_SUCCEEDED | Run_FAILED | Run_TIMED_OUT | Run_OOM_KILLED | Run_VIOLATION | Run_CANCELLED

fun sandbox_outcome_value :: "sandbox_outcome \<Rightarrow> string" where
  "sandbox_outcome_value Run_SUCCEEDED = ''succeeded''"
| "sandbox_outcome_value Run_FAILED = ''failed''"
| "sandbox_outcome_value Run_TIMED_OUT = ''timed_out''"
| "sandbox_outcome_value Run_OOM_KILLED = ''oom_killed''"
| "sandbox_outcome_value Run_VIOLATION = ''violation''"
| "sandbox_outcome_value Run_CANCELLED = ''cancelled''"

datatype artifact_disposition = Artifact_ACCEPTED | Artifact_REDACTED | Artifact_QUARANTINED

fun artifact_disposition_value :: "artifact_disposition \<Rightarrow> string" where
  "artifact_disposition_value Artifact_ACCEPTED = ''accepted''"
| "artifact_disposition_value Artifact_REDACTED = ''redacted''"
| "artifact_disposition_value Artifact_QUARANTINED = ''quarantined''"

datatype backend_state =
  Backend_ABSENT | Backend_PROVISIONING | Backend_RUNNING | Backend_TERMINAL | Backend_CONFLICT | Backend_UNKNOWN

section \<open>Parts of a specification\<close>

record content_input =
  cn_tenant_id :: string
  cn_logical_path :: string
  cn_content_hash :: string
  cn_size_bytes :: nat
  cn_media_type :: string
  cn_object_ref :: string

record mount_reference =
  mt_source_ref :: string
  mt_target_path :: string

record secret_reference =
  sk_reference :: string
  sk_version :: nat
  sk_env_name :: string

record environment_variable =
  vn_name :: string
  vn_value :: string

record egress_destination =
  eg_host :: string

record network_policy =
  np_mode :: network_mode
  np_destinations :: "egress_destination list"
  np_enforcement :: network_enforcement

record sandbox_resources =
  rz_cpu_millicores :: nat
  rz_memory_mib :: nat
  rz_pid_limit :: nat
  rz_ephemeral_storage_mib :: nat
  rz_timeout_seconds :: nat
  rz_output_bytes :: nat
  rz_output_files :: nat
  rz_output_file_bytes :: nat

record security_context =
  sx_run_as_user :: nat
  sx_run_as_group :: nat
  sx_fs_group :: nat
  sx_apparmor_profile :: string

record output_expectation =
  ox_logical_path :: string
  ox_media_types :: "string list"
  ox_required :: bool

record retry_and_cleanup =
  ry_maximum_attempts :: nat
  ry_cleanup_timeout_seconds :: nat
  ry_retain_failed_seconds :: nat

record approval_binding =
  ab_tenant_id :: string
  ab_run_id :: string
  ab_task_id :: string
  ab_plan_id :: string
  ab_action_id :: string
  ab_plan_digest :: string
  ab_action_digest :: string
  ab_approval_id :: string
  ab_approval_digest :: string
  ab_policy_digest :: string
  ab_expires_at :: datetime

text \<open>The validators of the parts.\<close>

definition valid_input :: "content_input \<Rightarrow> bool" where
  "valid_input c \<longleftrightarrow> valid_identifier (cn_tenant_id c) \<and> valid_path (cn_logical_path c) \<and> hex64 (cn_content_hash c) \<and>
     cn_size_bytes c \<le> 64 * 1024 * 1024 \<and> 3 \<le> length (cn_media_type c) \<and> length (cn_media_type c) \<le> 128 \<and>
     valid_identifier (cn_object_ref c)"

definition valid_mount :: "mount_reference \<Rightarrow> bool" where
  "valid_mount m \<longleftrightarrow> valid_identifier (mt_source_ref m) \<and> valid_path (mt_target_path m)"

definition valid_secret :: "secret_reference \<Rightarrow> bool" where
  "valid_secret s \<longleftrightarrow> valid_identifier (sk_reference s) \<and> 1 \<le> sk_version s \<and> env_name (sk_env_name s)"

definition valid_variable :: "environment_variable \<Rightarrow> bool" where
  "valid_variable v \<longleftrightarrow> env_name (vn_name v) \<and> \<not> secret_name (vn_name v) \<and> length (vn_value v) \<le> 2048 \<and>
     safe_text ''environment value'' 2048 (if vn_value v = [] then ''x'' else vn_value v) = Inr () \<and> \<not> secret_value (vn_value v)"

definition valid_destination :: "egress_destination \<Rightarrow> bool" where
  "valid_destination d \<longleftrightarrow> exact_public_dns_name (eg_host d)"

definition valid_network :: "network_policy \<Rightarrow> bool" where
  "valid_network n \<longleftrightarrow> length (np_destinations n) \<le> 16 \<and> list_all valid_destination (np_destinations n) \<and>
     (np_mode n = Network_NONE \<longrightarrow> np_destinations n = []) \<and>
     (np_mode n = Network_EXACT_DESTINATIONS \<longrightarrow> np_destinations n \<noteq> []) \<and> distinct (np_destinations n)"

definition valid_resources :: "sandbox_resources \<Rightarrow> bool" where
  "valid_resources r \<longleftrightarrow>
     50 \<le> rz_cpu_millicores r \<and> rz_cpu_millicores r \<le> 8000 \<and> 64 \<le> rz_memory_mib r \<and> rz_memory_mib r \<le> 32768 \<and>
     16 \<le> rz_pid_limit r \<and> rz_pid_limit r \<le> 1024 \<and>
     64 \<le> rz_ephemeral_storage_mib r \<and> rz_ephemeral_storage_mib r \<le> 32768 \<and>
     1 \<le> rz_timeout_seconds r \<and> rz_timeout_seconds r \<le> 3600 \<and>
     1024 \<le> rz_output_bytes r \<and> rz_output_bytes r \<le> 64 * 1024 * 1024 \<and>
     1 \<le> rz_output_files r \<and> rz_output_files r \<le> 1000 \<and>
     1 \<le> rz_output_file_bytes r \<and> rz_output_file_bytes r \<le> 16 * 1024 * 1024 \<and> rz_output_file_bytes r \<le> rz_output_bytes r"

definition valid_security :: "security_context \<Rightarrow> bool" where
  "valid_security s \<longleftrightarrow> 10000 \<le> sx_run_as_user s \<and> sx_run_as_user s \<le> 65535 \<and>
     10000 \<le> sx_run_as_group s \<and> sx_run_as_group s \<le> 65535 \<and> 10000 \<le> sx_fs_group s \<and> sx_fs_group s \<le> 65535 \<and>
     valid_identifier (sx_apparmor_profile s)"

definition media_type_ok :: "string \<Rightarrow> bool" where
  "media_type_ok s \<longleftrightarrow> s \<noteq> [] \<and> length s \<le> 128 \<and> s = lower s \<and> CHR ''/'' \<in> set s"

definition make_output :: "output_expectation \<Rightarrow> output_expectation result" where
  "make_output x =
     (if valid_path (ox_logical_path x) \<and> 1 \<le> length (ox_media_types x) \<and> length (ox_media_types x) \<le> 8 \<and>
         list_all media_type_ok (ox_media_types x)
      then Inr (x\<lparr>ox_media_types := normalize_authority (ox_media_types x)\<rparr>)
      else Inl (ValidationError ''OutputExpectation''))"

definition valid_sandbox_retry :: "retry_and_cleanup \<Rightarrow> bool" where
  "valid_sandbox_retry r \<longleftrightarrow> 1 \<le> ry_maximum_attempts r \<and> ry_maximum_attempts r \<le> 5 \<and>
     10 \<le> ry_cleanup_timeout_seconds r \<and> ry_cleanup_timeout_seconds r \<le> 900 \<and> ry_retain_failed_seconds r \<le> 86400"

definition valid_approval_binding :: "approval_binding \<Rightarrow> bool" where
  "valid_approval_binding b \<longleftrightarrow> valid_identifier (ab_tenant_id b) \<and> valid_identifier (ab_run_id b) \<and> valid_identifier (ab_task_id b) \<and>
     valid_identifier (ab_plan_id b) \<and> valid_identifier (ab_action_id b) \<and> hex64 (ab_plan_digest b) \<and>
     hex64 (ab_action_digest b) \<and> valid_identifier (ab_approval_id b) \<and> hex64 (ab_approval_digest b) \<and> hex64 (ab_policy_digest b)"

section \<open>Specifications and requests\<close>

record sandbox_spec =
  sp_spec_version :: string
  sp_tenant_id :: string
  sp_run_id :: string
  sp_task_id :: string
  sp_purpose :: sandbox_purpose
  sp_risk :: risk_level
  sp_approval :: approval_binding
  sp_image :: string
  sp_argv :: "string list"
  sp_inputs :: "content_input list"
  sp_mounts :: "mount_reference list"
  sp_environment :: "environment_variable list"
  sp_secrets :: "secret_reference list"
  sp_network :: network_policy
  sp_resources :: sandbox_resources
  sp_security :: security_context
  sp_runtime_class :: string
  sp_admission_policies :: "string list"
  sp_expected_outputs :: "output_expectation list"
  sp_retry :: retry_and_cleanup
  sp_spec_digest :: string

definition input_json :: "content_input \<Rightarrow> json" where
  "input_json c = JObj [(''tenant_id'', JStr (cn_tenant_id c)), (''logical_path'', JStr (cn_logical_path c)),
     (''content_hash'', JStr (cn_content_hash c)), (''size_bytes'', JInt (int (cn_size_bytes c))),
     (''media_type'', JStr (cn_media_type c)), (''object_ref'', JStr (cn_object_ref c))]"

definition mount_json :: "mount_reference \<Rightarrow> json" where
  "mount_json m = JObj [(''source_ref'', JStr (mt_source_ref m)), (''target_path'', JStr (mt_target_path m)), (''read_only'', JBool True)]"

definition secret_json :: "secret_reference \<Rightarrow> json" where
  "secret_json s = JObj [(''reference'', JStr (sk_reference s)), (''version'', JInt (int (sk_version s))), (''env_name'', JStr (sk_env_name s))]"

definition variable_json :: "environment_variable \<Rightarrow> json" where
  "variable_json v = JObj [(''name'', JStr (vn_name v)), (''value'', JStr (vn_value v))]"

definition destination_json :: "egress_destination \<Rightarrow> json" where
  "destination_json d = JObj [(''scheme'', JStr ''https''), (''host'', JStr (eg_host d)), (''port'', JInt 443)]"

definition network_json :: "network_policy \<Rightarrow> json" where
  "network_json n = JObj [(''mode'', JStr (network_mode_value (np_mode n))),
     (''destinations'', JList (map destination_json (np_destinations n))), (''enforcement'', JStr (enforcement_value (np_enforcement n)))]"

definition resources_json :: "sandbox_resources \<Rightarrow> json" where
  "resources_json r = JObj
     [(''cpu_millicores'', JInt (int (rz_cpu_millicores r))), (''memory_mib'', JInt (int (rz_memory_mib r))),
      (''pid_limit'', JInt (int (rz_pid_limit r))), (''ephemeral_storage_mib'', JInt (int (rz_ephemeral_storage_mib r))),
      (''timeout_seconds'', JInt (int (rz_timeout_seconds r))), (''output_bytes'', JInt (int (rz_output_bytes r))),
      (''output_files'', JInt (int (rz_output_files r))), (''output_file_bytes'', JInt (int (rz_output_file_bytes r)))]"

definition security_json :: "security_context \<Rightarrow> json" where
  "security_json s = JObj
     [(''run_as_user'', JInt (int (sx_run_as_user s))), (''run_as_group'', JInt (int (sx_run_as_group s))),
      (''fs_group'', JInt (int (sx_fs_group s))), (''run_as_non_root'', JBool True), (''read_only_root_filesystem'', JBool True),
      (''allow_privilege_escalation'', JBool False), (''privileged'', JBool False), (''capabilities_drop'', JList [JStr ''ALL'']),
      (''seccomp_profile'', JStr ''RuntimeDefault''), (''apparmor_profile'', JStr (sx_apparmor_profile s)),
      (''no_new_privileges'', JBool True), (''host_network'', JBool False), (''host_pid'', JBool False), (''host_ipc'', JBool False),
      (''automount_service_account_token'', JBool False)]"

definition output_json :: "output_expectation \<Rightarrow> json" where
  "output_json x = JObj [(''logical_path'', JStr (ox_logical_path x)), (''media_types'', JList (map JStr (ox_media_types x))),
     (''required'', JBool (ox_required x))]"

definition sandbox_retry_json :: "retry_and_cleanup \<Rightarrow> json" where
  "sandbox_retry_json r = JObj [(''retry_owner'', JStr ''temporal''), (''maximum_attempts'', JInt (int (ry_maximum_attempts r))),
     (''observe_before_create'', JBool True), (''stale_attempt_fencing'', JBool True), (''cleanup_required'', JBool True),
     (''cleanup_timeout_seconds'', JInt (int (ry_cleanup_timeout_seconds r))),
     (''retain_failed_seconds'', JInt (int (ry_retain_failed_seconds r)))]"

definition approval_binding_json :: "approval_binding \<Rightarrow> json" where
  "approval_binding_json b = JObj
     [(''tenant_id'', JStr (ab_tenant_id b)), (''run_id'', JStr (ab_run_id b)), (''task_id'', JStr (ab_task_id b)),
      (''remediation_plan_id'', JStr (ab_plan_id b)), (''remediation_action_id'', JStr (ab_action_id b)),
      (''remediation_plan_digest'', JStr (ab_plan_digest b)), (''remediation_action_digest'', JStr (ab_action_digest b)),
      (''approval_id'', JStr (ab_approval_id b)), (''approval_digest'', JStr (ab_approval_digest b)),
      (''approval_policy_digest'', JStr (ab_policy_digest b)), (''approval_expires_at'', JStr (isoformat_z (ab_expires_at b)))]"

definition spec_items :: "sandbox_spec \<Rightarrow> dict" where
  "spec_items s =
     [(''schema_version'', JInt 1), (''spec_version'', JStr (sp_spec_version s)), (''tenant_id'', JStr (sp_tenant_id s)),
      (''run_id'', JStr (sp_run_id s)), (''task_id'', JStr (sp_task_id s)), (''purpose'', JStr (purpose_value (sp_purpose s))),
      (''risk'', JStr (risk_value (sp_risk s))), (''approval'', approval_binding_json (sp_approval s)), (''image'', JStr (sp_image s)),
      (''argv'', JList (map JStr (sp_argv s))), (''working_directory'', JStr ''workspace''),
      (''inputs'', JList (map input_json (sp_inputs s))), (''mounts'', JList (map mount_json (sp_mounts s))),
      (''environment'', JList (map variable_json (sp_environment s))), (''secrets'', JList (map secret_json (sp_secrets s))),
      (''network'', network_json (sp_network s)), (''resources'', resources_json (sp_resources s)),
      (''security'', security_json (sp_security s)), (''required_runtime_class'', JStr (sp_runtime_class s)),
      (''required_admission_policies'', JList (map JStr (sp_admission_policies s))),
      (''expected_outputs'', JList (map output_json (sp_expected_outputs s))), (''retry'', sandbox_retry_json (sp_retry s))]"

definition spec_digest_of :: "runtime \<Rightarrow> sandbox_spec \<Rightarrow> string" where
  "spec_digest_of rt s = canonical_digest rt (JObj (spec_items s))"

definition spec_json :: "sandbox_spec \<Rightarrow> json" where
  "spec_json s = JObj (spec_items s @ [(''spec_digest'', JStr (sp_spec_digest s))])"

definition spec_paths :: "sandbox_spec \<Rightarrow> string list" where
  "spec_paths s = map cn_logical_path (sp_inputs s) @ map mt_target_path (sp_mounts s) @ map ox_logical_path (sp_expected_outputs s)"

definition spec_env_names :: "sandbox_spec \<Rightarrow> string list" where
  "spec_env_names s = map vn_name (sp_environment s) @ map sk_env_name (sp_secrets s)"

text \<open>\<open>SandboxSpec(...)\<close> over output expectations that were validated already.\<close>

definition valid_spec :: "runtime \<Rightarrow> sandbox_spec \<Rightarrow> bool" where
  "valid_spec rt s \<longleftrightarrow>
     valid_identifier (sp_spec_version s) \<and> valid_identifier (sp_tenant_id s) \<and> valid_identifier (sp_run_id s) \<and>
     valid_identifier (sp_task_id s) \<and> valid_approval_binding (sp_approval s) \<and> immutable_image (sp_image s) \<and>
     argv_tokens_only (sp_argv s) \<and>
     length (sp_inputs s) \<le> 256 \<and> list_all valid_input (sp_inputs s) \<and> length (sp_mounts s) \<le> 32 \<and> list_all valid_mount (sp_mounts s) \<and>
     length (sp_environment s) \<le> 64 \<and> list_all valid_variable (sp_environment s) \<and>
     length (sp_secrets s) \<le> 16 \<and> list_all valid_secret (sp_secrets s) \<and> valid_network (sp_network s) \<and>
     valid_resources (sp_resources s) \<and> valid_security (sp_security s) \<and> valid_identifier (sp_runtime_class s) \<and>
     1 \<le> length (sp_admission_policies s) \<and> length (sp_admission_policies s) \<le> 16 \<and> list_all valid_identifier (sp_admission_policies s) \<and>
     1 \<le> length (sp_expected_outputs s) \<and> length (sp_expected_outputs s) \<le> 64 \<and>
     list_all (\<lambda>x. make_output x = Inr x) (sp_expected_outputs s) \<and> valid_sandbox_retry (sp_retry s) \<and> hex64 (sp_spec_digest s) \<and>
     ab_tenant_id (sp_approval s) = sp_tenant_id s \<and> ab_run_id (sp_approval s) = sp_run_id s \<and> ab_task_id (sp_approval s) = sp_task_id s \<and>
     distinct (spec_paths s) \<and> distinct (spec_env_names s) \<and> list_all (\<lambda>c. cn_tenant_id c = sp_tenant_id s) (sp_inputs s) \<and>
     distinct (sp_admission_policies s) \<and> sum_list (map cn_size_bytes (sp_inputs s)) \<le> 128 * 1024 * 1024 \<and>
     sp_spec_digest s = spec_digest_of rt s"

record execution_request =
  xr_execution_id :: string
  xr_tenant_id :: string
  xr_run_id :: string
  xr_task_id :: string
  xr_spec :: sandbox_spec
  xr_spec_digest :: string
  xr_policy_digest :: string
  xr_approval_digest :: string
  xr_idempotency_key :: string
  xr_attempt :: nat
  xr_fence_token :: string
  xr_requested_at :: datetime
  xr_request_digest :: string

definition request_items :: "execution_request \<Rightarrow> dict" where
  "request_items r =
     [(''schema_version'', JInt 1), (''execution_id'', JStr (xr_execution_id r)), (''tenant_id'', JStr (xr_tenant_id r)),
      (''run_id'', JStr (xr_run_id r)), (''task_id'', JStr (xr_task_id r)), (''spec'', spec_json (xr_spec r)),
      (''spec_digest'', JStr (xr_spec_digest r)), (''policy_digest'', JStr (xr_policy_digest r)),
      (''approval_digest'', JStr (xr_approval_digest r)), (''idempotency_key'', JStr (xr_idempotency_key r)),
      (''attempt'', JInt (int (xr_attempt r))), (''fence_token'', JStr (xr_fence_token r)),
      (''requested_at'', JStr (isoformat_z (xr_requested_at r)))]"

definition valid_execution_request :: "runtime \<Rightarrow> execution_request \<Rightarrow> bool" where
  "valid_execution_request rt r \<longleftrightarrow>
     valid_identifier (xr_execution_id r) \<and> valid_identifier (xr_tenant_id r) \<and> valid_identifier (xr_run_id r) \<and>
     valid_identifier (xr_task_id r) \<and> valid_spec rt (xr_spec r) \<and> hex64 (xr_spec_digest r) \<and> hex64 (xr_policy_digest r) \<and>
     hex64 (xr_approval_digest r) \<and> valid_identifier (xr_idempotency_key r) \<and> 1 \<le> xr_attempt r \<and> xr_attempt r \<le> 16 \<and>
     valid_identifier (xr_fence_token r) \<and> hex64 (xr_request_digest r) \<and>
     sp_tenant_id (xr_spec r) = xr_tenant_id r \<and> sp_run_id (xr_spec r) = xr_run_id r \<and> sp_task_id (xr_spec r) = xr_task_id r \<and>
     sp_spec_digest (xr_spec r) = xr_spec_digest r \<and> ab_approval_digest (sp_approval (xr_spec r)) = xr_approval_digest r \<and>
     xr_request_digest r = canonical_digest rt (JObj (request_items r))"

section \<open>Backend records, artifacts and results\<close>

record backend_observation =
  bo_execution_id :: string
  bo_state :: backend_state
  bo_provider_uid :: "string option"
  bo_attempt :: nat
  bo_fence_token :: string
  bo_observed_at :: datetime

definition valid_observation :: "backend_observation \<Rightarrow> bool" where
  "valid_observation b \<longleftrightarrow> valid_identifier (bo_execution_id b) \<and> valid_opt_identifier (bo_provider_uid b) \<and>
     1 \<le> bo_attempt b \<and> bo_attempt b \<le> 16 \<and> valid_identifier (bo_fence_token b)"

record backend_execution =
  be_execution_id :: string
  be_provider_ref :: string
  be_provider_uid :: string
  be_attempt :: nat
  be_fence_token :: string
  be_provisioned_at :: datetime

definition valid_backend_execution :: "backend_execution \<Rightarrow> bool" where
  "valid_backend_execution b \<longleftrightarrow> valid_identifier (be_execution_id b) \<and> valid_identifier (be_provider_ref b) \<and>
     valid_identifier (be_provider_uid b) \<and> 1 \<le> be_attempt b \<and> be_attempt b \<le> 16 \<and> valid_identifier (be_fence_token b)"

record artifact_record =
  af_artifact_id :: string
  af_tenant_id :: string
  af_run_id :: string
  af_task_id :: string
  af_execution_id :: string
  af_logical_path :: string
  af_media_type :: string
  af_content_hash :: string
  af_size_bytes :: nat
  af_disposition :: artifact_disposition
  af_redaction_count :: nat
  af_scanner_codes :: "string list"
  af_object_ref :: "string option"
  af_retention_expires_at :: datetime
  af_canonical_digest :: string

definition artifact_items :: "artifact_record \<Rightarrow> dict" where
  "artifact_items a =
     [(''schema_version'', JInt 1), (''artifact_id'', JStr (af_artifact_id a)), (''tenant_id'', JStr (af_tenant_id a)),
      (''run_id'', JStr (af_run_id a)), (''task_id'', JStr (af_task_id a)), (''execution_id'', JStr (af_execution_id a)),
      (''logical_path'', JStr (af_logical_path a)), (''media_type'', JStr (af_media_type a)),
      (''content_hash'', JStr (af_content_hash a)), (''size_bytes'', JInt (int (af_size_bytes a))),
      (''disposition'', JStr (artifact_disposition_value (af_disposition a))),
      (''redaction_count'', JInt (int (af_redaction_count a))), (''scanner_codes'', JList (map JStr (af_scanner_codes a))),
      (''object_ref'', opt_json (af_object_ref a)), (''retention_expires_at'', JStr (isoformat_z (af_retention_expires_at a)))]"

definition artifact_json :: "artifact_record \<Rightarrow> json" where
  "artifact_json a = JObj (artifact_items a @ [(''canonical_digest'', JStr (af_canonical_digest a))])"

text \<open>An empty object reference is refused by its type already, so \<^verbatim>\<open>self.object_ref\<close> is true when it is set.\<close>

definition valid_artifact :: "runtime \<Rightarrow> artifact_record \<Rightarrow> bool" where
  "valid_artifact rt a \<longleftrightarrow>
     valid_identifier (af_artifact_id a) \<and> valid_identifier (af_tenant_id a) \<and> valid_identifier (af_run_id a) \<and>
     valid_identifier (af_task_id a) \<and> valid_identifier (af_execution_id a) \<and> valid_path (af_logical_path a) \<and>
     hex64 (af_content_hash a) \<and> af_size_bytes a \<le> 16 * 1024 * 1024 \<and> af_redaction_count a \<le> 10000 \<and>
     length (af_scanner_codes a) \<le> 32 \<and> list_all valid_identifier (af_scanner_codes a) \<and>
     valid_opt_identifier (af_object_ref a) \<and> hex64 (af_canonical_digest a) \<and>
     (af_disposition a = Artifact_QUARANTINED \<longrightarrow> af_object_ref a = None) \<and>
     af_canonical_digest a = canonical_digest rt (JObj (artifact_items a))"

record artifact_manifest =
  am_tenant_id :: string
  am_run_id :: string
  am_task_id :: string
  am_execution_id :: string
  am_artifacts :: "artifact_record list"
  am_total_bytes :: nat
  am_generated_at :: datetime
  am_manifest_digest :: string

definition manifest_items :: "artifact_manifest \<Rightarrow> dict" where
  "manifest_items m =
     [(''schema_version'', JInt 1), (''tenant_id'', JStr (am_tenant_id m)), (''run_id'', JStr (am_run_id m)),
      (''task_id'', JStr (am_task_id m)), (''execution_id'', JStr (am_execution_id m)),
      (''artifacts'', JList (map artifact_json (am_artifacts m))), (''total_bytes'', JInt (int (am_total_bytes m))),
      (''generated_at'', JStr (isoformat_z (am_generated_at m)))]"

definition valid_manifest :: "runtime \<Rightarrow> artifact_manifest \<Rightarrow> bool" where
  "valid_manifest rt m \<longleftrightarrow>
     valid_identifier (am_tenant_id m) \<and> valid_identifier (am_run_id m) \<and> valid_identifier (am_task_id m) \<and>
     valid_identifier (am_execution_id m) \<and> length (am_artifacts m) \<le> 1000 \<and> list_all (valid_artifact rt) (am_artifacts m) \<and>
     am_total_bytes m \<le> 64 * 1024 * 1024 \<and> hex64 (am_manifest_digest m) \<and>
     sort_key af_logical_path (am_artifacts m) = am_artifacts m \<and>
     am_total_bytes m = sum_list (map af_size_bytes (am_artifacts m)) \<and>
     list_all (\<lambda>a. af_tenant_id a = am_tenant_id m \<and> af_run_id a = am_run_id m \<and> af_task_id a = am_task_id m \<and>
       af_execution_id a = am_execution_id m) (am_artifacts m) \<and>
     am_manifest_digest m = canonical_digest rt (JObj (manifest_items m))"

record sandbox_result =
  sz_tenant_id :: string
  sz_run_id :: string
  sz_task_id :: string
  sz_execution_id :: string
  sz_request_digest :: string
  sz_spec_digest :: string
  sz_policy_digest :: string
  sz_approval_digest :: string
  sz_provider_uid :: string
  sz_attempt :: nat
  sz_fence_token :: string
  sz_outcome :: sandbox_outcome
  sz_exit_code :: "nat option"
  sz_output_bytes :: nat
  sz_output_files :: nat
  sz_started_at :: datetime
  sz_completed_at :: datetime
  sz_detail_code :: string
  sz_manifest_digest :: "string option"
  sz_result_digest :: string

definition result_items :: "sandbox_result \<Rightarrow> dict" where
  "result_items r =
     [(''schema_version'', JInt 1), (''tenant_id'', JStr (sz_tenant_id r)), (''run_id'', JStr (sz_run_id r)),
      (''task_id'', JStr (sz_task_id r)), (''execution_id'', JStr (sz_execution_id r)),
      (''request_digest'', JStr (sz_request_digest r)), (''spec_digest'', JStr (sz_spec_digest r)),
      (''policy_digest'', JStr (sz_policy_digest r)), (''approval_digest'', JStr (sz_approval_digest r)),
      (''provider_uid'', JStr (sz_provider_uid r)), (''attempt'', JInt (int (sz_attempt r))),
      (''fence_token'', JStr (sz_fence_token r)), (''outcome'', JStr (sandbox_outcome_value (sz_outcome r))),
      (''exit_code'', (case sz_exit_code r of None \<Rightarrow> JNull | Some n \<Rightarrow> JInt (int n))),
      (''output_bytes'', JInt (int (sz_output_bytes r))), (''output_files'', JInt (int (sz_output_files r))),
      (''started_at'', JStr (isoformat_z (sz_started_at r))), (''completed_at'', JStr (isoformat_z (sz_completed_at r))),
      (''detail_code'', JStr (sz_detail_code r)), (''manifest_digest'', opt_json (sz_manifest_digest r))]"

definition valid_sandbox_result :: "runtime \<Rightarrow> sandbox_result \<Rightarrow> bool" where
  "valid_sandbox_result rt r \<longleftrightarrow>
     valid_identifier (sz_tenant_id r) \<and> valid_identifier (sz_run_id r) \<and> valid_identifier (sz_task_id r) \<and>
     valid_identifier (sz_execution_id r) \<and> hex64 (sz_request_digest r) \<and> hex64 (sz_spec_digest r) \<and> hex64 (sz_policy_digest r) \<and>
     hex64 (sz_approval_digest r) \<and> valid_identifier (sz_provider_uid r) \<and> 1 \<le> sz_attempt r \<and> sz_attempt r \<le> 16 \<and>
     valid_identifier (sz_fence_token r) \<and> (case sz_exit_code r of None \<Rightarrow> True | Some n \<Rightarrow> n \<le> 255) \<and>
     sz_output_bytes r \<le> 64 * 1024 * 1024 \<and> sz_output_files r \<le> 1000 \<and> valid_identifier (sz_detail_code r) \<and>
     (case sz_manifest_digest r of None \<Rightarrow> True | Some d \<Rightarrow> hex64 d) \<and> hex64 (sz_result_digest r) \<and>
     sz_started_at r \<le> sz_completed_at r \<and> (sz_outcome r = Run_SUCCEEDED \<longrightarrow> sz_exit_code r = Some 0) \<and>
     sz_result_digest r = canonical_digest rt (JObj (result_items r))"

record sandbox_attestation =
  at_tenant_id :: string
  at_execution_id :: string
  at_request_digest :: string
  at_result_digest :: string
  at_spec_digest :: string
  at_policy_digest :: string
  at_approval_digest :: string
  at_image_digest :: string
  at_provider_uid :: string
  at_runtime_class :: string
  at_node_attestation_ref :: string
  at_admitted_policy_refs :: "string list"
  at_attested_at :: datetime
  at_attestation_digest :: string

definition attestation_items :: "sandbox_attestation \<Rightarrow> dict" where
  "attestation_items a =
     [(''schema_version'', JInt 1), (''tenant_id'', JStr (at_tenant_id a)), (''execution_id'', JStr (at_execution_id a)),
      (''request_digest'', JStr (at_request_digest a)), (''result_digest'', JStr (at_result_digest a)),
      (''spec_digest'', JStr (at_spec_digest a)), (''policy_digest'', JStr (at_policy_digest a)),
      (''approval_digest'', JStr (at_approval_digest a)), (''image_digest'', JStr (at_image_digest a)),
      (''provider_uid'', JStr (at_provider_uid a)), (''runtime_class'', JStr (at_runtime_class a)),
      (''node_attestation_ref'', JStr (at_node_attestation_ref a)),
      (''admitted_policy_refs'', JList (map JStr (at_admitted_policy_refs a))), (''attested_at'', JStr (isoformat_z (at_attested_at a)))]"

definition valid_attestation :: "runtime \<Rightarrow> sandbox_attestation \<Rightarrow> bool" where
  "valid_attestation rt a \<longleftrightarrow>
     valid_identifier (at_tenant_id a) \<and> valid_identifier (at_execution_id a) \<and> hex64 (at_request_digest a) \<and>
     hex64 (at_result_digest a) \<and> hex64 (at_spec_digest a) \<and> hex64 (at_policy_digest a) \<and> hex64 (at_approval_digest a) \<and>
     hex64 (at_image_digest a) \<and> valid_identifier (at_provider_uid a) \<and> valid_identifier (at_runtime_class a) \<and>
     valid_identifier (at_node_attestation_ref a) \<and> 1 \<le> length (at_admitted_policy_refs a) \<and>
     length (at_admitted_policy_refs a) \<le> 16 \<and> list_all valid_identifier (at_admitted_policy_refs a) \<and>
     hex64 (at_attestation_digest a) \<and> at_attestation_digest a = canonical_digest rt (JObj (attestation_items a))"

section \<open>The sandbox policy\<close>

record sandbox_policy =
  sy_tenant_id :: string
  sy_policy_id :: string
  sy_revision :: nat
  sy_enabled :: bool
  sy_allowed_image_digests :: "string list"
  sy_allowed_registries :: "string list"
  sy_allowed_commands :: "string list"
  sy_allowed_purposes :: "sandbox_purpose list"
  sy_allowed_mount_prefixes :: "string list"
  sy_allowed_secret_refs :: "string list"
  sy_allowed_egress :: "egress_destination list"
  sy_allowed_approval_policy_digests :: "string list"
  sy_maximum_resources :: sandbox_resources
  sy_maximum_concurrency :: nat
  sy_maximum_lifetime_seconds :: nat
  sy_maximum_risk :: risk_level
  sy_runtime_class :: string
  sy_admission_policies :: "string list"
  sy_policy_digest :: string

definition sandbox_policy_items :: "sandbox_policy \<Rightarrow> dict" where
  "sandbox_policy_items p =
     [(''schema_version'', JInt 1), (''tenant_id'', JStr (sy_tenant_id p)), (''policy_id'', JStr (sy_policy_id p)),
      (''revision'', JInt (int (sy_revision p))), (''enabled'', JBool (sy_enabled p)),
      (''allowed_image_digests'', JList (map JStr (sy_allowed_image_digests p))),
      (''allowed_registries'', JList (map JStr (sy_allowed_registries p))),
      (''allowed_commands'', JList (map JStr (sy_allowed_commands p))),
      (''allowed_purposes'', JList (map (\<lambda>x. JStr (purpose_value x)) (sy_allowed_purposes p))),
      (''allowed_mount_prefixes'', JList (map JStr (sy_allowed_mount_prefixes p))),
      (''allowed_secret_refs'', JList (map JStr (sy_allowed_secret_refs p))),
      (''allowed_egress'', JList (map destination_json (sy_allowed_egress p))),
      (''allowed_approval_policy_digests'', JList (map JStr (sy_allowed_approval_policy_digests p))),
      (''maximum_resources'', resources_json (sy_maximum_resources p)),
      (''maximum_concurrency'', JInt (int (sy_maximum_concurrency p))),
      (''maximum_lifetime_seconds'', JInt (int (sy_maximum_lifetime_seconds p))),
      (''maximum_risk'', JStr (risk_value (sy_maximum_risk p))), (''require_runtime_class'', JStr (sy_runtime_class p)),
      (''require_admission_policies'', JList (map JStr (sy_admission_policies p)))]"

text \<open>\<open>SandboxPolicy(...)\<close>: the mount prefixes are validated and sorted before the digest is compared.\<close>

definition make_sandbox_policy :: "runtime \<Rightarrow> sandbox_policy \<Rightarrow> sandbox_policy result" where
  "make_sandbox_policy rt p =
     (let q = p\<lparr>sy_allowed_mount_prefixes := normalize_authority (sy_allowed_mount_prefixes p)\<rparr> in
      if valid_identifier (sy_tenant_id p) \<and> valid_identifier (sy_policy_id p) \<and> 1 \<le> sy_revision p \<and>
         list_all hex64 (sy_allowed_image_digests p) \<and> list_all valid_path (sy_allowed_mount_prefixes p) \<and>
         list_all valid_identifier (sy_allowed_secret_refs p) \<and> list_all valid_destination (sy_allowed_egress p) \<and>
         list_all hex64 (sy_allowed_approval_policy_digests p) \<and> valid_resources (sy_maximum_resources p) \<and>
         sy_maximum_concurrency p \<le> 100 \<and> 1 \<le> sy_maximum_lifetime_seconds p \<and> sy_maximum_lifetime_seconds p \<le> 3600 \<and>
         valid_identifier (sy_runtime_class p) \<and> 1 \<le> length (sy_admission_policies p) \<and> length (sy_admission_policies p) \<le> 16 \<and>
         list_all valid_identifier (sy_admission_policies p) \<and> hex64 (sy_policy_digest p) \<and>
         sy_policy_digest q = canonical_digest rt (JObj (sandbox_policy_items q))
      then Inr q else Inl (ValidationError ''SandboxPolicy''))"

definition allowed_risks :: "risk_level \<Rightarrow> risk_level list" where
  "allowed_risks maximum = LOW # (if maximum \<in> {MEDIUM, HIGH} then [MEDIUM] else []) @ (if maximum = HIGH then [HIGH] else [])"

definition exceeds_resources :: "sandbox_resources \<Rightarrow> sandbox_resources \<Rightarrow> bool" where
  "exceeds_resources requested ceilings \<longleftrightarrow>
     rz_cpu_millicores ceilings < rz_cpu_millicores requested \<or> rz_memory_mib ceilings < rz_memory_mib requested \<or>
     rz_pid_limit ceilings < rz_pid_limit requested \<or> rz_ephemeral_storage_mib ceilings < rz_ephemeral_storage_mib requested \<or>
     rz_timeout_seconds ceilings < rz_timeout_seconds requested \<or> rz_output_bytes ceilings < rz_output_bytes requested \<or>
     rz_output_files ceilings < rz_output_files requested \<or> rz_output_file_bytes ceilings < rz_output_file_bytes requested"

definition mount_allowed :: "string list \<Rightarrow> string \<Rightarrow> bool" where
  "mount_allowed allowed target = list_ex (\<lambda>p. target = p \<or> prefix (p @ ''/'') target) allowed"

definition allowlisted :: "sandbox_policy \<Rightarrow> sandbox_spec \<Rightarrow> bool" where
  "allowlisted p s \<longleftrightarrow>
     image_digest (sp_image s) \<in> set (sy_allowed_image_digests p) \<and> image_registry (sp_image s) \<in> set (sy_allowed_registries p) \<and>
     hd (sp_argv s) \<in> set (sy_allowed_commands p) \<and> sp_purpose s \<in> set (sy_allowed_purposes p) \<and>
     ab_policy_digest (sp_approval s) \<in> set (sy_allowed_approval_policy_digests p) \<and>
     sp_runtime_class s = sy_runtime_class p \<and> sp_admission_policies s = sy_admission_policies p \<and>
     sp_risk s \<in> set (allowed_risks (sy_maximum_risk p))"

definition authorize_spec :: "sandbox_policy \<Rightarrow> sandbox_spec \<Rightarrow> int \<Rightarrow> datetime \<Rightarrow> unit result" where
  "authorize_spec p s active_executions now =
     bindE (guardE (sy_enabled p \<and> sy_tenant_id p = sp_tenant_id s)
              (PolicyDenied ''sandbox policy is disabled or tenant-mismatched'')) (\<lambda>_.
     bindE (guardE (immutable_image (sp_image s)) (PolicyDenied ''sandbox image is not immutable'')) (\<lambda>_.
     bindE (guardE (allowlisted p s) (PolicyDenied ''sandbox request is not allowlisted'')) (\<lambda>_.
     bindE (guardE (now < ab_expires_at (sp_approval s)) (PolicyDenied ''sandbox approval expired'')) (\<lambda>_.
     bindE (guardE (active_executions < int (sy_maximum_concurrency p)) (PolicyDenied ''sandbox concurrency quota exhausted'')) (\<lambda>_.
     bindE (guardE (rz_timeout_seconds (sp_resources s) \<le> sy_maximum_lifetime_seconds p)
              (PolicyDenied ''sandbox lifetime exceeds policy'')) (\<lambda>_.
     bindE (guardE (\<not> exceeds_resources (sp_resources s) (sy_maximum_resources p))
              (PolicyDenied ''sandbox resource request exceeds policy'')) (\<lambda>_.
     bindE (guardE (list_all (\<lambda>m. mount_allowed (sy_allowed_mount_prefixes p) (mt_target_path m)) (sp_mounts s))
              (PolicyDenied ''sandbox mount is not allowlisted'')) (\<lambda>_.
     bindE (guardE (list_all (\<lambda>k. sk_reference k \<in> set (sy_allowed_secret_refs p)) (sp_secrets s))
              (PolicyDenied ''sandbox secret reference is not allowlisted'')) (\<lambda>_.
     guardE (np_mode (sp_network s) = Network_EXACT_DESTINATIONS \<longrightarrow> set (np_destinations (sp_network s)) \<subseteq> set (sy_allowed_egress p))
       (PolicyDenied ''sandbox egress destination is not allowlisted''))))))))))"

end
