(* ===== verification/Sandbox_Ledger.thy ===== *)
theory Sandbox_Ledger
  imports Sandbox_Data Remediation_Invariant Remediation_Stores Fact_Ledger
begin

text \<open>
  The application facts of a sandbox execution in \<^verbatim>\<open>sandbox.py\<close>: \<open>reduce_sandbox\<close>, \<open>InMemorySandboxLedger\<close>,
  \<open>InMemorySandboxClaims\<close> and \<open>InMemorySandboxQuota\<close>. The ledger is an instance of the fact ledger and its
  facts are a hash chain.
\<close>

section \<open>Facts and projections\<close>

datatype sandbox_status =
    Box_REQUESTED | Box_POLICY_APPROVED | Box_CLAIMED | Box_PROVISIONING | Box_RUNNING | Box_CAPTURING | Box_COMPLETED
  | Box_FAILED | Box_TIMED_OUT | Box_OOM_KILLED | Box_VIOLATION | Box_CANCELLED | Box_ATTESTED | Box_CLEANING
  | Box_CLEANED | Box_QUARANTINED | Box_RECONCILING

datatype sandbox_fact_type =
    BoxFact_REQUEST_RECORDED | BoxFact_POLICY_DECIDED | BoxFact_APPROVAL_BOUND | BoxFact_CLAIMED
  | BoxFact_PROVISION_REQUESTED | BoxFact_PROVISIONED | BoxFact_STARTED | BoxFact_OUTPUT_CAPTURE_REQUESTED
  | BoxFact_ARTIFACT_RECORDED | BoxFact_COMPLETED | BoxFact_FAILED | BoxFact_TIMED_OUT | BoxFact_OOM_KILLED
  | BoxFact_VIOLATION | BoxFact_CANCELLATION_REQUESTED | BoxFact_CANCELLED | BoxFact_ATTESTED
  | BoxFact_CLEANUP_REQUESTED | BoxFact_CLEANED | BoxFact_QUARANTINED | BoxFact_RECONCILIATION_STARTED
  | BoxFact_RECONCILIATION_RESOLVED

fun sandbox_fact_value :: "sandbox_fact_type \<Rightarrow> string" where
  "sandbox_fact_value BoxFact_REQUEST_RECORDED = ''sandbox.request_recorded''"
| "sandbox_fact_value BoxFact_POLICY_DECIDED = ''sandbox.policy_decided''"
| "sandbox_fact_value BoxFact_APPROVAL_BOUND = ''sandbox.approval_bound''"
| "sandbox_fact_value BoxFact_CLAIMED = ''sandbox.claimed''"
| "sandbox_fact_value BoxFact_PROVISION_REQUESTED = ''sandbox.provision_requested''"
| "sandbox_fact_value BoxFact_PROVISIONED = ''sandbox.provisioned''"
| "sandbox_fact_value BoxFact_STARTED = ''sandbox.started''"
| "sandbox_fact_value BoxFact_OUTPUT_CAPTURE_REQUESTED = ''sandbox.output_capture_requested''"
| "sandbox_fact_value BoxFact_ARTIFACT_RECORDED = ''sandbox.artifact_recorded''"
| "sandbox_fact_value BoxFact_COMPLETED = ''sandbox.completed''"
| "sandbox_fact_value BoxFact_FAILED = ''sandbox.failed''"
| "sandbox_fact_value BoxFact_TIMED_OUT = ''sandbox.timed_out''"
| "sandbox_fact_value BoxFact_OOM_KILLED = ''sandbox.oom_killed''"
| "sandbox_fact_value BoxFact_VIOLATION = ''sandbox.violation''"
| "sandbox_fact_value BoxFact_CANCELLATION_REQUESTED = ''sandbox.cancellation_requested''"
| "sandbox_fact_value BoxFact_CANCELLED = ''sandbox.cancelled''"
| "sandbox_fact_value BoxFact_ATTESTED = ''sandbox.attested''"
| "sandbox_fact_value BoxFact_CLEANUP_REQUESTED = ''sandbox.cleanup_requested''"
| "sandbox_fact_value BoxFact_CLEANED = ''sandbox.cleaned''"
| "sandbox_fact_value BoxFact_QUARANTINED = ''sandbox.quarantined''"
| "sandbox_fact_value BoxFact_RECONCILIATION_STARTED = ''sandbox.reconciliation_started''"
| "sandbox_fact_value BoxFact_RECONCILIATION_RESOLVED = ''sandbox.reconciliation_resolved''"

fun sandbox_status_by_fact :: "sandbox_fact_type \<Rightarrow> sandbox_status" where
  "sandbox_status_by_fact BoxFact_REQUEST_RECORDED = Box_REQUESTED"
| "sandbox_status_by_fact BoxFact_POLICY_DECIDED = Box_POLICY_APPROVED"
| "sandbox_status_by_fact BoxFact_APPROVAL_BOUND = Box_POLICY_APPROVED"
| "sandbox_status_by_fact BoxFact_CLAIMED = Box_CLAIMED"
| "sandbox_status_by_fact BoxFact_PROVISION_REQUESTED = Box_PROVISIONING"
| "sandbox_status_by_fact BoxFact_PROVISIONED = Box_PROVISIONING"
| "sandbox_status_by_fact BoxFact_STARTED = Box_RUNNING"
| "sandbox_status_by_fact BoxFact_OUTPUT_CAPTURE_REQUESTED = Box_CAPTURING"
| "sandbox_status_by_fact BoxFact_ARTIFACT_RECORDED = Box_CAPTURING"
| "sandbox_status_by_fact BoxFact_COMPLETED = Box_COMPLETED"
| "sandbox_status_by_fact BoxFact_FAILED = Box_FAILED"
| "sandbox_status_by_fact BoxFact_TIMED_OUT = Box_TIMED_OUT"
| "sandbox_status_by_fact BoxFact_OOM_KILLED = Box_OOM_KILLED"
| "sandbox_status_by_fact BoxFact_VIOLATION = Box_VIOLATION"
| "sandbox_status_by_fact BoxFact_CANCELLATION_REQUESTED = Box_CANCELLED"
| "sandbox_status_by_fact BoxFact_CANCELLED = Box_CANCELLED"
| "sandbox_status_by_fact BoxFact_ATTESTED = Box_ATTESTED"
| "sandbox_status_by_fact BoxFact_CLEANUP_REQUESTED = Box_CLEANING"
| "sandbox_status_by_fact BoxFact_CLEANED = Box_CLEANED"
| "sandbox_status_by_fact BoxFact_QUARANTINED = Box_QUARANTINED"
| "sandbox_status_by_fact BoxFact_RECONCILIATION_STARTED = Box_RECONCILING"
| "sandbox_status_by_fact BoxFact_RECONCILIATION_RESOLVED = Box_RECONCILING"

record sandbox_fact =
  sf_tenant_id :: string
  sf_execution_id :: string
  sf_sequence :: nat
  sf_fact_id :: string
  sf_fact_type :: sandbox_fact_type
  sf_command_id :: string
  sf_actor_ref :: string
  sf_recorded_at :: datetime
  sf_payload :: dict
  sf_previous_digest :: string
  sf_canonical_digest :: string

record sandbox_projection =
  sj_tenant_id :: string
  sj_execution_id :: string
  sj_run_id :: string
  sj_task_id :: string
  sj_status :: sandbox_status
  sj_version :: nat
  sj_request_digest :: string
  sj_spec_digest :: string
  sj_policy_digest :: string
  sj_approval_digest :: string
  sj_fence_token :: string
  sj_provider_uid :: "string option"
  sj_result_digest :: "string option"
  sj_manifest_digest :: "string option"
  sj_attestation_digest :: "string option"
  sj_cleanup_complete :: bool
  sj_last_fact_digest :: string
  sj_updated_at :: datetime

definition valid_sandbox_fact :: "sandbox_fact \<Rightarrow> bool" where
  "valid_sandbox_fact f \<longleftrightarrow>
     valid_identifier (sf_tenant_id f) \<and> valid_identifier (sf_execution_id f) \<and> 1 \<le> sf_sequence f \<and>
     valid_identifier (sf_fact_id f) \<and> valid_identifier (sf_command_id f) \<and> valid_identifier (sf_actor_ref f) \<and>
     length (sf_payload f) \<le> 32 \<and> hex64 (sf_previous_digest f) \<and> hex64 (sf_canonical_digest f)"

text \<open>The constructor of the first projection; the optional fields are unset there.\<close>

definition valid_sandbox_projection :: "sandbox_projection \<Rightarrow> bool" where
  "valid_sandbox_projection p \<longleftrightarrow>
     valid_identifier (sj_tenant_id p) \<and> valid_identifier (sj_execution_id p) \<and> valid_identifier (sj_run_id p) \<and>
     valid_identifier (sj_task_id p) \<and> 1 \<le> sj_version p \<and> hex64 (sj_request_digest p) \<and> hex64 (sj_spec_digest p) \<and>
     hex64 (sj_policy_digest p) \<and> hex64 (sj_approval_digest p) \<and> valid_identifier (sj_fence_token p) \<and>
     hex64 (sj_last_fact_digest p)"

definition sandbox_fact_document :: "sandbox_fact \<Rightarrow> json" where
  "sandbox_fact_document f = JObj
     [(''actor_ref'', JStr (sf_actor_ref f)), (''command_id'', JStr (sf_command_id f)), (''execution_id'', JStr (sf_execution_id f)),
      (''fact_id'', JStr (sf_fact_id f)), (''fact_type'', JStr (sandbox_fact_value (sf_fact_type f))),
      (''payload'', JObj (sf_payload f)), (''previous_digest'', JStr (sf_previous_digest f)),
      (''recorded_at'', JStr (isoformat_z (sf_recorded_at f))), (''schema_version'', JInt 1),
      (''sequence'', JInt (int (sf_sequence f))), (''tenant_id'', JStr (sf_tenant_id f))]"

section \<open>The reducer\<close>

definition request_fields :: "string list" where
  "request_fields = [''run_id'', ''task_id'', ''request_digest'', ''spec_digest'', ''policy_digest'', ''approval_digest'', ''fence_token'']"

definition payload_text :: "runtime \<Rightarrow> dict \<Rightarrow> string \<Rightarrow> string" where
  "payload_text rt payload k = (case map_of payload k of None \<Rightarrow> [] | Some v \<Rightarrow> value_text rt v)"

definition payload_update :: "runtime \<Rightarrow> dict \<Rightarrow> string \<Rightarrow> string option \<Rightarrow> string option" where
  "payload_update rt payload k old = (case map_of payload k of None \<Rightarrow> old | Some v \<Rightarrow> Some (value_text rt v))"

definition first_sandbox_projection :: "runtime \<Rightarrow> sandbox_fact \<Rightarrow> sandbox_projection result" where
  "first_sandbox_projection rt f =
     (let text = payload_text rt (sf_payload f);
          p = \<lparr>sj_tenant_id = sf_tenant_id f, sj_execution_id = sf_execution_id f, sj_run_id = text ''run_id'',
               sj_task_id = text ''task_id'', sj_status = Box_REQUESTED, sj_version = 1, sj_request_digest = text ''request_digest'',
               sj_spec_digest = text ''spec_digest'', sj_policy_digest = text ''policy_digest'',
               sj_approval_digest = text ''approval_digest'', sj_fence_token = text ''fence_token'', sj_provider_uid = None,
               sj_result_digest = None, sj_manifest_digest = None, sj_attestation_digest = None, sj_cleanup_complete = False,
               sj_last_fact_digest = sf_canonical_digest f, sj_updated_at = sf_recorded_at f\<rparr>
      in if valid_sandbox_projection p then Inr p else Inl (ValidationError ''SandboxProjection''))"

definition next_sandbox_projection :: "runtime \<Rightarrow> sandbox_projection \<Rightarrow> sandbox_fact \<Rightarrow> sandbox_projection" where
  "next_sandbox_projection rt p f =
     (let set_field = payload_update rt (sf_payload f) in
      p\<lparr>sj_status := sandbox_status_by_fact (sf_fact_type f), sj_version := sf_sequence f,
        sj_provider_uid := set_field ''provider_uid'' (sj_provider_uid p),
        sj_result_digest := set_field ''result_digest'' (sj_result_digest p),
        sj_manifest_digest := set_field ''manifest_digest'' (sj_manifest_digest p),
        sj_attestation_digest := set_field ''attestation_digest'' (sj_attestation_digest p),
        sj_cleanup_complete := (sj_cleanup_complete p \<or> sf_fact_type f = BoxFact_CLEANED),
        sj_last_fact_digest := sf_canonical_digest f, sj_updated_at := sf_recorded_at f\<rparr>)"

definition reduce_sandbox :: "runtime \<Rightarrow> sandbox_projection option \<Rightarrow> sandbox_fact \<Rightarrow> sandbox_projection result" where
  "reduce_sandbox rt current f =
     bindE (guardE (sf_canonical_digest f = canonical_digest rt (sandbox_fact_document f))
              (IntegrityFailure ''sandbox fact digest mismatch'')) (\<lambda>_.
     case current of
       None \<Rightarrow>
         bindE (guardE (sf_fact_type f = BoxFact_REQUEST_RECORDED \<and> sf_sequence f = 1)
                  (IntegrityFailure ''sandbox aggregate must begin with a request'')) (\<lambda>_.
         bindE (guardE (list_all (\<lambda>k. map_of (sf_payload f) k \<noteq> None) request_fields)
                  (IntegrityFailure ''sandbox request fact is incomplete'')) (\<lambda>_.
         first_sandbox_projection rt f))
     | Some p \<Rightarrow>
         bindE (guardE (sj_tenant_id p = sf_tenant_id f \<and> sj_execution_id p = sf_execution_id f \<and>
                        sf_sequence f = sj_version p + 1 \<and> sf_previous_digest f = sj_last_fact_digest p)
                  (IntegrityFailure ''sandbox fact chain is invalid'')) (\<lambda>_.
         Inr (next_sandbox_projection rt p f)))"

section \<open>The ledger\<close>

record sandbox_ledger =
  sl_facts :: "string \<times> string \<rightharpoonup> sandbox_fact list"
  sl_projections :: "string \<times> string \<rightharpoonup> sandbox_projection"
  sl_commands :: "string \<times> string \<rightharpoonup> string \<times> string"

definition empty_sandbox_ledger :: sandbox_ledger where
  "empty_sandbox_ledger = \<lparr>sl_facts = Map.empty, sl_projections = Map.empty, sl_commands = Map.empty\<rparr>"

definition max_sandbox_facts :: nat where
  "max_sandbox_facts = 512"

definition sandbox_facts :: "sandbox_ledger \<Rightarrow> string \<times> string \<Rightarrow> sandbox_fact list" where
  "sandbox_facts l k = get_default (sl_facts l) k []"

record sandbox_append_call =
  sw_tenant_id :: string
  sw_execution_id :: string
  sw_expected_version :: nat
  sw_fact_type :: sandbox_fact_type
  sw_command_id :: string
  sw_actor_ref :: string
  sw_recorded_at :: datetime
  sw_payload :: dict

definition sandbox_fingerprint :: "runtime \<Rightarrow> sandbox_fact_type \<Rightarrow> dict \<Rightarrow> string" where
  "sandbox_fingerprint rt t payload =
     canonical_digest rt (JObj [(''fact_type'', JStr (sandbox_fact_value t)), (''payload'', JObj payload)])"

definition last_sandbox_digest :: "sandbox_fact list \<Rightarrow> string" where
  "last_sandbox_digest fs = (if fs = [] then zero_hash else sf_canonical_digest (last fs))"

definition make_sandbox_fact :: "runtime \<Rightarrow> sandbox_append_call \<Rightarrow> sandbox_fact list \<Rightarrow> sandbox_fact" where
  "make_sandbox_fact rt a fs =
     (let sequence = length fs + 1;
          f = \<lparr>sf_tenant_id = sw_tenant_id a, sf_execution_id = sw_execution_id a, sf_sequence = sequence,
               sf_fact_id = stable_id rt ''sandbox-fact'' [sw_tenant_id a, sw_execution_id a, nat_str sequence, sw_command_id a] 32,
               sf_fact_type = sw_fact_type a, sf_command_id = sw_command_id a, sf_actor_ref = sw_actor_ref a,
               sf_recorded_at = sw_recorded_at a, sf_payload = dict_sorted (sw_payload a),
               sf_previous_digest = last_sandbox_digest fs, sf_canonical_digest = []\<rparr>
      in f\<lparr>sf_canonical_digest := canonical_digest rt (sandbox_fact_document f)\<rparr>)"

definition sandbox_append :: "runtime \<Rightarrow> sandbox_append_call \<Rightarrow> (sandbox_ledger, sandbox_projection) op" where
  "sandbox_append rt a l =
     (let key = (sw_tenant_id a, sw_execution_id a); command = (sw_tenant_id a, sw_command_id a);
          fingerprint = sandbox_fingerprint rt (sw_fact_type a) (sw_payload a)
      in case sl_commands l command of
           Some prior \<Rightarrow>
             if prior \<noteq> (sw_execution_id a, fingerprint)
             then (Inl (IdempotencyConflict ''sandbox command replay changed input''), l)
             else (case sl_projections l key of
                     None \<Rightarrow> (Inl (KeyError ''projection''), l)
                   | Some p \<Rightarrow> (Inr p, l))
         | None \<Rightarrow>
             (let fs = sandbox_facts l key; l1 = l\<lparr>sl_facts := (sl_facts l)(key \<mapsto> fs)\<rparr> in
              if length fs \<noteq> sw_expected_version a then (Inl (ConcurrencyConflict ''sandbox aggregate version changed''), l1)
              else if max_sandbox_facts \<le> length fs then (Inl (IntegrityFailure ''sandbox fact bound exceeded''), l1)
              else (let f = make_sandbox_fact rt a fs in
                    if \<not> valid_sandbox_fact f then (Inl (ValidationError ''SandboxFact''), l1)
                    else (case reduce_sandbox rt (sl_projections l key) f of
                            Inl e \<Rightarrow> (Inl e, l1)
                          | Inr p \<Rightarrow>
                              (Inr p, l\<lparr>sl_facts := (sl_facts l)(key \<mapsto> fs @ [f]),
                                        sl_commands := (sl_commands l)(command \<mapsto> (sw_execution_id a, fingerprint)),
                                        sl_projections := (sl_projections l)(key \<mapsto> p)\<rparr>)))))"

definition sandbox_projection_of :: "sandbox_ledger \<Rightarrow> string \<Rightarrow> string \<Rightarrow> sandbox_projection option" where
  "sandbox_projection_of l tenant_id execution_id = sl_projections l (tenant_id, execution_id)"

fun replay_sandbox :: "runtime \<Rightarrow> sandbox_fact list \<Rightarrow> sandbox_projection option \<Rightarrow> sandbox_projection option result" where
  "replay_sandbox rt [] c = Inr c"
| "replay_sandbox rt (f # fs) c = bindE (reduce_sandbox rt c f) (\<lambda>p. replay_sandbox rt fs (Some p))"

definition sandbox_rebuild :: "runtime \<Rightarrow> sandbox_ledger \<Rightarrow> string \<Rightarrow> string \<Rightarrow> sandbox_projection result" where
  "sandbox_rebuild rt l tenant_id execution_id =
     bindE (replay_sandbox rt (sandbox_facts l (tenant_id, execution_id)) None) (\<lambda>c.
     case c of None \<Rightarrow> Inl (IntegrityFailure ''cannot rebuild an unknown sandbox execution'') | Some p \<Rightarrow> Inr p)"

section \<open>Claims and quota\<close>

record sandbox_claim =
  sb_request_digest :: string
  sb_spec_digest :: string
  sb_policy_digest :: string
  sb_approval_digest :: string
  sb_attempt :: nat
  sb_fence_token :: string
  sb_claim_token :: string
  sb_claim_until :: datetime
  sb_worker_ref :: string
  sb_result_digest :: "string option"

type_synonym sandbox_claims = "string \<times> string \<rightharpoonup> sandbox_claim"

definition sandbox_claim_token :: "runtime \<Rightarrow> execution_request \<Rightarrow> string \<Rightarrow> string" where
  "sandbox_claim_token rt r worker_ref = stable_id rt ''sandbox-claim''
     [xr_tenant_id r, xr_execution_id r, worker_ref, nat_str (xr_attempt r), xr_fence_token r] 40"

definition valid_sandbox_claim :: "sandbox_claim \<Rightarrow> bool" where
  "valid_sandbox_claim c \<longleftrightarrow> hex64 (sb_request_digest c) \<and> hex64 (sb_spec_digest c) \<and> hex64 (sb_policy_digest c) \<and>
     hex64 (sb_approval_digest c) \<and> 1 \<le> sb_attempt c \<and> sb_attempt c \<le> 16 \<and> valid_identifier (sb_fence_token c) \<and>
     valid_identifier (sb_claim_token c) \<and> valid_identifier (sb_worker_ref c)"

definition same_binding :: "sandbox_claim \<Rightarrow> execution_request \<Rightarrow> bool" where
  "same_binding c r \<longleftrightarrow> sb_spec_digest c = xr_spec_digest r \<and> sb_policy_digest c = xr_policy_digest r \<and>
     sb_approval_digest c = xr_approval_digest r \<and> sb_fence_token c = xr_fence_token r"

definition new_sandbox_claim :: "runtime \<Rightarrow> execution_request \<Rightarrow> string \<Rightarrow> datetime \<Rightarrow> sandbox_claim" where
  "new_sandbox_claim rt r worker_ref claim_until =
     \<lparr>sb_request_digest = xr_request_digest r, sb_spec_digest = xr_spec_digest r, sb_policy_digest = xr_policy_digest r,
      sb_approval_digest = xr_approval_digest r, sb_attempt = xr_attempt r, sb_fence_token = xr_fence_token r,
      sb_claim_token = sandbox_claim_token rt r worker_ref, sb_claim_until = claim_until, sb_worker_ref = worker_ref,
      sb_result_digest = None\<rparr>"

definition claim_sandbox ::
  "runtime \<Rightarrow> execution_request \<Rightarrow> string \<Rightarrow> datetime \<Rightarrow> datetime \<Rightarrow> (sandbox_claims, sandbox_claim) op" where
  "claim_sandbox rt r worker_ref now claim_until s =
     (let key = (xr_tenant_id r, xr_execution_id r); token = sandbox_claim_token rt r worker_ref;
          claimed = new_sandbox_claim rt r worker_ref claim_until;
          store = (if valid_sandbox_claim claimed then (Inr claimed, s(key \<mapsto> claimed)) else (Inl (ValidationError ''SandboxClaim''), s))
      in if claim_until \<le> now then (Inl (ValueError ''sandbox claim expiry must follow claim time''), s)
         else case s key of
           None \<Rightarrow> store
         | Some current \<Rightarrow>
             if \<not> same_binding current r then (Inl (SandboxRejected ''sandbox claim exact binding changed''), s)
             else if sb_result_digest current \<noteq> None then (Inr current, s)
             else if now < sb_claim_until current \<and> sb_claim_token current \<noteq> token
             then (Inl (ConcurrencyConflict ''sandbox execution is actively claimed''), s)
             else if sb_claim_until current \<le> now \<and> xr_attempt r \<le> sb_attempt current
             then (Inl (ConcurrencyConflict ''sandbox retry attempt did not advance''), s)
             else store)"

definition complete_sandbox :: "sandbox_result \<Rightarrow> string \<Rightarrow> (sandbox_claims, unit) op" where
  "complete_sandbox r token s =
     (let key = (sz_tenant_id r, sz_execution_id r);
          stale = (Inl (ConcurrencyConflict ''stale sandbox completion rejected''), s)
      in case s key of
           None \<Rightarrow> stale
         | Some current \<Rightarrow>
             if sb_claim_token current \<noteq> token \<or> sb_fence_token current \<noteq> sz_fence_token r \<or> sb_attempt current \<noteq> sz_attempt r
             then stale
             else (case sb_result_digest current of
                     Some old \<Rightarrow>
                       if old \<noteq> sz_result_digest r then (Inl (IdempotencyConflict ''sandbox result changed on replay''), s) else (Inr (), s)
                   | None \<Rightarrow> (Inr (), s(key \<mapsto> current\<lparr>sb_result_digest := Some (sz_result_digest r)\<rparr>))))"

text \<open>\<open>InMemorySandboxQuota\<close> keeps decisions with the fields of the effect quota's; it is the same record.\<close>

definition reserve_sandbox :: "string \<Rightarrow> string \<Rightarrow> int \<Rightarrow> (effect_quota, quota_decision) op" where
  "reserve_sandbox tenant_id reservation_id units s =
     (if units < 1 then (Inl (ValueError ''sandbox quota units must be positive''), s)
      else case eq_reservations s (tenant_id, reservation_id) of
        Some existing \<Rightarrow> (Inr existing, s)
      | None \<Rightarrow>
          (let remaining = get_default (eq_remaining s) tenant_id 0;
               allowed = (units \<le> remaining);
               d = \<lparr>qd_allowed = allowed, qd_reservation_id = reservation_id, qd_units = units,
                    qd_reason = (if allowed then ''reserved'' else ''sandbox_quota_exhausted'')\<rparr>
           in if \<not> valid_identifier reservation_id then (Inl (ValidationError ''SandboxQuotaDecision''), s)
              else (Inr d, s\<lparr>eq_reservations := (eq_reservations s)((tenant_id, reservation_id) \<mapsto> d),
                             eq_remaining := (if allowed then (eq_remaining s)(tenant_id \<mapsto> remaining - units)
                                              else eq_remaining s)\<rparr>)))"

end
