(* ===== verification/Sandbox_Service.thy ===== *)
theory Sandbox_Service
  imports Sandbox_Ledger Authorization
begin

text \<open>
  \<open>SandboxControlService\<close> of \<^verbatim>\<open>sandbox.py\<close>: a request is authorised, compared with the current policy and the
  current approval, charged to the quota and recorded as three facts. The approval port is a parameter;
  each reading of the clock is the next value of its sequence, the application policy's reading included.
\<close>

section \<open>Environment and state\<close>

record sandbox_env =
  bx_runtime :: runtime
  bx_policies :: "string \<Rightarrow> policy_record option"
  bx_clock :: "nat \<Rightarrow> datetime"
  bx_sandbox_policy :: sandbox_policy
  bx_approvals :: "string \<Rightarrow> string \<Rightarrow> approval_binding option"

record sandbox_state =
  bs_ledger :: sandbox_ledger
  bs_quota :: effect_quota
  bs_claims :: sandbox_claims
  bs_ticks :: nat

definition initial_sandbox :: "(string \<rightharpoonup> int) \<Rightarrow> sandbox_state" where
  "initial_sandbox limits = \<lparr>bs_ledger = empty_sandbox_ledger, bs_quota = make_quota limits, bs_claims = Map.empty, bs_ticks = 0\<rparr>"

definition sandbox_now :: "sandbox_env \<Rightarrow> (sandbox_state, datetime) op" where
  "sandbox_now env s = (Inr (bx_clock env (bs_ticks s)), s\<lparr>bs_ticks := Suc (bs_ticks s)\<rparr>)"

definition on_sandbox_ledger :: "(sandbox_ledger, 'a) op \<Rightarrow> (sandbox_state, 'a) op" where
  "on_sandbox_ledger = zoomS bs_ledger (\<lambda>x s. s\<lparr>bs_ledger := x\<rparr>)"

definition on_sandbox_quota :: "(effect_quota, 'a) op \<Rightarrow> (sandbox_state, 'a) op" where
  "on_sandbox_quota = zoomS bs_quota (\<lambda>x s. s\<lparr>bs_quota := x\<rparr>)"

section \<open>The request\<close>

definition sandbox_actor :: "sandbox_env \<Rightarrow> identity_context \<Rightarrow> string" where
  "sandbox_actor env i = stable_id (bx_runtime env) ''actor'' [id_issuer i, id_subject_id i] 32"

definition sandbox_reservation :: "sandbox_env \<Rightarrow> execution_request \<Rightarrow> string" where
  "sandbox_reservation env r = stable_id (bx_runtime env) ''sandbox-quota'' [xr_tenant_id r, xr_idempotency_key r] 40"

text \<open>\<^verbatim>\<open>self._ledger.append(..., recorded_at=self._clock.now(), ...)\<close>.\<close>

definition record_sandbox ::
  "sandbox_env \<Rightarrow> execution_request \<Rightarrow> nat \<Rightarrow> sandbox_fact_type \<Rightarrow> string \<Rightarrow> string \<Rightarrow> dict \<Rightarrow> (sandbox_state, sandbox_projection) op" where
  "record_sandbox env r expected_version t command_id actor payload =
     bindS (sandbox_now env) (\<lambda>now.
       on_sandbox_ledger (sandbox_append (bx_runtime env)
         \<lparr>sw_tenant_id = xr_tenant_id r, sw_execution_id = xr_execution_id r, sw_expected_version = expected_version,
          sw_fact_type = t, sw_command_id = command_id, sw_actor_ref = actor, sw_recorded_at = now, sw_payload = payload\<rparr>))"

definition request_payload :: "execution_request \<Rightarrow> dict" where
  "request_payload r =
     [(''run_id'', JStr (xr_run_id r)), (''task_id'', JStr (xr_task_id r)), (''request_digest'', JStr (xr_request_digest r)),
      (''spec_digest'', JStr (xr_spec_digest r)), (''policy_digest'', JStr (xr_policy_digest r)),
      (''approval_digest'', JStr (xr_approval_digest r)), (''fence_token'', JStr (xr_fence_token r))]"

definition policy_payload :: "sandbox_policy \<Rightarrow> dict" where
  "policy_payload p = [(''policy_id'', JStr (sy_policy_id p)), (''policy_revision'', JInt (int (sy_revision p))),
     (''policy_digest'', JStr (sy_policy_digest p))]"

definition approval_payload :: "execution_request \<Rightarrow> dict" where
  "approval_payload r =
     (let b = sp_approval (xr_spec r) in
      [(''approval_id'', JStr (ab_approval_id b)), (''approval_digest'', JStr (xr_approval_digest r)),
       (''remediation_plan_digest'', JStr (ab_plan_digest b)), (''remediation_action_digest'', JStr (ab_action_digest b))])"

text \<open>The checks before anything is written, then the reservation.\<close>

definition admit_request :: "sandbox_env \<Rightarrow> identity_context \<Rightarrow> execution_request \<Rightarrow> int \<Rightarrow> (sandbox_state, unit) op" where
  "admit_request env i r active_executions =
     bindS (requireS (id_tenant_id i = xr_tenant_id r) (PolicyDenied ''sandbox tenant mismatch'')) (\<lambda>_.
     bindS (sandbox_now env) (\<lambda>authorized_at.
     bindS (requireS (pd_allowed (authorize (bx_policies env) authorized_at i SANDBOX_EXECUTE (xr_tenant_id r)
                                    ''incident-response'' (sp_risk (xr_spec r))))
              (PolicyDenied ''sandbox application authorization denied'')) (\<lambda>_.
     bindS (requireS (xr_policy_digest r = sy_policy_digest (bx_sandbox_policy env))
              (PolicyDenied ''sandbox policy changed after request creation'')) (\<lambda>_.
     bindS (requireS (bx_approvals env (xr_tenant_id r) (ab_approval_id (sp_approval (xr_spec r))) = Some (sp_approval (xr_spec r)))
              (PolicyDenied ''sandbox approval binding changed'')) (\<lambda>_.
     bindS (sandbox_now env) (\<lambda>now.
     liftS (authorize_spec (bx_sandbox_policy env) (xr_spec r) active_executions now)))))))"

definition charge_request :: "sandbox_env \<Rightarrow> execution_request \<Rightarrow> (sandbox_state, unit) op" where
  "charge_request env r =
     bindS (sandbox_now env) (\<lambda>_.
     bindS (on_sandbox_quota (reserve_sandbox (xr_tenant_id r) (sandbox_reservation env r) 1)) (\<lambda>reservation.
     requireS (qd_allowed reservation) (PolicyDenied ''sandbox execution quota exhausted'')))"

definition record_request ::
  "sandbox_env \<Rightarrow> identity_context \<Rightarrow> execution_request \<Rightarrow> string \<Rightarrow> (sandbox_state, sandbox_projection) op" where
  "record_request env i r command_id =
     (let actor = sandbox_actor env i in
      bindS (record_sandbox env r 0 BoxFact_REQUEST_RECORDED command_id actor (request_payload r)) (\<lambda>p.
      bindS (record_sandbox env r (sj_version p) BoxFact_POLICY_DECIDED (command_id @ ''-policy'') actor
               (policy_payload (bx_sandbox_policy env))) (\<lambda>p.
      record_sandbox env r (sj_version p) BoxFact_APPROVAL_BOUND (command_id @ ''-approval'') actor (approval_payload r))))"

definition request_sandbox ::
  "sandbox_env \<Rightarrow> identity_context \<Rightarrow> execution_request \<Rightarrow> int \<Rightarrow> string \<Rightarrow> (sandbox_state, sandbox_projection) op" where
  "request_sandbox env i r active_executions command_id =
     bindS (admit_request env i r active_executions) (\<lambda>_.
     bindS (charge_request env r) (\<lambda>_.
     record_request env i r command_id))"

end
