(* ===== verification/Sandbox_Contract.thy ===== *)
theory Sandbox_Contract
  imports Sandbox_Service
begin

text \<open>
  The sandbox ledger keeps the contract of a fact ledger and its facts are a hash chain; claims keep their
  binding and their result; the quota is conserved.
\<close>

section \<open>The ledger as a fact ledger\<close>

lemma make_sandbox_fact_fields:
  fixes rt a fs
  defines "f \<equiv> make_sandbox_fact rt a fs"
  shows "sf_tenant_id f = sw_tenant_id a" "sf_execution_id f = sw_execution_id a" "sf_sequence f = Suc (length fs)"
    "sf_fact_type f = sw_fact_type a" "sf_command_id f = sw_command_id a" "sf_actor_ref f = sw_actor_ref a"
    "sf_recorded_at f = sw_recorded_at a" "sf_payload f = dict_sorted (sw_payload a)" "sf_previous_digest f = last_sandbox_digest fs"
    "sf_canonical_digest f = canonical_digest rt (sandbox_fact_document f)"
    "sf_fact_id f = stable_id rt ''sandbox-fact'' [sw_tenant_id a, sw_execution_id a, nat_str (Suc (length fs)), sw_command_id a] 32"
  by (simp_all add: f_def make_sandbox_fact_def Let_def sandbox_fact_document_def)

definition call_key :: "sandbox_append_call \<Rightarrow> string \<times> string" where
  "call_key a = (sw_tenant_id a, sw_execution_id a)"

definition call_command :: "sandbox_append_call \<Rightarrow> string \<times> string" where
  "call_command a = (sw_tenant_id a, sw_command_id a)"

definition call_mark :: "runtime \<Rightarrow> sandbox_append_call \<Rightarrow> string \<times> string" where
  "call_mark rt a = (sw_execution_id a, sandbox_fingerprint rt (sw_fact_type a) (sw_payload a))"

lemma sandbox_append_new:
  assumes "sl_commands l (call_command a) = None" "sandbox_append rt a l = (Inr p, l')"
  defines "fs \<equiv> sandbox_facts l (call_key a)"
  shows "reduce_sandbox rt (sl_projections l (call_key a)) (make_sandbox_fact rt a fs) = Inr p"
    "sandbox_facts l' = (sandbox_facts l)(call_key a := fs @ [make_sandbox_fact rt a fs])"
    "sl_projections l' = (sl_projections l)(call_key a \<mapsto> p)" "sl_commands l' = (sl_commands l)(call_command a \<mapsto> call_mark rt a)"
    "length fs = sw_expected_version a" "length fs < max_sandbox_facts" "valid_sandbox_fact (make_sandbox_fact rt a fs)"
  using assms(1,2) unfolding fs_def
  by (auto simp: sandbox_append_def Let_def call_key_def call_command_def call_mark_def sandbox_facts_def fun_eq_iff get_default_def
      split: if_splits sum.splits)

interpretation sandbox_log: fact_ledger "reduce_sandbox rt" sandbox_facts sl_projections sl_commands "sandbox_append rt"
  call_key call_command "call_mark rt" "make_sandbox_fact rt" empty_sandbox_ledger
  for rt :: runtime
proof
  show "sandbox_facts empty_sandbox_ledger k = []" "sl_projections empty_sandbox_ledger k = None" "sl_commands empty_sandbox_ledger c = None" for k c
    by (simp_all add: sandbox_facts_def empty_sandbox_ledger_def get_default_def)
  show "sandbox_facts s' = sandbox_facts s \<and> sl_projections s' = sl_projections s \<and> sl_commands s' = sl_commands s"
    if "sandbox_append rt a s = (Inl e, s')" for a s e s'
    using that by (auto simp: sandbox_append_def Let_def sandbox_facts_def fun_eq_iff get_default_def
        split: if_splits sum.splits option.splits)
  show "m = call_mark rt a \<and> sl_projections s (call_key a) = Some p \<and> s' = s"
    if "sl_commands s (call_command a) = Some m" "sandbox_append rt a s = (Inr p, s')" for a s m p s'
    using that by (auto simp: sandbox_append_def Let_def call_command_def call_mark_def call_key_def split: if_splits option.splits)
  show "sandbox_append rt a s = (Inr p, s)" if "sl_commands s (call_command a) = Some (call_mark rt a)" "sl_projections s (call_key a) = Some p" for a s p
    using that by (simp add: sandbox_append_def call_command_def call_mark_def call_key_def)
  show "call_key a = call_key b" if "call_command a = call_command b" "call_mark rt a = call_mark rt b" for a b
    using that by (simp add: call_command_def call_mark_def call_key_def)
qed (use sandbox_append_new in blast)

lemma replay_sandbox_log: "replay_sandbox rt fs c = sandbox_log.replay rt fs c"
proof (induction fs arbitrary: c)
  case (Cons f fs)
  then show ?case by (cases "reduce_sandbox rt c f") (simp_all add: sandbox_log.replay_def)
qed (simp add: sandbox_log.replay_def)

section \<open>Facts as a hash chain\<close>

definition sandbox_fact_content :: "sandbox_fact \<Rightarrow> sandbox_fact" where
  "sandbox_fact_content f = f\<lparr>sf_payload := norm_dict (sf_payload f), sf_canonical_digest := []\<rparr>"

lemma sandbox_fact_value_inj [simp]: "sandbox_fact_value a = sandbox_fact_value b \<longleftrightarrow> a = b"
  by (cases a; cases b) simp_all

lemma norm_sandbox_document: "norm_json (sandbox_fact_document f) = sandbox_fact_document (f\<lparr>sf_payload := norm_dict (sf_payload f)\<rparr>)"
  by (simp add: sandbox_fact_document_def norm_dict_def)

lemma sandbox_document_inj:
  assumes "sandbox_fact_document f = sandbox_fact_document g"
  shows "sf_tenant_id f = sf_tenant_id g" "sf_execution_id f = sf_execution_id g" "sf_sequence f = sf_sequence g"
    "sf_fact_id f = sf_fact_id g" "sf_fact_type f = sf_fact_type g" "sf_command_id f = sf_command_id g"
    "sf_actor_ref f = sf_actor_ref g" "sf_recorded_at f = sf_recorded_at g" "sf_payload f = sf_payload g"
    "sf_previous_digest f = sf_previous_digest g"
  using assms by (simp_all add: sandbox_fact_document_def)

lemma sandbox_document_content:
  assumes "norm_json (sandbox_fact_document f) = norm_json (sandbox_fact_document g)"
  shows "sandbox_fact_content f = sandbox_fact_content g"
  using sandbox_document_inj [OF assms [unfolded norm_sandbox_document]]
  by (cases f; cases g) (simp add: sandbox_fact_content_def)

interpretation sandbox_chain: hash_chain "\<lambda>v. sha256_hexdigest rt (render rt v)" "\<lambda>f. norm_json (sandbox_fact_document f)"
  sf_previous_digest sf_canonical_digest sandbox_fact_content
  for rt :: runtime
proof
  fix f g assume m: "norm_json (sandbox_fact_document f) = norm_json (sandbox_fact_document g)"
  then show "sandbox_fact_content f = sandbox_fact_content g" by (rule sandbox_document_content)
  from sandbox_document_inj(10) [OF m [unfolded norm_sandbox_document]]
  show "sf_previous_digest f = sf_previous_digest g" by simp
qed

text \<open>Whatever replays is such a chain, from the digest of its first predecessor, because the reducer checks the links.\<close>

lemma replay_chain:
  "replay_sandbox rt fs (Some p) = Inr c \<Longrightarrow> sandbox_chain.chain rt (sj_last_fact_digest p) fs \<and> 
    (\<exists>q. c = Some q \<and> sj_last_fact_digest q = sandbox_chain.head (sj_last_fact_digest p) fs \<and> sj_version q = sj_version p + length fs)"
proof (induction fs arbitrary: p)
  case Nil
  then show ?case by auto
next
  case (Cons f fs)
  let ?q = "next_sandbox_projection rt p f"
  from Cons.prems have r: "sf_canonical_digest f = canonical_digest rt (sandbox_fact_document f)"
    "sf_previous_digest f = sj_last_fact_digest p" "sf_sequence f = sj_version p + 1" "replay_sandbox rt fs (Some ?q) = Inr c"
    by (auto simp: reduce_sandbox_def)
  have "sj_last_fact_digest ?q = sf_canonical_digest f" "sj_version ?q = sj_version p + 1"
    using r(3) by (simp_all add: next_sandbox_projection_def Let_def)
  with Cons.IH [OF r(4)] r(1,2) show ?case
    by (simp add: canonical_digest_def canonical_json_def del: norm_json.simps render.simps)
qed

section \<open>Quota\<close>

interpretation sandbox_units: unit_quota reserve_sandbox
  by unfold_locales (auto simp: reserve_sandbox_def Let_def split: if_splits option.splits)

section \<open>Runs of the ledger\<close>

definition sandbox_run :: "runtime \<Rightarrow> sandbox_append_call list \<Rightarrow> sandbox_ledger" where
  "sandbox_run rt calls = fold (\<lambda>a l. snd (sandbox_append rt a l)) calls empty_sandbox_ledger"

lemma sandbox_run_log: "sandbox_run rt calls = sandbox_log.run rt calls empty_sandbox_ledger"
  by (simp add: sandbox_run_def sandbox_log.run_def)

lemma first_sandbox_fields:
  "first_sandbox_projection rt f = Inr p \<Longrightarrow> sj_version p = 1 \<and> sj_last_fact_digest p = sf_canonical_digest f \<and> sj_status p = Box_REQUESTED"
  by (auto simp: first_sandbox_projection_def Let_def split: if_splits)

lemma last_sandbox_digest_head: "sandbox_chain.head h fs = (if fs = [] then h else sf_canonical_digest (last fs))"
  by (induction fs arbitrary: h) auto

text \<open>The first fact of an execution has the zero digest before it, in every run.\<close>

lemma sandbox_run_first:
  "sandbox_facts (sandbox_run rt calls) k \<noteq> [] \<Longrightarrow> sf_previous_digest (hd (sandbox_facts (sandbox_run rt calls) k)) = zero_hash"
proof (induction calls rule: rev_induct)
  case Nil
  then show ?case by (simp add: sandbox_run_def sandbox_facts_def empty_sandbox_ledger_def get_default_def)
next
  case (snoc a calls)
  let ?l = "sandbox_run rt calls"
  obtain r l' where c: "sandbox_append rt a ?l = (r, l')" by force
  then have run: "sandbox_run rt (calls @ [a]) = l'" by (simp add: sandbox_run_def)
  from c show ?case
  proof (cases rule: sandbox_log.append_cases)
    case kept
    with snoc run show ?thesis by simp
  next
    case (added p)
    then show ?thesis
      using snoc run by (cases "sandbox_facts ?l k = []") (auto simp: make_sandbox_fact_fields last_sandbox_digest_def split: if_splits)
  qed
qed

lemma sandbox_log_chain:
  assumes "replay_sandbox rt fs None = Inr c" "fs \<noteq> []" "sf_previous_digest (hd fs) = zero_hash"
  shows "sandbox_chain.chain rt zero_hash fs"
    "\<exists>p. c = Some p \<and> sj_version p = length fs \<and> sj_last_fact_digest p = sandbox_chain.head zero_hash fs"
proof -
  from assms(2) obtain f gs where fs: "fs = f # gs" by (cases fs) auto
  with assms(1) obtain q where q: "reduce_sandbox rt None f = Inr q" "replay_sandbox rt gs (Some q) = Inr c" by auto
  from q(1) have f: "sf_canonical_digest f = canonical_digest rt (sandbox_fact_document f)" "first_sandbox_projection rt f = Inr q"
    by (simp_all add: reduce_sandbox_def)
  note ff = first_sandbox_fields [OF f(2)] and r = replay_chain [OF q(2)]
  from r ff f(1) assms(3) show "sandbox_chain.chain rt zero_hash fs"
    by (simp add: fs canonical_digest_def canonical_json_def del: norm_json.simps render.simps)
  from r ff show "\<exists>p. c = Some p \<and> sj_version p = length fs \<and> sj_last_fact_digest p = sandbox_chain.head zero_hash fs" by (auto simp: fs)
qed

section \<open>Claims over time\<close>

text \<open>Two inputs whose digests agree on the 40 characters a claim token shows.\<close>

definition token_collision :: "runtime \<Rightarrow> string \<Rightarrow> string \<Rightarrow> bool" where
  "token_collision rt x y \<longleftrightarrow> x \<noteq> y \<and> take 40 (sha256_hexdigest rt x) = take 40 (sha256_hexdigest rt y)"

inductive claim_step :: "runtime \<Rightarrow> sandbox_claims \<Rightarrow> sandbox_claims \<Rightarrow> bool" for rt where
  claim_taken: "valid_execution_request rt r \<Longrightarrow> claim_sandbox rt r worker now until s = (res, s') \<Longrightarrow> claim_step rt s s'"
| claim_completed: "complete_sandbox result token s = (res, s') \<Longrightarrow> claim_step rt s s'"

definition claim_text :: "string \<times> string \<Rightarrow> sandbox_claim \<Rightarrow> string" where
  "claim_text k c = join [CHR 0x00] [fst k, snd k, sb_worker_ref c, nat_str (sb_attempt c), sb_fence_token c]"

text \<open>Every stored claim carries the token of its own holder.\<close>

definition claims_tokened :: "runtime \<Rightarrow> sandbox_claims \<Rightarrow> bool" where
  "claims_tokened rt s \<longleftrightarrow> (\<forall>k c. s k = Some c \<longrightarrow>
     sb_claim_token c = ''sandbox-claim:'' @ take 40 (sha256_hexdigest rt (claim_text k c)) \<and> valid_sandbox_claim c)"

definition claim_kept :: "runtime \<Rightarrow> string \<times> string \<Rightarrow> sandbox_claim \<Rightarrow> sandbox_claim \<Rightarrow> bool" where
  "claim_kept rt k c c' \<longleftrightarrow> sb_spec_digest c' = sb_spec_digest c \<and> sb_policy_digest c' = sb_policy_digest c \<and>
     sb_approval_digest c' = sb_approval_digest c \<and> sb_fence_token c' = sb_fence_token c \<and>
     (sb_result_digest c \<noteq> None \<longrightarrow> c' = c)"

text \<open>Somewhere between two states the claim of an execution was replaced by one of an earlier attempt whose token is the same.\<close>

definition attempt_collision :: "runtime \<Rightarrow> string \<times> string \<Rightarrow> sandbox_claims \<Rightarrow> sandbox_claims \<Rightarrow> bool" where
  "attempt_collision rt k s s' \<longleftrightarrow> (\<exists>s1 s2 c1 c2. (claim_step rt)\<^sup>*\<^sup>* s s1 \<and> claim_step rt s1 s2 \<and> (claim_step rt)\<^sup>*\<^sup>* s2 s' \<and>
     s1 k = Some c1 \<and> s2 k = Some c2 \<and> sb_attempt c2 < sb_attempt c1 \<and> token_collision rt (claim_text k c1) (claim_text k c2))"

definition attempt_kept :: "runtime \<Rightarrow> string \<times> string \<Rightarrow> sandbox_claim \<Rightarrow> sandbox_claim \<Rightarrow> bool" where
  "attempt_kept rt k c c' \<longleftrightarrow> sb_attempt c \<le> sb_attempt c' \<or> token_collision rt (claim_text k c) (claim_text k c')"

lemma split_at_parts: "ps \<noteq> [] \<Longrightarrow> \<forall>p \<in> set ps. d \<notin> set p \<Longrightarrow> split_at d (join [d] ps) = ps"
proof (induction ps rule: list_nonempty_induct)
  case (single p)
  then show ?case by (simp add: split_at_single)
next
  case (cons p ps)
  then show ?case by (cases ps) (simp_all add: split_at_join split_at_single)
qed

lemma claim_text_attempt:
  assumes "claim_text k c = claim_text k c'" "valid_sandbox_claim c" "valid_sandbox_claim c'" "valid_identifier (fst k)" "valid_identifier (snd k)"
  shows "sb_attempt c = sb_attempt c'"
proof -
  have nul: "CHR 0x00 \<notin> set p" if "valid_identifier p" for p
    using that by (auto simp: valid_identifier_def list_all_iff ident_char_def)
  have digits: "CHR 0x00 \<notin> set (nat_str n)" for n
    using nat_str_digits [of "CHR 0x00" n] by (auto simp: is_digit_def)
  have "split_at (CHR 0x00) (claim_text k x) = [fst k, snd k, sb_worker_ref x, nat_str (sb_attempt x), sb_fence_token x]"
    if "valid_sandbox_claim x" for x
    unfolding claim_text_def using that assms(4,5) nul digits
    by (intro split_at_parts) (auto simp: valid_sandbox_claim_def)
  from this [OF assms(2)] this [OF assms(3)] assms(1) show ?thesis by simp
qed

lemma new_claim_token:
  "sb_claim_token (new_sandbox_claim rt r w u) =
     ''sandbox-claim:'' @ take 40 (sha256_hexdigest rt (claim_text (xr_tenant_id r, xr_execution_id r) (new_sandbox_claim rt r w u)))"
  by (simp add: new_sandbox_claim_def sandbox_claim_token_def stable_id_def claim_text_def)

lemma claim_sandbox_cases:
  assumes "claim_sandbox rt r w now u s = (res, s')"
  defines "k \<equiv> (xr_tenant_id r, xr_execution_id r)" and "c' \<equiv> new_sandbox_claim rt r w u"
  obtains "s' = s" | "s' = s(k \<mapsto> c')" "valid_sandbox_claim c'"
    "\<And>c. s k = Some c \<Longrightarrow> same_binding c r \<and> sb_result_digest c = None \<and> (sb_attempt c < xr_attempt r \<or> sb_claim_token c = sb_claim_token c')"
proof -
  note unfolded = assms(1) [unfolded claim_sandbox_def Let_def, folded k_def c'_def]
  have tok: "sb_claim_token c' = sandbox_claim_token rt r w" by (simp add: c'_def new_sandbox_claim_def)
  show ?thesis
  proof (cases "s' = s")
    case True
    with that show ?thesis by blast
  next
    case False
    with unfolded tok have "s' = s(k \<mapsto> c')" "valid_sandbox_claim c'"
      "\<And>c. s k = Some c \<Longrightarrow> same_binding c r \<and> sb_result_digest c = None \<and> (sb_attempt c < xr_attempt r \<or> sb_claim_token c = sb_claim_token c')"
      by (auto split: if_splits option.splits)
    with that show ?thesis by blast
  qed
qed

lemma complete_sandbox_cases:
  assumes "complete_sandbox result token s = (res, s')"
  obtains "s' = s" | c where "s (sz_tenant_id result, sz_execution_id result) = Some c" "sb_result_digest c = None"
    "s' = s((sz_tenant_id result, sz_execution_id result) \<mapsto> c\<lparr>sb_result_digest := Some (sz_result_digest result)\<rparr>)"
  using assms by (auto simp: complete_sandbox_def Let_def split: if_splits option.splits)

lemma claim_with_result [simp]:
  "claim_text k (c\<lparr>sb_result_digest := d\<rparr>) = claim_text k c" "valid_sandbox_claim (c\<lparr>sb_result_digest := d\<rparr>) = valid_sandbox_claim c"
  by (simp_all add: claim_text_def valid_sandbox_claim_def)

lemma claim_step_kept:
  assumes "claim_step rt s s'" "claims_tokened rt s"
  shows "claims_tokened rt s' \<and> (\<forall>k c. s k = Some c \<longrightarrow> (\<exists>c'. s' k = Some c' \<and> claim_kept rt k c c' \<and> attempt_kept rt k c c'))"
  using assms(1)
proof cases
  case (claim_taken r w now u res)
  let ?k = "(xr_tenant_id r, xr_execution_id r)" and ?c' = "new_sandbox_claim rt r w u"
  from claim_taken(2) show ?thesis
  proof (cases rule: claim_sandbox_cases)
    case 1
    with assms(2) show ?thesis by (auto simp: claim_kept_def attempt_kept_def)
  next
    case 2
    have ids: "valid_identifier (fst ?k)" "valid_identifier (snd ?k)" using claim_taken(1) by (simp_all add: valid_execution_request_def)
    have "claim_kept rt ?k c ?c' \<and> attempt_kept rt ?k c ?c'" if c: "s ?k = Some c" for c
    proof -
      have old: "sb_claim_token c = ''sandbox-claim:'' @ take 40 (sha256_hexdigest rt (claim_text ?k c))" "valid_sandbox_claim c"
        using assms(2) c by (simp_all add: claims_tokened_def)
      have att: "sb_attempt ?c' = xr_attempt r" by (simp add: new_sandbox_claim_def)
      have "sb_attempt c \<le> sb_attempt ?c' \<or> token_collision rt (claim_text ?k c) (claim_text ?k ?c')"
      proof (cases "sb_attempt c < xr_attempt r \<or> claim_text ?k c = claim_text ?k ?c'")
        case True
        then show ?thesis using att claim_text_attempt [OF _ old(2) 2(2) ids] by auto
      next
        case False
        with 2(3) [OF c] have "sb_claim_token c = sb_claim_token ?c'" by blast
        with False show ?thesis unfolding old(1) new_claim_token by (simp add: token_collision_def)
      qed
      with 2(3) [OF c] show ?thesis
        unfolding attempt_kept_def by (auto simp: claim_kept_def same_binding_def new_sandbox_claim_def)
    qed
    moreover have "claims_tokened rt s'" using assms(2) 2(1,2) new_claim_token [of rt r w u] by (simp add: claims_tokened_def)
    ultimately show ?thesis using 2(1) by (auto simp: claim_kept_def attempt_kept_def)
  qed
next
  case (claim_completed result token res)
  then show ?thesis
  proof (cases rule: complete_sandbox_cases)
    case 1
    with assms(2) show ?thesis by (auto simp: claim_kept_def attempt_kept_def)
  next
    case (2 c)
    with assms(2) show ?thesis
      by (auto simp: claims_tokened_def claim_kept_def attempt_kept_def split: if_splits)
  qed
qed

lemma claim_kept_trans: "claim_kept rt k a b \<Longrightarrow> claim_kept rt k b c \<Longrightarrow> claim_kept rt k a c"
  unfolding claim_kept_def by auto

lemma attempt_collision_later: "attempt_collision rt k s s1 \<Longrightarrow> claim_step rt s1 s2 \<Longrightarrow> attempt_collision rt k s s2"
  unfolding attempt_collision_def by (meson rtranclp.rtrancl_into_rtrancl)

lemma attempt_collision_now:
  "(claim_step rt)\<^sup>*\<^sup>* s s1 \<Longrightarrow> claim_step rt s1 s2 \<Longrightarrow> s1 k = Some c1 \<Longrightarrow> s2 k = Some c2 \<Longrightarrow>
   sb_attempt c2 < sb_attempt c1 \<Longrightarrow> token_collision rt (claim_text k c1) (claim_text k c2) \<Longrightarrow> attempt_collision rt k s s2"
  unfolding attempt_collision_def by blast

lemma claim_steps_kept:
  assumes "(claim_step rt)\<^sup>*\<^sup>* s s'" "claims_tokened rt s" "s k = Some c"
  shows "claims_tokened rt s' \<and>
    (\<exists>c'. s' k = Some c' \<and> claim_kept rt k c c' \<and> (sb_attempt c \<le> sb_attempt c' \<or> attempt_collision rt k s s'))"
  using assms(1)
proof (induction rule: rtranclp_induct)
  case base
  with assms(2,3) show ?case by (simp add: claim_kept_def)
next
  case (step s1 s2)
  then obtain c1 where c1: "s1 k = Some c1" "claim_kept rt k c c1" "sb_attempt c \<le> sb_attempt c1 \<or> attempt_collision rt k s s1"
    and tok: "claims_tokened rt s1" by blast
  from claim_step_kept [OF step.hyps(2) tok] c1(1) obtain c2 where
    c2: "claims_tokened rt s2" "s2 k = Some c2" "claim_kept rt k c1 c2" "attempt_kept rt k c1 c2" by blast
  have "sb_attempt c \<le> sb_attempt c2 \<or> attempt_collision rt k s s2"
    using c1(3) c2(4) attempt_collision_later [OF _ step.hyps(2)] attempt_collision_now [OF step.hyps c1(1) c2(2)]
    unfolding attempt_kept_def by (meson linorder_not_le order_trans)
  with c1(2) c2 claim_kept_trans show ?case by blast
qed

lemma claims_start: "(claim_step rt)\<^sup>*\<^sup>* Map.empty s \<Longrightarrow> claims_tokened rt s"
proof (induction rule: rtranclp_induct)
  case base
  show ?case by (simp add: claims_tokened_def)
next
  case (step s1 s2)
  then show ?case using claim_step_kept by blast
qed

end
