(* ===== verification/Sandbox_Progress.thy ===== *)
theory Sandbox_Progress
  imports Sandbox_Contract Remediation_Progress
begin

text \<open>
  What \<open>SandboxControlService.request\<close> does on every path: the gate before the first write, the charge, and the
  three appends, which succeed on a fresh execution.
\<close>

section \<open>Bounds\<close>

lemma sandbox_run_bound: "length (sandbox_facts (sandbox_run rt calls) k) \<le> max_sandbox_facts"
proof (induction calls rule: rev_induct)
  case Nil
  then show ?case by (simp add: sandbox_run_def sandbox_facts_def empty_sandbox_ledger_def get_default_def)
next
  case (snoc a calls)
  let ?l = "sandbox_run rt calls"
  obtain r l' where c: "sandbox_append rt a ?l = (r, l')" by force
  then have run: "sandbox_run rt (calls @ [a]) = l'" by (simp add: sandbox_run_def)
  from c show ?case
  proof (cases rule: sandbox_log.append_cases)
    case kept
    with snoc run show ?thesis by simp
  next
    case (added p)
    with sandbox_append_new(6) [OF added(2), of rt p l'] c snoc run show ?thesis by simp
  qed
qed

section \<open>Accepted appends\<close>

lemma sandbox_fact_prefix: "list_all ident_char ''sandbox-fact''"
  by (simp add: ident_char_def)

definition valid_call :: "sandbox_append_call \<Rightarrow> bool" where
  "valid_call a \<longleftrightarrow> valid_identifier (sw_tenant_id a) \<and> valid_identifier (sw_execution_id a) \<and>
     valid_identifier (sw_command_id a) \<and> valid_identifier (sw_actor_ref a) \<and> length (sw_payload a) \<le> 32"

lemma make_sandbox_fact_valid:
  assumes "sha256_shape rt" "valid_call a" "hex64 (last_sandbox_digest fs)"
  shows "valid_sandbox_fact (make_sandbox_fact rt a fs)"
proof -
  have "valid_identifier (sf_fact_id (make_sandbox_fact rt a fs))"
    using valid_stable_id [OF assms(1) sandbox_fact_prefix] by (simp add: make_sandbox_fact_fields)
  moreover have "hex64 (sf_canonical_digest (make_sandbox_fact rt a fs))"
    using assms(1) by (simp add: make_sandbox_fact_fields canonical_digest_def sha256_shape_def del: render.simps norm_json.simps)
  ultimately show ?thesis using assms(2,3)
    by (simp add: valid_sandbox_fact_def make_sandbox_fact_fields valid_call_def dict_sorted_def)
qed

text \<open>An execution whose live projection belongs to its facts.\<close>

definition box_at :: "sandbox_ledger \<Rightarrow> string \<times> string \<Rightarrow> sandbox_projection \<Rightarrow> sandbox_fact list \<Rightarrow> bool" where
  "box_at l k p fs \<longleftrightarrow> sandbox_facts l k = fs \<and> sl_projections l k = Some p \<and> (sj_tenant_id p, sj_execution_id p) = k \<and>
     sj_version p = length fs \<and> sj_last_fact_digest p = last_sandbox_digest fs \<and> hex64 (last_sandbox_digest fs)"

definition after_append :: "runtime \<Rightarrow> sandbox_append_call \<Rightarrow> sandbox_projection \<Rightarrow> sandbox_ledger \<Rightarrow> sandbox_ledger" where
  "after_append rt a p l =
     (let fs = sandbox_facts l (call_key a) in
      l\<lparr>sl_facts := (sl_facts l)(call_key a \<mapsto> fs @ [make_sandbox_fact rt a fs]),
        sl_commands := (sl_commands l)(call_command a \<mapsto> call_mark rt a), sl_projections := (sl_projections l)(call_key a \<mapsto> p)\<rparr>)"

lemma after_append_commands [simp]: "sl_commands (after_append rt a p l) = (sl_commands l)(call_command a \<mapsto> call_mark rt a)"
  by (simp add: after_append_def Let_def)

lemma sandbox_append_succeeds:
  assumes "sl_commands l (call_command a) = None" "sandbox_facts l (call_key a) = fs" "length fs = sw_expected_version a"
    "length fs < max_sandbox_facts" "valid_sandbox_fact (make_sandbox_fact rt a fs)"
    "reduce_sandbox rt (sl_projections l (call_key a)) (make_sandbox_fact rt a fs) = Inr p"
  shows "sandbox_append rt a l = (Inr p, after_append rt a p l)"
  using assms by (simp add: sandbox_append_def Let_def call_key_def call_command_def call_mark_def after_append_def)

lemma sandbox_append_next:
  assumes at: "box_at l k p fs" and sh: "sha256_shape rt" and a: "call_key a = k" "valid_call a" "sw_expected_version a = sj_version p"
    and new: "sl_commands l (call_command a) = None" and room: "length fs < max_sandbox_facts"
  defines "f \<equiv> make_sandbox_fact rt a fs"
  defines "q \<equiv> next_sandbox_projection rt p f"
  shows "sandbox_append rt a l = (Inr q, after_append rt a q l)" "box_at (after_append rt a q l) k q (fs @ [f])"
proof -
  have vf: "valid_sandbox_fact f" using make_sandbox_fact_valid [OF sh a(2)] at by (simp add: f_def box_at_def)
  have "reduce_sandbox rt (Some p) f = Inr q"
    using at a(1) by (auto simp: reduce_sandbox_def f_def q_def make_sandbox_fact_fields box_at_def call_key_def)
  with at a new room vf show "sandbox_append rt a l = (Inr q, after_append rt a q l)"
    by (intro sandbox_append_succeeds) (auto simp: box_at_def f_def)
  show "box_at (after_append rt a q l) k q (fs @ [f])"
    using at a(1) vf
    by (auto simp: box_at_def after_append_def Let_def sandbox_facts_def get_default_def q_def next_sandbox_projection_def
        f_def make_sandbox_fact_fields last_sandbox_digest_def valid_sandbox_fact_def)
qed

definition first_of :: "runtime \<Rightarrow> execution_request \<Rightarrow> sandbox_fact \<Rightarrow> sandbox_projection" where
  "first_of rt r f =
     \<lparr>sj_tenant_id = xr_tenant_id r, sj_execution_id = xr_execution_id r, sj_run_id = xr_run_id r, sj_task_id = xr_task_id r,
      sj_status = Box_REQUESTED, sj_version = 1, sj_request_digest = xr_request_digest r, sj_spec_digest = xr_spec_digest r,
      sj_policy_digest = xr_policy_digest r, sj_approval_digest = xr_approval_digest r, sj_fence_token = xr_fence_token r,
      sj_provider_uid = None, sj_result_digest = None, sj_manifest_digest = None, sj_attestation_digest = None,
      sj_cleanup_complete = False, sj_last_fact_digest = sf_canonical_digest f, sj_updated_at = sf_recorded_at f\<rparr>"

lemma request_payload_fields:
  "length (request_payload r) = 7" "map_of (dict_sorted (request_payload r)) ''run_id'' = Some (JStr (xr_run_id r))"
  "map_of (dict_sorted (request_payload r)) ''task_id'' = Some (JStr (xr_task_id r))"
  "map_of (dict_sorted (request_payload r)) ''request_digest'' = Some (JStr (xr_request_digest r))"
  "map_of (dict_sorted (request_payload r)) ''spec_digest'' = Some (JStr (xr_spec_digest r))"
  "map_of (dict_sorted (request_payload r)) ''policy_digest'' = Some (JStr (xr_policy_digest r))"
  "map_of (dict_sorted (request_payload r)) ''approval_digest'' = Some (JStr (xr_approval_digest r))"
  "map_of (dict_sorted (request_payload r)) ''fence_token'' = Some (JStr (xr_fence_token r))"
proof -
  have "distinct (map fst (request_payload r))" by (simp add: request_payload_def)
  note m = map_of_dict_sorted [OF this]
  show "length (request_payload r) = 7" by (simp add: request_payload_def)
  show "map_of (dict_sorted (request_payload r)) ''run_id'' = Some (JStr (xr_run_id r))"
    "map_of (dict_sorted (request_payload r)) ''task_id'' = Some (JStr (xr_task_id r))"
    "map_of (dict_sorted (request_payload r)) ''request_digest'' = Some (JStr (xr_request_digest r))"
    "map_of (dict_sorted (request_payload r)) ''spec_digest'' = Some (JStr (xr_spec_digest r))"
    "map_of (dict_sorted (request_payload r)) ''policy_digest'' = Some (JStr (xr_policy_digest r))"
    "map_of (dict_sorted (request_payload r)) ''approval_digest'' = Some (JStr (xr_approval_digest r))"
    "map_of (dict_sorted (request_payload r)) ''fence_token'' = Some (JStr (xr_fence_token r))"
    unfolding m by (simp_all add: request_payload_def)
qed

lemma sandbox_append_request:
  assumes sh: "sha256_shape rt" and r: "valid_execution_request rt r"
    and a: "call_key a = (xr_tenant_id r, xr_execution_id r)" "valid_call a" "sw_expected_version a = 0"
      "sw_fact_type a = BoxFact_REQUEST_RECORDED" "sw_payload a = request_payload r"
    and new: "sl_commands l (call_command a) = None" and fresh: "sandbox_facts l (call_key a) = []" "sl_projections l (call_key a) = None"
  defines "f \<equiv> make_sandbox_fact rt a []"
  defines "q \<equiv> first_of rt r f"
  shows "sandbox_append rt a l = (Inr q, after_append rt a q l)" "box_at (after_append rt a q l) (call_key a) q [f]"
proof -
  have vf: "valid_sandbox_fact f" using make_sandbox_fact_valid [OF sh a(2)] by (simp add: f_def last_sandbox_digest_def)
  have fields: "sf_tenant_id f = xr_tenant_id r" "sf_execution_id f = xr_execution_id r" "sf_payload f = dict_sorted (request_payload r)"
    using a by (simp_all add: f_def make_sandbox_fact_fields call_key_def)
  have "valid_identifier (xr_tenant_id r)" "valid_identifier (xr_execution_id r)" "valid_identifier (xr_run_id r)"
    "valid_identifier (xr_task_id r)" "hex64 (xr_request_digest r)" "hex64 (xr_spec_digest r)" "hex64 (xr_policy_digest r)"
    "hex64 (xr_approval_digest r)" "valid_identifier (xr_fence_token r)"
    using r unfolding valid_execution_request_def by blast+
  with vf have "valid_sandbox_projection q"
    by (simp add: valid_sandbox_projection_def q_def first_of_def valid_sandbox_fact_def)
  then have "first_sandbox_projection rt f = Inr q"
    by (simp add: first_sandbox_projection_def Let_def fields payload_text_def request_payload_fields q_def first_of_def)
  then have "reduce_sandbox rt None f = Inr q"
    using a(4) by (simp add: reduce_sandbox_def make_sandbox_fact_fields(10) [of rt a "[]", folded f_def] fields
        request_fields_def request_payload_fields del: One_nat_def) (simp add: f_def make_sandbox_fact_fields)
  with a new fresh vf show "sandbox_append rt a l = (Inr q, after_append rt a q l)"
    by (intro sandbox_append_succeeds) (auto simp: f_def max_sandbox_facts_def)
  show "box_at (after_append rt a q l) (call_key a) q [f]"
    using fresh a(1) vf
    by (auto simp: box_at_def after_append_def Let_def sandbox_facts_def get_default_def q_def first_of_def
        f_def last_sandbox_digest_def valid_sandbox_fact_def)
qed

section \<open>The gate\<close>

text \<open>Everything a request has to pass before the first write, at the two readings of the clock that belong to it.\<close>

definition sandbox_gate :: "sandbox_env \<Rightarrow> identity_context \<Rightarrow> execution_request \<Rightarrow> int \<Rightarrow> nat \<Rightarrow> bool" where
  "sandbox_gate env i r active_executions tick \<longleftrightarrow>
     id_tenant_id i = xr_tenant_id r \<and>
     pd_allowed (authorize (bx_policies env) (bx_clock env tick) i SANDBOX_EXECUTE (xr_tenant_id r) ''incident-response'' (sp_risk (xr_spec r))) \<and>
     xr_policy_digest r = sy_policy_digest (bx_sandbox_policy env) \<and>
     bx_approvals env (xr_tenant_id r) (ab_approval_id (sp_approval (xr_spec r))) = Some (sp_approval (xr_spec r)) \<and>
     authorize_spec (bx_sandbox_policy env) (xr_spec r) active_executions (bx_clock env (Suc tick)) = Inr ()"

lemma authorize_spec_denied:
  assumes "authorize_spec p s active now \<noteq> Inr ()"
  shows "\<exists>m. authorize_spec p s active now = Inl (PolicyDenied m)"
  using assms by (auto simp: authorize_spec_def guardE_def simp del: One_nat_def split: if_splits)

lemma admit_open:
  "sandbox_gate env i r active (bs_ticks s) \<Longrightarrow> admit_request env i r active s = (Inr (), s\<lparr>bs_ticks := bs_ticks s + 2\<rparr>)"
  by (simp add: sandbox_gate_def admit_request_def op_defs sandbox_now_def)

definition same_stores :: "sandbox_state \<Rightarrow> sandbox_state \<Rightarrow> bool" where
  "same_stores s s' \<longleftrightarrow> bs_ledger s' = bs_ledger s \<and> bs_quota s' = bs_quota s \<and> bs_claims s' = bs_claims s"

lemma admit_closed:
  assumes "\<not> sandbox_gate env i r active (bs_ticks s)"
  shows "\<exists>m s'. admit_request env i r active s = (Inl (PolicyDenied m), s') \<and> same_stores s s'"
  using assms authorize_spec_denied [of "bx_sandbox_policy env" "xr_spec r" active "bx_clock env (Suc (bs_ticks s))"]
  by (auto simp: sandbox_gate_def admit_request_def op_defs sandbox_now_def same_stores_def)

lemma request_closed:
  assumes "\<not> sandbox_gate env i r active (bs_ticks s)"
  shows "\<exists>m s'. request_sandbox env i r active cmd s = (Inl (PolicyDenied m), s') \<and> same_stores s s'"
  using admit_closed [OF assms] by (auto simp: request_sandbox_def bindS_def)

lemma request_open:
  assumes "sandbox_gate env i r active (bs_ticks s)"
  shows "request_sandbox env i r active cmd s =
    bindS (charge_request env r) (\<lambda>_. record_request env i r cmd) (s\<lparr>bs_ticks := bs_ticks s + 2\<rparr>)"
  using admit_open [OF assms] by (simp add: request_sandbox_def bindS_def)

section \<open>The charge and the records\<close>

definition reserved_for :: "sandbox_env \<Rightarrow> execution_request \<Rightarrow> sandbox_state \<Rightarrow> bool" where
  "reserved_for env r s \<longleftrightarrow> (\<exists>d. eq_reservations (bs_quota s) (xr_tenant_id r, sandbox_reservation env r) = Some d \<and> qd_allowed d)"

lemma charge_cases:
  "wp (charge_request env r) (\<lambda>res s'. bs_ledger s' = bs_ledger s \<and> bs_claims s' = bs_claims s \<and> (res = Inr () \<longrightarrow> reserved_for env r s')) s"
  by (auto simp: charge_request_def sandbox_now_def on_sandbox_quota_def wp_def op_defs reserve_sandbox_def Let_def reserved_for_def
      split: option.split prod.split)

lemma charge_free:
  assumes "sha256_shape (bx_runtime env)" "eq_reservations (bs_quota s) (xr_tenant_id r, sandbox_reservation env r) = None"
    "1 \<le> get_default (eq_remaining (bs_quota s)) (xr_tenant_id r) 0"
  shows "\<exists>s'. charge_request env r (s\<lparr>bs_ticks := n\<rparr>) = (Inr (), s') \<and> bs_ledger s' = bs_ledger s \<and>
    get_default (eq_remaining (bs_quota s')) (xr_tenant_id r) 0 = get_default (eq_remaining (bs_quota s)) (xr_tenant_id r) 0 - 1"
proof -
  have "list_all ident_char ''sandbox-quota''" by (simp add: ident_char_def)
  from valid_stable_id [OF assms(1) this] have "valid_identifier (sandbox_reservation env r)" by (simp add: sandbox_reservation_def)
  with assms(2,3) show ?thesis
    by (simp add: charge_request_def sandbox_now_def on_sandbox_quota_def op_defs reserve_sandbox_def Let_def get_default_def)
qed

text \<open>An append of the service touches the facts of its own execution only, and neither quota nor claims.\<close>

definition own_facts_only :: "execution_request \<Rightarrow> sandbox_state \<Rightarrow> sandbox_state \<Rightarrow> bool" where
  "own_facts_only r s s' \<longleftrightarrow> bs_quota s' = bs_quota s \<and> bs_claims s' = bs_claims s \<and>
     (\<forall>k. k \<noteq> (xr_tenant_id r, xr_execution_id r) \<longrightarrow> sandbox_facts (bs_ledger s') k = sandbox_facts (bs_ledger s) k)"

lemma own_facts_trans: "own_facts_only r s s1 \<Longrightarrow> own_facts_only r s1 s2 \<Longrightarrow> own_facts_only r s s2"
  by (simp add: own_facts_only_def)

lemma append_own_facts:
  assumes "sandbox_append rt a l = (res, l')" "k \<noteq> call_key a"
  shows "sandbox_facts l' k = sandbox_facts l k"
  using assms(1) by (cases rule: sandbox_log.append_cases) (use assms(2) in simp_all)

lemma record_own_facts: "wp (record_sandbox env r v ty c actor payload) (\<lambda>_. own_facts_only r s) s"
  by (auto simp: record_sandbox_def sandbox_now_def on_sandbox_ledger_def wp_def op_defs own_facts_only_def call_key_def
      dest!: append_own_facts split: prod.split)

lemma bind_own_facts:
  assumes "\<And>s. wp m (\<lambda>_. own_facts_only r s) s" "\<And>x s. wp (f x) (\<lambda>_. own_facts_only r s) s"
  shows "wp (bindS m f) (\<lambda>_. own_facts_only r s) s"
  unfolding wp_bindS
  by (rule wp_mono [OF assms(1)]) (auto split: sum.split intro: wp_mono [OF assms(2)] own_facts_trans)

lemma record_request_own_facts: "wp (record_request env i r c) (\<lambda>_. own_facts_only r s) s"
  unfolding record_request_def Let_def by (intro bind_own_facts record_own_facts)

section \<open>Acceptance\<close>

definition box_call ::
  "sandbox_env \<Rightarrow> identity_context \<Rightarrow> execution_request \<Rightarrow> nat \<Rightarrow> sandbox_fact_type \<Rightarrow> string \<Rightarrow> dict \<Rightarrow> nat \<Rightarrow> sandbox_append_call" where
  "box_call env i r v ty c payload tick =
     \<lparr>sw_tenant_id = xr_tenant_id r, sw_execution_id = xr_execution_id r, sw_expected_version = v, sw_fact_type = ty, sw_command_id = c,
      sw_actor_ref = sandbox_actor env i, sw_recorded_at = bx_clock env tick, sw_payload = payload\<rparr>"

lemma box_call_simps [simp]:
  "call_key (box_call env i r v ty c payload n) = (xr_tenant_id r, xr_execution_id r)"
  "call_command (box_call env i r v ty c payload n) = (xr_tenant_id r, c)"
  "sw_expected_version (box_call env i r v ty c payload n) = v" "sw_fact_type (box_call env i r v ty c payload n) = ty"
  "sw_payload (box_call env i r v ty c payload n) = payload" "sw_command_id (box_call env i r v ty c payload n) = c"
  by (simp_all add: box_call_def call_key_def call_command_def)

lemma record_sandbox_eq:
  assumes "sandbox_append (bx_runtime env) (box_call env i r v ty c payload (bs_ticks s)) (bs_ledger s) = (res, l)"
  shows "record_sandbox env r v ty c (sandbox_actor env i) payload s = (res, s\<lparr>bs_ledger := l, bs_ticks := Suc (bs_ticks s)\<rparr>)"
  using assms by (simp add: record_sandbox_def sandbox_now_def on_sandbox_ledger_def op_defs box_call_def)

lemma valid_box_call:
  assumes "sha256_shape (bx_runtime env)" "valid_execution_request rt r" "valid_identifier c" "length payload \<le> 32"
  shows "valid_call (box_call env i r v ty c payload n)"
proof -
  have "list_all ident_char ''actor''" by (simp add: ident_char_def)
  from valid_stable_id [OF assms(1) this] have "valid_identifier (sandbox_actor env i)" by (simp add: sandbox_actor_def)
  with assms(2-4) show ?thesis by (simp add: valid_call_def box_call_def valid_execution_request_def)
qed

definition fresh_execution :: "execution_request \<Rightarrow> string \<Rightarrow> sandbox_ledger \<Rightarrow> bool" where
  "fresh_execution r c l \<longleftrightarrow> sandbox_facts l (xr_tenant_id r, xr_execution_id r) = [] \<and>
     sl_projections l (xr_tenant_id r, xr_execution_id r) = None \<and>
     list_all (\<lambda>x. sl_commands l (xr_tenant_id r, x) = None) [c, c @ ''-policy'', c @ ''-approval'']"

definition request_bound :: "execution_request \<Rightarrow> sandbox_projection \<Rightarrow> bool" where
  "request_bound r p \<longleftrightarrow> sj_request_digest p = xr_request_digest r \<and> sj_spec_digest p = xr_spec_digest r \<and>
     sj_policy_digest p = xr_policy_digest r \<and> sj_approval_digest p = xr_approval_digest r \<and> sj_fence_token p = xr_fence_token r \<and>
     sj_run_id p = xr_run_id r \<and> sj_task_id p = xr_task_id r"

lemma first_of_bound: "request_bound r (first_of rt r f)" "sj_status (first_of rt r f) = Box_REQUESTED"
  by (simp_all add: request_bound_def first_of_def)

lemma next_status: "sj_status (next_sandbox_projection rt p f) = sandbox_status_by_fact (sf_fact_type f)"
  by (simp add: next_sandbox_projection_def Let_def)

lemma next_bound: "request_bound r (next_sandbox_projection rt p f) = request_bound r p"
  by (simp add: request_bound_def next_sandbox_projection_def Let_def)

text \<open>One accepted append of the service: the execution is at a new projection, and one command is taken.\<close>

definition recorded ::
  "execution_request \<Rightarrow> sandbox_fact_type \<Rightarrow> string \<Rightarrow> sandbox_fact list \<Rightarrow> sandbox_state \<Rightarrow> sandbox_projection \<Rightarrow> sandbox_fact list \<Rightarrow> sandbox_state \<Rightarrow> bool" where
  "recorded r ty c fs s q fs' s' \<longleftrightarrow>
     box_at (bs_ledger s') (xr_tenant_id r, xr_execution_id r) q fs' \<and> map sf_fact_type fs' = map sf_fact_type fs @ [ty] \<and>
     sj_status q = sandbox_status_by_fact ty \<and> request_bound r q \<and> bs_quota s' = bs_quota s \<and>
     (\<forall>x. x \<noteq> c \<longrightarrow> sl_commands (bs_ledger s') (xr_tenant_id r, x) = sl_commands (bs_ledger s) (xr_tenant_id r, x))"

lemma record_first:
  assumes sh: "sha256_shape (bx_runtime env)" and r: "valid_execution_request (bx_runtime env) r"
    and c: "valid_identifier c" and fresh: "fresh_execution r c (bs_ledger s)"
  shows "\<exists>q fs s'. record_sandbox env r 0 BoxFact_REQUEST_RECORDED c (sandbox_actor env i) (request_payload r) s = (Inr q, s') \<and>
    recorded r BoxFact_REQUEST_RECORDED c [] s q fs s'"
proof -
  let ?a = "box_call env i r 0 BoxFact_REQUEST_RECORDED c (request_payload r) (bs_ticks s)"
  have v: "valid_call ?a" using valid_box_call [OF sh r c] by (simp add: request_payload_fields)
  note a = sandbox_append_request [OF sh r _ v, of "bs_ledger s", simplified]
  have new: "sl_commands (bs_ledger s) (xr_tenant_id r, c) = None" "sandbox_facts (bs_ledger s) (xr_tenant_id r, xr_execution_id r) = []"
    "sl_projections (bs_ledger s) (xr_tenant_id r, xr_execution_id r) = None"
    using fresh by (simp_all add: fresh_execution_def)
  let ?f = "make_sandbox_fact (bx_runtime env) ?a []" and ?q = "first_of (bx_runtime env) r (make_sandbox_fact (bx_runtime env) ?a [])"
  let ?s' = "s\<lparr>bs_ledger := after_append (bx_runtime env) ?a ?q (bs_ledger s), bs_ticks := Suc (bs_ticks s)\<rparr>"
  have "recorded r BoxFact_REQUEST_RECORDED c [] s ?q [?f] ?s'"
    using a(2) [OF new] by (simp add: recorded_def make_sandbox_fact_fields(4) first_of_bound)
  with record_sandbox_eq [OF a(1) [OF new]] show ?thesis by blast
qed

lemma record_next:
  assumes sh: "sha256_shape (bx_runtime env)" and r: "valid_execution_request (bx_runtime env) r"
    and before: "recorded r ty0 c0 fs0 s0 p fs s" and room: "length fs < max_sandbox_facts"
    and c: "valid_identifier c" "length payload \<le> 32" "sl_commands (bs_ledger s) (xr_tenant_id r, c) = None"
  shows "\<exists>q fs' s'. record_sandbox env r (sj_version p) ty c (sandbox_actor env i) payload s = (Inr q, s') \<and>
    recorded r ty c fs s q fs' s'"
proof -
  let ?a = "box_call env i r (sj_version p) ty c payload (bs_ticks s)"
  have at: "box_at (bs_ledger s) (xr_tenant_id r, xr_execution_id r) p fs" and bound: "request_bound r p"
    using before by (simp_all add: recorded_def)
  have v: "valid_call ?a" by (rule valid_box_call [OF sh r c(1,2)])
  note a = sandbox_append_next [OF at sh _ v _ _ room, simplified, OF c(3)]
  let ?f = "make_sandbox_fact (bx_runtime env) ?a fs"
  let ?q = "next_sandbox_projection (bx_runtime env) p ?f"
  let ?s' = "s\<lparr>bs_ledger := after_append (bx_runtime env) ?a ?q (bs_ledger s), bs_ticks := Suc (bs_ticks s)\<rparr>"
  have "recorded r ty c fs s ?q (fs @ [?f]) ?s'"
    using a(2) bound by (simp add: recorded_def next_bound make_sandbox_fact_fields(4) next_status)
  with record_sandbox_eq [OF a(1)] show ?thesis by blast
qed

lemma record_request_succeeds:
  assumes sh: "sha256_shape (bx_runtime env)" and r: "valid_execution_request (bx_runtime env) r"
    and c: "valid_identifier c" "length c \<le> 119" and fresh: "fresh_execution r c (bs_ledger s)"
  shows "\<exists>q fs s'. record_request env i r c s = (Inr q, s') \<and> box_at (bs_ledger s') (xr_tenant_id r, xr_execution_id r) q fs \<and>
    request_bound r q \<and> sj_status q = Box_POLICY_APPROVED \<and>
    map sf_fact_type fs = [BoxFact_REQUEST_RECORDED, BoxFact_POLICY_DECIDED, BoxFact_APPROVAL_BOUND] \<and> bs_quota s' = bs_quota s"
proof -
  have ids: "valid_identifier (c @ ''-policy'')" "valid_identifier (c @ ''-approval'')"
    using c by (simp_all add: valid_identifier_def ident_char_def)
  have new: "sl_commands (bs_ledger s) (xr_tenant_id r, c @ ''-policy'') = None"
    "sl_commands (bs_ledger s) (xr_tenant_id r, c @ ''-approval'') = None"
    using fresh by (simp_all add: fresh_execution_def)
  have short: "length (policy_payload p) \<le> 32" "length (approval_payload r) \<le> 32" for p
    by (simp_all add: policy_payload_def approval_payload_def Let_def)
  from record_first [OF sh r c(1) fresh] obtain q1 fs1 s1 where
    e1: "record_sandbox env r 0 BoxFact_REQUEST_RECORDED c (sandbox_actor env i) (request_payload r) s = (Inr q1, s1)"
    and r1: "recorded r BoxFact_REQUEST_RECORDED c [] s q1 fs1 s1" by blast
  from r1 have "length (map sf_fact_type fs1) = 1" "sl_commands (bs_ledger s1) (xr_tenant_id r, c @ ''-policy'') = None"
    and n1: "sl_commands (bs_ledger s1) (xr_tenant_id r, c @ ''-approval'') = None"
    by (simp_all add: recorded_def new del: length_map)
  with record_next [OF sh r r1 _ ids(1) short(1)] obtain q2 fs2 s2 where
    e2: "record_sandbox env r (sj_version q1) BoxFact_POLICY_DECIDED (c @ ''-policy'') (sandbox_actor env i)
      (policy_payload (bx_sandbox_policy env)) s1 = (Inr q2, s2)"
    and r2: "recorded r BoxFact_POLICY_DECIDED (c @ ''-policy'') fs1 s1 q2 fs2 s2"
    by (auto simp: max_sandbox_facts_def) blast
  from r1 r2 have "length (map sf_fact_type fs2) = 2" "sl_commands (bs_ledger s2) (xr_tenant_id r, c @ ''-approval'') = None"
    by (simp_all add: recorded_def n1 del: length_map)
  with record_next [OF sh r r2 _ ids(2) short(2)] obtain q3 fs3 s3 where
    e3: "record_sandbox env r (sj_version q2) BoxFact_APPROVAL_BOUND (c @ ''-approval'') (sandbox_actor env i) (approval_payload r) s2 = (Inr q3, s3)"
    and r3: "recorded r BoxFact_APPROVAL_BOUND (c @ ''-approval'') fs2 s2 q3 fs3 s3"
    by (auto simp: max_sandbox_facts_def) blast
  have "record_request env i r c s = (Inr q3, s3)"
    by (simp add: record_request_def Let_def bindS_def e1 e2 e3)
  with r1 r2 r3 show ?thesis by (auto simp: recorded_def)
qed

section \<open>A command identifier that leaves no room for the suffixes\<close>

lemma record_refused:
  assumes before: "recorded r ty0 c0 fs0 s0 p fs s" and room: "length fs < max_sandbox_facts"
    and c: "\<not> valid_identifier c" "sl_commands (bs_ledger s) (xr_tenant_id r, c) = None"
  shows "\<exists>s'. record_sandbox env r (sj_version p) ty c (sandbox_actor env i) payload s = (Inl (ValidationError ''SandboxFact''), s') \<and>
    sandbox_facts (bs_ledger s') = sandbox_facts (bs_ledger s)"
proof -
  let ?a = "box_call env i r (sj_version p) ty c payload (bs_ticks s)"
  have at: "box_at (bs_ledger s) (xr_tenant_id r, xr_execution_id r) p fs" using before by (simp add: recorded_def)
  have "\<not> valid_sandbox_fact (make_sandbox_fact (bx_runtime env) ?a fs)"
    using c(1) by (simp add: valid_sandbox_fact_def make_sandbox_fact_fields)
  with at c(2) room have "\<exists>l. sandbox_append (bx_runtime env) ?a (bs_ledger s) = (Inl (ValidationError ''SandboxFact''), l)"
    by (simp add: sandbox_append_def Let_def box_at_def box_call_def)
  then obtain l where l: "sandbox_append (bx_runtime env) ?a (bs_ledger s) = (Inl (ValidationError ''SandboxFact''), l)" ..
  with sandbox_log.append_kept [OF l] record_sandbox_eq [OF l] show ?thesis by simp
qed

lemma record_request_strands:
  assumes sh: "sha256_shape (bx_runtime env)" and r: "valid_execution_request (bx_runtime env) r"
    and c: "valid_identifier c" "119 < length c" and fresh: "fresh_execution r c (bs_ledger s)"
  shows "\<exists>s'. record_request env i r c s = (Inl (ValidationError ''SandboxFact''), s') \<and>
    map sf_fact_type (sandbox_facts (bs_ledger s') (xr_tenant_id r, xr_execution_id r)) \<in>
      {[BoxFact_REQUEST_RECORDED], [BoxFact_REQUEST_RECORDED, BoxFact_POLICY_DECIDED]}"
proof -
  have bad: "\<not> valid_identifier (c @ ''-approval'')" using c by (simp add: valid_identifier_def)
  have new: "sl_commands (bs_ledger s) (xr_tenant_id r, c @ ''-policy'') = None"
    "sl_commands (bs_ledger s) (xr_tenant_id r, c @ ''-approval'') = None"
    using fresh by (simp_all add: fresh_execution_def)
  from record_first [OF sh r c(1) fresh] obtain q1 fs1 s1 where
    e1: "record_sandbox env r 0 BoxFact_REQUEST_RECORDED c (sandbox_actor env i) (request_payload r) s = (Inr q1, s1)"
    and r1: "recorded r BoxFact_REQUEST_RECORDED c [] s q1 fs1 s1" by blast
  from r1 have len1: "length (map sf_fact_type fs1) = 1" and new1: "sl_commands (bs_ledger s1) (xr_tenant_id r, c @ ''-policy'') = None"
    "sl_commands (bs_ledger s1) (xr_tenant_id r, c @ ''-approval'') = None"
    and at1: "sandbox_facts (bs_ledger s1) (xr_tenant_id r, xr_execution_id r) = fs1" "map sf_fact_type fs1 = [BoxFact_REQUEST_RECORDED]"
    by (simp_all add: recorded_def box_at_def new del: length_map)
  show ?thesis
  proof (cases "valid_identifier (c @ ''-policy'')")
    case False
    with record_refused [OF r1 _ False new1(1)] len1 obtain s2 where
      "record_sandbox env r (sj_version q1) BoxFact_POLICY_DECIDED (c @ ''-policy'') (sandbox_actor env i)
        (policy_payload (bx_sandbox_policy env)) s1 = (Inl (ValidationError ''SandboxFact''), s2)"
      "sandbox_facts (bs_ledger s2) = sandbox_facts (bs_ledger s1)" by (auto simp: max_sandbox_facts_def) blast
    then show ?thesis by (simp add: record_request_def Let_def bindS_def e1 at1)
  next
    case True
    have "length (policy_payload p) \<le> 32" for p by (simp add: policy_payload_def)
    from record_next [OF sh r r1 _ True this new1(1)] len1 obtain q2 fs2 s2 where
      e2: "record_sandbox env r (sj_version q1) BoxFact_POLICY_DECIDED (c @ ''-policy'') (sandbox_actor env i)
        (policy_payload (bx_sandbox_policy env)) s1 = (Inr q2, s2)"
      and r2: "recorded r BoxFact_POLICY_DECIDED (c @ ''-policy'') fs1 s1 q2 fs2 s2"
      by (auto simp: max_sandbox_facts_def) blast
    from r2 have len2: "length (map sf_fact_type fs2) = 2" and new2: "sl_commands (bs_ledger s2) (xr_tenant_id r, c @ ''-approval'') = None"
      and at2: "sandbox_facts (bs_ledger s2) (xr_tenant_id r, xr_execution_id r) = fs2"
        "map sf_fact_type fs2 = [BoxFact_REQUEST_RECORDED, BoxFact_POLICY_DECIDED]"
      by (simp_all add: recorded_def box_at_def at1 new1 del: length_map)
    from record_refused [OF r2 _ bad new2] len2 obtain s3 where
      "record_sandbox env r (sj_version q2) BoxFact_APPROVAL_BOUND (c @ ''-approval'') (sandbox_actor env i) (approval_payload r) s2 =
        (Inl (ValidationError ''SandboxFact''), s3)" "sandbox_facts (bs_ledger s3) = sandbox_facts (bs_ledger s2)"
      by (auto simp: max_sandbox_facts_def) blast
    then show ?thesis by (simp add: record_request_def Let_def bindS_def e1 e2 at2)
  qed
qed

end
