(* ===== verification/Sandbox_Sample.thy ===== *)
theory Sandbox_Sample
  imports Sandbox_Progress Remediation_Sample
begin

text \<open>
  Concrete inputs for the sandbox theorems: a policy, a specification it authorises with an input, a mount and an output,
  the request for it, and an environment in which its gate is open. The digests are those of the constant
  digest of \<open>zero_rt\<close>.
\<close>

definition box_resources :: sandbox_resources where
  "box_resources = \<lparr>rz_cpu_millicores = 500, rz_memory_mib = 256, rz_pid_limit = 64, rz_ephemeral_storage_mib = 128,
     rz_timeout_seconds = 300, rz_output_bytes = 4096, rz_output_files = 4, rz_output_file_bytes = 2048\<rparr>"

definition box_approval :: approval_binding where
  "box_approval = \<lparr>ab_tenant_id = ''acme'', ab_run_id = ''run-1'', ab_task_id = ''task-1'', ab_plan_id = ''plan-1'', ab_action_id = ''act-1'',
     ab_plan_digest = zero_hash, ab_action_digest = zero_hash, ab_approval_id = ''approval-1'', ab_approval_digest = zero_hash,
     ab_policy_digest = zero_hash, ab_expires_at = 9000\<rparr>"

definition box_spec :: sandbox_spec where
  "box_spec = \<lparr>sp_spec_version = ''v1'', sp_tenant_id = ''acme'', sp_run_id = ''run-1'', sp_task_id = ''task-1'',
     sp_purpose = Purpose_ANALYSIS, sp_risk = MEDIUM, sp_approval = box_approval,
     sp_image = ''registry.acme.com/tools/analyzer@sha256:'' @ zero_hash, sp_argv = [''analyze'', ''inputs/app.log''],
     sp_inputs = [\<lparr>cn_tenant_id = ''acme'', cn_logical_path = ''inputs/app.log'', cn_content_hash = zero_hash, cn_size_bytes = 10,
       cn_media_type = ''text/plain'', cn_object_ref = ''obj-1''\<rparr>],
     sp_mounts = [\<lparr>mt_source_ref = ''docs'', mt_target_path = ''reference/docs''\<rparr>],
     sp_environment = [], sp_secrets = [],
     sp_network = \<lparr>np_mode = Network_NONE, np_destinations = [], np_enforcement = Kubernetes_network_policy\<rparr>,
     sp_resources = box_resources,
     sp_security = \<lparr>sx_run_as_user = 10001, sx_run_as_group = 10001, sx_fs_group = 10001, sx_apparmor_profile = ''runtime-default''\<rparr>,
     sp_runtime_class = ''gvisor'', sp_admission_policies = [''restricted''],
     sp_expected_outputs = [\<lparr>ox_logical_path = ''out/report.json'', ox_media_types = [''application/json''], ox_required = True\<rparr>],
     sp_retry = \<lparr>ry_maximum_attempts = 2, ry_cleanup_timeout_seconds = 60, ry_retain_failed_seconds = 0\<rparr>, sp_spec_digest = zero_hash\<rparr>"

definition box_policy :: sandbox_policy where
  "box_policy = \<lparr>sy_tenant_id = ''acme'', sy_policy_id = ''box-policy'', sy_revision = 1, sy_enabled = True,
     sy_allowed_image_digests = [zero_hash], sy_allowed_registries = [''registry.acme.com''], sy_allowed_commands = [''analyze''],
     sy_allowed_purposes = [Purpose_ANALYSIS], sy_allowed_mount_prefixes = [''reference''], sy_allowed_secret_refs = [],
     sy_allowed_egress = [], sy_allowed_approval_policy_digests = [zero_hash], sy_maximum_resources = box_resources,
     sy_maximum_concurrency = 4, sy_maximum_lifetime_seconds = 600, sy_maximum_risk = MEDIUM, sy_runtime_class = ''gvisor'',
     sy_admission_policies = [''restricted''], sy_policy_digest = zero_hash\<rparr>"

definition box_request :: "nat \<Rightarrow> execution_request" where
  "box_request attempt = \<lparr>xr_execution_id = ''exec-1'', xr_tenant_id = ''acme'', xr_run_id = ''run-1'', xr_task_id = ''task-1'', xr_spec = box_spec,
     xr_spec_digest = zero_hash, xr_policy_digest = zero_hash, xr_approval_digest = zero_hash, xr_idempotency_key = ''key-1'',
     xr_attempt = attempt, xr_fence_token = ''fence-1'', xr_requested_at = 50, xr_request_digest = zero_hash\<rparr>"

definition box_identity :: identity_context where
  "box_identity = sample_identity\<lparr>id_grants := [\<lparr>gb_role = ''incident-responder'', gb_purpose = ''incident-response'',
     gb_permissions = [''sandbox:execute''], gb_risk_ceiling = MEDIUM, gb_expires_at = 900\<rparr>]\<rparr>"

definition box_env :: sandbox_env where
  "box_env = \<lparr>bx_runtime = zero_rt,
     bx_policies = (\<lambda>_. Some \<lparr>pr_policy_id = ''p'', pr_tenant_id = ''acme'', pr_revision = 1, pr_allowed_actions = [''sandbox:execute''],
       pr_allowed_purposes = [''incident-response''], pr_max_risk = HIGH, pr_version = 1\<rparr>),
     bx_clock = (\<lambda>n. 100 + n), bx_sandbox_policy = box_policy, bx_approvals = (\<lambda>_ _. Some box_approval)\<rparr>"

definition box_start :: sandbox_state where
  "box_start = initial_sandbox [''acme'' \<mapsto> 3]"

lemma box_env_simps [simp]: "bx_runtime box_env = zero_rt"
  by (simp add: box_env_def)

lemma box_spec_parts: "valid_approval_binding (sp_approval box_spec)" "immutable_image (sp_image box_spec)" "argv_tokens_only (sp_argv box_spec)"
  "list_all valid_input (sp_inputs box_spec)" "list_all valid_mount (sp_mounts box_spec)" "valid_network (sp_network box_spec)"
  "list_all (\<lambda>x. make_output x = Inr x) (sp_expected_outputs box_spec)" "distinct (spec_paths box_spec) \<and> distinct (spec_env_names box_spec)"
  by code_simp+

lemma box_spec_limits: "valid_resources (sp_resources box_spec)" "valid_security (sp_security box_spec)" "valid_sandbox_retry (sp_retry box_spec)"
  by (simp_all add: valid_resources_def valid_security_def valid_sandbox_retry_def box_spec_def box_resources_def valid_identifier_def ident_char_def)

lemma box_spec_valid: "valid_spec zero_rt box_spec"
proof -
  have "valid_identifier (sp_spec_version box_spec)" "valid_identifier (sp_tenant_id box_spec)" "valid_identifier (sp_run_id box_spec)"
    "valid_identifier (sp_task_id box_spec)" "valid_identifier (sp_runtime_class box_spec)" "list_all valid_identifier (sp_admission_policies box_spec)"
    by (simp_all add: box_spec_def valid_identifier_def ident_char_def)
  with box_spec_parts box_spec_limits show ?thesis
    unfolding valid_spec_def spec_digest_of_def zero_digest by (simp add: box_spec_def) (simp add: box_approval_def)
qed

lemma box_policy_valid: "make_sandbox_policy zero_rt box_policy = Inr box_policy"
  unfolding make_sandbox_policy_def zero_digest Let_def by code_simp

lemma box_authorized: "authorize_spec box_policy box_spec 0 101 = Inr ()"
  by code_simp

lemma box_request_valid: "1 \<le> n \<Longrightarrow> n \<le> 16 \<Longrightarrow> valid_execution_request zero_rt (box_request n)"
proof -
  assume n: "1 \<le> n" "n \<le> 16"
  have "sp_tenant_id box_spec = ''acme''" "sp_run_id box_spec = ''run-1''" "sp_task_id box_spec = ''task-1''" "sp_spec_digest box_spec = zero_hash"
    "ab_approval_digest (sp_approval box_spec) = zero_hash" by (simp_all add: box_spec_def box_approval_def)
  with n box_spec_valid show ?thesis
    by (simp add: valid_execution_request_def box_request_def valid_identifier_def ident_char_def)
qed

lemma box_gate: "sandbox_gate box_env box_identity (box_request 1) 0 (bs_ticks box_start)"
  by code_simp

lemma box_fresh: "fresh_execution (box_request 1) c (bs_ledger box_start)"
  by (simp add: fresh_execution_def box_start_def initial_sandbox_def empty_sandbox_ledger_def sandbox_facts_def get_default_def)

end
