(* ===== verification/Sandbox_Properties.thy ===== *)
theory Sandbox_Properties
  imports Sandbox_Sample
begin

text \<open>
  Properties of the sandbox control plane: the ledger and its digests, the gate before a request is recorded, where
  the paths of a specification lead, and who may complete an execution.
\<close>

section \<open>The ledger\<close>

text \<open>The live projection of every sandbox execution is the replay of its facts. After any sequence of appends, whatever
  their outcome, replaying the facts of an execution gives the stored projection, \<open>rebuild\<close> returns it or refuses
  an unknown execution, and a stored projection has the number of facts as its version and the last fact's digest
  as its digest.\<close>

theorem sandbox_projection_is_replay:
  "let l = sandbox_run rt calls; fs = sandbox_facts l (t, x) in
   replay_sandbox rt fs None = Inr (sandbox_projection_of l t x) \<and>
    (case sandbox_projection_of l t x of
       None \<Rightarrow> fs = [] \<and> sandbox_rebuild rt l t x = Inl (IntegrityFailure ''cannot rebuild an unknown sandbox execution'')
     | Some p \<Rightarrow> sandbox_rebuild rt l t x = Inr p \<and> sj_version p = length fs \<and> 0 < length fs \<and> length fs \<le> max_sandbox_facts \<and>
         sj_last_fact_digest p = sf_canonical_digest (last fs))"
proof -
  let ?l = "sandbox_run rt calls" and ?fs = "sandbox_facts (sandbox_run rt calls) (t, x)"
  have r: "replay_sandbox rt ?fs None = Inr (sandbox_projection_of ?l t x)"
    unfolding replay_sandbox_log sandbox_run_log sandbox_projection_of_def by (rule sandbox_log.projection_is_replay)
  have bound: "length ?fs \<le> max_sandbox_facts" by (rule sandbox_run_bound)
  show ?thesis
  proof (cases "?fs = []")
    case True
    with r show ?thesis by (auto simp: sandbox_rebuild_def Let_def split: option.splits)
  next
    case False
    then have "sf_previous_digest (hd ?fs) = zero_hash" by (rule sandbox_run_first)
    with sandbox_log_chain(2) [OF r False] obtain p where "sandbox_projection_of ?l t x = Some p" "sj_version p = length ?fs"
      "sj_last_fact_digest p = sandbox_chain.head zero_hash ?fs" by blast
    with r False bound show ?thesis by (simp add: sandbox_rebuild_def last_sandbox_digest_head Let_def)
  qed
qed

text \<open>The facts recorded for a sandbox execution are well formed. After any sequence of appends every stored fact satisfies the
  constraints of \<open>SandboxFact\<close>, belongs to the execution it is stored for and has its payload keys in order, the
  sequence numbers are 1 to the number of facts, and the first fact is the recorded request.\<close>

theorem sandbox_facts_well_formed:
  "let fs = sandbox_facts (sandbox_run rt calls) (t, x) in
   list_all (\<lambda>f. valid_sandbox_fact f \<and> sf_tenant_id f = t \<and> sf_execution_id f = x \<and> sorted (map fst (sf_payload f))) fs \<and>
   map sf_sequence fs = [1..<Suc (length fs)] \<and>
   (case fs of [] \<Rightarrow> True | f # _ \<Rightarrow> sf_fact_type f = BoxFact_REQUEST_RECORDED)"
proof (induction calls rule: rev_induct)
  case Nil
  then show ?case by (simp add: sandbox_run_def sandbox_log.empty_ledger)
next
  case (snoc a calls)
  let ?l = "sandbox_run rt calls"
  obtain r l' where c: "sandbox_append rt a ?l = (r, l')" by force
  then have run: "sandbox_run rt (calls @ [a]) = l'" by (simp add: sandbox_run_def)
  from c show ?case
  proof (cases rule: sandbox_log.append_cases)
    case kept
    with snoc run show ?thesis by simp
  next
    case (added p)
    show ?thesis
    proof (cases "call_key a = (t, x)")
      case False
      with added(4) snoc run show ?thesis by simp
    next
      case True
      let ?fs = "sandbox_facts ?l (t, x)"
      let ?f = "make_sandbox_fact rt a ?fs"
      have "valid_sandbox_fact ?f" using sandbox_append_new(7) [OF added(2), of rt p l'] c added(1) True by simp
      moreover have "?fs = [] \<Longrightarrow> sf_fact_type ?f = BoxFact_REQUEST_RECORDED"
        using sandbox_log.projection_is_replay [of rt calls "(t, x)"] added(3) True
        by (auto simp: sandbox_run_log sandbox_log.replay_def reduce_sandbox_def)
      moreover have "sf_tenant_id ?f = t" "sf_execution_id ?f = x" using True by (simp_all add: make_sandbox_fact_fields call_key_def)
      ultimately show ?thesis
        using snoc added(4) run True by (auto simp: Let_def make_sandbox_fact_fields dict_sorted_def split: list.splits)
    qed
  qed
qed

text \<open>The facts of a sandbox execution are tamper evident. Two histories whose facts of an execution agree in number and in
  the last digest agree on every fact up to the order of payload keys, unless two of the recorded documents
  collide under SHA-256.\<close>

theorem forged_sandbox_facts_need_collision:
  assumes "float_repr_ok rt" "fs = sandbox_facts (sandbox_run rt calls) k" "gs = sandbox_facts (sandbox_run rt calls') k"
    and "fs \<noteq> []" "length fs = length gs" "sf_canonical_digest (last fs) = sf_canonical_digest (last gs)"
  shows "map sandbox_fact_content fs = map sandbox_fact_content gs \<or>
    (\<exists>f \<in> set fs. \<exists>g \<in> set gs. sha256_collision rt (canonical_json rt (sandbox_fact_document f)) (canonical_json rt (sandbox_fact_document g)))"
proof -
  have ne: "gs \<noteq> []" using assms(4,5) by auto
  have chain: "sandbox_chain.chain rt zero_hash (sandbox_facts (sandbox_run rt cs) k)" if "sandbox_facts (sandbox_run rt cs) k \<noteq> []" for cs
  proof -
    have "replay_sandbox rt (sandbox_facts (sandbox_run rt cs) k) None = Inr (sl_projections (sandbox_run rt cs) k)"
      unfolding replay_sandbox_log sandbox_run_log by (rule sandbox_log.projection_is_replay)
    from sandbox_log_chain(1) [OF this that sandbox_run_first [OF that]] show ?thesis .
  qed
  have heads: "sandbox_chain.head zero_hash fs = sandbox_chain.head zero_hash gs"
    using assms(4,6) ne by (simp add: last_sandbox_digest_head)
  show ?thesis
  proof (cases "sandbox_chain.collision rt fs gs")
    case True
    then show ?thesis by (auto simp: sandbox_chain.collision_def sha256_collision_def canonical_json_def render_inj [OF assms(1)])
  next
    case False
    with sandbox_chain.same_head_same_log(1) [OF _ _ heads assms(5)] chain assms(2,3,4) ne show ?thesis by blast
  qed
qed

text \<open>The request fact of the sample, recorded once and recorded with a replay of its command.\<close>

definition sample_box_call :: sandbox_append_call where
  "sample_box_call = box_call box_env box_identity (box_request 1) 0 BoxFact_REQUEST_RECORDED ''cmd-1'' (request_payload (box_request 1)) 0"

lemma sample_box_facts:
  "sandbox_facts (sandbox_run zero_rt [sample_box_call]) (''acme'', ''exec-1'') = [make_sandbox_fact zero_rt sample_box_call []]"
  "sandbox_facts (sandbox_run zero_rt [sample_box_call, sample_box_call]) (''acme'', ''exec-1'') = [make_sandbox_fact zero_rt sample_box_call []]"
proof -
  have v: "valid_call sample_box_call" "valid_execution_request zero_rt (box_request 1)"
    using valid_box_call [of box_env zero_rt "box_request 1" "''cmd-1''" "request_payload (box_request 1)"] box_request_valid [of 1] zero_shape sample_ids
    by (simp_all add: sample_box_call_def request_payload_fields)
  have k: "call_key sample_box_call = (''acme'', ''exec-1'')" by (simp add: sample_box_call_def box_request_def)
  obtain p where p: "sandbox_append zero_rt sample_box_call empty_sandbox_ledger = (Inr p, after_append zero_rt sample_box_call p empty_sandbox_ledger)"
    using sandbox_append_request(1) [OF zero_shape v(2) _ v(1), of empty_sandbox_ledger]
    by (simp add: sample_box_call_def box_request_def sandbox_log.empty_ledger)
  let ?l = "after_append zero_rt sample_box_call p empty_sandbox_ledger"
  have l: "sandbox_facts ?l (''acme'', ''exec-1'') = [make_sandbox_fact zero_rt sample_box_call []]"
    using sandbox_append_new(2) [OF _ p] k by (simp add: sandbox_log.empty_ledger)
  have "sl_commands ?l (call_command sample_box_call) = Some (call_mark zero_rt sample_box_call)" "sl_projections ?l (call_key sample_box_call) = Some p"
    by (simp_all add: after_append_def Let_def)
  from sandbox_log.append_again [OF this] have "sandbox_append zero_rt sample_box_call ?l = (Inr p, ?l)" .
  with p l show "sandbox_facts (sandbox_run zero_rt [sample_box_call]) (''acme'', ''exec-1'') = [make_sandbox_fact zero_rt sample_box_call []]"
    "sandbox_facts (sandbox_run zero_rt [sample_box_call, sample_box_call]) (''acme'', ''exec-1'') = [make_sandbox_fact zero_rt sample_box_call []]"
    by (simp_all add: sandbox_run_def)
qed

theorem forged_sandbox_facts_need_collision_witness:
  "let fs = sandbox_facts (sandbox_run zero_rt [sample_box_call]) (''acme'', ''exec-1'');
       gs = sandbox_facts (sandbox_run zero_rt [sample_box_call, sample_box_call]) (''acme'', ''exec-1'') in
   length fs = 1 \<and> (map sandbox_fact_content fs = map sandbox_fact_content gs \<or>
    (\<exists>f \<in> set fs. \<exists>g \<in> set gs. sha256_collision zero_rt (canonical_json zero_rt (sandbox_fact_document f)) (canonical_json zero_rt (sandbox_fact_document g))))"
  using forged_sandbox_facts_need_collision [OF zero_float_ok refl refl, of "[sample_box_call]" "(''acme'', ''exec-1'')" "[sample_box_call, sample_box_call]"]
  unfolding Let_def sample_box_facts by simp

section \<open>Paths\<close>

text \<open>C14. The paths of an authorised specification stay where they belong. For a valid specification that the policy authorises,
  whatever directory the backend resolves them against, every input, mount and output path leads to a place properly below
  that directory, no two of them lead to the same place, and every mount leads into one of the policy's
  allowlisted directories.\<close>

theorem sandbox_paths_confined:
  assumes "valid_spec rt s" "authorize_spec p s active now = Inr ()"
  shows "(\<forall>path \<in> set (spec_paths s). \<exists>parts. parts \<noteq> [] \<and> resolve root (path_parts path) = root @ parts) \<and>
    distinct (map (\<lambda>path. resolve root (path_parts path)) (spec_paths s)) \<and>
    (\<forall>m \<in> set (sp_mounts s). \<exists>allowed \<in> set (sy_allowed_mount_prefixes p).
       prefix (root @ path_parts allowed) (resolve root (path_parts (mt_target_path m))))"
proof -
  have outputs: "valid_path (ox_logical_path x)" if "x \<in> set (sp_expected_outputs s)" for x
    using that assms(1) by (auto simp: valid_spec_def list_all_iff make_output_def split: if_splits)
  have valid: "valid_path path" if "path \<in> set (spec_paths s)" for path
    using that assms(1) outputs by (auto simp: spec_paths_def valid_spec_def list_all_iff valid_input_def valid_mount_def)
  have resolved: "resolve root (path_parts path) = root @ path_parts path" if "path \<in> set (spec_paths s)" for path
    using valid_path_parts(2) [of path path] valid [OF that] by (intro resolve_plain) (simp add: valid_path_def)
  have ne: "path_parts path \<noteq> []" for path by (simp add: path_parts_def)
  have "distinct (map (\<lambda>path. resolve root (path_parts path)) (spec_paths s))"
    using assms(1) resolved by (auto simp: valid_spec_def distinct_map inj_on_def path_parts_def)
  moreover have "\<exists>allowed \<in> set (sy_allowed_mount_prefixes p). prefix (root @ path_parts allowed) (resolve root (path_parts (mt_target_path m)))"
    if m: "m \<in> set (sp_mounts s)" for m
  proof -
    from m assms(2) obtain d where "d \<in> set (sy_allowed_mount_prefixes p)" "mt_target_path m = d \<or> prefix (d @ ''/'') (mt_target_path m)"
      by (auto simp: authorize_spec_def mount_allowed_def list_all_iff list_ex_iff)
    moreover have "mt_target_path m \<in> set (spec_paths s)" using m by (simp add: spec_paths_def)
    ultimately show ?thesis using resolved prefix_parts [of "CHR ''/''" d "mt_target_path m"] by (auto simp: path_parts_def)
  qed
  ultimately show ?thesis using resolved ne by blast
qed

theorem sandbox_paths_confined_witness:
  "let root = [''jobs'', ''exec-1'']; places = map (\<lambda>path. resolve root (path_parts path)) (spec_paths box_spec) in
   length places = 3 \<and> distinct places \<and>
   list_ex (\<lambda>allowed. prefix (root @ path_parts allowed) (resolve root (path_parts ''reference/docs''))) [''reference'']"
proof -
  have "sp_mounts box_spec = [\<lparr>mt_source_ref = ''docs'', mt_target_path = ''reference/docs''\<rparr>]"
    "sy_allowed_mount_prefixes box_policy = [''reference'']" "length (spec_paths box_spec) = 3"
    by (simp_all add: box_spec_def box_policy_def spec_paths_def)
  with sandbox_paths_confined [OF box_spec_valid box_authorized, of "[''jobs'', ''exec-1'']"] show ?thesis by (simp add: Let_def)
qed

section \<open>Requests\<close>

text \<open>C13. Nothing is written for a sandbox request that does not pass its gate. Unless the caller's tenant is the
  request's, the application policy allows the execution now, the request names the current sandbox policy and the
  current approval binding, and the sandbox policy authorises the specification now, the request is refused as denied
  and ledger, quota and claims stay as they were. Facts are written only with an allowed quota reservation for
  the request's idempotency key, and never for another execution.\<close>

theorem sandbox_request_gated:
  assumes "request_sandbox env i r active c s = (res, s')"
  shows "(\<not> sandbox_gate env i r active (bs_ticks s) \<longrightarrow> (\<exists>m. res = Inl (PolicyDenied m)) \<and> same_stores s s') \<and>
    (sandbox_facts (bs_ledger s') \<noteq> sandbox_facts (bs_ledger s) \<longrightarrow> sandbox_gate env i r active (bs_ticks s) \<and> reserved_for env r s') \<and>
    (\<forall>k. k \<noteq> (xr_tenant_id r, xr_execution_id r) \<longrightarrow> sandbox_facts (bs_ledger s') k = sandbox_facts (bs_ledger s) k) \<and>
    bs_claims s' = bs_claims s"
proof (cases "sandbox_gate env i r active (bs_ticks s)")
  case False
  with request_closed [OF False, of c] assms show ?thesis by (auto simp: same_stores_def)
next
  case True
  let ?s = "s\<lparr>bs_ticks := bs_ticks s + 2\<rparr>"
  obtain ch s1 where ch: "charge_request env r ?s = (ch, s1)" by force
  with wpD [OF charge_cases ch] have c1: "bs_ledger s1 = bs_ledger s" "bs_claims s1 = bs_claims s" "ch = Inr () \<longrightarrow> reserved_for env r s1"
    by simp_all
  show ?thesis
  proof (cases ch)
    case (Inl e)
    with True c1 ch assms request_open [OF True, of c] show ?thesis by (simp add: bindS_def)
  next
    case (Inr u)
    with ch assms request_open [OF True, of c] have "record_request env i r c s1 = (res, s')" by (simp add: bindS_def)
    from wpD [OF record_request_own_facts this] c1 Inr True show ?thesis by (auto simp: own_facts_only_def reserved_for_def)
  qed
qed

theorem sandbox_request_gated_witness:
  "\<exists>m s'. request_sandbox box_env box_identity (box_request 1) 4 ''cmd-1'' box_start = (Inl (PolicyDenied m), s') \<and> same_stores box_start s'"
proof -
  have "\<not> sandbox_gate box_env box_identity (box_request 1) 4 (bs_ticks box_start)" by code_simp
  moreover obtain res s' where "request_sandbox box_env box_identity (box_request 1) 4 ''cmd-1'' box_start = (res, s')" by force
  ultimately show ?thesis using sandbox_request_gated by blast
qed

text \<open>C21. A sandbox request whose gate is open is accepted. With a valid request, a free quota unit, an
  execution identifier without facts and new command identifiers of at most 119 characters, \<open>request\<close> returns the projection
  in status policy-approved, bound to the request's digests and fence, after exactly the three facts of the request, its policy
  decision and its approval binding, and one unit of the tenant's quota is taken.\<close>

theorem sandbox_request_accepted:
  assumes "sha256_shape (bx_runtime env)" "valid_execution_request (bx_runtime env) r" "sandbox_gate env i r active (bs_ticks s)"
    and "valid_identifier c" "length c \<le> 119" "fresh_execution r c (bs_ledger s)"
    and "eq_reservations (bs_quota s) (xr_tenant_id r, sandbox_reservation env r) = None" "1 \<le> get_default (eq_remaining (bs_quota s)) (xr_tenant_id r) 0"
  shows "\<exists>p s'. request_sandbox env i r active c s = (Inr p, s') \<and> request_bound r p \<and> sj_status p = Box_POLICY_APPROVED \<and> sj_version p = 3 \<and>
    sandbox_projection_of (bs_ledger s') (xr_tenant_id r) (xr_execution_id r) = Some p \<and>
    map sf_fact_type (sandbox_facts (bs_ledger s') (xr_tenant_id r, xr_execution_id r)) =
      [BoxFact_REQUEST_RECORDED, BoxFact_POLICY_DECIDED, BoxFact_APPROVAL_BOUND] \<and>
    get_default (eq_remaining (bs_quota s')) (xr_tenant_id r) 0 = get_default (eq_remaining (bs_quota s)) (xr_tenant_id r) 0 - 1"
proof -
  obtain s1 where charge: "charge_request env r (s\<lparr>bs_ticks := bs_ticks s + 2\<rparr>) = (Inr (), s1)" and l1: "bs_ledger s1 = bs_ledger s"
    and left: "get_default (eq_remaining (bs_quota s1)) (xr_tenant_id r) 0 = get_default (eq_remaining (bs_quota s)) (xr_tenant_id r) 0 - 1"
    using charge_free [OF assms(1,7,8)] by blast
  have "fresh_execution r c (bs_ledger s1)" using assms(6) l1 by simp
  from record_request_succeeds [OF assms(1,2,4,5) this, of i] obtain q fs s' where
    q: "record_request env i r c s1 = (Inr q, s')" "box_at (bs_ledger s') (xr_tenant_id r, xr_execution_id r) q fs" "request_bound r q"
      "sj_status q = Box_POLICY_APPROVED" "bs_quota s' = bs_quota s1"
    and fs: "map sf_fact_type fs = [BoxFact_REQUEST_RECORDED, BoxFact_POLICY_DECIDED, BoxFact_APPROVAL_BOUND]"
    by (elim exE conjE)
  from arg_cong [OF fs, of length] have "length fs = 3" by simp
  with q fs left charge request_open [OF assms(3), of c] show ?thesis
    by (simp add: bindS_def box_at_def sandbox_projection_of_def)
qed

lemma box_free: "eq_reservations (bs_quota box_start) k = None" "1 \<le> get_default (eq_remaining (bs_quota box_start)) (xr_tenant_id (box_request 1)) 0"
  by (simp_all add: box_start_def initial_sandbox_def make_quota_def get_default_def box_request_def)

theorem sandbox_request_accepted_witness:
  "\<exists>p s'. request_sandbox box_env box_identity (box_request 1) 0 ''cmd-1'' box_start = (Inr p, s') \<and> sj_status p = Box_POLICY_APPROVED \<and>
    sj_version p = 3 \<and> length (sandbox_facts (bs_ledger s') (''acme'', ''exec-1'')) = 3"
proof -
  have k: "xr_tenant_id (box_request 1) = ''acme''" "xr_execution_id (box_request 1) = ''exec-1''" by (simp_all add: box_request_def)
  have c: "valid_identifier ''cmd-1''" by (rule sample_ids)
  from sandbox_request_accepted [of box_env "box_request 1" box_identity 0 box_start "''cmd-1''"] box_request_valid [of 1] zero_shape box_gate c box_fresh box_free
  obtain p s' where p: "request_sandbox box_env box_identity (box_request 1) 0 ''cmd-1'' box_start = (Inr p, s')" "sj_status p = Box_POLICY_APPROVED"
    "sj_version p = 3" and fs: "map sf_fact_type (sandbox_facts (bs_ledger s') (''acme'', ''exec-1'')) =
      [BoxFact_REQUEST_RECORDED, BoxFact_POLICY_DECIDED, BoxFact_APPROVAL_BOUND]" unfolding k by auto
  from arg_cong [OF fs, of length] p show ?thesis by auto
qed

text \<open>A long command identifier leaves a sandbox request half recorded. With a valid command identifier of
  more than 119 characters, which is accepted for the request fact, the identifier that \<open>request\<close> derives from it for the
  approval fact is longer than an identifier may be: the call ends in a validation error after the request fact, or the request and the
  policy fact, were written, and the approval is not bound.\<close>

theorem long_command_half_recorded:
  assumes "sha256_shape (bx_runtime env)" "valid_execution_request (bx_runtime env) r" "sandbox_gate env i r active (bs_ticks s)"
    and "valid_identifier c" "119 < length c" "fresh_execution r c (bs_ledger s)"
    and "eq_reservations (bs_quota s) (xr_tenant_id r, sandbox_reservation env r) = None" "1 \<le> get_default (eq_remaining (bs_quota s)) (xr_tenant_id r) 0"
  shows "\<exists>s'. request_sandbox env i r active c s = (Inl (ValidationError ''SandboxFact''), s') \<and>
    map sf_fact_type (sandbox_facts (bs_ledger s') (xr_tenant_id r, xr_execution_id r)) \<in>
      {[BoxFact_REQUEST_RECORDED], [BoxFact_REQUEST_RECORDED, BoxFact_POLICY_DECIDED]}"
proof -
  obtain s1 where charge: "charge_request env r (s\<lparr>bs_ticks := bs_ticks s + 2\<rparr>) = (Inr (), s1)" and l1: "bs_ledger s1 = bs_ledger s"
    using charge_free [OF assms(1,7,8)] by blast
  have "fresh_execution r c (bs_ledger s1)" using assms(6) l1 by simp
  from record_request_strands [OF assms(1,2,4,5) this, of i] charge request_open [OF assms(3), of c] show ?thesis
    by (simp add: bindS_def)
qed

theorem long_command_half_recorded_witness:
  "\<exists>s'. request_sandbox box_env box_identity (box_request 1) 0 (replicate 120 (CHR ''c'')) box_start = (Inl (ValidationError ''SandboxFact''), s') \<and>
    sandbox_facts (bs_ledger s') (''acme'', ''exec-1'') \<noteq> []"
proof -
  have k: "xr_tenant_id (box_request 1) = ''acme''" "xr_execution_id (box_request 1) = ''exec-1''" by (simp_all add: box_request_def)
  have c: "valid_identifier (replicate 120 (CHR ''c''))" "119 < length (replicate 120 (CHR ''c''))" by code_simp+
  from long_command_half_recorded [of box_env "box_request 1" box_identity 0 box_start, OF _ _ box_gate c box_fresh box_free] box_request_valid [of 1] zero_shape
  show ?thesis unfolding k by auto
qed

section \<open>Claims\<close>

text \<open>C15. A superseded sandbox attempt cannot complete and a result is final. Along every history of claims and completions, the exact
  binding of a claim never changes, a claim that carries a result is never changed again, and once the claim of an execution
  is held for an attempt, a result of an earlier attempt is refused without a write in that and every later
  state, unless the claim of this execution was in between replaced by one of an earlier attempt whose token collides with its own.\<close>

theorem superseded_sandbox_attempt_refused:
  assumes "(claim_step rt)\<^sup>*\<^sup>* Map.empty s" "(claim_step rt)\<^sup>*\<^sup>* s s'" "s (t, x) = Some c"
  shows "\<exists>c'. s' (t, x) = Some c' \<and> sb_spec_digest c' = sb_spec_digest c \<and> sb_policy_digest c' = sb_policy_digest c \<and>
    sb_approval_digest c' = sb_approval_digest c \<and> sb_fence_token c' = sb_fence_token c \<and>
    (sb_result_digest c \<noteq> None \<longrightarrow> c' = c) \<and>
    (attempt_collision rt (t, x) s s' \<or>
     (\<forall>result token. sz_tenant_id result = t \<longrightarrow> sz_execution_id result = x \<longrightarrow> sz_attempt result < sb_attempt c \<longrightarrow>
       complete_sandbox result token s' = (Inl (ConcurrencyConflict ''stale sandbox completion rejected''), s')))"
proof -
  from claim_steps_kept [OF assms(2) claims_start [OF assms(1)] assms(3)] obtain c' where
    c': "s' (t, x) = Some c'" "claim_kept rt (t, x) c c'" and att: "sb_attempt c \<le> sb_attempt c' \<or> attempt_collision rt (t, x) s s'" by blast
  have "complete_sandbox result token s' = (Inl (ConcurrencyConflict ''stale sandbox completion rejected''), s')"
    if "sb_attempt c \<le> sb_attempt c'" "sz_tenant_id result = t" "sz_execution_id result = x" "sz_attempt result < sb_attempt c" for result token
    using that c'(1) by (simp add: complete_sandbox_def)
  with c' att show ?thesis unfolding claim_kept_def by blast
qed

text \<open>A first attempt whose claim ran out, and the second attempt of another worker.\<close>

definition box_claimed :: sandbox_claims where
  "box_claimed = snd (claim_sandbox zero_rt (box_request 1) ''worker-1'' 100 110 Map.empty)"

definition box_reclaimed :: sandbox_claims where
  "box_reclaimed = snd (claim_sandbox zero_rt (box_request 2) ''worker-2'' 120 130 box_claimed)"

theorem superseded_sandbox_attempt_refused_witness:
  "\<exists>c'. box_reclaimed (''acme'', ''exec-1'') = Some c' \<and> sb_fence_token c' = ''fence-1'' \<and> sb_spec_digest c' = zero_hash"
proof -
  obtain a b where "claim_sandbox zero_rt (box_request 1) ''worker-1'' 100 110 Map.empty = (a, box_claimed)"
    "claim_sandbox zero_rt (box_request 2) ''worker-2'' 120 130 box_claimed = (b, box_reclaimed)"
    by (metis box_claimed_def box_reclaimed_def prod.collapse)
  with box_request_valid [of 1] box_request_valid [of 2]
  have steps: "(claim_step zero_rt)\<^sup>*\<^sup>* Map.empty box_claimed" "(claim_step zero_rt)\<^sup>*\<^sup>* box_claimed box_reclaimed"
    by (auto intro!: r_into_rtranclp intro: claim_taken)
  have "map_option sb_fence_token (box_claimed (''acme'', ''exec-1'')) = Some ''fence-1''"
    "map_option sb_spec_digest (box_claimed (''acme'', ''exec-1'')) = Some zero_hash" by code_simp+
  then obtain c where "box_claimed (''acme'', ''exec-1'') = Some c" "sb_fence_token c = ''fence-1''" "sb_spec_digest c = zero_hash" by auto
  with superseded_sandbox_attempt_refused [OF steps] show ?thesis by fastforce
qed

end
