(* ===== verification/Memory_Text.thy ===== *)
theory Memory_Text
  imports Sandbox_Text "HOL-Library.AList"
begin

text \<open>
  The text functions of \<^verbatim>\<open>memory.py\<close>: \<open>canonical_text\<close>, \<open>token_estimate\<close>, the words of a text and the frame around
  retrieved text. On code points up to 255 normalization to NFC is the identity, and once the control characters are
  removed the line breaks of \<^verbatim>\<open>splitlines\<close> are the line feed and the next-line character.
\<close>

section \<open>Bytes\<close>

text \<open>\<^verbatim>\<open>len(text.encode())\<close>: a code point up to 255 is encoded in one or two bytes. Statements about byte and token bounds are about texts
  of these characters.\<close>

definition utf8_length :: "string \<Rightarrow> nat" where
  "utf8_length s = sum_list (map (\<lambda>c. if (of_char c :: nat) < 128 then 1 else 2) s)"

definition token_estimate :: "string \<Rightarrow> nat" where
  "token_estimate s = max 1 ((utf8_length s + 3) div 4)"

lemma utf8_length_append [simp]: "utf8_length (s @ t) = utf8_length s + utf8_length t"
  by (simp add: utf8_length_def)

lemma utf8_length_ge: "length s \<le> utf8_length s"
  by (induction s) (simp_all add: utf8_length_def)

section \<open>Canonical text\<close>

definition max_memory_text :: nat where
  "max_memory_text = 65536"

fun unix_lines :: "string \<Rightarrow> string" where
  "unix_lines [] = []"
| "unix_lines [c] = [if c = CHR 0x0D then CHR 0x0A else c]"
| "unix_lines (c # d # cs) =
     (if c = CHR 0x0D then CHR 0x0A # (if d = CHR 0x0A then unix_lines cs else unix_lines (d # cs)) else c # unix_lines (d # cs))"

definition line_break :: "char \<Rightarrow> bool" where
  "line_break c = (c = CHR 0x0A \<or> c = CHR 0x85)"

text \<open>\<^verbatim>\<open>str.splitlines()\<close>: a break at the end does not open another line.\<close>

fun split_lines :: "string \<Rightarrow> string list" where
  "split_lines [] = []"
| "split_lines (c # cs) =
     (if line_break c then [] # split_lines cs
      else case split_lines cs of
        [] \<Rightarrow> [[c]]
      | l # ls \<Rightarrow> (c # l) # ls)"

definition rstrip :: "string \<Rightarrow> string" where
  "rstrip s = rev (dropWhile is_space (rev s))"

definition strip :: "string \<Rightarrow> string" where
  "strip s = dropWhile is_space (rstrip s)"

definition canonical_text :: "string \<Rightarrow> string result" where
  "canonical_text value =
     (let kept = filter (\<lambda>c. c \<in> {CHR 0x0A, CHR 0x09} \<or> 32 \<le> (of_char c :: nat)) (unix_lines value);
          normalized = strip (join [CHR 0x0A] (map rstrip (split_lines kept)))
      in if normalized = [] \<or> max_memory_text < length normalized
         then Inl (ValueError ''memory text is empty or exceeds the bound'') else Inr normalized)"

text \<open>\<^verbatim>\<open>str.split()\<close>: the maximal runs of characters that are not white space.\<close>

function words_of :: "string \<Rightarrow> string list" where
  "words_of s =
     (let t = dropWhile is_space s in
      if t = [] then [] else takeWhile (\<lambda>c. \<not> is_space c) t # words_of (dropWhile (\<lambda>c. \<not> is_space c) t))"
  by pat_completeness auto

termination
proof (relation "measure length")
  fix s t :: string
  assume t: "t = dropWhile is_space s" "t \<noteq> []"
  then obtain c cs where c: "t = c # cs" by (meson neq_Nil_conv)
  then have "\<not> is_space c" using t by (metis hd_dropWhile list.sel(1))
  then have "length (dropWhile (\<lambda>c. \<not> is_space c) t) < length t" using c by (simp add: length_dropWhile_le le_imp_less_Suc)
  also have "length t \<le> length s" by (simp add: t(1) length_dropWhile_le)
  finally show "(dropWhile (\<lambda>c. \<not> is_space c) t, s) \<in> measure length" by simp
qed simp

declare words_of.simps [simp del]

lemma words_nonempty: "w \<in> set (words_of s) \<Longrightarrow> w \<noteq> [] \<and> \<not> list_ex is_space w"
proof (induction s rule: words_of.induct)
  case (1 s)
  let ?t = "dropWhile is_space s"
  show ?case
  proof (cases "?t = []")
    case False
    then have "\<not> is_space (hd ?t)" by (rule hd_dropWhile)
    with False have "takeWhile (\<lambda>c. \<not> is_space c) ?t \<noteq> []" by (cases ?t) simp_all
    moreover have "\<not> list_ex is_space (takeWhile (\<lambda>c. \<not> is_space c) ?t)" by (auto simp: list_ex_iff dest: set_takeWhileD)
    moreover from False have "words_of s = takeWhile (\<lambda>c. \<not> is_space c) ?t # words_of (dropWhile (\<lambda>c. \<not> is_space c) ?t)"
      by (subst words_of.simps) (simp only: Let_def if_False)
    ultimately show ?thesis using "1.IH" [OF refl False] "1.prems" by auto
  next
    case True
    with 1 show ?thesis by (simp add: words_of.simps [of s])
  qed
qed

section \<open>The frame around retrieved text\<close>

definition escape_angle :: "string \<Rightarrow> string" where
  "escape_angle s = concat (map (\<lambda>c. if c = CHR ''<'' then ''&lt;'' else if c = CHR ''>'' then ''&gt;'' else [c]) s)"

definition frame_text :: "string \<Rightarrow> string \<Rightarrow> string \<Rightarrow> string" where
  "frame_text chunk_id evidence_id text =
     ''<untrusted-memory chunk='' @ [CHR 0x22] @ chunk_id @ [CHR 0x22] @ '' evidence='' @ [CHR 0x22] @ evidence_id @ [CHR 0x22] @
     ''>'' @ [CHR 0x0A] @ escape_angle text @ [CHR 0x0A] @ ''</untrusted-memory>''"

lemma escape_angle_safe: "CHR ''<'' \<notin> set (escape_angle s)" "CHR ''>'' \<notin> set (escape_angle s)"
  by (auto simp: escape_angle_def split: if_splits)

lemma escape_angle_length: "utf8_length s \<le> utf8_length (escape_angle s)"
  by (induction s) (simp_all add: escape_angle_def utf8_length_def)

section \<open>The order of a context\<close>

function middle_order :: "nat \<Rightarrow> nat \<Rightarrow> nat list" where
  "middle_order l r = (if r \<le> l then [] else if r = Suc l then [l] else l # (r - 1) # middle_order (Suc l) (r - 1))"
  by pat_completeness auto

termination by (relation "measure (\<lambda>(l, r). r - l)") auto

declare middle_order.simps [simp del]

text \<open>The bounds of \<open>_lost_middle_order\<close>: \<^verbatim>\<open>right\<close> of the code is one less than the second argument.\<close>

definition lost_middle_order :: "nat \<Rightarrow> nat list" where
  "lost_middle_order n = middle_order 0 n"

lemma middle_order_set: "set (middle_order l r) = {l..<r} \<and> distinct (middle_order l r)"
proof (induction l r rule: middle_order.induct)
  case (1 l r)
  consider "r \<le> l" | "r = Suc l" | "Suc l < r" by linarith
  then show ?case
  proof cases
    case 3
    with 1 have "set (middle_order (Suc l) (r - 1)) = {Suc l..<r - 1}" "distinct (middle_order (Suc l) (r - 1))" by simp_all
    moreover have "{l..<r} = insert l (insert (r - 1) {Suc l..<r - 1})" using 3 by auto
    ultimately show ?thesis using 3 by (subst (1 2) middle_order.simps) auto
  qed (subst (1 2) middle_order.simps; auto)+
qed

lemma lost_middle_order_perm: "set (lost_middle_order n) = {0..<n}" "distinct (lost_middle_order n)"
  using middle_order_set [of 0 n] by (simp_all add: lost_middle_order_def)

end
