(* ===== verification/Memory_Data.thy ===== *)
theory Memory_Data
  imports Memory_Text Remediation_Data
begin

text \<open>
  The contracts of \<^verbatim>\<open>memory.py\<close>: memory records with provenance, citations, access list, retention and blob, acceptances,
  chunks, embedding requests and results, retrieval results and context budgets, with their validators and documents. Of the evidence a
  memory is made from, the record holds the fields that the memory lifecycle reads.
\<close>

section \<open>Enumerations\<close>

datatype memory_tier = Tier_WORKING | Tier_EPISODIC | Tier_SEMANTIC

fun tier_value :: "memory_tier \<Rightarrow> string" where
  "tier_value Tier_WORKING = ''working''"
| "tier_value Tier_EPISODIC = ''episodic''"
| "tier_value Tier_SEMANTIC = ''semantic''"

datatype memory_status =
  Mem_CANDIDATE | Mem_ACCEPTED | Mem_REJECTED | Mem_ACTIVE | Mem_SUPERSEDED | Mem_TOMBSTONED | Mem_ERASED

fun memory_status_value :: "memory_status \<Rightarrow> string" where
  "memory_status_value Mem_CANDIDATE = ''candidate''"
| "memory_status_value Mem_ACCEPTED = ''accepted''"
| "memory_status_value Mem_REJECTED = ''rejected''"
| "memory_status_value Mem_ACTIVE = ''active''"
| "memory_status_value Mem_SUPERSEDED = ''superseded''"
| "memory_status_value Mem_TOMBSTONED = ''tombstoned''"
| "memory_status_value Mem_ERASED = ''erased''"

datatype evidence_classification = Class_PUBLIC | Class_INTERNAL | Class_CONFIDENTIAL | Class_RESTRICTED

fun evidence_classification_value :: "evidence_classification \<Rightarrow> string" where
  "evidence_classification_value Class_PUBLIC = ''public''"
| "evidence_classification_value Class_INTERNAL = ''internal''"
| "evidence_classification_value Class_CONFIDENTIAL = ''confidential''"
| "evidence_classification_value Class_RESTRICTED = ''restricted''"

datatype source_trust = Trust_EXTERNAL_UNTRUSTED | Trust_PLATFORM_CONTROL_PLANE | Trust_OPERATOR_APPROVED

fun trust_value :: "source_trust \<Rightarrow> string" where
  "trust_value Trust_EXTERNAL_UNTRUSTED = ''external_untrusted''"
| "trust_value Trust_PLATFORM_CONTROL_PLANE = ''platform_control_plane''"
| "trust_value Trust_OPERATOR_APPROVED = ''operator_approved''"

datatype evidence_disposition = Evidence_ACCEPTED | Evidence_REDACTED | Evidence_QUARANTINED | Evidence_DUPLICATE

section \<open>Floats\<close>

text \<open>The order of two floats: the mantissas at the smaller exponent.\<close>

definition float_le :: "pyfloat \<Rightarrow> pyfloat \<Rightarrow> bool" where
  "float_le a b \<longleftrightarrow> (let e = min (exponent a) (exponent b) in
     mantissa a * 2 ^ nat (exponent a - e) \<le> mantissa b * 2 ^ nat (exponent b - e))"

definition unit_interval :: "pyfloat \<Rightarrow> bool" where
  "unit_interval f \<longleftrightarrow> float_le (PyFloat 0 0) f \<and> float_le f (PyFloat 1 0)"

section \<open>Records\<close>

record memory_acl =
  macl_roles :: "string list"
  macl_principals :: "string list"

record erasable_blob =
  mblob_tenant_id :: string
  mblob_blob_ref :: string
  mblob_key_ref :: string
  mblob_key_version :: nat
  mblob_content_digest :: string
  mblob_byte_count :: nat

record memory_citation =
  mcit_evidence_id :: string
  mcit_source_id :: string
  mcit_locator :: string
  mcit_content_hash :: string
  mcit_provenance_digest :: string

record memory_provenance =
  mprov_tenant_id :: string
  mprov_incident_id :: string
  mprov_run_id :: string
  mprov_source_id :: string
  mprov_source_type :: string
  mprov_source_digest :: string
  mprov_evidence_id :: string
  mprov_locator :: string
  mprov_content_hash :: string
  mprov_provenance_digest :: string
  mprov_observed_at :: datetime
  mprov_ingested_at :: datetime

record retention_binding =
  mret_policy_ref :: string
  mret_expires_at :: datetime
  mret_legal_hold_refs :: "string list"

record memory_record =
  mrec_memory_id :: string
  mrec_tenant_id :: string
  mrec_tier :: memory_tier
  mrec_status :: memory_status
  mrec_incident_id :: string
  mrec_run_id :: string
  mrec_source_type :: string
  mrec_provenance :: memory_provenance
  mrec_citations :: "memory_citation list"
  mrec_acl :: memory_acl
  mrec_classification :: evidence_classification
  mrec_trust :: source_trust
  mrec_schema_name :: string
  mrec_schema_revision :: nat
  mrec_chunker_version :: string
  mrec_embedder_model :: string
  mrec_embedder_version :: string
  mrec_embedding_dimensions :: nat
  mrec_content_digest :: string
  mrec_quality :: pyfloat
  mrec_confidence :: pyfloat
  mrec_retention :: retention_binding
  mrec_blob :: erasable_blob
  mrec_supersedes :: "string list"
  mrec_superseded_by :: "string option"
  mrec_tombstone_reason :: "string option"
  mrec_created_at :: datetime
  mrec_accepted_at :: "datetime option"
  mrec_canonical_digest :: string

definition acl_permits :: "memory_acl \<Rightarrow> string list \<Rightarrow> string \<Rightarrow> bool" where
  "acl_permits a roles principal_ref \<longleftrightarrow>
     macl_roles a = [] \<and> macl_principals a = [] \<or>
     set (macl_roles a) \<inter> set roles \<noteq> {} \<or> principal_ref \<in> set (macl_principals a)"

definition retention_held :: "retention_binding \<Rightarrow> bool" where
  "retention_held r \<longleftrightarrow> mret_legal_hold_refs r \<noteq> []"

text \<open>The documents of the parts.\<close>

definition acl_json :: "memory_acl \<Rightarrow> json" where
  "acl_json a = JObj [(''roles'', JList (map JStr (macl_roles a))), (''principals'', JList (map JStr (macl_principals a)))]"

definition blob_json :: "erasable_blob \<Rightarrow> json" where
  "blob_json b = JObj [(''tenant_id'', JStr (mblob_tenant_id b)), (''blob_ref'', JStr (mblob_blob_ref b)), (''key_ref'', JStr (mblob_key_ref b)),
     (''key_version'', JInt (int (mblob_key_version b))), (''content_digest'', JStr (mblob_content_digest b)),
     (''byte_count'', JInt (int (mblob_byte_count b)))]"

definition memory_citation_json :: "memory_citation \<Rightarrow> json" where
  "memory_citation_json c = JObj [(''evidence_id'', JStr (mcit_evidence_id c)), (''source_id'', JStr (mcit_source_id c)),
     (''locator'', JStr (mcit_locator c)), (''content_hash'', JStr (mcit_content_hash c)),
     (''provenance_digest'', JStr (mcit_provenance_digest c))]"

definition memory_provenance_json :: "memory_provenance \<Rightarrow> json" where
  "memory_provenance_json p = JObj
     [(''tenant_id'', JStr (mprov_tenant_id p)), (''incident_id'', JStr (mprov_incident_id p)), (''run_id'', JStr (mprov_run_id p)),
      (''source_id'', JStr (mprov_source_id p)), (''source_type'', JStr (mprov_source_type p)), (''source_digest'', JStr (mprov_source_digest p)),
      (''evidence_id'', JStr (mprov_evidence_id p)), (''locator'', JStr (mprov_locator p)), (''content_hash'', JStr (mprov_content_hash p)),
      (''provenance_digest'', JStr (mprov_provenance_digest p)), (''observed_at'', JStr (isoformat_z (mprov_observed_at p))),
      (''ingested_at'', JStr (isoformat_z (mprov_ingested_at p)))]"

definition retention_json :: "retention_binding \<Rightarrow> json" where
  "retention_json r = JObj [(''policy_ref'', JStr (mret_policy_ref r)), (''expires_at'', JStr (isoformat_z (mret_expires_at r))),
     (''legal_hold_refs'', JList (map JStr (mret_legal_hold_refs r)))]"

definition opt_time_json :: "datetime option \<Rightarrow> json" where
  "opt_time_json t = (case t of None \<Rightarrow> JNull | Some x \<Rightarrow> JStr (isoformat_z x))"

definition record_items :: "memory_record \<Rightarrow> dict" where
  "record_items m =
     [(''schema_version'', JInt 1), (''memory_id'', JStr (mrec_memory_id m)), (''tenant_id'', JStr (mrec_tenant_id m)),
      (''tier'', JStr (tier_value (mrec_tier m))), (''status'', JStr (memory_status_value (mrec_status m))),
      (''incident_id'', JStr (mrec_incident_id m)), (''run_id'', JStr (mrec_run_id m)), (''source_type'', JStr (mrec_source_type m)),
      (''provenance'', memory_provenance_json (mrec_provenance m)), (''citations'', JList (map memory_citation_json (mrec_citations m))),
      (''acl'', acl_json (mrec_acl m)), (''classification'', JStr (evidence_classification_value (mrec_classification m))),
      (''trust'', JStr (trust_value (mrec_trust m))), (''schema_name'', JStr (mrec_schema_name m)),
      (''schema_revision'', JInt (int (mrec_schema_revision m))), (''chunker_version'', JStr (mrec_chunker_version m)),
      (''embedder_model'', JStr (mrec_embedder_model m)), (''embedder_version'', JStr (mrec_embedder_version m)),
      (''embedding_dimensions'', JInt (int (mrec_embedding_dimensions m))), (''content_digest'', JStr (mrec_content_digest m)),
      (''quality'', JFloat (mrec_quality m)), (''confidence'', JFloat (mrec_confidence m)), (''retention'', retention_json (mrec_retention m)),
      (''blob'', blob_json (mrec_blob m)), (''supersedes'', JList (map JStr (mrec_supersedes m))),
      (''superseded_by'', opt_json (mrec_superseded_by m)), (''tombstone_reason'', opt_json (mrec_tombstone_reason m)),
      (''created_at'', JStr (isoformat_z (mrec_created_at m))), (''accepted_at'', opt_time_json (mrec_accepted_at m))]"

definition memory_digest :: "runtime \<Rightarrow> memory_record \<Rightarrow> string" where
  "memory_digest rt m = canonical_digest rt (JObj (record_items m))"

text \<open>The validators. Tuples that the code sorts are sorted in a valid record.\<close>

definition valid_acl :: "memory_acl \<Rightarrow> bool" where
  "valid_acl a \<longleftrightarrow> length (macl_roles a) \<le> 32 \<and> length (macl_principals a) \<le> 64 \<and>
     list_all valid_identifier (macl_roles a) \<and> list_all valid_identifier (macl_principals a) \<and>
     normalize_authority (macl_roles a) = macl_roles a \<and> normalize_authority (macl_principals a) = macl_principals a"

definition valid_blob :: "erasable_blob \<Rightarrow> bool" where
  "valid_blob b \<longleftrightarrow> valid_identifier (mblob_tenant_id b) \<and> valid_identifier (mblob_blob_ref b) \<and> valid_identifier (mblob_key_ref b) \<and>
     1 \<le> mblob_key_version b \<and> hex64 (mblob_content_digest b) \<and> mblob_byte_count b \<le> 64 * 1024 * 1024"

definition valid_memory_citation :: "memory_citation \<Rightarrow> bool" where
  "valid_memory_citation c \<longleftrightarrow> valid_identifier (mcit_evidence_id c) \<and> valid_identifier (mcit_source_id c) \<and>
     1 \<le> length (mcit_locator c) \<and> length (mcit_locator c) \<le> 1024 \<and> hex64 (mcit_content_hash c) \<and> hex64 (mcit_provenance_digest c)"

definition valid_memory_provenance :: "memory_provenance \<Rightarrow> bool" where
  "valid_memory_provenance p \<longleftrightarrow>
     valid_identifier (mprov_tenant_id p) \<and> valid_identifier (mprov_incident_id p) \<and> valid_identifier (mprov_run_id p) \<and>
     valid_identifier (mprov_source_id p) \<and> valid_identifier (mprov_source_type p) \<and> hex64 (mprov_source_digest p) \<and>
     valid_identifier (mprov_evidence_id p) \<and> 1 \<le> length (mprov_locator p) \<and> length (mprov_locator p) \<le> 1024 \<and>
     hex64 (mprov_content_hash p) \<and> hex64 (mprov_provenance_digest p)"

definition valid_retention :: "retention_binding \<Rightarrow> bool" where
  "valid_retention r \<longleftrightarrow> valid_identifier (mret_policy_ref r) \<and> length (mret_legal_hold_refs r) \<le> 16 \<and>
     list_all valid_identifier (mret_legal_hold_refs r) \<and> normalize_authority (mret_legal_hold_refs r) = mret_legal_hold_refs r"

definition citation_key :: "memory_citation \<Rightarrow> string list" where
  "citation_key c = [mcit_evidence_id c, mcit_source_id c, mcit_locator c, mcit_content_hash c]"

definition valid_memory_record :: "runtime \<Rightarrow> memory_record \<Rightarrow> bool" where
  "valid_memory_record rt m \<longleftrightarrow>
     valid_identifier (mrec_memory_id m) \<and> valid_identifier (mrec_tenant_id m) \<and> valid_identifier (mrec_incident_id m) \<and>
     valid_identifier (mrec_run_id m) \<and> valid_identifier (mrec_source_type m) \<and> valid_memory_provenance (mrec_provenance m) \<and>
     1 \<le> length (mrec_citations m) \<and> length (mrec_citations m) \<le> 64 \<and> list_all valid_memory_citation (mrec_citations m) \<and>
     distinct (mrec_citations m) \<and> sort_key citation_key (mrec_citations m) = mrec_citations m \<and> valid_acl (mrec_acl m) \<and>
     valid_identifier (mrec_schema_name m) \<and> 1 \<le> mrec_schema_revision m \<and> mrec_schema_revision m \<le> 1000 \<and>
     valid_identifier (mrec_chunker_version m) \<and> valid_identifier (mrec_embedder_model m) \<and> valid_identifier (mrec_embedder_version m) \<and>
     2 \<le> mrec_embedding_dimensions m \<and> mrec_embedding_dimensions m \<le> 4096 \<and> hex64 (mrec_content_digest m) \<and>
     unit_interval (mrec_quality m) \<and> unit_interval (mrec_confidence m) \<and> valid_retention (mrec_retention m) \<and> valid_blob (mrec_blob m) \<and>
     length (mrec_supersedes m) \<le> 64 \<and> list_all valid_identifier (mrec_supersedes m) \<and>
     normalize_authority (mrec_supersedes m) = mrec_supersedes m \<and> valid_opt_identifier (mrec_superseded_by m) \<and>
     valid_opt_identifier (mrec_tombstone_reason m) \<and> hex64 (mrec_canonical_digest m) \<and>
     mprov_tenant_id (mrec_provenance m) = mrec_tenant_id m \<and> mprov_incident_id (mrec_provenance m) = mrec_incident_id m \<and>
     mprov_run_id (mrec_provenance m) = mrec_run_id m \<and> mblob_tenant_id (mrec_blob m) = mrec_tenant_id m \<and>
     mblob_content_digest (mrec_blob m) = mrec_content_digest m \<and>
     (let c = hd (mrec_citations m); p = mrec_provenance m in
      mcit_evidence_id c = mprov_evidence_id p \<and> mcit_source_id c = mprov_source_id p \<and> mcit_locator c = mprov_locator p \<and>
      mcit_content_hash c = mprov_content_hash p \<and> mcit_provenance_digest c = mprov_provenance_digest p) \<and>
     (mrec_status m \<in> {Mem_ACCEPTED, Mem_ACTIVE} \<longleftrightarrow> mrec_accepted_at m \<noteq> None) \<and>
     mrec_canonical_digest m = memory_digest rt m"

section \<open>Acceptance, chunks and embeddings\<close>

record memory_acceptance =
  macc_decision_id :: string
  macc_tenant_id :: string
  macc_memory_id :: string
  macc_accept :: bool
  macc_reviewer_ref :: string
  macc_reviewer_kind :: string
  macc_policy_id :: string
  macc_policy_revision :: nat
  macc_policy_digest :: string
  macc_reason_code :: string
  macc_decided_at :: datetime

definition acceptance_json :: "memory_acceptance \<Rightarrow> json" where
  "acceptance_json a = JObj
     [(''decision_id'', JStr (macc_decision_id a)), (''tenant_id'', JStr (macc_tenant_id a)), (''memory_id'', JStr (macc_memory_id a)),
      (''disposition'', JStr (if macc_accept a then ''accept'' else ''reject'')), (''reviewer_ref'', JStr (macc_reviewer_ref a)),
      (''reviewer_kind'', JStr (macc_reviewer_kind a)), (''policy_id'', JStr (macc_policy_id a)),
      (''policy_revision'', JInt (int (macc_policy_revision a))), (''policy_digest'', JStr (macc_policy_digest a)),
      (''reason_code'', JStr (macc_reason_code a)), (''decided_at'', JStr (isoformat_z (macc_decided_at a)))]"

definition acceptance_digest :: "runtime \<Rightarrow> memory_acceptance \<Rightarrow> string" where
  "acceptance_digest rt a = canonical_digest rt (acceptance_json a)"

record memory_chunk =
  mchk_chunk_id :: string
  mchk_memory_id :: string
  mchk_tenant_id :: string
  mchk_ordinal :: nat
  mchk_text :: string
  mchk_content_digest :: string
  mchk_token_estimate :: nat
  mchk_byte_count :: nat
  mchk_citation :: memory_citation
  mchk_chunker_version :: string

definition chunk_json :: "memory_chunk \<Rightarrow> json" where
  "chunk_json c = JObj
     [(''chunk_id'', JStr (mchk_chunk_id c)), (''memory_id'', JStr (mchk_memory_id c)), (''tenant_id'', JStr (mchk_tenant_id c)),
      (''ordinal'', JInt (int (mchk_ordinal c))), (''text'', JStr (mchk_text c)), (''content_digest'', JStr (mchk_content_digest c)),
      (''token_estimate'', JInt (int (mchk_token_estimate c))), (''byte_count'', JInt (int (mchk_byte_count c))),
      (''citation'', memory_citation_json (mchk_citation c)), (''chunker_version'', JStr (mchk_chunker_version c))]"

definition valid_chunk :: "runtime \<Rightarrow> memory_chunk \<Rightarrow> bool" where
  "valid_chunk rt c \<longleftrightarrow>
     valid_identifier (mchk_chunk_id c) \<and> valid_identifier (mchk_memory_id c) \<and> valid_identifier (mchk_tenant_id c) \<and>
     mchk_ordinal c \<le> 10000 \<and> 1 \<le> length (mchk_text c) \<and> length (mchk_text c) \<le> max_memory_text \<and> hex64 (mchk_content_digest c) \<and>
     1 \<le> mchk_token_estimate c \<and> mchk_token_estimate c \<le> 32768 \<and> 1 \<le> mchk_byte_count c \<and> mchk_byte_count c \<le> 262144 \<and>
     valid_memory_citation (mchk_citation c) \<and> valid_identifier (mchk_chunker_version c) \<and>
     mchk_content_digest c = sha256_hexdigest rt (mchk_text c) \<and> mchk_byte_count c = utf8_length (mchk_text c) \<and>
     mchk_token_estimate c = token_estimate (mchk_text c)"

definition chunk_set_digest :: "runtime \<Rightarrow> memory_chunk list \<Rightarrow> string" where
  "chunk_set_digest rt cs = canonical_digest rt (JList (map chunk_json cs))"

record embedding_spec =
  mspec_provider :: string
  mspec_model :: string
  mspec_version :: string
  mspec_dimensions :: nat
  mspec_timeout_seconds :: pyfloat
  mspec_maximum_attempts :: nat
  mspec_maximum_batch_items :: nat
  mspec_maximum_batch_tokens :: nat

definition embedding_spec_json :: "embedding_spec \<Rightarrow> json" where
  "embedding_spec_json s = JObj
     [(''provider'', JStr (mspec_provider s)), (''model'', JStr (mspec_model s)), (''version'', JStr (mspec_version s)),
      (''dimensions'', JInt (int (mspec_dimensions s))), (''normalized'', JBool True), (''timeout_seconds'', JFloat (mspec_timeout_seconds s)),
      (''maximum_attempts'', JInt (int (mspec_maximum_attempts s))), (''maximum_batch_items'', JInt (int (mspec_maximum_batch_items s))),
      (''maximum_batch_tokens'', JInt (int (mspec_maximum_batch_tokens s)))]"

definition embedding_spec_digest :: "runtime \<Rightarrow> embedding_spec \<Rightarrow> string" where
  "embedding_spec_digest rt s = canonical_digest rt (embedding_spec_json s)"

record embedding_request =
  mreq_operation_id :: string
  mreq_tenant_id :: string
  mreq_run_id :: string
  mreq_reservation_id :: string
  mreq_fence_token :: string
  mreq_spec :: embedding_spec
  mreq_chunks :: "memory_chunk list"
  mreq_request_digest :: string

definition embedding_request_items :: "embedding_request \<Rightarrow> dict" where
  "embedding_request_items r =
     [(''operation_id'', JStr (mreq_operation_id r)), (''tenant_id'', JStr (mreq_tenant_id r)), (''run_id'', JStr (mreq_run_id r)),
      (''reservation_id'', JStr (mreq_reservation_id r)), (''fence_token'', JStr (mreq_fence_token r)),
      (''spec'', embedding_spec_json (mreq_spec r)), (''chunks'', JList (map chunk_json (mreq_chunks r)))]"

text \<open>\<open>EmbeddingRequest(...)\<close> over chunks and a specification that were validated already, with the digest computed from the
  other fields.\<close>

definition make_embedding_request :: "runtime \<Rightarrow> embedding_request \<Rightarrow> embedding_request result" where
  "make_embedding_request rt r =
     (if valid_identifier (mreq_operation_id r) \<and> valid_identifier (mreq_tenant_id r) \<and> valid_identifier (mreq_run_id r) \<and>
         valid_identifier (mreq_reservation_id r) \<and> valid_identifier (mreq_fence_token r) \<and>
         1 \<le> length (mreq_chunks r) \<and> length (mreq_chunks r) \<le> 256 \<and>
         list_all (\<lambda>c. mchk_tenant_id c = mreq_tenant_id r) (mreq_chunks r) \<and>
         length (mreq_chunks r) \<le> mspec_maximum_batch_items (mreq_spec r) \<and>
         sum_list (map mchk_token_estimate (mreq_chunks r)) \<le> mspec_maximum_batch_tokens (mreq_spec r)
      then Inr (r\<lparr>mreq_request_digest := canonical_digest rt (JObj (embedding_request_items r))\<rparr>)
      else Inl (ValidationError ''EmbeddingRequest''))"

record embedding_vector =
  mvec_chunk_id :: string
  mvec_content_digest :: string
  mvec_values :: "pyfloat list"

record embedding_result =
  mres_operation_id :: string
  mres_request_digest :: string
  mres_spec_digest :: string
  mres_attempt :: nat
  mres_fence_token :: string
  mres_vectors :: "embedding_vector list"
  mres_result_digest :: string

record indexed_chunk =
  mit_record :: memory_record
  mit_chunk :: memory_chunk
  mit_vector :: embedding_vector
  mit_indexed_at :: datetime

section \<open>Evidence\<close>

record normalized_evidence =
  mev_tenant_id :: string
  mev_evidence_id :: string
  mev_content_hash :: string
  mev_canonical_text :: string
  mev_disposition :: evidence_disposition

section \<open>Retrieval results and budgets\<close>

record retrieval_hit =
  mhit_memory_id :: string
  mhit_chunk_id :: string
  mhit_tier :: memory_tier
  mhit_text :: string
  mhit_citation :: memory_citation
  mhit_lexical_score :: pyfloat
  mhit_vector_score :: pyfloat
  mhit_recency_score :: pyfloat
  mhit_quality_score :: pyfloat
  mhit_combined_score :: pyfloat
  mhit_stale :: bool
  mhit_contradiction_group :: "string option"

record retrieval_result =
  mrr_query_id :: string
  mrr_query_digest :: string
  mrr_policy_digest :: string
  mrr_hits :: "retrieval_hit list"
  mrr_candidate_count :: nat
  mrr_token_count :: nat
  mrr_byte_count :: nat
  mrr_insufficient_context :: bool
  mrr_cache_hit :: bool
  mrr_result_digest :: string

record context_budget =
  mbud_total_tokens :: nat
  mbud_reserved_system_tokens :: nat
  mbud_reserved_safety_tokens :: nat
  mbud_working_tokens :: nat
  mbud_episodic_tokens :: nat
  mbud_semantic_tokens :: nat
  mbud_maximum_bytes :: nat
  mbud_minimum_citations :: nat

definition valid_budget :: "context_budget \<Rightarrow> bool" where
  "valid_budget b \<longleftrightarrow> 256 \<le> mbud_total_tokens b \<and> mbud_total_tokens b \<le> 1000000 \<and>
     64 \<le> mbud_reserved_system_tokens b \<and> mbud_reserved_system_tokens b \<le> 100000 \<and>
     64 \<le> mbud_reserved_safety_tokens b \<and> mbud_reserved_safety_tokens b \<le> 100000 \<and> mbud_working_tokens b \<le> 100000 \<and>
     mbud_episodic_tokens b \<le> 100000 \<and> mbud_semantic_tokens b \<le> 100000 \<and>
     1024 \<le> mbud_maximum_bytes b \<and> mbud_maximum_bytes b \<le> 1048576 \<and> 1 \<le> mbud_minimum_citations b \<and> mbud_minimum_citations b \<le> 64 \<and>
     mbud_reserved_system_tokens b + mbud_reserved_safety_tokens b + mbud_working_tokens b + mbud_episodic_tokens b +
       mbud_semantic_tokens b \<le> mbud_total_tokens b"

record context_snippet =
  msnip_memory_id :: string
  msnip_chunk_id :: string
  msnip_tier :: memory_tier
  msnip_framed_text :: string
  msnip_citation :: memory_citation
  msnip_token_count :: nat

record memory_context =
  mctx_snippets :: "context_snippet list"
  mctx_token_count :: nat
  mctx_byte_count :: nat
  mctx_insufficient_context :: bool
  mctx_context_digest :: string

end
