(* ===== verification/Memory_Ledger.thy ===== *)
theory Memory_Ledger
  imports Memory_Data Remediation_Invariant
begin

text \<open>
  The application facts of a memory in \<^verbatim>\<open>memory.py\<close>: \<open>reduce_memory\<close>, \<open>InMemoryMemoryLedger\<close> and the ledger of retrieval
  operations.
\<close>

section \<open>Facts and projections\<close>

datatype memory_fact_type =
    MemFact_CANDIDATE_PROPOSED | MemFact_CANDIDATE_ACCEPTED | MemFact_CANDIDATE_REJECTED | MemFact_SCAN_REQUESTED
  | MemFact_SCAN_COMPLETED | MemFact_CHUNK_REQUESTED | MemFact_CHUNK_COMPLETED | MemFact_EMBED_REQUESTED | MemFact_EMBED_COMPLETED
  | MemFact_INDEX_REQUESTED | MemFact_INDEX_COMPLETED | MemFact_RETRIEVE_REQUESTED | MemFact_RETRIEVE_COMPLETED | MemFact_CONTEXT_BUILT
  | MemFact_COMPACT_REQUESTED | MemFact_COMPACT_COMPLETED | MemFact_SUMMARY_ACCEPTED | MemFact_SUMMARY_REJECTED
  | MemFact_FEEDBACK_RECORDED | MemFact_SUPERSEDED | MemFact_TOMBSTONED | MemFact_RETENTION_EXPIRED | MemFact_LEGAL_HOLD_APPLIED
  | MemFact_LEGAL_HOLD_RELEASED | MemFact_DELETE_REQUESTED | MemFact_DERIVED_PURGED | MemFact_CRYPTO_ERASED
  | MemFact_REBUILD_REQUESTED | MemFact_REBUILD_COMPLETED

fun memory_fact_value :: "memory_fact_type \<Rightarrow> string" where
  "memory_fact_value MemFact_CANDIDATE_PROPOSED = ''memory.candidate_proposed''"
| "memory_fact_value MemFact_CANDIDATE_ACCEPTED = ''memory.candidate_accepted''"
| "memory_fact_value MemFact_CANDIDATE_REJECTED = ''memory.candidate_rejected''"
| "memory_fact_value MemFact_SCAN_REQUESTED = ''memory.scan_requested''"
| "memory_fact_value MemFact_SCAN_COMPLETED = ''memory.scan_completed''"
| "memory_fact_value MemFact_CHUNK_REQUESTED = ''memory.chunk_requested''"
| "memory_fact_value MemFact_CHUNK_COMPLETED = ''memory.chunk_completed''"
| "memory_fact_value MemFact_EMBED_REQUESTED = ''memory.embed_requested''"
| "memory_fact_value MemFact_EMBED_COMPLETED = ''memory.embed_completed''"
| "memory_fact_value MemFact_INDEX_REQUESTED = ''memory.index_requested''"
| "memory_fact_value MemFact_INDEX_COMPLETED = ''memory.index_completed''"
| "memory_fact_value MemFact_RETRIEVE_REQUESTED = ''memory.retrieve_requested''"
| "memory_fact_value MemFact_RETRIEVE_COMPLETED = ''memory.retrieve_completed''"
| "memory_fact_value MemFact_CONTEXT_BUILT = ''memory.context_built''"
| "memory_fact_value MemFact_COMPACT_REQUESTED = ''memory.compact_requested''"
| "memory_fact_value MemFact_COMPACT_COMPLETED = ''memory.compact_completed''"
| "memory_fact_value MemFact_SUMMARY_ACCEPTED = ''memory.summary_accepted''"
| "memory_fact_value MemFact_SUMMARY_REJECTED = ''memory.summary_rejected''"
| "memory_fact_value MemFact_FEEDBACK_RECORDED = ''memory.feedback_recorded''"
| "memory_fact_value MemFact_SUPERSEDED = ''memory.superseded''"
| "memory_fact_value MemFact_TOMBSTONED = ''memory.tombstoned''"
| "memory_fact_value MemFact_RETENTION_EXPIRED = ''memory.retention_expired''"
| "memory_fact_value MemFact_LEGAL_HOLD_APPLIED = ''memory.legal_hold_applied''"
| "memory_fact_value MemFact_LEGAL_HOLD_RELEASED = ''memory.legal_hold_released''"
| "memory_fact_value MemFact_DELETE_REQUESTED = ''memory.delete_requested''"
| "memory_fact_value MemFact_DERIVED_PURGED = ''memory.derived_purged''"
| "memory_fact_value MemFact_CRYPTO_ERASED = ''memory.crypto_erased''"
| "memory_fact_value MemFact_REBUILD_REQUESTED = ''memory.rebuild_requested''"
| "memory_fact_value MemFact_REBUILD_COMPLETED = ''memory.rebuild_completed''"

record memory_fact =
  mfact_tenant_id :: string
  mfact_memory_id :: string
  mfact_sequence :: nat
  mfact_fact_id :: string
  mfact_fact_type :: memory_fact_type
  mfact_command_id :: string
  mfact_actor_ref :: string
  mfact_recorded_at :: datetime
  mfact_payload :: dict
  mfact_previous_digest :: string
  mfact_fact_digest :: string

record memory_projection =
  mproj_tenant_id :: string
  mproj_memory_id :: string
  mproj_tier :: memory_tier
  mproj_status :: memory_status
  mproj_version :: nat
  mproj_record_digest :: string
  mproj_last_fact_digest :: string
  mproj_chunk_count :: nat
  mproj_indexed :: bool
  mproj_tombstoned :: bool
  mproj_legal_hold_count :: nat
  mproj_derived_purged :: bool
  mproj_blob_erased :: bool
  mproj_updated_at :: datetime

definition max_fact_bytes :: nat where
  "max_fact_bytes = 16384"

definition sensitive_keys :: "string list" where
  "sensitive_keys = [''text'', ''query'', ''prompt'', ''completion'', ''tenant_id'', ''locator'']"

text \<open>\<open>MemoryFact(...)\<close>; the payload is sorted already, which its validator would do.\<close>

definition valid_memory_fact :: "runtime \<Rightarrow> memory_fact \<Rightarrow> bool" where
  "valid_memory_fact rt f \<longleftrightarrow>
     valid_identifier (mfact_tenant_id f) \<and> valid_identifier (mfact_memory_id f) \<and> 1 \<le> mfact_sequence f \<and>
     valid_identifier (mfact_fact_id f) \<and> valid_identifier (mfact_command_id f) \<and> valid_identifier (mfact_actor_ref f) \<and>
     length (mfact_payload f) \<le> 32 \<and> utf8_length (py_repr rt (JObj (mfact_payload f))) \<le> max_fact_bytes \<and>
     \<not> list_ex (\<lambda>k. map_of (mfact_payload f) k \<noteq> None) sensitive_keys \<and>
     hex64 (mfact_previous_digest f) \<and> hex64 (mfact_fact_digest f)"

definition memory_fact_document :: "memory_fact \<Rightarrow> json" where
  "memory_fact_document f = JObj
     [(''schema_version'', JInt 1), (''tenant_id'', JStr (mfact_tenant_id f)), (''memory_id'', JStr (mfact_memory_id f)),
      (''sequence'', JInt (int (mfact_sequence f))), (''fact_id'', JStr (mfact_fact_id f)),
      (''fact_type'', JStr (memory_fact_value (mfact_fact_type f))), (''command_id'', JStr (mfact_command_id f)),
      (''actor_ref'', JStr (mfact_actor_ref f)), (''recorded_at'', JStr (isoformat_z (mfact_recorded_at f))),
      (''payload'', JObj (mfact_payload f)), (''previous_digest'', JStr (mfact_previous_digest f))]"

section \<open>The reducer\<close>

fun bounded_count :: "json option \<Rightarrow> nat \<Rightarrow> nat result" where
  "bounded_count (Some (JInt i)) maximum = (if 0 \<le> i \<and> i \<le> int maximum then Inr (nat i) else Inl (IntegrityFailure ''memory fact count is invalid''))"
| "bounded_count _ maximum = Inl (IntegrityFailure ''memory fact count is invalid'')"

text \<open>The projection before the first fact: the values that the code takes when there is no current projection.\<close>

definition blank_projection :: "memory_fact \<Rightarrow> memory_record \<Rightarrow> memory_projection" where
  "blank_projection f m = \<lparr>mproj_tenant_id = mfact_tenant_id f, mproj_memory_id = mfact_memory_id f, mproj_tier = mrec_tier m,
     mproj_status = Mem_CANDIDATE, mproj_version = 0, mproj_record_digest = mrec_canonical_digest m, mproj_last_fact_digest = zero_hash,
     mproj_chunk_count = 0, mproj_indexed = False, mproj_tombstoned = False, mproj_legal_hold_count = 0, mproj_derived_purged = False,
     mproj_blob_erased = False, mproj_updated_at = mfact_recorded_at f\<rparr>"

text \<open>The branches over the fact type.\<close>

definition apply_memory_fact :: "memory_projection \<Rightarrow> memory_fact \<Rightarrow> memory_projection result" where
  "apply_memory_fact p f =
     (case mfact_fact_type f of
        MemFact_CANDIDATE_ACCEPTED \<Rightarrow> Inr (p\<lparr>mproj_status := Mem_ACCEPTED\<rparr>)
      | MemFact_CANDIDATE_REJECTED \<Rightarrow> Inr (p\<lparr>mproj_status := Mem_REJECTED\<rparr>)
      | MemFact_CHUNK_COMPLETED \<Rightarrow>
          bindE (bounded_count (map_of (mfact_payload f) ''chunk_count'') 10000) (\<lambda>n. Inr (p\<lparr>mproj_chunk_count := n\<rparr>))
      | MemFact_INDEX_COMPLETED \<Rightarrow>
          if mproj_status p \<notin> {Mem_ACCEPTED, Mem_ACTIVE} then Inl (IntegrityFailure ''unaccepted memory cannot be indexed'')
          else Inr (p\<lparr>mproj_status := Mem_ACTIVE, mproj_indexed := True\<rparr>)
      | MemFact_SUPERSEDED \<Rightarrow> Inr (p\<lparr>mproj_status := Mem_SUPERSEDED\<rparr>)
      | MemFact_TOMBSTONED \<Rightarrow> Inr (p\<lparr>mproj_tombstoned := True, mproj_status := Mem_TOMBSTONED\<rparr>)
      | MemFact_RETENTION_EXPIRED \<Rightarrow> Inr (p\<lparr>mproj_tombstoned := True, mproj_status := Mem_TOMBSTONED\<rparr>)
      | MemFact_DELETE_REQUESTED \<Rightarrow> Inr (p\<lparr>mproj_tombstoned := True, mproj_status := Mem_TOMBSTONED\<rparr>)
      | MemFact_LEGAL_HOLD_APPLIED \<Rightarrow> Inr (p\<lparr>mproj_legal_hold_count := min 16 (mproj_legal_hold_count p + 1)\<rparr>)
      | MemFact_LEGAL_HOLD_RELEASED \<Rightarrow> Inr (p\<lparr>mproj_legal_hold_count := mproj_legal_hold_count p - 1\<rparr>)
      | MemFact_DERIVED_PURGED \<Rightarrow>
          if \<not> mproj_tombstoned p then Inl (IntegrityFailure ''derived memory purge requires a tombstone'')
          else Inr (p\<lparr>mproj_derived_purged := True, mproj_indexed := False\<rparr>)
      | MemFact_CRYPTO_ERASED \<Rightarrow>
          if \<not> mproj_derived_purged p \<or> mproj_legal_hold_count p \<noteq> 0
          then Inl (IntegrityFailure ''crypto erasure requires purge and no legal hold'')
          else Inr (p\<lparr>mproj_blob_erased := True, mproj_status := Mem_ERASED\<rparr>)
      | _ \<Rightarrow> Inr p)"

text \<open>The constructor of the new projection: its count and version bounds hold by construction, the identifiers and digests
  were checked with the fact and the record.\<close>

definition reduce_memory :: "runtime \<Rightarrow> memory_projection option \<Rightarrow> memory_fact \<Rightarrow> memory_record \<Rightarrow> memory_projection result" where
  "reduce_memory rt current f m =
     (let before = (case current of None \<Rightarrow> blank_projection f m | Some p \<Rightarrow> p) in
      bindE (guardE (mfact_sequence f = mproj_version before + 1 \<and> mfact_previous_digest f = mproj_last_fact_digest before \<and>
                     mfact_tenant_id f = mrec_tenant_id m \<and> mfact_memory_id f = mrec_memory_id m \<and>
                     mfact_fact_digest f = canonical_digest rt (memory_fact_document f))
               (IntegrityFailure ''memory fact chain is invalid'')) (\<lambda>_.
      bindE (guardE (current = None \<longrightarrow> mfact_fact_type f = MemFact_CANDIDATE_PROPOSED)
               (IntegrityFailure ''memory lifecycle must begin with a candidate'')) (\<lambda>_.
      bindE (apply_memory_fact before f) (\<lambda>p.
      Inr (p\<lparr>mproj_tenant_id := mfact_tenant_id f, mproj_memory_id := mfact_memory_id f, mproj_tier := mrec_tier m,
             mproj_version := mfact_sequence f, mproj_record_digest := mrec_canonical_digest m,
             mproj_last_fact_digest := mfact_fact_digest f, mproj_updated_at := mfact_recorded_at f\<rparr>)))))"

section \<open>The ledger\<close>

record memory_ledger =
  mled_records :: "string \<times> string \<rightharpoonup> memory_record"
  mled_facts :: "string \<times> string \<rightharpoonup> memory_fact list"
  mled_commands :: "string \<times> string \<rightharpoonup> string"
  mled_projections :: "string \<times> string \<rightharpoonup> memory_projection"

definition empty_memory_ledger :: memory_ledger where
  "empty_memory_ledger = \<lparr>mled_records = Map.empty, mled_facts = Map.empty, mled_commands = Map.empty, mled_projections = Map.empty\<rparr>"

definition memory_key :: "memory_record \<Rightarrow> string \<times> string" where
  "memory_key m = (mrec_tenant_id m, mrec_memory_id m)"

definition put_record :: "memory_record \<Rightarrow> (memory_ledger, unit) op" where
  "put_record m l =
     (case mled_records l (memory_key m) of
        Some existing \<Rightarrow>
          if mrec_canonical_digest existing \<noteq> mrec_canonical_digest m
          then (Inl (IdempotencyConflict ''memory record replay changed content''), l) else (Inr (), l)
      | None \<Rightarrow> (Inr (), l\<lparr>mled_records := (mled_records l)(memory_key m \<mapsto> m)\<rparr>))"

definition memory_facts :: "memory_ledger \<Rightarrow> string \<times> string \<Rightarrow> memory_fact list" where
  "memory_facts l k = get_default (mled_facts l) k []"

record memory_append_call =
  mcall_tenant_id :: string
  mcall_memory_id :: string
  mcall_expected_version :: nat
  mcall_fact_type :: memory_fact_type
  mcall_command_id :: string
  mcall_actor_ref :: string
  mcall_recorded_at :: datetime
  mcall_payload :: dict

definition memory_fingerprint :: "runtime \<Rightarrow> memory_append_call \<Rightarrow> string" where
  "memory_fingerprint rt a = canonical_digest rt (JObj [(''fact_type'', JStr (memory_fact_value (mcall_fact_type a))),
     (''memory_id'', JStr (mcall_memory_id a)), (''payload'', JObj (dict_sorted (mcall_payload a)))])"

definition current_version :: "memory_projection option \<Rightarrow> nat" where
  "current_version c = (case c of None \<Rightarrow> 0 | Some p \<Rightarrow> mproj_version p)"

definition current_digest :: "memory_projection option \<Rightarrow> string" where
  "current_digest c = (case c of None \<Rightarrow> zero_hash | Some p \<Rightarrow> mproj_last_fact_digest p)"

definition make_memory_fact :: "runtime \<Rightarrow> memory_append_call \<Rightarrow> memory_projection option \<Rightarrow> memory_fact" where
  "make_memory_fact rt a c =
     (let sequence = current_version c + 1;
          f = \<lparr>mfact_tenant_id = mcall_tenant_id a, mfact_memory_id = mcall_memory_id a, mfact_sequence = sequence,
               mfact_fact_id = stable_id rt ''memory-fact'' [mcall_tenant_id a, mcall_memory_id a, nat_str sequence, mcall_command_id a] 32,
               mfact_fact_type = mcall_fact_type a, mfact_command_id = mcall_command_id a, mfact_actor_ref = mcall_actor_ref a,
               mfact_recorded_at = mcall_recorded_at a, mfact_payload = dict_sorted (mcall_payload a),
               mfact_previous_digest = current_digest c, mfact_fact_digest = []\<rparr>
      in f\<lparr>mfact_fact_digest := canonical_digest rt (memory_fact_document f)\<rparr>)"

definition memory_append :: "runtime \<Rightarrow> memory_append_call \<Rightarrow> (memory_ledger, memory_projection) op" where
  "memory_append rt a l =
     (let key = (mcall_tenant_id a, mcall_memory_id a); command_key = (mcall_tenant_id a, mcall_command_id a);
          fingerprint = memory_fingerprint rt a
      in case mled_records l key of
           None \<Rightarrow> (Inl (IntegrityFailure ''memory record is missing''), l)
         | Some m \<Rightarrow>
             (case mled_commands l command_key of
                Some existing \<Rightarrow>
                  if existing \<noteq> fingerprint then (Inl (IdempotencyConflict ''memory command replay changed''), l)
                  else (case mled_projections l key of None \<Rightarrow> (Inl (KeyError ''projection''), l) | Some p \<Rightarrow> (Inr p, l))
              | None \<Rightarrow>
                  (let current = mled_projections l key in
                   if current_version current \<noteq> mcall_expected_version a
                   then (Inl (ConcurrencyConflict ''memory aggregate version changed''), l)
                   else (let f = make_memory_fact rt a current in
                         if \<not> valid_memory_fact rt f then (Inl (ValidationError ''MemoryFact''), l)
                         else (case reduce_memory rt current f m of
                                 Inl e \<Rightarrow> (Inl e, l)
                               | Inr p \<Rightarrow> (Inr p, l\<lparr>mled_facts := (mled_facts l)(key \<mapsto> memory_facts l key @ [f]),
                                             mled_commands := (mled_commands l)(command_key \<mapsto> fingerprint),
                                             mled_projections := (mled_projections l)(key \<mapsto> p)\<rparr>))))))"

fun replay_memory :: "runtime \<Rightarrow> memory_record \<Rightarrow> memory_fact list \<Rightarrow> memory_projection option \<Rightarrow> memory_projection option result" where
  "replay_memory rt m [] c = Inr c"
| "replay_memory rt m (f # fs) c = bindE (reduce_memory rt c f m) (\<lambda>p. replay_memory rt m fs (Some p))"

definition memory_rebuild :: "runtime \<Rightarrow> string \<Rightarrow> string \<Rightarrow> (memory_ledger, memory_projection) op" where
  "memory_rebuild rt tenant_id memory_id l =
     (case mled_records l (tenant_id, memory_id) of
        None \<Rightarrow> (Inl (IntegrityFailure ''cannot rebuild unknown memory''), l)
      | Some m \<Rightarrow>
          (case replay_memory rt m (memory_facts l (tenant_id, memory_id)) None of
             Inl e \<Rightarrow> (Inl e, l)
           | Inr None \<Rightarrow> (Inl (IntegrityFailure ''cannot rebuild memory without facts''), l)
           | Inr (Some p) \<Rightarrow> (Inr p, l\<lparr>mled_projections := (mled_projections l)((tenant_id, memory_id) \<mapsto> p)\<rparr>)))"

section \<open>Operations\<close>

record memory_operation_fact =
  mop_tenant_id :: string
  mop_operation_id :: string
  mop_run_id :: string
  mop_incident_id :: string
  mop_sequence :: nat
  mop_fact_type :: memory_fact_type
  mop_policy_digest :: string
  mop_query_digest :: "string option"
  mop_result_digest :: "string option"
  mop_fact_digest :: string
  mop_recorded_at :: datetime

type_synonym memory_operations = "string \<times> string \<rightharpoonup> memory_operation_fact list"

definition operation_facts :: "memory_operations \<Rightarrow> string \<Rightarrow> string \<Rightarrow> memory_operation_fact list" where
  "operation_facts s tenant_id operation_id = get_default s (tenant_id, operation_id) []"

definition append_operation :: "memory_operation_fact \<Rightarrow> (memory_operations, unit) op" where
  "append_operation f s =
     (let key = (mop_tenant_id f, mop_operation_id f); fs = get_default s key []; s1 = s(key \<mapsto> fs) in
      if fs \<noteq> [] then
        if mop_sequence f \<le> length fs then
          if mop_fact_digest (fs ! (mop_sequence f - 1)) \<noteq> mop_fact_digest f
          then (Inl (IdempotencyConflict ''memory operation fact replay changed''), s1) else (Inr (), s1)
        else if mop_sequence f \<noteq> length fs + 1 then (Inl (ConcurrencyConflict ''memory operation sequence changed''), s1)
        else (Inr (), s(key \<mapsto> fs @ [f]))
      else if mop_sequence f \<noteq> 1 then (Inl (ConcurrencyConflict ''memory operation must begin at sequence one''), s1)
      else (Inr (), s(key \<mapsto> [f])))"

end
