(* ===== verification/Memory_Index.thy ===== *)
theory Memory_Index
  imports Memory_Data
begin

text \<open>
  The derived structures of \<^verbatim>\<open>memory.py\<close>: \<open>DeterministicChunker\<close>, the items and the cache of \<open>InMemoryHybridIndex\<close>, the
  eligibility of an item for a query, and \<open>LangGraphMemoryContextBuilder\<close>. The scores of a retrieval, which are
  floating-point sums, are not modelled; what it may return is.
\<close>

section \<open>Chunks\<close>

record chunker =
  mck_maximum_tokens :: nat
  mck_overlap_tokens :: nat
  mck_maximum_chunks :: nat

definition make_chunker :: "int \<Rightarrow> int \<Rightarrow> int \<Rightarrow> chunker result" where
  "make_chunker maximum_tokens overlap_tokens maximum_chunks =
     (if maximum_tokens < 16 \<or> 2048 < maximum_tokens \<or> overlap_tokens < 0 \<or> maximum_tokens \<le> overlap_tokens \<or>
         maximum_chunks < 1 \<or> 1000 < maximum_chunks
      then Inl (ValueError ''chunker bounds are invalid'')
      else Inr \<lparr>mck_maximum_tokens = nat maximum_tokens, mck_overlap_tokens = nat overlap_tokens, mck_maximum_chunks = nat maximum_chunks\<rparr>)"

definition chunker_version :: string where
  "chunker_version = ''aegis-boundary-chunker-v1''"

definition make_chunk :: "runtime \<Rightarrow> string \<Rightarrow> string \<Rightarrow> memory_citation \<Rightarrow> nat \<Rightarrow> string \<Rightarrow> memory_chunk" where
  "make_chunk rt tenant_id memory_id citation ordinal part =
     (let digest = sha256_hexdigest rt part in
      \<lparr>mchk_chunk_id = stable_id rt ''memory-chunk'' [tenant_id, memory_id, nat_str ordinal, digest] 32, mchk_memory_id = memory_id,
       mchk_tenant_id = tenant_id, mchk_ordinal = ordinal, mchk_text = part, mchk_content_digest = digest,
       mchk_token_estimate = token_estimate part, mchk_byte_count = utf8_length part, mchk_citation = citation,
       mchk_chunker_version = chunker_version\<rparr>)"

text \<open>The loop over \<^verbatim>\<open>enumerate(range(0, len(words), step))\<close>; \<open>build\<close> makes the chunk of an ordinal and its text. A step of
  zero, which \<^verbatim>\<open>range\<close> refuses, is excluded by the constructor of the chunker.\<close>

function chunk_loop :: "(nat \<Rightarrow> string \<Rightarrow> memory_chunk result) \<Rightarrow> chunker \<Rightarrow> string list \<Rightarrow> nat \<Rightarrow> nat \<Rightarrow> memory_chunk list result" where
  "chunk_loop build c words ordinal start =
     (let step = mck_maximum_tokens c - mck_overlap_tokens c; part = join '' '' (take (mck_maximum_tokens c) (drop start words)) in
      if step = 0 then Inl (ValueError ''range() arg 3 must not be zero'')
      else if length words \<le> start \<or> part = [] then Inr []
      else if mck_maximum_chunks c \<le> ordinal then Inl (ValueError ''memory content exceeds the chunk count bound'')
      else bindE (build ordinal part) (\<lambda>chunk.
           if length words \<le> start + mck_maximum_tokens c then Inr [chunk]
           else bindE (chunk_loop build c words (Suc ordinal) (start + step)) (\<lambda>rest. Inr (chunk # rest))))"
  by pat_completeness auto

termination by (relation "measure (\<lambda>(build, c, words, ordinal, start). length words - start)") auto

declare chunk_loop.simps [simp del]

definition build_chunk :: "runtime \<Rightarrow> string \<Rightarrow> string \<Rightarrow> memory_citation \<Rightarrow> nat \<Rightarrow> string \<Rightarrow> memory_chunk result" where
  "build_chunk rt tenant_id memory_id citation ordinal part =
     (let chunk = make_chunk rt tenant_id memory_id citation ordinal part in
      if valid_chunk rt chunk then Inr chunk else Inl (ValidationError ''MemoryChunk''))"

definition split_text :: "runtime \<Rightarrow> chunker \<Rightarrow> string \<Rightarrow> string \<Rightarrow> string \<Rightarrow> memory_citation \<Rightarrow> memory_chunk list result" where
  "split_text rt c tenant_id memory_id text citation =
     bindE (canonical_text text) (\<lambda>normalized.
       let words = words_of normalized in
       if words = [] then Inl (ValueError ''memory content is empty'')
       else chunk_loop (build_chunk rt tenant_id memory_id citation) c words 0 0)"

section \<open>The index\<close>

record hybrid_index =
  mix_items :: "((string \<times> string) \<times> indexed_chunk) list"
  mix_cache :: "((string \<times> string \<times> string) \<times> (datetime \<times> retrieval_result)) list"

definition empty_index :: hybrid_index where
  "empty_index = \<lparr>mix_items = [], mix_cache = []\<rparr>"

definition drop_cache :: "string \<Rightarrow> hybrid_index \<Rightarrow> hybrid_index" where
  "drop_cache tenant_id x = x\<lparr>mix_cache := filter (\<lambda>e. fst (fst e) \<noteq> tenant_id) (mix_cache x)\<rparr>"

definition index_bound :: "indexed_chunk \<Rightarrow> bool" where
  "index_bound i \<longleftrightarrow> mrec_tenant_id (mit_record i) = mchk_tenant_id (mit_chunk i) \<and> mchk_chunk_id (mit_chunk i) = mvec_chunk_id (mit_vector i) \<and>
     mchk_content_digest (mit_chunk i) = mvec_content_digest (mit_vector i) \<and>
     length (mvec_values (mit_vector i)) = mrec_embedding_dimensions (mit_record i) \<and> mrec_status (mit_record i) \<in> {Mem_ACCEPTED, Mem_ACTIVE}"

definition index_item :: "indexed_chunk \<Rightarrow> (hybrid_index, unit) op" where
  "index_item i x =
     (if \<not> index_bound i then (Inl (IntegrityFailure ''index input binding is invalid''), x)
      else (Inr (), drop_cache (mrec_tenant_id (mit_record i))
        (x\<lparr>mix_items := AList.update (mrec_tenant_id (mit_record i), mchk_chunk_id (mit_chunk i)) i (mix_items x)\<rparr>)))"

definition of_memory :: "string \<Rightarrow> string \<Rightarrow> indexed_chunk \<Rightarrow> bool" where
  "of_memory tenant_id memory_id i \<longleftrightarrow> mrec_tenant_id (mit_record i) = tenant_id \<and> mrec_memory_id (mit_record i) = memory_id"

definition purge_index :: "string \<Rightarrow> string \<Rightarrow> (hybrid_index, nat) op" where
  "purge_index tenant_id memory_id x =
     (Inr (length (filter (\<lambda>e. of_memory tenant_id memory_id (snd e)) (mix_items x))),
      drop_cache tenant_id (x\<lparr>mix_items := filter (\<lambda>e. \<not> of_memory tenant_id memory_id (snd e)) (mix_items x)\<rparr>))"

definition invalidate_tenant :: "string \<Rightarrow> (hybrid_index, unit) op" where
  "invalidate_tenant tenant_id x = (Inr (), drop_cache tenant_id x)"

record retrieval_query =
  mqry_tenant_id :: string
  mqry_principal_ref :: string
  mqry_roles :: "string list"
  mqry_allowed_classifications :: "evidence_classification list"
  mqry_as_of :: datetime

definition eligible :: "indexed_chunk \<Rightarrow> retrieval_query \<Rightarrow> bool" where
  "eligible i q \<longleftrightarrow>
     (let m = mit_record i in
      mrec_tenant_id m = mqry_tenant_id q \<and> mrec_status m \<in> {Mem_ACCEPTED, Mem_ACTIVE} \<and>
      mrec_classification m \<in> set (mqry_allowed_classifications q) \<and> acl_permits (mrec_acl m) (mqry_roles q) (mqry_principal_ref q) \<and>
      (case mrec_accepted_at m of None \<Rightarrow> False | Some at \<Rightarrow> at \<le> mqry_as_of q) \<and> mqry_as_of q < mret_expires_at (mrec_retention m) \<and>
      mrec_superseded_by m = None \<and> mrec_tombstone_reason m = None)"

section \<open>The context of a model call\<close>

definition frame_untrusted :: "retrieval_hit \<Rightarrow> string" where
  "frame_untrusted h = frame_text (mhit_chunk_id h) (mcit_evidence_id (mhit_citation h)) (mhit_text h)"

fun tier_budget :: "context_budget \<Rightarrow> memory_tier \<Rightarrow> nat" where
  "tier_budget b Tier_WORKING = mbud_working_tokens b"
| "tier_budget b Tier_EPISODIC = mbud_episodic_tokens b"
| "tier_budget b Tier_SEMANTIC = mbud_semantic_tokens b"

record context_choice =
  mcc_used :: "memory_tier \<Rightarrow> nat"
  mcc_chosen :: "retrieval_hit list"
  mcc_seen :: "string list"

definition framed_bytes :: "retrieval_hit list \<Rightarrow> nat" where
  "framed_bytes hs = sum_list (map (\<lambda>h. utf8_length (frame_untrusted h)) hs)"

definition choose_hit :: "runtime \<Rightarrow> context_budget \<Rightarrow> retrieval_hit \<Rightarrow> context_choice \<Rightarrow> context_choice result" where
  "choose_hit rt b h s =
     bindE (canonical_text (mhit_text h)) (\<lambda>normalized.
       let digest = sha256_hexdigest rt normalized; tokens = token_estimate (mhit_text h) in
       if digest \<in> set (mcc_seen s) \<or> tier_budget b (mhit_tier h) < mcc_used s (mhit_tier h) + tokens then Inr s
       else if mbud_maximum_bytes b < framed_bytes (mcc_chosen s) + utf8_length (frame_untrusted h) then Inr s
       else Inr \<lparr>mcc_used = (mcc_used s)(mhit_tier h := mcc_used s (mhit_tier h) + tokens), mcc_chosen = mcc_chosen s @ [h],
                 mcc_seen = mcc_seen s @ [digest]\<rparr>)"

definition make_snippet :: "retrieval_hit \<Rightarrow> context_snippet result" where
  "make_snippet h =
     (let x = \<lparr>msnip_memory_id = mhit_memory_id h, msnip_chunk_id = mhit_chunk_id h, msnip_tier = mhit_tier h,
               msnip_framed_text = frame_untrusted h, msnip_citation = mhit_citation h, msnip_token_count = token_estimate (mhit_text h)\<rparr>
      in if length (msnip_framed_text x) \<le> max_memory_text then Inr x else Inl (ValidationError ''ContextSnippet''))"

definition snippet_json :: "context_snippet \<Rightarrow> json" where
  "snippet_json x = JObj [(''memory_id'', JStr (msnip_memory_id x)), (''chunk_id'', JStr (msnip_chunk_id x)), (''tier'', JStr (tier_value (msnip_tier x))),
     (''framed_text'', JStr (msnip_framed_text x)), (''citation'', memory_citation_json (msnip_citation x)),
     (''token_count'', JInt (int (msnip_token_count x)))]"

definition context_digest_of :: "runtime \<Rightarrow> memory_context \<Rightarrow> string" where
  "context_digest_of rt c = canonical_digest rt (JObj
     [(''snippets'', JList (map snippet_json (mctx_snippets c))), (''token_count'', JInt (int (mctx_token_count c))),
      (''byte_count'', JInt (int (mctx_byte_count c))), (''insufficient_context'', JBool (mctx_insufficient_context c)),
      (''instruction_boundary'', JStr ''retrieved-memory-is-untrusted-data-not-instructions-or-authority'')])"

definition build_context :: "runtime \<Rightarrow> retrieval_result \<Rightarrow> context_budget \<Rightarrow> memory_context result" where
  "build_context rt r b =
     bindE (foldE (\<lambda>i. choose_hit rt b (mrr_hits r ! i)) (lost_middle_order (length (mrr_hits r)))
              \<lparr>mcc_used = (\<lambda>_. 0), mcc_chosen = [], mcc_seen = []\<rparr>) (\<lambda>s.
     bindE (foldE (\<lambda>h xs. bindE (make_snippet h) (\<lambda>x. Inr (xs @ [x]))) (mcc_chosen s) []) (\<lambda>snippets.
     bindE (guardE (length snippets \<le> 100) (ValidationError ''MemoryContext'')) (\<lambda>_.
     let c = \<lparr>mctx_snippets = snippets, mctx_token_count = sum_list (map msnip_token_count snippets),
              mctx_byte_count = sum_list (map (\<lambda>x. utf8_length (msnip_framed_text x)) snippets),
              mctx_insufficient_context = (card ((\<lambda>x. mcit_evidence_id (msnip_citation x)) ` set snippets) < mbud_minimum_citations b),
              mctx_context_digest = []\<rparr>
     in Inr (c\<lparr>mctx_context_digest := context_digest_of rt c\<rparr>))))"

end
