(* ===== verification/Memory_Service.thy ===== *)
theory Memory_Service
  imports Memory_Ledger Memory_Index
begin

text \<open>
  \<open>MemoryLifecycleService\<close> of \<^verbatim>\<open>memory.py\<close>: ingestion of accepted evidence, rebuild of the derived index, tombstone and
  erasure, supersession and legal holds. The embedding port and the callback that erases a blob act on a state of
  their own, the world; each reading of the clock is the next value of its sequence.
\<close>

section \<open>Environment and state\<close>

record 'w memory_env =
  me_runtime :: runtime
  me_clock :: "nat \<Rightarrow> datetime"
  me_chunker :: chunker
  me_embed :: "embedding_request \<Rightarrow> ('w, embedding_result) op"

record 'w memory_state =
  ms_ledger :: memory_ledger
  ms_index :: hybrid_index
  ms_ticks :: nat
  ms_world :: 'w

definition memory_now :: "'w memory_env \<Rightarrow> ('w memory_state, datetime) op" where
  "memory_now env s = (Inr (me_clock env (ms_ticks s)), s\<lparr>ms_ticks := Suc (ms_ticks s)\<rparr>)"

definition on_memory_ledger :: "(memory_ledger, 'a) op \<Rightarrow> ('w memory_state, 'a) op" where
  "on_memory_ledger = zoomS ms_ledger (\<lambda>x s. s\<lparr>ms_ledger := x\<rparr>)"

definition on_index :: "(hybrid_index, 'a) op \<Rightarrow> ('w memory_state, 'a) op" where
  "on_index = zoomS ms_index (\<lambda>x s. s\<lparr>ms_index := x\<rparr>)"

definition on_world :: "('w, 'a) op \<Rightarrow> ('w memory_state, 'a) op" where
  "on_world = zoomS ms_world (\<lambda>x s. s\<lparr>ms_world := x\<rparr>)"

section \<open>Appending a fact\<close>

definition memory_command :: "runtime \<Rightarrow> memory_record \<Rightarrow> string \<Rightarrow> string" where
  "memory_command rt m ending = stable_id rt ''memory-command'' [mrec_tenant_id m, mrec_memory_id m, ending] 32"

definition memory_call ::
  "runtime \<Rightarrow> memory_record \<Rightarrow> nat \<Rightarrow> memory_fact_type \<Rightarrow> string \<Rightarrow> string \<Rightarrow> dict \<Rightarrow> datetime \<Rightarrow> memory_append_call" where
  "memory_call rt m expected ty ending actor payload now =
     \<lparr>mcall_tenant_id = mrec_tenant_id m, mcall_memory_id = mrec_memory_id m, mcall_expected_version = expected, mcall_fact_type = ty,
      mcall_command_id = memory_command rt m ending, mcall_actor_ref = actor, mcall_recorded_at = now, mcall_payload = payload\<rparr>"

definition append_memory ::
  "'w memory_env \<Rightarrow> memory_record \<Rightarrow> nat \<Rightarrow> memory_fact_type \<Rightarrow> string \<Rightarrow> string \<Rightarrow> dict \<Rightarrow> ('w memory_state, memory_projection) op" where
  "append_memory env m expected ty ending actor payload =
     bindS (memory_now env) (\<lambda>now.
       on_memory_ledger (memory_append (me_runtime env) (memory_call (me_runtime env) m expected ty ending actor payload now)))"

section \<open>Ingestion\<close>

definition candidate_bound :: "memory_record \<Rightarrow> normalized_evidence \<Rightarrow> embedding_spec \<Rightarrow> bool" where
  "candidate_bound m e spec \<longleftrightarrow>
     mev_tenant_id e = mrec_tenant_id m \<and> mev_evidence_id e = mprov_evidence_id (mrec_provenance m) \<and>
     mev_content_hash e = mrec_content_digest m \<and> mrec_chunker_version m = chunker_version \<and> mrec_embedder_model m = mspec_model spec \<and>
     mrec_embedder_version m = mspec_version spec \<and> mrec_embedding_dimensions m = mspec_dimensions spec"

definition usable_evidence :: "normalized_evidence \<Rightarrow> bool" where
  "usable_evidence e \<longleftrightarrow> mev_disposition e \<in> {Evidence_ACCEPTED, Evidence_REDACTED}"

definition embed_request_of :: "runtime \<Rightarrow> memory_record \<Rightarrow> embedding_spec \<Rightarrow> memory_chunk list \<Rightarrow> nat \<Rightarrow> embedding_request result" where
  "embed_request_of rt m spec chunks version =
     make_embedding_request rt
       \<lparr>mreq_operation_id = stable_id rt ''embed'' [mrec_tenant_id m, mrec_memory_id m] 32, mreq_tenant_id = mrec_tenant_id m,
        mreq_run_id = mrec_run_id m,
        mreq_reservation_id = stable_id rt ''embedding-reservation'' [mrec_tenant_id m, mrec_memory_id m] 32,
        mreq_fence_token = stable_id rt ''embedding-fence'' [mrec_tenant_id m, mrec_memory_id m, nat_str version] 32,
        mreq_spec = spec, mreq_chunks = chunks, mreq_request_digest = []\<rparr>"

text \<open>\<^verbatim>\<open>{vector.chunk_id: vector for vector in result.vectors}\<close>: the last vector of a chunk wins.\<close>

definition vector_of :: "embedding_result \<Rightarrow> string \<Rightarrow> embedding_vector option" where
  "vector_of r chunk_id = map_of (map (\<lambda>v. (mvec_chunk_id v, v)) (rev (mres_vectors r))) chunk_id"

fun index_chunks :: "memory_record \<Rightarrow> embedding_result \<Rightarrow> datetime \<Rightarrow> memory_chunk list \<Rightarrow> ('w memory_state, unit) op" where
  "index_chunks m r indexed_at [] = returnS ()"
| "index_chunks m r indexed_at (c # cs) =
     (case vector_of r (mchk_chunk_id c) of
        None \<Rightarrow> raiseS (IntegrityFailure ''embedding result omitted a chunk'')
      | Some v \<Rightarrow>
          bindS (on_index (index_item \<lparr>mit_record = m, mit_chunk = c, mit_vector = v, mit_indexed_at = indexed_at\<rparr>)) (\<lambda>_.
          index_chunks m r indexed_at cs))"

fun append_each ::
  "'w memory_env \<Rightarrow> memory_record \<Rightarrow> string \<Rightarrow> memory_fact_type list \<Rightarrow> memory_projection \<Rightarrow> ('w memory_state, memory_projection) op" where
  "append_each env m actor [] p = returnS p"
| "append_each env m actor (ty # tys) p =
     bindS (append_memory env m (mproj_version p) ty (memory_fact_value ty) actor
              [(''content_digest'', JStr (mrec_content_digest m))]) (\<lambda>q.
     append_each env m actor tys q)"

definition propose_memory ::
  "'w memory_env \<Rightarrow> memory_record \<Rightarrow> string \<Rightarrow> ('w memory_state, memory_projection) op" where
  "propose_memory env m actor =
     bindS (on_memory_ledger (put_record m)) (\<lambda>_.
     append_memory env m 0 MemFact_CANDIDATE_PROPOSED ''candidate'' actor
       [(''record_digest'', JStr (mrec_canonical_digest m)), (''tier'', JStr (tier_value (mrec_tier m))), (''trust'', JStr (trust_value (mrec_trust m)))])"

definition reject_memory ::
  "'w memory_env \<Rightarrow> memory_record \<Rightarrow> string \<Rightarrow> memory_acceptance \<Rightarrow> memory_projection \<Rightarrow> ('w memory_state, memory_projection) op" where
  "reject_memory env m actor acceptance p =
     append_memory env m (mproj_version p) MemFact_CANDIDATE_REJECTED ''reject'' actor
       [(''reason_code'', JStr (macc_reason_code acceptance)), (''acceptance_digest'', JStr (acceptance_digest (me_runtime env) acceptance))]"

definition accept_memory ::
  "'w memory_env \<Rightarrow> memory_record \<Rightarrow> string \<Rightarrow> memory_acceptance \<Rightarrow> memory_projection \<Rightarrow> ('w memory_state, memory_projection) op" where
  "accept_memory env m actor acceptance p =
     bindS (requireS (mrec_status m \<in> {Mem_ACCEPTED, Mem_ACTIVE}) (PolicyDenied ''durable memory requires explicit accepted record'')) (\<lambda>_.
     bindS (append_memory env m (mproj_version p) MemFact_CANDIDATE_ACCEPTED ''accept'' actor
              [(''record_digest'', JStr (mrec_canonical_digest m)), (''acceptance_digest'', JStr (acceptance_digest (me_runtime env) acceptance)),
               (''reviewer_kind'', JStr (macc_reviewer_kind acceptance)), (''policy_digest'', JStr (macc_policy_digest acceptance))]) (\<lambda>q.
     append_each env m actor [MemFact_SCAN_REQUESTED, MemFact_SCAN_COMPLETED, MemFact_CHUNK_REQUESTED] q))"

definition record_chunks ::
  "'w memory_env \<Rightarrow> memory_record \<Rightarrow> normalized_evidence \<Rightarrow> string \<Rightarrow> memory_projection \<Rightarrow> ('w memory_state, memory_chunk list \<times> memory_projection) op" where
  "record_chunks env m e actor p =
     bindS (liftS (split_text (me_runtime env) (me_chunker env) (mrec_tenant_id m) (mrec_memory_id m) (mev_canonical_text e)
              (hd (mrec_citations m)))) (\<lambda>chunks.
     bindS (append_memory env m (mproj_version p) MemFact_CHUNK_COMPLETED ''chunks'' actor
              [(''chunk_count'', JInt (int (length chunks))), (''chunk_set_digest'', JStr (chunk_set_digest (me_runtime env) chunks))]) (\<lambda>q.
     returnS (chunks, q)))"

definition embed_chunks ::
  "'w memory_env \<Rightarrow> memory_record \<Rightarrow> embedding_spec \<Rightarrow> string \<Rightarrow> memory_chunk list \<Rightarrow> memory_projection \<Rightarrow>
   ('w memory_state, embedding_result \<times> memory_projection) op" where
  "embed_chunks env m spec actor chunks p =
     bindS (liftS (embed_request_of (me_runtime env) m spec chunks (mproj_version p))) (\<lambda>request.
     bindS (append_memory env m (mproj_version p) MemFact_EMBED_REQUESTED ''embed-intent'' actor
              [(''request_digest'', JStr (mreq_request_digest request)), (''reservation_ref'', JStr (mreq_reservation_id request)),
               (''spec_digest'', JStr (embedding_spec_digest (me_runtime env) spec))]) (\<lambda>q.
     bindS (on_world (me_embed env request)) (\<lambda>r.
     bindS (append_memory env m (mproj_version q) MemFact_EMBED_COMPLETED ''embed-result'' actor
              [(''request_digest'', JStr (mreq_request_digest request)), (''result_digest'', JStr (mres_result_digest r)),
               (''vector_count'', JInt (int (length (mres_vectors r))))]) (\<lambda>q.
     returnS (r, q)))))"

definition index_memory ::
  "'w memory_env \<Rightarrow> memory_record \<Rightarrow> string \<Rightarrow> memory_chunk list \<Rightarrow> embedding_result \<Rightarrow> memory_projection \<Rightarrow> ('w memory_state, memory_projection) op" where
  "index_memory env m actor chunks r p =
     bindS (append_memory env m (mproj_version p) MemFact_INDEX_REQUESTED ''index-intent'' actor
              [(''vector_set_digest'', JStr (mres_result_digest r))]) (\<lambda>q.
     bindS (memory_now env) (\<lambda>indexed_at.
     bindS (index_chunks m r indexed_at chunks) (\<lambda>_.
     append_memory env m (mproj_version q) MemFact_INDEX_COMPLETED ''index-result'' actor
       [(''indexed_count'', JInt (int (length chunks))), (''vector_set_digest'', JStr (mres_result_digest r))])))"

definition ingest ::
  "'w memory_env \<Rightarrow> memory_record \<Rightarrow> normalized_evidence \<Rightarrow> string \<Rightarrow> memory_acceptance \<Rightarrow> embedding_spec \<Rightarrow> ('w memory_state, memory_projection) op" where
  "ingest env m e actor acceptance spec =
     bindS (requireS (candidate_bound m e spec \<and> macc_tenant_id acceptance = mrec_tenant_id m \<and> macc_memory_id acceptance = mrec_memory_id m)
              (IntegrityFailure ''memory candidate bindings are invalid'')) (\<lambda>_.
     bindS (requireS (usable_evidence e) (PolicyDenied ''quarantined or duplicate evidence cannot become memory'')) (\<lambda>_.
     bindS (propose_memory env m actor) (\<lambda>p.
     if \<not> macc_accept acceptance then reject_memory env m actor acceptance p
     else
       bindS (accept_memory env m actor acceptance p) (\<lambda>p.
       bindS (record_chunks env m e actor p) (\<lambda>(chunks, p).
       bindS (embed_chunks env m spec actor chunks p) (\<lambda>(r, p).
       index_memory env m actor chunks r p))))))"

section \<open>Rebuilding the index\<close>

definition rebuild_request_of ::
  "runtime \<Rightarrow> memory_record \<Rightarrow> string \<Rightarrow> string \<Rightarrow> string \<Rightarrow> embedding_spec \<Rightarrow> memory_chunk list \<Rightarrow> embedding_request result" where
  "rebuild_request_of rt m tenant_id memory_id rebuild_id spec chunks =
     make_embedding_request rt
       \<lparr>mreq_operation_id = stable_id rt ''memory-rebuild-embed'' [tenant_id, memory_id, rebuild_id] 32, mreq_tenant_id = tenant_id,
        mreq_run_id = mrec_run_id m, mreq_reservation_id = stable_id rt ''memory-rebuild-reservation'' [tenant_id, memory_id, rebuild_id] 32,
        mreq_fence_token = stable_id rt ''memory-rebuild-fence'' [tenant_id, memory_id, rebuild_id] 32,
        mreq_spec = spec, mreq_chunks = chunks, mreq_request_digest = []\<rparr>"

definition rebuildable :: "memory_record \<Rightarrow> memory_projection \<Rightarrow> normalized_evidence \<Rightarrow> embedding_spec \<Rightarrow> bool" where
  "rebuildable m p e spec \<longleftrightarrow> candidate_bound m e spec \<and> usable_evidence e \<and> mproj_status p = Mem_ACTIVE \<and> mproj_indexed p \<and>
     \<not> mproj_tombstoned p \<and> \<not> mproj_derived_purged p \<and> \<not> mproj_blob_erased p"

definition chunks_recorded :: "runtime \<Rightarrow> memory_fact list \<Rightarrow> memory_chunk list \<Rightarrow> bool" where
  "chunks_recorded rt fs chunks \<longleftrightarrow>
     (case filter (\<lambda>f. mfact_fact_type f = MemFact_CHUNK_COMPLETED) fs of
        [f] \<Rightarrow> map_of (mfact_payload f) ''chunk_count'' = Some (JInt (int (length chunks))) \<and>
               map_of (mfact_payload f) ''chunk_set_digest'' = Some (JStr (chunk_set_digest rt chunks))
      | _ \<Rightarrow> False)"

definition prior_rebuilds :: "memory_fact list \<Rightarrow> string \<Rightarrow> memory_fact list" where
  "prior_rebuilds fs rebuild_id = filter (\<lambda>f. mfact_fact_type f \<in> {MemFact_REBUILD_REQUESTED, MemFact_REBUILD_COMPLETED} \<and>
     map_of (mfact_payload f) ''rebuild_id'' = Some (JStr rebuild_id)) fs"

fun collect_items ::
  "'w memory_env \<Rightarrow> memory_record \<Rightarrow> embedding_result \<Rightarrow> memory_chunk list \<Rightarrow> ('w memory_state, indexed_chunk list) op" where
  "collect_items env m r [] = returnS []"
| "collect_items env m r (c # cs) =
     (case vector_of r (mchk_chunk_id c) of
        None \<Rightarrow> raiseS (KeyError (mchk_chunk_id c))
      | Some v \<Rightarrow>
          bindS (memory_now env) (\<lambda>now.
          bindS (collect_items env m r cs) (\<lambda>items.
          returnS (\<lparr>mit_record = m, mit_chunk = c, mit_vector = v, mit_indexed_at = now\<rparr> # items))))"

fun index_items :: "indexed_chunk list \<Rightarrow> ('w memory_state, unit) op" where
  "index_items [] = returnS ()"
| "index_items (i # is) = bindS (on_index (index_item i)) (\<lambda>_. index_items is)"

definition replace_index ::
  "'w memory_env \<Rightarrow> memory_record \<Rightarrow> string \<Rightarrow> string \<Rightarrow> memory_chunk list \<Rightarrow> embedding_result \<Rightarrow> ('w memory_state, nat) op" where
  "replace_index env m tenant_id memory_id chunks r =
     bindS (requireS (card (mvec_chunk_id ` set (mres_vectors r)) = length chunks)
              (IntegrityFailure ''memory rebuild embedding set is incomplete'')) (\<lambda>_.
     bindS (collect_items env m r chunks) (\<lambda>items.
     bindS (on_index (purge_index tenant_id memory_id)) (\<lambda>_.
     bindS (index_items items) (\<lambda>_. returnS (length items)))))"

definition rebuild_derived ::
  "'w memory_env \<Rightarrow> string \<Rightarrow> string \<Rightarrow> string \<Rightarrow> normalized_evidence \<Rightarrow> string \<Rightarrow> embedding_spec \<Rightarrow> ('w memory_state, memory_projection) op" where
  "rebuild_derived env tenant_id memory_id rebuild_id e actor spec =
     bindS (getS (\<lambda>s. mled_records (ms_ledger s) (tenant_id, memory_id))) (\<lambda>found.
     case found of None \<Rightarrow> raiseS (IntegrityFailure ''cannot rebuild unknown memory'') | Some m \<Rightarrow>
     bindS (getS (\<lambda>s. mled_projections (ms_ledger s) (tenant_id, memory_id))) (\<lambda>current.
     case current of None \<Rightarrow> raiseS (IntegrityFailure ''memory projection must be rebuilt before its index'') | Some p \<Rightarrow>
     bindS (requireS (rebuildable m p e spec) (IntegrityFailure ''memory rebuild bindings are invalid'')) (\<lambda>_.
     bindS (liftS (split_text (me_runtime env) (me_chunker env) (mrec_tenant_id m) (mrec_memory_id m) (mev_canonical_text e)
              (hd (mrec_citations m)))) (\<lambda>chunks.
     bindS (getS (\<lambda>s. memory_facts (ms_ledger s) (tenant_id, memory_id))) (\<lambda>fs.
     bindS (requireS (chunks_recorded (me_runtime env) fs chunks) (IntegrityFailure ''memory rebuild chunk set differs from ledger'')) (\<lambda>_.
     bindS (liftS (rebuild_request_of (me_runtime env) m tenant_id memory_id rebuild_id spec chunks)) (\<lambda>request.
     bindS (requireS (list_all (\<lambda>f. map_of (mfact_payload f) ''request_digest'' = Some (JStr (mreq_request_digest request))) (prior_rebuilds fs rebuild_id))
              (IdempotencyConflict ''memory rebuild replay changed'')) (\<lambda>_.
     if list_ex (\<lambda>f. mfact_fact_type f = MemFact_REBUILD_COMPLETED) (prior_rebuilds fs rebuild_id) then returnS p
     else
       bindS (append_memory env m (mproj_version p) MemFact_REBUILD_REQUESTED (''rebuild-requested:'' @ rebuild_id) actor
                [(''rebuild_id'', JStr rebuild_id), (''request_digest'', JStr (mreq_request_digest request)),
                 (''record_digest'', JStr (mrec_canonical_digest m)), (''spec_digest'', JStr (embedding_spec_digest (me_runtime env) spec))]) (\<lambda>q.
       bindS (on_world (me_embed env request)) (\<lambda>r.
       bindS (replace_index env m tenant_id memory_id chunks r) (\<lambda>n.
       append_memory env m (mproj_version q) MemFact_REBUILD_COMPLETED (''rebuild-completed:'' @ rebuild_id) actor
         [(''rebuild_id'', JStr rebuild_id), (''indexed_count'', JInt (int n)), (''request_digest'', JStr (mreq_request_digest request)),
          (''result_digest'', JStr (mres_result_digest r))])))))))))))"

section \<open>Erasure, supersession and holds\<close>

definition memory_lookup :: "string \<Rightarrow> string \<Rightarrow> ('w memory_state, (memory_record \<times> memory_projection) option) op" where
  "memory_lookup tenant_id memory_id = getS (\<lambda>s.
     case (mled_records (ms_ledger s) (tenant_id, memory_id), mled_projections (ms_ledger s) (tenant_id, memory_id)) of
       (Some m, Some p) \<Rightarrow> Some (m, p) | _ \<Rightarrow> None)"

definition require_memory :: "string \<Rightarrow> string \<Rightarrow> string \<Rightarrow> ('w memory_state, memory_record \<times> memory_projection) op" where
  "require_memory message tenant_id memory_id =
     bindS (memory_lookup tenant_id memory_id) (\<lambda>found.
     case found of None \<Rightarrow> raiseS (IntegrityFailure message) | Some x \<Rightarrow> returnS x)"

definition tombstone_and_erase ::
  "'w memory_env \<Rightarrow> (erasable_blob \<Rightarrow> ('w, unit) op) \<Rightarrow> string \<Rightarrow> string \<Rightarrow> string \<Rightarrow> string \<Rightarrow> ('w memory_state, memory_projection) op" where
  "tombstone_and_erase env erase_blob tenant_id memory_id actor reason_code =
     bindS (require_memory ''memory is missing'' tenant_id memory_id) (\<lambda>(m, p).
     bindS (requireS (mproj_legal_hold_count p = 0 \<and> \<not> retention_held (mrec_retention m)) (PolicyDenied ''memory is under legal hold'')) (\<lambda>_.
     bindS (append_memory env m (mproj_version p) MemFact_TOMBSTONED ''tombstone'' actor [(''reason_code'', JStr reason_code)]) (\<lambda>p.
     bindS (on_index (purge_index tenant_id memory_id)) (\<lambda>purged.
     bindS (append_memory env m (mproj_version p) MemFact_DERIVED_PURGED ''purge'' actor [(''purged_count'', JInt (int purged))]) (\<lambda>p.
     bindS (on_world (erase_blob (mrec_blob m))) (\<lambda>_.
     append_memory env m (mproj_version p) MemFact_CRYPTO_ERASED ''crypto-erase'' actor
       [(''blob_ref_digest'', JStr (sha256_hexdigest (me_runtime env) (mblob_blob_ref (mrec_blob m))))]))))))"

fun supersede_each ::
  "'w memory_env \<Rightarrow> memory_record \<Rightarrow> string \<Rightarrow> string list \<Rightarrow> memory_projection list \<Rightarrow> ('w memory_state, memory_projection list) op" where
  "supersede_each env replacement actor [] ps = returnS ps"
| "supersede_each env replacement actor (memory_id # ids) ps =
     bindS (require_memory ''superseded memory is missing'' (mrec_tenant_id replacement) memory_id) (\<lambda>(m, p).
     bindS (requireS (mproj_status p \<in> {Mem_ACCEPTED, Mem_ACTIVE}) (IntegrityFailure ''superseded memory is not active'')) (\<lambda>_.
     bindS (append_memory env m (mproj_version p) MemFact_SUPERSEDED (''superseded-by:'' @ mrec_memory_id replacement) actor
              [(''replacement_ref'', JStr (stable_id (me_runtime env) ''memory-ref'' [mrec_tenant_id replacement, mrec_memory_id replacement] 32)),
               (''replacement_digest'', JStr (mrec_canonical_digest replacement))]) (\<lambda>q.
     bindS (on_index (purge_index (mrec_tenant_id replacement) memory_id)) (\<lambda>_.
     supersede_each env replacement actor ids (ps @ [q])))))"

definition supersede ::
  "'w memory_env \<Rightarrow> memory_record \<Rightarrow> string list \<Rightarrow> string \<Rightarrow> ('w memory_state, memory_projection list) op" where
  "supersede env replacement replaced_memory_ids actor =
     (let expected = normalize_authority replaced_memory_ids in
      bindS (requireS (mrec_supersedes replacement = expected \<and> mrec_status replacement \<in> {Mem_ACCEPTED, Mem_ACTIVE})
               (PolicyDenied ''replacement memory lacks exact accepted supersession'')) (\<lambda>_.
      supersede_each env replacement actor expected []))"

definition set_legal_hold ::
  "'w memory_env \<Rightarrow> string \<Rightarrow> string \<Rightarrow> string \<Rightarrow> bool \<Rightarrow> string \<Rightarrow> ('w memory_state, memory_projection) op" where
  "set_legal_hold env tenant_id memory_id hold_ref applied actor =
     bindS (require_memory ''memory is missing'' tenant_id memory_id) (\<lambda>(m, p).
     append_memory env m (mproj_version p) (if applied then MemFact_LEGAL_HOLD_APPLIED else MemFact_LEGAL_HOLD_RELEASED)
       (''legal-hold:'' @ (if applied then ''apply'' else ''release'') @ '':'' @ hold_ref) actor
       [(''hold_ref_digest'', JStr (sha256_hexdigest (me_runtime env) hold_ref))])"

end
