(* ===== verification/Memory_Contract.thy ===== *)
theory Memory_Contract
  imports Memory_Service Remediation_Progress
begin

text \<open>
  What holds of the memory ledger after any history of its operations, and when the appends of the lifecycle service
  succeed.
\<close>

section \<open>Appends\<close>

definition mem_key :: "memory_append_call \<Rightarrow> string \<times> string" where
  "mem_key a = (mcall_tenant_id a, mcall_memory_id a)"

definition mem_command :: "memory_append_call \<Rightarrow> string \<times> string" where
  "mem_command a = (mcall_tenant_id a, mcall_command_id a)"

definition after_memory :: "runtime \<Rightarrow> memory_append_call \<Rightarrow> memory_projection \<Rightarrow> memory_ledger \<Rightarrow> memory_ledger" where
  "after_memory rt a p l =
     l\<lparr>mled_facts := (mled_facts l)(mem_key a \<mapsto> memory_facts l (mem_key a) @ [make_memory_fact rt a (mled_projections l (mem_key a))]),
       mled_commands := (mled_commands l)(mem_command a \<mapsto> memory_fingerprint rt a),
       mled_projections := (mled_projections l)(mem_key a \<mapsto> p)\<rparr>"

lemma after_memory_simps [simp]:
  "mled_records (after_memory rt a p l) = mled_records l"
  "mled_projections (after_memory rt a p l) = (mled_projections l)(mem_key a \<mapsto> p)"
  "mled_commands (after_memory rt a p l) = (mled_commands l)(mem_command a \<mapsto> memory_fingerprint rt a)"
  "memory_facts (after_memory rt a p l) =
     (memory_facts l)(mem_key a := memory_facts l (mem_key a) @ [make_memory_fact rt a (mled_projections l (mem_key a))])"
  by (auto simp: after_memory_def memory_facts_def get_default_def fun_eq_iff)

lemma memory_append_cases:
  assumes "memory_append rt a l = (r, l')"
  obtains (kept) "l' = l"
  | (added) m p where "r = Inr p" "mled_records l (mem_key a) = Some m" "mled_commands l (mem_command a) = None"
      "valid_memory_fact rt (make_memory_fact rt a (mled_projections l (mem_key a)))"
      "reduce_memory rt (mled_projections l (mem_key a)) (make_memory_fact rt a (mled_projections l (mem_key a))) m = Inr p"
      "l' = after_memory rt a p l"
proof (cases "l' = l")
  case True
  with kept show ?thesis .
next
  case False
  note step = assms [unfolded memory_append_def Let_def, folded mem_key_def mem_command_def]
  from step False obtain m where m: "mled_records l (mem_key a) = Some m" by (cases "mled_records l (mem_key a)") simp_all
  show ?thesis
  proof (cases "reduce_memory rt (mled_projections l (mem_key a)) (make_memory_fact rt a (mled_projections l (mem_key a))) m")
    case (Inl e)
    with step False m show ?thesis by (simp split: option.splits if_splits)
  next
    case (Inr p)
    with step False m added [of p m] show ?thesis by (simp add: after_memory_def split: option.splits if_splits)
  qed
qed

lemma memory_append_succeeds:
  assumes "mled_records l (mem_key a) = Some m" "mled_commands l (mem_command a) = None"
    "current_version (mled_projections l (mem_key a)) = mcall_expected_version a"
    "valid_memory_fact rt (make_memory_fact rt a (mled_projections l (mem_key a)))"
    "reduce_memory rt (mled_projections l (mem_key a)) (make_memory_fact rt a (mled_projections l (mem_key a))) m = Inr p"
  shows "memory_append rt a l = (Inr p, after_memory rt a p l)"
  using assms by (simp add: memory_append_def Let_def mem_key_def mem_command_def after_memory_def)

lemma memory_append_known:
  assumes "mled_records l (mem_key a) = Some m" "mled_commands l (mem_command a) = Some x"
  shows "memory_append rt a l =
    (if x \<noteq> memory_fingerprint rt a then (Inl (IdempotencyConflict ''memory command replay changed''), l)
     else case mled_projections l (mem_key a) of None \<Rightarrow> (Inl (KeyError ''projection''), l) | Some p \<Rightarrow> (Inr p, l))"
  using assms by (simp add: memory_append_def Let_def mem_key_def mem_command_def)

lemma make_memory_fact_fields:
  fixes rt a c
  defines "f \<equiv> make_memory_fact rt a c"
  shows "mfact_tenant_id f = mcall_tenant_id a" "mfact_memory_id f = mcall_memory_id a" "mfact_sequence f = current_version c + 1"
    "mfact_fact_type f = mcall_fact_type a" "mfact_command_id f = mcall_command_id a" "mfact_actor_ref f = mcall_actor_ref a"
    "mfact_recorded_at f = mcall_recorded_at a" "mfact_payload f = dict_sorted (mcall_payload a)"
    "mfact_previous_digest f = current_digest c" "mfact_fact_digest f = canonical_digest rt (memory_fact_document f)"
    "mfact_fact_id f = stable_id rt ''memory-fact'' [mcall_tenant_id a, mcall_memory_id a, nat_str (current_version c + 1), mcall_command_id a] 32"
  by (simp_all add: f_def make_memory_fact_def Let_def memory_fact_document_def)

section \<open>The reducer\<close>

text \<open>Flags only go up, in their order; the count of holds is bounded.\<close>

definition flags_ordered :: "memory_projection \<Rightarrow> bool" where
  "flags_ordered p \<longleftrightarrow> (mproj_blob_erased p \<longrightarrow> mproj_derived_purged p) \<and> (mproj_derived_purged p \<longrightarrow> mproj_tombstoned p) \<and>
     (mproj_status p = Mem_ERASED \<longrightarrow> mproj_blob_erased p) \<and> mproj_legal_hold_count p \<le> 16 \<and> mproj_chunk_count p \<le> 10000"

definition flags_kept :: "memory_projection \<Rightarrow> memory_projection \<Rightarrow> bool" where
  "flags_kept p q \<longleftrightarrow> (mproj_tombstoned p \<longrightarrow> mproj_tombstoned q) \<and> (mproj_derived_purged p \<longrightarrow> mproj_derived_purged q) \<and>
     (mproj_blob_erased p \<longrightarrow> mproj_blob_erased q) \<and> mproj_version p \<le> mproj_version q"

lemma bounded_count_Inr: "bounded_count v n = Inr k \<Longrightarrow> k \<le> n"
  by (cases "(v, n)" rule: bounded_count.cases) (auto split: if_splits)

lemma apply_flags:
  assumes "apply_memory_fact p f = Inr q" "flags_ordered p"
  shows "flags_ordered q \<and> flags_kept p q \<and> mproj_version q = mproj_version p"
  using assms
  by (cases "mfact_fact_type f")
    (auto simp: apply_memory_fact_def flags_ordered_def flags_kept_def split: if_splits dest: bounded_count_Inr)

lemma reduce_memory_some:
  assumes "reduce_memory rt (Some p) f m = Inr q" "flags_ordered p"
  shows "flags_ordered q" "flags_kept p q" "mproj_version q = Suc (mproj_version p)" "(mproj_tenant_id q, mproj_memory_id q) = memory_key m"
    "mproj_last_fact_digest q = mfact_fact_digest f"
proof -
  from assms(1) obtain x where x: "apply_memory_fact p f = Inr x" "mfact_sequence f = mproj_version p + 1"
    and q: "q = x\<lparr>mproj_tenant_id := mfact_tenant_id f, mproj_memory_id := mfact_memory_id f, mproj_tier := mrec_tier m,
      mproj_version := mfact_sequence f, mproj_record_digest := mrec_canonical_digest m,
      mproj_last_fact_digest := mfact_fact_digest f, mproj_updated_at := mfact_recorded_at f\<rparr>"
    and ids: "mfact_tenant_id f = mrec_tenant_id m" "mfact_memory_id f = mrec_memory_id m"
    by (auto simp: reduce_memory_def Let_def)
  from apply_flags [OF x(1) assms(2)] x(2) show "flags_ordered q" "flags_kept p q" "mproj_version q = Suc (mproj_version p)"
    by (auto simp: q flags_ordered_def flags_kept_def)
  show "(mproj_tenant_id q, mproj_memory_id q) = memory_key m" "mproj_last_fact_digest q = mfact_fact_digest f"
    by (simp_all add: q ids memory_key_def)
qed

lemma reduce_memory_none:
  assumes "reduce_memory rt None f m = Inr q"
  shows "flags_ordered q" "mproj_version q = 1" "(mproj_tenant_id q, mproj_memory_id q) = memory_key m"
    "mproj_last_fact_digest q = mfact_fact_digest f"
  using assms by (auto simp: reduce_memory_def Let_def apply_memory_fact_def blank_projection_def flags_ordered_def memory_key_def)

lemma replay_memory_append [simp]:
  "replay_memory rt m (fs @ gs) c = bindE (replay_memory rt m fs c) (replay_memory rt m gs)"
proof (induction fs arbitrary: c)
  case (Cons f fs)
  then show ?case by (cases "reduce_memory rt c f m") simp_all
qed simp

section \<open>Histories\<close>

inductive memory_step :: "runtime \<Rightarrow> memory_ledger \<Rightarrow> memory_ledger \<Rightarrow> bool" for rt where
  step_put: "put_record m l = (r, l') \<Longrightarrow> memory_step rt l l'"
| step_append: "memory_append rt a l = (r, l') \<Longrightarrow> memory_step rt l l'"
| step_rebuild: "memory_rebuild rt t x l = (r, l') \<Longrightarrow> memory_step rt l l'"

definition memory_reachable :: "runtime \<Rightarrow> memory_ledger \<Rightarrow> bool" where
  "memory_reachable rt l \<longleftrightarrow> (memory_step rt)\<^sup>*\<^sup>* empty_memory_ledger l"

definition log_matches :: "runtime \<Rightarrow> memory_ledger \<Rightarrow> string \<times> string \<Rightarrow> bool" where
  "log_matches rt l k \<longleftrightarrow>
     (case mled_records l k of
        None \<Rightarrow> memory_facts l k = [] \<and> mled_projections l k = None
      | Some m \<Rightarrow> memory_key m = k \<and> replay_memory rt m (memory_facts l k) None = Inr (mled_projections l k)) \<and>
     (case mled_projections l k of
        None \<Rightarrow> memory_facts l k = []
      | Some p \<Rightarrow> flags_ordered p \<and> (mproj_tenant_id p, mproj_memory_id p) = k \<and> mproj_version p = length (memory_facts l k) \<and>
          hex64 (mproj_last_fact_digest p) \<and> valid_identifier (fst k) \<and> valid_identifier (snd k))"

definition memory_ok :: "runtime \<Rightarrow> memory_ledger \<Rightarrow> bool" where
  "memory_ok rt l \<longleftrightarrow> (\<forall>k. log_matches rt l k)"

lemma memory_okD: "memory_ok rt l \<Longrightarrow> log_matches rt l k"
  unfolding memory_ok_def by blast

text \<open>What a step leaves of an aggregate.\<close>

definition memory_extends :: "memory_ledger \<Rightarrow> memory_ledger \<Rightarrow> bool" where
  "memory_extends l l' \<longleftrightarrow> (\<forall>k. prefix (memory_facts l k) (memory_facts l' k)) \<and> mled_records l \<subseteq>\<^sub>m mled_records l' \<and>
     mled_commands l \<subseteq>\<^sub>m mled_commands l' \<and>
     (\<forall>k p. mled_projections l k = Some p \<longrightarrow> (\<exists>q. mled_projections l' k = Some q \<and> flags_kept p q))"

lemma memory_extends_refl [simp]: "memory_extends l l"
  by (simp add: memory_extends_def flags_kept_def)

lemma flags_kept_trans: "flags_kept p q \<Longrightarrow> flags_kept q r \<Longrightarrow> flags_kept p r"
  by (auto simp: flags_kept_def)

lemma memory_extends_trans: "memory_extends l l' \<Longrightarrow> memory_extends l' l'' \<Longrightarrow> memory_extends l l''"
  unfolding memory_extends_def by (meson flags_kept_trans map_le_trans prefix_order.trans)

lemma append_step_ok:
  assumes "memory_append rt a l = (r, l')" "memory_ok rt l"
  shows "memory_ok rt l' \<and> memory_extends l l'"
  using assms(1)
proof (cases rule: memory_append_cases)
  case kept
  with assms(2) show ?thesis by simp
next
  case (added m p)
  let ?k = "mem_key a"
  let ?f = "make_memory_fact rt a (mled_projections l ?k)"
  have log: "memory_key m = ?k" "replay_memory rt m (memory_facts l ?k) None = Inr (mled_projections l ?k)"
    and now: "mled_projections l ?k = None \<Longrightarrow> memory_facts l ?k = []"
      "\<And>q. mled_projections l ?k = Some q \<Longrightarrow> flags_ordered q \<and> mproj_version q = length (memory_facts l ?k)"
    using memory_okD [OF assms(2), of ?k] added(2) by (simp_all add: log_matches_def)
  have replay: "replay_memory rt m (memory_facts l ?k @ [?f]) None = Inr (Some p)" using log(2) added(5) by simp
  have p: "flags_ordered p \<and> (mproj_tenant_id p, mproj_memory_id p) = ?k \<and> mproj_version p = Suc (length (memory_facts l ?k)) \<and>
    mproj_last_fact_digest p = mfact_fact_digest ?f"
  proof (cases "mled_projections l ?k")
    case None
    with added(5) reduce_memory_none [of rt ?f m p] log(1) now(1) show ?thesis by simp
  next
    case (Some q)
    with added(5) reduce_memory_some [of rt q ?f m p] log(1) now(2) show ?thesis by simp
  qed
  have fact: "hex64 (mfact_fact_digest ?f)" "valid_identifier (fst ?k)" "valid_identifier (snd ?k)"
    using added(4) by (simp_all add: valid_memory_fact_def make_memory_fact_def Let_def mem_key_def)
  have kept: "flags_kept q p" if "mled_projections l ?k = Some q" for q
    using added(5) reduce_memory_some(2) [of rt q ?f m p] now(2) that by simp
  have "log_matches rt l' k" for k
    using memory_okD [OF assms(2), of k] added(2,6) log(1) replay p fact
    by (cases "k = ?k") (auto simp: log_matches_def simp del: replay_memory_append split: option.splits)
  then have "memory_ok rt l'" unfolding memory_ok_def by blast
  moreover have "memory_extends l l'"
    using added(3,6) kept by (auto simp: memory_extends_def map_le_def flags_kept_def)
  ultimately show ?thesis ..
qed

lemma rebuild_step_same:
  assumes "memory_rebuild rt t x l = (r, l')" "memory_ok rt l"
  shows "l' = l"
proof (cases "mled_records l (t, x)")
  case (Some m)
  with memory_okD [OF assms(2), of "(t, x)"] have "replay_memory rt m (memory_facts l (t, x)) None = Inr (mled_projections l (t, x))"
    by (simp add: log_matches_def)
  with assms(1) Some show ?thesis by (auto simp: memory_rebuild_def split: option.splits)
qed (use assms(1) in \<open>simp add: memory_rebuild_def\<close>)

lemma put_step_ok:
  assumes "put_record m l = (r, l')" "memory_ok rt l"
  shows "memory_ok rt l' \<and> memory_extends l l'"
proof (cases "mled_records l (memory_key m)")
  case None
  with assms(1) have l': "l' = l\<lparr>mled_records := (mled_records l)(memory_key m \<mapsto> m)\<rparr>" by (simp add: put_record_def)
  have same: "memory_facts l' = memory_facts l" "mled_projections l' = mled_projections l" "mled_commands l' = mled_commands l"
    by (simp_all add: l' memory_facts_def fun_eq_iff)
  have rec: "mled_records l' = (mled_records l)(memory_key m \<mapsto> m)" by (simp add: l')
  have none: "memory_facts l (memory_key m) = [] \<and> mled_projections l (memory_key m) = None"
    using memory_okD [OF assms(2), of "memory_key m"] None by (simp add: log_matches_def)
  have "log_matches rt l' k" for k
    using memory_okD [OF assms(2), of k] none by (cases "k = memory_key m") (auto simp: log_matches_def same rec split: option.splits)
  moreover have "memory_extends l l'" using None by (auto simp: memory_extends_def same rec map_le_def flags_kept_def)
  ultimately show ?thesis unfolding memory_ok_def by blast
qed (use assms in \<open>auto simp: put_record_def split: if_splits\<close>)

lemma memory_step_ok:
  assumes "memory_step rt l l'" "memory_ok rt l"
  shows "memory_ok rt l' \<and> memory_extends l l'"
  using assms by cases (use assms(2) put_step_ok append_step_ok rebuild_step_same in \<open>blast | fastforce\<close>)+

lemma memory_steps_ok:
  "(memory_step rt)\<^sup>*\<^sup>* l l' \<Longrightarrow> memory_ok rt l \<Longrightarrow> memory_ok rt l' \<and> memory_extends l l'"
proof (induction rule: rtranclp_induct)
  case (step l1 l2)
  then show ?case using memory_step_ok memory_extends_trans by blast
qed simp

lemma memory_reachable_ok: "memory_reachable rt l \<Longrightarrow> memory_ok rt l"
proof -
  assume "memory_reachable rt l"
  moreover have "memory_ok rt empty_memory_ledger"
    by (simp add: memory_ok_def log_matches_def empty_memory_ledger_def memory_facts_def get_default_def)
  ultimately show ?thesis using memory_steps_ok unfolding memory_reachable_def by blast
qed

end
