(* ===== verification/Memory_Progress.thy ===== *)
theory Memory_Progress
  imports Memory_Contract
begin

text \<open>
  The appends of the lifecycle service on a ledger that holds the memory: a new command is accepted when the reducer accepts
  its fact, a known command is answered from the ledger or refused.
\<close>

section \<open>The size of a payload\<close>

lemma utf8_length_le: "utf8_length s \<le> 2 * length s"
  by (induction s) (simp_all add: utf8_length_def)

lemma utf8_length_Cons: "utf8_length (c # s) = (if (of_char c :: nat) < 128 then 1 else 2) + utf8_length s"
  by (simp add: utf8_length_def)

lemma utf8_repr_char: "utf8_length (repr_char q c) \<le> 4"
proof -
  have "(of_char (hex_digit n) :: nat) < 128" if "n < 16" for n
    using that by (auto simp: of_char_hex_digit hex_digit_def of_char_mod_256)
  moreover have "(of_char c :: nat) div 16 < 16" "(of_char c :: nat) mod 16 < 16" using of_char_nat_less [of c] by (simp_all add: less_mult_imp_div_less)
  ultimately show ?thesis by (auto simp: repr_char_def utf8_length_def)
qed

lemma utf8_repr_str: "utf8_length (repr_str s) \<le> 4 * length s + 2"
proof -
  have "utf8_length (concat (map (repr_char q) s)) \<le> 4 * length s" for q
    by (induction s) (use utf8_repr_char [of q] in \<open>auto simp: utf8_length_def intro: add_mono\<close>)
  note this [of "CHR 0x22"] this [of "CHR 0x27"]
  moreover have "utf8_length [CHR 0x22] = 1" "utf8_length [CHR 0x27] = 1" by (simp_all add: utf8_length_def)
  ultimately show ?thesis
    by (simp add: repr_str_def Let_def utf8_length_def)
qed

text \<open>A payload that \<open>MemoryFact\<close> accepts.\<close>

definition small_payload :: "runtime \<Rightarrow> dict \<Rightarrow> bool" where
  "small_payload rt d \<longleftrightarrow> length d \<le> 32 \<and> utf8_length (py_repr rt (JObj (dict_sorted d))) \<le> max_fact_bytes \<and>
     \<not> list_ex (\<lambda>k. map_of (dict_sorted d) k \<noteq> None) sensitive_keys"

lemma small_singleton:
  assumes "utf8_length (py_repr rt v) \<le> 8000" "length k \<le> 64" "k \<notin> set sensitive_keys"
  shows "small_payload rt [(k, v)]"
proof -
  have "utf8_length (repr_str k) \<le> 258" using utf8_repr_str [of k] assms(2) by linarith
  moreover have "utf8_length ''}'' = 1" by (simp add: utf8_length_def)
  ultimately show ?thesis using assms
    by (auto simp: small_payload_def dict_sorted_def max_fact_bytes_def sensitive_keys_def list_ex_iff utf8_length_Cons)
qed

lemma small_text: "length s \<le> 128 \<Longrightarrow> utf8_length (py_repr rt (JStr s)) \<le> 8000"
  using utf8_repr_str [of s] by simp

lemma small_count: "n < 10 ^ 100 \<Longrightarrow> utf8_length (py_repr rt (JInt (int n))) \<le> 8000"
  using length_nat_str [of n 100] utf8_length_le [of "nat_str n"] by (simp add: int_str_def)

section \<open>Appends of the service\<close>

definition mem_at :: "runtime \<Rightarrow> memory_record \<Rightarrow> memory_projection \<Rightarrow> 'w memory_state \<Rightarrow> bool" where
  "mem_at rt m p s \<longleftrightarrow> memory_ok rt (ms_ledger s) \<and> mled_records (ms_ledger s) (memory_key m) = Some m \<and>
     mled_projections (ms_ledger s) (memory_key m) = Some p"

definition command_of :: "runtime \<Rightarrow> memory_record \<Rightarrow> string \<Rightarrow> 'w memory_state \<Rightarrow> string option" where
  "command_of rt m ending s = mled_commands (ms_ledger s) (mrec_tenant_id m, memory_command rt m ending)"

definition mark_of :: "runtime \<Rightarrow> memory_record \<Rightarrow> memory_fact_type \<Rightarrow> dict \<Rightarrow> string" where
  "mark_of rt m ty payload = canonical_digest rt (JObj [(''fact_type'', JStr (memory_fact_value ty)), (''memory_id'', JStr (mrec_memory_id m)),
     (''payload'', JObj (dict_sorted payload))])"

lemma memory_call_simps [simp]:
  "mem_key (memory_call rt m v ty ending actor payload now) = memory_key m"
  "mem_command (memory_call rt m v ty ending actor payload now) = (mrec_tenant_id m, memory_command rt m ending)"
  "mcall_expected_version (memory_call rt m v ty ending actor payload now) = v"
  "memory_fingerprint rt (memory_call rt m v ty ending actor payload now) = mark_of rt m ty payload"
  "mcall_tenant_id (memory_call rt m v ty ending actor payload now) = mrec_tenant_id m"
  "mcall_memory_id (memory_call rt m v ty ending actor payload now) = mrec_memory_id m"
  "mcall_fact_type (memory_call rt m v ty ending actor payload now) = ty" "mcall_payload (memory_call rt m v ty ending actor payload now) = payload"
  "mcall_actor_ref (memory_call rt m v ty ending actor payload now) = actor"
  "mcall_command_id (memory_call rt m v ty ending actor payload now) = memory_command rt m ending"
  by (simp_all add: memory_call_def mem_key_def memory_key_def mem_command_def memory_fingerprint_def mark_of_def)

lemma append_memory_eq:
  assumes "memory_append (me_runtime env) (memory_call (me_runtime env) m v ty ending actor payload (me_clock env (ms_ticks s))) (ms_ledger s) = (r, l)"
  shows "append_memory env m v ty ending actor payload s = (r, s\<lparr>ms_ledger := l, ms_ticks := Suc (ms_ticks s)\<rparr>)"
  using assms by (simp add: append_memory_def memory_now_def on_memory_ledger_def op_defs)

lemma append_memory_known:
  assumes "mem_at (me_runtime env) m p s" "command_of (me_runtime env) m ending s = Some x"
  shows "append_memory env m v ty ending actor payload s =
    (if x \<noteq> mark_of (me_runtime env) m ty payload then Inl (IdempotencyConflict ''memory command replay changed'') else Inr p,
     s\<lparr>ms_ticks := Suc (ms_ticks s)\<rparr>)"
proof -
  let ?a = "memory_call (me_runtime env) m v ty ending actor payload (me_clock env (ms_ticks s))"
  have "memory_append (me_runtime env) ?a (ms_ledger s) =
    (if x \<noteq> mark_of (me_runtime env) m ty payload then Inl (IdempotencyConflict ''memory command replay changed'') else Inr p, ms_ledger s)"
    using memory_append_known [of "ms_ledger s" ?a m x] assms by (simp add: mem_at_def command_of_def)
  from append_memory_eq [OF this] show ?thesis by simp
qed

text \<open>The new projection is the reducer's, up to the identity, version, digest and time it takes from the fact.\<close>

definition same_flags :: "memory_projection \<Rightarrow> memory_projection \<Rightarrow> bool" where
  "same_flags x q \<longleftrightarrow> mproj_status q = mproj_status x \<and> mproj_indexed q = mproj_indexed x \<and> mproj_tombstoned q = mproj_tombstoned x \<and>
     mproj_legal_hold_count q = mproj_legal_hold_count x \<and> mproj_derived_purged q = mproj_derived_purged x \<and>
     mproj_blob_erased q = mproj_blob_erased x \<and> mproj_chunk_count q = mproj_chunk_count x"

definition mem_appended ::
  "runtime \<Rightarrow> memory_record \<Rightarrow> memory_fact_type \<Rightarrow> string \<Rightarrow> dict \<Rightarrow> 'w memory_state \<Rightarrow> memory_projection \<Rightarrow> 'w memory_state \<Rightarrow> bool" where
  "mem_appended rt m ty ending payload s q s' \<longleftrightarrow>
     mem_at rt m q s' \<and> ms_index s' = ms_index s \<and> ms_world s' = ms_world s \<and>
     mled_commands (ms_ledger s') = (mled_commands (ms_ledger s))((mrec_tenant_id m, memory_command rt m ending) \<mapsto> mark_of rt m ty payload) \<and>
     map mfact_fact_type (memory_facts (ms_ledger s') (memory_key m)) = map mfact_fact_type (memory_facts (ms_ledger s) (memory_key m)) @ [ty]"

lemma append_memory_new:
  assumes sh: "sha256_shape (me_runtime env)" and at: "mem_at (me_runtime env) m p s" and new: "command_of (me_runtime env) m ending s = None"
    and actor: "valid_identifier actor" and small: "small_payload (me_runtime env) payload"
    and ok: "\<And>f. mfact_fact_type f = ty \<Longrightarrow> mfact_payload f = dict_sorted payload \<Longrightarrow> apply_memory_fact p f = Inr x"
  shows "\<exists>q s'. append_memory env m (mproj_version p) ty ending actor payload s = (Inr q, s') \<and>
    mem_appended (me_runtime env) m ty ending payload s q s' \<and> same_flags x q"
proof -
  let ?rt = "me_runtime env" and ?l = "ms_ledger s"
  let ?a = "memory_call ?rt m (mproj_version p) ty ending actor payload (me_clock env (ms_ticks s))"
  let ?f = "make_memory_fact ?rt ?a (Some p)"
  have rec: "mled_records ?l (memory_key m) = Some m" and proj: "mled_projections ?l (memory_key m) = Some p" and inv: "memory_ok ?rt ?l"
    using at by (simp_all add: mem_at_def)
  have "log_matches ?rt ?l (memory_key m)" by (rule memory_okD [OF inv])
  then have p: "hex64 (mproj_last_fact_digest p)" "valid_identifier (mrec_tenant_id m)" "valid_identifier (mrec_memory_id m)"
    using proj by (simp_all add: log_matches_def memory_key_def)
  have "list_all ident_char ''memory-fact''" "list_all ident_char ''memory-command''" by (simp_all add: ident_char_def)
  then have ids: "valid_identifier (mfact_fact_id ?f)" "valid_identifier (memory_command ?rt m ending)"
    using valid_stable_id [OF sh] by (simp_all add: make_memory_fact_fields memory_command_def)
  have "hex64 (mfact_fact_digest ?f)"
    using sh by (simp add: make_memory_fact_fields canonical_digest_def sha256_shape_def del: render.simps norm_json.simps)
  with ids p actor small have vf: "valid_memory_fact ?rt ?f"
    by (simp add: valid_memory_fact_def make_memory_fact_fields small_payload_def current_digest_def dict_sorted_def)
  have ap: "apply_memory_fact p ?f = Inr x" by (rule ok) (simp_all add: make_memory_fact_fields)
  have "\<exists>q. reduce_memory ?rt (Some p) ?f m = Inr q \<and> same_flags x q"
    by (simp add: reduce_memory_def ap make_memory_fact_fields(1-3,9,10) current_version_def current_digest_def same_flags_def)
  then obtain q where q: "reduce_memory ?rt (Some p) ?f m = Inr q" "same_flags x q" by blast
  have ap2: "memory_append ?rt ?a ?l = (Inr q, after_memory ?rt ?a q ?l)"
    using rec proj new vf q(1) by (intro memory_append_succeeds) (simp_all add: command_of_def current_version_def)
  have "memory_ok ?rt (after_memory ?rt ?a q ?l)" using append_step_ok [OF ap2 inv] by blast
  with rec proj have "mem_appended ?rt m ty ending payload s q (s\<lparr>ms_ledger := after_memory ?rt ?a q ?l, ms_ticks := Suc (ms_ticks s)\<rparr>)"
    by (simp add: mem_appended_def mem_at_def make_memory_fact_fields(4))
  with append_memory_eq [OF ap2] q(2) show ?thesis by blast
qed

section \<open>Erasure\<close>

lemma require_memory_found:
  assumes "mem_at rt m p s" "memory_key m = (t, x)"
  shows "require_memory msg t x s = (Inr (m, p), s)"
  using assms by (simp add: require_memory_def memory_lookup_def op_defs mem_at_def)

definition no_derived :: "string \<Rightarrow> string \<Rightarrow> hybrid_index \<Rightarrow> bool" where
  "no_derived t x i \<longleftrightarrow> list_all (\<lambda>e. \<not> of_memory t x (snd e)) (mix_items i) \<and> list_all (\<lambda>e. fst (fst e) \<noteq> t) (mix_cache i)"

lemma purge_no_derived: "no_derived t x (snd (purge_index t x i))"
  by (simp add: purge_index_def no_derived_def drop_cache_def list_all_iff)

lemma purge_nothing: "no_derived t x i \<Longrightarrow> purge_index t x i = (Inr 0, i)"
  by (cases i) (simp add: purge_index_def no_derived_def drop_cache_def list_all_iff filter_id_conv)

lemma mem_at_ticks [simp]: "mem_at rt m p (s\<lparr>ms_ticks := n\<rparr>) = mem_at rt m p s" "mem_at rt m p (s\<lparr>ms_index := i\<rparr>) = mem_at rt m p s"
  "mem_at rt m p (s\<lparr>ms_world := w\<rparr>) = mem_at rt m p s"
  by (simp_all add: mem_at_def)

lemma command_of_ticks [simp]: "command_of rt m e (s\<lparr>ms_ticks := n\<rparr>) = command_of rt m e s"
  "command_of rt m e (s\<lparr>ms_index := i\<rparr>) = command_of rt m e s" "command_of rt m e (s\<lparr>ms_world := w\<rparr>) = command_of rt m e s"
  by (simp_all add: command_of_def)

lemma appended_command:
  "mem_appended rt m ty e payload s q s' \<Longrightarrow>
   command_of rt m e' s' = (if memory_command rt m e' = memory_command rt m e then Some (mark_of rt m ty payload) else command_of rt m e' s)"
  by (simp add: mem_appended_def command_of_def)

definition purged_count :: "string \<Rightarrow> string \<Rightarrow> hybrid_index \<Rightarrow> nat" where
  "purged_count t x i = length (filter (\<lambda>e. of_memory t x (snd e)) (mix_items i))"

lemma purge_index_eq: "on_index (purge_index t x) s = (Inr (purged_count t x (ms_index s)), s\<lparr>ms_index := snd (purge_index t x (ms_index s))\<rparr>)"
  by (simp add: on_index_def op_defs purge_index_def purged_count_def)

text \<open>A memory without holds, whose erasure has not been asked for.\<close>

definition erasable :: "runtime \<Rightarrow> memory_record \<Rightarrow> memory_projection \<Rightarrow> 'w memory_state \<Rightarrow> bool" where
  "erasable rt m p s \<longleftrightarrow> mem_at rt m p s \<and> mproj_legal_hold_count p = 0 \<and> \<not> retention_held (mrec_retention m) \<and>
     list_all (\<lambda>e. command_of rt m e s = None) [''tombstone'', ''purge'', ''crypto-erase''] \<and>
     distinct (map (memory_command rt m) [''tombstone'', ''purge'', ''crypto-erase'']) \<and>
     purged_count (mrec_tenant_id m) (mrec_memory_id m) (ms_index s) < 10 ^ 100"

definition finish_erase ::
  "'w memory_env \<Rightarrow> (erasable_blob \<Rightarrow> ('w, unit) op) \<Rightarrow> memory_record \<Rightarrow> string \<Rightarrow> memory_projection \<Rightarrow> ('w memory_state, memory_projection) op" where
  "finish_erase env erase m actor p =
     bindS (on_world (erase (mrec_blob m))) (\<lambda>_.
     append_memory env m (mproj_version p) MemFact_CRYPTO_ERASED ''crypto-erase'' actor
       [(''blob_ref_digest'', JStr (sha256_hexdigest (me_runtime env) (mblob_blob_ref (mrec_blob m))))])"

lemma erase_until_world:
  fixes env :: "'w memory_env"
  assumes sh: "sha256_shape (me_runtime env)" and e: "erasable (me_runtime env) m p s" and key: "memory_key m = (t, x)"
    and actor: "valid_identifier actor" "length reason \<le> 128"
  shows "\<exists>q s'. tombstone_and_erase env erase t x actor reason s = finish_erase env erase m actor q s' \<and>
    mem_at (me_runtime env) m q s' \<and> mproj_tombstoned q \<and> mproj_derived_purged q \<and> mproj_legal_hold_count q = 0 \<and>
    ms_index s' = snd (purge_index t x (ms_index s)) \<and> ms_world s' = ms_world s \<and>
    command_of (me_runtime env) m ''tombstone'' s' = Some (mark_of (me_runtime env) m MemFact_TOMBSTONED [(''reason_code'', JStr reason)]) \<and>
    command_of (me_runtime env) m ''purge'' s' =
      Some (mark_of (me_runtime env) m MemFact_DERIVED_PURGED [(''purged_count'', JInt (int (purged_count t x (ms_index s))))]) \<and>
    command_of (me_runtime env) m ''crypto-erase'' s' = None \<and>
    map mfact_fact_type (memory_facts (ms_ledger s') (t, x)) =
      map mfact_fact_type (memory_facts (ms_ledger s) (t, x)) @ [MemFact_TOMBSTONED, MemFact_DERIVED_PURGED]"
proof -
  let ?rt = "me_runtime env" and ?n = "purged_count t x (ms_index s)"
  have at: "mem_at ?rt m p s" and none: "command_of ?rt m ''tombstone'' s = None" "command_of ?rt m ''purge'' s = None" "command_of ?rt m ''crypto-erase'' s = None"
    and hold: "mproj_legal_hold_count p = 0" "\<not> retention_held (mrec_retention m)" and d: "distinct (map (memory_command ?rt m) [''tombstone'', ''purge'', ''crypto-erase''])"
    and few: "?n < 10 ^ 100"
    using e key by (simp_all add: erasable_def memory_key_def)
  have pay: "small_payload ?rt [(''reason_code'', JStr reason)]" "small_payload ?rt [(''purged_count'', JInt (int ?n))]"
    using actor(2) few by (auto intro!: small_singleton small_text small_count simp: sensitive_keys_def simp del: py_repr.simps)
  obtain p1 s1 where s1: "append_memory env m (mproj_version p) MemFact_TOMBSTONED ''tombstone'' actor [(''reason_code'', JStr reason)] s = (Inr p1, s1)"
      "mem_appended ?rt m MemFact_TOMBSTONED ''tombstone'' [(''reason_code'', JStr reason)] s p1 s1"
      "same_flags (p\<lparr>mproj_tombstoned := True, mproj_status := Mem_TOMBSTONED\<rparr>) p1"
    using append_memory_new [OF sh at none(1) actor(1) pay(1), of MemFact_TOMBSTONED "p\<lparr>mproj_tombstoned := True, mproj_status := Mem_TOMBSTONED\<rparr>"]
    by (auto simp: apply_memory_fact_def)
  let ?s1 = "s1\<lparr>ms_index := snd (purge_index t x (ms_index s1))\<rparr>"
  have i1: "ms_index s1 = ms_index s" "ms_world s1 = ms_world s" and at1: "mem_at ?rt m p1 ?s1" using s1(2) by (simp_all add: mem_appended_def)
  have none1: "command_of ?rt m ''purge'' ?s1 = None" using appended_command [OF s1(2), of "''purge''"] none d by auto
  have "mproj_tombstoned p1" using s1(3) by (simp add: same_flags_def)
  then obtain p2 s2 where s2: "append_memory env m (mproj_version p1) MemFact_DERIVED_PURGED ''purge'' actor [(''purged_count'', JInt (int ?n))] ?s1 = (Inr p2, s2)"
      "mem_appended ?rt m MemFact_DERIVED_PURGED ''purge'' [(''purged_count'', JInt (int ?n))] ?s1 p2 s2"
      "same_flags (p1\<lparr>mproj_derived_purged := True, mproj_indexed := False\<rparr>) p2"
    using append_memory_new [OF sh at1 none1 actor(1) pay(2), of MemFact_DERIVED_PURGED "p1\<lparr>mproj_derived_purged := True, mproj_indexed := False\<rparr>"]
    by (auto simp: apply_memory_fact_def)
  have "tombstone_and_erase env erase t x actor reason s = finish_erase env erase m actor p2 s2"
    using require_memory_found [OF at key] hold s1(1) s2(1) i1(1) purge_index_eq [of t x s1]
    by (simp add: tombstone_and_erase_def finish_erase_def bindS_def requireS_def)
  moreover have "command_of ?rt m ''tombstone'' s2 = Some (mark_of ?rt m MemFact_TOMBSTONED [(''reason_code'', JStr reason)])"
    "command_of ?rt m ''purge'' s2 = Some (mark_of ?rt m MemFact_DERIVED_PURGED [(''purged_count'', JInt (int ?n))])"
    "command_of ?rt m ''crypto-erase'' s2 = None"
    using appended_command [OF s2(2)] appended_command [OF s1(2)] none d by auto
  ultimately show ?thesis using s1(2,3) s2(2,3) hold(1) i1 key
    by (intro exI [of _ p2] exI [of _ s2]) (auto simp: mem_appended_def same_flags_def)
qed

section \<open>Proposal\<close>

lemma propose_succeeds:
  fixes env :: "'w memory_env"
  assumes sh: "sha256_shape (me_runtime env)" and inv: "memory_ok (me_runtime env) (ms_ledger s)"
    and none: "mled_records (ms_ledger s) (memory_key m) = None" "command_of (me_runtime env) m ''candidate'' s = None"
    and ids: "valid_identifier (mrec_tenant_id m)" "valid_identifier (mrec_memory_id m)" "valid_identifier actor"
    and small: "small_payload (me_runtime env) [(''record_digest'', JStr (mrec_canonical_digest m)), (''tier'', JStr (tier_value (mrec_tier m))),
      (''trust'', JStr (trust_value (mrec_trust m)))]"
  shows "\<exists>p s'. propose_memory env m actor s = (Inr p, s') \<and> mem_at (me_runtime env) m p s' \<and> mproj_status p = Mem_CANDIDATE \<and>
    mproj_legal_hold_count p = 0 \<and> ms_index s' = ms_index s \<and> ms_world s' = ms_world s \<and>
    mled_commands (ms_ledger s') = (mled_commands (ms_ledger s))((mrec_tenant_id m, memory_command (me_runtime env) m ''candidate'') \<mapsto>
      mark_of (me_runtime env) m MemFact_CANDIDATE_PROPOSED [(''record_digest'', JStr (mrec_canonical_digest m)), (''tier'', JStr (tier_value (mrec_tier m))),
      (''trust'', JStr (trust_value (mrec_trust m)))])"
proof -
  let ?rt = "me_runtime env"
  let ?pay = "[(''record_digest'', JStr (mrec_canonical_digest m)), (''tier'', JStr (tier_value (mrec_tier m))), (''trust'', JStr (trust_value (mrec_trust m)))]"
  let ?a = "memory_call ?rt m 0 MemFact_CANDIDATE_PROPOSED ''candidate'' actor ?pay (me_clock env (ms_ticks s))"
  obtain l where put: "put_record m (ms_ledger s) = (Inr (), l)" and l: "l = (ms_ledger s)\<lparr>mled_records := (mled_records (ms_ledger s))(memory_key m \<mapsto> m)\<rparr>"
    using none(1) by (simp add: put_record_def)
  have ok: "memory_ok ?rt l" using put_step_ok [OF put inv] by blast
  have proj: "mled_projections l (memory_key m) = None" using memory_okD [OF inv, of "memory_key m"] none(1) by (simp add: log_matches_def l)
  let ?f = "make_memory_fact ?rt ?a None"
  have "list_all ident_char ''memory-fact''" "list_all ident_char ''memory-command''" by (simp_all add: ident_char_def)
  then have fid: "valid_identifier (mfact_fact_id ?f)" "valid_identifier (memory_command ?rt m ''candidate'')"
    using valid_stable_id [OF sh] by (simp_all add: make_memory_fact_fields memory_command_def)
  have "hex64 (mfact_fact_digest ?f)"
    using sh by (simp add: make_memory_fact_fields canonical_digest_def sha256_shape_def del: render.simps norm_json.simps)
  with fid ids small have vf: "valid_memory_fact ?rt ?f"
    by (simp add: valid_memory_fact_def make_memory_fact_fields small_payload_def current_digest_def dict_sorted_def)
  have "\<exists>p. reduce_memory ?rt None ?f m = Inr p \<and> mproj_status p = Mem_CANDIDATE \<and> mproj_legal_hold_count p = 0"
    by (simp add: reduce_memory_def apply_memory_fact_def make_memory_fact_fields(1-4,9,10) current_version_def current_digest_def blank_projection_def)
  then obtain p where p: "reduce_memory ?rt None ?f m = Inr p" "mproj_status p = Mem_CANDIDATE" "mproj_legal_hold_count p = 0" by blast
  have ap: "memory_append ?rt ?a l = (Inr p, after_memory ?rt ?a p l)"
    using none(2) proj vf p(1) by (intro memory_append_succeeds [of _ _ m]) (simp_all add: command_of_def current_version_def l)
  have "memory_ok ?rt (after_memory ?rt ?a p l)" using append_step_ok [OF ap ok] by blast
  then have "mem_at ?rt m p (s\<lparr>ms_ledger := after_memory ?rt ?a p l, ms_ticks := Suc (ms_ticks s)\<rparr>)" by (simp add: mem_at_def, simp add: l)
  moreover have "propose_memory env m actor s = (Inr p, s\<lparr>ms_ledger := after_memory ?rt ?a p l, ms_ticks := Suc (ms_ticks s)\<rparr>)"
    using put append_memory_eq [of env m 0 _ _ _ _ "s\<lparr>ms_ledger := l\<rparr>"] ap
    by (simp add: propose_memory_def bindS_def on_memory_ledger_def zoomS_def)
  ultimately show ?thesis using p(2,3) by (simp add: l)
qed

end
