(* ===== verification/State_Preorder.thy ===== *)
theory State_Preorder
  imports Prelude
begin

text \<open>
  What an operation keeps of the state: a reflexive and transitive relation between the states before and after every step of an
  operation holds between the states before and after the whole of it, however the steps are composed and
  whichever of them raises.
\<close>

locale state_preorder =
  fixes related :: "'s \<Rightarrow> 's \<Rightarrow> bool"
  assumes related_refl: "related s s"
    and related_trans: "related s s' \<Longrightarrow> related s' s'' \<Longrightarrow> related s s''"
begin

definition keeping :: "('s, 'a) op \<Rightarrow> bool" where
  "keeping m \<longleftrightarrow> (\<forall>s. related s (snd (m s)))"

lemma keepingI: "(\<And>s r s'. m s = (r, s') \<Longrightarrow> related s s') \<Longrightarrow> keeping m"
  unfolding keeping_def by (metis prod.collapse)

lemma keepingD: "keeping m \<Longrightarrow> m s = (r, s') \<Longrightarrow> related s s'"
  unfolding keeping_def by (metis snd_conv)

lemma keeping_try:
  assumes "keeping m" "\<And>e. keeping (h e)" "\<And>x. keeping (f x)"
  shows "keeping (\<lambda>s. case m s of (Inl e, s') \<Rightarrow> h e s' | (Inr x, s') \<Rightarrow> f x s')"
proof (rule keepingI)
  fix s r s'
  assume step: "(case m s of (Inl e, s') \<Rightarrow> h e s' | (Inr x, s') \<Rightarrow> f x s') = (r, s')"
  obtain r1 s1 where m: "m s = (r1, s1)" by force
  have "related s1 s'"
    using step m keepingD [OF assms(2)] keepingD [OF assms(3)] by (cases r1) auto
  with keepingD [OF assms(1) m] show "related s s'" by (rule related_trans)
qed

lemma keeping_bind: "keeping m \<Longrightarrow> (\<And>x. keeping (f x)) \<Longrightarrow> keeping (bindS m f)"
  using keeping_try [of m "\<lambda>e s. (Inl e, s)" f] by (simp add: bindS_def keeping_def related_refl)

lemma keeping_basic:
  "keeping (returnS x)" "keeping (raiseS e)" "keeping (liftS v)" "keeping (requireS ok e)" "keeping (getS f)"
  by (simp_all add: keeping_def op_defs related_refl)

lemma keeping_if: "keeping a \<Longrightarrow> keeping b \<Longrightarrow> keeping (if c then a else b)"
  by simp

lemma keeping_pair: "(\<And>a b. keeping (f a b)) \<Longrightarrow> keeping (case x of (a, b) \<Rightarrow> f a b)"
  by (cases x) simp

lemma keeping_option: "keeping n \<Longrightarrow> (\<And>x. keeping (f x)) \<Longrightarrow> keeping (case v of None \<Rightarrow> n | Some x \<Rightarrow> f x)"
  by (cases v) simp_all

lemmas keeping_intros = keeping_bind keeping_basic keeping_if keeping_pair keeping_option

end

end
