(* ===== verification/Memory_Erasure.thy ===== *)
theory Memory_Erasure
  imports Memory_Progress State_Preorder
begin

text \<open>
  Erasure and legal holds of \<open>MemoryLifecycleService\<close>: the steps of \<open>tombstone_and_erase\<close> up to the callback that erases the blob, its
  completion, its retries after the callback raised, and a hold that is applied again. First, that every call of the service is a
  history of the ledger.
\<close>

section \<open>Calls of the service are histories of the ledger\<close>

interpretation memory_history: state_preorder "\<lambda>s s'. (memory_step rt)\<^sup>*\<^sup>* (ms_ledger s) (ms_ledger s')" for rt
  by unfold_locales (auto intro: rtranclp_trans)

lemma put_history: "put_record m l = (r, l') \<Longrightarrow> (memory_step rt)\<^sup>*\<^sup>* l l'"
  by (rule r_into_rtranclp [of "memory_step rt"], rule step_put)

lemma append_history: "memory_append rt a l = (r, l') \<Longrightarrow> (memory_step rt)\<^sup>*\<^sup>* l l'"
  by (rule r_into_rtranclp [of "memory_step rt"], rule memory_step.step_append)

lemma history_parts:
  "memory_history.keeping rt (memory_now env)" "memory_history.keeping rt (on_index i)" "memory_history.keeping rt (on_world w)"
  "memory_history.keeping rt (on_memory_ledger (put_record m))" "memory_history.keeping rt (memory_lookup t x)"
  "me_runtime env = rt \<Longrightarrow> memory_history.keeping rt (append_memory env m v ty ending actor payload)"
  by (rule_tac [!] memory_history.keepingI)
    (auto simp: memory_now_def on_index_def on_world_def on_memory_ledger_def memory_lookup_def append_memory_def op_defs
      split: prod.splits intro: put_history append_history)

lemmas history_intros = memory_history.keeping_intros history_parts refl

lemma history_require: "memory_history.keeping rt (require_memory msg t x)"
  unfolding require_memory_def by (intro history_intros)

lemma history_loops:
  "memory_history.keeping rt (index_chunks m r now cs)" "memory_history.keeping rt (collect_items env m r cs)"
  "memory_history.keeping rt (index_items items)" "memory_history.keeping (me_runtime env) (append_each env m actor tys p)"
  "memory_history.keeping (me_runtime env) (supersede_each env m actor ids ps)"
proof -
  show "memory_history.keeping rt (index_chunks m r now cs)" by (induction cs) (simp, intro history_intros; simp)+
  show "memory_history.keeping rt (collect_items env m r cs)" by (induction cs) (simp, intro history_intros; simp)+
  show "memory_history.keeping rt (index_items items)" by (induction items) (simp, intro history_intros; simp)+
  show "memory_history.keeping (me_runtime env) (append_each env m actor tys p)"
    by (induction tys arbitrary: p) (simp, intro history_intros; simp)+
  show "memory_history.keeping (me_runtime env) (supersede_each env m actor ids ps)"
    by (induction ids arbitrary: ps) (simp, intro history_intros history_require; simp)+
qed

lemma service_history:
  "memory_history.keeping (me_runtime env) (ingest env m e actor acceptance spec)"
  "memory_history.keeping (me_runtime env) (rebuild_derived env t x rebuild_id e actor spec)"
  "memory_history.keeping (me_runtime env) (tombstone_and_erase env erase t x actor reason)"
  "memory_history.keeping (me_runtime env) (supersede env m ids actor)"
  "memory_history.keeping (me_runtime env) (set_legal_hold env t x hold_ref applied actor)"
  unfolding ingest_def propose_memory_def reject_memory_def accept_memory_def record_chunks_def embed_chunks_def index_memory_def
    rebuild_derived_def replace_index_def tombstone_and_erase_def supersede_def set_legal_hold_def Let_def
  by (intro history_intros history_require history_loops)+

section \<open>What an erasure touches\<close>

lemma append_memory_frame:
  assumes "append_memory env m v ty ending actor payload s = (r, s')"
  shows "ms_index s' = ms_index s" "ms_world s' = ms_world s"
  using assms by (auto simp: append_memory_def memory_now_def on_memory_ledger_def op_defs split: prod.splits)

definition erase_gate :: "string \<Rightarrow> string \<Rightarrow> memory_record \<Rightarrow> 'w memory_state \<Rightarrow> bool" where
  "erase_gate t x m s \<longleftrightarrow> mled_records (ms_ledger s) (t, x) = Some m \<and> \<not> retention_held (mrec_retention m) \<and>
     (\<exists>p. mled_projections (ms_ledger s) (t, x) = Some p \<and> mproj_legal_hold_count p = 0)"

lemma finish_erase_world:
  assumes "finish_erase env erase m actor p s = (r, s')"
  shows "ms_index s' = ms_index s \<and> ms_world s' = snd (erase (mrec_blob m) (ms_world s)) \<and>
    (\<forall>q. r = Inr q \<longrightarrow> (\<exists>u. fst (erase (mrec_blob m) (ms_world s)) = Inr u))"
proof -
  obtain v w where ew: "erase (mrec_blob m) (ms_world s) = (v, w)" by force
  show ?thesis
  proof (cases v)
    case (Inl e)
    with assms ew show ?thesis by (auto simp: finish_erase_def bindS_def on_world_def zoomS_def)
  next
    case (Inr u)
    with assms ew have "append_memory env m (mproj_version p) MemFact_CRYPTO_ERASED ''crypto-erase'' actor
        [(''blob_ref_digest'', JStr (sha256_hexdigest (me_runtime env) (mblob_blob_ref (mrec_blob m))))] (s\<lparr>ms_world := w\<rparr>) = (r, s')"
      by (simp add: finish_erase_def bindS_def on_world_def zoomS_def)
    from append_memory_frame [OF this] ew Inr show ?thesis by simp
  qed
qed

lemma erase_steps:
  fixes env :: "'w memory_env"
  assumes "tombstone_and_erase env erase t x actor reason s = (r, s')"
  obtains (stopped) e where "r = Inl e" "ms_world s' = ms_world s"
  | (called) m where "erase_gate t x m s" "no_derived t x (ms_index s')" "ms_world s' = snd (erase (mrec_blob m) (ms_world s))"
      "\<And>q. r = Inr q \<Longrightarrow> \<exists>u. fst (erase (mrec_blob m) (ms_world s)) = Inr u"
proof (cases "\<exists>m p. mled_records (ms_ledger s) (t, x) = Some m \<and> mled_projections (ms_ledger s) (t, x) = Some p")
  case False
  then have "require_memory ''memory is missing'' t x s = (Inl (IntegrityFailure ''memory is missing''), s)"
    by (auto simp: require_memory_def memory_lookup_def op_defs split: option.splits)
  with assms stopped show ?thesis by (auto simp: tombstone_and_erase_def bindS_def)
next
  case True
  then obtain m p where mp: "mled_records (ms_ledger s) (t, x) = Some m" "mled_projections (ms_ledger s) (t, x) = Some p" by blast
  then have req: "require_memory ''memory is missing'' t x s = (Inr (m, p), s)" by (simp add: require_memory_def memory_lookup_def op_defs)
  show ?thesis
  proof (cases "mproj_legal_hold_count p = 0 \<and> \<not> retention_held (mrec_retention m)")
    case False
    with assms req stopped show ?thesis by (auto simp: tombstone_and_erase_def bindS_def requireS_def)
  next
    case gate: True
    obtain r1 s1 where s1: "append_memory env m (mproj_version p) MemFact_TOMBSTONED ''tombstone'' actor [(''reason_code'', JStr reason)] s = (r1, s1)" by force
    show ?thesis
    proof (cases r1)
      case (Inl e)
      with assms req gate s1 append_memory_frame [OF s1] stopped [of e] show ?thesis by (simp add: tombstone_and_erase_def bindS_def requireS_def)
    next
      case (Inr p1)
      let ?s1 = "s1\<lparr>ms_index := snd (purge_index t x (ms_index s1))\<rparr>"
      obtain r2 s2 where s2: "append_memory env m (mproj_version p1) MemFact_DERIVED_PURGED ''purge'' actor
        [(''purged_count'', JInt (int (purged_count t x (ms_index s1))))] ?s1 = (r2, s2)" by force
      have world: "ms_world s2 = ms_world s" "ms_index s2 = snd (purge_index t x (ms_index s1))"
        using append_memory_frame [OF s1] append_memory_frame [OF s2] by simp_all
      show ?thesis
      proof (cases r2)
        case (Inl e)
        with assms req gate s1 \<open>r1 = Inr p1\<close> s2 world purge_index_eq [of t x s1] stopped [of e] show ?thesis
          by (simp add: tombstone_and_erase_def bindS_def requireS_def)
      next
        case (Inr p2)
        have eq: "tombstone_and_erase env erase t x actor reason s = finish_erase env erase m actor p2 s2"
          using req gate s1 \<open>r1 = Inr p1\<close> s2 Inr purge_index_eq [of t x s1]
          by (simp add: tombstone_and_erase_def finish_erase_def bindS_def requireS_def)
        with assms have "finish_erase env erase m actor p2 s2 = (r, s')" by simp
        note finish_erase_world [OF this]
        moreover have "erase_gate t x m s" using mp gate by (simp add: erase_gate_def)
        ultimately show ?thesis using called [of m] world purge_no_derived [of t x "ms_index s1"] by simp
      qed
    qed
  qed
qed

section \<open>The end of an erasure\<close>

lemma finish_erase_succeeds:
  fixes env :: "'w memory_env"
  assumes sh: "sha256_shape (me_runtime env)" and at: "mem_at (me_runtime env) m p s"
    and p: "mproj_derived_purged p" "mproj_legal_hold_count p = 0" and new: "command_of (me_runtime env) m ''crypto-erase'' s = None"
    and actor: "valid_identifier actor" and erase: "erase (mrec_blob m) (ms_world s) = (Inr (), w)"
  shows "\<exists>q s'. finish_erase env erase m actor p s = (Inr q, s') \<and> mem_at (me_runtime env) m q s' \<and> mproj_status q = Mem_ERASED \<and>
    mproj_blob_erased q \<and> ms_index s' = ms_index s \<and> ms_world s' = w \<and>
    map mfact_fact_type (memory_facts (ms_ledger s') (memory_key m)) =
      map mfact_fact_type (memory_facts (ms_ledger s) (memory_key m)) @ [MemFact_CRYPTO_ERASED]"
proof -
  let ?rt = "me_runtime env" and ?s = "s\<lparr>ms_world := w\<rparr>"
  let ?pay = "[(''blob_ref_digest'', JStr (sha256_hexdigest (me_runtime env) (mblob_blob_ref (mrec_blob m))))]"
  have "length (sha256_hexdigest ?rt (mblob_blob_ref (mrec_blob m))) = 64" using sh by (simp add: sha256_shape_def hex64_def)
  then have small: "small_payload ?rt ?pay" by (intro small_singleton small_text) (simp_all add: sensitive_keys_def)
  have "mem_at ?rt m p ?s" "command_of ?rt m ''crypto-erase'' ?s = None" using at new by simp_all
  from append_memory_new [OF sh this actor small, of MemFact_CRYPTO_ERASED "p\<lparr>mproj_blob_erased := True, mproj_status := Mem_ERASED\<rparr>"] p
  obtain q s' where q: "append_memory env m (mproj_version p) MemFact_CRYPTO_ERASED ''crypto-erase'' actor ?pay ?s = (Inr q, s')"
      "mem_appended ?rt m MemFact_CRYPTO_ERASED ''crypto-erase'' ?pay ?s q s'"
      "same_flags (p\<lparr>mproj_blob_erased := True, mproj_status := Mem_ERASED\<rparr>) q" by (auto simp: apply_memory_fact_def)
  have "finish_erase env erase m actor p s = (Inr q, s')" using erase q(1) by (simp add: finish_erase_def bindS_def on_world_def zoomS_def)
  with q(2,3) show ?thesis by (auto simp: mem_appended_def same_flags_def)
qed

lemma erase_completes:
  fixes env :: "'w memory_env"
  assumes "sha256_shape (me_runtime env)" "erasable (me_runtime env) m p s" "memory_key m = (t, x)" "valid_identifier actor"
    and "length reason \<le> 128" "erase (mrec_blob m) (ms_world s) = (Inr (), w)"
  shows "\<exists>q s'. tombstone_and_erase env erase t x actor reason s = (Inr q, s') \<and> mem_at (me_runtime env) m q s' \<and>
    mproj_status q = Mem_ERASED \<and> mproj_blob_erased q \<and> mproj_legal_hold_count q \<le> 16 \<and> no_derived t x (ms_index s') \<and> ms_world s' = w \<and>
    map mfact_fact_type (memory_facts (ms_ledger s') (t, x)) = map mfact_fact_type (memory_facts (ms_ledger s) (t, x)) @
      [MemFact_TOMBSTONED, MemFact_DERIVED_PURGED, MemFact_CRYPTO_ERASED]"
proof -
  from erase_until_world [OF assms(1-5), of erase] obtain p1 s1 where
    s1: "tombstone_and_erase env erase t x actor reason s = finish_erase env erase m actor p1 s1" and at: "mem_at (me_runtime env) m p1 s1"
    and p1: "mproj_derived_purged p1" "mproj_legal_hold_count p1 = 0" and i: "ms_index s1 = snd (purge_index t x (ms_index s))"
    and w: "ms_world s1 = ms_world s" and new: "command_of (me_runtime env) m ''crypto-erase'' s1 = None"
    and facts: "map mfact_fact_type (memory_facts (ms_ledger s1) (t, x)) =
      map mfact_fact_type (memory_facts (ms_ledger s) (t, x)) @ [MemFact_TOMBSTONED, MemFact_DERIVED_PURGED]" by blast
  have "erase (mrec_blob m) (ms_world s1) = (Inr (), w)" using assms(6) w by simp
  from finish_erase_succeeds [OF assms(1) at p1 new assms(4), of erase, OF this] obtain q s' where
    q: "finish_erase env erase m actor p1 s1 = (Inr q, s')" "mem_at (me_runtime env) m q s'" "mproj_status q = Mem_ERASED" "mproj_blob_erased q"
      "ms_index s' = ms_index s1" "ms_world s' = w"
      "map mfact_fact_type (memory_facts (ms_ledger s') (memory_key m)) =
        map mfact_fact_type (memory_facts (ms_ledger s1) (memory_key m)) @ [MemFact_CRYPTO_ERASED]" by blast
  have "log_matches (me_runtime env) (ms_ledger s') (memory_key m)" using q(2) memory_okD by (auto simp: mem_at_def)
  then have "mproj_legal_hold_count q \<le> 16" using q(2) by (simp add: log_matches_def mem_at_def flags_ordered_def)
  with s1 q i facts assms(3) purge_no_derived [of t x "ms_index s"] show ?thesis by (intro exI [of _ q] exI [of _ s']) simp
qed

section \<open>A retry after the callback raised\<close>

definition purge_document :: "memory_record \<Rightarrow> nat \<Rightarrow> json" where
  "purge_document m n = JObj [(''fact_type'', JStr (memory_fact_value MemFact_DERIVED_PURGED)), (''memory_id'', JStr (mrec_memory_id m)),
     (''payload'', JObj [(''purged_count'', JInt (int n))])]"

lemma purge_mark: "mark_of rt m MemFact_DERIVED_PURGED [(''purged_count'', JInt (int n))] = canonical_digest rt (purge_document m n)"
  by (simp add: mark_of_def purge_document_def dict_sorted_def)

lemma purge_mark_collision:
  assumes "float_repr_ok rt" "n \<noteq> k"
    "mark_of rt m MemFact_DERIVED_PURGED [(''purged_count'', JInt (int n))] = mark_of rt m MemFact_DERIVED_PURGED [(''purged_count'', JInt (int k))]"
  shows "sha256_collision rt (canonical_json rt (purge_document m n)) (canonical_json rt (purge_document m k))"
proof -
  have "norm_json (purge_document m n) \<noteq> norm_json (purge_document m k)"
  proof
    assume "norm_json (purge_document m n) = norm_json (purge_document m k)"
    from norm_json_obj_lookup [OF this [unfolded purge_document_def], of "''payload''"] assms(2) show False by simp
  qed
  with assms show ?thesis by (simp add: sha256_collision_def canonical_json_eq_iff purge_mark canonical_digest_def)
qed

lemma erase_retry:
  fixes env :: "'w memory_env"
  assumes at: "mem_at (me_runtime env) m p s" and key: "memory_key m = (t, x)" and clean: "no_derived t x (ms_index s)"
    and hold: "mproj_legal_hold_count p = 0" "\<not> retention_held (mrec_retention m)"
    and tomb: "command_of (me_runtime env) m ''tombstone'' s \<noteq> None"
    and purge: "command_of (me_runtime env) m ''purge'' s = Some z"
      "z \<noteq> mark_of (me_runtime env) m MemFact_DERIVED_PURGED [(''purged_count'', JInt (int 0))]"
  shows "\<exists>s'. tombstone_and_erase env erase t x actor reason s = (Inl (IdempotencyConflict ''memory command replay changed''), s') \<and>
    ms_world s' = ms_world s \<and> ms_ledger s' = ms_ledger s \<and> ms_index s' = ms_index s"
proof -
  let ?rt = "me_runtime env" and ?s1 = "s\<lparr>ms_ticks := Suc (ms_ticks s)\<rparr>"
  let ?pay = "[(''reason_code'', JStr reason)]"
  obtain y where y: "command_of ?rt m ''tombstone'' s = Some y" using tomb by blast
  note known = append_memory_known [OF at y, of "mproj_version p" MemFact_TOMBSTONED actor ?pay]
  have req: "require_memory ''memory is missing'' t x s = (Inr (m, p), s)" by (rule require_memory_found [OF at key])
  have idx: "on_index (purge_index t x) ?s1 = (Inr 0, ?s1)"
    using purge_nothing [OF clean] by (simp add: on_index_def zoomS_def)
  have "mem_at ?rt m p ?s1" "command_of ?rt m ''purge'' ?s1 = Some z" using at purge(1) by simp_all
  note known2 = append_memory_known [OF this, of "mproj_version p" MemFact_DERIVED_PURGED actor "[(''purged_count'', JInt (int 0))]"]
  show ?thesis
  proof (cases "y = mark_of ?rt m MemFact_TOMBSTONED ?pay")
    case True
    with known have "append_memory env m (mproj_version p) MemFact_TOMBSTONED ''tombstone'' actor ?pay s = (Inr p, ?s1)" by simp
    with req hold idx known2 purge(2) show ?thesis by (simp add: tombstone_and_erase_def bindS_def requireS_def)
  next
    case False
    with req hold known show ?thesis by (simp add: tombstone_and_erase_def bindS_def requireS_def)
  qed
qed

text \<open>Calls of \<open>tombstone_and_erase\<close> for one memory, one after the other.\<close>

fun repeat_erase ::
  "'w memory_env \<Rightarrow> string \<Rightarrow> string \<Rightarrow> ((erasable_blob \<Rightarrow> ('w, unit) op) \<times> string \<times> string) list \<Rightarrow> 'w memory_state \<Rightarrow>
   memory_projection result list \<times> 'w memory_state" where
  "repeat_erase env t x [] s = ([], s)"
| "repeat_erase env t x ((erase, actor, reason) # calls) s =
     (case tombstone_and_erase env erase t x actor reason s of (r, s') \<Rightarrow>
        (case repeat_erase env t x calls s' of (rs, s'') \<Rightarrow> (r # rs, s'')))"

lemma erase_retries:
  fixes env :: "'w memory_env"
  assumes "mem_at (me_runtime env) m p s" "memory_key m = (t, x)" "no_derived t x (ms_index s)"
    and "mproj_legal_hold_count p = 0" "\<not> retention_held (mrec_retention m)" "command_of (me_runtime env) m ''tombstone'' s \<noteq> None"
    and "command_of (me_runtime env) m ''purge'' s = Some z"
      "z \<noteq> mark_of (me_runtime env) m MemFact_DERIVED_PURGED [(''purged_count'', JInt (int 0))]"
  shows "\<exists>s'. repeat_erase env t x calls s = (replicate (length calls) (Inl (IdempotencyConflict ''memory command replay changed'')), s') \<and>
    ms_world s' = ms_world s \<and> ms_ledger s' = ms_ledger s"
  using assms
proof (induction calls arbitrary: s)
  case (Cons c calls)
  obtain erase actor reason where c: "c = (erase, actor, reason)" by (cases c)
  from erase_retry [OF Cons.prems, of erase actor reason] obtain s1 where
    s1: "tombstone_and_erase env erase t x actor reason s = (Inl (IdempotencyConflict ''memory command replay changed''), s1)"
      "ms_world s1 = ms_world s" "ms_ledger s1 = ms_ledger s" "ms_index s1 = ms_index s" by blast
  from Cons.IH [of s1] Cons.prems s1(2-4) show ?case by (auto simp: c s1(1) mem_at_def command_of_def)
qed simp

lemma erase_resumed:
  fixes env :: "'w memory_env"
  assumes sh: "sha256_shape (me_runtime env)" and at: "mem_at (me_runtime env) m p s" and key: "memory_key m = (t, x)"
    and clean: "no_derived t x (ms_index s)" and p: "mproj_derived_purged p" "mproj_legal_hold_count p = 0" "\<not> retention_held (mrec_retention m)"
    and tomb: "command_of (me_runtime env) m ''tombstone'' s = Some (mark_of (me_runtime env) m MemFact_TOMBSTONED [(''reason_code'', JStr reason)])"
    and purge: "command_of (me_runtime env) m ''purge'' s = Some (mark_of (me_runtime env) m MemFact_DERIVED_PURGED [(''purged_count'', JInt (int 0))])"
    and new: "command_of (me_runtime env) m ''crypto-erase'' s = None" and actor: "valid_identifier actor"
    and erase: "erase (mrec_blob m) (ms_world s) = (Inr (), w)"
  shows "\<exists>q s'. tombstone_and_erase env erase t x actor reason s = (Inr q, s') \<and> mled_projections (ms_ledger s') (t, x) = Some q \<and>
    mproj_status q = Mem_ERASED \<and> mproj_blob_erased q \<and> ms_world s' = w"
proof -
  let ?rt = "me_runtime env" and ?s1 = "s\<lparr>ms_ticks := Suc (ms_ticks s)\<rparr>" and ?s2 = "s\<lparr>ms_ticks := Suc (Suc (ms_ticks s))\<rparr>"
  note req = require_memory_found [OF at key, of "''memory is missing''"]
  have one: "append_memory env m (mproj_version p) MemFact_TOMBSTONED ''tombstone'' actor [(''reason_code'', JStr reason)] s = (Inr p, ?s1)"
    using append_memory_known [OF at tomb] by simp
  have idx: "on_index (purge_index t x) ?s1 = (Inr 0, ?s1)" using purge_nothing [OF clean] by (simp add: on_index_def zoomS_def)
  have "mem_at ?rt m p ?s1" using at by simp
  from append_memory_known [OF this, of "''purge''"] purge
  have two: "append_memory env m (mproj_version p) MemFact_DERIVED_PURGED ''purge'' actor [(''purged_count'', JInt (int 0))] ?s1 = (Inr p, ?s2)" by simp
  have "tombstone_and_erase env erase t x actor reason s = finish_erase env erase m actor p ?s2"
    using req p(2,3) one idx two by (simp add: tombstone_and_erase_def finish_erase_def bindS_def requireS_def)
  moreover have "mem_at ?rt m p ?s2" "command_of ?rt m ''crypto-erase'' ?s2 = None" "erase (mrec_blob m) (ms_world ?s2) = (Inr (), w)"
    using at new erase by simp_all
  from finish_erase_succeeds [OF sh this(1) p(1,2) this(2) actor, of erase, OF this(3)] obtain q s' where
    "finish_erase env erase m actor p ?s2 = (Inr q, s')" "mem_at ?rt m q s'" "mproj_status q = Mem_ERASED" "mproj_blob_erased q" "ms_world s' = w" by blast
  ultimately show ?thesis using key by (intro exI [of _ q] exI [of _ s']) (simp add: mem_at_def)
qed

section \<open>Holds\<close>

definition hold_ending :: "bool \<Rightarrow> string \<Rightarrow> string" where
  "hold_ending applied hold_ref = ''legal-hold:'' @ (if applied then ''apply'' else ''release'') @ '':'' @ hold_ref"

lemma set_legal_hold_eq:
  assumes "mem_at (me_runtime env) m p s" "memory_key m = (t, x)"
  shows "set_legal_hold env t x hold_ref applied actor s =
    append_memory env m (mproj_version p) (if applied then MemFact_LEGAL_HOLD_APPLIED else MemFact_LEGAL_HOLD_RELEASED) (hold_ending applied hold_ref) actor
      [(''hold_ref_digest'', JStr (sha256_hexdigest (me_runtime env) hold_ref))] s"
  using require_memory_found [OF assms] by (simp add: set_legal_hold_def bindS_def hold_ending_def)

lemma set_legal_hold_new:
  fixes env :: "'w memory_env"
  assumes sh: "sha256_shape (me_runtime env)" and at: "mem_at (me_runtime env) m p s" and key: "memory_key m = (t, x)"
    and new: "command_of (me_runtime env) m (hold_ending applied hold_ref) s = None" and actor: "valid_identifier actor"
  shows "\<exists>q s'. set_legal_hold env t x hold_ref applied actor s = (Inr q, s') \<and>
    mem_appended (me_runtime env) m (if applied then MemFact_LEGAL_HOLD_APPLIED else MemFact_LEGAL_HOLD_RELEASED) (hold_ending applied hold_ref)
      [(''hold_ref_digest'', JStr (sha256_hexdigest (me_runtime env) hold_ref))] s q s' \<and>
    mproj_legal_hold_count q = (if applied then min 16 (mproj_legal_hold_count p + 1) else mproj_legal_hold_count p - 1)"
proof -
  let ?pay = "[(''hold_ref_digest'', JStr (sha256_hexdigest (me_runtime env) hold_ref))]"
  let ?x = "p\<lparr>mproj_legal_hold_count := (if applied then min 16 (mproj_legal_hold_count p + 1) else mproj_legal_hold_count p - 1)\<rparr>"
  have "length (sha256_hexdigest (me_runtime env) hold_ref) = 64" using sh by (simp add: sha256_shape_def hex64_def)
  then have small: "small_payload (me_runtime env) ?pay" by (intro small_singleton small_text) (simp_all add: sensitive_keys_def)
  have "\<exists>q s'. append_memory env m (mproj_version p) (if applied then MemFact_LEGAL_HOLD_APPLIED else MemFact_LEGAL_HOLD_RELEASED)
      (hold_ending applied hold_ref) actor ?pay s = (Inr q, s') \<and>
    mem_appended (me_runtime env) m (if applied then MemFact_LEGAL_HOLD_APPLIED else MemFact_LEGAL_HOLD_RELEASED) (hold_ending applied hold_ref) ?pay s q s' \<and>
    same_flags ?x q"
    by (rule append_memory_new [OF sh at new actor small]) (simp split: if_splits add: apply_memory_fact_def)
  then show ?thesis unfolding set_legal_hold_eq [OF at key] by (auto simp: same_flags_def)
qed

end
