(* ===== verification/Memory_Chunks.thy ===== *)
theory Memory_Chunks
  imports Memory_Index
begin

text \<open>
  What \<open>DeterministicChunker.split\<close> returns: windows of the words of the text, as many as it takes to reach the last word. The bounds
  of a chunk hold for every window of a canonical text.
\<close>

section \<open>The words of a text\<close>

lemma words_of_length:
  "sum_list (map (\<lambda>w. Suc (length w)) (words_of s)) \<le> length s + (if s = [] \<or> is_space (hd s) then 0 else 1)"
proof (induction s rule: words_of.induct)
  case (1 s)
  define t where "t = dropWhile is_space s"
  show ?case
  proof (cases "t = []")
    case True
    then show ?thesis by (simp add: words_of.simps [of s] t_def)
  next
    case False
    define w r where "w = takeWhile (\<lambda>c. \<not> is_space c) t" and "r = dropWhile (\<lambda>c. \<not> is_space c) t"
    have eq: "words_of s = w # words_of r" using False by (subst words_of.simps) (simp only: Let_def if_False t_def w_def r_def)
    have len: "length w + length r = length t" unfolding w_def r_def by (metis length_append takeWhile_dropWhile_id)
    have r: "r = [] \<or> is_space (hd r)" unfolding r_def using hd_dropWhile [of "\<lambda>c. \<not> is_space c" t] by blast
    have le: "length t + (if s = [] \<or> is_space (hd s) then 1 else 0) \<le> length s"
      using False unfolding t_def by (cases s) (simp_all add: length_dropWhile_le)
    have "sum_list (map (\<lambda>w. Suc (length w)) (words_of r)) \<le> length r"
      using "1.IH" [of t] False r by (simp add: t_def r_def)
    with eq len le show ?thesis by auto
  qed
qed

lemma join_length: "ws \<noteq> [] \<Longrightarrow> Suc (length (join '' '' ws)) = sum_list (map (\<lambda>w. Suc (length w)) ws)"
proof (induction ws)
  case (Cons w ws)
  then show ?case by (cases ws) simp_all
qed simp

lemma join_nonempty: "ws \<noteq> [] \<Longrightarrow> list_all (\<lambda>w. w \<noteq> []) ws \<Longrightarrow> join '' '' ws \<noteq> []"
proof
  assume "ws \<noteq> []" "list_all (\<lambda>w. w \<noteq> []) ws" "join '' '' ws = []"
  then show False using join_length [of ws] by (cases ws) simp_all
qed

lemma canonical_words:
  assumes "canonical_text text = Inr n"
  shows "words_of n \<noteq> []" "length n \<le> max_memory_text"
proof -
  define kept where "kept = filter (\<lambda>c. c \<in> {CHR 0x0A, CHR 0x09} \<or> 32 \<le> (of_char c :: nat)) (unix_lines text)"
  define x where "x = rstrip (join [CHR 0x0A] (map rstrip (split_lines kept)))"
  have n: "n = dropWhile is_space x" "n \<noteq> []" "length n \<le> max_memory_text"
    using assms unfolding canonical_text_def Let_def strip_def kept_def [symmetric] x_def [symmetric]
    by (simp_all del: dropWhile_eq_Nil_conv split: if_splits)
  then have "\<not> is_space (hd n)" by (simp add: hd_dropWhile del: dropWhile_eq_Nil_conv)
  with n(2) have "dropWhile is_space n \<noteq> []" by (cases n) simp_all
  then show "words_of n \<noteq> []" by (subst words_of.simps) (simp add: Let_def)
  show "length n \<le> max_memory_text" by (rule n(3))
qed

section \<open>Windows\<close>

definition window_step :: "chunker \<Rightarrow> nat" where
  "window_step c = mck_maximum_tokens c - mck_overlap_tokens c"

definition window_count :: "chunker \<Rightarrow> nat \<Rightarrow> nat" where
  "window_count c n = Suc ((n - mck_maximum_tokens c + (window_step c - 1)) div window_step c)"

definition window_text :: "chunker \<Rightarrow> string list \<Rightarrow> nat \<Rightarrow> string" where
  "window_text c words start = join '' '' (take (mck_maximum_tokens c) (drop start words))"

lemma make_chunker_bounds:
  assumes "make_chunker mt ot mc = Inr c"
  shows "0 < window_step c" "window_step c \<le> mck_maximum_tokens c" "0 < mck_maximum_chunks c" "mck_maximum_chunks c \<le> 1000"
  using assms by (auto simp: make_chunker_def window_step_def split: if_splits)

lemma window_text_nonempty:
  assumes "list_all (\<lambda>w. w \<noteq> []) words" "start < length words" "0 < mck_maximum_tokens c"
  shows "window_text c words start \<noteq> []"
proof -
  have "list_all (\<lambda>w. w \<noteq> []) (take (mck_maximum_tokens c) (drop start words))"
    using assms(1) by (auto simp: list_all_iff dest!: in_set_takeD in_set_dropD)
  then show ?thesis using assms(2,3) by (simp add: window_text_def join_nonempty)
qed

lemma ceiling_step:
  fixes a s :: nat
  assumes "0 < s" "0 < a"
  shows "(a + (s - 1)) div s = Suc ((a - s + (s - 1)) div s)"
proof -
  have "a + (s - 1) = (a - 1) + s" using assms by simp
  then have "(a + (s - 1)) div s = (a - 1 + s) div s" by (rule arg_cong)
  also have "\<dots> = Suc ((a - 1) div s)" using assms by (subst div_add_self2) simp_all
  also have "(a - 1) div s = (a - s + (s - 1)) div s"
  proof (cases "s \<le> a")
    case True
    then show ?thesis using assms by (intro arg_cong [of _ _ "\<lambda>x. x div s"]) simp
  next
    case False
    then have "a - 1 < s" "a - s + (s - 1) < s" using assms by simp_all
    then show ?thesis by (simp only: div_less)
  qed
  finally show ?thesis .
qed

lemma window_count_step:
  assumes "0 < window_step c" "mck_maximum_tokens c < n"
  shows "window_count c n = Suc (window_count c (n - window_step c))"
  unfolding window_count_def
  using ceiling_step [OF assms(1), of "n - mck_maximum_tokens c"] assms(2) by (simp only: diff_commute [of n "window_step c"])

lemma window_count_single: "0 < window_step c \<Longrightarrow> n \<le> mck_maximum_tokens c \<Longrightarrow> window_count c n = 1"
  by (simp add: window_count_def)

text \<open>Every position is in a window.\<close>

lemma windows_cover:
  assumes "0 < window_step c" "window_step c \<le> mck_maximum_tokens c"
  shows "j < n \<Longrightarrow> \<exists>i < window_count c n. i * window_step c \<le> j \<and> j < i * window_step c + mck_maximum_tokens c"
proof (induction n arbitrary: j rule: less_induct)
  case (less n)
  consider "j < mck_maximum_tokens c" | "mck_maximum_tokens c \<le> j" by linarith
  then show ?case
  proof cases
    case 1
    then show ?thesis by (intro exI [of _ 0]) (simp add: window_count_def)
  next
    case 2
    have "n - window_step c < n" "j - window_step c < n - window_step c" using 2 less.prems assms by simp_all
    from less.IH [OF this] obtain i where i: "i < window_count c (n - window_step c)" "i * window_step c \<le> j - window_step c"
      "j - window_step c < i * window_step c + mck_maximum_tokens c" by blast
    then show ?thesis using 2 assms less.prems window_count_step [of c n] by (intro exI [of _ "Suc i"]) auto
  qed
qed

lemma chunk_loop_windows:
  assumes c: "0 < window_step c" "window_step c \<le> mck_maximum_tokens c" and words: "list_all (\<lambda>w. w \<noteq> []) words"
    and build: "\<And>i s. i < mck_maximum_chunks c \<Longrightarrow> s < length words \<Longrightarrow> build i (window_text c words s) = Inr (mk i (window_text c words s))"
  shows "start < length words \<Longrightarrow> chunk_loop build c words ordinal start =
    (if ordinal + window_count c (length words - start) \<le> mck_maximum_chunks c
     then Inr (map (\<lambda>i. mk (ordinal + i) (window_text c words (start + i * window_step c))) [0..<window_count c (length words - start)])
     else Inl (ValueError ''memory content exceeds the chunk count bound''))"
proof (induction "length words - start" arbitrary: ordinal start rule: less_induct)
  case less
  let ?n = "length words - start" and ?T = "window_text c words start"
  have T: "?T \<noteq> []" using window_text_nonempty [OF words less.prems] c by simp
  have step: "chunk_loop build c words ordinal start =
    (if mck_maximum_chunks c \<le> ordinal then Inl (ValueError ''memory content exceeds the chunk count bound'')
     else if ?n \<le> mck_maximum_tokens c then Inr [mk ordinal ?T]
     else bindE (chunk_loop build c words (Suc ordinal) (start + window_step c)) (\<lambda>rest. Inr (mk ordinal ?T # rest)))"
    using T c(1) less.prems build [OF _ less.prems] by (subst chunk_loop.simps) (auto simp: Let_def window_text_def window_step_def)
  show ?case
  proof (cases "?n \<le> mck_maximum_tokens c")
    case True
    with step window_count_single [OF c(1) True] show ?thesis by simp
  next
    case False
    let ?m = "window_count c (length words - (start + window_step c))"
    have count: "window_count c ?n = Suc ?m" using window_count_step [OF c(1), of ?n] False by simp
    have less': "length words - (start + window_step c) < ?n" "start + window_step c < length words" using False c less.prems by simp_all
    have seq: "map (\<lambda>i. mk (ordinal + i) (window_text c words (start + i * window_step c))) [0..<Suc ?m] =
      mk ordinal ?T # map (\<lambda>i. mk (Suc ordinal + i) (window_text c words (start + window_step c + i * window_step c))) [0..<?m]"
      by (simp add: upt_conv_Cons map_Suc_upt [symmetric] del: upt_Suc) (simp add: ac_simps)
    show ?thesis
    proof (cases "mck_maximum_chunks c \<le> ordinal")
      case True
      with step count show ?thesis by simp
    next
      case le: False
      show ?thesis unfolding step less.hyps [OF less'] count seq using False le by simp
    qed
  qed
qed

section \<open>The bounds of a window\<close>

lemma sum_list_sublist: "sum_list (map f (take a (drop b xs))) \<le> sum_list (map f xs)" for f :: "'a \<Rightarrow> nat"
proof -
  have "sum_list (map f (take a ys)) \<le> sum_list (map f ys)" for ys
    by (metis append_take_drop_id le_add1 map_append sum_list_append)
  moreover have "sum_list (map f (drop b xs)) \<le> sum_list (map f xs)"
    by (metis append_take_drop_id le_add2 map_append sum_list_append)
  ultimately show ?thesis using le_trans by blast
qed

lemma window_text_length:
  assumes "start < length (words_of n)" "0 < mck_maximum_tokens c"
  shows "length (window_text c (words_of n) start) \<le> length n"
proof -
  let ?ws = "take (mck_maximum_tokens c) (drop start (words_of n))"
  have "Suc (length (join '' '' ?ws)) = sum_list (map (\<lambda>w. Suc (length w)) ?ws)" using assms by (intro join_length) auto
  also have "\<dots> \<le> sum_list (map (\<lambda>w. Suc (length w)) (words_of n))" by (rule sum_list_sublist)
  also have "\<dots> \<le> Suc (length n)" using words_of_length [of n] by (simp split: if_splits)
  finally show ?thesis by (simp add: window_text_def)
qed

lemma utf8_length_twice: "utf8_length s \<le> 2 * length s"
  by (induction s) (simp_all add: utf8_length_def)

lemma build_chunk_succeeds:
  assumes "sha256_shape rt" "valid_identifier t" "valid_identifier x" "valid_memory_citation cit" "ordinal \<le> 10000"
    "part \<noteq> []" "length part \<le> max_memory_text"
  shows "build_chunk rt t x cit ordinal part = Inr (make_chunk rt t x cit ordinal part)"
proof -
  have "list_all ident_char ''memory-chunk''" by (simp add: ident_char_def)
  then have "valid_identifier (stable_id rt ''memory-chunk'' ps 32)" for ps using valid_stable_id [OF assms(1)] by simp
  moreover have "valid_identifier chunker_version" by (simp add: chunker_version_def valid_identifier_def ident_char_def)
  moreover have "1 \<le> utf8_length part" "utf8_length part \<le> 131072" "1 \<le> length part"
    using utf8_length_twice [of part] utf8_length_ge [of part] assms(6,7) by (cases part; simp add: max_memory_text_def)+
  moreover from calculation have "1 \<le> token_estimate part" "token_estimate part \<le> 32768"
    unfolding token_estimate_def by linarith+
  moreover have "hex64 (sha256_hexdigest rt part)" using assms(1) by (simp add: sha256_shape_def)
  ultimately show ?thesis using assms
    by (simp add: build_chunk_def make_chunk_def Let_def valid_chunk_def)
qed

end
