(* ===== verification/Memory_Context.thy ===== *)
theory Memory_Context
  imports Memory_Index
begin

text \<open>
  What \<open>LangGraphMemoryContextBuilder.build\<close> chooses: hits within the budget of each tier and within the byte bound, no canonical
  text twice.
\<close>

lemma foldE_invariant:
  assumes "foldE f xs s = Inr s'" "P s" "\<And>x s s'. x \<in> set xs \<Longrightarrow> P s \<Longrightarrow> f x s = Inr s' \<Longrightarrow> P s'"
  shows "P s'"
  using assms
proof (induction xs arbitrary: s)
  case (Cons x xs)
  then show ?case by (cases "f x s") auto
qed simp

definition tier_tokens :: "memory_tier \<Rightarrow> retrieval_hit list \<Rightarrow> nat" where
  "tier_tokens t hs = sum_list (map (\<lambda>h. token_estimate (mhit_text h)) (filter (\<lambda>h. mhit_tier h = t) hs))"

definition choice_ok :: "runtime \<Rightarrow> context_budget \<Rightarrow> retrieval_hit list \<Rightarrow> context_choice \<Rightarrow> bool" where
  "choice_ok rt b hits s \<longleftrightarrow>
     (\<forall>t. mcc_used s t = tier_tokens t (mcc_chosen s) \<and> mcc_used s t \<le> tier_budget b t) \<and>
     framed_bytes (mcc_chosen s) \<le> mbud_maximum_bytes b \<and> set (mcc_chosen s) \<subseteq> set hits \<and> distinct (mcc_seen s) \<and>
     map Inr (mcc_seen s) = map (\<lambda>h. bindE (canonical_text (mhit_text h)) (\<lambda>n. Inr (sha256_hexdigest rt n))) (mcc_chosen s)"

lemma choose_hit_ok:
  assumes "choose_hit rt b h s = Inr s'" "choice_ok rt b hits s" "h \<in> set hits"
  shows "choice_ok rt b hits s'"
proof (cases "s' = s")
  case False
  with assms(1) obtain n where n: "canonical_text (mhit_text h) = Inr n" by (cases "canonical_text (mhit_text h)") (simp_all add: choose_hit_def)
  let ?d = "sha256_hexdigest rt n" and ?k = "token_estimate (mhit_text h)"
  have fits: "?d \<notin> set (mcc_seen s)" "mcc_used s (mhit_tier h) + ?k \<le> tier_budget b (mhit_tier h)"
      "framed_bytes (mcc_chosen s) + utf8_length (frame_untrusted h) \<le> mbud_maximum_bytes b"
    and s': "s' = \<lparr>mcc_used = (mcc_used s)(mhit_tier h := mcc_used s (mhit_tier h) + ?k), mcc_chosen = mcc_chosen s @ [h],
                 mcc_seen = mcc_seen s @ [?d]\<rparr>"
    using assms(1) False n by (auto simp: choose_hit_def Let_def split: if_splits)
  have used: "mcc_used s t = tier_tokens t (mcc_chosen s)" "tier_tokens t (mcc_chosen s) \<le> tier_budget b t" for t
    using assms(2) by (metis choice_ok_def)+
  have "tier_tokens t (mcc_chosen s @ [h]) = tier_tokens t (mcc_chosen s) + (if mhit_tier h = t then ?k else 0)" for t
    by (simp add: tier_tokens_def)
  then have "\<forall>t. mcc_used s' t = tier_tokens t (mcc_chosen s') \<and> mcc_used s' t \<le> tier_budget b t"
    using fits(2) used by (simp add: s')
  moreover have "framed_bytes (mcc_chosen s') \<le> mbud_maximum_bytes b" using fits(3) by (simp add: s' framed_bytes_def)
  moreover have "set (mcc_chosen s) \<subseteq> set hits" "distinct (mcc_seen s)"
    "map Inr (mcc_seen s) = map (\<lambda>h. bindE (canonical_text (mhit_text h)) (\<lambda>n. Inr (sha256_hexdigest rt n))) (mcc_chosen s)"
    using assms(2) unfolding choice_ok_def by blast+
  then have "set (mcc_chosen s') \<subseteq> set hits" "distinct (mcc_seen s')"
    "map Inr (mcc_seen s') = map (\<lambda>h. bindE (canonical_text (mhit_text h)) (\<lambda>n. Inr (sha256_hexdigest rt n))) (mcc_chosen s')"
    using fits(1) n assms(3) by (simp_all add: s')
  ultimately show ?thesis unfolding choice_ok_def by blast
qed (use assms in simp)

lemma make_snippets:
  assumes "foldE (\<lambda>h xs. bindE (make_snippet h) (\<lambda>x. Inr (xs @ [x]))) hs ys = Inr zs"
  shows "\<exists>xs. zs = ys @ xs \<and> list_all2 (\<lambda>h x. make_snippet h = Inr x) hs xs"
  using assms
proof (induction hs arbitrary: ys)
  case (Cons h hs)
  then obtain x where x: "make_snippet h = Inr x" by (cases "make_snippet h") simp_all
  with Cons.prems have "foldE (\<lambda>h xs. bindE (make_snippet h) (\<lambda>x. Inr (xs @ [x]))) hs (ys @ [x]) = Inr zs" by simp
  from Cons.IH [OF this] obtain xs where "zs = (ys @ [x]) @ xs" "list_all2 (\<lambda>h x. make_snippet h = Inr x) hs xs" by blast
  with x show ?case by (intro exI [of _ "x # xs"]) simp
qed simp

lemma make_snippet_fields:
  "make_snippet h = Inr x \<Longrightarrow> msnip_framed_text x = frame_untrusted h \<and> msnip_tier x = mhit_tier h \<and>
   msnip_token_count x = token_estimate (mhit_text h) \<and> msnip_chunk_id x = mhit_chunk_id h \<and> msnip_citation x = mhit_citation h"
  by (auto simp: make_snippet_def Let_def split: if_splits)

lemma snippet_fields:
  assumes "list_all2 (\<lambda>h x. make_snippet h = Inr x) hs xs"
  shows "map msnip_framed_text xs = map frame_untrusted hs"
    "map (\<lambda>x. utf8_length (msnip_framed_text x)) xs = map (\<lambda>h. utf8_length (frame_untrusted h)) hs"
    "map msnip_token_count (filter (\<lambda>x. msnip_tier x = t) xs) = map (\<lambda>h. token_estimate (mhit_text h)) (filter (\<lambda>h. mhit_tier h = t) hs)"
  using assms by (induction rule: list_all2_induct) (auto dest!: make_snippet_fields)

lemma tier_partition:
  "sum_list (map f xs) = sum_list (map f (filter (\<lambda>x. g x = Tier_WORKING) xs)) + sum_list (map f (filter (\<lambda>x. g x = Tier_EPISODIC) xs)) +
     sum_list (map f (filter (\<lambda>x. g x = Tier_SEMANTIC) xs))" for f :: "'a \<Rightarrow> nat"
proof (induction xs)
  case (Cons x xs)
  then show ?case by (cases "g x") simp_all
qed simp

lemma build_context_cases:
  assumes "build_context rt r b = Inr c"
  shows "\<exists>s. choice_ok rt b (mrr_hits r) s \<and> list_all2 (\<lambda>h x. make_snippet h = Inr x) (mcc_chosen s) (mctx_snippets c) \<and>
    mctx_token_count c = sum_list (map msnip_token_count (mctx_snippets c)) \<and>
    mctx_byte_count c = sum_list (map (\<lambda>x. utf8_length (msnip_framed_text x)) (mctx_snippets c)) \<and> length (mctx_snippets c) \<le> 100"
proof -
  let ?s0 = "\<lparr>mcc_used = (\<lambda>_. 0), mcc_chosen = [], mcc_seen = []\<rparr>"
  have "\<exists>s xs. foldE (\<lambda>i. choose_hit rt b (mrr_hits r ! i)) (lost_middle_order (length (mrr_hits r))) ?s0 = Inr s \<and>
    foldE (\<lambda>h xs. bindE (make_snippet h) (\<lambda>x. Inr (xs @ [x]))) (mcc_chosen s) [] = Inr xs \<and> mctx_snippets c = xs \<and>
    mctx_token_count c = sum_list (map msnip_token_count xs) \<and>
    mctx_byte_count c = sum_list (map (\<lambda>x. utf8_length (msnip_framed_text x)) xs) \<and> length xs \<le> 100"
    using assms unfolding build_context_def Let_def bindE_Inr_iff guardE_Inr_iff by (elim exE conjE) (simp only: sum.inject, force)
  then obtain s xs where s: "foldE (\<lambda>i. choose_hit rt b (mrr_hits r ! i)) (lost_middle_order (length (mrr_hits r))) ?s0 = Inr s"
    and xs: "foldE (\<lambda>h xs. bindE (make_snippet h) (\<lambda>x. Inr (xs @ [x]))) (mcc_chosen s) [] = Inr xs"
    and c: "mctx_snippets c = xs" "mctx_token_count c = sum_list (map msnip_token_count xs)"
      "mctx_byte_count c = sum_list (map (\<lambda>x. utf8_length (msnip_framed_text x)) xs)" "length xs \<le> 100" by blast
  have "choice_ok rt b (mrr_hits r) ?s0" by (simp add: choice_ok_def tier_tokens_def framed_bytes_def)
  with s have ok: "choice_ok rt b (mrr_hits r) s"
  proof (rule foldE_invariant)
    fix i u u'
    assume i: "i \<in> set (lost_middle_order (length (mrr_hits r)))" and u: "choice_ok rt b (mrr_hits r) u"
      and u': "choose_hit rt b (mrr_hits r ! i) u = Inr u'"
    from i have "mrr_hits r ! i \<in> set (mrr_hits r)" by (simp add: lost_middle_order_perm)
    with u' u show "choice_ok rt b (mrr_hits r) u'" by (rule choose_hit_ok)
  qed
  have "list_all2 (\<lambda>h x. make_snippet h = Inr x) (mcc_chosen s) xs" using make_snippets [OF xs] by simp
  with ok c show ?thesis by (intro exI [of _ s]) simp
qed

end
