(* ===== verification/Memory_Sample.thy ===== *)
theory Memory_Sample
  imports Memory_Erasure Memory_Chunks Memory_Context Sample_Data
begin

text \<open>
  Concrete inputs for the memory theorems: a runtime whose digest is 64 times one hexadecimal digit of the sum of the characters,
  a memory, an index that holds one chunk of it, and the state after the memory is proposed. The world is the list of
  the blobs that were erased.
\<close>

section \<open>Runtime\<close>

definition sum_digest :: "string \<Rightarrow> string" where
  "sum_digest s = replicate 64 (hex_chars ! (sum_list (map of_char s) mod 16))"

definition mem_rt :: runtime where
  "mem_rt = sample_rt\<lparr>sha256_hexdigest := sum_digest\<rparr>"

lemma mem_rt_digest [simp]: "sha256_hexdigest mem_rt = sum_digest"
  by (simp add: mem_rt_def)

lemma mem_rt_shape: "sha256_shape mem_rt"
proof -
  have "n mod 16 < length hex_chars" for n :: nat by (simp add: hex_chars_def)
  then show ?thesis by (simp add: sha256_shape_def hex64_def sum_digest_def list_all_iff)
qed

lemma mem_rt_float: "float_repr_ok mem_rt"
  using sample_float_ok by (simp add: float_repr_ok_def mem_rt_def)

section \<open>A memory\<close>

definition mem_cite :: memory_citation where
  "mem_cite = \<lparr>mcit_evidence_id = ''ev-1'', mcit_source_id = ''src-1'', mcit_locator = ''log:1'', mcit_content_hash = zero_hash,
     mcit_provenance_digest = zero_hash\<rparr>"

definition mem_record :: memory_record where
  "mem_record = \<lparr>mrec_memory_id = ''mem-1'', mrec_tenant_id = ''acme'', mrec_tier = Tier_EPISODIC, mrec_status = Mem_ACCEPTED,
     mrec_incident_id = ''inc-1'', mrec_run_id = ''run-1'', mrec_source_type = ''log'',
     mrec_provenance = \<lparr>mprov_tenant_id = ''acme'', mprov_incident_id = ''inc-1'', mprov_run_id = ''run-1'', mprov_source_id = ''src-1'',
       mprov_source_type = ''log'', mprov_source_digest = zero_hash, mprov_evidence_id = ''ev-1'', mprov_locator = ''log:1'',
       mprov_content_hash = zero_hash, mprov_provenance_digest = zero_hash, mprov_observed_at = 10, mprov_ingested_at = 20\<rparr>,
     mrec_citations = [mem_cite], mrec_acl = \<lparr>macl_roles = [''incident-responder''], macl_principals = []\<rparr>,
     mrec_classification = Class_INTERNAL, mrec_trust = Trust_PLATFORM_CONTROL_PLANE, mrec_schema_name = ''incident-note'', mrec_schema_revision = 1,
     mrec_chunker_version = chunker_version, mrec_embedder_model = ''embed'', mrec_embedder_version = ''v1'', mrec_embedding_dimensions = 2,
     mrec_content_digest = zero_hash, mrec_quality = PyFloat 1 0, mrec_confidence = PyFloat 1 0,
     mrec_retention = \<lparr>mret_policy_ref = ''retain'', mret_expires_at = 9000, mret_legal_hold_refs = []\<rparr>,
     mrec_blob = \<lparr>mblob_tenant_id = ''acme'', mblob_blob_ref = ''blob-1'', mblob_key_ref = ''key-1'', mblob_key_version = 1,
       mblob_content_digest = zero_hash, mblob_byte_count = 40\<rparr>,
     mrec_supersedes = [], mrec_superseded_by = None, mrec_tombstone_reason = None, mrec_created_at = 20, mrec_accepted_at = Some 30,
     mrec_canonical_digest = zero_hash\<rparr>"

lemma mem_record_simps [simp]:
  "mrec_tenant_id mem_record = ''acme''" "mrec_memory_id mem_record = ''mem-1''" "memory_key mem_record = (''acme'', ''mem-1'')"
  "\<not> retention_held (mrec_retention mem_record)" "mrec_canonical_digest mem_record = zero_hash"
  by (simp_all add: mem_record_def memory_key_def retention_held_def)

definition mem_item :: indexed_chunk where
  "mem_item = \<lparr>mit_record = mem_record, mit_chunk = make_chunk mem_rt ''acme'' ''mem-1'' mem_cite 0 ''disk is full'',
     mit_vector = \<lparr>mvec_chunk_id = ''chunk'', mvec_content_digest = zero_hash, mvec_values = [PyFloat 1 0, PyFloat 0 0]\<rparr>, mit_indexed_at = 40\<rparr>"

definition mem_index :: hybrid_index where
  "mem_index = \<lparr>mix_items = [((''acme'', ''chunk''), mem_item)], mix_cache = []\<rparr>"

section \<open>States\<close>

definition mem_env :: "erasable_blob list memory_env" where
  "mem_env = \<lparr>me_runtime = mem_rt, me_clock = (\<lambda>n. 100 + n),
     me_chunker = \<lparr>mck_maximum_tokens = 16, mck_overlap_tokens = 4, mck_maximum_chunks = 8\<rparr>,
     me_embed = (\<lambda>_. raiseS (IntegrityFailure ''embedding is offline''))\<rparr>"

lemma mem_env_rt [simp]: "me_runtime mem_env = mem_rt"
  by (simp add: mem_env_def)

definition mem_empty :: "erasable_blob list memory_state" where
  "mem_empty = \<lparr>ms_ledger = empty_memory_ledger, ms_index = mem_index, ms_ticks = 0, ms_world = []\<rparr>"

definition mem_start :: "erasable_blob list memory_state" where
  "mem_start = snd (propose_memory mem_env mem_record ''bob'' mem_empty)"

definition mem_projection :: memory_projection where
  "mem_projection = projr (fst (propose_memory mem_env mem_record ''bob'' mem_empty))"

definition mem_erase :: "erasable_blob \<Rightarrow> (erasable_blob list, unit) op" where
  "mem_erase b w = (Inr (), w @ [b])"

definition mem_erase_fails :: "erasable_blob \<Rightarrow> (erasable_blob list, unit) op" where
  "mem_erase_fails b w = (Inl (IntegrityFailure ''key service is offline''), w)"

lemma mem_ids: "valid_identifier ''bob''" "valid_identifier ''acme''" "valid_identifier ''mem-1''"
  by (simp_all add: valid_identifier_def ident_char_def)

lemma mem_commands_distinct:
  "distinct (map (memory_command mem_rt mem_record)
     [''candidate'', ''tombstone'', ''purge'', ''crypto-erase'', hold_ending True ''h1'', hold_ending False ''h1''])"
  by (simp add: memory_command_def stable_id_def hold_ending_def sum_digest_def hex_chars_def)

lemma mem_pay_small:
  "small_payload mem_rt [(''record_digest'', JStr (mrec_canonical_digest mem_record)), (''tier'', JStr (tier_value (mrec_tier mem_record))),
      (''trust'', JStr (trust_value (mrec_trust mem_record)))]"
  by code_simp

lemma empty_memory_ok: "memory_ok rt empty_memory_ledger"
  by (rule memory_reachable_ok) (simp add: memory_reachable_def)

lemma mem_started:
  "propose_memory mem_env mem_record ''bob'' mem_empty = (Inr mem_projection, mem_start)"
  "mem_at mem_rt mem_record mem_projection mem_start" "mproj_legal_hold_count mem_projection = 0" "ms_index mem_start = mem_index" "ms_world mem_start = []"
  "dom (mled_commands (ms_ledger mem_start)) = {(''acme'', memory_command mem_rt mem_record ''candidate'')}"
proof -
  have "mled_records (ms_ledger mem_empty) (memory_key mem_record) = None" "command_of mem_rt mem_record ''candidate'' mem_empty = None"
    by (simp_all add: mem_empty_def empty_memory_ledger_def command_of_def)
  from propose_succeeds [of mem_env mem_empty mem_record "''bob''", unfolded mem_env_rt, OF mem_rt_shape _ this]
  obtain p s where ps: "propose_memory mem_env mem_record ''bob'' mem_empty = (Inr p, s)" "mem_at mem_rt mem_record p s"
      "mproj_legal_hold_count p = 0" "ms_index s = mem_index" "ms_world s = []"
      "dom (mled_commands (ms_ledger s)) = {(''acme'', memory_command mem_rt mem_record ''candidate'')}"
    using mem_ids mem_pay_small empty_memory_ok by (auto simp: mem_empty_def empty_memory_ledger_def)
  then have "mem_projection = p" "mem_start = s" by (simp_all add: mem_projection_def mem_start_def)
  with ps show "propose_memory mem_env mem_record ''bob'' mem_empty = (Inr mem_projection, mem_start)"
    "mem_at mem_rt mem_record mem_projection mem_start" "mproj_legal_hold_count mem_projection = 0" "ms_index mem_start = mem_index" "ms_world mem_start = []"
    "dom (mled_commands (ms_ledger mem_start)) = {(''acme'', memory_command mem_rt mem_record ''candidate'')}" by simp_all
qed

lemma mem_no_command:
  "e \<in> {''tombstone'', ''purge'', ''crypto-erase'', hold_ending True ''h1'', hold_ending False ''h1''} \<Longrightarrow>
   command_of mem_rt mem_record e mem_start = None"
proof -
  assume "e \<in> {''tombstone'', ''purge'', ''crypto-erase'', hold_ending True ''h1'', hold_ending False ''h1''}"
  then have "memory_command mem_rt mem_record e \<noteq> memory_command mem_rt mem_record ''candidate''" using mem_commands_distinct by auto
  then have "(''acme'', memory_command mem_rt mem_record e) \<notin> dom (mled_commands (ms_ledger mem_start))" by (simp add: mem_started(6))
  then show ?thesis by (simp add: command_of_def domIff)
qed

lemma mem_purged: "purged_count ''acme'' ''mem-1'' mem_index = 1"
  by (simp add: purged_count_def mem_index_def mem_item_def of_memory_def)

lemma mem_erasable: "erasable mem_rt mem_record mem_projection mem_start"
proof -
  have "(1 :: nat) < 10 ^ 100" by (rule one_less_power) simp_all
  with mem_started mem_commands_distinct mem_purged mem_no_command show ?thesis by (simp add: erasable_def)
qed

definition mem_bare :: "erasable_blob list memory_state" where
  "mem_bare = mem_start\<lparr>ms_index := \<lparr>mix_items = [], mix_cache = []\<rparr>\<rparr>"

lemma mem_bare_erasable: "erasable mem_rt mem_record mem_projection mem_bare"
  using mem_erasable by (simp add: erasable_def mem_bare_def purged_count_def)

lemma mem_reachable: "memory_reachable mem_rt (ms_ledger mem_start)"
proof -
  let ?l = "snd (put_record mem_record empty_memory_ledger)"
  have put: "put_record mem_record empty_memory_ledger = (Inr (), ?l)" by (simp add: put_record_def empty_memory_ledger_def)
  then have "(memory_step mem_rt)\<^sup>*\<^sup>* empty_memory_ledger ?l" by (intro r_into_rtranclp step_put)
  moreover have "\<exists>a r. memory_append mem_rt a ?l = (r, ms_ledger mem_start)"
    using put mem_started(1)
    by (auto simp: propose_memory_def append_memory_def memory_now_def on_memory_ledger_def op_defs mem_empty_def split: prod.splits
      dest!: arg_cong [of _ mem_start ms_ledger]) blast
  then obtain a r where "memory_append mem_rt a ?l = (r, ms_ledger mem_start)" by blast
  then have "memory_step mem_rt ?l (ms_ledger mem_start)" by (rule step_append)
  ultimately show ?thesis unfolding memory_reachable_def by (rule rtranclp.rtrancl_into_rtrancl)
qed

text \<open>The memory is erased, then a legal hold is applied to it.\<close>

definition mem_gone :: "erasable_blob list memory_state" where
  "mem_gone = snd (tombstone_and_erase mem_env mem_erase ''acme'' ''mem-1'' ''bob'' ''expired'' mem_start)"

definition mem_gone_held :: "erasable_blob list memory_state" where
  "mem_gone_held = snd (set_legal_hold mem_env ''acme'' ''mem-1'' ''h1'' True ''bob'' mem_gone)"

lemma mem_gone_erased: "\<exists>p. mled_projections (ms_ledger mem_gone) (''acme'', ''mem-1'') = Some p \<and> mproj_blob_erased p"
  using erase_completes [of mem_env mem_record mem_projection mem_start "''acme''" "''mem-1''" "''bob''" "''expired''" mem_erase "[mrec_blob mem_record]"]
    mem_rt_shape mem_erasable mem_ids mem_started(5) by (auto simp: mem_erase_def mem_gone_def mem_at_def)

lemma mem_gone_history:
  "memory_reachable mem_rt (ms_ledger mem_gone)" "(memory_step mem_rt)\<^sup>*\<^sup>* (ms_ledger mem_gone) (ms_ledger mem_gone_held)"
proof -
  have "(memory_step mem_rt)\<^sup>*\<^sup>* (ms_ledger mem_start) (ms_ledger mem_gone)"
    using memory_history.keepingD [OF service_history(3) [of mem_env], of mem_erase _ _ _ _ mem_start] unfolding mem_gone_def mem_env_rt by (metis prod.collapse)
  with mem_reachable show "memory_reachable mem_rt (ms_ledger mem_gone)" unfolding memory_reachable_def by (rule rtranclp_trans)
  show "(memory_step mem_rt)\<^sup>*\<^sup>* (ms_ledger mem_gone) (ms_ledger mem_gone_held)"
    using memory_history.keepingD [OF service_history(5) [of mem_env], of _ _ _ _ _ mem_gone] unfolding mem_gone_held_def mem_env_rt by (metis prod.collapse)
qed

section \<open>A text and a retrieval\<close>

definition mem_text :: string where
  "mem_text = ''a b c d e f g h i j k l m n o p q r s t''"

definition mem_words :: "string list" where
  "mem_words = [''a'', ''b'', ''c'', ''d'', ''e'', ''f'', ''g'', ''h'', ''i'', ''j'', ''k'', ''l'', ''m'', ''n'', ''o'', ''p'', ''q'', ''r'', ''s'', ''t'']"

lemma mem_text_words: "canonical_text mem_text = Inr mem_text" "mem_words = words_of mem_text"
  by code_simp+

definition mem_hit :: "string \<Rightarrow> string \<Rightarrow> retrieval_hit" where
  "mem_hit chunk_id text = \<lparr>mhit_memory_id = ''mem-1'', mhit_chunk_id = chunk_id, mhit_tier = Tier_EPISODIC, mhit_text = text, mhit_citation = mem_cite,
     mhit_lexical_score = PyFloat 0 0, mhit_vector_score = PyFloat 0 0, mhit_recency_score = PyFloat 0 0, mhit_quality_score = PyFloat 0 0,
     mhit_combined_score = PyFloat 0 0, mhit_stale = False, mhit_contradiction_group = None\<rparr>"

definition mem_retrieved :: retrieval_result where
  "mem_retrieved = \<lparr>mrr_query_id = ''q-1'', mrr_query_digest = zero_hash, mrr_policy_digest = zero_hash,
     mrr_hits = [mem_hit ''c-1'' ''disk <full>'', mem_hit ''c-2'' ''disk <full>'', mem_hit ''c-3'' ''restart''], mrr_candidate_count = 3, mrr_token_count = 8,
     mrr_byte_count = 29, mrr_insufficient_context = False, mrr_cache_hit = False, mrr_result_digest = zero_hash\<rparr>"

definition mem_budget :: context_budget where
  "mem_budget = \<lparr>mbud_total_tokens = 1024, mbud_reserved_system_tokens = 64, mbud_reserved_safety_tokens = 64, mbud_working_tokens = 100,
     mbud_episodic_tokens = 100, mbud_semantic_tokens = 100, mbud_maximum_bytes = 1024, mbud_minimum_citations = 1\<rparr>"

lemma mem_choice:
  "\<exists>s. foldE (\<lambda>i. choose_hit mem_rt mem_budget (mrr_hits mem_retrieved ! i)) (lost_middle_order (length (mrr_hits mem_retrieved)))
     \<lparr>mcc_used = (\<lambda>_. 0), mcc_chosen = [], mcc_seen = []\<rparr> = Inr s \<and> mcc_chosen s = [mem_hit ''c-1'' ''disk <full>'', mem_hit ''c-3'' ''restart'']"
proof -
  have order: "lost_middle_order (length (mrr_hits mem_retrieved)) = [0, 2, 1]" by code_simp
  have hits: "mrr_hits mem_retrieved ! 0 = mem_hit ''c-1'' ''disk <full>''" "mrr_hits mem_retrieved ! Suc 0 = mem_hit ''c-2'' ''disk <full>''"
    "mrr_hits mem_retrieved ! 2 = mem_hit ''c-3'' ''restart''" by (simp_all add: mem_retrieved_def)
  have canon: "canonical_text ''disk <full>'' = Inr ''disk <full>''" "canonical_text ''restart'' = Inr ''restart''" by code_simp+
  have size: "token_estimate ''disk <full>'' = 3" "token_estimate ''restart'' = 2"
    "utf8_length (frame_untrusted (mem_hit ''c-1'' ''disk <full>'')) = 84" "utf8_length (frame_untrusted (mem_hit ''c-3'' ''restart'')) = 74"
    by code_simp+
  have dig: "sum_digest ''restart'' \<noteq> sum_digest ''disk <full>''" by code_simp
  have hit: "mhit_text (mem_hit i t) = t" "mhit_tier (mem_hit i t) = Tier_EPISODIC" for i t by (simp_all add: mem_hit_def)
  have b: "mbud_episodic_tokens mem_budget = 100" "mbud_maximum_bytes mem_budget = 1024" by (simp_all add: mem_budget_def)
  show ?thesis unfolding order
    by (simp add: hits choose_hit_def Let_def canon hit size b dig framed_bytes_def)
qed

lemma mem_context: "\<exists>c. build_context mem_rt mem_retrieved mem_budget = Inr c \<and> length (mctx_snippets c) = 2"
proof -
  obtain s where s: "foldE (\<lambda>i. choose_hit mem_rt mem_budget (mrr_hits mem_retrieved ! i)) (lost_middle_order (length (mrr_hits mem_retrieved)))
     \<lparr>mcc_used = (\<lambda>_. 0), mcc_chosen = [], mcc_seen = []\<rparr> = Inr s" "mcc_chosen s = [mem_hit ''c-1'' ''disk <full>'', mem_hit ''c-3'' ''restart'']"
    using mem_choice by blast
  have "case make_snippet (mem_hit ''c-1'' ''disk <full>'') of Inl _ \<Rightarrow> False | Inr _ \<Rightarrow> True"
    "case make_snippet (mem_hit ''c-3'' ''restart'') of Inl _ \<Rightarrow> False | Inr _ \<Rightarrow> True" by code_simp+
  then obtain x y where xy: "make_snippet (mem_hit ''c-1'' ''disk <full>'') = Inr x" "make_snippet (mem_hit ''c-3'' ''restart'') = Inr y"
    by (auto split: sum.splits)
  show ?thesis unfolding build_context_def s(1) by (simp add: s(2) xy Let_def)
qed

end
