(* ===== verification/Memory_Properties.thy ===== *)
theory Memory_Properties
  imports Memory_Sample
begin

text \<open>
  The theorems about memories: the facts and the projection, erasure and legal holds, the chunks of a text and the context of
  a model call.
\<close>

section \<open>Facts and projection\<close>

text \<open>C27. In every ledger that calls of the memory store can reach, the live projection of a memory is the replay of its facts
  over its record, and rebuilding it returns that projection and leaves the ledger as it is.\<close>

theorem memory_projection_is_replay:
  assumes "memory_reachable rt l" "mled_projections l (t, x) = Some p"
  shows "\<exists>m. mled_records l (t, x) = Some m \<and> memory_key m = (t, x) \<and> replay_memory rt m (memory_facts l (t, x)) None = Inr (Some p) \<and>
    memory_rebuild rt t x l = (Inr p, l)"
proof -
  have ok: "log_matches rt l (t, x)" by (rule memory_okD [OF memory_reachable_ok [OF assms(1)]])
  with assms(2) obtain m where m: "mled_records l (t, x) = Some m" by (cases "mled_records l (t, x)") (simp_all add: log_matches_def)
  with ok assms(2) have "memory_key m = (t, x)" "replay_memory rt m (memory_facts l (t, x)) None = Inr (Some p)" by (simp_all add: log_matches_def)
  moreover have "(mled_projections l)((t, x) \<mapsto> p) = mled_projections l" using assms(2) by (simp add: map_upd_triv)
  ultimately show ?thesis using m by (simp add: memory_rebuild_def)
qed

theorem memory_projection_is_replay_witness:
  "\<exists>m. mled_records (ms_ledger mem_start) (''acme'', ''mem-1'') = Some m \<and> memory_key m = (''acme'', ''mem-1'') \<and>
    replay_memory mem_rt m (memory_facts (ms_ledger mem_start) (''acme'', ''mem-1'')) None = Inr (Some mem_projection) \<and>
    memory_rebuild mem_rt ''acme'' ''mem-1'' (ms_ledger mem_start) = (Inr mem_projection, ms_ledger mem_start)"
  using memory_projection_is_replay [OF mem_reachable, of "''acme''" "''mem-1''" mem_projection] mem_started(2) by (simp add: mem_at_def)

text \<open>C28. The marks of a deletion are never taken back: along every history of ledger calls, and so of calls of the service, the
  flags \<open>tombstoned\<close>, \<open>derived_purged\<close> and \<open>blob_erased\<close> of a memory stay set once they are set, its version grows and its facts are only
  extended; an erased memory was purged, a purged one tombstoned, a memory with status \<open>erased\<close> has its blob erased, and no more than 16
  holds are counted. The field \<open>status\<close> itself may be overwritten by a later fact.\<close>

theorem deletion_flags_final:
  assumes "memory_reachable rt l" "(memory_step rt)\<^sup>*\<^sup>* l l'" "mled_projections l k = Some p"
  shows "\<exists>q. mled_projections l' k = Some q \<and> (mproj_tombstoned p \<longrightarrow> mproj_tombstoned q) \<and> (mproj_derived_purged p \<longrightarrow> mproj_derived_purged q) \<and>
    (mproj_blob_erased p \<longrightarrow> mproj_blob_erased q) \<and> (mproj_blob_erased q \<longrightarrow> mproj_derived_purged q) \<and>
    (mproj_derived_purged q \<longrightarrow> mproj_tombstoned q) \<and> (mproj_status q = Mem_ERASED \<longrightarrow> mproj_blob_erased q) \<and>
    mproj_legal_hold_count q \<le> 16 \<and> mproj_version p \<le> mproj_version q \<and>
    mproj_version q = length (memory_facts l' k) \<and> prefix (memory_facts l k) (memory_facts l' k)"
proof -
  from memory_steps_ok [OF assms(2) memory_reachable_ok [OF assms(1)]] have ok: "memory_ok rt l'" and ext: "memory_extends l l'" by blast+
  from ext assms(3) obtain q where q: "mled_projections l' k = Some q" "flags_kept p q" "prefix (memory_facts l k) (memory_facts l' k)"
    unfolding memory_extends_def by blast
  from memory_okD [OF ok, of k] q(1) have "flags_ordered q" "mproj_version q = length (memory_facts l' k)" by (simp_all add: log_matches_def)
  with q show ?thesis by (simp add: flags_ordered_def flags_kept_def)
qed

theorem deletion_flags_final_witness:
  "\<exists>p q. mled_projections (ms_ledger mem_gone) (''acme'', ''mem-1'') = Some p \<and> mproj_blob_erased p \<and>
    mled_projections (ms_ledger mem_gone_held) (''acme'', ''mem-1'') = Some q \<and> mproj_blob_erased q \<and> mproj_derived_purged q \<and> mproj_tombstoned q"
proof -
  obtain p where p: "mled_projections (ms_ledger mem_gone) (''acme'', ''mem-1'') = Some p" "mproj_blob_erased p"
    using mem_gone_erased by blast
  from deletion_flags_final [OF mem_gone_history p(1)] p show ?thesis by blast
qed

section \<open>Erasure\<close>

text \<open>C29. A blob is erased only behind the holds and after the derived data is gone: when an erasure changes the outside world
  or returns, the memory exists, neither its record nor its projection has a legal hold, the index and its cache hold nothing
  derived from it, and the callback ran once, on the blob of the record.\<close>

theorem erase_only_after_purge:
  assumes "tombstone_and_erase env erase t x actor reason s = (r, s')" "ms_world s' \<noteq> ms_world s \<or> r = Inr q"
  shows "\<exists>m p. mled_records (ms_ledger s) (t, x) = Some m \<and> mled_projections (ms_ledger s) (t, x) = Some p \<and> mproj_legal_hold_count p = 0 \<and>
    \<not> retention_held (mrec_retention m) \<and> no_derived t x (ms_index s') \<and> ms_world s' = snd (erase (mrec_blob m) (ms_world s))"
  using assms(1)
proof (cases rule: erase_steps)
  case (stopped e)
  with assms(2) show ?thesis by simp
next
  case (called m)
  then show ?thesis by (auto simp: erase_gate_def)
qed

text \<open>C30. A memory without holds whose erasure was not asked for before is erased: the call tombstones it, purges what was derived
  from it, erases the blob and records the three facts; its projection is then erased.\<close>

theorem memory_erased:
  fixes env :: "'w memory_env"
  assumes "sha256_shape (me_runtime env)" "erasable (me_runtime env) m p s" "memory_key m = (t, x)" "valid_identifier actor"
    and "length reason \<le> 128" "erase (mrec_blob m) (ms_world s) = (Inr (), w)"
  shows "\<exists>q s'. tombstone_and_erase env erase t x actor reason s = (Inr q, s') \<and> mled_projections (ms_ledger s') (t, x) = Some q \<and>
    mproj_status q = Mem_ERASED \<and> mproj_blob_erased q \<and> no_derived t x (ms_index s') \<and> ms_world s' = w \<and>
    map mfact_fact_type (memory_facts (ms_ledger s') (t, x)) = map mfact_fact_type (memory_facts (ms_ledger s) (t, x)) @
      [MemFact_TOMBSTONED, MemFact_DERIVED_PURGED, MemFact_CRYPTO_ERASED]"
  using erase_completes [OF assms(1-5), of erase, OF assms(6)] assms(3) by (auto simp: mem_at_def)

theorem erase_only_after_purge_witness:
  "\<exists>m p. mled_records (ms_ledger mem_start) (''acme'', ''mem-1'') = Some m \<and> mled_projections (ms_ledger mem_start) (''acme'', ''mem-1'') = Some p \<and>
    mproj_legal_hold_count p = 0 \<and> \<not> retention_held (mrec_retention m) \<and>
    no_derived ''acme'' ''mem-1'' (ms_index (snd (tombstone_and_erase mem_env mem_erase ''acme'' ''mem-1'' ''bob'' ''expired'' mem_start))) \<and>
    ms_world (snd (tombstone_and_erase mem_env mem_erase ''acme'' ''mem-1'' ''bob'' ''expired'' mem_start)) = snd (mem_erase (mrec_blob m) [])"
proof -
  obtain p1 s1 where s1: "tombstone_and_erase mem_env mem_erase ''acme'' ''mem-1'' ''bob'' ''expired'' mem_start = finish_erase mem_env mem_erase mem_record ''bob'' p1 s1"
    "ms_world s1 = ms_world mem_start"
    using erase_until_world [of mem_env mem_record mem_projection mem_start "''acme''" "''mem-1''" "''bob''" "''expired''" mem_erase]
      mem_rt_shape mem_erasable mem_ids by auto
  obtain r s' where rs: "finish_erase mem_env mem_erase mem_record ''bob'' p1 s1 = (r, s')" by force
  have "ms_world s' = [mrec_blob mem_record]" using finish_erase_world [OF rs] s1(2) mem_started(5) by (simp add: mem_erase_def)
  then have "ms_world s' \<noteq> ms_world mem_start \<or> r = Inr mem_projection" by (simp add: mem_started(5))
  from erase_only_after_purge [OF _ this, of mem_env mem_erase "''acme''" "''mem-1''" "''bob''" "''expired''"] s1(1) rs mem_started(5)
  show ?thesis by simp
qed

theorem memory_erased_witness:
  "\<exists>q s'. tombstone_and_erase mem_env mem_erase ''acme'' ''mem-1'' ''bob'' ''expired'' mem_start = (Inr q, s') \<and>
    mled_projections (ms_ledger s') (''acme'', ''mem-1'') = Some q \<and> mproj_status q = Mem_ERASED \<and> ms_world s' = [mrec_blob mem_record]"
  using memory_erased [of mem_env mem_record mem_projection mem_start "''acme''" "''mem-1''" "''bob''" "''expired''" mem_erase "[mrec_blob mem_record]"]
    mem_rt_shape mem_erasable mem_ids mem_started(5) by (auto simp: mem_erase_def)



section \<open>Legal holds\<close>

text \<open>A legal hold that was released cannot be applied again under its reference: the first application counts the hold and its
  release removes it, and the next application of the same reference returns without an error and without a fact, with the
  hold not counted.\<close>

theorem reapplied_hold_ignored:
  fixes env :: "'w memory_env"
  assumes "sha256_shape (me_runtime env)" "mem_at (me_runtime env) m p s" "memory_key m = (t, x)" "valid_identifier actor"
    and "mproj_legal_hold_count p < 16" "command_of (me_runtime env) m (hold_ending True hold_ref) s = None"
    and "command_of (me_runtime env) m (hold_ending False hold_ref) s = None"
    and "memory_command (me_runtime env) m (hold_ending True hold_ref) \<noteq> memory_command (me_runtime env) m (hold_ending False hold_ref)"
  shows "\<exists>p1 s1 p2 s2. set_legal_hold env t x hold_ref True actor s = (Inr p1, s1) \<and> mproj_legal_hold_count p1 = Suc (mproj_legal_hold_count p) \<and>
    set_legal_hold env t x hold_ref False actor s1 = (Inr p2, s2) \<and> mproj_legal_hold_count p2 = mproj_legal_hold_count p \<and>
    mled_projections (ms_ledger s2) (t, x) = Some p2 \<and>
    set_legal_hold env t x hold_ref True actor s2 = (Inr p2, s2\<lparr>ms_ticks := Suc (ms_ticks s2)\<rparr>)"
proof -
  let ?rt = "me_runtime env" and ?pay = "[(''hold_ref_digest'', JStr (sha256_hexdigest (me_runtime env) hold_ref))]"
  from set_legal_hold_new [OF assms(1-3,6,4)] assms(5) obtain p1 s1 where
    s1: "set_legal_hold env t x hold_ref True actor s = (Inr p1, s1)" "mproj_legal_hold_count p1 = Suc (mproj_legal_hold_count p)"
    and ap1: "mem_appended ?rt m MemFact_LEGAL_HOLD_APPLIED (hold_ending True hold_ref) ?pay s p1 s1" by auto
  have at1: "mem_at ?rt m p1 s1" using ap1 by (simp add: mem_appended_def)
  have "command_of ?rt m (hold_ending False hold_ref) s1 = None" using appended_command [OF ap1] assms(7,8) by simp
  from set_legal_hold_new [OF assms(1) at1 assms(3) this assms(4)] s1(2) obtain p2 s2 where
    s2: "set_legal_hold env t x hold_ref False actor s1 = (Inr p2, s2)" "mproj_legal_hold_count p2 = mproj_legal_hold_count p"
    and ap2: "mem_appended ?rt m MemFact_LEGAL_HOLD_RELEASED (hold_ending False hold_ref) ?pay s1 p2 s2" by auto
  have at2: "mem_at ?rt m p2 s2" using ap2 by (simp add: mem_appended_def)
  have "command_of ?rt m (hold_ending True hold_ref) s2 = Some (mark_of ?rt m MemFact_LEGAL_HOLD_APPLIED ?pay)"
    using appended_command [OF ap2] appended_command [OF ap1] assms(8) by simp
  from append_memory_known [OF at2 this, of "mproj_version p2" MemFact_LEGAL_HOLD_APPLIED actor ?pay]
  have "set_legal_hold env t x hold_ref True actor s2 = (Inr p2, s2\<lparr>ms_ticks := Suc (ms_ticks s2)\<rparr>)"
    by (simp add: set_legal_hold_eq [OF at2 assms(3)])
  moreover have "mled_projections (ms_ledger s2) (t, x) = Some p2" using at2 assms(3) by (simp add: mem_at_def)
  ultimately show ?thesis using s1 s2 by blast
qed

theorem reapplied_hold_ignored_witness:
  "\<exists>p1 s1 p2 s2. set_legal_hold mem_env ''acme'' ''mem-1'' ''h1'' True ''bob'' mem_start = (Inr p1, s1) \<and> mproj_legal_hold_count p1 = 1 \<and>
    set_legal_hold mem_env ''acme'' ''mem-1'' ''h1'' False ''bob'' s1 = (Inr p2, s2) \<and> mproj_legal_hold_count p2 = 0 \<and>
    set_legal_hold mem_env ''acme'' ''mem-1'' ''h1'' True ''bob'' s2 = (Inr p2, s2\<lparr>ms_ticks := Suc (ms_ticks s2)\<rparr>)"
  using reapplied_hold_ignored [of mem_env mem_record mem_projection mem_start "''acme''" "''mem-1''" "''bob''" "''h1''"]
    mem_rt_shape mem_started(2,3) mem_ids(1) mem_no_command mem_commands_distinct by auto

section \<open>Chunks\<close>

text \<open>C32. Chunking a text of code points up to 255, whose identifiers and citation are valid, yields the windows of its words: for a
  chunker with valid bounds the call returns one chunk per window, in order, each the words of its window with its digest, size and
  ordinal, and fails only when there are more windows than the chunker allows. Every word is in a window. The range of the characters
  matters for the failures: they have at most two bytes, so that the token estimate of a window, a quarter of its bytes, is at most the 32768
  that \<open>MemoryChunk\<close> admits; a window of more than 43690 characters of three bytes would exceed it.\<close>

theorem chunks_are_windows:
  assumes "sha256_shape rt" "make_chunker mt ot mc = Inr c" "canonical_text text = Inr n" "ws = words_of n"
    and "valid_identifier t" "valid_identifier x" "valid_memory_citation cit"
  shows "split_text rt c t x text cit =
      (if window_count c (length ws) \<le> mck_maximum_chunks c
       then Inr (map (\<lambda>i. make_chunk rt t x cit i (window_text c ws (i * window_step c))) [0..<window_count c (length ws)])
       else Inl (ValueError ''memory content exceeds the chunk count bound'')) \<and>
    (\<forall>j < length ws. \<exists>i < window_count c (length ws). i * window_step c \<le> j \<and> j < i * window_step c + mck_maximum_tokens c)"
proof -
  note c = make_chunker_bounds [OF assms(2)]
  have M: "0 < mck_maximum_tokens c" using c by simp
  have ws: "ws \<noteq> []" "list_all (\<lambda>w. w \<noteq> []) ws" using canonical_words(1) [OF assms(3)] words_nonempty [of _ n] by (auto simp: assms(4) list_all_iff)
  have "build_chunk rt t x cit i (window_text c ws s) = Inr (make_chunk rt t x cit i (window_text c ws s))"
    if "i < mck_maximum_chunks c" "s < length ws" for i s
    using that c(4) window_text_nonempty [OF ws(2) that(2) M] window_text_length [of s n c] canonical_words(2) [OF assms(3)] M
    by (intro build_chunk_succeeds assms) (auto simp: assms(4))
  from chunk_loop_windows [OF c(1,2) ws(2), of "build_chunk rt t x cit" "make_chunk rt t x cit" 0 0, OF this] ws(1)
  have "split_text rt c t x text cit =
    (if window_count c (length ws) \<le> mck_maximum_chunks c
     then Inr (map (\<lambda>i. make_chunk rt t x cit i (window_text c ws (i * window_step c))) [0..<window_count c (length ws)])
     else Inl (ValueError ''memory content exceeds the chunk count bound''))"
    by (simp add: split_text_def assms(3) Let_def flip: assms(4))
  with windows_cover [OF c(1,2)] show ?thesis by blast
qed

theorem chunks_are_windows_witness:
  "split_text mem_rt \<lparr>mck_maximum_tokens = 16, mck_overlap_tokens = 4, mck_maximum_chunks = 8\<rparr> ''acme'' ''mem-1'' mem_text mem_cite =
    Inr [make_chunk mem_rt ''acme'' ''mem-1'' mem_cite 0 ''a b c d e f g h i j k l m n o p'',
         make_chunk mem_rt ''acme'' ''mem-1'' mem_cite 1 ''m n o p q r s t'']"
proof -
  let ?c = "\<lparr>mck_maximum_tokens = 16, mck_overlap_tokens = 4, mck_maximum_chunks = 8\<rparr>"
  have "make_chunker 16 4 8 = Inr ?c" by (simp add: make_chunker_def)
  moreover have "valid_memory_citation mem_cite" by code_simp
  ultimately have "split_text mem_rt ?c ''acme'' ''mem-1'' mem_text mem_cite =
      (if window_count ?c (length mem_words) \<le> mck_maximum_chunks ?c
       then Inr (map (\<lambda>i. make_chunk mem_rt ''acme'' ''mem-1'' mem_cite i (window_text ?c mem_words (i * window_step ?c)))
         [0..<window_count ?c (length mem_words)])
       else Inl (ValueError ''memory content exceeds the chunk count bound''))"
    using chunks_are_windows [OF mem_rt_shape _ mem_text_words(1) mem_text_words(2), of 16 4 8 ?c "''acme''" "''mem-1''" mem_cite] mem_ids by blast
  moreover have "window_count ?c (length mem_words) = 2" "window_step ?c = 12" by (simp_all add: window_count_def window_step_def mem_words_def)
  moreover have "window_text ?c mem_words 0 = ''a b c d e f g h i j k l m n o p''" "window_text ?c mem_words 12 = ''m n o p q r s t''"
    by (simp_all add: window_text_def mem_words_def)
  moreover have "[0..<2] = [0, 1 :: nat]" by (simp add: upt_rec)
  ultimately show ?thesis by simp
qed

section \<open>The context of a model call\<close>

text \<open>C33. A context that is built from retrieved hits stays within its budget: the tokens of each tier and the bytes of the framed
  snippets are within their bounds, so that with the reserved tokens the total is kept; its snippets are framed texts of distinct hits'
  canonical texts in which no angle bracket of the retrieved text survives.\<close>

theorem context_within_budget:
  assumes "build_context rt r b = Inr c" "valid_budget b"
  shows "(\<forall>t. sum_list (map msnip_token_count (filter (\<lambda>x. msnip_tier x = t) (mctx_snippets c))) \<le> tier_budget b t) \<and>
    mctx_token_count c + mbud_reserved_system_tokens b + mbud_reserved_safety_tokens b \<le> mbud_total_tokens b \<and>
    mctx_byte_count c \<le> mbud_maximum_bytes b \<and> length (mctx_snippets c) \<le> 100 \<and>
    (\<exists>hs. set hs \<subseteq> set (mrr_hits r) \<and> distinct (map (\<lambda>h. canonical_text (mhit_text h)) hs) \<and>
       map msnip_framed_text (mctx_snippets c) =
         map (\<lambda>h. frame_text (mhit_chunk_id h) (mcit_evidence_id (mhit_citation h)) (mhit_text h)) hs \<and>
       list_all (\<lambda>h. CHR ''<'' \<notin> set (escape_angle (mhit_text h)) \<and> CHR ''>'' \<notin> set (escape_angle (mhit_text h))) hs)"
proof -
  from build_context_cases [OF assms(1)] obtain s where
    ok: "choice_ok rt b (mrr_hits r) s" and xs: "list_all2 (\<lambda>h x. make_snippet h = Inr x) (mcc_chosen s) (mctx_snippets c)"
    and c: "mctx_token_count c = sum_list (map msnip_token_count (mctx_snippets c))"
      "mctx_byte_count c = sum_list (map (\<lambda>x. utf8_length (msnip_framed_text x)) (mctx_snippets c))" "length (mctx_snippets c) \<le> 100" by blast
  note fields = snippet_fields [OF xs]
  have tiers: "sum_list (map msnip_token_count (filter (\<lambda>x. msnip_tier x = t) (mctx_snippets c))) \<le> tier_budget b t" for t
    using ok fields(3) [of t] unfolding choice_ok_def tier_tokens_def by metis
  have "mctx_token_count c \<le> mbud_working_tokens b + mbud_episodic_tokens b + mbud_semantic_tokens b"
    using tiers [of Tier_WORKING] tiers [of Tier_EPISODIC] tiers [of Tier_SEMANTIC] by (simp add: c(1) tier_partition [of _ "mctx_snippets c" msnip_tier])
  then have total: "mctx_token_count c + mbud_reserved_system_tokens b + mbud_reserved_safety_tokens b \<le> mbud_total_tokens b"
    using assms(2) by (simp add: valid_budget_def)
  have bytes: "mctx_byte_count c \<le> mbud_maximum_bytes b" using ok fields(2) by (simp add: c(2) choice_ok_def framed_bytes_def)
  have "distinct (map Inr (mcc_seen s) :: string result list)" using ok unfolding choice_ok_def distinct_map inj_on_def by blast
  moreover have "map Inr (mcc_seen s) = map ((\<lambda>n. bindE n (\<lambda>n. Inr (sha256_hexdigest rt n))) \<circ> (\<lambda>h. canonical_text (mhit_text h))) (mcc_chosen s)"
    using ok by (simp add: choice_ok_def o_def)
  ultimately have "distinct (map (\<lambda>h. canonical_text (mhit_text h)) (mcc_chosen s))" by (metis distinct_map map_map)
  moreover have "set (mcc_chosen s) \<subseteq> set (mrr_hits r)" using ok by (simp add: choice_ok_def)
  moreover have "map msnip_framed_text (mctx_snippets c) =
      map (\<lambda>h. frame_text (mhit_chunk_id h) (mcit_evidence_id (mhit_citation h)) (mhit_text h)) (mcc_chosen s)"
    using fields(1) by (simp add: frame_untrusted_def)
  ultimately show ?thesis using tiers total bytes c(3) escape_angle_safe by (auto simp: list_all_iff)
qed

theorem context_within_budget_witness:
  "\<exists>c. build_context mem_rt mem_retrieved mem_budget = Inr c \<and> length (mctx_snippets c) = 2 \<and>
    mctx_token_count c + mbud_reserved_system_tokens mem_budget + mbud_reserved_safety_tokens mem_budget \<le> 1024 \<and> mctx_byte_count c \<le> 1024"
proof -
  obtain c where c: "build_context mem_rt mem_retrieved mem_budget = Inr c" "length (mctx_snippets c) = 2" using mem_context by blast
  have "valid_budget mem_budget" by code_simp
  from context_within_budget [OF c(1) this] c show ?thesis by (simp add: mem_budget_def)
qed

end
