(* ===== verification/Interop_Trust.thy ===== *)
theory Interop_Trust
  imports Interop_Data
begin

text \<open>
  \<open>TrustRegistry\<close>, \<open>InMemoryReplayCache\<close> and \<open>WorkloadIdentityValidator\<close> of \<^verbatim>\<open>interoperability.py\<close>, with the invariant of the histories
  of a registry.
\<close>

section \<open>The registry\<close>

type_synonym trust_registry = "string \<rightharpoonup> trust_entry list"

definition empty_registry :: trust_registry where
  "empty_registry = Map.empty"

definition trust_entries :: "trust_registry \<Rightarrow> string \<Rightarrow> trust_entry list" where
  "trust_entries reg peer_id = get_default reg peer_id []"

definition current_trust :: "trust_registry \<Rightarrow> string \<Rightarrow> trust_entry option" where
  "current_trust reg peer_id = (let es = trust_entries reg peer_id in if es = [] then None else Some (last es))"

definition add_entry :: "string \<Rightarrow> trust_entry \<Rightarrow> trust_registry \<Rightarrow> trust_registry" where
  "add_entry peer_id e reg = reg(peer_id \<mapsto> trust_entries reg peer_id @ [e])"

definition register_peer :: "trust_entry \<Rightarrow> (trust_registry, trust_entry) op" where
  "register_peer e reg =
     (let current = current_trust reg (itr_peer_id e) in
      if itr_revision e \<noteq> (case current of None \<Rightarrow> 1 | Some c \<Rightarrow> itr_revision c + 1) then (Inl (ConcurrencyConflict ''peer trust revision is stale''), reg)
      else if (case current of None \<Rightarrow> False | Some c \<Rightarrow> itr_protocol c \<noteq> itr_protocol e) then (Inl (IntegrityFailure ''peer protocol cannot change in place''), reg)
      else if itr_status e \<noteq> Peer_PENDING_REVIEW then (Inl (PolicyDenied ''new or changed trust must await review''), reg)
      else (Inr e, add_entry (itr_peer_id e) e reg))"

definition reviewed_entry :: "trust_entry \<Rightarrow> trust_status \<Rightarrow> string \<Rightarrow> datetime \<Rightarrow> string \<Rightarrow> trust_entry" where
  "reviewed_entry c target reviewer now change =
     c\<lparr>itr_revision := itr_revision c + 1, itr_status := target, itr_reviewed_by := normalize_authority (itr_reviewed_by c @ [reviewer]),
       itr_reviewed_at := Some now, itr_change_digest := change\<rparr>"

definition change_document :: "trust_entry \<Rightarrow> trust_status \<Rightarrow> string \<Rightarrow> json" where
  "change_document c target reviewer = JObj [(''previous'', JStr (itr_change_digest c)), (''revision'', JInt (int (itr_revision c + 1))),
     (''reviewer_ref'', JStr reviewer), (''status'', JStr (trust_status_value target))]"

definition transition_peer ::
  "runtime \<Rightarrow> string \<Rightarrow> nat \<Rightarrow> datetime \<Rightarrow> trust_status \<Rightarrow> string \<Rightarrow> string \<Rightarrow> string \<Rightarrow> (trust_registry, trust_entry) op" where
  "transition_peer rt peer_id expected_revision now target reviewer typed required reg =
     (if typed \<noteq> required then (Inl (PayloadRejected ''typed trust confirmation is invalid''), reg)
      else case current_trust reg peer_id of
        None \<Rightarrow> (Inl (PolicyDenied ''peer is unavailable''), reg)
      | Some c \<Rightarrow>
          if itr_revision c \<noteq> expected_revision then (Inl (ConcurrencyConflict ''peer trust revision is stale''), reg)
          else if target = Peer_ACTIVE \<and> itr_status c \<noteq> Peer_PENDING_REVIEW then (Inl (PolicyDenied ''only pending trust can be activated''), reg)
          else if target \<noteq> Peer_ACTIVE \<and> itr_status c \<in> {Peer_REVOKED, Peer_EMERGENCY_DISABLED}
          then (Inl (PolicyDenied ''terminal peer trust cannot transition''), reg)
          else case digest_value rt (change_document c target reviewer) of
              Inl e \<Rightarrow> (Inl e, reg)
            | Inr d \<Rightarrow> (Inr (reviewed_entry c target reviewer now d), add_entry peer_id (reviewed_entry c target reviewer now d) reg))"

definition review_peer :: "runtime \<Rightarrow> string \<Rightarrow> nat \<Rightarrow> string \<Rightarrow> datetime \<Rightarrow> string \<Rightarrow> (trust_registry, trust_entry) op" where
  "review_peer rt peer_id expected reviewer now typed =
     transition_peer rt peer_id expected now Peer_ACTIVE reviewer typed (''TRUST '' @ peer_id)"

definition quarantine_peer :: "runtime \<Rightarrow> string \<Rightarrow> nat \<Rightarrow> string \<Rightarrow> datetime \<Rightarrow> string \<Rightarrow> (trust_registry, trust_entry) op" where
  "quarantine_peer rt peer_id expected reviewer now typed =
     transition_peer rt peer_id expected now Peer_QUARANTINED reviewer typed (''QUARANTINE '' @ peer_id)"

definition revoke_peer :: "runtime \<Rightarrow> string \<Rightarrow> nat \<Rightarrow> string \<Rightarrow> datetime \<Rightarrow> string \<Rightarrow> (trust_registry, trust_entry) op" where
  "revoke_peer rt peer_id expected reviewer now typed =
     transition_peer rt peer_id expected now Peer_REVOKED reviewer typed (''REVOKE '' @ peer_id)"

definition emergency_disable_peer :: "runtime \<Rightarrow> string \<Rightarrow> nat \<Rightarrow> string \<Rightarrow> datetime \<Rightarrow> string \<Rightarrow> (trust_registry, trust_entry) op" where
  "emergency_disable_peer rt peer_id expected reviewer now typed =
     transition_peer rt peer_id expected now Peer_EMERGENCY_DISABLED reviewer typed (''DISABLE '' @ peer_id)"

definition require_active ::
  "trust_registry \<Rightarrow> string \<Rightarrow> protocol_kind \<Rightarrow> string \<Rightarrow> risk_level \<Rightarrow> protocol_classification \<Rightarrow> datetime \<Rightarrow> trust_entry result" where
  "require_active reg peer_id protocol capability_id risk classification now =
     (case current_trust reg peer_id of
        None \<Rightarrow> Inl (PolicyDenied ''peer is not registered for this protocol'')
      | Some c \<Rightarrow>
          if itr_protocol c \<noteq> protocol then Inl (PolicyDenied ''peer is not registered for this protocol'')
          else if itr_status c \<noteq> Peer_ACTIVE then Inl (PolicyDenied ''peer trust is not active'')
          else if itr_expires_at c \<le> now \<or> itr_review_after c \<le> now then Inl (PolicyDenied ''peer trust review is expired'')
          else if capability_id \<notin> set (itr_allowed_capabilities c) then Inl (PolicyDenied ''peer capability is not allowed'')
          else if risk \<notin> set (itr_allowed_risks c) then Inl (PolicyDenied ''peer risk is not allowed'')
          else if classification \<notin> set (itr_allowed_classifications c) then Inl (PolicyDenied ''peer classification is not allowed'')
          else Inr c)"

section \<open>Replay of workload assertions\<close>

record replay_cache =
  irc_maximum_entries :: nat
  irc_entries :: "(string \<times> datetime) list"

definition make_replay_cache :: "int \<Rightarrow> replay_cache result" where
  "make_replay_cache n = (if n < 1 then Inl (ValueError ''replay cache bound is invalid'') else Inr \<lparr>irc_maximum_entries = nat n, irc_entries = []\<rparr>)"

text \<open>\<^verbatim>\<open>min(entries, key=...)\<close>: the first entry in insertion order with the least expiry.\<close>

fun oldest_entry :: "(string \<times> datetime) list \<Rightarrow> string" where
  "oldest_entry [] = []"
| "oldest_entry [e] = fst e"
| "oldest_entry (e # f # es) = (if snd f < snd e then oldest_entry (f # es) else oldest_entry (e # es))"

definition consume_token :: "string \<Rightarrow> datetime \<Rightarrow> (replay_cache, bool) op" where
  "consume_token token expires_at c =
     (if list_ex (\<lambda>e. fst e = token) (irc_entries c) then (Inr False, c)
      else let kept = (if irc_maximum_entries c \<le> length (irc_entries c)
                       then filter (\<lambda>e. fst e \<noteq> oldest_entry (irc_entries c)) (irc_entries c) else irc_entries c)
           in (Inr True, c\<lparr>irc_entries := kept @ [(token, expires_at)]\<rparr>))"

record workload_assertion =
  iwa_principal_ref :: string
  iwa_issuer_digest :: string
  iwa_audience :: string
  iwa_scopes :: "string list"
  iwa_tenant_ref :: string
  iwa_purpose :: string
  iwa_token_id_digest :: string
  iwa_proof_digest :: string
  iwa_confirmation_digest :: string
  iwa_issued_at :: datetime
  iwa_expires_at :: datetime

record workload_policy =
  iwp_audience :: string
  iwp_allowed_issuer_digests :: "string list"
  iwp_required_scopes :: "string list"
  iwp_allowed_purposes :: "string list"
  iwp_maximum_lifetime_seconds :: nat
  iwp_require_mutual_tls :: bool
  iwp_allowed_principals :: "string list"

record workload_validator =
  iwv_policy :: workload_policy
  iwv_distributed :: bool
  iwv_mutual_tls_ready :: bool
  iwv_production :: bool

definition validator_ready :: "workload_validator \<Rightarrow> bool" where
  "validator_ready v \<longleftrightarrow> \<not> iwv_production v \<or> iwv_distributed v \<and> iwv_mutual_tls_ready v \<and> iwp_require_mutual_tls (iwv_policy v)"

definition assertion_principal :: "workload_assertion \<Rightarrow> datetime \<Rightarrow> principal_contract" where
  "assertion_principal a now = \<lparr>ipr_principal_ref = iwa_principal_ref a, ipr_kind = Principal_workload, ipr_issuer_digest = iwa_issuer_digest a,
     ipr_audience = iwa_audience a, ipr_scopes = iwa_scopes a, ipr_tenant_ref = iwa_tenant_ref a, ipr_purpose = iwa_purpose a,
     ipr_proof_digest = iwa_proof_digest a, ipr_authenticated_at = now, ipr_expires_at = iwa_expires_at a\<rparr>"

definition check_assertion :: "workload_validator \<Rightarrow> workload_assertion \<Rightarrow> string \<Rightarrow> string \<Rightarrow> string \<Rightarrow> datetime \<Rightarrow> unit result" where
  "check_assertion v a tenant purpose binding now =
     (let p = iwv_policy v in
      if \<not> validator_ready v then Inl (RepositoryUnavailable ''production workload identity requires distributed replay and mTLS'')
      else if iwa_issuer_digest a \<notin> set (iwp_allowed_issuer_digests p) then Inl (AuthenticationFailed ''workload issuer is not trusted'')
      else if iwa_audience a \<noteq> iwp_audience p then Inl (AuthenticationFailed ''workload audience is invalid'')
      else if iwa_principal_ref a \<notin> set (iwp_allowed_principals p) then Inl (PolicyDenied ''workload principal is not allowed'')
      else if iwa_tenant_ref a \<noteq> tenant then Inl (PolicyDenied ''workload tenant binding is invalid'')
      else if iwa_purpose a \<noteq> purpose \<or> iwa_purpose a \<notin> set (iwp_allowed_purposes p) then Inl (PolicyDenied ''workload purpose is not allowed'')
      else if \<not> set (iwp_required_scopes p) \<subseteq> set (iwa_scopes a) then Inl (PolicyDenied ''workload scopes are insufficient'')
      else if iwa_confirmation_digest a \<noteq> binding then Inl (AuthenticationFailed ''workload proof is not channel-bound'')
      else if now < iwa_issued_at a \<or> iwa_expires_at a \<le> now then Inl (AuthenticationFailed ''workload assertion is outside its validity'')
      else if iwp_maximum_lifetime_seconds p * 1000000 < iwa_expires_at a - iwa_issued_at a
      then Inl (AuthenticationFailed ''workload assertion lifetime is too long'')
      else Inr ())"

definition validate_assertion ::
  "workload_validator \<Rightarrow> workload_assertion \<Rightarrow> string \<Rightarrow> string \<Rightarrow> string \<Rightarrow> datetime \<Rightarrow> (replay_cache, principal_contract) op" where
  "validate_assertion v a tenant purpose binding now =
     bindS (liftS (check_assertion v a tenant purpose binding now)) (\<lambda>_.
     bindS (consume_token (iwa_token_id_digest a) (iwa_expires_at a)) (\<lambda>fresh.
     bindS (requireS fresh (AuthenticationFailed ''workload assertion replay was detected'')) (\<lambda>_.
     liftS (if valid_principal (assertion_principal a now) then Inr (assertion_principal a now) else Inl (ValidationError ''PrincipalContract'')))))"

section \<open>Histories of the registry\<close>

inductive trust_step :: "runtime \<Rightarrow> trust_registry \<Rightarrow> trust_registry \<Rightarrow> bool" for rt where
  step_register: "register_peer e reg = (r, reg') \<Longrightarrow> trust_step rt reg reg'"
| step_transition: "transition_peer rt peer_id n now target reviewer typed required reg = (r, reg') \<Longrightarrow> trust_step rt reg reg'"

definition trust_reachable :: "runtime \<Rightarrow> trust_registry \<Rightarrow> bool" where
  "trust_reachable rt reg \<longleftrightarrow> (trust_step rt)\<^sup>*\<^sup>* empty_registry reg"

text \<open>How an entry may follow another.\<close>

definition trust_follows :: "trust_entry \<Rightarrow> trust_entry \<Rightarrow> bool" where
  "trust_follows c e \<longleftrightarrow> itr_revision e = Suc (itr_revision c) \<and> itr_protocol e = itr_protocol c \<and>
     (itr_status e = Peer_PENDING_REVIEW \<or>
      (\<exists>target reviewer now d. e = reviewed_entry c target reviewer now d \<and> (target = Peer_ACTIVE \<longrightarrow> itr_status c = Peer_PENDING_REVIEW) \<and>
         (target \<noteq> Peer_ACTIVE \<longrightarrow> itr_status c \<notin> {Peer_REVOKED, Peer_EMERGENCY_DISABLED})))"

fun trust_chain :: "trust_entry list \<Rightarrow> bool" where
  "trust_chain [] = True"
| "trust_chain [e] = True"
| "trust_chain (c # e # es) = (trust_follows c e \<and> trust_chain (e # es))"

definition registry_ok :: "trust_registry \<Rightarrow> bool" where
  "registry_ok reg \<longleftrightarrow> (\<forall>p. let es = trust_entries reg p in trust_chain es \<and>
     (es \<noteq> [] \<longrightarrow> itr_revision (hd es) = 1 \<and> itr_status (hd es) = Peer_PENDING_REVIEW))"

lemma trust_chain_snoc: "trust_chain (es @ [e]) \<longleftrightarrow> trust_chain es \<and> (es \<noteq> [] \<longrightarrow> trust_follows (last es) e)"
proof (induction es rule: trust_chain.induct)
  case (3 c e' es)
  then show ?case by auto
qed auto

lemma trust_chain_nth: "trust_chain es \<Longrightarrow> Suc i < length es \<Longrightarrow> trust_follows (es ! i) (es ! Suc i)"
proof (induction es arbitrary: i rule: trust_chain.induct)
  case (3 c e es)
  then show ?case by (cases i) auto
qed auto

lemma trust_entries_add [simp]: "trust_entries (add_entry p e reg) q = (if q = p then trust_entries reg p @ [e] else trust_entries reg q)"
  by (simp add: add_entry_def trust_entries_def get_default_def)

lemma registry_ok_add:
  assumes "registry_ok reg" "case current_trust reg p of None \<Rightarrow> itr_revision e = 1 \<and> itr_status e = Peer_PENDING_REVIEW | Some c \<Rightarrow> trust_follows c e"
  shows "registry_ok (add_entry p e reg)"
  using assms unfolding registry_ok_def Let_def
  by (auto simp: trust_chain_snoc current_trust_def Let_def split: if_splits)

lemma trust_step_ok: "trust_step rt reg reg' \<Longrightarrow> registry_ok reg \<Longrightarrow> registry_ok reg'"
proof (induction rule: trust_step.induct)
  case (step_register e reg r reg')
  show ?case
  proof (cases "reg' = reg")
    case False
    with step_register have "reg' = add_entry (itr_peer_id e) e reg"
      "case current_trust reg (itr_peer_id e) of None \<Rightarrow> itr_revision e = 1 \<and> itr_status e = Peer_PENDING_REVIEW | Some c \<Rightarrow> trust_follows c e"
      by (auto simp: register_peer_def Let_def trust_follows_def split: if_splits option.splits)
    with step_register.prems registry_ok_add show ?thesis by simp
  qed (use step_register in simp)
next
  case (step_transition peer_id n now target reviewer typed required reg r reg')
  show ?case
  proof (cases "reg' = reg")
    case False
    with step_transition.hyps obtain c d where c: "current_trust reg peer_id = Some c" "reg' = add_entry peer_id (reviewed_entry c target reviewer now d) reg"
      "target = Peer_ACTIVE \<Longrightarrow> itr_status c = Peer_PENDING_REVIEW" "target \<noteq> Peer_ACTIVE \<Longrightarrow> itr_status c \<notin> {Peer_REVOKED, Peer_EMERGENCY_DISABLED}"
      by (auto simp: transition_peer_def split: if_splits option.splits sum.splits)
    then have "trust_follows c (reviewed_entry c target reviewer now d)"
      by (auto simp: trust_follows_def reviewed_entry_def)
    with step_transition.prems registry_ok_add c show ?thesis by simp
  qed (use step_transition in simp)
qed

lemma trust_reachable_ok: "trust_reachable rt reg \<Longrightarrow> registry_ok reg"
proof -
  assume "trust_reachable rt reg"
  then have "(trust_step rt)\<^sup>*\<^sup>* empty_registry reg" by (simp add: trust_reachable_def)
  then show ?thesis
    by (induction rule: rtranclp_induct) (use trust_step_ok in \<open>auto simp: registry_ok_def trust_entries_def empty_registry_def get_default_def\<close>)
qed

lemma registry_revisions:
  assumes "registry_ok reg" "i < length (trust_entries reg p)"
  shows "itr_revision (trust_entries reg p ! i) = Suc i"
  using assms(2)
proof (induction i)
  case 0
  with assms(1) show ?case by (cases "trust_entries reg p") (auto simp: registry_ok_def Let_def dest!: spec [of _ p])
next
  case (Suc i)
  then have "trust_follows (trust_entries reg p ! i) (trust_entries reg p ! Suc i)"
    using assms(1) by (intro trust_chain_nth) (simp_all add: registry_ok_def Let_def)
  with Suc show ?case by (simp add: trust_follows_def)
qed

end
