(* ===== verification/Interop_Ledger.thy ===== *)
theory Interop_Ledger
  imports Interop_Data Hash_Chain
begin

text \<open>
  \<open>InteroperabilityLedger\<close>, \<open>InvocationQuota\<close> and \<open>CircuitBreaker\<close> of \<^verbatim>\<open>interoperability.py\<close>.
\<close>

section \<open>Facts and projections\<close>

datatype interop_fact_type =
    Interop_TRUST_REGISTERED | Interop_TRUST_REVIEWED | Interop_TRUST_QUARANTINED | Interop_TRUST_REVOKED
  | Interop_INVOCATION_REQUESTED | Interop_INVOCATION_CLAIMED | Interop_INVOCATION_SUCCEEDED | Interop_INVOCATION_FAILED
  | Interop_INVOCATION_AMBIGUOUS | Interop_INVOCATION_RECONCILED | Interop_TASK_CANCEL_REQUESTED | Interop_TASK_CANCELLED
  | Interop_ARTIFACT_ACCEPTED | Interop_ARTIFACT_QUARANTINED | Interop_PROPOSAL_SUBMITTED

fun interop_fact_value :: "interop_fact_type \<Rightarrow> string" where
  "interop_fact_value Interop_TRUST_REGISTERED = ''interop.trust_registered''"
| "interop_fact_value Interop_TRUST_REVIEWED = ''interop.trust_reviewed''"
| "interop_fact_value Interop_TRUST_QUARANTINED = ''interop.trust_quarantined''"
| "interop_fact_value Interop_TRUST_REVOKED = ''interop.trust_revoked''"
| "interop_fact_value Interop_INVOCATION_REQUESTED = ''interop.invocation_requested''"
| "interop_fact_value Interop_INVOCATION_CLAIMED = ''interop.invocation_claimed''"
| "interop_fact_value Interop_INVOCATION_SUCCEEDED = ''interop.invocation_succeeded''"
| "interop_fact_value Interop_INVOCATION_FAILED = ''interop.invocation_failed''"
| "interop_fact_value Interop_INVOCATION_AMBIGUOUS = ''interop.invocation_ambiguous''"
| "interop_fact_value Interop_INVOCATION_RECONCILED = ''interop.invocation_reconciled''"
| "interop_fact_value Interop_TASK_CANCEL_REQUESTED = ''interop.task_cancel_requested''"
| "interop_fact_value Interop_TASK_CANCELLED = ''interop.task_cancelled''"
| "interop_fact_value Interop_ARTIFACT_ACCEPTED = ''interop.artifact_accepted''"
| "interop_fact_value Interop_ARTIFACT_QUARANTINED = ''interop.artifact_quarantined''"
| "interop_fact_value Interop_PROPOSAL_SUBMITTED = ''interop.proposal_submitted''"

record interop_fact =
  ifact_fact_id :: string
  ifact_operation_id :: string
  ifact_sequence :: nat
  ifact_fact_type :: interop_fact_type
  ifact_command_ref :: string
  ifact_actor_ref :: string
  ifact_peer_id :: string
  ifact_payload :: dict
  ifact_previous_digest :: string
  ifact_fact_digest :: string
  ifact_recorded_at :: datetime

record invocation_projection =
  iproj_operation_id :: string
  iproj_tenant_ref :: string
  iproj_peer_id :: string
  iproj_protocol :: protocol_kind
  iproj_capability_id :: string
  iproj_risk :: risk_level
  iproj_state :: invocation_state
  iproj_version :: nat
  iproj_request_digest :: string
  iproj_trust_digest :: string
  iproj_policy_digest :: string
  iproj_trust_revision :: nat
  iproj_fence_token :: string
  iproj_cursor_digest :: "string option"
  iproj_result_digest :: "string option"
  iproj_error_code :: "string option"
  iproj_ambiguous :: bool
  iproj_cancellation_requested :: bool
  iproj_updated_at :: datetime

definition projection_json :: "invocation_projection \<Rightarrow> json" where
  "projection_json p = JObj
     [(''operation_id'', JStr (iproj_operation_id p)), (''tenant_ref'', JStr (iproj_tenant_ref p)), (''peer_id'', JStr (iproj_peer_id p)),
      (''protocol'', JStr (protocol_value (iproj_protocol p))), (''capability_id'', JStr (iproj_capability_id p)),
      (''risk'', JStr (risk_value (iproj_risk p))), (''state'', JStr (invocation_state_value (iproj_state p))),
      (''version'', JInt (int (iproj_version p))), (''request_digest'', JStr (iproj_request_digest p)),
      (''trust_digest'', JStr (iproj_trust_digest p)), (''policy_digest'', JStr (iproj_policy_digest p)),
      (''trust_revision'', JInt (int (iproj_trust_revision p))), (''fence_token'', JStr (iproj_fence_token p)),
      (''cursor_digest'', opt_json (iproj_cursor_digest p)), (''result_digest'', opt_json (iproj_result_digest p)),
      (''error_code'', opt_json (iproj_error_code p)), (''ambiguous'', JBool (iproj_ambiguous p)),
      (''cancellation_requested'', JBool (iproj_cancellation_requested p)), (''updated_at'', JStr (isoformat_z (iproj_updated_at p)))]"

definition make_projection :: "invocation_projection \<Rightarrow> invocation_projection result" where
  "make_projection p =
     (if valid_identifier (iproj_operation_id p) \<and> opaque_ref (iproj_tenant_ref p) \<and> valid_identifier (iproj_peer_id p) \<and>
         valid_identifier (iproj_capability_id p) \<and> 1 \<le> iproj_version p \<and> hex64 (iproj_request_digest p) \<and> hex64 (iproj_trust_digest p) \<and>
         hex64 (iproj_policy_digest p) \<and> 1 \<le> iproj_trust_revision p \<and> valid_identifier (iproj_fence_token p) \<and>
         opt_digest (iproj_cursor_digest p) \<and> opt_digest (iproj_result_digest p) \<and> valid_opt_identifier (iproj_error_code p)
      then Inr p else Inl (ValidationError ''InvocationProjection''))"

section \<open>What a payload may hold\<close>

definition forbidden_keys :: "string list" where
  "forbidden_keys = [''actor_id'', ''completion'', ''content'', ''credential'', ''evidence_locator'', ''message'', ''prompt'', ''raw'',
     ''request_id'', ''secret'', ''subject_id'', ''tenant_id'', ''text'', ''token'', ''url'']"

definition safe_token_keys :: "string list" where
  "safe_token_keys = [''fence_token'', ''idempotency_key_digest'', ''token_id_digest'']"

definition raw_key :: "string \<Rightarrow> bool" where
  "raw_key key \<longleftrightarrow> (let k = lower key in k \<in> set forbidden_keys \<or>
     list_ex (\<lambda>w. contains w k) [''credential'', ''evidence_locator'', ''prompt'', ''secret'', ''token''] \<and> k \<notin> set safe_token_keys)"

fun reject_raw_payload :: "dict \<Rightarrow> unit result" where
  "reject_raw_payload [] = Inr ()"
| "reject_raw_payload (kv # kvs) =
     (if raw_key (fst kv) then Inl (IntegrityFailure ''raw protocol content is forbidden in the application ledger'')
      else bindE (bound_json 0 (snd kv)) (\<lambda>_. reject_raw_payload kvs))"

section \<open>The ledger\<close>

record interop_ledger =
  ile_facts :: "string \<Rightarrow> interop_fact list"
  ile_commands :: "string \<rightharpoonup> string \<times> string"
  ile_projections :: "string \<rightharpoonup> invocation_projection"

definition empty_interop_ledger :: interop_ledger where
  "empty_interop_ledger = \<lparr>ile_facts = (\<lambda>_. []), ile_commands = Map.empty, ile_projections = Map.empty\<rparr>"

record interop_call =
  ica_operation_id :: string
  ica_fact_type :: interop_fact_type
  ica_command_ref :: string
  ica_actor_ref :: string
  ica_peer_id :: string
  ica_payload :: dict
  ica_recorded_at :: datetime
  ica_projection :: "invocation_projection option"

definition interop_fact_document :: "interop_fact \<Rightarrow> json" where
  "interop_fact_document f = JObj
     [(''actor_ref'', JStr (ifact_actor_ref f)), (''command_ref'', JStr (ifact_command_ref f)), (''fact_id'', JStr (ifact_fact_id f)),
      (''fact_type'', JStr (interop_fact_value (ifact_fact_type f))), (''operation_id'', JStr (ifact_operation_id f)),
      (''payload'', JObj (ifact_payload f)), (''peer_id'', JStr (ifact_peer_id f)), (''previous_digest'', JStr (ifact_previous_digest f)),
      (''recorded_at'', JStr (isoformat_z (ifact_recorded_at f))), (''schema_version'', JInt 1), (''sequence'', JInt (int (ifact_sequence f)))]"

definition valid_interop_fact :: "interop_fact \<Rightarrow> bool" where
  "valid_interop_fact f \<longleftrightarrow> valid_identifier (ifact_fact_id f) \<and> valid_identifier (ifact_operation_id f) \<and> 1 \<le> ifact_sequence f \<and>
     ifact_sequence f \<le> 128 \<and> valid_identifier (ifact_command_ref f) \<and> valid_identifier (ifact_actor_ref f) \<and> valid_identifier (ifact_peer_id f) \<and>
     length (ifact_payload f) \<le> 32 \<and> hex64 (ifact_previous_digest f) \<and> hex64 (ifact_fact_digest f)"

definition last_fact_digest :: "interop_fact list \<Rightarrow> string" where
  "last_fact_digest fs = (if fs = [] then zero_hash else ifact_fact_digest (last fs))"

definition interop_material :: "interop_call \<Rightarrow> interop_fact list \<Rightarrow> interop_fact" where
  "interop_material a fs =
     \<lparr>ifact_fact_id = ''interop-fact-'' @ ica_operation_id a @ ''-'' @ nat_str (length fs + 1), ifact_operation_id = ica_operation_id a,
      ifact_sequence = length fs + 1, ifact_fact_type = ica_fact_type a, ifact_command_ref = ica_command_ref a, ifact_actor_ref = ica_actor_ref a,
      ifact_peer_id = ica_peer_id a, ifact_payload = ica_payload a, ifact_previous_digest = last_fact_digest fs, ifact_fact_digest = [],
      ifact_recorded_at = ica_recorded_at a\<rparr>"

definition make_interop_fact :: "runtime \<Rightarrow> interop_call \<Rightarrow> interop_fact list \<Rightarrow> interop_fact result" where
  "make_interop_fact rt a fs =
     (let m = interop_material a fs in
      bindE (digest_value rt (interop_fact_document m)) (\<lambda>d.
      let f = m\<lparr>ifact_fact_digest := d\<rparr> in if valid_interop_fact f then Inr f else Inl (ValidationError ''InteroperabilityFact'')))"

definition projection_current :: "interop_ledger \<Rightarrow> interop_call \<Rightarrow> bool" where
  "projection_current l a \<longleftrightarrow> (case ica_projection a of None \<Rightarrow> True | Some p \<Rightarrow>
     iproj_version p = (case ile_projections l (ica_operation_id a) of None \<Rightarrow> 1 | Some c \<Rightarrow> iproj_version c + 1))"

definition replayed_fact :: "interop_ledger \<Rightarrow> interop_call \<Rightarrow> interop_fact result" where
  "replayed_fact l a =
     (if ica_projection a \<noteq> None \<and> (ile_projections l (ica_operation_id a) = None \<or> \<not> projection_current l a)
      then Inl (ConcurrencyConflict ''duplicate interoperability claim is stale'')
      else case filter (\<lambda>f. ifact_command_ref f = ica_command_ref a) (ile_facts l (ica_operation_id a)) of
        [] \<Rightarrow> Inl StopIteration
      | f # _ \<Rightarrow> Inr f)"

definition store_fact :: "interop_call \<Rightarrow> string \<Rightarrow> interop_fact \<Rightarrow> interop_ledger \<Rightarrow> interop_ledger" where
  "store_fact a digest f l =
     l\<lparr>ile_facts := (ile_facts l)(ica_operation_id a := ile_facts l (ica_operation_id a) @ [f]),
       ile_commands := (ile_commands l)(ica_command_ref a \<mapsto> (ica_operation_id a, digest)),
       ile_projections := (case ica_projection a of None \<Rightarrow> ile_projections l | Some p \<Rightarrow> (ile_projections l)(ica_operation_id a \<mapsto> p))\<rparr>"

definition append_interop :: "runtime \<Rightarrow> interop_call \<Rightarrow> (interop_ledger, interop_fact) op" where
  "append_interop rt a l =
     (case bindE (reject_raw_payload (ica_payload a)) (\<lambda>_. digest_value rt (JObj (ica_payload a))) of
        Inl e \<Rightarrow> (Inl e, l)
      | Inr digest \<Rightarrow>
          (case ile_commands l (ica_command_ref a) of
             Some existing \<Rightarrow>
               if existing \<noteq> (ica_operation_id a, digest)
               then (Inl (IdempotencyConflict ''interoperability command conflicts with an existing fact''), l)
               else (replayed_fact l a, l)
           | None \<Rightarrow>
               (case make_interop_fact rt a (ile_facts l (ica_operation_id a)) of
                  Inl e \<Rightarrow> (Inl e, l)
                | Inr f \<Rightarrow>
                    if \<not> projection_current l a then (Inl (ConcurrencyConflict ''interoperability projection version is stale''), l)
                    else (Inr f, store_fact a digest f l))))"

fun verify_facts :: "runtime \<Rightarrow> string \<Rightarrow> nat \<Rightarrow> interop_fact list \<Rightarrow> bool result" where
  "verify_facts rt previous n [] = Inr True"
| "verify_facts rt previous n (f # fs) =
     (if ifact_sequence f \<noteq> n \<or> ifact_previous_digest f \<noteq> previous then Inr False
      else bindE (digest_value rt (interop_fact_document f)) (\<lambda>d.
           if d \<noteq> ifact_fact_digest f then Inr False else verify_facts rt (ifact_fact_digest f) (Suc n) fs))"

definition verify_interop :: "runtime \<Rightarrow> interop_ledger \<Rightarrow> string \<Rightarrow> bool result" where
  "verify_interop rt l operation_id = verify_facts rt zero_hash 1 (ile_facts l operation_id)"

section \<open>Quota\<close>

record invocation_quota =
  inq_request_limit :: nat
  inq_cost_limit :: nat
  inq_usage :: "string \<rightharpoonup> nat \<times> nat"
  inq_reservations :: "string \<rightharpoonup> string \<times> nat"

definition make_invocation_quota :: "int \<Rightarrow> int \<Rightarrow> invocation_quota result" where
  "make_invocation_quota requests cost =
     (if requests < 1 \<or> cost < 0 then Inl (ValueError ''invocation quota is invalid'')
      else Inr \<lparr>inq_request_limit = nat requests, inq_cost_limit = nat cost, inq_usage = Map.empty, inq_reservations = Map.empty\<rparr>)"

definition quota_usage :: "invocation_quota \<Rightarrow> string \<Rightarrow> nat \<times> nat" where
  "quota_usage q tenant = get_default (inq_usage q) tenant (0, 0)"

definition reserve_invocation :: "string \<Rightarrow> string \<Rightarrow> int \<Rightarrow> (invocation_quota, unit) op" where
  "reserve_invocation tenant reservation_id cost_units q =
     (if cost_units < 0 then (Inl (ValueError ''cost reservation cannot be negative''), q)
      else case inq_reservations q reservation_id of
        Some existing \<Rightarrow> if existing \<noteq> (tenant, nat cost_units) then (Inl (IdempotencyConflict ''quota reservation conflicts''), q) else (Inr (), q)
      | None \<Rightarrow>
          (case quota_usage q tenant of (requests, cost) \<Rightarrow>
             if inq_request_limit q < requests + 1 \<or> inq_cost_limit q < cost + nat cost_units
             then (Inl (PolicyDenied ''interoperability quota is exhausted''), q)
             else (Inr (), q\<lparr>inq_usage := (inq_usage q)(tenant \<mapsto> (requests + 1, cost + nat cost_units)),
                             inq_reservations := (inq_reservations q)(reservation_id \<mapsto> (tenant, nat cost_units))\<rparr>)))"

section \<open>Circuit breaker\<close>

text \<open>The monotonic clock and the cooldown are counted in microseconds, so that their difference is exact; the clock is read in the
  branches in which the code reads it.\<close>

record circuit_breaker =
  icb_failure_threshold :: nat
  icb_cooldown :: nat
  icb_failures :: "string \<Rightarrow> nat"
  icb_opened_at :: "string \<rightharpoonup> nat"
  icb_ticks :: nat

definition make_circuit :: "int \<Rightarrow> nat \<Rightarrow> circuit_breaker result" where
  "make_circuit threshold cooldown =
     (if threshold < 1 \<or> 20 < threshold then Inl (ValueError ''circuit threshold is invalid'')
      else if cooldown = 0 \<or> 3600000000 < cooldown then Inl (ValueError ''circuit cooldown is invalid'')
      else Inr \<lparr>icb_failure_threshold = nat threshold, icb_cooldown = cooldown, icb_failures = (\<lambda>_. 0), icb_opened_at = Map.empty, icb_ticks = 0\<rparr>)"

definition allow_peer :: "(nat \<Rightarrow> nat) \<Rightarrow> string \<Rightarrow> (circuit_breaker, bool) op" where
  "allow_peer clock peer c =
     (if icb_failures c peer < icb_failure_threshold c then (Inr True, c)
      else case icb_opened_at c peer of
        None \<Rightarrow> (Inr False, c)
      | Some opened \<Rightarrow>
          let c1 = c\<lparr>icb_ticks := Suc (icb_ticks c)\<rparr> in
          if icb_cooldown c \<le> clock (icb_ticks c) - opened
          then (Inr True, c1\<lparr>icb_failures := (icb_failures c)(peer := icb_failure_threshold c - 1), icb_opened_at := (icb_opened_at c)(peer := None)\<rparr>)
          else (Inr False, c1))"

definition record_outcome :: "(nat \<Rightarrow> nat) \<Rightarrow> string \<Rightarrow> bool \<Rightarrow> (circuit_breaker, unit) op" where
  "record_outcome clock peer success c =
     (if success then (Inr (), c\<lparr>icb_failures := (icb_failures c)(peer := 0), icb_opened_at := (icb_opened_at c)(peer := None)\<rparr>)
      else let n = Suc (icb_failures c peer); c1 = c\<lparr>icb_failures := (icb_failures c)(peer := n)\<rparr> in
           if n < icb_failure_threshold c then (Inr (), c1)
           else (Inr (), c1\<lparr>icb_opened_at := (case icb_opened_at c peer of None \<Rightarrow> (icb_opened_at c)(peer \<mapsto> clock (icb_ticks c)) | Some _ \<Rightarrow> icb_opened_at c),
                            icb_ticks := Suc (icb_ticks c)\<rparr>))"

end
