(* ===== verification/Interop_Gateway.thy ===== *)
theory Interop_Gateway
  imports Interop_Trust Interop_Ledger
begin

text \<open>
  \<open>ExternalInvocationGateway\<close> of \<^verbatim>\<open>interoperability.py\<close>. The policy port is a function, the transport port acts on a state of its own,
  the world; each reading of the clock is the next value of its sequence. The callback \<^verbatim>\<open>cancelled\<close> is asked once by the
  gateway, its answer is an argument.
\<close>

section \<open>Environment and state\<close>

record 'w peer_env =
  ige_runtime :: runtime
  ige_clock :: "nat \<Rightarrow> datetime"
  ige_monotonic :: "nat \<Rightarrow> nat"
  ige_authorize :: "principal_contract \<Rightarrow> trust_entry \<Rightarrow> capability_contract \<Rightarrow> string \<Rightarrow> policy_contract result"
  ige_invoke :: "trust_entry \<Rightarrow> task_contract \<Rightarrow> message_contract \<Rightarrow> pyfloat \<Rightarrow> ('w, status_contract \<times> artifact_contract list) op"
  ige_reconcile :: "trust_entry \<Rightarrow> task_contract \<Rightarrow> pyfloat \<Rightarrow> ('w, status_contract \<times> artifact_contract list) op"
  ige_cancel :: "trust_entry \<Rightarrow> task_contract \<Rightarrow> pyfloat \<Rightarrow> ('w, status_contract) op"

record 'w peer_state =
  igs_registry :: trust_registry
  igs_ledger :: interop_ledger
  igs_quota :: invocation_quota
  igs_circuit :: circuit_breaker
  igs_ticks :: nat
  igs_world :: 'w

record invocation_result =
  ires_task :: task_contract
  ires_status :: status_contract
  ires_artifacts :: "artifact_contract list"
  ires_replayed :: bool

definition make_result :: "invocation_result \<Rightarrow> invocation_result result" where
  "make_result r = (if length (ires_artifacts r) \<le> 64 then Inr r else Inl (ValidationError ''InvocationResult''))"

definition gateway_now :: "'w peer_env \<Rightarrow> ('w peer_state, datetime) op" where
  "gateway_now env s = (Inr (ige_clock env (igs_ticks s)), s\<lparr>igs_ticks := Suc (igs_ticks s)\<rparr>)"

definition on_interop_ledger :: "(interop_ledger, 'a) op \<Rightarrow> ('w peer_state, 'a) op" where
  "on_interop_ledger = zoomS igs_ledger (\<lambda>x s. s\<lparr>igs_ledger := x\<rparr>)"

definition on_invocation_quota :: "(invocation_quota, 'a) op \<Rightarrow> ('w peer_state, 'a) op" where
  "on_invocation_quota = zoomS igs_quota (\<lambda>x s. s\<lparr>igs_quota := x\<rparr>)"

definition on_circuit :: "(circuit_breaker, 'a) op \<Rightarrow> ('w peer_state, 'a) op" where
  "on_circuit = zoomS igs_circuit (\<lambda>x s. s\<lparr>igs_circuit := x\<rparr>)"

definition on_transport :: "('w, 'a) op \<Rightarrow> ('w peer_state, 'a) op" where
  "on_transport = zoomS igs_world (\<lambda>x s. s\<lparr>igs_world := x\<rparr>)"

definition append_invocation ::
  "'w peer_env \<Rightarrow> string \<Rightarrow> interop_fact_type \<Rightarrow> string \<Rightarrow> principal_contract \<Rightarrow> string \<Rightarrow> dict \<Rightarrow> datetime \<Rightarrow> invocation_projection \<Rightarrow>
   ('w peer_state, interop_fact) op" where
  "append_invocation env operation_id ty command who peer_id payload at_time p =
     on_interop_ledger (append_interop (ige_runtime env)
       \<lparr>ica_operation_id = operation_id, ica_fact_type = ty, ica_command_ref = command, ica_actor_ref = ipr_principal_ref who,
        ica_peer_id = peer_id, ica_payload = payload, ica_recorded_at = at_time, ica_projection = Some p\<rparr>)"

section \<open>Parts of the calls\<close>

definition task_from_projection ::
  "runtime \<Rightarrow> invocation_projection \<Rightarrow> principal_contract \<Rightarrow> string \<Rightarrow> datetime \<Rightarrow> task_contract result" where
  "task_from_projection rt p who key now =
     bindE (digest_value rt (JStr key)) (\<lambda>d.
     make_task \<lparr>itask_task_id = ''interop-task-'' @ iproj_operation_id p, itask_protocol = iproj_protocol p, itask_peer_id = iproj_peer_id p,
       itask_capability_id = iproj_capability_id p, itask_tenant_ref = iproj_tenant_ref p, itask_principal_ref = ipr_principal_ref who,
       itask_purpose = ipr_purpose who, itask_request_digest = iproj_request_digest p, itask_idempotency_key_digest = d,
       itask_policy_digest = iproj_policy_digest p, itask_trust_revision = iproj_trust_revision p, itask_fence_token = iproj_fence_token p,
       itask_state = task_state_of (iproj_state p), itask_created_at = now, itask_updated_at = now, itask_expires_at = ipr_expires_at who,
       itask_result_digest = iproj_result_digest p, itask_error_code = iproj_error_code p\<rparr>)"

fun check_artifacts :: "runtime \<Rightarrow> trust_entry \<Rightarrow> capability_contract \<Rightarrow> task_contract \<Rightarrow> artifact_contract list \<Rightarrow> nat result" where
  "check_artifacts rt peer capability task [] = Inr 0"
| "check_artifacts rt peer capability task (a # as) =
     (if iart_task_id a \<noteq> itask_task_id task \<or> iart_producer_peer_id a \<noteq> itr_peer_id peer
      then Inl (PayloadRejected ''peer artifact provenance is invalid'')
      else if Some (iart_card_digest a) \<noteq> itr_card_digest peer \<and> itr_protocol peer = Protocol_A2A
      then Inl (PayloadRejected ''peer artifact card pin is invalid'')
      else bindE (digest_value rt (capability_json capability)) (\<lambda>d.
           if iart_capability_digest a \<noteq> d then Inl (PayloadRejected ''peer artifact capability pin is invalid'')
           else bindE (protocol_json rt (artifact_contract_json a)) (\<lambda>text.
                bindE (check_artifacts rt peer capability task as) (\<lambda>rest. Inr (utf8_length text + rest)))))"

definition validate_result ::
  "runtime \<Rightarrow> trust_entry \<Rightarrow> capability_contract \<Rightarrow> task_contract \<Rightarrow> status_contract \<Rightarrow> artifact_contract list \<Rightarrow> unit result" where
  "validate_result rt peer capability task status artifacts =
     (if istat_state status \<noteq> Task_COMPLETED then Inl (PayloadRejected ''peer did not return a completed task'')
      else if 64 < length artifacts then Inl (PayloadRejected ''peer returned too many artifacts'')
      else bindE (check_artifacts rt peer capability task artifacts) (\<lambda>bytes.
           if itr_maximum_response_bytes peer < bytes then Inl (PayloadRejected ''peer artifacts exceed the response bound'') else Inr ()))"

definition result_document :: "status_contract \<Rightarrow> artifact_contract list \<Rightarrow> json" where
  "result_document status artifacts = JObj [(''artifacts'', JList (map artifact_contract_json artifacts)), (''status'', status_json status)]"

definition replay_invocation ::
  "runtime \<Rightarrow> invocation_projection \<Rightarrow> principal_contract \<Rightarrow> string \<Rightarrow> string \<Rightarrow> datetime \<Rightarrow> invocation_result result" where
  "replay_invocation rt p who request_digest key now =
     (if iproj_tenant_ref p \<noteq> ipr_tenant_ref who then Inl (PolicyDenied ''invocation tenant binding is invalid'')
      else if iproj_request_digest p \<noteq> request_digest then Inl (IdempotencyConflict ''operation ID has a different request'')
      else if iproj_state p = Invoke_AMBIGUOUS then Inl (ReconciliationRequired ''ambiguous invocation requires reconciliation'')
      else bindE (digest_value rt (projection_json p)) (\<lambda>d.
           bindE (make_status \<lparr>istat_state = task_state_of (iproj_state p), istat_progress_percent = (if iproj_state p = Invoke_SUCCEEDED then 100 else 0),
                    istat_sequence = iproj_version p, istat_retry_after_seconds = None, istat_status_digest = d, istat_occurred_at = iproj_updated_at p\<rparr>) (\<lambda>status.
           bindE (task_from_projection rt p who key now) (\<lambda>task.
           make_result \<lparr>ires_task = task, ires_status = status, ires_artifacts = [], ires_replayed = True\<rparr>))))"

section \<open>Cancellation\<close>

definition confirm_cancel ::
  "'w peer_env \<Rightarrow> principal_contract \<Rightarrow> string \<Rightarrow> string \<Rightarrow> pyfloat \<Rightarrow> trust_entry \<Rightarrow> invocation_projection \<Rightarrow> datetime \<Rightarrow>
   ('w peer_state, invocation_result) op" where
  "confirm_cancel env who operation_id command timeout peer requested now =
     bindS (liftS (task_from_projection (ige_runtime env) requested who operation_id now)) (\<lambda>task.
     bindS (on_transport (ige_cancel env peer task timeout)) (\<lambda>status.
     bindS (requireS (istat_state status = Task_CANCELLED) (ReconciliationRequired ''peer cancellation is not confirmed'')) (\<lambda>_.
     bindS (gateway_now env) (\<lambda>cancelled_at.
     bindS (append_invocation env operation_id Interop_TASK_CANCELLED (command @ ''-confirmed'') who (iproj_peer_id requested)
              [(''status_digest'', JStr (istat_status_digest status))] cancelled_at
              (requested\<lparr>iproj_state := Invoke_CANCELLED, iproj_version := iproj_version requested + 1, iproj_updated_at := cancelled_at\<rparr>)) (\<lambda>_.
     liftS (make_result \<lparr>ires_task = task\<lparr>itask_state := Task_CANCELLED, itask_updated_at := cancelled_at\<rparr>, ires_status = status,
       ires_artifacts = [], ires_replayed = False\<rparr>))))))"

definition cancel_requested :: "invocation_projection \<Rightarrow> datetime \<Rightarrow> invocation_projection" where
  "cancel_requested current now = current\<lparr>iproj_version := iproj_version current + 1, iproj_cancellation_requested := True, iproj_updated_at := now\<rparr>"

definition cancel_invocation ::
  "'w peer_env \<Rightarrow> principal_contract \<Rightarrow> string \<Rightarrow> string \<Rightarrow> pyfloat \<Rightarrow> ('w peer_state, invocation_result) op" where
  "cancel_invocation env who operation_id command timeout =
     bindS (getS (\<lambda>s. ile_projections (igs_ledger s) operation_id)) (\<lambda>found.
     case found of None \<Rightarrow> raiseS (PolicyDenied ''invocation is unavailable'') | Some current \<Rightarrow>
     bindS (requireS (iproj_tenant_ref current = ipr_tenant_ref who) (PolicyDenied ''invocation tenant binding is invalid'')) (\<lambda>_.
     bindS (requireS (iproj_state current \<notin> {Invoke_SUCCEEDED, Invoke_FAILED, Invoke_CANCELLED, Invoke_RECONCILED, Invoke_QUARANTINED})
              (PolicyDenied ''terminal invocation cannot be cancelled'')) (\<lambda>_.
     bindS (gateway_now env) (\<lambda>now.
     bindS (getS (\<lambda>s. current_trust (igs_registry s) (iproj_peer_id current))) (\<lambda>peer_found.
     case peer_found of None \<Rightarrow> raiseS (PolicyDenied ''peer is unavailable'') | Some peer \<Rightarrow>
     bindS (append_invocation env operation_id Interop_TASK_CANCEL_REQUESTED command who (iproj_peer_id current)
              [(''fence_token'', JStr (iproj_fence_token current)), (''request_digest'', JStr (iproj_request_digest current))] now
              (cancel_requested current now)) (\<lambda>_.
     confirm_cancel env who operation_id command timeout peer (cancel_requested current now) now))))))"

section \<open>Invocation\<close>

record invocation_request =
  irq_principal :: principal_contract
  irq_capability :: capability_contract
  irq_peer_id :: string
  irq_message :: message_contract
  irq_operation_id :: string
  irq_command_ref :: string
  irq_idempotency_key :: string
  irq_tenant_ref :: string
  irq_classification :: protocol_classification
  irq_cost_units :: int
  irq_timeout :: pyfloat
  irq_cancelled :: bool

definition timeout_ok :: "pyfloat \<Rightarrow> bool" where
  "timeout_ok t \<longleftrightarrow> \<not> float_le t (PyFloat 0 0) \<and> float_le t (PyFloat 120 0)"

definition submitted_task :: "invocation_request \<Rightarrow> string \<Rightarrow> policy_contract \<Rightarrow> trust_entry \<Rightarrow> string \<Rightarrow> datetime \<Rightarrow> task_contract" where
  "submitted_task q request_digest policy peer key_digest now =
     \<lparr>itask_task_id = ''interop-task-'' @ irq_operation_id q, itask_protocol = icap_protocol (irq_capability q), itask_peer_id = irq_peer_id q,
      itask_capability_id = icap_capability_id (irq_capability q), itask_tenant_ref = irq_tenant_ref q,
      itask_principal_ref = ipr_principal_ref (irq_principal q), itask_purpose = ipr_purpose (irq_principal q), itask_request_digest = request_digest,
      itask_idempotency_key_digest = key_digest, itask_policy_digest = ipol_policy_digest policy, itask_trust_revision = itr_revision peer,
      itask_fence_token = ''interop-fence-'' @ irq_operation_id q @ ''-1'', itask_state = Task_SUBMITTED, itask_created_at = now,
      itask_updated_at = now, itask_expires_at = ipr_expires_at (irq_principal q), itask_result_digest = None, itask_error_code = None\<rparr>"

definition requested_projection :: "invocation_request \<Rightarrow> string \<Rightarrow> policy_contract \<Rightarrow> trust_entry \<Rightarrow> string \<Rightarrow> datetime \<Rightarrow> invocation_projection" where
  "requested_projection q request_digest policy peer trust_digest now =
     \<lparr>iproj_operation_id = irq_operation_id q, iproj_tenant_ref = irq_tenant_ref q, iproj_peer_id = irq_peer_id q,
      iproj_protocol = icap_protocol (irq_capability q), iproj_capability_id = icap_capability_id (irq_capability q),
      iproj_risk = icap_risk (irq_capability q), iproj_state = Invoke_REQUESTED, iproj_version = 1, iproj_request_digest = request_digest,
      iproj_trust_digest = trust_digest, iproj_policy_digest = ipol_policy_digest policy, iproj_trust_revision = itr_revision peer,
      iproj_fence_token = ''interop-fence-'' @ irq_operation_id q @ ''-1'', iproj_cursor_digest = None, iproj_result_digest = None,
      iproj_error_code = None, iproj_ambiguous = False, iproj_cancellation_requested = False, iproj_updated_at = now\<rparr>"

text \<open>Authorisation, quota and the recorded request.\<close>

definition open_invocation ::
  "'w peer_env \<Rightarrow> invocation_request \<Rightarrow> string \<Rightarrow> datetime \<Rightarrow> ('w peer_state, trust_entry \<times> task_contract \<times> invocation_projection) op" where
  "open_invocation env q request_digest now =
     bindS (getS igs_registry) (\<lambda>reg.
     bindS (liftS (require_active reg (irq_peer_id q) (icap_protocol (irq_capability q)) (icap_capability_id (irq_capability q))
              (icap_risk (irq_capability q)) (irq_classification q) now)) (\<lambda>peer.
     bindS (liftS (ige_authorize env (irq_principal q) peer (irq_capability q) request_digest)) (\<lambda>policy.
     bindS (requireS (ipol_allow policy) (PolicyDenied ''application protocol policy denied the invocation'')) (\<lambda>_.
     bindS (on_invocation_quota (reserve_invocation (irq_tenant_ref q) (''interop-reservation-'' @ irq_operation_id q) (irq_cost_units q))) (\<lambda>_.
     bindS (liftS (digest_value (ige_runtime env) (trust_entry_json peer))) (\<lambda>trust_digest.
     bindS (liftS (digest_value (ige_runtime env) (JStr (irq_idempotency_key q)))) (\<lambda>key_digest.
     bindS (liftS (make_task (submitted_task q request_digest policy peer key_digest now))) (\<lambda>task.
     bindS (liftS (make_projection (requested_projection q request_digest policy peer trust_digest now))) (\<lambda>requested.
     bindS (append_invocation env (irq_operation_id q) Interop_INVOCATION_REQUESTED (irq_command_ref q) (irq_principal q) (irq_peer_id q)
              [(''capability_id'', JStr (icap_capability_id (irq_capability q))), (''cost_units'', JInt (irq_cost_units q)),
               (''idempotency_key_digest'', JStr key_digest), (''policy_digest'', JStr (ipol_policy_digest policy)),
               (''request_digest'', JStr request_digest), (''reservation_ref'', JStr (''interop-reservation-'' @ irq_operation_id q)),
               (''trust_digest'', JStr trust_digest)] now requested) (\<lambda>_.
     returnS (peer, task, requested)))))))))))"

definition ambiguous_error :: "error \<Rightarrow> bool" where
  "ambiguous_error e = (case e of AmbiguousTransportError _ \<Rightarrow> True | TimeoutError _ \<Rightarrow> True | ConnectionError _ \<Rightarrow> True | _ \<Rightarrow> False)"

definition call_peer ::
  "'w peer_env \<Rightarrow> invocation_request \<Rightarrow> trust_entry \<Rightarrow> task_contract \<Rightarrow> ('w peer_state, status_contract \<times> artifact_contract list) op" where
  "call_peer env q peer task =
     bindS (on_transport (ige_invoke env peer task (irq_message q) (irq_timeout q))) (\<lambda>(status, artifacts).
     bindS (liftS (validate_result (ige_runtime env) peer (irq_capability q) task status artifacts)) (\<lambda>_.
     returnS (status, artifacts)))"

text \<open>The two handlers: the outcome is recorded with the circuit and the ledger, then the exception goes on.\<close>

definition fail_invocation ::
  "'w peer_env \<Rightarrow> invocation_request \<Rightarrow> string \<Rightarrow> invocation_projection \<Rightarrow> error \<Rightarrow> ('w peer_state, invocation_result) op" where
  "fail_invocation env q request_digest claimed e =
     bindS (on_circuit (record_outcome (ige_monotonic env) (irq_peer_id q) False)) (\<lambda>_.
     bindS (gateway_now env) (\<lambda>now.
     if ambiguous_error e then
       bindS (append_invocation env (irq_operation_id q) Interop_INVOCATION_AMBIGUOUS (irq_command_ref q @ ''-ambiguous'') (irq_principal q) (irq_peer_id q)
                [(''error_code'', JStr ''transport-ambiguous''), (''fence_token'', JStr (iproj_fence_token claimed)), (''request_digest'', JStr request_digest)] now
                (claimed\<lparr>iproj_state := Invoke_AMBIGUOUS, iproj_version := 3, iproj_ambiguous := True,
                   iproj_error_code := Some ''transport-ambiguous'', iproj_updated_at := now\<rparr>)) (\<lambda>_.
       raiseS (ReconciliationRequired ''protocol outcome is ambiguous; observe before retry''))
     else
       bindS (append_invocation env (irq_operation_id q) Interop_INVOCATION_FAILED (irq_command_ref q @ ''-failed'') (irq_principal q) (irq_peer_id q)
                [(''error_code'', JStr ''peer-result-rejected''), (''request_digest'', JStr request_digest)] now
                (claimed\<lparr>iproj_state := Invoke_FAILED, iproj_version := 3, iproj_error_code := Some ''peer-result-rejected'', iproj_updated_at := now\<rparr>)) (\<lambda>_.
       raiseS e)))"

definition complete_invocation ::
  "'w peer_env \<Rightarrow> invocation_request \<Rightarrow> task_contract \<Rightarrow> invocation_projection \<Rightarrow> status_contract \<Rightarrow> artifact_contract list \<Rightarrow>
   ('w peer_state, invocation_result) op" where
  "complete_invocation env q task claimed status artifacts =
     bindS (on_circuit (record_outcome (ige_monotonic env) (irq_peer_id q) True)) (\<lambda>_.
     bindS (liftS (digest_value (ige_runtime env) (result_document status artifacts))) (\<lambda>result_digest.
     bindS (gateway_now env) (\<lambda>now.
     bindS (append_invocation env (irq_operation_id q) Interop_INVOCATION_SUCCEEDED (irq_command_ref q @ ''-succeeded'') (irq_principal q) (irq_peer_id q)
              [(''artifact_count'', JInt (int (length artifacts))), (''result_digest'', JStr result_digest),
               (''status_digest'', JStr (istat_status_digest status))] now
              (claimed\<lparr>iproj_state := Invoke_SUCCEEDED, iproj_version := 3, iproj_result_digest := Some result_digest, iproj_updated_at := now\<rparr>)) (\<lambda>_.
     liftS (make_result \<lparr>ires_task = task\<lparr>itask_state := Task_COMPLETED, itask_updated_at := now, itask_result_digest := Some result_digest\<rparr>,
       ires_status = status, ires_artifacts = artifacts, ires_replayed = False\<rparr>)))))"

definition run_invocation ::
  "'w peer_env \<Rightarrow> invocation_request \<Rightarrow> string \<Rightarrow> trust_entry \<Rightarrow> task_contract \<Rightarrow> invocation_projection \<Rightarrow> ('w peer_state, invocation_result) op" where
  "run_invocation env q request_digest peer task requested =
     bindS (gateway_now env) (\<lambda>claimed_at.
     let claimed = requested\<lparr>iproj_state := Invoke_CLAIMED, iproj_version := 2, iproj_updated_at := claimed_at\<rparr> in
     bindS (append_invocation env (irq_operation_id q) Interop_INVOCATION_CLAIMED (irq_command_ref q @ ''-claim'') (irq_principal q) (irq_peer_id q)
              [(''fence_token'', JStr (iproj_fence_token requested)), (''request_digest'', JStr request_digest),
               (''trust_revision'', JInt (int (itr_revision peer)))] claimed_at claimed) (\<lambda>_ s.
     case call_peer env q peer task s of
       (Inl e, s') \<Rightarrow> fail_invocation env q request_digest claimed e s'
     | (Inr out, s') \<Rightarrow> complete_invocation env q task claimed (fst out) (snd out) s'))"

definition start_invocation :: "'w peer_env \<Rightarrow> invocation_request \<Rightarrow> string \<Rightarrow> datetime \<Rightarrow> ('w peer_state, invocation_result) op" where
  "start_invocation env q request_digest now =
     bindS (open_invocation env q request_digest now) (\<lambda>(peer, task, requested).
     if irq_cancelled q then cancel_invocation env (irq_principal q) (irq_operation_id q) (irq_command_ref q @ ''-cancel'') (irq_timeout q)
     else run_invocation env q request_digest peer task requested)"

definition admit_invocation :: "'w peer_env \<Rightarrow> invocation_request \<Rightarrow> ('w peer_state, datetime \<times> string) op" where
  "admit_invocation env q =
     bindS (requireS (ipr_tenant_ref (irq_principal q) = irq_tenant_ref q) (PolicyDenied ''principal tenant reference does not match invocation'')) (\<lambda>_.
     bindS (requireS (timeout_ok (irq_timeout q)) (PayloadRejected ''protocol timeout is outside the bound'')) (\<lambda>_.
     bindS (on_circuit (allow_peer (ige_monotonic env) (irq_peer_id q))) (\<lambda>allowed.
     bindS (requireS allowed (RepositoryUnavailable ''peer circuit is open'')) (\<lambda>_.
     bindS (gateway_now env) (\<lambda>now.
     bindS (liftS (digest_value (ige_runtime env) (message_contract_json (irq_message q)))) (\<lambda>request_digest.
     returnS (now, request_digest)))))))"

definition invoke_peer :: "'w peer_env \<Rightarrow> invocation_request \<Rightarrow> ('w peer_state, invocation_result) op" where
  "invoke_peer env q =
     bindS (admit_invocation env q) (\<lambda>(now, request_digest).
     bindS (getS (\<lambda>s. ile_projections (igs_ledger s) (irq_operation_id q))) (\<lambda>existing.
     case existing of
       Some p \<Rightarrow> liftS (replay_invocation (ige_runtime env) p (irq_principal q) request_digest (irq_idempotency_key q) now)
     | None \<Rightarrow> start_invocation env q request_digest now))"

section \<open>Reconciliation\<close>

definition reconcile_invocation ::
  "'w peer_env \<Rightarrow> principal_contract \<Rightarrow> string \<Rightarrow> string \<Rightarrow> protocol_classification \<Rightarrow> pyfloat \<Rightarrow> ('w peer_state, invocation_result) op" where
  "reconcile_invocation env who operation_id command classification timeout =
     bindS (getS (\<lambda>s. ile_projections (igs_ledger s) operation_id)) (\<lambda>found.
     case found of None \<Rightarrow> raiseS (PolicyDenied ''only ambiguous invocations can be reconciled'') | Some current \<Rightarrow>
     bindS (requireS (iproj_state current = Invoke_AMBIGUOUS) (PolicyDenied ''only ambiguous invocations can be reconciled'')) (\<lambda>_.
     bindS (requireS (iproj_tenant_ref current = ipr_tenant_ref who) (PolicyDenied ''invocation tenant binding is invalid'')) (\<lambda>_.
     bindS (gateway_now env) (\<lambda>now.
     bindS (getS igs_registry) (\<lambda>reg.
     bindS (liftS (require_active reg (iproj_peer_id current) (iproj_protocol current) (iproj_capability_id current) (iproj_risk current) classification now)) (\<lambda>peer.
     bindS (liftS (digest_value (ige_runtime env) (trust_entry_json peer))) (\<lambda>trust_digest.
     bindS (requireS (trust_digest = iproj_trust_digest current) (PolicyDenied ''peer trust changed before reconciliation'')) (\<lambda>_.
     bindS (liftS (task_from_projection (ige_runtime env) current who operation_id now)) (\<lambda>task.
     bindS (on_transport (ige_reconcile env peer task timeout)) (\<lambda>(status, artifacts).
     bindS (requireS (istat_state status \<in> {Task_COMPLETED, Task_FAILED}) (ReconciliationRequired ''peer reconciliation remains inconclusive'')) (\<lambda>_.
     bindS (liftS (digest_value (ige_runtime env) (result_document status artifacts))) (\<lambda>result_digest.
     bindS (append_invocation env operation_id Interop_INVOCATION_RECONCILED command who (iproj_peer_id current)
              [(''artifact_count'', JInt (int (length artifacts))), (''result_digest'', JStr result_digest),
               (''status_digest'', JStr (istat_status_digest status))] now
              (current\<lparr>iproj_state := Invoke_RECONCILED, iproj_version := iproj_version current + 1, iproj_ambiguous := False,
                 iproj_result_digest := Some result_digest, iproj_updated_at := now\<rparr>)) (\<lambda>_.
     liftS (make_result \<lparr>ires_task = task\<lparr>itask_state := istat_state status, itask_updated_at := now, itask_result_digest := Some result_digest\<rparr>,
       ires_status = status, ires_artifacts = artifacts, ires_replayed = False\<rparr>))))))))))))))"

end
