(* ===== verification/Interop_Contract.thy ===== *)
theory Interop_Contract
  imports Interop_Gateway State_Preorder
begin

text \<open>
  What the ledger, the quota and the gateway keep: a fact is appended or nothing changes, the facts of an operation verify, the usage of a
  tenant is the sum of its reservations, and every call of the gateway only extends the ledger. Then what a call has checked and recorded
  when it reaches the peer, and what a repeated cancellation does.
\<close>

section \<open>Appends\<close>

lemma append_interop_cases:
  assumes "append_interop rt a l = (r, l')"
  obtains (kept) "l' = l"
  | (added) f d where "r = Inr f" "ile_commands l (ica_command_ref a) = None" "make_interop_fact rt a (ile_facts l (ica_operation_id a)) = Inr f"
      "projection_current l a" "digest_value rt (JObj (ica_payload a)) = Inr d" "l' = store_fact a d f l"
proof (cases "l' = l")
  case True
  with kept show ?thesis .
next
  case False
  let ?pre = "bindE (reject_raw_payload (ica_payload a)) (\<lambda>_. digest_value rt (JObj (ica_payload a)))"
  let ?fact = "make_interop_fact rt a (ile_facts l (ica_operation_id a))"
  obtain d where d: "?pre = Inr d" using assms False by (cases ?pre) (simp_all add: append_interop_def)
  have none: "ile_commands l (ica_command_ref a) = None"
  proof (rule ccontr)
    assume "ile_commands l (ica_command_ref a) \<noteq> None"
    then obtain z where "ile_commands l (ica_command_ref a) = Some z" by blast
    with assms False d show False by (simp add: append_interop_def split: if_splits)
  qed
  obtain f where f: "?fact = Inr f" using assms False d none by (cases ?fact) (simp_all add: append_interop_def)
  have "projection_current l a" "r = Inr f" "l' = store_fact a d f l"
    using assms False d none f by (simp_all add: append_interop_def split: if_splits)
  with d none f added [of f d] show ?thesis by auto
qed

lemma store_fact_simps [simp]:
  "ile_facts (store_fact a d f l) = (ile_facts l)(ica_operation_id a := ile_facts l (ica_operation_id a) @ [f])"
  "ile_commands (store_fact a d f l) = (ile_commands l)(ica_command_ref a \<mapsto> (ica_operation_id a, d))"
  "ile_projections (store_fact a d f l) = (case ica_projection a of None \<Rightarrow> ile_projections l | Some p \<Rightarrow> (ile_projections l)(ica_operation_id a \<mapsto> p))"
  by (simp_all add: store_fact_def)

lemma make_interop_fact_Inr:
  assumes "make_interop_fact rt a fs = Inr f"
  shows "ifact_sequence f = Suc (length fs)" "ifact_previous_digest f = last_fact_digest fs" "ifact_fact_type f = ica_fact_type a"
    "ifact_command_ref f = ica_command_ref a" "digest_value rt (interop_fact_document f) = Inr (ifact_fact_digest f)" "valid_interop_fact f"
    "ifact_operation_id f = ica_operation_id a"
  using assms by (auto simp: make_interop_fact_def interop_material_def Let_def interop_fact_document_def split: if_splits)

lemma append_known_projection:
  assumes "append_interop rt a l = (Inr f, l')" "ica_projection a = Some p"
  shows "ile_commands l (ica_command_ref a) \<noteq> None \<and> l' = l \<or>
    ile_commands l (ica_command_ref a) = None \<and> ile_projections l' (ica_operation_id a) = Some p \<and>
    ile_facts l' (ica_operation_id a) = ile_facts l (ica_operation_id a) @ [f] \<and> ifact_fact_type f = ica_fact_type a"
  using assms make_interop_fact_Inr(3)
  by (auto simp: append_interop_def split: sum.splits option.splits if_splits)

text \<open>A replay of a call with a projection is accepted only when there is a current one, and it has the next version.\<close>

lemma append_replayed:
  assumes "append_interop rt a l = (Inr f, l')" "ile_commands l (ica_command_ref a) \<noteq> None" "ica_projection a = Some p"
  shows "\<exists>c. ile_projections l (ica_operation_id a) = Some c \<and> iproj_version p = Suc (iproj_version c)"
  using assms by (auto simp: append_interop_def replayed_fact_def projection_current_def split: sum.splits option.splits if_splits list.splits)

section \<open>Histories of the ledger\<close>

inductive interop_step :: "runtime \<Rightarrow> interop_ledger \<Rightarrow> interop_ledger \<Rightarrow> bool" for rt where
  step_append_interop: "append_interop rt a l = (r, l') \<Longrightarrow> interop_step rt l l'"

definition interop_reachable :: "runtime \<Rightarrow> interop_ledger \<Rightarrow> bool" where
  "interop_reachable rt l \<longleftrightarrow> (interop_step rt)\<^sup>*\<^sup>* empty_interop_ledger l"

lemma verify_facts_snoc:
  assumes "verify_facts rt h n fs = Inr True" "ifact_sequence f = n + length fs"
    and "ifact_previous_digest f = (if fs = [] then h else ifact_fact_digest (last fs))"
    and "digest_value rt (interop_fact_document f) = Inr (ifact_fact_digest f)"
  shows "verify_facts rt h n (fs @ [f]) = Inr True"
  using assms
proof (induction fs arbitrary: h n)
  case (Cons g fs)
  from Cons.prems(1) obtain d where d: "digest_value rt (interop_fact_document g) = Inr d" "d = ifact_fact_digest g" "ifact_sequence g = n"
      "ifact_previous_digest g = h" "verify_facts rt (ifact_fact_digest g) (Suc n) fs = Inr True"
    by (auto split: if_splits)
  from Cons.IH [OF d(5)] Cons.prems(2-4) have "verify_facts rt (ifact_fact_digest g) (Suc n) (fs @ [f]) = Inr True" by (simp split: if_splits)
  with d show ?case by simp
qed simp

definition interop_ok :: "runtime \<Rightarrow> interop_ledger \<Rightarrow> bool" where
  "interop_ok rt l \<longleftrightarrow> (\<forall>x. verify_interop rt l x = Inr True \<and> length (ile_facts l x) \<le> 128 \<and> list_all valid_interop_fact (ile_facts l x)) \<and>
     (\<forall>c x d. ile_commands l c = Some (x, d) \<longrightarrow> (\<exists>f \<in> set (ile_facts l x). ifact_command_ref f = c))"

lemma interop_step_ok:
  assumes "interop_step rt l l'" "interop_ok rt l"
  shows "interop_ok rt l'"
  using assms(1)
proof cases
  case (step_append_interop a r)
  then show ?thesis
  proof (cases rule: append_interop_cases)
    case (added f d)
    let ?x = "ica_operation_id a"
    note f = make_interop_fact_Inr [OF added(3)]
    have v: "verify_facts rt zero_hash 1 (ile_facts l ?x) = Inr True" "list_all valid_interop_fact (ile_facts l ?x)"
      using assms(2) by (simp_all add: interop_ok_def verify_interop_def)
    have "verify_facts rt zero_hash 1 (ile_facts l ?x @ [f]) = Inr True"
      by (rule verify_facts_snoc [OF v(1)]) (simp_all add: f last_fact_digest_def)
    moreover have "length (ile_facts l ?x @ [f]) \<le> 128" using f(1,6) by (simp add: valid_interop_fact_def)
    ultimately show ?thesis using assms(2) added(6) f(4,6) v(2) by (auto simp: interop_ok_def verify_interop_def)
  qed (use assms(2) in simp)
qed

lemma interop_reachable_ok: "interop_reachable rt l \<Longrightarrow> interop_ok rt l"
proof -
  assume "interop_reachable rt l"
  then have "(interop_step rt)\<^sup>*\<^sup>* empty_interop_ledger l" by (simp add: interop_reachable_def)
  then show ?thesis
    by (induction rule: rtranclp_induct) (auto intro: interop_step_ok, simp add: interop_ok_def empty_interop_ledger_def verify_interop_def)
qed

section \<open>Quota\<close>

definition held_by :: "invocation_quota \<Rightarrow> string \<Rightarrow> string set" where
  "held_by q t = {r. \<exists>c. inq_reservations q r = Some (t, c)}"

definition quota_exact :: "invocation_quota \<Rightarrow> bool" where
  "quota_exact q \<longleftrightarrow> finite (dom (inq_reservations q)) \<and> (\<forall>t. fst (quota_usage q t) \<le> inq_request_limit q \<and> snd (quota_usage q t) \<le> inq_cost_limit q \<and>
     fst (quota_usage q t) = card (held_by q t) \<and> snd (quota_usage q t) = (\<Sum>r \<in> held_by q t. snd (the (inq_reservations q r))))"

lemma held_by_finite: "finite (dom (inq_reservations q)) \<Longrightarrow> finite (held_by q t)"
  by (rule finite_subset [of _ "dom (inq_reservations q)"]) (auto simp: held_by_def)

lemma reserve_exact:
  assumes "reserve_invocation t x c q = (r, q')" "quota_exact q"
  shows "quota_exact q' \<and> inq_request_limit q' = inq_request_limit q \<and> inq_cost_limit q' = inq_cost_limit q"
proof (cases "q' = q")
  case False
  obtain n m where nm: "quota_usage q t = (n, m)" by force
  from assms(1) False nm have new: "inq_reservations q x = None" and fits: "n + 1 \<le> inq_request_limit q" "m + nat c \<le> inq_cost_limit q"
    and q': "q' = q\<lparr>inq_usage := (inq_usage q)(t \<mapsto> (n + 1, m + nat c)), inq_reservations := (inq_reservations q)(x \<mapsto> (t, nat c))\<rparr>"
    by (auto simp: reserve_invocation_def split: if_splits option.splits)
  have fin: "finite (dom (inq_reservations q))" and ex: "fst (quota_usage q y) \<le> inq_request_limit q \<and> snd (quota_usage q y) \<le> inq_cost_limit q \<and>
     fst (quota_usage q y) = card (held_by q y) \<and> snd (quota_usage q y) = (\<Sum>r \<in> held_by q y. snd (the (inq_reservations q r)))" for y
    using assms(2) unfolding quota_exact_def by blast+
  have held: "held_by q' y = (if y = t then insert x (held_by q t) else held_by q y)" for y
    using new by (auto simp: held_by_def q')
  have notin: "x \<notin> held_by q y" for y using new by (simp add: held_by_def)
  have same: "(\<Sum>r \<in> held_by q y. snd (the (inq_reservations q' r))) = (\<Sum>r \<in> held_by q y. snd (the (inq_reservations q r)))" for y
    using notin by (intro sum.cong) (auto simp: q')
  have usage: "quota_usage q' y = (if y = t then (n + 1, m + nat c) else quota_usage q y)" for y
    by (simp add: quota_usage_def q' get_default_def)
  have lim: "inq_request_limit q' = inq_request_limit q" "inq_cost_limit q' = inq_cost_limit q" "inq_reservations q' x = Some (t, nat c)"
    by (simp_all add: q')
  have "fst (quota_usage q' y) \<le> inq_request_limit q' \<and> snd (quota_usage q' y) \<le> inq_cost_limit q' \<and>
     fst (quota_usage q' y) = card (held_by q' y) \<and> snd (quota_usage q' y) = (\<Sum>r \<in> held_by q' y. snd (the (inq_reservations q' r)))" for y
    using ex [of y] fits nm notin [of t] held_by_finite [OF fin, of t] same [of y] by (cases "y = t") (simp_all add: usage held lim)
  moreover have "finite (dom (inq_reservations q'))" using fin by (simp add: q')
  ultimately show ?thesis unfolding quota_exact_def using lim(1,2) by blast
qed (use assms in simp)

section \<open>What the gateway keeps\<close>

definition grows :: "interop_ledger \<Rightarrow> interop_ledger \<Rightarrow> bool" where
  "grows l l' \<longleftrightarrow> (\<forall>x. prefix (ile_facts l x) (ile_facts l' x)) \<and> ile_commands l \<subseteq>\<^sub>m ile_commands l' \<and> dom (ile_projections l) \<subseteq> dom (ile_projections l')"

lemma grows_refl [simp]: "grows l l"
  by (simp add: grows_def)

lemma grows_trans: "grows l l' \<Longrightarrow> grows l' l'' \<Longrightarrow> grows l l''"
  unfolding grows_def by (meson map_le_trans prefix_order.trans subset_trans)

lemma append_grows: "append_interop rt a l = (r, l') \<Longrightarrow> grows l l'"
  by (erule append_interop_cases) (auto simp: grows_def map_le_def split: option.splits)

text \<open>The operations of the gateway only extend the ledger, and only the transport changes the world.\<close>

interpretation ledger_growth: state_preorder "\<lambda>s s'. grows (igs_ledger s) (igs_ledger s')"
  by unfold_locales (auto intro: grows_trans)

interpretation same_world: state_preorder "\<lambda>s s'. igs_world s' = igs_world s"
  by unfold_locales simp_all

lemma append_keeps:
  "ledger_growth.keeping (append_invocation env x ty c who peer payload t p)" "same_world.keeping (append_invocation env x ty c who peer payload t p)"
  by (auto simp: ledger_growth.keeping_def same_world.keeping_def append_invocation_def on_interop_ledger_def zoomS_def split: prod.splits dest: append_grows)

lemma stores_keep:
  "ledger_growth.keeping (gateway_now env)" "same_world.keeping (gateway_now env)" "ledger_growth.keeping (on_invocation_quota m)"
  "same_world.keeping (on_invocation_quota m)" "ledger_growth.keeping (on_circuit c)" "same_world.keeping (on_circuit c)"
  "ledger_growth.keeping (on_transport t)"
  by (simp_all add: ledger_growth.keeping_def same_world.keeping_def gateway_now_def on_invocation_quota_def on_circuit_def on_transport_def
      zoomS_def split: prod.splits)

lemmas growth_intros = ledger_growth.keeping_intros append_keeps(1) stores_keep

lemmas world_intros = same_world.keeping_intros append_keeps(2) stores_keep

lemma growth_cancel: "ledger_growth.keeping (cancel_invocation env who x c timeout)"
  unfolding cancel_invocation_def confirm_cancel_def by (intro growth_intros)

lemma growth_open: "ledger_growth.keeping (open_invocation env q d now)"
  unfolding open_invocation_def by (intro growth_intros)

lemma growth_fail: "ledger_growth.keeping (fail_invocation env q d claimed e)"
  unfolding fail_invocation_def by (intro growth_intros)

lemma growth_complete: "ledger_growth.keeping (complete_invocation env q task claimed status artifacts)"
  unfolding complete_invocation_def by (intro growth_intros)

lemma growth_call: "ledger_growth.keeping (call_peer env q peer task)"
  unfolding call_peer_def by (intro growth_intros)

lemma growth_run: "ledger_growth.keeping (run_invocation env q d peer task requested)"
  unfolding run_invocation_def Let_def by (intro growth_intros ledger_growth.keeping_try growth_call growth_fail growth_complete)

lemma growth_invoke: "ledger_growth.keeping (invoke_peer env q)"
  unfolding invoke_peer_def start_invocation_def admit_invocation_def by (intro growth_intros growth_open growth_cancel growth_run)

lemma growth_reconcile: "ledger_growth.keeping (reconcile_invocation env who x c cl timeout)"
  unfolding reconcile_invocation_def by (intro growth_intros)

lemma world_open: "same_world.keeping (open_invocation env q d now)"
  unfolding open_invocation_def by (intro world_intros)

lemma world_admit: "same_world.keeping (admit_invocation env q)"
  unfolding admit_invocation_def by (intro world_intros)

text \<open>Calls of the gateway and changes of the registry, in any order.\<close>

inductive gateway_step :: "'w peer_env \<Rightarrow> 'w peer_state \<Rightarrow> 'w peer_state \<Rightarrow> bool" for env where
  step_invoke: "invoke_peer env q s = (r, s') \<Longrightarrow> gateway_step env s s'"
| step_reconcile: "reconcile_invocation env who x c cl timeout s = (r, s') \<Longrightarrow> gateway_step env s s'"
| step_cancel: "cancel_invocation env who x c timeout s = (r, s') \<Longrightarrow> gateway_step env s s'"
| step_trust: "trust_step (ige_runtime env) (igs_registry s) reg \<Longrightarrow> gateway_step env s (s\<lparr>igs_registry := reg\<rparr>)"

lemma gateway_step_grows: "gateway_step env s s' \<Longrightarrow> grows (igs_ledger s) (igs_ledger s')"
  by (induction rule: gateway_step.induct)
    (auto dest: ledger_growth.keepingD [OF growth_invoke] ledger_growth.keepingD [OF growth_reconcile] ledger_growth.keepingD [OF growth_cancel])

lemma gateway_steps_grow: "(gateway_step env)\<^sup>*\<^sup>* s s' \<Longrightarrow> grows (igs_ledger s) (igs_ledger s')"
  by (induction rule: rtranclp_induct) (auto dest: gateway_step_grows intro: grows_trans)

section \<open>The books of the gateway\<close>

text \<open>Every operation of the ledger verifies, usage is exact and within its limits, and each peer has a proper history.\<close>

definition gateway_ok :: "'w peer_env \<Rightarrow> 'w peer_state \<Rightarrow> bool" where
  "gateway_ok env s \<longleftrightarrow> interop_ok (ige_runtime env) (igs_ledger s) \<and> quota_exact (igs_quota s) \<and> registry_ok (igs_registry s)"

interpretation books: state_preorder "\<lambda>s s'. gateway_ok env s \<longrightarrow> gateway_ok env s'" for env
  by unfold_locales auto

lemma append_books: "books.keeping env (append_invocation env x ty c who peer payload t p)"
  by (rule books.keepingI)
    (auto simp: gateway_ok_def append_invocation_def on_interop_ledger_def zoomS_def split: prod.splits dest!: step_append_interop intro: interop_step_ok)

lemma reserve_books: "books.keeping env (on_invocation_quota (reserve_invocation t x c))"
  by (rule books.keepingI) (auto simp: gateway_ok_def on_invocation_quota_def zoomS_def split: prod.splits dest: reserve_exact)

lemma other_books: "books.keeping env (gateway_now env)" "books.keeping env (on_circuit c)" "books.keeping env (on_transport t)"
  by (rule_tac [!] books.keepingI) (auto simp: gateway_ok_def gateway_now_def on_circuit_def on_transport_def zoomS_def split: prod.splits)

lemmas books_intros = books.keeping_intros append_books reserve_books other_books

lemma cancel_books: "books.keeping env (cancel_invocation env who x c timeout)"
  unfolding cancel_invocation_def confirm_cancel_def by (intro books_intros)

lemma run_books: "books.keeping env (run_invocation env q d peer task requested)"
  unfolding run_invocation_def Let_def call_peer_def fail_invocation_def complete_invocation_def by (intro books_intros books.keeping_try)

lemma invoke_books: "books.keeping env (invoke_peer env q)"
  unfolding invoke_peer_def start_invocation_def admit_invocation_def open_invocation_def by (intro books_intros cancel_books run_books)

lemma reconcile_books: "books.keeping env (reconcile_invocation env who x c cl timeout)"
  unfolding reconcile_invocation_def by (intro books_intros)

lemma gateway_step_ok: "gateway_step env s s' \<Longrightarrow> gateway_ok env s \<Longrightarrow> gateway_ok env s'"
proof (induction rule: gateway_step.induct)
  case (step_invoke q s r s')
  with books.keepingD [OF invoke_books] show ?case by blast
next
  case (step_reconcile who x c cl timeout s r s')
  with books.keepingD [OF reconcile_books] show ?case by blast
next
  case (step_cancel who x c timeout s r s')
  with books.keepingD [OF cancel_books] show ?case by blast
next
  case (step_trust s reg)
  then show ?case using trust_step_ok by (auto simp: gateway_ok_def)
qed

lemma gateway_steps_ok: "(gateway_step env)\<^sup>*\<^sup>* s s' \<Longrightarrow> gateway_ok env s \<Longrightarrow> gateway_ok env s'"
  by (induction rule: rtranclp_induct) (auto dest: gateway_step_ok)

lemma new_quota_exact: "make_invocation_quota n m = Inr q \<Longrightarrow> quota_exact q"
  by (auto simp: make_invocation_quota_def quota_exact_def quota_usage_def get_default_def held_by_def split: if_splits)

lemma empty_interop_ok: "interop_ok rt empty_interop_ledger"
  by (rule interop_reachable_ok) (simp add: interop_reachable_def)

lemma empty_registry_ok: "registry_ok empty_registry"
  by (simp add: registry_ok_def trust_entries_def empty_registry_def get_default_def)

section \<open>A call that reaches its peer\<close>

lemma admit_keeps:
  assumes "admit_invocation env q s = (r, s')"
  shows "igs_ledger s' = igs_ledger s" "igs_quota s' = igs_quota s" "igs_registry s' = igs_registry s" "igs_world s' = igs_world s"
    "\<And>now d. r = Inr (now, d) \<Longrightarrow> now = ige_clock env (igs_ticks s) \<and> ipr_tenant_ref (irq_principal q) = irq_tenant_ref q \<and>
      timeout_ok (irq_timeout q) \<and> digest_value (ige_runtime env) (message_contract_json (irq_message q)) = Inr d"
  using assms
  by (auto simp: admit_invocation_def op_defs on_circuit_def gateway_now_def allow_peer_def Let_def split: if_splits sum.splits option.splits)

definition request_call ::
  "invocation_request \<Rightarrow> string \<Rightarrow> policy_contract \<Rightarrow> string \<Rightarrow> string \<Rightarrow> datetime \<Rightarrow> invocation_projection \<Rightarrow> interop_call" where
  "request_call q d policy trust_digest key_digest now p =
     \<lparr>ica_operation_id = irq_operation_id q, ica_fact_type = Interop_INVOCATION_REQUESTED, ica_command_ref = irq_command_ref q,
      ica_actor_ref = ipr_principal_ref (irq_principal q), ica_peer_id = irq_peer_id q,
      ica_payload = [(''capability_id'', JStr (icap_capability_id (irq_capability q))), (''cost_units'', JInt (irq_cost_units q)),
               (''idempotency_key_digest'', JStr key_digest), (''policy_digest'', JStr (ipol_policy_digest policy)),
               (''request_digest'', JStr d), (''reservation_ref'', JStr (''interop-reservation-'' @ irq_operation_id q)),
               (''trust_digest'', JStr trust_digest)], ica_recorded_at = now, ica_projection = Some p\<rparr>"

lemma reserve_Inr: "reserve_invocation t x c q = (Inr u, q') \<Longrightarrow> inq_reservations q' x = Some (t, nat c)"
  by (auto simp: reserve_invocation_def split: if_splits option.splits prod.splits)

lemma open_Inr:
  assumes "open_invocation env q d now s = (Inr (peer, task, requested), s')"
  obtains policy quota trust_digest key_digest l f where
    "require_active (igs_registry s) (irq_peer_id q) (icap_protocol (irq_capability q)) (icap_capability_id (irq_capability q))
       (icap_risk (irq_capability q)) (irq_classification q) now = Inr peer"
    "ige_authorize env (irq_principal q) peer (irq_capability q) d = Inr policy" "ipol_allow policy"
    "reserve_invocation (irq_tenant_ref q) (''interop-reservation-'' @ irq_operation_id q) (irq_cost_units q) (igs_quota s) = (Inr (), quota)"
    "digest_value (ige_runtime env) (trust_entry_json peer) = Inr trust_digest"
    "make_task (submitted_task q d policy peer key_digest now) = Inr task"
    "make_projection (requested_projection q d policy peer trust_digest now) = Inr requested"
    "append_interop (ige_runtime env) (request_call q d policy trust_digest key_digest now requested) (igs_ledger s) = (Inr f, l)"
    "s' = s\<lparr>igs_quota := quota, igs_ledger := l\<rparr>"
proof -
  have "\<exists>policy quota trust_digest key_digest l f.
    require_active (igs_registry s) (irq_peer_id q) (icap_protocol (irq_capability q)) (icap_capability_id (irq_capability q))
       (icap_risk (irq_capability q)) (irq_classification q) now = Inr peer \<and>
    ige_authorize env (irq_principal q) peer (irq_capability q) d = Inr policy \<and> ipol_allow policy \<and>
    reserve_invocation (irq_tenant_ref q) (''interop-reservation-'' @ irq_operation_id q) (irq_cost_units q) (igs_quota s) = (Inr (), quota) \<and>
    digest_value (ige_runtime env) (trust_entry_json peer) = Inr trust_digest \<and>
    make_task (submitted_task q d policy peer key_digest now) = Inr task \<and>
    make_projection (requested_projection q d policy peer trust_digest now) = Inr requested \<and>
    append_interop (ige_runtime env) (request_call q d policy trust_digest key_digest now requested) (igs_ledger s) = (Inr f, l) \<and>
    s' = s\<lparr>igs_quota := quota, igs_ledger := l\<rparr>"
    using assms
    by (auto simp: open_invocation_def op_defs on_invocation_quota_def append_invocation_def on_interop_ledger_def request_call_def
        split: prod.splits sum.splits if_splits)
  then show thesis using that by blast
qed

lemma require_active_Inr:
  assumes "require_active reg peer_id protocol capability_id risk classification now = Inr peer"
  shows "current_trust reg peer_id = Some peer" "itr_status peer = Peer_ACTIVE" "itr_protocol peer = protocol" "now < itr_expires_at peer"
    "now < itr_review_after peer" "capability_id \<in> set (itr_allowed_capabilities peer)" "risk \<in> set (itr_allowed_risks peer)"
    "classification \<in> set (itr_allowed_classifications peer)"
  using assms by (auto simp: require_active_def split: option.splits if_splits)

lemma invoke_known:
  assumes "invoke_peer env q s = (r, s')" "ile_projections (igs_ledger s) (irq_operation_id q) = Some p"
  shows "igs_world s' = igs_world s \<and> igs_ledger s' = igs_ledger s \<and> igs_quota s' = igs_quota s"
proof -
  obtain r1 s1 where a: "admit_invocation env q s = (r1, s1)" by force
  note keep = admit_keeps(1-4) [OF a]
  show ?thesis using assms a keep by (cases r1) (auto simp: invoke_peer_def bindS_def getS_def liftS_def split: prod.splits)
qed

lemma invoke_reaches_peer:
  fixes env :: "'w peer_env"
  assumes "invoke_peer env q s = (r, s')" "igs_world s' \<noteq> igs_world s"
  obtains d peer task requested s1 s2 where
    "ipr_tenant_ref (irq_principal q) = irq_tenant_ref q" "timeout_ok (irq_timeout q)"
    "digest_value (ige_runtime env) (message_contract_json (irq_message q)) = Inr d"
    "igs_ledger s1 = igs_ledger s" "igs_quota s1 = igs_quota s" "igs_registry s1 = igs_registry s"
    "ile_projections (igs_ledger s) (irq_operation_id q) = None"
    "open_invocation env q d (ige_clock env (igs_ticks s)) s1 = (Inr (peer, task, requested), s2)" "grows (igs_ledger s2) (igs_ledger s')"
proof -
  obtain r1 s1 where a: "admit_invocation env q s = (r1, s1)" by force
  note keep = admit_keeps [OF a]
  have none: "ile_projections (igs_ledger s) (irq_operation_id q) = None"
    using invoke_known [OF assms(1)] assms(2) by (cases "ile_projections (igs_ledger s) (irq_operation_id q)") blast+
  obtain now d where nd: "r1 = Inr (now, d)" using assms a keep(4) by (cases r1) (auto simp: invoke_peer_def bindS_def)
  have now: "now = ige_clock env (igs_ticks s)" using keep(5) [OF nd] by blast
  have start: "start_invocation env q d now s1 = (r, s')" using assms(1) a nd none keep(1) by (simp add: invoke_peer_def bindS_def getS_def)
  obtain r2 s2 where o: "open_invocation env q d now s1 = (r2, s2)" by force
  have world: "igs_world s2 = igs_world s1" by (rule same_world.keepingD [OF world_open o])
  obtain peer task requested where r2: "r2 = Inr (peer, task, requested)"
    using start o world assms(2) keep(4) by (cases r2) (auto simp: start_invocation_def bindS_def)
  let ?rest = "if irq_cancelled q then cancel_invocation env (irq_principal q) (irq_operation_id q) (irq_command_ref q @ ''-cancel'') (irq_timeout q)
     else run_invocation env q d peer task requested"
  have "?rest s2 = (r, s')" using start o r2 by (simp add: start_invocation_def bindS_def)
  moreover have "ledger_growth.keeping ?rest" by (intro ledger_growth.keeping_if growth_cancel growth_run)
  ultimately have "grows (igs_ledger s2) (igs_ledger s')" using ledger_growth.keepingD by blast
  with that [of d s1 peer task requested s2] keep nd none o r2 now show thesis by blast
qed

lemma open_records:
  assumes "append_interop rt (request_call q d policy td kd now p) l = (Inr f, l')" "ile_projections l (irq_operation_id q) = None"
  shows "ile_projections l' (irq_operation_id q) = Some p" "ile_facts l' (irq_operation_id q) = ile_facts l (irq_operation_id q) @ [f]"
    "ifact_fact_type f = Interop_INVOCATION_REQUESTED"
proof -
  have new: "ile_commands l (irq_command_ref q) = None"
  proof (rule ccontr)
    assume "ile_commands l (irq_command_ref q) \<noteq> None"
    with append_replayed [OF assms(1), of p] assms(2) show False by (simp add: request_call_def)
  qed
  with append_known_projection [OF assms(1)] show "ile_projections l' (irq_operation_id q) = Some p"
    "ile_facts l' (irq_operation_id q) = ile_facts l (irq_operation_id q) @ [f]" "ifact_fact_type f = Interop_INVOCATION_REQUESTED"
    by (simp_all add: request_call_def)
qed

section \<open>A cancellation that is repeated\<close>

lemma append_replay_keeps:
  assumes "append_interop rt a l = (r, l')" "ile_commands l (ica_command_ref a) \<noteq> None"
  shows "l' = l"
  using assms(1) by (cases rule: append_interop_cases) (use assms(2) in auto)

lemma append_wrong_version:
  assumes "append_interop rt a l = (r, l')" "ica_projection a = Some p" "ile_projections l (ica_operation_id a) = Some c"
    and "iproj_version p \<noteq> Suc (iproj_version c)"
  shows "l' = l \<and> (\<exists>e. r = Inl e)"
proof -
  have stale: "\<not> projection_current l a" using assms(2-4) by (simp add: projection_current_def)
  have "l' = l" using assms(1) by (cases rule: append_interop_cases) (use stale in auto)
  moreover have "r \<noteq> Inr f" for f
    using append_known_projection [of rt a l f l' p] append_replayed [of rt a l f l' p] assms(1,2,3,4) stale
    by (auto simp: append_interop_def split: sum.splits option.splits if_splits)
  ultimately show ?thesis by (cases r) auto
qed

lemma append_invocation_eq:
  "append_invocation env x ty c who peer payload t p s =
    (let (r, l) = append_interop (ige_runtime env) \<lparr>ica_operation_id = x, ica_fact_type = ty, ica_command_ref = c, ica_actor_ref = ipr_principal_ref who,
        ica_peer_id = peer, ica_payload = payload, ica_recorded_at = t, ica_projection = Some p\<rparr> (igs_ledger s) in (r, s\<lparr>igs_ledger := l\<rparr>))"
  by (simp add: append_invocation_def on_interop_ledger_def zoomS_def)

lemma append_invocation_stale:
  assumes "append_invocation env x ty c who peer payload t p s = (r, s')" "ile_projections (igs_ledger s) x = Some current"
    and "iproj_version p \<noteq> Suc (iproj_version current)"
  shows "igs_ledger s' = igs_ledger s \<and> (\<exists>e. r = Inl e)"
  using assms append_wrong_version by (auto simp: append_invocation_eq Let_def split: prod.splits)

lemma append_invocation_replay:
  assumes "append_invocation env x ty c who peer payload t p s = (r, s')" "ile_commands (igs_ledger s) c \<noteq> None"
  shows "s' = s"
  using assms append_replay_keeps by (fastforce simp: append_invocation_eq Let_def split: prod.splits)

text \<open>Without the projection of the request, the confirmation has a version that is one too high.\<close>

lemma confirm_stale:
  assumes "confirm_cancel env who x c timeout peer p now s = (r, s')" "ile_projections (igs_ledger s) x = Some current"
    and "iproj_version p = Suc (iproj_version current)"
  shows "igs_ledger s' = igs_ledger s \<and> (\<exists>e. r = Inl e)"
proof -
  obtain v where v: "task_from_projection (ige_runtime env) p who x now = v" by blast
  show ?thesis
  proof (cases v)
    case (Inl e)
    with assms(1) v show ?thesis by (auto simp: confirm_cancel_def bindS_def liftS_def)
  next
    case (Inr task)
    obtain w u where w: "ige_cancel env peer task timeout (igs_world s) = (w, u)" by force
    show ?thesis
    proof (cases w)
      case (Inl e)
      with assms(1) v \<open>v = Inr task\<close> w show ?thesis by (auto simp: confirm_cancel_def op_defs on_transport_def)
    next
      case (Inr status)
      let ?s = "s\<lparr>igs_world := u, igs_ticks := Suc (igs_ticks s)\<rparr>" and ?t = "ige_clock env (igs_ticks s)"
      let ?p = "p\<lparr>iproj_state := Invoke_CANCELLED, iproj_version := iproj_version p + 1, iproj_updated_at := ?t\<rparr>"
      obtain r1 s1 where r1: "append_invocation env x Interop_TASK_CANCELLED (c @ ''-confirmed'') who (iproj_peer_id p)
        [(''status_digest'', JStr (istat_status_digest status))] ?t ?p ?s = (r1, s1)" by force
      have "igs_ledger s1 = igs_ledger s \<and> (\<exists>e. r1 = Inl e)"
        using append_invocation_stale [OF r1, of current] assms(2,3) by simp
      with assms(1) v \<open>v = Inr task\<close> w Inr r1 show ?thesis
        by (auto simp: confirm_cancel_def op_defs on_transport_def gateway_now_def split: if_splits)
    qed
  qed
qed

lemma cancel_replayed:
  assumes "cancel_invocation env who x c timeout s = (r, s')" "ile_commands (igs_ledger s) c \<noteq> None"
  shows "igs_ledger s' = igs_ledger s \<and> (\<exists>e. r = Inl e)"
proof (cases "ile_projections (igs_ledger s) x")
  case None
  with assms(1) show ?thesis by (auto simp: cancel_invocation_def op_defs)
next
  case (Some current)
  let ?t = "ige_clock env (igs_ticks s)" and ?s = "s\<lparr>igs_ticks := Suc (igs_ticks s)\<rparr>"
  show ?thesis
  proof (cases "iproj_tenant_ref current = ipr_tenant_ref who \<and>
      iproj_state current \<notin> {Invoke_SUCCEEDED, Invoke_FAILED, Invoke_CANCELLED, Invoke_RECONCILED, Invoke_QUARANTINED}")
    case False
    with assms(1) Some show ?thesis by (auto simp: cancel_invocation_def op_defs split: if_splits)
  next
    case gate: True
    show ?thesis
    proof (cases "current_trust (igs_registry s) (iproj_peer_id current)")
      case None
      with assms(1) Some gate show ?thesis by (auto simp: cancel_invocation_def op_defs gateway_now_def)
    next
      case peer: (Some peer)
      obtain r1 s1 where r1: "append_invocation env x Interop_TASK_CANCEL_REQUESTED c who (iproj_peer_id current)
        [(''fence_token'', JStr (iproj_fence_token current)), (''request_digest'', JStr (iproj_request_digest current))] ?t (cancel_requested current ?t) ?s = (r1, s1)"
        by force
      have s1: "s1 = ?s" using append_invocation_replay [OF r1] assms(2) by simp
      have rest: "cancel_invocation env who x c timeout s =
        (case r1 of Inl e \<Rightarrow> (Inl e, s1) | Inr _ \<Rightarrow> confirm_cancel env who x c timeout peer (cancel_requested current ?t) ?t s1)"
        using Some gate peer r1 by (simp add: cancel_invocation_def bindS_def getS_def requireS_def gateway_now_def split: sum.splits)
      show ?thesis
      proof (cases r1)
        case (Inl e)
        with rest assms(1) s1 show ?thesis by auto
      next
        case (Inr f)
        with rest assms(1) have "confirm_cancel env who x c timeout peer (cancel_requested current ?t) ?t s1 = (r, s')" by simp
        from confirm_stale [OF this, of current] Some s1 show ?thesis by (simp add: cancel_requested_def)
      qed
    qed
  qed
qed

end
