(* ===== verification/Interop_Properties.thy ===== *)
theory Interop_Properties
  imports Interop_Contract Remediation_Sample
begin

text \<open>
  Properties of the interoperability controls: what a peer call has passed, that an operation reaches its peer once, how trust becomes
  active, the books of the gateway over any history, and the retry of a cancellation; first the concrete inputs of
  their witnesses.
\<close>

section \<open>A sample peer\<close>

text \<open>A peer that is registered and reviewed, a request, and a transport that notes the tasks it was sent and then times out. The world is
  the list of these tasks.\<close>

definition interop_peer :: trust_entry where
  "interop_peer = \<lparr>itr_peer_id = ''peer-1'', itr_protocol = Protocol_MCP, itr_owner_ref = ''owner-1'', itr_environment = Peer_test,
     itr_trust_tier = Trust_PARTNER, itr_status = Peer_PENDING_REVIEW, itr_revision = 1, itr_expires_at = 9000, itr_review_after = 8000,
     itr_card_digest = None, itr_schema_digest = zero_hash, itr_certificate_digest = None, itr_key_digest = None,
     itr_allowed_classifications = [Protocol_INTERNAL], itr_allowed_risks = [LOW], itr_allowed_capabilities = [''lookup''],
     itr_allowed_transports = [Transport_STDIO], itr_egress_origins = [], itr_maximum_request_bytes = 4096, itr_maximum_response_bytes = 4096,
     itr_maximum_requests_per_minute = 10, itr_maximum_cost_units_per_hour = 10, itr_change_digest = zero_hash, itr_reviewed_by = [],
     itr_reviewed_at = None\<rparr>"

definition interop_who :: principal_contract where
  "interop_who = \<lparr>ipr_principal_ref = ''alice'', ipr_kind = Principal_human, ipr_issuer_digest = zero_hash, ipr_audience = ''aegis'',
     ipr_scopes = [''lookup''], ipr_tenant_ref = ''acme'', ipr_purpose = ''triage'', ipr_proof_digest = zero_hash, ipr_authenticated_at = 10,
     ipr_expires_at = 9000\<rparr>"

definition interop_capability :: capability_contract where
  "interop_capability = \<lparr>icap_capability_id = ''lookup'', icap_protocol = Protocol_MCP, icap_operation = Capability_READ,
     icap_resource_kind = ''ticket'', icap_risk = LOW, icap_input_schema_digest = zero_hash, icap_output_schema_digest = zero_hash,
     icap_maximum_input_bytes = 4096, icap_maximum_output_bytes = 4096\<rparr>"

definition interop_message :: message_contract where
  "interop_message = \<lparr>imsg_message_id = ''msg-1'', imsg_from_agent = True,
     imsg_parts = [\<lparr>ipart_part_id = ''part-1'', ipart_kind = Part_text, ipart_media_type = ''text/plain'', ipart_text = Some ''disk is full'',
       ipart_data = None, ipart_resource_ref = None, ipart_content_digest = zero_hash, ipart_redacted = True\<rparr>],
     imsg_citations = [], imsg_created_at = 60\<rparr>"

definition interop_policy :: policy_contract where
  "interop_policy = \<lparr>ipol_policy_id = ''policy-1'', ipol_revision = 1, ipol_allow = True, ipol_capability_id = ''lookup'',
     ipol_principal_ref = ''alice'', ipol_peer_id = ''peer-1'', ipol_purpose = ''triage'', ipol_risk = LOW, ipol_maximum_cost_units = 3,
     ipol_reason_code = ''allowed'', ipol_policy_digest = zero_hash\<rparr>"

definition interop_request :: invocation_request where
  "interop_request = \<lparr>irq_principal = interop_who, irq_capability = interop_capability, irq_peer_id = ''peer-1'', irq_message = interop_message,
     irq_operation_id = ''op-1'', irq_command_ref = ''cmd-1'', irq_idempotency_key = ''key-1'', irq_tenant_ref = ''acme'',
     irq_classification = Protocol_INTERNAL, irq_cost_units = 5, irq_timeout = PyFloat 10 0, irq_cancelled = False\<rparr>"

subsection \<open>States\<close>

definition interop_env :: "string list peer_env" where
  "interop_env = \<lparr>ige_runtime = zero_rt, ige_clock = (\<lambda>n. 100 + n), ige_monotonic = (\<lambda>n. n), ige_authorize = (\<lambda>_ _ _ _. Inr interop_policy),
     ige_invoke = (\<lambda>_ task _ _ w. (Inl (TimeoutError ''no answer''), w @ [itask_task_id task])),
     ige_reconcile = (\<lambda>_ _ _ w. (Inl (TimeoutError ''no answer''), w)), ige_cancel = (\<lambda>_ _ _ w. (Inl (ConnectionError ''peer is offline''), w))\<rparr>"

definition interop_quota :: invocation_quota where
  "interop_quota = \<lparr>inq_request_limit = 3, inq_cost_limit = 10, inq_usage = Map.empty, inq_reservations = Map.empty\<rparr>"

definition interop_circuit :: circuit_breaker where
  "interop_circuit = \<lparr>icb_failure_threshold = 3, icb_cooldown = 30000000, icb_failures = (\<lambda>_. 0), icb_opened_at = Map.empty, icb_ticks = 0\<rparr>"

definition interop_registry :: trust_registry where
  "interop_registry = snd (review_peer zero_rt ''peer-1'' 1 ''reviewer-1'' 50 ''TRUST peer-1'' (snd (register_peer interop_peer empty_registry)))"

definition interop_empty :: "string list peer_state" where
  "interop_empty = \<lparr>igs_registry = empty_registry, igs_ledger = empty_interop_ledger, igs_quota = interop_quota, igs_circuit = interop_circuit,
     igs_ticks = 0, igs_world = []\<rparr>"

definition interop_ready :: "string list peer_state" where
  "interop_ready = interop_empty\<lparr>igs_registry := interop_registry\<rparr>"

definition interop_invoked :: "string list peer_state" where
  "interop_invoked = snd (invoke_peer interop_env interop_request interop_ready)"

definition interop_cancelling :: "string list peer_state" where
  "interop_cancelling = snd (cancel_invocation interop_env interop_who ''op-1'' ''stop-1'' (PyFloat 10 0) interop_invoked)"

text \<open>The invocation that times out, then the cancellation that fails at the transport, in one evaluation.\<close>

definition interop_trace :: "string list \<times> bool" where
  "interop_trace =
     (case invoke_peer interop_env interop_request interop_ready of (_, s1) \<Rightarrow>
        (case cancel_invocation interop_env interop_who ''op-1'' ''stop-1'' (PyFloat 10 0) s1 of (_, s2) \<Rightarrow>
           (igs_world s1, ile_commands (igs_ledger s2) ''stop-1'' \<noteq> None)))"

lemma interop_trace_value: "interop_trace = ([''interop-task-op-1''], True)"
  by code_simp

lemma interop_invoked_world: "igs_world interop_invoked = [''interop-task-op-1'']"
  and interop_cancelling_command: "ile_commands (igs_ledger interop_cancelling) ''stop-1'' \<noteq> None"
  using interop_trace_value by (simp_all only: interop_trace_def interop_invoked_def interop_cancelling_def case_prod_beta prod.inject simp_thms)

lemma interop_ready_world: "igs_world interop_ready = []"
  by (simp add: interop_ready_def interop_empty_def)

lemma interop_invoke: "\<exists>r. invoke_peer interop_env interop_request interop_ready = (r, interop_invoked)"
  by (metis interop_invoked_def prod.collapse)

lemma interop_cancel: "gateway_step interop_env interop_invoked interop_cancelling"
  unfolding interop_cancelling_def
  by (rule step_cancel [of interop_env interop_who "''op-1''" "''stop-1''" "PyFloat 10 0" interop_invoked
      "fst (cancel_invocation interop_env interop_who ''op-1'' ''stop-1'' (PyFloat 10 0) interop_invoked)"]) simp

lemma interop_request_simps:
  "irq_operation_id interop_request = ''op-1''" "irq_peer_id interop_request = ''peer-1''" "irq_principal interop_request = interop_who"
  "irq_capability interop_request = interop_capability" "icap_capability_id interop_capability = ''lookup''"
  "irq_message interop_request = interop_message"
  by (simp_all add: interop_request_def interop_capability_def)

lemma interop_ready_simps: "igs_registry interop_ready = interop_registry" "ile_facts (igs_ledger interop_ready) x = []"
  by (simp_all add: interop_ready_def interop_empty_def empty_interop_ledger_def)

lemma interop_empty_simps:
  "igs_ledger interop_empty = empty_interop_ledger" "igs_registry interop_empty = empty_registry"
  "make_invocation_quota 3 10 = Inr (igs_quota interop_empty)"
  by (simp_all add: interop_empty_def make_invocation_quota_def interop_quota_def)

subsection \<open>History of the peer\<close>

lemma interop_change_digest: "digest_value zero_rt (change_document interop_peer Peer_ACTIVE ''reviewer-1'') = Inr zero_hash"
  by code_simp

lemma interop_reviewed:
  "trust_entries interop_registry ''peer-1'' = [interop_peer, reviewed_entry interop_peer Peer_ACTIVE ''reviewer-1'' 50 zero_hash]"
proof -
  let ?reg = "add_entry ''peer-1'' interop_peer empty_registry"
  have reg: "register_peer interop_peer empty_registry = (Inr interop_peer, ?reg)"
    by (simp add: register_peer_def current_trust_def trust_entries_def empty_registry_def get_default_def interop_peer_def)
  have entries: "trust_entries ?reg ''peer-1'' = [interop_peer]" by (simp add: add_entry_def trust_entries_def empty_registry_def get_default_def)
  then have "current_trust ?reg ''peer-1'' = Some interop_peer" by (simp add: current_trust_def)
  moreover have "itr_revision interop_peer = 1" "itr_status interop_peer = Peer_PENDING_REVIEW" by (simp_all add: interop_peer_def)
  ultimately have "snd (review_peer zero_rt ''peer-1'' 1 ''reviewer-1'' 50 ''TRUST peer-1'' ?reg) =
      add_entry ''peer-1'' (reviewed_entry interop_peer Peer_ACTIVE ''reviewer-1'' 50 zero_hash) ?reg"
    using interop_change_digest by (simp add: review_peer_def transition_peer_def)
  with reg entries show ?thesis by (simp add: interop_registry_def)
qed

lemma interop_history: "\<exists>reg. trust_step zero_rt empty_registry reg \<and> trust_step zero_rt reg interop_registry"
proof (intro exI conjI)
  let ?reg = "snd (register_peer interop_peer empty_registry)"
  show "trust_step zero_rt empty_registry ?reg" by (rule step_register [of interop_peer _ "fst (register_peer interop_peer empty_registry)"]) simp
  show "trust_step zero_rt ?reg interop_registry"
    unfolding interop_registry_def review_peer_def
    by (rule step_transition [of zero_rt "''peer-1''" 1 50 Peer_ACTIVE "''reviewer-1''" "''TRUST peer-1''" "''TRUST '' @ ''peer-1''" _
        "fst (transition_peer zero_rt ''peer-1'' 1 50 Peer_ACTIVE ''reviewer-1'' ''TRUST peer-1'' (''TRUST '' @ ''peer-1'') ?reg)"]) simp
qed

lemma interop_reachable_registry: "trust_reachable zero_rt interop_registry"
  using interop_history unfolding trust_reachable_def by (meson converse_rtranclp_into_rtranclp rtranclp.rtrancl_refl)

lemma interop_env_runtime [simp]: "ige_runtime interop_env = zero_rt"
  by (simp add: interop_env_def)

lemma interop_gateway_history: "(gateway_step interop_env)\<^sup>*\<^sup>* interop_empty interop_invoked"
proof -
  from interop_history obtain reg where reg: "trust_step zero_rt empty_registry reg" "trust_step zero_rt reg interop_registry" by blast
  have "gateway_step interop_env interop_empty (interop_empty\<lparr>igs_registry := reg\<rparr>)"
    using reg(1) by (intro step_trust) (simp add: interop_empty_simps)
  moreover have "gateway_step interop_env (interop_empty\<lparr>igs_registry := reg\<rparr>) interop_ready"
    using step_trust [of interop_env "interop_empty\<lparr>igs_registry := reg\<rparr>" interop_registry] reg(2) by (simp add: interop_ready_def)
  moreover have "gateway_step interop_env interop_ready interop_invoked"
    using interop_invoke step_invoke by blast
  ultimately show ?thesis by (meson converse_rtranclp_into_rtranclp rtranclp.rtrancl_refl)
qed

section \<open>Invocations\<close>

lemma known_after_open:
  assumes "open_invocation env q d now s = (Inr (peer, task, requested), s')" "ile_projections (igs_ledger s) (irq_operation_id q) = None"
  shows "ile_projections (igs_ledger s') (irq_operation_id q) = Some requested"
    "\<exists>f. ile_facts (igs_ledger s') (irq_operation_id q) = ile_facts (igs_ledger s) (irq_operation_id q) @ [f] \<and> ifact_fact_type f = Interop_INVOCATION_REQUESTED"
    "inq_reservations (igs_quota s') (''interop-reservation-'' @ irq_operation_id q) = Some (irq_tenant_ref q, nat (irq_cost_units q))"
proof -
  obtain policy quota td kd l f where
    reserved: "reserve_invocation (irq_tenant_ref q) (''interop-reservation-'' @ irq_operation_id q) (irq_cost_units q) (igs_quota s) = (Inr (), quota)"
    and added: "append_interop (ige_runtime env) (request_call q d policy td kd now requested) (igs_ledger s) = (Inr f, l)"
    and s': "s' = s\<lparr>igs_quota := quota, igs_ledger := l\<rparr>"
    using assms(1) by (rule open_Inr)
  note rec = open_records [OF added assms(2)]
  show "ile_projections (igs_ledger s') (irq_operation_id q) = Some requested" using rec(1) s' by simp
  show "\<exists>f. ile_facts (igs_ledger s') (irq_operation_id q) = ile_facts (igs_ledger s) (irq_operation_id q) @ [f] \<and> ifact_fact_type f = Interop_INVOCATION_REQUESTED"
    using rec(2,3) s' by simp
  show "inq_reservations (igs_quota s') (''interop-reservation-'' @ irq_operation_id q) = Some (irq_tenant_ref q, nat (irq_cost_units q))"
    using reserve_Inr [OF reserved] s' by simp
qed

text \<open>C23. When a call of \<^verbatim>\<open>invoke\<close> acts on the outside world, the caller's tenant is that of the invocation, the timeout is within its bound, the
  operation was unknown, the current trust entry of the peer is active, unexpired and allows the protocol, capability, risk and
  classification, the policy port allowed exactly this message digest, and the request is recorded in the ledger as the
  next fact of the operation.\<close>

theorem invocation_behind_controls:
  assumes "invoke_peer env q s = (r, s')" "igs_world s' \<noteq> igs_world s"
  shows "\<exists>peer policy digest f rest. ipr_tenant_ref (irq_principal q) = irq_tenant_ref q \<and> timeout_ok (irq_timeout q) \<and>
    ile_projections (igs_ledger s) (irq_operation_id q) = None \<and>
    current_trust (igs_registry s) (irq_peer_id q) = Some peer \<and> itr_status peer = Peer_ACTIVE \<and>
    ige_clock env (igs_ticks s) < itr_expires_at peer \<and> ige_clock env (igs_ticks s) < itr_review_after peer \<and>
    itr_protocol peer = icap_protocol (irq_capability q) \<and> icap_capability_id (irq_capability q) \<in> set (itr_allowed_capabilities peer) \<and>
    icap_risk (irq_capability q) \<in> set (itr_allowed_risks peer) \<and> irq_classification q \<in> set (itr_allowed_classifications peer) \<and>
    digest_value (ige_runtime env) (message_contract_json (irq_message q)) = Inr digest \<and>
    ige_authorize env (irq_principal q) peer (irq_capability q) digest = Inr policy \<and> ipol_allow policy \<and>
    ile_facts (igs_ledger s') (irq_operation_id q) = ile_facts (igs_ledger s) (irq_operation_id q) @ f # rest \<and>
    ifact_fact_type f = Interop_INVOCATION_REQUESTED"
  using assms
proof (rule invoke_reaches_peer)
  fix d peer task requested s1 s2
  assume gate: "ipr_tenant_ref (irq_principal q) = irq_tenant_ref q" "timeout_ok (irq_timeout q)"
    "digest_value (ige_runtime env) (message_contract_json (irq_message q)) = Inr d"
    and same: "igs_ledger s1 = igs_ledger s" "igs_registry s1 = igs_registry s"
    and new: "ile_projections (igs_ledger s) (irq_operation_id q) = None"
    and opened: "open_invocation env q d (ige_clock env (igs_ticks s)) s1 = (Inr (peer, task, requested), s2)"
    and later: "grows (igs_ledger s2) (igs_ledger s')"
  obtain f where f: "ile_facts (igs_ledger s2) (irq_operation_id q) = ile_facts (igs_ledger s) (irq_operation_id q) @ [f]"
      "ifact_fact_type f = Interop_INVOCATION_REQUESTED"
    using known_after_open(2) [OF opened] new same by auto
  moreover have "prefix (ile_facts (igs_ledger s2) (irq_operation_id q)) (ile_facts (igs_ledger s') (irq_operation_id q))"
    using later by (simp add: grows_def)
  ultimately obtain rest where rest: "ile_facts (igs_ledger s') (irq_operation_id q) = ile_facts (igs_ledger s) (irq_operation_id q) @ f # rest"
    by (auto simp: prefix_def)
  from opened show ?thesis
  proof (rule open_Inr)
    fix policy
    assume "require_active (igs_registry s1) (irq_peer_id q) (icap_protocol (irq_capability q)) (icap_capability_id (irq_capability q))
       (icap_risk (irq_capability q)) (irq_classification q) (ige_clock env (igs_ticks s)) = Inr peer"
      and "ige_authorize env (irq_principal q) peer (irq_capability q) d = Inr policy" "ipol_allow policy"
    with require_active_Inr [of "igs_registry s1"] gate new rest f(2) same(2) show ?thesis by metis
  qed
qed

theorem invocation_behind_controls_witness:
  "\<exists>peer policy digest f rest. current_trust interop_registry ''peer-1'' = Some peer \<and> itr_status peer = Peer_ACTIVE \<and>
    ''lookup'' \<in> set (itr_allowed_capabilities peer) \<and> digest_value zero_rt (message_contract_json interop_message) = Inr digest \<and>
    ige_authorize interop_env interop_who peer interop_capability digest = Inr policy \<and> ipol_allow policy \<and>
    ile_facts (igs_ledger interop_invoked) ''op-1'' = f # rest \<and> ifact_fact_type f = Interop_INVOCATION_REQUESTED"
proof -
  obtain r where call: "invoke_peer interop_env interop_request interop_ready = (r, interop_invoked)" using interop_invoke by blast
  from invocation_behind_controls [OF call] show ?thesis
    by (simp add: interop_invoked_world interop_ready_world interop_request_simps interop_ready_simps) blast
qed

text \<open>C22. An operation reaches its peer at most once: after a call of \<^verbatim>\<open>invoke\<close> acted on the outside world, in every later state, whatever
  calls of the gateway and changes of trust came between, another \<^verbatim>\<open>invoke\<close> of the operation acts on nothing, records nothing
  and reserves nothing.\<close>

theorem peer_called_once:
  assumes "invoke_peer env q s = (r, s1)" "igs_world s1 \<noteq> igs_world s" "(gateway_step env)\<^sup>*\<^sup>* s1 s2"
    and "irq_operation_id q' = irq_operation_id q" "invoke_peer env q' s2 = (r', s3)"
  shows "igs_world s3 = igs_world s2 \<and> igs_ledger s3 = igs_ledger s2 \<and> igs_quota s3 = igs_quota s2"
proof -
  have "irq_operation_id q \<in> dom (ile_projections (igs_ledger s1))"
    using assms(1,2)
  proof (rule invoke_reaches_peer)
    fix d peer task requested s0 s0'
    assume new: "igs_ledger s0 = igs_ledger s" "ile_projections (igs_ledger s) (irq_operation_id q) = None"
      and opened: "open_invocation env q d (ige_clock env (igs_ticks s)) s0 = (Inr (peer, task, requested), s0')"
      and later: "grows (igs_ledger s0') (igs_ledger s1)"
    have "irq_operation_id q \<in> dom (ile_projections (igs_ledger s0'))" using known_after_open(1) [OF opened] new by (simp add: domIff)
    with later show ?thesis unfolding grows_def by blast
  qed
  with gateway_steps_grow [OF assms(3)] obtain p where "ile_projections (igs_ledger s2) (irq_operation_id q') = Some p"
    unfolding grows_def assms(4) by blast
  with invoke_known [OF assms(5)] show ?thesis by blast
qed

theorem peer_called_once_witness:
  "\<exists>r s. invoke_peer interop_env (interop_request\<lparr>irq_command_ref := ''cmd-2''\<rparr>) interop_cancelling = (r, s) \<and>
    igs_world s = igs_world interop_cancelling \<and> igs_ledger s = igs_ledger interop_cancelling \<and> igs_quota s = igs_quota interop_cancelling"
proof -
  let ?q = "interop_request\<lparr>irq_command_ref := ''cmd-2''\<rparr>"
  obtain r where call: "invoke_peer interop_env interop_request interop_ready = (r, interop_invoked)" using interop_invoke by blast
  obtain r' s where again: "invoke_peer interop_env ?q interop_cancelling = (r', s)" by force
  have "(gateway_step interop_env)\<^sup>*\<^sup>* interop_invoked interop_cancelling" using interop_cancel by (intro r_into_rtranclp)
  from peer_called_once [OF call _ this _ again] again show ?thesis by (simp add: interop_invoked_world interop_ready_world)
qed

section \<open>Trust and books\<close>

lemma active_follows:
  assumes "trust_follows c e" "itr_status e = Peer_ACTIVE"
  shows "itr_status c = Peer_PENDING_REVIEW \<and> (\<exists>reviewer now d. e = reviewed_entry c Peer_ACTIVE reviewer now d)"
proof -
  from assms obtain target reviewer now d where e: "e = reviewed_entry c target reviewer now d" "target = Peer_ACTIVE \<longrightarrow> itr_status c = Peer_PENDING_REVIEW"
    unfolding trust_follows_def by auto
  then have "target = Peer_ACTIVE" using assms(2) by (simp add: reviewed_entry_def)
  with e show ?thesis by blast
qed

lemma terminal_follows:
  assumes "trust_follows c e" "itr_status c \<in> {Peer_REVOKED, Peer_EMERGENCY_DISABLED}"
  shows "itr_status e = Peer_PENDING_REVIEW"
  using assms unfolding trust_follows_def by (cases "itr_status c") auto

text \<open>C25. In every registry that calls of \<open>TrustRegistry\<close> can reach, the entries of a peer have the revisions 1, 2, 3 and so on; an active
  entry is never the first and is the reviewed copy of the pending entry before it, with the same scope, and what follows a
  revoked or disabled entry is a new entry that awaits review.\<close>

theorem trust_activation_reviewed:
  assumes "trust_reachable rt reg" "i < length (trust_entries reg p)"
  shows "itr_revision (trust_entries reg p ! i) = i + 1 \<and>
    (itr_status (trust_entries reg p ! i) = Peer_ACTIVE \<longrightarrow>
      0 < i \<and> itr_status (trust_entries reg p ! (i - 1)) = Peer_PENDING_REVIEW \<and>
      (\<exists>reviewer now d. trust_entries reg p ! i = reviewed_entry (trust_entries reg p ! (i - 1)) Peer_ACTIVE reviewer now d)) \<and>
    (itr_status (trust_entries reg p ! i) \<in> {Peer_REVOKED, Peer_EMERGENCY_DISABLED} \<and> i + 1 < length (trust_entries reg p) \<longrightarrow>
      itr_status (trust_entries reg p ! (i + 1)) = Peer_PENDING_REVIEW)"
proof -
  let ?es = "trust_entries reg p"
  note ok = trust_reachable_ok [OF assms(1)]
  have step: "Suc j < length ?es \<Longrightarrow> trust_follows (?es ! j) (?es ! Suc j)" for j
    using ok by (intro trust_chain_nth) (simp_all add: registry_ok_def Let_def)
  have first: "itr_status (?es ! 0) = Peer_PENDING_REVIEW"
    using ok assms(2) by (cases ?es) (auto simp: registry_ok_def Let_def dest!: spec [of _ p])
  have "0 < i \<and> itr_status (?es ! (i - 1)) = Peer_PENDING_REVIEW \<and> (\<exists>reviewer now d. ?es ! i = reviewed_entry (?es ! (i - 1)) Peer_ACTIVE reviewer now d)"
    if active: "itr_status (?es ! i) = Peer_ACTIVE"
  proof (cases i)
    case (Suc j)
    with step [of j] assms(2) active active_follows show ?thesis by simp
  qed (use first active in simp)
  moreover have "itr_status (?es ! (i + 1)) = Peer_PENDING_REVIEW"
    if "itr_status (?es ! i) \<in> {Peer_REVOKED, Peer_EMERGENCY_DISABLED}" "i + 1 < length ?es"
    using step [of i] terminal_follows that by simp
  ultimately show ?thesis using registry_revisions [OF ok assms(2)] by auto
qed

theorem trust_activation_reviewed_witness:
  "itr_status (trust_entries interop_registry ''peer-1'' ! 1) = Peer_ACTIVE \<and> itr_revision (trust_entries interop_registry ''peer-1'' ! 1) = 2 \<and>
   itr_status (trust_entries interop_registry ''peer-1'' ! 0) = Peer_PENDING_REVIEW"
proof -
  have "itr_status (trust_entries interop_registry ''peer-1'' ! 1) = Peer_ACTIVE" by (simp add: interop_reviewed reviewed_entry_def)
  with trust_activation_reviewed [OF interop_reachable_registry, of 1 "''peer-1''"] show ?thesis by (simp add: interop_reviewed)
qed

text \<open>C24. From empty books, after any sequence of calls of the gateway and changes of trust: the facts of every operation verify, are at most
  128 and well formed; the usage of every tenant is exactly the number and the cost of its reservations and within the limits.\<close>

theorem gateway_books_exact:
  assumes "igs_ledger s = empty_interop_ledger" "igs_registry s = empty_registry" "make_invocation_quota n m = Inr (igs_quota s)"
    and "(gateway_step env)\<^sup>*\<^sup>* s s'"
  shows "verify_interop (ige_runtime env) (igs_ledger s') x = Inr True \<and> length (ile_facts (igs_ledger s') x) \<le> 128 \<and>
    list_all valid_interop_fact (ile_facts (igs_ledger s') x) \<and>
    fst (quota_usage (igs_quota s') t) = card {r. \<exists>c. inq_reservations (igs_quota s') r = Some (t, c)} \<and>
    snd (quota_usage (igs_quota s') t) = (\<Sum>r | \<exists>c. inq_reservations (igs_quota s') r = Some (t, c). snd (the (inq_reservations (igs_quota s') r))) \<and>
    fst (quota_usage (igs_quota s') t) \<le> inq_request_limit (igs_quota s') \<and> snd (quota_usage (igs_quota s') t) \<le> inq_cost_limit (igs_quota s')"
proof -
  have "gateway_ok env s"
    using assms(1-3) empty_interop_ok empty_registry_ok new_quota_exact by (simp add: gateway_ok_def)
  then have ok: "gateway_ok env s'" by (rule gateway_steps_ok [OF assms(4)])
  then have "quota_exact (igs_quota s')" "interop_ok (ige_runtime env) (igs_ledger s')" by (simp_all add: gateway_ok_def)
  then show ?thesis unfolding quota_exact_def interop_ok_def held_by_def by blast
qed

theorem gateway_books_exact_witness:
  "verify_interop zero_rt (igs_ledger interop_invoked) ''op-1'' = Inr True \<and> length (ile_facts (igs_ledger interop_invoked) ''op-1'') \<le> 128 \<and>
   snd (quota_usage (igs_quota interop_invoked) ''acme'') \<le> inq_cost_limit (igs_quota interop_invoked)"
  using gateway_books_exact [OF interop_empty_simps interop_gateway_history, of "''op-1''" "''acme''"] by simp

section \<open>Retry of a cancellation\<close>

text \<open>C26. A \<^verbatim>\<open>cancel\<close> whose command is recorded already, as after a first attempt that failed at the transport, raises whatever the
  peer answers, and records nothing: the cancellation cannot be completed under its command.\<close>

theorem cancel_retry_refused:
  assumes "ile_commands (igs_ledger s) command \<noteq> None"
  shows "\<exists>e s'. cancel_invocation env who operation_id command timeout s = (Inl e, s') \<and> igs_ledger s' = igs_ledger s"
proof -
  obtain r s' where call: "cancel_invocation env who operation_id command timeout s = (r, s')" by force
  with cancel_replayed [OF call assms] show ?thesis by blast
qed

theorem cancel_retry_refused_witness:
  "\<exists>e s. cancel_invocation interop_env interop_who ''op-1'' ''stop-1'' (PyFloat 10 0) interop_cancelling = (Inl e, s) \<and>
    igs_ledger s = igs_ledger interop_cancelling"
  using cancel_retry_refused [of interop_cancelling "''stop-1''" interop_env interop_who "''op-1''" "PyFloat 10 0"] interop_cancelling_command by blast

end
