(* ===== verification/Spec2Isabelle.thy ===== *)
theory Spec2Isabelle
  imports Outbox_Properties Run_Integrity Effect_Properties Replay_Properties Model_Properties Sandbox_Properties Memory_Properties
    Interop_Properties
begin

text \<open>
  A verification of the control plane of the Aegis framework (\<^verbatim>\<open>src/src/aegis_framework\<close>): the application ledger of
  investigation runs with its outbox, queries and replay, the remediation controls, the model gateway, the sandbox
  controls, the memory lifecycle and the interoperability controls, each in its deterministic in-memory reference implementation.

  \<^bold>\<open>How the parts interact.\<close> Every service takes a caller's identity and asks the deny-by-default authorization
  (\<^verbatim>\<open>authorization.py\<close>) before it acts. Investigation requests are accepted into the event ledger (\<^verbatim>\<open>durability.py\<close>),
  which writes events, projection, inbox, outbox and idempotency entries in one step; the outbox is claimed by workers; the queries and
  the replay debugger (\<^verbatim>\<open>replay.py\<close>) read the same events. Remediation plans (\<^verbatim>\<open>remediation.py\<close>) are proposed, approved
  by humans and executed through a provider port behind claims and a quota; every step is a fact of a second ledger. Model calls
  (\<^verbatim>\<open>model_gateway.py\<close>) are admitted, reserved, sent and settled against a control store. Sandbox executions (\<^verbatim>\<open>sandbox.py\<close>)
  are requested against a policy and a remediation approval and recorded in a third ledger. Accepted evidence becomes memory
  (\<^verbatim>\<open>memory.py\<close>): facts of a fourth ledger, chunks in a derived index, and a framed context for model calls; legal holds gate its erasure. Calls
  of external peers (\<^verbatim>\<open>interoperability.py\<close>) pass trust registry, policy, quota and circuit and are recorded in a fifth ledger before and after the transport acts.

  \<^bold>\<open>Modelling conventions.\<close> Python text is \<^typ>\<open>string\<close>, so the characters are the code points up to 255 (one or two bytes in UTF-8):
  what is said of byte lengths and token estimates is said of such texts. A
  datetime is its number of microseconds. An exception is a value of the datatype \<open>error\<close>, a fallible
  computation a value of \<open>result\<close>, a method that changes state a function of type \<open>op\<close> from a state to a result and
  the next state (theory \<open>Prelude\<close>); an exception does not undo the writes before it. A clock is a sequence of readings and a
  counter in the state. The SHA-256 and HMAC functions and the text of a float are fields of the parameter
  \<open>runtime\<close>; what the theorems use of them is stated as the hypotheses \<open>sha256_shape\<close> (64 hexadecimal characters) and
  \<open>float_repr_ok\<close> (distinct floats have distinct numeral texts), and statements about digests name the two colliding inputs
  where they cannot exclude a collision. Ports of the services (model providers, the action port, the approval lookup of the
  sandbox, the embedding port, the callback that erases a blob, the policy and transport of peer calls) are parameters.

  \<^bold>\<open>The shared layer.\<close>
  \<^item> \<open>Prelude\<close>: errors (\<^verbatim>\<open>errors.py\<close>), results and operations with weakest preconditions (\<open>wp\<close>), list and map lemmas, decimal text.
  \<^item> \<open>Json\<close>, \<open>Json_Reader\<close>, \<open>Base64\<close>, \<open>Py_Time\<close>: the library functions the code calls, with the injectivity of canonical JSON and the
    round trips of the reader and of base64.
  \<^item> \<open>Domain\<close>, \<open>Authorization\<close>: identifiers, identities and grants (\<^verbatim>\<open>domain.py\<close>), roles and policy evaluation.
  \<^item> \<open>Hash_Chain\<close>: a locale for logs in which each record carries the digest of the one before; equal heads and lengths give equal
    logs or a collision. Interpreted on the tenant logs, the remediation facts and the sandbox facts.
  \<^item> \<open>Fact_Ledger\<close>: a locale for append-only ledgers with command identifiers and projections; the projection is the replay of
    the facts and a command takes effect once. Interpreted on the remediation and the sandbox ledger.
  \<^item> \<open>State_Preorder\<close>: a locale for what operations keep of the state; a reflexive and transitive relation that every part of an operation
    respects is respected by the whole. Interpreted on the growth of the interoperability ledger, on the unchanged world, on the books of the gateway
    and on the histories of the memory ledger.
  \<^item> The locale \<open>unit_quota\<close> of \<open>Remediation_Stores\<close>: units reserved and units left add up to the limit. Interpreted on both quotas.

  \<^bold>\<open>The event ledger\<close> (\<^verbatim>\<open>durability.py\<close>, class \<open>InMemoryDurability\<close>).
  \<^item> \<open>Run_Projection\<close>, \<open>Projection_Machine\<close>: \<open>reduce_run\<close> and the run state machine. \<open>Ledger_Store\<close>: the state and \<open>append\<close>.
    \<open>Ledger_Commands\<close>: \<open>accept_run\<close>, \<open>record_transition\<close>, \<open>accept_signal\<close>, \<open>replay_legacy\<close>. \<open>Ledger_Integrity\<close>:
    verification and rebuild. \<open>Outbox\<close>: claims and deliveries.
  \<^item> \<open>Ledger_Invariant\<close>, \<open>Ledger_Contract\<close>, \<open>Ledger_Progress\<close>, \<open>Ledger_Tamper\<close>, \<open>Outbox_Contract\<close>: the invariant of reachable stores,
    what commands keep, when they succeed.
  \<^item> \<open>Ledger_Properties\<close>, \<open>Command_Properties\<close>, \<open>Outbox_Properties\<close>, \<open>Run_Integrity\<close>: verification of a tenant's log never finds a broken chain and
    answers whether all its events have schema version 1 (the code stores versions up to 1000 and verifies only the first), views are replays,
    forged logs need collisions, commands are atomic and idempotent and isolate tenants, claims are exclusive and fenced.
  \<^item> \<open>Cursor_Codec\<close>, \<open>Ledger_Queries\<close>, \<open>Investigation_Service\<close>, \<open>Query_Properties\<close>: cursor tokens, pages, artifacts, the timeline and
    \<open>DurableInvestigationService\<close>. \<open>Replay_Debugger\<close>, \<open>Replay_Properties\<close>: \<open>ReplayDebugger\<close> and its bounded report.

  \<^bold>\<open>Remediation\<close> (\<^verbatim>\<open>remediation.py\<close>).
  \<^item> \<open>Remediation_Data\<close>: contracts and digests. \<open>Remediation_Ledger\<close>: \<open>reduce_remediation\<close> and the ledger. \<open>Remediation_Stores\<close>: control
    store, claims, quota, policies. \<open>Remediation_Services\<close>: \<open>ApprovalService\<close>. \<open>Effect_Service\<close>: \<open>EffectService\<close>.
  \<^item> \<open>Remediation_Invariant\<close>, \<open>Remediation_Steps\<close>, \<open>Effect_Gates\<close>, \<open>Remediation_Progress\<close>: reachable service states, the gate before every provider
    call, and progress from proposal to provider. \<open>Remediation_Properties\<close>, \<open>Effect_Properties\<close>: what is executed was approved by a quorum of
    exact grants, closed plans are never touched, receipts are final.

  \<^bold>\<open>Model gateway\<close> (\<^verbatim>\<open>model_gateway.py\<close>). \<open>Model_Data\<close>, \<open>Model_Store\<close>, \<open>Model_Gateway\<close>: contracts, control store and \<open>ModelGateway.generate\<close> with
  policy, rate window, circuits, reservation, fallback and repair. \<open>Model_Accounting\<close>, \<open>Model_Call\<close>, \<open>Model_Reachable\<close>, \<open>Model_Progress\<close>: invariants of
  the books and what a call does. \<open>Model_Properties\<close>: budgets and rates are respected, only admitted providers are called, books are settled.

  \<^bold>\<open>Sandbox\<close> (\<^verbatim>\<open>sandbox.py\<close>). \<open>Sandbox_Text\<close>, \<open>Sandbox_Data\<close>: text checks, contracts and \<open>SandboxPolicy.authorize\<close>. \<open>Sandbox_Ledger\<close>,
  \<open>Sandbox_Service\<close>: facts, claims, quota and \<open>SandboxControlService.request\<close>. \<open>Sandbox_Contract\<close>, \<open>Sandbox_Progress\<close>: the ledger as a fact ledger and a
  hash chain, claims over time, every path of a request. \<open>Sandbox_Properties\<close>: the gate, confined paths, fenced attempts, acceptance.

  \<^bold>\<open>Memory\<close> (\<^verbatim>\<open>memory.py\<close>). \<open>Memory_Text\<close>, \<open>Memory_Data\<close>: canonical text, token estimate, frame and order of a context, contracts and digests.
  \<open>Memory_Ledger\<close>: \<open>reduce_memory\<close>, \<open>InMemoryMemoryLedger\<close> and the operation ledger. \<open>Memory_Index\<close>: chunker, items and cache of the index, eligibility,
  context builder. \<open>Memory_Service\<close>: every operation of \<open>MemoryLifecycleService\<close> (ingest, rebuild, erase, supersede, legal hold). \<open>Memory_Contract\<close>: histories of
  the ledger and their invariant; \<open>Memory_Progress\<close>, \<open>Memory_Erasure\<close>: appends that succeed or are replayed, erasure and holds; \<open>Memory_Chunks\<close>,
  \<open>Memory_Context\<close>: windows of a text and the choice of hits. \<open>Memory_Properties\<close>: projections are replays, the deletion flags are never cleared (the
  status field is not claimed to stay), erasure is behind the holds and completes, the retries of an interrupted erasure complete it when nothing was purged before the
  interruption and are refused otherwise, chunks are the windows of a text, contexts keep their budget.

  \<^bold>\<open>Interoperability\<close> (\<^verbatim>\<open>interoperability.py\<close>). \<open>Interop_Data\<close>: bounded JSON, digests, contracts and validators. \<open>Interop_Trust\<close>: \<open>TrustRegistry\<close> with the invariant of
  its histories, \<open>InMemoryReplayCache\<close> and \<open>WorkloadIdentityValidator\<close>. \<open>Interop_Ledger\<close>: \<open>InteroperabilityLedger\<close>, \<open>InvocationQuota\<close>, \<open>CircuitBreaker\<close>. \<open>Interop_Gateway\<close>:
  \<open>ExternalInvocationGateway\<close> with \<open>invoke\<close>, \<open>reconcile\<close> and \<open>cancel\<close>. \<open>Interop_Contract\<close>: appends, verification, exact usage, what every call of the gateway keeps
  and what a call has passed when it reaches the peer. \<open>Interop_Properties\<close>: peer calls are behind the controls and happen once per operation, active
  trust was reviewed, the books are exact, and a repeated cancellation is refused.

  \<open>Sample_Data\<close>, \<open>Remediation_Sample\<close>, \<open>Model_Sample\<close>, \<open>Sandbox_Sample\<close>, \<open>Memory_Sample\<close> and the first section of \<open>Interop_Properties\<close> hold the concrete inputs of
  the witnesses.

  \<^bold>\<open>Loops and bounds.\<close> The model has no fuel: loops over data are structural recursion; the paged scan for an artifact, the
  chunk loop, the split of a text into words and the order of a context are functions with a termination proof. Numeric bounds of the code (500 facts, 512 sandbox facts, 10000 events of a
  scan, 500 timeline events, five deliveries, byte bounds of reports) are constants of the model.

  \<^bold>\<open>Not modelled.\<close> The locks are not: each locked method is one step, and methods that release a lock in between are composed of
  their locked parts where that matters (\<open>verify_run_integrity\<close>). HTTP and command line, PostgreSQL stores (SQL against a database), Temporal
  workflows, provider, action and sandbox adapters (calls of SDKs) are outside; orchestration graphs, the protocol servers and clients, evidence
  collection, identity verification, service objectives and evaluation are not modelled. Of the modelled files, the scores and the ranking of a
  memory retrieval and the deterministic embedding (sums and roots of floats), the embedding gateway, summaries, the retrieval service and the conversion of evidence into a record (regular expressions), the address parsers over
  \<^verbatim>\<open>urlsplit\<close> the agent cards and the contracts of interoperability that the gateway does not use,
  and the finding and hypothesis models with the graph reducers are left out.
\<close>

end
